(* ===== verification/Prelude.thy ===== *)
theory Prelude
  imports Main "HOL-Library.Word"
begin

text \<open>
  Shared material of the development: the machine integers of the source, two named
  collections of rewrite rules, and the generic facts on lists, association lists and
  maps that the component theories share.
\<close>

type_synonym u8 = "8 word"
type_synonym u16 = "16 word"
type_synonym u32 = "32 word"
type_synonym u64 = "64 word"

text \<open>
  \<open>abs_simps\<close> collects the equations that push an abstraction function through an
  operation; \<open>inv_intros\<close> the lemmas that an operation keeps an invariant.
\<close>

named_theorems abs_simps "equations between a concrete operation and its abstraction"
named_theorems inv_intros "operations keep the invariants"

section \<open>Association lists\<close>

lemma map_of_append_new:
  "k \<notin> fst ` set xs \<Longrightarrow> map_of (xs @ [(k, v)]) k = Some v"
  by (induction xs) auto

lemma map_of_append_other:
  "map_of xs k = Some v \<Longrightarrow> map_of (xs @ ys) k = Some v"
  by (simp add: map_add_def)

lemma map_of_filter_neq:
  "k \<noteq> a \<Longrightarrow> map_of (filter (\<lambda>p. fst p \<noteq> a) xs) k = map_of xs k"
  by (induction xs) auto

lemma map_of_filter_eq_None: "map_of (filter (\<lambda>p. fst p \<noteq> a) xs) a = None"
  by (induction xs) auto

lemma distinct_map_filter: "distinct (map f xs) \<Longrightarrow> distinct (map f (filter P xs))"
  by (induction xs) auto

lemma distinct_map_inj:
  "distinct (map f xs) \<Longrightarrow> x \<in> set xs \<Longrightarrow> y \<in> set xs \<Longrightarrow> f x = f y \<Longrightarrow> x = y"
  by (auto simp: distinct_map dest: inj_onD)

section \<open>The first element with a property, and the element after it\<close>

fun find_after :: "('a \<Rightarrow> bool) \<Rightarrow> 'a list \<Rightarrow> 'a option" where
  "find_after P [] = None"
| "find_after P (x # xs) =
     (if P x then (case xs of [] \<Rightarrow> None | y # _ \<Rightarrow> Some y) else find_after P xs)"

lemma find_after_map:
  "find_after P (map f xs) = map_option f (find_after (P \<circ> f) xs)"
  by (induction xs) (auto split: list.splits)

lemma find_after_append:
  "\<forall>x \<in> set xs. \<not> P x \<Longrightarrow> P y \<Longrightarrow>
    find_after P (xs @ y # ys) = (case ys of [] \<Rightarrow> None | z # _ \<Rightarrow> Some z)"
  by (induction xs) auto

lemma find_after_None: "\<forall>x \<in> set xs. \<not> P x \<Longrightarrow> find_after P xs = None"
  by (induction xs) auto

lemma map_of_map_if:
  "map_of (map (\<lambda>(b, e). if b = a then (b, f e) else (b, e)) xs) c =
    map_option (\<lambda>e. if c = a then f e else e) (map_of xs c)"
  by (induction xs) auto

lemma find_Some_in: "find P xs = Some x \<Longrightarrow> x \<in> set xs \<and> P x"
  by (induction xs) (auto split: if_splits)

lemma find_unique:
  assumes "x \<in> set xs" and "P x" and u: "\<And>y. y \<in> set xs \<Longrightarrow> P y \<Longrightarrow> y = x"
  shows "find P xs = Some x"
proof (cases "find P xs")
  case None
  with assms(1,2) show ?thesis by (simp add: find_None_iff)
next
  case (Some y)
  with u [of y] show ?thesis by (auto dest: find_Some_in)
qed

section \<open>The position of the first element with a property\<close>

fun find_index :: "('a \<Rightarrow> bool) \<Rightarrow> 'a list \<Rightarrow> nat option" where
  "find_index P [] = None"
| "find_index P (x # xs) = (if P x then Some 0 else map_option Suc (find_index P xs))"

lemma find_index_None: "find_index P xs = None \<longleftrightarrow> (\<forall>x \<in> set xs. \<not> P x)"
  by (induction xs) auto

lemma find_index_Some:
  "find_index P xs = Some i \<Longrightarrow> i < length xs \<and> P (xs ! i) \<and> (\<forall>j < i. \<not> P (xs ! j))"
proof (induction xs arbitrary: i)
  case (Cons x xs)
  show ?case
  proof (cases "P x")
    case False
    with Cons.prems obtain k where k: "find_index P xs = Some k" "i = Suc k" by auto
    with Cons.IH [OF k(1)] False show ?thesis by (auto simp: nth_Cons split: nat.splits)
  qed (use Cons.prems in auto)
qed simp

lemma find_index_append:
  "\<forall>x \<in> set xs. \<not> P x \<Longrightarrow> find_index P (xs @ ys) = map_option ((+) (length xs)) (find_index P ys)"
  by (induction xs; cases "find_index P ys") auto

text \<open>A list without its element at a position.\<close>

definition drop_nth :: "nat \<Rightarrow> 'a list \<Rightarrow> 'a list" where
  "drop_nth i xs = take i xs @ drop (Suc i) xs"

lemma drop_nth_append: "drop_nth (length xs) (xs @ y # ys) = xs @ ys"
  by (simp add: drop_nth_def)

section \<open>Decimal digits\<close>

text \<open>\<^verbatim>\<open>%u\<close> of a format string.\<close>

fun decimal :: "nat \<Rightarrow> string" where
  "decimal n = (if n < 10 then [char_of (48 + n)] else decimal (n div 10) @ [char_of (48 + n mod 10)])"

declare decimal.simps [simp del]

section \<open>Counters that do not wrap around\<close>

lemma unat_succ: "n + 1 \<noteq> 0 \<Longrightarrow> unat (n + 1) = Suc (unat n)" for n :: "'a::len word"
  using unatSuc [of n] by (simp add: add.commute)

lemma word_less_succ: "n + 1 \<noteq> 0 \<Longrightarrow> a < n + 1 \<longleftrightarrow> a \<le> n" for a n :: "'a::len word"
  by (simp add: word_less_nat_alt word_le_nat_alt unat_succ less_Suc_eq_le)

lemma word_less_nz_succ: "a < n \<Longrightarrow> a + 1 \<noteq> 0" for a n :: "'a::len word"
proof
  assume l: "a < n" and z: "a + 1 = 0"
  then have "a = - 1" by (simp add: eq_neg_iff_add_eq_0)
  then have "n \<le> a" by simp
  with l show False by simp
qed

lemma unat_of_small: "k \<le> unat n \<Longrightarrow> unat (of_nat k :: 'a::len word) = k" for n :: "'a::len word"
proof -
  assume "k \<le> unat n"
  moreover have "unat n < 2 ^ LENGTH('a)" by (rule unsigned_less)
  ultimately have "k < 2 ^ LENGTH('a)" by linarith
  then show ?thesis by (simp add: unat_of_nat)
qed

end
