(* ===== verification/HpiTypes.thy ===== *)
theory HpiTypes
  imports Prelude
begin

text \<open>
  The data of the HPI interface (\<^verbatim>\<open>include/SaHpi.h\<close>) as far as the modelled components read
  it. C enumerations that the code compares numerically stay 32-bit words with named
  constants; a union that is always read behind its tag is a datatype; the parts of a
  structure that no modelled function interprets are byte lists. Pointers to private data are
  addresses with 0 for NULL.
\<close>

unbundle bit_operations_syntax

section \<open>Return codes\<close>

datatype SaErrorT =
    SA_OK
  | SA_ERR_HPI_ERROR
  | SA_ERR_HPI_UNSUPPORTED_API
  | SA_ERR_HPI_BUSY
  | SA_ERR_HPI_INTERNAL_ERROR
  | SA_ERR_HPI_INVALID_CMD
  | SA_ERR_HPI_TIMEOUT
  | SA_ERR_HPI_OUT_OF_SPACE
  | SA_ERR_HPI_OUT_OF_MEMORY
  | SA_ERR_HPI_INVALID_PARAMS
  | SA_ERR_HPI_INVALID_DATA
  | SA_ERR_HPI_NOT_PRESENT
  | SA_ERR_HPI_NO_RESPONSE
  | SA_ERR_HPI_DUPLICATE
  | SA_ERR_HPI_INVALID_SESSION
  | SA_ERR_HPI_INVALID_DOMAIN
  | SA_ERR_HPI_INVALID_RESOURCE
  | SA_ERR_HPI_INVALID_REQUEST
  | SA_ERR_HPI_ENTITY_NOT_PRESENT
  | SA_ERR_HPI_READ_ONLY
  | SA_ERR_HPI_CAPABILITY
  | SA_ERR_HPI_UNKNOWN
  | SA_ERR_HPI_INVALID_STATE
  | SA_ERR_HPI_UNSUPPORTED_PARAMS

section \<open>Constants\<close>

abbreviation (input) SAHPI_FIRST_ENTRY :: u32 where "SAHPI_FIRST_ENTRY \<equiv> 0"
abbreviation (input) SAHPI_LAST_ENTRY :: u32 where "SAHPI_LAST_ENTRY \<equiv> 0xFFFFFFFF"
abbreviation (input) SAHPI_ENTRY_UNSPECIFIED :: u32 where "SAHPI_ENTRY_UNSPECIFIED \<equiv> 0"
abbreviation (input) SAHPI_OLDEST_ENTRY :: u32 where "SAHPI_OLDEST_ENTRY \<equiv> 0"
abbreviation (input) SAHPI_NEWEST_ENTRY :: u32 where "SAHPI_NEWEST_ENTRY \<equiv> 0xFFFFFFFF"
abbreviation (input) SAHPI_NO_MORE_ENTRIES :: u32 where "SAHPI_NO_MORE_ENTRIES \<equiv> 0xFFFFFFFE"
abbreviation (input) SAHPI_UNSPECIFIED_RESOURCE_ID :: u32
  where "SAHPI_UNSPECIFIED_RESOURCE_ID \<equiv> 0xFFFFFFFF"
abbreviation (input) SAHPI_UNSPECIFIED_DOMAIN_ID :: u32
  where "SAHPI_UNSPECIFIED_DOMAIN_ID \<equiv> 0xFFFFFFFF"
abbreviation (input) OH_DEFAULT_DOMAIN_ID :: u32 where "OH_DEFAULT_DOMAIN_ID \<equiv> 0"
abbreviation (input) SAHPI_TIME_UNSPECIFIED :: u64
  where "SAHPI_TIME_UNSPECIFIED \<equiv> 0x8000000000000000"
abbreviation (input) SAHPI_TIMEOUT_IMMEDIATE :: u64 where "SAHPI_TIMEOUT_IMMEDIATE \<equiv> 0"
abbreviation (input) SAHPI_TIMEOUT_BLOCK :: u64
  where "SAHPI_TIMEOUT_BLOCK \<equiv> 0xFFFFFFFFFFFFFFFF"
abbreviation (input) SAHPI_CAPABILITY_RESOURCE :: u32
  where "SAHPI_CAPABILITY_RESOURCE \<equiv> 0x40000000"
abbreviation (input) SAHPI_CAPABILITY_AGGREGATE_STATUS :: u32
  where "SAHPI_CAPABILITY_AGGREGATE_STATUS \<equiv> 0x00002000"
abbreviation (input) SAHPI_CAPABILITY_FRU :: u32 where "SAHPI_CAPABILITY_FRU \<equiv> 0x00000100"
abbreviation (input) SAHPI_MAX_ENTITY_PATH :: nat where "SAHPI_MAX_ENTITY_PATH \<equiv> 16"
abbreviation (input) SAHPI_MAX_TEXT_BUFFER_LENGTH :: nat where "SAHPI_MAX_TEXT_BUFFER_LENGTH \<equiv> 255"
abbreviation (input) SAHPI_ENT_ROOT :: u32 where "SAHPI_ENT_ROOT \<equiv> 0xFFFF"
abbreviation (input) SAHPI_STANDARD_SENSOR_MIN :: u32 where "SAHPI_STANDARD_SENSOR_MIN \<equiv> 0x100"
abbreviation (input) SAHPI_STANDARD_SENSOR_MAX :: u32 where "SAHPI_STANDARD_SENSOR_MAX \<equiv> 0x1FF"
abbreviation (input) SAHPI_SOD_CURRENT_STATE :: u8 where "SAHPI_SOD_CURRENT_STATE \<equiv> 0x10"
abbreviation (input) SAHPI_EVT_QUEUE_OVERFLOW :: u32 where "SAHPI_EVT_QUEUE_OVERFLOW \<equiv> 1"

text \<open>\<open>SaHpiSeverityT\<close>: the smaller the number, the more severe.\<close>

type_synonym SaHpiSeverityT = u32
abbreviation (input) SAHPI_CRITICAL :: SaHpiSeverityT where "SAHPI_CRITICAL \<equiv> 0"
abbreviation (input) SAHPI_MAJOR :: SaHpiSeverityT where "SAHPI_MAJOR \<equiv> 1"
abbreviation (input) SAHPI_MINOR :: SaHpiSeverityT where "SAHPI_MINOR \<equiv> 2"
abbreviation (input) SAHPI_INFORMATIONAL :: SaHpiSeverityT where "SAHPI_INFORMATIONAL \<equiv> 3"
abbreviation (input) SAHPI_OK :: SaHpiSeverityT where "SAHPI_OK \<equiv> 4"
abbreviation (input) SAHPI_DEBUG :: SaHpiSeverityT where "SAHPI_DEBUG \<equiv> 0xF0"
abbreviation (input) SAHPI_ALL_SEVERITIES :: SaHpiSeverityT where "SAHPI_ALL_SEVERITIES \<equiv> 0xFF"

section \<open>Text buffers and entity paths\<close>

record SaHpiTextBufferT =
  DataType :: u32
  Language :: u32
  DataLength :: u8
  Data :: "u8 list"

record SaHpiEntityT =
  EntityType :: u32
  EntityLocation :: u32

text \<open>The C array \<^verbatim>\<open>Entry[SAHPI_MAX_ENTITY_PATH]\<close> is a list of that length.\<close>

type_synonym SaHpiEntityPathT = "SaHpiEntityT list"

definition ep_array :: "SaHpiEntityPathT \<Rightarrow> bool" where
  "ep_array ep \<longleftrightarrow> length ep = SAHPI_MAX_ENTITY_PATH"

section \<open>Resources and resource data records\<close>

record SaHpiResourceInfoT =
  ResourceRev :: u8
  SpecificVer :: u8
  DeviceSupport :: u8
  ManufacturerId :: u32
  ProductId :: u16
  FirmwareMajorRev :: u8
  FirmwareMinorRev :: u8
  AuxFirmwareRev :: u8
  Guid :: "u8 list"

record SaHpiRptEntryT =
  EntryId :: u32
  ResourceId :: u32
  ResourceInfo :: SaHpiResourceInfoT
  ResourceEntity :: SaHpiEntityPathT
  ResourceCapabilities :: u32
  HotSwapCapabilities :: u32
  ResourceSeverity :: SaHpiSeverityT
  ResourceFailed :: bool
  ResourceTag :: SaHpiTextBufferT

text \<open>
  \<open>SaHpiRdrTypeT\<close>. The numbers are \<open>rdr_type_num\<close>; a value outside the enumeration is
  \<open>SAHPI_RDR_OTHER\<close>.
\<close>

datatype SaHpiRdrTypeT =
    SAHPI_NO_RECORD
  | SAHPI_CTRL_RDR
  | SAHPI_SENSOR_RDR
  | SAHPI_INVENTORY_RDR
  | SAHPI_WATCHDOG_RDR
  | SAHPI_ANNUNCIATOR_RDR
  | SAHPI_DIMI_RDR
  | SAHPI_FUMI_RDR
  | SAHPI_RDR_OTHER u32

fun rdr_type_num :: "SaHpiRdrTypeT \<Rightarrow> u32" where
  "rdr_type_num SAHPI_NO_RECORD = 0"
| "rdr_type_num SAHPI_CTRL_RDR = 1"
| "rdr_type_num SAHPI_SENSOR_RDR = 2"
| "rdr_type_num SAHPI_INVENTORY_RDR = 3"
| "rdr_type_num SAHPI_WATCHDOG_RDR = 4"
| "rdr_type_num SAHPI_ANNUNCIATOR_RDR = 5"
| "rdr_type_num SAHPI_DIMI_RDR = 6"
| "rdr_type_num SAHPI_FUMI_RDR = 7"
| "rdr_type_num (SAHPI_RDR_OTHER n) = n"

text \<open>
  A sensor reading. The union \<open>SaHpiSensorReadingUnionT\<close> is its
  \<^verbatim>\<open>SAHPI_SENSOR_BUFFER_LENGTH\<close> bytes; the numbers in it are read from the first eight, the least
  significant first.
\<close>

record SaHpiSensorReadingT =
  IsSupported :: bool
  rd_Type :: u32
  rd_Value :: "u8 list"

record SaHpiSensorRangeT =
  rg_Flags :: u8
  rg_Max :: SaHpiSensorReadingT
  rg_Min :: SaHpiSensorReadingT
  Nominal :: SaHpiSensorReadingT
  NormalMax :: SaHpiSensorReadingT
  NormalMin :: SaHpiSensorReadingT

record SaHpiSensorDataFormatT =
  df_IsSupported :: bool
  ReadingType :: u32
  BaseUnits :: u32
  ModifierUnits :: u32
  ModifierUse :: u32
  Percentage :: bool
  df_Range :: SaHpiSensorRangeT
  AccuracyFactor :: u64

record SaHpiSensorThdDefnT =
  IsAccessible :: bool
  ReadThold :: u8
  WriteThold :: u8
  Nonlinear :: bool

record SaHpiSensorRecT =
  sn_Type :: u32
  sn_Category :: u8
  EnableCtrl :: bool
  EventCtrl :: u32
  sn_Events :: u16
  DataFormat :: SaHpiSensorDataFormatT
  ThresholdDefn :: SaHpiSensorThdDefnT
  sn_Oem :: u32

record SaHpiCtrlRecAnalogT =
  an_Min :: u32
  an_Max :: u32
  an_Default :: u32

record SaHpiCtrlRecTextT =
  MaxChars :: u8
  MaxLines :: u8
  tx_Language :: u32
  tx_DataType :: u32
  tx_Default :: "u8 list"

text \<open>
  The union \<open>SaHpiCtrlRecUnionT\<close> behind the type of the control: the members that the daemon
  reads, and the bytes of the others.
\<close>

datatype SaHpiCtrlRecUnionT =
    CtrlRecAnalog SaHpiCtrlRecAnalogT
  | CtrlRecText SaHpiCtrlRecTextT
  | CtrlRecOther "u8 list"

record SaHpiCtrlRecT =
  OutputType :: u32
  ct_Type :: u32
  TypeUnion :: SaHpiCtrlRecUnionT
  DefaultMode_Mode :: u32
  DefaultMode_ReadOnly :: bool
  WriteOnly :: bool
  ct_Oem :: u32

record SaHpiAnnunciatorRecT =
  AnnunciatorType :: u32
  ModeReadOnly :: bool
  MaxConditions :: u32
  an_Oem :: u32

record SaHpiFumiRecT =
  AccessProt :: u32
  fm_Capability :: u32
  NumBanks :: u8
  fm_Oem :: u32

text \<open>
  Every member of the union \<open>SaHpiRdrTypeUnionT\<close> starts with the 32-bit instrument number
  (\<open>Num\<close>, \<open>IdrId\<close>, \<open>WatchdogNum\<close>, \<open>AnnunciatorNum\<close>, \<open>DimiNum\<close>), so the union is that
  number and the rest of the member that the record has; \<open>OtherRec\<close> holds the bytes of a member
  that the daemon does not look into.
\<close>

datatype SaHpiRdrRestT =
    SensorRec SaHpiSensorRecT
  | CtrlRec SaHpiCtrlRecT
  | AnnunciatorRec SaHpiAnnunciatorRecT
  | FumiRec SaHpiFumiRecT
  | OtherRec "u8 list"

record SaHpiRdrTypeUnionT =
  Num :: u32
  RestOfRec :: SaHpiRdrRestT

record SaHpiRdrT =
  RecordId :: u32
  RdrType :: SaHpiRdrTypeT
  Entity :: SaHpiEntityPathT
  IsFru :: bool
  RdrTypeUnion :: SaHpiRdrTypeUnionT
  IdString :: SaHpiTextBufferT

section \<open>Events\<close>

datatype SaHpiHsStateT =
    SAHPI_HS_STATE_INACTIVE
  | SAHPI_HS_STATE_INSERTION_PENDING
  | SAHPI_HS_STATE_ACTIVE
  | SAHPI_HS_STATE_EXTRACTION_PENDING
  | SAHPI_HS_STATE_NOT_PRESENT
  | SAHPI_HS_STATE_OTHER u32

datatype SaHpiResourceEventTypeT =
    SAHPI_RESE_RESOURCE_FAILURE
  | SAHPI_RESE_RESOURCE_RESTORED
  | SAHPI_RESE_RESOURCE_ADDED
  | SAHPI_RESE_RESOURCE_REMOVED
  | SAHPI_RESE_RESOURCE_INACCESSIBLE
  | SAHPI_RESE_RESOURCE_UPDATED
  | SAHPI_RESE_OTHER u32

record SaHpiSensorEventT =
  se_SensorNum :: u32
  se_SensorType :: u32
  se_EventCategory :: u8
  se_Assertion :: bool
  se_EventState :: u16
  se_OptionalDataPresent :: u8
  se_TriggerReading :: "u8 list"
  se_TriggerThreshold :: "u8 list"
  se_PreviousState :: u16
  se_CurrentState :: u16
  se_Oem :: u32
  se_SensorSpecific :: u32

record SaHpiSensorEnableChangeEventT =
  sec_SensorNum :: u32
  sec_SensorType :: u32
  sec_EventCategory :: u8
  sec_SensorEnable :: bool
  sec_SensorEventEnable :: bool
  sec_AssertEventMask :: u16
  sec_DeassertEventMask :: u16
  sec_OptionalDataPresent :: u8
  sec_CurrentState :: u16
  sec_CriticalAlarms :: u16
  sec_MajorAlarms :: u16
  sec_MinorAlarms :: u16

datatype SaHpiDomainEventTypeT = SAHPI_DOMAIN_REF_ADDED | SAHPI_DOMAIN_REF_REMOVED

record SaHpiDomainEventT =
  de_Type :: SaHpiDomainEventTypeT
  de_DomainId :: u32

record SaHpiHotSwapEventT =
  HotSwapState :: SaHpiHsStateT
  PreviousHotSwapState :: SaHpiHsStateT
  CauseOfStateChange :: u32

record SaHpiHpiSwEventT =
  sw_MId :: u32
  sw_Type :: u32
  sw_EventData :: SaHpiTextBufferT

record SaHpiOemEventT =
  oem_MId :: u32
  OemEventData :: SaHpiTextBufferT

text \<open>
  The union \<open>SaHpiEventUnionT\<close> and its tag \<open>EventType\<close>: one constructor per event type.
  The members that no modelled function interprets are bytes. The last constructor stands for
  an event whose type is outside the enumeration.
\<close>

datatype SaHpiEventUnionT =
    ResourceEvent SaHpiResourceEventTypeT
  | DomainEvent SaHpiDomainEventT
  | SensorEvent SaHpiSensorEventT
  | SensorEnableChangeEvent SaHpiSensorEnableChangeEventT
  | HotSwapEvent SaHpiHotSwapEventT
  | WatchdogEvent "u8 list"
  | HpiSwEvent SaHpiHpiSwEventT
  | OemEvent SaHpiOemEventT
  | UserEvent SaHpiTextBufferT
  | DimiEvent "u8 list"
  | DimiUpdateEvent "u8 list"
  | FumiEvent "u8 list"
  | OtherEvent u32 "u8 list"

record SaHpiEventT =
  Source :: u32
  Timestamp :: u64
  Severity :: SaHpiSeverityT
  EventDataUnion :: SaHpiEventUnionT

fun is_user_event :: "SaHpiEventUnionT \<Rightarrow> bool" where
  "is_user_event (UserEvent _) = True"
| "is_user_event _ = False"

section \<open>Alarms and announcements\<close>

datatype SaHpiStatusCondTypeT =
    SAHPI_STATUS_COND_TYPE_SENSOR
  | SAHPI_STATUS_COND_TYPE_RESOURCE
  | SAHPI_STATUS_COND_TYPE_OEM
  | SAHPI_STATUS_COND_TYPE_USER

record SaHpiConditionT =
  cond_Type :: SaHpiStatusCondTypeT
  cond_Entity :: SaHpiEntityPathT
  cond_DomainId :: u32
  cond_ResourceId :: u32
  cond_SensorNum :: u32
  cond_EventState :: u16
  cond_Name :: "u8 list"
  cond_Mid :: u32
  cond_Data :: SaHpiTextBufferT

record SaHpiAlarmT =
  AlarmId :: u32
  al_Timestamp :: u64
  al_Severity :: SaHpiSeverityT
  Acknowledged :: bool
  AlarmCond :: SaHpiConditionT

record SaHpiAnnouncementT =
  ann_EntryId :: u32
  ann_Timestamp :: u64
  AddedByUser :: bool
  ann_Severity :: SaHpiSeverityT
  ann_Acknowledged :: bool
  StatusCond :: SaHpiConditionT

section \<open>Zeroed structures\<close>

text \<open>What \<^verbatim>\<open>memset(&x, 0, sizeof(x))\<close> and \<^verbatim>\<open>g_new0\<close> leave in a structure.\<close>

definition zero_text :: SaHpiTextBufferT where
  "zero_text = \<lparr>DataType = 0, Language = 0, DataLength = 0,
     Data = replicate SAHPI_MAX_TEXT_BUFFER_LENGTH 0\<rparr>"

definition zero_entity :: SaHpiEntityT where
  "zero_entity = \<lparr>EntityType = 0, EntityLocation = 0\<rparr>"

definition zero_ep :: SaHpiEntityPathT where
  "zero_ep = replicate SAHPI_MAX_ENTITY_PATH zero_entity"

definition zero_condition :: SaHpiConditionT where
  "zero_condition = \<lparr>cond_Type = SAHPI_STATUS_COND_TYPE_SENSOR, cond_Entity = zero_ep,
     cond_DomainId = 0, cond_ResourceId = 0, cond_SensorNum = 0, cond_EventState = 0,
     cond_Name = replicate 258 0, cond_Mid = 0, cond_Data = zero_text\<rparr>"

definition zero_alarm :: SaHpiAlarmT where
  "zero_alarm = \<lparr>AlarmId = 0, al_Timestamp = 0, al_Severity = 0, Acknowledged = False,
     AlarmCond = zero_condition\<rparr>"

definition zero_info :: SaHpiResourceInfoT where
  "zero_info = \<lparr>ResourceRev = 0, SpecificVer = 0, DeviceSupport = 0, ManufacturerId = 0,
     ProductId = 0, FirmwareMajorRev = 0, FirmwareMinorRev = 0, AuxFirmwareRev = 0,
     Guid = replicate 16 0\<rparr>"

definition zero_rpt_entry :: SaHpiRptEntryT where
  "zero_rpt_entry = \<lparr>EntryId = 0, ResourceId = 0, ResourceInfo = zero_info,
     ResourceEntity = zero_ep, ResourceCapabilities = 0, HotSwapCapabilities = 0,
     ResourceSeverity = 0, ResourceFailed = False, ResourceTag = zero_text\<rparr>"

definition zero_rdr :: SaHpiRdrT where
  "zero_rdr = \<lparr>RecordId = 0, RdrType = SAHPI_NO_RECORD, Entity = zero_ep, IsFru = False,
     RdrTypeUnion = \<lparr>Num = 0, RestOfRec = OtherRec []\<rparr>, IdString = zero_text\<rparr>"

section \<open>The members of a resource data record\<close>

text \<open>A member that the record does not hold reads as zeros.\<close>

definition zero_reading :: SaHpiSensorReadingT where
  "zero_reading = \<lparr>IsSupported = False, rd_Type = 0, rd_Value = replicate 32 0\<rparr>"

definition zero_sensor :: SaHpiSensorRecT where
  "zero_sensor = \<lparr>sn_Type = 0, sn_Category = 0, EnableCtrl = False, EventCtrl = 0, sn_Events = 0,
     DataFormat = \<lparr>df_IsSupported = False, ReadingType = 0, BaseUnits = 0, ModifierUnits = 0,
       ModifierUse = 0, Percentage = False,
       df_Range = \<lparr>rg_Flags = 0, rg_Max = zero_reading, rg_Min = zero_reading,
         Nominal = zero_reading, NormalMax = zero_reading, NormalMin = zero_reading\<rparr>,
       AccuracyFactor = 0\<rparr>,
     ThresholdDefn = \<lparr>IsAccessible = False, ReadThold = 0, WriteThold = 0, Nonlinear = False\<rparr>,
     sn_Oem = 0\<rparr>"

definition sensor_rec :: "SaHpiRdrT \<Rightarrow> SaHpiSensorRecT" where
  "sensor_rec rdr = (case RestOfRec (RdrTypeUnion rdr) of SensorRec r \<Rightarrow> r | _ \<Rightarrow> zero_sensor)"

definition ctrl_rec :: "SaHpiRdrT \<Rightarrow> SaHpiCtrlRecT" where
  "ctrl_rec rdr = (case RestOfRec (RdrTypeUnion rdr) of CtrlRec r \<Rightarrow> r | _ \<Rightarrow>
     \<lparr>OutputType = 0, ct_Type = 0, TypeUnion = CtrlRecOther [], DefaultMode_Mode = 0,
      DefaultMode_ReadOnly = False, WriteOnly = False, ct_Oem = 0\<rparr>)"

definition annunciator_rec :: "SaHpiRdrT \<Rightarrow> SaHpiAnnunciatorRecT" where
  "annunciator_rec rdr = (case RestOfRec (RdrTypeUnion rdr) of AnnunciatorRec r \<Rightarrow> r | _ \<Rightarrow>
     \<lparr>AnnunciatorType = 0, ModeReadOnly = False, MaxConditions = 0, an_Oem = 0\<rparr>)"

definition fumi_rec :: "SaHpiRdrT \<Rightarrow> SaHpiFumiRecT" where
  "fumi_rec rdr = (case RestOfRec (RdrTypeUnion rdr) of FumiRec r \<Rightarrow> r | _ \<Rightarrow>
     \<lparr>AccessProt = 0, fm_Capability = 0, NumBanks = 0, fm_Oem = 0\<rparr>)"

definition ctrl_analog :: "SaHpiCtrlRecT \<Rightarrow> SaHpiCtrlRecAnalogT" where
  "ctrl_analog r = (case TypeUnion r of CtrlRecAnalog a \<Rightarrow> a | _ \<Rightarrow>
     \<lparr>an_Min = 0, an_Max = 0, an_Default = 0\<rparr>)"

definition ctrl_text :: "SaHpiCtrlRecT \<Rightarrow> SaHpiCtrlRecTextT" where
  "ctrl_text r = (case TypeUnion r of CtrlRecText t \<Rightarrow> t | _ \<Rightarrow>
     \<lparr>MaxChars = 0, MaxLines = 0, tx_Language = 0, tx_DataType = 0, tx_Default = []\<rparr>)"

end
