(* ===== verification/EntityPath.thy ===== *)
theory EntityPath
  imports HpiTypes
begin

text \<open>
  Entity paths (\<^verbatim>\<open>utils/epath_utils.c\<close>): initialisation, length, concatenation, child path,
  comparison, and entity path patterns with their matching. A path is an array of 16 entities;
  what it means is the list of entities before the first \<open>SAHPI_ENT_ROOT\<close>, \<open>ep_abs\<close>, and
  each operation is related to an operation on that list. Patterns get a declarative meaning,
  \<open>pat_match\<close>, against which the matching loop is proved sound.
\<close>

section \<open>Paths\<close>

abbreviation not_root :: "SaHpiEntityT \<Rightarrow> bool" where
  "not_root e \<equiv> EntityType e \<noteq> SAHPI_ENT_ROOT"

definition root_entity :: SaHpiEntityT where
  "root_entity = \<lparr>EntityType = SAHPI_ENT_ROOT, EntityLocation = 0\<rparr>"

definition oh_init_ep :: SaHpiEntityPathT where
  "oh_init_ep = replicate SAHPI_MAX_ENTITY_PATH root_entity"

text \<open>
  The loop \<^verbatim>\<open>for (i=0; i<SAHPI_MAX_ENTITY_PATH; i++) if (... == SAHPI_ENT_ROOT) break;\<close>
  that most functions start with.
\<close>

function root_index_from :: "SaHpiEntityPathT \<Rightarrow> nat \<Rightarrow> nat" where
  "root_index_from ep i =
     (if i < SAHPI_MAX_ENTITY_PATH \<and> not_root (ep ! i) then root_index_from ep (Suc i) else i)"
  by pat_completeness auto
termination
  by (relation "measure (\<lambda>(ep, i). SAHPI_MAX_ENTITY_PATH - i)") auto

declare root_index_from.simps [simp del]

definition root_index :: "SaHpiEntityPathT \<Rightarrow> nat" where
  "root_index ep = root_index_from ep 0"

definition oh_ep_len :: "SaHpiEntityPathT \<Rightarrow> u8" where
  "oh_ep_len ep = of_nat (root_index ep)"

text \<open>The second loop of \<open>oh_concat_ep\<close>: it copies up to and including the root element.\<close>

function concat_loop ::
    "SaHpiEntityPathT \<Rightarrow> SaHpiEntityPathT \<Rightarrow> nat \<Rightarrow> nat \<Rightarrow> SaHpiEntityPathT"
where
  "concat_loop dest app i j =
     (if i < SAHPI_MAX_ENTITY_PATH then
        (let dest' = dest[i := app ! j]
         in if EntityType (app ! j) = SAHPI_ENT_ROOT then dest'
            else concat_loop dest' app (Suc i) (Suc j))
      else dest)"
  by pat_completeness auto
termination
  by (relation "measure (\<lambda>(dest, app, i, j). SAHPI_MAX_ENTITY_PATH - i)") auto

declare concat_loop.simps [simp del]

definition oh_concat_ep :: "SaHpiEntityPathT \<Rightarrow> SaHpiEntityPathT \<Rightarrow> SaHpiEntityPathT" where
  "oh_concat_ep dest app = concat_loop dest app (root_index dest) 0"

text \<open>The loops of \<open>oh_get_child_ep\<close>: compare with the parent, then copy.\<close>

fun child_differs :: "SaHpiEntityPathT \<Rightarrow> SaHpiEntityPathT \<Rightarrow> nat \<Rightarrow> nat list \<Rightarrow> bool" where
  "child_differs ep parent l_child [] = False"
| "child_differs ep parent l_child (i # is) =
     (let x = ep ! (i + l_child); y = parent ! i
      in if EntityType x \<noteq> EntityType y then True
         else if EntityLocation x \<noteq> EntityLocation y then True
         else child_differs ep parent l_child is)"

definition oh_get_child_ep ::
    "SaHpiEntityPathT \<Rightarrow> SaHpiEntityPathT \<Rightarrow> SaErrorT \<times> SaHpiEntityPathT"
where
  "oh_get_child_ep ep parent =
     (let child = oh_init_ep;
          l_ep = unat (oh_ep_len ep);
          l_parent = unat (oh_ep_len parent)
      in if l_ep < l_parent then (SA_ERR_HPI_NOT_PRESENT, child)
         else if l_ep = l_parent then (SA_OK, child)
         else let l_child = l_ep - l_parent
              in if child_differs ep parent l_child [0..<l_parent]
                 then (SA_ERR_HPI_NOT_PRESENT, child)
                 else (SA_OK, fold (\<lambda>i c. c[i := ep ! i]) [0..<l_child] child))"

definition oh_valid_ep :: "SaHpiEntityPathT \<Rightarrow> bool" where
  "oh_valid_ep ep = True"

text \<open>\<open>oh_set_ep_location\<close>: the first entity of the type, looked for up to the root.\<close>

function set_loc_loop :: "SaHpiEntityPathT \<Rightarrow> u32 \<Rightarrow> u32 \<Rightarrow> nat \<Rightarrow> SaHpiEntityPathT" where
  "set_loc_loop ep et ei i =
     (if i < SAHPI_MAX_ENTITY_PATH then
        (if EntityType (ep ! i) = et then ep[i := (ep ! i)\<lparr>EntityLocation := ei\<rparr>]
         else if EntityType (ep ! i) = SAHPI_ENT_ROOT then ep
         else set_loc_loop ep et ei (Suc i))
      else ep)"
  by pat_completeness auto
termination
  by (relation "measure (\<lambda>(ep, et, ei, i). SAHPI_MAX_ENTITY_PATH - i)") auto

declare set_loc_loop.simps [simp del]

definition oh_set_ep_location ::
    "SaHpiEntityPathT \<Rightarrow> u32 \<Rightarrow> u32 \<Rightarrow> SaErrorT \<times> SaHpiEntityPathT"
where
  "oh_set_ep_location ep et ei =
     (if \<not> oh_valid_ep ep then (SA_ERR_HPI_INVALID_DATA, ep)
      else (SA_OK, set_loc_loop ep et ei 0))"

text \<open>
  \<open>oh_cmp_ep\<close>: the length it compares counts the root element, when there is one.
\<close>

definition cmp_len :: "SaHpiEntityPathT \<Rightarrow> nat" where
  "cmp_len ep = (let i = root_index ep in if i < SAHPI_MAX_ENTITY_PATH then Suc i else i)"

definition oh_cmp_ep :: "SaHpiEntityPathT \<Rightarrow> SaHpiEntityPathT \<Rightarrow> bool" where
  "oh_cmp_ep ep1 ep2 =
     (if cmp_len ep1 \<noteq> cmp_len ep2 then False
      else list_all (\<lambda>i. \<not> (EntityType (ep1 ! i) \<noteq> EntityType (ep2 ! i) \<or>
                            EntityLocation (ep1 ! i) \<noteq> EntityLocation (ep2 ! i)))
             [0..<cmp_len ep2])"

section \<open>What a path means\<close>

text \<open>A path array from its (type, location) pairs, leaf first.\<close>

definition mk_ep :: "(u32 \<times> u32) list \<Rightarrow> SaHpiEntityPathT" where
  "mk_ep ps = map (\<lambda>(t, l). \<lparr>EntityType = t, EntityLocation = l\<rparr>) ps @
     replicate (SAHPI_MAX_ENTITY_PATH - length ps) root_entity"

definition ep_abs :: "SaHpiEntityPathT \<Rightarrow> SaHpiEntityT list" where
  "ep_abs ep = takeWhile not_root ep"

fun up_to_root :: "SaHpiEntityPathT \<Rightarrow> SaHpiEntityPathT" where
  "up_to_root [] = []"
| "up_to_root (e # es) = (if EntityType e = SAHPI_ENT_ROOT then [e] else e # up_to_root es)"

lemma ep_array_init [inv_intros]: "ep_array oh_init_ep"
  by (simp add: ep_array_def oh_init_ep_def)

lemma ep_abs_init [abs_simps]: "ep_abs oh_init_ep = []"
  by (simp add: ep_abs_def oh_init_ep_def root_entity_def)

lemma length_ep_abs: "ep_array ep \<Longrightarrow> length (ep_abs ep) \<le> SAHPI_MAX_ENTITY_PATH"
  by (metis ep_abs_def ep_array_def length_takeWhile_le)

lemma takeWhile_up_to_root: "takeWhile not_root (up_to_root es) = takeWhile not_root es"
  by (induction es) auto

lemma up_to_root_prefix: "up_to_root es = take (length (up_to_root es)) es"
  by (induction es) auto

lemma root_index_from_drop:
  assumes "ep_array ep" and "i \<le> SAHPI_MAX_ENTITY_PATH"
  shows "root_index_from ep i = i + length (takeWhile not_root (drop i ep))"
  using assms
proof (induction ep i rule: root_index_from.induct)
  case (1 ep i)
  show ?case
  proof (cases "i < SAHPI_MAX_ENTITY_PATH")
    case True
    then have d: "drop i ep = ep ! i # drop (Suc i) ep"
      using "1.prems" by (simp add: ep_array_def Cons_nth_drop_Suc)
    show ?thesis
    proof (cases "not_root (ep ! i)")
      case True
      then show ?thesis using 1 d \<open>i < SAHPI_MAX_ENTITY_PATH\<close>
        by (subst root_index_from.simps) simp
    next
      case False
      then show ?thesis using d by (subst root_index_from.simps) simp
    qed
  next
    case False
    then show ?thesis using "1.prems"
      by (subst root_index_from.simps) (simp add: ep_array_def)
  qed
qed

lemma root_index_abs [abs_simps]: "ep_array ep \<Longrightarrow> root_index ep = length (ep_abs ep)"
  by (simp add: root_index_def root_index_from_drop ep_abs_def)

lemma unat_ep_len: "ep_array ep \<Longrightarrow> unat (oh_ep_len ep) = length (ep_abs ep)"
  using length_ep_abs [of ep] by (simp add: oh_ep_len_def root_index_abs unat_of_nat)

subsection \<open>Concatenation\<close>

lemma concat_loop_shape:
  assumes "length dest = SAHPI_MAX_ENTITY_PATH" and "ep_array app"
    and "j \<le> i" and "i \<le> SAHPI_MAX_ENTITY_PATH"
  shows "concat_loop dest app i j =
    (let ys = take (SAHPI_MAX_ENTITY_PATH - i) (up_to_root (drop j app))
     in take i dest @ ys @ drop (i + length ys) dest)"
  using assms
proof (induction dest app i j rule: concat_loop.induct)
  case (1 dest app i j)
  show ?case
  proof (cases "i < SAHPI_MAX_ENTITY_PATH")
    case False
    then show ?thesis using "1.prems" by (subst concat_loop.simps) (simp add: Let_def)
  next
    case True
    have d: "drop j app = app ! j # drop (Suc j) app"
      using "1.prems" True by (simp add: ep_array_def Cons_nth_drop_Suc)
    obtain m where m: "SAHPI_MAX_ENTITY_PATH - i = Suc m"
      using True by (metis Suc_diff_Suc)
    have m': "SAHPI_MAX_ENTITY_PATH - Suc i = m" using m by simp
    have tk: "take (Suc i) (dest[i := app ! j]) = take i dest @ [app ! j]"
      using "1.prems"(1) True by (simp add: take_Suc_conv_app_nth)
    show ?thesis
    proof (cases "EntityType (app ! j) = SAHPI_ENT_ROOT")
      case True
      then show ?thesis
        using \<open>i < SAHPI_MAX_ENTITY_PATH\<close> "1.prems"(1) d m
        by (subst concat_loop.simps) (simp add: Let_def upd_conv_take_nth_drop)
    next
      case False
      have "concat_loop dest app i j = concat_loop (dest[i := app ! j]) app (Suc i) (Suc j)"
        using False True by (subst concat_loop.simps) (simp add: Let_def)
      also have "\<dots> = (let ys = take m (up_to_root (drop (Suc j) app))
          in take (Suc i) (dest[i := app ! j]) @ ys @
             drop (Suc i + length ys) (dest[i := app ! j]))"
        using "1.IH" [OF True refl False] "1.prems" True m' by simp
      finally show ?thesis
        using d False m tk "1.prems"(1) by (simp add: Let_def)
    qed
  qed
qed

lemma ep_abs_prefix: "take (length (ep_abs ep)) ep = ep_abs ep"
  unfolding ep_abs_def by (rule takeWhile_eq_take [symmetric])

lemma takeWhile_take: "takeWhile P (take n xs) = take n (takeWhile P xs)"
  by (induction xs arbitrary: n) (auto simp: take_Cons split: nat.splits)

lemma root_in_up_to_root:
  "length (up_to_root es) = Suc (length (takeWhile not_root es)) \<or> up_to_root es = es"
  by (induction es) auto

lemma takeWhile_up_to_root_append:
  "length (up_to_root es) = Suc (length (takeWhile not_root es)) \<Longrightarrow>
    takeWhile not_root (up_to_root es @ zs) = takeWhile not_root es"
  by (induction es) auto

lemma concat_ep_shape:
  assumes d: "ep_array d" and a: "ep_array a"
  shows "oh_concat_ep d a =
    (let ys = take (SAHPI_MAX_ENTITY_PATH - length (ep_abs d)) (up_to_root a)
     in ep_abs d @ ys @ drop (length (ep_abs d) + length ys) d)"
  using concat_loop_shape [of d a 0 "length (ep_abs d)"] d a length_ep_abs [OF d]
  by (simp add: oh_concat_ep_def root_index_abs ep_array_def ep_abs_prefix Let_def)

lemma ep_array_concat [inv_intros]:
  assumes d: "ep_array d" and a: "ep_array a"
  shows "ep_array (oh_concat_ep d a)"
proof -
  have "length (ep_abs d) \<le> length d" by (simp add: ep_abs_def length_takeWhile_le)
  then show ?thesis
    unfolding ep_array_def concat_ep_shape [OF d a] Let_def
    using d by (simp add: ep_array_def)
qed

lemma ep_abs_concat [abs_simps]:
  assumes d: "ep_array d" and a: "ep_array a"
  shows "ep_abs (oh_concat_ep d a) = take SAHPI_MAX_ENTITY_PATH (ep_abs d @ ep_abs a)"
proof -
  let ?r = "length (ep_abs d)" and ?u = "up_to_root a"
  let ?ys = "take (SAHPI_MAX_ENTITY_PATH - ?r) ?u"
  have r: "?r \<le> SAHPI_MAX_ENTITY_PATH" using length_ep_abs [OF d] .
  have s: "oh_concat_ep d a = ep_abs d @ ?ys @ drop (?r + length ?ys) d"
    using concat_ep_shape [OF d a] by (simp add: Let_def)
  have nr: "\<And>e. e \<in> set (ep_abs d) \<Longrightarrow> not_root e"
    by (auto simp: ep_abs_def dest: set_takeWhileD)
  have c: "ep_abs (oh_concat_ep d a) =
      ep_abs d @ takeWhile not_root (?ys @ drop (?r + length ?ys) d)"
    unfolding s ep_abs_def [of "_ @ _"] by (rule takeWhile_append2) (rule nr)
  have "takeWhile not_root (?ys @ drop (?r + length ?ys) d) =
      take (SAHPI_MAX_ENTITY_PATH - ?r) (ep_abs a)"
  proof (cases "length ?u < SAHPI_MAX_ENTITY_PATH - ?r")
    case True
    then have "length ?u = Suc (length (takeWhile not_root a))"
      using root_in_up_to_root [of a] a by (auto simp: ep_array_def)
    then show ?thesis
      using True by (simp add: takeWhile_up_to_root_append ep_abs_def)
  next
    case False
    then have "drop (?r + length ?ys) d = []" using d r by (simp add: ep_array_def)
    then show ?thesis by (simp add: takeWhile_take takeWhile_up_to_root ep_abs_def)
  qed
  then show ?thesis using c r by simp
qed

subsection \<open>Comparison\<close>

lemma up_to_root_take_cmp:
  assumes "ep_array ep"
  shows "up_to_root ep = take (cmp_len ep) ep" and "length (up_to_root ep) = cmp_len ep"
proof -
  have l: "length (ep_abs ep) \<le> length ep" by (simp add: ep_abs_def length_takeWhile_le)
  have "length (up_to_root es) = (if length (takeWhile not_root es) < length es
      then Suc (length (takeWhile not_root es)) else length es)" for es
    by (induction es) auto
  from this [of ep] have u: "length (up_to_root ep) = cmp_len ep"
    using assms l by (simp add: cmp_len_def root_index_abs ep_abs_def ep_array_def Let_def)
  show "length (up_to_root ep) = cmp_len ep" by (rule u)
  show "up_to_root ep = take (cmp_len ep) ep" using up_to_root_prefix [of ep] u by simp
qed

lemma entity_eqI:
  "EntityType x = EntityType y \<Longrightarrow> EntityLocation x = EntityLocation y \<Longrightarrow> x = (y :: SaHpiEntityT)"
  by (cases x; cases y) simp

lemma oh_cmp_ep_iff:
  assumes "ep_array a" and "ep_array b"
  shows "oh_cmp_ep a b \<longleftrightarrow> up_to_root a = up_to_root b"
proof
  assume c: "oh_cmp_ep a b"
  then have l: "cmp_len a = cmp_len b" by (auto simp: oh_cmp_ep_def split: if_splits)
  have len: "length a = length b" using assms by (simp add: ep_array_def)
  have "a ! i = b ! i" if "i < cmp_len b" for i
    using c that by (intro entity_eqI) (auto simp: oh_cmp_ep_def list_all_iff split: if_splits)
  then have "take (cmp_len b) a = take (cmp_len b) b"
    using len by (intro nth_equalityI) auto
  then show "up_to_root a = up_to_root b"
    using up_to_root_take_cmp(1) [OF assms(1)] up_to_root_take_cmp(1) [OF assms(2)] l by simp
next
  assume u: "up_to_root a = up_to_root b"
  then have l: "cmp_len a = cmp_len b" using up_to_root_take_cmp(2) assms by metis
  have "take (cmp_len b) a = take (cmp_len b) b"
    using u l up_to_root_take_cmp(1) assms by metis
  then have "a ! i = b ! i" if "i < cmp_len b" for i using that by (metis nth_take)
  then show "oh_cmp_ep a b" using l by (simp add: oh_cmp_ep_def list_all_iff)
qed

lemma oh_cmp_ep_abs: "ep_array a \<Longrightarrow> ep_array b \<Longrightarrow> oh_cmp_ep a b \<Longrightarrow> ep_abs a = ep_abs b"
  unfolding oh_cmp_ep_iff ep_abs_def by (metis takeWhile_up_to_root)

lemma oh_cmp_ep_refl: "ep_array a \<Longrightarrow> oh_cmp_ep a a"
  by (simp add: oh_cmp_ep_iff)

lemma oh_cmp_ep_sym: "ep_array a \<Longrightarrow> ep_array b \<Longrightarrow> oh_cmp_ep a b = oh_cmp_ep b a"
  by (auto simp: oh_cmp_ep_iff)

subsection \<open>Child paths\<close>

lemma child_differs_iff:
  "child_differs ep parent n is \<longleftrightarrow> (\<exists>i \<in> set is. ep ! (i + n) \<noteq> parent ! i)"
  by (induction "is") (auto simp: Let_def intro: entity_eqI)

lemma fold_copy_prefix:
  "n \<le> length c \<Longrightarrow> n \<le> length ep \<Longrightarrow>
    fold (\<lambda>i c. c[i := ep ! i]) [0..<n] c = take n ep @ drop n c"
proof (induction n)
  case 0
  then show ?case by simp
next
  case (Suc n)
  then have "fold (\<lambda>i c. c[i := ep ! i]) [0..<Suc n] c = (take n ep @ drop n c)[n := ep ! n]"
    by simp
  also have "\<dots> = take n ep @ ep ! n # drop (Suc n) c"
    using Suc.prems by (simp add: list_update_append Cons_nth_drop_Suc [symmetric])
  also have "\<dots> = take (Suc n) ep @ drop (Suc n) c"
    using Suc.prems by (simp add: take_Suc_conv_app_nth)
  finally show ?case .
qed

lemma ep_abs_nth: "i < length (ep_abs ep) \<Longrightarrow> ep_abs ep ! i = ep ! i"
  by (simp add: ep_abs_def takeWhile_nth)

lemma takeWhile_end: "\<forall>x \<in> set xs. P x \<Longrightarrow> \<not> P y \<Longrightarrow> takeWhile P (xs @ y # ys) = xs"
  by (induction xs) auto

lemma child_copy_abs:
  assumes "ep_array ep" and n: "n \<le> length (ep_abs ep)"
  shows "ep_abs (fold (\<lambda>i c. c[i := ep ! i]) [0..<n] oh_init_ep) = take n (ep_abs ep)"
proof -
  have n16: "n \<le> SAHPI_MAX_ENTITY_PATH" using assms length_ep_abs [of ep] by simp
  have t: "take n ep = take n (ep_abs ep)"
    using n ep_abs_prefix [of ep] by (metis min.absorb1 take_take)
  have nr: "\<forall>x \<in> set (take n (ep_abs ep)). not_root x"
    by (auto simp: ep_abs_def dest!: in_set_takeD set_takeWhileD)
  have f: "fold (\<lambda>i c. c[i := ep ! i]) [0..<n] oh_init_ep =
      take n (ep_abs ep) @ drop n oh_init_ep"
    using n16 assms(1) by (simp add: fold_copy_prefix ep_array_def oh_init_ep_def flip: t)
  show ?thesis
  proof (cases "n = SAHPI_MAX_ENTITY_PATH")
    case True
    then have "drop n oh_init_ep = []" by (simp add: oh_init_ep_def)
    then show ?thesis
      unfolding f ep_abs_def [of "_ @ _"] using nr by (simp add: takeWhile_eq_all_conv)
  next
    case False
    with n16 have "drop n oh_init_ep = root_entity # drop (Suc n) oh_init_ep"
      by (simp add: oh_init_ep_def flip: replicate_Suc)
    then show ?thesis
      unfolding f ep_abs_def [of "_ @ _"] using takeWhile_end [OF nr]
      by (simp add: root_entity_def)
  qed
qed

lemma suffix_iff_nth:
  assumes "length ys \<le> length xs"
  shows "(\<forall>i < length ys. xs ! (i + (length xs - length ys)) = ys ! i) \<longleftrightarrow> (\<exists>c. xs = c @ ys)"
proof
  assume h: "\<forall>i < length ys. xs ! (i + (length xs - length ys)) = ys ! i"
  have "drop (length xs - length ys) xs = ys"
    using assms h by (intro nth_equalityI) (auto simp: add.commute)
  then show "\<exists>c. xs = c @ ys" by (metis append_take_drop_id)
next
  assume "\<exists>c. xs = c @ ys"
  then show "\<forall>i < length ys. xs ! (i + (length xs - length ys)) = ys ! i"
    by (auto simp: nth_append)
qed

text \<open>
  The child path of a longer path: \<open>SA_OK\<close> exactly when the parent is the tail of the path,
  and the child is then what stands before it.
\<close>

lemma get_child_longer:
  assumes ep: "ep_array ep" and p: "ep_array parent"
    and lt: "length (ep_abs parent) < length (ep_abs ep)"
  shows "(fst (oh_get_child_ep ep parent) = SA_OK \<longleftrightarrow> (\<exists>c. ep_abs ep = c @ ep_abs parent)) \<and>
    (fst (oh_get_child_ep ep parent) = SA_OK \<longrightarrow>
       ep_abs ep = ep_abs (snd (oh_get_child_ep ep parent)) @ ep_abs parent)"
proof -
  let ?n = "length (ep_abs ep) - length (ep_abs parent)"
  have le: "length (ep_abs parent) \<le> length (ep_abs ep)" using lt by simp
  have nth: "(\<forall>i < length (ep_abs parent). ep_abs ep ! (i + ?n) = ep_abs parent ! i) \<longleftrightarrow>
      \<not> child_differs ep parent ?n [0..<length (ep_abs parent)]"
    using lt by (auto simp: child_differs_iff ep_abs_nth)
  have d: "\<not> child_differs ep parent ?n [0..<length (ep_abs parent)] \<longleftrightarrow>
      (\<exists>c. ep_abs ep = c @ ep_abs parent)"
    using nth suffix_iff_nth [OF le] by simp
  have copy: "ep_abs (fold (\<lambda>i c. c[i := ep ! i]) [0..<?n] oh_init_ep) = take ?n (ep_abs ep)"
    using child_copy_abs [OF ep, of ?n] by simp
  show ?thesis
    using d lt copy
    by (auto simp: oh_get_child_ep_def unat_ep_len [OF ep] unat_ep_len [OF p] Let_def)
qed

section \<open>Properties\<close>

text \<open>\<open>oh_concat_ep\<close> appends the second path to the first and truncates the result to the
  16 entities of the array.\<close>

lemma concat_ep_appends:
  assumes "ep_array dest" and "ep_array app"
  shows "ep_array (oh_concat_ep dest app) \<and>
    ep_abs (oh_concat_ep dest app) = take SAHPI_MAX_ENTITY_PATH (ep_abs dest @ ep_abs app)"
  using assms by (simp add: ep_array_concat ep_abs_concat)

lemma concat_ep_appends_witness:
  "ep_abs (oh_concat_ep (mk_ep [(3, 1)]) (mk_ep [(7, 2), (1, 5)])) =
     take SAHPI_MAX_ENTITY_PATH (ep_abs (mk_ep [(3, 1)]) @ ep_abs (mk_ep [(7, 2), (1, 5)]))"
  using concat_ep_appends [of "mk_ep [(3, 1)]" "mk_ep [(7, 2), (1, 5)]"]
  by (simp add: mk_ep_def ep_array_def)

text \<open>Two paths compare equal exactly when they agree up to and including the root
  element; in particular equal paths mean the same list of entities.\<close>

lemma cmp_ep_decides:
  assumes "ep_array a" and "ep_array b"
  shows "(oh_cmp_ep a b \<longleftrightarrow> up_to_root a = up_to_root b) \<and> (oh_cmp_ep a b \<longrightarrow> ep_abs a = ep_abs b)"
  using assms oh_cmp_ep_iff oh_cmp_ep_abs by blast

lemma cmp_ep_decides_witness:
  "oh_cmp_ep (mk_ep [(3, 1)]) (mk_ep [(3, 1)]) \<and> \<not> oh_cmp_ep (mk_ep [(3, 1)]) (mk_ep [(3, 2)])"
proof -
  have a: "ep_array (mk_ep [(3, 1)])" "ep_array (mk_ep [(3, 2)])"
    by (simp_all add: mk_ep_def ep_array_def)
  show ?thesis
    using cmp_ep_decides [OF a(1) a(1)] cmp_ep_decides [OF a(1) a(2)] by (simp add: mk_ep_def)
qed

text \<open>For a path longer than the parent, \<open>oh_get_child_ep\<close> succeeds exactly when the parent
  is the tail of the path, and the child it fills in is what stands before the parent.\<close>

lemma get_child_ep_longer:
  assumes "ep_array ep" and "ep_array parent"
    and "length (ep_abs parent) < length (ep_abs ep)"
  shows "(fst (oh_get_child_ep ep parent) = SA_OK \<longleftrightarrow> (\<exists>c. ep_abs ep = c @ ep_abs parent)) \<and>
    (fst (oh_get_child_ep ep parent) = SA_OK \<longrightarrow>
       ep_abs ep = ep_abs (snd (oh_get_child_ep ep parent)) @ ep_abs parent)"
  using assms by (rule get_child_longer)

lemma get_child_ep_longer_witness:
  "fst (oh_get_child_ep (mk_ep [(3, 1), (7, 2)]) (mk_ep [(7, 2)])) = SA_OK"
proof -
  have "ep_array (mk_ep [(3, 1), (7, 2)])" "ep_array (mk_ep [(7, 2)])"
    "length (ep_abs (mk_ep [(7, 2)])) < length (ep_abs (mk_ep [(3, 1), (7, 2)]))"
    by (simp_all add: mk_ep_def ep_array_def ep_abs_def root_entity_def)
  from get_child_ep_longer [OF this] show ?thesis
    by (simp add: mk_ep_def ep_abs_def root_entity_def)
qed

text \<open>For a parent as long as the path, the entities are not compared at all: the
  function answers \<open>SA_OK\<close> for two different paths of the same length, although the comment
  promises \<open>SA_ERR_HPI_NOT_PRESENT\<close> when the path does not consist of the parent and a child.\<close>

lemma get_child_ep_same_length:
  "\<exists>ep parent. ep_array ep \<and> ep_array parent \<and> fst (oh_get_child_ep ep parent) = SA_OK \<and>
     (\<nexists>c. ep_abs ep = c @ ep_abs parent)"
proof (intro exI conjI)
  let ?a = "mk_ep [(3, 1)]" and ?b = "mk_ep [(7, 2)]"
  show "ep_array ?a" "ep_array ?b" by (simp_all add: mk_ep_def ep_array_def)
  show "fst (oh_get_child_ep ?a ?b) = SA_OK" by code_simp
  show "\<nexists>c. ep_abs ?a = c @ ep_abs ?b"
    by (simp add: mk_ep_def ep_abs_def root_entity_def Cons_eq_append_conv)
qed

end
