(* ===== verification/EpPattern.thy ===== *)
theory EpPattern
  imports EntityPath
begin

text \<open>
  Entity path patterns (\<^verbatim>\<open>utils/epath_utils.c\<close>, from \<open>ep_ended\<close> on): the matching loop with
  its two indices and its splat mode, the declarative meaning \<open>pat_match\<close> of a compiled
  pattern, soundness of the loop, its exactness for patterns whose only splat is the last
  compiled item, and that it never reads behind the pattern array.
\<close>

record oh_entity_pattern =
  is_splat :: bool
  etp_is_dot :: bool
  etp_type :: u32
  elp_is_dot :: bool
  elp_location :: u32

text \<open>\<^verbatim>\<open>epattern[OH_MAX_EP_TUPLES]\<close>, an array of 17 items.\<close>

type_synonym oh_entitypath_pattern = "oh_entity_pattern list"

abbreviation OH_MAX_EP_TUPLES :: nat where "OH_MAX_EP_TUPLES \<equiv> 17"

definition epp_array :: "oh_entitypath_pattern \<Rightarrow> bool" where
  "epp_array epp \<longleftrightarrow> length epp = OH_MAX_EP_TUPLES"

definition ep_ended :: "SaHpiEntityPathT \<Rightarrow> nat \<Rightarrow> bool" where
  "ep_ended ep i =
     (if i \<ge> SAHPI_MAX_ENTITY_PATH then True else EntityType (ep ! i) = SAHPI_ENT_ROOT)"

definition pat_end :: "oh_entity_pattern \<Rightarrow> bool" where
  "pat_end p \<longleftrightarrow> \<not> is_splat p \<and> etp_type p = SAHPI_ENT_ROOT"

definition epp_ended :: "oh_entitypath_pattern \<Rightarrow> nat \<Rightarrow> bool" where
  "epp_ended epp j = (if j \<ge> OH_MAX_EP_TUPLES then True else pat_end (epp ! j))"

definition matches :: "oh_entity_pattern \<Rightarrow> SaHpiEntityT \<Rightarrow> bool" where
  "matches p e =
     (if is_splat p then True
      else if \<not> etp_is_dot p \<and> etp_type p \<noteq> EntityType e then False
      else if \<not> elp_is_dot p \<and> elp_location p \<noteq> EntityLocation e then False
      else True)"

abbreviation dotdot :: "oh_entity_pattern \<Rightarrow> bool" where
  "dotdot p \<equiv> etp_is_dot p \<and> elp_is_dot p"

text \<open>
  The \<^verbatim>\<open>while\<close> loop of \<open>oh_match_entitypath_pattern\<close>. \<open>None\<close> stands for a read behind the end
  of the pattern array, which no call makes (\<open>match_never_overruns\<close>).
\<close>

function match_loop ::
    "oh_entitypath_pattern \<Rightarrow> SaHpiEntityPathT \<Rightarrow> nat \<Rightarrow> nat \<Rightarrow> bool \<Rightarrow> bool option"
where
  "match_loop epp ep i j splatmode =
     (if i \<ge> SAHPI_MAX_ENTITY_PATH then Some True
      else if j \<ge> OH_MAX_EP_TUPLES then None
      else if is_splat (epp ! j) then
        (if epp_ended epp (Suc j) then Some True else match_loop epp ep i (Suc j) True)
      else if matches (epp ! j) (ep ! i) then
        (if epp_ended epp (Suc j) \<and> ep_ended ep (Suc i) then Some True
         else if epp_ended epp (Suc j) \<and> \<not> ep_ended ep (Suc i) then
           (if dotdot (epp ! j) \<and> splatmode then match_loop epp ep (Suc i) j splatmode
            else Some False)
         else if ep_ended ep (Suc i) \<and> \<not> epp_ended epp (Suc j) then
           (if is_splat (epp ! Suc j) \<and> epp_ended epp (Suc (Suc j)) then Some True
            else Some False)
         else match_loop epp ep (Suc i) (Suc j)
                (if splatmode \<and> \<not> dotdot (epp ! j) then False else splatmode))
      else
        (let i' = (if splatmode then Suc i else i)
         in if \<not> splatmode \<or> ep_ended ep i' then Some False
            else match_loop epp ep i' j splatmode))"
  by pat_completeness auto
termination
  by (relation "measure (\<lambda>(epp, ep, i, j, m). (SAHPI_MAX_ENTITY_PATH - i) + (OH_MAX_EP_TUPLES - j))")
    auto

declare match_loop.simps [simp del]

definition oh_match_entitypath_pattern ::
    "oh_entitypath_pattern \<Rightarrow> SaHpiEntityPathT \<Rightarrow> bool option"
where
  "oh_match_entitypath_pattern epp ep =
     (if EntityType (ep ! 0) = SAHPI_ENT_ROOT then Some False
      else if \<not> is_splat (epp ! 0) \<and> etp_type (epp ! 0) = SAHPI_ENT_ROOT then Some False
      else match_loop epp ep 0 0 False)"

section \<open>What a pattern means\<close>

definition pat_abs :: "oh_entitypath_pattern \<Rightarrow> oh_entity_pattern list" where
  "pat_abs epp = takeWhile (\<lambda>p. \<not> pat_end p) epp"

text \<open>
  A splat stands for any number of entities, any other item for one entity: with its type unless
  the type is a dot, and at its location unless the location is a dot.
\<close>

definition denotes :: "oh_entity_pattern \<Rightarrow> SaHpiEntityT \<Rightarrow> bool" where
  "denotes p e \<longleftrightarrow> (etp_is_dot p \<or> etp_type p = EntityType e) \<and>
     (elp_is_dot p \<or> elp_location p = EntityLocation e)"

fun pat_match :: "oh_entity_pattern list \<Rightarrow> SaHpiEntityT list \<Rightarrow> bool" where
  "pat_match [] [] = True"
| "pat_match [] (e # es) = False"
| "pat_match (p # ps) [] = (is_splat p \<and> pat_match ps [])"
| "pat_match (p # ps) (e # es) =
     (if is_splat p then pat_match ps (e # es) \<or> pat_match (p # ps) es
      else denotes p e \<and> pat_match ps es)"

lemma matches_denotes: "\<not> is_splat p \<Longrightarrow> matches p e = denotes p e"
  by (simp add: matches_def denotes_def)

text \<open>In splat mode a suffix of the path has to match: what a splat in front would allow.\<close>

definition suffix_match :: "oh_entity_pattern list \<Rightarrow> SaHpiEntityT list \<Rightarrow> bool" where
  "suffix_match ps es \<longleftrightarrow> (\<exists>k. pat_match ps (drop k es))"

definition mode_match :: "bool \<Rightarrow> oh_entity_pattern list \<Rightarrow> SaHpiEntityT list \<Rightarrow> bool" where
  "mode_match m ps es = (if m then suffix_match ps es else pat_match ps es)"

lemma pat_match_splat: "is_splat p \<Longrightarrow> pat_match (p # ps) es = suffix_match ps es"
proof (induction es)
  case Nil
  then show ?case by (simp add: suffix_match_def)
next
  case (Cons e es)
  have "suffix_match ps (e # es) \<longleftrightarrow> pat_match ps (e # es) \<or> suffix_match ps es"
    unfolding suffix_match_def by (metis drop0 drop_Suc_Cons not0_implies_Suc)
  with Cons show ?case by simp
qed

lemma suffix_match_now: "pat_match ps es \<Longrightarrow> suffix_match ps es"
  unfolding suffix_match_def by (metis drop0)

lemma suffix_match_skip: "suffix_match ps es \<Longrightarrow> suffix_match ps (e # es)"
  unfolding suffix_match_def by (metis drop_Suc_Cons)

lemma mode_match_now: "pat_match ps es \<Longrightarrow> mode_match m ps es"
  by (simp add: mode_match_def suffix_match_now)

lemma dotdot_matches: "dotdot p \<Longrightarrow> matches p e"
  by (simp add: matches_def)

text \<open>A dot-dot item may be taken before or after the entities a splat absorbs.\<close>

lemma suffix_match_dotdot:
  assumes dd: "dotdot p" "\<not> is_splat p" and s: "suffix_match ps es"
  shows "suffix_match (p # ps) (e # es)"
proof -
  obtain k where k: "pat_match ps (drop k es)" using s by (auto simp: suffix_match_def)
  show ?thesis
  proof (cases "k < length (e # es)")
    case True
    then have "drop k (e # es) = (e # es) ! k # drop k es"
      by (metis Cons_nth_drop_Suc drop_Suc_Cons)
    then have "pat_match (p # ps) (drop k (e # es))"
      using k dd by (simp add: denotes_def)
    then show ?thesis unfolding suffix_match_def by blast
  next
    case False
    then have "pat_match ps []" using k by simp
    then have "pat_match (p # ps) (drop (length es) (e # es))"
      using dd by (cases es rule: rev_cases) (auto simp: denotes_def)
    then show ?thesis unfolding suffix_match_def by blast
  qed
qed

section \<open>The loop against the meaning\<close>

lemma pat_abs_drop:
  assumes "epp_array epp" and "j \<le> length (pat_abs epp)"
  shows "epp_ended epp j \<longleftrightarrow> drop j (pat_abs epp) = []"
    and "\<not> epp_ended epp j \<Longrightarrow> drop j (pat_abs epp) = epp ! j # drop (Suc j) (pat_abs epp)"
proof -
  have le: "length (pat_abs epp) \<le> OH_MAX_EP_TUPLES"
    using assms(1) by (metis epp_array_def length_takeWhile_le pat_abs_def)
  have lt: "j < length (pat_abs epp) \<Longrightarrow> \<not> pat_end (epp ! j) \<and> pat_abs epp ! j = epp ! j"
    unfolding pat_abs_def by (metis nth_mem set_takeWhileD takeWhile_nth)
  have ge: "j = length (pat_abs epp) \<Longrightarrow> j < OH_MAX_EP_TUPLES \<Longrightarrow> pat_end (epp ! j)"
    using assms(1) unfolding pat_abs_def epp_array_def by (metis (full_types) nth_length_takeWhile)
  show e: "epp_ended epp j \<longleftrightarrow> drop j (pat_abs epp) = []"
    using assms(2) le lt ge by (cases "j = length (pat_abs epp)") (auto simp: epp_ended_def)
  assume "\<not> epp_ended epp j"
  then have "j < length (pat_abs epp)" using e by simp
  then show "drop j (pat_abs epp) = epp ! j # drop (Suc j) (pat_abs epp)"
    using lt Cons_nth_drop_Suc [of j "pat_abs epp"] by simp
qed

lemma ep_abs_drop:
  assumes "ep_array ep" and "i \<le> length (ep_abs ep)"
  shows "ep_ended ep i \<longleftrightarrow> drop i (ep_abs ep) = []"
    and "\<not> ep_ended ep i \<Longrightarrow> drop i (ep_abs ep) = ep ! i # drop (Suc i) (ep_abs ep)"
proof -
  have le: "length (ep_abs ep) \<le> SAHPI_MAX_ENTITY_PATH" using length_ep_abs [OF assms(1)] .
  have lt: "i < length (ep_abs ep) \<Longrightarrow> not_root (ep ! i) \<and> ep_abs ep ! i = ep ! i"
    using nth_mem [of i "ep_abs ep"] set_takeWhileD [of "ep_abs ep ! i" not_root ep] ep_abs_nth [of i ep]
    unfolding ep_abs_def by simp
  have ge: "i = length (ep_abs ep) \<Longrightarrow> i < SAHPI_MAX_ENTITY_PATH \<Longrightarrow>
      EntityType (ep ! i) = SAHPI_ENT_ROOT"
    using assms(1) nth_length_takeWhile [of not_root ep] by (simp add: ep_abs_def ep_array_def)
  show e: "ep_ended ep i \<longleftrightarrow> drop i (ep_abs ep) = []"
    using assms(2) le lt ge by (cases "i = length (ep_abs ep)") (auto simp: ep_ended_def)
  assume "\<not> ep_ended ep i"
  then have "i < length (ep_abs ep)" using e by simp
  then show "drop i (ep_abs ep) = ep ! i # drop (Suc i) (ep_abs ep)"
    using lt Cons_nth_drop_Suc [of i "ep_abs ep"] by simp
qed

text \<open>What the loop keeps: neither index has passed the end.\<close>

definition match_state :: "oh_entitypath_pattern \<Rightarrow> SaHpiEntityPathT \<Rightarrow> nat \<Rightarrow> nat \<Rightarrow> bool" where
  "match_state epp ep i j \<longleftrightarrow>
     epp_array epp \<and> ep_array ep \<and> i < length (ep_abs ep) \<and> j < length (pat_abs epp)"

lemma match_state_unfold:
  assumes "match_state epp ep i j"
  shows "i < SAHPI_MAX_ENTITY_PATH" and "j < OH_MAX_EP_TUPLES"
    and "drop i (ep_abs ep) = ep ! i # drop (Suc i) (ep_abs ep)"
    and "drop j (pat_abs epp) = epp ! j # drop (Suc j) (pat_abs epp)"
    and "epp_ended epp (Suc j) \<longleftrightarrow> drop (Suc j) (pat_abs epp) = []"
    and "ep_ended ep (Suc i) \<longleftrightarrow> drop (Suc i) (ep_abs ep) = []"
    and "\<not> epp_ended epp (Suc j) \<Longrightarrow> match_state epp ep i (Suc j)"
    and "\<not> ep_ended ep (Suc i) \<Longrightarrow> match_state epp ep (Suc i) j"
proof -
  have a: "epp_array epp" "ep_array ep" "i < length (ep_abs ep)" "j < length (pat_abs epp)"
    using assms by (auto simp: match_state_def)
  show "i < SAHPI_MAX_ENTITY_PATH" using a length_ep_abs [of ep] by simp
  show "j < OH_MAX_EP_TUPLES"
    using a by (metis epp_array_def length_takeWhile_le less_le_trans pat_abs_def)
  have ni: "\<not> ep_ended ep i" and nj: "\<not> epp_ended epp j"
    using a ep_abs_drop(1) [of ep i] pat_abs_drop(1) [of epp j] by auto
  show "drop i (ep_abs ep) = ep ! i # drop (Suc i) (ep_abs ep)"
    using a ni ep_abs_drop(2) [of ep i] by simp
  show "drop j (pat_abs epp) = epp ! j # drop (Suc j) (pat_abs epp)"
    using a nj pat_abs_drop(2) [of epp j] by simp
  show e: "epp_ended epp (Suc j) \<longleftrightarrow> drop (Suc j) (pat_abs epp) = []"
    using a pat_abs_drop(1) [of epp "Suc j"] by simp
  show f: "ep_ended ep (Suc i) \<longleftrightarrow> drop (Suc i) (ep_abs ep) = []"
    using a ep_abs_drop(1) [of ep "Suc i"] by simp
  show "match_state epp ep i (Suc j)" if "\<not> epp_ended epp (Suc j)"
    using that e a by (simp add: match_state_def)
  show "match_state epp ep (Suc i) j" if "\<not> ep_ended ep (Suc i)"
    using that f a by (simp add: match_state_def)
qed

text \<open>One turn of the loop in such a state, without the bound checks.\<close>

lemma match_loop_turn:
  assumes "match_state epp ep i j"
  shows "match_loop epp ep i j m =
    (if is_splat (epp ! j) then
       (if epp_ended epp (Suc j) then Some True else match_loop epp ep i (Suc j) True)
     else if matches (epp ! j) (ep ! i) then
       (if epp_ended epp (Suc j) then
          (if ep_ended ep (Suc i) then Some True
           else if dotdot (epp ! j) \<and> m then match_loop epp ep (Suc i) j m else Some False)
        else if ep_ended ep (Suc i) then
          Some (is_splat (epp ! Suc j) \<and> epp_ended epp (Suc (Suc j)))
        else match_loop epp ep (Suc i) (Suc j) (m \<and> dotdot (epp ! j)))
     else if m \<and> \<not> ep_ended ep (Suc i) then match_loop epp ep (Suc i) j m else Some False)"
  using match_state_unfold(1,2) [OF assms]
  by (subst match_loop.simps) (cases m; cases "etp_is_dot (epp ! j)"; cases "elp_is_dot (epp ! j)"; simp add: Let_def)

lemma match_state_Suc2:
  assumes "match_state epp ep i j" and "\<not> epp_ended epp (Suc j)" and "\<not> ep_ended ep (Suc i)"
  shows "match_state epp ep (Suc i) (Suc j)"
  using match_state_unfold(5,6) [OF assms(1)] assms by (simp add: match_state_def)

text \<open>
  Induction over the turns of the loop from such a state: the reads stay inside both arrays
  and every continuing turn leads to such a state again.
\<close>

lemma match_loop_rule [consumes 1, case_names turn]:
  assumes "match_state epp ep i j"
    and "\<And>i j m. match_state epp ep i j \<Longrightarrow>
      (\<not> epp_ended epp (Suc j) \<Longrightarrow> P i (Suc j) True) \<Longrightarrow>
      (\<And>m. \<not> ep_ended ep (Suc i) \<Longrightarrow> P (Suc i) j m) \<Longrightarrow>
      (\<And>m. \<not> epp_ended epp (Suc j) \<Longrightarrow> \<not> ep_ended ep (Suc i) \<Longrightarrow> P (Suc i) (Suc j) m) \<Longrightarrow>
      P i j m"
  shows "P i j m"
  using assms(1)
proof (induction "(SAHPI_MAX_ENTITY_PATH - i) + (OH_MAX_EP_TUPLES - j)" arbitrary: i j m
    rule: less_induct)
  case less
  note u = match_state_unfold [OF less.prems]
  show ?case
  proof (rule assms(2) [OF less.prems])
    show "P i (Suc j) True" if "\<not> epp_ended epp (Suc j)"
      by (rule less.hyps [OF _ u(7) [OF that]]) (use u(1,2) in linarith)
    show "P (Suc i) j m" if "\<not> ep_ended ep (Suc i)" for m
      by (rule less.hyps [OF _ u(8) [OF that]]) (use u(1,2) in linarith)
    show "P (Suc i) (Suc j) m" if "\<not> epp_ended epp (Suc j)" "\<not> ep_ended ep (Suc i)" for m
      by (rule less.hyps [OF _ match_state_Suc2 [OF less.prems that]]) (use u(1,2) in linarith)
  qed
qed

lemma match_loop_total: "match_state epp ep i j \<Longrightarrow> \<exists>b. match_loop epp ep i j m = Some b"
proof (induction i j m rule: match_loop_rule)
  case (turn i j m)
  then show ?case by (auto simp: match_loop_turn)
qed

lemma match_loop_sound:
  "match_state epp ep i j \<Longrightarrow> match_loop epp ep i j m = Some True \<Longrightarrow>
    mode_match m (drop j (pat_abs epp)) (drop i (ep_abs ep))"
proof (induction i j m rule: match_loop_rule)
  case (turn i j m)
  note u = match_state_unfold [OF turn.hyps]
  let ?p = "epp ! j" and ?e = "ep ! i"
  let ?ps = "drop (Suc j) (pat_abs epp)" and ?es = "drop (Suc i) (ep_abs ep)"
  note eq = turn.prems [unfolded match_loop_turn [OF turn.hyps]]
  let ?goal = "mode_match m (drop j (pat_abs epp)) (drop i (ep_abs ep))"
  have all: "is_splat ?p \<Longrightarrow> suffix_match ?ps (?e # ?es) \<Longrightarrow> ?goal"
    unfolding u(3,4) by (rule mode_match_now) (simp only: pat_match_splat)
  show ?case
  proof (cases "is_splat ?p")
    case True
    have "suffix_match ?ps (?e # ?es)"
    proof (cases "epp_ended epp (Suc j)")
      case True
      then have "?ps = []" using u(5) by simp
      then show ?thesis unfolding suffix_match_def
        by (metis drop_all order_refl pat_match.simps(1))
    next
      case False
      then show ?thesis using turn.IH(1) eq True u(3) by (simp add: mode_match_def)
    qed
    then show ?thesis using all True by blast
  next
    case ns: False
    show ?thesis
    proof (cases "matches ?p ?e")
      case nm: False
      then show ?thesis
        using eq ns turn.IH(2) [of True] u(3,4) suffix_match_skip
        by (auto simp: mode_match_def split: if_splits)
    next
      case m: True
      have step: "pat_match ?ps ?es \<Longrightarrow> ?goal"
        unfolding u(3,4) using m ns by (intro mode_match_now) (simp add: matches_denotes)
      show ?thesis
      proof (cases "epp_ended epp (Suc j)")
        case pe: True
        then have "?ps = []" using u(5) by simp
        then show ?thesis
          using eq ns m pe step u(3,4,6) turn.IH(2) [of True] suffix_match_skip
          by (auto simp: mode_match_def split: if_splits)
      next
        case pe: False
        show ?thesis
        proof (cases "ep_ended ep (Suc i)")
          case ee: True
          then have es: "?es = []" using u(6) by simp
          have s: "is_splat (epp ! Suc j)" "epp_ended epp (Suc (Suc j))"
            using eq ns m pe ee by auto
          have "?ps = [epp ! Suc j]"
            using match_state_unfold(4,5) [OF u(7) [OF pe]] s by simp
          then show ?thesis using step es s by simp
        next
          case ee: False
          have r: "mode_match (m \<and> dotdot ?p) ?ps ?es"
            using turn.IH(3) [OF pe ee] eq ns m pe ee by simp
          show ?thesis
          proof (cases "m \<and> dotdot ?p")
            case True
            then show ?thesis using r ns suffix_match_dotdot u(3,4) by (simp add: mode_match_def)
          next
            case False
            then have "pat_match ?ps ?es" using r by (simp only: mode_match_def if_False)
            then show ?thesis by (rule step)
          qed
        qed
      qed
    qed
  qed
qed

lemma pat_match_splat_only: "is_splat p \<Longrightarrow> pat_match [p] es"
  by (induction es) auto

text \<open>Without a splat before the last item the loop never enters splat mode early: it is exact.\<close>

lemma match_loop_exact:
  "match_state epp ep i j \<Longrightarrow> \<forall>p \<in> set (butlast (drop j (pat_abs epp))). \<not> is_splat p \<Longrightarrow> \<not> m \<Longrightarrow>
    match_loop epp ep i j m = Some (pat_match (drop j (pat_abs epp)) (drop i (ep_abs ep)))"
proof (induction i j m rule: match_loop_rule)
  case (turn i j m)
  note u = match_state_unfold [OF turn.hyps]
  let ?p = "epp ! j" and ?e = "ep ! i"
  let ?ps = "drop (Suc j) (pat_abs epp)" and ?es = "drop (Suc i) (ep_abs ep)"
  show ?case
  proof (cases "?ps = []")
    case True
    then have pe: "epp_ended epp (Suc j)" using u(5) by simp
    show ?thesis
    proof (cases "is_splat ?p")
      case s: True
      then show ?thesis unfolding match_loop_turn [OF turn.hyps] u(4)
        using pe True pat_match_splat_only [OF s] by simp
    next
      case s: False
      have "pat_match [] ?es \<longleftrightarrow> ep_ended ep (Suc i)" using u(6) by (cases ?es) auto
      then show ?thesis
        unfolding match_loop_turn [OF turn.hyps] u(3,4) using pe True s turn.prems(2) by (simp add: matches_denotes)
    qed
  next
    case False
    then have pe: "\<not> epp_ended epp (Suc j)" using u(5) by simp
    have ns: "\<not> is_splat ?p" and rest: "\<forall>p \<in> set (butlast ?ps). \<not> is_splat p"
      using turn.prems(1) False unfolding u(4) by simp_all
    have last: "is_splat (epp ! Suc j) \<and> epp_ended epp (Suc (Suc j)) \<longleftrightarrow> pat_match ?ps []"
    proof -
      note v = match_state_unfold(4,5) [OF u(7) [OF pe]]
      show ?thesis
      proof (cases "drop (Suc (Suc j)) (pat_abs epp) = []")
        case True
        then show ?thesis using v by simp
      next
        case f: False
        then have "\<not> is_splat (epp ! Suc j)" using rest unfolding v(1) by simp
        then show ?thesis using v by simp
      qed
    qed
    show ?thesis
    proof (cases "ep_ended ep (Suc i)")
      case True
      then have "?es = []" using u(6) by simp
      then show ?thesis
        unfolding match_loop_turn [OF turn.hyps] u(3,4) using last pe ns True turn.prems(2)
        by (simp add: matches_denotes)
    next
      case ee: False
      then show ?thesis
        unfolding match_loop_turn [OF turn.hyps] u(3,4)
        using turn.IH(3) [OF pe ee rest] pe ns turn.prems(2) by (simp add: matches_denotes)
    qed
  qed
qed

section \<open>The matching function\<close>

lemma match_start:
  assumes "epp_array epp" and "ep_array ep"
  shows "oh_match_entitypath_pattern epp ep =
    (if ep_abs ep = [] \<or> pat_abs epp = [] then Some False else match_loop epp ep 0 0 False)"
proof -
  have "ep_abs ep = [] \<longleftrightarrow> EntityType (ep ! 0) = SAHPI_ENT_ROOT"
    using assms(2) ep_abs_drop(1) [of ep 0] by (simp add: ep_ended_def)
  moreover have "pat_abs epp = [] \<longleftrightarrow> pat_end (epp ! 0)"
    using assms(1) pat_abs_drop(1) [of epp 0] by (simp add: epp_ended_def)
  ultimately show ?thesis by (simp add: oh_match_entitypath_pattern_def pat_end_def)
qed

lemma match_state_start:
  "epp_array epp \<Longrightarrow> ep_array ep \<Longrightarrow> ep_abs ep \<noteq> [] \<Longrightarrow> pat_abs epp \<noteq> [] \<Longrightarrow> match_state epp ep 0 0"
  by (simp add: match_state_def)

lemma match_returns:
  assumes "epp_array epp" and "ep_array ep"
  shows "\<exists>b. oh_match_entitypath_pattern epp ep = Some b"
  using match_loop_total [OF match_state_start [OF assms]] by (auto simp: match_start [OF assms])

section \<open>Properties\<close>

text \<open>Padded arrays, for the concrete inputs of the witnesses.\<close>

definition mk_epp :: "oh_entity_pattern list \<Rightarrow> oh_entitypath_pattern" where
  "mk_epp ps = ps @ replicate (OH_MAX_EP_TUPLES - length ps)
     \<lparr>is_splat = False, etp_is_dot = False, etp_type = SAHPI_ENT_ROOT,
      elp_is_dot = False, elp_location = 0\<rparr>"

definition pat_splat :: oh_entity_pattern where
  "pat_splat = \<lparr>is_splat = True, etp_is_dot = False, etp_type = 0, elp_is_dot = False, elp_location = 0\<rparr>"

definition pat_tuple :: "u32 \<Rightarrow> u32 \<Rightarrow> oh_entity_pattern" where
  "pat_tuple t l = \<lparr>is_splat = False, etp_is_dot = False, etp_type = t,
     elp_is_dot = False, elp_location = l\<rparr>"

text \<open>C1: a pattern match that \<open>oh_match_entitypath_pattern\<close> reports is a match: the
  entities before the root can be divided among the items of the pattern.\<close>

theorem match_sound:
  assumes "epp_array epp" and "ep_array ep"
    and "oh_match_entitypath_pattern epp ep = Some True"
  shows "pat_match (pat_abs epp) (ep_abs ep)"
  using assms match_loop_sound [OF match_state_start [OF assms(1,2)], of False]
  by (auto simp: match_start mode_match_def split: if_splits)

theorem match_sound_witness:
  "pat_match (pat_abs (mk_epp [pat_splat, pat_tuple 3 1])) (ep_abs (mk_ep [(7, 2), (3, 1)]))"
proof (rule match_sound)
  show "epp_array (mk_epp [pat_splat, pat_tuple 3 1])" by code_simp
  show "ep_array (mk_ep [(7, 2), (3, 1)])" by code_simp
  show "oh_match_entitypath_pattern (mk_epp [pat_splat, pat_tuple 3 1])
      (mk_ep [(7, 2), (3, 1)]) = Some True" by code_simp
qed

text \<open>For a pattern whose only splat, if any, is the last compiled item (the leading
  item of the pattern string), the matching loop decides the declarative meaning exactly, and
  it always returns without reading behind the pattern array.\<close>

lemma match_exact:
  assumes "epp_array epp" and "ep_array ep" and "ep_abs ep \<noteq> []" and "pat_abs epp \<noteq> []"
    and "\<forall>p \<in> set (butlast (pat_abs epp)). \<not> is_splat p"
  shows "oh_match_entitypath_pattern epp ep = Some (pat_match (pat_abs epp) (ep_abs ep))"
  using assms match_loop_exact [OF match_state_start [OF assms(1-4)], of False]
  by (simp add: match_start)

lemma match_exact_witness:
  "oh_match_entitypath_pattern (mk_epp [pat_tuple 3 1, pat_splat]) (mk_ep [(3, 1), (7, 2)]) =
     Some (pat_match (pat_abs (mk_epp [pat_tuple 3 1, pat_splat])) (ep_abs (mk_ep [(3, 1), (7, 2)])))"
  by (rule match_exact; code_simp)

text \<open>With a splat that is not the last compiled item the loop does not backtrack: the
  path \<open>{2,1}{1,1}{1,1}\<close> has a division among the items \<open>*{1,1}{2,1}\<close> read from the leaf, but
  the function answers that it does not match.\<close>

lemma match_incomplete:
  "\<exists>epp ep. epp_array epp \<and> ep_array ep \<and> pat_match (pat_abs epp) (ep_abs ep) \<and>
     oh_match_entitypath_pattern epp ep = Some False"
proof (intro exI conjI)
  let ?epp = "mk_epp [pat_splat, pat_tuple 1 1, pat_tuple 2 1]"
  let ?ep = "mk_ep [(1, 1), (1, 1), (2, 1)]"
  show "epp_array ?epp" by code_simp
  show "ep_array ?ep" by code_simp
  show "pat_match (pat_abs ?epp) (ep_abs ?ep)" by code_simp
  show "oh_match_entitypath_pattern ?epp ?ep = Some False" by code_simp
qed

end
