(* ===== verification/UidUtils.thy ===== *)
theory UidUtils
  imports EntityPath "HOL-Library.Multiset"
begin

text \<open>
  Resource ids from entity paths (\<^verbatim>\<open>utils/uid_utils.c\<close>): two hash tables share the cross
  references, one keyed by the normalised entity path (compared with \<open>oh_cmp_ep\<close> behind the
  path hash), one by the resource id; \<open>resource_id\<close> is the next id to hand out; an optional map
  file keeps both over restarts. The tables are the lists of their values. What the file system
  answers is the argument \<open>io\<close>; the order in which \<^verbatim>\<open>g_hash_table_foreach\<close> visits a table is
  the argument \<open>ord\<close>.
\<close>

record EP_XREF =
  x_resource_id :: u32
  x_entity_path :: SaHpiEntityPathT

text \<open>The map file: the leading resource id (absent in a shorter file) and the records.\<close>

type_synonym uid_file = "u32 option \<times> EP_XREF list"

record uid_state =
  initialized :: bool
  oh_ep_table :: "EP_XREF list"
  oh_resource_id_table :: "EP_XREF list"
  resource_id :: u32
  oh_uid_map_file :: bool
  map_file :: "uid_file option"

record uid_io =
  can_open :: bool
  can_create :: bool
  write_xref_ok :: bool
  write_id_ok :: bool
  read_error :: bool

section \<open>Hash tables keyed by an entity path\<close>

definition le_bytes :: "u32 \<Rightarrow> u8 list" where
  "le_bytes w = [ucast w, ucast (drop_bit 8 w), ucast (drop_bit 16 w), ucast (drop_bit 24 w)]"

definition ep_bytes :: "SaHpiEntityPathT \<Rightarrow> u8 list" where
  "ep_bytes ep = concat (map (\<lambda>e. le_bytes (EntityType e) @ le_bytes (EntityLocation e)) ep)"

text \<open>The characters are signed, so they are sign-extended before they are added.\<close>

definition oh_entity_path_hash :: "SaHpiEntityPathT \<Rightarrow> u32" where
  "oh_entity_path_hash ep =
     (case ep_bytes ep of
        [] \<Rightarrow> 0
      | p # ps \<Rightarrow> fold (\<lambda>p h. h * 131 + scast p) ps (scast p) mod 1009)"

definition oh_entity_path_equal :: "SaHpiEntityPathT \<Rightarrow> SaHpiEntityPathT \<Rightarrow> bool" where
  "oh_entity_path_equal a b = oh_cmp_ep a b"

definition same_key :: "SaHpiEntityPathT \<Rightarrow> EP_XREF \<Rightarrow> bool" where
  "same_key k x \<longleftrightarrow> oh_entity_path_hash (x_entity_path x) = oh_entity_path_hash k \<and>
     oh_entity_path_equal (x_entity_path x) k"

definition ep_table_lookup :: "EP_XREF list \<Rightarrow> SaHpiEntityPathT \<Rightarrow> EP_XREF option" where
  "ep_table_lookup t k = find (same_key k) t"

definition id_table_lookup :: "EP_XREF list \<Rightarrow> u32 \<Rightarrow> EP_XREF option" where
  "id_table_lookup t k = find (\<lambda>x. x_resource_id x = k) t"

text \<open>\<^verbatim>\<open>g_hash_table_insert\<close>: an equal key gets the new value.\<close>

definition ep_table_insert :: "EP_XREF \<Rightarrow> EP_XREF list \<Rightarrow> EP_XREF list" where
  "ep_table_insert x t =
     (if ep_table_lookup t (x_entity_path x) = None then t @ [x]
      else map (\<lambda>y. if same_key (x_entity_path x) y then x else y) t)"

definition id_table_insert :: "EP_XREF \<Rightarrow> EP_XREF list \<Rightarrow> EP_XREF list" where
  "id_table_insert x t =
     (if id_table_lookup t (x_resource_id x) = None then t @ [x]
      else map (\<lambda>y. if x_resource_id y = x_resource_id x then x else y) t)"

definition ep_table_remove :: "SaHpiEntityPathT \<Rightarrow> EP_XREF list \<Rightarrow> EP_XREF list" where
  "ep_table_remove k t = filter (\<lambda>x. \<not> same_key k x) t"

definition id_table_remove :: "u32 \<Rightarrow> EP_XREF list \<Rightarrow> EP_XREF list" where
  "id_table_remove k t = filter (\<lambda>x. x_resource_id x \<noteq> k) t"

section \<open>The operations\<close>

definition oh_uid_is_initialized :: "uid_state \<Rightarrow> bool" where
  "oh_uid_is_initialized st = initialized st"

text \<open>The key that every operation builds: \<open>oh_init_ep\<close>, then \<open>oh_concat_ep\<close>.\<close>

definition norm_ep :: "SaHpiEntityPathT \<Rightarrow> SaHpiEntityPathT" where
  "norm_ep ep = oh_concat_ep oh_init_ep ep"

text \<open>
  Writing a new cross reference to the map file: opened for update, the record appended,
  the next resource id rewritten at the start. The result says whether \<^verbatim>\<open>ruid\<close> stays valid.
\<close>

definition append_to_map_file :: "uid_io \<Rightarrow> EP_XREF \<Rightarrow> uid_state \<Rightarrow> bool \<times> uid_state" where
  "append_to_map_file io x st =
     (if oh_uid_map_file st then
        (case map_file st of
           None \<Rightarrow> (True, st)
         | Some (hdr, recs) \<Rightarrow>
             if \<not> can_open io then (True, st)
             else if \<not> write_xref_ok io then (False, st)
             else if \<not> write_id_ok io then (False, st\<lparr>map_file := Some (hdr, recs @ [x])\<rparr>)
             else (True, st\<lparr>map_file := Some (Some (resource_id st), recs @ [x])\<rparr>))
      else (True, st))"

definition oh_uid_from_entity_path ::
    "uid_io \<Rightarrow> uid_state \<Rightarrow> SaHpiEntityPathT \<Rightarrow> u32 \<times> uid_state"
where
  "oh_uid_from_entity_path io st ep =
     (if \<not> oh_uid_is_initialized st then (0, st)
      else let entitypath = norm_ep ep
           in case ep_table_lookup (oh_ep_table st) entitypath of
                Some x \<Rightarrow> (x_resource_id x, st)
              | None \<Rightarrow>
                  (let x = \<lparr>x_resource_id = resource_id st, x_entity_path = entitypath\<rparr>;
                       st1 = st\<lparr>resource_id := resource_id st + 1,
                                oh_ep_table := ep_table_insert x (oh_ep_table st),
                                oh_resource_id_table :=
                                  id_table_insert x (oh_resource_id_table st)\<rparr>;
                       (ok, st2) = append_to_map_file io x st1
                   in (if ok then x_resource_id x else 0, st2)))"

definition oh_uid_map_to_file ::
    "uid_io \<Rightarrow> (EP_XREF list \<Rightarrow> EP_XREF list) \<Rightarrow> uid_state \<Rightarrow> SaErrorT \<times> uid_state"
where
  "oh_uid_map_to_file io ord st =
     (if \<not> oh_uid_map_file st then (SA_OK, st)
      else if \<not> can_create io then (SA_ERR_HPI_ERROR, st)
      else if \<not> write_id_ok io then (SA_ERR_HPI_ERROR, st\<lparr>map_file := Some (None, [])\<rparr>)
      else (SA_OK, st\<lparr>map_file := Some (Some (resource_id st),
                        (if write_xref_ok io then ord (oh_resource_id_table st) else []))\<rparr>))"

definition oh_uid_remove ::
    "uid_io \<Rightarrow> (EP_XREF list \<Rightarrow> EP_XREF list) \<Rightarrow> uid_state \<Rightarrow> u32 \<Rightarrow> SaErrorT \<times> uid_state"
where
  "oh_uid_remove io ord st uid =
     (if \<not> oh_uid_is_initialized st then (SA_ERR_HPI_ERROR, st)
      else case id_table_lookup (oh_resource_id_table st) uid of
             None \<Rightarrow> (SA_ERR_HPI_NOT_PRESENT, st)
           | Some x \<Rightarrow>
               (case ep_table_lookup (oh_ep_table st) (x_entity_path x) of
                  None \<Rightarrow> (SA_ERR_HPI_NOT_PRESENT, st)
                | Some y \<Rightarrow>
                    oh_uid_map_to_file io ord
                      (st\<lparr>oh_resource_id_table :=
                            id_table_remove (x_resource_id y) (oh_resource_id_table st),
                          oh_ep_table :=
                            ep_table_remove (x_entity_path y) (oh_ep_table st)\<rparr>)))"

definition oh_uid_lookup :: "uid_state \<Rightarrow> SaHpiEntityPathT \<Rightarrow> u32" where
  "oh_uid_lookup st ep =
     (if \<not> oh_uid_is_initialized st then 0
      else case ep_table_lookup (oh_ep_table st) (norm_ep ep) of
             None \<Rightarrow> 0
           | Some x \<Rightarrow> x_resource_id x)"

definition oh_entity_path_lookup :: "uid_state \<Rightarrow> u32 \<Rightarrow> SaErrorT \<times> SaHpiEntityPathT option" where
  "oh_entity_path_lookup st rid =
     (if rid = 0 then (SA_ERR_HPI_ERROR, None)
      else if \<not> oh_uid_is_initialized st then (SA_ERR_HPI_ERROR, None)
      else case id_table_lookup (oh_resource_id_table st) rid of
             None \<Rightarrow> (SA_ERR_HPI_NOT_PRESENT, None)
           | Some x \<Rightarrow> (SA_OK, Some (x_entity_path x)))"

text \<open>\<open>build_uid_map_data\<close>: every record goes into both tables.\<close>

fun build_uid_map_data :: "EP_XREF list \<Rightarrow> uid_state \<Rightarrow> uid_state" where
  "build_uid_map_data [] st = st"
| "build_uid_map_data (x # xs) st =
     build_uid_map_data xs
       (st\<lparr>oh_ep_table := ep_table_insert x (oh_ep_table st),
           oh_resource_id_table := id_table_insert x (oh_resource_id_table st)\<rparr>)"

definition uid_map_from_file :: "uid_io \<Rightarrow> uid_state \<Rightarrow> bool \<times> uid_state" where
  "uid_map_from_file io st =
     (if \<not> oh_uid_map_file st then (True, st)
      else case (if can_open io then map_file st else None) of
             None \<Rightarrow>
               if \<not> can_create io then (False, st)
               else if \<not> write_id_ok io then (False, st\<lparr>map_file := Some (None, [])\<rparr>)
               else (True, st\<lparr>map_file := Some (Some (resource_id st), [])\<rparr>)
           | Some (None, _) \<Rightarrow> (False, st)
           | Some (Some rid, recs) \<Rightarrow>
               (\<not> read_error io, build_uid_map_data recs (st\<lparr>resource_id := rid\<rparr>)))"

definition oh_uid_initialize :: "uid_io \<Rightarrow> bool \<Rightarrow> uid_state \<Rightarrow> uid_state" where
  "oh_uid_initialize io use_file st =
     (if initialized st then st
      else let st1 = st\<lparr>oh_ep_table := [], oh_resource_id_table := [], initialized := True,
                        resource_id := 1, oh_uid_map_file := use_file\<rparr>;
               (ok, st2) = uid_map_from_file io st1
           in if ok then st2 else st2\<lparr>oh_uid_map_file := False\<rparr>)"

section \<open>Normalised paths\<close>

lemma up_to_root_length: "length (up_to_root es) \<le> length es"
  by (induction es) auto

lemma norm_ep_shape:
  assumes "ep_array ep"
  shows "norm_ep ep = up_to_root ep @ drop (length (up_to_root ep)) oh_init_ep"
  using concat_ep_shape [OF ep_array_init assms] up_to_root_length [of ep] assms
  by (simp add: norm_ep_def ep_abs_init ep_array_def Let_def)

lemma norm_ep_array [inv_intros]: "ep_array ep \<Longrightarrow> ep_array (norm_ep ep)"
  by (simp add: norm_ep_def ep_array_concat ep_array_init)

lemma norm_ep_abs [abs_simps]: "ep_array ep \<Longrightarrow> ep_abs (norm_ep ep) = ep_abs ep"
  using length_ep_abs [of ep] by (simp add: norm_ep_def ep_abs_concat ep_array_init ep_abs_init)

lemma up_to_root_append_root:
  "up_to_root (up_to_root es @ replicate n root_entity) =
    up_to_root es @ (if length (up_to_root es) = Suc (length (takeWhile not_root es)) then []
                     else up_to_root (replicate n root_entity))"
  by (induction es) (auto simp: root_entity_def)

lemma up_to_root_norm:
  assumes "ep_array ep"
  shows "up_to_root (norm_ep ep) = up_to_root ep"
proof (cases "length (up_to_root ep) = Suc (length (takeWhile not_root ep))")
  case True
  then show ?thesis
    unfolding norm_ep_shape [OF assms] oh_init_ep_def drop_replicate
    by (simp add: up_to_root_append_root)
next
  case False
  then have "up_to_root ep = ep" using root_in_up_to_root [of ep] by blast
  then show ?thesis
    using norm_ep_shape [OF assms] assms by (simp add: ep_array_def oh_init_ep_def)
qed

text \<open>On normalised paths the comparison is equality, so equal keys have equal hashes.\<close>

lemma same_key_norm:
  assumes "ep_array a" and "ep_array b" and "x_entity_path x = norm_ep a"
  shows "same_key (norm_ep b) x \<longleftrightarrow> norm_ep a = norm_ep b"
proof -
  have "oh_cmp_ep (norm_ep a) (norm_ep b) \<longleftrightarrow> up_to_root a = up_to_root b"
    using assms by (simp add: oh_cmp_ep_iff norm_ep_array up_to_root_norm)
  also have "\<dots> \<longleftrightarrow> norm_ep a = norm_ep b"
    using assms norm_ep_shape up_to_root_norm by metis
  finally show ?thesis
    using assms(3) by (auto simp: same_key_def oh_entity_path_equal_def)
qed


lemma norm_ep_idem: "ep_array a \<Longrightarrow> norm_ep (norm_ep a) = norm_ep a"
  using norm_ep_shape [OF norm_ep_array] norm_ep_shape up_to_root_norm by simp

section \<open>The invariant\<close>

definition norm_path :: "SaHpiEntityPathT \<Rightarrow> bool" where
  "norm_path p \<longleftrightarrow> ep_array p \<and> norm_ep p = p"

text \<open>Both tables hold the same cross references; ids and paths are unique.\<close>

definition xrefs_ok :: "EP_XREF list \<Rightarrow> bool" where
  "xrefs_ok t \<longleftrightarrow> distinct (map x_resource_id t) \<and> distinct (map x_entity_path t) \<and>
     list_all (\<lambda>x. x_resource_id x \<noteq> 0 \<and> norm_path (x_entity_path x)) t"

definition uid_wf :: "uid_state \<Rightarrow> bool" where
  "uid_wf st \<longleftrightarrow> initialized st \<and> oh_ep_table st = oh_resource_id_table st \<and>
     xrefs_ok (oh_resource_id_table st) \<and> resource_id st \<noteq> 0 \<and>
     list_all (\<lambda>x. x_resource_id x < resource_id st) (oh_resource_id_table st)"

lemma norm_path_norm [intro]: "ep_array a \<Longrightarrow> norm_path (norm_ep a)"
  by (simp add: norm_path_def norm_ep_array norm_ep_idem)

lemma same_key_path:
  "norm_path k \<Longrightarrow> norm_path (x_entity_path x) \<Longrightarrow> same_key k x \<longleftrightarrow> x_entity_path x = k"
  using same_key_norm [of "x_entity_path x" k x] by (auto simp: norm_path_def)

lemma find_cong_on: "(\<And>x. x \<in> set xs \<Longrightarrow> P x = Q x) \<Longrightarrow> find P xs = find Q xs"
  by (induction xs) auto

lemma find_key_None: "k \<notin> f ` set xs \<Longrightarrow> find (\<lambda>x. f x = k) xs = None"
  by (induction xs) auto

lemma ep_table_lookup_path:
  "xrefs_ok t \<Longrightarrow> norm_path k \<Longrightarrow> ep_table_lookup t k = find (\<lambda>x. x_entity_path x = k) t"
  unfolding ep_table_lookup_def
  by (rule find_cong_on) (simp add: same_key_path xrefs_ok_def list_all_iff)

lemma ep_table_remove_path:
  "xrefs_ok t \<Longrightarrow> norm_path k \<Longrightarrow> ep_table_remove k t = filter (\<lambda>x. x_entity_path x \<noteq> k) t"
  unfolding ep_table_remove_def
  by (rule filter_cong) (simp_all add: same_key_path xrefs_ok_def list_all_iff)

lemma ep_table_insert_new:
  "xrefs_ok t \<Longrightarrow> norm_path (x_entity_path x) \<Longrightarrow> x_entity_path x \<notin> x_entity_path ` set t \<Longrightarrow>
    ep_table_insert x t = t @ [x]"
  by (simp add: ep_table_insert_def ep_table_lookup_path find_key_None)

lemma id_table_insert_new:
  "x_resource_id x \<notin> x_resource_id ` set t \<Longrightarrow> id_table_insert x t = t @ [x]"
  by (simp add: id_table_insert_def id_table_lookup_def find_key_None)

lemma xrefs_ok_append:
  "xrefs_ok (t @ [x]) \<longleftrightarrow> xrefs_ok t \<and> x_resource_id x \<notin> x_resource_id ` set t \<and>
    x_entity_path x \<notin> x_entity_path ` set t \<and> x_resource_id x \<noteq> 0 \<and> norm_path (x_entity_path x)"
  by (auto simp: xrefs_ok_def)

lemma xrefs_ok_filter: "xrefs_ok t \<Longrightarrow> xrefs_ok (filter P t)"
  by (auto simp: xrefs_ok_def distinct_map_filter list_all_iff)

text \<open>In a table without duplicates the two keys select the same cross references.\<close>

lemma xrefs_ok_same:
  assumes "xrefs_ok t" and "x \<in> set t" and "y \<in> set t"
  shows "x_resource_id y = x_resource_id x \<longleftrightarrow> y = x" and "x_entity_path y = x_entity_path x \<longleftrightarrow> y = x"
  using assms distinct_map_inj [of x_resource_id t y x] distinct_map_inj [of x_entity_path t y x]
  by (auto simp: xrefs_ok_def)

lemma append_to_map_file_tables:
  "append_to_map_file io x st = (ok, st') \<Longrightarrow> st' = st\<lparr>map_file := map_file st'\<rparr>"
  by (auto simp: append_to_map_file_def split: if_splits option.splits)

lemma map_file_irrelevant [simp]: "uid_wf (st\<lparr>map_file := f\<rparr>) \<longleftrightarrow> uid_wf st"
  by (simp add: uid_wf_def)

text \<open>What an allocation does, on both branches.\<close>

lemma from_entity_path_known:
  assumes "uid_wf st" and "ep_array ep"
    and "find (\<lambda>x. x_entity_path x = norm_ep ep) (oh_ep_table st) = Some x"
  shows "oh_uid_from_entity_path io st ep = (x_resource_id x, st)"
  using assms by (simp add: oh_uid_from_entity_path_def oh_uid_is_initialized_def uid_wf_def
      ep_table_lookup_path norm_path_norm)

lemma from_entity_path_new:
  assumes wf: "uid_wf st" and ep: "ep_array ep"
    and new: "find (\<lambda>x. x_entity_path x = norm_ep ep) (oh_ep_table st) = None"
  shows "\<exists>f ok. oh_uid_from_entity_path io st ep = (if ok then resource_id st else 0,
    st\<lparr>resource_id := resource_id st + 1,
       oh_ep_table := oh_ep_table st @ [\<lparr>x_resource_id = resource_id st, x_entity_path = norm_ep ep\<rparr>],
       oh_resource_id_table :=
         oh_resource_id_table st @ [\<lparr>x_resource_id = resource_id st, x_entity_path = norm_ep ep\<rparr>],
       map_file := f\<rparr>)"
proof -
  let ?x = "\<lparr>x_resource_id = resource_id st, x_entity_path = norm_ep ep\<rparr>"
  let ?st = "st\<lparr>resource_id := resource_id st + 1, oh_ep_table := oh_ep_table st @ [?x],
    oh_resource_id_table := oh_resource_id_table st @ [?x]\<rparr>"
  have n: "norm_path (norm_ep ep)" using ep by blast
  have l: "ep_table_lookup (oh_ep_table st) (norm_ep ep) = None"
    using wf n new by (simp add: uid_wf_def ep_table_lookup_path)
  have e: "ep_table_insert ?x (oh_ep_table st) = oh_ep_table st @ [?x]"
    using wf n new by (auto intro!: ep_table_insert_new simp: uid_wf_def find_None_iff)
  have i: "id_table_insert ?x (oh_resource_id_table st) = oh_resource_id_table st @ [?x]"
    using wf by (auto intro!: id_table_insert_new simp: uid_wf_def list_all_iff)
  obtain ok st' where a: "append_to_map_file io ?x ?st = (ok, st')" by force
  have "oh_uid_from_entity_path io st ep = (if ok then resource_id st else 0, st')"
    using wf l e i a
    by (simp add: oh_uid_from_entity_path_def oh_uid_is_initialized_def uid_wf_def Let_def)
  moreover have "st' = ?st\<lparr>map_file := map_file st'\<rparr>" using append_to_map_file_tables [OF a] .
  ultimately show ?thesis by (intro exI [of _ "map_file st'"] exI [of _ ok]) simp
qed

lemma uid_wf_extend:
  assumes wf: "uid_wf st" and n: "norm_path p" and ep: "p \<notin> x_entity_path ` set (oh_ep_table st)"
    and nw: "resource_id st + 1 \<noteq> 0"
  shows "uid_wf (st\<lparr>resource_id := resource_id st + 1,
    oh_ep_table := oh_ep_table st @ [\<lparr>x_resource_id = resource_id st, x_entity_path = p\<rparr>],
    oh_resource_id_table :=
      oh_resource_id_table st @ [\<lparr>x_resource_id = resource_id st, x_entity_path = p\<rparr>]\<rparr>)"
proof -
  have lt: "resource_id st < resource_id st + 1" using nw by (simp add: word_less_succ)
  show ?thesis
    using wf n ep nw lt
    by (auto simp: uid_wf_def xrefs_ok_append list_all_iff dest: order.strict_trans)
qed

lemma from_entity_path_wf [inv_intros]:
  assumes wf: "uid_wf st" and ep: "ep_array ep" and nw: "resource_id st + 1 \<noteq> 0"
  shows "uid_wf (snd (oh_uid_from_entity_path io st ep))"
proof (cases "find (\<lambda>x. x_entity_path x = norm_ep ep) (oh_ep_table st)")
  case None
  then have "norm_ep ep \<notin> x_entity_path ` set (oh_ep_table st)" by (auto simp: find_None_iff)
  with ep have "uid_wf (st\<lparr>resource_id := resource_id st + 1,
    oh_ep_table := oh_ep_table st @ [\<lparr>x_resource_id = resource_id st, x_entity_path = norm_ep ep\<rparr>],
    oh_resource_id_table := oh_resource_id_table st @
      [\<lparr>x_resource_id = resource_id st, x_entity_path = norm_ep ep\<rparr>]\<rparr>)"
    using uid_wf_extend [OF wf _ _ nw] by blast
  then show ?thesis using from_entity_path_new [OF wf ep None, of io] by auto
next
  case (Some x)
  then show ?thesis using from_entity_path_known [OF wf ep] wf by simp
qed

text \<open>A removal takes the cross reference out of both tables.\<close>

lemma map_to_file_tables:
  "snd (oh_uid_map_to_file io ord st) = st\<lparr>map_file := map_file (snd (oh_uid_map_to_file io ord st))\<rparr>"
  by (simp add: oh_uid_map_to_file_def)

lemma filter_one_key:
  assumes "xrefs_ok t" and "x \<in> set t"
  shows "filter (\<lambda>y. x_entity_path y \<noteq> x_entity_path x) t = filter (\<lambda>y. x_resource_id y \<noteq> x_resource_id x) t"
  using xrefs_ok_same [OF assms] by (intro filter_cong) auto

lemma uid_remove_tables:
  assumes wf: "uid_wf st"
  shows "\<exists>f. snd (oh_uid_remove io ord st uid) =
    st\<lparr>oh_resource_id_table := filter (\<lambda>x. x_resource_id x \<noteq> uid) (oh_resource_id_table st),
       oh_ep_table := filter (\<lambda>x. x_resource_id x \<noteq> uid) (oh_ep_table st),
       map_file := f\<rparr>"
proof (cases "find (\<lambda>x. x_resource_id x = uid) (oh_resource_id_table st)")
  case None
  then have "filter (\<lambda>x. x_resource_id x \<noteq> uid) (oh_resource_id_table st) = oh_resource_id_table st"
    by (auto simp: find_None_iff filter_id_conv)
  then show ?thesis using None wf
    by (intro exI [of _ "map_file st"])
      (simp add: oh_uid_remove_def oh_uid_is_initialized_def uid_wf_def id_table_lookup_def)
next
  case (Some x)
  let ?t = "oh_resource_id_table st"
  let ?s = "st\<lparr>oh_resource_id_table := filter (\<lambda>x. x_resource_id x \<noteq> uid) ?t,
    oh_ep_table := filter (\<lambda>x. x_resource_id x \<noteq> uid) ?t\<rparr>"
  have x: "x \<in> set ?t" "x_resource_id x = uid" using find_Some_in [OF Some] by auto
  have ok: "xrefs_ok ?t" "oh_ep_table st = ?t" using wf by (simp_all add: uid_wf_def)
  have n: "norm_path (x_entity_path x)" using ok x by (simp add: xrefs_ok_def list_all_iff)
  have l: "ep_table_lookup ?t (x_entity_path x) = Some x"
    unfolding ep_table_lookup_path [OF ok(1) n]
    using xrefs_ok_same(2) [OF ok(1) x(1)] x(1) by (intro find_unique) auto
  have "oh_uid_remove io ord st uid = oh_uid_map_to_file io ord ?s"
    using wf Some ok l x filter_one_key [OF ok(1) x(1)] ep_table_remove_path [OF ok(1) n]
    by (simp add: oh_uid_remove_def oh_uid_is_initialized_def uid_wf_def id_table_lookup_def
        id_table_remove_def)
  then show ?thesis using map_to_file_tables [of io ord ?s] ok by auto
qed

lemma uid_remove_wf [inv_intros]:
  assumes "uid_wf st"
  shows "uid_wf (snd (oh_uid_remove io ord st uid))"
proof -
  have "uid_wf (st\<lparr>oh_resource_id_table := filter (\<lambda>x. x_resource_id x \<noteq> uid) (oh_resource_id_table st),
      oh_ep_table := filter (\<lambda>x. x_resource_id x \<noteq> uid) (oh_ep_table st)\<rparr>)"
    using assms by (auto simp: uid_wf_def xrefs_ok_filter list_all_iff)
  then show ?thesis using uid_remove_tables [OF assms, of io ord uid] by auto
qed

section \<open>Runs\<close>

text \<open>The calls of a running daemon, as long as the id counter does not wrap around.\<close>

inductive uid_step :: "uid_state \<Rightarrow> uid_state \<Rightarrow> bool" where
  allocate: "ep_array ep \<Longrightarrow> resource_id st + 1 \<noteq> 0 \<Longrightarrow>
     uid_step st (snd (oh_uid_from_entity_path io st ep))"
| remove: "uid_step st (snd (oh_uid_remove io ord st uid))"

inductive_cases uid_stepE: "uid_step st st'"

lemma uid_step_wf: "uid_step st st' \<Longrightarrow> uid_wf st \<Longrightarrow> uid_wf st'"
  by (auto elim!: uid_stepE intro: inv_intros)

text \<open>An id that was handed out before and is not in the table stays out of it.\<close>

definition retired :: "u32 \<Rightarrow> uid_state \<Rightarrow> bool" where
  "retired uid st \<longleftrightarrow> uid < resource_id st \<and> uid \<notin> x_resource_id ` set (oh_resource_id_table st)"

lemma retired_step:
  assumes "uid_step st st'" and wf: "uid_wf st" and r: "retired uid st"
  shows "retired uid st'"
  using assms(1)
proof cases
  case (allocate ep io)
  have lt: "resource_id st < resource_id st + 1" using allocate by (simp add: word_less_succ)
  show ?thesis
  proof (cases "find (\<lambda>x. x_entity_path x = norm_ep ep) (oh_ep_table st)")
    case None
    from from_entity_path_new [OF wf allocate(2) None, of io] lt r show ?thesis
      unfolding allocate(1) by (auto simp: retired_def dest: order.strict_trans)
  next
    case (Some x)
    then show ?thesis unfolding allocate(1) using from_entity_path_known [OF wf allocate(2)] r by simp
  qed
next
  case (remove io ord kid)
  then show ?thesis
    using uid_remove_tables [OF wf, of io ord kid] r by (auto simp: retired_def)
qed

lemma retired_run:
  assumes "uid_step\<^sup>*\<^sup>* st st'" and "uid_wf st" and "retired uid st"
  shows "uid_wf st' \<and> retired uid st'"
  using assms by (induction) (auto intro: retired_step uid_step_wf)

lemma retired_remove:
  assumes "uid_wf st" and "uid < resource_id st"
  shows "retired uid (snd (oh_uid_remove io ord st uid))"
  using uid_remove_tables [OF assms(1), of io ord uid] assms(2) by (auto simp: retired_def)

lemma retired_not_given:
  assumes wf: "uid_wf st" and "retired uid st" and "uid \<noteq> 0" and "ep_array ep"
  shows "fst (oh_uid_from_entity_path io st ep) \<noteq> uid"
proof (cases "find (\<lambda>x. x_entity_path x = norm_ep ep) (oh_ep_table st)")
  case None
  then show ?thesis
    using from_entity_path_new [OF wf assms(4) None, of io] assms
    by (auto simp: retired_def split: if_splits)
next
  case (Some x)
  then have "x \<in> set (oh_resource_id_table st)" using wf by (auto simp: uid_wf_def dest: find_Some_in)
  then show ?thesis
    using from_entity_path_known [OF wf assms(4) Some] assms by (auto simp: retired_def)
qed


section \<open>The map file\<close>

text \<open>The file holds the id counter and, in some order, the cross references.\<close>

definition file_synced :: "uid_state \<Rightarrow> bool" where
  "file_synced st \<longleftrightarrow> oh_uid_map_file st \<and>
     (case map_file st of
        Some (Some rid, recs) \<Rightarrow> rid = resource_id st \<and> mset recs = mset (oh_resource_id_table st)
      | _ \<Rightarrow> False)"

definition files_work :: "uid_io \<Rightarrow> bool" where
  "files_work io \<longleftrightarrow> can_open io \<and> can_create io \<and> write_xref_ok io \<and> write_id_ok io \<and> \<not> read_error io"

lemma from_entity_path_synced:
  assumes wf: "uid_wf st" and ep: "ep_array ep" and fs: "file_synced st" and ok: "files_work io"
  shows "file_synced (snd (oh_uid_from_entity_path io st ep))"
proof (cases "find (\<lambda>x. x_entity_path x = norm_ep ep) (oh_ep_table st)")
  case None
  let ?x = "\<lparr>x_resource_id = resource_id st, x_entity_path = norm_ep ep\<rparr>"
  have n: "norm_path (norm_ep ep)" using ep by blast
  have l: "ep_table_lookup (oh_ep_table st) (norm_ep ep) = None"
    using wf n None by (simp add: uid_wf_def ep_table_lookup_path)
  have i: "id_table_insert ?x (oh_resource_id_table st) = oh_resource_id_table st @ [?x]"
    using wf by (auto intro!: id_table_insert_new simp: uid_wf_def list_all_iff)
  obtain recs where "map_file st = Some (Some (resource_id st), recs)"
      "mset recs = mset (oh_resource_id_table st)" "oh_uid_map_file st"
    using fs by (auto simp: file_synced_def split: option.splits)
  then show ?thesis using wf l i ok
    by (simp add: oh_uid_from_entity_path_def oh_uid_is_initialized_def uid_wf_def Let_def
        append_to_map_file_def files_work_def file_synced_def)
next
  case (Some x)
  then show ?thesis using from_entity_path_known [OF wf ep] fs by simp
qed

lemma map_to_file_synced:
  assumes "files_work io" and "\<And>xs. mset (ord xs) = mset xs" and "oh_uid_map_file st"
  shows "file_synced (snd (oh_uid_map_to_file io ord st))"
  using assms by (simp add: oh_uid_map_to_file_def files_work_def file_synced_def)

lemma uid_remove_synced:
  assumes fs: "file_synced st" and ok: "files_work io" and ord: "\<And>xs. mset (ord xs) = mset xs"
  shows "file_synced (snd (oh_uid_remove io ord st uid))"
proof -
  have "oh_uid_map_file st" using fs by (simp add: file_synced_def)
  then show ?thesis
    using fs map_to_file_synced [OF ok ord] by (simp add: oh_uid_remove_def split: option.splits)
qed

text \<open>Reading the file back.\<close>

lemma build_uid_map_data_tables:
  assumes "xrefs_ok (oh_resource_id_table st @ recs)" and "oh_ep_table st = oh_resource_id_table st"
  shows "build_uid_map_data recs st =
    st\<lparr>oh_ep_table := oh_ep_table st @ recs, oh_resource_id_table := oh_resource_id_table st @ recs\<rparr>"
  using assms
proof (induction recs arbitrary: st)
  case Nil
  then show ?case by simp
next
  case (Cons x recs)
  let ?t = "oh_resource_id_table st"
  have ok: "xrefs_ok ?t" "norm_path (x_entity_path x)"
      "x_entity_path x \<notin> x_entity_path ` set ?t" "x_resource_id x \<notin> x_resource_id ` set ?t"
    using Cons.prems(1) by (auto simp: xrefs_ok_def)
  show ?case
    using Cons.IH [of "st\<lparr>oh_ep_table := ?t @ [x], oh_resource_id_table := ?t @ [x]\<rparr>"]
      Cons.prems ep_table_insert_new [OF ok(1-3)] id_table_insert_new [OF ok(4)]
    by simp
qed

lemma distinct_map_mset:
  assumes "mset xs = mset ys"
  shows "distinct (map f xs) = distinct (map f ys)"
proof -
  have "mset (map f xs) = mset (map f ys)" using assms by simp
  then show ?thesis by (rule mset_eq_imp_distinct_iff)
qed

lemma xrefs_ok_mset: "mset xs = mset ys \<Longrightarrow> xrefs_ok xs = xrefs_ok ys"
  unfolding xrefs_ok_def list_all_iff
  using distinct_map_mset [of xs ys x_resource_id] distinct_map_mset [of xs ys x_entity_path]
    mset_eq_setD [of xs ys] by blast

lemma find_key_mset:
  assumes m: "mset xs = mset ys" and dx: "distinct (map f xs)"
  shows "find (\<lambda>x. f x = k) xs = find (\<lambda>x. f x = k) ys"
proof (cases "find (\<lambda>x. f x = k) xs")
  case None
  have "\<forall>x \<in> set xs. f x \<noteq> k" using None unfolding find_None_iff by blast
  then have "find (\<lambda>x. f x = k) ys = None"
    using mset_eq_setD [OF m] unfolding find_None_iff by blast
  with None show ?thesis by simp
next
  case (Some x)
  have x: "x \<in> set ys" "f x = k" using find_Some_in [OF Some] mset_eq_setD [OF m] by simp_all
  have d: "distinct (map f ys)" using dx distinct_map_mset [OF m, of f] by simp
  have "find (\<lambda>x. f x = k) ys = Some x"
  proof (rule find_unique [of x ys "\<lambda>x. f x = k", OF x])
    fix y assume "y \<in> set ys" "f y = k"
    then show "y = x" using distinct_map_inj [OF d _ x(1)] x(2) by simp
  qed
  with Some show ?thesis by simp
qed

text \<open>A process that starts with the map file of \<open>st\<close>.\<close>

definition fresh_process :: "uid_state \<Rightarrow> uid_state" where
  "fresh_process st = \<lparr>initialized = False, oh_ep_table = [], oh_resource_id_table = [],
     resource_id = 0, oh_uid_map_file = False, map_file = map_file st\<rparr>"

lemma restart:
  assumes wf: "uid_wf st" and fs: "file_synced st" and ok: "files_work io"
  shows "\<exists>recs. oh_uid_initialize io True (fresh_process st) =
    st\<lparr>oh_ep_table := recs, oh_resource_id_table := recs\<rparr> \<and> mset recs = mset (oh_resource_id_table st)"
proof -
  obtain recs where f: "map_file st = Some (Some (resource_id st), recs)" "oh_uid_map_file st"
      "mset recs = mset (oh_resource_id_table st)"
    using fs by (auto simp: file_synced_def split: option.splits)
  have "xrefs_ok recs" using wf xrefs_ok_mset [OF f(3)] by (simp add: uid_wf_def)
  then have "oh_uid_initialize io True (fresh_process st) =
      st\<lparr>oh_ep_table := recs, oh_resource_id_table := recs\<rparr>"
    using ok f(1,2) wf
    by (simp add: oh_uid_initialize_def fresh_process_def uid_map_from_file_def files_work_def
        build_uid_map_data_tables uid_wf_def Let_def)
  with f(3) show ?thesis by blast
qed

section \<open>What the lookups answer\<close>

lemma uid_lookup_find:
  "uid_wf st \<Longrightarrow> ep_array ep \<Longrightarrow> oh_uid_lookup st ep =
    (case find (\<lambda>x. x_entity_path x = norm_ep ep) (oh_resource_id_table st) of
       None \<Rightarrow> 0 | Some x \<Rightarrow> x_resource_id x)"
  by (simp add: oh_uid_lookup_def oh_uid_is_initialized_def uid_wf_def ep_table_lookup_path
      norm_path_norm)

lemma entity_path_lookup_find:
  "uid_wf st \<Longrightarrow> rid \<noteq> 0 \<Longrightarrow> oh_entity_path_lookup st rid =
    (case find (\<lambda>x. x_resource_id x = rid) (oh_resource_id_table st) of
       None \<Rightarrow> (SA_ERR_HPI_NOT_PRESENT, None) | Some x \<Rightarrow> (SA_OK, Some (x_entity_path x)))"
  by (simp add: oh_entity_path_lookup_def oh_uid_is_initialized_def uid_wf_def id_table_lookup_def)

lemma find_append: "find P (xs @ ys) = (case find P xs of None \<Rightarrow> find P ys | Some x \<Rightarrow> Some x)"
  by (induction xs) auto

lemma norm_ep_eq_iff:
  "ep_array a \<Longrightarrow> ep_array b \<Longrightarrow> norm_ep a = norm_ep b \<longleftrightarrow> up_to_root a = up_to_root b"
  by (metis norm_ep_shape up_to_root_norm)

lemma find_key_in:
  assumes "distinct (map f xs)" and "x \<in> set xs" and "f x = k"
  shows "find (\<lambda>y. f y = k) xs = Some x"
  using assms by (induction xs) (auto simp: image_iff)

lemma uid_lookup_in:
  assumes wf: "uid_wf st" and x: "x \<in> set (oh_resource_id_table st)"
    and ep: "ep_array ep" "x_entity_path x = norm_ep ep"
  shows "oh_uid_lookup st ep = x_resource_id x"
    and "oh_entity_path_lookup st (x_resource_id x) = (SA_OK, Some (norm_ep ep))"
proof -
  let ?t = "oh_resource_id_table st"
  have ok: "xrefs_ok ?t" using wf by (simp add: uid_wf_def)
  have nz: "x_resource_id x \<noteq> 0" using ok x by (simp add: xrefs_ok_def list_all_iff)
  have "find (\<lambda>y. x_entity_path y = norm_ep ep) ?t = Some x"
    using ok x ep by (intro find_key_in) (simp_all add: xrefs_ok_def)
  then show "oh_uid_lookup st ep = x_resource_id x" using uid_lookup_find [OF wf ep(1)] by simp
  have "find (\<lambda>y. x_resource_id y = x_resource_id x) ?t = Some x"
    using ok x by (intro find_key_in) (simp_all add: xrefs_ok_def)
  then show "oh_entity_path_lookup st (x_resource_id x) = (SA_OK, Some (norm_ep ep))"
    using entity_path_lookup_find [OF wf nz] ep by simp
qed

lemma uid_lookup_nz:
  assumes "uid_wf st" and "ep_array ep" and "oh_uid_lookup st ep \<noteq> 0"
  obtains x where "x \<in> set (oh_resource_id_table st)" "x_entity_path x = norm_ep ep"
    "x_resource_id x = oh_uid_lookup st ep"
proof -
  obtain x where x: "find (\<lambda>x. x_entity_path x = norm_ep ep) (oh_resource_id_table st) = Some x"
      "x_resource_id x = oh_uid_lookup st ep"
    using assms uid_lookup_find [OF assms(1,2)] by (auto split: option.splits)
  with find_Some_in [OF x(1)] that show ?thesis by blast
qed

lemma uid_lookup_inj:
  assumes wf: "uid_wf st" and a: "ep_array a" and b: "ep_array b"
    and eq: "oh_uid_lookup st a = oh_uid_lookup st b" "oh_uid_lookup st a \<noteq> 0"
  shows "up_to_root a = up_to_root b"
proof -
  obtain x where x: "x \<in> set (oh_resource_id_table st)" "x_entity_path x = norm_ep a"
      "x_resource_id x = oh_uid_lookup st a" using uid_lookup_nz [OF wf a eq(2)] .
  obtain y where y: "y \<in> set (oh_resource_id_table st)" "x_entity_path y = norm_ep b"
      "x_resource_id y = oh_uid_lookup st b" using uid_lookup_nz [OF wf b] eq by auto
  have "xrefs_ok (oh_resource_id_table st)" using wf by (simp add: uid_wf_def)
  from xrefs_ok_same(1) [OF this x(1) y(1)] have "y = x" using x y eq by simp
  with x y show ?thesis using norm_ep_eq_iff [OF a b] by simp
qed

text \<open>After an allocation the table holds the path; every other path is looked up as before.\<close>

lemma from_entity_path_tables:
  assumes wf: "uid_wf st" and ep: "ep_array ep"
    and c: "oh_uid_from_entity_path io st ep = (ruid, st')"
  obtains x where "x \<in> set (oh_resource_id_table st')" "x_entity_path x = norm_ep ep"
    "ruid = 0 \<or> ruid = x_resource_id x"
    "\<And>k. k \<noteq> norm_ep ep \<Longrightarrow> find (\<lambda>x. x_entity_path x = k) (oh_resource_id_table st') =
       find (\<lambda>x. x_entity_path x = k) (oh_resource_id_table st)"
proof (cases "find (\<lambda>x. x_entity_path x = norm_ep ep) (oh_ep_table st)")
  case None
  from from_entity_path_new [OF wf ep None, of io] c show ?thesis
    by (intro that [of "\<lparr>x_resource_id = resource_id st, x_entity_path = norm_ep ep\<rparr>"])
      (auto simp: find_append split: if_splits option.splits)
next
  case (Some x)
  have "x \<in> set (oh_resource_id_table st)" "x_entity_path x = norm_ep ep"
    using find_Some_in [OF Some] wf by (auto simp: uid_wf_def)
  then show ?thesis using from_entity_path_known [OF wf ep Some] c by (intro that [of x]) auto
qed

lemma restart_lookups:
  assumes wf: "uid_wf st" and fs: "file_synced st" and ok: "files_work io" and ep: "ep_array ep"
  shows "oh_uid_lookup (oh_uid_initialize io True (fresh_process st)) ep = oh_uid_lookup st ep"
    and "resource_id (oh_uid_initialize io True (fresh_process st)) = resource_id st"
proof -
  obtain recs where r: "oh_uid_initialize io True (fresh_process st) =
      st\<lparr>oh_ep_table := recs, oh_resource_id_table := recs\<rparr>"
      "mset recs = mset (oh_resource_id_table st)" using restart [OF wf fs ok] by blast
  have x: "xrefs_ok recs" using xrefs_ok_mset [OF r(2)] wf by (simp add: uid_wf_def)
  have wf': "uid_wf (st\<lparr>oh_ep_table := recs, oh_resource_id_table := recs\<rparr>)"
    using wf x mset_eq_setD [OF r(2)] by (simp add: uid_wf_def list_all_iff)
  have "distinct (map x_entity_path recs)" using x by (simp add: xrefs_ok_def)
  from find_key_mset [OF r(2) this]
  show "oh_uid_lookup (oh_uid_initialize io True (fresh_process st)) ep = oh_uid_lookup st ep"
    unfolding r(1) uid_lookup_find [OF wf' ep] uid_lookup_find [OF wf ep] by simp
  show "resource_id (oh_uid_initialize io True (fresh_process st)) = resource_id st"
    unfolding r(1) by simp
qed

text \<open>A history of calls, all of whose file accesses succeed.\<close>

datatype uid_call = Allocate SaHpiEntityPathT | Remove u32

fun uid_calls ::
    "uid_io \<Rightarrow> (EP_XREF list \<Rightarrow> EP_XREF list) \<Rightarrow> uid_call list \<Rightarrow> uid_state \<Rightarrow> uid_state"
where
  "uid_calls io ord [] st = st"
| "uid_calls io ord (Allocate ep # cs) st =
     uid_calls io ord cs (snd (oh_uid_from_entity_path io st ep))"
| "uid_calls io ord (Remove uid # cs) st =
     uid_calls io ord cs (snd (oh_uid_remove io ord st uid))"

fun call_ok :: "uid_call \<Rightarrow> bool" where
  "call_ok (Allocate ep) = ep_array ep"
| "call_ok (Remove uid) = True"

lemma resource_id_step:
  assumes "uid_wf st" and "ep_array ep"
  shows "resource_id (snd (oh_uid_from_entity_path io st ep)) = resource_id st \<or>
    resource_id (snd (oh_uid_from_entity_path io st ep)) = resource_id st + 1"
proof (cases "find (\<lambda>x. x_entity_path x = norm_ep ep) (oh_ep_table st)")
  case None
  then show ?thesis using from_entity_path_new [OF assms None, of io] by auto
next
  case (Some x)
  then show ?thesis using from_entity_path_known [OF assms Some] by simp
qed

lemma uid_calls_keep:
  assumes "uid_wf st" and "file_synced st" and io: "files_work io"
    and ord: "\<And>xs. mset (ord xs) = mset xs"
    and "list_all call_ok cs" and "unat (resource_id st) + length cs < 2 ^ 32"
  shows "uid_wf (uid_calls io ord cs st) \<and> file_synced (uid_calls io ord cs st)"
  using assms(1,2,5,6)
proof (induction cs arbitrary: st)
  case Nil
  then show ?case by simp
next
  case (Cons c cs)
  show ?case
  proof (cases c)
    case (Allocate ep)
    have nw: "unat (resource_id st + 1) = unat (resource_id st) + 1"
      using Cons.prems(4) by (simp add: unat_word_ariths)
    then have nz: "resource_id st + 1 \<noteq> 0" by (metis Suc_eq_plus1 nat.simps(3) unat_0)
    have ep: "ep_array ep" using Cons.prems(3) Allocate by simp
    let ?st = "snd (oh_uid_from_entity_path io st ep)"
    have "unat (resource_id ?st) + length cs < 2 ^ 32"
      using resource_id_step [OF Cons.prems(1) ep, of io] nw Cons.prems(4) by auto
    then show ?thesis
      using Cons.IH [of ?st] from_entity_path_wf [OF Cons.prems(1) ep nz]
        from_entity_path_synced [OF Cons.prems(1) ep Cons.prems(2) io] Cons.prems(3) Allocate
      by simp
  next
    case (Remove uid)
    have "resource_id (snd (oh_uid_remove io ord st uid)) = resource_id st"
      using uid_remove_tables [OF Cons.prems(1), of io ord uid] by auto
    then show ?thesis
      using Cons Remove uid_remove_wf uid_remove_synced [OF _ io ord] by simp
  qed
qed

section \<open>Properties\<close>

text \<open>An allocation keeps the tables consistent; afterwards the path and its id look each
  other up, the id returned is the one in the table (or 0 when the map file could not be
  written), and no other path has lost or changed its id.\<close>

lemma uid_allocate:
  assumes "uid_wf st" and "ep_array ep" and "resource_id st + 1 \<noteq> 0"
    and "oh_uid_from_entity_path io st ep = (ruid, st')"
  shows "uid_wf st' \<and> (ruid = 0 \<or> oh_uid_lookup st' ep = ruid) \<and>
    oh_entity_path_lookup st' (oh_uid_lookup st' ep) = (SA_OK, Some (norm_ep ep)) \<and>
    ep_abs (norm_ep ep) = ep_abs ep \<and>
    (\<forall>other. ep_array other \<longrightarrow> up_to_root other \<noteq> up_to_root ep \<longrightarrow>
       oh_uid_lookup st' other = oh_uid_lookup st other)"
proof -
  obtain x where x: "x \<in> set (oh_resource_id_table st')" "x_entity_path x = norm_ep ep"
      "ruid = 0 \<or> ruid = x_resource_id x"
      "\<And>k. k \<noteq> norm_ep ep \<Longrightarrow> find (\<lambda>x. x_entity_path x = k) (oh_resource_id_table st') =
         find (\<lambda>x. x_entity_path x = k) (oh_resource_id_table st)"
    using from_entity_path_tables [OF assms(1,2,4)] by blast
  have wf: "uid_wf st'" using from_entity_path_wf [OF assms(1-3), of io] assms(4) by simp
  have "oh_uid_lookup st' other = oh_uid_lookup st other"
    if "ep_array other" "up_to_root other \<noteq> up_to_root ep" for other
    using x(4) [of "norm_ep other"] that norm_ep_eq_iff [OF that(1) assms(2)]
    by (simp add: uid_lookup_find [OF wf that(1)] uid_lookup_find [OF assms(1) that(1)])
  then show ?thesis
    using wf x(3) uid_lookup_in [OF wf x(1) assms(2) x(2)] norm_ep_abs [OF assms(2)] by auto
qed

definition uid_demo :: uid_state where
  "uid_demo = \<lparr>initialized = True, oh_ep_table = [], oh_resource_id_table = [], resource_id = 1,
     oh_uid_map_file = True, map_file = Some (Some 1, [])\<rparr>"

definition io_demo :: uid_io where
  "io_demo = \<lparr>can_open = True, can_create = True, write_xref_ok = True, write_id_ok = True,
     read_error = False\<rparr>"

lemma uid_allocate_witness:
  "oh_uid_lookup (snd (oh_uid_from_entity_path io_demo uid_demo (mk_ep [(3, 1)]))) (mk_ep [(3, 1)]) = 1"
proof -
  have h: "uid_wf uid_demo" "ep_array (mk_ep [(3, 1)])" "resource_id uid_demo + 1 \<noteq> 0"
    by code_simp+
  have "fst (oh_uid_from_entity_path io_demo uid_demo (mk_ep [(3, 1)])) = 1" by code_simp
  with uid_allocate [OF h prod.collapse [symmetric], of io_demo] show ?thesis by auto
qed

text \<open>Two paths that share a resource id are the same path up to the root element, so a
  resource id identifies one entity path.\<close>

lemma uid_unique:
  assumes "uid_wf st" and "ep_array a" and "ep_array b"
    and "oh_uid_lookup st a = oh_uid_lookup st b" and "oh_uid_lookup st a \<noteq> 0"
  shows "up_to_root a = up_to_root b \<and> ep_abs a = ep_abs b"
  using uid_lookup_inj [OF assms] by (metis ep_abs_def takeWhile_up_to_root)

definition uid_demo2 :: uid_state where
  "uid_demo2 = snd (oh_uid_from_entity_path io_demo uid_demo (mk_ep [(3, 1)]))"

lemma uid_unique_witness:
  "ep_abs (mk_ep [(3, 1)]) = ep_abs (mk_ep [(3, 1), (0xFFFF, 0), (7, 7)])"
proof -
  have "uid_wf uid_demo2" "ep_array (mk_ep [(3, 1)])" "ep_array (mk_ep [(3, 1), (0xFFFF, 0), (7, 7)])"
    "oh_uid_lookup uid_demo2 (mk_ep [(3, 1)]) =
       oh_uid_lookup uid_demo2 (mk_ep [(3, 1), (0xFFFF, 0), (7, 7)])"
    "oh_uid_lookup uid_demo2 (mk_ep [(3, 1)]) \<noteq> 0"
    by code_simp+
  from uid_unique [OF this] show ?thesis by simp
qed

text \<open>Removing an id retires it for good. In every state the daemon reaches afterwards by
  allocations and removals, with whatever outcome of the file accesses, the id has no path and
  no allocation returns it, even for the path it stood for.\<close>

lemma uid_retired:
  assumes "uid_wf st" and "uid < resource_id st" and "uid \<noteq> 0"
    and "uid_step\<^sup>*\<^sup>* (snd (oh_uid_remove io ord st uid)) st'"
  shows "uid_wf st' \<and> oh_entity_path_lookup st' uid = (SA_ERR_HPI_NOT_PRESENT, None) \<and>
    (\<forall>ep io'. ep_array ep \<longrightarrow> fst (oh_uid_from_entity_path io' st' ep) \<noteq> uid)"
proof -
  have r: "uid_wf st' \<and> retired uid st'"
    using retired_run [OF assms(4) uid_remove_wf [OF assms(1)] retired_remove [OF assms(1,2)]] .
  then have "uid \<notin> x_resource_id ` set (oh_resource_id_table st')" by (simp add: retired_def)
  then have "find (\<lambda>x. x_resource_id x = uid) (oh_resource_id_table st') = None"
    by (rule find_key_None)
  then show ?thesis
    using r entity_path_lookup_find [of st' uid] retired_not_given [of st' uid] assms(3) by auto
qed

lemma uid_retired_witness:
  "fst (oh_uid_from_entity_path io_demo (snd (oh_uid_remove io_demo rev uid_demo2 1)) (mk_ep [(3, 1)])) \<noteq> 1"
proof -
  have h: "uid_wf uid_demo2" "1 < resource_id uid_demo2" "ep_array (mk_ep [(3, 1)])" by code_simp+
  show ?thesis using uid_retired [OF h(1,2) _ rtranclp.rtrancl_refl, of io_demo rev] h(3) by simp
qed

text \<open>C23: resource ids survive a restart. After any history of allocations and removals, within the
  2^32 ids that there are, whose file accesses succeed, a new process that reads the map file gives every entity path the id it
  had, in whatever order \<^verbatim>\<open>g_hash_table_foreach\<close> wrote the records, and goes on counting where
  the old one stopped.\<close>

theorem uid_restart:
  assumes "uid_wf st" and "file_synced st" and "files_work io"
    and "\<forall>xs. mset (ord xs) = mset xs" and "list_all call_ok cs"
    and "unat (resource_id st) + length cs < 2 ^ 32" and "ep_array ep"
  shows "oh_uid_lookup (oh_uid_initialize io True (fresh_process (uid_calls io ord cs st))) ep =
      oh_uid_lookup (uid_calls io ord cs st) ep \<and>
    resource_id (oh_uid_initialize io True (fresh_process (uid_calls io ord cs st))) =
      resource_id (uid_calls io ord cs st)"
proof -
  have "uid_wf (uid_calls io ord cs st) \<and> file_synced (uid_calls io ord cs st)"
    using assms by (intro uid_calls_keep) auto
  then show ?thesis using restart_lookups assms(3,7) by blast
qed

theorem uid_restart_witness:
  "oh_uid_lookup (oh_uid_initialize io_demo True (fresh_process
     (uid_calls io_demo rev [Allocate (mk_ep [(3, 1)]), Allocate (mk_ep [(4, 1)]), Remove 1] uid_demo)))
     (mk_ep [(4, 1)]) = 2"
proof -
  let ?cs = "[Allocate (mk_ep [(3, 1)]), Allocate (mk_ep [(4, 1)]), Remove 1]"
  have h: "uid_wf uid_demo" "files_work io_demo" "list_all call_ok ?cs" "ep_array (mk_ep [(4, 1)])"
    by code_simp+
  have f: "file_synced uid_demo" "unat (resource_id uid_demo) + length ?cs < 2 ^ 32"
    by (simp_all add: file_synced_def uid_demo_def)
  have "oh_uid_lookup (uid_calls io_demo rev ?cs uid_demo) (mk_ep [(4, 1)]) = 2" by code_simp
  then show ?thesis using uid_restart [OF h(1) f(1) h(2) _ h(3) f(2) h(4), of rev] by simp
qed

end
