(* ===== verification/NodeTable.thy ===== *)
theory NodeTable
  imports HpiTypes
begin

text \<open>
  The RPT keeps every collection twice: a GSList for the order and a GHashTable from the
  32-bit id of an element to its list node (\<^verbatim>\<open>rptlist\<close>/\<^verbatim>\<open>rptable\<close> and \<^verbatim>\<open>rdrlist\<close>/\<^verbatim>\<open>rdrtable\<close>
  in \<^verbatim>\<open>utils/rpt_utils.c\<close>). This theory models that pair of GLib structures once. A node is an
  address; the hash table stores addresses, and its key is a pointer into the element, so a
  lookup also compares the id that the element holds now. The invariant \<open>nt_inv\<close> says that the
  two structures agree, \<open>nt_abs\<close> is the ordered list of (id, element) pairs they stand for, and
  the locale \<open>keyed_list\<close> is the contract the RPT code relies on.
\<close>

section \<open>The interface: an ordered list of elements with 32-bit ids\<close>

text \<open>
  The loop \<^verbatim>\<open>for (x = get(FIRST); x; x = next(x->id)) body\<close>. The result is \<open>None\<close> when the
  fuel runs out or the body fails.
\<close>

fun for_entries ::
    "nat \<Rightarrow> (u32 \<Rightarrow> 'e option) \<Rightarrow> ('e \<Rightarrow> u32) \<Rightarrow> ('e \<Rightarrow> 's \<Rightarrow> 's option) \<Rightarrow> 'e option \<Rightarrow> 's \<Rightarrow> 's option"
where
  "for_entries n nxt key body None s = Some s"
| "for_entries 0 nxt key body (Some e) s = None"
| "for_entries (Suc n) nxt key body (Some e) s =
     (case body e s of None \<Rightarrow> None | Some s' \<Rightarrow> for_entries n nxt key body (nxt (key e)) s')"

fun fold_opt :: "('e \<Rightarrow> 's \<Rightarrow> 's option) \<Rightarrow> 'e list \<Rightarrow> 's \<Rightarrow> 's option" where
  "fold_opt body [] s = Some s"
| "fold_opt body (e # es) s = (case body e s of None \<Rightarrow> None | Some s' \<Rightarrow> fold_opt body es s')"

lemma fold_opt_total: "fold_opt (\<lambda>e s. Some (f e s)) es s = Some (fold f es s)"
  by (induction es arbitrary: s) auto

lemma fold_opt_cong:
  "(\<And>e s. e \<in> set es \<Longrightarrow> f e s = g e s) \<Longrightarrow> fold_opt f es s = fold_opt g es s"
  by (induction es arbitrary: s) (auto split: option.splits)

lemma fold_opt_Some:
  "(\<And>e s. e \<in> set es \<Longrightarrow> f e s = Some (g e s)) \<Longrightarrow> fold_opt f es s = Some (fold g es s)"
  by (induction es arbitrary: s) auto

locale keyed_list =
  fixes inv :: "'t \<Rightarrow> bool"
    and entries :: "'t \<Rightarrow> (u32 \<times> 'e) list"
    and key :: "'e \<Rightarrow> u32"
    and get :: "'t \<Rightarrow> u32 \<Rightarrow> 'e option"
    and getnext :: "'t \<Rightarrow> u32 \<Rightarrow> 'e option"
  assumes keys: "inv t \<Longrightarrow> (k, e) \<in> set (entries t) \<Longrightarrow> key e = k"
    and distinct_keys: "inv t \<Longrightarrow> distinct (map fst (entries t))"
    and get_first: "inv t \<Longrightarrow> get t SAHPI_FIRST_ENTRY =
      (case entries t of [] \<Rightarrow> None | (k, e) # _ \<Rightarrow> Some e)"
    and get_id: "inv t \<Longrightarrow> kid \<noteq> SAHPI_FIRST_ENTRY \<Longrightarrow> get t kid = map_of (entries t) kid"
    and next_first: "inv t \<Longrightarrow> getnext t SAHPI_FIRST_ENTRY = get t SAHPI_FIRST_ENTRY"
    and next_id: "inv t \<Longrightarrow> kid \<noteq> SAHPI_FIRST_ENTRY \<Longrightarrow>
      getnext t kid = map_option snd (find_after (\<lambda>p. fst p = kid) (entries t))"
begin

lemma get_in_entries:
  "inv t \<Longrightarrow> get t kid = Some e \<Longrightarrow> (key e, e) \<in> set (entries t)"
proof (cases "kid = SAHPI_FIRST_ENTRY")
  case True
  assume "inv t" "get t kid = Some e"
  with True show ?thesis by (auto simp: get_first split: list.splits dest: keys)
next
  case False
  assume i: "inv t" and "get t kid = Some e"
  with False have "(kid, e) \<in> set (entries t)" by (auto simp: get_id dest: map_of_SomeD)
  with i show ?thesis by (auto dest: keys)
qed

lemma get_key: "inv t \<Longrightarrow> kid \<noteq> SAHPI_FIRST_ENTRY \<Longrightarrow> get t kid = Some e \<Longrightarrow> key e = kid"
  by (auto simp: get_id dest: map_of_SomeD keys)

lemma for_entries_suffix:
  assumes i: "inv t" and "entries t = us @ vs"
    and nz: "SAHPI_FIRST_ENTRY \<notin> fst ` set (entries t)" and "length vs \<le> n"
  shows "for_entries n (getnext t) key body
           (case vs of [] \<Rightarrow> None | (k, e) # _ \<Rightarrow> Some e) s = fold_opt body (map snd vs) s"
  using assms(2,4)
proof (induction vs arbitrary: us n s)
  case Nil
  then show ?case by simp
next
  case (Cons p vs)
  obtain k e where p: "p = (k, e)" by force
  obtain m where n: "n = Suc m" using Cons.prems(2) by (cases n) auto
  have mem: "(k, e) \<in> set (entries t)" using Cons.prems(1) p by simp
  have k: "key e = k" by (rule keys [OF i mem])
  have "distinct (map fst (us @ p # vs))" using distinct_keys [OF i] Cons.prems(1) by simp
  then have un: "\<forall>x \<in> set us. fst x \<noteq> k" using p by force
  have k0: "k \<noteq> SAHPI_FIRST_ENTRY" using nz mem by force
  have "getnext t k = map_option snd (find_after (\<lambda>p. fst p = k) (us @ p # vs))"
    using next_id [OF i k0] Cons.prems(1) by simp
  also have "\<dots> = map_option snd (case vs of [] \<Rightarrow> None | z # _ \<Rightarrow> Some z)"
    using un p by (subst find_after_append) auto
  also have "\<dots> = (case vs of [] \<Rightarrow> None | (k, e) # _ \<Rightarrow> Some e)"
    by (auto split: list.splits)
  finally have nx: "getnext t k = (case vs of [] \<Rightarrow> None | (k, e) # _ \<Rightarrow> Some e)" .
  have "for_entries m (getnext t) key body (getnext t k) s' = fold_opt body (map snd vs) s'" for s'
    unfolding nx using Cons.IH [of "us @ [p]" m s'] Cons.prems n by simp
  then show ?case using p n k by (auto split: option.splits)
qed

text \<open>The loop visits every element once, in list order, and stops.\<close>

lemma for_entries_all:
  assumes "inv t" and "SAHPI_FIRST_ENTRY \<notin> fst ` set (entries t)"
    and "length (entries t) \<le> n"
  shows "for_entries n (getnext t) key body (get t SAHPI_FIRST_ENTRY) s =
           fold_opt body (map snd (entries t)) s"
  using for_entries_suffix [of t "[]" "entries t" n body s] assms get_first by simp

end

section \<open>Nodes and hash table\<close>

record 'a ntab =
  nt_nodes :: "(nat \<times> 'a) list"
  nt_index :: "(u32 \<Rightarrow> nat option) option"
  nt_fresh :: nat

definition nt_empty :: "'a ntab" where
  "nt_empty = \<lparr>nt_nodes = [], nt_index = None, nt_fresh = 0\<rparr>"

text \<open>\<^verbatim>\<open>g_hash_table_lookup\<close>: stored hash and current key must both be the id.\<close>

definition nt_hash_lookup :: "('a \<Rightarrow> u32) \<Rightarrow> 'a ntab \<Rightarrow> u32 \<Rightarrow> nat option" where
  "nt_hash_lookup key t kid =
     (case nt_index t of
        None \<Rightarrow> None
      | Some h \<Rightarrow>
          (case h kid of
             None \<Rightarrow> None
           | Some a \<Rightarrow>
               (case map_of (nt_nodes t) a of
                  None \<Rightarrow> None
                | Some e \<Rightarrow> if key e = kid then Some a else None)))"

text \<open>
  \<^verbatim>\<open>get_rptnode_by_rid\<close> and \<^verbatim>\<open>get_rdrnode_by_id\<close>: no node for an empty list, the first
  node for id 0, otherwise the hash table decides.
\<close>

definition nt_node_by_id :: "('a \<Rightarrow> u32) \<Rightarrow> 'a ntab \<Rightarrow> u32 \<Rightarrow> nat option" where
  "nt_node_by_id key t kid =
     (case nt_nodes t of
        [] \<Rightarrow> None
      | (a, _) # _ \<Rightarrow> if kid = SAHPI_FIRST_ENTRY then Some a else nt_hash_lookup key t kid)"

definition nt_get :: "('a \<Rightarrow> u32) \<Rightarrow> 'a ntab \<Rightarrow> u32 \<Rightarrow> 'a option" where
  "nt_get key t kid =
     (case nt_node_by_id key t kid of None \<Rightarrow> None | Some a \<Rightarrow> map_of (nt_nodes t) a)"

text \<open>
  \<^verbatim>\<open>get_rptentry_by_rid\<close> and \<^verbatim>\<open>get_rdrecord_by_id\<close>: the pointer to the element (its
  address) together with the element it points to.
\<close>

definition nt_elem :: "('a \<Rightarrow> u32) \<Rightarrow> 'a ntab \<Rightarrow> u32 \<Rightarrow> (nat \<times> 'a) option" where
  "nt_elem key t kid =
     (case nt_nodes t of
        [] \<Rightarrow> None
      | first # _ \<Rightarrow>
          if kid = SAHPI_FIRST_ENTRY then Some first
          else (case nt_hash_lookup key t kid of
                  None \<Rightarrow> None
                | Some a \<Rightarrow> map_option (Pair a) (map_of (nt_nodes t) a)))"

text \<open>\<^verbatim>\<open>node->next->data\<close>, or NULL when there is no node or no next one.\<close>

definition nt_succ :: "'a ntab \<Rightarrow> nat \<Rightarrow> 'a option" where
  "nt_succ t a = map_option snd (find_after (\<lambda>p. fst p = a) (nt_nodes t))"

definition nt_next :: "('a \<Rightarrow> u32) \<Rightarrow> 'a ntab \<Rightarrow> u32 \<Rightarrow> 'a option" where
  "nt_next key t kid =
     (if kid = SAHPI_FIRST_ENTRY then nt_get key t kid
      else case nt_node_by_id key t kid of None \<Rightarrow> None | Some a \<Rightarrow> nt_succ t a)"

text \<open>
  A new element: \<^verbatim>\<open>g_slist_append\<close>, \<^verbatim>\<open>g_hash_table_new\<close> when there is no table yet,
  \<^verbatim>\<open>g_hash_table_insert\<close>.
\<close>

definition nt_append :: "('a \<Rightarrow> u32) \<Rightarrow> 'a \<Rightarrow> 'a ntab \<Rightarrow> 'a ntab" where
  "nt_append key e t =
     (let a = nt_fresh t;
          h = (case nt_index t of None \<Rightarrow> Map.empty | Some h \<Rightarrow> h)
      in t\<lparr>nt_nodes := nt_nodes t @ [(a, e)], nt_index := Some (h(key e \<mapsto> a)),
           nt_fresh := Suc a\<rparr>)"

text \<open>A write through the element pointer.\<close>

definition nt_write :: "nat \<Rightarrow> ('a \<Rightarrow> 'a) \<Rightarrow> 'a ntab \<Rightarrow> 'a ntab" where
  "nt_write a f t =
     t\<lparr>nt_nodes := map (\<lambda>(b, e). if b = a then (b, f e) else (b, e)) (nt_nodes t)\<rparr>"

text \<open>
  \<^verbatim>\<open>g_slist_remove\<close>, \<^verbatim>\<open>g_hash_table_remove\<close>, and \<^verbatim>\<open>g_hash_table_destroy\<close> when the list
  has become empty.
\<close>

definition nt_remove :: "('a \<Rightarrow> u32) \<Rightarrow> nat \<Rightarrow> 'a ntab \<Rightarrow> 'a ntab" where
  "nt_remove key a t =
     (let ns = filter (\<lambda>p. fst p \<noteq> a) (nt_nodes t);
          h = (case (nt_index t, map_of (nt_nodes t) a) of
                 (Some h, Some e) \<Rightarrow>
                   (if nt_hash_lookup key t (key e) \<noteq> None then Some (h(key e := None)) else Some h)
               | (h, _) \<Rightarrow> h)
      in t\<lparr>nt_nodes := ns, nt_index := (if ns = [] then None else h)\<rparr>)"

section \<open>Agreement of the two structures\<close>

definition nt_inv :: "('a \<Rightarrow> u32) \<Rightarrow> 'a ntab \<Rightarrow> bool" where
  "nt_inv key t \<longleftrightarrow>
     distinct (map fst (nt_nodes t)) \<and>
     (\<forall>p \<in> set (nt_nodes t). fst p < nt_fresh t) \<and>
     distinct (map (key \<circ> snd) (nt_nodes t)) \<and>
     (case nt_index t of
        None \<Rightarrow> nt_nodes t = []
      | Some h \<Rightarrow> nt_nodes t \<noteq> [] \<and>
          (\<forall>kid a. h kid = Some a \<longleftrightarrow> (\<exists>e. (a, e) \<in> set (nt_nodes t) \<and> key e = kid)))"

definition nt_abs :: "('a \<Rightarrow> u32) \<Rightarrow> 'a ntab \<Rightarrow> (u32 \<times> 'a) list" where
  "nt_abs key t = map (\<lambda>p. (key (snd p), snd p)) (nt_nodes t)"

lemma nt_inv_empty [inv_intros]: "nt_inv key nt_empty"
  by (simp add: nt_inv_def nt_empty_def)

lemma nt_abs_empty [abs_simps]: "nt_abs key nt_empty = []"
  by (simp add: nt_abs_def nt_empty_def)

lemma nt_keys_distinct: "nt_inv key t \<Longrightarrow> distinct (map fst (nt_abs key t))"
  by (auto simp: nt_inv_def nt_abs_def comp_def)

lemma nt_abs_Nil: "nt_abs key t = [] \<longleftrightarrow> nt_nodes t = []"
  by (simp add: nt_abs_def)

lemma nt_deref:
  "nt_inv key t \<Longrightarrow> (a, e) \<in> set (nt_nodes t) \<Longrightarrow> map_of (nt_nodes t) a = Some e"
  by (simp add: nt_inv_def)

lemma nt_hash_lookup_iff:
  assumes "nt_inv key t"
  shows "nt_hash_lookup key t kid = Some a \<longleftrightarrow> (\<exists>e. (a, e) \<in> set (nt_nodes t) \<and> key e = kid)"
proof (cases "nt_index t")
  case None
  with assms show ?thesis by (simp add: nt_inv_def nt_hash_lookup_def)
next
  case (Some h)
  have h: "h kid = Some b \<longleftrightarrow> (\<exists>e. (b, e) \<in> set (nt_nodes t) \<and> key e = kid)" for b
    using assms Some by (simp add: nt_inv_def)
  show ?thesis
  proof (cases "h kid")
    case None
    then show ?thesis using h [of a] Some by (simp add: nt_hash_lookup_def)
  next
    case (Some b)
    with h obtain e where e: "(b, e) \<in> set (nt_nodes t)" "key e = kid" by blast
    have "map_of (nt_nodes t) b = Some e" by (rule nt_deref [OF assms e(1)])
    then have "nt_hash_lookup key t kid = Some b"
      using \<open>nt_index t = Some h\<close> Some e(2) by (simp add: nt_hash_lookup_def)
    then show ?thesis using h [of a] Some by auto
  qed
qed

lemma nt_lookup_value:
  assumes "nt_inv key t"
  shows "(case nt_hash_lookup key t kid of None \<Rightarrow> None | Some a \<Rightarrow> map_of (nt_nodes t) a) =
           map_of (nt_abs key t) kid"
proof (cases "nt_hash_lookup key t kid")
  case None
  have "map_of (nt_abs key t) kid = None"
  proof (rule ccontr)
    assume "map_of (nt_abs key t) kid \<noteq> None"
    then obtain e where "(kid, e) \<in> set (nt_abs key t)" by (auto dest: map_of_SomeD)
    then obtain a where "(a, e) \<in> set (nt_nodes t)" "key e = kid" by (auto simp: nt_abs_def)
    with nt_hash_lookup_iff [OF assms] have "nt_hash_lookup key t kid = Some a" by blast
    with None show False by simp
  qed
  with None show ?thesis by simp
next
  case (Some a)
  with nt_hash_lookup_iff [OF assms] obtain e
    where e: "(a, e) \<in> set (nt_nodes t)" "key e = kid" by blast
  then have "(kid, e) \<in> set (nt_abs key t)" by (force simp: nt_abs_def)
  then have "map_of (nt_abs key t) kid = Some e"
    using nt_keys_distinct [OF assms] by simp
  then show ?thesis using Some nt_deref [OF assms e(1)] by simp
qed

section \<open>The operations against the abstraction\<close>

lemma nt_get_first:
  "nt_inv key t \<Longrightarrow>
    nt_get key t SAHPI_FIRST_ENTRY = (case nt_abs key t of [] \<Rightarrow> None | (k, e) # _ \<Rightarrow> Some e)"
  by (auto simp: nt_get_def nt_node_by_id_def nt_abs_def split: list.splits)

lemma nt_get_id:
  assumes i: "nt_inv key t" and k: "kid \<noteq> SAHPI_FIRST_ENTRY"
  shows "nt_get key t kid = map_of (nt_abs key t) kid"
proof (cases "nt_nodes t")
  case Nil
  then show ?thesis by (simp add: nt_get_def nt_node_by_id_def nt_abs_def)
next
  case (Cons p ps)
  then show ?thesis
    unfolding nt_lookup_value [OF i, symmetric] using k
    by (simp add: nt_get_def nt_node_by_id_def split: prod.splits)
qed

lemma nt_same:
  assumes "nt_inv key t" and "(a, e) \<in> set (nt_nodes t)" and "(a, x) \<in> set (nt_nodes t)"
  shows "x = e"
  using nt_deref [OF assms(1,2)] nt_deref [OF assms(1,3)] by simp

lemma nt_unique:
  assumes "nt_inv key t" and "(a, e) \<in> set (nt_nodes t)" and "(b, x) \<in> set (nt_nodes t)"
  shows "b = a \<longleftrightarrow> key x = key e"
proof
  assume "b = a"
  with assms show "key x = key e" using nt_same [of key t a e x] by simp
next
  have d: "distinct (map (key \<circ> snd) (nt_nodes t))" using assms(1) by (simp add: nt_inv_def)
  assume "key x = key e"
  then show "b = a" using distinct_map_inj [OF d assms(3,2)] by simp
qed

lemma nt_find_after_key:
  assumes i: "nt_inv key t" and e: "(a, e) \<in> set (nt_nodes t)"
  shows "find_after (\<lambda>p. fst p = a) (nt_nodes t) =
    find_after (\<lambda>p. key (snd p) = key e) (nt_nodes t)"
proof -
  obtain us vs where nodes: "nt_nodes t = us @ (a, e) # vs" using e by (meson split_list)
  have "fst p \<noteq> a \<and> key (snd p) \<noteq> key e" if "p \<in> set us" for p
  proof -
    obtain b x where p: "p = (b, x)" by force
    have "b \<noteq> a" using i nodes that p by (auto simp: nt_inv_def image_iff)
    moreover have "(b, x) \<in> set (nt_nodes t)" using nodes that p by simp
    ultimately show ?thesis using nt_unique [OF i e] p by simp
  qed
  then show ?thesis using nodes by (simp add: find_after_append)
qed

lemma nt_next_id:
  assumes i: "nt_inv key t" and z: "kid \<noteq> SAHPI_FIRST_ENTRY"
  shows "nt_next key t kid = map_option snd (find_after (\<lambda>p. fst p = kid) (nt_abs key t))"
proof -
  have fa: "map_option snd (find_after (\<lambda>p. fst p = kid) (nt_abs key t)) =
      map_option snd (find_after (\<lambda>p. key (snd p) = kid) (nt_nodes t))"
    by (simp add: nt_abs_def find_after_map comp_def option.map_comp)
  show ?thesis
  proof (cases "nt_hash_lookup key t kid")
    case None
    then have "\<forall>p \<in> set (nt_nodes t). key (snd p) \<noteq> kid"
      using nt_hash_lookup_iff [OF i, of kid] by force
    then show ?thesis
      unfolding fa using None z
      by (simp add: find_after_None nt_next_def nt_node_by_id_def split: list.splits)
  next
    case (Some a)
    with nt_hash_lookup_iff [OF i] obtain e
      where e: "(a, e) \<in> set (nt_nodes t)" "key e = kid" by blast
    then show ?thesis
      unfolding fa using Some z nt_find_after_key [OF i e(1)]
      by (cases "nt_nodes t") (auto simp: nt_next_def nt_node_by_id_def nt_succ_def)
  qed
qed

lemma nt_abs_key: "(k, e) \<in> set (nt_abs key t) \<Longrightarrow> key e = k"
  by (auto simp: nt_abs_def)

interpretation nt: keyed_list "nt_inv key" "nt_abs key" key "nt_get key" "nt_next key"
  for key :: "'a \<Rightarrow> u32"
  by unfold_locales
    (simp_all add: nt_abs_key nt_keys_distinct nt_get_first nt_get_id nt_next_id,
      simp add: nt_next_def nt_get_first)

subsection \<open>Appending\<close>

lemma nt_inv_append [inv_intros]:
  assumes "nt_inv key t" and "key e \<notin> fst ` set (nt_abs key t)"
  shows "nt_inv key (nt_append key e t)"
proof (cases "nt_index t")
  case None
  with assms show ?thesis by (auto simp: nt_inv_def nt_append_def Let_def)
next
  case (Some h)
  have fresh: "(nt_fresh t, x) \<notin> set (nt_nodes t)" for x
    using assms(1) by (auto simp: nt_inv_def)
  have new: "(a, x) \<in> set (nt_nodes t) \<Longrightarrow> key x \<noteq> key e" for a x
    using assms(2) by (force simp: nt_abs_def)
  show ?thesis
    using assms(1) Some fresh new
    by (auto simp: nt_inv_def nt_append_def Let_def less_Suc_eq) force+
qed

lemma nt_abs_append [abs_simps]: "nt_abs key (nt_append key e t) = nt_abs key t @ [(key e, e)]"
  by (simp add: nt_abs_def nt_append_def Let_def)

lemma nt_append_addr:
  "nt_inv key t \<Longrightarrow> map_of (nt_nodes (nt_append key e t)) (nt_fresh t) = Some e"
  unfolding nt_append_def Let_def nt_inv_def
  by (auto simp del: map_of_append intro!: map_of_append_new)

subsection \<open>Writing through a node\<close>

text \<open>A write that keeps the id of the element.\<close>

lemma nt_inv_write [inv_intros]:
  assumes i: "nt_inv key t" and k: "\<And>e. (a, e) \<in> set (nt_nodes t) \<Longrightarrow> key (f e) = key e"
  shows "nt_inv key (nt_write a f t)"
proof -
  let ?g = "\<lambda>(b, e). if b = a then (b, f e) else (b, e)"
  have fsts: "map fst (map ?g (nt_nodes t)) = map fst (nt_nodes t)" by auto
  have keys: "map (key \<circ> snd) (map ?g (nt_nodes t)) = map (key \<circ> snd) (nt_nodes t)"
    using k by auto
  have mem: "(\<exists>e. (b, e) \<in> ?g ` set (nt_nodes t) \<and> key e = kid) \<longleftrightarrow>
      (\<exists>e. (b, e) \<in> set (nt_nodes t) \<and> key e = kid)" for b kid
  proof
    assume "\<exists>e. (b, e) \<in> ?g ` set (nt_nodes t) \<and> key e = kid"
    then show "\<exists>e. (b, e) \<in> set (nt_nodes t) \<and> key e = kid"
      using k by (auto split: if_splits)
  next
    assume "\<exists>e. (b, e) \<in> set (nt_nodes t) \<and> key e = kid"
    then obtain e where e: "(b, e) \<in> set (nt_nodes t)" "key e = kid" by blast
    have "?g (b, e) \<in> ?g ` set (nt_nodes t)" by (rule imageI) (rule e(1))
    then have "(b, if b = a then f e else e) \<in> ?g ` set (nt_nodes t)" by (simp split: if_splits)
    moreover have "key (if b = a then f e else e) = kid" using e k by auto
    ultimately show "\<exists>e. (b, e) \<in> ?g ` set (nt_nodes t) \<and> key e = kid" by blast
  qed
  have lt: "\<forall>p \<in> set (map ?g (nt_nodes t)). fst p < nt_fresh t"
    using i by (auto simp: nt_inv_def)
  show ?thesis
    using i fsts keys mem lt unfolding nt_inv_def nt_write_def
    by (auto simp del: map_map split: option.splits)
qed

lemma nt_abs_write [abs_simps]:
  assumes i: "nt_inv key t" and m: "(a, e) \<in> set (nt_nodes t)" and k: "key (f e) = key e"
  shows "nt_abs key (nt_write a f t) =
    map (\<lambda>p. if fst p = key e then (fst p, f (snd p)) else p) (nt_abs key t)"
proof -
  let ?g = "\<lambda>(b, x). if b = a then (b, f x) else (b, x)"
  let ?h = "\<lambda>p. if fst p = key e then (fst p, f (snd p)) else p"
  have eq: "(key (snd (?g p)), snd (?g p)) = ?h (key (snd p), snd p)"
    if "p \<in> set (nt_nodes t)" for p
  proof -
    obtain b x where p: "p = (b, x)" by force
    with that have bx: "(b, x) \<in> set (nt_nodes t)" by simp
    show ?thesis
    proof (cases "b = a")
      case True
      with bx i m have "x = e" using nt_same [of key t a e x] by simp
      with True p k show ?thesis by simp
    next
      case False
      with nt_unique [OF i m bx] p show ?thesis by simp
    qed
  qed
  have "map (\<lambda>p. (key (snd p), snd p)) (map ?g (nt_nodes t)) =
      map ?h (map (\<lambda>p. (key (snd p), snd p)) (nt_nodes t))"
    unfolding map_map by (rule map_cong [OF refl]) (simp add: eq)
  then show ?thesis by (simp add: nt_abs_def nt_write_def)
qed

lemma nt_write_addr:
  "map_of (nt_nodes (nt_write a f t)) b =
    map_option (\<lambda>e. if b = a then f e else e) (map_of (nt_nodes t) b)"
  by (simp add: nt_write_def map_of_map_if)

subsection \<open>Removing\<close>

lemma nt_remove_nodes: "nt_nodes (nt_remove key a t) = filter (\<lambda>p. fst p \<noteq> a) (nt_nodes t)"
  by (simp add: nt_remove_def Let_def)

lemma nt_inv_remove [inv_intros]:
  assumes i: "nt_inv key t" and m: "(a, e) \<in> set (nt_nodes t)"
  shows "nt_inv key (nt_remove key a t)"
proof -
  from i m obtain h where h: "nt_index t = Some h" by (auto simp: nt_inv_def split: option.splits)
  have hm: "h kid = Some b \<longleftrightarrow> (\<exists>x. (b, x) \<in> set (nt_nodes t) \<and> key x = kid)" for kid b
    using i h by (simp add: nt_inv_def)
  have l: "nt_hash_lookup key t (key e) = Some a" using nt_hash_lookup_iff [OF i] m by blast
  note u = nt_unique [OF i m]
  have ix: "nt_index (nt_remove key a t) =
      (if nt_nodes (nt_remove key a t) = [] then None else Some (h(key e := None)))"
    using h l nt_deref [OF i m] by (simp add: nt_remove_def Let_def)
  have "(h(key e := None)) kid = Some b \<longleftrightarrow>
      (\<exists>x. (b, x) \<in> set (nt_nodes (nt_remove key a t)) \<and> key x = kid)" for kid b
    using hm u by (auto simp: nt_remove_nodes)
  moreover have "distinct (map fst (nt_nodes (nt_remove key a t)))"
    and "distinct (map (key \<circ> snd) (nt_nodes (nt_remove key a t)))"
    and "\<forall>p \<in> set (nt_nodes (nt_remove key a t)). fst p < nt_fresh (nt_remove key a t)"
    using i by (auto simp: nt_inv_def nt_remove_def Let_def distinct_map_filter)
  ultimately show ?thesis using ix by (simp add: nt_inv_def)
qed

lemma nt_abs_remove [abs_simps]:
  assumes i: "nt_inv key t" and m: "(a, e) \<in> set (nt_nodes t)"
  shows "nt_abs key (nt_remove key a t) = filter (\<lambda>p. fst p \<noteq> key e) (nt_abs key t)"
proof -
  have "filter (\<lambda>p. fst p \<noteq> a) (nt_nodes t) = filter (\<lambda>p. key (snd p) \<noteq> key e) (nt_nodes t)"
    using nt_unique [OF i m] by (intro filter_cong) auto
  then show ?thesis
    by (simp add: nt_abs_def nt_remove_nodes filter_map comp_def)
qed

section \<open>Element pointers\<close>

lemma nt_elem_deref:
  "nt_elem key t kid = Some (a, e) \<Longrightarrow> map_of (nt_nodes t) a = Some e"
  by (auto simp: nt_elem_def split: list.splits if_splits option.splits)

lemma nt_elem_in: "nt_elem key t kid = Some (a, e) \<Longrightarrow> (a, e) \<in> set (nt_nodes t)"
  by (rule map_of_SomeD [OF nt_elem_deref])

lemma nt_elem_get: "map_option snd (nt_elem key t kid) = nt_get key t kid"
  by (auto simp: nt_elem_def nt_get_def nt_node_by_id_def option.map_comp comp_def
      option.map_ident split: list.splits option.splits)

lemma nt_hash_lookup_write:
  "(\<And>e. key (f e) = key e) \<Longrightarrow> nt_hash_lookup key (nt_write a f t) k = nt_hash_lookup key t k"
  unfolding nt_hash_lookup_def nt_write_addr by (auto simp: nt_write_def split: option.splits)

text \<open>A write that keeps the ids leads every lookup to the same node.\<close>

lemma nt_elem_write:
  assumes "\<And>e. key (f e) = key e"
  shows "nt_elem key (nt_write a f t) kid =
    map_option (\<lambda>(b, e). (b, if b = a then f e else e)) (nt_elem key t kid)"
proof (cases "nt_nodes t")
  case Nil
  then show ?thesis by (simp add: nt_elem_def nt_write_def)
next
  case (Cons p ps)
  obtain b x where p: "p = (b, x)" by force
  have n: "nt_nodes (nt_write a f t) = (b, if b = a then f x else x) #
      map (\<lambda>(b, e). if b = a then (b, f e) else (b, e)) ps"
    using Cons p by (simp add: nt_write_def)
  have m: "map_option (Pair c) (map_of (nt_nodes (nt_write a f t)) c) =
      map_option (\<lambda>(b, e). (b, if b = a then f e else e)) (map_option (Pair c) (map_of (nt_nodes t) c))"
    for c
    unfolding nt_write_addr by (simp add: option.map_comp comp_def)
  show ?thesis
  proof (cases "kid = SAHPI_FIRST_ENTRY")
    case True
    then show ?thesis using n Cons p by (simp add: nt_elem_def)
  next
    case False
    have "nt_elem key (nt_write a f t) kid = (case nt_hash_lookup key t kid of
        None \<Rightarrow> None | Some c \<Rightarrow> map_option (Pair c) (map_of (nt_nodes (nt_write a f t)) c))"
      using False n nt_hash_lookup_write [of key f a t kid] assms
      by (simp add: nt_elem_def)
    then show ?thesis
      unfolding m using False Cons by (simp add: nt_elem_def split: option.splits)
  qed
qed

lemma nt_remove_shrinks:
  "(a, e) \<in> set (nt_nodes t) \<Longrightarrow> length (nt_nodes (nt_remove key a t)) < length (nt_nodes t)"
  by (auto simp: nt_remove_nodes intro!: length_filter_less)

end
