(* ===== verification/Rpt.thy ===== *)
theory Rpt
  imports NodeTable UidUtils
begin

text \<open>
  The resource presence table (\<^verbatim>\<open>utils/rpt_utils.c\<close>). A table keeps its resources in a node
  table keyed by \<open>EntryId\<close>, and every resource its records in a node table keyed by
  \<open>RecordId\<close>. A node address stands for the pointer to the element, so an update through a
  pointer is \<open>nt_write\<close>. Private data pointers are numbers with 0 for NULL; the field
  \<open>freed\<close> is a trace of the pointers handed to \<^verbatim>\<open>g_free\<close> as private data. The argument \<open>now\<close> is
  what \<^verbatim>\<open>oh_gettimeofday\<close> reads.
\<close>

record RDRecord =
  rdr :: SaHpiRdrT
  rdr_owndata :: bool
  rdr_data :: nat

record RPTEntry =
  rpt_entry :: SaHpiRptEntryT
  ent_owndata :: bool
  ent_data :: nat
  rdr_update_count :: u32
  rdrs :: "RDRecord ntab"

record RPTable =
  rpt_update_count :: u32
  rpt_update_timestamp :: u64
  rptab :: "RPTEntry ntab"
  freed :: "nat list"

definition ent_key :: "RPTEntry \<Rightarrow> u32" where
  "ent_key e = EntryId (rpt_entry e)"

definition rec_key :: "RDRecord \<Rightarrow> u32" where
  "rec_key r = RecordId (rdr r)"

text \<open>\<^verbatim>\<open>g_free\<close> of a private data pointer; NULL is not freed.\<close>

definition free_data :: "nat \<Rightarrow> nat list" where
  "free_data p = (if p = 0 then [] else [p])"

section \<open>Finding resources and records\<close>

text \<open>The pointer to an entry is its address; the entry it points to comes with it.\<close>

definition get_rptnode_by_rid :: "RPTable \<Rightarrow> u32 \<Rightarrow> nat option" where
  "get_rptnode_by_rid table rid = nt_node_by_id ent_key (rptab table) rid"

definition get_rptentry_by_rid :: "RPTable \<Rightarrow> u32 \<Rightarrow> (nat \<times> RPTEntry) option" where
  "get_rptentry_by_rid table rid = nt_elem ent_key (rptab table) rid"

definition get_rdrnode_by_id :: "RPTEntry \<Rightarrow> u32 \<Rightarrow> nat option" where
  "get_rdrnode_by_id rptentry rid = nt_node_by_id rec_key (rdrs rptentry) rid"

definition get_rdrecord_by_id :: "RPTEntry \<Rightarrow> u32 \<Rightarrow> (nat \<times> RDRecord) option" where
  "get_rdrecord_by_id rptentry rid = nt_elem rec_key (rdrs rptentry) rid"

abbreviation (input) SENSOR_AGGREGATE_MAX :: u32 where "SENSOR_AGGREGATE_MAX \<equiv> 0x10F"

definition check_instrument_id :: "SaHpiRptEntryT \<Rightarrow> SaHpiRdrT \<Rightarrow> int" where
  "check_instrument_id rptentry rec =
     (case RdrType rec of
        SAHPI_SENSOR_RDR \<Rightarrow>
          (if Num (RdrTypeUnion rec) \<ge> SAHPI_STANDARD_SENSOR_MIN \<and>
              Num (RdrTypeUnion rec) \<le> SAHPI_STANDARD_SENSOR_MAX then
             (if Num (RdrTypeUnion rec) > SENSOR_AGGREGATE_MAX then -1
              else if ResourceCapabilities rptentry AND SAHPI_CAPABILITY_AGGREGATE_STATUS \<noteq> 0 then 0
              else -1)
           else 0)
      | _ \<Rightarrow> 0)"

definition update_rptable :: "u64 \<Rightarrow> RPTable \<Rightarrow> RPTable" where
  "update_rptable now table =
     table\<lparr>rpt_update_timestamp := now, rpt_update_count := rpt_update_count table + 1\<rparr>"

section \<open>Record ids\<close>

definition oh_get_rdr_uid :: "SaHpiRdrTypeT \<Rightarrow> u32 \<Rightarrow> u32" where
  "oh_get_rdr_uid type num = push_bit 16 (rdr_type_num type) + num"

definition oh_get_rdr_num :: "u32 \<Rightarrow> u32" where
  "oh_get_rdr_num rdrid = rdrid AND 0x0000FFFF"

definition oh_get_instrument_id :: "SaHpiRdrT \<Rightarrow> u32" where
  "oh_get_instrument_id rec =
     (case RdrType rec of
        SAHPI_CTRL_RDR \<Rightarrow> Num (RdrTypeUnion rec)
      | SAHPI_SENSOR_RDR \<Rightarrow> Num (RdrTypeUnion rec)
      | SAHPI_INVENTORY_RDR \<Rightarrow> Num (RdrTypeUnion rec)
      | SAHPI_WATCHDOG_RDR \<Rightarrow> Num (RdrTypeUnion rec)
      | SAHPI_ANNUNCIATOR_RDR \<Rightarrow> Num (RdrTypeUnion rec)
      | SAHPI_DIMI_RDR \<Rightarrow> Num (RdrTypeUnion rec)
      | SAHPI_FUMI_RDR \<Rightarrow> Num (RdrTypeUnion rec)
      | _ \<Rightarrow> 0)"

section \<open>Reading the table\<close>

definition oh_get_rpt_info :: "RPTable \<Rightarrow> SaErrorT \<times> u32 \<times> u64" where
  "oh_get_rpt_info table = (SA_OK, rpt_update_count table, rpt_update_timestamp table)"

definition oh_get_resource_data :: "RPTable \<Rightarrow> u32 \<Rightarrow> nat" where
  "oh_get_resource_data table rid =
     (case get_rptentry_by_rid table rid of None \<Rightarrow> 0 | Some (_, e) \<Rightarrow> ent_data e)"

definition oh_get_resource_by_id :: "RPTable \<Rightarrow> u32 \<Rightarrow> SaHpiRptEntryT option" where
  "oh_get_resource_by_id table rid =
     (case get_rptentry_by_rid table rid of None \<Rightarrow> None | Some (_, e) \<Rightarrow> Some (rpt_entry e))"

definition oh_get_resource_by_ep ::
    "uid_state \<Rightarrow> RPTable \<Rightarrow> SaHpiEntityPathT \<Rightarrow> SaHpiRptEntryT option"
where
  "oh_get_resource_by_ep uids table ep =
     (let rid = (if oh_uid_is_initialized uids then oh_uid_lookup uids ep else 0)
      in if rid > 0 then oh_get_resource_by_id table rid
         else map_option (\<lambda>p. rpt_entry (snd p))
                (find (\<lambda>p. oh_cmp_ep (ResourceEntity (rpt_entry (snd p))) ep)
                   (nt_nodes (rptab table))))"

definition oh_get_resource_next :: "RPTable \<Rightarrow> u32 \<Rightarrow> SaHpiRptEntryT option" where
  "oh_get_resource_next table rid_prev =
     (let rptentry =
        (if rid_prev = SAHPI_FIRST_ENTRY then map_option snd (get_rptentry_by_rid table rid_prev)
         else case get_rptnode_by_rid table rid_prev of
                None \<Rightarrow> None
              | Some a \<Rightarrow> nt_succ (rptab table) a)
      in map_option rpt_entry rptentry)"

definition oh_get_rdr_update_count :: "RPTable \<Rightarrow> u32 \<Rightarrow> SaErrorT \<times> u32 option" where
  "oh_get_rdr_update_count table rid =
     (case get_rptentry_by_rid table rid of
        None \<Rightarrow> (SA_ERR_HPI_NOT_PRESENT, None)
      | Some (_, e) \<Rightarrow> (SA_OK, Some (rdr_update_count e)))"

definition oh_get_rdr_data :: "RPTable \<Rightarrow> u32 \<Rightarrow> u32 \<Rightarrow> nat" where
  "oh_get_rdr_data table rid rdrid =
     (case get_rptentry_by_rid table rid of
        None \<Rightarrow> 0
      | Some (_, e) \<Rightarrow>
          (case get_rdrecord_by_id e rdrid of None \<Rightarrow> 0 | Some (_, r) \<Rightarrow> rdr_data r))"

definition oh_get_rdr_by_id :: "RPTable \<Rightarrow> u32 \<Rightarrow> u32 \<Rightarrow> SaHpiRdrT option" where
  "oh_get_rdr_by_id table rid rdrid =
     (case get_rptentry_by_rid table rid of
        None \<Rightarrow> None
      | Some (_, e) \<Rightarrow>
          (case get_rdrecord_by_id e rdrid of None \<Rightarrow> None | Some (_, r) \<Rightarrow> Some (rdr r)))"

definition oh_get_rdr_by_type :: "RPTable \<Rightarrow> u32 \<Rightarrow> SaHpiRdrTypeT \<Rightarrow> u32 \<Rightarrow> SaHpiRdrT option" where
  "oh_get_rdr_by_type table rid type num =
     (case get_rptentry_by_rid table rid of
        None \<Rightarrow> None
      | Some (_, e) \<Rightarrow>
          (case get_rdrecord_by_id e (oh_get_rdr_uid type num) of
             None \<Rightarrow> None
           | Some (_, r) \<Rightarrow> Some (rdr r)))"

definition oh_get_rdr_next :: "RPTable \<Rightarrow> u32 \<Rightarrow> u32 \<Rightarrow> SaHpiRdrT option" where
  "oh_get_rdr_next table rid rdrid_prev =
     (case get_rptentry_by_rid table rid of
        None \<Rightarrow> None
      | Some (_, e) \<Rightarrow>
          (let rdrecord =
             (if rdrid_prev = SAHPI_FIRST_ENTRY then map_option snd (get_rdrecord_by_id e rdrid_prev)
              else case get_rdrnode_by_id e rdrid_prev of
                     None \<Rightarrow> None
                   | Some b \<Rightarrow> nt_succ (rdrs e) b)
           in map_option rdr rdrecord))"

definition oh_get_rdr_by_type_first :: "RPTable \<Rightarrow> u32 \<Rightarrow> SaHpiRdrTypeT \<Rightarrow> SaHpiRdrT option" where
  "oh_get_rdr_by_type_first table rid type =
     (case get_rptentry_by_rid table rid of
        None \<Rightarrow> None
      | Some (_, e) \<Rightarrow>
          map_option (\<lambda>p. rdr (snd p))
            (find (\<lambda>p. RdrType (rdr (snd p)) = type) (nt_nodes (rdrs e))))"

definition oh_get_rdr_by_type_next ::
    "RPTable \<Rightarrow> u32 \<Rightarrow> SaHpiRdrTypeT \<Rightarrow> u32 \<Rightarrow> SaHpiRdrT option"
where
  "oh_get_rdr_by_type_next table rid type num =
     (case get_rptentry_by_rid table rid of
        None \<Rightarrow> None
      | Some (_, e) \<Rightarrow>
          (case get_rdrnode_by_id e (oh_get_rdr_uid type num) of
             None \<Rightarrow> None
           | Some b \<Rightarrow>
               map_option (\<lambda>p. rdr (snd p))
                 (find (\<lambda>p. RdrType (rdr (snd p)) = type)
                    (tl (dropWhile (\<lambda>p. fst p \<noteq> b) (nt_nodes (rdrs e)))))))"

section \<open>Changing the table\<close>

definition oh_init_rpt :: "RPTable \<Rightarrow> SaErrorT \<times> RPTable" where
  "oh_init_rpt table =
     (SA_OK, table\<lparr>rpt_update_timestamp := SAHPI_TIME_UNSPECIFIED, rpt_update_count := 0,
                   rptab := nt_empty\<rparr>)"

definition zero_rptentry :: RPTEntry where
  "zero_rptentry = \<lparr>rpt_entry = zero_rpt_entry, ent_owndata = False, ent_data = 0,
     rdr_update_count = 0, rdrs = nt_empty\<rparr>"

definition zero_rdrecord :: RDRecord where
  "zero_rdrecord = \<lparr>rdr = zero_rdr, rdr_owndata = False, rdr_data = 0\<rparr>"

text \<open>
  \<open>oh_add_resource\<close> writes the entry id into the caller's entry, which is part of the
  result. A new entry is zeroed apart from its id when it enters the hash table.
\<close>

definition oh_add_resource ::
    "u64 \<Rightarrow> RPTable \<Rightarrow> SaHpiRptEntryT \<Rightarrow> nat \<Rightarrow> bool \<Rightarrow> SaErrorT \<times> SaHpiRptEntryT \<times> RPTable"
where
  "oh_add_resource now table entry data owndata =
     (if ResourceId entry = SAHPI_FIRST_ENTRY then (SA_ERR_HPI_INVALID_PARAMS, entry, table)
      else if ResourceId entry = SAHPI_UNSPECIFIED_RESOURCE_ID then
        (SA_ERR_HPI_INVALID_PARAMS, entry, table)
      else if \<not> oh_valid_ep (ResourceEntity entry) then (SA_ERR_HPI_INVALID_PARAMS, entry, table)
      else
        let entry = entry\<lparr>EntryId := ResourceId entry\<rparr>;
            fresh = zero_rptentry\<lparr>rpt_entry := zero_rpt_entry\<lparr>EntryId := ResourceId entry\<rparr>\<rparr>;
            (is_new, a, rptentry, tab) =
              (case get_rptentry_by_rid table (ResourceId entry) of
                 Some (a, e) \<Rightarrow> (False, a, e, rptab table)
               | None \<Rightarrow> (True, nt_fresh (rptab table), fresh, nt_append ent_key fresh (rptab table)));
            released = (if ent_data rptentry \<noteq> 0 \<and> ent_data rptentry \<noteq> data \<and>
                           \<not> ent_owndata rptentry then [ent_data rptentry] else []);
            update_info = (is_new \<or> entry \<noteq> rpt_entry rptentry);
            new_value = (\<lambda>e. (if update_info then e\<lparr>rpt_entry := entry\<rparr> else e)
                             \<lparr>ent_data := data, ent_owndata := owndata\<rparr>);
            table' = table\<lparr>rptab := nt_write a new_value tab, freed := freed table @ released\<rparr>
        in (SA_OK, entry, if update_info then update_rptable now table' else table'))"

text \<open>
  \<open>oh_add_rdr\<close> writes the record id into the caller's record, which is part of the result.
\<close>

definition oh_add_rdr ::
    "RPTable \<Rightarrow> u32 \<Rightarrow> SaHpiRdrT \<Rightarrow> nat \<Rightarrow> bool \<Rightarrow> SaErrorT \<times> SaHpiRdrT \<times> RPTable"
where
  "oh_add_rdr table rid rec data owndata =
     (case get_rptentry_by_rid table rid of
        None \<Rightarrow> (SA_ERR_HPI_NOT_PRESENT, rec, table)
      | Some (a, e) \<Rightarrow>
          if check_instrument_id (rpt_entry e) rec \<noteq> 0 then (SA_ERR_HPI_INVALID_PARAMS, rec, table)
          else
            let rec = rec\<lparr>RecordId := oh_get_rdr_uid (RdrType rec) (oh_get_instrument_id rec)\<rparr>;
                fresh = zero_rdrecord\<lparr>rdr := zero_rdr\<lparr>RecordId := RecordId rec\<rparr>\<rparr>;
                (b, rdrecord, tab) =
                  (case get_rdrecord_by_id e (RecordId rec) of
                     Some (b, r) \<Rightarrow> (b, r, rdrs e)
                   | None \<Rightarrow> (nt_fresh (rdrs e), fresh, nt_append rec_key fresh (rdrs e)));
                released = (if rdr_data rdrecord \<noteq> 0 \<and> rdr_data rdrecord \<noteq> data \<and>
                               \<not> rdr_owndata rdrecord then [rdr_data rdrecord] else []);
                tab' = nt_write b (\<lambda>r. r\<lparr>rdr_data := data, rdr_owndata := owndata, rdr := rec\<rparr>) tab
            in (SA_OK, rec,
                table\<lparr>rptab := nt_write a (\<lambda>e. e\<lparr>rdrs := tab',
                                rdr_update_count := rdr_update_count e + 1\<rparr>) (rptab table),
                      freed := freed table @ released\<rparr>))"

definition oh_remove_rdr :: "RPTable \<Rightarrow> u32 \<Rightarrow> u32 \<Rightarrow> SaErrorT \<times> RPTable" where
  "oh_remove_rdr table rid rdrid =
     (case get_rptentry_by_rid table rid of
        None \<Rightarrow> (SA_ERR_HPI_NOT_PRESENT, table)
      | Some (a, e) \<Rightarrow>
          (case get_rdrecord_by_id e rdrid of
             None \<Rightarrow> (SA_ERR_HPI_NOT_PRESENT, table)
           | Some (b, r) \<Rightarrow>
               (SA_OK,
                table\<lparr>rptab := nt_write a (\<lambda>e. e\<lparr>rdrs := nt_remove rec_key b (rdrs e),
                                rdr_update_count := rdr_update_count e + 1\<rparr>) (rptab table),
                      freed := freed table @ (if \<not> rdr_owndata r then free_data (rdr_data r)
                                              else [])\<rparr>)))"

text \<open>The first loop of \<open>oh_remove_resource\<close>: every pass takes one record out.\<close>

definition n_rdrs :: "RPTable \<Rightarrow> u32 \<Rightarrow> nat" where
  "n_rdrs table rid =
     (case get_rptentry_by_rid table rid of None \<Rightarrow> 0 | Some (_, e) \<Rightarrow> length (nt_nodes (rdrs e)))"

text \<open>A change of the entry of a resource that keeps its entry id.\<close>

lemma get_rptentry_write:
  assumes "\<And>e. ent_key (f e) = ent_key e"
  shows "get_rptentry_by_rid (table\<lparr>rptab := nt_write a f (rptab table), freed := fr\<rparr>) rid =
    map_option (\<lambda>(b, e). (b, if b = a then f e else e)) (get_rptentry_by_rid table rid)"
  using nt_elem_write [of ent_key f a "rptab table" rid] assms
  by (simp add: get_rptentry_by_rid_def)

lemma remove_rdr_shrinks:
  assumes "oh_get_rdr_by_id table rid rdrid = Some x"
  shows "n_rdrs (snd (oh_remove_rdr table rid rdrid)) rid < n_rdrs table rid"
proof -
  from assms obtain a e b r where g: "get_rptentry_by_rid table rid = Some (a, e)"
      "get_rdrecord_by_id e rdrid = Some (b, r)"
    by (auto simp: oh_get_rdr_by_id_def split: option.splits)
  then have "length (nt_nodes (nt_remove rec_key b (rdrs e))) < length (nt_nodes (rdrs e))"
    by (intro nt_remove_shrinks [of b r]) (simp add: get_rdrecord_by_id_def nt_elem_in)
  with g show ?thesis by (simp add: n_rdrs_def oh_remove_rdr_def get_rptentry_write ent_key_def)
qed

function remove_rdrs_loop :: "RPTable \<Rightarrow> u32 \<Rightarrow> RPTable" where
  "remove_rdrs_loop table rid =
     (case oh_get_rdr_by_id table rid SAHPI_FIRST_ENTRY of
        None \<Rightarrow> table
      | Some tmp_rdr \<Rightarrow> remove_rdrs_loop (snd (oh_remove_rdr table rid SAHPI_FIRST_ENTRY)) rid)"
  by pat_completeness auto
termination
  by (relation "measure (\<lambda>(table, rid). n_rdrs table rid)") (simp_all add: remove_rdr_shrinks)

declare remove_rdrs_loop.simps [simp del]

definition oh_remove_resource :: "u64 \<Rightarrow> RPTable \<Rightarrow> u32 \<Rightarrow> SaErrorT \<times> RPTable" where
  "oh_remove_resource now table rid =
     (case get_rptentry_by_rid table rid of
        None \<Rightarrow> (SA_ERR_HPI_NOT_PRESENT, table)
      | Some (a, e) \<Rightarrow>
          (let table1 = remove_rdrs_loop table rid;
               table2 = table1\<lparr>rptab := nt_remove ent_key a (rptab table1),
                               freed := freed table1 @
                                 (if \<not> ent_owndata e then free_data (ent_data e) else [])\<rparr>
           in (SA_OK, update_rptable now table2)))"

text \<open>\<open>oh_flush_rpt\<close>: the clock is read once for every resource that is removed.\<close>

lemma remove_rdrs_loop_addrs:
  "map fst (nt_nodes (rptab (remove_rdrs_loop table rid))) = map fst (nt_nodes (rptab table))"
proof (induction table rid rule: remove_rdrs_loop.induct)
  case (1 table rid)
  have "map fst (nt_nodes (rptab (snd (oh_remove_rdr table rid k)))) = map fst (nt_nodes (rptab table))"
    for k
    by (auto simp: oh_remove_rdr_def nt_write_def split: option.splits)
  with 1 show ?case by (subst remove_rdrs_loop.simps) (auto split: option.splits)
qed

lemma remove_resource_shrinks:
  assumes "oh_get_resource_by_id table rid = Some x"
  shows "length (nt_nodes (rptab (snd (oh_remove_resource now table rid)))) <
    length (nt_nodes (rptab table))"
proof -
  from assms obtain a e where g: "get_rptentry_by_rid table rid = Some (a, e)"
    by (auto simp: oh_get_resource_by_id_def split: option.splits)
  let ?t = "remove_rdrs_loop table rid"
  have "a \<in> fst ` set (nt_nodes (rptab table))"
    using g by (force simp: get_rptentry_by_rid_def dest: nt_elem_in)
  then have "a \<in> set (map fst (nt_nodes (rptab ?t)))" unfolding remove_rdrs_loop_addrs by simp
  then obtain e' where "(a, e') \<in> set (nt_nodes (rptab ?t))" by auto
  then have "length (nt_nodes (nt_remove ent_key a (rptab ?t))) < length (nt_nodes (rptab ?t))"
    by (rule nt_remove_shrinks)
  moreover have "length (nt_nodes (rptab ?t)) = length (nt_nodes (rptab table))"
    using arg_cong [OF remove_rdrs_loop_addrs, of length] by simp
  ultimately show ?thesis
    using g by (simp add: oh_remove_resource_def update_rptable_def Let_def)
qed

function flush_loop :: "(nat \<Rightarrow> u64) \<Rightarrow> RPTable \<Rightarrow> RPTable" where
  "flush_loop clock table =
     (case oh_get_resource_by_id table SAHPI_FIRST_ENTRY of
        None \<Rightarrow> table
      | Some tmp_entry \<Rightarrow>
          flush_loop (\<lambda>i. clock (Suc i))
            (snd (oh_remove_resource (clock 0) table SAHPI_FIRST_ENTRY)))"
  by pat_completeness auto
termination
  by (relation "measure (\<lambda>(clock, table). length (nt_nodes (rptab table)))")
    (simp_all add: remove_resource_shrinks)

declare flush_loop.simps [simp del]

definition oh_flush_rpt :: "(nat \<Rightarrow> u64) \<Rightarrow> RPTable \<Rightarrow> SaErrorT \<times> RPTable" where
  "oh_flush_rpt clock table = (SA_OK, flush_loop clock table)"

section \<open>Comparing two tables\<close>

text \<open>
  \<open>rpt_diff\<close>: every loop is \<open>for_entries\<close> over the table's own iteration functions; \<open>n\<close> is the
  fuel of each of them. The four lists are appended to.
\<close>

definition rdrs_gone_body ::
    "RPTable \<Rightarrow> u32 \<Rightarrow> SaHpiRdrT \<Rightarrow> SaHpiRdrT list \<Rightarrow> SaHpiRdrT list option"
where
  "rdrs_gone_body new_rpt rid rec rdr_gone =
     Some (case oh_get_rdr_by_id new_rpt rid (RecordId rec) of
             None \<Rightarrow> rdr_gone @ [rec]
           | Some _ \<Rightarrow> rdr_gone)"

definition gone_body ::
    "nat \<Rightarrow> RPTable \<Rightarrow> RPTable \<Rightarrow> SaHpiRptEntryT \<Rightarrow> SaHpiRptEntryT list \<times> SaHpiRdrT list \<Rightarrow>
       (SaHpiRptEntryT list \<times> SaHpiRdrT list) option"
where
  "gone_body n cur_rpt new_rpt res = (\<lambda>(res_gone, rdr_gone).
     case oh_get_resource_by_id new_rpt (ResourceId res) of
       None \<Rightarrow> Some (res_gone @ [res], rdr_gone)
     | Some tmp_res \<Rightarrow>
         map_option (Pair res_gone)
           (for_entries n (oh_get_rdr_next cur_rpt (ResourceId res)) RecordId
              (rdrs_gone_body new_rpt (ResourceId res))
              (oh_get_rdr_by_id cur_rpt (ResourceId res) SAHPI_FIRST_ENTRY) rdr_gone))"

definition rdrs_new_body ::
    "RPTable \<Rightarrow> u32 \<Rightarrow> bool \<Rightarrow> SaHpiRdrT \<Rightarrow> SaHpiRdrT list \<Rightarrow> SaHpiRdrT list option"
where
  "rdrs_new_body cur_rpt rid in_cur rec rdr_new =
     (let tmp_rdr = (if in_cur then oh_get_rdr_by_id cur_rpt rid (RecordId rec) else None)
      in Some (case tmp_rdr of
                 None \<Rightarrow> rdr_new @ [rec]
               | Some tmp_rdr \<Rightarrow> if rec \<noteq> tmp_rdr then rdr_new @ [rec] else rdr_new))"

definition new_body ::
    "nat \<Rightarrow> RPTable \<Rightarrow> RPTable \<Rightarrow> SaHpiRptEntryT \<Rightarrow> SaHpiRptEntryT list \<times> SaHpiRdrT list \<Rightarrow>
       (SaHpiRptEntryT list \<times> SaHpiRdrT list) option"
where
  "new_body n cur_rpt new_rpt res = (\<lambda>(res_new, rdr_new).
     let tmp_res = oh_get_resource_by_id cur_rpt (ResourceId res);
         res_new' = (case tmp_res of
                       None \<Rightarrow> res_new @ [res]
                     | Some tmp_res \<Rightarrow> if res \<noteq> tmp_res then res_new @ [res] else res_new)
     in map_option (Pair res_new')
          (for_entries n (oh_get_rdr_next new_rpt (ResourceId res)) RecordId
             (rdrs_new_body cur_rpt (ResourceId res) (tmp_res \<noteq> None))
             (oh_get_rdr_by_id new_rpt (ResourceId res) SAHPI_FIRST_ENTRY) rdr_new))"

record rpt_delta =
  res_new :: "SaHpiRptEntryT list"
  rdr_new :: "SaHpiRdrT list"
  res_gone :: "SaHpiRptEntryT list"
  rdr_gone :: "SaHpiRdrT list"

definition rpt_diff :: "nat \<Rightarrow> RPTable \<Rightarrow> RPTable \<Rightarrow> rpt_delta \<Rightarrow> (SaErrorT \<times> rpt_delta) option" where
  "rpt_diff n cur_rpt new_rpt d =
     (case for_entries n (oh_get_resource_next cur_rpt) ResourceId (gone_body n cur_rpt new_rpt)
             (oh_get_resource_by_id cur_rpt SAHPI_FIRST_ENTRY) (res_gone d, rdr_gone d) of
        None \<Rightarrow> None
      | Some (rg, dg) \<Rightarrow>
          (case for_entries n (oh_get_resource_next new_rpt) ResourceId
                  (new_body n cur_rpt new_rpt)
                  (oh_get_resource_by_id new_rpt SAHPI_FIRST_ENTRY) (res_new d, rdr_new d) of
             None \<Rightarrow> None
           | Some (rn, dn) \<Rightarrow>
               Some (SA_OK, d\<lparr>res_new := rn, rdr_new := dn, res_gone := rg, rdr_gone := dg\<rparr>)))"

end
