(* ===== verification/RptSpec.thy ===== *)
theory RptSpec
  imports Rpt
begin

text \<open>
  What the resource presence table promises. \<open>ents\<close> is the table as an ordered list of
  (resource id, entry) pairs, \<open>rpt_inv\<close> the invariant every operation keeps, \<open>resources\<close> and
  \<open>records\<close> the client's view: ordered association lists that the operations update
  like an ordered map. The iteration functions satisfy the contract \<open>keyed_list\<close>, from which
  the loops over the table, \<open>rpt_diff\<close> among them, get their meaning.
\<close>

section \<open>Ordered maps\<close>

definition adjust :: "u32 \<Rightarrow> ('a \<Rightarrow> 'a) \<Rightarrow> (u32 \<times> 'a) list \<Rightarrow> (u32 \<times> 'a) list" where
  "adjust k f xs = map (\<lambda>p. if fst p = k then (fst p, f (snd p)) else p) xs"

definition upsert :: "u32 \<Rightarrow> 'a \<Rightarrow> (u32 \<times> 'a) list \<Rightarrow> (u32 \<times> 'a) list" where
  "upsert k v xs = (if k \<in> fst ` set xs then adjust k (\<lambda>_. v) xs else xs @ [(k, v)])"

definition discard :: "u32 \<Rightarrow> (u32 \<times> 'a) list \<Rightarrow> (u32 \<times> 'a) list" where
  "discard k xs = filter (\<lambda>p. fst p \<noteq> k) xs"

lemma adjust_keys [simp]: "map fst (adjust k f xs) = map fst xs"
  by (induction xs) (auto simp: adjust_def)

lemma adjust_key_set [simp]: "fst ` set (adjust k f xs) = fst ` set xs"
  using adjust_keys [of k f xs] by (metis list.set_map)

lemma map_of_adjust: "map_of (adjust k f xs) j = (if j = k then map_option f else id) (map_of xs j)"
  by (induction xs) (auto simp: adjust_def)

lemma adjust_adjust: "adjust k f (adjust k g xs) = adjust k (f \<circ> g) xs"
  by (auto simp: adjust_def)

lemma adjust_none: "k \<notin> fst ` set xs \<Longrightarrow> adjust k f xs = xs"
  by (induction xs) (auto simp: adjust_def)

lemma adjust_cong: "(\<And>v. (k, v) \<in> set xs \<Longrightarrow> f v = g v) \<Longrightarrow> adjust k f xs = adjust k g xs"
  by (auto simp: adjust_def)

lemma adjust_id: "(\<And>v. (k, v) \<in> set xs \<Longrightarrow> f v = v) \<Longrightarrow> adjust k f xs = xs"
  unfolding adjust_def by (rule map_idI) auto

lemma in_adjust: "(j, v) \<in> set (adjust k f xs) \<longleftrightarrow>
    (\<exists>w. (j, w) \<in> set xs \<and> v = (if j = k then f w else w))"
  by (force simp: adjust_def)

lemma adjust_all:
  assumes "(j, v) \<in> set (adjust k f xs)" and "\<And>l w. (l, w) \<in> set xs \<Longrightarrow> P w"
    and "\<And>w. (k, w) \<in> set xs \<Longrightarrow> P (f w)"
  shows "P v"
proof -
  from assms(1) obtain w where "(j, w) \<in> set xs" "v = (if j = k then f w else w)"
    unfolding in_adjust by blast
  with assms(2,3) show ?thesis by (cases "j = k") auto
qed

lemma map_of_upsert: "map_of (upsert k v xs) j = (if j = k then Some v else map_of xs j)"
proof (cases "k \<in> fst ` set xs")
  case True
  then have "map_of xs k \<noteq> None" by (simp add: map_of_eq_None_iff)
  then show ?thesis using True by (auto simp: upsert_def map_of_adjust)
next
  case False
  then have "map_of xs k = None" by (simp add: map_of_eq_None_iff)
  then show ?thesis using False by (auto simp: upsert_def map_add_def split: option.splits)
qed

lemma map_of_discard: "map_of (discard k xs) = (map_of xs)(k := None)"
  by (induction xs) (auto simp: discard_def)

lemma discard_adjust: "discard k (adjust k f xs) = discard k xs"
  by (induction xs) (auto simp: adjust_def discard_def)

lemma upsert_keys: "fst ` set (upsert k v xs) = insert k (fst ` set xs)"
  by (auto simp: upsert_def)

section \<open>A node table as an ordered map\<close>

lemma nt_elem_Some:
  assumes "nt_inv key t" and "kid \<noteq> 0" and "nt_elem key t kid = Some (a, e)"
  shows "(a, e) \<in> set (nt_nodes t)" and "key e = kid" and "(kid, e) \<in> set (nt_abs key t)"
proof -
  show m: "(a, e) \<in> set (nt_nodes t)" using nt_elem_in [OF assms(3)] .
  have "nt_get key t kid = Some e" using nt_elem_get [of key t kid] assms(3) by simp
  then show "key e = kid" by (rule nt.get_key [OF assms(1,2)])
  then show "(kid, e) \<in> set (nt_abs key t)" using m by (force simp: nt_abs_def)
qed

lemma nt_elem_None:
  assumes "nt_inv key t" and "kid \<noteq> 0"
  shows "nt_elem key t kid = None \<longleftrightarrow> kid \<notin> fst ` set (nt_abs key t)"
proof -
  have "nt_elem key t kid = None \<longleftrightarrow> nt_get key t kid = None"
    unfolding nt_elem_get [of key t kid, symmetric] by simp
  then show ?thesis using nt.get_id [OF assms] by (simp add: map_of_eq_None_iff)
qed

text \<open>A write through the pointer of an element.\<close>

lemma nt_write_abs:
  assumes "nt_inv key t" and "(a, e) \<in> set (nt_nodes t)" and "key (f e) = key e"
  shows "nt_inv key (nt_write a f t)" and "nt_abs key (nt_write a f t) = adjust (key e) f (nt_abs key t)"
proof -
  show "nt_inv key (nt_write a f t)"
    using assms(3) nt_same [OF assms(1,2)] by (intro nt_inv_write assms(1)) auto
  show "nt_abs key (nt_write a f t) = adjust (key e) f (nt_abs key t)"
    using nt_abs_write [of key t a e f] assms by (simp add: adjust_def)
qed

text \<open>
  The idiom of \<open>oh_add_resource\<close> and \<open>oh_add_rdr\<close>: find the element or append a fresh one, then
  write through the pointer.
\<close>

lemma nt_put:
  assumes i: "nt_inv key t" and nz: "kid \<noteq> 0" and fr: "key fresh = kid"
    and f: "\<And>e. key e = kid \<Longrightarrow> key (f e) = kid"
    and p: "(case nt_elem key t kid of Some (a, e) \<Rightarrow> (a, t)
             | None \<Rightarrow> (nt_fresh t, nt_append key fresh t)) = (a, t')"
  shows "nt_inv key (nt_write a f t') \<and> nt_abs key (nt_write a f t') =
    (if kid \<in> fst ` set (nt_abs key t) then adjust kid f (nt_abs key t)
     else nt_abs key t @ [(kid, f fresh)])"
proof (cases "nt_elem key t kid")
  case None
  then have new: "kid \<notin> fst ` set (nt_abs key t)" using nt_elem_None [OF i nz] by simp
  have a: "a = nt_fresh t" "t' = nt_append key fresh t" using p None by auto
  have i': "nt_inv key t'" unfolding a using nt_inv_append [OF i] new fr by simp
  have "(a, fresh) \<in> set (nt_nodes t')" unfolding a by (simp add: nt_append_def Let_def)
  from nt_write_abs [OF i' this] f [OF fr] fr
  have "nt_inv key (nt_write a f t')"
    "nt_abs key (nt_write a f t') = adjust kid f (nt_abs key t')" by auto
  moreover have "adjust kid f (nt_abs key t') = nt_abs key t @ [(kid, f fresh)]"
    using adjust_none [OF new, of f] fr unfolding a by (simp add: nt_abs_append adjust_def)
  ultimately show ?thesis using new by simp
next
  case (Some q)
  obtain b e where q: "q = (b, e)" by force
  have "a = b" "t' = t" using p Some q by auto
  moreover note m = nt_elem_Some [OF i nz Some [unfolded q]]
  moreover have "kid \<in> fst ` set (nt_abs key t)" using m(3) by force
  ultimately show ?thesis using nt_write_abs [OF i m(1), of f] f [OF m(2)] by simp
qed

section \<open>The invariant\<close>

definition rec_ok :: "RDRecord \<Rightarrow> bool" where
  "rec_ok r \<longleftrightarrow> RecordId (rdr r) = oh_get_rdr_uid (RdrType (rdr r)) (oh_get_instrument_id (rdr r)) \<and>
     RecordId (rdr r) \<noteq> 0"

definition recs :: "RPTEntry \<Rightarrow> (u32 \<times> RDRecord) list" where
  "recs e = nt_abs rec_key (rdrs e)"

definition ent_ok :: "RPTEntry \<Rightarrow> bool" where
  "ent_ok e \<longleftrightarrow> EntryId (rpt_entry e) = ResourceId (rpt_entry e) \<and>
     ResourceId (rpt_entry e) \<noteq> SAHPI_FIRST_ENTRY \<and>
     ResourceId (rpt_entry e) \<noteq> SAHPI_UNSPECIFIED_RESOURCE_ID \<and>
     nt_inv rec_key (rdrs e) \<and> (\<forall>p \<in> set (recs e). rec_ok (snd p))"

definition ents :: "RPTable \<Rightarrow> (u32 \<times> RPTEntry) list" where
  "ents t = nt_abs ent_key (rptab t)"

definition rpt_inv :: "RPTable \<Rightarrow> bool" where
  "rpt_inv t \<longleftrightarrow> nt_inv ent_key (rptab t) \<and> (\<forall>p \<in> set (ents t). ent_ok (snd p))"

lemma rpt_inv_ok: "rpt_inv t \<Longrightarrow> (k, e) \<in> set (ents t) \<Longrightarrow> ent_ok e"
  by (force simp: rpt_inv_def)

lemma rpt_invI:
  "nt_inv ent_key (rptab t) \<Longrightarrow> (\<And>k e. (k, e) \<in> set (ents t) \<Longrightarrow> ent_ok e) \<Longrightarrow> rpt_inv t"
  by (auto simp: rpt_inv_def)

lemma rpt_inv_key: "rpt_inv t \<Longrightarrow> (k, e) \<in> set (ents t) \<Longrightarrow> k = ResourceId (rpt_entry e) \<and> k \<noteq> 0"
  using nt_abs_key [of k e ent_key "rptab t"]
  by (force simp: rpt_inv_def ents_def ent_ok_def ent_key_def)

lemma rpt_inv_nz: "rpt_inv t \<Longrightarrow> 0 \<notin> fst ` set (ents t)"
  using rpt_inv_key [of t] by force

lemma ent_ok_recs: "ent_ok e \<Longrightarrow> (k, r) \<in> set (recs e) \<Longrightarrow> k = RecordId (rdr r) \<and> k \<noteq> 0"
  using nt_abs_key [of k r rec_key "rdrs e"] by (force simp: ent_ok_def recs_def rec_ok_def rec_key_def)

text \<open>The entry behind a pointer. With id 0 it is the first entry.\<close>

lemma get_rptentry_ents:
  assumes "rpt_inv t" and "get_rptentry_by_rid t rid = Some (a, e)"
  shows "(ent_key e, e) \<in> set (ents t)" and "(a, e) \<in> set (nt_nodes (rptab t))" and "ent_ok e"
    and "ent_key e \<noteq> 0" and "rid = 0 \<or> rid = ent_key e"
proof -
  show m: "(a, e) \<in> set (nt_nodes (rptab t))"
    using assms(2) by (simp add: get_rptentry_by_rid_def nt_elem_in)
  then show x: "(ent_key e, e) \<in> set (ents t)" by (force simp: ents_def nt_abs_def)
  show "ent_key e \<noteq> 0" using rpt_inv_key [OF assms(1) x] by auto
  show "ent_ok e" using assms(1) x by (force simp: rpt_inv_def)
  show "rid = 0 \<or> rid = ent_key e"
    using assms nt_elem_Some(2) [of ent_key "rptab t" rid a e]
    by (auto simp: rpt_inv_def get_rptentry_by_rid_def)
qed

lemma get_rdrecord_recs:
  assumes "ent_ok e" and "get_rdrecord_by_id e rid = Some (b, r)"
  shows "(rec_key r, r) \<in> set (recs e)" and "(b, r) \<in> set (nt_nodes (rdrs e))"
    and "rid = 0 \<or> rid = rec_key r"
proof -
  show m: "(b, r) \<in> set (nt_nodes (rdrs e))"
    using assms(2) by (simp add: get_rdrecord_by_id_def nt_elem_in)
  then show x: "(rec_key r, r) \<in> set (recs e)" by (force simp: recs_def nt_abs_def)
  show "rid = 0 \<or> rid = rec_key r"
    using assms nt_elem_Some(2) [of rec_key "rdrs e" rid b r]
    by (auto simp: ent_ok_def get_rdrecord_by_id_def)
qed

text \<open>A write through an entry pointer that keeps the entry well-formed.\<close>

lemma rpt_write:
  assumes i: "rpt_inv t" and m: "(a, e) \<in> set (nt_nodes (rptab t))"
    and k: "ent_key (f e) = ent_key e" and ok: "ent_ok (f e)"
    and t': "rptab t' = nt_write a f (rptab t)"
  shows "rpt_inv t'" and "ents t' = adjust (ent_key e) f (ents t)"
proof -
  have nt: "nt_inv ent_key (rptab t)" using i by (simp add: rpt_inv_def)
  show e': "ents t' = adjust (ent_key e) f (ents t)"
    using nt_write_abs(2) [OF nt m, of f, OF k] by (simp add: ents_def t')
  have "(ent_key e, e) \<in> set (ents t)" using m by (force simp: ents_def nt_abs_def)
  then have u: "(ent_key e, x) \<in> set (ents t) \<Longrightarrow> x = e" for x
    using nt_keys_distinct [OF nt] by (auto simp: ents_def dest: eq_key_imp_eq_value)
  have "ent_ok v" if "(j, v) \<in> set (ents t')" for j v
    using that unfolding e'
  proof (rule adjust_all)
    show "ent_ok w" if "(l, w) \<in> set (ents t)" for l w using that by (rule rpt_inv_ok [OF i])
    show "ent_ok (f w)" if "(ent_key e, w) \<in> set (ents t)" for w using u [OF that] ok by simp
  qed
  then show "rpt_inv t'" using nt_write_abs(1) [OF nt m, of f, OF k] by (intro rpt_invI) (simp_all add: t')
qed

section \<open>The operations on the ordered list of entries\<close>

text \<open>What an entry becomes when a resource is added over it.\<close>

definition put_entry :: "SaHpiRptEntryT \<Rightarrow> nat \<Rightarrow> bool \<Rightarrow> RPTEntry \<Rightarrow> RPTEntry" where
  "put_entry x d own e = e\<lparr>rpt_entry := x, ent_data := d, ent_owndata := own\<rparr>"

lemma ent_ok_put_entry:
  "ent_ok e \<Longrightarrow> ResourceId x \<noteq> 0 \<Longrightarrow> ResourceId x \<noteq> SAHPI_UNSPECIFIED_RESOURCE_ID \<Longrightarrow>
    EntryId x = ResourceId x \<Longrightarrow> ent_ok (put_entry x d own e)"
  by (simp add: ent_ok_def put_entry_def recs_def)

lemma ent_ok_fresh:
  "ResourceId x \<noteq> 0 \<Longrightarrow> ResourceId x \<noteq> SAHPI_UNSPECIFIED_RESOURCE_ID \<Longrightarrow>
    EntryId x = ResourceId x \<Longrightarrow> ent_ok (put_entry x d own zero_rptentry)"
  by (simp add: ent_ok_def put_entry_def recs_def zero_rptentry_def nt_inv_empty nt_abs_empty)

lemma add_resource_ents:
  assumes i: "rpt_inv t" and nz: "ResourceId x \<noteq> 0" "ResourceId x \<noteq> SAHPI_UNSPECIFIED_RESOURCE_ID"
    and c: "oh_add_resource now t x d own = (err, x', t')"
  shows "err = SA_OK" and "x' = x\<lparr>EntryId := ResourceId x\<rparr>" and "rpt_inv t'"
    and "ents t' = (if ResourceId x \<in> fst ` set (ents t)
      then adjust (ResourceId x) (put_entry x' d own) (ents t)
      else ents t @ [(ResourceId x, put_entry x' d own zero_rptentry)])"
proof -
  let ?k = "ResourceId x" and ?x = "x\<lparr>EntryId := ResourceId x\<rparr>"
  let ?fresh = "zero_rptentry\<lparr>rpt_entry := zero_rpt_entry\<lparr>EntryId := ResourceId x\<rparr>\<rparr>"
  let ?g = "\<lambda>u e. (if u then e\<lparr>rpt_entry := ?x\<rparr> else e)\<lparr>ent_data := d, ent_owndata := own\<rparr>"
  have nt: "nt_inv ent_key (rptab t)" using i by (simp add: rpt_inv_def)
  define u where "u = (case get_rptentry_by_rid t ?k of None \<Rightarrow> True | Some (_, e) \<Rightarrow> ?x \<noteq> rpt_entry e)"
  obtain a tab where at: "(case nt_elem ent_key (rptab t) ?k of Some (a, e) \<Rightarrow> (a, rptab t)
      | None \<Rightarrow> (nt_fresh (rptab t), nt_append ent_key ?fresh (rptab t))) = (a, tab)" by force
  have r: "err = SA_OK \<and> x' = ?x \<and> rptab t' = nt_write a (?g u) tab"
    using c nz at
    by (auto simp: oh_add_resource_def oh_valid_ep_def get_rptentry_by_rid_def u_def Let_def
        update_rptable_def split: option.splits prod.splits)
  show "err = SA_OK" and x': "x' = ?x" using r by auto
  have key: "ent_key e = ?k \<Longrightarrow> ent_key (?g u e) = ?k" for e by (simp add: ent_key_def)
  have p: "nt_inv ent_key (nt_write a (?g u) tab) \<and> nt_abs ent_key (nt_write a (?g u) tab) =
    (if ?k \<in> fst ` set (ents t) then adjust ?k (?g u) (ents t) else ents t @ [(?k, ?g u ?fresh)])"
    using nt_put [OF nt nz(1) _ key at] by (simp add: ents_def ent_key_def)
  have old: "?g u e = put_entry ?x d own e" if "(?k, e) \<in> set (ents t)" for e
  proof -
    have "?k \<in> fst ` set (nt_abs ent_key (rptab t))" using that by (force simp: ents_def)
    then obtain b e' where b: "nt_elem ent_key (rptab t) ?k = Some (b, e')"
      using nt_elem_None [OF nt nz(1)] by (cases "nt_elem ent_key (rptab t) ?k") auto
    have "e' = e"
      using nt_elem_Some(3) [OF nt nz(1) b] that nt_keys_distinct [OF nt]
      by (auto simp: ents_def dest: eq_key_imp_eq_value)
    then have "u = (?x \<noteq> rpt_entry e)" using b by (simp add: u_def get_rptentry_by_rid_def)
    then show ?thesis by (simp add: put_entry_def)
  qed
  have new: "?g u ?fresh = put_entry ?x d own zero_rptentry" if "?k \<notin> fst ` set (ents t)"
    using that nt_elem_None [OF nt nz(1)]
    by (simp add: u_def get_rptentry_by_rid_def ents_def put_entry_def)
  show e: "ents t' = (if ?k \<in> fst ` set (ents t)
      then adjust ?k (put_entry x' d own) (ents t)
      else ents t @ [(?k, put_entry x' d own zero_rptentry)])"
    using p r new adjust_cong [of ?k "ents t" "?g u" "put_entry ?x d own"] old
    by (auto simp: ents_def [of t'])
  have pe: "ent_ok (put_entry x' d own w)" if "(l, w) \<in> set (ents t)" for l w
    using ent_ok_put_entry [OF rpt_inv_ok [OF i that]] nz by (simp add: x')
  have pf: "ent_ok (put_entry x' d own zero_rptentry)" using nz by (simp add: x' ent_ok_fresh)
  have "ent_ok v" if v: "(j, v) \<in> set (ents t')" for j v
  proof (cases "?k \<in> fst ` set (ents t)")
    case True
    show ?thesis using v [unfolded e] pe rpt_inv_ok [OF i] True
      by (auto elim!: adjust_all [where P = ent_ok])
  next
    case False
    then show ?thesis using v [unfolded e] rpt_inv_ok [OF i] pf by auto
  qed
  then show "rpt_inv t'" using p r by (intro rpt_invI) simp_all
qed

lemma instrument_id_upd [simp]: "oh_get_instrument_id (x\<lparr>RecordId := k\<rparr>) = oh_get_instrument_id x"
  by (cases x) (simp add: oh_get_instrument_id_def split: SaHpiRdrTypeT.split)

text \<open>
  The record operations replace the entry of the resource by one with other records and a
  higher update count.
\<close>

definition same_but_rdrs :: "RPTEntry \<Rightarrow> RPTEntry \<Rightarrow> bool" where
  "same_but_rdrs e' e \<longleftrightarrow> rpt_entry e' = rpt_entry e \<and> ent_data e' = ent_data e \<and>
     ent_owndata e' = ent_owndata e"

lemma same_but_rdrs_key: "same_but_rdrs e' e \<Longrightarrow> ent_key e' = ent_key e"
  by (simp add: same_but_rdrs_def ent_key_def)

lemma same_but_rdrs_trans: "same_but_rdrs a b \<Longrightarrow> same_but_rdrs b c \<Longrightarrow> same_but_rdrs a c"
  by (simp add: same_but_rdrs_def)

lemma ent_ok_rdrs:
  "ent_ok e \<Longrightarrow> same_but_rdrs e' e \<Longrightarrow> nt_inv rec_key (rdrs e') \<Longrightarrow>
    (\<And>k r. (k, r) \<in> set (recs e') \<Longrightarrow> rec_ok r) \<Longrightarrow> ent_ok e'"
  by (auto simp: ent_ok_def same_but_rdrs_def)

lemma rec_ok_in: "ent_ok e \<Longrightarrow> (k, r) \<in> set (recs e) \<Longrightarrow> rec_ok r"
  by (force simp: ent_ok_def)

text \<open>Writing new records into the entry behind a pointer.\<close>

lemma write_rdrs:
  assumes i: "rpt_inv t" and g: "get_rptentry_by_rid t rid = Some (a, e)"
    and nt: "nt_inv rec_key tab" and ok: "\<forall>p \<in> set (nt_abs rec_key tab). rec_ok (snd p)"
    and t': "t' = t\<lparr>rptab := nt_write a (\<lambda>e. e\<lparr>rdrs := tab,
      rdr_update_count := rdr_update_count e + 1\<rparr>) (rptab t), freed := fr\<rparr>"
  shows "\<exists>e'. rpt_inv t' \<and> ents t' = adjust (ent_key e) (\<lambda>_. e') (ents t) \<and> same_but_rdrs e' e \<and>
    rdrs e' = tab \<and> get_rptentry_by_rid t' rid = Some (a, e') \<and> ent_ok e' \<and>
    rdr_update_count e' = rdr_update_count e + 1"
proof -
  let ?f = "\<lambda>e. e\<lparr>rdrs := tab, rdr_update_count := rdr_update_count e + 1\<rparr>"
  note e = get_rptentry_ents [OF i g]
  have k: "ent_key (?f x) = ent_key x" for x by (simp add: ent_key_def)
  have sb: "same_but_rdrs (?f e) e" by (simp add: same_but_rdrs_def)
  have eok: "ent_ok (?f e)" using ent_ok_rdrs [OF e(3) sb] nt ok by (force simp: recs_def)
  have w: "rpt_inv t'" "ents t' = adjust (ent_key e) ?f (ents t)"
    using rpt_write [OF i e(2), of ?f t'] k eok by (simp_all add: t')
  have u: "x = e" if "(ent_key e, x) \<in> set (ents t)" for x
    using that e(1) i nt_keys_distinct [of ent_key "rptab t"]
    by (auto simp: ents_def rpt_inv_def dest: eq_key_imp_eq_value)
  have "ents t' = adjust (ent_key e) (\<lambda>_. ?f e) (ents t)"
    unfolding w(2) by (rule adjust_cong) (drule u, simp)
  moreover have "get_rptentry_by_rid t' rid = Some (a, ?f e)"
    using get_rptentry_write [where f = ?f and table = t and a = a and fr = fr and rid = rid] k g by (simp add: t')
  ultimately show ?thesis using w(1) sb eok by (intro exI [of _ "?f e"]) simp
qed

lemma add_rdr_ents:
  assumes i: "rpt_inv t" and g: "get_rptentry_by_rid t rid = Some (a, e)"
    and ck: "check_instrument_id (rpt_entry e) x = 0"
    and nz: "oh_get_rdr_uid (RdrType x) (oh_get_instrument_id x) \<noteq> 0"
    and c: "oh_add_rdr t rid x d own = (err, x', t')"
  shows "err = SA_OK \<and> x' = x\<lparr>RecordId := oh_get_rdr_uid (RdrType x) (oh_get_instrument_id x)\<rparr> \<and>
    rpt_inv t' \<and> (\<exists>e'. ents t' = adjust (ent_key e) (\<lambda>_. e') (ents t) \<and> same_but_rdrs e' e \<and>
      get_rptentry_by_rid t' rid = Some (a, e') \<and> ent_ok e' \<and>
      rdr_update_count e' = rdr_update_count e + 1 \<and>
      recs e' = upsert (RecordId x') \<lparr>rdr = x', rdr_owndata = own, rdr_data = d\<rparr> (recs e))"
proof -
  let ?k = "oh_get_rdr_uid (RdrType x) (oh_get_instrument_id x)"
  let ?x = "x\<lparr>RecordId := ?k\<rparr>"
  let ?new = "\<lparr>rdr = ?x, rdr_owndata = own, rdr_data = d\<rparr>"
  let ?fresh = "zero_rdrecord\<lparr>rdr := zero_rdr\<lparr>RecordId := ?k\<rparr>\<rparr>"
  let ?f = "\<lambda>r :: RDRecord. r\<lparr>rdr_data := d, rdr_owndata := own, rdr := ?x\<rparr>"
  note ok = get_rptentry_ents(3) [OF i g]
  have nt: "nt_inv rec_key (rdrs e)" using ok by (simp add: ent_ok_def)
  obtain b tab where bt: "(case nt_elem rec_key (rdrs e) ?k of Some (b, r) \<Rightarrow> (b, rdrs e)
      | None \<Rightarrow> (nt_fresh (rdrs e), nt_append rec_key ?fresh (rdrs e))) = (b, tab)" by force
  have r: "err = SA_OK \<and> x' = ?x \<and> (\<exists>fr. t' = t\<lparr>rptab := nt_write a (\<lambda>e. e\<lparr>rdrs := nt_write b ?f tab,
      rdr_update_count := rdr_update_count e + 1\<rparr>) (rptab t), freed := fr\<rparr>)"
    using c g ck bt
    by (auto simp: oh_add_rdr_def get_rdrecord_by_id_def Let_def split: option.splits prod.splits)
  have f: "?f r = ?new" for r by (cases r) simp
  have rk: "rec_key ?new = ?k" by (simp add: rec_key_def)
  have p: "nt_inv rec_key (nt_write b ?f tab) \<and>
      nt_abs rec_key (nt_write b ?f tab) = upsert ?k ?new (recs e)"
    using nt_put [OF nt nz _ _ bt, of ?f] by (simp add: recs_def upsert_def f rec_key_def)
  have "rec_ok ?new" using nz by (simp add: rec_ok_def)
  then have "rec_ok r" if "(k, r) \<in> set (upsert ?k ?new (recs e))" for k r
    using that rec_ok_in [OF ok]
    by (auto simp: upsert_def split: if_splits elim!: adjust_all [where P = rec_ok])
  then have rok: "\<forall>p \<in> set (nt_abs rec_key (nt_write b ?f tab)). rec_ok (snd p)" using p by force
  obtain fr where t': "t' = t\<lparr>rptab := nt_write a (\<lambda>e. e\<lparr>rdrs := nt_write b ?f tab,
      rdr_update_count := rdr_update_count e + 1\<rparr>) (rptab t), freed := fr\<rparr>" using r by blast
  from write_rdrs [OF i g _ rok t'] p r show ?thesis by (auto simp: recs_def)
qed

lemma remove_rdr_ents:
  assumes i: "rpt_inv t" and g: "get_rptentry_by_rid t rid = Some (a, e)"
    and gr: "get_rdrecord_by_id e rdrid = Some (b, r)"
    and c: "oh_remove_rdr t rid rdrid = (err, t')"
  shows "err = SA_OK \<and> rpt_inv t' \<and>
    freed t' = freed t @ (if rdr_owndata r then [] else free_data (rdr_data r)) \<and>
    (\<exists>e'. ents t' = adjust (ent_key e) (\<lambda>_. e') (ents t) \<and> same_but_rdrs e' e \<and>
      get_rptentry_by_rid t' rid = Some (a, e') \<and> ent_ok e' \<and>
      rdr_update_count e' = rdr_update_count e + 1 \<and> recs e' = discard (rec_key r) (recs e))"
proof -
  note ok = get_rptentry_ents(3) [OF i g]
  note m = get_rdrecord_recs(2) [OF ok gr]
  have nt: "nt_inv rec_key (rdrs e)" using ok by (simp add: ent_ok_def)
  let ?tab = "nt_remove rec_key b (rdrs e)"
  have a: "nt_abs rec_key ?tab = discard (rec_key r) (recs e)"
    using nt_abs_remove [OF nt m] by (simp add: recs_def discard_def)
  let ?fr = "freed t @ (if rdr_owndata r then [] else free_data (rdr_data r))"
  have u: "x = e" if "(a, x) \<in> set (nt_nodes (rptab t))" for x
    using nt_same [of ent_key, OF _ get_rptentry_ents(2) [OF i g] that] i by (simp add: rpt_inv_def)
  have t': "err = SA_OK" "t' = t\<lparr>rptab := nt_write a (\<lambda>x. x\<lparr>rdrs := ?tab,
      rdr_update_count := rdr_update_count x + 1\<rparr>) (rptab t), freed := ?fr\<rparr>"
  proof -
    have "nt_write a (\<lambda>x. x\<lparr>rdrs := ?tab, rdr_update_count := rdr_update_count x + 1\<rparr>) (rptab t) =
      nt_write a (\<lambda>x. x\<lparr>rdrs := nt_remove rec_key b (rdrs x),
        rdr_update_count := rdr_update_count x + 1\<rparr>) (rptab t)"
      unfolding nt_write_def
      by (intro arg_cong [where f = "\<lambda>ns. rptab t\<lparr>nt_nodes := ns\<rparr>"] map_cong [OF refl])
        (auto dest: u)
    then show "err = SA_OK" "t' = t\<lparr>rptab := nt_write a (\<lambda>x. x\<lparr>rdrs := ?tab,
      rdr_update_count := rdr_update_count x + 1\<rparr>) (rptab t), freed := ?fr\<rparr>"
      using c g gr by (auto simp: oh_remove_rdr_def)
  qed
  have rok: "\<forall>p \<in> set (nt_abs rec_key ?tab). rec_ok (snd p)"
    using rec_ok_in [OF ok] unfolding a by (auto simp: discard_def)
  from write_rdrs [OF i g nt_inv_remove [OF nt m] rok t'(2)] t' a show ?thesis
    by (auto simp: recs_def)
qed

subsection \<open>Private data\<close>

text \<open>The private data pointers the table has to free: those it owns.\<close>

definition held_rec :: "RDRecord \<Rightarrow> nat list" where
  "held_rec r = (if rdr_owndata r then [] else free_data (rdr_data r))"

definition held_ent :: "RPTEntry \<Rightarrow> nat list" where
  "held_ent e = (if ent_owndata e then [] else free_data (ent_data e)) @
     concat (map (\<lambda>p. held_rec (snd p)) (recs e))"

definition held :: "RPTable \<Rightarrow> nat list" where
  "held t = concat (map (\<lambda>p. held_ent (snd p)) (ents t))"

lemma concat_split_key:
  assumes "distinct (map fst xs)" and "(k, v) \<in> set xs"
  shows "mset (concat (map (\<lambda>p. g (snd p)) xs)) =
    mset (g v) + mset (concat (map (\<lambda>p. g (snd p)) (discard k xs)))"
  using assms
proof (induction xs)
  case Nil
  then show ?case by simp
next
  case (Cons p xs)
  show ?case
  proof (cases "fst p = k")
    case True
    then have "k \<notin> fst ` set xs" using Cons.prems(1) by auto
    then have d: "discard k xs = xs" and nk: "(k, v) \<notin> set xs"
      by (auto simp: discard_def filter_id_conv image_iff)
    then have "p = (k, v)" using Cons.prems(2) by auto
    then show ?thesis using d by (simp add: discard_def)
  next
    case False
    then have "mset (concat (map (\<lambda>p. g (snd p)) xs)) =
        mset (g v) + mset (concat (map (\<lambda>p. g (snd p)) (discard k xs)))"
      using Cons by auto
    then show ?thesis using False by (simp add: discard_def)
  qed
qed

lemma held_adjust:
  assumes "distinct (map fst xs)" and "(k, v) \<in> set xs"
  shows "mset (concat (map (\<lambda>p. g (snd p)) (adjust k (\<lambda>_. w) xs))) =
    mset (g w) + mset (concat (map (\<lambda>p. g (snd p)) (discard k xs)))"
proof -
  have "distinct (map fst (adjust k (\<lambda>_. w) xs))" using assms(1) by simp
  moreover have "(k, w) \<in> set (adjust k (\<lambda>_. w) xs)" unfolding in_adjust using assms(2) by auto
  ultimately show ?thesis
    using concat_split_key [of "adjust k (\<lambda>_. w) xs" k w g] by (simp add: discard_adjust)
qed

lemma ents_distinct: "rpt_inv t \<Longrightarrow> distinct (map fst (ents t))"
  by (simp add: rpt_inv_def ents_def nt_keys_distinct)

lemma recs_distinct: "ent_ok e \<Longrightarrow> distinct (map fst (recs e))"
  by (simp add: ent_ok_def recs_def nt_keys_distinct)

text \<open>Removing a record neither loses nor duplicates a pointer.\<close>

lemma remove_rdr_held:
  assumes i: "rpt_inv t" and c: "oh_remove_rdr t rid rdrid = (err, t')"
  shows "mset (freed t') + mset (held t') = mset (freed t) + mset (held t)"
proof (cases "oh_get_rdr_by_id t rid rdrid")
  case None
  then have "t' = t" using c by (auto simp: oh_get_rdr_by_id_def oh_remove_rdr_def split: option.splits)
  then show ?thesis by simp
next
  case (Some x)
  then obtain a e b r where g: "get_rptentry_by_rid t rid = Some (a, e)"
      and gr: "get_rdrecord_by_id e rdrid = Some (b, r)"
    by (auto simp: oh_get_rdr_by_id_def split: option.splits)
  note ok = get_rptentry_ents [OF i g] and m = get_rdrecord_recs(1) [OF get_rptentry_ents(3) [OF i g] gr]
  from remove_rdr_ents [OF i g gr c] obtain e' where e': "ents t' = adjust (ent_key e) (\<lambda>_. e') (ents t)"
      "same_but_rdrs e' e" "recs e' = discard (rec_key r) (recs e)" "freed t' = freed t @ held_rec r"
    by (auto simp: held_rec_def)
  have "mset (held_ent e) = mset (held_rec r) + mset (held_ent e')"
    using concat_split_key [OF recs_distinct [OF ok(3)] m, of held_rec] e'(2,3)
    by (simp add: held_ent_def same_but_rdrs_def)
  then show ?thesis
    using held_adjust [OF ents_distinct [OF i] ok(1), of held_ent e'] e'
      concat_split_key [OF ents_distinct [OF i] ok(1), of held_ent]
    by (simp add: held_def)
qed

subsection \<open>Removing a resource\<close>

lemma remove_rdrs_loop_ents:
  assumes "rpt_inv t" and "get_rptentry_by_rid t rid = Some (a, e)"
  shows "rpt_inv (remove_rdrs_loop t rid) \<and>
    mset (freed (remove_rdrs_loop t rid)) + mset (held (remove_rdrs_loop t rid)) =
      mset (freed t) + mset (held t) \<and>
    (\<exists>e'. ents (remove_rdrs_loop t rid) = adjust (ent_key e) (\<lambda>_. e') (ents t) \<and>
       same_but_rdrs e' e \<and> recs e' = [] \<and>
       get_rptentry_by_rid (remove_rdrs_loop t rid) rid = Some (a, e'))"
  using assms
proof (induction t rid arbitrary: e rule: remove_rdrs_loop.induct)
  case (1 t rid)
  note i = "1.prems"(1) and g = "1.prems"(2)
  note ok = get_rptentry_ents [OF i g]
  show ?case
  proof (cases "get_rdrecord_by_id e 0")
    case None
    then have "oh_get_rdr_by_id t rid 0 = None" using g by (simp add: oh_get_rdr_by_id_def)
    then have s: "remove_rdrs_loop t rid = t" by (subst remove_rdrs_loop.simps) simp
    have "recs e = []"
      using None by (auto simp: get_rdrecord_by_id_def nt_elem_def recs_def nt_abs_def split: list.splits)
    moreover have "ents t = adjust (ent_key e) (\<lambda>_. e) (ents t)"
      using ok(1) ents_distinct [OF i] by (intro adjust_id [symmetric]) (auto dest: eq_key_imp_eq_value)
    ultimately show ?thesis unfolding s using i g by (auto simp: same_but_rdrs_def)
  next
    case (Some q)
    obtain b r where q: "q = (b, r)" by force
    obtain err t1 where c: "oh_remove_rdr t rid 0 = (err, t1)" by force
    have x: "oh_get_rdr_by_id t rid 0 = Some (rdr r)" using g Some q by (simp add: oh_get_rdr_by_id_def)
    then have s: "remove_rdrs_loop t rid = remove_rdrs_loop t1 rid"
      using c by (subst remove_rdrs_loop.simps) simp
    from remove_rdr_ents [OF i g Some [unfolded q] c] obtain e1 where e1: "rpt_inv t1"
        "ents t1 = adjust (ent_key e) (\<lambda>_. e1) (ents t)" "same_but_rdrs e1 e"
        "get_rptentry_by_rid t1 rid = Some (a, e1)" by blast
    have "t1 = snd (oh_remove_rdr t rid 0)" using c by simp
    from "1.IH" [OF x, folded this, OF e1(1,4)] remove_rdr_held [OF i c] e1
    show ?thesis unfolding s
      by (auto simp: adjust_adjust comp_def same_but_rdrs_key dest: same_but_rdrs_trans)
  qed
qed

lemma remove_resource_ents:
  assumes i: "rpt_inv t" and g: "get_rptentry_by_rid t rid = Some (a, e)"
    and c: "oh_remove_resource now t rid = (err, t')"
  shows "err = SA_OK \<and> rpt_inv t' \<and> ents t' = discard (ent_key e) (ents t) \<and>
    mset (freed t') + mset (held t') = mset (freed t) + mset (held t)"
proof -
  let ?t = "remove_rdrs_loop t rid"
  from remove_rdrs_loop_ents [OF i g] obtain e' where l: "rpt_inv ?t"
      "mset (freed ?t) + mset (held ?t) = mset (freed t) + mset (held t)"
      "ents ?t = adjust (ent_key e) (\<lambda>_. e') (ents t)" "same_but_rdrs e' e" "recs e' = []"
      "get_rptentry_by_rid ?t rid = Some (a, e')" by blast
  note ok = get_rptentry_ents [OF l(1,6)]
  have nt: "nt_inv ent_key (rptab ?t)" using l(1) by (simp add: rpt_inv_def)
  have k: "ent_key e' = ent_key e" using l(4) by (rule same_but_rdrs_key)
  have t': "err = SA_OK" "rptab t' = nt_remove ent_key a (rptab ?t)"
      "freed t' = freed ?t @ held_ent e'"
    using c g l(4,5) by (auto simp: oh_remove_resource_def update_rptable_def Let_def held_ent_def
        same_but_rdrs_def)
  have e: "ents t' = discard (ent_key e) (ents ?t)"
    using nt_abs_remove [OF nt ok(2)] k by (simp add: ents_def t'(2) discard_def)
  have "rpt_inv t'"
  proof (rule rpt_invI)
    show "nt_inv ent_key (rptab t')" using nt_inv_remove [OF nt ok(2)] by (simp add: t'(2))
    show "ent_ok x" if "(j, x) \<in> set (ents t')" for j x
      using that rpt_inv_ok [OF l(1)] unfolding e by (auto simp: discard_def)
  qed
  moreover have "mset (held ?t) = mset (held_ent e') + mset (held t')"
    using concat_split_key [OF ents_distinct [OF l(1)] ok(1), of held_ent] k by (simp add: held_def e)
  ultimately show ?thesis using t' e l(2,3) by (simp add: discard_adjust add.assoc)
qed

lemma flush_loop_ents:
  assumes "rpt_inv t"
  shows "rpt_inv (flush_loop clock t) \<and> ents (flush_loop clock t) = [] \<and>
    mset (freed (flush_loop clock t)) = mset (freed t) + mset (held t)"
  using assms
proof (induction clock t rule: flush_loop.induct)
  case (1 clock t)
  show ?case
  proof (cases "get_rptentry_by_rid t 0")
    case None
    then have "oh_get_resource_by_id t 0 = None" by (simp add: oh_get_resource_by_id_def)
    then have s: "flush_loop clock t = t" by (subst flush_loop.simps) simp
    have "ents t = []"
      using None by (auto simp: get_rptentry_by_rid_def nt_elem_def ents_def nt_abs_def split: list.splits)
    then show ?thesis unfolding s using "1.prems" by (simp add: held_def)
  next
    case (Some q)
    obtain a e where q: "q = (a, e)" by force
    obtain err t1 where c: "oh_remove_resource (clock 0) t 0 = (err, t1)" by force
    have x: "oh_get_resource_by_id t 0 = Some (rpt_entry e)"
      using Some q by (simp add: oh_get_resource_by_id_def)
    then have s: "flush_loop clock t = flush_loop (\<lambda>i. clock (Suc i)) t1"
      using c by (subst flush_loop.simps) simp
    note r = remove_resource_ents [OF "1.prems" Some [unfolded q] c]
    have "t1 = snd (oh_remove_resource (clock 0) t 0)" using c by simp
    from "1.IH" [OF x, folded this] r show ?thesis unfolding s by simp
  qed
qed

section \<open>The client's view\<close>

definition resources :: "RPTable \<Rightarrow> (u32 \<times> SaHpiRptEntryT) list" where
  "resources t = map (\<lambda>p. (fst p, rpt_entry (snd p))) (ents t)"

definition records_of :: "RPTEntry \<Rightarrow> (u32 \<times> SaHpiRdrT) list" where
  "records_of e = map (\<lambda>p. (fst p, rdr (snd p))) (recs e)"

definition records :: "RPTable \<Rightarrow> u32 \<Rightarrow> (u32 \<times> SaHpiRdrT) list" where
  "records t rid = (case get_rptentry_by_rid t rid of None \<Rightarrow> [] | Some (_, e) \<Rightarrow> records_of e)"

lemma resource_by_id_nt: "oh_get_resource_by_id t rid = map_option rpt_entry (nt_get ent_key (rptab t) rid)"
  by (auto simp: oh_get_resource_by_id_def get_rptentry_by_rid_def nt_elem_get [symmetric]
      split: option.splits)

lemma resource_next_nt: "oh_get_resource_next t rid = map_option rpt_entry (nt_next ent_key (rptab t) rid)"
  by (auto simp: oh_get_resource_next_def nt_next_def get_rptentry_by_rid_def get_rptnode_by_rid_def
      nt_elem_get [symmetric] Let_def split: option.splits)

lemma rdr_by_id_nt:
  "oh_get_rdr_by_id t rid k = (case get_rptentry_by_rid t rid of None \<Rightarrow> None
     | Some (_, e) \<Rightarrow> map_option rdr (nt_get rec_key (rdrs e) k))"
  by (auto simp: oh_get_rdr_by_id_def get_rdrecord_by_id_def nt_elem_get [symmetric]
      split: option.splits)

lemma rdr_next_nt:
  "oh_get_rdr_next t rid k = (case get_rptentry_by_rid t rid of None \<Rightarrow> None
     | Some (_, e) \<Rightarrow> map_option rdr (nt_next rec_key (rdrs e) k))"
  by (auto simp: oh_get_rdr_next_def nt_next_def get_rdrecord_by_id_def get_rdrnode_by_id_def
      nt_elem_get [symmetric] Let_def split: option.splits)

lemma map_of_snd: "map_of (map (\<lambda>p. (fst p, f (snd p))) xs) k = map_option f (map_of xs k)"
  by (induction xs) auto

lemma find_after_snd:
  "map_option snd (find_after (\<lambda>p. fst p = k) (map (\<lambda>p. (fst p, f (snd p))) xs)) =
    map_option f (map_option snd (find_after (\<lambda>p. fst p = k) xs))"
  by (simp add: find_after_map option.map_comp comp_def)

interpretation rpt_list:
  keyed_list rpt_inv resources ResourceId oh_get_resource_by_id oh_get_resource_next
proof unfold_locales
  fix t :: RPTable and k e and kid :: u32
  assume i: "rpt_inv t"
  then have nt: "nt_inv ent_key (rptab t)" by (simp add: rpt_inv_def)
  show "(k, e) \<in> set (resources t) \<Longrightarrow> ResourceId e = k"
    using rpt_inv_key [OF i] by (auto simp: resources_def)
  show "distinct (map fst (resources t))"
    using ents_distinct [OF i] by (simp add: resources_def comp_def)
  show "oh_get_resource_by_id t 0 = (case resources t of [] \<Rightarrow> None | (k, e) # _ \<Rightarrow> Some e)"
    using nt.get_first [OF nt]
    by (auto simp: resource_by_id_nt resources_def ents_def split: list.splits)
  show "oh_get_resource_next t 0 = oh_get_resource_by_id t 0"
    by (simp add: resource_by_id_nt resource_next_nt nt.next_first [OF nt])
  assume z: "kid \<noteq> 0"
  show "oh_get_resource_by_id t kid = map_of (resources t) kid"
    using nt.get_id [OF nt z] by (simp add: resource_by_id_nt resources_def ents_def map_of_snd)
  show "oh_get_resource_next t kid = map_option snd (find_after (\<lambda>p. fst p = kid) (resources t))"
    using nt.next_id [OF nt z]
    by (simp add: resource_next_nt resources_def ents_def find_after_snd)
qed

interpretation rdr_list:
  keyed_list rpt_inv "\<lambda>t. records t rid" RecordId "\<lambda>t. oh_get_rdr_by_id t rid"
    "\<lambda>t. oh_get_rdr_next t rid" for rid
proof unfold_locales
  fix t :: RPTable and k e and kid :: u32
  assume i: "rpt_inv t"
  consider "get_rptentry_by_rid t rid = None"
    | a x where "get_rptentry_by_rid t rid = Some (a, x)" "ent_ok x" "nt_inv rec_key (rdrs x)"
    using get_rptentry_ents(3) [OF i]
    by (cases "get_rptentry_by_rid t rid") (auto simp: ent_ok_def)
  note c = this
  show "(k, e) \<in> set (records t rid) \<Longrightarrow> RecordId e = k"
    using c by cases (auto simp: records_def records_of_def dest: ent_ok_recs)
  show "distinct (map fst (records t rid))"
    using c by cases (auto simp: records_def records_of_def comp_def dest: recs_distinct)
  show "oh_get_rdr_by_id t rid 0 = (case records t rid of [] \<Rightarrow> None | (k, e) # _ \<Rightarrow> Some e)"
    using c by cases
      (auto simp: rdr_by_id_nt records_def records_of_def recs_def nt.get_first split: list.splits)
  show "oh_get_rdr_next t rid 0 = oh_get_rdr_by_id t rid 0"
    using c by cases (auto simp: rdr_by_id_nt rdr_next_nt nt.next_first)
  assume z: "kid \<noteq> 0"
  show "oh_get_rdr_by_id t rid kid = map_of (records t rid) kid"
    using c z by cases (auto simp: rdr_by_id_nt records_def records_of_def recs_def nt.get_id map_of_snd)
  show "oh_get_rdr_next t rid kid = map_option snd (find_after (\<lambda>p. fst p = kid) (records t rid))"
    using c z by cases
      (auto simp: rdr_next_nt records_def records_of_def recs_def nt.next_id find_after_snd)
qed

lemma resources_nz: "rpt_inv t \<Longrightarrow> 0 \<notin> fst ` set (resources t)"
  using rpt_inv_nz [of t] by (force simp: resources_def)

lemma records_nz: "rpt_inv t \<Longrightarrow> 0 \<notin> fst ` set (records t rid)"
proof -
  assume i: "rpt_inv t"
  have "0 \<notin> fst ` set (records_of e)" if "get_rptentry_by_rid t rid = Some (a, e)" for a e
    using ent_ok_recs [OF get_rptentry_ents(3) [OF i that]] by (force simp: records_of_def)
  then show ?thesis by (cases "get_rptentry_by_rid t rid") (auto simp: records_def)
qed

text \<open>For a proper id the records are found through the entry of that id.\<close>

lemma get_rptentry_map_of:
  assumes i: "rpt_inv t" and z: "rid \<noteq> 0"
  shows "map_option snd (get_rptentry_by_rid t rid) = map_of (ents t) rid"
  using nt_elem_get [of ent_key "rptab t" rid] nt.get_id [OF _ z, of ent_key "rptab t"] i
  by (simp add: get_rptentry_by_rid_def ents_def rpt_inv_def)

lemma records_map_of:
  assumes "rpt_inv t" and "rid \<noteq> 0"
  shows "records t rid = (case map_of (ents t) rid of None \<Rightarrow> [] | Some e \<Rightarrow> records_of e)"
  using get_rptentry_map_of [OF assms] by (auto simp: records_def split: option.splits)

section \<open>The comparison of two tables\<close>

definition recs_gone :: "RPTable \<Rightarrow> RPTable \<Rightarrow> u32 \<Rightarrow> SaHpiRdrT list" where
  "recs_gone cur new rid =
     filter (\<lambda>x. oh_get_rdr_by_id new rid (RecordId x) = None) (map snd (records cur rid))"

definition recs_new :: "RPTable \<Rightarrow> RPTable \<Rightarrow> u32 \<Rightarrow> SaHpiRdrT list" where
  "recs_new cur new rid =
     filter (\<lambda>x. oh_get_resource_by_id cur rid = None \<or>
         oh_get_rdr_by_id cur rid (RecordId x) \<noteq> Some x)
       (map snd (records new rid))"

definition delta_spec :: "RPTable \<Rightarrow> RPTable \<Rightarrow> rpt_delta" where
  "delta_spec cur new = \<lparr>
     res_new = filter (\<lambda>r. oh_get_resource_by_id cur (ResourceId r) \<noteq> Some r) (map snd (resources new)),
     rdr_new = concat (map (\<lambda>r. recs_new cur new (ResourceId r)) (map snd (resources new))),
     res_gone = filter (\<lambda>r. oh_get_resource_by_id new (ResourceId r) = None) (map snd (resources cur)),
     rdr_gone = concat (map (\<lambda>r. if oh_get_resource_by_id new (ResourceId r) = None then []
                              else recs_gone cur new (ResourceId r)) (map snd (resources cur)))\<rparr>"

definition big_enough :: "nat \<Rightarrow> RPTable \<Rightarrow> bool" where
  "big_enough n t \<longleftrightarrow> length (resources t) \<le> n \<and>
     list_all (\<lambda>p. length (records t (fst p)) \<le> n) (resources t)"

lemma fold_filter: "fold (\<lambda>x acc. if P x then acc @ [x] else acc) xs acc = acc @ filter P xs"
  by (induction xs arbitrary: acc) auto

lemma fold_pair:
  "fold (\<lambda>x (a, b). (f x a, g x b)) xs (a, b) = (fold f xs a, fold g xs b)"
  by (induction xs arbitrary: a b) auto

lemma fold_concat: "fold (\<lambda>x acc. acc @ g x) xs acc = acc @ concat (map g xs)"
  by (induction xs arbitrary: acc) auto

lemma gone_rdrs:
  assumes "rpt_inv cur" and "length (records cur rid) \<le> n"
  shows "for_entries n (oh_get_rdr_next cur rid) RecordId (rdrs_gone_body new rid)
      (oh_get_rdr_by_id cur rid SAHPI_FIRST_ENTRY) acc = Some (acc @ recs_gone cur new rid)"
proof -
  have b: "rdrs_gone_body new rid =
      (\<lambda>x s. Some (if oh_get_rdr_by_id new rid (RecordId x) = None then s @ [x] else s))"
    by (auto simp: rdrs_gone_body_def fun_eq_iff split: option.splits)
  show ?thesis
    unfolding rdr_list.for_entries_all [OF assms(1) records_nz [OF assms(1)] assms(2)] b
      fold_opt_total fold_filter recs_gone_def by (rule refl)
qed

lemma new_rdrs:
  assumes "rpt_inv new" and "length (records new rid) \<le> n"
    and ic: "in_cur = (oh_get_resource_by_id cur rid \<noteq> None)"
  shows "for_entries n (oh_get_rdr_next new rid) RecordId
      (rdrs_new_body cur rid in_cur)
      (oh_get_rdr_by_id new rid SAHPI_FIRST_ENTRY) acc = Some (acc @ recs_new cur new rid)"
proof -
  have b: "rdrs_new_body cur rid in_cur =
      (\<lambda>x s. Some (if oh_get_resource_by_id cur rid = None \<or>
         oh_get_rdr_by_id cur rid (RecordId x) \<noteq> Some x then s @ [x] else s))"
    by (auto simp: rdrs_new_body_def ic fun_eq_iff Let_def split: option.splits)
  show ?thesis
    unfolding rdr_list.for_entries_all [OF assms(1) records_nz [OF assms(1)] assms(2)] b
      fold_opt_total fold_filter recs_new_def by (rule refl)
qed

lemma rpt_diff_spec:
  assumes c: "rpt_inv cur" and n: "rpt_inv new" and big: "big_enough m cur" "big_enough m new"
  shows "rpt_diff m cur new d = Some (SA_OK, \<lparr>
     res_new = res_new d @ res_new (delta_spec cur new),
     rdr_new = rdr_new d @ rdr_new (delta_spec cur new),
     res_gone = res_gone d @ res_gone (delta_spec cur new),
     rdr_gone = rdr_gone d @ rdr_gone (delta_spec cur new)\<rparr>)"
proof -
  have lc: "length (records cur (ResourceId r)) \<le> m" if "r \<in> set (map snd (resources cur))" for r
    using that big(1) rpt_list.keys [OF c] by (force simp: big_enough_def list_all_iff)
  have ln: "length (records new (ResourceId r)) \<le> m" if "r \<in> set (map snd (resources new))" for r
    using that big(2) rpt_list.keys [OF n] by (force simp: big_enough_def list_all_iff)
  have g: "for_entries m (oh_get_resource_next cur) ResourceId (gone_body m cur new)
      (oh_get_resource_by_id cur SAHPI_FIRST_ENTRY) (res_gone d, rdr_gone d) =
    Some (res_gone d @ res_gone (delta_spec cur new), rdr_gone d @ rdr_gone (delta_spec cur new))"
  proof -
    let ?f = "\<lambda>r (rg, dg).
      (if oh_get_resource_by_id new (ResourceId r) = None then rg @ [r] else rg,
       dg @ (if oh_get_resource_by_id new (ResourceId r) = None then []
             else recs_gone cur new (ResourceId r)))"
    have "fold_opt (gone_body m cur new) (map snd (resources cur)) s =
        Some (fold ?f (map snd (resources cur)) s)" for s
      by (rule fold_opt_Some)
        (auto simp: gone_body_def gone_rdrs [OF c lc] split: option.splits prod.splits)
    moreover have "length (resources cur) \<le> m" using big(1) by (simp add: big_enough_def)
    ultimately show ?thesis
      by (simp only: rpt_list.for_entries_all [OF c resources_nz [OF c]] fold_pair fold_filter
          fold_concat delta_spec_def rpt_delta.simps)
  qed
  have w: "for_entries m (oh_get_resource_next new) ResourceId (new_body m cur new)
      (oh_get_resource_by_id new SAHPI_FIRST_ENTRY) (res_new d, rdr_new d) =
    Some (res_new d @ res_new (delta_spec cur new), rdr_new d @ rdr_new (delta_spec cur new))"
  proof -
    let ?f = "\<lambda>r (rn, dn).
      (if oh_get_resource_by_id cur (ResourceId r) \<noteq> Some r then rn @ [r] else rn,
       dn @ recs_new cur new (ResourceId r))"
    have "fold_opt (new_body m cur new) (map snd (resources new)) s =
        Some (fold ?f (map snd (resources new)) s)" for s
      by (rule fold_opt_Some)
        (auto simp: new_body_def new_rdrs [OF n ln] Let_def split: option.splits prod.splits)
    moreover have "length (resources new) \<le> m" using big(2) by (simp add: big_enough_def)
    ultimately show ?thesis
      by (simp only: rpt_list.for_entries_all [OF n resources_nz [OF n]] fold_pair fold_filter
          fold_concat delta_spec_def rpt_delta.simps)
  qed
  show ?thesis by (simp add: rpt_diff_def g w)
qed

end
