(* ===== verification/RptProps.thy ===== *)
theory RptProps
  imports RptSpec
begin

text \<open>
  The properties of the resource presence table: its operations refine an ordered map from
  resource ids to resources with their records, its loops visit every element, \<open>rpt_diff\<close>
  reports exactly the differences, and private data is freed exactly once.
\<close>

section \<open>The operations on the client's view\<close>

lemma resources_adjust_same:
  "(\<And>e. (k, e) \<in> set (ents t) \<Longrightarrow> rpt_entry (f e) = rpt_entry e) \<Longrightarrow>
    map (\<lambda>p. (fst p, rpt_entry (snd p))) (adjust k f (ents t)) = resources t"
  by (auto simp: adjust_def resources_def)

lemma resources_adjust_const:
  "(\<And>e. rpt_entry (f e) = x) \<Longrightarrow>
    map (\<lambda>p. (fst p, rpt_entry (snd p))) (adjust k f xs) =
    adjust k (\<lambda>_. x) (map (\<lambda>p. (fst p, rpt_entry (snd p))) xs)"
  by (auto simp: adjust_def)

lemma resource_keys: "fst ` set (resources t) = fst ` set (ents t)"
  by (force simp: resources_def)

lemma records_put_entry [simp]: "records_of (put_entry x d own e) = records_of e"
  by (simp add: records_of_def recs_def put_entry_def)

lemma records_zero [simp]: "records_of zero_rptentry = []"
  by (simp add: records_of_def recs_def zero_rptentry_def nt_abs_empty)

lemma add_resource_view:
  assumes i: "rpt_inv t" and nz: "ResourceId x \<noteq> 0" "ResourceId x \<noteq> SAHPI_UNSPECIFIED_RESOURCE_ID"
    and c: "oh_add_resource now t x d own = (err, x', t')"
  shows "resources t' = upsert (ResourceId x) x' (resources t)"
    and "rid \<noteq> 0 \<Longrightarrow> records t' rid = records t rid"
    and "oh_get_resource_data t' (ResourceId x) = d"
proof -
  note a = add_resource_ents [OF i nz c]
  have pe: "rpt_entry (put_entry x' d own e) = x'" for e by (simp add: put_entry_def)
  show "resources t' = upsert (ResourceId x) x' (resources t)"
    using resources_adjust_const [of "put_entry x' d own" x', OF pe]
    by (simp add: resources_def [of t'] a(4) upsert_def resource_keys pe) (simp add: resources_def)
  show "records t' rid = records t rid" if "rid \<noteq> 0"
    unfolding records_map_of [OF a(3) that] records_map_of [OF i that] a(4)
    by (auto simp: map_of_adjust map_add_def map_of_eq_None_iff dest: map_of_SomeD
        split: option.splits if_splits intro: rev_image_eqI)
  have "\<exists>e. map_of (ents t') (ResourceId x) = Some (put_entry x' d own e)"
  proof (cases "ResourceId x \<in> fst ` set (ents t)")
    case True
    then have "map_of (ents t) (ResourceId x) \<noteq> None" by (simp add: map_of_eq_None_iff)
    then show ?thesis using True by (auto simp: a(4) map_of_adjust)
  next
    case False
    then show ?thesis by (auto simp: a(4) map_of_append_new simp del: map_of_append)
  qed
  then obtain e where "map_of (ents t') (ResourceId x) = Some (put_entry x' d own e)" by blast
  then obtain b where "get_rptentry_by_rid t' (ResourceId x) = Some (b, put_entry x' d own e)"
    using get_rptentry_map_of [OF a(3) nz(1)] by auto
  then show "oh_get_resource_data t' (ResourceId x) = d"
    by (simp add: oh_get_resource_data_def put_entry_def)
qed

lemma add_resource_count:
  assumes i: "rpt_inv t" and nz: "ResourceId x \<noteq> 0" "ResourceId x \<noteq> SAHPI_UNSPECIFIED_RESOURCE_ID"
    and c: "oh_add_resource now t x d own = (err, x', t')"
  shows "(rpt_update_count t', rpt_update_timestamp t') =
    (if oh_get_resource_by_id t (ResourceId x) = Some x'
     then (rpt_update_count t, rpt_update_timestamp t) else (rpt_update_count t + 1, now))"
  using c nz
  by (auto simp: oh_add_resource_def oh_valid_ep_def oh_get_resource_by_id_def Let_def
      update_rptable_def split: option.splits prod.splits if_splits)

lemma records_discard:
  assumes "rpt_inv t" and "rpt_inv t'" and "ents t' = discard k (ents t)" and "rid \<noteq> 0"
  shows "records t' rid = (if rid = k then [] else records t rid)"
  unfolding records_map_of [OF assms(2,4)] records_map_of [OF assms(1,4)] assms(3)
  by (simp add: map_of_discard)

lemma records_adjust:
  assumes "rpt_inv t" and "rpt_inv t'" and "ents t' = adjust k (\<lambda>_. e') (ents t)"
    and "k \<in> fst ` set (ents t)" and "rid \<noteq> 0"
  shows "records t' rid = (if rid = k then records_of e' else records t rid)"
proof -
  have "map_of (ents t) k \<noteq> None" using assms(4) by (simp add: map_of_eq_None_iff)
  then show ?thesis
    unfolding records_map_of [OF assms(2,5)] records_map_of [OF assms(1,5)] assms(3)
    by (auto simp: map_of_adjust split: option.splits)
qed

lemma records_of_upsert:
  "records_of e' = upsert k (rdr v) (records_of e)" if "recs e' = upsert k v (recs e)"
proof -
  have "fst ` set (records_of e) = fst ` set (recs e)" by (force simp: records_of_def)
  then show ?thesis using that by (auto simp: records_of_def upsert_def adjust_def)
qed

lemma records_of_discard:
  "recs e' = discard k (recs e) \<Longrightarrow> records_of e' = discard k (records_of e)"
  by (simp add: records_of_def discard_def filter_map comp_def)

section \<open>Private data\<close>

lemma add_resource_freed:
  assumes "ResourceId x \<noteq> 0" "ResourceId x \<noteq> SAHPI_UNSPECIFIED_RESOURCE_ID"
    and "oh_add_resource now t x d own = (err, x', t')"
  shows "freed t' = freed t @ (case get_rptentry_by_rid t (ResourceId x) of None \<Rightarrow> []
    | Some (a, e) \<Rightarrow> if ent_data e \<noteq> 0 \<and> ent_data e \<noteq> d \<and> \<not> ent_owndata e then [ent_data e] else [])"
  using assms
  by (auto simp: oh_add_resource_def oh_valid_ep_def Let_def update_rptable_def zero_rptentry_def
      split: option.splits prod.splits if_splits)

text \<open>A table takes over the pointer of the resource that is added and frees the one it replaces.\<close>

lemma add_resource_held:
  assumes i: "rpt_inv t" and nz: "ResourceId x \<noteq> 0" "ResourceId x \<noteq> SAHPI_UNSPECIFIED_RESOURCE_ID"
    and c: "oh_add_resource now t x d False = (err, x', t')" and d: "d \<noteq> 0" "d \<notin> set (held t)"
  shows "mset (freed t') + mset (held t') = add_mset d (mset (freed t) + mset (held t))"
proof (cases "get_rptentry_by_rid t (ResourceId x)")
  case None
  then have "ResourceId x \<notin> fst ` set (ents t)"
    using get_rptentry_map_of [OF i nz(1)] map_of_eq_None_iff [of "ents t" "ResourceId x"] by simp
  then show ?thesis
    using None add_resource_ents(4) [OF i nz c] add_resource_freed [OF nz c] d(1)
    by (simp add: held_def held_ent_def put_entry_def zero_rptentry_def recs_def nt_abs_empty free_data_def)
next
  case (Some p)
  obtain a e where g: "get_rptentry_by_rid t (ResourceId x) = Some (a, e)" using Some by force
  note k = get_rptentry_ents [OF i g]
  have ke: "ent_key e = ResourceId x" using k(5) nz by simp
  let ?e = "put_entry x' d False e"
  have m: "ResourceId x \<in> fst ` set (ents t)" using k(1) ke by force
  have "v = e" if "(ResourceId x, v) \<in> set (ents t)" for v
    using that k(1) ke ents_distinct [OF i] by (auto dest: eq_key_imp_eq_value)
  then have e': "ents t' = adjust (ResourceId x) (\<lambda>_. ?e) (ents t)"
    using add_resource_ents(4) [OF i nz c] m adjust_cong [of "ResourceId x" "ents t" "put_entry x' d False" "\<lambda>_. ?e"]
    by simp
  have in_held: "ent_data e \<in> set (held t)" if "ent_data e \<noteq> 0" "\<not> ent_owndata e"
    using that k(1) by (force simp: held_def held_ent_def free_data_def)
  have f: "freed t' = freed t @ (if ent_owndata e then [] else free_data (ent_data e))"
    using add_resource_freed [OF nz c] g in_held d by (auto simp: free_data_def)
  have "ent_owndata e \<longrightarrow> mset (held_ent ?e) = add_mset d (mset (held_ent e))"
    "\<not> ent_owndata e \<longrightarrow> mset (free_data (ent_data e)) + mset (held_ent ?e) = add_mset d (mset (held_ent e))"
    using d(1) by (simp_all add: held_ent_def put_entry_def recs_def free_data_def add_mset_commute [of d])
  then show ?thesis
    using held_adjust [OF ents_distinct [OF i] k(1), of held_ent ?e]
      concat_split_key [OF ents_distinct [OF i] k(1), of held_ent] e' f ke
    by (simp add: held_def)
qed

text \<open>
  Adding a record takes over its private data, if it has any, and frees what it replaces.
\<close>

lemma add_rdr_held:
  assumes i: "rpt_inv t" and rid: "rid \<noteq> 0"
    and nz: "oh_get_rdr_uid (RdrType x) (oh_get_instrument_id x) \<noteq> 0"
    and c: "oh_add_rdr t rid x d False = (SA_OK, x', t')" and d: "d = 0 \<or> d \<notin> set (held t)"
  shows "mset (freed t') + mset (held t') = mset (free_data d) + (mset (freed t) + mset (held t))"
proof (cases "\<exists>a e. get_rptentry_by_rid t rid = Some (a, e) \<and> check_instrument_id (rpt_entry e) x = 0")
  case False
  then show ?thesis using c by (auto simp: oh_add_rdr_def split: option.splits prod.splits)
next
  case True
  then obtain a e where g: "get_rptentry_by_rid t rid = Some (a, e)" and ck: "check_instrument_id (rpt_entry e) x = 0"
    by blast
  let ?u = "oh_get_rdr_uid (RdrType x) (oh_get_instrument_id x)"
  let ?r = "\<lparr>rdr = x', rdr_owndata = False, rdr_data = d\<rparr>"
  note k = get_rptentry_ents [OF i g]
  from add_rdr_ents [OF i g ck nz c] obtain e' where e': "ents t' = adjust (ent_key e) (\<lambda>_. e') (ents t)"
      "same_but_rdrs e' e" "recs e' = upsert (RecordId x') ?r (recs e)" and x': "RecordId x' = ?u"
    by auto
  have hr: "held_rec ?r = free_data d" by (simp add: held_rec_def)
  have in_held: "rdr_data r \<in> set (held t)"
    if "get_rdrecord_by_id e ?u = Some (b, r)" "rdr_data r \<noteq> 0" "\<not> rdr_owndata r" for b r
    using that k(1) get_rdrecord_recs(1) [OF k(3) that(1)]
    by (force simp: held_def held_ent_def held_rec_def free_data_def)
  have f: "freed t' = freed t @ (case get_rdrecord_by_id e ?u of None \<Rightarrow> [] | Some (b, r) \<Rightarrow> held_rec r)"
    using c g ck d in_held by (auto simp: oh_add_rdr_def held_rec_def free_data_def zero_rdrecord_def
        Let_def split: option.splits prod.splits if_splits)
  have "mset (free_data d) + mset (held_ent e) = mset (case get_rdrecord_by_id e ?u of None \<Rightarrow> [] | Some (b, r) \<Rightarrow> held_rec r) +
      mset (held_ent e')"
  proof (cases "get_rdrecord_by_id e ?u")
    case None
    have "nt_inv rec_key (rdrs e)" using k(3) by (simp add: ent_ok_def)
    then have "?u \<notin> fst ` set (recs e)"
      using None nt_elem_None [of rec_key "rdrs e" ?u] nz by (simp add: get_rdrecord_by_id_def recs_def)
    then show ?thesis using None e' x' hr by (simp add: held_ent_def same_but_rdrs_def upsert_def)
  next
    case (Some q)
    obtain b r where q: "get_rdrecord_by_id e ?u = Some (b, r)" using Some by force
    note m = get_rdrecord_recs [OF k(3) q]
    have kr: "rec_key r = ?u" using m(3) nz by simp
    then have "?u \<in> fst ` set (recs e)" using m(1) by force
    then have "recs e' = adjust (rec_key r) (\<lambda>_. ?r) (recs e)" using e'(3) x' kr by (simp add: upsert_def)
    then show ?thesis
      using held_adjust [OF recs_distinct [OF k(3)] m(1), of held_rec ?r] hr e'(2) q
        concat_split_key [OF recs_distinct [OF k(3)] m(1), of held_rec]
      by (simp add: held_ent_def same_but_rdrs_def)
  qed
  then show ?thesis
    using held_adjust [OF ents_distinct [OF i] k(1), of held_ent e'] e' f
      concat_split_key [OF ents_distinct [OF i] k(1), of held_ent]
    by (simp add: held_def)
qed

lemma add_rdr_error: "oh_add_rdr t rid x d own = (err, x', t') \<Longrightarrow> err \<noteq> SA_OK \<Longrightarrow> t' = t"
  by (auto simp: oh_add_rdr_def Let_def split: option.splits prod.splits if_splits)

lemma add_rdr_held_none:
  assumes "rpt_inv t" and "rid \<noteq> 0"
    and "oh_get_rdr_uid (RdrType x) (oh_get_instrument_id x) \<noteq> 0"
    and c: "oh_add_rdr t rid x 0 False = (err, x', t')"
  shows "mset (freed t') + mset (held t') = mset (freed t) + mset (held t)"
  using add_rdr_held [OF assms(1-3), of 0 x' t'] c add_rdr_error [OF c]
  by (cases "err = SA_OK") (simp_all add: free_data_def)

section \<open>Reachable tables\<close>

inductive rpt_step :: "RPTable \<Rightarrow> RPTable \<Rightarrow> bool" where
  add_resource: "rpt_step t (snd (snd (oh_add_resource now t x d own)))"
| remove_resource: "rpt_step t (snd (oh_remove_resource now t rid))"
| add_rdr: "oh_get_rdr_uid (RdrType x) (oh_get_instrument_id x) \<noteq> 0 \<Longrightarrow>
     rpt_step t (snd (snd (oh_add_rdr t rid x d own)))"
| remove_rdr: "rpt_step t (snd (oh_remove_rdr t rid rdrid))"
| flush: "rpt_step t (snd (oh_flush_rpt clock t))"

inductive_cases rpt_stepE: "rpt_step t t'"

lemma add_resource_inv [inv_intros]:
  assumes "rpt_inv t" shows "rpt_inv (snd (snd (oh_add_resource now t x d own)))"
proof (cases "ResourceId x = 0 \<or> ResourceId x = SAHPI_UNSPECIFIED_RESOURCE_ID")
  case True
  then have "snd (snd (oh_add_resource now t x d own)) = t" by (auto simp: oh_add_resource_def)
  then show ?thesis using assms by simp
next
  case False
  then show ?thesis using add_resource_ents(3) [OF assms, of x now d own] by (metis prod.collapse)
qed

lemma remove_resource_inv [inv_intros]:
  assumes "rpt_inv t" shows "rpt_inv (snd (oh_remove_resource now t rid))"
proof (cases "get_rptentry_by_rid t rid")
  case None
  then show ?thesis using assms by (simp add: oh_remove_resource_def)
next
  case (Some q)
  then show ?thesis
    using remove_resource_ents [OF assms, of rid "fst q" "snd q" now] by (metis prod.collapse)
qed

lemma add_rdr_inv [inv_intros]:
  assumes "rpt_inv t" and "oh_get_rdr_uid (RdrType x) (oh_get_instrument_id x) \<noteq> 0"
  shows "rpt_inv (snd (snd (oh_add_rdr t rid x d own)))"
proof (cases "get_rptentry_by_rid t rid")
  case None
  then show ?thesis using assms by (simp add: oh_add_rdr_def)
next
  case (Some q)
  show ?thesis
  proof (cases "check_instrument_id (rpt_entry (snd q)) x = 0")
    case True
    then show ?thesis
      using add_rdr_ents [OF assms(1), of rid "fst q" "snd q" x d own] Some assms(2)
      by (metis prod.collapse)
  next
    case False
    then have "snd (snd (oh_add_rdr t rid x d own)) = t"
      using Some by (auto simp: oh_add_rdr_def split: prod.splits)
    then show ?thesis using assms by simp
  qed
qed

lemma remove_rdr_inv [inv_intros]:
  assumes "rpt_inv t" shows "rpt_inv (snd (oh_remove_rdr t rid rdrid))"
proof (cases "oh_get_rdr_by_id t rid rdrid")
  case None
  then have "snd (oh_remove_rdr t rid rdrid) = t"
    by (auto simp: oh_get_rdr_by_id_def oh_remove_rdr_def split: option.splits)
  then show ?thesis using assms by simp
next
  case (Some x)
  then obtain a e b r where "get_rptentry_by_rid t rid = Some (a, e)"
      "get_rdrecord_by_id e rdrid = Some (b, r)"
    by (auto simp: oh_get_rdr_by_id_def split: option.splits)
  then show ?thesis using remove_rdr_ents [OF assms] by (metis prod.collapse)
qed

lemma rpt_step_inv: "rpt_step t t' \<Longrightarrow> rpt_inv t \<Longrightarrow> rpt_inv t'"
  by (auto elim!: rpt_stepE intro: inv_intros simp: oh_flush_rpt_def flush_loop_ents)

lemma rpt_run_inv: "rpt_step\<^sup>*\<^sup>* t t' \<Longrightarrow> rpt_inv t \<Longrightarrow> rpt_inv t'"
  by (induction rule: rtranclp_induct) (auto intro: rpt_step_inv)

lemma init_rpt_inv: "rpt_inv (snd (oh_init_rpt t))"
  by (simp add: oh_init_rpt_def rpt_inv_def ents_def nt_inv_empty nt_abs_empty)

section \<open>Membership and the comparison of two tables\<close>

context keyed_list
begin

text \<open>An element is in the table exactly when a lookup by its own id returns it.\<close>

lemma in_entries_iff:
  assumes i: "inv t" and nz: "SAHPI_FIRST_ENTRY \<notin> fst ` set (entries t)"
  shows "e \<in> snd ` set (entries t) \<longleftrightarrow> key e \<noteq> SAHPI_FIRST_ENTRY \<and> get t (key e) = Some e"
proof
  assume "e \<in> snd ` set (entries t)"
  then obtain k where ke: "(k, e) \<in> set (entries t)" by auto
  then have k: "key e = k" using keys [OF i] by blast
  then have z: "key e \<noteq> SAHPI_FIRST_ENTRY" using ke nz by force
  have "map_of (entries t) (key e) = Some e" using ke k distinct_keys [OF i] by simp
  then show "key e \<noteq> SAHPI_FIRST_ENTRY \<and> get t (key e) = Some e" using z get_id [OF i z] by simp
next
  assume "key e \<noteq> SAHPI_FIRST_ENTRY \<and> get t (key e) = Some e"
  then have "(key e, e) \<in> set (entries t)" using get_in_entries [OF i] by blast
  then show "e \<in> snd ` set (entries t)" by force
qed

end

lemma in_resources:
  "rpt_inv t \<Longrightarrow> r \<in> snd ` set (resources t) \<longleftrightarrow>
    ResourceId r \<noteq> 0 \<and> oh_get_resource_by_id t (ResourceId r) = Some r"
  using rpt_list.in_entries_iff resources_nz by blast

lemma in_records:
  "rpt_inv t \<Longrightarrow> x \<in> snd ` set (records t rid) \<longleftrightarrow>
    RecordId x \<noteq> 0 \<and> oh_get_rdr_by_id t rid (RecordId x) = Some x"
  using rdr_list.in_entries_iff records_nz by blast

lemma lookup_in_resources:
  assumes "rpt_inv t" and "rid \<noteq> 0" and "oh_get_resource_by_id t rid = Some r"
  shows "r \<in> snd ` set (resources t)" and "ResourceId r = rid"
proof -
  show k: "ResourceId r = rid" using rpt_list.get_key [OF assms] .
  show "r \<in> snd ` set (resources t)" unfolding in_resources [OF assms(1)] k using assms by blast
qed

lemma lookup_in_records:
  assumes "rpt_inv t" and "k \<noteq> 0" and "oh_get_rdr_by_id t rid k = Some x"
  shows "x \<in> snd ` set (records t rid)" and "RecordId x = k"
proof -
  show k: "RecordId x = k" using rdr_list.get_key [OF assms] .
  show "x \<in> snd ` set (records t rid)" unfolding in_records [OF assms(1)] k using assms by blast
qed

definition same_content :: "RPTable \<Rightarrow> RPTable \<Rightarrow> bool" where
  "same_content a b \<longleftrightarrow> (\<forall>rid. rid \<noteq> SAHPI_FIRST_ENTRY \<longrightarrow>
     oh_get_resource_by_id a rid = oh_get_resource_by_id b rid \<and>
     (\<forall>k. k \<noteq> SAHPI_FIRST_ENTRY \<longrightarrow> oh_get_rdr_by_id a rid k = oh_get_rdr_by_id b rid k))"

lemma option_eqI: "(\<And>x. a = Some x \<Longrightarrow> b = Some x) \<Longrightarrow> (\<And>x. b = Some x \<Longrightarrow> a \<noteq> None) \<Longrightarrow> a = b"
  by (cases a; cases b) auto

lemma rdr_needs_resource: "oh_get_rdr_by_id t rid k = Some x \<Longrightarrow> oh_get_resource_by_id t rid \<noteq> None"
  by (auto simp: oh_get_rdr_by_id_def oh_get_resource_by_id_def split: option.splits)

lemma delta_empty_imp_same:
  assumes c: "rpt_inv cur" and n: "rpt_inv new"
    and d: "delta_spec cur new = \<lparr>res_new = [], rdr_new = [], res_gone = [], rdr_gone = []\<rparr>"
  shows "same_content cur new"
proof -
  have d': "res_new (delta_spec cur new) = []" "rdr_new (delta_spec cur new) = []"
      "res_gone (delta_spec cur new) = []" "rdr_gone (delta_spec cur new) = []"
    by (simp_all add: d)
  have rn: "oh_get_resource_by_id cur (ResourceId r) = Some r" if "r \<in> snd ` set (resources new)" for r
    using d'(1) that unfolding delta_spec_def rpt_delta.simps filter_empty_conv set_map by blast
  have rg: "oh_get_resource_by_id new (ResourceId r) \<noteq> None" if "r \<in> snd ` set (resources cur)" for r
    using d'(3) that unfolding delta_spec_def rpt_delta.simps filter_empty_conv set_map by blast
  have dn: "recs_new cur new (ResourceId r) = []" if "r \<in> snd ` set (resources new)" for r
    using d'(2) that unfolding delta_spec_def rpt_delta.simps concat_eq_Nil_conv set_map by blast
  have dg: "recs_gone cur new (ResourceId r) = []" if "r \<in> snd ` set (resources cur)" for r
  proof -
    have "(if oh_get_resource_by_id new (ResourceId r) = None then [] else recs_gone cur new (ResourceId r)) = []"
      using d'(4) that unfolding delta_spec_def rpt_delta.simps concat_eq_Nil_conv set_map by blast
    then show ?thesis using rg [OF that] by simp
  qed
  have res: "oh_get_resource_by_id cur rid = oh_get_resource_by_id new rid" if z: "rid \<noteq> 0" for rid
  proof (rule option_eqI)
    show "oh_get_resource_by_id cur rid \<noteq> None" if g: "oh_get_resource_by_id new rid = Some r" for r
      using rn [OF lookup_in_resources(1) [OF n z g]] lookup_in_resources(2) [OF n z g] by simp
    show "oh_get_resource_by_id new rid = Some r" if g: "oh_get_resource_by_id cur rid = Some r" for r
    proof -
      obtain r' where r': "oh_get_resource_by_id new rid = Some r'"
        using rg [OF lookup_in_resources(1) [OF c z g]] lookup_in_resources(2) [OF c z g] by auto
      then have "oh_get_resource_by_id cur rid = Some r'"
        using rn [OF lookup_in_resources(1) [OF n z r']] lookup_in_resources(2) [OF n z r'] by simp
      with g r' show ?thesis by simp
    qed
  qed
  have "oh_get_rdr_by_id cur rid k = oh_get_rdr_by_id new rid k" if z: "rid \<noteq> 0" "k \<noteq> 0" for rid k
  proof -
    have newer: "oh_get_rdr_by_id cur rid k = Some x" if g: "oh_get_rdr_by_id new rid k = Some x" for x
    proof -
      obtain r where r: "oh_get_resource_by_id new rid = Some r" using rdr_needs_resource [OF g] by auto
      have "recs_new cur new rid = []"
        using dn [OF lookup_in_resources(1) [OF n z(1) r]] lookup_in_resources(2) [OF n z(1) r] by simp
      then show ?thesis
        using lookup_in_records [OF n z(2) g] by (auto simp: recs_new_def filter_empty_conv)
    qed
    show ?thesis
    proof (rule option_eqI)
      show "oh_get_rdr_by_id cur rid k \<noteq> None" if "oh_get_rdr_by_id new rid k = Some x" for x
        using newer [OF that] by simp
      show "oh_get_rdr_by_id new rid k = Some x" if g: "oh_get_rdr_by_id cur rid k = Some x" for x
      proof -
        obtain r where r: "oh_get_resource_by_id cur rid = Some r" using rdr_needs_resource [OF g] by auto
        have "recs_gone cur new rid = []"
          using dg [OF lookup_in_resources(1) [OF c z(1) r]] lookup_in_resources(2) [OF c z(1) r] by simp
        then obtain y where y: "oh_get_rdr_by_id new rid k = Some y"
          using lookup_in_records [OF c z(2) g] by (auto simp: recs_gone_def filter_empty_conv)
        then show ?thesis using newer [OF y] g by simp
      qed
    qed
  qed
  with res show ?thesis by (simp add: same_content_def)
qed

lemma same_imp_delta_empty:
  assumes c: "rpt_inv cur" and n: "rpt_inv new" and s: "same_content cur new"
  shows "delta_spec cur new = \<lparr>res_new = [], rdr_new = [], res_gone = [], rdr_gone = []\<rparr>"
proof -
  have r: "oh_get_resource_by_id cur rid = oh_get_resource_by_id new rid" if "rid \<noteq> 0" for rid
    using s that by (simp add: same_content_def)
  have d: "oh_get_rdr_by_id cur rid k = oh_get_rdr_by_id new rid k" if "rid \<noteq> 0" "k \<noteq> 0" for rid k
    using s that by (simp add: same_content_def)
  have "oh_get_resource_by_id cur (ResourceId x) = Some x \<and> recs_new cur new (ResourceId x) = []"
    if x: "x \<in> snd ` set (resources new)" for x
  proof -
    have z: "ResourceId x \<noteq> 0" "oh_get_resource_by_id new (ResourceId x) = Some x"
      using x in_resources [OF n] by auto
    have "oh_get_rdr_by_id cur (ResourceId x) (RecordId y) = Some y"
      if "y \<in> snd ` set (records new (ResourceId x))" for y
      using that in_records [OF n] d [OF z(1)] by auto
    then show ?thesis using z r by (auto simp: recs_new_def filter_empty_conv)
  qed
  moreover have "oh_get_resource_by_id new (ResourceId x) = Some x \<and> recs_gone cur new (ResourceId x) = []"
    if x: "x \<in> snd ` set (resources cur)" for x
  proof -
    have z: "ResourceId x \<noteq> 0" "oh_get_resource_by_id cur (ResourceId x) = Some x"
      using x in_resources [OF c] by auto
    have "oh_get_rdr_by_id new (ResourceId x) (RecordId y) = Some y"
      if "y \<in> snd ` set (records cur (ResourceId x))" for y
      using that in_records [OF c] d [OF z(1)] by auto
    then show ?thesis using z r by (auto simp: recs_gone_def filter_empty_conv)
  qed
  ultimately show ?thesis by (auto simp: delta_spec_def filter_empty_conv concat_eq_Nil_conv)
qed

section \<open>Record ids\<close>

lemma digits_unique:
  fixes a b p q k :: nat
  assumes "a < k" and "b < k"
  shows "p * k + a = q * k + b \<longleftrightarrow> p = q \<and> a = b"
proof
  assume e: "p * k + a = q * k + b"
  have "(p * k + a) mod k = a" "(q * k + b) mod k = b" using assms by simp_all
  then have "a = b" using e by simp
  moreover have "(p * k + a) div k = p" "(q * k + b) div k = q" using assms by simp_all
  then have "p = q" using e by simp
  ultimately show "p = q \<and> a = b" by blast
qed simp

lemma unat_rdr_uid:
  assumes "num < 0x10000" and "rdr_type_num ty < 0x10000"
  shows "unat (oh_get_rdr_uid ty num) = unat (rdr_type_num ty) * 65536 + unat num"
proof -
  have n: "unat num < 65536" "unat (rdr_type_num ty) < 65536"
    using assms by (simp_all add: word_less_nat_alt)
  then have "unat (rdr_type_num ty * 0x10000) = unat (rdr_type_num ty) * 65536"
    by (simp add: unat_word_ariths)
  then show ?thesis using n by (simp add: oh_get_rdr_uid_def push_bit_eq_mult unat_word_ariths)
qed

lemma rdr_num_mod: "unat (oh_get_rdr_num k) = unat k mod 65536"
proof -
  have m: "mask 16 = (0xFFFF :: u32)" by (simp add: mask_eq_exp_minus_1)
  have "oh_get_rdr_num k = take_bit 16 k" by (simp add: oh_get_rdr_num_def take_bit_eq_mask m)
  then show ?thesis by (simp add: take_bit_eq_mod unat_mod)
qed

section \<open>A table for the witnesses\<close>

definition demo_res :: "u32 \<Rightarrow> SaHpiRptEntryT" where
  "demo_res rid = zero_rpt_entry\<lparr>ResourceId := rid\<rparr>"

definition demo_rdr :: "SaHpiRdrTypeT \<Rightarrow> u32 \<Rightarrow> SaHpiRdrT" where
  "demo_rdr ty num = zero_rdr\<lparr>RdrType := ty, RdrTypeUnion := \<lparr>Num = num, RestOfRec = OtherRec []\<rparr>\<rparr>"

definition demo0 :: RPTable where
  "demo0 = snd (oh_init_rpt \<lparr>rpt_update_count = 0, rpt_update_timestamp = 0, rptab = nt_empty,
     freed = []\<rparr>)"

definition demo1 :: RPTable where
  "demo1 = snd (snd (oh_add_resource 10 demo0 (demo_res 5) 100 False))"

definition demo2 :: RPTable where
  "demo2 = snd (snd (oh_add_rdr demo1 5 (demo_rdr SAHPI_CTRL_RDR 3) 200 False))"

definition demo3 :: RPTable where
  "demo3 = snd (snd (oh_add_resource 11 demo2 (demo_res 7) 300 True))"

lemma demo_inv: "rpt_inv demo0" "rpt_inv demo1" "rpt_inv demo2" "rpt_inv demo3"
proof -
  show 0: "rpt_inv demo0" unfolding demo0_def by (rule init_rpt_inv)
  show 1: "rpt_inv demo1" unfolding demo1_def by (rule add_resource_inv [OF 0])
  have "oh_get_rdr_uid (RdrType (demo_rdr SAHPI_CTRL_RDR 3))
      (oh_get_instrument_id (demo_rdr SAHPI_CTRL_RDR 3)) \<noteq> 0" by code_simp
  then show 2: "rpt_inv demo2" unfolding demo2_def by (rule add_rdr_inv [OF 1])
  show "rpt_inv demo3" unfolding demo3_def by (rule add_resource_inv [OF 2])
qed

section \<open>Properties\<close>

text \<open>C32: every table reached from \<open>oh_init_rpt\<close> by any sequence of operations, failing ones
  included, as long as no record with the derived id 0 is added, keeps its list and its hash
  tables in agreement, with unique ids and derived record ids; hence a lookup by id finds
  exactly the element with that id.\<close>

theorem rpt_reachable:
  assumes "rpt_step\<^sup>*\<^sup>* (snd (oh_init_rpt t0)) t"
  shows "rpt_inv t \<and> distinct (map fst (resources t)) \<and>
    (\<forall>rid. rid \<noteq> 0 \<longrightarrow> oh_get_resource_by_id t rid = map_of (resources t) rid) \<and>
    (\<forall>rid k. k \<noteq> 0 \<longrightarrow> oh_get_rdr_by_id t rid k = map_of (records t rid) k)"
proof -
  have i: "rpt_inv t" using rpt_run_inv [OF assms init_rpt_inv] .
  then show ?thesis using rpt_list.distinct_keys rpt_list.get_id rdr_list.get_id by blast
qed

theorem rpt_reachable_witness:
  "oh_get_resource_by_id demo1 5 = map_of (resources demo1) 5"
proof -
  have "rpt_step\<^sup>*\<^sup>* demo0 demo1"
    unfolding demo1_def by (rule r_into_rtranclp) (rule rpt_step.add_resource)
  then show ?thesis unfolding demo0_def using rpt_reachable by simp
qed

text \<open>Adding a resource with a valid id succeeds, gives the entry its resource id as entry
  id, puts it at the place of the resource with that id or at the end of the list, keeps the
  records of all resources, stores the private data, and counts an update exactly when the
  table did not hold the same entry already.\<close>

lemma add_resource_correct:
  assumes "rpt_inv t" and "ResourceId x \<noteq> SAHPI_FIRST_ENTRY"
    and "ResourceId x \<noteq> SAHPI_UNSPECIFIED_RESOURCE_ID"
    and "oh_add_resource now t x d own = (err, x', t')"
  shows "err = SA_OK \<and> x' = x\<lparr>EntryId := ResourceId x\<rparr> \<and> rpt_inv t' \<and>
    resources t' = upsert (ResourceId x) x' (resources t) \<and>
    (\<forall>rid. rid \<noteq> 0 \<longrightarrow> records t' rid = records t rid) \<and>
    oh_get_resource_data t' (ResourceId x) = d \<and>
    (rpt_update_count t', rpt_update_timestamp t') =
      (if oh_get_resource_by_id t (ResourceId x) = Some x'
       then (rpt_update_count t, rpt_update_timestamp t) else (rpt_update_count t + 1, now))"
  using add_resource_ents(1-3) [OF assms] add_resource_view [OF assms]
    add_resource_count [OF assms] by blast

lemma add_resource_correct_witness:
  "oh_get_resource_data demo1 5 = 100 \<and> rpt_update_count demo1 = 1"
proof -
  have h: "ResourceId (demo_res 5) \<noteq> 0" "ResourceId (demo_res 5) \<noteq> SAHPI_UNSPECIFIED_RESOURCE_ID"
    by code_simp+
  obtain err x' t' where c: "oh_add_resource 10 demo0 (demo_res 5) 100 False = (err, x', t')"
    by (metis prod.exhaust)
  have "oh_get_resource_by_id demo0 5 = None" "rpt_update_count demo0 = 0"
    "ResourceId (demo_res 5) = 5" by code_simp+
  then show ?thesis
    using add_resource_correct [OF demo_inv(1) h c] c by (simp add: demo1_def)
qed

lemma remove_resource_view:
  assumes "rpt_inv t" and "rid \<noteq> SAHPI_FIRST_ENTRY" and "rid \<in> fst ` set (resources t)"
    and "oh_remove_resource now t rid = (err, t')"
  shows "err = SA_OK \<and> rpt_inv t' \<and> resources t' = discard rid (resources t) \<and>
    (\<forall>k. k \<noteq> 0 \<longrightarrow> records t' k = (if k = rid then [] else records t k)) \<and>
    mset (freed t') + mset (held t') = mset (freed t) + mset (held t)"
proof -
  have "map_of (ents t) rid \<noteq> None" using assms(3) by (simp add: resource_keys map_of_eq_None_iff)
  then obtain a e where g: "get_rptentry_by_rid t rid = Some (a, e)"
    using get_rptentry_map_of [OF assms(1,2)] by (cases "get_rptentry_by_rid t rid") auto
  then have k: "ent_key e = rid" using get_rptentry_ents(5) [OF assms(1) g] assms(2) by simp
  note r = remove_resource_ents [OF assms(1) g assms(4), unfolded k]
  then have "resources t' = discard rid (resources t)"
    by (simp add: resources_def discard_def filter_map comp_def)
  then show ?thesis using r records_discard [OF assms(1)] by simp
qed

text \<open>Removing a resource that the table holds takes exactly that resource and its records
  out, keeps the order and the records of the others, and frees every private data pointer
  that the removed resource and its records own, each exactly once.\<close>

lemma remove_resource_correct:
  assumes "rpt_inv t" and "rid \<noteq> SAHPI_FIRST_ENTRY" and "rid \<in> fst ` set (resources t)"
    and "oh_remove_resource now t rid = (err, t')"
  shows "err = SA_OK \<and> rpt_inv t' \<and> resources t' = discard rid (resources t) \<and>
    (\<forall>k. k \<noteq> 0 \<longrightarrow> records t' k = (if k = rid then [] else records t k)) \<and>
    mset (freed t') + mset (held t') = mset (freed t) + mset (held t)"
  by (rule remove_resource_view [OF assms])

lemma remove_resource_correct_witness:
  "resources (snd (oh_remove_resource 12 demo3 5)) = discard 5 (resources demo3)"
proof -
  have "5 \<in> fst ` set (resources demo3)" by code_simp
  then show ?thesis
    using remove_resource_correct [OF demo_inv(4) _ _ prod.collapse [symmetric], of 5 12] by simp
qed

lemma add_rdr_view:
  assumes "rpt_inv t" and "rid \<noteq> SAHPI_FIRST_ENTRY" and "oh_get_resource_by_id t rid = Some res"
    and "oh_get_rdr_uid (RdrType x) (oh_get_instrument_id x) \<noteq> 0"
    and "oh_add_rdr t rid x d own = (err, x', t')"
  shows "if check_instrument_id res x \<noteq> 0 then (err, x', t') = (SA_ERR_HPI_INVALID_PARAMS, x, t)
    else err = SA_OK \<and>
      x' = x\<lparr>RecordId := oh_get_rdr_uid (RdrType x) (oh_get_instrument_id x)\<rparr> \<and>
      rpt_inv t' \<and> resources t' = resources t \<and>
      records t' rid = upsert (RecordId x') x' (records t rid) \<and>
      (\<forall>k. k \<noteq> 0 \<longrightarrow> k \<noteq> rid \<longrightarrow> records t' k = records t k) \<and>
      oh_get_rdr_by_type t' rid (RdrType x) (oh_get_instrument_id x) = Some x' \<and>
      oh_get_rdr_update_count t' rid = map_prod id (map_option (\<lambda>n. n + 1)) (oh_get_rdr_update_count t rid)"
proof -
  obtain a e where g: "get_rptentry_by_rid t rid = Some (a, e)" and re: "rpt_entry e = res"
    using assms(3) by (auto simp: oh_get_resource_by_id_def split: option.splits)
  show ?thesis
  proof (cases "check_instrument_id res x = 0")
    case False
    then show ?thesis using assms(5) g re by (simp add: oh_add_rdr_def)
  next
    case True
    have k: "ent_key e = rid" using get_rptentry_ents(5) [OF assms(1) g] assms(2) by simp
    have m: "rid \<in> fst ` set (ents t)" using get_rptentry_ents(1) [OF assms(1) g] k by force
    from add_rdr_ents [OF assms(1) g _ assms(4,5)] True re k obtain e' where
      r: "err = SA_OK" "x' = x\<lparr>RecordId := oh_get_rdr_uid (RdrType x) (oh_get_instrument_id x)\<rparr>"
        "rpt_inv t'" "ents t' = adjust rid (\<lambda>_. e') (ents t)" "same_but_rdrs e' e"
        "get_rptentry_by_rid t' rid = Some (a, e')" "ent_ok e'"
        "rdr_update_count e' = rdr_update_count e + 1"
        "recs e' = upsert (RecordId x') \<lparr>rdr = x', rdr_owndata = own, rdr_data = d\<rparr> (recs e)"
      by auto
    have "v = e" if "(rid, v) \<in> set (ents t)" for v
      using that get_rptentry_ents(1) [OF assms(1) g] k ents_distinct [OF assms(1)]
      by (auto dest: eq_key_imp_eq_value)
    then have res': "resources t' = resources t"
      using resources_adjust_same [of rid t "\<lambda>_. e'"] r(5)
      by (simp add: resources_def [of t'] r(4) same_but_rdrs_def)
    have rec': "records t' rid = upsert (RecordId x') x' (records t rid)"
      using records_of_upsert [OF r(9)] by (simp add: records_def r(6) g)
    have z: "RecordId x' \<noteq> 0" using assms(4) r(2) by simp
    have "oh_get_rdr_by_id t' rid (RecordId x') = Some x'"
      using rdr_list.get_id [OF r(3) z, of rid] by (simp add: rec' map_of_upsert)
    then have "oh_get_rdr_by_type t' rid (RdrType x) (oh_get_instrument_id x) = Some x'"
      by (simp add: oh_get_rdr_by_type_def oh_get_rdr_by_id_def r(2))
    then show ?thesis
      using True r res' rec' records_adjust [OF assms(1) r(3,4) m] g
      by (simp add: oh_get_rdr_update_count_def)
  qed
qed

text \<open>C33: adding a record to a resource. An instrument id the resource may not use is refused
  without any change. Otherwise the record gets the id derived from its type and number,
  replaces the record with that id or goes to the end of the list, is found by type and number
  afterwards, no other resource is touched, and the resource's record update counter goes up
  by one. The derived id must not be 0, the id that means the first record.\<close>

theorem add_rdr_correct:
  assumes "rpt_inv t" and "rid \<noteq> SAHPI_FIRST_ENTRY" and "oh_get_resource_by_id t rid = Some res"
    and "oh_get_rdr_uid (RdrType x) (oh_get_instrument_id x) \<noteq> 0"
    and "oh_add_rdr t rid x d own = (err, x', t')"
  shows "if check_instrument_id res x \<noteq> 0 then (err, x', t') = (SA_ERR_HPI_INVALID_PARAMS, x, t)
    else err = SA_OK \<and>
      x' = x\<lparr>RecordId := oh_get_rdr_uid (RdrType x) (oh_get_instrument_id x)\<rparr> \<and>
      rpt_inv t' \<and> resources t' = resources t \<and>
      records t' rid = upsert (RecordId x') x' (records t rid) \<and>
      (\<forall>k. k \<noteq> 0 \<longrightarrow> k \<noteq> rid \<longrightarrow> records t' k = records t k) \<and>
      oh_get_rdr_by_type t' rid (RdrType x) (oh_get_instrument_id x) = Some x' \<and>
      oh_get_rdr_update_count t' rid = map_prod id (map_option (\<lambda>n. n + 1)) (oh_get_rdr_update_count t rid)"
  by (rule add_rdr_view [OF assms])

theorem add_rdr_correct_witness:
  "oh_get_rdr_by_type demo2 5 SAHPI_CTRL_RDR 3 = Some ((demo_rdr SAHPI_CTRL_RDR 3)\<lparr>RecordId := 0x10003\<rparr>)"
proof -
  let ?x = "demo_rdr SAHPI_CTRL_RDR 3"
  have u: "oh_get_rdr_uid (RdrType ?x) (oh_get_instrument_id ?x) = 0x10003" "RdrType ?x = SAHPI_CTRL_RDR"
    "oh_get_instrument_id ?x = 3" by code_simp+
  then have z: "oh_get_rdr_uid (RdrType ?x) (oh_get_instrument_id ?x) \<noteq> 0" by simp
  have g: "oh_get_resource_by_id demo1 5 = Some ((demo_res 5)\<lparr>EntryId := 5\<rparr>)" by code_simp
  have ck: "check_instrument_id ((demo_res 5)\<lparr>EntryId := 5\<rparr>) ?x = 0" by code_simp
  obtain err x' t' where c: "oh_add_rdr demo1 5 ?x 200 False = (err, x', t')" by (metis prod.exhaust)
  show ?thesis
    using add_rdr_correct [OF demo_inv(2) _ g z c] u ck c by (simp add: demo2_def)
qed

lemma remove_rdr_view:
  assumes "rpt_inv t" and "rid \<noteq> SAHPI_FIRST_ENTRY" and "k \<noteq> SAHPI_FIRST_ENTRY"
    and "oh_remove_rdr t rid k = (err, t')"
  shows "if k \<in> fst ` set (records t rid)
    then err = SA_OK \<and> rpt_inv t' \<and> resources t' = resources t \<and>
      records t' rid = discard k (records t rid) \<and>
      (\<forall>j. j \<noteq> 0 \<longrightarrow> j \<noteq> rid \<longrightarrow> records t' j = records t j) \<and>
      mset (freed t') + mset (held t') = mset (freed t) + mset (held t)
    else err = SA_ERR_HPI_NOT_PRESENT \<and> t' = t"
proof (cases "oh_get_rdr_by_id t rid k")
  case None
  then have "k \<notin> fst ` set (records t rid)"
    using rdr_list.get_id [OF assms(1,3), of rid] by (simp add: map_of_eq_None_iff)
  moreover have "err = SA_ERR_HPI_NOT_PRESENT \<and> t' = t"
    using None assms(4) by (auto simp: oh_get_rdr_by_id_def oh_remove_rdr_def split: option.splits)
  ultimately show ?thesis by simp
next
  case (Some x)
  then have pres: "k \<in> fst ` set (records t rid)"
    using rdr_list.get_id [OF assms(1,3), of rid] by (force dest: map_of_SomeD)
  obtain a e b r where g: "get_rptentry_by_rid t rid = Some (a, e)"
      and gr: "get_rdrecord_by_id e k = Some (b, r)"
    using Some by (auto simp: oh_get_rdr_by_id_def split: option.splits)
  have ke: "ent_key e = rid" using get_rptentry_ents(5) [OF assms(1) g] assms(2) by simp
  have kr: "rec_key r = k"
    using get_rdrecord_recs(3) [OF get_rptentry_ents(3) [OF assms(1) g] gr] assms(3) by simp
  have m: "rid \<in> fst ` set (ents t)" using get_rptentry_ents(1) [OF assms(1) g] ke by force
  from remove_rdr_ents [OF assms(1) g gr assms(4)] ke kr obtain e' where
    r: "err = SA_OK" "rpt_inv t'" "ents t' = adjust rid (\<lambda>_. e') (ents t)" "same_but_rdrs e' e"
      "get_rptentry_by_rid t' rid = Some (a, e')" "recs e' = discard k (recs e)"
    by auto
  have "v = e" if "(rid, v) \<in> set (ents t)" for v
    using that get_rptentry_ents(1) [OF assms(1) g] ke ents_distinct [OF assms(1)]
    by (auto dest: eq_key_imp_eq_value)
  then have res': "resources t' = resources t"
    using resources_adjust_same [of rid t "\<lambda>_. e'"] r(4)
    by (simp add: resources_def [of t'] r(3) same_but_rdrs_def)
  have "records t' rid = discard k (records t rid)"
    using records_of_discard [OF r(6)] by (simp add: records_def r(5) g)
  then show ?thesis
    using pres r(1,2) res' records_adjust [OF assms(1) r(2,3) m] remove_rdr_held [OF assms(1,4)] by simp
qed

text \<open>Removing a record that the resource holds takes exactly that record out, keeps
  everything else, counts one change, and frees the record's private data when the table owns
  it; a record that is not there leaves the table as it was.\<close>

lemma remove_rdr_correct:
  assumes "rpt_inv t" and "rid \<noteq> SAHPI_FIRST_ENTRY" and "k \<noteq> SAHPI_FIRST_ENTRY"
    and "oh_remove_rdr t rid k = (err, t')"
  shows "if k \<in> fst ` set (records t rid)
    then err = SA_OK \<and> rpt_inv t' \<and> resources t' = resources t \<and>
      records t' rid = discard k (records t rid) \<and>
      (\<forall>j. j \<noteq> 0 \<longrightarrow> j \<noteq> rid \<longrightarrow> records t' j = records t j) \<and>
      mset (freed t') + mset (held t') = mset (freed t) + mset (held t)
    else err = SA_ERR_HPI_NOT_PRESENT \<and> t' = t"
  by (rule remove_rdr_view [OF assms])

lemma remove_rdr_correct_witness:
  "records (snd (oh_remove_rdr demo3 5 0x10003)) 5 = []"
proof -
  have m: "0x10003 \<in> fst ` set (records demo3 5)" "discard 0x10003 (records demo3 5) = []"
    by code_simp+
  show ?thesis
    using remove_rdr_correct [OF demo_inv(4) _ _ prod.collapse [symmetric], of 5 "0x10003"] m by simp
qed

text \<open>The loops that clients write over the table and over a resource's records visit every
  element exactly once, in list order, and stop after as many passes as there are elements.\<close>

lemma rpt_iteration:
  assumes "rpt_inv t" and "length (resources t) \<le> n" and "length (records t rid) \<le> m"
  shows "for_entries n (oh_get_resource_next t) ResourceId (\<lambda>r acc. Some (acc @ [r]))
      (oh_get_resource_by_id t SAHPI_FIRST_ENTRY) [] = Some (map snd (resources t)) \<and>
    for_entries m (oh_get_rdr_next t rid) RecordId (\<lambda>x acc. Some (acc @ [x]))
      (oh_get_rdr_by_id t rid SAHPI_FIRST_ENTRY) [] = Some (map snd (records t rid))"
  by (simp only: rpt_list.for_entries_all [OF assms(1) resources_nz [OF assms(1)] assms(2)]
      rdr_list.for_entries_all [OF assms(1) records_nz [OF assms(1)] assms(3)] fold_opt_total
      fold_concat) (simp add: comp_def concat_map_singleton)

lemma rpt_iteration_witness:
  "for_entries 2 (oh_get_resource_next demo3) ResourceId (\<lambda>r acc. Some (acc @ [r]))
     (oh_get_resource_by_id demo3 SAHPI_FIRST_ENTRY) [] = Some (map snd (resources demo3))"
proof -
  have "length (resources demo3) \<le> 2" "length (records demo3 5) \<le> 1" by code_simp+
  with rpt_iteration [OF demo_inv(4)] show ?thesis by blast
qed

text \<open>C2: \<open>rpt_diff\<close> succeeds within as many passes as the larger table and record list have
  elements. A resource is reported gone exactly when the new table has no resource with its id,
  a record exactly when its resource stayed and the new table has no record with its id there; a
  resource or record is reported new exactly when the current table does not have the same one.\<close>

theorem rpt_diff_correct:
  assumes "rpt_inv cur" and "rpt_inv new" and "big_enough n cur" and "big_enough n new"
  shows "\<exists>d. rpt_diff n cur new \<lparr>res_new = [], rdr_new = [], res_gone = [], rdr_gone = []\<rparr> = Some (SA_OK, d) \<and>
    (\<forall>r. r \<in> set (res_gone d) \<longleftrightarrow>
       r \<in> snd ` set (resources cur) \<and> oh_get_resource_by_id new (ResourceId r) = None) \<and>
    (\<forall>r. r \<in> set (res_new d) \<longleftrightarrow>
       r \<in> snd ` set (resources new) \<and> oh_get_resource_by_id cur (ResourceId r) \<noteq> Some r) \<and>
    (\<forall>x. x \<in> set (rdr_gone d) \<longleftrightarrow>
       (\<exists>r \<in> snd ` set (resources cur). oh_get_resource_by_id new (ResourceId r) \<noteq> None \<and>
          x \<in> snd ` set (records cur (ResourceId r)) \<and>
          oh_get_rdr_by_id new (ResourceId r) (RecordId x) = None)) \<and>
    (\<forall>x. x \<in> set (rdr_new d) \<longleftrightarrow>
       (\<exists>r \<in> snd ` set (resources new). x \<in> snd ` set (records new (ResourceId r)) \<and>
          (oh_get_resource_by_id cur (ResourceId r) = None \<or>
           oh_get_rdr_by_id cur (ResourceId r) (RecordId x) \<noteq> Some x)))"
proof -
  have "rpt_diff n cur new \<lparr>res_new = [], rdr_new = [], res_gone = [], rdr_gone = []\<rparr> =
      Some (SA_OK, delta_spec cur new)"
    unfolding rpt_diff_spec [OF assms] by simp
  moreover have "x \<in> set (rdr_gone (delta_spec cur new)) \<longleftrightarrow>
      (\<exists>r \<in> snd ` set (resources cur). oh_get_resource_by_id new (ResourceId r) \<noteq> None \<and>
        x \<in> snd ` set (records cur (ResourceId r)) \<and>
        oh_get_rdr_by_id new (ResourceId r) (RecordId x) = None)" for x
    by (simp add: delta_spec_def recs_gone_def if_distrib) (auto split: if_splits)
  moreover have "x \<in> set (rdr_new (delta_spec cur new)) \<longleftrightarrow>
      (\<exists>r \<in> snd ` set (resources new). x \<in> snd ` set (records new (ResourceId r)) \<and>
        (oh_get_resource_by_id cur (ResourceId r) = None \<or>
         oh_get_rdr_by_id cur (ResourceId r) (RecordId x) \<noteq> Some x))" for x
    by (simp add: delta_spec_def recs_new_def)
  ultimately show ?thesis by (intro exI [of _ "delta_spec cur new"]) (auto simp: delta_spec_def)
qed

theorem rpt_diff_correct_witness:
  "\<exists>d. rpt_diff 2 demo2 demo3 \<lparr>res_new = [], rdr_new = [], res_gone = [], rdr_gone = []\<rparr> = Some (SA_OK, d) \<and>
     (\<forall>r. r \<in> set (res_new d) \<longleftrightarrow>
       r \<in> snd ` set (resources demo3) \<and> oh_get_resource_by_id demo2 (ResourceId r) \<noteq> Some r)"
proof -
  have "big_enough 2 demo2" "big_enough 2 demo3" by code_simp+
  from rpt_diff_correct [OF demo_inv(3,4) this] show ?thesis by blast
qed

text \<open>\<open>rpt_diff\<close> reports no difference exactly when the two tables answer every lookup by
  resource id and by record id alike.\<close>

lemma rpt_diff_nothing:
  assumes "rpt_inv cur" and "rpt_inv new" and "big_enough n cur" and "big_enough n new"
  shows "rpt_diff n cur new \<lparr>res_new = [], rdr_new = [], res_gone = [], rdr_gone = []\<rparr> =
      Some (SA_OK, \<lparr>res_new = [], rdr_new = [], res_gone = [], rdr_gone = []\<rparr>) \<longleftrightarrow>
    same_content cur new"
proof -
  have "rpt_diff n cur new \<lparr>res_new = [], rdr_new = [], res_gone = [], rdr_gone = []\<rparr> =
      Some (SA_OK, delta_spec cur new)"
    unfolding rpt_diff_spec [OF assms] by simp
  then show ?thesis
    unfolding option.inject prod.inject
    using delta_empty_imp_same [OF assms(1,2)] same_imp_delta_empty [OF assms(1,2)]
    by (metis option.inject prod.inject)
qed

lemma rpt_diff_nothing_witness:
  "rpt_diff 2 demo2 demo3 \<lparr>res_new = [], rdr_new = [], res_gone = [], rdr_gone = []\<rparr> \<noteq>
    Some (SA_OK, \<lparr>res_new = [], rdr_new = [], res_gone = [], rdr_gone = []\<rparr>)"
proof -
  have b: "big_enough 2 demo2" "big_enough 2 demo3" by code_simp+
  have "oh_get_resource_by_id demo2 7 = None" by code_simp
  moreover have "\<not> Option.is_none (oh_get_resource_by_id demo3 7)" by code_simp
  ultimately have ne: "oh_get_resource_by_id demo2 7 \<noteq> oh_get_resource_by_id demo3 7"
    by (metis Option.is_none_def)
  have "\<not> same_content demo2 demo3"
  proof
    assume "same_content demo2 demo3"
    then have "oh_get_resource_by_id demo2 7 = oh_get_resource_by_id demo3 7"
      unfolding same_content_def by (elim allE [of _ 7]) simp
    with ne show False by blast
  qed
  then show ?thesis using rpt_diff_nothing [OF demo_inv(3,4) b] by blast
qed

text \<open>\<open>oh_flush_rpt\<close> returns with an empty table and has freed every private data pointer
  that the table owned, each exactly once, and no other.\<close>

lemma flush_rpt_frees:
  assumes "rpt_inv t" and "oh_flush_rpt clock t = (err, t')"
  shows "err = SA_OK \<and> rpt_inv t' \<and> resources t' = [] \<and> mset (freed t') = mset (freed t) + mset (held t)"
  using flush_loop_ents [OF assms(1), of clock] assms(2)
  by (auto simp: oh_flush_rpt_def resources_def)

lemma flush_rpt_frees_witness:
  "mset (freed (snd (oh_flush_rpt (\<lambda>_. 0) demo3))) = mset (freed demo3) + mset (held demo3) \<and>
   held demo3 = [100, 200]"
proof -
  have "held demo3 = [100, 200]" by code_simp
  with flush_rpt_frees [OF demo_inv(4) prod.collapse [symmetric], of "\<lambda>_. 0"] show ?thesis by simp
qed

text \<open>The record id derived from a type and an instrument number below 2^16 gives the number
  back and belongs to no other such pair.\<close>

lemma rdr_uid_roundtrip:
  assumes "num < 0x10000" and "num' < 0x10000"
    and "rdr_type_num ty < 0x10000" and "rdr_type_num ty' < 0x10000"
  shows "oh_get_rdr_num (oh_get_rdr_uid ty num) = num \<and>
    (oh_get_rdr_uid ty num = oh_get_rdr_uid ty' num' \<longleftrightarrow>
       rdr_type_num ty = rdr_type_num ty' \<and> num = num')"
proof -
  note u = unat_rdr_uid [OF assms(1,3)] and u' = unat_rdr_uid [OF assms(2,4)]
  have b: "unat num < 65536" "unat num' < 65536" using assms by (simp_all add: word_less_nat_alt)
  have "unat (oh_get_rdr_num (oh_get_rdr_uid ty num)) = unat num"
    using b by (simp add: rdr_num_mod u)
  moreover have "oh_get_rdr_uid ty num = oh_get_rdr_uid ty' num' \<longleftrightarrow>
      unat (rdr_type_num ty) * 65536 + unat num = unat (rdr_type_num ty') * 65536 + unat num'"
    unfolding u [symmetric] u' [symmetric] by (rule word_unat_eq_iff)
  moreover note digits_unique [OF b, of "unat (rdr_type_num ty)" "unat (rdr_type_num ty')"]
  ultimately show ?thesis by (simp add: word_unat_eq_iff)
qed

lemma rdr_uid_roundtrip_witness:
  "oh_get_rdr_num (oh_get_rdr_uid SAHPI_SENSOR_RDR 0x108) = 0x108"
  using rdr_uid_roundtrip [of "0x108" "0x108" SAHPI_SENSOR_RDR SAHPI_SENSOR_RDR] by simp

text \<open>A record whose type is \<open>SAHPI_NO_RECORD\<close> gets the derived id 0, and id 0 means the first
  record of the resource: adding it overwrites the first record, whatever that is, and the
  overwritten record can no longer be found by its own id.\<close>

lemma add_rdr_no_record_overwrites:
  "map (RecordId \<circ> snd) (records demo3 5) = [0x10003] \<and>
   fst (oh_add_rdr demo3 5 (demo_rdr SAHPI_NO_RECORD 9) 0 False) = SA_OK \<and>
   map (RecordId \<circ> snd) (records (snd (snd (oh_add_rdr demo3 5 (demo_rdr SAHPI_NO_RECORD 9) 0 False))) 5) = [0] \<and>
   Option.is_none (oh_get_rdr_by_id
     (snd (snd (oh_add_rdr demo3 5 (demo_rdr SAHPI_NO_RECORD 9) 0 False))) 5 0x10003)"
  by code_simp

end
