(* ===== verification/EventLog.thy ===== *)
theory EventLog
  imports HpiTypes
begin

text \<open>
  The event log utilities (\<^verbatim>\<open>utils/el_utils.c\<close>): a list of entries with ascending ids, bounded by
  the size of the log (0 means unbounded). A full log drops its oldest entry when one is
  appended. The argument \<open>now\<close> is what \<^verbatim>\<open>oh_gettimeofday\<close> reads; times are 64-bit words.
\<close>

abbreviation (input) OH_EL_MAX_SIZE :: u32 where "OH_EL_MAX_SIZE \<equiv> 0"
abbreviation (input) SAHPI_EL_OVERFLOW_OVERWRITE :: u32 where "SAHPI_EL_OVERFLOW_OVERWRITE \<equiv> 1"

record oh_el_entry =
  el_EntryId :: u32
  el_Timestamp :: u64
  el_Event :: SaHpiEventT
  el_rdr :: SaHpiRdrT
  el_res :: SaHpiRptEntryT

record SaHpiEventLogInfoT =
  Entries :: u32
  Size :: u32
  UserEventMaxSize :: u32
  UpdateTimestamp :: u64
  CurrentTime :: u64
  Enabled :: bool
  OverflowFlag :: bool
  OverflowResetable :: bool
  OverflowAction :: u32

record oh_el =
  basetime :: u64
  sysbasetime :: u64
  nextid :: u32
  gentimestamp :: bool
  info :: SaHpiEventLogInfoT
  elist :: "oh_el_entry list"

section \<open>The operations\<close>

definition oh_el_create :: "u32 \<Rightarrow> oh_el" where
  "oh_el_create sz = \<lparr>basetime = 0, sysbasetime = 0, nextid = SAHPI_OLDEST_ENTRY + 1,
     gentimestamp = True,
     info = \<lparr>Entries = 0, Size = sz, UserEventMaxSize = of_nat SAHPI_MAX_TEXT_BUFFER_LENGTH,
             UpdateTimestamp = SAHPI_TIME_UNSPECIFIED, CurrentTime = SAHPI_TIME_UNSPECIFIED,
             Enabled = True, OverflowFlag = False, OverflowResetable = True,
             OverflowAction = SAHPI_EL_OVERFLOW_OVERWRITE\<rparr>,
     elist = []\<rparr>"

definition oh_el_timeset :: "u64 \<Rightarrow> oh_el \<Rightarrow> u64 \<Rightarrow> SaErrorT \<times> oh_el" where
  "oh_el_timeset now el timestamp =
     (if timestamp = SAHPI_TIME_UNSPECIFIED then (SA_ERR_HPI_INVALID_PARAMS, el)
      else (SA_OK, el\<lparr>sysbasetime := now, basetime := timestamp\<rparr>))"

text \<open>\<^verbatim>\<open>g_list_length(el->list) == el->info.Size\<close> for a bounded log.\<close>

definition el_full :: "oh_el \<Rightarrow> bool" where
  "el_full el \<longleftrightarrow> Size (info el) \<noteq> OH_EL_MAX_SIZE \<and> of_nat (length (elist el)) = Size (info el)"

text \<open>The timestamp part that \<open>oh_el_append\<close> and \<open>oh_el_prepend\<close> share.\<close>

definition el_stamp :: "u64 \<Rightarrow> SaHpiEventT \<Rightarrow> oh_el \<Rightarrow> oh_el" where
  "el_stamp now event el =
     (if gentimestamp el then
        el\<lparr>info := (info el)\<lparr>UpdateTimestamp := basetime el + (now - sysbasetime el)\<rparr>\<rparr>
      else snd (oh_el_timeset now (el\<lparr>info := (info el)\<lparr>UpdateTimestamp := Timestamp event\<rparr>\<rparr>)
                  (Timestamp event)))"

text \<open>A zeroed entry that takes the record and the resource the caller gave, if any.\<close>

definition new_entry :: "SaHpiRdrT option \<Rightarrow> SaHpiRptEntryT option \<Rightarrow> SaHpiEventT \<Rightarrow> oh_el_entry" where
  "new_entry rdr res event = \<lparr>el_EntryId = 0, el_Timestamp = 0, el_Event = event,
     el_rdr = (case rdr of None \<Rightarrow> zero_rdr | Some r \<Rightarrow> r),
     el_res = (case res of None \<Rightarrow> zero_rpt_entry | Some r \<Rightarrow> r)\<rparr>"

definition oh_el_append ::
    "u64 \<Rightarrow> oh_el \<Rightarrow> SaHpiEventT \<Rightarrow> SaHpiRdrT option \<Rightarrow> SaHpiRptEntryT option \<Rightarrow> SaErrorT \<times> oh_el"
where
  "oh_el_append now el event rdr res =
     (if \<not> Enabled (info el) \<and> \<not> is_user_event (EventDataUnion event) then
        (SA_ERR_HPI_INVALID_REQUEST, el)
      else
        let entry = new_entry rdr res event;
            el1 = (if el_full el
                   then el\<lparr>elist := tl (elist el), info := (info el)\<lparr>OverflowFlag := True\<rparr>\<rparr>
                   else el);
            entry = entry\<lparr>el_EntryId := nextid el1\<rparr>;
            el2 = el_stamp now event (el1\<lparr>nextid := nextid el1 + 1\<rparr>);
            entry = entry\<lparr>el_Timestamp := UpdateTimestamp (info el2)\<rparr>
        in (SA_OK, el2\<lparr>elist := elist el2 @ [entry]\<rparr>))"

definition oh_el_prepend ::
    "u64 \<Rightarrow> oh_el \<Rightarrow> SaHpiEventT \<Rightarrow> SaHpiRdrT option \<Rightarrow> SaHpiRptEntryT option \<Rightarrow> SaErrorT \<times> oh_el"
where
  "oh_el_prepend now el event rdr res =
     (if \<not> Enabled (info el) \<and> \<not> is_user_event (EventDataUnion event) then
        (SA_ERR_HPI_INVALID_REQUEST, el)
      else if el_full el then (SA_ERR_HPI_OUT_OF_SPACE, el)
      else
        let entry = new_entry rdr res event;
            el1 = el\<lparr>elist := map (\<lambda>e. e\<lparr>el_EntryId := el_EntryId e + 1\<rparr>) (elist el),
                     nextid := nextid el + 1\<rparr>;
            entry = entry\<lparr>el_EntryId := SAHPI_OLDEST_ENTRY + 1\<rparr>;
            el2 = el_stamp now event el1;
            entry = entry\<lparr>el_Timestamp := UpdateTimestamp (info el2)\<rparr>
        in (SA_OK, el2\<lparr>elist := entry # elist el2\<rparr>))"

definition oh_el_clear :: "oh_el \<Rightarrow> SaErrorT \<times> oh_el" where
  "oh_el_clear el =
     (SA_OK, el\<lparr>info := (info el)\<lparr>OverflowFlag := False, UpdateTimestamp := SAHPI_TIME_UNSPECIFIED,
                                  Entries := 0\<rparr>,
                nextid := SAHPI_OLDEST_ENTRY + 1, elist := []\<rparr>)"

text \<open>\<open>oh_el_close\<close> clears the log and frees it.\<close>

definition oh_el_close :: "oh_el \<Rightarrow> SaErrorT \<times> oh_el option" where
  "oh_el_close el = (let (_, el') = oh_el_clear el in (SA_OK, None))"

text \<open>
  \<open>oh_el_get\<close>: the search loop, with the id of the previous node; the result carries the ids of
  the neighbours and the entry.
\<close>

fun el_search :: "u32 \<Rightarrow> u32 \<Rightarrow> oh_el_entry list \<Rightarrow> (u32 \<times> u32 \<times> oh_el_entry) option" where
  "el_search eid prev [] = None"
| "el_search eid prev (e # es) =
     (if eid = el_EntryId e
      then Some (prev, case es of [] \<Rightarrow> SAHPI_NO_MORE_ENTRIES | f # _ \<Rightarrow> el_EntryId f, e)
      else el_search eid (el_EntryId e) es)"

definition oh_el_get :: "oh_el \<Rightarrow> u32 \<Rightarrow> SaErrorT \<times> (u32 \<times> u32 \<times> oh_el_entry) option" where
  "oh_el_get el entryid =
     (if entryid = SAHPI_NO_MORE_ENTRIES then (SA_ERR_HPI_INVALID_PARAMS, None)
      else if elist el = [] then (SA_ERR_HPI_NOT_PRESENT, None)
      else
        let eid = (if entryid = SAHPI_OLDEST_ENTRY then el_EntryId (hd (elist el))
                   else if entryid = SAHPI_NEWEST_ENTRY then el_EntryId (last (elist el))
                   else entryid)
        in case el_search eid SAHPI_NO_MORE_ENTRIES (elist el) of
             Some r \<Rightarrow> (SA_OK, Some r)
           | None \<Rightarrow> (SA_ERR_HPI_NOT_PRESENT, None))"

definition oh_el_info :: "u64 \<Rightarrow> oh_el \<Rightarrow> SaErrorT \<times> SaHpiEventLogInfoT" where
  "oh_el_info now el =
     (SA_OK, (info el)\<lparr>Entries := of_nat (length (elist el)),
                       CurrentTime := basetime el + (now - sysbasetime el)\<rparr>)"

definition oh_el_overflowreset :: "oh_el \<Rightarrow> SaErrorT \<times> oh_el" where
  "oh_el_overflowreset el =
     (if OverflowResetable (info el)
      then (SA_OK, el\<lparr>info := (info el)\<lparr>OverflowFlag := False\<rparr>\<rparr>)
      else (SA_ERR_HPI_INVALID_CMD, el))"

definition oh_el_overflowset :: "oh_el \<Rightarrow> bool \<Rightarrow> SaErrorT \<times> oh_el" where
  "oh_el_overflowset el flag = (SA_OK, el\<lparr>info := (info el)\<lparr>OverflowFlag := flag\<rparr>\<rparr>)"

text \<open>
  Saving: \<open>opened\<close> is the outcome of \<^verbatim>\<open>fopen\<close>, \<open>written\<close> the number of records that \<^verbatim>\<open>fwrite\<close>
  accepts. The result holds the file, when it was opened.
\<close>

definition oh_el_map_to_file ::
    "bool \<Rightarrow> nat \<Rightarrow> oh_el \<Rightarrow> SaErrorT \<times> oh_el_entry list option"
where
  "oh_el_map_to_file opened written el =
     (if \<not> opened then (SA_ERR_HPI_ERROR, None)
      else (if length (elist el) \<le> written then SA_OK else SA_ERR_HPI_ERROR,
            Some (take written (elist el))))"

fun el_read_loop :: "oh_el_entry list \<Rightarrow> oh_el \<Rightarrow> oh_el" where
  "el_read_loop [] el = el"
| "el_read_loop (entry # file) el =
     el_read_loop file (el\<lparr>nextid := el_EntryId entry + 1, elist := elist el @ [entry]\<rparr>)"

definition oh_el_map_from_file :: "oh_el \<Rightarrow> oh_el_entry list option \<Rightarrow> SaErrorT \<times> oh_el" where
  "oh_el_map_from_file el file =
     (if \<not> Enabled (info el) then (SA_ERR_HPI_INVALID_REQUEST, el)
      else case file of
             None \<Rightarrow> (SA_ERR_HPI_ERROR, el)
           | Some entries \<Rightarrow> (SA_OK, el_read_loop entries (snd (oh_el_clear el))))"

definition oh_el_setgentimestampflag :: "oh_el \<Rightarrow> bool \<Rightarrow> SaErrorT \<times> oh_el" where
  "oh_el_setgentimestampflag el flag = (SA_OK, el\<lparr>gentimestamp := flag\<rparr>)"

definition oh_el_enableset :: "oh_el \<Rightarrow> bool \<Rightarrow> SaErrorT \<times> oh_el" where
  "oh_el_enableset el flag = (SA_OK, el\<lparr>info := (info el)\<lparr>Enabled := flag\<rparr>\<rparr>)"

section \<open>The invariant\<close>

text \<open>
  Ids ascend, start at 1 or later and stay below the next id, which follows the last one; a bounded log never has more
  entries than its size.
\<close>

definition el_inv :: "oh_el \<Rightarrow> bool" where
  "el_inv el \<longleftrightarrow> sorted_wrt (<) (map (unat \<circ> el_EntryId) (elist el)) \<and>
     list_all (\<lambda>e. el_EntryId e \<noteq> 0 \<and> el_EntryId e < nextid el) (elist el) \<and> nextid el \<noteq> 0 \<and>
     nextid el = (if elist el = [] then 1 else el_EntryId (last (elist el)) + 1) \<and>
     (Size (info el) = OH_EL_MAX_SIZE \<or> length (elist el) \<le> unat (Size (info el)))"

lemma el_full_iff:
  "el_inv el \<Longrightarrow> el_full el \<longleftrightarrow> Size (info el) \<noteq> 0 \<and> length (elist el) = unat (Size (info el))"
proof -
  assume i: "el_inv el"
  have "of_nat (length (elist el)) = Size (info el) \<longleftrightarrow> length (elist el) = unat (Size (info el))"
    if "Size (info el) \<noteq> 0"
  proof -
    have le: "length (elist el) \<le> unat (Size (info el))" using i that by (simp add: el_inv_def)
    then have "unat (of_nat (length (elist el)) :: u32) = length (elist el)"
      by (rule unat_of_small)
    then show ?thesis by (simp add: word_unat_eq_iff)
  qed
  then show ?thesis by (auto simp: el_full_def)
qed

lemma el_stamp_simps [simp]:
  "elist (el_stamp now ev el) = elist el" "nextid (el_stamp now ev el) = nextid el"
  "Size (info (el_stamp now ev el)) = Size (info el)"
  "Enabled (info (el_stamp now ev el)) = Enabled (info el)"
  "OverflowFlag (info (el_stamp now ev el)) = OverflowFlag (info el)"
  "gentimestamp (el_stamp now ev el) = gentimestamp el"
  by (auto simp: el_stamp_def oh_el_timeset_def)

lemma el_inv_stamp [simp]: "el_inv (el_stamp now ev el) = el_inv el"
  by (simp add: el_inv_def)

lemma sorted_wrt_tl: "sorted_wrt P xs \<Longrightarrow> sorted_wrt P (tl xs)"
  by (cases xs) auto

lemma in_set_tl: "x \<in> set (tl xs) \<Longrightarrow> x \<in> set xs"
  by (cases xs) auto

lemma el_inv_create: "el_inv (oh_el_create sz)"
  by (simp add: el_inv_def oh_el_create_def)

lemma el_inv_clear: "el_inv (snd (oh_el_clear el))"
  by (simp add: el_inv_def oh_el_clear_def)

text \<open>The entry that an append or a prepend puts into the log.\<close>

definition stamped ::
    "u64 \<Rightarrow> oh_el \<Rightarrow> u32 \<Rightarrow> SaHpiEventT \<Rightarrow> SaHpiRdrT option \<Rightarrow> SaHpiRptEntryT option \<Rightarrow> oh_el_entry"
where
  "stamped now el kid event rdr res = (new_entry rdr res event)\<lparr>el_EntryId := kid,
     el_Timestamp := if gentimestamp el then basetime el + (now - sysbasetime el)
                     else Timestamp event\<rparr>"

definition accepts :: "oh_el \<Rightarrow> SaHpiEventT \<Rightarrow> bool" where
  "accepts el event \<longleftrightarrow> Enabled (info el) \<or> is_user_event (EventDataUnion event)"

lemma stamp_time [simp]:
  "UpdateTimestamp (info (el_stamp now ev el)) =
    (if gentimestamp el then basetime el + (now - sysbasetime el) else Timestamp ev)"
  by (simp add: el_stamp_def oh_el_timeset_def)

lemma append_elist:
  assumes "accepts el ev"
  shows "fst (oh_el_append now el ev rdr res) = SA_OK"
    and "elist (snd (oh_el_append now el ev rdr res)) =
      (if el_full el then tl (elist el) else elist el) @ [stamped now el (nextid el) ev rdr res]"
    and "nextid (snd (oh_el_append now el ev rdr res)) = nextid el + 1"
    and "OverflowFlag (info (snd (oh_el_append now el ev rdr res))) \<longleftrightarrow>
      OverflowFlag (info el) \<or> el_full el"
    and "Size (info (snd (oh_el_append now el ev rdr res))) = Size (info el)"
    and "Enabled (info (snd (oh_el_append now el ev rdr res))) = Enabled (info el)"
  using assms by (auto simp: oh_el_append_def accepts_def stamped_def Let_def)

lemma el_inv_append [inv_intros]:
  assumes i: "el_inv el" and nw: "nextid el + 1 \<noteq> 0"
  shows "el_inv (snd (oh_el_append now el ev rdr res))"
proof (cases "accepts el ev")
  case False
  then show ?thesis using i by (simp add: oh_el_append_def accepts_def)
next
  case True
  note a = append_elist [OF True, of now rdr res]
  let ?new = "stamped now el (nextid el) ev rdr res"
  let ?old = "if el_full el then tl (elist el) else elist el"
  have old: "sorted_wrt (<) (map (unat \<circ> el_EntryId) ?old)"
      "\<forall>e \<in> set ?old. el_EntryId e \<noteq> 0 \<and> el_EntryId e < nextid el"
    using i by (auto simp: el_inv_def map_tl sorted_wrt_tl list_all_iff dest: in_set_tl
        simp del: map_map)
  have new: "el_EntryId ?new = nextid el" by (simp add: stamped_def)
  have len: "Size (info el) = 0 \<or> Suc (length ?old) \<le> unat (Size (info el))"
    using i el_full_iff [OF i] unat_eq_zero [of "Size (info el)"]
    by (cases "elist el") (auto simp: el_inv_def)
  have "sorted_wrt (<) (map (unat \<circ> el_EntryId) (?old @ [?new]))"
    using old new by (auto simp: sorted_wrt_append word_less_nat_alt)
  moreover have "list_all (\<lambda>e. el_EntryId e \<noteq> 0 \<and> el_EntryId e < nextid el + 1) (?old @ [?new])"
    using old(2) new nw i by (auto simp: list_all_iff word_less_succ el_inv_def intro: less_imp_le)
  ultimately show ?thesis using nw len new by (auto simp: el_inv_def a simp del: map_append)
qed

lemma prepend_elist:
  assumes "accepts el ev" and "\<not> el_full el"
  shows "fst (oh_el_prepend now el ev rdr res) = SA_OK"
    and "elist (snd (oh_el_prepend now el ev rdr res)) =
      stamped now el 1 ev rdr res # map (\<lambda>e. e\<lparr>el_EntryId := el_EntryId e + 1\<rparr>) (elist el)"
    and "nextid (snd (oh_el_prepend now el ev rdr res)) = nextid el + 1"
    and "info (snd (oh_el_prepend now el ev rdr res)) = info (el_stamp now ev el)"
  using assms by (auto simp: oh_el_prepend_def accepts_def stamped_def el_stamp_def oh_el_timeset_def Let_def)

lemma el_inv_prepend [inv_intros]:
  assumes i: "el_inv el" and nw: "nextid el + 1 \<noteq> 0"
  shows "el_inv (snd (oh_el_prepend now el ev rdr res))"
proof (cases "accepts el ev \<and> \<not> el_full el")
  case False
  then show ?thesis using i by (auto simp: oh_el_prepend_def accepts_def)
next
  case True
  note p = prepend_elist [of el ev now rdr res]
  let ?up = "\<lambda>e. e\<lparr>el_EntryId := el_EntryId e + 1\<rparr>"
  have old: "sorted_wrt (<) (map (unat \<circ> el_EntryId) (elist el))"
      "\<forall>e \<in> set (elist el). el_EntryId e \<noteq> 0 \<and> el_EntryId e < nextid el" "nextid el \<noteq> 0"
    using i by (auto simp: el_inv_def list_all_iff)
  have nz: "el_EntryId e + 1 \<noteq> 0" if "e \<in> set (elist el)" for e
    using old(2) that word_less_nz_succ by blast
  have u: "map (unat \<circ> el_EntryId) (map ?up (elist el)) = map Suc (map (unat \<circ> el_EntryId) (elist el))"
    using nz by (simp add: unat_succ)
  have "sorted_wrt (<) (map Suc xs)" if "sorted_wrt (<) xs" for xs :: "nat list"
    using that by (induction xs) auto
  then have s: "sorted_wrt (<) (map (unat \<circ> el_EntryId) (map ?up (elist el)))"
    unfolding u using old(1) by blast
  have up: "1 < el_EntryId e + 1 \<and> el_EntryId e + 1 < nextid el + 1" if "e \<in> set (elist el)" for e
  proof -
    have "el_EntryId e < nextid el" "el_EntryId e \<noteq> 0" using old(2) that by auto
    then show ?thesis
      using nz [OF that] nw by (simp add: word_less_nat_alt unat_succ unat_gt_0)
  qed
  let ?l = "stamped now el 1 ev rdr res # map ?up (elist el)"
  have one: "el_EntryId (stamped now el 1 ev rdr res) = 1" by (simp add: stamped_def)
  have "sorted_wrt (<) (map (unat \<circ> el_EntryId) ?l)"
    using s up one by (auto simp: word_less_nat_alt)
  moreover have "list_all (\<lambda>e. el_EntryId e \<noteq> 0 \<and> el_EntryId e < nextid el + 1) ?l"
    using up one nz old(3) nw by (auto simp: list_all_iff word_less_succ word_le_nat_alt Suc_le_eq unat_gt_0)
  moreover have "Size (info el) = 0 \<or> Suc (length (elist el)) \<le> unat (Size (info el))"
    using i True el_full_iff [OF i] by (auto simp: el_inv_def)
  moreover have "nextid el + 1 = el_EntryId (last ?l) + 1"
    using i one by (auto simp: el_inv_def last_map split: if_splits)
  ultimately show ?thesis
    using True nw by (simp add: el_inv_def p del: sorted_wrt.simps list.pred_inject last.simps)
qed

section \<open>Looking entries up\<close>

lemma el_search_at:
  assumes "\<forall>e \<in> set us. el_EntryId e \<noteq> el_EntryId x"
  shows "el_search (el_EntryId x) p (us @ x # vs) =
    Some (if us = [] then p else el_EntryId (last us),
          case vs of [] \<Rightarrow> SAHPI_NO_MORE_ENTRIES | f # _ \<Rightarrow> el_EntryId f, x)"
  using assms by (induction us arbitrary: p) auto

lemma el_search_none: "\<forall>e \<in> set es. el_EntryId e \<noteq> k \<Longrightarrow> el_search k p es = None"
  by (induction es arbitrary: p) auto

lemma el_ids_distinct: "el_inv el \<Longrightarrow> distinct (map el_EntryId (elist el))"
proof -
  assume "el_inv el"
  then have "sorted_wrt (<) (map (unat \<circ> el_EntryId) (elist el))" by (simp add: el_inv_def)
  then have "distinct (map (unat \<circ> el_EntryId) (elist el))" by (simp add: strict_sorted_iff)
  then show ?thesis by (simp add: distinct_map inj_on_def)
qed

text \<open>No id is one of the reserved numbers, as long as few enough entries were made.\<close>

definition ids_left :: "oh_el \<Rightarrow> bool" where
  "ids_left el \<longleftrightarrow> nextid el \<le> SAHPI_NO_MORE_ENTRIES"

lemma id_not_reserved:
  assumes "el_inv el" and "ids_left el" and "e \<in> set (elist el)"
  shows "el_EntryId e \<noteq> SAHPI_OLDEST_ENTRY" and "el_EntryId e \<noteq> SAHPI_NEWEST_ENTRY"
    and "el_EntryId e \<noteq> SAHPI_NO_MORE_ENTRIES"
proof -
  have z: "el_EntryId e \<noteq> 0" and "el_EntryId e < nextid el"
    using assms(1,3) by (auto simp: el_inv_def list_all_iff)
  then have lt: "el_EntryId e < SAHPI_NO_MORE_ENTRIES"
    using assms(2) by (simp add: ids_left_def)
  show "el_EntryId e \<noteq> SAHPI_OLDEST_ENTRY" using z by simp
  show "el_EntryId e \<noteq> SAHPI_NEWEST_ENTRY" using lt by (auto simp: word_less_nat_alt)
  show "el_EntryId e \<noteq> SAHPI_NO_MORE_ENTRIES" using lt by auto
qed

definition el_id :: "oh_el \<Rightarrow> nat \<Rightarrow> u32" where
  "el_id el i = el_EntryId (elist el ! i)"

lemma el_search_nth:
  assumes i: "el_inv el" and n: "k < length (elist el)"
  shows "el_search (el_id el k) SAHPI_NO_MORE_ENTRIES (elist el) =
    Some (if k = 0 then SAHPI_NO_MORE_ENTRIES else el_id el (k - 1),
          if Suc k = length (elist el) then SAHPI_NO_MORE_ENTRIES else el_id el (Suc k), elist el ! k)"
proof -
  let ?us = "take k (elist el)" and ?vs = "drop (Suc k) (elist el)"
  have s: "elist el = ?us @ elist el ! k # ?vs" using n by (rule id_take_nth_drop)
  have d: "distinct (map el_EntryId (?us @ elist el ! k # ?vs))"
    using el_ids_distinct [OF i] s by simp
  then have "el_EntryId (elist el ! k) \<notin> el_EntryId ` set ?us" by auto
  then have "\<forall>e \<in> set ?us. el_EntryId e \<noteq> el_EntryId (elist el ! k)" by (metis imageI)
  note a = el_search_at [OF this, of SAHPI_NO_MORE_ENTRIES ?vs]
  have "elist el \<noteq> []" using n by auto
  then have "last ?us = elist el ! (k - 1)" if "k \<noteq> 0"
    using that n by (simp add: last_conv_nth)
  moreover have "?vs = [] \<longleftrightarrow> Suc k = length (elist el)" using n by auto
  moreover have "hd ?vs = elist el ! Suc k" if "Suc k \<noteq> length (elist el)"
    using that n by (simp add: hd_drop_conv_nth)
  ultimately show ?thesis
    using a n unfolding el_id_def s [symmetric] by (auto split: list.splits)
qed

lemma el_get_nth:
  assumes i: "el_inv el" and l: "ids_left el" and n: "k < length (elist el)"
  shows "oh_el_get el (el_id el k) = (SA_OK,
    Some (if k = 0 then SAHPI_NO_MORE_ENTRIES else el_id el (k - 1),
          if Suc k = length (elist el) then SAHPI_NO_MORE_ENTRIES else el_id el (Suc k), elist el ! k))"
proof -
  have "elist el ! k \<in> set (elist el)" using n by simp
  note z = id_not_reserved [OF i l this, folded el_id_def]
  have "elist el \<noteq> []" using n by auto
  then show ?thesis using z el_search_nth [OF i n] by (simp add: oh_el_get_def)
qed

text \<open>The loop a client writes with the id of the next entry.\<close>

fun el_walk :: "nat \<Rightarrow> oh_el \<Rightarrow> u32 \<Rightarrow> oh_el_entry list option" where
  "el_walk n el kid =
     (if kid = SAHPI_NO_MORE_ENTRIES then Some []
      else case n of
             0 \<Rightarrow> None
           | Suc m \<Rightarrow>
               (case oh_el_get el kid of
                  (_, Some (_, nxt, e)) \<Rightarrow> map_option (Cons e) (el_walk m el nxt)
                | (_, None) \<Rightarrow> None))"

declare el_walk.simps [simp del]

lemma el_walk_from:
  assumes i: "el_inv el" and l: "ids_left el" and "k < length (elist el)"
    and "length (elist el) - k \<le> n"
  shows "el_walk n el (el_id el k) = Some (drop k (elist el))"
  using assms(3,4)
proof (induction n arbitrary: k)
  case 0
  then show ?case by simp
next
  case (Suc n)
  have "elist el ! k \<in> set (elist el)" using Suc.prems by simp
  note z = id_not_reserved [OF i l this, folded el_id_def]
  have d: "drop k (elist el) = elist el ! k # drop (Suc k) (elist el)"
    using Suc.prems(1) by (simp add: Cons_nth_drop_Suc)
  show ?case
  proof (cases "Suc k = length (elist el)")
    case True
    then show ?thesis
      using z d el_get_nth [OF i l Suc.prems(1)]
      by (subst el_walk.simps) (simp add: el_walk.simps [of n])
  next
    case False
    then have "el_walk n el (el_id el (Suc k)) = Some (drop (Suc k) (elist el))"
      using Suc.prems by (intro Suc.IH) auto
    then show ?thesis
      using z d el_get_nth [OF i l Suc.prems(1)] False by (subst el_walk.simps) simp
  qed
qed

section \<open>Histories of appends\<close>

type_synonym append_call = "u64 \<times> SaHpiEventT \<times> SaHpiRdrT option \<times> SaHpiRptEntryT option"

fun append_all :: "append_call list \<Rightarrow> oh_el \<Rightarrow> oh_el" where
  "append_all [] el = el"
| "append_all ((now, ev, rdr, res) # cs) el = append_all cs (snd (oh_el_append now el ev rdr res))"

text \<open>The last \<open>n\<close> elements; all of them when the size is 0.\<close>

definition newest :: "u32 \<Rightarrow> 'a list \<Rightarrow> 'a list" where
  "newest n xs = (if n = OH_EL_MAX_SIZE then xs else drop (length xs - unat n) xs)"

lemma newest_snoc: "newest n (newest n xs @ ys) = newest n (xs @ ys)"
  by (cases "length xs \<le> unat n") (auto simp: newest_def add.commute)

lemma map_newest: "map f (newest n xs) = newest n (map f xs)"
  by (simp add: newest_def drop_map)

lemma newest_short: "n = 0 \<or> length xs \<le> unat n \<Longrightarrow> newest n xs = xs"
  by (auto simp: newest_def)

lemma append_newest:
  assumes i: "el_inv el" and a: "accepts el ev"
  shows "elist (snd (oh_el_append now el ev rdr res)) =
    newest (Size (info el)) (elist el @ [stamped now el (nextid el) ev rdr res])"
proof -
  have "(if el_full el then tl (elist el) else elist el) @ [x] =
      newest (Size (info el)) (elist el @ [x])" for x
  proof (cases "el_full el")
    case True
    then have f: "Size (info el) \<noteq> 0" "length (elist el) = unat (Size (info el))"
      using el_full_iff [OF i] by auto
    then have "elist el \<noteq> []" using unat_eq_zero [of "Size (info el)"] by auto
    then show ?thesis using True f by (cases "elist el") (auto simp: newest_def)
  next
    case False
    then have "Size (info el) = 0 \<or> Suc (length (elist el)) \<le> unat (Size (info el))"
      using i el_full_iff [OF i] by (auto simp: el_inv_def)
    then show ?thesis using False newest_short [of "Size (info el)" "elist el @ [x]"] by simp
  qed
  then show ?thesis using append_elist(2) [OF a] by simp
qed

lemma append_all_newest:
  assumes "el_inv el" and "Enabled (info el)" and "unat (nextid el) + length cs < 2 ^ 32"
  shows "map el_Event (elist (append_all cs el)) =
      newest (Size (info el)) (map el_Event (elist el) @ map (\<lambda>c. fst (snd c)) cs) \<and>
    el_inv (append_all cs el) \<and> nextid (append_all cs el) = nextid el + of_nat (length cs)"
  using assms
proof (induction cs arbitrary: el)
  case Nil
  then show ?case by (auto simp: el_inv_def newest_def)
next
  case (Cons c cs)
  obtain now ev rdr res where c: "c = (now, ev, rdr, res)" by (cases c)
  let ?el = "snd (oh_el_append now el ev rdr res)"
  have a: "accepts el ev" using Cons.prems(2) by (simp add: accepts_def)
  have n: "unat (nextid el + 1) = unat (nextid el) + 1"
    using Cons.prems(3) by (simp add: unat_word_ariths)
  then have nz: "nextid el + 1 \<noteq> 0" by (metis Suc_eq_plus1 nat.simps(3) unat_0)
  have i: "el_inv ?el" by (rule el_inv_append [OF Cons.prems(1) nz])
  note e = append_elist [OF a, of now rdr res]
  have IH: "map el_Event (elist (append_all cs ?el)) =
      newest (Size (info el)) (map el_Event (elist ?el) @ map (\<lambda>c. fst (snd c)) cs) \<and>
      el_inv (append_all cs ?el) \<and> nextid (append_all cs ?el) = nextid el + 1 + of_nat (length cs)"
    using Cons.IH [OF i] Cons.prems(2,3) n e by simp
  have "map el_Event (elist ?el) = newest (Size (info el)) (map el_Event (elist el) @ [ev])"
    unfolding append_newest [OF Cons.prems(1) a] map_newest
    by (simp add: stamped_def new_entry_def)
  then show ?case using IH by (simp add: newest_snoc c add.assoc)
qed

section \<open>Properties\<close>

text \<open>C36: after any sequence of accepted events, as long as the ids of 32 bits have not all been given
  out, a log of size n holds exactly the newest n of all its events, in order (all of them when the
  size is 0), and its ids go on ascending.\<close>

theorem el_ring_buffer:
  assumes "el_inv el" and "Enabled (info el)" and "unat (nextid el) + length cs < 2 ^ 32"
  shows "map el_Event (elist (append_all cs el)) =
      newest (Size (info el)) (map el_Event (elist el) @ map (\<lambda>c. fst (snd c)) cs) \<and>
    el_inv (append_all cs el) \<and> nextid (append_all cs el) = nextid el + of_nat (length cs)"
  using assms by (rule append_all_newest)

definition demo_event :: "u32 \<Rightarrow> SaHpiEventT" where
  "demo_event src = \<lparr>Source = src, Timestamp = 7, Severity = SAHPI_MAJOR,
     EventDataUnion = UserEvent zero_text\<rparr>"

definition demo_calls :: "append_call list" where
  "demo_calls = map (\<lambda>k. (of_nat k, demo_event (of_nat k), None, None)) [0..<3]"

theorem el_ring_buffer_witness:
  "map el_Event (elist (append_all demo_calls (oh_el_create 2))) = [demo_event 1, demo_event 2]"
proof -
  have "Enabled (info (oh_el_create 2))"
    "unat (nextid (oh_el_create 2)) + length demo_calls < 2 ^ 32"
    by (simp_all add: oh_el_create_def demo_calls_def)
  note r = el_ring_buffer [OF el_inv_create this]
  have "newest (Size (info (oh_el_create 2))) (map el_Event (elist (oh_el_create 2)) @
      map (\<lambda>c. fst (snd c)) demo_calls) = [demo_event 1, demo_event 2]"
    by (simp add: oh_el_create_def demo_calls_def newest_def upt_rec)
  with r show ?thesis by simp
qed

text \<open>What one append does. A disabled log refuses every event that is not a user event and
  stays as it was; otherwise the event is stored at the end under the next id, stamped with the
  log's clock or with its own time, the oldest entry goes exactly when the log is full, and the
  overflow flag records it.\<close>

lemma el_append_correct:
  assumes "el_inv el" and "oh_el_append now el ev rdr res = (err, el')"
  shows "if \<not> Enabled (info el) \<and> \<not> is_user_event (EventDataUnion ev)
    then err = SA_ERR_HPI_INVALID_REQUEST \<and> el' = el
    else err = SA_OK \<and> nextid el' = nextid el + 1 \<and>
      elist el' = (if Size (info el) \<noteq> 0 \<and> length (elist el) = unat (Size (info el))
        then tl (elist el) else elist el) @ [stamped now el (nextid el) ev rdr res] \<and>
      (OverflowFlag (info el') \<longleftrightarrow> OverflowFlag (info el) \<or>
        (Size (info el) \<noteq> 0 \<and> length (elist el) = unat (Size (info el))))"
proof (cases "accepts el ev")
  case True
  then show ?thesis
    using append_elist [OF True, of now rdr res] el_full_iff [OF assms(1)] assms(2)
    by (auto simp: accepts_def)
next
  case False
  then show ?thesis using assms(2) by (simp add: accepts_def oh_el_append_def)
qed

lemma el_append_correct_witness:
  "elist (snd (oh_el_append 5 (oh_el_create 2) (demo_event 1) None None)) =
    [stamped 5 (oh_el_create 2) 1 (demo_event 1) None None]"
proof -
  have e: "\<not> (\<not> Enabled (info (oh_el_create 2)) \<and> \<not> is_user_event (EventDataUnion (demo_event 1)))"
    "elist (oh_el_create 2) = []" "nextid (oh_el_create 2) = 1" "unat (Size (info (oh_el_create 2))) = 2"
    by (simp_all add: oh_el_create_def)
  obtain err el' where c: "oh_el_append 5 (oh_el_create 2) (demo_event 1) None None = (err, el')" by force
  show ?thesis using el_append_correct [OF el_inv_create c] e c by simp
qed

text \<open>Following the next ids from the oldest entry, as a client reads the log, yields every
  entry once, in order, and ends; it takes as many reads as there are entries.\<close>

lemma el_walk_all:
  assumes "el_inv el" and "ids_left el" and "elist el \<noteq> []" and "length (elist el) \<le> n"
  shows "el_walk n el SAHPI_OLDEST_ENTRY = Some (elist el)"
proof -
  have l: "0 < length (elist el)" using assms(3) by simp
  have "oh_el_get el SAHPI_OLDEST_ENTRY = oh_el_get el (el_id el 0)"
    using id_not_reserved [OF assms(1,2), of "elist el ! 0"] assms(3)
    by (simp add: oh_el_get_def el_id_def hd_conv_nth)
  then have "el_walk n el SAHPI_OLDEST_ENTRY = el_walk n el (el_id el 0)"
    using id_not_reserved(3) [OF assms(1,2), of "elist el ! 0", folded el_id_def] l
    by (subst (1 2) el_walk.simps) (cases n; simp)
  also have "\<dots> = Some (elist el)" using el_walk_from [OF assms(1,2) l] assms(4) by simp
  finally show ?thesis .
qed

lemma el_walk_all_witness:
  "el_walk 2 (append_all demo_calls (oh_el_create 2)) SAHPI_OLDEST_ENTRY =
     Some (elist (append_all demo_calls (oh_el_create 2)))"
proof -
  let ?el = "append_all demo_calls (oh_el_create 2)"
  have e: "Enabled (info (oh_el_create 2))"
    "unat (nextid (oh_el_create 2)) + length demo_calls < 2 ^ 32"
    by (simp_all add: oh_el_create_def demo_calls_def)
  have "el_inv ?el" using append_all_newest [OF el_inv_create e] by blast
  moreover have "ids_left ?el" "length (elist ?el) \<le> 2" "elist ?el \<noteq> []" by code_simp+
  ultimately show ?thesis using el_walk_all by blast
qed

text \<open>Reading an entry by its id returns that entry with the ids of its neighbours; the oldest
  and the newest entry can be read by their reserved ids; an id no entry has is not present.\<close>

lemma el_get_correct:
  assumes "el_inv el" and "ids_left el" and "k < length (elist el)"
  shows "oh_el_get el (el_id el k) = (SA_OK,
      Some (if k = 0 then SAHPI_NO_MORE_ENTRIES else el_id el (k - 1),
            if Suc k = length (elist el) then SAHPI_NO_MORE_ENTRIES else el_id el (Suc k),
            elist el ! k)) \<and>
    oh_el_get el SAHPI_OLDEST_ENTRY = oh_el_get el (el_id el 0) \<and>
    oh_el_get el SAHPI_NEWEST_ENTRY = oh_el_get el (el_id el (length (elist el) - 1)) \<and>
    (\<forall>j. j \<notin> el_EntryId ` set (elist el) \<longrightarrow> j \<noteq> SAHPI_OLDEST_ENTRY \<longrightarrow>
       j \<noteq> SAHPI_NEWEST_ENTRY \<longrightarrow> j \<noteq> SAHPI_NO_MORE_ENTRIES \<longrightarrow>
       oh_el_get el j = (SA_ERR_HPI_NOT_PRESENT, None))"
proof -
  have ne: "elist el \<noteq> []" using assms(3) by auto
  have "oh_el_get el SAHPI_OLDEST_ENTRY = oh_el_get el (el_id el 0)"
    using id_not_reserved [OF assms(1,2), of "elist el ! 0"] ne
    by (simp add: oh_el_get_def el_id_def hd_conv_nth)
  moreover have "oh_el_get el SAHPI_NEWEST_ENTRY = oh_el_get el (el_id el (length (elist el) - 1))"
    using id_not_reserved [OF assms(1,2), of "last (elist el)"] ne
    by (simp add: oh_el_get_def el_id_def last_conv_nth)
  moreover have "oh_el_get el j = (SA_ERR_HPI_NOT_PRESENT, None)"
    if "j \<notin> el_EntryId ` set (elist el)" "j \<noteq> 0" "j \<noteq> SAHPI_NEWEST_ENTRY"
      "j \<noteq> SAHPI_NO_MORE_ENTRIES" for j
  proof -
    have "\<forall>e \<in> set (elist el). el_EntryId e \<noteq> j" using that(1) by auto
    then show ?thesis using that ne el_search_none by (simp add: oh_el_get_def)
  qed
  ultimately show ?thesis using el_get_nth [OF assms] by simp
qed

lemma el_get_correct_witness:
  "fst (oh_el_get (append_all demo_calls (oh_el_create 2)) 2) = SA_OK"
proof -
  let ?el = "append_all demo_calls (oh_el_create 2)"
  have e: "Enabled (info (oh_el_create 2))"
    "unat (nextid (oh_el_create 2)) + length demo_calls < 2 ^ 32"
    by (simp_all add: oh_el_create_def demo_calls_def)
  have "el_inv ?el" using append_all_newest [OF el_inv_create e] by blast
  moreover have "ids_left ?el" "0 < length (elist ?el)" "el_id ?el 0 = 2" by code_simp+
  ultimately show ?thesis using el_get_correct [of ?el 0] by simp
qed

text \<open>A log that was written to a file completely and is read back into any enabled log gives
  the same entries and goes on with the same next id.\<close>

lemma el_file_roundtrip:
  assumes "el_inv el" and "length (elist el) \<le> n" and "Enabled (info el2)"
    and "oh_el_map_to_file True n el = (err, f)"
    and "oh_el_map_from_file el2 f = (err', el')"
  shows "err = SA_OK \<and> err' = SA_OK \<and> elist el' = elist el \<and> nextid el' = nextid el"
proof -
  have r: "elist (el_read_loop es x) = elist x @ es \<and>
      nextid (el_read_loop es x) = (if es = [] then nextid x else el_EntryId (last es) + 1)" for es x
    by (induction es arbitrary: x) auto
  have "f = Some (elist el)" "err = SA_OK" using assms(2,4) by (auto simp: oh_el_map_to_file_def)
  then show ?thesis
    using assms(1,3,5) r by (auto simp: oh_el_map_from_file_def oh_el_clear_def el_inv_def)
qed

lemma el_file_roundtrip_witness:
  "elist (snd (oh_el_map_from_file (oh_el_create 9)
     (snd (oh_el_map_to_file True 2 (append_all demo_calls (oh_el_create 2)))))) =
   elist (append_all demo_calls (oh_el_create 2))"
proof -
  let ?el = "append_all demo_calls (oh_el_create 2)"
  have e: "Enabled (info (oh_el_create 2))"
    "unat (nextid (oh_el_create 2)) + length demo_calls < 2 ^ 32"
    by (simp_all add: oh_el_create_def demo_calls_def)
  have "el_inv ?el" using append_all_newest [OF el_inv_create e] by blast
  moreover have "length (elist ?el) \<le> 2" "Enabled (info (oh_el_create 9))" by code_simp+
  ultimately show ?thesis
    using el_file_roundtrip [OF _ _ _ prod.collapse [symmetric] prod.collapse [symmetric]] by blast
qed

end
