(* ===== verification/Annunc.thy ===== *)
theory Annunc
  imports HpiTypes
begin

text \<open>
  The announcement list of an annunciator (\<^verbatim>\<open>utils/announcement_utils.c\<close>): announcements with
  ascending ids, read and searched by id or by severity, acknowledged and deleted. The argument
  \<open>now\<close> is what \<^verbatim>\<open>oh_gettimeofday\<close> reads.
\<close>

record oh_ann_entry =
  annentry :: SaHpiAnnouncementT
  ann_num :: u32

record oh_announcement =
  nextId :: u32
  annentries :: "oh_ann_entry list"

section \<open>The operations\<close>

definition oh_announcement_create :: oh_announcement where
  "oh_announcement_create = \<lparr>nextId = SAHPI_OLDEST_ENTRY + 1, annentries = []\<rparr>"

definition oh_announcement_clear :: "oh_announcement \<Rightarrow> SaErrorT \<times> oh_announcement" where
  "oh_announcement_clear ann =
     (SA_OK, ann\<lparr>nextId := SAHPI_OLDEST_ENTRY + 1, annentries := []\<rparr>)"

definition oh_announcement_close :: "oh_announcement \<Rightarrow> SaErrorT \<times> oh_announcement option" where
  "oh_announcement_close ann = (let (_, ann') = oh_announcement_clear ann in (SA_OK, None))"

text \<open>The caller's announcement gets the generated fields back.\<close>

definition oh_announcement_append ::
    "u64 \<Rightarrow> oh_announcement \<Rightarrow> SaHpiAnnouncementT \<Rightarrow>
       SaErrorT \<times> SaHpiAnnouncementT \<times> oh_announcement"
where
  "oh_announcement_append now ann myann =
     (let new = myann\<lparr>ann_EntryId := nextId ann, ann_Timestamp := now, AddedByUser := True\<rparr>
      in (SA_OK, new,
          ann\<lparr>nextId := nextId ann + 1,
              annentries := annentries ann @ [\<lparr>annentry = new, ann_num = 0\<rparr>]\<rparr>))"

definition oh_announcement_get ::
    "oh_announcement \<Rightarrow> u32 \<Rightarrow> SaErrorT \<times> SaHpiAnnouncementT option"
where
  "oh_announcement_get ann srchid =
     (if annentries ann = [] then (SA_ERR_HPI_NOT_PRESENT, None)
      else if srchid = SAHPI_FIRST_ENTRY then (SA_OK, Some (annentry (hd (annentries ann))))
      else if srchid = SAHPI_LAST_ENTRY then (SA_OK, Some (annentry (last (annentries ann))))
      else case find (\<lambda>e. srchid = ann_EntryId (annentry e)) (annentries ann) of
             Some e \<Rightarrow> (SA_OK, Some (annentry e))
           | None \<Rightarrow> (SA_ERR_HPI_NOT_PRESENT, None))"

text \<open>
  \<open>oh_announcement_get_next\<close>: the loop that finds the previous entry gives the nodes from it on,
  none when the id does not occur, an error when the timestamp differs.
\<close>

fun find_prev :: "u32 \<Rightarrow> u64 \<Rightarrow> oh_ann_entry list \<Rightarrow> SaErrorT + oh_ann_entry list" where
  "find_prev kid ts [] = Inr []"
| "find_prev kid ts (e # es) =
     (if kid = ann_EntryId (annentry e) then
        (if ts = ann_Timestamp (annentry e) then Inr (e # es) else Inl SA_ERR_HPI_INVALID_DATA)
      else find_prev kid ts es)"

definition ann_matches :: "SaHpiSeverityT \<Rightarrow> bool \<Rightarrow> oh_ann_entry \<Rightarrow> bool" where
  "ann_matches sev ack e \<longleftrightarrow>
     (sev = SAHPI_ALL_SEVERITIES \<or> sev = ann_Severity (annentry e)) \<and>
     (if ack then \<not> ann_Acknowledged (annentry e) else True)"

definition oh_announcement_get_next ::
    "oh_announcement \<Rightarrow> SaHpiSeverityT \<Rightarrow> bool \<Rightarrow> SaHpiAnnouncementT \<Rightarrow>
       SaErrorT \<times> SaHpiAnnouncementT"
where
  "oh_announcement_get_next ann sev ack entry =
     (let start =
        (if ann_EntryId entry = SAHPI_FIRST_ENTRY then Inr (annentries ann)
         else case find_prev (ann_EntryId entry) (ann_Timestamp entry) (annentries ann) of
                Inl err \<Rightarrow> Inl err
              | Inr [] \<Rightarrow> Inr (annentries ann)
              | Inr (_ # rest) \<Rightarrow> Inr rest)
      in case start of
           Inl err \<Rightarrow> (err, entry)
         | Inr nodes \<Rightarrow>
             (case find (ann_matches sev ack) nodes of
                Some e \<Rightarrow> (SA_OK, annentry e)
              | None \<Rightarrow> (SA_ERR_HPI_NOT_PRESENT, entry)))"

definition acked :: "oh_ann_entry \<Rightarrow> oh_ann_entry" where
  "acked e = e\<lparr>annentry := (annentry e)\<lparr>ann_Acknowledged := True\<rparr>\<rparr>"

text \<open>The loops of \<open>oh_announcement_ack\<close>: the first entry with the id, or all of the severity.\<close>

fun ack_first :: "u32 \<Rightarrow> oh_ann_entry list \<Rightarrow> oh_ann_entry list option" where
  "ack_first srchid [] = None"
| "ack_first srchid (e # es) =
     (if srchid = ann_EntryId (annentry e) then Some (acked e # es)
      else map_option (Cons e) (ack_first srchid es))"

definition of_severity :: "SaHpiSeverityT \<Rightarrow> oh_ann_entry \<Rightarrow> bool" where
  "of_severity sev e \<longleftrightarrow> sev = SAHPI_ALL_SEVERITIES \<or> sev = ann_Severity (annentry e)"

definition oh_announcement_ack ::
    "oh_announcement \<Rightarrow> u32 \<Rightarrow> SaHpiSeverityT \<Rightarrow> SaErrorT \<times> oh_announcement"
where
  "oh_announcement_ack ann srchid sev =
     (if srchid \<noteq> SAHPI_ENTRY_UNSPECIFIED then
        (case ack_first srchid (annentries ann) of
           Some es \<Rightarrow> (SA_OK, ann\<lparr>annentries := es\<rparr>)
         | None \<Rightarrow> (SA_ERR_HPI_NOT_PRESENT, ann))
      else (SA_OK, ann\<lparr>annentries :=
              map (\<lambda>e. if of_severity sev e then acked e else e) (annentries ann)\<rparr>))"

fun del_first :: "u32 \<Rightarrow> oh_ann_entry list \<Rightarrow> oh_ann_entry list option" where
  "del_first srchid [] = None"
| "del_first srchid (e # es) =
     (if srchid = ann_EntryId (annentry e) then Some es
      else map_option (Cons e) (del_first srchid es))"

text \<open>
  The second loop of \<open>oh_announcement_del\<close>: at the node with index \<open>i\<close>; after every removal it
  starts again at the first node.
\<close>

function del_loop :: "SaHpiSeverityT \<Rightarrow> oh_ann_entry list \<Rightarrow> nat \<Rightarrow> oh_ann_entry list" where
  "del_loop sev es i =
     (if i < length es then
        (if of_severity sev (es ! i) then del_loop sev (take i es @ drop (Suc i) es) 0
         else del_loop sev es (Suc i))
      else es)"
  by pat_completeness auto
termination
  by (relation "measures [\<lambda>(sev, es, i). length es, \<lambda>(sev, es, i). length es - i]") auto

declare del_loop.simps [simp del]

definition oh_announcement_del ::
    "oh_announcement \<Rightarrow> u32 \<Rightarrow> SaHpiSeverityT \<Rightarrow> SaErrorT \<times> oh_announcement"
where
  "oh_announcement_del ann srchid sev =
     (if srchid \<noteq> SAHPI_ENTRY_UNSPECIFIED then
        (case del_first srchid (annentries ann) of
           Some es \<Rightarrow> (SA_OK, ann\<lparr>annentries := es\<rparr>)
         | None \<Rightarrow> (SA_ERR_HPI_NOT_PRESENT, ann))
      else (SA_OK, ann\<lparr>annentries := del_loop sev (annentries ann) 0\<rparr>))"

section \<open>The invariant\<close>

definition ann_ids :: "oh_announcement \<Rightarrow> u32 list" where
  "ann_ids ann = map (ann_EntryId \<circ> annentry) (annentries ann)"

definition ann_inv :: "oh_announcement \<Rightarrow> bool" where
  "ann_inv ann \<longleftrightarrow> distinct (ann_ids ann) \<and> nextId ann \<noteq> 0 \<and>
     list_all (\<lambda>k. k \<noteq> 0 \<and> k < nextId ann) (ann_ids ann)"

lemma ann_inv_create: "ann_inv oh_announcement_create"
  by (simp add: ann_inv_def ann_ids_def oh_announcement_create_def)

lemma ann_inv_append [inv_intros]:
  "ann_inv ann \<Longrightarrow> nextId ann + 1 \<noteq> 0 \<Longrightarrow> ann_inv (snd (snd (oh_announcement_append now ann a)))"
  by (auto simp: ann_inv_def ann_ids_def oh_announcement_append_def list_all_iff Let_def
      word_less_succ intro: less_imp_le)

lemma notin_image: "k \<notin> f ` A \<Longrightarrow> \<forall>x \<in> A. f x \<noteq> k"
  by auto

lemma del_first_filter:
  "distinct (map (ann_EntryId \<circ> annentry) es) \<Longrightarrow> del_first k es =
    (if k \<in> ann_EntryId ` annentry ` set es
     then Some (filter (\<lambda>e. ann_EntryId (annentry e) \<noteq> k) es) else None)"
proof (induction es)
  case (Cons e es)
  have "filter (\<lambda>x. ann_EntryId (annentry x) \<noteq> k) es = es" if "k = ann_EntryId (annentry e)"
    using Cons.prems that notin_image [of k "ann_EntryId \<circ> annentry" "set es"]
    by (simp add: filter_id_conv)
  with Cons show ?case by auto
qed simp

lemma ack_first_map:
  "distinct (map (ann_EntryId \<circ> annentry) es) \<Longrightarrow> ack_first k es =
    (if k \<in> ann_EntryId ` annentry ` set es
     then Some (map (\<lambda>e. if ann_EntryId (annentry e) = k then acked e else e) es) else None)"
proof (induction es)
  case (Cons e es)
  have "map (\<lambda>x. if ann_EntryId (annentry x) = k then acked x else x) es = es"
    if "k = ann_EntryId (annentry e)"
    using Cons.prems that notin_image [of k "ann_EntryId \<circ> annentry" "set es"]
    by (intro map_idI) simp
  with Cons show ?case by auto
qed simp

lemma del_loop_filter:
  "\<forall>e \<in> set (take i es). \<not> of_severity sev e \<Longrightarrow>
    del_loop sev es i = filter (\<lambda>e. \<not> of_severity sev e) es"
proof (induction sev es i rule: del_loop.induct)
  case (1 sev es i)
  show ?case
  proof (cases "i < length es")
    case False
    then show ?thesis using "1.prems"
      by (subst del_loop.simps) (auto simp: filter_id_conv [THEN iffD2])
  next
    case True
    have s: "es = take i es @ es ! i # drop (Suc i) es" using True by (rule id_take_nth_drop)
    show ?thesis
    proof (cases "of_severity sev (es ! i)")
      case m: True
      have "filter (\<lambda>e. \<not> of_severity sev e) es =
          filter (\<lambda>e. \<not> of_severity sev e) (take i es @ drop (Suc i) es)"
        using m by (subst s) simp
      then show ?thesis using "1.IH"(1) [OF True m] True m by (subst del_loop.simps) simp
    next
      case False
      have "\<forall>e \<in> set (take (Suc i) es). \<not> of_severity sev e"
        using "1.prems" False True by (auto simp: take_Suc_conv_app_nth)
      then show ?thesis using "1.IH"(2) [OF True False] True False by (subst del_loop.simps) simp
    qed
  qed
qed

lemma ann_ids_filter:
  "ann_inv ann \<Longrightarrow> ann_inv (ann\<lparr>annentries := filter P (annentries ann)\<rparr>)"
  by (auto simp: ann_inv_def ann_ids_def list_all_iff distinct_map_filter)

section \<open>Searching\<close>

lemma find_prev_at:
  assumes "\<forall>e \<in> set us. ann_EntryId (annentry e) \<noteq> ann_EntryId (annentry x)"
  shows "find_prev (ann_EntryId (annentry x)) (ann_Timestamp (annentry x)) (us @ x # vs) = Inr (x # vs)"
  using assms by (induction us) auto

text \<open>The client loop over the announcements that match.\<close>

fun ann_walk ::
    "nat \<Rightarrow> oh_announcement \<Rightarrow> SaHpiSeverityT \<Rightarrow> bool \<Rightarrow> SaHpiAnnouncementT \<Rightarrow>
       SaHpiAnnouncementT list option"
where
  "ann_walk n ann sev ack entry =
     (case oh_announcement_get_next ann sev ack entry of
        (SA_OK, e) \<Rightarrow>
          (case n of 0 \<Rightarrow> None | Suc m \<Rightarrow> map_option (Cons e) (ann_walk m ann sev ack e))
      | _ \<Rightarrow> Some [])"

declare ann_walk.simps [simp del]

lemma find_split:
  "find P xs = Some x \<Longrightarrow> \<exists>us vs. xs = us @ x # vs \<and> (\<forall>u \<in> set us. \<not> P u) \<and> P x"
proof (induction xs)
  case (Cons y ys)
  show ?case
  proof (cases "P y")
    case True
    then show ?thesis using Cons.prems by (intro exI [of _ "[]"] exI [of _ ys]) auto
  next
    case False
    then obtain us vs where "ys = us @ x # vs" "\<forall>u \<in> set us. \<not> P u" "P x"
      using Cons by auto
    then show ?thesis using False by (intro exI [of _ "y # us"] exI [of _ vs]) auto
  qed
qed simp

lemma ann_next_at:
  assumes "ann_inv ann" and es: "annentries ann = us @ x # vs"
  shows "oh_announcement_get_next ann sev ack (annentry x) =
    (case find (ann_matches sev ack) vs of Some e \<Rightarrow> (SA_OK, annentry e)
     | None \<Rightarrow> (SA_ERR_HPI_NOT_PRESENT, annentry x))"
proof -
  have "distinct (map (ann_EntryId \<circ> annentry) (us @ x # vs))"
    using assms by (simp add: ann_inv_def ann_ids_def)
  then have "ann_EntryId (annentry x) \<notin> (ann_EntryId \<circ> annentry) ` set us" by auto
  from notin_image [OF this]
  have "\<forall>e \<in> set us. ann_EntryId (annentry e) \<noteq> ann_EntryId (annentry x)" by simp
  moreover have "ann_EntryId (annentry x) \<noteq> 0"
    using assms by (auto simp: ann_inv_def ann_ids_def)
  ultimately show ?thesis
    using find_prev_at [of us x vs] es by (simp add: oh_announcement_get_next_def)
qed

lemma ann_walk_nodes:
  assumes "ann_inv ann"
  shows "\<lbrakk>annentries ann = us @ vs;
      oh_announcement_get_next ann sev ack entry =
        (case find (ann_matches sev ack) vs of Some e \<Rightarrow> (SA_OK, annentry e)
         | None \<Rightarrow> (SA_ERR_HPI_NOT_PRESENT, entry));
      length (filter (ann_matches sev ack) vs) \<le> n\<rbrakk> \<Longrightarrow>
    ann_walk n ann sev ack entry = Some (map annentry (filter (ann_matches sev ack) vs))"
proof (induction n arbitrary: us vs entry)
  case 0
  then have "filter (ann_matches sev ack) vs = []" by simp
  moreover then have "find (ann_matches sev ack) vs = None"
    by (auto simp: find_None_iff filter_empty_conv)
  ultimately show ?case using 0 by (subst ann_walk.simps) simp
next
  case (Suc n)
  show ?case
  proof (cases "find (ann_matches sev ack) vs")
    case None
    then have "filter (ann_matches sev ack) vs = []" by (auto simp: find_None_iff filter_empty_conv)
    then show ?thesis using Suc.prems None by (subst ann_walk.simps) simp
  next
    case (Some x)
    then obtain ws zs where w: "vs = ws @ x # zs" "\<forall>u \<in> set ws. \<not> ann_matches sev ack u"
        "ann_matches sev ack x" using find_split by metis
    then have f: "filter (ann_matches sev ack) vs = x # filter (ann_matches sev ack) zs"
      by (simp add: filter_empty_conv [THEN iffD2])
    have es: "annentries ann = (us @ ws) @ x # zs" using Suc.prems(1) w by simp
    have "ann_walk n ann sev ack (annentry x) = Some (map annentry (filter (ann_matches sev ack) zs))"
      using Suc.IH [of "us @ ws @ [x]" zs] es ann_next_at [OF assms es] Suc.prems(3) f by simp
    then show ?thesis using Suc.prems(2) Some f by (subst ann_walk.simps) simp
  qed
qed

section \<open>Properties\<close>

text \<open>The client loop over \<open>oh_announcement_get_next\<close>, started with the first-entry id, visits
  exactly the announcements with the severity asked for (and, when asked for, not acknowledged),
  each once, in the order they were added, and then ends with not-present.\<close>

lemma ann_walk_all:
  assumes "ann_inv ann" and "ann_EntryId entry = SAHPI_FIRST_ENTRY"
    and "length (annentries ann) \<le> n"
  shows "ann_walk n ann sev ack entry = Some (map annentry (filter (ann_matches sev ack) (annentries ann)))"
proof -
  have "length (filter (ann_matches sev ack) (annentries ann)) \<le> n"
    using assms(3) length_filter_le le_trans by blast
  then show ?thesis
    using assms(2) by (intro ann_walk_nodes [OF assms(1), of "[]"]) (simp_all add: oh_announcement_get_next_def)
qed

definition zero_ann :: SaHpiAnnouncementT where
  "zero_ann = \<lparr>ann_EntryId = 0, ann_Timestamp = 0, AddedByUser = False, ann_Severity = SAHPI_MAJOR,
     ann_Acknowledged = False, StatusCond = zero_condition\<rparr>"

definition demo_ann :: oh_announcement where
  "demo_ann = snd (snd (oh_announcement_append 8
     (snd (snd (oh_announcement_append 7 oh_announcement_create zero_ann)))
     (zero_ann\<lparr>ann_Severity := SAHPI_MINOR\<rparr>)))"

lemma demo_ann_inv: "ann_inv demo_ann"
  by code_simp

lemma ann_walk_all_witness:
  "map_option length (ann_walk 2 demo_ann SAHPI_MINOR True zero_ann) = Some 1"
proof -
  have "ann_EntryId zero_ann = 0" "length (annentries demo_ann) \<le> 2" by code_simp+
  note w = ann_walk_all [OF demo_ann_inv this]
  have "length (filter (ann_matches SAHPI_MINOR True) (annentries demo_ann)) = 1" by code_simp
  then show ?thesis by (simp add: w)
qed

text \<open>Deleting by id takes exactly the announcement with that id out, or reports not-present
  and changes nothing; deleting by severity takes out exactly the announcements of that severity,
  although the loop starts over after every removal; order and next id stay.\<close>

lemma ann_del_correct:
  assumes "ann_inv ann"
  shows "oh_announcement_del ann srchid sev =
    (if srchid = SAHPI_ENTRY_UNSPECIFIED
     then (SA_OK, ann\<lparr>annentries := filter (\<lambda>e. \<not> of_severity sev e) (annentries ann)\<rparr>)
     else if srchid \<in> set (ann_ids ann)
     then (SA_OK, ann\<lparr>annentries :=
       filter (\<lambda>e. ann_EntryId (annentry e) \<noteq> srchid) (annentries ann)\<rparr>)
     else (SA_ERR_HPI_NOT_PRESENT, ann)) \<and>
    ann_inv (snd (oh_announcement_del ann srchid sev))"
proof -
  have d: "distinct (map (ann_EntryId \<circ> annentry) (annentries ann))"
    using assms by (simp add: ann_inv_def ann_ids_def)
  have l: "del_loop sev (annentries ann) 0 = filter (\<lambda>e. \<not> of_severity sev e) (annentries ann)"
    by (rule del_loop_filter) simp
  show ?thesis
    using assms ann_ids_filter
    by (auto simp: oh_announcement_del_def del_first_filter [OF d] l ann_ids_def image_image)
qed

lemma ann_del_correct_witness:
  "length (annentries (snd (oh_announcement_del demo_ann SAHPI_ENTRY_UNSPECIFIED SAHPI_MINOR))) = 1"
proof -
  have "length (filter (\<lambda>e. \<not> of_severity SAHPI_MINOR e) (annentries demo_ann)) = 1" by code_simp
  then show ?thesis using ann_del_correct [OF demo_ann_inv, of 0 SAHPI_MINOR] by simp
qed

end
