(* ===== verification/CText.thy ===== *)
theory CText
  imports Prelude
begin

text \<open>
  What the source uses of the string functions of the C library, on strings without the NUL character.
\<close>

section \<open>Characters and numbers\<close>

definition is_digit :: "char \<Rightarrow> bool" where
  "is_digit c \<longleftrightarrow> 48 \<le> (of_char c :: nat) \<and> (of_char c :: nat) \<le> 57"

definition is_space :: "char \<Rightarrow> bool" where
  "is_space c \<longleftrightarrow> (of_char c :: nat) = 32 \<or> (9 \<le> (of_char c :: nat) \<and> (of_char c :: nat) \<le> 13)"

definition digits_value :: "string \<Rightarrow> int" where
  "digits_value s = foldl (\<lambda>v c. 10 * v + (of_char c - 48)) 0 (takeWhile is_digit s)"

text \<open>\<^verbatim>\<open>strtoll(s, 0, 10)\<close>: white space, a sign, digits; the value saturates.\<close>

definition strtoll10 :: "string \<Rightarrow> int" where
  "strtoll10 s =
     (let t = dropWhile is_space s;
          v = (case t of
                 [] \<Rightarrow> 0
               | c # u \<Rightarrow> if c = CHR ''-'' then - digits_value u
                         else if c = CHR ''+'' then digits_value u
                         else digits_value t)
      in max (- (2 ^ 63)) (min (2 ^ 63 - 1) v))"

text \<open>\<^verbatim>\<open>atoi\<close> is the long value cut to an \<^verbatim>\<open>int\<close>.\<close>

definition atoi :: "string \<Rightarrow> u32" where
  "atoi s = word_of_int (strtoll10 s)"

definition to_upper :: "char \<Rightarrow> char" where
  "to_upper c = (if 97 \<le> (of_char c :: nat) \<and> (of_char c :: nat) \<le> 122
                 then char_of ((of_char c :: nat) - 32) else c)"

text \<open>\<^verbatim>\<open>strcasecmp(a, b) == 0\<close>\<close>

definition strcasecmp_eq :: "string \<Rightarrow> string \<Rightarrow> bool" where
  "strcasecmp_eq a b \<longleftrightarrow> map to_upper a = map to_upper b"

section \<open>Reading numbers with their end\<close>

text \<open>The value of a character as a digit: decimal digits, then letters of either case.\<close>

definition digit_value :: "nat \<Rightarrow> char \<Rightarrow> nat option" where
  "digit_value base c =
     (let n = of_char c :: nat;
          v = (if 48 \<le> n \<and> n \<le> 57 then n - 48
               else if 65 \<le> n \<and> n \<le> 90 then n - 55
               else if 97 \<le> n \<and> n \<le> 122 then n - 87
               else 36)
      in if v < base then Some v else None)"

definition is_digit_of :: "nat \<Rightarrow> char \<Rightarrow> bool" where
  "is_digit_of base c \<longleftrightarrow> digit_value base c \<noteq> None"

definition digits_to_nat :: "nat \<Rightarrow> string \<Rightarrow> nat" where
  "digits_to_nat base s = foldl (\<lambda>v c. base * v + the (digit_value base c)) 0 s"

text \<open>The prefix that tells the base when it is 0.\<close>

definition number_base :: "nat \<Rightarrow> string \<Rightarrow> nat \<times> string" where
  "number_base base s =
     (if base \<noteq> 0 then (base, s)
      else case s of
             z # x # d # r \<Rightarrow>
               if z = CHR ''0'' \<and> (x = CHR ''x'' \<or> x = CHR ''X'') \<and> is_digit_of 16 d then (16, d # r)
               else if z = CHR ''0'' then (8, s) else (10, s)
           | z # r \<Rightarrow> if z = CHR ''0'' then (8, s) else (10, s)
           | [] \<Rightarrow> (10, s))"

text \<open>
  White space, a sign, digits. The result is the number and the text behind it, the place of
  \<^verbatim>\<open>endptr\<close>; without a digit that is the whole text.
\<close>

definition read_number :: "nat \<Rightarrow> string \<Rightarrow> int \<times> string" where
  "read_number base s =
     (let t = dropWhile is_space s;
          (neg, u) = (case t of
                        [] \<Rightarrow> (False, t)
                      | c # r \<Rightarrow> if c = CHR ''-'' then (True, r)
                                else if c = CHR ''+'' then (False, r) else (False, t));
          (b, u) = number_base base u;
          ds = takeWhile (is_digit_of b) u;
          v = int (digits_to_nat b ds)
      in if ds = [] then (0, s) else (if neg then - v else v, drop (length ds) u))"

definition strtol :: "nat \<Rightarrow> string \<Rightarrow> int \<times> string" where
  "strtol base s = (let (v, r) = read_number base s in (max (- (2 ^ 63)) (min (2 ^ 63 - 1) v), r))"

definition strtoul :: "nat \<Rightarrow> string \<Rightarrow> u64 \<times> string" where
  "strtoul base s =
     (let (v, r) = read_number base s
      in (if 2 ^ 64 \<le> v \<or> v \<le> - (2 ^ 64) then - 1 else word_of_int v, r))"

section \<open>Printing numbers\<close>

definition digit_char :: "nat \<Rightarrow> char" where
  "digit_char d = char_of (if d < 10 then 48 + d else 55 + d)"

function show_nat :: "nat \<Rightarrow> nat \<Rightarrow> string" where
  "show_nat base n =
     (if base < 2 \<or> n < base then [digit_char n] else show_nat base (n div base) @ [digit_char (n mod base)])"
  by pat_completeness auto
termination
  by (relation "measure snd") (auto intro: div_less_dividend)

declare show_nat.simps [simp del]

text \<open>\<^verbatim>\<open>%d\<close>\<close>

definition show_int :: "int \<Rightarrow> string" where
  "show_int i = (if i < 0 then CHR ''-'' # show_nat 10 (nat (- i)) else show_nat 10 (nat i))"

section \<open>GLib\<close>

text \<open>\<^verbatim>\<open>g_ascii_isspace\<close> does not take a vertical tab for a space.\<close>

definition is_gspace :: "char \<Rightarrow> bool" where
  "is_gspace c \<longleftrightarrow> is_space c \<and> (of_char c :: nat) \<noteq> 11"

definition g_strstrip :: "string \<Rightarrow> string" where
  "g_strstrip s = rev (dropWhile is_gspace (rev (dropWhile is_gspace s)))"

text \<open>The parts of a string between the delimiters, for \<^verbatim>\<open>g_strsplit(s, "d", -1)\<close>.\<close>

fun split_at :: "char \<Rightarrow> string \<Rightarrow> string list" where
  "split_at d [] = [[]]"
| "split_at d (c # s) =
     (if c = d then [] # split_at d s
      else case split_at d s of x # r \<Rightarrow> (c # x) # r | [] \<Rightarrow> [[c]])"

definition g_strsplit :: "char \<Rightarrow> string \<Rightarrow> string list" where
  "g_strsplit d s = (if s = [] then [] else split_at d s)"

text \<open>\<^verbatim>\<open>g_strsplit(s, "d", 2)\<close> of a string that has the delimiter.\<close>

definition split_first :: "char \<Rightarrow> string \<Rightarrow> string \<times> string" where
  "split_first d s = (takeWhile (\<lambda>c. c \<noteq> d) s, tl (dropWhile (\<lambda>c. c \<noteq> d) s))"

text \<open>\<^verbatim>\<open>g_strdelimit(s, "d", r)\<close>\<close>

definition g_strdelimit :: "string \<Rightarrow> char \<Rightarrow> char \<Rightarrow> string" where
  "g_strdelimit s d r = map (\<lambda>c. if c = d then r else c) s"

end
