(* ===== verification/EnumUtils.thy ===== *)
theory EnumUtils
  imports CText HpiTypes
begin

text \<open>
  The names of the HPI enumerations (\<^verbatim>\<open>utils/sahpi_enum_utils.c\<close>, \<^verbatim>\<open>utils/sahpixtca_enum_utils.c\<close>,
  \<^verbatim>\<open>utils/sahpiatca_enum_utils.c\<close>): for each enumeration a function from a value to its name
  (a \<^verbatim>\<open>switch\<close>, here an association list with the values of \<^verbatim>\<open>include/SaHpi.h\<close>, \<^verbatim>\<open>SaHpiXtca.h\<close> and
  \<^verbatim>\<open>SaHpiAtca.h\<close>), a table of names, and a function that finds the value of a name in the table.
  The result of that function is the return code and the value of the location \<open>type\<close> afterwards.
  Every table has as many entries as the loop over it has turns.
\<close>

abbreviation (input) SAHPI_OEM_SENSOR :: u32 where "SAHPI_OEM_SENSOR \<equiv> 192"

section \<open>The loop over a table\<close>

definition find_string :: "(u32 \<times> string) list \<Rightarrow> string \<Rightarrow> u32 option" where
  "find_string tab buffer = map_option fst (find (\<lambda>p. strcasecmp_eq buffer (snd p)) tab)"

definition encode_enum :: "(u32 \<times> string) list \<Rightarrow> string \<Rightarrow> u32 \<Rightarrow> SaErrorT \<times> u32" where
  "encode_enum tab buffer type =
     (if buffer = [] then (SA_ERR_HPI_INVALID_PARAMS, type)
      else case find_string tab buffer of
             Some v \<Rightarrow> (SA_OK, v)
           | None \<Rightarrow> (SA_ERR_HPI_INVALID_DATA, type))"

section \<open>The enumerations\<close>


definition oh_lookup_xtcahpientitytype :: "u32 \<Rightarrow> string option" where
  "oh_lookup_xtcahpientitytype = map_of
     [(145, ''POWER_SLOT''), (146, ''SHELF_FRU_DEVICE_SLOT''), (147, ''SHELF_MANAGER_SLOT''),
      (148, ''FAN_TRAY_SLOT''), (149, ''FAN_FILTER_TRAY_SLOT''), (150, ''ALARM_SLOT''),
      (151, ''AMC_SLOT''), (152, ''PMC_SLOT''), (153, ''RTM_SLOT''),
      (154, ''CARRIER_MANAGER_SLOT''), (155, ''CARRIER_SLOT''), (156, ''COM_E_SLOT'')]"

definition xtcahpientitytype_strings :: "(u32 \<times> string) list" where
  "xtcahpientitytype_strings =
     [(145, ''POWER_SLOT''), (146, ''SHELF_FRU_DEVICE_SLOT''), (147, ''SHELF_MANAGER_SLOT''),
      (148, ''FAN_TRAY_SLOT''), (149, ''FAN_FILTER_TRAY_SLOT''), (150, ''ALARM_SLOT''),
      (151, ''AMC_SLOT''), (152, ''PMC_SLOT''), (153, ''RTM_SLOT''),
      (154, ''CARRIER_MANAGER_SLOT''), (155, ''CARRIER_SLOT''), (156, ''COM_E_SLOT'')]"

definition oh_encode_xtcahpientitytype :: "string \<Rightarrow> u32 \<Rightarrow> SaErrorT \<times> u32" where
  "oh_encode_xtcahpientitytype = encode_enum xtcahpientitytype_strings"

definition oh_lookup_language :: "u32 \<Rightarrow> string option" where
  "oh_lookup_language = map_of
     [(0, ''UNDEF''), (1, ''AFAR''), (2, ''ABKHAZIAN''), (3, ''AFRIKAANS''), (4, ''AMHARIC''),
      (5, ''ARABIC''), (6, ''ASSAMESE''), (7, ''AYMARA''), (8, ''AZERBAIJANI''),
      (9, ''BASHKIR''), (10, ''BYELORUSSIAN''), (11, ''BULGARIAN''), (12, ''BIHARI''),
      (13, ''BISLAMA''), (14, ''BENGALI''), (15, ''TIBETAN''), (16, ''BRETON''),
      (17, ''CATALAN''), (18, ''CORSICAN''), (19, ''CZECH''), (20, ''WELSH''), (21, ''DANISH''),
      (22, ''GERMAN''), (23, ''BHUTANI''), (24, ''GREEK''), (25, ''ENGLISH''),
      (26, ''ESPERANTO''), (27, ''SPANISH''), (28, ''ESTONIAN''), (29, ''BASQUE''),
      (30, ''PERSIAN''), (31, ''FINNISH''), (32, ''FIJI''), (33, ''FAEROESE''), (34, ''FRENCH''),
      (35, ''FRISIAN''), (36, ''IRISH''), (37, ''SCOTSGAELIC''), (38, ''GALICIAN''),
      (39, ''GUARANI''), (40, ''GUJARATI''), (41, ''HAUSA''), (42, ''HINDI''),
      (43, ''CROATIAN''), (44, ''HUNGARIAN''), (45, ''ARMENIAN''), (46, ''INTERLINGUA''),
      (47, ''INTERLINGUE''), (48, ''INUPIAK''), (49, ''INDONESIAN''), (50, ''ICELANDIC''),
      (51, ''ITALIAN''), (52, ''HEBREW''), (53, ''JAPANESE''), (54, ''YIDDISH''),
      (55, ''JAVANESE''), (56, ''GEORGIAN''), (57, ''KAZAKH''), (58, ''GREENLANDIC''),
      (59, ''CAMBODIAN''), (60, ''KANNADA''), (61, ''KOREAN''), (62, ''KASHMIRI''),
      (63, ''KURDISH''), (64, ''KIRGHIZ''), (65, ''LATIN''), (66, ''LINGALA''),
      (67, ''LAOTHIAN''), (68, ''LITHUANIAN''), (69, ''LATVIANLETTISH''), (70, ''MALAGASY''),
      (71, ''MAORI''), (72, ''MACEDONIAN''), (73, ''MALAYALAM''), (74, ''MONGOLIAN''),
      (75, ''MOLDAVIAN''), (76, ''MARATHI''), (77, ''MALAY''), (78, ''MALTESE''),
      (79, ''BURMESE''), (80, ''NAURU''), (81, ''NEPALI''), (82, ''DUTCH''), (83, ''NORWEGIAN''),
      (84, ''OCCITAN''), (85, ''AFANOROMO''), (86, ''ORIYA''), (87, ''PUNJABI''),
      (88, ''POLISH''), (89, ''PASHTOPUSHTO''), (90, ''PORTUGUESE''), (91, ''QUECHUA''),
      (92, ''RHAETOROMANCE''), (93, ''KIRUNDI''), (94, ''ROMANIAN''), (95, ''RUSSIAN''),
      (96, ''KINYARWANDA''), (97, ''SANSKRIT''), (98, ''SINDHI''), (99, ''SANGRO''),
      (100, ''SERBOCROATIAN''), (101, ''SINGHALESE''), (102, ''SLOVAK''), (103, ''SLOVENIAN''),
      (104, ''SAMOAN''), (105, ''SHONA''), (106, ''SOMALI''), (107, ''ALBANIAN''),
      (108, ''SERBIAN''), (109, ''SISWATI''), (110, ''SESOTHO''), (111, ''SUDANESE''),
      (112, ''SWEDISH''), (113, ''SWAHILI''), (114, ''TAMIL''), (115, ''TELUGU''),
      (116, ''TAJIK''), (117, ''THAI''), (118, ''TIGRINYA''), (119, ''TURKMEN''),
      (120, ''TAGALOG''), (121, ''SETSWANA''), (122, ''TONGA''), (123, ''TURKISH''),
      (124, ''TSONGA''), (125, ''TATAR''), (126, ''TWI''), (127, ''UKRAINIAN''), (128, ''URDU''),
      (129, ''UZBEK''), (130, ''VIETNAMESE''), (131, ''VOLAPUK''), (132, ''WOLOF''),
      (133, ''XHOSA''), (134, ''YORUBA''), (135, ''CHINESE''), (136, ''ZULU'')]"

definition language_strings :: "(u32 \<times> string) list" where
  "language_strings =
     [(0, ''UNDEF''), (1, ''AFAR''), (2, ''ABKHAZIAN''), (3, ''AFRIKAANS''), (4, ''AMHARIC''),
      (5, ''ARABIC''), (6, ''ASSAMESE''), (7, ''AYMARA''), (8, ''AZERBAIJANI''),
      (9, ''BASHKIR''), (10, ''BYELORUSSIAN''), (11, ''BULGARIAN''), (12, ''BIHARI''),
      (13, ''BISLAMA''), (14, ''BENGALI''), (15, ''TIBETAN''), (16, ''BRETON''),
      (17, ''CATALAN''), (18, ''CORSICAN''), (19, ''CZECH''), (20, ''WELSH''), (21, ''DANISH''),
      (22, ''GERMAN''), (23, ''BHUTANI''), (24, ''GREEK''), (25, ''ENGLISH''),
      (26, ''ESPERANTO''), (27, ''SPANISH''), (28, ''ESTONIAN''), (29, ''BASQUE''),
      (30, ''PERSIAN''), (31, ''FINNISH''), (32, ''FIJI''), (33, ''FAEROESE''), (34, ''FRENCH''),
      (35, ''FRISIAN''), (36, ''IRISH''), (37, ''SCOTSGAELIC''), (38, ''GALICIAN''),
      (39, ''GUARANI''), (40, ''GUJARATI''), (41, ''HAUSA''), (42, ''HINDI''),
      (43, ''CROATIAN''), (44, ''HUNGARIAN''), (45, ''ARMENIAN''), (46, ''INTERLINGUA''),
      (47, ''INTERLINGUE''), (48, ''INUPIAK''), (49, ''INDONESIAN''), (50, ''ICELANDIC''),
      (51, ''ITALIAN''), (52, ''HEBREW''), (53, ''JAPANESE''), (54, ''YIDDISH''),
      (55, ''JAVANESE''), (56, ''GEORGIAN''), (57, ''KAZAKH''), (58, ''GREENLANDIC''),
      (59, ''CAMBODIAN''), (60, ''KANNADA''), (61, ''KOREAN''), (62, ''KASHMIRI''),
      (63, ''KURDISH''), (64, ''KIRGHIZ''), (65, ''LATIN''), (66, ''LINGALA''),
      (67, ''LAOTHIAN''), (68, ''LITHUANIAN''), (69, ''LATVIANLETTISH''), (70, ''MALAGASY''),
      (71, ''MAORI''), (72, ''MACEDONIAN''), (73, ''MALAYALAM''), (74, ''MONGOLIAN''),
      (75, ''MOLDAVIAN''), (76, ''MARATHI''), (77, ''MALAY''), (78, ''MALTESE''),
      (79, ''BURMESE''), (80, ''NAURU''), (81, ''NEPALI''), (82, ''DUTCH''), (83, ''NORWEGIAN''),
      (84, ''OCCITAN''), (85, ''AFANOROMO''), (86, ''ORIYA''), (87, ''PUNJABI''),
      (88, ''POLISH''), (89, ''PASHTOPUSHTO''), (90, ''PORTUGUESE''), (91, ''QUECHUA''),
      (92, ''RHAETOROMANCE''), (93, ''KIRUNDI''), (94, ''ROMANIAN''), (95, ''RUSSIAN''),
      (96, ''KINYARWANDA''), (97, ''SANSKRIT''), (98, ''SINDHI''), (99, ''SANGRO''),
      (100, ''SERBOCROATIAN''), (101, ''SINGHALESE''), (102, ''SLOVAK''), (103, ''SLOVENIAN''),
      (104, ''SAMOAN''), (105, ''SHONA''), (106, ''SOMALI''), (107, ''ALBANIAN''),
      (108, ''SERBIAN''), (109, ''SISWATI''), (110, ''SESOTHO''), (111, ''SUDANESE''),
      (112, ''SWEDISH''), (113, ''SWAHILI''), (114, ''TAMIL''), (115, ''TELUGU''),
      (116, ''TAJIK''), (117, ''THAI''), (118, ''TIGRINYA''), (119, ''TURKMEN''),
      (120, ''TAGALOG''), (121, ''SETSWANA''), (122, ''TONGA''), (123, ''TURKISH''),
      (124, ''TSONGA''), (125, ''TATAR''), (126, ''TWI''), (127, ''UKRAINIAN''), (128, ''URDU''),
      (129, ''UZBEK''), (130, ''VIETNAMESE''), (131, ''VOLAPUK''), (132, ''WOLOF''),
      (133, ''XHOSA''), (134, ''YORUBA''), (135, ''CHINESE''), (136, ''ZULU'')]"

definition oh_encode_language :: "string \<Rightarrow> u32 \<Rightarrow> SaErrorT \<times> u32" where
  "oh_encode_language = encode_enum language_strings"

definition oh_lookup_texttype :: "u32 \<Rightarrow> string option" where
  "oh_lookup_texttype = map_of
     [(0, ''UNICODE''), (1, ''BCDPLUS''), (2, ''ASCII6''), (3, ''TEXT''), (4, ''BINARY'')]"

definition texttype_strings :: "(u32 \<times> string) list" where
  "texttype_strings =
     [(0, ''UNICODE''), (1, ''BCDPLUS''), (2, ''ASCII6''), (3, ''TEXT''), (4, ''BINARY'')]"

definition oh_encode_texttype :: "string \<Rightarrow> u32 \<Rightarrow> SaErrorT \<times> u32" where
  "oh_encode_texttype = encode_enum texttype_strings"

definition oh_lookup_entitytype :: "u32 \<Rightarrow> string option" where
  "oh_lookup_entitytype value =
     (case map_of
     [(0, ''UNSPECIFIED''), (1, ''OTHER''), (2, ''UNKNOWN''), (3, ''PROCESSOR''),
      (4, ''DISK_BAY''), (5, ''PERIPHERAL_BAY''), (6, ''SYS_MGMNT_MODULE''),
      (7, ''SYSTEM_BOARD''), (8, ''MEMORY_MODULE''), (9, ''PROCESSOR_MODULE''),
      (10, ''POWER_SUPPLY''), (11, ''ADD_IN_CARD''), (12, ''FRONT_PANEL_BOARD''),
      (13, ''BACK_PANEL_BOARD''), (14, ''POWER_SYSTEM_BOARD''), (15, ''DRIVE_BACKPLANE''),
      (16, ''SYS_EXPANSION_BOARD''), (17, ''OTHER_SYSTEM_BOARD''), (18, ''PROCESSOR_BOARD''),
      (19, ''POWER_UNIT''), (20, ''POWER_MODULE''), (21, ''POWER_MGMNT''),
      (22, ''CHASSIS_BACK_PANEL_BOARD''), (23, ''SYSTEM_CHASSIS''), (24, ''SUB_CHASSIS''),
      (25, ''OTHER_CHASSIS_BOARD''), (26, ''DISK_DRIVE_BAY''), (27, ''PERIPHERAL_BAY_2''),
      (28, ''DEVICE_BAY''), (29, ''COOLING_DEVICE''), (30, ''COOLING_UNIT''),
      (31, ''INTERCONNECT''), (32, ''MEMORY_DEVICE''), (33, ''SYS_MGMNT_SOFTWARE''),
      (34, ''BIOS''), (35, ''OPERATING_SYSTEM''), (36, ''SYSTEM_BUS''), (37, ''GROUP''),
      (38, ''REMOTE''), (39, ''EXTERNAL_ENVIRONMENT''), (40, ''BATTERY''),
      (41, ''PROCESSING_BLADE''), (42, ''CONNECTIVITY_SWITCH''),
      (43, ''PROCESSOR_MEMORY_MODULE''), (44, ''IO_MODULE''), (45, ''PROCESSOR_IO_MODULE''),
      (46, ''MC_FIRMWARE''), (47, ''IPMI_CHANNEL''), (48, ''PCI_BUS''),
      (49, ''PCI_EXPRESS_BUS''), (50, ''SCSI_BUS''), (51, ''SATA_BUS''), (52, ''PROC_FSB''),
      (53, ''CLOCK''), (54, ''SYSTEM_FIRMWARE''), (144, ''CHASSIS_SPECIFIC''),
      (176, ''BOARD_SET_SPECIFIC''), (208, ''OEM_SYSINT_SPECIFIC''), (65535, ''ROOT''),
      (65536, ''RACK''), (65537, ''SUBRACK''), (65538, ''COMPACTPCI_CHASSIS''),
      (65539, ''ADVANCEDTCA_CHASSIS''), (65540, ''RACK_MOUNTED_SERVER''),
      (65541, ''SYSTEM_BLADE''), (65542, ''SWITCH''), (65543, ''SWITCH_BLADE''),
      (65544, ''SBC_BLADE''), (65545, ''IO_BLADE''), (65546, ''DISK_BLADE''),
      (65547, ''DISK_DRIVE''), (65548, ''FAN''), (65549, ''POWER_DISTRIBUTION_UNIT''),
      (65550, ''SPEC_PROC_BLADE''), (65551, ''IO_SUBBOARD''), (65552, ''SBC_SUBBOARD''),
      (65553, ''ALARM_MANAGER''), (65554, ''SHELF_MANAGER''), (65555, ''DISPLAY_PANEL''),
      (65556, ''SUBBOARD_CARRIER_BLADE''), (65557, ''PHYSICAL_SLOT''),
      (65558, ''PICMG_FRONT_BLADE''), (65559, ''SYSTEM_INVENTORY_DEVICE''),
      (65560, ''FILTRATION_UNIT''), (65561, ''AMC''), (65584, ''BMC''), (65585, ''IPMC''),
      (65586, ''MMC''), (65587, ''SHMC''), (65588, ''CPLD''), (65589, ''EPLD''),
      (65590, ''FPGA''), (65591, ''DASD''), (65592, ''NIC''), (65593, ''DSP''),
      (65594, ''UCODE''), (65595, ''NPU''), (65596, ''OEM''), (65597, ''INTERFACE''),
      (65598, ''MICROTCA_CHASSIS''), (65599, ''CARRIER''), (65600, ''CARRIER_MANAGER''),
      (65601, ''CONFIG_DATA''), (65602, ''INDICATOR'')] value of
        Some s \<Rightarrow> Some s
      | None \<Rightarrow> oh_lookup_xtcahpientitytype value)"

definition entitytype_strings :: "(u32 \<times> string) list" where
  "entitytype_strings =
     [(0, ''UNSPECIFIED''), (1, ''OTHER''), (2, ''UNKNOWN''), (3, ''PROCESSOR''),
      (4, ''DISK_BAY''), (5, ''PERIPHERAL_BAY''), (6, ''SYS_MGMNT_MODULE''),
      (7, ''SYSTEM_BOARD''), (8, ''MEMORY_MODULE''), (9, ''PROCESSOR_MODULE''),
      (10, ''POWER_SUPPLY''), (11, ''ADD_IN_CARD''), (12, ''FRONT_PANEL_BOARD''),
      (13, ''BACK_PANEL_BOARD''), (14, ''POWER_SYSTEM_BOARD''), (15, ''DRIVE_BACKPLANE''),
      (16, ''SYS_EXPANSION_BOARD''), (17, ''OTHER_SYSTEM_BOARD''), (18, ''PROCESSOR_BOARD''),
      (19, ''POWER_UNIT''), (20, ''POWER_MODULE''), (21, ''POWER_MGMNT''),
      (22, ''CHASSIS_BACK_PANEL_BOARD''), (23, ''SYSTEM_CHASSIS''), (24, ''SUB_CHASSIS''),
      (25, ''OTHER_CHASSIS_BOARD''), (26, ''DISK_DRIVE_BAY''), (27, ''PERIPHERAL_BAY_2''),
      (28, ''DEVICE_BAY''), (29, ''COOLING_DEVICE''), (30, ''COOLING_UNIT''),
      (31, ''INTERCONNECT''), (32, ''MEMORY_DEVICE''), (33, ''SYS_MGMNT_SOFTWARE''),
      (34, ''BIOS''), (35, ''OPERATING_SYSTEM''), (36, ''SYSTEM_BUS''), (37, ''GROUP''),
      (38, ''REMOTE''), (39, ''EXTERNAL_ENVIRONMENT''), (40, ''BATTERY''),
      (41, ''PROCESSING_BLADE''), (42, ''CONNECTIVITY_SWITCH''),
      (43, ''PROCESSOR_MEMORY_MODULE''), (44, ''IO_MODULE''), (45, ''PROCESSOR_IO_MODULE''),
      (46, ''MC_FIRMWARE''), (47, ''IPMI_CHANNEL''), (48, ''PCI_BUS''),
      (49, ''PCI_EXPRESS_BUS''), (50, ''SCSI_BUS''), (51, ''SATA_BUS''), (52, ''PROC_FSB''),
      (53, ''CLOCK''), (54, ''SYSTEM_FIRMWARE''), (144, ''CHASSIS_SPECIFIC''),
      (176, ''BOARD_SET_SPECIFIC''), (208, ''OEM_SYSINT_SPECIFIC''), (65535, ''ROOT''),
      (65536, ''RACK''), (65537, ''SUBRACK''), (65538, ''COMPACTPCI_CHASSIS''),
      (65539, ''ADVANCEDTCA_CHASSIS''), (65540, ''RACK_MOUNTED_SERVER''),
      (65541, ''SYSTEM_BLADE''), (65542, ''SWITCH''), (65543, ''SWITCH_BLADE''),
      (65544, ''SBC_BLADE''), (65545, ''IO_BLADE''), (65546, ''DISK_BLADE''),
      (65547, ''DISK_DRIVE''), (65548, ''FAN''), (65549, ''POWER_DISTRIBUTION_UNIT''),
      (65550, ''SPEC_PROC_BLADE''), (65551, ''IO_SUBBOARD''), (65552, ''SBC_SUBBOARD''),
      (65553, ''ALARM_MANAGER''), (65554, ''SHELF_MANAGER''), (65555, ''DISPLAY_PANEL''),
      (65556, ''SUBBOARD_CARRIER_BLADE''), (65557, ''PHYSICAL_SLOT''),
      (65558, ''PICMG_FRONT_BLADE''), (65559, ''SYSTEM_INVENTORY_DEVICE''),
      (65560, ''FILTRATION_UNIT''), (65561, ''AMC''), (65584, ''BMC''), (65585, ''IPMC''),
      (65586, ''MMC''), (65587, ''SHMC''), (65588, ''CPLD''), (65589, ''EPLD''),
      (65590, ''FPGA''), (65591, ''DASD''), (65592, ''NIC''), (65593, ''DSP''),
      (65594, ''UCODE''), (65595, ''NPU''), (65596, ''OEM''), (65597, ''INTERFACE''),
      (65598, ''MICROTCA_CHASSIS''), (65599, ''CARRIER''), (65600, ''CARRIER_MANAGER''),
      (65601, ''CONFIG_DATA''), (65602, ''INDICATOR'')]"

definition oh_encode_entitytype :: "string \<Rightarrow> u32 \<Rightarrow> SaErrorT \<times> u32" where
  "oh_encode_entitytype buffer type =
     (if buffer = [] then (SA_ERR_HPI_INVALID_PARAMS, type)
      else case find_string entitytype_strings buffer of
             Some v \<Rightarrow> (SA_OK, v)
           | None \<Rightarrow> oh_encode_xtcahpientitytype buffer type)"

definition oh_lookup_sensortype :: "u32 \<Rightarrow> string option" where
  "oh_lookup_sensortype value =
     (if SAHPI_OEM_SENSOR \<le> value \<and> value \<le> SAHPI_OEM_SENSOR + 0x3F then Some ''OEM_SENSOR''
      else map_of
     [(1, ''TEMPERATURE''), (2, ''VOLTAGE''), (3, ''CURRENT''), (4, ''FAN''),
      (5, ''PHYSICAL_SECURITY''), (6, ''PLATFORM_VIOLATION''), (7, ''PROCESSOR''),
      (8, ''POWER_SUPPLY''), (9, ''POWER_UNIT''), (10, ''COOLING_DEVICE''),
      (11, ''OTHER_UNITS_BASED_SENSOR''), (12, ''MEMORY''), (13, ''DRIVE_SLOT''),
      (14, ''POST_MEMORY_RESIZE''), (15, ''SYSTEM_FW_PROGRESS''),
      (16, ''EVENT_LOGGING_DISABLED''), (17, ''RESERVED1''), (18, ''SYSTEM_EVENT''),
      (19, ''CRITICAL_INTERRUPT''), (20, ''BUTTON''), (21, ''MODULE_BOARD''),
      (22, ''MICROCONTROLLER_COPROCESSOR''), (23, ''ADDIN_CARD''), (24, ''CHASSIS''),
      (25, ''CHIP_SET''), (26, ''OTHER_FRU''), (27, ''CABLE_INTERCONNECT''),
      (28, ''TERMINATOR''), (29, ''SYSTEM_BOOT_INITIATED''), (30, ''BOOT_ERROR''),
      (31, ''OS_BOOT''), (32, ''OS_CRITICAL_STOP''), (33, ''SLOT_CONNECTOR''),
      (34, ''SYSTEM_ACPI_POWER_STATE''), (35, ''RESERVED2''), (36, ''PLATFORM_ALERT''),
      (37, ''ENTITY_PRESENCE''), (38, ''MONITOR_ASIC_IC''), (39, ''LAN''),
      (40, ''MANAGEMENT_SUBSYSTEM_HEALTH''), (41, ''BATTERY''), (42, ''SESSION_AUDIT''),
      (43, ''VERSION_CHANGE''), (160, ''OPERATIONAL''), (65537, ''COMM_CHANNEL_LINK_STATE''),
      (65538, ''MANAGEMENT_BUS_STATE''), (65539, ''COMM_CHANNEL_BUS_STATE''),
      (65540, ''CONFIG_DATA''), (65541, ''POWER_BUDGET'')] value)"

definition sensortype_strings :: "(u32 \<times> string) list" where
  "sensortype_strings =
     [(1, ''TEMPERATURE''), (2, ''VOLTAGE''), (3, ''CURRENT''), (4, ''FAN''),
      (5, ''PHYSICAL_SECURITY''), (6, ''PLATFORM_VIOLATION''), (7, ''PROCESSOR''),
      (8, ''POWER_SUPPLY''), (9, ''POWER_UNIT''), (10, ''COOLING_DEVICE''),
      (11, ''OTHER_UNITS_BASED_SENSOR''), (12, ''MEMORY''), (13, ''DRIVE_SLOT''),
      (14, ''POST_MEMORY_RESIZE''), (15, ''SYSTEM_FW_PROGRESS''),
      (16, ''EVENT_LOGGING_DISABLED''), (17, ''RESERVED1''), (18, ''SYSTEM_EVENT''),
      (19, ''CRITICAL_INTERRUPT''), (20, ''BUTTON''), (21, ''MODULE_BOARD''),
      (22, ''MICROCONTROLLER_COPROCESSOR''), (23, ''ADDIN_CARD''), (24, ''CHASSIS''),
      (25, ''CHIP_SET''), (26, ''OTHER_FRU''), (27, ''CABLE_INTERCONNECT''),
      (28, ''TERMINATOR''), (29, ''SYSTEM_BOOT_INITIATED''), (30, ''BOOT_ERROR''),
      (31, ''OS_BOOT''), (32, ''OS_CRITICAL_STOP''), (33, ''SLOT_CONNECTOR''),
      (34, ''SYSTEM_ACPI_POWER_STATE''), (35, ''RESERVED2''), (36, ''PLATFORM_ALERT''),
      (37, ''ENTITY_PRESENCE''), (38, ''MONITOR_ASIC_IC''), (39, ''LAN''),
      (40, ''MANAGEMENT_SUBSYSTEM_HEALTH''), (41, ''BATTERY''), (42, ''SESSION_AUDIT''),
      (43, ''VERSION_CHANGE''), (160, ''OPERATIONAL''), (192, ''OEM_SENSOR''),
      (65537, ''COMM_CHANNEL_LINK_STATE''), (65538, ''MANAGEMENT_BUS_STATE''),
      (65539, ''COMM_CHANNEL_BUS_STATE''), (65540, ''CONFIG_DATA''), (65541, ''POWER_BUDGET'')]"

definition oh_encode_sensortype :: "string \<Rightarrow> u32 \<Rightarrow> SaErrorT \<times> u32" where
  "oh_encode_sensortype = encode_enum sensortype_strings"

definition oh_lookup_sensorreadingtype :: "u32 \<Rightarrow> string option" where
  "oh_lookup_sensorreadingtype = map_of
     [(0, ''INT64''), (1, ''UINT64''), (2, ''FLOAT64''), (3, ''BUFFER'')]"

definition sensorreadingtype_strings :: "(u32 \<times> string) list" where
  "sensorreadingtype_strings =
     [(0, ''INT64''), (1, ''UINT64''), (2, ''FLOAT64''), (3, ''BUFFER'')]"

definition oh_encode_sensorreadingtype :: "string \<Rightarrow> u32 \<Rightarrow> SaErrorT \<times> u32" where
  "oh_encode_sensorreadingtype = encode_enum sensorreadingtype_strings"

definition oh_lookup_sensoreventmaskaction :: "u32 \<Rightarrow> string option" where
  "oh_lookup_sensoreventmaskaction = map_of
     [(0, ''ADD_EVENTS_TO_MASKS''), (1, ''REMOVE_EVENTS_FROM_MASKS'')]"

definition sensoreventmaskaction_strings :: "(u32 \<times> string) list" where
  "sensoreventmaskaction_strings =
     [(0, ''ADD_EVENTS_TO_MASKS''), (1, ''REMOVE_EVENTS_FROM_MASKS'')]"

definition oh_encode_sensoreventmaskaction :: "string \<Rightarrow> u32 \<Rightarrow> SaErrorT \<times> u32" where
  "oh_encode_sensoreventmaskaction = encode_enum sensoreventmaskaction_strings"

definition oh_lookup_sensorunits :: "u32 \<Rightarrow> string option" where
  "oh_lookup_sensorunits = map_of
     [(0, ''Unspecified''), (1, ''Degrees C''), (2, ''Degrees F''), (3, ''Degrees K''),
      (4, ''Volts''), (5, ''Amps''), (6, ''Watts''), (7, ''Joules''), (8, ''Coulombs''),
      (9, ''Va''), (10, ''Nits''), (11, ''Lumen''), (12, ''Lux''), (13, ''Candela''),
      (14, ''Kpa''), (15, ''Psi''), (16, ''Newton''), (17, ''Cfm''), (18, ''Rpm''), (19, ''Hz''),
      (20, ''Microsecond''), (21, ''Millisecond''), (22, ''Second''), (23, ''Minute''),
      (24, ''Hour''), (25, ''Day''), (26, ''Week''), (27, ''Mil''), (28, ''Inches''),
      (29, ''Feet''), (30, ''Cu In''), (31, ''Cu Feet''), (32, ''Mm''), (33, ''Cm''),
      (34, ''M''), (35, ''Cu Cm''), (36, ''Cu M''), (37, ''Liters''), (38, ''Fluid Ounce''),
      (39, ''Radians''), (40, ''Steradians''), (41, ''Revolutions''), (42, ''Cycles''),
      (43, ''Gravities''), (44, ''Ounce''), (45, ''Pound''), (46, ''Ft Lb''), (47, ''Oz In''),
      (48, ''Gauss''), (49, ''Gilberts''), (50, ''Henry''), (51, ''Millihenry''),
      (52, ''Farad''), (53, ''Microfarad''), (54, ''Ohms''), (55, ''Siemens''), (56, ''Mole''),
      (57, ''Becquerel''), (58, ''Ppm''), (59, ''Reserved''), (60, ''Decibels''), (61, ''Dba''),
      (62, ''Dbc''), (63, ''Gray''), (64, ''Sievert''), (65, ''Color Temp Deg K''),
      (66, ''Bit''), (67, ''Kilobit''), (68, ''Megabit''), (69, ''Gigabit''), (70, ''Byte''),
      (71, ''Kilobyte''), (72, ''Megabyte''), (73, ''Gigabyte''), (74, ''Word''),
      (75, ''Dword''), (76, ''Qword''), (77, ''Line''), (78, ''Hit''), (79, ''Miss''),
      (80, ''Retry''), (81, ''Reset''), (82, ''Overrun''), (83, ''Underrun''),
      (84, ''Collision''), (85, ''Packets''), (86, ''Messages''), (87, ''Characters''),
      (88, ''Errors''), (89, ''Correctable Errors''), (90, ''Uncorrectable Errors'')]"

definition sensorunits_strings :: "(u32 \<times> string) list" where
  "sensorunits_strings =
     [(0, ''Unspecified''), (1, ''Degrees C''), (2, ''Degrees F''), (3, ''Degrees K''),
      (4, ''Volts''), (5, ''Amps''), (6, ''Watts''), (7, ''Joules''), (8, ''Coulombs''),
      (9, ''Va''), (10, ''Nits''), (11, ''Lumen''), (12, ''Lux''), (13, ''Candela''),
      (14, ''Kpa''), (15, ''Psi''), (16, ''Newton''), (17, ''Cfm''), (18, ''Rpm''), (19, ''Hz''),
      (20, ''Microsecond''), (21, ''Millisecond''), (22, ''Second''), (23, ''Minute''),
      (24, ''Hour''), (25, ''Day''), (26, ''Week''), (27, ''Mil''), (28, ''Inches''),
      (29, ''Feet''), (30, ''Cu In''), (31, ''Cu Feet''), (32, ''Mm''), (33, ''Cm''),
      (34, ''M''), (35, ''Cu Cm''), (36, ''Cu M''), (37, ''Liters''), (38, ''Fluid Ounce''),
      (39, ''Radians''), (40, ''Steradians''), (41, ''Revolutions''), (42, ''Cycles''),
      (43, ''Gravities''), (44, ''Ounce''), (45, ''Pound''), (46, ''Ft Lb''), (47, ''Oz In''),
      (48, ''Gauss''), (49, ''Gilberts''), (50, ''Henry''), (51, ''Millihenry''),
      (52, ''Farad''), (53, ''Microfarad''), (54, ''Ohms''), (55, ''Siemens''), (56, ''Mole''),
      (57, ''Becquerel''), (58, ''Ppm''), (59, ''Reserved''), (60, ''Decibels''), (61, ''Dba''),
      (62, ''Dbc''), (63, ''Gray''), (64, ''Sievert''), (65, ''Color Temp Deg K''),
      (66, ''Bit''), (67, ''Kilobit''), (68, ''Megabit''), (69, ''Gigabit''), (70, ''Byte''),
      (71, ''Kilobyte''), (72, ''Megabyte''), (73, ''Gigabyte''), (74, ''Word''),
      (75, ''Dword''), (76, ''Qword''), (77, ''Line''), (78, ''Hit''), (79, ''Miss''),
      (80, ''Retry''), (81, ''Reset''), (82, ''Overrun''), (83, ''Underrun''),
      (84, ''Collision''), (85, ''Packets''), (86, ''Messages''), (87, ''Characters''),
      (88, ''Errors''), (89, ''Correctable Errors''), (90, ''Uncorrectable Errors'')]"

definition oh_encode_sensorunits :: "string \<Rightarrow> u32 \<Rightarrow> SaErrorT \<times> u32" where
  "oh_encode_sensorunits = encode_enum sensorunits_strings"

definition oh_lookup_sensormodunituse :: "u32 \<Rightarrow> string option" where
  "oh_lookup_sensormodunituse = map_of
     [(0, ''NONE''), (1, ''BASIC_OVER_MODIFIER''), (2, ''BASIC_TIMES_MODIFIER'')]"

definition sensormodunituse_strings :: "(u32 \<times> string) list" where
  "sensormodunituse_strings =
     [(0, ''NONE''), (1, ''BASIC_OVER_MODIFIER''), (2, ''BASIC_TIMES_MODIFIER'')]"

definition oh_encode_sensormodunituse :: "string \<Rightarrow> u32 \<Rightarrow> SaErrorT \<times> u32" where
  "oh_encode_sensormodunituse = encode_enum sensormodunituse_strings"

definition oh_lookup_sensoreventctrl :: "u32 \<Rightarrow> string option" where
  "oh_lookup_sensoreventctrl = map_of
     [(0, ''PER_EVENT''), (1, ''READ_ONLY_MASKS''), (2, ''READ_ONLY'')]"

definition sensoreventctrl_strings :: "(u32 \<times> string) list" where
  "sensoreventctrl_strings =
     [(0, ''PER_EVENT''), (1, ''READ_ONLY_MASKS''), (2, ''READ_ONLY'')]"

definition oh_encode_sensoreventctrl :: "string \<Rightarrow> u32 \<Rightarrow> SaErrorT \<times> u32" where
  "oh_encode_sensoreventctrl = encode_enum sensoreventctrl_strings"

definition oh_lookup_ctrltype :: "u32 \<Rightarrow> string option" where
  "oh_lookup_ctrltype = map_of
     [(0, ''DIGITAL''), (1, ''DISCRETE''), (2, ''ANALOG''), (3, ''STREAM''), (4, ''TEXT''),
      (192, ''OEM'')]"

definition ctrltype_strings :: "(u32 \<times> string) list" where
  "ctrltype_strings =
     [(0, ''DIGITAL''), (1, ''DISCRETE''), (2, ''ANALOG''), (3, ''STREAM''), (4, ''TEXT''),
      (192, ''OEM'')]"

definition oh_encode_ctrltype :: "string \<Rightarrow> u32 \<Rightarrow> SaErrorT \<times> u32" where
  "oh_encode_ctrltype = encode_enum ctrltype_strings"

definition oh_lookup_ctrlstatedigital :: "u32 \<Rightarrow> string option" where
  "oh_lookup_ctrlstatedigital = map_of
     [(0, ''OFF''), (1, ''ON''), (2, ''PULSE_OFF''), (3, ''PULSE_ON'')]"

definition ctrlstatedigital_strings :: "(u32 \<times> string) list" where
  "ctrlstatedigital_strings =
     [(0, ''OFF''), (1, ''ON''), (2, ''PULSE_OFF''), (3, ''PULSE_ON'')]"

definition oh_encode_ctrlstatedigital :: "string \<Rightarrow> u32 \<Rightarrow> SaErrorT \<times> u32" where
  "oh_encode_ctrlstatedigital = encode_enum ctrlstatedigital_strings"

definition oh_lookup_ctrlmode :: "u32 \<Rightarrow> string option" where
  "oh_lookup_ctrlmode = map_of
     [(0, ''AUTO''), (1, ''MANUAL'')]"

definition ctrlmode_strings :: "(u32 \<times> string) list" where
  "ctrlmode_strings =
     [(0, ''AUTO''), (1, ''MANUAL'')]"

definition oh_encode_ctrlmode :: "string \<Rightarrow> u32 \<Rightarrow> SaErrorT \<times> u32" where
  "oh_encode_ctrlmode = encode_enum ctrlmode_strings"

definition oh_lookup_ctrloutputtype :: "u32 \<Rightarrow> string option" where
  "oh_lookup_ctrloutputtype = map_of
     [(0, ''GENERIC''), (1, ''LED''), (2, ''FAN_SPEED''), (3, ''DRY_CONTACT_CLOSURE''),
      (4, ''POWER_SUPPLY_INHIBIT''), (5, ''AUDIBLE''), (6, ''FRONT_PANEL_LOCKOUT''),
      (7, ''POWER_INTERLOCK''), (8, ''POWER_STATE''), (9, ''LCD_DISPLAY''), (10, ''OEM''),
      (11, ''GENERIC_ADDRESS''), (12, ''IP_ADDRESS''), (13, ''RESOURCE_ID''),
      (14, ''POWER_BUDGET''), (15, ''ACTIVATE''), (16, ''RESET'')]"

definition ctrloutputtype_strings :: "(u32 \<times> string) list" where
  "ctrloutputtype_strings =
     [(0, ''GENERIC''), (1, ''LED''), (2, ''FAN_SPEED''), (3, ''DRY_CONTACT_CLOSURE''),
      (4, ''POWER_SUPPLY_INHIBIT''), (5, ''AUDIBLE''), (6, ''FRONT_PANEL_LOCKOUT''),
      (7, ''POWER_INTERLOCK''), (8, ''POWER_STATE''), (9, ''LCD_DISPLAY''), (10, ''OEM''),
      (11, ''GENERIC_ADDRESS''), (12, ''IP_ADDRESS''), (13, ''RESOURCE_ID''),
      (14, ''POWER_BUDGET''), (15, ''ACTIVATE''), (16, ''RESET'')]"

definition oh_encode_ctrloutputtype :: "string \<Rightarrow> u32 \<Rightarrow> SaErrorT \<times> u32" where
  "oh_encode_ctrloutputtype = encode_enum ctrloutputtype_strings"

definition oh_lookup_idrareatype :: "u32 \<Rightarrow> string option" where
  "oh_lookup_idrareatype = map_of
     [(176, ''INTERNAL_USE''), (177, ''CHASSIS_INFO''), (178, ''BOARD_INFO''),
      (179, ''PRODUCT_INFO''), (192, ''OEM''), (255, ''UNSPECIFIED'')]"

definition idrareatype_strings :: "(u32 \<times> string) list" where
  "idrareatype_strings =
     [(176, ''INTERNAL_USE''), (177, ''CHASSIS_INFO''), (178, ''BOARD_INFO''),
      (179, ''PRODUCT_INFO''), (192, ''OEM''), (255, ''UNSPECIFIED'')]"

definition oh_encode_idrareatype :: "string \<Rightarrow> u32 \<Rightarrow> SaErrorT \<times> u32" where
  "oh_encode_idrareatype = encode_enum idrareatype_strings"

definition oh_lookup_idrfieldtype :: "u32 \<Rightarrow> string option" where
  "oh_lookup_idrfieldtype = map_of
     [(0, ''CHASSIS_TYPE''), (1, ''MFG_DATETIME''), (2, ''MANUFACTURER''), (3, ''PRODUCT_NAME''),
      (4, ''PRODUCT_VERSION''), (5, ''SERIAL_NUMBER''), (6, ''PART_NUMBER''), (7, ''FILE_ID''),
      (8, ''ASSET_TAG''), (9, ''CUSTOM''), (255, ''UNSPECIFIED'')]"

definition idrfieldtype_strings :: "(u32 \<times> string) list" where
  "idrfieldtype_strings =
     [(0, ''CHASSIS_TYPE''), (1, ''MFG_DATETIME''), (2, ''MANUFACTURER''), (3, ''PRODUCT_NAME''),
      (4, ''PRODUCT_VERSION''), (5, ''SERIAL_NUMBER''), (6, ''PART_NUMBER''), (7, ''FILE_ID''),
      (8, ''ASSET_TAG''), (9, ''CUSTOM''), (255, ''UNSPECIFIED'')]"

definition oh_encode_idrfieldtype :: "string \<Rightarrow> u32 \<Rightarrow> SaErrorT \<times> u32" where
  "oh_encode_idrfieldtype = encode_enum idrfieldtype_strings"

definition oh_lookup_watchdogaction :: "u32 \<Rightarrow> string option" where
  "oh_lookup_watchdogaction = map_of
     [(0, ''NO_ACTION''), (1, ''RESET''), (2, ''POWER_DOWN''), (3, ''POWER_CYCLE'')]"

definition watchdogaction_strings :: "(u32 \<times> string) list" where
  "watchdogaction_strings =
     [(0, ''NO_ACTION''), (1, ''RESET''), (2, ''POWER_DOWN''), (3, ''POWER_CYCLE'')]"

definition oh_encode_watchdogaction :: "string \<Rightarrow> u32 \<Rightarrow> SaErrorT \<times> u32" where
  "oh_encode_watchdogaction = encode_enum watchdogaction_strings"

definition oh_lookup_watchdogactionevent :: "u32 \<Rightarrow> string option" where
  "oh_lookup_watchdogactionevent = map_of
     [(0, ''NO_ACTION''), (1, ''RESET''), (2, ''POWER_DOWN''), (3, ''POWER_CYCLE''),
      (8, ''TIMER_INT'')]"

definition watchdogactionevent_strings :: "(u32 \<times> string) list" where
  "watchdogactionevent_strings =
     [(0, ''NO_ACTION''), (1, ''RESET''), (2, ''POWER_DOWN''), (3, ''POWER_CYCLE''),
      (8, ''TIMER_INT'')]"

definition oh_encode_watchdogactionevent :: "string \<Rightarrow> u32 \<Rightarrow> SaErrorT \<times> u32" where
  "oh_encode_watchdogactionevent = encode_enum watchdogactionevent_strings"

definition oh_lookup_watchdogpretimerinterrupt :: "u32 \<Rightarrow> string option" where
  "oh_lookup_watchdogpretimerinterrupt = map_of
     [(0, ''NONE''), (1, ''SMI''), (2, ''NMI''), (3, ''MESSAGE_INTERRUPT''), (15, ''OEM'')]"

definition watchdogpretimerinterrupt_strings :: "(u32 \<times> string) list" where
  "watchdogpretimerinterrupt_strings =
     [(0, ''NONE''), (1, ''SMI''), (2, ''NMI''), (3, ''MESSAGE_INTERRUPT''), (15, ''OEM'')]"

definition oh_encode_watchdogpretimerinterrupt :: "string \<Rightarrow> u32 \<Rightarrow> SaErrorT \<times> u32" where
  "oh_encode_watchdogpretimerinterrupt = encode_enum watchdogpretimerinterrupt_strings"

definition oh_lookup_watchdogtimeruse :: "u32 \<Rightarrow> string option" where
  "oh_lookup_watchdogtimeruse = map_of
     [(0, ''NONE''), (1, ''BIOS_FRB2''), (2, ''BIOS_POST''), (3, ''OS_LOAD''), (4, ''SMS_OS''),
      (5, ''OEM''), (15, ''UNSPECIFIED'')]"

definition watchdogtimeruse_strings :: "(u32 \<times> string) list" where
  "watchdogtimeruse_strings =
     [(0, ''NONE''), (1, ''BIOS_FRB2''), (2, ''BIOS_POST''), (3, ''OS_LOAD''), (4, ''SMS_OS''),
      (5, ''OEM''), (15, ''UNSPECIFIED'')]"

definition oh_encode_watchdogtimeruse :: "string \<Rightarrow> u32 \<Rightarrow> SaErrorT \<times> u32" where
  "oh_encode_watchdogtimeruse = encode_enum watchdogtimeruse_strings"

definition oh_lookup_dimitestserviceimpact :: "u32 \<Rightarrow> string option" where
  "oh_lookup_dimitestserviceimpact = map_of
     [(0, ''NONDEGRADING''), (1, ''DEGRADING''), (2, ''VENDOR_DEFINED_LEVEL'')]"

definition dimitestserviceimpact_strings :: "(u32 \<times> string) list" where
  "dimitestserviceimpact_strings =
     [(0, ''NONDEGRADING''), (1, ''DEGRADING''), (2, ''VENDOR_DEFINED_LEVEL'')]"

definition oh_encode_dimitestserviceimpact :: "string \<Rightarrow> u32 \<Rightarrow> SaErrorT \<times> u32" where
  "oh_encode_dimitestserviceimpact = encode_enum dimitestserviceimpact_strings"

definition oh_lookup_dimitestrunstatus :: "u32 \<Rightarrow> string option" where
  "oh_lookup_dimitestrunstatus = map_of
     [(0, ''STATUS_NOT_RUN''), (1, ''STATUS_FINISHED_NO_ERRORS''),
      (2, ''STATUS_FINISHED_ERRORS''), (3, ''STATUS_CANCELED''), (4, ''STATUS_RUNNING'')]"

definition dimitestrunstatus_strings :: "(u32 \<times> string) list" where
  "dimitestrunstatus_strings =
     [(0, ''STATUS_NOT_RUN''), (1, ''STATUS_FINISHED_NO_ERRORS''),
      (2, ''STATUS_FINISHED_ERRORS''), (3, ''STATUS_CANCELED''), (4, ''STATUS_RUNNING'')]"

definition oh_encode_dimitestrunstatus :: "string \<Rightarrow> u32 \<Rightarrow> SaErrorT \<times> u32" where
  "oh_encode_dimitestrunstatus = encode_enum dimitestrunstatus_strings"

definition oh_lookup_dimitesterrcode :: "u32 \<Rightarrow> string option" where
  "oh_lookup_dimitesterrcode = map_of
     [(0, ''STATUSERR_NOERR''), (1, ''STATUSERR_RUNERR''), (2, ''STATUSERR_UNDEF'')]"

definition dimitesterrcode_strings :: "(u32 \<times> string) list" where
  "dimitesterrcode_strings =
     [(0, ''STATUSERR_NOERR''), (1, ''STATUSERR_RUNERR''), (2, ''STATUSERR_UNDEF'')]"

definition oh_encode_dimitesterrcode :: "string \<Rightarrow> u32 \<Rightarrow> SaErrorT \<times> u32" where
  "oh_encode_dimitesterrcode = encode_enum dimitesterrcode_strings"

definition oh_lookup_dimitestparamtype :: "u32 \<Rightarrow> string option" where
  "oh_lookup_dimitestparamtype = map_of
     [(0, ''PARAM_TYPE_BOOLEAN''), (1, ''PARAM_TYPE_INT32''), (2, ''PARAM_TYPE_FLOAT64''),
      (3, ''PARAM_TYPE_TEXT'')]"

definition dimitestparamtype_strings :: "(u32 \<times> string) list" where
  "dimitestparamtype_strings =
     [(0, ''PARAM_TYPE_BOOLEAN''), (1, ''PARAM_TYPE_INT32''), (2, ''PARAM_TYPE_FLOAT64''),
      (3, ''PARAM_TYPE_TEXT'')]"

definition oh_encode_dimitestparamtype :: "string \<Rightarrow> u32 \<Rightarrow> SaErrorT \<times> u32" where
  "oh_encode_dimitestparamtype = encode_enum dimitestparamtype_strings"

definition oh_lookup_dimiready :: "u32 \<Rightarrow> string option" where
  "oh_lookup_dimiready = map_of
     [(0, ''READY''), (1, ''WRONG_STATE''), (2, ''BUSY'')]"

definition dimiready_strings :: "(u32 \<times> string) list" where
  "dimiready_strings =
     [(0, ''READY''), (1, ''WRONG_STATE''), (2, ''BUSY'')]"

definition oh_encode_dimiready :: "string \<Rightarrow> u32 \<Rightarrow> SaErrorT \<times> u32" where
  "oh_encode_dimiready = encode_enum dimiready_strings"

definition oh_lookup_fumispecinfotype :: "u32 \<Rightarrow> string option" where
  "oh_lookup_fumispecinfotype = map_of
     [(0, ''SPEC_INFO_NONE''), (1, ''SPEC_INFO_SAF_DEFINED''), (2, ''SPEC_INFO_OEM_DEFINED'')]"

definition fumispecinfotype_strings :: "(u32 \<times> string) list" where
  "fumispecinfotype_strings =
     [(0, ''SPEC_INFO_NONE''), (1, ''SPEC_INFO_SAF_DEFINED''), (2, ''SPEC_INFO_OEM_DEFINED'')]"

definition oh_encode_fumispecinfotype :: "string \<Rightarrow> u32 \<Rightarrow> SaErrorT \<times> u32" where
  "oh_encode_fumispecinfotype = encode_enum fumispecinfotype_strings"

definition oh_lookup_fumisafdefinedspecid :: "u32 \<Rightarrow> string option" where
  "oh_lookup_fumisafdefinedspecid = map_of
     [(0, ''SPEC_HPM1'')]"

definition fumisafdefinedspecid_strings :: "(u32 \<times> string) list" where
  "fumisafdefinedspecid_strings =
     [(0, ''SPEC_HPM1'')]"

definition oh_encode_fumisafdefinedspecid :: "string \<Rightarrow> u32 \<Rightarrow> SaErrorT \<times> u32" where
  "oh_encode_fumisafdefinedspecid = encode_enum fumisafdefinedspecid_strings"

definition oh_lookup_fumiserviceimpact :: "u32 \<Rightarrow> string option" where
  "oh_lookup_fumiserviceimpact = map_of
     [(0, ''PROCESS_NONDEGRADING''), (1, ''PROCESS_DEGRADING''),
      (2, ''PROCESS_VENDOR_DEFINED_IMPACT_LEVEL'')]"

definition fumiserviceimpact_strings :: "(u32 \<times> string) list" where
  "fumiserviceimpact_strings =
     [(0, ''PROCESS_NONDEGRADING''), (1, ''PROCESS_DEGRADING''),
      (2, ''PROCESS_VENDOR_DEFINED_IMPACT_LEVEL'')]"

definition oh_encode_fumiserviceimpact :: "string \<Rightarrow> u32 \<Rightarrow> SaErrorT \<times> u32" where
  "oh_encode_fumiserviceimpact = encode_enum fumiserviceimpact_strings"

definition oh_lookup_fumisourcestatus :: "u32 \<Rightarrow> string option" where
  "oh_lookup_fumisourcestatus = map_of
     [(0, ''SRC_VALID''), (1, ''SRC_PROTOCOL_NOT_SUPPORTED''), (2, ''SRC_UNREACHABLE''),
      (3, ''SRC_VALIDATION_NOT_STARTED''), (4, ''SRC_VALIDATION_INITIATED''),
      (5, ''SRC_VALIDATION_FAIL''), (6, ''SRC_TYPE_MISMATCH''), (7, ''SRC_INVALID''),
      (8, ''SRC_VALIDITY_UNKNOWN'')]"

definition fumisourcestatus_strings :: "(u32 \<times> string) list" where
  "fumisourcestatus_strings =
     [(0, ''SRC_VALID''), (1, ''SRC_PROTOCOL_NOT_SUPPORTED''), (2, ''SRC_UNREACHABLE''),
      (3, ''SRC_VALIDATION_NOT_STARTED''), (4, ''SRC_VALIDATION_INITIATED''),
      (5, ''SRC_VALIDATION_FAIL''), (6, ''SRC_TYPE_MISMATCH''), (7, ''SRC_INVALID''),
      (8, ''SRC_VALIDITY_UNKNOWN'')]"

definition oh_encode_fumisourcestatus :: "string \<Rightarrow> u32 \<Rightarrow> SaErrorT \<times> u32" where
  "oh_encode_fumisourcestatus = encode_enum fumisourcestatus_strings"

definition oh_lookup_fumibankstate :: "u32 \<Rightarrow> string option" where
  "oh_lookup_fumibankstate = map_of
     [(0, ''BANK_VALID''), (1, ''BANK_UPGRADE_IN_PROGRESS''), (2, ''BANK_CORRUPTED''),
      (3, ''BANK_ACTIVE''), (4, ''BANK_BUSY''), (5, ''BANK_UNKNOWN'')]"

definition fumibankstate_strings :: "(u32 \<times> string) list" where
  "fumibankstate_strings =
     [(0, ''BANK_VALID''), (1, ''BANK_UPGRADE_IN_PROGRESS''), (2, ''BANK_CORRUPTED''),
      (3, ''BANK_ACTIVE''), (4, ''BANK_BUSY''), (5, ''BANK_UNKNOWN'')]"

definition oh_encode_fumibankstate :: "string \<Rightarrow> u32 \<Rightarrow> SaErrorT \<times> u32" where
  "oh_encode_fumibankstate = encode_enum fumibankstate_strings"

definition oh_lookup_fumiupgradestatus :: "u32 \<Rightarrow> string option" where
  "oh_lookup_fumiupgradestatus = map_of
     [(0, ''OPERATION_NOTSTARTED''), (1, ''SOURCE_VALIDATION_INITIATED''),
      (2, ''SOURCE_VALIDATION_FAILED''), (3, ''SOURCE_VALIDATION_DONE''),
      (4, ''SOURCE_VALIDATION_CANCELLED''), (5, ''INSTALL_INITIATED''),
      (6, ''INSTALL_FAILED_ROLLBACK_NEEDED''), (7, ''INSTALL_FAILED_ROLLBACK_INITIATED''),
      (8, ''INSTALL_FAILED_ROLLBACK_NOT_POSSIBLE''), (9, ''INSTALL_DONE''),
      (10, ''INSTALL_CANCELLED''), (11, ''ROLLBACK_INITIATED''), (12, ''ROLLBACK_FAILED''),
      (13, ''ROLLBACK_DONE''), (14, ''ROLLBACK_CANCELLED''), (15, ''BACKUP_INITIATED''),
      (16, ''BACKUP_FAILED''), (17, ''BACKUP_DONE''), (18, ''BACKUP_CANCELLED''),
      (19, ''BANK_COPY_INITIATED''), (20, ''BANK_COPY_FAILED''), (21, ''BANK_COPY_DONE''),
      (22, ''BANK_COPY_CANCELLED''), (23, ''TARGET_VERIFY_INITIATED''),
      (24, ''TARGET_VERIFY_FAILED''), (25, ''TARGET_VERIFY_DONE''),
      (26, ''TARGET_VERIFY_CANCELLED''), (27, ''ACTIVATE_INITIATED''),
      (28, ''ACTIVATE_FAILED_ROLLBACK_NEEDED''), (29, ''ACTIVATE_FAILED_ROLLBACK_INITIATED''),
      (30, ''ACTIVATE_FAILED_ROLLBACK_NOT_POSSIBLE''), (31, ''ACTIVATE_DONE''),
      (32, ''ACTIVATE_CANCELLED'')]"

definition fumiupgradestatus_strings :: "(u32 \<times> string) list" where
  "fumiupgradestatus_strings =
     [(0, ''OPERATION_NOTSTARTED''), (1, ''SOURCE_VALIDATION_INITIATED''),
      (2, ''SOURCE_VALIDATION_FAILED''), (3, ''SOURCE_VALIDATION_DONE''),
      (4, ''SOURCE_VALIDATION_CANCELLED''), (5, ''INSTALL_INITIATED''),
      (6, ''INSTALL_FAILED_ROLLBACK_NEEDED''), (7, ''INSTALL_FAILED_ROLLBACK_INITIATED''),
      (8, ''INSTALL_FAILED_ROLLBACK_NOT_POSSIBLE''), (9, ''INSTALL_DONE''),
      (10, ''INSTALL_CANCELLED''), (11, ''ROLLBACK_INITIATED''), (12, ''ROLLBACK_FAILED''),
      (13, ''ROLLBACK_DONE''), (14, ''ROLLBACK_CANCELLED''), (15, ''BACKUP_INITIATED''),
      (16, ''BACKUP_FAILED''), (17, ''BACKUP_DONE''), (18, ''BACKUP_CANCELLED''),
      (19, ''BANK_COPY_INITIATED''), (20, ''BANK_COPY_FAILED''), (21, ''BANK_COPY_DONE''),
      (22, ''BANK_COPY_CANCELLED''), (23, ''TARGET_VERIFY_INITIATED''),
      (24, ''TARGET_VERIFY_FAILED''), (25, ''TARGET_VERIFY_DONE''),
      (26, ''TARGET_VERIFY_CANCELLED''), (27, ''ACTIVATE_INITIATED''),
      (28, ''ACTIVATE_FAILED_ROLLBACK_NEEDED''), (29, ''ACTIVATE_FAILED_ROLLBACK_INITIATED''),
      (30, ''ACTIVATE_FAILED_ROLLBACK_NOT_POSSIBLE''), (31, ''ACTIVATE_DONE''),
      (32, ''ACTIVATE_CANCELLED'')]"

definition oh_encode_fumiupgradestatus :: "string \<Rightarrow> u32 \<Rightarrow> SaErrorT \<times> u32" where
  "oh_encode_fumiupgradestatus = encode_enum fumiupgradestatus_strings"

definition oh_lookup_hsindicatorstate :: "u32 \<Rightarrow> string option" where
  "oh_lookup_hsindicatorstate = map_of
     [(0, ''OFF''), (1, ''ON'')]"

definition hsindicatorstate_strings :: "(u32 \<times> string) list" where
  "hsindicatorstate_strings =
     [(0, ''OFF''), (1, ''ON'')]"

definition oh_encode_hsindicatorstate :: "string \<Rightarrow> u32 \<Rightarrow> SaErrorT \<times> u32" where
  "oh_encode_hsindicatorstate = encode_enum hsindicatorstate_strings"

definition oh_lookup_hsaction :: "u32 \<Rightarrow> string option" where
  "oh_lookup_hsaction = map_of
     [(0, ''INSERTION''), (1, ''EXTRACTION'')]"

definition hsaction_strings :: "(u32 \<times> string) list" where
  "hsaction_strings =
     [(0, ''INSERTION''), (1, ''EXTRACTION'')]"

definition oh_encode_hsaction :: "string \<Rightarrow> u32 \<Rightarrow> SaErrorT \<times> u32" where
  "oh_encode_hsaction = encode_enum hsaction_strings"

definition oh_lookup_hsstate :: "u32 \<Rightarrow> string option" where
  "oh_lookup_hsstate = map_of
     [(0, ''INACTIVE''), (1, ''INSERTION_PENDING''), (2, ''ACTIVE''),
      (3, ''EXTRACTION_PENDING''), (4, ''NOT_PRESENT'')]"

definition hsstate_strings :: "(u32 \<times> string) list" where
  "hsstate_strings =
     [(0, ''INACTIVE''), (1, ''INSERTION_PENDING''), (2, ''ACTIVE''),
      (3, ''EXTRACTION_PENDING''), (4, ''NOT_PRESENT'')]"

definition oh_encode_hsstate :: "string \<Rightarrow> u32 \<Rightarrow> SaErrorT \<times> u32" where
  "oh_encode_hsstate = encode_enum hsstate_strings"

definition oh_lookup_hscauseofstatechange :: "u32 \<Rightarrow> string option" where
  "oh_lookup_hscauseofstatechange = map_of
     [(0, ''CAUSE_AUTO_POLICY''), (1, ''CAUSE_EXT_SOFTWARE''), (2, ''CAUSE_OPERATOR_INIT''),
      (3, ''CAUSE_USER_UPDATE''), (4, ''CAUSE_UNEXPECTED_DEACTIVATION''),
      (5, ''CAUSE_SURPRISE_EXTRACTION''), (6, ''CAUSE_EXTRACTION_UPDATE''),
      (7, ''CAUSE_HARDWARE_FAULT''), (8, ''CAUSE_CONTAINING_FRU''), (65535, ''CAUSE_UNKNOWN'')]"

definition hscauseofstatechange_strings :: "(u32 \<times> string) list" where
  "hscauseofstatechange_strings =
     [(0, ''CAUSE_AUTO_POLICY''), (1, ''CAUSE_EXT_SOFTWARE''), (2, ''CAUSE_OPERATOR_INIT''),
      (3, ''CAUSE_USER_UPDATE''), (4, ''CAUSE_UNEXPECTED_DEACTIVATION''),
      (5, ''CAUSE_SURPRISE_EXTRACTION''), (6, ''CAUSE_EXTRACTION_UPDATE''),
      (7, ''CAUSE_HARDWARE_FAULT''), (8, ''CAUSE_CONTAINING_FRU''), (65535, ''CAUSE_UNKNOWN'')]"

definition oh_encode_hscauseofstatechange :: "string \<Rightarrow> u32 \<Rightarrow> SaErrorT \<times> u32" where
  "oh_encode_hscauseofstatechange = encode_enum hscauseofstatechange_strings"

definition oh_lookup_severity :: "u32 \<Rightarrow> string option" where
  "oh_lookup_severity = map_of
     [(0, ''CRITICAL''), (1, ''MAJOR''), (2, ''MINOR''), (3, ''INFORMATIONAL''), (4, ''OK''),
      (240, ''DEBUG''), (255, ''ALL_SEVERITIES'')]"

definition severity_strings :: "(u32 \<times> string) list" where
  "severity_strings =
     [(0, ''CRITICAL''), (1, ''MAJOR''), (2, ''MINOR''), (3, ''INFORMATIONAL''), (4, ''OK''),
      (240, ''DEBUG''), (255, ''ALL_SEVERITIES'')]"

definition oh_encode_severity :: "string \<Rightarrow> u32 \<Rightarrow> SaErrorT \<times> u32" where
  "oh_encode_severity = encode_enum severity_strings"

definition oh_lookup_resourceeventtype :: "u32 \<Rightarrow> string option" where
  "oh_lookup_resourceeventtype = map_of
     [(0, ''FAILURE''), (1, ''RESTORED''), (2, ''ADDED''), (3, ''REMOVED''),
      (4, ''INACCESSIBLE''), (5, ''UPDATED'')]"

definition resourceeventtype_strings :: "(u32 \<times> string) list" where
  "resourceeventtype_strings =
     [(0, ''FAILURE''), (1, ''RESTORED''), (2, ''ADDED''), (3, ''REMOVED''),
      (4, ''INACCESSIBLE''), (5, ''UPDATED'')]"

definition oh_encode_resourceeventtype :: "string \<Rightarrow> u32 \<Rightarrow> SaErrorT \<times> u32" where
  "oh_encode_resourceeventtype = encode_enum resourceeventtype_strings"

definition oh_lookup_domaineventtype :: "u32 \<Rightarrow> string option" where
  "oh_lookup_domaineventtype = map_of
     [(0, ''ADDED''), (1, ''REMOVED'')]"

definition domaineventtype_strings :: "(u32 \<times> string) list" where
  "domaineventtype_strings =
     [(0, ''ADDED''), (1, ''REMOVED'')]"

definition oh_encode_domaineventtype :: "string \<Rightarrow> u32 \<Rightarrow> SaErrorT \<times> u32" where
  "oh_encode_domaineventtype = encode_enum domaineventtype_strings"

definition oh_lookup_sweventtype :: "u32 \<Rightarrow> string option" where
  "oh_lookup_sweventtype = map_of
     [(0, ''AUDIT''), (1, ''STARTUP''), (2, ''OTHER'')]"

definition sweventtype_strings :: "(u32 \<times> string) list" where
  "sweventtype_strings =
     [(0, ''AUDIT''), (1, ''STARTUP''), (2, ''OTHER'')]"

definition oh_encode_sweventtype :: "string \<Rightarrow> u32 \<Rightarrow> SaErrorT \<times> u32" where
  "oh_encode_sweventtype = encode_enum sweventtype_strings"

definition oh_lookup_eventtype :: "u32 \<Rightarrow> string option" where
  "oh_lookup_eventtype = map_of
     [(0, ''RESOURCE''), (1, ''DOMAIN''), (2, ''SENSOR''), (3, ''SENSOR_ENABLE_CHANGE''),
      (4, ''HOTSWAP''), (5, ''WATCHDOG''), (6, ''HPI_SW''), (7, ''OEM''), (8, ''USER''),
      (9, ''DIMI''), (10, ''DIMI_UPDATE''), (11, ''FUMI'')]"

definition eventtype_strings :: "(u32 \<times> string) list" where
  "eventtype_strings =
     [(0, ''RESOURCE''), (1, ''DOMAIN''), (2, ''SENSOR''), (3, ''SENSOR_ENABLE_CHANGE''),
      (4, ''HOTSWAP''), (5, ''WATCHDOG''), (6, ''HPI_SW''), (7, ''OEM''), (8, ''USER''),
      (9, ''DIMI''), (10, ''DIMI_UPDATE''), (11, ''FUMI'')]"

definition oh_encode_eventtype :: "string \<Rightarrow> u32 \<Rightarrow> SaErrorT \<times> u32" where
  "oh_encode_eventtype = encode_enum eventtype_strings"

definition oh_lookup_statuscondtype :: "u32 \<Rightarrow> string option" where
  "oh_lookup_statuscondtype = map_of
     [(0, ''SENSOR''), (1, ''RESOURCE''), (2, ''OEM''), (3, ''USER'')]"

definition statuscondtype_strings :: "(u32 \<times> string) list" where
  "statuscondtype_strings =
     [(0, ''SENSOR''), (1, ''RESOURCE''), (2, ''OEM''), (3, ''USER'')]"

definition oh_encode_statuscondtype :: "string \<Rightarrow> u32 \<Rightarrow> SaErrorT \<times> u32" where
  "oh_encode_statuscondtype = encode_enum statuscondtype_strings"

definition oh_lookup_annunciatormode :: "u32 \<Rightarrow> string option" where
  "oh_lookup_annunciatormode = map_of
     [(0, ''AUTO''), (1, ''USER''), (2, ''SHARED'')]"

definition annunciatormode_strings :: "(u32 \<times> string) list" where
  "annunciatormode_strings =
     [(0, ''AUTO''), (1, ''USER''), (2, ''SHARED'')]"

definition oh_encode_annunciatormode :: "string \<Rightarrow> u32 \<Rightarrow> SaErrorT \<times> u32" where
  "oh_encode_annunciatormode = encode_enum annunciatormode_strings"

definition oh_lookup_annunciatortype :: "u32 \<Rightarrow> string option" where
  "oh_lookup_annunciatortype = map_of
     [(0, ''LED''), (1, ''DRY_CONTACT_CLOSURE''), (2, ''AUDIBLE''), (3, ''LCD_DISPLAY''),
      (4, ''MESSAGE''), (5, ''COMPOSITE''), (6, ''OEM'')]"

definition annunciatortype_strings :: "(u32 \<times> string) list" where
  "annunciatortype_strings =
     [(0, ''LED''), (1, ''DRY_CONTACT_CLOSURE''), (2, ''AUDIBLE''), (3, ''LCD_DISPLAY''),
      (4, ''MESSAGE''), (5, ''COMPOSITE''), (6, ''OEM'')]"

definition oh_encode_annunciatortype :: "string \<Rightarrow> u32 \<Rightarrow> SaErrorT \<times> u32" where
  "oh_encode_annunciatortype = encode_enum annunciatortype_strings"

definition oh_lookup_rdrtype :: "u32 \<Rightarrow> string option" where
  "oh_lookup_rdrtype = map_of
     [(0, ''NO_RECORD''), (1, ''CTRL_RDR''), (2, ''SENSOR_RDR''), (3, ''INVENTORY_RDR''),
      (4, ''WATCHDOG_RDR''), (5, ''ANNUNCIATOR_RDR''), (6, ''DIMI_RDR''), (7, ''FUMI_RDR'')]"

definition rdrtype_strings :: "(u32 \<times> string) list" where
  "rdrtype_strings =
     [(0, ''NO_RECORD''), (1, ''CTRL_RDR''), (2, ''SENSOR_RDR''), (3, ''INVENTORY_RDR''),
      (4, ''WATCHDOG_RDR''), (5, ''ANNUNCIATOR_RDR''), (6, ''DIMI_RDR''), (7, ''FUMI_RDR'')]"

definition oh_encode_rdrtype :: "string \<Rightarrow> u32 \<Rightarrow> SaErrorT \<times> u32" where
  "oh_encode_rdrtype = encode_enum rdrtype_strings"

definition oh_lookup_parmaction :: "u32 \<Rightarrow> string option" where
  "oh_lookup_parmaction = map_of
     [(0, ''DEFAULT_PARM''), (1, ''SAVE_PARM''), (2, ''RESTORE_PARM'')]"

definition parmaction_strings :: "(u32 \<times> string) list" where
  "parmaction_strings =
     [(0, ''DEFAULT_PARM''), (1, ''SAVE_PARM''), (2, ''RESTORE_PARM'')]"

definition oh_encode_parmaction :: "string \<Rightarrow> u32 \<Rightarrow> SaErrorT \<times> u32" where
  "oh_encode_parmaction = encode_enum parmaction_strings"

definition oh_lookup_resetaction :: "u32 \<Rightarrow> string option" where
  "oh_lookup_resetaction = map_of
     [(0, ''COLD_RESET''), (1, ''WARM_RESET''), (2, ''RESET_ASSERT''), (3, ''RESET_DEASSERT'')]"

definition resetaction_strings :: "(u32 \<times> string) list" where
  "resetaction_strings =
     [(0, ''COLD_RESET''), (1, ''WARM_RESET''), (2, ''RESET_ASSERT''), (3, ''RESET_DEASSERT'')]"

definition oh_encode_resetaction :: "string \<Rightarrow> u32 \<Rightarrow> SaErrorT \<times> u32" where
  "oh_encode_resetaction = encode_enum resetaction_strings"

definition oh_lookup_powerstate :: "u32 \<Rightarrow> string option" where
  "oh_lookup_powerstate = map_of
     [(0, ''OFF''), (1, ''ON''), (2, ''CYCLE'')]"

definition powerstate_strings :: "(u32 \<times> string) list" where
  "powerstate_strings =
     [(0, ''OFF''), (1, ''ON''), (2, ''CYCLE'')]"

definition oh_encode_powerstate :: "string \<Rightarrow> u32 \<Rightarrow> SaErrorT \<times> u32" where
  "oh_encode_powerstate = encode_enum powerstate_strings"

definition oh_lookup_eventlogoverflowaction :: "u32 \<Rightarrow> string option" where
  "oh_lookup_eventlogoverflowaction = map_of
     [(0, ''OVERFLOW_DROP''), (1, ''OVERFLOW_OVERWRITE'')]"

definition eventlogoverflowaction_strings :: "(u32 \<times> string) list" where
  "eventlogoverflowaction_strings =
     [(0, ''OVERFLOW_DROP''), (1, ''OVERFLOW_OVERWRITE'')]"

definition oh_encode_eventlogoverflowaction :: "string \<Rightarrow> u32 \<Rightarrow> SaErrorT \<times> u32" where
  "oh_encode_eventlogoverflowaction = encode_enum eventlogoverflowaction_strings"

definition oh_lookup_error :: "u32 \<Rightarrow> string option" where
  "oh_lookup_error = map_of
     [(0, ''SA_OK''), (-1001, ''ERROR''), (-1002, ''UNSUPPORTED_API''), (-1003, ''BUSY''),
      (-1004, ''INTERNAL_ERROR''), (-1005, ''INVALID_CMD''), (-1006, ''TIMEOUT''),
      (-1007, ''OUT_OF_SPACE''), (-1008, ''OUT_OF_MEMORY''), (-1009, ''INVALID_PARAMS''),
      (-1010, ''INVALID_DATA''), (-1011, ''NOT_PRESENT''), (-1012, ''NO_RESPONSE''),
      (-1013, ''DUPLICATE''), (-1014, ''INVALID_SESSION''), (-1015, ''INVALID_DOMAIN''),
      (-1016, ''INVALID_RESOURCE''), (-1017, ''INVALID_REQUEST''),
      (-1018, ''ENTITY_NOT_PRESENT''), (-1019, ''READ_ONLY''), (-1020, ''CAPABILITY''),
      (-1021, ''UNKNOWN''), (-1022, ''INVALID_STATE''), (-1023, ''UNSUPPORTED_PARAMS'')]"

definition error_strings :: "(u32 \<times> string) list" where
  "error_strings =
     [(0, ''SA_OK''), (-1001, ''ERROR''), (-1002, ''UNSUPPORTED_API''), (-1003, ''BUSY''),
      (-1004, ''INTERNAL_ERROR''), (-1005, ''INVALID_CMD''), (-1006, ''TIMEOUT''),
      (-1007, ''OUT_OF_SPACE''), (-1008, ''OUT_OF_MEMORY''), (-1009, ''INVALID_PARAMS''),
      (-1010, ''INVALID_DATA''), (-1011, ''NOT_PRESENT''), (-1012, ''NO_RESPONSE''),
      (-1013, ''DUPLICATE''), (-1014, ''INVALID_SESSION''), (-1015, ''INVALID_DOMAIN''),
      (-1016, ''INVALID_RESOURCE''), (-1017, ''INVALID_REQUEST''),
      (-1018, ''ENTITY_NOT_PRESENT''), (-1019, ''READ_ONLY''), (-1020, ''CAPABILITY''),
      (-1021, ''UNKNOWN''), (-1022, ''INVALID_STATE''), (-1023, ''UNSUPPORTED_PARAMS'')]"

definition oh_encode_error :: "string \<Rightarrow> u32 \<Rightarrow> SaErrorT \<times> u32" where
  "oh_encode_error = encode_enum error_strings"

definition oh_lookup_eventcategory :: "u32 \<Rightarrow> string option" where
  "oh_lookup_eventcategory = map_of
     [(0, ''UNSPECIFIED''), (1, ''THRESHOLD''), (2, ''USAGE''), (3, ''STATE''),
      (4, ''PRED_FAIL''), (5, ''LIMIT''), (6, ''PERFORMANCE''), (7, ''SEVERITY''),
      (8, ''PRESENCE''), (9, ''ENABLE''), (10, ''AVAILABILITY''), (11, ''REDUNDANCY''),
      (126, ''SENSOR_SPECIFIC''), (127, ''GENERIC'')]"

definition eventcategory_strings :: "(u32 \<times> string) list" where
  "eventcategory_strings =
     [(0, ''UNSPECIFIED''), (1, ''THRESHOLD''), (2, ''USAGE''), (3, ''STATE''),
      (4, ''PRED_FAIL''), (5, ''LIMIT''), (6, ''PERFORMANCE''), (7, ''SEVERITY''),
      (8, ''PRESENCE''), (9, ''ENABLE''), (10, ''AVAILABILITY''), (11, ''REDUNDANCY''),
      (126, ''SENSOR_SPECIFIC''), (127, ''GENERIC'')]"

definition oh_encode_eventcategory :: "string \<Rightarrow> u32 \<Rightarrow> SaErrorT \<times> u32" where
  "oh_encode_eventcategory = encode_enum eventcategory_strings"

definition oh_lookup_xtcahpiledcolor :: "u32 \<Rightarrow> string option" where
  "oh_lookup_xtcahpiledcolor = map_of
     [(0, ''COLOR_RESERVED''), (1, ''COLOR_BLUE''), (2, ''COLOR_RED''), (3, ''COLOR_GREEN''),
      (4, ''COLOR_AMBER''), (5, ''COLOR_ORANGE''), (6, ''COLOR_WHITE''),
      (14, ''COLOR_NO_CHANGE''), (15, ''COLOR_USE_DEFAULT'')]"

definition xtcahpiledcolor_strings :: "(u32 \<times> string) list" where
  "xtcahpiledcolor_strings =
     [(0, ''COLOR_RESERVED''), (1, ''COLOR_BLUE''), (2, ''COLOR_RED''), (3, ''COLOR_GREEN''),
      (4, ''COLOR_AMBER''), (5, ''COLOR_ORANGE''), (6, ''COLOR_WHITE''),
      (14, ''COLOR_NO_CHANGE''), (15, ''COLOR_USE_DEFAULT'')]"

definition oh_encode_xtcahpiledcolor :: "string \<Rightarrow> u32 \<Rightarrow> SaErrorT \<times> u32" where
  "oh_encode_xtcahpiledcolor = encode_enum xtcahpiledcolor_strings"

definition oh_lookup_xtcahpiresourceledmode :: "u32 \<Rightarrow> string option" where
  "oh_lookup_xtcahpiresourceledmode = map_of
     [(0, ''AUTO''), (1, ''MANUAL''), (2, ''LAMP_TEST'')]"

definition xtcahpiresourceledmode_strings :: "(u32 \<times> string) list" where
  "xtcahpiresourceledmode_strings =
     [(0, ''AUTO''), (1, ''MANUAL''), (2, ''LAMP_TEST'')]"

definition oh_encode_xtcahpiresourceledmode :: "string \<Rightarrow> u32 \<Rightarrow> SaErrorT \<times> u32" where
  "oh_encode_xtcahpiresourceledmode = encode_enum xtcahpiresourceledmode_strings"

definition oh_lookup_xtcahpiledbrsupport :: "u32 \<Rightarrow> string option" where
  "oh_lookup_xtcahpiledbrsupport = map_of
     [(0, ''BR_SUPPORTED''), (1, ''BR_NOT_SUPPORTED''), (2, ''BR_UNKNOWN'')]"

definition xtcahpiledbrsupport_strings :: "(u32 \<times> string) list" where
  "xtcahpiledbrsupport_strings =
     [(0, ''BR_SUPPORTED''), (1, ''BR_NOT_SUPPORTED''), (2, ''BR_UNKNOWN'')]"

definition oh_encode_xtcahpiledbrsupport :: "string \<Rightarrow> u32 \<Rightarrow> SaErrorT \<times> u32" where
  "oh_encode_xtcahpiledbrsupport = encode_enum xtcahpiledbrsupport_strings"

definition oh_lookup_atcahpiledcolor :: "u32 \<Rightarrow> string option" where
  "oh_lookup_atcahpiledcolor = map_of
     [(0, ''COLOR_RESERVED''), (1, ''COLOR_BLUE''), (2, ''COLOR_RED''), (3, ''COLOR_GREEN''),
      (4, ''COLOR_AMBER''), (5, ''COLOR_ORANGE''), (6, ''COLOR_WHITE''),
      (14, ''COLOR_NO_CHANGE''), (15, ''COLOR_USE_DEFAULT'')]"

definition atcahpiledcolor_strings :: "(u32 \<times> string) list" where
  "atcahpiledcolor_strings =
     [(0, ''COLOR_RESERVED''), (1, ''COLOR_BLUE''), (2, ''COLOR_RED''), (3, ''COLOR_GREEN''),
      (4, ''COLOR_AMBER''), (5, ''COLOR_ORANGE''), (6, ''COLOR_WHITE''),
      (14, ''COLOR_NO_CHANGE''), (15, ''COLOR_USE_DEFAULT'')]"

definition oh_encode_atcahpiledcolor :: "string \<Rightarrow> u32 \<Rightarrow> SaErrorT \<times> u32" where
  "oh_encode_atcahpiledcolor = encode_enum atcahpiledcolor_strings"

definition oh_lookup_atcahpiresourceledmode :: "u32 \<Rightarrow> string option" where
  "oh_lookup_atcahpiresourceledmode = map_of
     [(0, ''AUTO''), (1, ''MANUAL''), (2, ''LAMP_TEST'')]"

definition atcahpiresourceledmode_strings :: "(u32 \<times> string) list" where
  "atcahpiresourceledmode_strings =
     [(0, ''AUTO''), (1, ''MANUAL''), (2, ''LAMP_TEST'')]"

definition oh_encode_atcahpiresourceledmode :: "string \<Rightarrow> u32 \<Rightarrow> SaErrorT \<times> u32" where
  "oh_encode_atcahpiresourceledmode = encode_enum atcahpiresourceledmode_strings"

definition oh_lookup_atcahpiledbrsupport :: "u32 \<Rightarrow> string option" where
  "oh_lookup_atcahpiledbrsupport = map_of
     [(0, ''BR_SUPPORTED''), (1, ''BR_NOT_SUPPORTED''), (2, ''BR_UNKNOWN'')]"

definition atcahpiledbrsupport_strings :: "(u32 \<times> string) list" where
  "atcahpiledbrsupport_strings =
     [(0, ''BR_SUPPORTED''), (1, ''BR_NOT_SUPPORTED''), (2, ''BR_UNKNOWN'')]"

definition oh_encode_atcahpiledbrsupport :: "string \<Rightarrow> u32 \<Rightarrow> SaErrorT \<times> u32" where
  "oh_encode_atcahpiledbrsupport = encode_enum atcahpiledbrsupport_strings"

definition oh_lookup_atcahpientitytype :: "u32 \<Rightarrow> string option" where
  "oh_lookup_atcahpientitytype = map_of
     [(145, ''POWER_ENTRY_MODULE_SLOT''), (146, ''SHELF_FRU_DEVICE_SLOT''),
      (147, ''SHELF_MANAGER_SLOT''), (148, ''FAN_TRAY_SLOT''), (149, ''FAN_FILTER_TRAY_SLOT''),
      (150, ''ALARM_SLOT''), (151, ''AMC_SLOT''), (152, ''PMC_SLOT''), (153, ''RTM_SLOT''),
      (65558, ''PICMG_FRONT_BLADE''), (65559, ''SHELF_FRU_DEVICE''),
      (65560, ''FILTRATION_UNIT''), (65561, ''AMC'')]"

definition atcahpientitytype_strings :: "(u32 \<times> string) list" where
  "atcahpientitytype_strings =
     [(145, ''POWER_ENTRY_MODULE_SLOT''), (146, ''SHELF_FRU_DEVICE_SLOT''),
      (147, ''SHELF_MANAGER_SLOT''), (148, ''FAN_TRAY_SLOT''), (149, ''FAN_FILTER_TRAY_SLOT''),
      (150, ''ALARM_SLOT''), (151, ''AMC_SLOT''), (152, ''PMC_SLOT''), (153, ''RTM_SLOT''),
      (65558, ''PICMG_FRONT_BLADE''), (65559, ''SHELF_FRU_DEVICE''),
      (65560, ''FILTRATION_UNIT''), (65561, ''AMC'')]"

definition oh_encode_atcahpientitytype :: "string \<Rightarrow> u32 \<Rightarrow> SaErrorT \<times> u32" where
  "oh_encode_atcahpientitytype = encode_enum atcahpientitytype_strings"

end
