(* ===== verification/Conf.thy ===== *)
theory Conf
  imports EnumUtils
begin

text \<open>
  The global parameters of the daemon (\<^verbatim>\<open>openhpid/conf.c\<close>): their defaults, the parsing of a
  name and value pair from the configuration file or the environment, and the functions that
  read and set one. The environment is the argument \<open>getenv\<close>; it is read once. A parameter and
  the member of the union that belongs to it are one constructor of \<open>oh_global_param\<close>.
\<close>

abbreviation (input) OH_PATH_PARAM_MAX_LENGTH :: nat where "OH_PATH_PARAM_MAX_LENGTH \<equiv> 2048"

record global_params =
  log_on_sev :: SaHpiSeverityT
  evt_queue_limit :: u32
  del_size_limit :: u32
  del_save :: bool
  dat_size_limit :: u32
  dat_user_limit :: u32
  dat_save :: bool
  path :: string
  varpath :: string
  conf :: string
  unconfigured :: bool
  ai_timeout :: u64
  ai_timeout_readonly :: bool
  read_env :: bool

text \<open>The three default paths come from the build.\<close>

definition default_params :: "string \<Rightarrow> string \<Rightarrow> string \<Rightarrow> global_params" where
  "default_params plugin_path var_path default_conf = \<lparr>log_on_sev = SAHPI_MINOR,
     evt_queue_limit = 10000, del_size_limit = 10000, del_save = False, dat_size_limit = 0,
     dat_user_limit = 0, dat_save = False, path = plugin_path, varpath = var_path,
     conf = default_conf, unconfigured = False, ai_timeout = 0, ai_timeout_readonly = True,
     read_env = False\<rparr>"

section \<open>Parameters by name\<close>

definition process_global_param :: "string \<Rightarrow> string \<Rightarrow> global_params \<Rightarrow> global_params" where
  "process_global_param name value gp =
     (if name = ''OPENHPI_LOG_ON_SEV'' then
        gp\<lparr>log_on_sev := snd (oh_encode_severity (take SAHPI_MAX_TEXT_BUFFER_LENGTH value) (log_on_sev gp))\<rparr>
      else if name = ''OPENHPI_EVT_QUEUE_LIMIT'' then gp\<lparr>evt_queue_limit := atoi value\<rparr>
      else if name = ''OPENHPI_DEL_SIZE_LIMIT'' then gp\<lparr>del_size_limit := atoi value\<rparr>
      else if name = ''OPENHPI_DEL_SAVE'' then gp\<lparr>del_save := (value = ''YES'')\<rparr>
      else if name = ''OPENHPI_DAT_SIZE_LIMIT'' then gp\<lparr>dat_size_limit := atoi value\<rparr>
      else if name = ''OPENHPI_DAT_USER_LIMIT'' then gp\<lparr>dat_user_limit := atoi value\<rparr>
      else if name = ''OPENHPI_DAT_SAVE'' then gp\<lparr>dat_save := (value = ''YES'')\<rparr>
      else if name = ''OPENHPI_PATH'' then gp\<lparr>path := take (OH_PATH_PARAM_MAX_LENGTH - 1) value\<rparr>
      else if name = ''OPENHPI_VARPATH'' then gp\<lparr>varpath := take (OH_PATH_PARAM_MAX_LENGTH - 1) value\<rparr>
      else if name = ''OPENHPI_CONF'' then gp\<lparr>conf := take (OH_PATH_PARAM_MAX_LENGTH - 1) value\<rparr>
      else if name = ''OPENHPI_UNCONFIGURED'' then gp\<lparr>unconfigured := (value = ''YES'')\<rparr>
      else if name = ''OPENHPI_AUTOINSERT_TIMEOUT'' then
        gp\<lparr>ai_timeout :=
          (if value = ''BLOCK'' then SAHPI_TIMEOUT_BLOCK
           else if value = ''IMMEDIATE'' then SAHPI_TIMEOUT_IMMEDIATE
           else if strtoll10 value < 0 then SAHPI_TIMEOUT_BLOCK
           else word_of_int (strtoll10 value))\<rparr>
      else if name = ''OPENHPI_AUTOINSERT_TIMEOUT_READONLY'' then
        gp\<lparr>ai_timeout_readonly := (value = ''YES'')\<rparr>
      else gp)"

definition known_globals :: "string list" where
  "known_globals = [''OPENHPI_LOG_ON_SEV'', ''OPENHPI_EVT_QUEUE_LIMIT'', ''OPENHPI_DEL_SIZE_LIMIT'',
     ''OPENHPI_DEL_SAVE'', ''OPENHPI_DAT_SIZE_LIMIT'', ''OPENHPI_DAT_USER_LIMIT'',
     ''OPENHPI_DAT_SAVE'', ''OPENHPI_PATH'', ''OPENHPI_VARPATH'', ''OPENHPI_CONF'',
     ''OPENHPI_UNCONFIGURED'', ''OPENHPI_AUTOINSERT_TIMEOUT'',
     ''OPENHPI_AUTOINSERT_TIMEOUT_READONLY'']"

definition read_globals_from_env ::
    "(string \<Rightarrow> string option) \<Rightarrow> bool \<Rightarrow> global_params \<Rightarrow> global_params"
where
  "read_globals_from_env getenv force gp =
     (if \<not> force \<and> read_env gp then gp
      else (fold (\<lambda>name gp. case getenv name of
                     None \<Rightarrow> gp
                   | Some value \<Rightarrow> process_global_param name value gp) known_globals gp)
             \<lparr>read_env := True\<rparr>)"

section \<open>Reading and setting one parameter\<close>

datatype oh_global_param =
    OPENHPI_NONE
  | OPENHPI_ON_EP SaHpiEntityPathT
  | OPENHPI_LOG_ON_SEV SaHpiSeverityT
  | OPENHPI_EVT_QUEUE_LIMIT u32
  | OPENHPI_DEL_SIZE_LIMIT u32
  | OPENHPI_DEL_SAVE bool
  | OPENHPI_DAT_SIZE_LIMIT u32
  | OPENHPI_DAT_USER_LIMIT u32
  | OPENHPI_DAT_SAVE bool
  | OPENHPI_PATH string
  | OPENHPI_VARPATH string
  | OPENHPI_CONF string
  | OPENHPI_UNCONFIGURED bool
  | OPENHPI_AUTOINSERT_TIMEOUT u64
  | OPENHPI_AUTOINSERT_TIMEOUT_READONLY bool

text \<open>The \<^verbatim>\<open>switch\<close> of \<open>oh_get_global_param\<close>; \<open>None\<close> is its default.\<close>

fun get_param :: "global_params \<Rightarrow> oh_global_param \<Rightarrow> oh_global_param option" where
  "get_param gp (OPENHPI_LOG_ON_SEV _) = Some (OPENHPI_LOG_ON_SEV (log_on_sev gp))"
| "get_param gp (OPENHPI_EVT_QUEUE_LIMIT _) = Some (OPENHPI_EVT_QUEUE_LIMIT (evt_queue_limit gp))"
| "get_param gp (OPENHPI_DEL_SIZE_LIMIT _) = Some (OPENHPI_DEL_SIZE_LIMIT (del_size_limit gp))"
| "get_param gp (OPENHPI_DEL_SAVE _) = Some (OPENHPI_DEL_SAVE (del_save gp))"
| "get_param gp (OPENHPI_DAT_SIZE_LIMIT _) = Some (OPENHPI_DAT_SIZE_LIMIT (dat_size_limit gp))"
| "get_param gp (OPENHPI_DAT_USER_LIMIT _) = Some (OPENHPI_DAT_USER_LIMIT (dat_user_limit gp))"
| "get_param gp (OPENHPI_DAT_SAVE _) = Some (OPENHPI_DAT_SAVE (dat_save gp))"
| "get_param gp (OPENHPI_PATH _) = Some (OPENHPI_PATH (path gp))"
| "get_param gp (OPENHPI_VARPATH _) = Some (OPENHPI_VARPATH (varpath gp))"
| "get_param gp (OPENHPI_CONF _) = Some (OPENHPI_CONF (conf gp))"
| "get_param gp (OPENHPI_UNCONFIGURED _) = Some (OPENHPI_UNCONFIGURED (unconfigured gp))"
| "get_param gp (OPENHPI_AUTOINSERT_TIMEOUT _) = Some (OPENHPI_AUTOINSERT_TIMEOUT (ai_timeout gp))"
| "get_param gp (OPENHPI_AUTOINSERT_TIMEOUT_READONLY _) =
     Some (OPENHPI_AUTOINSERT_TIMEOUT_READONLY (ai_timeout_readonly gp))"
| "get_param gp _ = None"

definition oh_get_global_param ::
    "(string \<Rightarrow> string option) \<Rightarrow> global_params \<Rightarrow> oh_global_param \<Rightarrow>
       int \<times> oh_global_param \<times> global_params"
where
  "oh_get_global_param getenv gp param =
     (if param = OPENHPI_NONE then (-1, param, gp)
      else let gp' = read_globals_from_env getenv False gp
           in case get_param gp' param of
                Some p \<Rightarrow> (0, p, gp')
              | None \<Rightarrow> (-2, param, gp'))"

text \<open>\<open>oh_get_global_param2\<close> sets the type of the parameter, so its argument \<open>param\<close> fixes only the
  constructor: the value in it does not matter.\<close>

definition oh_get_global_param2 ::
    "(string \<Rightarrow> string option) \<Rightarrow> global_params \<Rightarrow> oh_global_param \<Rightarrow>
       int \<times> oh_global_param \<times> global_params"
where
  "oh_get_global_param2 getenv gp param = oh_get_global_param getenv gp param"

fun set_param :: "global_params \<Rightarrow> oh_global_param \<Rightarrow> global_params option" where
  "set_param gp (OPENHPI_LOG_ON_SEV x) = Some (gp\<lparr>log_on_sev := x\<rparr>)"
| "set_param gp (OPENHPI_EVT_QUEUE_LIMIT x) = Some (gp\<lparr>evt_queue_limit := x\<rparr>)"
| "set_param gp (OPENHPI_DEL_SIZE_LIMIT x) = Some (gp\<lparr>del_size_limit := x\<rparr>)"
| "set_param gp (OPENHPI_DEL_SAVE x) = Some (gp\<lparr>del_save := x\<rparr>)"
| "set_param gp (OPENHPI_DAT_SIZE_LIMIT x) = Some (gp\<lparr>dat_size_limit := x\<rparr>)"
| "set_param gp (OPENHPI_DAT_USER_LIMIT x) = Some (gp\<lparr>dat_user_limit := x\<rparr>)"
| "set_param gp (OPENHPI_DAT_SAVE x) = Some (gp\<lparr>dat_save := x\<rparr>)"
| "set_param gp (OPENHPI_PATH x) = Some (gp\<lparr>path := take (OH_PATH_PARAM_MAX_LENGTH - 1) x\<rparr>)"
| "set_param gp (OPENHPI_VARPATH x) = Some (gp\<lparr>varpath := take (OH_PATH_PARAM_MAX_LENGTH - 1) x\<rparr>)"
| "set_param gp (OPENHPI_CONF x) = Some (gp\<lparr>conf := take (OH_PATH_PARAM_MAX_LENGTH - 1) x\<rparr>)"
| "set_param gp (OPENHPI_UNCONFIGURED x) = Some (gp\<lparr>unconfigured := x\<rparr>)"
| "set_param gp (OPENHPI_AUTOINSERT_TIMEOUT x) = Some (gp\<lparr>ai_timeout := x\<rparr>)"
| "set_param gp (OPENHPI_AUTOINSERT_TIMEOUT_READONLY x) = Some (gp\<lparr>ai_timeout_readonly := x\<rparr>)"
| "set_param gp _ = None"

definition oh_set_global_param ::
    "(string \<Rightarrow> string option) \<Rightarrow> global_params \<Rightarrow> oh_global_param \<Rightarrow> int \<times> global_params"
where
  "oh_set_global_param getenv gp param =
     (if param = OPENHPI_NONE then (-1, gp)
      else let gp' = read_globals_from_env getenv False gp
           in case set_param gp' param of
                Some gp'' \<Rightarrow> (0, gp'')
              | None \<Rightarrow> (-2, gp'))"

section \<open>Properties\<close>

fun param_kind :: "oh_global_param \<Rightarrow> nat" where
  "param_kind OPENHPI_NONE = 0"
| "param_kind (OPENHPI_ON_EP _) = 1"
| "param_kind (OPENHPI_LOG_ON_SEV _) = 2"
| "param_kind (OPENHPI_EVT_QUEUE_LIMIT _) = 3"
| "param_kind (OPENHPI_DEL_SIZE_LIMIT _) = 4"
| "param_kind (OPENHPI_DEL_SAVE _) = 5"
| "param_kind (OPENHPI_DAT_SIZE_LIMIT _) = 6"
| "param_kind (OPENHPI_DAT_USER_LIMIT _) = 7"
| "param_kind (OPENHPI_DAT_SAVE _) = 8"
| "param_kind (OPENHPI_PATH _) = 9"
| "param_kind (OPENHPI_VARPATH _) = 10"
| "param_kind (OPENHPI_CONF _) = 11"
| "param_kind (OPENHPI_UNCONFIGURED _) = 12"
| "param_kind (OPENHPI_AUTOINSERT_TIMEOUT _) = 13"
| "param_kind (OPENHPI_AUTOINSERT_TIMEOUT_READONLY _) = 14"

fun stored :: "oh_global_param \<Rightarrow> oh_global_param" where
  "stored (OPENHPI_PATH x) = OPENHPI_PATH (take (OH_PATH_PARAM_MAX_LENGTH - 1) x)"
| "stored (OPENHPI_VARPATH x) = OPENHPI_VARPATH (take (OH_PATH_PARAM_MAX_LENGTH - 1) x)"
| "stored (OPENHPI_CONF x) = OPENHPI_CONF (take (OH_PATH_PARAM_MAX_LENGTH - 1) x)"
| "stored p = p"

lemma set_get_same: "set_param gp p = Some gp' \<Longrightarrow> param_kind q = param_kind p \<Longrightarrow>
    get_param gp' q = Some (stored p)"
  by (cases p; cases q) auto

lemma set_get_other: "set_param gp p = Some gp' \<Longrightarrow> param_kind q \<noteq> param_kind p \<Longrightarrow>
    get_param gp' q = get_param gp q"
  by (cases p; cases q) auto

lemma set_param_env: "set_param gp p = Some gp' \<Longrightarrow> read_env gp' = read_env gp"
  by (cases p) auto

lemma read_globals_env: "read_env (read_globals_from_env getenv force gp)"
  by (simp add: read_globals_from_env_def)

lemma read_globals_again: "read_env gp \<Longrightarrow> read_globals_from_env getenv False gp = gp"
  by (simp add: read_globals_from_env_def)

text \<open>A global parameter that was set is what the next read returns, paths cut to the size of
  their buffer, whatever the environment says, and every other parameter reads as before.\<close>

lemma param_set_get:
  assumes "oh_set_global_param getenv gp p = (0, gp')"
    and "oh_get_global_param getenv gp q = (rc, v, g1)"
    and "oh_get_global_param getenv2 gp' q = (rc', v', gp'')"
  shows "gp'' = gp' \<and> (param_kind q = param_kind p \<longrightarrow> rc' = 0 \<and> v' = stored p) \<and>
    (param_kind q \<noteq> param_kind p \<longrightarrow> rc' = rc \<and> v' = v)"
proof -
  let ?g = "read_globals_from_env getenv False gp"
  have p: "p \<noteq> OPENHPI_NONE" and s: "set_param ?g p = Some gp'"
    using assms(1) by (auto simp: oh_set_global_param_def Let_def split: if_splits option.splits)
  have e: "read_globals_from_env getenv2 False gp' = gp'"
    using set_param_env [OF s] read_globals_env read_globals_again by simp
  show ?thesis
  proof (cases "q = OPENHPI_NONE")
    case True
    then show ?thesis using assms(2,3) p by (cases p) (auto simp: oh_get_global_param_def)
  next
    case False
    then show ?thesis
      using assms(2,3) e set_get_same [OF s, of q] set_get_other [OF s, of q]
      by (auto simp: oh_get_global_param_def Let_def split: option.splits)
  qed
qed

lemma param_set_get_witness:
  "fst (snd (oh_get_global_param (\<lambda>_. None) (snd (oh_set_global_param (\<lambda>_. None)
     (default_params [] [] []) (OPENHPI_DAT_SIZE_LIMIT 7))) (OPENHPI_DAT_SIZE_LIMIT 0))) =
   OPENHPI_DAT_SIZE_LIMIT 7"
proof -
  let ?gp = "default_params [] [] []"
  have c: "oh_set_global_param (\<lambda>_. None) ?gp (OPENHPI_DAT_SIZE_LIMIT 7) =
      (0, snd (oh_set_global_param (\<lambda>_. None) ?gp (OPENHPI_DAT_SIZE_LIMIT 7)))"
    by (simp add: oh_set_global_param_def Let_def)
  obtain rc v g1 where g: "oh_get_global_param (\<lambda>_. None) ?gp (OPENHPI_DAT_SIZE_LIMIT 0) = (rc, v, g1)"
    by (metis prod.exhaust)
  obtain rc' v' g2 where g': "oh_get_global_param (\<lambda>_. None)
      (snd (oh_set_global_param (\<lambda>_. None) ?gp (OPENHPI_DAT_SIZE_LIMIT 7)))
      (OPENHPI_DAT_SIZE_LIMIT 0) = (rc', v', g2)"
    by (metis prod.exhaust)
  show ?thesis using param_set_get [OF c g g'] g' by simp
qed

end
