(* ===== verification/DomainData.thy ===== *)
theory DomainData
  imports Rpt EventLog Conf
begin

text \<open>
  A domain (\<^verbatim>\<open>include/oh_domain.h\<close>): its resource presence table, alarm table, reference table
  and event log; and the event structure that plugins hand to the daemon
  (\<^verbatim>\<open>utils/event_utils.h\<close>). The last two fields of \<open>oh_domain\<close> are the files on disk: the last
  write of the alarm table and of the event log, with the path it went to. The two locks are
  left out: handlers run one at a time.
\<close>

record oh_dat =
  dat_next_id :: u32
  dat_list :: "SaHpiAlarmT list"
  dat_update_count :: u32
  dat_update_timestamp :: u64
  dat_overflow :: bool

record SaHpiDrtEntryT =
  drt_EntryId :: u32
  drt_DomainId :: u32
  IsPeer :: bool

record oh_drt =
  drt_next_id :: u32
  drt_parent_id :: u32
  drt_list :: "SaHpiDrtEntryT list"
  drt_update_count :: u32
  drt_update_timestamp :: u64

record oh_domain =
  d_id :: u32
  d_tag :: SaHpiTextBufferT
  d_ai_timeout :: u64
  d_capabilities :: u32
  d_guid :: "u8 list"
  d_rpt :: RPTable
  d_dat :: oh_dat
  d_drt :: oh_drt
  d_del :: oh_el
  d_refcount :: int
  dat_file :: "(string \<times> SaHpiAlarmT list) option"
  del_file :: "(string \<times> oh_el_entry list) option"

text \<open>
  The outcome of writing a file: whether \<^verbatim>\<open>fopen\<close> succeeds and how many records \<^verbatim>\<open>fwrite\<close>
  accepts.
\<close>

record file_io =
  f_opened :: bool
  f_written :: nat

text \<open>
  The name of a saved table, \<^verbatim>\<open>snprintf(.., "%s/dat.%u", ..)\<close> into a buffer of two text buffers.
\<close>

definition table_path :: "string \<Rightarrow> string \<Rightarrow> u32 \<Rightarrow> string" where
  "table_path dir name did =
     take (2 * SAHPI_MAX_TEXT_BUFFER_LENGTH - 1) (dir @ CHR ''/'' # name @ CHR ''.'' # decimal (unat did))"

section \<open>Events\<close>

record oh_event =
  e_hid :: u32
  e_event :: SaHpiEventT
  e_resource :: SaHpiRptEntryT
  e_rdrs :: "SaHpiRdrT list"
  e_rdrs_to_remove :: "SaHpiRdrT list"

text \<open>A copy of an event: the two lists are copied record by record.\<close>

definition oh_dup_event :: "oh_event \<Rightarrow> oh_event" where
  "oh_dup_event old_event =
     old_event\<lparr>e_rdrs := map (\<lambda>r. r) (e_rdrs old_event),
               e_rdrs_to_remove := map (\<lambda>r. r) (e_rdrs_to_remove old_event)\<rparr>"

lemma oh_dup_event_same [simp]: "oh_dup_event e = e"
  by (simp add: oh_dup_event_def)

definition zero_dat :: oh_dat where
  "zero_dat = \<lparr>dat_next_id = 0, dat_list = [], dat_update_count = 0, dat_update_timestamp = 0,
     dat_overflow = False\<rparr>"

definition zero_drt :: oh_drt where
  "zero_drt = \<lparr>drt_next_id = 0, drt_parent_id = 0, drt_list = [], drt_update_count = 0,
     drt_update_timestamp = 0\<rparr>"

definition zero_rpt :: RPTable where
  "zero_rpt = \<lparr>rpt_update_count = 0, rpt_update_timestamp = 0, rptab = nt_empty, freed = []\<rparr>"

section \<open>Sessions\<close>

text \<open>\<^verbatim>\<open>include/oh_session.h\<close>; the event queue of a session is the list of its events.\<close>

record oh_session =
  s_id :: u32
  s_did :: u32
  s_subscribed :: bool
  s_eventq_status :: u32
  s_eventq :: "oh_event list"

section \<open>A domain to compute with\<close>

text \<open>A domain with an empty alarm table, as \<open>oh_create_domain\<close> leaves it.\<close>

definition demo_domain :: "u32 \<Rightarrow> oh_domain" where
  "demo_domain i = \<lparr>d_id = i, d_tag = zero_text, d_ai_timeout = 0, d_capabilities = 0,
     d_guid = replicate 16 0, d_rpt = snd (oh_init_rpt zero_rpt), d_dat = zero_dat, d_drt = zero_drt,
     d_del = oh_el_create 3, d_refcount = 0, dat_file = None, del_file = None\<rparr>"

lemma demo_domain_simps [simp]: "d_id (demo_domain i) = i" "d_refcount (demo_domain i) = 0"
  by (simp_all add: demo_domain_def)

end
