(* ===== verification/Alarm.thy ===== *)
theory Alarm
  imports DomainData
begin

text \<open>
  The domain alarm table (\<^verbatim>\<open>openhpid/alarm.c\<close>): adding, finding and removing alarms, the
  handlers that turn events into alarms, and the file the table is saved to. The optional
  pointer arguments of the search are the option fields of an \<open>alarm_key\<close>. The global parameters
  are an argument, read once from the environment at start (see \<open>Conf\<close>). The argument \<open>clk\<close> gives
  the successive readings of the clock within a call.
\<close>

abbreviation (input) OH_MAX_DAT_SIZE_LIMIT :: u32 where "OH_MAX_DAT_SIZE_LIMIT \<equiv> 0"
abbreviation (input) OH_MAX_DAT_USER_LIMIT :: u32 where "OH_MAX_DAT_USER_LIMIT \<equiv> 0"

record alarm_key =
  k_severity :: "SaHpiSeverityT option"
  k_type :: "SaHpiStatusCondTypeT option"
  k_rid :: "u32 option"
  k_mid :: "u32 option"
  k_num :: "u32 option"
  k_state :: "u16 option"

definition any_alarm :: alarm_key where
  "any_alarm = \<lparr>k_severity = None, k_type = None, k_rid = None, k_mid = None, k_num = None,
     k_state = None\<rparr>"

text \<open>\<^verbatim>\<open>p ? x == *p : 1\<close>\<close>

definition opt_eq :: "'a option \<Rightarrow> 'a \<Rightarrow> bool" where
  "opt_eq p x = (case p of None \<Rightarrow> True | Some y \<Rightarrow> x = y)"

section \<open>Finding alarms\<close>

definition update_dat :: "u64 \<Rightarrow> oh_domain \<Rightarrow> oh_domain" where
  "update_dat now d =
     d\<lparr>d_dat := (d_dat d)\<lparr>dat_update_count := dat_update_count (d_dat d) + 1,
                          dat_update_timestamp := now\<rparr>\<rparr>"

definition key_matches :: "alarm_key \<Rightarrow> SaHpiAlarmT \<Rightarrow> bool" where
  "key_matches key alarm \<longleftrightarrow>
     (case k_severity key of None \<Rightarrow> True
      | Some sev \<Rightarrow> if sev \<noteq> SAHPI_ALL_SEVERITIES then al_Severity alarm = sev else True) \<and>
     opt_eq (k_type key) (cond_Type (AlarmCond alarm)) \<and>
     opt_eq (k_rid key) (cond_ResourceId (AlarmCond alarm)) \<and>
     opt_eq (k_mid key) (cond_Mid (AlarmCond alarm)) \<and>
     opt_eq (k_num key) (cond_SensorNum (AlarmCond alarm)) \<and>
     opt_eq (k_state key) (cond_EventState (AlarmCond alarm))"

definition get_alarm_node ::
    "SaHpiAlarmT list \<Rightarrow> u32 option \<Rightarrow> alarm_key \<Rightarrow> bool \<Rightarrow> bool \<Rightarrow> nat option"
where
  "get_alarm_node l aid key unacknowledged get_next0 =
     (let get_next = (if aid = Some SAHPI_FIRST_ENTRY then True else get_next0)
      in if aid = Some SAHPI_LAST_ENTRY then
           (if get_next then None else if l = [] then None else Some (length l - 1))
         else find_index (\<lambda>alarm.
                (case aid of None \<Rightarrow> True
                 | Some a \<Rightarrow> if get_next then AlarmId alarm > a else AlarmId alarm = a) \<and>
                key_matches key alarm \<and>
                (if unacknowledged then \<not> Acknowledged alarm else True)) l)"

definition count_alarms :: "oh_domain \<Rightarrow> SaHpiStatusCondTypeT option \<Rightarrow> SaHpiSeverityT \<Rightarrow> u32" where
  "count_alarms d type sev =
     (if type = None \<and> sev = SAHPI_ALL_SEVERITIES then of_nat (length (dat_list (d_dat d)))
      else of_nat (length (filter (\<lambda>alarm. opt_eq type (cond_Type (AlarmCond alarm)) \<and>
             (if sev = SAHPI_ALL_SEVERITIES then True else al_Severity alarm = sev))
             (dat_list (d_dat d)))))"

definition oh_count_alarms :: "oh_domain \<Rightarrow> SaHpiSeverityT \<Rightarrow> u32" where
  "oh_count_alarms d sev = count_alarms d None sev"

definition oh_get_alarm ::
    "oh_domain \<Rightarrow> u32 option \<Rightarrow> alarm_key \<Rightarrow> bool \<Rightarrow> bool \<Rightarrow> SaHpiAlarmT option"
where
  "oh_get_alarm d aid key unacknowledged get_next =
     (case get_alarm_node (dat_list (d_dat d)) aid key unacknowledged get_next of
        None \<Rightarrow> None
      | Some i \<Rightarrow> Some (dat_list (d_dat d) ! i))"

section \<open>The file\<close>

definition oh_alarms_to_file ::
    "file_io \<Rightarrow> oh_dat \<Rightarrow> SaErrorT \<times> SaHpiAlarmT list option"
where
  "oh_alarms_to_file io tab =
     (if \<not> f_opened io then (SA_ERR_HPI_ERROR, None)
      else (if length (dat_list tab) \<le> f_written io then SA_OK else SA_ERR_HPI_ERROR,
            Some (take (f_written io) (dat_list tab))))"

section \<open>Adding alarms\<close>

text \<open>
  The three results are the reference to the new alarm, the caller's alarm with its id and
  timestamp filled in, and the domain.
\<close>

definition oh_add_alarm ::
    "global_params \<Rightarrow> file_io \<Rightarrow> (nat \<Rightarrow> u64) \<Rightarrow> oh_domain \<Rightarrow> SaHpiAlarmT option \<Rightarrow> bool \<Rightarrow>
       SaHpiAlarmT option \<times> SaHpiAlarmT option \<times> oh_domain"
where
  "oh_add_alarm gp io clk d alarm fromfile =
     (if dat_size_limit gp \<noteq> OH_MAX_DAT_SIZE_LIMIT \<and>
         of_nat (length (dat_list (d_dat d))) \<ge> dat_size_limit gp then
        (None, alarm, d\<lparr>d_dat := (d_dat d)\<lparr>dat_overflow := True\<rparr>\<rparr>)
      else if (case alarm of None \<Rightarrow> False | Some a0 \<Rightarrow>
                 cond_Type (AlarmCond a0) = SAHPI_STATUS_COND_TYPE_USER \<and>
                 dat_user_limit gp \<noteq> OH_MAX_DAT_USER_LIMIT \<and>
                 count_alarms d (Some (cond_Type (AlarmCond a0))) SAHPI_ALL_SEVERITIES
                   \<ge> dat_user_limit gp) then
        (None, alarm, d)
      else
        let a = (case alarm of None \<Rightarrow> zero_alarm | Some a0 \<Rightarrow> a0);
            (a, dat) =
              (if fromfile then
                 (a, if AlarmId a > dat_next_id (d_dat d)
                     then (d_dat d)\<lparr>dat_next_id := AlarmId a\<rparr> else d_dat d)
               else
                 (a\<lparr>AlarmId := dat_next_id (d_dat d) + 1, al_Timestamp := clk 0,
                    Acknowledged := False\<rparr>,
                  (d_dat d)\<lparr>dat_next_id := dat_next_id (d_dat d) + 1\<rparr>));
            a = a\<lparr>AlarmCond := (AlarmCond a)\<lparr>cond_DomainId := d_id d\<rparr>\<rparr>;
            d = d\<lparr>d_dat := dat\<lparr>dat_list := dat_list dat @ [a]\<rparr>\<rparr>;
            alarm = map_option (\<lambda>a0. a0\<lparr>AlarmId := AlarmId a, al_Timestamp := al_Timestamp a\<rparr>) alarm;
            d = (if fromfile then d
                 else
                   let d = update_dat (clk 1) d
                   in if dat_save gp then
                        (case snd (oh_alarms_to_file io (d_dat d)) of
                           None \<Rightarrow> d
                         | Some file \<Rightarrow>
                             d\<lparr>dat_file := Some (table_path (varpath gp) ''dat'' (d_id d), file)\<rparr>)
                      else d)
        in (Some a, alarm, d))"

text \<open>
  Reading a file: the alarms are added one by one until one is refused; \<open>file = None\<close> means that
  it could not be opened.
\<close>

fun alarms_from_loop :: "global_params \<Rightarrow> oh_domain \<Rightarrow> SaHpiAlarmT list \<Rightarrow> SaErrorT \<times> oh_domain" where
  "alarms_from_loop gp d [] = (SA_OK, d)"
| "alarms_from_loop gp d (alarm # file) =
     (case oh_add_alarm gp \<lparr>f_opened = False, f_written = 0\<rparr> (\<lambda>_. 0) d (Some alarm) True of
        (None, _, d') \<Rightarrow> (SA_ERR_HPI_ERROR, d')
      | (Some _, _, d') \<Rightarrow> alarms_from_loop gp d' file)"

definition oh_alarms_from_file ::
    "global_params \<Rightarrow> oh_domain \<Rightarrow> SaHpiAlarmT list option \<Rightarrow> SaErrorT \<times> oh_domain"
where
  "oh_alarms_from_file gp d file =
     (case file of None \<Rightarrow> (SA_ERR_HPI_ERROR, d) | Some alarms \<Rightarrow> alarms_from_loop gp d alarms)"

section \<open>Removing alarms\<close>

definition mask_hits :: "u16 option \<Rightarrow> SaHpiAlarmT \<Rightarrow> bool" where
  "mask_hits deassert_mask alarm =
     (case deassert_mask of None \<Rightarrow> True
      | Some m \<Rightarrow> m AND cond_EventState (AlarmCond alarm) \<noteq> 0)"

lemma alarm_node_ascends:
  "get_alarm_node l (Some aid) key u True = Some i \<Longrightarrow> aid < AlarmId (l ! i)"
  by (auto simp: get_alarm_node_def split: if_splits dest: find_index_Some)

text \<open>The \<^verbatim>\<open>do .. while (multi)\<close> loop of \<open>oh_remove_alarm\<close>. The id it looks behind ascends.\<close>

function remove_alarm_loop ::
    "alarm_key \<Rightarrow> u16 option \<Rightarrow> bool \<Rightarrow> u32 \<Rightarrow> SaHpiAlarmT list \<Rightarrow> SaHpiAlarmT list"
where
  "remove_alarm_loop key deassert_mask multi aid l =
     (case get_alarm_node l (Some aid) key False True of
        None \<Rightarrow> l
      | Some i \<Rightarrow>
          (let alarm = l ! i;
               l' = (if mask_hits deassert_mask alarm then drop_nth i l else l)
           in if multi then remove_alarm_loop key deassert_mask multi (AlarmId alarm) l' else l'))"
  by pat_completeness auto

termination
proof (relation "measure (\<lambda>(key, m, multi, aid, l). 2 ^ 32 - unat aid)")
  fix key :: alarm_key and m :: "u16 option" and multi :: bool and aid :: u32
    and l x xa xb
  assume "get_alarm_node l (Some aid) key False True = Some x"
    and "xa = l ! x"
  then have "aid < AlarmId xa" by (simp add: alarm_node_ascends)
  moreover have "unat (AlarmId xa) < 2 ^ 32" using unsigned_less [of "AlarmId xa"] by simp
  ultimately show "((key, m, multi, AlarmId xa, xb), key, m, multi, aid, l)
      \<in> measure (\<lambda>(key, m, multi, aid, l). 2 ^ 32 - unat aid)"
    by (simp add: word_less_nat_alt)
qed simp

declare remove_alarm_loop.simps [simp del]

definition oh_remove_alarm ::
    "global_params \<Rightarrow> u64 \<Rightarrow> oh_domain \<Rightarrow> alarm_key \<Rightarrow> u16 option \<Rightarrow> bool \<Rightarrow> SaErrorT \<times> oh_domain"
where
  "oh_remove_alarm gp now d key deassert_mask multi =
     (let d = d\<lparr>d_dat := (d_dat d)\<lparr>dat_list :=
                remove_alarm_loop key deassert_mask multi SAHPI_FIRST_ENTRY (dat_list (d_dat d))\<rparr>\<rparr>;
          d = update_dat now d;
          d = (if dat_size_limit gp \<noteq> OH_MAX_DAT_SIZE_LIMIT \<and>
                  of_nat (length (dat_list (d_dat d))) < dat_size_limit gp
               then d\<lparr>d_dat := (d_dat d)\<lparr>dat_overflow := False\<rparr>\<rparr> else d)
      in (SA_OK, d))"

definition oh_close_alarmtable :: "global_params \<Rightarrow> u64 \<Rightarrow> oh_domain \<Rightarrow> SaErrorT \<times> oh_domain" where
  "oh_close_alarmtable gp now d =
     (let (error, d) = oh_remove_alarm gp now d any_alarm None True
      in (error, d\<lparr>d_dat := (d_dat d)\<lparr>dat_next_id := 0, dat_update_count := 0,
                     dat_update_timestamp := SAHPI_TIME_UNSPECIFIED\<rparr>\<rparr>))"

section \<open>Alarms from events\<close>

text \<open>
  What the handlers read and write beside the domain: the global parameters, the table of
  resource ids and the outcome of saving the alarm table.
\<close>

record alarm_env =
  gparams :: global_params
  uids :: uid_state
  fio :: file_io

text \<open>\<open>oh_entity_path_lookup\<close> into a zeroed condition.\<close>

definition lookup_entity :: "alarm_env \<Rightarrow> u32 \<Rightarrow> SaHpiEntityPathT" where
  "lookup_entity env rid =
     (case snd (oh_entity_path_lookup (uids env) rid) of None \<Rightarrow> zero_ep | Some ep \<Rightarrow> ep)"

definition add_alarm :: "alarm_env \<Rightarrow> (nat \<Rightarrow> u64) \<Rightarrow> oh_domain \<Rightarrow> SaHpiAlarmT \<Rightarrow> oh_domain" where
  "add_alarm env clk d a = snd (snd (oh_add_alarm (gparams env) (fio env) clk d (Some a) False))"

definition remove_alarms ::
    "alarm_env \<Rightarrow> u64 \<Rightarrow> oh_domain \<Rightarrow> alarm_key \<Rightarrow> u16 option \<Rightarrow> oh_domain"
where
  "remove_alarms env now d key dmask = snd (oh_remove_alarm (gparams env) now d key dmask True)"

definition oh_detect_oem_event_alarm ::
    "alarm_env \<Rightarrow> (nat \<Rightarrow> u64) \<Rightarrow> oh_domain \<Rightarrow> SaHpiEventT \<Rightarrow> SaHpiOemEventT \<Rightarrow> oh_domain"
where
  "oh_detect_oem_event_alarm env clk d event oem =
     (if Severity event > SAHPI_MINOR then
        remove_alarms env (clk 0) d
          (any_alarm\<lparr>k_type := Some SAHPI_STATUS_COND_TYPE_OEM, k_rid := Some (Source event),
                     k_mid := Some (oem_MId oem)\<rparr>) None
      else
        add_alarm env clk d
          (zero_alarm\<lparr>al_Severity := Severity event,
             AlarmCond := zero_condition\<lparr>cond_Type := SAHPI_STATUS_COND_TYPE_OEM,
               cond_Entity := lookup_entity env (Source event), cond_ResourceId := Source event,
               cond_Mid := oem_MId oem, cond_Data := OemEventData oem\<rparr>\<rparr>))"

definition oh_detect_resource_event_alarm ::
    "alarm_env \<Rightarrow> (nat \<Rightarrow> u64) \<Rightarrow> oh_domain \<Rightarrow> SaHpiEventT \<Rightarrow> SaHpiResourceEventTypeT \<Rightarrow> oh_domain"
where
  "oh_detect_resource_event_alarm env clk d event rtype =
     (if rtype \<noteq> SAHPI_RESE_RESOURCE_FAILURE then
        remove_alarms env (clk 0) d
          (any_alarm\<lparr>k_type := Some SAHPI_STATUS_COND_TYPE_RESOURCE, k_rid := Some (Source event)\<rparr>)
          None
      else if Severity event \<le> SAHPI_MINOR then
        add_alarm env clk d
          (zero_alarm\<lparr>al_Severity := Severity event,
             AlarmCond := zero_condition\<lparr>cond_Type := SAHPI_STATUS_COND_TYPE_RESOURCE,
               cond_Entity := lookup_entity env (Source event),
               cond_ResourceId := Source event\<rparr>\<rparr>)
      else d)"

definition oh_detect_sensor_event_alarm ::
    "alarm_env \<Rightarrow> (nat \<Rightarrow> u64) \<Rightarrow> oh_domain \<Rightarrow> SaHpiEventT \<Rightarrow> SaHpiSensorEventT \<Rightarrow> oh_domain"
where
  "oh_detect_sensor_event_alarm env clk d event se =
     (let key = any_alarm\<lparr>k_type := Some SAHPI_STATUS_COND_TYPE_SENSOR,
                  k_rid := Some (Source event), k_num := Some (se_SensorNum se)\<rparr>;
          d = (if se_OptionalDataPresent se AND SAHPI_SOD_CURRENT_STATE \<noteq> 0
               then remove_alarms env (clk 0) d key (Some (NOT (se_CurrentState se))) else d);
          clk = (\<lambda>n. clk (Suc n))
      in if \<not> se_Assertion se then
           remove_alarms env (clk 0) d (key\<lparr>k_state := Some (se_EventState se)\<rparr>) None
         else if Severity event \<le> SAHPI_MINOR \<and> se_Assertion se then
           add_alarm env clk d
             (zero_alarm\<lparr>al_Severity := Severity event,
                AlarmCond := zero_condition\<lparr>cond_Type := SAHPI_STATUS_COND_TYPE_SENSOR,
                  cond_Entity := lookup_entity env (Source event),
                  cond_ResourceId := Source event, cond_SensorNum := se_SensorNum se,
                  cond_EventState := se_EventState se\<rparr>\<rparr>)
         else d)"

definition oh_detect_sensor_enable_change_alarm ::
    "alarm_env \<Rightarrow> (nat \<Rightarrow> u64) \<Rightarrow> oh_domain \<Rightarrow> SaHpiEventT \<Rightarrow> SaHpiSensorEnableChangeEventT \<Rightarrow> oh_domain"
where
  "oh_detect_sensor_enable_change_alarm env clk d event sec =
     (if \<not> sec_SensorEnable sec \<or> \<not> sec_SensorEventEnable sec then
        remove_alarms env (clk 0) d
          (any_alarm\<lparr>k_type := Some SAHPI_STATUS_COND_TYPE_SENSOR, k_rid := Some (Source event),
                     k_num := Some (sec_SensorNum sec)\<rparr>) None
      else d)"

definition oh_remove_resource_alarms ::
    "alarm_env \<Rightarrow> (nat \<Rightarrow> u64) \<Rightarrow> oh_domain \<Rightarrow> u32 \<Rightarrow> bool \<Rightarrow> oh_domain"
where
  "oh_remove_resource_alarms env clk d rid everything =
     (if rid = 0 then d
      else
        let rm = (\<lambda>now type d. remove_alarms env now d
                    (any_alarm\<lparr>k_type := Some type, k_rid := Some rid\<rparr>) None);
            d = rm (clk 0) SAHPI_STATUS_COND_TYPE_RESOURCE d
        in if everything then
             rm (clk 2) SAHPI_STATUS_COND_TYPE_SENSOR (rm (clk 1) SAHPI_STATUS_COND_TYPE_OEM d)
           else d)"

definition oh_detect_hpi_alarm ::
    "alarm_env \<Rightarrow> (nat \<Rightarrow> u64) \<Rightarrow> oh_domain \<Rightarrow> SaHpiEventT \<Rightarrow> oh_domain"
where
  "oh_detect_hpi_alarm env clk d event =
     (case EventDataUnion event of
        OemEvent oem \<Rightarrow> oh_detect_oem_event_alarm env clk d event oem
      | ResourceEvent rtype \<Rightarrow> oh_detect_resource_event_alarm env clk d event rtype
      | SensorEvent se \<Rightarrow> oh_detect_sensor_event_alarm env clk d event se
      | SensorEnableChangeEvent sec \<Rightarrow> oh_detect_sensor_enable_change_alarm env clk d event sec
      | _ \<Rightarrow> d)"

definition oh_detect_resource_alarm ::
    "alarm_env \<Rightarrow> (nat \<Rightarrow> u64) \<Rightarrow> oh_domain \<Rightarrow> SaHpiRptEntryT \<Rightarrow> oh_domain"
where
  "oh_detect_resource_alarm env clk d res =
     (if \<not> ResourceFailed res \<or> ResourceSeverity res > SAHPI_MINOR then
        remove_alarms env (clk 0) d
          (any_alarm\<lparr>k_type := Some SAHPI_STATUS_COND_TYPE_RESOURCE,
                     k_rid := Some (ResourceId res)\<rparr>) None
      else if ResourceSeverity res \<le> SAHPI_MINOR \<and> ResourceFailed res then
        add_alarm env clk d
          (zero_alarm\<lparr>al_Severity := ResourceSeverity res,
             AlarmCond := zero_condition\<lparr>cond_Type := SAHPI_STATUS_COND_TYPE_RESOURCE,
               cond_Entity := lookup_entity env (ResourceId res),
               cond_ResourceId := ResourceId res,
               cond_Mid := ManufacturerId (ResourceInfo res),
               cond_Data := ResourceTag res\<rparr>\<rparr>)
      else d)"

definition oh_detect_event_alarm ::
    "alarm_env \<Rightarrow> (nat \<Rightarrow> u64) \<Rightarrow> oh_domain \<Rightarrow> oh_event \<Rightarrow> SaErrorT \<times> oh_domain"
where
  "oh_detect_event_alarm env clk d e =
     (SA_OK,
      case EventDataUnion (e_event e) of
        ResourceEvent rtype \<Rightarrow>
          (if ResourceId (e_resource e) \<noteq> 0 then oh_detect_resource_alarm env clk d (e_resource e)
           else oh_detect_resource_event_alarm env clk d (e_event e) rtype)
      | HotSwapEvent hs \<Rightarrow>
          (if HotSwapState hs = SAHPI_HS_STATE_NOT_PRESENT then
             (let rid = ResourceId (e_resource e);
                  rid = (if rid = 0 then Source (e_event e) else rid)
              in oh_remove_resource_alarms env clk d rid True)
           else d)
      | _ \<Rightarrow> oh_detect_hpi_alarm env clk d (e_event e))"

end
