(* ===== verification/AlarmProps.thy ===== *)
theory AlarmProps
  imports Alarm
begin

text \<open>
  Properties of the domain alarm table: its invariant (ascending non-zero ids up to the last id
  given out, a length within the limits), what removing and adding do to it, the event handlers
  as operations on the list of alarms, and the round trip through the file.
\<close>

definition alarms :: "oh_domain \<Rightarrow> SaHpiAlarmT list" where
  "alarms d = dat_list (d_dat d)"

definition alarms_ok :: "u32 \<Rightarrow> SaHpiAlarmT list \<Rightarrow> bool" where
  "alarms_ok n l \<longleftrightarrow> sorted_wrt (<) (map AlarmId l) \<and> (\<forall>a \<in> set l. AlarmId a \<noteq> 0 \<and> AlarmId a \<le> n)"

definition dat_inv :: "oh_domain \<Rightarrow> bool" where
  "dat_inv d \<longleftrightarrow> alarms_ok (dat_next_id (d_dat d)) (alarms d)"

definition hit :: "alarm_key \<Rightarrow> u16 option \<Rightarrow> SaHpiAlarmT \<Rightarrow> bool" where
  "hit key m a \<longleftrightarrow> key_matches key a \<and> mask_hits m a"

section \<open>The removal loop\<close>

lemma find_index_split:
  "find_index P ys = Some i \<Longrightarrow>
    ys = take i ys @ ys ! i # drop (Suc i) ys \<and> (\<forall>x \<in> set (take i ys). \<not> P x) \<and> P (ys ! i)"
  using find_index_Some [of P ys i] by (auto simp: id_take_nth_drop in_set_conv_nth)

lemma node_behind:
  assumes "\<forall>a \<in> set xs. AlarmId a \<le> aid" and "\<forall>a \<in> set ys. aid < AlarmId a"
  shows "get_alarm_node (xs @ ys) (Some aid) key False True =
    map_option (\<lambda>i. length xs + i) (find_index (key_matches key) ys)"
proof (cases "aid = SAHPI_LAST_ENTRY")
  case True
  have "\<not> SAHPI_LAST_ENTRY < w" for w :: u32
    using unsigned_less [of w, where ?'a = nat] by (simp add: word_less_nat_alt)
  then have "ys = []" using assms(2) True by (cases ys) auto
  with True show ?thesis by (simp add: get_alarm_node_def)
next
  case False
  let ?P = "\<lambda>alarm. AlarmId alarm > aid \<and> key_matches key alarm"
  have "get_alarm_node (xs @ ys) (Some aid) key False True = find_index ?P (xs @ ys)"
    using False by (simp add: get_alarm_node_def)
  also have "\<dots> = map_option (\<lambda>i. length xs + i) (find_index ?P ys)"
    using assms(1) by (intro find_index_append) auto
  also have "find_index ?P ys = find_index (key_matches key) ys"
    using assms(2) by (induction ys) auto
  finally show ?thesis .
qed

lemma remove_loop_filter:
  "sorted_wrt (<) (map AlarmId ys) \<Longrightarrow> \<forall>a \<in> set xs. AlarmId a \<le> aid \<Longrightarrow>
    \<forall>a \<in> set ys. aid < AlarmId a \<Longrightarrow>
    remove_alarm_loop key m True aid (xs @ ys) = xs @ filter (\<lambda>a. \<not> hit key m a) ys"
proof (induction ys arbitrary: xs aid rule: length_induct)
  case (1 ys)
  note node = node_behind [OF "1.prems"(2,3), of key]
  show ?case
  proof (cases "find_index (key_matches key) ys")
    case None
    then have "filter (\<lambda>a. \<not> hit key m a) ys = ys"
      by (intro filter_True) (simp add: find_index_None hit_def)
    then show ?thesis using None node by (simp add: remove_alarm_loop.simps)
  next
    case (Some i)
    let ?us = "take i ys" and ?a = "ys ! i" and ?vs = "drop (Suc i) ys"
    have ys: "ys = ?us @ ?a # ?vs" and us: "\<forall>x \<in> set ?us. \<not> key_matches key x"
      and a: "key_matches key ?a" and i: "i < length ys"
      using find_index_split [OF Some] find_index_Some [OF Some] by blast+
    have nth: "(xs @ ys) ! (length xs + i) = ?a" by simp
    have dropn: "drop_nth (length xs + i) (xs @ ys) = (xs @ ?us) @ ?vs"
      using i by (simp add: drop_nth_def)
    have srt: "sorted_wrt (<) (map AlarmId (?us @ ?a # ?vs))" using "1.prems"(1) ys by metis
    have up: "\<forall>x \<in> set ?us. AlarmId x \<le> AlarmId ?a" "\<forall>x \<in> set ?vs. AlarmId ?a < AlarmId x"
      and svs: "sorted_wrt (<) (map AlarmId ?vs)"
      using srt by (auto simp: sorted_wrt_append)
    have "aid < AlarmId ?a" using "1.prems"(3) i by simp
    then have xs: "\<forall>x \<in> set xs. AlarmId x \<le> AlarmId ?a" using "1.prems"(2) by auto
    have len: "length ?vs < length ys" using i by simp
    have IH: "\<forall>x \<in> set ws. AlarmId x \<le> b \<Longrightarrow> \<forall>x \<in> set ?vs. b < AlarmId x \<Longrightarrow>
        remove_alarm_loop key m True b (ws @ ?vs) = ws @ filter (\<lambda>a. \<not> hit key m a) ?vs" for ws b
      using "1.IH" len svs by blast
    let ?keep = "if mask_hits m ?a then [] else [?a]"
    have list: "(if mask_hits m ?a then drop_nth (length xs + i) (xs @ ys) else xs @ ys) =
        (xs @ ?us @ ?keep) @ ?vs"
      using dropn ys by (auto simp del: take_append drop_append)
    have low: "\<forall>x \<in> set (xs @ ?us @ ?keep). AlarmId x \<le> AlarmId ?a" using xs up(1) by auto
    have "remove_alarm_loop key m True aid (xs @ ys) =
        remove_alarm_loop key m True (AlarmId ?a) ((xs @ ?us @ ?keep) @ ?vs)"
      using node Some nth list by (simp add: remove_alarm_loop.simps [of key m True aid] Let_def del: append_assoc)
    also have "\<dots> = (xs @ ?us @ ?keep) @ filter (\<lambda>a. \<not> hit key m a) ?vs"
      by (rule IH [OF low up(2)])
    also have "\<dots> = xs @ filter (\<lambda>a. \<not> hit key m a) (?us @ ?a # ?vs)"
      using us a by (simp add: hit_def)
    finally show ?thesis using ys by simp
  qed
qed

lemma remove_loop_all:
  "alarms_ok n l \<Longrightarrow> remove_alarm_loop key m True SAHPI_FIRST_ENTRY l = filter (\<lambda>a. \<not> hit key m a) l"
  using remove_loop_filter [of l "[]" 0 key m] by (simp add: alarms_ok_def word_gt_0)

section \<open>The operations on the list of alarms\<close>

lemma alarms_ok_filter: "alarms_ok n l \<Longrightarrow> alarms_ok n (filter P l)"
  by (auto simp: alarms_ok_def sorted_wrt_map sorted_wrt_filter)

lemma alarms_ok_mono: "alarms_ok n l \<Longrightarrow> n \<le> k \<Longrightarrow> alarms_ok k l"
  by (auto simp: alarms_ok_def)

lemma alarms_ok_snoc:
  "alarms_ok n l \<Longrightarrow> n < AlarmId a \<Longrightarrow> alarms_ok (AlarmId a) (l @ [a])"
  by (fastforce simp: alarms_ok_def sorted_wrt_append)

text \<open>What removing does to the domain: nothing but the alarm table changes.\<close>

lemma remove_alarm_domain:
  "dat_inv d \<Longrightarrow>
    alarms (snd (oh_remove_alarm gp now d key m True)) = filter (\<lambda>a. \<not> hit key m a) (alarms d)"
  by (simp add: oh_remove_alarm_def Let_def alarms_def update_dat_def dat_inv_def remove_loop_all)

lemma remove_alarm_same [simp]:
  "d_id (snd (oh_remove_alarm gp now d key m multi)) = d_id d"
  "dat_next_id (d_dat (snd (oh_remove_alarm gp now d key m multi))) = dat_next_id (d_dat d)"
  "d_rpt (snd (oh_remove_alarm gp now d key m multi)) = d_rpt d"
  "d_del (snd (oh_remove_alarm gp now d key m multi)) = d_del d"
  by (simp_all add: oh_remove_alarm_def Let_def update_dat_def)

lemma remove_alarm_inv [inv_intros]:
  "dat_inv d \<Longrightarrow> dat_inv (snd (oh_remove_alarm gp now d key m True))"
  using remove_alarm_domain [of d gp now key m] by (simp add: dat_inv_def alarms_ok_filter)

section \<open>The limits\<close>

definition user_alarm :: "SaHpiAlarmT \<Rightarrow> bool" where
  "user_alarm a \<longleftrightarrow> cond_Type (AlarmCond a) = SAHPI_STATUS_COND_TYPE_USER"

definition user_count :: "oh_domain \<Rightarrow> nat" where
  "user_count d = length (filter user_alarm (alarms d))"

definition within_limits :: "global_params \<Rightarrow> oh_domain \<Rightarrow> bool" where
  "within_limits gp d \<longleftrightarrow>
     (dat_size_limit gp \<noteq> 0 \<longrightarrow> length (alarms d) \<le> unat (dat_size_limit gp)) \<and>
     (dat_user_limit gp \<noteq> 0 \<longrightarrow> user_count d \<le> unat (dat_user_limit gp))"

text \<open>When there is no room for the alarm.\<close>

definition no_room :: "global_params \<Rightarrow> oh_domain \<Rightarrow> bool" where
  "no_room gp d \<longleftrightarrow> dat_size_limit gp \<noteq> 0 \<and> of_nat (length (alarms d)) \<ge> dat_size_limit gp"

definition no_user_room :: "global_params \<Rightarrow> oh_domain \<Rightarrow> SaHpiAlarmT \<Rightarrow> bool" where
  "no_user_room gp d a \<longleftrightarrow> user_alarm a \<and> dat_user_limit gp \<noteq> 0 \<and>
     of_nat (user_count d) \<ge> dat_user_limit gp"

text \<open>The alarm as it is stored.\<close>

definition stored_alarm :: "u64 \<Rightarrow> oh_domain \<Rightarrow> SaHpiAlarmT \<Rightarrow> SaHpiAlarmT" where
  "stored_alarm now d a = a\<lparr>AlarmId := dat_next_id (d_dat d) + 1, al_Timestamp := now,
     Acknowledged := False, AlarmCond := (AlarmCond a)\<lparr>cond_DomainId := d_id d\<rparr>\<rparr>"

lemma count_user: "count_alarms d (Some SAHPI_STATUS_COND_TYPE_USER) SAHPI_ALL_SEVERITIES =
    of_nat (user_count d)"
  by (simp add: count_alarms_def user_count_def opt_eq_def alarms_def user_alarm_def cong: filter_cong)

lemma add_alarm_domain:
  "alarms (snd (snd (oh_add_alarm gp io clk d (Some a) False))) =
     (if no_room gp d \<or> no_user_room gp d a then alarms d else alarms d @ [stored_alarm (clk 0) d a])"
  "dat_next_id (d_dat (snd (snd (oh_add_alarm gp io clk d (Some a) False)))) =
     (if no_room gp d \<or> no_user_room gp d a then dat_next_id (d_dat d) else dat_next_id (d_dat d) + 1)"
  "d_id (snd (snd (oh_add_alarm gp io clk d (Some a) False))) = d_id d"
  "d_rpt (snd (snd (oh_add_alarm gp io clk d (Some a) False))) = d_rpt d"
  "d_del (snd (snd (oh_add_alarm gp io clk d (Some a) False))) = d_del d"
  by (auto simp: oh_add_alarm_def Let_def update_dat_def alarms_def no_room_def no_user_room_def
      count_user user_alarm_def stored_alarm_def split: option.splits)

lemma add_alarm_inv [inv_intros]:
  assumes "dat_inv d" and "dat_next_id (d_dat d) + 1 \<noteq> 0"
  shows "dat_inv (snd (snd (oh_add_alarm gp io clk d (Some a) False)))"
proof -
  let ?n = "dat_next_id (d_dat d)"
  have "?n < ?n + 1" using assms(2) by (simp add: word_less_succ)
  then have "alarms_ok (?n + 1) (alarms d @ [stored_alarm (clk 0) d a])"
    using alarms_ok_snoc [of ?n "alarms d" "stored_alarm (clk 0) d a"] assms(1)
    by (simp add: dat_inv_def stored_alarm_def)
  then show ?thesis using assms(1) by (simp add: dat_inv_def add_alarm_domain)
qed

lemma room_left:
  fixes k :: u32
  assumes "k \<noteq> 0" and "\<not> of_nat n \<ge> k" and "n \<le> unat k"
  shows "Suc n \<le> unat k"
proof -
  have "unat (of_nat n :: u32) = n" using assms(3) by (rule unat_of_small)
  then show ?thesis using assms(2) by (simp add: word_le_nat_alt)
qed

lemma add_alarm_limits:
  assumes "within_limits gp d"
  shows "within_limits gp (snd (snd (oh_add_alarm gp io clk d (Some a) False)))"
proof (cases "no_room gp d \<or> no_user_room gp d a")
  case True
  then show ?thesis using assms by (simp add: within_limits_def user_count_def add_alarm_domain)
next
  case False
  have "user_alarm (stored_alarm (clk 0) d a) = user_alarm a"
    by (simp add: stored_alarm_def user_alarm_def)
  then show ?thesis using False assms room_left
    by (auto simp: within_limits_def user_count_def add_alarm_domain no_room_def no_user_room_def)
qed

lemma remove_alarm_limits:
  assumes "dat_inv d" and "within_limits gp d"
  shows "within_limits gp (snd (oh_remove_alarm gp now d key m True))"
proof -
  let ?d = "snd (oh_remove_alarm gp now d key m True)"
  have "length (alarms ?d) \<le> length (alarms d)" using assms(1) by (simp add: remove_alarm_domain)
  moreover have "user_count ?d \<le> user_count d"
    using assms(1) length_filter_le [of "\<lambda>a. \<not> hit key m a" "filter user_alarm (alarms d)"]
    by (simp only: user_count_def remove_alarm_domain filter_filter conj_commute)
  ultimately show ?thesis using assms(2) by (auto simp: within_limits_def)
qed

section \<open>The event handlers\<close>

lemma remove_alarms_list:
  "dat_inv d \<Longrightarrow> alarms (remove_alarms env now d key m) = filter (\<lambda>a. \<not> hit key m a) (alarms d)"
  by (simp add: remove_alarms_def remove_alarm_domain)

lemma remove_alarms_keep [simp]:
  "dat_inv d \<Longrightarrow> dat_inv (remove_alarms env now d key m)"
  "dat_next_id (d_dat (remove_alarms env now d key m)) = dat_next_id (d_dat d)"
  "d_id (remove_alarms env now d key m) = d_id d"
  "d_rpt (remove_alarms env now d key m) = d_rpt d"
  "d_del (remove_alarms env now d key m) = d_del d"
  by (simp_all add: remove_alarms_def remove_alarm_inv)

lemma remove_alarms_within [simp]:
  "dat_inv d \<Longrightarrow> gparams env = gp \<Longrightarrow> within_limits gp d \<Longrightarrow>
    within_limits gp (remove_alarms env now d key m)"
  by (auto simp: remove_alarms_def remove_alarm_limits)

lemma add_alarm_keep [simp]:
  "dat_inv d \<Longrightarrow> dat_next_id (d_dat d) + 1 \<noteq> 0 \<Longrightarrow> dat_inv (add_alarm env clk d a)"
  "gparams env = gp \<Longrightarrow> within_limits gp d \<Longrightarrow> within_limits gp (add_alarm env clk d a)"
  "d_id (add_alarm env clk d a) = d_id d"
  "d_rpt (add_alarm env clk d a) = d_rpt d"
  "d_del (add_alarm env clk d a) = d_del d"
  by (auto simp: add_alarm_def add_alarm_inv add_alarm_limits add_alarm_domain)

lemmas detect_defs = oh_detect_event_alarm_def oh_detect_hpi_alarm_def oh_detect_resource_alarm_def
  oh_detect_oem_event_alarm_def oh_detect_resource_event_alarm_def oh_detect_sensor_event_alarm_def
  oh_detect_sensor_enable_change_alarm_def oh_remove_resource_alarms_def Let_def

text \<open>Every handler only removes and adds alarms, so it keeps what both keep.\<close>

lemma detect_event_keeps:
  assumes rm: "\<And>d now key m. P d \<Longrightarrow> P (remove_alarms env now d key m)"
    and add: "\<And>d clk a. P d \<Longrightarrow> P (add_alarm env clk d a)"
    and "P d"
  shows "P (snd (oh_detect_event_alarm env clk d e))"
  using \<open>P d\<close>
  by (cases "EventDataUnion (e_event e)") (auto simp: detect_defs intro!: rm add)

lemma detect_event_same [simp]:
  "d_id (snd (oh_detect_event_alarm env clk d e)) = d_id d"
  "d_rpt (snd (oh_detect_event_alarm env clk d e)) = d_rpt d"
  "d_del (snd (oh_detect_event_alarm env clk d e)) = d_del d"
  by (rule detect_event_keeps; simp)+

lemma detect_event_limits:
  assumes "gparams env = gp" and "dat_inv d" and "within_limits gp d"
    and "dat_next_id (d_dat d) + 1 \<noteq> 0"
  shows "dat_inv (snd (oh_detect_event_alarm env clk d e)) \<and>
    within_limits gp (snd (oh_detect_event_alarm env clk d e))"
  using assms
  by (cases "EventDataUnion (e_event e)") (auto simp: detect_defs)

section \<open>Reachable tables\<close>

inductive alarm_step :: "global_params \<Rightarrow> oh_domain \<Rightarrow> oh_domain \<Rightarrow> bool" for gp where
  event: "gparams env = gp \<Longrightarrow> dat_next_id (d_dat d) + 1 \<noteq> 0 \<Longrightarrow>
    alarm_step gp d (snd (oh_detect_event_alarm env clk d e))"
| added: "dat_next_id (d_dat d) + 1 \<noteq> 0 \<Longrightarrow>
    alarm_step gp d (snd (snd (oh_add_alarm gp io clk d (Some a) False)))"
| removed: "alarm_step gp d (snd (oh_remove_alarm gp now d key m True))"

lemma alarm_step_keeps:
  "alarm_step gp d d' \<Longrightarrow> dat_inv d \<and> within_limits gp d \<Longrightarrow> dat_inv d' \<and> within_limits gp d'"
  by (induction rule: alarm_step.induct)
    (auto simp: detect_event_limits add_alarm_inv add_alarm_limits remove_alarm_inv remove_alarm_limits)

lemma empty_table [simp]: "dat_list (d_dat d) = [] \<Longrightarrow> dat_inv d \<and> within_limits gp d"
  by (simp add: dat_inv_def alarms_def alarms_ok_def within_limits_def user_count_def)

text \<open>C35: however events, additions and removals follow each other, the alarm ids stay ascending,
  non-zero and at most the last id given out, the table never grows beyond its size limit and
  never has more user alarms than their limit; alarms are added as long as the ids, numbers of 32
  bits, have not all been given out.\<close>

theorem alarm_reachable:
  assumes "(alarm_step gp)\<^sup>*\<^sup>* d d'" and "dat_list (d_dat d) = []"
  shows "dat_inv d' \<and> within_limits gp d'"
  using assms(1)
proof (induction rule: rtranclp_induct)
  case base
  then show ?case using assms(2) by simp
next
  case (step y z)
  show ?case by (rule alarm_step_keeps [OF step(2,3)])
qed

definition demo_user_alarm :: SaHpiAlarmT where
  "demo_user_alarm = zero_alarm\<lparr>AlarmCond := zero_condition\<lparr>cond_Type := SAHPI_STATUS_COND_TYPE_USER\<rparr>\<rparr>"

definition demo_gp :: global_params where
  "demo_gp = (default_params [] [] [])\<lparr>dat_size_limit := 3, dat_user_limit := 1\<rparr>"

definition demo_add :: "oh_domain \<Rightarrow> SaHpiAlarmT \<Rightarrow> oh_domain" where
  "demo_add d a = snd (snd (oh_add_alarm demo_gp \<lparr>f_opened = False, f_written = 0\<rparr> of_nat d (Some a) False))"

theorem alarm_reachable_witness:
  "alarms (demo_add (demo_add (demo_domain 0) demo_user_alarm) demo_user_alarm) \<noteq> [] \<and>
   within_limits demo_gp (demo_add (demo_add (demo_domain 0) demo_user_alarm) demo_user_alarm)"
proof -
  let ?d = "demo_domain 0" and ?a = demo_user_alarm
  have n: "dat_next_id (d_dat ?d) + 1 \<noteq> 0" "dat_next_id (d_dat (demo_add ?d ?a)) + 1 \<noteq> 0"
    by code_simp+
  have step: "alarm_step demo_gp d (demo_add d ?a)" if "dat_next_id (d_dat d) + 1 \<noteq> 0" for d
    unfolding demo_add_def using that by (rule alarm_step.added)
  have "(alarm_step demo_gp)\<^sup>*\<^sup>* ?d (demo_add (demo_add ?d ?a) ?a)"
    using step [OF n(1)] step [OF n(2)] by (simp add: rtranclp.rtrancl_into_rtrancl)
  moreover have "dat_list (d_dat ?d) = []" by code_simp
  ultimately have "within_limits demo_gp (demo_add (demo_add ?d ?a) ?a)"
    using alarm_reachable by blast
  moreover have "alarms (demo_add (demo_add ?d ?a) ?a) \<noteq> []" by code_simp
  ultimately show ?thesis by simp
qed

section \<open>Removing\<close>

text \<open>C34: removing alarms by a key from a table with ascending ids removes exactly the alarms that the
  key and the deassert mask select, however they are spread over the table; the others keep their
  order, the last id given out stays, and the overflow flag is cleared when the table is below
  its limit.\<close>

theorem remove_alarm_correct:
  assumes "dat_inv d"
  shows "alarms (snd (oh_remove_alarm gp now d key m True)) =
      filter (\<lambda>a. \<not> (key_matches key a \<and> mask_hits m a)) (alarms d) \<and>
    dat_inv (snd (oh_remove_alarm gp now d key m True)) \<and>
    dat_next_id (d_dat (snd (oh_remove_alarm gp now d key m True))) = dat_next_id (d_dat d) \<and>
    dat_overflow (d_dat (snd (oh_remove_alarm gp now d key m True))) =
      (dat_overflow (d_dat d) \<and> \<not> (dat_size_limit gp \<noteq> 0 \<and>
         of_nat (length (alarms (snd (oh_remove_alarm gp now d key m True)))) < dat_size_limit gp))"
proof -
  have "dat_overflow (d_dat (snd (oh_remove_alarm gp now d key m True))) =
      (dat_overflow (d_dat d) \<and> \<not> (dat_size_limit gp \<noteq> 0 \<and>
         of_nat (length (alarms (snd (oh_remove_alarm gp now d key m True)))) < dat_size_limit gp))"
    by (simp add: oh_remove_alarm_def Let_def update_dat_def alarms_def)
  then show ?thesis using assms remove_alarm_domain [OF assms] remove_alarm_inv [OF assms]
    by (simp only: hit_def remove_alarm_same simp_thms)
qed

definition demo_alarm :: "u32 \<Rightarrow> u32 \<Rightarrow> SaHpiAlarmT" where
  "demo_alarm i rid = zero_alarm\<lparr>AlarmId := i, AlarmCond := zero_condition\<lparr>
     cond_Type := SAHPI_STATUS_COND_TYPE_RESOURCE, cond_ResourceId := rid\<rparr>\<rparr>"

definition demo_table :: "SaHpiAlarmT list \<Rightarrow> oh_domain" where
  "demo_table l = (demo_domain 0)\<lparr>d_dat := zero_dat\<lparr>dat_next_id := 9, dat_list := l\<rparr>\<rparr>"

definition rid_key :: "u32 \<Rightarrow> alarm_key" where
  "rid_key rid = any_alarm\<lparr>k_rid := Some rid\<rparr>"

theorem remove_alarm_correct_witness:
  "map AlarmId (alarms (snd (oh_remove_alarm demo_gp 5
     (demo_table [demo_alarm 1 7, demo_alarm 3 8, demo_alarm 6 7]) (rid_key 7) None True))) = [3]"
proof -
  have "dat_inv (demo_table [demo_alarm 1 7, demo_alarm 3 8, demo_alarm 6 7])" by code_simp
  from remove_alarm_correct [OF this, of demo_gp 5 "rid_key 7" None] show ?thesis
    by (simp only:) code_simp
qed

text \<open>On a table whose ids do not ascend, which a saved file can bring back, removing by a key
  may leave alarms behind that the key selects: the search only looks behind the last id.\<close>

lemma remove_alarm_unsorted:
  "\<exists>d a. a \<in> set (alarms (snd (oh_remove_alarm demo_gp now d (rid_key 7) None True))) \<and>
    key_matches (rid_key 7) a \<and>
    snd (oh_alarms_from_file demo_gp (demo_domain 0) (Some [demo_alarm 6 7, demo_alarm 3 7])) = d"
proof -
  let ?d = "snd (oh_alarms_from_file demo_gp (demo_domain 0) (Some [demo_alarm 6 7, demo_alarm 3 7]))"
  have l: "alarms ?d = [demo_alarm 6 7, demo_alarm 3 7]" by code_simp
  have "alarms (snd (oh_remove_alarm demo_gp now ?d (rid_key 7) None True)) =
      remove_alarm_loop (rid_key 7) None True 0 (alarms ?d)"
    by (simp add: oh_remove_alarm_def Let_def alarms_def update_dat_def)
  also have "\<dots> = [demo_alarm 3 7]" unfolding l by code_simp
  finally have "demo_alarm 3 7 \<in> set (alarms (snd (oh_remove_alarm demo_gp now ?d (rid_key 7) None True)))"
    by simp
  moreover have "key_matches (rid_key 7) (demo_alarm 3 7)" by code_simp
  ultimately show ?thesis by blast
qed

section \<open>Adding\<close>

text \<open>An alarm is refused exactly when the table or its share for user alarms is full, which changes
  nothing but, for a full table, the overflow flag; otherwise it is appended with the next id, the
  current time, not acknowledged and with the id of the domain, the caller gets its id and
  time back, and with saving switched on the file then holds the whole table.\<close>

lemma add_alarm_correct:
  "oh_add_alarm gp io clk d (Some a) False =
     (if no_room gp d then (None, Some a, d\<lparr>d_dat := (d_dat d)\<lparr>dat_overflow := True\<rparr>\<rparr>)
      else if no_user_room gp d a then (None, Some a, d)
      else
        let b = stored_alarm (clk 0) d a;
            dat = (d_dat d)\<lparr>dat_next_id := AlarmId b, dat_list := alarms d @ [b],
                    dat_update_count := dat_update_count (d_dat d) + 1,
                    dat_update_timestamp := clk 1\<rparr>;
            file = (if dat_save gp \<and> f_opened io
                    then Some (table_path (varpath gp) ''dat'' (d_id d), take (f_written io) (alarms d @ [b]))
                    else dat_file d)
        in (Some b, Some (a\<lparr>AlarmId := AlarmId b, al_Timestamp := clk 0\<rparr>),
            d\<lparr>d_dat := dat, dat_file := file\<rparr>))"
  by (simp add: oh_add_alarm_def Let_def alarms_def no_room_def no_user_room_def count_user user_alarm_def
      update_dat_def stored_alarm_def oh_alarms_to_file_def cong: conj_cong)

section \<open>The file\<close>

lemma room_small: "n < unat k \<Longrightarrow> \<not> of_nat n \<ge> k" for k :: u32
  using unat_of_small [of n k] by (simp add: word_le_nat_alt)

lemma within_room:
  assumes "dat_size_limit gp = 0 \<or> length (alarms d @ a # fs) \<le> unat (dat_size_limit gp)"
    and "dat_user_limit gp = 0 \<or> length (filter user_alarm (alarms d @ a # fs)) \<le> unat (dat_user_limit gp)"
  shows "\<not> no_room gp d" and "\<not> no_user_room gp d a"
  using assms room_small [of "length (alarms d)" "dat_size_limit gp"]
    room_small [of "length (filter user_alarm (alarms d))" "dat_user_limit gp"]
  by (auto simp: no_room_def no_user_room_def user_count_def)

lemma add_from_file:
  assumes "\<not> no_room gp d" and "\<not> no_user_room gp d a" and "dat_next_id (d_dat d) < AlarmId a"
    and "cond_DomainId (AlarmCond a) = d_id d"
  shows "\<exists>b. oh_add_alarm gp io clk d (Some a) True =
    (Some a, b, d\<lparr>d_dat := (d_dat d)\<lparr>dat_next_id := AlarmId a, dat_list := alarms d @ [a]\<rparr>\<rparr>)"
proof -
  have "a\<lparr>AlarmCond := (AlarmCond a)\<lparr>cond_DomainId := d_id d\<rparr>\<rparr> = a"
    using assms(4) by (cases a) auto
  then show ?thesis using assms(1-3)
    by (auto simp: oh_add_alarm_def Let_def alarms_def no_room_def no_user_room_def count_user user_alarm_def
        cong: conj_cong)
qed

definition last_id :: "u32 \<Rightarrow> SaHpiAlarmT list \<Rightarrow> u32" where
  "last_id n l = (if l = [] then n else AlarmId (last l))"

lemma alarms_ok_last: "alarms_ok n l \<Longrightarrow> alarms_ok (last_id 0 l) l"
  by (cases l rule: rev_cases) (auto simp: alarms_ok_def last_id_def sorted_wrt_append less_imp_le)

lemma from_loop_all:
  assumes "sorted_wrt (<) (map AlarmId fs)" and "\<forall>a \<in> set fs. dat_next_id (d_dat d) < AlarmId a"
    and "\<forall>a \<in> set fs. cond_DomainId (AlarmCond a) = d_id d"
    and "dat_size_limit gp = 0 \<or> length (alarms d @ fs) \<le> unat (dat_size_limit gp)"
    and "dat_user_limit gp = 0 \<or> length (filter user_alarm (alarms d @ fs)) \<le> unat (dat_user_limit gp)"
  shows "alarms_from_loop gp d fs =
    (SA_OK, d\<lparr>d_dat := (d_dat d)\<lparr>dat_next_id := last_id (dat_next_id (d_dat d)) fs,
                                dat_list := alarms d @ fs\<rparr>\<rparr>)"
  using assms
proof (induction fs arbitrary: d)
  case Nil
  then show ?case by (simp add: last_id_def alarms_def)
next
  case (Cons a fs)
  note rooms = within_room [OF Cons.prems(4,5)]
  have p: "dat_next_id (d_dat d) < AlarmId a" "cond_DomainId (AlarmCond a) = d_id d"
    using Cons.prems(2,3) by auto
  obtain b where b: "oh_add_alarm gp \<lparr>f_opened = False, f_written = 0\<rparr> (\<lambda>_. 0) d (Some a) True =
      (Some a, b, d\<lparr>d_dat := (d_dat d)\<lparr>dat_next_id := AlarmId a, dat_list := alarms d @ [a]\<rparr>\<rparr>)"
    using add_from_file [OF rooms p] by blast
  let ?d = "d\<lparr>d_dat := (d_dat d)\<lparr>dat_next_id := AlarmId a, dat_list := alarms d @ [a]\<rparr>\<rparr>"
  have "alarms_from_loop gp ?d fs =
      (SA_OK, ?d\<lparr>d_dat := (d_dat ?d)\<lparr>dat_next_id := last_id (dat_next_id (d_dat ?d)) fs,
                                     dat_list := alarms ?d @ fs\<rparr>\<rparr>)"
    using Cons.prems by (intro Cons.IH) (auto simp: alarms_def)
  then show ?case using b by (simp add: last_id_def alarms_def)
qed

text \<open>An alarm table that was written completely and is read into a domain of the same id whose
  table is empty is restored alarm by alarm, with ids, times and acknowledgements; the ids
  continue behind the last alarm of the file.\<close>

lemma alarm_file_roundtrip:
  assumes "dat_inv d" and "within_limits gp d"
    and "\<forall>a \<in> set (alarms d). cond_DomainId (AlarmCond a) = d_id d"
    and "f_opened io" and "length (alarms d) \<le> f_written io"
    and "d_id d0 = d_id d" and "d_dat d0 = zero_dat"
  shows "\<exists>d1. oh_alarms_from_file gp d0 (snd (oh_alarms_to_file io (d_dat d))) = (SA_OK, d1) \<and>
    alarms d1 = alarms d \<and> dat_inv d1 \<and> d_rpt d1 = d_rpt d0 \<and>
    dat_next_id (d_dat d1) = (if alarms d = [] then 0 else AlarmId (last (alarms d)))"
proof -
  let ?d = "d0\<lparr>d_dat := (d_dat d0)\<lparr>dat_next_id := last_id 0 (alarms d), dat_list := alarms d\<rparr>\<rparr>"
  have f: "snd (oh_alarms_to_file io (d_dat d)) = Some (alarms d)"
    using assms(4,5) by (simp add: oh_alarms_to_file_def alarms_def)
  have "alarms_from_loop gp d0 (alarms d) = (SA_OK, ?d)"
    using from_loop_all [of "alarms d" d0 gp] assms
    by (simp add: dat_inv_def alarms_ok_def within_limits_def user_count_def word_gt_0 zero_dat_def
        alarms_def [of d0] disj_imp)
  moreover have a: "alarms ?d = alarms d" by (simp add: alarms_def)
  moreover have "dat_inv ?d"
    using alarms_ok_last [OF assms(1) [unfolded dat_inv_def]] by (simp add: dat_inv_def alarms_def)
  ultimately show ?thesis using f
    by (simp add: oh_alarms_from_file_def last_id_def)
qed

lemma alarm_file_roundtrip_witness:
  "\<exists>d1. oh_alarms_from_file demo_gp (demo_domain 0) (snd (oh_alarms_to_file
     \<lparr>f_opened = True, f_written = 2\<rparr> (d_dat (demo_table [demo_alarm 1 7, demo_alarm 3 8])))) = (SA_OK, d1) \<and>
   dat_next_id (d_dat d1) = 3"
proof -
  let ?d = "demo_table [demo_alarm 1 7, demo_alarm 3 8]" and ?io = "\<lparr>f_opened = True, f_written = 2\<rparr>"
  have "dat_inv ?d" "within_limits demo_gp ?d"
    "\<forall>a \<in> set (alarms ?d). cond_DomainId (AlarmCond a) = d_id ?d"
    "f_opened ?io" "length (alarms ?d) \<le> f_written ?io" "d_id (demo_domain 0) = d_id ?d"
    "d_dat (demo_domain 0) = zero_dat" "alarms ?d \<noteq> []" "AlarmId (last (alarms ?d)) = 3"
    by (code_simp; simp)+
  from alarm_file_roundtrip [OF this(1-7)] this(8,9) show ?thesis by auto
qed

text \<open>Removing alarms does not rewrite the file, so the file of a saved table keeps the removed alarms
  and a restart brings them back.\<close>

lemma removed_alarm_returns:
  "\<exists>d d1. alarms (snd (oh_remove_alarm gp now d any_alarm None True)) = [] \<and>
    dat_file (snd (oh_remove_alarm gp now d any_alarm None True)) = Some (p, [demo_alarm 1 7]) \<and>
    oh_alarms_from_file demo_gp (demo_domain 0)
      (map_option snd (dat_file (snd (oh_remove_alarm gp now d any_alarm None True)))) = (SA_OK, d1) \<and>
    alarms d1 = [demo_alarm 1 7]"
proof -
  let ?d = "(demo_table [demo_alarm 1 7])\<lparr>dat_file := Some (p, [demo_alarm 1 7])\<rparr>"
  let ?r = "snd (oh_remove_alarm gp now ?d any_alarm None True)"
  have "remove_alarm_loop any_alarm None True 0 [demo_alarm 1 7] = []" by code_simp
  then have "alarms ?r = []"
    by (simp add: alarms_def oh_remove_alarm_def Let_def update_dat_def demo_table_def)
  moreover have f: "dat_file ?r = Some (p, [demo_alarm 1 7])"
    by (simp add: oh_remove_alarm_def Let_def update_dat_def)
  moreover have "alarms (snd (oh_alarms_from_file demo_gp (demo_domain 0) (Some [demo_alarm 1 7]))) = [demo_alarm 1 7]"
    "fst (oh_alarms_from_file demo_gp (demo_domain 0) (Some [demo_alarm 1 7])) = SA_OK"
    by code_simp+
  ultimately show ?thesis
    by (intro exI [of _ ?d] exI [of _ "snd (oh_alarms_from_file demo_gp (demo_domain 0) (Some [demo_alarm 1 7]))"])
      (simp add: prod_eq_iff)
qed

section \<open>What events do to the table\<close>

definition alarm_of :: "SaHpiStatusCondTypeT \<Rightarrow> u32 \<Rightarrow> SaHpiAlarmT \<Rightarrow> bool" where
  "alarm_of t rid a \<longleftrightarrow> cond_Type (AlarmCond a) = t \<and> cond_ResourceId (AlarmCond a) = rid"

definition sensor_alarm :: "u32 \<Rightarrow> u32 \<Rightarrow> SaHpiAlarmT \<Rightarrow> bool" where
  "sensor_alarm rid num a \<longleftrightarrow>
     alarm_of SAHPI_STATUS_COND_TYPE_SENSOR rid a \<and> cond_SensorNum (AlarmCond a) = num"

text \<open>The states of the sensor that an event says have gone.\<close>

definition state_gone :: "SaHpiSensorEventT \<Rightarrow> u16 \<Rightarrow> bool" where
  "state_gone se st \<longleftrightarrow>
     (se_OptionalDataPresent se AND SAHPI_SOD_CURRENT_STATE \<noteq> 0 \<and> NOT (se_CurrentState se) AND st \<noteq> 0) \<or>
     (\<not> se_Assertion se \<and> st = se_EventState se)"

lemma hit_keys:
  "hit (any_alarm\<lparr>k_type := Some t, k_rid := Some rid\<rparr>) None = alarm_of t rid"
  "hit (any_alarm\<lparr>k_type := Some SAHPI_STATUS_COND_TYPE_SENSOR, k_rid := Some rid, k_num := Some num\<rparr>)
     (Some m) = (\<lambda>a. sensor_alarm rid num a \<and> m AND cond_EventState (AlarmCond a) \<noteq> 0)"
  "hit (any_alarm\<lparr>k_type := Some SAHPI_STATUS_COND_TYPE_SENSOR, k_rid := Some rid, k_num := Some num,
         k_state := Some st\<rparr>) None =
     (\<lambda>a. sensor_alarm rid num a \<and> cond_EventState (AlarmCond a) = st)"
  by (auto simp: fun_eq_iff hit_def key_matches_def opt_eq_def any_alarm_def mask_hits_def
      alarm_of_def sensor_alarm_def)

lemma add_alarm_list:
  "alarms (add_alarm env clk d a) = (if no_room (gparams env) d \<or> no_user_room (gparams env) d a
     then alarms d else alarms d @ [stored_alarm (clk 0) d a])"
  by (simp add: add_alarm_def add_alarm_domain)

text \<open>A sensor event takes exactly those alarms of its sensor out of the table whose state the event
  says is gone, by its current state mask or by deasserting it, and adds an alarm only for an
  asserted event of at least minor severity, for that sensor and state.\<close>

lemma sensor_event_alarms:
  assumes "dat_inv d" and "EventDataUnion (e_event e) = SensorEvent se"
  shows "\<exists>new. alarms (snd (oh_detect_event_alarm env clk d e)) =
      filter (\<lambda>a. \<not> (sensor_alarm (Source (e_event e)) (se_SensorNum se) a \<and>
                    state_gone se (cond_EventState (AlarmCond a)))) (alarms d) @ new \<and>
    (new \<noteq> [] \<longrightarrow> se_Assertion se \<and> Severity (e_event e) \<le> SAHPI_MINOR) \<and>
    (\<forall>a \<in> set new. new = [a] \<and> sensor_alarm (Source (e_event e)) (se_SensorNum se) a \<and>
       cond_EventState (AlarmCond a) = se_EventState se \<and> al_Severity a = Severity (e_event e) \<and>
       \<not> Acknowledged a)"
proof -
  let ?g = "\<lambda>a. sensor_alarm (Source (e_event e)) (se_SensorNum se) a \<and>
      state_gone se (cond_EventState (AlarmCond a))"
  let ?key = "any_alarm\<lparr>k_type := Some SAHPI_STATUS_COND_TYPE_SENSOR, k_rid := Some (Source (e_event e)),
      k_num := Some (se_SensorNum se)\<rparr>"
  let ?d = "if se_OptionalDataPresent se AND SAHPI_SOD_CURRENT_STATE \<noteq> 0
      then remove_alarms env (clk 0) d ?key (Some (NOT (se_CurrentState se))) else d"
  have inv: "dat_inv ?d" using assms(1) by simp
  have l: "alarms ?d = filter (\<lambda>a. \<not> (se_OptionalDataPresent se AND SAHPI_SOD_CURRENT_STATE \<noteq> 0 \<and>
      sensor_alarm (Source (e_event e)) (se_SensorNum se) a \<and>
      NOT (se_CurrentState se) AND cond_EventState (AlarmCond a) \<noteq> 0)) (alarms d)"
    using assms(1) by (simp add: remove_alarms_list hit_keys)
  show ?thesis
  proof (cases "se_Assertion se")
    case False
    have "alarms (snd (oh_detect_event_alarm env clk d e)) = filter (\<lambda>a. \<not> ?g a) (alarms d)"
      using assms(2) False inv l
      by (auto simp: oh_detect_event_alarm_def oh_detect_hpi_alarm_def oh_detect_sensor_event_alarm_def
          Let_def remove_alarms_list hit_keys state_gone_def intro!: filter_cong)
    then show ?thesis by (intro exI [of _ "[]"]) simp
  next
    case True
    then have g: "alarms ?d = filter (\<lambda>a. \<not> ?g a) (alarms d)"
      unfolding l by (auto simp: state_gone_def intro!: filter_cong)
    show ?thesis
    proof (cases "Severity (e_event e) \<le> SAHPI_MINOR")
      case False
      have "snd (oh_detect_event_alarm env clk d e) = ?d"
        using assms(2) True False
        by (simp add: oh_detect_event_alarm_def oh_detect_hpi_alarm_def oh_detect_sensor_event_alarm_def Let_def)
      then show ?thesis using g by (intro exI [of _ "[]"]) simp
    next
      case sev: True
      obtain a where d: "snd (oh_detect_event_alarm env clk d e) = add_alarm env (\<lambda>n. clk (Suc n)) ?d a"
        and a: "sensor_alarm (Source (e_event e)) (se_SensorNum se) a"
          "cond_EventState (AlarmCond a) = se_EventState se" "al_Severity a = Severity (e_event e)"
        using assms(2) True sev
        by (simp add: oh_detect_event_alarm_def oh_detect_hpi_alarm_def oh_detect_sensor_event_alarm_def
            Let_def sensor_alarm_def alarm_of_def)
      have "sensor_alarm (Source (e_event e)) (se_SensorNum se) (stored_alarm t ?d a) \<and>
          cond_EventState (AlarmCond (stored_alarm t ?d a)) = se_EventState se \<and>
          al_Severity (stored_alarm t ?d a) = Severity (e_event e) \<and> \<not> Acknowledged (stored_alarm t ?d a)"
        for t
        using a by (simp add: stored_alarm_def sensor_alarm_def alarm_of_def)
      then show ?thesis
        unfolding d add_alarm_list g using True sev
        by (cases "no_room (gparams env) ?d \<or> no_user_room (gparams env) ?d a")
          (simp_all del: if_split, (rule exI [of _ "[]"], simp)?, (rule exI, rule conjI, rule refl, simp)?)
    qed
  qed
qed

definition demo_sensor_alarm :: "u32 \<Rightarrow> u16 \<Rightarrow> SaHpiAlarmT" where
  "demo_sensor_alarm i st = zero_alarm\<lparr>AlarmId := i, AlarmCond := zero_condition\<lparr>
     cond_Type := SAHPI_STATUS_COND_TYPE_SENSOR, cond_ResourceId := 7, cond_SensorNum := 4,
     cond_EventState := st\<rparr>\<rparr>"

definition demo_sensor_event :: SaHpiSensorEventT where
  "demo_sensor_event = \<lparr>se_SensorNum = 4, se_SensorType = 1, se_EventCategory = 1,
     se_Assertion = False, se_EventState = 2, se_OptionalDataPresent = 0, se_TriggerReading = [],
     se_TriggerThreshold = [], se_PreviousState = 0, se_CurrentState = 0, se_Oem = 0,
     se_SensorSpecific = 0\<rparr>"

definition demo_oh_event :: "u32 \<Rightarrow> u32 \<Rightarrow> SaHpiEventUnionT \<Rightarrow> oh_event" where
  "demo_oh_event rid sev u = \<lparr>e_hid = 1,
     e_event = \<lparr>Source = rid, Timestamp = 0, Severity = sev, EventDataUnion = u\<rparr>,
     e_resource = zero_rpt_entry, e_rdrs = [], e_rdrs_to_remove = []\<rparr>"

definition demo_env :: alarm_env where
  "demo_env = \<lparr>gparams = demo_gp, uids = uid_demo, fio = \<lparr>f_opened = False, f_written = 0\<rparr>\<rparr>"

lemma sensor_event_alarms_witness:
  "map AlarmId (alarms (snd (oh_detect_event_alarm demo_env of_nat
     (demo_table [demo_sensor_alarm 1 2, demo_sensor_alarm 2 4])
     (demo_oh_event 7 2 (SensorEvent demo_sensor_event))))) = [2]"
proof -
  let ?d = "demo_table [demo_sensor_alarm 1 2, demo_sensor_alarm 2 4]"
  let ?e = "demo_oh_event 7 2 (SensorEvent demo_sensor_event)"
  have i: "dat_inv ?d" by code_simp
  have e: "EventDataUnion (e_event ?e) = SensorEvent demo_sensor_event" by (simp add: demo_oh_event_def)
  obtain new where n: "alarms (snd (oh_detect_event_alarm demo_env of_nat ?d ?e)) =
      filter (\<lambda>a. \<not> (sensor_alarm (Source (e_event ?e)) (se_SensorNum demo_sensor_event) a \<and>
                    state_gone demo_sensor_event (cond_EventState (AlarmCond a)))) (alarms ?d) @ new"
    and "new \<noteq> [] \<longrightarrow> se_Assertion demo_sensor_event"
    using sensor_event_alarms [OF i e] by blast
  then have "new = []" by (auto simp: demo_sensor_event_def)
  then show ?thesis using n by (simp only: append_Nil2) code_simp
qed

text \<open>A hot swap event that reports a resource as not present takes every alarm about that resource
  out of the table, of whatever kind, except the alarms of users, and touches no other alarm.\<close>

lemma not_present_clears:
  assumes "dat_inv d" and "EventDataUnion (e_event e) = HotSwapEvent hs"
    and "HotSwapState hs = SAHPI_HS_STATE_NOT_PRESENT"
    and "rid = (if ResourceId (e_resource e) = 0 then Source (e_event e) else ResourceId (e_resource e))"
    and "rid \<noteq> 0"
  shows "alarms (snd (oh_detect_event_alarm env clk d e)) =
    filter (\<lambda>a. cond_ResourceId (AlarmCond a) \<noteq> rid \<or> user_alarm a) (alarms d)"
proof -
  let ?P = "\<lambda>a. cond_ResourceId (AlarmCond a) \<noteq> rid \<or> user_alarm a"
  have p: "?P a \<longleftrightarrow> \<not> alarm_of SAHPI_STATUS_COND_TYPE_RESOURCE rid a \<and>
      \<not> alarm_of SAHPI_STATUS_COND_TYPE_OEM rid a \<and> \<not> alarm_of SAHPI_STATUS_COND_TYPE_SENSOR rid a" for a
    by (cases "cond_Type (AlarmCond a)") (simp_all add: alarm_of_def user_alarm_def)
  have "snd (oh_detect_event_alarm env clk d e) = oh_remove_resource_alarms env clk d rid True"
    using assms(2-4) by (simp add: oh_detect_event_alarm_def Let_def)
  then show ?thesis unfolding p
    using assms(1,5) by (simp add: oh_remove_resource_alarms_def Let_def remove_alarms_list hit_keys conj_ac)
qed

lemma not_present_clears_witness:
  "map AlarmId (alarms (snd (oh_detect_event_alarm demo_env of_nat
     (demo_table [demo_sensor_alarm 1 2, demo_alarm 2 8, demo_alarm 3 7])
     (demo_oh_event 7 2 (HotSwapEvent \<lparr>HotSwapState = SAHPI_HS_STATE_NOT_PRESENT,
        PreviousHotSwapState = SAHPI_HS_STATE_ACTIVE, CauseOfStateChange = 0\<rparr>))))) = [2]"
proof -
  let ?d = "demo_table [demo_sensor_alarm 1 2, demo_alarm 2 8, demo_alarm 3 7]"
  let ?hs = "\<lparr>HotSwapState = SAHPI_HS_STATE_NOT_PRESENT,
        PreviousHotSwapState = SAHPI_HS_STATE_ACTIVE, CauseOfStateChange = 0\<rparr>"
  let ?e = "demo_oh_event 7 2 (HotSwapEvent ?hs)"
  have i: "dat_inv ?d" by code_simp
  have u: "EventDataUnion (e_event ?e) = HotSwapEvent ?hs" by (simp add: demo_oh_event_def)
  have h: "HotSwapState ?hs = SAHPI_HS_STATE_NOT_PRESENT" by simp
  have r: "(7 :: u32) = (if ResourceId (e_resource ?e) = 0 then Source (e_event ?e) else ResourceId (e_resource ?e))"
    by (simp add: demo_oh_event_def zero_rpt_entry_def)
  have "(7 :: u32) \<noteq> 0" by simp
  then have l: "alarms (snd (oh_detect_event_alarm demo_env of_nat ?d ?e)) =
      filter (\<lambda>a. cond_ResourceId (AlarmCond a) \<noteq> 7 \<or> user_alarm a) (alarms ?d)"
    by (rule not_present_clears [OF i u h r])
  show ?thesis unfolding l by code_simp
qed

end
