(* ===== verification/RefCount.thy ===== *)
theory RefCount
  imports Prelude
begin

text \<open>
  Reference counted objects shared by threads, as the daemon keeps its domains and its handlers: a
  table leads from an id to an object; a thread gets the object by looking it up and counting a
  reference under the lock of the table, and only then waits for the lock of the object; it gives
  the reference back before it leaves the lock; destroying takes the object out of the table, and
  whoever finds the count at its end frees it. \<open>bracket\<close> is the protocol, one step for each
  section that a lock protects and for each read or write of the count; the locale is the contract
  of the functions that the steps call, and its client is every interleaving of the steps.
\<close>

section \<open>The protocol\<close>

text \<open>
  Where the thread that holds the lock of an object is. \<open>In n\<close>: it holds \<open>n\<close> references (the lock
  is recursive). \<open>Dropped n\<close>: in the release of one more, after the decrement. The others are the
  stages of a destroy, whose thread holds \<open>n\<close> further references: it has the lock, has closed what
  the object owns, has taken it out of the table, has given its own reference back.
\<close>

datatype stage =
    Out
  | In nat
  | Dropped nat
  | Entered nat
  | Prepared nat
  | Unlinked nat
  | Counted nat

text \<open>How many threads wait for the lock of an object, to use it or to destroy it, and its owner.\<close>

record holders =
  waiting :: "nat \<Rightarrow> nat"
  destroyers :: "nat \<Rightarrow> nat"
  owner :: "nat \<Rightarrow> stage"

definition nobody :: holders where
  "nobody = \<lparr>waiting = \<lambda>_. 0, destroyers = \<lambda>_. 0, owner = \<lambda>_. Out\<rparr>"

text \<open>The functions of one kind of object; \<open>op_get\<close> is the part under the lock of the table.\<close>

record 's refops =
  op_get :: "'s \<Rightarrow> u32 \<Rightarrow> nat option \<times> 's"
  op_may :: "u32 \<Rightarrow> bool"
  op_count :: "'s \<Rightarrow> nat \<Rightarrow> int"
  op_dec :: "nat \<Rightarrow> 's \<Rightarrow> 's"
  op_close :: "nat \<Rightarrow> 's \<Rightarrow> 's"
  op_unlink :: "nat \<Rightarrow> 's \<Rightarrow> 's"
  op_delete :: "nat \<Rightarrow> 's \<Rightarrow> 's"

fun destroying :: "stage \<Rightarrow> bool" where
  "destroying (Entered n) = True"
| "destroying (Prepared n) = True"
| "destroying (Unlinked n) = True"
| "destroying (Counted n) = True"
| "destroying s = False"

text \<open>With \<open>one\<close>, no thread calls destroy for an object that another is about to destroy.\<close>

inductive bracket :: "bool \<Rightarrow> 's refops \<Rightarrow> 's \<times> holders \<Rightarrow> 's \<times> holders \<Rightarrow> bool"
  for one :: bool and ops :: "'s refops"
where
  get: "op_get ops st k = (Some a, st') \<Longrightarrow>
    bracket one ops (st, h) (st', h\<lparr>waiting := (waiting h)(a := Suc (waiting h a))\<rparr>)"
| lock: "waiting h a = Suc n \<Longrightarrow> owner h a = Out \<Longrightarrow>
    bracket one ops (st, h) (st, h\<lparr>waiting := (waiting h)(a := n), owner := (owner h)(a := In 1)\<rparr>)"
| get_again: "owner h a = In (Suc n) \<Longrightarrow> op_get ops st k = (Some a, st') \<Longrightarrow>
    bracket one ops (st, h) (st', h\<lparr>owner := (owner h)(a := In (Suc (Suc n)))\<rparr>)"
| release: "owner h a = In (Suc n) \<Longrightarrow>
    bracket one ops (st, h) (op_dec ops a st, h\<lparr>owner := (owner h)(a := Dropped n)\<rparr>)"
| release_last: "owner h a = Dropped n \<Longrightarrow> op_count ops st a < 0 \<Longrightarrow>
    bracket one ops (st, h) (op_delete ops a st, h\<lparr>owner := (owner h)(a := Out)\<rparr>)"
| unlock: "owner h a = Dropped n \<Longrightarrow> \<not> op_count ops st a < 0 \<Longrightarrow>
    bracket one ops (st, h) (st, h\<lparr>owner := (owner h)(a := if n = 0 then Out else In n)\<rparr>)"
| destroy: "op_may ops k \<Longrightarrow> op_get ops st k = (Some a, st') \<Longrightarrow>
    one \<longrightarrow> destroyers h a = 0 \<and> \<not> destroying (owner h a) \<Longrightarrow>
    bracket one ops (st, h) (st', h\<lparr>destroyers := (destroyers h)(a := Suc (destroyers h a))\<rparr>)"
| destroy_lock: "destroyers h a = Suc n \<Longrightarrow> owner h a = Out \<Longrightarrow>
    bracket one ops (st, h)
      (st, h\<lparr>destroyers := (destroyers h)(a := n), owner := (owner h)(a := Entered 0)\<rparr>)"
| destroy_held: "owner h a = In (Suc n) \<Longrightarrow> op_may ops k \<Longrightarrow> op_get ops st k = (Some a, st') \<Longrightarrow>
    one \<longrightarrow> destroyers h a = 0 \<Longrightarrow>
    bracket one ops (st, h) (st', h\<lparr>owner := (owner h)(a := Entered (Suc n))\<rparr>)"
| close: "owner h a = Entered n \<Longrightarrow>
    bracket one ops (st, h) (op_close ops a st, h\<lparr>owner := (owner h)(a := Prepared n)\<rparr>)"
| unlink: "owner h a = Prepared n \<Longrightarrow>
    bracket one ops (st, h) (op_unlink ops a st, h\<lparr>owner := (owner h)(a := Unlinked n)\<rparr>)"
| count_down: "owner h a = Unlinked n \<Longrightarrow>
    bracket one ops (st, h) (op_dec ops a st, h\<lparr>owner := (owner h)(a := Counted n)\<rparr>)"
| destroy_last: "owner h a = Counted n \<Longrightarrow> op_count ops st a < 1 \<Longrightarrow>
    bracket one ops (st, h) (op_delete ops a st, h\<lparr>owner := (owner h)(a := Out)\<rparr>)"
| destroy_release: "owner h a = Counted n \<Longrightarrow> \<not> op_count ops st a < 1 \<Longrightarrow>
    bracket one ops (st, h) (st, h\<lparr>owner := (owner h)(a := In (Suc n))\<rparr>)"

section \<open>One thread without the others\<close>

text \<open>
  Getting, releasing and destroying as uninterrupted runs of the steps: the functions of the daemon
  as a single thread runs them.
\<close>

definition release_all :: "'s refops \<Rightarrow> nat \<Rightarrow> 's \<Rightarrow> 's" where
  "release_all ops a st =
     (let st = op_dec ops a st in if op_count ops st a < 0 then op_delete ops a st else st)"

definition destroy_all :: "'s refops \<Rightarrow> nat \<Rightarrow> 's \<Rightarrow> 's" where
  "destroy_all ops a st =
     (let st = op_dec ops a (op_unlink ops a (op_close ops a st))
      in if op_count ops st a < 1 then op_delete ops a st else release_all ops a st)"

lemma get_run:
  assumes "op_get ops st k = (Some a, st')" and "owner h a = Out"
  shows "(bracket one ops)\<^sup>*\<^sup>* (st, h) (st', h\<lparr>owner := (owner h)(a := In 1)\<rparr>)"
proof -
  let ?h = "h\<lparr>waiting := (waiting h)(a := Suc (waiting h a))\<rparr>"
  have "bracket one ops (st, h) (st', ?h)" using assms(1) by (rule bracket.get)
  moreover have "bracket one ops (st', ?h) (st', h\<lparr>owner := (owner h)(a := In 1)\<rparr>)"
    using bracket.lock [of ?h a "waiting h a" one ops st'] assms(2) by simp
  ultimately show ?thesis by (simp add: rtranclp.rtrancl_into_rtrancl)
qed

lemma release_run:
  assumes "owner h a = In 1"
  shows "(bracket one ops)\<^sup>*\<^sup>* (st, h) (release_all ops a st, h\<lparr>owner := (owner h)(a := Out)\<rparr>)"
proof -
  let ?h = "h\<lparr>owner := (owner h)(a := Dropped 0)\<rparr>" and ?st = "op_dec ops a st"
  have "bracket one ops (st, h) (?st, ?h)" using bracket.release [of h a 0] assms by simp
  moreover have "bracket one ops (?st, ?h)
      (if op_count ops ?st a < 0 then op_delete ops a ?st else ?st, h\<lparr>owner := (owner h)(a := Out)\<rparr>)"
    using bracket.release_last [of ?h a 0 ops ?st one] bracket.unlock [of ?h a 0 ops ?st one] by simp
  ultimately show ?thesis
    unfolding release_all_def Let_def by (rule converse_rtranclp_into_rtranclp [OF _ r_into_rtranclp])
qed

lemma destroy_locked_run:
  assumes "owner h a = Out" and "destroyers h a = Suc n"
  shows "(bracket one ops)\<^sup>*\<^sup>* (st', h) (destroy_all ops a st', h\<lparr>destroyers := (destroyers h)(a := n)\<rparr>)"
proof -
  let ?h = "\<lambda>s. h\<lparr>destroyers := (destroyers h)(a := n), owner := (owner h)(a := s)\<rparr>"
  let ?s1 = "op_close ops a st'" and ?s2 = "op_unlink ops a (op_close ops a st')"
  let ?s3 = "op_dec ops a ?s2"
  have 1: "bracket one ops (st', h) (st', ?h (Entered 0))"
    using bracket.destroy_lock [of h a n one ops st'] assms by simp
  have 2: "bracket one ops (st', ?h (Entered 0)) (?s1, ?h (Prepared 0))"
    using bracket.close [of "?h (Entered 0)" a 0] by simp
  have 3: "bracket one ops (?s1, ?h (Prepared 0)) (?s2, ?h (Unlinked 0))"
    using bracket.unlink [of "?h (Prepared 0)" a 0] by simp
  have 4: "bracket one ops (?s2, ?h (Unlinked 0)) (?s3, ?h (Counted 0))"
    using bracket.count_down [of "?h (Unlinked 0)" a 0] by simp
  have "(bracket one ops)\<^sup>*\<^sup>* (?s3, ?h (Counted 0)) (destroy_all ops a st', ?h Out)"
  proof (cases "op_count ops ?s3 a < 1")
    case True
    then show ?thesis
      using bracket.destroy_last [of "?h (Counted 0)" a 0 ops ?s3 one]
      by (simp add: destroy_all_def Let_def r_into_rtranclp)
  next
    case False
    have "bracket one ops (?s3, ?h (Counted 0)) (?s3, ?h (In 1))"
      using bracket.destroy_release [of "?h (Counted 0)" a 0 ops ?s3 one] False by simp
    then show ?thesis
      using release_run [of "?h (In 1)" a one ops ?s3] False
      by (simp add: destroy_all_def Let_def converse_rtranclp_into_rtranclp)
  qed
  then have "(bracket one ops)\<^sup>*\<^sup>* (st', h) (destroy_all ops a st', ?h Out)"
    using converse_rtranclp_into_rtranclp [where r = "bracket one ops", OF 1
        converse_rtranclp_into_rtranclp [where r = "bracket one ops", OF 2
        converse_rtranclp_into_rtranclp [where r = "bracket one ops", OF 3
        converse_rtranclp_into_rtranclp [where r = "bracket one ops", OF 4]]]] by simp
  then show ?thesis using assms(1) by (simp add: fun_upd_idem)
qed

lemma destroy_run:
  assumes "op_may ops k" and "op_get ops st k = (Some a, st')"
    and "owner h a = Out" and "destroyers h a = 0"
  shows "(bracket one ops)\<^sup>*\<^sup>* (st, h) (destroy_all ops a st', h)"
proof -
  let ?d = "h\<lparr>destroyers := (destroyers h)(a := 1)\<rparr>"
  have "bracket one ops (st, h) (st', ?d)"
    using bracket.destroy [of ops k st a st' one h] assms by simp
  moreover have "(bracket one ops)\<^sup>*\<^sup>* (st', ?d) (destroy_all ops a st', h)"
    using destroy_locked_run [of ?d a 0 one ops st'] assms(3,4) by (simp add: fun_upd_idem)
  ultimately show ?thesis by (rule converse_rtranclp_into_rtranclp)
qed

section \<open>The invariant\<close>

fun owner_refs :: "stage \<Rightarrow> nat" where
  "owner_refs Out = 0"
| "owner_refs (In n) = n"
| "owner_refs (Dropped n) = n"
| "owner_refs (Entered n) = Suc n"
| "owner_refs (Prepared n) = Suc n"
| "owner_refs (Unlinked n) = Suc n"
| "owner_refs (Counted n) = n"

definition refs :: "holders \<Rightarrow> nat \<Rightarrow> nat" where
  "refs h a = waiting h a + destroyers h a + owner_refs (owner h a)"

fun before_unlink :: "stage \<Rightarrow> bool" where
  "before_unlink (Entered n) = True"
| "before_unlink (Prepared n) = True"
| "before_unlink s = False"

text \<open>
  \<open>cell\<close> gives key and count of the live objects. In the table the count is the number of
  references; after the destroy it is one less, and an object that nobody owns has a reference.
\<close>

definition obj_ok ::
    "(nat \<rightharpoonup> u32 \<times> int) \<Rightarrow> (u32 \<rightharpoonup> nat) \<Rightarrow> holders \<Rightarrow> nat \<Rightarrow> bool"
where
  "obj_ok cell tab h a =
     (case cell a of
        None \<Rightarrow> refs h a = 0 \<and> owner h a = Out
      | Some (k, n) \<Rightarrow>
          if tab k = Some a
          then n = int (refs h a) \<and> destroyers h a \<le> 1 \<and>
               (destroying (owner h a) \<longrightarrow> destroyers h a = 0 \<and> before_unlink (owner h a))
          else destroyers h a = 0 \<and> \<not> before_unlink (owner h a) \<and>
               (owner h a = Out \<longrightarrow> 0 < refs h a) \<and>
               n = int (refs h a) - (if destroying (owner h a) then 0 else 1))"

definition keys_ok :: "(nat \<rightharpoonup> u32 \<times> int) \<Rightarrow> (u32 \<rightharpoonup> nat) \<Rightarrow> bool" where
  "keys_ok cell tab \<longleftrightarrow> (\<forall>k a. tab k = Some a \<longrightarrow> (\<exists>n. cell a = Some (k, n)))"

definition rc_inv :: "(nat \<rightharpoonup> u32 \<times> int) \<Rightarrow> (u32 \<rightharpoonup> nat) \<Rightarrow> holders \<Rightarrow> bool" where
  "rc_inv cell tab h \<longleftrightarrow> keys_ok cell tab \<and> (\<forall>a. obj_ok cell tab h a)"

lemma rc_invD:
  assumes "rc_inv cell tab h"
  shows "tab k = Some a \<Longrightarrow> \<exists>n. cell a = Some (k, n)" and "obj_ok cell tab h a"
  using assms by (auto simp: rc_inv_def keys_ok_def)

text \<open>What is waited for, held or being destroyed is alive; what nobody has is in the table.\<close>

lemma rc_live: "rc_inv cell tab h \<Longrightarrow> 0 < refs h a \<or> owner h a \<noteq> Out \<Longrightarrow> cell a \<noteq> None"
  using rc_invD(2) [of cell tab h a] by (auto simp: obj_ok_def split: option.splits)

lemma rc_idle:
  "rc_inv cell tab h \<Longrightarrow> refs h a = 0 \<Longrightarrow> owner h a = Out \<Longrightarrow> cell a = Some (k, n) \<Longrightarrow>
     tab k = Some a \<and> n = 0"
  using rc_invD(2) [of cell tab h a] by (auto simp: obj_ok_def split: if_splits)

lemma rc_in_table:
  assumes "rc_inv cell tab h" and "tab k = Some a"
  shows "cell a = Some (k, int (refs h a))"
proof -
  obtain n where "cell a = Some (k, n)" using rc_invD(1) [of cell tab h k a] assms by blast
  then show ?thesis using rc_invD(2) [OF assms(1), of a] assms(2) by (simp add: obj_ok_def)
qed

text \<open>A step changes one object; the others keep their place.\<close>

definition same_holders :: "nat \<Rightarrow> holders \<Rightarrow> holders \<Rightarrow> bool" where
  "same_holders a h h' \<longleftrightarrow> (\<forall>b. b \<noteq> a \<longrightarrow> waiting h' b = waiting h b \<and>
     destroyers h' b = destroyers h b \<and> owner h' b = owner h b)"

lemma rc_inv_change:
  assumes "rc_inv cell tab h" and "same_holders a h h'"
    and "\<And>b. b \<noteq> a \<Longrightarrow> cell' b = cell b"
    and "\<And>k b. b \<noteq> a \<Longrightarrow> tab' k = Some b \<longleftrightarrow> tab k = Some b"
    and "obj_ok cell' tab' h' a" and "\<And>k. tab' k = Some a \<Longrightarrow> \<exists>n. cell' a = Some (k, n)"
  shows "rc_inv cell' tab' h'"
proof -
  have "obj_ok cell' tab' h' b" if "b \<noteq> a" for b
    using rc_invD(2) [OF assms(1), of b] assms(2-4) that
    by (auto simp: obj_ok_def same_holders_def refs_def split: option.split)
  moreover have "\<exists>n. cell' b = Some (k, n)" if "tab' k = Some b" for k b
    using that assms(3,4,6) rc_invD(1) [OF assms(1)] by (cases "b = a") auto
  ultimately show ?thesis using assms(5) by (metis rc_inv_def keys_ok_def)
qed

lemma rc_inv_create:
  assumes "rc_inv cell tab h" and "cell a = None" and "tab k = None"
  shows "rc_inv (cell(a \<mapsto> (k, 0))) (tab(k \<mapsto> a)) h"
proof (rule rc_inv_change [OF assms(1), of a])
  have "refs h a = 0 \<and> owner h a = Out"
    using rc_invD(2) [OF assms(1), of a] assms(2) by (simp add: obj_ok_def)
  then show "obj_ok (cell(a \<mapsto> (k, 0))) (tab(k \<mapsto> a)) h a"
    by (auto simp: obj_ok_def refs_def)
next
  fix k' assume "(tab(k \<mapsto> a)) k' = Some a"
  then show "\<exists>n. (cell(a \<mapsto> (k, 0))) a = Some (k', n)"
    using rc_invD(1) [OF assms(1), of k' a] assms(2) by (auto split: if_splits)
next
  show "(tab(k \<mapsto> a)) k' = Some b \<longleftrightarrow> tab k' = Some b" if "b \<noteq> a" for k' b
    using that assms(3) by auto
qed (simp_all add: same_holders_def)

section \<open>The contract\<close>

locale refcounted =
  fixes cell :: "'s \<Rightarrow> nat \<rightharpoonup> u32 \<times> int"
    and tab :: "'s \<Rightarrow> u32 \<rightharpoonup> nat"
    and ops :: "'s refops"
  assumes get_law: "op_get ops st k = (Some a, st') \<Longrightarrow>
        (\<exists>k'. tab st k' = Some a) \<and> tab st' = tab st \<and>
        cell st' = (cell st)(a := map_option (apsnd (\<lambda>n. n + 1)) (cell st a))"
    and count_law: "cell st a = Some (k, n) \<Longrightarrow> op_count ops st a = n"
    and dec_law: "tab (op_dec ops a st) = tab st \<and>
        cell (op_dec ops a st) = (cell st)(a := map_option (apsnd (\<lambda>n. n - 1)) (cell st a))"
    and close_law: "tab (op_close ops a st) = tab st \<and> cell (op_close ops a st) = cell st"
    and unlink_law: "cell st a = Some (k, n) \<Longrightarrow>
        tab (op_unlink ops a st) = (tab st)(k := None) \<and> cell (op_unlink ops a st) = cell st"
    and delete_law: "tab (op_delete ops a st) = tab st \<and>
        cell (op_delete ops a st) = (cell st)(a := None)"
begin

abbreviation inv :: "'s \<times> holders \<Rightarrow> bool" where
  "inv p \<equiv> rc_inv (cell (fst p)) (tab (fst p)) (snd p)"

text \<open>Getting an object: it is in the table, and its holder is one more.\<close>

lemma get_keeps:
  assumes "op_get ops st k = (Some a, st')" and "inv (st, h)"
    and "same_holders a h h'" and "refs h' a = Suc (refs h a)"
    and "destroyers h' a \<le> 1" and "destroying (owner h' a) \<Longrightarrow> destroyers h' a = 0 \<and> before_unlink (owner h' a)"
  shows "inv (st', h')"
proof -
  obtain k' where k': "tab st k' = Some a" and t: "tab st' = tab st"
      and c: "cell st' = (cell st)(a := map_option (apsnd (\<lambda>n. n + 1)) (cell st a))"
    using get_law [OF assms(1)] by blast
  have i: "rc_inv (cell st) (tab st) h" using assms(2) by simp
  have a: "cell st' a = Some (k', int (refs h a) + 1)" using rc_in_table [OF i k'] c by simp
  have "rc_inv (cell st') (tab st') h'"
  proof (rule rc_inv_change [OF i assms(3)])
    show "obj_ok (cell st') (tab st') h' a" using a k' t assms(4-6) by (simp add: obj_ok_def)
    show "\<exists>n. cell st' a = Some (x, n)" if "tab st' x = Some a" for x
      using that t a rc_invD(1) [OF i, of x a] rc_in_table [OF i k'] by auto
  qed (use c t in simp_all)
  then show ?thesis by simp
qed

text \<open>The steps of a thread that waits for an object or has its lock.\<close>

lemma holder_keeps:
  assumes "inv (st, h)" and "0 < refs h a \<or> owner h a \<noteq> Out" and "same_holders a h h'"
    and "cell st' = (cell st)(a := c)" and "tab st' = tab st"
    and "\<And>k n. cell st a = Some (k, n) \<Longrightarrow> obj_ok (cell st) (tab st) h a \<Longrightarrow>
      obj_ok (cell st') (tab st) h' a \<and> (tab st k = Some a \<longrightarrow> (\<exists>n. c = Some (k, n)))"
  shows "inv (st', h')"
proof -
  have i: "rc_inv (cell st) (tab st) h" using assms(1) by simp
  obtain k n where c: "cell st a = Some (k, n)" using rc_live [OF i assms(2)] by auto
  have "rc_inv (cell st') (tab st') h'"
  proof (rule rc_inv_change [OF i assms(3)])
    show "obj_ok (cell st') (tab st') h' a"
      using assms(5,6) c rc_invD(2) [OF i] by auto
    show "\<exists>n. cell st' a = Some (x, n)" if "tab st' x = Some a" for x
    proof -
      have "x = k" using rc_invD(1) [OF i, of x a] that assms(5) c by auto
      then show ?thesis using that assms(4-6) c rc_invD(2) [OF i] by auto
    qed
  qed (use assms(4,5) in simp_all)
  then show ?thesis by simp
qed

lemma bracket_keeps:
  assumes "bracket True ops p q" and "inv p"
  shows "inv q"
  using assms
proof (induction rule: bracket.induct)
  case (get st k a st' h)
  have "obj_ok (cell st) (tab st) h a" and "\<exists>k. tab st k = Some a \<and> cell st a = Some (k, int (refs h a))"
    using get(2) get_law [OF get(1)] rc_in_table rc_invD(2) by (fastforce, fastforce)
  then show ?case
    by (intro get_keeps [OF get(1,2)]) (auto simp: same_holders_def refs_def obj_ok_def)
next
  case (destroy k st a st' h)
  then show ?case
    by (intro get_keeps [OF destroy(2,4)]) (auto simp: same_holders_def refs_def)
next
  case (get_again h a n st k st')
  have "obj_ok (cell st) (tab st) h a" and "\<exists>k. tab st k = Some a \<and> cell st a = Some (k, int (refs h a))"
    using get_again(3) get_law [OF get_again(2)] rc_in_table rc_invD(2) by (fastforce, fastforce)
  then show ?case
    using get_again(1)
    by (intro get_keeps [OF get_again(2,3)]) (auto simp: same_holders_def refs_def obj_ok_def)
next
  case (destroy_held h a n k st st')
  then show ?case
    by (intro get_keeps [OF destroy_held(3,5)]) (auto simp: same_holders_def refs_def)
next
  case (lock h a n st)
  then show ?case
    by (intro holder_keeps [OF lock(3), of a _ _ "cell st a"])
      (auto simp: same_holders_def refs_def obj_ok_def)
next
  case (destroy_lock h a n st)
  then show ?case
    by (intro holder_keeps [OF destroy_lock(3), of a _ _ "cell st a"])
      (auto simp: same_holders_def refs_def obj_ok_def split: if_splits)
next
  case (release h a n st)
  then show ?case
    using dec_law [of a st]
    by (intro holder_keeps [OF release(2), of a _ _ "map_option (apsnd (\<lambda>n. n - 1)) (cell st a)"])
      (auto simp: same_holders_def refs_def obj_ok_def split: if_splits)
next
  case (unlock h a n st)
  then show ?case
    using count_law [of st a]
    by (intro holder_keeps [OF unlock(3), of a _ _ "cell st a"])
      (auto simp: same_holders_def refs_def obj_ok_def split: if_splits)
next
  case (release_last h a n st)
  then show ?case
    using count_law [of st a] delete_law [of a st]
    by (intro holder_keeps [OF release_last(3), of a _ _ None])
      (auto simp: same_holders_def refs_def obj_ok_def split: if_splits)
next
  case (close h a n st)
  then show ?case
    using close_law [of a st]
    by (intro holder_keeps [OF close(2), of a _ _ "cell st a"])
      (auto simp: same_holders_def refs_def obj_ok_def split: if_splits)
next
  case (count_down h a n st)
  then show ?case
    using dec_law [of a st]
    by (intro holder_keeps [OF count_down(2), of a _ _ "map_option (apsnd (\<lambda>n. n - 1)) (cell st a)"])
      (auto simp: same_holders_def refs_def obj_ok_def split: if_splits)
next
  case (destroy_last h a n st)
  then show ?case
    using count_law [of st a] delete_law [of a st]
    by (intro holder_keeps [OF destroy_last(3), of a _ _ None])
      (auto simp: same_holders_def refs_def obj_ok_def split: if_splits)
next
  case (destroy_release h a n st)
  then show ?case
    by (intro holder_keeps [OF destroy_release(3), of a _ _ "cell st a"])
      (auto simp: same_holders_def refs_def obj_ok_def split: if_splits)
next
  case (unlink h a n st)
  have i: "rc_inv (cell st) (tab st) h" using unlink(2) by simp
  obtain k m where c: "cell st a = Some (k, m)" using rc_live [OF i, of a] unlink(1) by auto
  have ok: "obj_ok (cell st) (tab st) h a" using rc_invD(2) [OF i] .
  then have t: "tab st k = Some a" using c unlink(1) by (auto simp: obj_ok_def split: if_splits)
  have u: "tab (op_unlink ops a st) = (tab st)(k := None)" "cell (op_unlink ops a st) = cell st"
    using unlink_law [OF c] by auto
  have other: "x = k" if "tab st x = Some a" for x using rc_invD(1) [OF i that] c by auto
  have "rc_inv (cell (op_unlink ops a st)) (tab (op_unlink ops a st))
      (h\<lparr>owner := (owner h)(a := Unlinked n)\<rparr>)"
  proof (rule rc_inv_change [OF i, of a])
    show "obj_ok (cell (op_unlink ops a st)) (tab (op_unlink ops a st))
        (h\<lparr>owner := (owner h)(a := Unlinked n)\<rparr>) a"
      using ok c t unlink(1) by (simp add: u refs_def obj_ok_def)
    show "(tab (op_unlink ops a st)) x = Some b \<longleftrightarrow> tab st x = Some b" if "b \<noteq> a" for x b
      using that t by (simp add: u)
    show "\<exists>n. cell (op_unlink ops a st) a = Some (x, n)" if "tab (op_unlink ops a st) x = Some a" for x
      using that other [of x] by (simp add: u split: if_splits)
  qed (simp_all add: u same_holders_def)
  then show ?case by simp
qed

end


end
