(* ===== verification/Domain.thy ===== *)
theory Domain
  imports RefCount Alarm
begin

text \<open>
  The state of the daemon and its domain table (\<^verbatim>\<open>openhpid/domain.c\<close>). Domains live in a heap
  and are reached through pointers, because a domain that is taken out of the table stays alive
  until its last holder releases it. The hash table maps an id to the list node of the domain;
  node and domain share one address here. The private data of a resource is a pointer to the id
  of its handler, which lives in \<open>hid_heap\<close>. \<open>freed_data\<close> traces the private data that a deleted
  domain has freed.
\<close>

record daemon =
  dom_heap :: "nat \<Rightarrow> oh_domain option"
  dom_fresh :: nat
  dom_table :: "u32 \<Rightarrow> nat option"
  dom_list :: "nat list"
  sess :: "oh_session ntab"
  next_sid :: u32
  process_q :: "oh_event list"
  hid_heap :: "nat \<Rightarrow> u32 option"
  hid_fresh :: nat
  freed_data :: "nat list"
  d_params :: global_params
  d_uids :: uid_state

text \<open>A write through a domain pointer.\<close>

definition upd_domain :: "nat \<Rightarrow> (oh_domain \<Rightarrow> oh_domain) \<Rightarrow> daemon \<Rightarrow> daemon" where
  "upd_domain a f st = st\<lparr>dom_heap := (dom_heap st)(a := map_option f (dom_heap st a))\<rparr>"

section \<open>Getting and releasing a domain\<close>

definition inc_domain_refcount :: "nat \<Rightarrow> daemon \<Rightarrow> daemon" where
  "inc_domain_refcount = (\<lambda>a. upd_domain a (\<lambda>d. d\<lparr>d_refcount := d_refcount d + 1\<rparr>))"

definition dec_domain_refcount :: "nat \<Rightarrow> daemon \<Rightarrow> daemon" where
  "dec_domain_refcount = (\<lambda>a. upd_domain a (\<lambda>d. d\<lparr>d_refcount := d_refcount d - 1\<rparr>))"

definition get_domain :: "daemon \<Rightarrow> u32 \<Rightarrow> nat option \<times> daemon" where
  "get_domain st did0 =
     (let did = (if did0 = SAHPI_UNSPECIFIED_DOMAIN_ID then OH_DEFAULT_DOMAIN_ID else did0)
      in case dom_table st did of
           None \<Rightarrow> (None, st)
         | Some a \<Rightarrow> (Some a, inc_domain_refcount a st))"

definition oh_get_domain :: "daemon \<Rightarrow> u32 \<Rightarrow> nat option \<times> daemon" where
  "oh_get_domain st did = get_domain st did"

text \<open>
  \<open>__delete_domain\<close>: flush the resource table, close the event log and the alarm table, free the
  reference table and the domain.
\<close>

definition delete_domain :: "(nat \<Rightarrow> u64) \<Rightarrow> nat \<Rightarrow> daemon \<Rightarrow> daemon" where
  "delete_domain clk a st =
     (case dom_heap st a of
        None \<Rightarrow> st
      | Some d \<Rightarrow>
          (let (_, rpt) = oh_flush_rpt clk (d_rpt d);
               (_, _) = oh_el_close (d_del d);
               (_, _) = oh_close_alarmtable (d_params st) (clk 0) d
           in st\<lparr>dom_heap := (dom_heap st)(a := None), freed_data := freed_data st @ freed rpt\<rparr>))"

definition refcount :: "daemon \<Rightarrow> nat \<Rightarrow> int" where
  "refcount st a = (case dom_heap st a of None \<Rightarrow> 0 | Some d \<Rightarrow> d_refcount d)"

definition oh_release_domain :: "(nat \<Rightarrow> u64) \<Rightarrow> nat \<Rightarrow> daemon \<Rightarrow> SaErrorT \<times> daemon" where
  "oh_release_domain clk a st =
     (let st = dec_domain_refcount a st
      in (SA_OK, if refcount st a < 0 then delete_domain clk a st else st))"

text \<open>The part of \<open>oh_destroy_domain\<close> under the lock of the domain table.\<close>

definition unlink_domain :: "nat \<Rightarrow> daemon \<Rightarrow> daemon" where
  "unlink_domain a st =
     st\<lparr>dom_table := (case dom_heap st a of
                       None \<Rightarrow> dom_table st | Some d \<Rightarrow> (dom_table st)(d_id d := None)),
        dom_list := remove1 a (dom_list st)\<rparr>"

definition oh_destroy_domain :: "(nat \<Rightarrow> u64) \<Rightarrow> daemon \<Rightarrow> u32 \<Rightarrow> SaErrorT \<times> daemon" where
  "oh_destroy_domain clk st did =
     (if did = OH_DEFAULT_DOMAIN_ID \<or> did = SAHPI_UNSPECIFIED_DOMAIN_ID then
        (SA_ERR_HPI_INVALID_PARAMS, st)
      else case get_domain st did of
             (None, st) \<Rightarrow> (SA_ERR_HPI_NOT_PRESENT, st)
           | (Some a, st) \<Rightarrow>
               (let st = unlink_domain a st;
                    st = dec_domain_refcount a st;
                    st = (if refcount st a < 1 then delete_domain clk a st
                          else snd (oh_release_domain clk a st))
                in (SA_OK, st)))"

section \<open>Handlers that look their domain up\<close>

definition env_of :: "file_io \<Rightarrow> daemon \<Rightarrow> alarm_env" where
  "env_of io st = \<lparr>gparams = d_params st, uids = d_uids st, fio = io\<rparr>"

text \<open>Get a domain, work on it, release it. The clock readings of the release come last.\<close>

definition with_domain ::
    "(nat \<Rightarrow> u64) \<Rightarrow> daemon \<Rightarrow> u32 \<Rightarrow> (oh_domain \<Rightarrow> SaErrorT \<times> oh_domain) \<Rightarrow> SaErrorT \<times> daemon"
where
  "with_domain clk st did f =
     (case oh_get_domain st did of
        (None, st) \<Rightarrow> (SA_ERR_HPI_INVALID_DOMAIN, st)
      | (Some a, st) \<Rightarrow>
          (case dom_heap st a of
             None \<Rightarrow> (SA_ERR_HPI_INVALID_DOMAIN, st)
           | Some d \<Rightarrow>
               (let (error, d') = f d;
                    st = upd_domain a (\<lambda>_. d') st
                in (error, snd (oh_release_domain clk a st)))))"

definition oh_detect_res_sev_alarm ::
    "file_io \<Rightarrow> (nat \<Rightarrow> u64) \<Rightarrow> daemon \<Rightarrow> u32 \<Rightarrow> u32 \<Rightarrow> SaHpiSeverityT \<Rightarrow> SaErrorT \<times> daemon"
where
  "oh_detect_res_sev_alarm io clk st did rid new_sev =
     (if rid = 0 then (SA_ERR_HPI_INVALID_PARAMS, st)
      else with_domain (\<lambda>n. clk (n + 3)) st did (\<lambda>d.
             case oh_get_resource_by_id (d_rpt d) rid of
               None \<Rightarrow> (SA_ERR_HPI_INVALID_RESOURCE, d)
             | Some res \<Rightarrow>
                 (SA_OK,
                  if ResourceSeverity res \<le> SAHPI_MINOR \<and> new_sev > SAHPI_MINOR
                  then oh_remove_resource_alarms (env_of io st) clk d (ResourceId res) False
                  else d)))"

definition oh_detect_sensor_enable_alarm ::
    "(nat \<Rightarrow> u64) \<Rightarrow> daemon \<Rightarrow> u32 \<Rightarrow> u32 \<Rightarrow> u32 \<Rightarrow> bool \<Rightarrow> SaErrorT \<times> daemon"
where
  "oh_detect_sensor_enable_alarm clk st did rid num enable =
     (if rid = 0 then (SA_ERR_HPI_INVALID_PARAMS, st)
      else if enable then (SA_OK, st)
      else with_domain (\<lambda>n. clk (n + 1)) st did (\<lambda>d.
             oh_remove_alarm (d_params st) (clk 0) d
               (any_alarm\<lparr>k_type := Some SAHPI_STATUS_COND_TYPE_SENSOR, k_rid := Some rid,
                          k_num := Some num\<rparr>) None True))"

datatype SaHpiSensorEventMaskActionT =
    SAHPI_SENS_ADD_EVENTS_TO_MASKS
  | SAHPI_SENS_REMOVE_EVENTS_FROM_MASKS
  | SAHPI_SENS_MASK_ACTION_OTHER u32

definition oh_detect_sensor_mask_alarm ::
    "(nat \<Rightarrow> u64) \<Rightarrow> daemon \<Rightarrow> u32 \<Rightarrow> u32 \<Rightarrow> u32 \<Rightarrow> SaHpiSensorEventMaskActionT \<Rightarrow> u16 \<Rightarrow>
       SaErrorT \<times> daemon"
where
  "oh_detect_sensor_mask_alarm clk st did rid num action deassert_mask =
     (if rid = 0 then (SA_ERR_HPI_INVALID_PARAMS, st)
      else if action = SAHPI_SENS_ADD_EVENTS_TO_MASKS then (SA_OK, st)
      else if action \<noteq> SAHPI_SENS_REMOVE_EVENTS_FROM_MASKS then (SA_ERR_HPI_INVALID_PARAMS, st)
      else with_domain (\<lambda>n. clk (n + 1)) st did (\<lambda>d.
             oh_remove_alarm (d_params st) (clk 0) d
               (any_alarm\<lparr>k_type := Some SAHPI_STATUS_COND_TYPE_SENSOR, k_rid := Some rid,
                          k_num := Some num\<rparr>) (Some deassert_mask) True))"

section \<open>Threads\<close>

text \<open>
  The threads of the daemon in the protocol of \<open>RefCount\<close>, one step for every section under a lock
  and for every access to the count. \<open>__get_domain\<close> counts its reference under the lock of the table
  and waits for the lock of the domain outside of it; the step \<open>lock\<close> ends the wait, and the call
  then reads \<^verbatim>\<open>node->data\<close> of the list node. A domain has one list node, allocated and freed with its
  entry of the list: the node of the domain at \<open>a\<close> is alive while \<open>a\<close> is in \<open>dom_list\<close>.
\<close>

definition domain_ops :: "(nat \<Rightarrow> u64) \<Rightarrow> daemon refops" where
  "domain_ops clk =
     \<lparr>op_get = get_domain,
      op_may = (\<lambda>did. did \<noteq> OH_DEFAULT_DOMAIN_ID \<and> did \<noteq> SAHPI_UNSPECIFIED_DOMAIN_ID),
      op_count = refcount, op_dec = dec_domain_refcount, op_close = (\<lambda>_ st. st),
      op_unlink = unlink_domain, op_delete = delete_domain clk\<rparr>"

text \<open>A thread changes a domain only while it has its lock, and never its id or its count.\<close>

inductive dom_step :: "bool \<Rightarrow> daemon \<times> holders \<Rightarrow> daemon \<times> holders \<Rightarrow> bool" for one :: bool where
  bracket: "bracket one (domain_ops clk) p q \<Longrightarrow> dom_step one p q"
| work: "owner h a = In (Suc n) \<Longrightarrow>
    \<forall>d. d_id (f d) = d_id d \<and> d_refcount (f d) = d_refcount d \<Longrightarrow>
    dom_step one (st, h) (upd_domain a f st, h)"

definition table_ok :: "daemon \<Rightarrow> bool" where
  "table_ok st \<longleftrightarrow> (\<forall>did a. dom_table st did = Some a \<longrightarrow> (\<exists>d. dom_heap st a = Some d \<and> d_id d = did))"

definition dom_cell :: "daemon \<Rightarrow> nat \<rightharpoonup> u32 \<times> int" where
  "dom_cell st a = map_option (\<lambda>d. (d_id d, d_refcount d)) (dom_heap st a)"

definition nodes_ok :: "daemon \<Rightarrow> bool" where
  "nodes_ok st \<longleftrightarrow> distinct (dom_list st) \<and> (\<forall>a. a \<in> set (dom_list st) \<longleftrightarrow> (\<exists>k. dom_table st k = Some a))"

definition dom_inv :: "daemon \<times> holders \<Rightarrow> bool" where
  "dom_inv p \<longleftrightarrow> rc_inv (dom_cell (fst p)) (dom_table (fst p)) (snd p) \<and> nodes_ok (fst p)"

lemma upd_domain_simps [simp]:
  "dom_table (upd_domain a f st) = dom_table st"
  "dom_list (upd_domain a f st) = dom_list st"
  "dom_heap (upd_domain a f st) b = (if b = a then map_option f (dom_heap st a) else dom_heap st b)"
  by (simp_all add: upd_domain_def)

lemma delete_domain_simps [simp]:
  "dom_table (delete_domain clk a st) = dom_table st"
  "dom_list (delete_domain clk a st) = dom_list st"
  "dom_heap (delete_domain clk a st) b = (if b = a then None else dom_heap st b)"
  by (auto simp: delete_domain_def split: option.splits prod.splits)

lemma refcount_simps [simp]:
  "dom_table (inc_domain_refcount a st) = dom_table st"
  "dom_table (dec_domain_refcount a st) = dom_table st"
  "dom_list (inc_domain_refcount a st) = dom_list st"
  "dom_list (dec_domain_refcount a st) = dom_list st"
  "dom_heap (inc_domain_refcount a st) b =
     (if b = a then map_option (\<lambda>d. d\<lparr>d_refcount := d_refcount d + 1\<rparr>) (dom_heap st a) else dom_heap st b)"
  "dom_heap (dec_domain_refcount a st) b =
     (if b = a then map_option (\<lambda>d. d\<lparr>d_refcount := d_refcount d - 1\<rparr>) (dom_heap st a) else dom_heap st b)"
  by (simp_all add: inc_domain_refcount_def dec_domain_refcount_def)

lemma unlink_simps [simp]:
  "dom_heap (unlink_domain a st) = dom_heap st"
  "dom_list (unlink_domain a st) = remove1 a (dom_list st)"
  "dom_heap st a = Some d \<Longrightarrow> dom_table (unlink_domain a st) = (dom_table st)(d_id d := None)"
  by (simp_all add: unlink_domain_def)

lemma get_cell:
  assumes "get_domain st did = (Some a, st')"
  shows "(\<exists>k. dom_table st k = Some a) \<and> dom_table st' = dom_table st \<and>
    dom_cell st' = (dom_cell st)(a := map_option (apsnd (\<lambda>n. n + 1)) (dom_cell st a))"
proof -
  let ?did = "if did = SAHPI_UNSPECIFIED_DOMAIN_ID then OH_DEFAULT_DOMAIN_ID else did"
  have "dom_table st ?did = Some a" and "st' = inc_domain_refcount a st"
    using assms by (auto simp: get_domain_def Let_def split: option.splits)
  then show ?thesis by (auto simp: dom_cell_def fun_eq_iff option.map_comp comp_def)
qed

lemma count_cell: "dom_cell st a = Some (k, n) \<Longrightarrow> refcount st a = n"
  by (auto simp: dom_cell_def refcount_def)

lemma change_cells:
  "dom_cell (dec_domain_refcount a st) =
     (dom_cell st)(a := map_option (apsnd (\<lambda>n. n - 1)) (dom_cell st a))"
  "dom_cell (unlink_domain a st) = dom_cell st"
  "dom_cell (delete_domain clk a st) = (dom_cell st)(a := None)"
  by (auto simp: dom_cell_def fun_eq_iff option.map_comp comp_def)

lemma unlink_cell:
  "dom_cell st a = Some (k, n) \<Longrightarrow> dom_table (unlink_domain a st) = (dom_table st)(k := None)"
  by (auto simp: dom_cell_def)

interpretation dom: refcounted dom_cell dom_table "domain_ops clk" for clk
  by unfold_locales (simp_all add: domain_ops_def get_cell count_cell change_cells unlink_cell)

text \<open>The functions of the daemon are the uninterrupted runs.\<close>

lemma domain_runs:
  "oh_get_domain st did = op_get (domain_ops clk) st did"
  "snd (oh_release_domain clk a st) = release_all (domain_ops clk) a st"
  "op_may (domain_ops clk) did \<Longrightarrow> op_get (domain_ops clk) st did = (Some a, st') \<Longrightarrow>
     oh_destroy_domain clk st did = (SA_OK, destroy_all (domain_ops clk) a st')"
  by (auto simp: domain_ops_def oh_get_domain_def oh_release_domain_def release_all_def
      oh_destroy_domain_def destroy_all_def Let_def)

lemma work_cell:
  assumes "\<forall>d. d_id (f d) = d_id d \<and> d_refcount (f d) = d_refcount d"
  shows "dom_cell (upd_domain a f st) = dom_cell st"
  using assms by (auto simp: dom_cell_def fun_eq_iff option.map_comp comp_def)

text \<open>The list and the table change together.\<close>

lemma unlink_nodes:
  assumes "rc_inv (dom_cell st) (dom_table st) h" and "nodes_ok st" and "before_unlink (owner h a)"
  shows "nodes_ok (unlink_domain a st)"
proof -
  obtain k n where c: "dom_cell st a = Some (k, n)" using rc_live [OF assms(1), of a] assms(3) by fastforce
  then obtain d where d: "dom_heap st a = Some d" "d_id d = k" by (auto simp: dom_cell_def)
  have t: "dom_table st k = Some a"
    using rc_invD(2) [OF assms(1), of a] c assms(3) by (auto simp: obj_ok_def split: if_splits)
  have l: "distinct (dom_list st)" "\<And>b. b \<in> set (dom_list st) \<longleftrightarrow> (\<exists>x. dom_table st x = Some b)"
    using assms(2) by (simp_all add: nodes_ok_def)
  have "b \<in> set (dom_list (unlink_domain a st)) \<longleftrightarrow> (\<exists>x. dom_table (unlink_domain a st) x = Some b)" for b
  proof (cases "b = a")
    case True
    have "((dom_table st)(k := None)) x \<noteq> Some a" for x
      using rc_invD(1) [OF assms(1), of x a] c by auto
    then show ?thesis using True d l(1) by simp
  next
    case False
    then have "(\<exists>x. ((dom_table st)(k := None)) x = Some b) \<longleftrightarrow> (\<exists>x. dom_table st x = Some b)"
      using t by (metis fun_upd_apply option.inject option.distinct(1))
    then show ?thesis using False d l by simp
  qed
  then show ?thesis using assms(2) by (simp add: nodes_ok_def)
qed

lemma bracket_nodes:
  assumes "bracket one (domain_ops clk) p q" and "dom_inv p"
  shows "nodes_ok (fst q)"
  using assms
proof (induction rule: bracket.induct)
  case (unlink h a n st)
  then show ?case
    using unlink_nodes [of st h a] by (simp add: dom_inv_def domain_ops_def)
qed (auto simp: dom_inv_def nodes_ok_def domain_ops_def get_domain_def Let_def split: option.splits)

lemma dom_step_keeps:
  assumes "dom_step True p q" and "dom_inv p"
  shows "dom_inv q"
  using assms
proof (induction rule: dom_step.induct)
  case (bracket clk p q)
  then show ?case
    using dom.bracket_keeps [OF bracket(1)] bracket_nodes [OF bracket] by (simp add: dom_inv_def)
next
  case (work h a n f st)
  then show ?case using work_cell [OF work(2), of a st] by (simp add: dom_inv_def nodes_ok_def)
qed

lemma dom_run_keeps: "(dom_step True)\<^sup>*\<^sup>* p q \<Longrightarrow> dom_inv p \<Longrightarrow> dom_inv q"
  by (induction rule: rtranclp_induct) (auto intro: dom_step_keeps)

text \<open>C24: However threads get, use, release and destroy domains, with their steps interleaved in any
  order that the locks allow, and as long as no thread starts to destroy a domain that another one is
  about to destroy: a domain that some thread waits for or has locked is alive; one that no thread has
  is in the table with no reference counted, so none is lost; and a destroy leaves the freeing to
  others exactly if somebody still waits for the domain (or the destroying thread holds it itself).
  The list node of a domain, which \<open>oh_get_domain\<close> reads after its wait, is alive exactly while the
  domain is in the table: those whom the deferred freeing is for find their node freed.\<close>

theorem domain_refcount_safe:
  assumes "(dom_step True)\<^sup>*\<^sup>* (st, h) (st', h')" and "dom_inv (st, h)"
  shows "(0 < refs h' a \<or> owner h' a \<noteq> Out \<longrightarrow> dom_heap st' a \<noteq> None) \<and>
    (\<forall>d. dom_heap st' a = Some d \<longrightarrow>
       (a \<in> set (dom_list st') \<longleftrightarrow> dom_table st' (d_id d) = Some a) \<and>
       (refs h' a = 0 \<and> owner h' a = Out \<longrightarrow> dom_table st' (d_id d) = Some a \<and> d_refcount d = 0)) \<and>
    (\<forall>n. owner h' a = Counted n \<longrightarrow> (\<not> refcount st' a < 1 \<longleftrightarrow> 0 < waiting h' a + n))"
proof -
  have "dom_inv (st', h')" using dom_run_keeps [OF assms] .
  then have inv: "rc_inv (dom_cell st') (dom_table st') h'" and nodes: "nodes_ok st'"
    by (simp_all add: dom_inv_def)
  have "dom_heap st' a \<noteq> None" if "0 < refs h' a \<or> owner h' a \<noteq> Out"
    using rc_live [OF inv that] by (simp add: dom_cell_def)
  moreover have "a \<in> set (dom_list st') \<longleftrightarrow> dom_table st' (d_id d) = Some a"
    if "dom_heap st' a = Some d" for d
    using nodes rc_invD(1) [OF inv, of _ a] that by (auto simp: nodes_ok_def dom_cell_def)
  moreover have "dom_table st' (d_id d) = Some a \<and> d_refcount d = 0"
    if "refs h' a = 0 \<and> owner h' a = Out" and "dom_heap st' a = Some d" for d
    using rc_idle [OF inv, of a "d_id d" "d_refcount d"] that by (simp add: dom_cell_def)
  moreover have "\<not> refcount st' a < 1 \<longleftrightarrow> 0 < waiting h' a + n" if "owner h' a = Counted n" for n
  proof -
    have "dom_cell st' a \<noteq> None" using rc_live [OF inv, of a] that by simp
    then obtain d where d: "dom_heap st' a = Some d" by (auto simp: dom_cell_def)
    then have "d_refcount d = int (waiting h' a + n)"
      using rc_invD(2) [OF inv, of a] that
      by (auto simp: obj_ok_def dom_cell_def refs_def split: if_splits)
    then show ?thesis using d by (auto simp: refcount_def)
  qed
  ultimately show ?thesis by blast
qed

definition demo_daemon :: daemon where
  "demo_daemon = \<lparr>dom_heap = [0 \<mapsto> demo_domain 0, 1 \<mapsto> demo_domain 5], dom_fresh = 2,
     dom_table = [0 \<mapsto> 0, 5 \<mapsto> 1], dom_list = [0, 1], sess = nt_empty, next_sid = 1,
     process_q = [], hid_heap = Map.empty, hid_fresh = 1, freed_data = [],
     d_params = default_params [] [] [], d_uids = uid_demo\<rparr>"

lemma demo_daemon_inv: "dom_inv (demo_daemon, nobody)"
proof -
  have "nodes_ok demo_daemon"
    by (auto simp: nodes_ok_def demo_daemon_def split: if_splits intro: exI [of _ 5])
  then show ?thesis
    by (auto simp: dom_inv_def rc_inv_def keys_ok_def obj_ok_def dom_cell_def demo_daemon_def nobody_def
        refs_def split: if_splits)
qed

text \<open>
  A thread gets domain 5 and waits, since another thread destroys it: the domain is alive, but the
  list node that the waiting thread reads next is freed.
\<close>

theorem domain_refcount_safe_witness:
  "\<exists>st h. (dom_step True)\<^sup>*\<^sup>* (demo_daemon, nobody) (st, h) \<and> waiting h 1 = 1 \<and>
     dom_heap st 1 \<noteq> None \<and> 1 \<notin> set (dom_list st)"
proof -
  let ?ops = "domain_ops of_nat" and ?h = "nobody\<lparr>waiting := (\<lambda>_. 0)(1 := 1)\<rparr>"
  let ?s1 = "snd (get_domain demo_daemon 5)"
  let ?s2 = "snd (get_domain ?s1 5)"
  let ?s3 = "destroy_all ?ops 1 ?s2"
  have get: "get_domain demo_daemon 5 = (Some 1, ?s1)" "get_domain ?s1 5 = (Some 1, ?s2)"
    by (simp_all add: get_domain_def demo_daemon_def)
  have up: "(bracket True ?ops)\<^sup>*\<^sup>* p q \<Longrightarrow> (dom_step True)\<^sup>*\<^sup>* p q" for p q
    by (rule rtranclp_mono [THEN predicate2D]) (auto intro: dom_step.bracket)
  have "bracket True ?ops (demo_daemon, nobody) (?s1, ?h)"
    using bracket.get [of ?ops demo_daemon 5 1 ?s1 True nobody] get by (simp add: domain_ops_def nobody_def)
  moreover have "(bracket True ?ops)\<^sup>*\<^sup>* (?s1, ?h) (?s3, ?h)"
    using get by (intro destroy_run [of ?ops 5]) (simp_all add: domain_ops_def nobody_def)
  ultimately have run: "(dom_step True)\<^sup>*\<^sup>* (demo_daemon, nobody) (?s3, ?h)"
    by (intro up) (rule converse_rtranclp_into_rtranclp)
  have "dom_heap ?s3 1 \<noteq> None"
    using domain_refcount_safe [OF run demo_daemon_inv, of 1] by (simp add: refs_def)
  moreover have "1 \<notin> set (dom_list ?s3)" by code_simp
  ultimately show ?thesis using run by (intro exI [of _ ?s3] exI [of _ ?h]) simp
qed

end
