(* ===== verification/Session.thy ===== *)
theory Session
  imports Domain
begin

text \<open>
  Sessions and their event queues (\<^verbatim>\<open>openhpid/session.c\<close>), and the event that tells every reader
  that the daemon quits (\<^verbatim>\<open>openhpid/event.c\<close>). The table of sessions, a list and a hash table over
  the same objects, is a node table; it exists from the start of the daemon on. A queue is the
  list of its events. While a thread waits for an event the other threads run: an element of the
  argument \<open>waits\<close> is what they do to the daemon during one timed wait. A queue that another
  thread destroys in the meantime stays allocated and empty.
\<close>

section \<open>The quit event\<close>

definition quit_signature :: "u8 list" where
  "quit_signature = [
     0x01, 0xE8, 0xEC, 0x84, 0xFE, 0x23, 0x41, 0x62, 0x82, 0xF8, 0xDC, 0x1A, 0x32, 0xD9,
     0x24, 0x14, 0x6A, 0x5B, 0x92, 0x41, 0xE1, 0xE4, 0x49, 0x34, 0x89, 0x36, 0x5C, 0x94,
     0xA9, 0x26, 0xBE, 0x70, 0x95, 0x12, 0x74, 0xA7, 0xAE, 0x99, 0x49, 0x93, 0x87, 0x57,
     0xAF, 0xA5, 0x0A, 0xF6, 0x6A, 0x3C, 0xC3, 0x02, 0x83, 0x48, 0xAF, 0xCB, 0x49, 0x90,
     0xA6, 0x5A, 0x1C, 0xDA, 0x6E, 0x56, 0x09, 0x32, 0x38, 0x61, 0x87, 0x52, 0x76, 0x98,
     0x4A, 0x6C, 0x94, 0xEC, 0x67, 0xD2, 0xAE, 0xAB, 0x56, 0xC4, 0xA1, 0xFA, 0x65, 0x89,
     0xBA, 0x2A, 0x4F, 0x6B, 0x84, 0x8F, 0xE0, 0x53, 0xF4, 0xF7, 0xD2, 0x50, 0x22, 0xFE,
     0x68, 0xB6, 0x38, 0xDD, 0x4C, 0xA7, 0xB8, 0x17, 0xF8, 0xC8, 0x5C, 0xE3, 0x27, 0x26,
     0x8E, 0x76, 0x0F, 0x7C, 0x45, 0x50, 0x40, 0xA8, 0x83, 0xE7, 0xCA, 0x73, 0x0C, 0x64,
     0x19, 0x74, 0xFE, 0x92, 0x39, 0x2B, 0x23, 0xBD, 0x43, 0x05, 0xB1, 0xE6, 0xA8, 0x9D,
     0x81, 0x01, 0x16, 0x5A, 0x05, 0x27, 0xEE, 0xBB, 0x08, 0xE1, 0x48, 0x9F, 0xBB, 0xD4,
     0x90, 0xA9, 0x46, 0x85, 0xF0, 0x09, 0x68, 0x93, 0xAA, 0x6A, 0x62, 0xA4, 0x43, 0xCD,
     0x8D, 0x80, 0x3B, 0x6C, 0x1A, 0xFF, 0xB3, 0xCD, 0x91, 0x09, 0x01, 0x4B, 0x9E, 0xFB,
     0x43, 0x1D, 0x83, 0xB0, 0x5C, 0x39, 0x6D, 0x6E, 0xB1, 0xDA, 0xE0, 0x5D, 0x8D, 0x87,
     0xF3, 0x01, 0x40, 0xC0, 0xA0, 0x83, 0xEC, 0x5B, 0x71, 0x40, 0xE9, 0x2D, 0x54, 0xC1,
     0x9B, 0x23, 0x29, 0xFC, 0x4E, 0x64, 0xAA, 0x8C, 0xD3, 0x77, 0x8B, 0x19, 0xEC, 0xB8,
     0xE2, 0xBE, 0xB9, 0x15, 0x28, 0x69, 0x46, 0x73, 0x90, 0xFE, 0xE9, 0x24, 0xE6, 0x74,
     0xAF, 0x4A, 0x78, 0x7D, 0xC7, 0x44, 0x87, 0x51, 0x4A, 0x2C, 0x9E, 0x1B, 0xB1, 0x6C,
     0x31, 0xEA, 0x40]"

abbreviation (input) SAHPI_MANUFACTURER_ID_UNSPECIFIED :: u32
  where "SAHPI_MANUFACTURER_ID_UNSPECIFIED \<equiv> 0"
abbreviation (input) SAHPI_HPIE_OTHER :: u32 where "SAHPI_HPIE_OTHER \<equiv> 2"
abbreviation (input) SAHPI_TL_TYPE_BINARY :: u32 where "SAHPI_TL_TYPE_BINARY \<equiv> 4"
abbreviation (input) SAHPI_LANG_UNDEF :: u32 where "SAHPI_LANG_UNDEF \<equiv> 0"

definition make_quit_event :: "u64 \<Rightarrow> oh_event" where
  "make_quit_event now = \<lparr>e_hid = 0,
     e_event = \<lparr>Source = SAHPI_UNSPECIFIED_RESOURCE_ID, Timestamp = now, Severity = SAHPI_CRITICAL,
       EventDataUnion = HpiSwEvent \<lparr>sw_MId = SAHPI_MANUFACTURER_ID_UNSPECIFIED,
         sw_Type = SAHPI_HPIE_OTHER,
         sw_EventData = \<lparr>DataType = SAHPI_TL_TYPE_BINARY, Language = SAHPI_LANG_UNDEF,
           DataLength = of_nat (length quit_signature), Data = quit_signature\<rparr>\<rparr>\<rparr>,
     e_resource = zero_rpt_entry\<lparr>ResourceId := SAHPI_UNSPECIFIED_RESOURCE_ID,
       ResourceCapabilities := 0\<rparr>,
     e_rdrs = [], e_rdrs_to_remove = []\<rparr>"

definition oh_post_quit_event :: "u64 \<Rightarrow> daemon \<Rightarrow> daemon" where
  "oh_post_quit_event now st = st\<lparr>process_q := process_q st @ [make_quit_event now]\<rparr>"

text \<open>True stands for the result 0, false for \<^verbatim>\<open>ENOENT\<close>. The comparison is byte by byte.\<close>

definition oh_detect_quit_event :: "oh_event \<Rightarrow> bool" where
  "oh_detect_quit_event e =
     (case EventDataUnion (e_event e) of
        HpiSwEvent sw \<Rightarrow> sw_MId sw = 0 \<and> e = make_quit_event (Timestamp (e_event e))
      | _ \<Rightarrow> False)"

section \<open>The session table\<close>

definition session_ptr :: "daemon \<Rightarrow> u32 \<Rightarrow> nat option" where
  "session_ptr st sid = nt_hash_lookup s_id (sess st) sid"

definition session_at :: "daemon \<Rightarrow> nat \<Rightarrow> oh_session option" where
  "session_at st a = map_of (nt_nodes (sess st)) a"

definition upd_session :: "nat \<Rightarrow> (oh_session \<Rightarrow> oh_session) \<Rightarrow> daemon \<Rightarrow> daemon" where
  "upd_session a f st = st\<lparr>sess := nt_write a f (sess st)\<rparr>"

text \<open>\<^verbatim>\<open>g_hash_table_lookup(oh_sessions.table, &sid)\<close>\<close>

definition find_session :: "daemon \<Rightarrow> u32 \<Rightarrow> (nat \<times> oh_session) option" where
  "find_session st sid =
     (case session_ptr st sid of
        None \<Rightarrow> None
      | Some a \<Rightarrow> map_option (Pair a) (session_at st a))"

definition oh_create_session :: "(nat \<Rightarrow> u64) \<Rightarrow> daemon \<Rightarrow> u32 \<Rightarrow> u32 \<times> daemon" where
  "oh_create_session clk st did0 =
     (let did = (if did0 = SAHPI_UNSPECIFIED_DOMAIN_ID then OH_DEFAULT_DOMAIN_ID else did0);
          session = \<lparr>s_id = 0, s_did = did, s_subscribed = False, s_eventq_status = 0, s_eventq = []\<rparr>
      in case oh_get_domain st did of
           (None, st) \<Rightarrow> (0, st)
         | (Some a, st) \<Rightarrow>
             (let session = session\<lparr>s_id := next_sid st\<rparr>;
                  st = st\<lparr>next_sid := next_sid st + 1, sess := nt_append s_id session (sess st)\<rparr>
              in (s_id session, snd (oh_release_domain clk a st))))"

definition oh_get_session_domain :: "daemon \<Rightarrow> u32 \<Rightarrow> u32" where
  "oh_get_session_domain st sid =
     (if sid < 1 then SAHPI_UNSPECIFIED_DOMAIN_ID
      else case find_session st sid of
             None \<Rightarrow> SAHPI_UNSPECIFIED_DOMAIN_ID
           | Some (_, session) \<Rightarrow> s_did session)"

definition oh_list_sessions :: "(nat \<Rightarrow> u64) \<Rightarrow> daemon \<Rightarrow> u32 \<Rightarrow> u32 list option \<times> daemon" where
  "oh_list_sessions clk st did0 =
     (let did = (if did0 = SAHPI_UNSPECIFIED_DOMAIN_ID then OH_DEFAULT_DOMAIN_ID else did0)
      in case oh_get_domain st did of
           (None, st) \<Rightarrow> (None, st)
         | (Some a, st) \<Rightarrow>
             (let ids = map (\<lambda>p. s_id (snd p))
                          (filter (\<lambda>p. s_did (snd p) = did) (nt_nodes (sess st)))
              in (Some ids, snd (oh_release_domain clk a st))))"

definition oh_get_session_subscription :: "daemon \<Rightarrow> u32 \<Rightarrow> SaErrorT \<times> bool option" where
  "oh_get_session_subscription st sid =
     (if sid < 1 then (SA_ERR_HPI_INVALID_SESSION, None)
      else case find_session st sid of
             None \<Rightarrow> (SA_ERR_HPI_INVALID_SESSION, None)
           | Some (_, session) \<Rightarrow> (SA_OK, Some (s_subscribed session)))"

section \<open>Queueing an event\<close>

definition oh_queue_session_event :: "daemon \<Rightarrow> u32 \<Rightarrow> oh_event \<Rightarrow> SaErrorT \<times> daemon" where
  "oh_queue_session_event st sid event =
     (if sid < 1 then (SA_ERR_HPI_INVALID_PARAMS, st)
      else
        let qevent = oh_dup_event event
        in case find_session st sid of
             None \<Rightarrow> (SA_ERR_HPI_INVALID_SESSION, st)
           | Some (a, session) \<Rightarrow>
               (let qlength = length (s_eventq session)
                in if qlength > 0 \<and> of_nat qlength \<ge> evt_queue_limit (d_params st) then
                     (SA_ERR_HPI_OUT_OF_SPACE,
                      upd_session a (\<lambda>s. s\<lparr>s_eventq_status := SAHPI_EVT_QUEUE_OVERFLOW\<rparr>) st)
                   else (SA_OK, upd_session a (\<lambda>s. s\<lparr>s_eventq := s_eventq s @ [qevent]\<rparr>) st)))"

section \<open>Taking an event off the queue\<close>

text \<open>\<open>g_async_queue_try_pop\<close> on the queue of the session at an address.\<close>

definition queue_of :: "daemon \<Rightarrow> nat \<Rightarrow> oh_event list" where
  "queue_of st a = (case session_at st a of None \<Rightarrow> [] | Some s \<Rightarrow> s_eventq s)"

definition try_pop :: "nat \<Rightarrow> daemon \<Rightarrow> oh_event option \<times> daemon" where
  "try_pop a st =
     (case queue_of st a of
        [] \<Rightarrow> (None, st)
      | e # _ \<Rightarrow> (Some e, upd_session a (\<lambda>s. s\<lparr>s_eventq := tl (s_eventq s)\<rparr>) st))"

text \<open>A timed pop waits only when the queue is empty; \<open>w\<close> is what happens in the meantime.\<close>

definition timed_pop :: "(daemon \<Rightarrow> daemon) \<Rightarrow> nat \<Rightarrow> daemon \<Rightarrow> oh_event option \<times> daemon" where
  "timed_pop w a st = (if queue_of st a \<noteq> [] then try_pop a st else try_pop a (w st))"

text \<open>The error of a session that was closed or unsubscribed during the wait.\<close>

definition sub_error :: "daemon \<Rightarrow> u32 \<Rightarrow> SaErrorT option" where
  "sub_error st sid =
     (case oh_get_session_subscription st sid of
        (SA_OK, Some subscribed) \<Rightarrow> if subscribed then None else Some SA_ERR_HPI_INVALID_REQUEST
      | _ \<Rightarrow> Some SA_ERR_HPI_INVALID_SESSION)"

text \<open>
  The loop of a blocking read. \<open>None\<close>: the reader is still blocked after all of \<open>waits\<close>. The sum
  is the error of the early return or the event.
\<close>

fun block_loop ::
    "(daemon \<Rightarrow> daemon) list \<Rightarrow> u32 \<Rightarrow> nat \<Rightarrow> daemon \<Rightarrow> ((SaErrorT + oh_event) \<times> daemon) option"
where
  "block_loop waits sid a st =
     (if queue_of st a = [] \<and> waits = [] then None
      else
        let (devent, st) = timed_pop (case waits of [] \<Rightarrow> id | w # _ \<Rightarrow> w) a st
        in case sub_error st sid of
             Some error \<Rightarrow> Some (Inl error, st)
           | None \<Rightarrow>
               (case devent of
                  Some e \<Rightarrow> Some (Inr e, st)
                | None \<Rightarrow> (case waits of [] \<Rightarrow> None | _ # ws \<Rightarrow> block_loop ws sid a st)))"

definition zero_event :: oh_event where
  "zero_event = \<lparr>e_hid = 0, e_event = \<lparr>Source = 0, Timestamp = 0, Severity = 0,
     EventDataUnion = ResourceEvent SAHPI_RESE_RESOURCE_FAILURE\<rparr>, e_resource = zero_rpt_entry,
     e_rdrs = [], e_rdrs_to_remove = []\<rparr>"

text \<open>What is done with the popped event; the second component is written to the caller's event.\<close>

definition deliver :: "oh_event option \<Rightarrow> SaErrorT \<times> oh_event option" where
  "deliver devent =
     (case devent of
        Some e \<Rightarrow> if oh_detect_quit_event e then (SA_ERR_HPI_NO_RESPONSE, None) else (SA_OK, Some e)
      | None \<Rightarrow> (SA_ERR_HPI_TIMEOUT, Some zero_event))"

text \<open>
  The result: return code, what is written to the event and to the queue status of the caller,
  and the daemon; \<open>None\<close> when a blocking read has not returned yet.
\<close>

definition oh_dequeue_session_event ::
    "(daemon \<Rightarrow> daemon) list \<Rightarrow> daemon \<Rightarrow> u32 \<Rightarrow> u64 \<Rightarrow>
       (SaErrorT \<times> oh_event option \<times> u32 option \<times> daemon) option"
where
  "oh_dequeue_session_event waits st sid timeout =
     (if sid < 1 then Some (SA_ERR_HPI_INVALID_PARAMS, None, None, st)
      else case find_session st sid of
             None \<Rightarrow> Some (SA_ERR_HPI_INVALID_SESSION, None, None, st)
           | Some (a, session) \<Rightarrow>
               (let status = Some (s_eventq_status session);
                    st = upd_session a (\<lambda>s. s\<lparr>s_eventq_status := 0\<rparr>) st
                in if timeout = SAHPI_TIMEOUT_IMMEDIATE then
                     (let (devent, st) = try_pop a st; (error, out) = deliver devent
                      in Some (error, out, status, st))
                   else if timeout = SAHPI_TIMEOUT_BLOCK then
                     (case block_loop waits sid a st of
                        None \<Rightarrow> None
                      | Some (Inl error, st) \<Rightarrow> Some (error, None, status, st)
                      | Some (Inr e, st) \<Rightarrow>
                          (let (error, out) = deliver (Some e) in Some (error, out, status, st)))
                   else
                     (let (devent, st) = timed_pop (case waits of [] \<Rightarrow> id | w # _ \<Rightarrow> w) a st
                      in case sub_error st sid of
                           Some error \<Rightarrow> Some (error, None, status, st)
                         | None \<Rightarrow>
                             (let (error, out) = deliver devent in Some (error, out, status, st)))))"

declare block_loop.simps [simp del]

text \<open>Lookups after an update of a session that keeps its id.\<close>

lemma upd_session_simps:
  assumes "\<And>s. s_id (f s) = s_id s"
  shows "session_ptr (upd_session a f st) sid = session_ptr st sid"
    and "session_at (upd_session a f st) b =
      map_option (\<lambda>s. if b = a then f s else s) (session_at st b)"
  using assms by (simp_all add: session_ptr_def session_at_def upd_session_def
      nt_hash_lookup_write nt_write_addr)

lemma find_session_upd:
  assumes "\<And>s. s_id (f s) = s_id s"
  shows "find_session (upd_session a f st) sid =
    map_option (\<lambda>(b, s). (b, if b = a then f s else s)) (find_session st sid)"
  by (auto simp: find_session_def upd_session_simps [OF assms] option.map_comp comp_def
      split: option.splits)

lemma find_session_at: "find_session st sid = Some (a, s) \<Longrightarrow> session_at st a = Some s"
  by (auto simp: find_session_def split: option.splits)

text \<open>What a read without waiting does to a session that exists.\<close>

lemma dequeue_now:
  assumes "find_session st sid = Some (a, s)" and "\<not> sid < 1"
  shows "oh_dequeue_session_event waits st sid SAHPI_TIMEOUT_IMMEDIATE =
    (case s_eventq s of
       [] \<Rightarrow> Some (SA_ERR_HPI_TIMEOUT, Some zero_event, Some (s_eventq_status s),
               upd_session a (\<lambda>s. s\<lparr>s_eventq_status := 0\<rparr>) st)
     | e # q \<Rightarrow> Some (fst (deliver (Some e)), snd (deliver (Some e)), Some (s_eventq_status s),
               upd_session a (\<lambda>s. s\<lparr>s_eventq := tl (s_eventq s)\<rparr>)
                 (upd_session a (\<lambda>s. s\<lparr>s_eventq_status := 0\<rparr>) st)))"
proof -
  have "queue_of (upd_session a (\<lambda>s. s\<lparr>s_eventq_status := 0\<rparr>) st) a = s_eventq s"
    using find_session_at [OF assms(1)] by (simp add: queue_of_def upd_session_simps)
  then show ?thesis using assms
    by (auto simp: oh_dequeue_session_event_def Let_def try_pop_def deliver_def split: list.splits prod.splits)
qed

definition queue_len :: "daemon \<Rightarrow> u32 \<Rightarrow> nat" where
  "queue_len st sid = (case find_session st sid of None \<Rightarrow> 0 | Some (_, s) \<Rightarrow> length (s_eventq s))"

lemma dequeue_shrinks:
  assumes "oh_dequeue_session_event waits st sid SAHPI_TIMEOUT_IMMEDIATE = Some (SA_OK, out, status, st')"
  shows "queue_len st' sid < queue_len st sid"
proof -
  from assms obtain a s where f: "find_session st sid = Some (a, s)" and z: "\<not> sid < 1"
    by (auto simp: oh_dequeue_session_event_def split: if_splits option.splits)
  show ?thesis using assms f
    unfolding dequeue_now [OF f z]
    by (auto simp: queue_len_def find_session_upd deliver_def split: list.splits if_splits)
qed

section \<open>Subscribing and closing\<close>

text \<open>The flush loop of \<open>oh_set_session_subscription\<close>.\<close>

function flush_session :: "u32 \<Rightarrow> daemon \<Rightarrow> daemon" where
  "flush_session sid st =
     (case oh_dequeue_session_event [] st sid SAHPI_TIMEOUT_IMMEDIATE of
        Some (SA_OK, out, status, st') \<Rightarrow> flush_session sid st'
      | Some (_, out, status, st') \<Rightarrow> st'
      | None \<Rightarrow> st)"
  by pat_completeness auto

termination
  by (relation "measure (\<lambda>(sid, st). queue_len st sid)") (auto dest: dequeue_shrinks)

declare flush_session.simps [simp del]

definition oh_set_session_subscription :: "daemon \<Rightarrow> u32 \<Rightarrow> bool \<Rightarrow> SaErrorT \<times> daemon" where
  "oh_set_session_subscription st sid state =
     (if sid < 1 then (SA_ERR_HPI_INVALID_PARAMS, st)
      else case find_session st sid of
             None \<Rightarrow> (SA_ERR_HPI_INVALID_SESSION, st)
           | Some (a, _) \<Rightarrow>
               (let st = upd_session a (\<lambda>s. s\<lparr>s_subscribed := state\<rparr>) st;
                    st = (if \<not> state then flush_session sid st else st)
                in (SA_OK, st)))"

text \<open>Closing a session frees the object and all events of its queue.\<close>

definition oh_destroy_session :: "daemon \<Rightarrow> u32 \<Rightarrow> SaErrorT \<times> daemon" where
  "oh_destroy_session st sid =
     (if sid < 1 then (SA_ERR_HPI_INVALID_PARAMS, st)
      else case find_session st sid of
             None \<Rightarrow> (SA_ERR_HPI_INVALID_SESSION, st)
           | Some (a, _) \<Rightarrow> (SA_OK, st\<lparr>sess := nt_remove s_id a (sess st)\<rparr>))"

end
