(* ===== verification/SessionProps.thy ===== *)
theory SessionProps
  imports Session
begin

text \<open>
  Properties of sessions: the invariant of the table and the bound on the queues, the queues as
  first-in-first-out buffers that do not mix, the overflow report, what unsubscribing flushes,
  and when a blocked reader returns.
\<close>

section \<open>Sessions by id\<close>

definition session_of :: "daemon \<Rightarrow> u32 \<Rightarrow> oh_session option" where
  "session_of st sid = map_option snd (find_session st sid)"

definition queue :: "daemon \<Rightarrow> u32 \<Rightarrow> oh_event list" where
  "queue st sid = (case session_of st sid of None \<Rightarrow> [] | Some s \<Rightarrow> s_eventq s)"

definition queue_limit :: "daemon \<Rightarrow> nat" where
  "queue_limit st = max 1 (unat (evt_queue_limit (d_params st)))"

definition sess_inv :: "daemon \<Rightarrow> bool" where
  "sess_inv st \<longleftrightarrow> nt_inv s_id (sess st) \<and> next_sid st \<noteq> 0 \<and>
     (\<forall>(sid, s) \<in> set (nt_abs s_id (sess st)).
        sid \<noteq> 0 \<and> sid < next_sid st \<and> length (s_eventq s) \<le> queue_limit st)"

lemma find_session_in:
  assumes "sess_inv st" and "find_session st sid = Some (a, s)"
  shows "(a, s) \<in> set (nt_nodes (sess st)) \<and> s_id s = sid \<and> sid \<noteq> 0 \<and>
    length (s_eventq s) \<le> queue_limit st"
proof -
  have i: "nt_inv s_id (sess st)" using assms(1) by (simp add: sess_inv_def)
  have m: "(a, s) \<in> set (nt_nodes (sess st))" "s_id s = sid"
    using assms(2) nt_hash_lookup_iff [OF i, of sid a] nt_deref [OF i, of a]
    by (auto simp: find_session_def session_ptr_def session_at_def split: option.splits)
  then have "(sid, s) \<in> set (nt_abs s_id (sess st))" by (force simp: nt_abs_def)
  then show ?thesis using m assms(1) by (auto simp: sess_inv_def)
qed

lemma find_session_inj:
  assumes "sess_inv st" and "find_session st i = Some (a, s)" and "find_session st j = Some (a, t)"
  shows "i = j \<and> s = t"
proof -
  have "nt_inv s_id (sess st)" using assms(1) by (simp add: sess_inv_def)
  then show ?thesis
    using find_session_in [OF assms(1,2)] find_session_in [OF assms(1,3)] nt_same by metis
qed

lemma session_of_abs:
  "sess_inv st \<Longrightarrow> session_of st sid = map_of (nt_abs s_id (sess st)) sid"
  using nt_lookup_value [of s_id "sess st" sid]
  by (auto simp: sess_inv_def session_of_def find_session_def session_ptr_def session_at_def
      option.map_comp comp_def option.map_ident split: option.splits)

text \<open>A write through the pointer of one session changes that session only.\<close>

lemma session_of_upd:
  assumes "sess_inv st" and "find_session st sid = Some (a, s)" and "\<And>s. s_id (f s) = s_id s"
  shows "session_of (upd_session a f st) = (session_of st)(sid := Some (f s))"
proof
  fix i
  show "session_of (upd_session a f st) i = ((session_of st)(sid := Some (f s))) i"
    using assms(2) find_session_inj [OF assms(1,2), of i]
    by (cases "find_session st i") (auto simp: session_of_def find_session_upd [OF assms(3)])
qed

lemma upd_session_keeps:
  assumes "sess_inv st" and "find_session st sid = Some (a, s)" and "\<And>s. s_id (f s) = s_id s"
    and "length (s_eventq (f s)) \<le> queue_limit st"
  shows "sess_inv (upd_session a f st)"
proof -
  have i: "nt_inv s_id (sess st)" and m: "(a, s) \<in> set (nt_nodes (sess st))" "s_id s = sid"
    using assms(1) find_session_in [OF assms(1,2)] by (simp_all add: sess_inv_def)
  have "nt_abs s_id (nt_write a f (sess st)) =
      map (\<lambda>p. if fst p = sid then (fst p, f (snd p)) else p) (nt_abs s_id (sess st))"
    using nt_abs_write [OF i m(1), of f] assms(3) m(2) by simp
  moreover have "t = s" if "(sid, t) \<in> set (nt_abs s_id (sess st))" for t
  proof -
    from that obtain b where b: "(b, t) \<in> set (nt_nodes (sess st))" "s_id t = s_id s"
      using m(2) by (auto simp: nt_abs_def)
    then have "b = a" using nt_unique [OF i m(1) b(1)] by simp
    then show ?thesis using nt_same [OF i m(1)] b(1) by simp
  qed
  moreover have "queue_limit (upd_session a f st) = queue_limit st"
    and "next_sid (upd_session a f st) = next_sid st"
    by (simp_all add: queue_limit_def upd_session_def)
  ultimately show ?thesis
    using assms(1,4) nt_inv_write [OF i, of a f] assms(3)
    by (auto simp: sess_inv_def upd_session_def)
qed

section \<open>The operations\<close>

lemma queue_event_cases:
  assumes "sess_inv st" and "find_session st sid = Some (a, s)"
  shows "oh_queue_session_event st sid e =
    (if s_eventq s \<noteq> [] \<and> of_nat (length (s_eventq s)) \<ge> evt_queue_limit (d_params st) then
       (SA_ERR_HPI_OUT_OF_SPACE, upd_session a (\<lambda>s. s\<lparr>s_eventq_status := SAHPI_EVT_QUEUE_OVERFLOW\<rparr>) st)
     else (SA_OK, upd_session a (\<lambda>s. s\<lparr>s_eventq := s_eventq s @ [e]\<rparr>) st))"
  using find_session_in [OF assms] assms(2)
  by (auto simp: oh_queue_session_event_def Let_def word_less_1)

lemma queue_event_fails:
  "sid = 0 \<or> find_session st sid = None \<Longrightarrow> snd (oh_queue_session_event st sid e) = st \<and>
    fst (oh_queue_session_event st sid e) \<noteq> SA_OK"
  by (auto simp: oh_queue_session_event_def)

text \<open>The room in a queue that accepted an event.\<close>

lemma queue_room:
  assumes "s_eventq s = [] \<or> \<not> of_nat (length (s_eventq s)) \<ge> evt_queue_limit (d_params st)"
    and "length (s_eventq s) \<le> queue_limit st"
  shows "length (s_eventq s @ [e]) \<le> queue_limit st"
proof (cases "s_eventq s = []")
  case False
  let ?l = "evt_queue_limit (d_params st)"
  have lt: "of_nat (length (s_eventq s)) < ?l" using assms(1) False by simp
  then have "?l \<noteq> 0" by auto
  then have "length (s_eventq s) \<le> unat ?l"
    using assms(2) by (simp add: queue_limit_def max_def word_le_nat_alt unat_gt_0 split: if_splits)
      (metis One_nat_def Suc_leI unat_gt_0)
  then have "unat (of_nat (length (s_eventq s)) :: u32) = length (s_eventq s)" by (rule unat_of_small)
  then show ?thesis using lt by (simp add: word_less_nat_alt queue_limit_def)
qed (simp add: queue_limit_def)

lemma queue_event_keeps:
  assumes "sess_inv st"
  shows "sess_inv (snd (oh_queue_session_event st sid e))"
proof (cases "find_session st sid")
  case None
  then show ?thesis using assms queue_event_fails [of sid st e] by simp
next
  case (Some p)
  then obtain a s where f: "find_session st sid = Some (a, s)" by (cases p) simp
  note in' = find_session_in [OF assms f]
  show ?thesis
    unfolding queue_event_cases [OF assms f]
    using in' queue_room [of s st e]
    by (auto intro!: upd_session_keeps [OF assms f])
qed

text \<open>A read without waiting: what it returns and what is left.\<close>

lemma dequeue_now_state:
  assumes "sess_inv st" and "find_session st sid = Some (a, s)"
    and "oh_dequeue_session_event waits st sid SAHPI_TIMEOUT_IMMEDIATE = Some (rc, out, status, st')"
  shows "session_of st' = (session_of st)(sid := Some (s\<lparr>s_eventq := tl (s_eventq s), s_eventq_status := 0\<rparr>))"
    and "sess_inv st'" and "status = Some (s_eventq_status s)"
    and "(rc, out) = deliver (case s_eventq s of [] \<Rightarrow> None | e # _ \<Rightarrow> Some e)"
    and "d_params st' = d_params st"
proof -
  note in' = find_session_in [OF assms(1,2)]
  let ?z = "\<lambda>s :: oh_session. s\<lparr>s_eventq_status := 0\<rparr>" and ?t = "\<lambda>s. s\<lparr>s_eventq := tl (s_eventq s)\<rparr>"
  let ?s0 = "upd_session a ?z st"
  have i0: "sess_inv ?s0" using in' by (intro upd_session_keeps [OF assms(1,2)]) auto
  have so0: "session_of ?s0 = (session_of st)(sid := Some (?z s))"
    by (rule session_of_upd [OF assms(1,2)]) simp
  have f0: "find_session ?s0 sid = Some (a, ?z s)" using assms(2) by (simp add: find_session_upd)
  have i1: "sess_inv (upd_session a ?t ?s0)"
    using in' by (intro upd_session_keeps [OF i0 f0]) (auto simp: queue_limit_def upd_session_def)
  have so1: "session_of (upd_session a ?t ?s0) = (session_of ?s0)(sid := Some (?t (?z s)))"
    by (rule session_of_upd [OF i0 f0]) simp
  have z: "\<not> sid < 1" using in' by (simp add: word_less_1)
  have eq: "s_eventq s = [] \<Longrightarrow> s\<lparr>s_eventq := tl (s_eventq s), s_eventq_status := 0\<rparr> = ?z s"
    by (cases s) simp
  note d = assms(3) [unfolded dequeue_now [OF assms(2) z]]
  show "session_of st' = (session_of st)(sid := Some (s\<lparr>s_eventq := tl (s_eventq s), s_eventq_status := 0\<rparr>))"
    using d so0 so1 eq by (auto split: list.splits)
  show "sess_inv st'" using d i0 i1 by (auto split: list.splits)
  show "status = Some (s_eventq_status s)" using d by (auto split: list.splits)
  show "(rc, out) = deliver (case s_eventq s of [] \<Rightarrow> None | e # _ \<Rightarrow> Some e)"
    using d by (auto simp: deliver_def split: list.splits)
  show "d_params st' = d_params st" using d by (auto simp: upd_session_def split: list.splits)
qed

lemma dequeue_now_none:
  assumes "sid < 1 \<or> find_session st sid = None"
  shows "\<exists>rc. oh_dequeue_session_event waits st sid t = Some (rc, None, None, st) \<and> rc \<noteq> SA_OK"
  using assms by (auto simp: oh_dequeue_session_event_def)

text \<open>What a flush leaves: the events behind the first quit event.\<close>

definition behind_quit :: "oh_event list \<Rightarrow> oh_event list" where
  "behind_quit q = tl (dropWhile (\<lambda>e. \<not> oh_detect_quit_event e) q)"

lemma flush_session_state:
  assumes "sess_inv st" and "find_session st sid = Some (a, s)"
  shows "session_of (flush_session sid st) =
      (session_of st)(sid := Some (s\<lparr>s_eventq := behind_quit (s_eventq s), s_eventq_status := 0\<rparr>)) \<and>
    sess_inv (flush_session sid st) \<and> d_params (flush_session sid st) = d_params st"
  using assms
proof (induction "length (s_eventq s)" arbitrary: st s rule: less_induct)
  case less
  note in' = find_session_in [OF less.prems]
  have z: "\<not> sid < 1" using in' by (simp add: word_less_1)
  obtain rc out status st' where d:
      "oh_dequeue_session_event [] st sid SAHPI_TIMEOUT_IMMEDIATE = Some (rc, out, status, st')"
    using dequeue_now [OF less.prems(2) z, of "[]"] by (cases "s_eventq s") auto
  note ds = dequeue_now_state [OF less.prems d]
  have fl: "flush_session sid st = (if rc = SA_OK then flush_session sid st' else st')"
    using d by (subst flush_session.simps) (simp split: SaErrorT.split)
  show ?case
  proof (cases "s_eventq s")
    case Nil
    then have "rc = SA_ERR_HPI_TIMEOUT" using ds(4) by (simp add: deliver_def)
    then show ?thesis using fl ds(1,2,5) Nil by (simp add: behind_quit_def)
  next
    case (Cons e q)
    show ?thesis
    proof (cases "oh_detect_quit_event e")
      case True
      then have "rc \<noteq> SA_OK" using ds(4) Cons by (simp add: deliver_def)
      then show ?thesis using fl ds(1,2,5) Cons True by (simp add: behind_quit_def)
    next
      case False
      then have ok: "rc = SA_OK" using ds(4) Cons by (simp add: deliver_def)
      let ?s = "s\<lparr>s_eventq := tl (s_eventq s), s_eventq_status := 0\<rparr>"
      have "session_of st' sid = Some ?s" using ds(1) by simp
      then obtain b where f': "find_session st' sid = Some (b, ?s)"
        by (cases "find_session st' sid") (auto simp: session_of_def)
      have "b = a"
      proof -
        have "session_ptr st' sid = session_ptr st sid"
          using d unfolding dequeue_now [OF less.prems(2) z]
          by (auto simp: upd_session_simps split: list.splits)
        then show ?thesis using f' less.prems(2) by (auto simp: find_session_def split: option.splits)
      qed
      with f' have f': "find_session st' sid = Some (a, ?s)" by simp
      have "length (s_eventq ?s) < length (s_eventq s)" using Cons by simp
      from less.hyps [OF this ds(2) f'] show ?thesis
        using fl ok ds(1,5) Cons False by (simp add: behind_quit_def)
    qed
  qed
qed

lemma subscription_state:
  assumes "sess_inv st" and "find_session st sid = Some (a, s)"
  shows "fst (oh_set_session_subscription st sid state) = SA_OK \<and>
    session_of (snd (oh_set_session_subscription st sid state)) = (session_of st)(sid := Some
      (if state then s\<lparr>s_subscribed := True\<rparr>
       else s\<lparr>s_subscribed := False, s_eventq := behind_quit (s_eventq s), s_eventq_status := 0\<rparr>)) \<and>
    sess_inv (snd (oh_set_session_subscription st sid state)) \<and>
    d_params (snd (oh_set_session_subscription st sid state)) = d_params st"
proof -
  note in' = find_session_in [OF assms]
  let ?f = "\<lambda>s :: oh_session. s\<lparr>s_subscribed := state\<rparr>"
  let ?s1 = "upd_session a ?f st"
  have i1: "sess_inv ?s1" using in' by (intro upd_session_keeps [OF assms]) auto
  have so1: "session_of ?s1 = (session_of st)(sid := Some (?f s))"
    by (rule session_of_upd [OF assms]) simp
  have f1: "find_session ?s1 sid = Some (a, ?f s)" using assms(2) by (simp add: find_session_upd)
  have p1: "d_params ?s1 = d_params st" by (simp add: upd_session_def)
  have z: "\<not> sid < 1" using in' by (simp add: word_less_1)
  have c: "oh_set_session_subscription st sid state =
      (SA_OK, if state then ?s1 else flush_session sid ?s1)"
    using assms(2) z by (simp add: oh_set_session_subscription_def Let_def)
  show ?thesis unfolding c using i1 so1 p1 flush_session_state [OF i1 f1] by (cases state) simp_all
qed

lemma subscription_fails:
  "sid < 1 \<or> find_session st sid = None \<Longrightarrow> snd (oh_set_session_subscription st sid state) = st"
  by (auto simp: oh_set_session_subscription_def)

lemma destroy_state:
  assumes "sess_inv st" and "find_session st sid = Some (a, s)"
  shows "fst (oh_destroy_session st sid) = SA_OK \<and>
    session_of (snd (oh_destroy_session st sid)) = (session_of st)(sid := None) \<and>
    sess_inv (snd (oh_destroy_session st sid)) \<and> d_params (snd (oh_destroy_session st sid)) = d_params st"
proof -
  note in' = find_session_in [OF assms]
  have i: "nt_inv s_id (sess st)" using assms(1) by (simp add: sess_inv_def)
  have z: "\<not> sid < 1" using in' by (simp add: word_less_1)
  let ?st = "st\<lparr>sess := nt_remove s_id a (sess st)\<rparr>"
  have c: "oh_destroy_session st sid = (SA_OK, ?st)"
    using assms(2) z by (simp add: oh_destroy_session_def)
  have ab: "nt_abs s_id (sess ?st) = filter (\<lambda>p. fst p \<noteq> sid) (nt_abs s_id (sess st))"
    using nt_abs_remove [OF i] in' by auto
  have inv: "sess_inv ?st"
    using assms(1) nt_inv_remove [OF i] in' unfolding sess_inv_def ab
    by (auto simp: queue_limit_def)
  have "session_of ?st = (session_of st)(sid := None)"
    using ab by (auto simp: session_of_abs [OF inv] session_of_abs [OF assms(1)] fun_eq_iff
        map_of_filter_neq map_of_filter_eq_None)
  then show ?thesis using c inv by simp
qed

lemma destroy_fails: "sid < 1 \<or> find_session st sid = None \<Longrightarrow> snd (oh_destroy_session st sid) = st"
  by (auto simp: oh_destroy_session_def)

text \<open>Domain operations leave the sessions alone.\<close>

lemma domain_keeps_sessions [simp]:
  "sess (upd_domain a f st) = sess st"
  "sess (inc_domain_refcount a st) = sess st"
  "sess (dec_domain_refcount a st) = sess st"
  "sess (delete_domain clk a st) = sess st"
  "sess (snd (oh_release_domain clk a st)) = sess st"
  "next_sid (upd_domain a f st) = next_sid st"
  "next_sid (inc_domain_refcount a st) = next_sid st"
  "next_sid (dec_domain_refcount a st) = next_sid st"
  "next_sid (delete_domain clk a st) = next_sid st"
  "next_sid (snd (oh_release_domain clk a st)) = next_sid st"
  "d_params (upd_domain a f st) = d_params st"
  "d_params (inc_domain_refcount a st) = d_params st"
  "d_params (dec_domain_refcount a st) = d_params st"
  "d_params (delete_domain clk a st) = d_params st"
  "d_params (snd (oh_release_domain clk a st)) = d_params st"
  by (auto simp: upd_domain_def inc_domain_refcount_def dec_domain_refcount_def delete_domain_def
      oh_release_domain_def Let_def split: option.splits prod.splits)

lemma sess_inv_cong: "sess st' = sess st \<Longrightarrow> next_sid st' = next_sid st \<Longrightarrow> d_params st' = d_params st \<Longrightarrow>
    sess_inv st' = sess_inv st"
  by (simp add: sess_inv_def queue_limit_def)

lemma session_of_cong: "sess st' = sess st \<Longrightarrow> session_of st' = session_of st"
  by (simp add: session_of_def find_session_def session_ptr_def session_at_def fun_eq_iff
      split: option.split)

lemma get_domain_sessions:
  "oh_get_domain st did = (r, st') \<Longrightarrow> sess st' = sess st \<and> next_sid st' = next_sid st \<and> d_params st' = d_params st"
  by (auto simp: oh_get_domain_def get_domain_def Let_def split: option.splits)

lemma create_state:
  assumes "sess_inv st" and "next_sid st + 1 \<noteq> 0"
    and "oh_create_session clk st did = (sid, st')"
  shows "sess_inv st' \<and> d_params st' = d_params st \<and>
    (if sid = 0 then session_of st' = session_of st
     else session_of st sid = None \<and> session_of st' = (session_of st)(sid := Some
       \<lparr>s_id = sid, s_did = (if did = SAHPI_UNSPECIFIED_DOMAIN_ID then OH_DEFAULT_DOMAIN_ID else did),
        s_subscribed = False, s_eventq_status = 0, s_eventq = []\<rparr>))"
proof -
  let ?did = "if did = SAHPI_UNSPECIFIED_DOMAIN_ID then OH_DEFAULT_DOMAIN_ID else did"
  obtain r st1 where g: "oh_get_domain st ?did = (r, st1)" by (metis prod.exhaust)
  note k = get_domain_sessions [OF g]
  show ?thesis
  proof (cases r)
    case None
    then have "sid = 0" "st' = st1" using assms(3) g by (auto simp: oh_create_session_def Let_def)
    then show ?thesis using k assms(1) sess_inv_cong [of st1 st] session_of_cong [of st1 st] by simp
  next
    case (Some a)
    let ?s = "\<lparr>s_id = next_sid st, s_did = ?did, s_subscribed = False, s_eventq_status = 0, s_eventq = []\<rparr>"
    let ?st = "st1\<lparr>next_sid := next_sid st + 1, sess := nt_append s_id ?s (sess st)\<rparr>"
    have r: "sid = next_sid st" "st' = snd (oh_release_domain clk a ?st)"
      using assms(3) g Some k by (auto simp: oh_create_session_def Let_def)
    have i: "nt_inv s_id (sess st)" using assms(1) by (simp add: sess_inv_def)
    have new: "next_sid st \<notin> fst ` set (nt_abs s_id (sess st))"
      using assms(1) by (force simp: sess_inv_def)
    have ab: "nt_abs s_id (sess st') = nt_abs s_id (sess st) @ [(sid, ?s)]"
      using r by (simp add: nt_abs_append)
    have "nt_inv s_id (sess st')" using nt_inv_append [OF i, of ?s] new r by simp
    moreover have "queue_limit st' = queue_limit st" using r k by (simp add: queue_limit_def)
    ultimately have inv: "sess_inv st'"
      using assms(1,2) ab r word_less_succ [OF assms(2)]
      by (auto simp: sess_inv_def less_imp_le)
    have nz: "sid \<noteq> 0" using assms(1) r by (simp add: sess_inv_def)
    have none: "session_of st sid = None"
      using new r by (simp add: session_of_abs [OF assms(1)] map_of_eq_None_iff)
    have "session_of st' = (session_of st)(sid := Some ?s)"
    proof
      fix j
      show "session_of st' j = ((session_of st)(sid := Some ?s)) j"
        using none by (cases "map_of (nt_abs s_id (sess st)) j")
          (auto simp: session_of_abs [OF inv] session_of_abs [OF assms(1)] ab map_add_def)
    qed
    then show ?thesis using inv none nz r k by simp
  qed
qed

section \<open>Reachable session tables\<close>

inductive session_step :: "daemon \<Rightarrow> daemon \<Rightarrow> bool" where
  create: "next_sid st + 1 \<noteq> 0 \<Longrightarrow> session_step st (snd (oh_create_session clk st did))"
| destroy: "session_step st (snd (oh_destroy_session st sid))"
| subscribe: "session_step st (snd (oh_set_session_subscription st sid state))"
| enqueue: "session_step st (snd (oh_queue_session_event st sid e))"
| dequeue: "oh_dequeue_session_event [] st sid SAHPI_TIMEOUT_IMMEDIATE = Some (rc, out, status, st') \<Longrightarrow>
    session_step st st'"

lemma queue_params: "d_params (snd (oh_queue_session_event st sid e)) = d_params st"
  by (auto simp: oh_queue_session_event_def Let_def upd_session_def split: option.splits)

lemma session_step_keeps:
  assumes "session_step st st'" and "sess_inv st"
  shows "sess_inv st' \<and> d_params st' = d_params st"
  using assms
proof (induction rule: session_step.induct)
  case (create st clk did)
  then show ?case using create_state by (metis prod.collapse)
next
  case (destroy st sid)
  then show ?case using destroy_state destroy_fails
    by (cases "find_session st sid") (simp, metis surj_pair)
next
  case (subscribe st sid state)
  then show ?case using subscription_state subscription_fails
    by (cases "find_session st sid") (simp, metis surj_pair)
next
  case (enqueue st sid e)
  then show ?case by (simp add: queue_event_keeps queue_params)
next
  case (dequeue st sid rc out status st')
  show ?case
  proof (cases "find_session st sid")
    case None
    then show ?thesis using dequeue dequeue_now_none [of sid st "[]" "0"] by auto
  next
    case (Some p)
    then obtain a s where "find_session st sid = Some (a, s)" by (cases p) simp
    then show ?thesis using dequeue_now_state(2,5) dequeue by blast
  qed
qed

text \<open>C29: However sessions are opened, closed, subscribed, filled and read (without waiting), no event queue
  grows beyond its limit, and no session has the id 0 or the id of another one, as long as no
  session is opened with the last id, 0xFFFFFFFF, behind which the ids start again at 0. The limit 0
  does not stand for an unlimited queue, as the comment in the configuration file has it: with it
  a queue holds one event at most, as with the limit 1.\<close>

theorem session_queue_bounded:
  assumes "session_step\<^sup>*\<^sup>* st st'" and "sess st = nt_empty" and "next_sid st = 1"
    and "session_of st' sid = Some s"
  shows "length (s_eventq s) \<le> max 1 (unat (evt_queue_limit (d_params st))) \<and> sid \<noteq> 0 \<and> s_id s = sid \<and>
    sid < next_sid st'"
proof -
  have i: "sess_inv st" using assms(2,3) by (simp add: sess_inv_def nt_inv_empty nt_abs_empty)
  have "sess_inv st' \<and> d_params st' = d_params st"
    using assms(1)
  proof (induction rule: rtranclp_induct)
    case (step y z)
    then show ?case using session_step_keeps [OF step(2)] by simp
  qed (use i in simp)
  then have i': "sess_inv st'" and p: "d_params st' = d_params st" by auto
  have m: "(sid, s) \<in> set (nt_abs s_id (sess st'))"
    using assms(4) unfolding session_of_abs [OF i'] by (rule map_of_SomeD)
  then show ?thesis using i' p nt_abs_key [OF m] by (auto simp: sess_inv_def queue_limit_def)
qed

definition demo_limit :: "u32 \<Rightarrow> daemon" where
  "demo_limit n = demo_daemon\<lparr>d_params := (default_params [] [] [])\<lparr>evt_queue_limit := n\<rparr>\<rparr>"

text \<open>A daemon with one open session on the default domain.\<close>

definition demo_session :: "u32 \<Rightarrow> daemon" where
  "demo_session n = snd (oh_create_session of_nat (demo_limit n) 0)"

definition put2 :: "oh_event \<Rightarrow> daemon \<Rightarrow> daemon" where
  "put2 e st = snd (oh_queue_session_event (snd (oh_queue_session_event st 1 e)) 1 e)"

lemma demo_session_inv: "sess_inv (demo_session n)"
proof -
  have "sess_inv (demo_limit n)"
    by (simp add: sess_inv_def demo_limit_def demo_daemon_def nt_inv_empty nt_abs_empty)
  moreover have "next_sid (demo_limit n) + 1 \<noteq> 0" by (simp add: demo_limit_def demo_daemon_def)
  ultimately show ?thesis unfolding demo_session_def by (metis create_state prod.collapse)
qed

theorem session_queue_bounded_witness:
  "case session_of (put2 zero_event (demo_session 1)) 1 of None \<Rightarrow> False | Some s \<Rightarrow> length (s_eventq s) \<le> 1"
proof -
  have "next_sid (demo_limit 1) + 1 \<noteq> 0" by (simp add: demo_limit_def demo_daemon_def)
  then have "session_step (demo_limit 1) (demo_session 1)" unfolding demo_session_def by (rule create)
  moreover have "session_step (demo_session 1) (snd (oh_queue_session_event (demo_session 1) 1 zero_event))"
    by (rule enqueue)
  moreover have "session_step (snd (oh_queue_session_event (demo_session 1) 1 zero_event))
      (put2 zero_event (demo_session 1))" unfolding put2_def by (rule enqueue)
  ultimately have "session_step\<^sup>*\<^sup>* (demo_limit 1) (put2 zero_event (demo_session 1))"
    by (simp add: rtranclp.rtrancl_into_rtrancl)
  moreover have "sess (demo_limit 1) = nt_empty" "next_sid (demo_limit 1) = 1"
    "unat (evt_queue_limit (d_params (demo_limit 1))) = 1"
    by (simp_all add: demo_limit_def demo_daemon_def)
  ultimately have b: "length (s_eventq s) \<le> 1" if "session_of (put2 zero_event (demo_session 1)) 1 = Some s" for s
    using session_queue_bounded that by fastforce
  have "(session_of (put2 zero_event (demo_session 1)) 1 \<noteq> None) = True" by code_simp
  then show ?thesis using b by (auto split: option.splits)
qed

section \<open>First in, first out\<close>

datatype session_call = Put u32 oh_event | Get u32

text \<open>The daemon after some calls, the events it accepted and the events the readers got.\<close>

fun run_calls :: "session_call list \<Rightarrow> daemon \<Rightarrow> daemon \<times> (u32 \<times> oh_event) list \<times> (u32 \<times> oh_event) list" where
  "run_calls [] st = (st, [], [])"
| "run_calls (Put sid e # cs) st =
     (let (rc, st) = oh_queue_session_event st sid e; (st, acc, got) = run_calls cs st
      in (st, if rc = SA_OK then (sid, e) # acc else acc, got))"
| "run_calls (Get sid # cs) st =
     (case oh_dequeue_session_event [] st sid SAHPI_TIMEOUT_IMMEDIATE of
        Some (SA_OK, Some e, status, st) \<Rightarrow>
          (let (st, acc, got) = run_calls cs st in (st, acc, (sid, e) # got))
      | Some (_, _, _, st) \<Rightarrow> run_calls cs st
      | None \<Rightarrow> run_calls cs st)"

definition of_session :: "u32 \<Rightarrow> (u32 \<times> oh_event) list \<Rightarrow> oh_event list" where
  "of_session sid l = map snd (filter (\<lambda>p. fst p = sid) l)"

lemma put_queue:
  assumes "sess_inv st"
  shows "queue (snd (oh_queue_session_event st sid e)) j =
    queue st j @ (if fst (oh_queue_session_event st sid e) = SA_OK \<and> j = sid then [e] else [])"
proof (cases "find_session st sid")
  case None
  then show ?thesis using queue_event_fails [of sid st e] by simp
next
  case (Some p)
  then obtain a s where f: "find_session st sid = Some (a, s)" by (cases p) simp
  then have "queue st sid = s_eventq s" by (simp add: queue_def session_of_def)
  then show ?thesis
    unfolding queue_event_cases [OF assms f]
    by (auto simp: queue_def session_of_upd [OF assms f])
qed

lemma get_queue:
  assumes "sess_inv st" and "\<forall>e \<in> set (queue st sid). \<not> oh_detect_quit_event e"
  shows "\<exists>rc out status st'.
    oh_dequeue_session_event [] st sid SAHPI_TIMEOUT_IMMEDIATE = Some (rc, out, status, st') \<and> sess_inv st' \<and>
    (\<forall>j. j \<noteq> sid \<longrightarrow> queue st' j = queue st j) \<and>
    (case queue st sid of [] \<Rightarrow> rc \<noteq> SA_OK \<and> queue st' sid = [] | e # q \<Rightarrow> rc = SA_OK \<and> out = Some e \<and> queue st' sid = q)"
proof (cases "find_session st sid")
  case None
  then have "queue st sid = []" by (simp add: queue_def session_of_def)
  then show ?thesis using dequeue_now_none [of sid st "[]" 0] None assms(1) by auto
next
  case (Some p)
  then obtain a s where f: "find_session st sid = Some (a, s)" by (cases p) simp
  have "\<not> sid < 1" using find_session_in [OF assms(1) f] by (simp add: word_less_1)
  then obtain rc out status st' where d:
      "oh_dequeue_session_event [] st sid SAHPI_TIMEOUT_IMMEDIATE = Some (rc, out, status, st')"
    using dequeue_now [OF f, of "[]"] by (cases "s_eventq s") auto
  note ds = dequeue_now_state [OF assms(1) f d]
  have q: "queue st sid = s_eventq s" using f by (simp add: queue_def session_of_def)
  have "queue st' j = (if j = sid then tl (s_eventq s) else queue st j)" for j
    using ds(1) by (simp add: queue_def)
  moreover have "case s_eventq s of [] \<Rightarrow> rc \<noteq> SA_OK | e # q \<Rightarrow> rc = SA_OK \<and> out = Some e"
    using ds(4) assms(2) q by (auto simp: deliver_def split: list.splits)
  ultimately show ?thesis using d ds(2) q by (auto split: list.splits)
qed

text \<open>C28: Events other than the quit event, put into the queues of several sessions and read back without
  waiting, in any interleaving: what the readers of a session got, followed by what is still in its
  queue, is what was in the queue at first followed by what was accepted for it. So such an event,
  once accepted, is read at most once, in order and by its own session only, and is in the queue
  until then. (A quit event is taken off the queue without being handed to the reader, and a read
  that waits drops an event that comes after its session was unsubscribed.)\<close>

theorem session_fifo:
  assumes "sess_inv st" and "\<forall>sid. \<forall>e \<in> set (queue st sid). \<not> oh_detect_quit_event e"
    and "\<forall>sid e. Put sid e \<in> set cs \<longrightarrow> \<not> oh_detect_quit_event e"
    and "run_calls cs st = (st', acc, got)"
  shows "of_session sid got @ queue st' sid = queue st sid @ of_session sid acc"
  using assms
proof (induction cs arbitrary: st st' acc got)
  case Nil
  then show ?case by (simp add: of_session_def)
next
  case (Cons c cs)
  have np: "\<forall>sid e. Put sid e \<in> set cs \<longrightarrow> \<not> oh_detect_quit_event e" using Cons.prems(3) by simp
  show ?case
  proof (cases c)
    case (Put i e)
    obtain rc st1 where c: "oh_queue_session_event st i e = (rc, st1)" by (metis prod.exhaust)
    obtain st2 acc2 got2 where r: "run_calls cs st1 = (st2, acc2, got2)" by (metis prod.exhaust)
    have q: "queue st1 j = queue st j @ (if rc = SA_OK \<and> j = i then [e] else [])" for j
      using put_queue [OF Cons.prems(1), of i e j] c by simp
    have i1: "sess_inv st1" using queue_event_keeps [OF Cons.prems(1), of i e] c by simp
    have nq: "\<forall>sid. \<forall>e \<in> set (queue st1 sid). \<not> oh_detect_quit_event e"
      using Cons.prems(2,3) Put q by auto
    note IH = Cons.IH [OF i1 nq np r]
    show ?thesis using IH Cons.prems(4) Put c r q by (auto simp: of_session_def)
  next
    case (Get i)
    obtain rc out status st1 where d:
        "oh_dequeue_session_event [] st i SAHPI_TIMEOUT_IMMEDIATE = Some (rc, out, status, st1)"
      and i1: "sess_inv st1" and oth: "\<And>j. j \<noteq> i \<Longrightarrow> queue st1 j = queue st j"
      and own: "case queue st i of [] \<Rightarrow> rc \<noteq> SA_OK \<and> queue st1 i = []
                  | e # q \<Rightarrow> rc = SA_OK \<and> out = Some e \<and> queue st1 i = q"
      using get_queue [of st i] Cons.prems(1,2) by blast
    obtain st2 acc2 got2 where r: "run_calls cs st1 = (st2, acc2, got2)" by (metis prod.exhaust)
    have "set (queue st1 j) \<subseteq> set (queue st j)" for j
      using oth own by (cases "j = i") (auto split: list.splits)
    then have nq: "\<forall>sid. \<forall>e \<in> set (queue st1 sid). \<not> oh_detect_quit_event e"
      using Cons.prems(2) by blast
    note IH = Cons.IH [OF i1 nq np r]
    show ?thesis
    proof (cases "queue st i")
      case Nil
      then have f: "rc \<noteq> SA_OK" and "queue st1 sid = queue st sid" using own oth by (cases "sid = i"; simp)+
      moreover have "run_calls (c # cs) st = run_calls cs st1" using d f Get by (cases rc) auto
      ultimately show ?thesis using IH r Cons.prems(4) by simp
    next
      case (Cons e q)
      then have "rc = SA_OK" "out = Some e" "queue st1 i = q" using own by auto
      then show ?thesis using IH r \<open>run_calls (c # cs) st = (st', acc, got)\<close> d Cons oth Get
        by (auto simp: of_session_def)
    qed
  qed
qed

definition demo_event_of :: "u32 \<Rightarrow> oh_event" where
  "demo_event_of n = zero_event\<lparr>e_hid := n\<rparr>"

definition demo_calls :: "session_call list" where
  "demo_calls = [Put 1 (demo_event_of 1), Put 1 (demo_event_of 2), Put 2 zero_event, Get 1]"

lemma demo_queue_empty: "queue (demo_session n) sid = []"
proof -
  have i0: "sess_inv (demo_limit n)"
    by (simp add: sess_inv_def demo_limit_def demo_daemon_def nt_inv_empty nt_abs_empty)
  moreover have "next_sid (demo_limit n) + 1 \<noteq> 0" by (simp add: demo_limit_def demo_daemon_def)
  moreover have "session_of (demo_limit n) j = None" for j
    unfolding session_of_abs [OF i0] by (simp add: demo_limit_def demo_daemon_def nt_abs_empty)
  moreover obtain i st' where c: "oh_create_session of_nat (demo_limit n) 0 = (i, st')" by (metis prod.exhaust)
  ultimately show ?thesis
    using create_state [of "demo_limit n" of_nat 0 i st'] by (simp add: demo_session_def queue_def split: if_splits)
qed

theorem session_fifo_witness:
  "map e_hid (of_session 1 (snd (snd (run_calls demo_calls (demo_session 5))))) = [1] \<and>
   map e_hid (queue (fst (run_calls demo_calls (demo_session 5))) 1) = [2]"
proof -
  obtain st acc got where r: "run_calls demo_calls (demo_session 5) = (st, acc, got)" by (metis prod.exhaust)
  have np: "\<forall>sid e. Put sid e \<in> set demo_calls \<longrightarrow> \<not> oh_detect_quit_event e"
    by (auto simp: demo_calls_def demo_event_of_def zero_event_def oh_detect_quit_event_def)
  have "of_session 1 got @ queue st 1 = queue (demo_session 5) 1 @ of_session 1 acc"
    by (rule session_fifo [OF demo_session_inv _ np r]) (simp add: demo_queue_empty)
  moreover have "map e_hid (of_session 1 (fst (snd (run_calls demo_calls (demo_session 5))))) = [1, 2]"
    "map e_hid (of_session 1 (snd (snd (run_calls demo_calls (demo_session 5))))) = [1]"
    by code_simp+
  ultimately have "map e_hid (of_session 1 got @ queue st 1) = [1, 2]" "map e_hid (of_session 1 got) = [1]"
    using r by (simp_all add: demo_queue_empty)
  then show ?thesis using r by (auto simp: map_eq_Cons_conv)
qed

section \<open>Overflow\<close>

text \<open>The test of \<open>oh_queue_session_event\<close>: the queue has an event and is not shorter than the limit.\<close>

definition queue_full :: "daemon \<Rightarrow> oh_session \<Rightarrow> bool" where
  "queue_full st s \<longleftrightarrow>
     s_eventq s \<noteq> [] \<and> evt_queue_limit (d_params st) \<le> of_nat (length (s_eventq s))"

lemma dequeue_returns:
  assumes "sess_inv st" and "session_of st sid = Some s"
  obtains rc out st' where
    "oh_dequeue_session_event [] st sid SAHPI_TIMEOUT_IMMEDIATE = Some (rc, out, Some (s_eventq_status s), st')"
    "sess_inv st'"
    "map_option s_eventq_status (session_of st' sid) = Some 0"
proof -
  obtain a where f: "find_session st sid = Some (a, s)"
    using assms(2) by (auto simp: session_of_def)
  have "\<not> sid < 1" using find_session_in [OF assms(1) f] by (simp add: word_less_1)
  then obtain rc out status st' where
      d: "oh_dequeue_session_event [] st sid SAHPI_TIMEOUT_IMMEDIATE = Some (rc, out, status, st')"
    using dequeue_now [OF f, of "[]"] by (cases "s_eventq s") auto
  show ?thesis
    using that [of rc out st'] d dequeue_now_state [OF assms(1) f d] by auto
qed

text \<open>C37: An event for a session whose queue is full (it has an event and is not shorter than the limit) is
  dropped with \<open>SA_ERR_HPI_OUT_OF_SPACE\<close>, and nothing in the daemon changes but the queue status of that
  session; the next read of the session (without waiting) reports the overflow, and the read after it
  no longer does. An event that finds the queue not full is appended to it, and nothing else changes.\<close>

theorem overflow_reported:
  assumes "sess_inv st" and "session_of st sid = Some s"
  shows "\<exists>st1. oh_queue_session_event st sid e =
      (if queue_full st s then SA_ERR_HPI_OUT_OF_SPACE else SA_OK, st1) \<and>
    session_of st1 = (session_of st)(sid \<mapsto>
      (if queue_full st s then s\<lparr>s_eventq_status := SAHPI_EVT_QUEUE_OVERFLOW\<rparr>
       else s\<lparr>s_eventq := s_eventq s @ [e]\<rparr>)) \<and>
    st1\<lparr>sess := sess st\<rparr> = st \<and>
    (queue_full st s \<longrightarrow> (\<exists>rc2 out2 st2 rc3 out3 st3.
      oh_dequeue_session_event [] st1 sid SAHPI_TIMEOUT_IMMEDIATE =
        Some (rc2, out2, Some SAHPI_EVT_QUEUE_OVERFLOW, st2) \<and>
      oh_dequeue_session_event [] st2 sid SAHPI_TIMEOUT_IMMEDIATE = Some (rc3, out3, Some 0, st3)))"
proof -
  obtain a where f: "find_session st sid = Some (a, s)"
    using assms(2) by (auto simp: session_of_def)
  let ?st1 = "snd (oh_queue_session_event st sid e)"
  have i1: "sess_inv ?st1" by (rule queue_event_keeps [OF assms(1)])
  have q: "oh_queue_session_event st sid e =
      (if queue_full st s then SA_ERR_HPI_OUT_OF_SPACE else SA_OK, ?st1)"
    and frame: "?st1\<lparr>sess := sess st\<rparr> = st"
    and sessions: "session_of ?st1 = (session_of st)(sid \<mapsto>
      (if queue_full st s then s\<lparr>s_eventq_status := SAHPI_EVT_QUEUE_OVERFLOW\<rparr>
       else s\<lparr>s_eventq := s_eventq s @ [e]\<rparr>))"
    unfolding queue_event_cases [OF assms(1) f]
    by (simp_all add: queue_full_def session_of_upd [OF assms(1) f]) (simp_all add: upd_session_def)
  have "\<exists>rc2 out2 st2 rc3 out3 st3.
      oh_dequeue_session_event [] ?st1 sid SAHPI_TIMEOUT_IMMEDIATE =
        Some (rc2, out2, Some SAHPI_EVT_QUEUE_OVERFLOW, st2) \<and>
      oh_dequeue_session_event [] st2 sid SAHPI_TIMEOUT_IMMEDIATE = Some (rc3, out3, Some 0, st3)"
    if full: "queue_full st s"
  proof -
    have s1: "session_of ?st1 sid = Some (s\<lparr>s_eventq_status := SAHPI_EVT_QUEUE_OVERFLOW\<rparr>)"
      using sessions full by simp
    obtain rc2 out2 st2 where d2: "oh_dequeue_session_event [] ?st1 sid SAHPI_TIMEOUT_IMMEDIATE =
          Some (rc2, out2, Some SAHPI_EVT_QUEUE_OVERFLOW, st2)"
        "sess_inv st2" "map_option s_eventq_status (session_of st2 sid) = Some 0"
      by (rule dequeue_returns [OF i1 s1]) simp
    then obtain s2 where s2: "session_of st2 sid = Some s2" "s_eventq_status s2 = 0" by auto
    then show ?thesis using dequeue_returns [OF d2(2) s2(1)] d2(1) by metis
  qed
  then show ?thesis using q frame sessions by blast
qed

theorem overflow_reported_witness:
  "oh_queue_session_event (snd (oh_queue_session_event (demo_session 1) 1 zero_event)) 1 zero_event =
     (SA_ERR_HPI_OUT_OF_SPACE, put2 zero_event (demo_session 1)) \<and>
   (\<exists>rc out st. oh_dequeue_session_event [] (put2 zero_event (demo_session 1)) 1 SAHPI_TIMEOUT_IMMEDIATE =
     Some (rc, out, Some SAHPI_EVT_QUEUE_OVERFLOW, st))"
proof -
  let ?s = "snd (oh_queue_session_event (demo_session 1) 1 zero_event)"
  have i: "sess_inv ?s" by (rule queue_event_keeps [OF demo_session_inv])
  have "map_option (queue_full ?s) (session_of ?s 1) = Some True" by code_simp
  then obtain s where s: "session_of ?s 1 = Some s" "queue_full ?s s" by auto
  show ?thesis
    using overflow_reported [OF i s(1), of zero_event] s(2) by (auto simp: put2_def)
qed

text \<open>With a queue limit of 0, which the documentation calls unlimited, a session queue holds one
  event: every further event is refused.\<close>

lemma queue_limit_zero:
  assumes "sess_inv st" and "evt_queue_limit (d_params st) = 0" and "queue st sid \<noteq> []"
  shows "fst (oh_queue_session_event st sid e) = SA_ERR_HPI_OUT_OF_SPACE"
proof -
  obtain a s where f: "find_session st sid = Some (a, s)" "s_eventq s \<noteq> []"
    using assms(3) by (auto simp: queue_def session_of_def split: option.splits)
  then show ?thesis unfolding queue_event_cases [OF assms(1) f(1)] using assms(2) by simp
qed

lemma queue_limit_zero_witness:
  "fst (oh_queue_session_event (snd (oh_queue_session_event (demo_session 0) 1 zero_event)) 1 zero_event) =
     SA_ERR_HPI_OUT_OF_SPACE"
proof -
  let ?s = "snd (oh_queue_session_event (demo_session 0) 1 zero_event)"
  have "evt_queue_limit (d_params ?s) = 0" "queue ?s 1 \<noteq> []" by code_simp+
  then show ?thesis by (rule queue_limit_zero [OF queue_event_keeps [OF demo_session_inv]])
qed

section \<open>Unsubscribing\<close>

text \<open>Unsubscribing a session empties its queue and resets its overflow status, and changes no other
  session, unless a quit event is queued: then the events behind it stay.\<close>

lemma unsubscribe_flushes:
  assumes "sess_inv st" and "session_of st sid = Some s"
  shows "session_of (snd (oh_set_session_subscription st sid False)) = (session_of st)(sid := Some
      (s\<lparr>s_subscribed := False, s_eventq := behind_quit (s_eventq s), s_eventq_status := 0\<rparr>)) \<and>
    ((\<forall>e \<in> set (s_eventq s). \<not> oh_detect_quit_event e) \<longrightarrow>
       queue (snd (oh_set_session_subscription st sid False)) sid = [])"
proof -
  obtain a where f: "find_session st sid = Some (a, s)" using assms(2) by (auto simp: session_of_def)
  have "behind_quit q = []" if "\<forall>e \<in> set q. \<not> oh_detect_quit_event e" for q
    using that by (induction q) (simp_all add: behind_quit_def)
  then show ?thesis using subscription_state [OF assms(1) f, of False] by (simp add: queue_def)
qed

lemma unsubscribe_flushes_witness:
  "queue (snd (oh_set_session_subscription (put2 zero_event (demo_session 5)) 1 False)) 1 = []"
proof -
  let ?s = "put2 zero_event (demo_session 5)"
  have i: "sess_inv ?s" unfolding put2_def by (intro queue_event_keeps demo_session_inv)
  have "queue ?s 1 = [zero_event, zero_event]" by code_simp
  then obtain s where s: "session_of ?s 1 = Some s" "s_eventq s = [zero_event, zero_event]"
    by (auto simp: queue_def split: option.splits)
  have "\<not> oh_detect_quit_event zero_event" by (simp add: zero_event_def oh_detect_quit_event_def)
  then show ?thesis using unsubscribe_flushes [OF i s(1)] s(2) by simp
qed

section \<open>Blocking reads\<close>

text \<open>The daemon after the first waits, while nothing was popped.\<close>

definition after_waits :: "nat \<Rightarrow> (daemon \<Rightarrow> daemon) list \<Rightarrow> daemon \<Rightarrow> daemon" where
  "after_waits i waits st = fold (\<lambda>w s. w s) (take i waits) st"

lemma try_pop_empty [simp]: "queue_of st a = [] \<Longrightarrow> try_pop a st = (None, st)"
  by (simp add: try_pop_def)

lemma try_pop_some: "queue_of st a \<noteq> [] \<Longrightarrow> fst (try_pop a st) \<noteq> None"
  by (auto simp: try_pop_def split: list.splits)

lemma block_loop_returns:
  assumes "i \<le> length waits"
    and "queue_of (after_waits i waits st) a \<noteq> [] \<or> 0 < i \<and> sub_error (after_waits i waits st) sid \<noteq> None"
  shows "block_loop waits sid a st \<noteq> None"
  using assms
proof (induction waits arbitrary: st i)
  case Nil
  then have "queue_of st a \<noteq> []" by (simp add: after_waits_def)
  then show ?case using try_pop_some [of st a]
    by (subst block_loop.simps) (auto simp: timed_pop_def split: option.splits prod.splits)
next
  case (Cons w ws)
  show ?case
  proof (cases "queue_of st a = []")
    case False
    then show ?thesis using try_pop_some [of st a]
      by (subst block_loop.simps) (auto simp: timed_pop_def split: option.splits prod.splits)
  next
    case empty: True
    show ?thesis
    proof (cases "queue_of (w st) a = [] \<and> sub_error (w st) sid = None")
      case False
      then show ?thesis using empty try_pop_some [of "w st" a]
        by (cases "queue_of (w st) a = []"; subst block_loop.simps)
          (auto simp: timed_pop_def split: option.splits prod.splits)
    next
      case True
      from empty Cons.prems have "i \<noteq> 0" by (cases i) (auto simp: after_waits_def)
      then obtain k where k: "i = Suc k" by (cases i) auto
      then have eq: "after_waits i (w # ws) st = after_waits k ws (w st)" by (simp add: after_waits_def)
      have "k = 0 \<Longrightarrow> after_waits k ws (w st) = w st" by (simp add: after_waits_def)
      then have "block_loop ws sid a (w st) \<noteq> None"
        using Cons.prems True k eq by (cases "k = 0"; intro Cons.IH [of k]) auto
      then show ?thesis using empty True
        by (subst block_loop.simps) (simp add: timed_pop_def)
    qed
  qed
qed

text \<open>C30: a blocking read returns as soon as, at the end of some wait, there is an event in the queue of its
  session, or the session was closed or unsubscribed; it cannot stay blocked past that.\<close>

theorem blocked_reader_returns:
  assumes "find_session st sid = Some (a, s)" and "sid \<noteq> 0" and "i \<le> length waits"
    and "st1 = after_waits i waits (upd_session a (\<lambda>s. s\<lparr>s_eventq_status := 0\<rparr>) st)"
    and "queue_of st1 a \<noteq> [] \<or> 0 < i \<and> sub_error st1 sid \<noteq> None"
  shows "oh_dequeue_session_event waits st sid SAHPI_TIMEOUT_BLOCK \<noteq> None"
proof -
  have "\<not> sid < 1" using assms(2) by (simp add: word_less_1)
  moreover have "block_loop waits sid a (upd_session a (\<lambda>s. s\<lparr>s_eventq_status := 0\<rparr>) st) \<noteq> None"
    using assms(3-5) by (intro block_loop_returns) auto
  ultimately show ?thesis using assms(1)
    by (auto simp: oh_dequeue_session_event_def Let_def split: sum.splits prod.splits)
qed

text \<open>A reader waits twice; during the second wait its session is unsubscribed.\<close>

theorem blocked_reader_returns_witness:
  "oh_dequeue_session_event [id, \<lambda>st. snd (oh_set_session_subscription st 1 False)]
     (demo_session 5) 1 SAHPI_TIMEOUT_BLOCK \<noteq> None"
proof -
  let ?w = "\<lambda>st. snd (oh_set_session_subscription st 1 False)" and ?st = "demo_session 5"
  have "session_ptr ?st 1 = Some 0" by code_simp
  moreover have "session_at ?st 0 \<noteq> None" by code_simp
  ultimately obtain s where f: "find_session ?st 1 = Some (0, s)" by (auto simp: find_session_def)
  let ?st1 = "after_waits 2 [id, ?w] (upd_session 0 (\<lambda>s. s\<lparr>s_eventq_status := 0\<rparr>) ?st)"
  have e: "sub_error ?st1 1 = Some SA_ERR_HPI_INVALID_REQUEST" by code_simp
  have "sub_error ?st1 1 \<noteq> None" unfolding e by simp
  then show ?thesis by (intro blocked_reader_returns [OF f, of 2]) auto
qed

end
