(* ===== verification/EventProc.thy ===== *)
theory EventProc
  imports SessionProps
begin

text \<open>
  Event processing (\<^verbatim>\<open>openhpid/event.c\<close>): an event that a plugin has pushed is entered into the
  resource table and the event log of the domain, queued for the subscribed sessions of the
  domain, and turned into alarms. The functions change the event they are given, so it is part of
  their results. \<open>ev_io\<close> is the environment of one event: the clock readings, by the place that
  reads (event log, resource table, alarms, release of the domain) and the number of the reading
  there, and the outcome of writing the two files.
\<close>

record ev_io =
  clock :: "nat \<Rightarrow> nat \<Rightarrow> u64"
  del_io :: file_io
  dat_io :: file_io

abbreviation (input) clk_del :: nat where "clk_del \<equiv> 0"
abbreviation (input) clk_rpt :: nat where "clk_rpt \<equiv> 1"
abbreviation (input) clk_dat :: nat where "clk_dat \<equiv> 2"
abbreviation (input) clk_rel :: nat where "clk_rel \<equiv> 3"
abbreviation (input) clk_list :: nat where "clk_list \<equiv> 4"

section \<open>The event log and the sessions\<close>

definition log_event :: "ev_io \<Rightarrow> global_params \<Rightarrow> oh_event \<Rightarrow> oh_domain \<Rightarrow> SaErrorT \<times> oh_domain" where
  "log_event io gp e d =
     (if is_user_event (EventDataUnion (e_event e)) \<or> Severity (e_event e) \<le> log_on_sev gp then
        let rec = (case e_rdrs e of [] \<Rightarrow> None | r # _ \<Rightarrow> Some r);
            rpte = (if ResourceCapabilities (e_resource e) \<noteq> 0 then Some (e_resource e) else None);
            (error, elinfo) = oh_el_info (clock io clk_del 0) (d_del d);
            (error, del) = (if error = SA_OK \<and> Enabled elinfo
                            then oh_el_append (clock io clk_del 1) (d_del d) (e_event e) rec rpte
                            else (error, d_del d));
            d = d\<lparr>d_del := del\<rparr>
        in (error,
            if del_save gp then
              (case snd (oh_el_map_to_file (f_opened (del_io io)) (f_written (del_io io)) del) of
                 None \<Rightarrow> d
               | Some file \<Rightarrow> d\<lparr>del_file := Some (table_path (varpath gp) ''del'' (d_id d), file)\<rparr>)
            else d)
      else (SA_OK, d))"

text \<open>\<^verbatim>\<open>!d\<close> is a NULL check: the pointer the caller passes is to a live domain.\<close>

definition oh_add_event_to_del :: "ev_io \<Rightarrow> nat \<Rightarrow> oh_event \<Rightarrow> daemon \<Rightarrow> daemon" where
  "oh_add_event_to_del io a e st = upd_domain a (\<lambda>d. snd (log_event io (d_params st) e d)) st"

text \<open>The multiplexing loop.\<close>

fun multiplex :: "u32 list \<Rightarrow> oh_event \<Rightarrow> daemon \<Rightarrow> daemon" where
  "multiplex [] e st = st"
| "multiplex (sid # sids) e st =
     multiplex sids e
       (if snd (oh_get_session_subscription st sid) = Some True
        then snd (oh_queue_session_event st sid e) else st)"

text \<open>Events of users carry neither a resource nor a record.\<close>

definition strip_user :: "oh_event \<Rightarrow> oh_event" where
  "strip_user e =
     (if is_user_event (EventDataUnion (e_event e)) then
        e\<lparr>e_resource := (e_resource e)\<lparr>ResourceCapabilities := 0\<rparr>,
          e_rdrs := (case e_rdrs e of [] \<Rightarrow> [] | r # rs \<Rightarrow> r\<lparr>RdrType := SAHPI_NO_RECORD\<rparr> # rs)\<rparr>
      else e)"

definition process_hpi_event :: "ev_io \<Rightarrow> nat \<Rightarrow> oh_event \<Rightarrow> daemon \<Rightarrow> int \<times> oh_event \<times> daemon" where
  "process_hpi_event io a e st =
     (case dom_heap st a of
        None \<Rightarrow> (-1, e, st)
      | Some d \<Rightarrow>
          (let e = strip_user e;
               st = oh_add_event_to_del io a e st
           in case oh_list_sessions (clock io clk_list) st (d_id d) of
                (None, st) \<Rightarrow> (-2, e, st)
              | (Some sids, st) \<Rightarrow> if length sids < 1 then (0, e, st) else (0, e, multiplex sids e st)))"

section \<open>Resource events\<close>

text \<open>Changes of the resource table behind a domain pointer.\<close>

definition upd_rpt :: "nat \<Rightarrow> (RPTable \<Rightarrow> RPTable) \<Rightarrow> daemon \<Rightarrow> daemon" where
  "upd_rpt a f = upd_domain a (\<lambda>d. d\<lparr>d_rpt := f (d_rpt d)\<rparr>)"

definition rpt_of :: "daemon \<Rightarrow> nat \<Rightarrow> RPTable" where
  "rpt_of st a = (case dom_heap st a of None \<Rightarrow> zero_rpt | Some d \<Rightarrow> d_rpt d)"

text \<open>\<^verbatim>\<open>g_new0(unsigned int, 1)\<close> filled with the handler id, and \<^verbatim>\<open>g_free\<close> of it.\<close>

definition new_hid :: "u32 \<Rightarrow> daemon \<Rightarrow> nat \<times> daemon" where
  "new_hid hid st =
     (hid_fresh st, st\<lparr>hid_heap := (hid_heap st)(hid_fresh st \<mapsto> hid), hid_fresh := Suc (hid_fresh st)\<rparr>)"

definition free_hid :: "nat \<Rightarrow> daemon \<Rightarrow> daemon" where
  "free_hid p st = st\<lparr>hid_heap := (hid_heap st)(p := None)\<rparr>"

text \<open>\<open>oh_add_resource\<close> with the handler id as private data (\<^verbatim>\<open>FREE_RPT_DATA\<close>).\<close>

definition add_event_resource :: "ev_io \<Rightarrow> nat \<Rightarrow> oh_event \<Rightarrow> nat \<Rightarrow> daemon \<Rightarrow> SaErrorT \<times> oh_event \<times> daemon" where
  "add_event_resource io a e hidp st =
     (let (error, entry, rpt) = oh_add_resource (clock io clk_rpt 0) (rpt_of st a) (e_resource e) hidp False
      in (error, e\<lparr>e_resource := entry\<rparr>, upd_rpt a (\<lambda>_. rpt) st))"

fun remove_event_rdrs :: "u32 \<Rightarrow> SaHpiRdrT list \<Rightarrow> RPTable \<Rightarrow> RPTable" where
  "remove_event_rdrs rid [] rpt = rpt"
| "remove_event_rdrs rid (rec # rest) rpt =
     (let instr_id = oh_get_instrument_id rec;
          rdrid = oh_get_rdr_uid (RdrType rec) instr_id
      in remove_event_rdrs rid rest (snd (oh_remove_rdr rpt rid rdrid)))"

text \<open>Adding writes the record id into the record of the event.\<close>

fun add_event_rdrs :: "u32 \<Rightarrow> SaHpiRdrT list \<Rightarrow> RPTable \<Rightarrow> SaHpiRdrT list \<times> RPTable" where
  "add_event_rdrs rid [] rpt = ([], rpt)"
| "add_event_rdrs rid (rec # rest) rpt =
     (let (error, rec, rpt) = oh_add_rdr rpt rid rec 0 False;
          (rest, rpt) = add_event_rdrs rid rest rpt
      in (rec # rest, rpt))"

definition add_rdrs_of :: "nat \<Rightarrow> oh_event \<Rightarrow> daemon \<Rightarrow> oh_event \<times> daemon" where
  "add_rdrs_of a e st =
     (let (rs, rpt) = add_event_rdrs (ResourceId (e_resource e)) (e_rdrs e) (rpt_of st a)
      in (e\<lparr>e_rdrs := rs\<rparr>, upd_rpt a (\<lambda>_. rpt) st))"

text \<open>
  The \<^verbatim>\<open>switch\<close> of \<open>process_resource_event\<close>: the flags process, update and remove and the event;
  \<open>None\<close> for an unknown type.
\<close>

definition resource_event_flags ::
    "SaHpiResourceEventTypeT \<Rightarrow> SaHpiRptEntryT option \<Rightarrow> oh_event \<Rightarrow> (bool \<times> bool \<times> bool \<times> oh_event) option"
where
  "resource_event_flags rtype exists e =
     (let failed = (case exists of None \<Rightarrow> False | Some r \<Rightarrow> ResourceFailed r);
          set_failed = (\<lambda>b. e\<lparr>e_resource := (e_resource e)\<lparr>ResourceFailed := b\<rparr>\<rparr>)
      in case rtype of
           SAHPI_RESE_RESOURCE_FAILURE \<Rightarrow>
             Some (if failed then (False, False, False, e) else (True, False, False, set_failed True))
         | SAHPI_RESE_RESOURCE_INACCESSIBLE \<Rightarrow>
             Some (if failed then (False, False, False, e) else (True, False, False, set_failed True))
         | SAHPI_RESE_RESOURCE_RESTORED \<Rightarrow>
             Some (if failed then (True, False, False, set_failed False) else (False, False, False, e))
         | SAHPI_RESE_RESOURCE_ADDED \<Rightarrow> Some (True, True, False, e)
         | SAHPI_RESE_RESOURCE_UPDATED \<Rightarrow> Some (True, True, False, e)
         | SAHPI_RESE_RESOURCE_REMOVED \<Rightarrow> Some (exists \<noteq> None, False, True, e)
         | SAHPI_RESE_OTHER _ \<Rightarrow> None)"

definition process_resource_event ::
    "ev_io \<Rightarrow> nat \<Rightarrow> SaHpiResourceEventTypeT \<Rightarrow> oh_event \<Rightarrow> daemon \<Rightarrow> int \<times> oh_event \<times> daemon"
where
  "process_resource_event io a rtype e st =
     (let exists = oh_get_resource_by_id (rpt_of st a) (ResourceId (e_resource e))
      in case resource_event_flags rtype exists e of
           None \<Rightarrow> (-1, e, st)
         | Some (process, update, remove, e) \<Rightarrow>
             if remove then
               let st = (if exists \<noteq> None
                         then upd_rpt a (\<lambda>rpt. snd (oh_remove_resource (clock io clk_rpt 0) rpt (ResourceId (e_resource e)))) st
                         else st)
               in if process then (0, snd (process_hpi_event io a e st)) else (0, e, st)
             else
               let (hidp, st) = new_hid (e_hid e) st;
                   (error, e, st) = add_event_resource io a e hidp st
               in if error \<noteq> SA_OK then (-1, e, free_hid hidp st)
                  else
                    let (e, st) =
                          (if update then
                             add_rdrs_of a e
                               (upd_rpt a (remove_event_rdrs (ResourceId (e_resource e)) (e_rdrs_to_remove e)) st)
                           else (e, st))
                    in if process then (0, snd (process_hpi_event io a e st)) else (0, e, st))"

definition process_hs_event ::
    "ev_io \<Rightarrow> nat \<Rightarrow> SaHpiHotSwapEventT \<Rightarrow> oh_event \<Rightarrow> daemon \<Rightarrow> int \<times> oh_event \<times> daemon"
where
  "process_hs_event io a hse e st =
     (let exists = oh_get_resource_by_id (rpt_of st a) (ResourceId (e_resource e));
          (e, st) =
            (if HotSwapState hse = SAHPI_HS_STATE_NOT_PRESENT then
               (e, upd_rpt a (\<lambda>rpt. snd (oh_remove_resource (clock io clk_rpt 0) rpt (ResourceId (e_resource e)))) st)
             else
               let (hidp, st) = new_hid (e_hid e) st;
                   (error, e, st) = add_event_resource io a e hidp st
               in if error = SA_OK \<and> exists = None then add_rdrs_of a e st else (e, st))
      in if HotSwapState hse \<noteq> PreviousHotSwapState hse then (0, snd (process_hpi_event io a e st))
         else (0, e, st))"

section \<open>One event\<close>

text \<open>An event without a resource takes the one of its source, if the table has it.\<close>

definition restore_resource :: "RPTable \<Rightarrow> oh_event \<Rightarrow> oh_event" where
  "restore_resource rpt e =
     (if ResourceCapabilities (e_resource e) = 0 then
        (case oh_get_resource_by_id rpt (Source (e_event e)) of
           None \<Rightarrow> e
         | Some restored \<Rightarrow> e\<lparr>e_resource := restored\<rparr>)
      else e)"

text \<open>The \<^verbatim>\<open>switch\<close> over the event type.\<close>

definition dispatch_event :: "ev_io \<Rightarrow> nat \<Rightarrow> oh_event \<Rightarrow> daemon \<Rightarrow> oh_event \<times> daemon" where
  "dispatch_event io a e st =
     (case EventDataUnion (e_event e) of
        ResourceEvent rtype \<Rightarrow>
          if e_hid e = 0 then (e, st)
          else
            let e = restore_resource (rpt_of st a) e
            in if ResourceCapabilities (e_resource e) AND SAHPI_CAPABILITY_RESOURCE = 0 then (e, st)
               else if ResourceCapabilities (e_resource e) AND SAHPI_CAPABILITY_FRU \<noteq> 0 \<and>
                       rtype = SAHPI_RESE_RESOURCE_ADDED then (e, st)
               else snd (process_resource_event io a rtype e st)
      | HotSwapEvent hse \<Rightarrow>
          if e_hid e = 0 then (e, st)
          else
            let e = restore_resource (rpt_of st a) e
            in if ResourceCapabilities (e_resource e) AND SAHPI_CAPABILITY_RESOURCE = 0 then (e, st)
               else if ResourceCapabilities (e_resource e) AND SAHPI_CAPABILITY_FRU = 0 then (e, st)
               else snd (process_hs_event io a hse e st)
      | OtherEvent _ _ \<Rightarrow> (e, st)
      | _ \<Rightarrow> snd (process_hpi_event io a e st))"

definition process_event :: "ev_io \<Rightarrow> u32 \<Rightarrow> oh_event \<Rightarrow> daemon \<Rightarrow> int \<times> oh_event \<times> daemon" where
  "process_event io did e st =
     (case oh_get_domain st did of
        (None, st) \<Rightarrow> (-2, e, st)
      | (Some a, st) \<Rightarrow>
          (let (e, st) = dispatch_event io a e st;
               st = upd_domain a
                      (\<lambda>d. snd (oh_detect_event_alarm (env_of (dat_io io) st) (clock io clk_dat) d e)) st
           in (0, e, snd (oh_release_domain (clock io clk_rel) a st))))"

section \<open>The event thread\<close>

text \<open>
  \<open>oh_process_events\<close>: pops the queue until the quit event. An empty queue blocks the thread; the
  result is then \<open>Inl\<close> the daemon it waits in. \<open>ios n\<close> is the environment of the nth event.
\<close>

function process_events :: "(nat \<Rightarrow> ev_io) \<Rightarrow> nat \<Rightarrow> oh_event list \<Rightarrow> daemon \<Rightarrow> daemon + SaErrorT \<times> daemon" where
  "process_events ios n [] st = Inl st"
| "process_events ios n (e # es) st =
     (let (_, e, st) = process_event (ios n) OH_DEFAULT_DOMAIN_ID e (st\<lparr>process_q := es\<rparr>)
      in if oh_detect_quit_event e then Inr (SA_OK, st) else process_events ios (Suc n) es st)"
  by pat_completeness auto
termination by (relation "measure (\<lambda>(ios, n, es, st). length es)") auto

definition oh_process_events :: "(nat \<Rightarrow> ev_io) \<Rightarrow> daemon \<Rightarrow> daemon + SaErrorT \<times> daemon" where
  "oh_process_events ios st = process_events ios 0 (process_q st) st"

end
