(* ===== verification/EventProps.thy ===== *)
theory EventProps
  imports EventProc RptProps AlarmProps
begin

text \<open>
  Properties of event processing: which sessions and which log get an event, what resource and hot
  swap events do to the resource table, that every resource keeps a live pointer to the id of its
  handler, and when the event thread stops.
\<close>

section \<open>Live domains\<close>

definition live :: "daemon \<Rightarrow> nat \<Rightarrow> oh_domain \<Rightarrow> bool" where
  "live st a d \<longleftrightarrow> dom_heap st a = Some d \<and> dom_table st (d_id d) = Some a \<and>
     d_id d \<noteq> SAHPI_UNSPECIFIED_DOMAIN_ID \<and> 0 \<le> d_refcount d"

lemma get_live:
  "live st a d \<Longrightarrow> oh_get_domain st (d_id d) = (Some a, inc_domain_refcount a st)"
  by (simp add: live_def oh_get_domain_def get_domain_def Let_def)

text \<open>Getting a domain and releasing it again changes nothing.\<close>

lemma get_release:
  assumes "live st a d"
  shows "snd (oh_release_domain clk a (inc_domain_refcount a st)) = st"
proof -
  have d: "dom_heap st a = Some d" and r: "0 \<le> d_refcount d" using assms by (simp_all add: live_def)
  have eq: "dec_domain_refcount a (inc_domain_refcount a st) = st"
    using d by (cases st) (auto simp: dec_domain_refcount_def inc_domain_refcount_def upd_domain_def fun_eq_iff)
  have "refcount st a = d_refcount d" using d by (simp add: refcount_def)
  then show ?thesis using r by (simp add: oh_release_domain_def Let_def eq)
qed

text \<open>The ids of the sessions of a domain.\<close>

definition sessions_of :: "daemon \<Rightarrow> u32 \<Rightarrow> u32 list" where
  "sessions_of st did = map (\<lambda>p. s_id (snd p)) (filter (\<lambda>p. s_did (snd p) = did) (nt_nodes (sess st)))"

lemma list_sessions_live:
  "live st a d \<Longrightarrow> oh_list_sessions clk st (d_id d) = (Some (sessions_of st (d_id d)), st)"
  using get_live [of st a d] get_release [of st a d clk]
  by (simp add: oh_list_sessions_def sessions_of_def live_def inc_domain_refcount_def upd_domain_def)

lemma upd_domain_rest [simp]:
  "hid_heap (upd_domain a f st) = hid_heap st" "hid_fresh (upd_domain a f st) = hid_fresh st"
  "d_uids (upd_domain a f st) = d_uids st" "process_q (upd_domain a f st) = process_q st"
  by (simp_all add: upd_domain_def)

lemma log_event_same [simp]:
  "d_id (snd (log_event io gp e d)) = d_id d" "d_refcount (snd (log_event io gp e d)) = d_refcount d"
  "d_rpt (snd (log_event io gp e d)) = d_rpt d" "d_dat (snd (log_event io gp e d)) = d_dat d"
  by (auto simp: log_event_def Let_def split: option.splits prod.splits)

lemma upd_live:
  "live st a d \<Longrightarrow> d_id (f d) = d_id d \<Longrightarrow> d_refcount (f d) = d_refcount d \<Longrightarrow> live (upd_domain a f st) a (f d)"
  by (simp add: live_def)

lemma process_hpi_live:
  assumes "live st a d"
  shows "process_hpi_event io a e st =
    (0, strip_user e, multiplex (sessions_of st (d_id d)) (strip_user e) (oh_add_event_to_del io a (strip_user e) st))"
proof -
  let ?st = "oh_add_event_to_del io a (strip_user e) st"
  have l: "live ?st a (snd (log_event io (d_params st) (strip_user e) d))"
    unfolding oh_add_event_to_del_def
    by (rule upd_live [OF assms, of "\<lambda>d. snd (log_event io (d_params st) (strip_user e) d)"]) simp_all
  have s: "sessions_of ?st = sessions_of st"
    by (simp add: fun_eq_iff sessions_of_def oh_add_event_to_del_def)
  have "oh_list_sessions (clock io clk_list) ?st (d_id d) = (Some (sessions_of st (d_id d)), ?st)"
    using list_sessions_live [OF l, of "clock io clk_list"] s by simp
  moreover have "dom_heap st a = Some d" using assms by (simp add: live_def)
  ultimately show ?thesis
    by (cases "sessions_of st (d_id d)") (auto simp: process_hpi_event_def Let_def)
qed

section \<open>Delivery\<close>

definition has_room :: "daemon \<Rightarrow> u32 \<Rightarrow> bool" where
  "has_room st sid \<longleftrightarrow> queue st sid = [] \<or>
     of_nat (length (queue st sid)) < evt_queue_limit (d_params st)"

definition subscribed :: "daemon \<Rightarrow> u32 \<Rightarrow> bool" where
  "subscribed st sid = (case session_of st sid of None \<Rightarrow> False | Some s \<Rightarrow> s_subscribed s)"

lemma subscription_of:
  "sess_inv st \<Longrightarrow> (snd (oh_get_session_subscription st sid) = Some True) = subscribed st sid"
  using find_session_in [of st sid]
  by (auto simp: oh_get_session_subscription_def subscribed_def session_of_def word_less_1
      split: option.splits)

lemma queue_other:
  "sess_inv st \<Longrightarrow> j \<noteq> sid \<Longrightarrow> session_of (snd (oh_queue_session_event st sid e)) j = session_of st j"
  using queue_event_cases [of st sid _ _ e] session_of_upd [of st sid] queue_event_fails [of sid st e]
  by (cases "find_session st sid") auto

lemma queue_accepts:
  assumes "sess_inv st" and "subscribed st sid"
  shows "fst (oh_queue_session_event st sid e) = SA_OK \<longleftrightarrow> has_room st sid"
proof -
  obtain a s where f: "find_session st sid = Some (a, s)"
    using assms(2) by (auto simp: subscribed_def session_of_def split: option.splits)
  then have "queue st sid = s_eventq s" by (simp add: queue_def session_of_def)
  then show ?thesis unfolding queue_event_cases [OF assms(1) f] by (auto simp: has_room_def not_le)
qed

lemma queue_keeps_domains [simp]:
  "dom_heap (snd (oh_queue_session_event st sid e)) = dom_heap st"
  "dom_table (snd (oh_queue_session_event st sid e)) = dom_table st"
  "hid_heap (snd (oh_queue_session_event st sid e)) = hid_heap st"
  "hid_fresh (snd (oh_queue_session_event st sid e)) = hid_fresh st"
  "d_params (snd (oh_queue_session_event st sid e)) = d_params st"
  "d_uids (snd (oh_queue_session_event st sid e)) = d_uids st"
  "process_q (snd (oh_queue_session_event st sid e)) = process_q st"
  by (auto simp: oh_queue_session_event_def upd_session_def Let_def split: option.splits)

lemma multiplex_keeps [simp]:
  "dom_heap (multiplex sids e st) = dom_heap st" "dom_table (multiplex sids e st) = dom_table st"
  "hid_heap (multiplex sids e st) = hid_heap st" "hid_fresh (multiplex sids e st) = hid_fresh st"
  "d_params (multiplex sids e st) = d_params st" "d_uids (multiplex sids e st) = d_uids st"
  "process_q (multiplex sids e st) = process_q st"
  by (induction sids arbitrary: st) simp_all

lemma multiplex_queue:
  assumes "sess_inv st" and "distinct sids"
  shows "queue (multiplex sids e st) j =
    queue st j @ (if j \<in> set sids \<and> subscribed st j \<and> has_room st j then [e] else []) \<and>
    sess_inv (multiplex sids e st)"
  using assms
proof (induction sids arbitrary: st)
  case (Cons i sids)
  let ?st = "if subscribed st i then snd (oh_queue_session_event st i e) else st"
  have m: "multiplex (i # sids) e st = multiplex sids e ?st"
    by (simp add: subscription_of [OF Cons.prems(1)])
  have i1: "sess_inv ?st" using Cons.prems(1) by (simp add: queue_event_keeps)
  have q: "queue ?st k = queue st k @ (if k = i \<and> subscribed st i \<and> has_room st i then [e] else [])" for k
    using put_queue [OF Cons.prems(1), of i e k] queue_accepts [OF Cons.prems(1), of i e] by auto
  have sub: "subscribed ?st k = subscribed st k" "has_room ?st k = has_room st k" if "k \<noteq> i" for k
    using queue_other [OF Cons.prems(1) that, of e] q [of k] that
    by (auto simp: subscribed_def has_room_def)
  show ?case
    unfolding m using Cons.IH [OF i1] Cons.prems(2) q sub by (cases "j = i") auto
qed simp

lemma sessions_of_in:
  assumes "sess_inv st"
  shows "j \<in> set (sessions_of st did) \<longleftrightarrow> (\<exists>s. session_of st j = Some s \<and> s_did s = did)"
    and "distinct (sessions_of st did)"
proof -
  have i: "nt_inv s_id (sess st)" using assms by (simp add: sess_inv_def)
  have "session_of st j = Some s \<longleftrightarrow> (\<exists>a. (a, s) \<in> set (nt_nodes (sess st)) \<and> s_id s = j)" for s
    unfolding session_of_abs [OF assms] map_of_eq_Some_iff [OF nt_keys_distinct [OF i]]
    by (force simp: nt_abs_def)
  then show "j \<in> set (sessions_of st did) \<longleftrightarrow> (\<exists>s. session_of st j = Some s \<and> s_did s = did)"
    by (force simp: sessions_of_def)
  have "distinct (map (s_id \<circ> snd) (nt_nodes (sess st)))" using i by (simp add: nt_inv_def)
  then show "distinct (sessions_of st did)"
    unfolding sessions_of_def using distinct_map_filter [of "\<lambda>p. s_id (snd p)"] by (simp add: comp_def)
qed

text \<open>The whole step: get the domain, dispatch, detect alarms, release.\<close>

definition detect :: "ev_io \<Rightarrow> daemon \<Rightarrow> oh_event \<Rightarrow> oh_domain \<Rightarrow> oh_domain" where
  "detect io st e d = snd (oh_detect_event_alarm (env_of (dat_io io) st) (clock io clk_dat) d e)"

lemma detect_same [simp]:
  "d_id (detect io st e d) = d_id d" "d_rpt (detect io st e d) = d_rpt d" "d_del (detect io st e d) = d_del d"
  by (simp_all add: detect_def)

lemma add_alarm_refcount: "d_refcount (snd (snd (oh_add_alarm gp io clk d x b))) = d_refcount d"
  by (auto simp: oh_add_alarm_def Let_def update_dat_def split: option.splits)

lemma detect_refcount [simp]: "d_refcount (detect io st e d) = d_refcount d"
  unfolding detect_def
  by (rule detect_event_keeps)
    (simp_all add: remove_alarms_def add_alarm_def oh_remove_alarm_def Let_def update_dat_def add_alarm_refcount)

text \<open>The domain and the daemon while an event is dispatched.\<close>

definition dom_held :: "oh_domain \<Rightarrow> oh_domain" where
  "dom_held d = d\<lparr>d_refcount := d_refcount d + 1\<rparr>"

lemma dom_held_simps [simp]:
  "d_id (dom_held d) = d_id d" "d_rpt (dom_held d) = d_rpt d" "d_del (dom_held d) = d_del d" "d_dat (dom_held d) = d_dat d"
  by (simp_all add: dom_held_def)

lemma dom_held_live: "live st a d \<Longrightarrow> live (inc_domain_refcount a st) a (dom_held d)"
  by (simp add: live_def dom_held_def)

lemma process_event_live:
  assumes "live st a d" and "dispatch_event io a e (inc_domain_refcount a st) = (e', st')"
    and "live st' a d'" and "1 \<le> d_refcount d'"
  shows "process_event io (d_id d) e st = (0, e', upd_domain a (\<lambda>_. (detect io st' e' d')\<lparr>d_refcount := d_refcount d' - 1\<rparr>) st')"
proof -
  let ?st2 = "upd_domain a (detect io st' e') st'"
  have h: "dom_heap st' a = Some d'" using assms(3) by (simp add: live_def)
  have "dec_domain_refcount a ?st2 = upd_domain a (\<lambda>_. (detect io st' e' d')\<lparr>d_refcount := d_refcount d' - 1\<rparr>) st'"
    using h by (cases st') (simp add: dec_domain_refcount_def upd_domain_def fun_eq_iff)
  moreover have "refcount (dec_domain_refcount a ?st2) a = d_refcount d' - 1"
    using h by (simp add: refcount_def)
  ultimately have "snd (oh_release_domain clk a ?st2) =
      upd_domain a (\<lambda>_. (detect io st' e' d')\<lparr>d_refcount := d_refcount d' - 1\<rparr>) st'" for clk
    using assms(4) by (simp add: oh_release_domain_def Let_def)
  then show ?thesis
    using get_live [OF assms(1)] assms(2) by (simp add: process_event_def detect_def [abs_def])
qed

text \<open>Events that only report something: every type but resource and hot swap events.\<close>

fun reporting :: "SaHpiEventUnionT \<Rightarrow> bool" where
  "reporting (ResourceEvent _) = False"
| "reporting (HotSwapEvent _) = False"
| "reporting (OtherEvent _ _) = False"
| "reporting _ = True"

lemma dispatch_reporting:
  "reporting (EventDataUnion (e_event e)) \<Longrightarrow> dispatch_event io a e st = snd (process_hpi_event io a e st)"
  by (cases "EventDataUnion (e_event e)") (simp_all add: dispatch_event_def)

lemma sess_only:
  "sess st' = sess st \<Longrightarrow> next_sid st' = next_sid st \<Longrightarrow> d_params st' = d_params st \<Longrightarrow>
    sess_inv st' = sess_inv st \<and> queue st' = queue st \<and> subscribed st' = subscribed st \<and> has_room st' = has_room st \<and>
    session_of st' = session_of st"
  using session_of_cong [of st' st] sess_inv_cong [of st' st]
  by (simp add: fun_eq_iff queue_def subscribed_def has_room_def)

lemma strip_user_idem [simp]: "strip_user (strip_user e) = strip_user e"
  by (cases "e_rdrs e") (auto simp: strip_user_def)

lemma process_hpi_strip: "process_hpi_event io a (strip_user e) st = process_hpi_event io a e st \<or> dom_heap st a = None"
  by (auto simp: process_hpi_event_def split: option.splits)

lemma log_event_del: "d_del d' = d_del d \<Longrightarrow> d_del (snd (log_event io gp e d')) = d_del (snd (log_event io gp e d))"
  by (auto simp: log_event_def Let_def split: option.splits prod.splits)

definition receives :: "daemon \<Rightarrow> u32 \<Rightarrow> u32 \<Rightarrow> bool" where
  "receives st did j \<longleftrightarrow> (\<exists>s. session_of st j = Some s \<and> s_did s = did \<and> s_subscribed s) \<and> has_room st j"

lemma receives_listed:
  "sess_inv st \<Longrightarrow> receives st did j \<longleftrightarrow> j \<in> set (sessions_of st did) \<and> subscribed st j \<and> has_room st j"
  using sessions_of_in(1) [of st j did] by (auto simp: receives_def subscribed_def split: option.splits)

text \<open>
  What an event does once it is dispatched: the table of the domain has become \<open>T\<close>, and if \<open>p\<close> the
  event is logged and multiplexed.
\<close>

lemma after_dispatch:
  assumes inv: "sess_inv st" and l: "live st a d"
    and S: "sess S = sess st" "next_sid S = next_sid st" "d_params S = d_params st" "dom_table S = dom_table st"
      "dom_heap S a = Some ((dom_held d)\<lparr>d_rpt := T\<rparr>)"
    and disp: "dispatch_event io a e (inc_domain_refcount a st) = (if p then snd (process_hpi_event io a e' S) else (e', S))"
    and e': "strip_user e' = e'"
    and c: "process_event io (d_id d) e st = (rc, e'', st')"
  shows "rc = 0 \<and> e'' = e' \<and> queue st' j = queue st j @ (if p \<and> receives st (d_id d) j then [e'] else []) \<and>
    rpt_of st' a = T \<and> hid_heap st' = hid_heap S \<and> hid_fresh st' = hid_fresh S \<and> sess_inv st' \<and>
    (\<exists>d'. live st' a d' \<and> d_id d' = d_id d \<and> d_rpt d' = T) \<and>
    map_option d_del (dom_heap st' a) = Some (if p then d_del (snd (log_event io (d_params st) e' d)) else d_del d)"
proof -
  let ?h = "(dom_held d)\<lparr>d_rpt := T\<rparr>"
  let ?s1 = "oh_add_event_to_del io a e' S" and ?ids = "sessions_of st (d_id d)"
  let ?s2 = "if p then multiplex ?ids e' ?s1 else S"
  let ?d2 = "if p then snd (log_event io (d_params st) e' ?h) else ?h"
  have lS: "live S a ?h" using l S by (simp add: live_def dom_held_def)
  have ids: "sessions_of S (d_id d) = ?ids" by (simp add: sessions_of_def S)
  have disp': "dispatch_event io a e (inc_domain_refcount a st) = (e', ?s2)"
    using disp process_hpi_live [OF lS, of io e'] ids e' by simp
  have h2: "dom_heap ?s2 a = Some ?d2" using S by (simp add: oh_add_event_to_del_def)
  have d2: "d_id ?d2 = d_id d" "d_refcount ?d2 = d_refcount d + 1" "d_rpt ?d2 = T"
    by (simp_all add: dom_held_def)
  have l2: "live ?s2 a ?d2" using h2 d2 l S(4) by (simp add: live_def oh_add_event_to_del_def)
  have "1 \<le> d_refcount ?d2" using d2 l by (simp add: live_def)
  note pe = process_event_live [OF l disp' l2 this]
  then have r: "rc = 0" "e'' = e'"
    "st' = upd_domain a (\<lambda>_. (detect io ?s2 e' ?d2)\<lparr>d_refcount := d_refcount ?d2 - 1\<rparr>) ?s2"
    using c by simp_all
  have sS: "sess_inv S = sess_inv st \<and> queue S = queue st \<and> subscribed S = subscribed st \<and>
      has_room S = has_room st \<and> session_of S = session_of st"
    by (rule sess_only) (simp_all add: S)
  have s1: "sess_inv ?s1 = sess_inv S \<and> queue ?s1 = queue S \<and> subscribed ?s1 = subscribed S \<and>
      has_room ?s1 = has_room S \<and> session_of ?s1 = session_of S"
    by (rule sess_only) (simp_all add: oh_add_event_to_del_def)
  have s3: "sess_inv st' = sess_inv ?s2 \<and> queue st' = queue ?s2" using sess_only [of st' ?s2] r(3) by simp
  have i1: "sess_inv ?s1" using inv sS s1 by simp
  have mq: "queue ?s2 j = queue st j @ (if p \<and> receives st (d_id d) j then [e'] else []) \<and> sess_inv ?s2"
    using multiplex_queue [OF i1 sessions_of_in(2) [OF inv], of "d_id d" e' j] receives_listed [OF inv, of "d_id d" j]
      sS s1 inv by simp
  have h': "dom_heap st' a = Some ((detect io ?s2 e' ?d2)\<lparr>d_refcount := d_refcount ?d2 - 1\<rparr>)"
    unfolding r(3) using h2 by simp
  have "d_del ?d2 = (if p then d_del (snd (log_event io (d_params st) e' d)) else d_del d)"
    using log_event_del [of ?h d io "d_params st" e'] by (cases p) simp_all
  then have k: "rpt_of st' a = T" "map_option d_del (dom_heap st' a) =
      Some (if p then d_del (snd (log_event io (d_params st) e' d)) else d_del d)"
    using h' d2(3) by (simp_all add: rpt_of_def)
  have hid: "hid_heap st' = hid_heap S" "hid_fresh st' = hid_fresh S"
    unfolding r(3) by (simp_all add: oh_add_event_to_del_def)
  have "dom_table st' = dom_table st" unfolding r(3) using S(4) by (simp add: oh_add_event_to_del_def)
  then have "live st' a ((detect io ?s2 e' ?d2)\<lparr>d_refcount := d_refcount ?d2 - 1\<rparr>)"
    using h' d2 l by (simp add: live_def)
  moreover have "d_rpt ((detect io ?s2 e' ?d2)\<lparr>d_refcount := d_refcount ?d2 - 1\<rparr>) = T"
    "d_id ((detect io ?s2 e' ?d2)\<lparr>d_refcount := d_refcount ?d2 - 1\<rparr>) = d_id d" using d2 by simp_all
  ultimately have "\<exists>d'. live st' a d' \<and> d_id d' = d_id d \<and> d_rpt d' = T" by blast
  then show ?thesis using mq s3 r(1,2) k hid by simp
qed

lemma reporting_delivered:
  assumes "sess_inv st" and "live st a d" and "reporting (EventDataUnion (e_event e))"
    and "process_event io (d_id d) e st = (rc, e', st')"
  shows "rc = 0 \<and> e' = strip_user e \<and>
    queue st' j = queue st j @ (if receives st (d_id d) j then [e'] else []) \<and>
    rpt_of st' a = d_rpt d \<and> sess_inv st' \<and>
    map_option d_del (dom_heap st' a) = Some (d_del (snd (log_event io (d_params st) e' d)))"
proof -
  let ?S = "inc_domain_refcount a st"
  have h: "dom_heap ?S a = Some ((dom_held d)\<lparr>d_rpt := d_rpt d\<rparr>)"
    using assms(2) by (simp add: live_def dom_held_def)
  have "dispatch_event io a e ?S = (if True then snd (process_hpi_event io a (strip_user e) ?S) else (strip_user e, ?S))"
    using dispatch_reporting [OF assms(3)] process_hpi_strip [of io a e ?S] h by auto
  from after_dispatch [OF assms(1,2) _ _ _ _ h this strip_user_idem assms(4)]
  show ?thesis by simp
qed

text \<open>C26: an event that reports something (every type but resource and hot swap events) is appended to the
  queue of exactly those sessions of its domain that are subscribed and have room, once and at the
  end; user events without resource and record. The event log gets it when its severity or its
  being a user event asks for it, and the resource table stays as it is.\<close>

theorem event_delivery:
  assumes "sess_inv st" and "live st a d" and "reporting (EventDataUnion (e_event e))"
    and "process_event io (d_id d) e st = (rc, e', st')"
  shows "rc = 0 \<and> e' = strip_user e \<and>
    queue st' j = queue st j @ (if receives st (d_id d) j then [e'] else []) \<and>
    rpt_of st' a = d_rpt d \<and>
    map_option d_del (dom_heap st' a) = Some (d_del (snd (log_event io (d_params st) e' d)))"
  using reporting_delivered [OF assms] by blast

text \<open>A daemon whose only session is subscribed, and a user event.\<close>

definition demo_io :: ev_io where
  "demo_io = \<lparr>clock = (\<lambda>_ n. of_nat n), del_io = \<lparr>f_opened = True, f_written = 100\<rparr>,
     dat_io = \<lparr>f_opened = True, f_written = 100\<rparr>\<rparr>"

definition demo_sub :: daemon where
  "demo_sub = snd (oh_set_session_subscription (demo_session 5) 1 True)"

definition demo_event :: oh_event where
  "demo_event = zero_event\<lparr>e_event := (e_event zero_event)\<lparr>EventDataUnion := UserEvent zero_text\<rparr>\<rparr>"

lemma demo_sub_inv: "sess_inv demo_sub"
  using subscription_state [OF demo_session_inv] subscription_fails [of 1 "demo_session 5" True] demo_session_inv [of 5]
  unfolding demo_sub_def by (cases "find_session (demo_session 5) 1") auto

lemma demo_sub_domain: "live demo_sub 0 (demo_domain 0)"
proof -
  have "(case dom_heap demo_sub 0 of None \<Rightarrow> False | Some d \<Rightarrow> d = demo_domain 0) = True"
    "dom_table demo_sub 0 = Some 0" by code_simp+
  then show ?thesis by (auto simp: live_def split: option.splits)
qed

lemma demo_sub_receives: "queue demo_sub 1 = []" "receives demo_sub 0 1"
proof -
  show q: "queue demo_sub 1 = []" by code_simp
  have "(case session_of demo_sub 1 of None \<Rightarrow> False | Some s \<Rightarrow> s_did s = 0 \<and> s_subscribed s) = True"
    by code_simp
  then show "receives demo_sub 0 1" using q by (auto simp: receives_def has_room_def split: option.splits)
qed

theorem event_delivery_witness:
  "queue (snd (snd (process_event demo_io 0 demo_event demo_sub))) 1 = [strip_user demo_event]"
proof -
  have r: "reporting (EventDataUnion (e_event demo_event))" by (simp add: demo_event_def)
  obtain rc e' st' where p: "process_event demo_io (d_id (demo_domain 0)) demo_event demo_sub = (rc, e', st')"
    by (metis prod.exhaust)
  have "queue st' 1 = queue demo_sub 1 @ (if receives demo_sub (d_id (demo_domain 0)) 1 then [e'] else []) \<and>
      e' = strip_user demo_event"
    using event_delivery [OF demo_sub_inv demo_sub_domain r p, of 1] by blast
  then show ?thesis using p demo_sub_receives by simp
qed

end
