(* ===== verification/EventTable.thy ===== *)
theory EventTable
  imports EventProps
begin

text \<open>
  What resource and hot swap events do to the resource table of a domain: which resource and which
  records are there afterwards, that every resource keeps a pointer to the id of its handler that
  is allocated and was never freed, and when the event thread stops.
\<close>

section \<open>The records of an event\<close>

abbreviation uid_of :: "SaHpiRdrT \<Rightarrow> u32" where
  "uid_of x \<equiv> oh_get_rdr_uid (RdrType x) (oh_get_instrument_id x)"

definition numbered :: "SaHpiRdrT list \<Rightarrow> bool" where
  "numbered xs = list_all (\<lambda>x. uid_of x \<noteq> 0) xs"

text \<open>The private data of the resources.\<close>

definition ptrs :: "RPTable \<Rightarrow> (u32 \<times> nat \<times> bool) list" where
  "ptrs t = map (\<lambda>p. (fst p, ent_data (snd p), ent_owndata (snd p))) (ents t)"

lemma ptrs_same:
  assumes i: "rpt_inv t" and e: "(k, e) \<in> set (ents t)" and sb: "same_but_rdrs e' e"
    and t': "ents t' = adjust k (\<lambda>_. e') (ents t)"
  shows "ptrs t' = ptrs t"
proof -
  have "v = e" if "(k, v) \<in> set (ents t)" for v
    using that e ents_distinct [OF i] by (auto dest: eq_key_imp_eq_value)
  then show ?thesis using sb by (auto simp: ptrs_def t' adjust_def same_but_rdrs_def)
qed

lemma remove_rdr_ptrs:
  assumes i: "rpt_inv t" and c: "oh_remove_rdr t rid k = (err, t')"
  shows "ptrs t' = ptrs t"
proof (cases "oh_get_rdr_by_id t rid k")
  case None
  then show ?thesis using c by (auto simp: oh_get_rdr_by_id_def oh_remove_rdr_def split: option.splits)
next
  case (Some x)
  then obtain a e b r where g: "get_rptentry_by_rid t rid = Some (a, e)"
      and gr: "get_rdrecord_by_id e k = Some (b, r)"
    by (auto simp: oh_get_rdr_by_id_def split: option.splits)
  from remove_rdr_ents [OF i g gr c] ptrs_same [OF i get_rptentry_ents(1) [OF i g]] show ?thesis by blast
qed

lemma add_rdr_ptrs:
  assumes i: "rpt_inv t" and nz: "uid_of x \<noteq> 0" and c: "oh_add_rdr t rid x d own = (err, x', t')"
  shows "ptrs t' = ptrs t"
proof (cases "\<exists>a e. get_rptentry_by_rid t rid = Some (a, e) \<and> check_instrument_id (rpt_entry e) x = 0")
  case False
  then show ?thesis using c by (auto simp: oh_add_rdr_def split: option.splits prod.splits)
next
  case True
  then obtain a e where g: "get_rptentry_by_rid t rid = Some (a, e)" "check_instrument_id (rpt_entry e) x = 0"
    by blast
  from add_rdr_ents [OF i g nz c] ptrs_same [OF i get_rptentry_ents(1) [OF i g(1)]] show ?thesis by blast
qed

text \<open>
  What working through the records of an event keeps: the table stays well-formed, only the records
  of one resource change, and no private data is lost or freed twice.
\<close>

definition rdrs_only :: "u32 \<Rightarrow> RPTable \<Rightarrow> RPTable \<Rightarrow> bool" where
  "rdrs_only rid t t' \<longleftrightarrow> rpt_inv t' \<and> resources t' = resources t \<and> ptrs t' = ptrs t \<and>
     (\<forall>j. j \<noteq> 0 \<longrightarrow> j \<noteq> rid \<longrightarrow> records t' j = records t j) \<and>
     mset (freed t') + mset (held t') = mset (freed t) + mset (held t)"

lemma rdrs_only_refl: "rpt_inv t \<Longrightarrow> rdrs_only rid t t"
  by (simp add: rdrs_only_def)

lemma rdrs_only_trans: "rdrs_only rid t t1 \<Longrightarrow> rdrs_only rid t1 t' \<Longrightarrow> rdrs_only rid t t'"
  by (simp add: rdrs_only_def)

lemma rdrs_only_inv: "rdrs_only rid t t' \<Longrightarrow> rpt_inv t'"
  by (simp add: rdrs_only_def)

lemma discard_absent: "k \<notin> fst ` set xs \<Longrightarrow> discard k xs = xs"
  by (force simp: discard_def filter_id_conv)

lemma remove_rdr_only:
  assumes "rpt_inv t" and "rid \<noteq> 0" and "k \<noteq> 0" and "oh_remove_rdr t rid k = (err, t')"
  shows "rdrs_only rid t t'" and "records t' rid = discard k (records t rid)"
  using remove_rdr_view [OF assms] remove_rdr_ptrs [OF assms(1,4)] rdrs_only_refl [OF assms(1), of rid]
    discard_absent [of k "records t rid"]
  by (auto simp: rdrs_only_def split: if_splits)

definition put_rdr :: "SaHpiRptEntryT \<Rightarrow> SaHpiRdrT \<Rightarrow> (u32 \<times> SaHpiRdrT) list \<Rightarrow> (u32 \<times> SaHpiRdrT) list" where
  "put_rdr res x rs =
     (if check_instrument_id res x = 0 then upsert (uid_of x) (x\<lparr>RecordId := uid_of x\<rparr>) rs else rs)"

lemma add_rdr_only:
  assumes "rpt_inv t" and "rid \<noteq> 0" and "oh_get_resource_by_id t rid = Some res" and "uid_of x \<noteq> 0"
    and "oh_add_rdr t rid x 0 False = (err, x', t')"
  shows "rdrs_only rid t t'" and "records t' rid = put_rdr res x (records t rid)"
  using add_rdr_view [OF assms] add_rdr_ptrs [OF assms(1,4,5)] rdrs_only_refl [OF assms(1), of rid]
    add_rdr_held_none [OF assms(1,2,4,5)]
  by (auto simp: rdrs_only_def put_rdr_def split: if_splits)

lemma remove_event_rdrs_view:
  assumes "rpt_inv t" and "rid \<noteq> 0" and "numbered xs"
  shows "rdrs_only rid t (remove_event_rdrs rid xs t) \<and>
    records (remove_event_rdrs rid xs t) rid = fold (\<lambda>x. discard (uid_of x)) xs (records t rid)"
  using assms
proof (induction xs arbitrary: t)
  case Nil
  then show ?case by (simp add: rdrs_only_refl)
next
  case (Cons x xs)
  let ?t = "snd (oh_remove_rdr t rid (uid_of x))"
  have nz: "uid_of x \<noteq> 0" "numbered xs" using Cons.prems(3) by (simp_all add: numbered_def)
  note s = remove_rdr_only [OF Cons.prems(1,2) nz(1) prod.collapse [symmetric]]
  from Cons.IH [OF rdrs_only_inv [OF s(1)] Cons.prems(2) nz(2)] s show ?case
    by (auto intro: rdrs_only_trans)
qed

lemma add_event_rdrs_view:
  assumes "rpt_inv t" and "rid \<noteq> 0" and "oh_get_resource_by_id t rid = Some res" and "numbered xs"
  shows "rdrs_only rid t (snd (add_event_rdrs rid xs t)) \<and>
    records (snd (add_event_rdrs rid xs t)) rid = fold (put_rdr res) xs (records t rid)"
  using assms
proof (induction xs arbitrary: t)
  case Nil
  then show ?case by (simp add: rdrs_only_refl)
next
  case (Cons x xs)
  obtain err x' t' where c: "oh_add_rdr t rid x 0 False = (err, x', t')" by (metis prod.exhaust)
  have nz: "uid_of x \<noteq> 0" "numbered xs" using Cons.prems(4) by (simp_all add: numbered_def)
  note s = add_rdr_only [OF Cons.prems(1-3) nz(1) c]
  have "oh_get_resource_by_id t' rid = Some res"
    using rpt_list.get_id [OF rdrs_only_inv [OF s(1)] Cons.prems(2)] rpt_list.get_id [OF Cons.prems(1,2)]
      Cons.prems(3) s(1) by (simp add: rdrs_only_def)
  from Cons.IH [OF rdrs_only_inv [OF s(1)] Cons.prems(2) this nz(2)] s show ?case
    by (auto simp: c Let_def split: prod.split intro: rdrs_only_trans)
qed

section \<open>What is dispatched\<close>

lemma upd_rpt_twice [simp]: "upd_rpt a f (upd_rpt a g st) = upd_rpt a (\<lambda>t. f (g t)) st"
  by (cases "dom_heap st a") (auto simp: upd_rpt_def upd_domain_def fun_eq_iff)

lemma rpt_of_upd [simp]: "dom_heap st a = Some dh \<Longrightarrow> rpt_of (upd_rpt a f st) a = f (d_rpt dh)"
  by (simp add: rpt_of_def upd_rpt_def)

lemma rpt_of_some [simp]: "dom_heap st a = Some dh \<Longrightarrow> rpt_of st a = d_rpt dh"
  by (simp add: rpt_of_def)

lemma new_hid_same [simp]:
  "fst (new_hid h st) = hid_fresh st"
  "dom_heap (snd (new_hid h st)) = dom_heap st" "dom_table (snd (new_hid h st)) = dom_table st"
  "sess (snd (new_hid h st)) = sess st" "next_sid (snd (new_hid h st)) = next_sid st"
  "d_params (snd (new_hid h st)) = d_params st"
  "hid_heap (snd (new_hid h st)) = (hid_heap st)(hid_fresh st \<mapsto> h)"
  "hid_fresh (snd (new_hid h st)) = Suc (hid_fresh st)"
  by (simp_all add: new_hid_def)

lemma upd_rpt_same [simp]:
  "dom_table (upd_rpt a f st) = dom_table st" "sess (upd_rpt a f st) = sess st"
  "next_sid (upd_rpt a f st) = next_sid st" "d_params (upd_rpt a f st) = d_params st"
  "hid_heap (upd_rpt a f st) = hid_heap st" "hid_fresh (upd_rpt a f st) = hid_fresh st"
  by (simp_all add: upd_rpt_def)

text \<open>
  The state behind the table of the domain at \<open>a\<close>: with \<open>keep\<close> the pointer to the handler id that was
  allocated, if any.
\<close>

definition with_table :: "nat \<Rightarrow> RPTable \<Rightarrow> u32 option \<Rightarrow> daemon \<Rightarrow> daemon" where
  "with_table a T h st = upd_rpt a (\<lambda>_. T) (case h of None \<Rightarrow> st | Some h \<Rightarrow> snd (new_hid h st))"

lemma with_table_same [simp]:
  "dom_table (with_table a T h st) = dom_table st" "sess (with_table a T h st) = sess st"
  "next_sid (with_table a T h st) = next_sid st" "d_params (with_table a T h st) = d_params st"
  "dom_heap (with_table a T h st) a = map_option (\<lambda>d. d\<lparr>d_rpt := T\<rparr>) (dom_heap st a)"
  "hid_heap (with_table a T h st) = (case h of None \<Rightarrow> hid_heap st | Some h \<Rightarrow> (hid_heap st)(hid_fresh st \<mapsto> h))"
  "hid_fresh (with_table a T h st) = (case h of None \<Rightarrow> hid_fresh st | Some h \<Rightarrow> Suc (hid_fresh st))"
  by (simp_all add: with_table_def upd_rpt_def split: option.splits)

text \<open>The records of an updated resource: the ones to remove first, then the new ones.\<close>

definition put_rdrs :: "oh_event \<Rightarrow> RPTable \<Rightarrow> oh_event \<times> RPTable" where
  "put_rdrs e t =
     (let rid = ResourceId (e_resource e);
          (rs, t) = add_event_rdrs rid (e_rdrs e) (remove_event_rdrs rid (e_rdrs_to_remove e) t)
      in (e\<lparr>e_rdrs := rs\<rparr>, t))"

definition tell :: "ev_io \<Rightarrow> nat \<Rightarrow> bool \<Rightarrow> oh_event \<Rightarrow> daemon \<Rightarrow> oh_event \<times> daemon" where
  "tell io a p e st = (if p then snd (process_hpi_event io a e st) else (e, st))"

lemma resource_event_adds:
  assumes h: "dom_heap st a = Some dh"
    and f: "resource_event_flags rtype (oh_get_resource_by_id (d_rpt dh) (ResourceId (e_resource e))) e =
      Some (p, u, False, e1)" and hid: "e_hid e1 = e_hid e"
    and c: "oh_add_resource (clock io clk_rpt 0) (d_rpt dh) (e_resource e1) (hid_fresh st) False = (SA_OK, x, t1)"
    and e2: "(e2, t2) = (if u then put_rdrs (e1\<lparr>e_resource := x\<rparr>) t1 else (e1\<lparr>e_resource := x\<rparr>, t1))"
  shows "snd (process_resource_event io a rtype e st) = tell io a p e2 (with_table a t2 (Some (e_hid e)) st)"
proof -
  let ?st = "snd (new_hid (e_hid e1) st)"
  have a: "add_event_resource io a e1 (hid_fresh st) ?st = (SA_OK, e1\<lparr>e_resource := x\<rparr>, upd_rpt a (\<lambda>_. t1) ?st)"
    using h c by (simp add: add_event_resource_def)
  have h': "dom_heap ?st a = Some dh" using h by simp
  have r: "(if u then add_rdrs_of a (e1\<lparr>e_resource := x\<rparr>)
           (upd_rpt a (remove_event_rdrs (ResourceId x) (e_rdrs_to_remove e1)) (upd_rpt a (\<lambda>_. t1) ?st))
         else (e1\<lparr>e_resource := x\<rparr>, upd_rpt a (\<lambda>_. t1) ?st)) = (e2, upd_rpt a (\<lambda>_. t2) ?st)"
    using e2 h' by (auto simp: put_rdrs_def add_rdrs_of_def Let_def split: prod.splits if_splits)
  then show ?thesis
    using f a r hid by (simp add: process_resource_event_def tell_def with_table_def h Let_def split_def cong: if_cong)
qed

lemma resource_event_removes:
  assumes h: "dom_heap st a = Some dh"
    and f: "resource_event_flags rtype (oh_get_resource_by_id (d_rpt dh) (ResourceId (e_resource e))) e =
      Some (p, u, True, e1)" and rid: "ResourceId (e_resource e1) = ResourceId (e_resource e)"
    and t: "t = (if oh_get_resource_by_id (d_rpt dh) (ResourceId (e_resource e)) = None then d_rpt dh
      else snd (oh_remove_resource (clock io clk_rpt 0) (d_rpt dh) (ResourceId (e_resource e))))"
  shows "snd (process_resource_event io a rtype e st) = tell io a p e1 (with_table a t None st)"
proof -
  have id: "upd_rpt a (\<lambda>_. d_rpt dh) st = st"
    using h by (cases st) (auto simp: upd_rpt_def upd_domain_def fun_eq_iff)
  have "upd_rpt a (\<lambda>t. snd (oh_remove_resource now t rid)) st =
      upd_rpt a (\<lambda>_. snd (oh_remove_resource now (d_rpt dh) rid)) st" for now rid
    using h by (cases st) (auto simp: upd_rpt_def upd_domain_def fun_eq_iff)
  then show ?thesis
    using h f rid t id by (auto simp: process_resource_event_def tell_def with_table_def)
qed

section \<open>Resource events\<close>

text \<open>A resource event that is not dropped.\<close>

definition accepted :: "oh_event \<Rightarrow> SaHpiResourceEventTypeT \<Rightarrow> bool" where
  "accepted e rtype \<longleftrightarrow> EventDataUnion (e_event e) = ResourceEvent rtype \<and> e_hid e \<noteq> 0 \<and>
     ResourceCapabilities (e_resource e) AND SAHPI_CAPABILITY_RESOURCE \<noteq> 0 \<and>
     \<not> (ResourceCapabilities (e_resource e) AND SAHPI_CAPABILITY_FRU \<noteq> 0 \<and> rtype = SAHPI_RESE_RESOURCE_ADDED)"

definition valid_rid :: "u32 \<Rightarrow> bool" where
  "valid_rid rid \<longleftrightarrow> rid \<noteq> SAHPI_FIRST_ENTRY \<and> rid \<noteq> SAHPI_UNSPECIFIED_RESOURCE_ID"

lemma dispatch_accepted:
  assumes "accepted e rtype"
  shows "dispatch_event io a e st = snd (process_resource_event io a rtype e st)"
proof -
  have "ResourceCapabilities (e_resource e) \<noteq> 0" using assms by (auto simp: accepted_def)
  then show ?thesis using assms by (auto simp: accepted_def dispatch_event_def restore_resource_def Let_def)
qed

lemma strip_resource_event: "EventDataUnion (e_event e) = ResourceEvent rtype \<Longrightarrow> strip_user e = e"
  by (simp add: strip_user_def)

lemma put_rdrs_view:
  assumes i: "rpt_inv t" and rid: "ResourceId (e_resource e) = rid" "rid \<noteq> 0"
    and g: "oh_get_resource_by_id t rid = Some res" and n: "numbered (e_rdrs e)" "numbered (e_rdrs_to_remove e)"
    and c: "put_rdrs e t = (e', t')"
  shows "e' = e\<lparr>e_rdrs := e_rdrs e'\<rparr>" and "rdrs_only rid t t'"
    and "records t' rid = fold (put_rdr res) (e_rdrs e)
      (fold (\<lambda>x. discard (uid_of x)) (e_rdrs_to_remove e) (records t rid))"
proof -
  let ?t = "remove_event_rdrs rid (e_rdrs_to_remove e) t"
  note r = remove_event_rdrs_view [OF i rid(2) n(2)]
  have i': "rpt_inv ?t" using r rdrs_only_inv by blast
  have "oh_get_resource_by_id ?t rid = Some res"
    using rpt_list.get_id [OF i' rid(2)] rpt_list.get_id [OF i rid(2)] g r by (simp add: rdrs_only_def)
  note a = add_event_rdrs_view [OF i' rid(2) this n(1)]
  have t': "t' = snd (add_event_rdrs rid (e_rdrs e) ?t)" and e': "e' = e\<lparr>e_rdrs := e_rdrs e'\<rparr>"
    using c rid(1) by (auto simp: put_rdrs_def Let_def split: prod.splits)
  show "e' = e\<lparr>e_rdrs := e_rdrs e'\<rparr>" by (rule e')
  show "rdrs_only rid t t'" using r a rdrs_only_trans unfolding t' by blast
  show "records t' rid = fold (put_rdr res) (e_rdrs e)
      (fold (\<lambda>x. discard (uid_of x)) (e_rdrs_to_remove e) (records t rid))"
    using r a unfolding t' by simp
qed

text \<open>Adding a resource for an event, and its records when \<open>u\<close> asks for it.\<close>

definition put_resource :: "u64 \<Rightarrow> bool \<Rightarrow> oh_event \<Rightarrow> nat \<Rightarrow> RPTable \<Rightarrow> SaErrorT \<times> oh_event \<times> RPTable" where
  "put_resource now u e q t =
     (let (error, x, t) = oh_add_resource now t (e_resource e) q False;
          e = e\<lparr>e_resource := x\<rparr>;
          (e, t) = (if u then put_rdrs e t else (e, t))
      in (error, e, t))"

lemma ptrs_put:
  assumes "rpt_inv t" "ResourceId x \<noteq> 0" "ResourceId x \<noteq> SAHPI_UNSPECIFIED_RESOURCE_ID"
    and "oh_add_resource now t x q own = (err, x', t')"
  shows "ptrs t' = upsert (ResourceId x) (q, own) (ptrs t)"
proof -
  have "fst ` set (ptrs t) = fst ` set (ents t)" by (force simp: ptrs_def)
  then show ?thesis
    using add_resource_ents(4) [OF assms] by (auto simp: ptrs_def upsert_def adjust_def put_entry_def)
qed

lemma put_resource_view:
  assumes i: "rpt_inv t" and rid: "ResourceId (e_resource e) = rid" "valid_rid rid"
    and n: "u \<Longrightarrow> numbered (e_rdrs e) \<and> numbered (e_rdrs_to_remove e)"
    and c: "put_resource now u e q t = (err, e', t')"
  shows "err = SA_OK \<and> e_resource e' = (e_resource e)\<lparr>EntryId := rid\<rparr> \<and> e' = e\<lparr>e_resource := e_resource e', e_rdrs := e_rdrs e'\<rparr> \<and>
    rpt_inv t' \<and> resources t' = upsert rid (e_resource e') (resources t) \<and>
    records t' rid = (if u then fold (put_rdr (e_resource e')) (e_rdrs e)
        (fold (\<lambda>x. discard (uid_of x)) (e_rdrs_to_remove e) (records t rid)) else records t rid) \<and>
    (\<forall>j. j \<noteq> 0 \<longrightarrow> j \<noteq> rid \<longrightarrow> records t' j = records t j) \<and>
    ptrs t' = upsert rid (q, False) (ptrs t) \<and>
    (q \<noteq> 0 \<longrightarrow> q \<notin> set (held t) \<longrightarrow> mset (freed t') + mset (held t') = add_mset q (mset (freed t) + mset (held t)))"
proof -
  obtain err1 x t1 where a: "oh_add_resource now t (e_resource e) q False = (err1, x, t1)" by (metis prod.exhaust)
  have nz: "ResourceId (e_resource e) \<noteq> 0" "ResourceId (e_resource e) \<noteq> SAHPI_UNSPECIFIED_RESOURCE_ID"
    using rid by (simp_all add: valid_rid_def)
  note e = add_resource_ents [OF i nz a] and v = add_resource_view [OF i nz a] and p = ptrs_put [OF i nz a]
    and h = add_resource_held [OF i nz a]
  have r: "rid \<noteq> 0" using rid by (simp add: valid_rid_def)
  have g: "oh_get_resource_by_id t1 rid = Some x"
    using rpt_list.get_id [OF e(3) r] v(1) rid(1) by (simp add: map_of_upsert)
  obtain e2 t2 where pr: "put_rdrs (e\<lparr>e_resource := x\<rparr>) t1 = (e2, t2)" by force
  have x: "ResourceId (e_resource (e\<lparr>e_resource := x\<rparr>)) = rid" using e(2) rid(1) by simp
  show ?thesis
  proof (cases u)
    case False
    then have "err = err1" "e' = e\<lparr>e_resource := x\<rparr>" "t' = t1" using c a by (simp_all add: put_resource_def)
    then show ?thesis using False e v p h rid r by simp
  next
    case True
    then have c': "err = err1" "e' = e2" "t' = t2" using c a pr by (simp_all add: put_resource_def)
    have n': "numbered (e_rdrs (e\<lparr>e_resource := x\<rparr>))" "numbered (e_rdrs_to_remove (e\<lparr>e_resource := x\<rparr>))"
      using n True by simp_all
    note w = put_rdrs_view [OF e(3) x r g n' pr]
    have e2: "e2 = e\<lparr>e_resource := x, e_rdrs := e_rdrs e2\<rparr>" using w(1) by simp
    then have e2x: "e_resource e2 = x" by (metis oh_event.select_convs(3) oh_event.surjective oh_event.update_convs(3,4))
    show ?thesis unfolding c' using True e v p h rid r w e2 e2x by (simp add: rdrs_only_def)
  qed
qed

text \<open>When a resource event is news for the domain, and the failed flag the resource gets.\<close>

definition is_failed :: "SaHpiRptEntryT option \<Rightarrow> bool" where
  "is_failed known = (case known of None \<Rightarrow> False | Some r \<Rightarrow> ResourceFailed r)"

definition news :: "SaHpiResourceEventTypeT \<Rightarrow> SaHpiRptEntryT option \<Rightarrow> bool" where
  "news rtype known =
     (if rtype \<in> {SAHPI_RESE_RESOURCE_FAILURE, SAHPI_RESE_RESOURCE_INACCESSIBLE} then \<not> is_failed known
      else if rtype = SAHPI_RESE_RESOURCE_RESTORED then is_failed known
      else rtype = SAHPI_RESE_RESOURCE_REMOVED \<longrightarrow> known \<noteq> None)"

definition failed_after :: "SaHpiResourceEventTypeT \<Rightarrow> SaHpiRptEntryT option \<Rightarrow> bool \<Rightarrow> bool" where
  "failed_after rtype known b =
     (if rtype \<in> {SAHPI_RESE_RESOURCE_FAILURE, SAHPI_RESE_RESOURCE_INACCESSIBLE} \<and> \<not> is_failed known then True
      else if rtype = SAHPI_RESE_RESOURCE_RESTORED \<and> is_failed known then False else b)"

definition resource_after :: "SaHpiResourceEventTypeT \<Rightarrow> SaHpiRptEntryT option \<Rightarrow> SaHpiRptEntryT \<Rightarrow> SaHpiRptEntryT" where
  "resource_after rtype known x =
     (let x = x\<lparr>ResourceFailed := failed_after rtype known (ResourceFailed x)\<rparr>
      in if rtype = SAHPI_RESE_RESOURCE_REMOVED then x else x\<lparr>EntryId := ResourceId x\<rparr>)"

lemma flags_eq:
  assumes "\<And>n. rtype \<noteq> SAHPI_RESE_OTHER n"
  shows "resource_event_flags rtype known e =
    Some (news rtype known, rtype \<in> {SAHPI_RESE_RESOURCE_ADDED, SAHPI_RESE_RESOURCE_UPDATED},
      rtype = SAHPI_RESE_RESOURCE_REMOVED,
      e\<lparr>e_resource := (e_resource e)\<lparr>ResourceFailed := failed_after rtype known (ResourceFailed (e_resource e))\<rparr>\<rparr>)"
proof -
  have "is_failed known = (case known of None \<Rightarrow> False | Some r \<Rightarrow> ResourceFailed r)" by (simp add: is_failed_def)
  then show ?thesis
    using assms
    by (cases rtype) (auto simp: resource_event_flags_def Let_def news_def failed_after_def)
qed

text \<open>The dispatch of a resource event, in terms of the table.\<close>

definition event_table ::
    "u64 \<Rightarrow> SaHpiResourceEventTypeT \<Rightarrow> oh_event \<Rightarrow> nat \<Rightarrow> RPTable \<Rightarrow> oh_event \<times> RPTable"
where
  "event_table now rtype e q t =
     (let rid = ResourceId (e_resource e); known = oh_get_resource_by_id t rid;
          e = e\<lparr>e_resource := (e_resource e)\<lparr>ResourceFailed := failed_after rtype known (ResourceFailed (e_resource e))\<rparr>\<rparr>
      in if rtype = SAHPI_RESE_RESOURCE_REMOVED then
           (e, if known = None then t else snd (oh_remove_resource now t rid))
         else snd (put_resource now (rtype \<in> {SAHPI_RESE_RESOURCE_ADDED, SAHPI_RESE_RESOURCE_UPDATED}) e q t))"

lemma dispatch_resource_event:
  assumes h: "dom_heap st a = Some dh" and i: "rpt_inv (d_rpt dh)" and a: "accepted e rtype"
    and o: "\<And>n. rtype \<noteq> SAHPI_RESE_OTHER n" and rid: "valid_rid (ResourceId (e_resource e))"
    and n: "numbered (e_rdrs e)" "numbered (e_rdrs_to_remove e)"
    and t: "event_table (clock io clk_rpt 0) rtype e (hid_fresh st) (d_rpt dh) = (e', t')"
  shows "dispatch_event io a e st =
    tell io a (news rtype (oh_get_resource_by_id (d_rpt dh) (ResourceId (e_resource e)))) e'
      (with_table a t' (if rtype = SAHPI_RESE_RESOURCE_REMOVED then None else Some (e_hid e)) st)"
proof -
  let ?known = "oh_get_resource_by_id (d_rpt dh) (ResourceId (e_resource e))"
  let ?e = "e\<lparr>e_resource := (e_resource e)\<lparr>ResourceFailed := failed_after rtype ?known (ResourceFailed (e_resource e))\<rparr>\<rparr>"
  let ?u = "rtype \<in> {SAHPI_RESE_RESOURCE_ADDED, SAHPI_RESE_RESOURCE_UPDATED}"
  note f = flags_eq [of rtype ?known e, OF o]
  have hid: "e_hid ?e = e_hid e" by simp
  show ?thesis
  proof (cases "rtype = SAHPI_RESE_RESOURCE_REMOVED")
    case True
    then have "(e', t') = (?e, if ?known = None then d_rpt dh
        else snd (oh_remove_resource (clock io clk_rpt 0) (d_rpt dh) (ResourceId (e_resource e))))"
      using t by (auto simp: event_table_def Let_def split: if_splits)
    moreover have "ResourceId (e_resource ?e) = ResourceId (e_resource e)" by simp
    ultimately show ?thesis
      using resource_event_removes [OF h, of rtype e "news rtype ?known" ?u ?e t' io] f True
        dispatch_accepted [OF a] by simp
  next
    case False
    obtain err x t1 where c: "oh_add_resource (clock io clk_rpt 0) (d_rpt dh) (e_resource ?e) (hid_fresh st) False = (err, x, t1)"
      by (metis prod.exhaust)
    have nz: "ResourceId (e_resource ?e) \<noteq> 0" "ResourceId (e_resource ?e) \<noteq> SAHPI_UNSPECIFIED_RESOURCE_ID"
      using rid by (simp_all add: valid_rid_def)
    have ok: "err = SA_OK" using add_resource_ents(1) [OF i nz c] .
    have f': "resource_event_flags rtype ?known e = Some (news rtype ?known, ?u, False, ?e)"
      using f False by simp
    have "(e', t') = (if ?u then put_rdrs (?e\<lparr>e_resource := x\<rparr>) t1 else (?e\<lparr>e_resource := x\<rparr>, t1))"
      using t False c by (simp add: event_table_def put_resource_def Let_def split: prod.splits)
    from resource_event_adds [OF h f' hid c [unfolded ok] this] show ?thesis
      using False dispatch_accepted [OF a] by simp
  qed
qed

text \<open>What the table is afterwards.\<close>

lemma event_table_view:
  assumes i: "rpt_inv t" and rid: "ResourceId (e_resource e) = rid" "valid_rid rid"
    and n: "numbered (e_rdrs e)" "numbered (e_rdrs_to_remove e)"
    and c: "event_table now rtype e q t = (e', t')"
    and known: "known = oh_get_resource_by_id t rid"
  shows "rpt_inv t' \<and> e_event e' = e_event e \<and>
    e_resource e' = resource_after rtype known (e_resource e) \<and>
    resources t' = (if rtype = SAHPI_RESE_RESOURCE_REMOVED then discard rid (resources t)
      else upsert rid (e_resource e') (resources t)) \<and>
    records t' rid = (if rtype = SAHPI_RESE_RESOURCE_REMOVED then []
      else if rtype \<in> {SAHPI_RESE_RESOURCE_ADDED, SAHPI_RESE_RESOURCE_UPDATED} then
        fold (put_rdr (e_resource e')) (e_rdrs e)
          (fold (\<lambda>x. discard (uid_of x)) (e_rdrs_to_remove e) (records t rid))
      else records t rid) \<and>
    (\<forall>j. j \<noteq> 0 \<longrightarrow> j \<noteq> rid \<longrightarrow> records t' j = records t j)"
proof -
  have z: "rid \<noteq> 0" using rid by (simp add: valid_rid_def)
  let ?x = "(e_resource e)\<lparr>ResourceFailed := failed_after rtype known (ResourceFailed (e_resource e))\<rparr>"
  show ?thesis
  proof (cases "rtype = SAHPI_RESE_RESOURCE_REMOVED")
    case True
    have k: "known = map_of (resources t) rid" using rpt_list.get_id [OF i z] known by simp
    have c': "e' = e\<lparr>e_resource := ?x\<rparr>"
      "t' = (if known = None then t else snd (oh_remove_resource now t rid))"
      using c True rid(1) known by (auto simp: event_table_def Let_def)
    show ?thesis
    proof (cases known)
      case None
      then have "rid \<notin> fst ` set (resources t)" using k map_of_eq_None_iff [of "resources t" rid] by simp
      moreover from this have "records t rid = []"
        using records_map_of [OF i z] map_of_eq_None_iff [of "ents t" rid] by (simp add: resource_keys)
      ultimately show ?thesis using True c' None i rid(1) resource_after_def discard_absent [of rid "resources t"] by simp
    next
      case (Some r)
      then have "rid \<in> fst ` set (resources t)" using k by (metis fst_conv image_eqI map_of_SomeD)
      from remove_resource_view [OF i z this prod.collapse [symmetric], of now] True c' Some rid(1) z
      show ?thesis by (simp add: resource_after_def)
    qed
  next
    case False
    let ?u = "rtype \<in> {SAHPI_RESE_RESOURCE_ADDED, SAHPI_RESE_RESOURCE_UPDATED}"
    obtain err where p: "put_resource now ?u (e\<lparr>e_resource := ?x\<rparr>) q t = (err, e', t')"
      using c False rid(1) known by (auto simp: event_table_def Let_def prod_eq_iff)
    have x: "ResourceId (e_resource (e\<lparr>e_resource := ?x\<rparr>)) = rid" using rid(1) by simp
    have nn: "numbered (e_rdrs (e\<lparr>e_resource := ?x\<rparr>)) \<and> numbered (e_rdrs_to_remove (e\<lparr>e_resource := ?x\<rparr>))"
      using n by simp
    note v = put_resource_view [OF i x rid(2) nn p]
    then have "e_event e' = e_event e"
      by (metis oh_event.select_convs(2) oh_event.surjective oh_event.update_convs(3,4))
    then show ?thesis using v False rid(1) by (simp add: resource_after_def Let_def)
  qed
qed

lemma resource_event_effect:
  assumes "sess_inv st" and "live st a d" and "rpt_inv (d_rpt d)" and "accepted e rtype"
    and "\<And>n. rtype \<noteq> SAHPI_RESE_OTHER n" and "ResourceId (e_resource e) = rid" and "valid_rid rid"
    and "numbered (e_rdrs e)" and "numbered (e_rdrs_to_remove e)"
    and "process_event io (d_id d) e st = (rc, e', st')" and "t = rpt_of st' a"
    and "known = oh_get_resource_by_id (d_rpt d) rid"
  shows "rc = 0 \<and> rpt_inv t \<and>
    e_resource e' = resource_after rtype known (e_resource e) \<and>
    resources t = (if rtype = SAHPI_RESE_RESOURCE_REMOVED then discard rid (resources (d_rpt d))
      else upsert rid (e_resource e') (resources (d_rpt d))) \<and>
    records t rid = (if rtype = SAHPI_RESE_RESOURCE_REMOVED then []
      else if rtype \<in> {SAHPI_RESE_RESOURCE_ADDED, SAHPI_RESE_RESOURCE_UPDATED} then
        fold (put_rdr (e_resource e')) (e_rdrs e)
          (fold (\<lambda>x. discard (uid_of x)) (e_rdrs_to_remove e) (records (d_rpt d) rid))
      else records (d_rpt d) rid) \<and>
    (\<forall>j. j \<noteq> 0 \<longrightarrow> j \<noteq> rid \<longrightarrow> records t j = records (d_rpt d) j) \<and>
    queue st' j = queue st j @ (if news rtype known \<and> receives st (d_id d) j then [e'] else [])"
proof -
  let ?st = "inc_domain_refcount a st"
  have h: "dom_heap ?st a = Some (dom_held d)" using assms(2) by (simp add: live_def dom_held_def)
  obtain e2 t2 where c: "event_table (clock io clk_rpt 0) rtype e (hid_fresh ?st) (d_rpt (dom_held d)) = (e2, t2)"
    by force
  have rid: "valid_rid (ResourceId (e_resource e))" and i: "rpt_inv (d_rpt (dom_held d))"
    using assms by simp_all
  let ?S = "with_table a t2 (if rtype = SAHPI_RESE_RESOURCE_REMOVED then None else Some (e_hid e)) ?st"
  have disp: "dispatch_event io a e ?st =
      (if news rtype known then snd (process_hpi_event io a e2 ?S) else (e2, ?S))"
    using dispatch_resource_event [OF h i assms(4,5) rid assms(8,9) c] assms(6,12) by (simp add: tell_def)
  have c': "event_table (clock io clk_rpt 0) rtype e (hid_fresh ?st) (d_rpt d) = (e2, t2)" using c by simp
  note v = event_table_view [OF assms(3,6-9) c' assms(12)]
  have "EventDataUnion (e_event e2) = ResourceEvent rtype" using v assms(4) by (simp add: accepted_def)
  then have s: "strip_user e2 = e2" by (rule strip_resource_event)
  have hS: "dom_heap ?S a = Some ((dom_held d)\<lparr>d_rpt := t2\<rparr>)" unfolding with_table_same(5) h by simp
  from after_dispatch [OF assms(1,2) _ _ _ _ hS disp s assms(10), of j]
  have r: "rc = 0" "e' = e2" "rpt_of st' a = t2"
    "queue st' j = queue st j @ (if news rtype known \<and> receives st (d_id d) j then [e2] else [])"
    by simp_all
  then have "t = t2" using assms(11) by simp
  then show ?thesis using v r by simp
qed

text \<open>C25: an accepted resource event with a valid resource id, whose records have ids other than 0, makes the
  table of its domain what it says: a removed resource is gone with all its records; any other
  event puts the resource of the event, with the failed flag set, cleared or as it came, at its
  place in the table; added and updated ones first drop the records to remove, then put the
  records of the event the resource may have. All other resources and records stay. The event
  reaches the subscribed sessions exactly when it is news.\<close>

theorem resource_event_table:
  assumes "sess_inv st" and "live st a d" and "rpt_inv (d_rpt d)" and "accepted e rtype"
    and "\<And>n. rtype \<noteq> SAHPI_RESE_OTHER n" and "ResourceId (e_resource e) = rid" and "valid_rid rid"
    and "numbered (e_rdrs e)" and "numbered (e_rdrs_to_remove e)"
    and "process_event io (d_id d) e st = (rc, e', st')" and "t = rpt_of st' a"
    and "known = oh_get_resource_by_id (d_rpt d) rid"
  shows "rc = 0 \<and> rpt_inv t \<and>
    e_resource e' = resource_after rtype known (e_resource e) \<and>
    resources t = (if rtype = SAHPI_RESE_RESOURCE_REMOVED then discard rid (resources (d_rpt d))
      else upsert rid (e_resource e') (resources (d_rpt d))) \<and>
    records t rid = (if rtype = SAHPI_RESE_RESOURCE_REMOVED then []
      else if rtype \<in> {SAHPI_RESE_RESOURCE_ADDED, SAHPI_RESE_RESOURCE_UPDATED} then
        fold (put_rdr (e_resource e')) (e_rdrs e)
          (fold (\<lambda>x. discard (uid_of x)) (e_rdrs_to_remove e) (records (d_rpt d) rid))
      else records (d_rpt d) rid) \<and>
    (\<forall>j. j \<noteq> 0 \<longrightarrow> j \<noteq> rid \<longrightarrow> records t j = records (d_rpt d) j) \<and>
    queue st' j = queue st j @ (if news rtype known \<and> receives st (d_id d) j then [e'] else [])"
  by (rule resource_event_effect [OF assms])

text \<open>Handler \<open>h\<close> reports resource 5 with one control.\<close>

definition demo_report :: "u32 \<Rightarrow> oh_event" where
  "demo_report h = zero_event\<lparr>e_hid := h,
     e_event := (e_event zero_event)\<lparr>EventDataUnion := ResourceEvent SAHPI_RESE_RESOURCE_UPDATED\<rparr>,
     e_resource := (demo_res 5)\<lparr>ResourceCapabilities := SAHPI_CAPABILITY_RESOURCE\<rparr>,
     e_rdrs := [demo_rdr SAHPI_CTRL_RDR 3]\<rparr>"

lemma demo_report_accepted: "accepted (demo_report 7) SAHPI_RESE_RESOURCE_UPDATED"
proof -
  have "ResourceCapabilities (e_resource (demo_report 7)) AND SAHPI_CAPABILITY_RESOURCE \<noteq> 0" by code_simp
  then show ?thesis by (simp add: accepted_def demo_report_def)
qed

theorem resource_event_table_witness:
  "map fst (resources (rpt_of (snd (snd (process_event demo_io 0 (demo_report 7) demo_sub))) 0)) = [5] \<and>
   map fst (records (rpt_of (snd (snd (process_event demo_io 0 (demo_report 7) demo_sub))) 0) 5) = [0x10003] \<and>
   length (queue (snd (snd (process_event demo_io 0 (demo_report 7) demo_sub))) 1) = 1"
proof -
  let ?d = "demo_domain 0" and ?e = "demo_report 7"
  obtain rc e' st' where c: "process_event demo_io (d_id ?d) ?e demo_sub = (rc, e', st')" by (metis prod.exhaust)
  have i: "rpt_inv (d_rpt ?d)" by (simp add: demo_domain_def init_rpt_inv)
  have o: "SAHPI_RESE_RESOURCE_UPDATED \<noteq> SAHPI_RESE_OTHER n" for n by simp
  have k: "ResourceId (e_resource ?e) = 5" "valid_rid 5" "numbered (e_rdrs ?e)" "numbered (e_rdrs_to_remove ?e)"
    by code_simp+
  let ?x = "resource_after SAHPI_RESE_RESOURCE_UPDATED (oh_get_resource_by_id (d_rpt ?d) 5) (e_resource ?e)"
  from resource_event_table [OF demo_sub_inv demo_sub_domain i demo_report_accepted o k c refl refl, of 1]
  have r: "resources (rpt_of st' 0) = upsert 5 ?x (resources (d_rpt ?d))"
    "records (rpt_of st' 0) 5 = fold (put_rdr ?x) (e_rdrs ?e)
      (fold (\<lambda>x. discard (uid_of x)) (e_rdrs_to_remove ?e) (records (d_rpt ?d) 5))"
    "queue st' 1 = queue demo_sub 1 @ (if news SAHPI_RESE_RESOURCE_UPDATED (oh_get_resource_by_id (d_rpt ?d) 5) \<and>
       receives demo_sub (d_id ?d) 1 then [e'] else [])"
    by simp_all
  have "map fst (upsert 5 ?x (resources (d_rpt ?d))) = [5]" by code_simp
  moreover have "map fst (fold (put_rdr ?x) (e_rdrs ?e)
      (fold (\<lambda>x. discard (uid_of x)) (e_rdrs_to_remove ?e) (records (d_rpt ?d) 5))) = [0x10003]" by code_simp
  moreover have "length (queue st' 1) = 1"
    using r(3) demo_sub_receives by (simp add: news_def)
  moreover have "st' = snd (snd (process_event demo_io 0 ?e demo_sub))" using c by simp
  ultimately show ?thesis using r by simp
qed

end
