(* ===== verification/HandlerIds.thy ===== *)
theory HandlerIds
  imports EventTable
begin

text \<open>
  Every resource of a domain carries a pointer to the id of the handler that owns it; the calls of
  the HPI interface dereference it to find the plugin. Event processing allocates the pointers and
  hands them to the resource table, which frees them. \<open>hids_ok\<close> is the invariant of this protocol;
  it holds through every event, dropped and refused ones included.
\<close>

section \<open>The invariant\<close>

definition hids_ok :: "nat \<Rightarrow> (nat \<Rightarrow> u32 option) \<Rightarrow> RPTable \<Rightarrow> bool" where
  "hids_ok q heap t \<longleftrightarrow> rpt_inv t \<and> 0 < q \<and> (\<forall>(k, p, own) \<in> set (ptrs t). \<not> own \<and> p \<noteq> 0) \<and>
     distinct (freed t @ held t) \<and> (\<forall>p \<in> set (freed t @ held t). p < q \<and> heap p \<noteq> None)"

lemma hids_ok_mono:
  "hids_ok q heap t \<Longrightarrow> q \<le> q' \<Longrightarrow> (\<And>p. p < q \<Longrightarrow> heap' p = heap p) \<Longrightarrow> hids_ok q' heap' t"
  by (auto simp: hids_ok_def intro: less_le_trans)

lemma distinct_mset: "distinct xs = distinct ys" if "mset xs = mset ys"
  using that by (metis distinct_count_atmost_1 set_mset_mset)

lemma same_pointers:
  assumes "mset (freed t') + mset (held t') = mset (freed t) + mset (held t)"
  shows "distinct (freed t' @ held t') = distinct (freed t @ held t) \<and>
    set (freed t' @ held t') = set (freed t @ held t)"
  using assms by (metis distinct_mset mset_append set_mset_mset)

lemma hids_ok_same:
  assumes "hids_ok q heap t" and "rpt_inv t'" and "set (ptrs t') \<subseteq> set (ptrs t)"
    and "mset (freed t') + mset (held t') = mset (freed t) + mset (held t)"
  shows "hids_ok q heap t'"
  using assms(1-3) same_pointers [OF assms(4)] by (auto simp: hids_ok_def)

lemma hids_ok_rdrs: "hids_ok q heap t \<Longrightarrow> rdrs_only rid t t' \<Longrightarrow> hids_ok q heap t'"
  by (rule hids_ok_same [of q heap t]) (auto simp: rdrs_only_def)

lemma hids_ok_remove:
  assumes "hids_ok q heap t" and c: "oh_remove_resource now t rid = (err, t')"
  shows "hids_ok q heap t'"
proof (cases "get_rptentry_by_rid t rid")
  case None
  then have "t' = t" using c by (simp add: oh_remove_resource_def)
  then show ?thesis using assms(1) by simp
next
  case (Some p)
  obtain a e where g: "get_rptentry_by_rid t rid = Some (a, e)" using Some by force
  have i: "rpt_inv t" using assms(1) by (simp add: hids_ok_def)
  note r = remove_resource_ents [OF i g c]
  then have "set (ptrs t') \<subseteq> set (ptrs t)" by (auto simp: ptrs_def discard_def)
  then show ?thesis using hids_ok_same [OF assms(1)] r by blast
qed

lemma hids_ok_put:
  assumes ok: "hids_ok q heap t" and rid: "valid_rid (ResourceId x)"
    and c: "oh_add_resource now t x q False = (err, x', t')"
  shows "hids_ok (Suc q) (heap(q \<mapsto> h)) t'"
proof -
  have i: "rpt_inv t" and q: "q \<noteq> 0" "q \<notin> set (freed t @ held t)"
    using ok by (auto simp: hids_ok_def)
  have nz: "ResourceId x \<noteq> 0" "ResourceId x \<noteq> SAHPI_UNSPECIFIED_RESOURCE_ID"
    using rid by (simp_all add: valid_rid_def)
  have m: "mset (freed t' @ held t') = mset (q # freed t @ held t)"
    using add_resource_held [OF i nz c q(1)] q(2) by simp
  have "distinct (freed t' @ held t')"
    using distinct_mset [OF m] ok q by (simp add: hids_ok_def)
  moreover have "set (freed t' @ held t') = insert q (set (freed t @ held t))"
    using arg_cong [OF m, of set_mset] by simp
  moreover have "\<forall>(k, p, own) \<in> set (ptrs t'). \<not> own \<and> p \<noteq> 0"
    using ok q ptrs_put [OF i nz c] by (auto simp: hids_ok_def upsert_def adjust_def)
  ultimately show ?thesis
    using ok add_resource_ents(3) [OF i nz c] by (auto simp: hids_ok_def less_Suc_eq)
qed

section \<open>Every event keeps it\<close>

lemma add_event_rdrs_only:
  assumes "rpt_inv t" and "rid \<noteq> 0" and "oh_get_resource_by_id t rid \<noteq> None" and "numbered xs"
  shows "rdrs_only rid t (snd (add_event_rdrs rid xs t))"
  using add_event_rdrs_view [OF assms(1,2) _ assms(4)] assms(3) by auto

text \<open>
  The states between getting the domain and telling the event: sessions and domain table as they
  were, the table of the domain and the handler ids in order.
\<close>

definition ready :: "nat \<Rightarrow> daemon \<Rightarrow> daemon \<Rightarrow> bool" where
  "ready a st S \<longleftrightarrow> sess S = sess st \<and> next_sid S = next_sid st \<and> d_params S = d_params st \<and>
     dom_table S = dom_table st \<and>
     (\<exists>T. dom_heap S a = map_option (\<lambda>d. d\<lparr>d_rpt := T\<rparr>) (dom_heap st a) \<and>
        hids_ok (hid_fresh S) (hid_heap S) T)"

lemma ready_refl:
  "dom_heap st a = Some dh \<Longrightarrow> hids_ok (hid_fresh st) (hid_heap st) (d_rpt dh) \<Longrightarrow> ready a st st"
  unfolding ready_def by (intro conjI refl exI [of _ "d_rpt dh"]) simp_all

lemma ready_upd:
  assumes "ready a st S" and "dom_heap st a \<noteq> None"
    and "\<And>q heap t. hids_ok q heap t \<Longrightarrow> hids_ok q heap (f t)"
  shows "ready a st (upd_rpt a f S)"
  using assms(1,2) assms(3) [of "hid_fresh S" "hid_heap S"] by (auto simp: ready_def upd_rpt_def)

lemma ready_alloc:
  assumes "ready a st S"
  shows "ready a st (free_hid (hid_fresh S) (snd (new_hid h S)))" and "ready a st (snd (new_hid h S))"
  using assms by (auto simp: ready_def free_hid_def elim!: hids_ok_mono)

lemma add_resource_refused:
  "\<not> valid_rid (ResourceId x) \<Longrightarrow> oh_add_resource now t x q own = (SA_ERR_HPI_INVALID_PARAMS, x, t)"
  by (auto simp: oh_add_resource_def valid_rid_def)

text \<open>Adding the resource of an event, with a handler id allocated for it.\<close>

lemma ready_add:
  assumes r: "ready a st S" and d: "dom_heap st a \<noteq> None"
    and c: "add_event_resource io a e (hid_fresh S) (snd (new_hid h S)) = (err, e', S')"
  shows "ready a st S' \<and> (\<exists>x. e' = e\<lparr>e_resource := x\<rparr>) \<and>
    (if err = SA_OK then oh_get_resource_by_id (rpt_of S' a) (ResourceId (e_resource e')) \<noteq> None \<and>
       ResourceId (e_resource e') \<noteq> 0 else S' = snd (new_hid h S))"
proof -
  from r obtain T where T: "hids_ok (hid_fresh S) (hid_heap S) T" "rpt_of (snd (new_hid h S)) a = T"
      "dom_heap S a = map_option (\<lambda>d. d\<lparr>d_rpt := T\<rparr>) (dom_heap st a)"
    using d by (auto simp: ready_def rpt_of_def)
  obtain err' x t where ad: "oh_add_resource (clock io clk_rpt 0) T (e_resource e) (hid_fresh S) False = (err', x, t)"
    by (metis prod.exhaust)
  have c': "err = err'" "e' = e\<lparr>e_resource := x\<rparr>" "S' = upd_rpt a (\<lambda>_. t) (snd (new_hid h S))"
    using c ad T(2) by (simp_all add: add_event_resource_def)
  show ?thesis
  proof (cases "valid_rid (ResourceId (e_resource e))")
    case True
    then have nz: "ResourceId (e_resource e) \<noteq> 0" "ResourceId (e_resource e) \<noteq> SAHPI_UNSPECIFIED_RESOURCE_ID"
      by (simp_all add: valid_rid_def)
    have i: "rpt_inv T" using T(1) by (simp add: hids_ok_def)
    note p = hids_ok_put [OF T(1) True ad, of h] and e = add_resource_ents [OF i nz ad]
    have "ready a st S'"
      unfolding ready_def using r T(3) p
      by (intro conjI exI [of _ t]) (auto simp: c' ready_def upd_rpt_def option.map_comp comp_def)
    moreover have "rpt_of S' a = t" using d T(3) by (auto simp: c' upd_rpt_def rpt_of_def)
    moreover have "oh_get_resource_by_id t (ResourceId x) \<noteq> None"
      using rpt_list.get_id [OF e(3), of "ResourceId x"] add_resource_view(1) [OF i nz ad] e(2) nz
      by (simp add: map_of_upsert)
    ultimately show ?thesis using c' e nz by auto
  next
    case False
    then have a: "err' \<noteq> SA_OK" "x = e_resource e" "t = T" using ad add_resource_refused by simp_all
    have "upd_rpt a (\<lambda>_. T) (snd (new_hid h S)) = snd (new_hid h S)"
      using T(3) by (cases S) (auto simp: upd_rpt_def upd_domain_def new_hid_def fun_eq_iff option.map_comp comp_def
          split: option.splits)
    then show ?thesis using a c' ready_alloc(2) [OF r] by (auto intro!: exI [of _ "e_resource e"])
  qed
qed

lemma ready_rdrs:
  assumes r: "ready a st S" and d: "dom_heap st a \<noteq> None"
    and k: "oh_get_resource_by_id (rpt_of S a) (ResourceId (e_resource e)) \<noteq> None" "ResourceId (e_resource e) \<noteq> 0"
    and n: "numbered (e_rdrs e)" and c: "add_rdrs_of a e S = (e', S')"
  shows "ready a st S' \<and> e_event e' = e_event e"
proof -
  obtain rs t where a: "add_event_rdrs (ResourceId (e_resource e)) (e_rdrs e) (rpt_of S a) = (rs, t)" by force
  have c': "e' = e\<lparr>e_rdrs := rs\<rparr>" "S' = upd_rpt a (\<lambda>_. t) S" using c a by (simp_all add: add_rdrs_of_def)
  from r obtain T where T: "dom_heap S a = map_option (\<lambda>d. d\<lparr>d_rpt := T\<rparr>) (dom_heap st a)"
      "hids_ok (hid_fresh S) (hid_heap S) T" by (auto simp: ready_def)
  have ro: "rpt_of S a = T" using T(1) d by (auto simp: rpt_of_def)
  have "rdrs_only (ResourceId (e_resource e)) T t"
    using add_event_rdrs_only [of T "ResourceId (e_resource e)" "e_rdrs e"] k n a T(2) ro
    by (simp add: hids_ok_def)
  then have "hids_ok (hid_fresh S) (hid_heap S) t" by (rule hids_ok_rdrs [OF T(2)])
  then have "ready a st S'"
    unfolding ready_def using r T(1)
    by (intro conjI exI [of _ t]) (auto simp: c' ready_def upd_rpt_def option.map_comp comp_def)
  then show ?thesis using c' by simp
qed

lemma ready_remove_rdrs:
  assumes r: "ready a st S" and d: "dom_heap st a \<noteq> None" and z: "rid \<noteq> 0"
    and k: "oh_get_resource_by_id (rpt_of S a) rid \<noteq> None" and n: "numbered xs"
  shows "ready a st (upd_rpt a (remove_event_rdrs rid xs) S) \<and>
    oh_get_resource_by_id (rpt_of (upd_rpt a (remove_event_rdrs rid xs) S) a) rid \<noteq> None"
proof -
  from r obtain T where T: "dom_heap S a = map_option (\<lambda>d. d\<lparr>d_rpt := T\<rparr>) (dom_heap st a)"
      "hids_ok (hid_fresh S) (hid_heap S) T" by (auto simp: ready_def)
  have ro: "rpt_of S a = T" and ro': "rpt_of (upd_rpt a f S) a = f T" for f
    using T(1) d by (auto simp: rpt_of_def upd_rpt_def)
  have i: "rpt_inv T" using T(2) by (simp add: hids_ok_def)
  have o: "rdrs_only rid T (remove_event_rdrs rid xs T)" using remove_event_rdrs_view [OF i z n] by blast
  have "ready a st (upd_rpt a (remove_event_rdrs rid xs) S)"
    unfolding ready_def using r T(1) hids_ok_rdrs [OF T(2) o]
    by (intro conjI exI [of _ "remove_event_rdrs rid xs T"])
      (auto simp: ready_def upd_rpt_def option.map_comp comp_def)
  then show ?thesis
    using k o rpt_list.get_id [OF i z] rpt_list.get_id [OF rdrs_only_inv [OF o] z]
    by (simp add: ro ro' rdrs_only_def)
qed

lemma flags_event:
  "resource_event_flags rtype known e = Some (p, u, rm, e') \<Longrightarrow> \<exists>x. e' = e\<lparr>e_resource := x\<rparr>"
  by (cases e; cases rtype) (auto simp: resource_event_flags_def Let_def split: if_splits)

lemma process_resource_ready:
  assumes d: "dom_heap st a = Some dh" and ok: "hids_ok (hid_fresh st) (hid_heap st) (d_rpt dh)"
    and n: "numbered (e_rdrs e)" "numbered (e_rdrs_to_remove e)" and ev: "EventDataUnion (e_event e) = ResourceEvent r0"
  shows "\<exists>p e' S. snd (process_resource_event io a rtype e st) = tell io a p e' S \<and> strip_user e' = e' \<and> ready a st S"
proof -
  let ?known = "oh_get_resource_by_id (rpt_of st a) (ResourceId (e_resource e))"
  have d': "dom_heap st a \<noteq> None" using d by simp
  note r0 = ready_refl [OF d ok]
  have tell0: "\<exists>p e' S. (e1, S1) = tell io a p e' S \<and> strip_user e' = e' \<and> ready a st S"
    if "e_event e1 = e_event e" "ready a st S1" for e1 S1
    using that ev strip_resource_event [of e1 r0]
    by (intro exI [of _ False] exI [of _ e1] exI [of _ S1]) (simp add: tell_def)
  have tell1: "\<exists>p e' S. snd (process_hpi_event io a e1 S1) = tell io a p e' S \<and> strip_user e' = e' \<and> ready a st S"
    if "e_event e1 = e_event e" "ready a st S1" for e1 S1
    using that ev strip_resource_event [of e1 r0]
    by (intro exI [of _ True] exI [of _ e1] exI [of _ S1]) (simp add: tell_def)
  show ?thesis
  proof (cases "resource_event_flags rtype ?known e")
    case None
    then show ?thesis using tell0 [of e st] r0 by (simp add: process_resource_event_def)
  next
    case (Some f)
    obtain p u rm e1 where f: "resource_event_flags rtype ?known e = Some (p, u, rm, e1)"
      using Some by (cases f) auto
    obtain x where e1: "e1 = e\<lparr>e_resource := x\<rparr>" using flags_event [OF f] by blast
    show ?thesis
    proof (cases rm)
      case True
      let ?S = "if ?known \<noteq> None then upd_rpt a (\<lambda>rpt. snd (oh_remove_resource (clock io clk_rpt 0) rpt (ResourceId (e_resource e1)))) st else st"
      have rd: "ready a st ?S"
        using r0 ready_upd [OF r0 d'] hids_ok_remove [OF _ prod.collapse [symmetric]] by simp
      have "e_event e1 = e_event e" using e1 by simp
      from tell0 [OF this rd] tell1 [OF this rd] show ?thesis
        using f True by (simp add: process_resource_event_def Let_def)
    next
      case False
      let ?S1 = "snd (new_hid (e_hid e1) st)"
      obtain err e2 S2 where a: "add_event_resource io a e1 (hid_fresh st) ?S1 = (err, e2, S2)" by (metis prod.exhaust)
      note s = ready_add [OF r0 d' a]
      obtain y where e2: "e2 = e1\<lparr>e_resource := y\<rparr>" using s by blast
      have nh: "new_hid h st = (hid_fresh st, snd (new_hid h st))" for h by (metis new_hid_same(1) prod.collapse)
      show ?thesis
      proof (cases "err = SA_OK")
        case err: False
        then show ?thesis
          using s a f False ready_alloc(1) [OF r0] e1 e2 tell0 [of e2 "free_hid (hid_fresh st) ?S1"]
          by (simp add: process_resource_event_def Let_def split_def)
      next
        case err: True
        let ?S3 = "upd_rpt a (remove_event_rdrs (ResourceId (e_resource e2)) (e_rdrs_to_remove e2)) S2"
        obtain e4 S4 where r: "add_rdrs_of a e2 ?S3 = (e4, S4)" by force
        have n2: "numbered (e_rdrs_to_remove e2)" "numbered (e_rdrs e2)" using n e1 e2 by simp_all
        have k: "oh_get_resource_by_id (rpt_of S2 a) (ResourceId (e_resource e2)) \<noteq> None"
            "ResourceId (e_resource e2) \<noteq> 0" and rd2: "ready a st S2" using s err by auto
        note r3 = ready_remove_rdrs [OF rd2 d' k(2,1) n2(1)]
        have r4: "ready a st S4 \<and> e_event e4 = e_event e2"
          by (rule ready_rdrs [OF _ d' _ k(2) n2(2) r]) (use r3 in auto)
        have ev2: "e_event e2 = e_event e" using e1 e2 by simp
        show ?thesis
        proof (cases u)
          case True
          then show ?thesis
            using tell0 [of e4 S4] tell1 [of e4 S4] r4 ev2 a f err False r by (simp add: process_resource_event_def Let_def split_def)
        next
          case u: False
          then show ?thesis
            using tell0 [of e2 S2] tell1 [of e2 S2] rd2 ev2 a f err False by (simp add: process_resource_event_def Let_def split_def)
        qed
      qed
    qed
  qed
qed

lemma tell_shape:
  assumes "strip_user e1 = e1" and "ready a st S1"
  shows "\<exists>p e' S. (e1, S1) = tell io a p e' S \<and> strip_user e' = e' \<and> ready a st S"
    and "\<exists>p e' S. snd (process_hpi_event io a e1 S1) = tell io a p e' S \<and> strip_user e' = e' \<and> ready a st S"
  using assms
  by (auto simp: tell_def intro!: exI [of _ e1] exI [of _ S1] intro: exI [of _ True] exI [of _ False])

lemma process_hs_ready:
  assumes d: "dom_heap st a = Some dh" and ok: "hids_ok (hid_fresh st) (hid_heap st) (d_rpt dh)"
    and n: "numbered (e_rdrs e)" and ev: "EventDataUnion (e_event e) = HotSwapEvent h0"
  shows "\<exists>p e' S. snd (process_hs_event io a hse e st) = tell io a p e' S \<and> strip_user e' = e' \<and> ready a st S"
proof -
  let ?known = "oh_get_resource_by_id (rpt_of st a) (ResourceId (e_resource e))"
  have d': "dom_heap st a \<noteq> None" using d by simp
  note r0 = ready_refl [OF d ok]
  have su: "e_event e1 = e_event e \<Longrightarrow> strip_user e1 = e1" for e1 using ev by (simp add: strip_user_def)
  show ?thesis
  proof (cases "HotSwapState hse = SAHPI_HS_STATE_NOT_PRESENT")
    case True
    let ?S = "upd_rpt a (\<lambda>rpt. snd (oh_remove_resource (clock io clk_rpt 0) rpt (ResourceId (e_resource e)))) st"
    have "ready a st ?S" using ready_upd [OF r0 d'] hids_ok_remove [OF _ prod.collapse [symmetric]] by simp
    note e = tell_shape [OF su [OF refl] this]
    show ?thesis using e True by (simp add: process_hs_event_def)
  next
    case False
    let ?S1 = "snd (new_hid (e_hid e) st)"
    obtain err e2 S2 where a: "add_event_resource io a e (hid_fresh st) ?S1 = (err, e2, S2)" by (metis prod.exhaust)
    note s = ready_add [OF r0 d' a]
    obtain y where e2: "e2 = e\<lparr>e_resource := y\<rparr>" using s by blast
    obtain e3 S3 where r: "(if err = SA_OK \<and> ?known = None then add_rdrs_of a e2 S2 else (e2, S2)) = (e3, S3)" by force
    have r3: "ready a st S3 \<and> e_event e3 = e_event e"
    proof (cases "err = SA_OK \<and> ?known = None")
      case True
      have "ready a st S3 \<and> e_event e3 = e_event e2"
        by (rule ready_rdrs [where S = S2]) (use True s r e2 n d' in \<open>auto split: if_splits\<close>)
      then show ?thesis using e2 by simp
    next
      case False
      then have "e3 = e2" "S3 = S2" using r by (auto split: if_splits)
      then show ?thesis using s e2 by simp
    qed
    have "process_hs_event io a hse e st =
        (if HotSwapState hse \<noteq> PreviousHotSwapState hse then (0, snd (process_hpi_event io a e3 S3)) else (0, e3, S3))"
      using a r False by (auto simp: process_hs_event_def Let_def split_def split: if_splits)
    then show ?thesis using tell_shape [OF su r3 [THEN conjunct1]] r3 by simp
  qed
qed

lemma restore_event: "\<exists>x. restore_resource t e = e\<lparr>e_resource := x\<rparr>"
  by (cases e) (auto simp: restore_resource_def split: option.splits)

lemma dispatch_ready:
  assumes d: "dom_heap st a = Some dh" and ok: "hids_ok (hid_fresh st) (hid_heap st) (d_rpt dh)"
    and n: "numbered (e_rdrs e)" "numbered (e_rdrs_to_remove e)"
  shows "\<exists>p e' S. dispatch_event io a e st = tell io a p e' S \<and> strip_user e' = e' \<and> ready a st S"
proof -
  note r0 = ready_refl [OF d ok]
  obtain x where x: "restore_resource (rpt_of st a) e = e\<lparr>e_resource := x\<rparr>" using restore_event by blast
  let ?e = "e\<lparr>e_resource := x\<rparr>"
  have n': "numbered (e_rdrs ?e)" "numbered (e_rdrs_to_remove ?e)" using n by simp_all
  have "process_hpi_event io a (strip_user e) st = process_hpi_event io a e st" using process_hpi_strip d by force
  then have t: "\<exists>p e' S. snd (process_hpi_event io a e st) = tell io a p e' S \<and> strip_user e' = e' \<and> ready a st S"
    using tell_shape(2) [OF strip_user_idem r0, of io e] by simp
  show ?thesis
  proof (cases "EventDataUnion (e_event e)")
    case (ResourceEvent rtype)
    then have su: "strip_user e = e" "strip_user ?e = ?e" and ev: "EventDataUnion (e_event ?e) = ResourceEvent rtype"
      by (simp_all add: strip_user_def)
    show ?thesis
      using process_resource_ready [OF d ok n' ev, of io rtype] tell_shape(1) [OF su(1) r0] tell_shape(1) [OF su(2) r0]
        ResourceEvent x by (simp add: dispatch_event_def Let_def)
  next
    case (HotSwapEvent hse)
    then have su: "strip_user e = e" "strip_user ?e = ?e" and ev: "EventDataUnion (e_event ?e) = HotSwapEvent hse"
      by (simp_all add: strip_user_def)
    show ?thesis
      using process_hs_ready [OF d ok n'(1) ev, of io hse] tell_shape(1) [OF su(1) r0] tell_shape(1) [OF su(2) r0]
        HotSwapEvent x by (simp add: dispatch_event_def Let_def)
  next
    case (OtherEvent ty bs)
    then have "strip_user e = e" by (simp add: strip_user_def)
    then show ?thesis using tell_shape(1) [OF _ r0] OtherEvent by (simp add: dispatch_event_def)
  qed (use dispatch_reporting [of e io a st] t in simp_all)
qed

text \<open>The invariant of the daemon: the domain is alive, its handler ids and the sessions are in order.\<close>

definition ids_safe :: "nat \<Rightarrow> u32 \<Rightarrow> daemon \<Rightarrow> bool" where
  "ids_safe a did st \<longleftrightarrow> sess_inv st \<and> (\<exists>d. live st a d \<and> d_id d = did) \<and>
     hids_ok (hid_fresh st) (hid_heap st) (rpt_of st a)"

lemma process_event_safe:
  assumes "ids_safe a did st" and n: "numbered (e_rdrs e)" "numbered (e_rdrs_to_remove e)"
    and c: "process_event io did e st = (rc, e', st')"
  shows "ids_safe a did st'"
proof -
  obtain d where l: "live st a d" "d_id d = did" and inv: "sess_inv st"
      and ok: "hids_ok (hid_fresh st) (hid_heap st) (rpt_of st a)"
    using assms(1) by (auto simp: ids_safe_def)
  let ?st = "inc_domain_refcount a st"
  have h: "dom_heap ?st a = Some (dom_held d)" and h0: "rpt_of st a = d_rpt d"
    using l by (simp_all add: live_def dom_held_def)
  have ok': "hids_ok (hid_fresh ?st) (hid_heap ?st) (d_rpt (dom_held d))"
    using ok h0 by (simp add: inc_domain_refcount_def)
  obtain p e1 S where disp: "dispatch_event io a e ?st = tell io a p e1 S" and s: "strip_user e1 = e1" and r: "ready a ?st S"
    using dispatch_ready [OF h ok' n] by blast
  obtain T where T: "dom_heap S a = Some ((dom_held d)\<lparr>d_rpt := T\<rparr>)" and okT: "hids_ok (hid_fresh S) (hid_heap S) T"
    using r h unfolding ready_def by auto
  have disp': "dispatch_event io a e ?st = (if p then snd (process_hpi_event io a e1 S) else (e1, S))"
    using disp by (simp add: tell_def)
  have c': "process_event io (d_id d) e st = (rc, e', st')" using c l by simp
  have S: "sess S = sess st" "next_sid S = next_sid st" "d_params S = d_params st" "dom_table S = dom_table st"
    using r by (simp_all add: ready_def)
  from after_dispatch [OF inv l(1) S T disp' s c'] okT l(2) show ?thesis
    by (auto simp: ids_safe_def)
qed

text \<open>The daemon when the event thread stops or waits.\<close>

definition after_events :: "daemon + SaErrorT \<times> daemon \<Rightarrow> daemon" where
  "after_events r = (case r of Inl st \<Rightarrow> st | Inr (_, st) \<Rightarrow> st)"

lemma process_events_safe:
  assumes "ids_safe a OH_DEFAULT_DOMAIN_ID st"
    and "list_all (\<lambda>e. numbered (e_rdrs e) \<and> numbered (e_rdrs_to_remove e)) es"
  shows "ids_safe a OH_DEFAULT_DOMAIN_ID (after_events (process_events ios n es st))"
  using assms
proof (induction es arbitrary: n st)
  case Nil
  then show ?case by (simp add: after_events_def)
next
  case (Cons e es)
  let ?st = "st\<lparr>process_q := es\<rparr>"
  have q: "ids_safe a OH_DEFAULT_DOMAIN_ID ?st"
    using Cons.prems(1) sess_inv_cong [of ?st st] by (simp add: ids_safe_def live_def rpt_of_def)
  obtain rc e' st' where c: "process_event (ios n) OH_DEFAULT_DOMAIN_ID e ?st = (rc, e', st')" by (metis prod.exhaust)
  have "ids_safe a OH_DEFAULT_DOMAIN_ID st'"
    by (rule process_event_safe [OF q _ _ c]) (use Cons.prems(2) in simp_all)
  then show ?case using Cons.IH [of st' "Suc n"] Cons.prems(2) c by (simp add: after_events_def)
qed

lemma data_ptrs:
  assumes "rpt_inv t" and "rid \<noteq> 0" and "oh_get_resource_by_id t rid \<noteq> None"
  shows "\<exists>own. (rid, oh_get_resource_data t rid, own) \<in> set (ptrs t)"
proof -
  obtain a e where g: "get_rptentry_by_rid t rid = Some (a, e)"
    using assms(3) by (auto simp: oh_get_resource_by_id_def split: option.splits)
  note k = get_rptentry_ents [OF assms(1) g]
  have "(rid, e) \<in> set (ents t)" using k(1,5) assms(2) by simp
  then have "(rid, ent_data e, ent_owndata e) \<in> set (ptrs t)"
    unfolding ptrs_def set_map by (intro image_eqI [of _ _ "(rid, e)"]) simp_all
  then show ?thesis using g by (auto simp: oh_get_resource_data_def)
qed

lemma ptrs_held: "(k, p, False) \<in> set (ptrs t) \<Longrightarrow> p \<noteq> 0 \<Longrightarrow> p \<in> set (held t)"
  by (auto simp: ptrs_def held_def held_ent_def free_data_def intro!: bexI)

text \<open>C27: whatever events the event thread processes in the default domain, dropped, refused and
  contradictory ones included, every resource the table holds afterwards has a pointer to a handler id
  that is allocated and that the table has not freed, and no pointer is ever freed twice. The
  records of the events must have ids other than 0.\<close>

theorem handler_ids_safe:
  assumes "sess_inv st" and "live st a d" and "d_id d = OH_DEFAULT_DOMAIN_ID"
    and "hids_ok (hid_fresh st) (hid_heap st) (d_rpt d)"
    and "list_all (\<lambda>e. numbered (e_rdrs e) \<and> numbered (e_rdrs_to_remove e)) (process_q st)"
    and "st' = after_events (oh_process_events ios st)" and "t = rpt_of st' a"
    and "rid \<noteq> 0" and "oh_get_resource_by_id t rid \<noteq> None"
  shows "hid_heap st' (oh_get_resource_data t rid) \<noteq> None \<and>
    oh_get_resource_data t rid \<notin> set (freed t) \<and> distinct (freed t)"
proof -
  have "ids_safe a OH_DEFAULT_DOMAIN_ID st"
    using assms(1-4) by (auto simp: ids_safe_def live_def rpt_of_def)
  from process_events_safe [OF this assms(5)]
  have ok: "hids_ok (hid_fresh st') (hid_heap st') t" by (simp add: assms(6,7) oh_process_events_def ids_safe_def)
  then obtain own where p: "(rid, oh_get_resource_data t rid, own) \<in> set (ptrs t)"
    using data_ptrs [OF _ assms(8,9)] by (auto simp: hids_ok_def)
  with ok have "\<not> own" "oh_get_resource_data t rid \<noteq> 0" by (auto simp: hids_ok_def)
  then have "oh_get_resource_data t rid \<in> set (held t)" using ptrs_held p by simp
  then show ?thesis using ok by (auto simp: hids_ok_def)
qed

text \<open>A handler reports a resource.\<close>

definition demo_reports :: daemon where
  "demo_reports = demo_sub\<lparr>process_q := [demo_report 7]\<rparr>"

lemma demo_table_ok: "hids_ok 1 heap (d_rpt (demo_domain 0))"
proof -
  have "rpt_inv (d_rpt (demo_domain 0))" by (simp add: demo_domain_def init_rpt_inv)
  moreover have "ents (d_rpt (demo_domain 0)) = []" by (simp add: demo_domain_def oh_init_rpt_def ents_def nt_abs_empty)
  moreover have "freed (d_rpt (demo_domain 0)) = []" by (simp add: demo_domain_def oh_init_rpt_def zero_rpt_def)
  ultimately show ?thesis by (simp add: hids_ok_def ptrs_def held_def)
qed

theorem handler_ids_safe_witness:
  "hid_heap (after_events (oh_process_events (\<lambda>_. demo_io) demo_reports))
     (oh_get_resource_data (rpt_of (after_events (oh_process_events (\<lambda>_. demo_io) demo_reports)) 0) 5) \<noteq> None"
proof -
  let ?st = "after_events (oh_process_events (\<lambda>_. demo_io) demo_reports)" and ?e = "demo_report 7"
    and ?s0 = "demo_reports\<lparr>process_q := []\<rparr>" and ?d = "demo_domain 0"
  have i: "sess_inv st" "live st 0 ?d" if "st = demo_reports \<or> st = ?s0" for st
    using that demo_sub_inv demo_sub_domain sess_inv_cong [of st demo_sub]
    by (auto simp: demo_reports_def live_def)
  obtain rc e' st' where c: "process_event demo_io (d_id ?d) ?e ?s0 = (rc, e', st')" by (metis prod.exhaust)
  have st: "?st = st'" using c by (simp add: oh_process_events_def demo_reports_def after_events_def)
  have k: "ResourceId (e_resource ?e) = 5" "valid_rid 5" "numbered (e_rdrs ?e)" "numbered (e_rdrs_to_remove ?e)"
    by code_simp+
  have o: "SAHPI_RESE_RESOURCE_UPDATED \<noteq> SAHPI_RESE_OTHER n" for n by simp
  have iv: "rpt_inv (d_rpt ?d)" using demo_table_ok by (simp add: hids_ok_def)
  from resource_event_effect [OF i iv demo_report_accepted o k c refl refl]
  have "rpt_inv (rpt_of st' 0)" "map_of (resources (rpt_of st' 0)) 5 \<noteq> None" by (simp_all add: map_of_upsert)
  then have g: "oh_get_resource_by_id (rpt_of ?st 0) 5 \<noteq> None" using rpt_list.get_id [of "rpt_of st' 0" 5] st by simp
  have q: "list_all (\<lambda>e. numbered (e_rdrs e) \<and> numbered (e_rdrs_to_remove e)) (process_q demo_reports)"
    using k by (simp add: demo_reports_def)
  have "hid_fresh demo_reports = 1" by code_simp
  then have "hids_ok (hid_fresh demo_reports) (hid_heap demo_reports) (d_rpt ?d)" using demo_table_ok by simp
  from handler_ids_safe [OF i _ this q refl refl _ g] show ?thesis by simp
qed

end
