(* ===== verification/EventThread.thy ===== *)
theory EventThread
  imports HandlerIds
begin

text \<open>
  The event thread as a whole: processing an event never touches the queue of the thread and never
  changes what an event reports, so that the thread stops at the first quit event; and an event that
  is dropped leaves everything but the alarms as it was.
\<close>

section \<open>The queue of the thread\<close>

lemma release_q [simp]: "process_q (snd (oh_release_domain clk a st)) = process_q st"
  by (auto simp: oh_release_domain_def dec_domain_refcount_def delete_domain_def Let_def
      split: option.splits prod.splits)

lemma get_q [simp]: "process_q (snd (oh_get_domain st did)) = process_q st"
  by (auto simp: oh_get_domain_def get_domain_def inc_domain_refcount_def Let_def split: option.splits)

lemma list_sessions_q [simp]: "process_q (snd (oh_list_sessions clk st did)) = process_q st"
proof -
  let ?did = "if did = SAHPI_UNSPECIFIED_DOMAIN_ID then OH_DEFAULT_DOMAIN_ID else did"
  obtain o' st' where g: "oh_get_domain st ?did = (o', st')" by force
  then have "process_q st' = process_q st" using get_q [of st ?did] by simp
  then show ?thesis using g by (cases o') (simp_all add: oh_list_sessions_def Let_def)
qed

lemma hpi_event_q: "process_q (snd (snd (process_hpi_event io a e st))) = process_q st"
proof (cases "dom_heap st a")
  case (Some d)
  let ?st = "oh_add_event_to_del io a (strip_user e) st"
  obtain o' st' where l: "oh_list_sessions (clock io clk_list) ?st (d_id d) = (o', st')" by force
  then have "process_q st' = process_q ?st" using list_sessions_q [of "clock io clk_list" ?st "d_id d"] by simp
  then show ?thesis using Some l
    by (auto simp: process_hpi_event_def Let_def oh_add_event_to_del_def split: option.splits)
qed (simp add: process_hpi_event_def)

lemma hid_q [simp]:
  "process_q (snd (new_hid h st)) = process_q st" "process_q (free_hid p st) = process_q st"
  "process_q (upd_rpt a f st) = process_q st"
  by (simp_all add: new_hid_def free_hid_def upd_rpt_def)

lemma add_event_q [simp]:
  "process_q (snd (snd (add_event_resource io a e p st))) = process_q st"
  "process_q (snd (add_rdrs_of a e st)) = process_q st"
  by (simp_all add: add_event_resource_def add_rdrs_of_def Let_def split_def)

lemma add_event_same [simp]:
  "e_event (fst (snd (add_event_resource io a e p st))) = e_event e"
  "e_event (fst (add_rdrs_of a e st)) = e_event e"
  by (simp_all add: add_event_resource_def add_rdrs_of_def Let_def split_def)

lemma hpi_event_same: "e_event (fst (snd (process_hpi_event io a e st))) = e_event e"
  by (auto simp: process_hpi_event_def strip_user_def Let_def split: option.splits prod.splits)

lemma resource_event_q:
  "process_q (snd (snd (process_resource_event io a rtype e st))) = process_q st \<and>
   e_event (fst (snd (process_resource_event io a rtype e st))) = e_event e"
proof (cases "resource_event_flags rtype (oh_get_resource_by_id (rpt_of st a) (ResourceId (e_resource e))) e")
  case None
  then show ?thesis by (simp add: process_resource_event_def)
next
  case (Some f)
  obtain p u rm e1 where f: "f = (p, u, rm, e1)" by (metis prod.exhaust)
  have "e_event e1 = e_event e" using flags_event Some f by fastforce
  then show ?thesis
    using Some f by (simp add: process_resource_event_def Let_def split_def hpi_event_q hpi_event_same)
qed

lemma hs_event_q:
  "process_q (snd (snd (process_hs_event io a hse e st))) = process_q st \<and>
   e_event (fst (snd (process_hs_event io a hse e st))) = e_event e"
  by (simp add: process_hs_event_def Let_def split_def hpi_event_q hpi_event_same)

lemma dispatch_q:
  "process_q (snd (dispatch_event io a e st)) = process_q st \<and>
   e_event (fst (dispatch_event io a e st)) = e_event e"
proof -
  obtain x where "restore_resource (rpt_of st a) e = e\<lparr>e_resource := x\<rparr>" using restore_event by blast
  then show ?thesis
    by (cases "EventDataUnion (e_event e)")
      (auto simp: dispatch_event_def Let_def resource_event_q hs_event_q hpi_event_q hpi_event_same)
qed

lemma process_event_same:
  assumes "process_event io did e st = (rc, e', st')"
  shows "process_q st' = process_q st" and "e_event e' = e_event e"
proof -
  obtain o' st1 where g: "oh_get_domain st did = (o', st1)" by force
  then have "process_q st1 = process_q st" using get_q [of st did] by simp
  then show "process_q st' = process_q st" "e_event e' = e_event e"
    using assms g dispatch_q [of io "the o'" e st1]
    by (cases o'; auto simp: process_event_def Let_def split_def)+
qed

text \<open>An event with no type of its own to process comes out as it was, but for the stripping of user events.\<close>

lemma reporting_same:
  assumes "process_event io did e st = (rc, e', st')" and "reporting (EventDataUnion (e_event e))"
  shows "e' = e \<or> e' = strip_user e"
proof -
  obtain o' st1 where g: "oh_get_domain st did = (o', st1)" by force
  have h: "fst (snd (process_hpi_event io a e st1)) \<in> {e, strip_user e}" for a
    by (auto simp: process_hpi_event_def Let_def split: option.splits prod.splits)
  show ?thesis
    using assms(1) g dispatch_reporting [OF assms(2), of io "the o'" st1] h [of "the o'"]
    by (cases o') (auto simp: process_event_def Let_def split_def)
qed

lemma quit_kept:
  assumes "process_event io did e st = (rc, e', st')"
  shows "oh_detect_quit_event e' = oh_detect_quit_event e"
proof (cases "EventDataUnion (e_event e)")
  case (HpiSwEvent sw)
  then have "strip_user e = e" by (simp add: strip_user_def)
  then show ?thesis using reporting_same [OF assms] HpiSwEvent by auto
qed (use process_event_same(2) [OF assms] in \<open>simp_all add: oh_detect_quit_event_def\<close>)

section \<open>When the thread stops\<close>

lemma process_events_stops:
  assumes "process_q st = es"
  shows "case process_events ios n es st of
      Inl st' \<Rightarrow> \<not> list_ex oh_detect_quit_event es \<and> process_q st' = []
    | Inr (rc, st') \<Rightarrow> rc = SA_OK \<and> list_ex oh_detect_quit_event es \<and> process_q st' = behind_quit es"
  using assms
proof (induction es arbitrary: n st)
  case Nil
  then show ?case by simp
next
  case (Cons e es)
  obtain rc e' st' where c: "process_event (ios n) OH_DEFAULT_DOMAIN_ID e (st\<lparr>process_q := es\<rparr>) = (rc, e', st')"
    by (metis prod.exhaust)
  have q: "process_q st' = es" and d: "oh_detect_quit_event e' = oh_detect_quit_event e"
    using process_event_same(1) [OF c] quit_kept [OF c] by simp_all
  show ?case
  proof (cases "oh_detect_quit_event e")
    case True
    then show ?thesis using c d q by (simp add: behind_quit_def)
  next
    case False
    then have "behind_quit (e # es) = behind_quit es" by (simp add: behind_quit_def)
    then show ?thesis using Cons.IH [OF q, of "Suc n"] c d False
      by (simp split: sum.splits prod.splits)
  qed
qed

text \<open>Turn \<open>i\<close> of the thread: the event that was queued as number \<open>i\<close> is taken off and processed.\<close>

definition thread_turn :: "(nat \<Rightarrow> ev_io) \<Rightarrow> oh_event list \<Rightarrow> nat \<Rightarrow> daemon \<Rightarrow> daemon" where
  "thread_turn ios es i st =
     snd (snd (process_event (ios i) OH_DEFAULT_DOMAIN_ID (es ! i) (st\<lparr>process_q := drop (Suc i) es\<rparr>)))"

definition before_quit :: "oh_event list \<Rightarrow> nat" where
  "before_quit es = length (takeWhile (\<lambda>e. \<not> oh_detect_quit_event e) es)"

lemma thread_turn_Suc: "thread_turn ios (e # es) (Suc i) = thread_turn (\<lambda>i. ios (Suc i)) es i"
  by (rule ext) (simp add: thread_turn_def)

lemma turns_Suc:
  "fold (thread_turn ios (e # es)) [0..<Suc k] st =
     fold (thread_turn (\<lambda>i. ios (Suc i)) es) [0..<k] (thread_turn ios (e # es) 0 st)"
proof -
  have "fold (thread_turn ios (e # es)) [0..<Suc k] st =
      fold (thread_turn ios (e # es)) (map Suc [0..<k]) (thread_turn ios (e # es) 0 st)"
    by (simp add: upt_conv_Cons map_Suc_upt del: upt_Suc)
  then show ?thesis by (simp add: fold_map comp_def thread_turn_Suc)
qed

lemma process_events_turns:
  "process_events ios n es st =
     (if list_ex oh_detect_quit_event es
      then Inr (SA_OK, fold (thread_turn (\<lambda>i. ios (n + i)) es) [0..<Suc (before_quit es)] st)
      else Inl (fold (thread_turn (\<lambda>i. ios (n + i)) es) [0..<length es] st))"
proof (induction es arbitrary: n st)
  case Nil
  then show ?case by simp
next
  case (Cons e es)
  obtain rc e' st' where c: "process_event (ios n) OH_DEFAULT_DOMAIN_ID e (st\<lparr>process_q := es\<rparr>) = (rc, e', st')"
    by (metis prod.exhaust)
  have d: "oh_detect_quit_event e' = oh_detect_quit_event e" using quit_kept [OF c] .
  have t: "thread_turn (\<lambda>i. ios (n + i)) (e # es) 0 st = st'" using c by (simp add: thread_turn_def)
  show ?case
  proof (cases "oh_detect_quit_event e")
    case True
    then show ?thesis using c d t by (simp add: before_quit_def)
  next
    case False
    then have "before_quit (e # es) = Suc (before_quit es)" by (simp add: before_quit_def)
    then show ?thesis
      using Cons.IH [of "Suc n" st'] c d t False
      by (simp add: turns_Suc del: upt_Suc)
  qed
qed

text \<open>C31: The event thread returns exactly when its queue holds a quit event. It takes the queued events
  one by one, in order, through \<open>process_event\<close> for the default domain, up to and including the first
  quit event; then it returns \<open>SA_OK\<close> with those behind it still in the queue. Without a quit event it
  processes every event so and waits on the empty queue.\<close>

theorem event_thread_stops:
  "oh_process_events ios st =
     (let es = process_q st in
      if list_ex oh_detect_quit_event es
      then Inr (SA_OK, fold (thread_turn ios es) [0..<Suc (before_quit es)] st)
      else Inl (fold (thread_turn ios es) [0..<length es] st)) \<and>
   (case oh_process_events ios st of
      Inl st' \<Rightarrow> process_q st' = []
    | Inr (rc, st') \<Rightarrow> process_q st' = behind_quit (process_q st))"
proof
  show "oh_process_events ios st =
     (let es = process_q st in
      if list_ex oh_detect_quit_event es
      then Inr (SA_OK, fold (thread_turn ios es) [0..<Suc (before_quit es)] st)
      else Inl (fold (thread_turn ios es) [0..<length es] st))"
    unfolding oh_process_events_def process_events_turns by (simp only: Let_def add_0)
  show "case oh_process_events ios st of
      Inl st' \<Rightarrow> process_q st' = []
    | Inr (rc, st') \<Rightarrow> process_q st' = behind_quit (process_q st)"
    using process_events_stops [OF refl, of st ios 0]
    by (auto simp: oh_process_events_def split: sum.splits)
qed

section \<open>Dropped events\<close>

definition dropped :: "RPTable \<Rightarrow> oh_event \<Rightarrow> bool" where
  "dropped t e =
     (let caps = ResourceCapabilities (e_resource (restore_resource t e)) in
      case EventDataUnion (e_event e) of
        ResourceEvent rtype \<Rightarrow> e_hid e = 0 \<or> caps AND SAHPI_CAPABILITY_RESOURCE = 0 \<or>
          caps AND SAHPI_CAPABILITY_FRU \<noteq> 0 \<and> rtype = SAHPI_RESE_RESOURCE_ADDED
      | HotSwapEvent hse \<Rightarrow> e_hid e = 0 \<or> caps AND SAHPI_CAPABILITY_RESOURCE = 0 \<or> caps AND SAHPI_CAPABILITY_FRU = 0
      | OtherEvent _ _ \<Rightarrow> True
      | _ \<Rightarrow> False)"

lemma dispatch_dropped:
  assumes "dropped (rpt_of st a) e"
  shows "\<exists>e'. dispatch_event io a e st = (e', st) \<and> e_event e' = e_event e \<and> e' \<in> {e, restore_resource (rpt_of st a) e}"
proof -
  obtain x where x: "restore_resource (rpt_of st a) e = e\<lparr>e_resource := x\<rparr>" using restore_event by blast
  then show ?thesis
    using assms
    by (cases "EventDataUnion (e_event e)") (auto simp: dropped_def dispatch_event_def Let_def)
qed

text \<open>An event that is dropped (no handler id, or a resource without the capabilities its type asks for)
  leaves the resource table, the event log, the handler ids and the queue of every session as
  they were. Only the alarms of the domain may change: the detection of alarms runs on dropped
  events as well.\<close>

lemma dropped_event_effect:
  assumes "sess_inv st" and "live st a d" and "dropped (d_rpt d) e"
    and "process_event io (d_id d) e st = (rc, e', st')"
  shows "rc = 0 \<and> e_event e' = e_event e \<and> rpt_of st' a = d_rpt d \<and> queue st' j = queue st j \<and>
    map_option d_del (dom_heap st' a) = Some (d_del d) \<and> hid_heap st' = hid_heap st"
proof -
  let ?S = "inc_domain_refcount a st"
  have h: "dom_heap ?S a = Some ((dom_held d)\<lparr>d_rpt := d_rpt d\<rparr>)" and r: "rpt_of ?S a = d_rpt d"
    using assms(2) by (simp_all add: live_def dom_held_def)
  obtain e1 where e1: "dispatch_event io a e ?S = (e1, ?S)" "e_event e1 = e_event e"
    using dispatch_dropped [of ?S a e io] assms(3) r by auto
  then have disp: "dispatch_event io a e ?S = (if False then snd (process_hpi_event io a e1 ?S) else (e1, ?S))"
    by simp
  have "strip_user e1 = e1"
    using assms(3) e1(2) by (cases "EventDataUnion (e_event e)") (simp_all add: dropped_def strip_user_def)
  from after_dispatch [OF assms(1,2) _ _ _ _ h disp this assms(4), of j] e1(2)
  show ?thesis by (simp add: inc_domain_refcount_def)
qed

text \<open>A resource failure without a handler id.\<close>

lemma dropped_event_effect_witness:
  "rpt_of (snd (snd (process_event demo_io 0 zero_event demo_sub))) 0 = d_rpt (demo_domain 0) \<and>
   queue (snd (snd (process_event demo_io 0 zero_event demo_sub))) 1 = []"
proof -
  obtain rc e' st' where p: "process_event demo_io (d_id (demo_domain 0)) zero_event demo_sub = (rc, e', st')"
    by (metis prod.exhaust)
  have "dropped (d_rpt (demo_domain 0)) zero_event" by (simp add: dropped_def zero_event_def)
  from dropped_event_effect [OF demo_sub_inv demo_sub_domain this p, of 1] p demo_sub_receives
  show ?thesis by simp
qed

end
