(* ===== verification/Marshal.thy ===== *)
theory Marshal
  imports Prelude
begin

text \<open>
  Marshaling of C data by type descriptions (\<^verbatim>\<open>marshal/marshal.c\<close>, \<^verbatim>\<open>marshal/marshal.h\<close>): the
  client and the daemon exchange the arguments and results of HPI calls as bytes. Memory is a
  function from addresses to bytes; data is an address, and a description says at which offsets
  its parts are. \<open>be\<close> is true on a host with big endian integers. What \<open>Marshal\<close> writes to its
  buffer is a list of bytes, its result the length of that list; a negative result is \<open>Inl\<close>.
  Neither function knows how long the buffer is. Sizes stay below the range of \<^verbatim>\<open>int\<close>.
\<close>

type_synonym cmem = "nat \<Rightarrow> u8"

abbreviation (input) EINVAL :: int where "EINVAL \<equiv> 22"
abbreviation (input) ENOSYS :: int where "ENOSYS \<equiv> 38"
abbreviation (input) SIZE_MAX :: u64 where "SIZE_MAX \<equiv> 0xFFFFFFFFFFFFFFFF"

section \<open>Memory\<close>

definition bytes_at :: "cmem \<Rightarrow> nat \<Rightarrow> nat \<Rightarrow> u8 list" where
  "bytes_at m a n = map (\<lambda>i. m (a + i)) [0..<n]"

definition put_bytes :: "nat \<Rightarrow> u8 list \<Rightarrow> cmem \<Rightarrow> cmem" where
  "put_bytes a bs m = (\<lambda>x. if a \<le> x \<and> x < a + length bs then bs ! (x - a) else m x)"

text \<open>Memory with an allocator: what is at and above \<open>brk\<close> is free.\<close>

record cheap =
  mem :: cmem
  brk :: nat

definition poke :: "nat \<Rightarrow> u8 list \<Rightarrow> cheap \<Rightarrow> cheap" where
  "poke a bs s = s\<lparr>mem := put_bytes a bs (mem s)\<rparr>"

text \<open>\<^verbatim>\<open>g_new0(unsigned char, n)\<close>; it returns the null pointer for 0 bytes.\<close>

definition g_new0 :: "nat \<Rightarrow> cheap \<Rightarrow> nat \<times> cheap" where
  "g_new0 n s =
     (if n = 0 then (0, s)
      else (brk s, (poke (brk s) (replicate n 0) s)\<lparr>brk := brk s + n\<rparr>))"

text \<open>Integers: little endian bytes and numbers, and the order of a host.\<close>

definition order :: "bool \<Rightarrow> u8 list \<Rightarrow> u8 list" where
  "order be bs = (if be then rev bs else bs)"

fun le_nat :: "u8 list \<Rightarrow> nat" where
  "le_nat [] = 0"
| "le_nat (b # bs) = unat b + 256 * le_nat bs"

fun le_bytes :: "nat \<Rightarrow> nat \<Rightarrow> u8 list" where
  "le_bytes 0 p = []"
| "le_bytes (Suc n) p = of_nat (p mod 256) # le_bytes n (p div 256)"

text \<open>A pointer in memory, \<^verbatim>\<open>sizeof(void *)\<close> bytes.\<close>

abbreviation (input) ptr_size :: nat where "ptr_size \<equiv> 8"

definition load_ptr :: "bool \<Rightarrow> cmem \<Rightarrow> nat \<Rightarrow> nat" where
  "load_ptr be m a = le_nat (order be (bytes_at m a ptr_size))"

definition store_ptr :: "bool \<Rightarrow> nat \<Rightarrow> nat \<Rightarrow> cheap \<Rightarrow> cheap" where
  "store_ptr be a p = poke a (order be (le_bytes ptr_size p))"

section \<open>Type descriptions\<close>

text \<open>
  \<^verbatim>\<open>struct sMarshalType\<close>. The elements of a struct (offset and description) and of a union
  (modifier and description) are the lists up to the end mark. \<open>eMtUnknown\<close> stands for every other
  type of description. A user defined description carries its two functions.
\<close>

datatype cMarshalType =
    eMtVoid | eMtUint8 | eMtUint16 | eMtUint32 | eMtUint64
  | eMtInt8 | eMtInt16 | eMtInt32 | eMtInt64 | eMtFloat32 | eMtFloat64
  | eMtArray (m_nelements: nat) (m_element_sizeof: nat) cMarshalType
  | eMtVarArray (m_nelements_idx: nat) nat cMarshalType
  | eMtStruct "(nat \<times> cMarshalType) list"
  | eMtUnion (m_mod_idx: nat) "(u64 \<times> cMarshalType) list"
  | eMtUserDefined "(cmem \<Rightarrow> nat \<Rightarrow> int + u8 list) option"
      "(bool \<Rightarrow> cmem \<Rightarrow> nat \<Rightarrow> nat \<Rightarrow> cheap \<Rightarrow> int + nat \<times> cheap) option"
  | eMtUnknown

fun IsSimpleType :: "cMarshalType \<Rightarrow> bool" where
  "IsSimpleType (eMtArray _ _ _) = False"
| "IsSimpleType (eMtVarArray _ _ _) = False"
| "IsSimpleType (eMtStruct _) = False"
| "IsSimpleType (eMtUnion _ _) = False"
| "IsSimpleType (eMtUserDefined _ _) = False"
| "IsSimpleType eMtUnknown = False"
| "IsSimpleType _ = True"

text \<open>The number of bytes a simple type takes, in memory and in the buffer.\<close>

fun simple_sizeof :: "cMarshalType \<Rightarrow> nat" where
  "simple_sizeof eMtUint8 = 1" | "simple_sizeof eMtInt8 = 1"
| "simple_sizeof eMtUint16 = 2" | "simple_sizeof eMtInt16 = 2"
| "simple_sizeof eMtUint32 = 4" | "simple_sizeof eMtInt32 = 4" | "simple_sizeof eMtFloat32 = 4"
| "simple_sizeof eMtUint64 = 8" | "simple_sizeof eMtInt64 = 8" | "simple_sizeof eMtFloat64 = 8"
| "simple_sizeof _ = 0"

definition MarshalSimpleType :: "cMarshalType \<Rightarrow> cmem \<Rightarrow> nat \<Rightarrow> int + u8 list" where
  "MarshalSimpleType type m data = Inr (bytes_at m data (simple_sizeof type))"

text \<open>
  The value of an integer of a type, cast to \<^verbatim>\<open>size_t\<close>: signed types are sign extended. \<^verbatim>\<open>char\<close> is
  signed here.
\<close>

fun to_size_t :: "cMarshalType \<Rightarrow> nat \<Rightarrow> u64" where
  "to_size_t eMtUint8 n = of_nat n" | "to_size_t eMtUint16 n = of_nat n"
| "to_size_t eMtUint32 n = of_nat n" | "to_size_t eMtUint64 n = of_nat n"
| "to_size_t eMtInt8 n = scast (of_nat n :: 8 word)"
| "to_size_t eMtInt16 n = scast (of_nat n :: 16 word)"
| "to_size_t eMtInt32 n = scast (of_nat n :: 32 word)"
| "to_size_t eMtInt64 n = of_nat n"
| "to_size_t _ n = SIZE_MAX"

text \<open>
  The code does not check that the index is one of the table; an index outside gives
  \<open>SIZE_MAX\<close> here, as an element that is not an integer does.
\<close>

definition GetStructElementIntegerValue ::
    "bool \<Rightarrow> (nat \<times> cMarshalType) list \<Rightarrow> nat \<Rightarrow> cmem \<Rightarrow> nat \<Rightarrow> u64"
where
  "GetStructElementIntegerValue be elems idx m data =
     (if idx < length elems then
        let (offset, elem) = elems ! idx
        in to_size_t elem (le_nat (order be (bytes_at m (data + offset) (simple_sizeof elem))))
      else SIZE_MAX)"

definition GetUnionElement :: "(u64 \<times> cMarshalType) list \<Rightarrow> u64 \<Rightarrow> cMarshalType option" where
  "GetUnionElement elems modifier = map_of elems modifier"

lemma size_union_element:
  "GetUnionElement us k = Some e \<Longrightarrow> size e < size_list (size_prod (\<lambda>_. 0) size) us"
  by (induction us) (auto simp: GetUnionElement_def split: if_splits)

section \<open>Marshaling\<close>

text \<open>The loop over the elements of an array; \<open>f\<close> marshals one element.\<close>

fun marshal_loop :: "(nat \<Rightarrow> int + u8 list) \<Rightarrow> nat \<Rightarrow> nat \<Rightarrow> nat \<Rightarrow> int + u8 list" where
  "marshal_loop f 0 elem_sizeof data = Inr []"
| "marshal_loop f (Suc n) elem_sizeof data =
     (case f data of
        Inl cc \<Rightarrow> Inl cc
      | Inr bs \<Rightarrow>
          (case marshal_loop f n elem_sizeof (data + elem_sizeof) of
             Inl cc \<Rightarrow> Inl cc
           | Inr rest \<Rightarrow> Inr (bs @ rest)))"

function Marshal :: "bool \<Rightarrow> cMarshalType \<Rightarrow> cmem \<Rightarrow> nat \<Rightarrow> int + u8 list"
  and marshal_fields ::
    "bool \<Rightarrow> (nat \<times> cMarshalType) list \<Rightarrow> (nat \<times> cMarshalType) list \<Rightarrow> cmem \<Rightarrow> nat \<Rightarrow> int + u8 list"
where
  "Marshal be type m data =
     (if IsSimpleType type then MarshalSimpleType type m data
      else case type of
             eMtArray nelems elem_sizeof elem \<Rightarrow> marshal_loop (Marshal be elem m) nelems elem_sizeof data
           | eMtStruct elems \<Rightarrow> marshal_fields be elems elems m data
           | eMtUserDefined marshaller _ \<Rightarrow>
               (case marshaller of None \<Rightarrow> Inr [] | Some f \<Rightarrow> f m data)
           | _ \<Rightarrow> Inl (- ENOSYS))"
| "marshal_fields be all [] m data = Inr []"
| "marshal_fields be all ((offset, elem) # rest) m data =
     (let cc =
            (case elem of
               eMtUnion mod2_idx us \<Rightarrow>
                 (case GetUnionElement us (GetStructElementIntegerValue be all mod2_idx m data) of
                    None \<Rightarrow> Inl (- EINVAL)
                  | Some elem2 \<Rightarrow>
                      (case Marshal be elem2 m (data + offset) of
                         Inl _ \<Rightarrow> Inl (- EINVAL)
                       | Inr bs \<Rightarrow> Inr bs))
             | eMtVarArray nelems2_idx elem2_sizeof elem2 \<Rightarrow>
                 marshal_loop (Marshal be elem2 m)
                   (unat (GetStructElementIntegerValue be all nelems2_idx m data)) elem2_sizeof
                   (load_ptr be m (data + offset))
             | _ \<Rightarrow> Marshal be elem m (data + offset))
      in case cc of
           Inl cc \<Rightarrow> Inl cc
         | Inr bs \<Rightarrow>
             (case marshal_fields be all rest m data of
                Inl cc \<Rightarrow> Inl cc
              | Inr bs' \<Rightarrow> Inr (bs @ bs')))"
  by pat_completeness auto

termination
  by (relation "measure (\<lambda>x. case x of Inl (_, t, _, _) \<Rightarrow> size t
        | Inr (_, _, fs, _, _) \<Rightarrow> size_list (size_prod (\<lambda>_. 0) size) fs)")
    (auto dest: size_union_element)

declare Marshal.simps [simp del] marshal_fields.simps [simp del]

text \<open>\<open>MarshalArray\<close>: the objects of a call one behind the other. The lists end with the types.\<close>

fun MarshalArray :: "bool \<Rightarrow> cMarshalType list \<Rightarrow> cmem \<Rightarrow> nat list \<Rightarrow> int + u8 list" where
  "MarshalArray be [] m data = Inr []"
| "MarshalArray be (type # types) m data =
     (case Marshal be type m (hd data) of
        Inl cc \<Rightarrow> Inl cc
      | Inr bs \<Rightarrow>
          (case MarshalArray be types m (tl data) of
             Inl cc \<Rightarrow> Inl cc
           | Inr rest \<Rightarrow> Inr (bs @ rest)))"

section \<open>Demarshaling\<close>

text \<open>
  The buffer is at address \<open>buffer\<close> of the memory \<open>bm\<close>; \<open>bo\<close> is true for big endian senders. The
  result is the number of bytes read and the memory afterwards.
\<close>

definition DemarshalSimpleTypes ::
    "bool \<Rightarrow> bool \<Rightarrow> cMarshalType \<Rightarrow> cmem \<Rightarrow> nat \<Rightarrow> nat \<Rightarrow> cheap \<Rightarrow> int + nat \<times> cheap"
where
  "DemarshalSimpleTypes be bo type bm data buffer s =
     (let bs = bytes_at bm buffer (simple_sizeof type);
          bs = (if be \<noteq> bo then rev bs else bs)
      in Inr (simple_sizeof type, poke data bs s))"

fun demarshal_loop ::
    "(nat \<Rightarrow> nat \<Rightarrow> cheap \<Rightarrow> int + nat \<times> cheap) \<Rightarrow> nat \<Rightarrow> nat \<Rightarrow> nat \<Rightarrow> nat \<Rightarrow> cheap \<Rightarrow> int + nat \<times> cheap"
where
  "demarshal_loop f 0 elem_sizeof data buffer s = Inr (0, s)"
| "demarshal_loop f (Suc n) elem_sizeof data buffer s =
     (case f data buffer s of
        Inl cc \<Rightarrow> Inl cc
      | Inr (cc, s) \<Rightarrow>
          (case demarshal_loop f n elem_sizeof (data + elem_sizeof) (buffer + cc) s of
             Inl cc \<Rightarrow> Inl cc
           | Inr (rest, s) \<Rightarrow> Inr (cc + rest, s)))"

function Demarshal ::
    "bool \<Rightarrow> bool \<Rightarrow> cMarshalType \<Rightarrow> cmem \<Rightarrow> nat \<Rightarrow> nat \<Rightarrow> cheap \<Rightarrow> int + nat \<times> cheap"
  and demarshal_fields ::
    "bool \<Rightarrow> bool \<Rightarrow> (nat \<times> cMarshalType) list \<Rightarrow> nat \<Rightarrow> (nat \<times> cMarshalType) list \<Rightarrow> cmem \<Rightarrow>
       nat \<Rightarrow> nat \<Rightarrow> cheap \<Rightarrow> int + nat \<times> cheap"
where
  "Demarshal be bo type bm data buffer s =
     (if IsSimpleType type then DemarshalSimpleTypes be bo type bm data buffer s
      else case type of
             eMtArray nelems elem_sizeof elem \<Rightarrow>
               demarshal_loop (Demarshal be bo elem bm) nelems elem_sizeof data buffer s
           | eMtStruct elems \<Rightarrow> demarshal_fields be bo elems 0 elems bm data buffer s
           | eMtUserDefined _ demarshaller \<Rightarrow>
               (case demarshaller of None \<Rightarrow> Inr (0, s) | Some f \<Rightarrow> f bo bm data buffer s)
           | _ \<Rightarrow> Inl (- ENOSYS))"
| "demarshal_fields be bo all i [] bm data buffer s = Inr (0, s)"
| "demarshal_fields be bo all i ((offset, elem) # rest) bm data buffer s =
     (let cc =
            (case elem of
               eMtUnion mod2_idx us \<Rightarrow>
                 if mod2_idx \<ge> i then Inl (- EINVAL)
                 else
                   (case GetUnionElement us (GetStructElementIntegerValue be all mod2_idx (mem s) data) of
                      None \<Rightarrow> Inl (- EINVAL)
                    | Some elem2 \<Rightarrow> Demarshal be bo elem2 bm (data + offset) buffer s)
             | eMtVarArray nelems2_idx elem2_sizeof elem2 \<Rightarrow>
                 if nelems2_idx \<ge> i then Inl (- EINVAL)
                 else
                   let nelems2 = unat (GetStructElementIntegerValue be all nelems2_idx (mem s) data);
                       (data2, s) = g_new0 (nelems2 * elem2_sizeof) s;
                       s = store_ptr be (data + offset) data2 s
                   in demarshal_loop (Demarshal be bo elem2 bm) nelems2 elem2_sizeof data2 buffer s
             | _ \<Rightarrow> Demarshal be bo elem bm (data + offset) buffer s)
      in case cc of
           Inl cc \<Rightarrow> Inl cc
         | Inr (cc, s) \<Rightarrow>
             (case demarshal_fields be bo all (Suc i) rest bm data (buffer + cc) s of
                Inl cc \<Rightarrow> Inl cc
              | Inr (cc', s) \<Rightarrow> Inr (cc + cc', s)))"
  by pat_completeness auto

termination
  by (relation "measure (\<lambda>x. case x of Inl (_, _, t, _, _, _, _) \<Rightarrow> size t
        | Inr (_, _, _, _, fs, _, _, _, _) \<Rightarrow> size_list (size_prod (\<lambda>_. 0) size) fs)")
    (auto dest: size_union_element)

declare Demarshal.simps [simp del] demarshal_fields.simps [simp del]

fun DemarshalArray ::
    "bool \<Rightarrow> bool \<Rightarrow> cMarshalType list \<Rightarrow> cmem \<Rightarrow> nat list \<Rightarrow> nat \<Rightarrow> cheap \<Rightarrow> int + nat \<times> cheap"
where
  "DemarshalArray be bo [] bm data buffer s = Inr (0, s)"
| "DemarshalArray be bo (type # types) bm data buffer s =
     (case Demarshal be bo type bm (hd data) buffer s of
        Inl cc \<Rightarrow> Inl cc
      | Inr (cc, s) \<Rightarrow>
          (case DemarshalArray be bo types bm (tl data) (buffer + cc) s of
             Inl cc \<Rightarrow> Inl cc
           | Inr (rest, s) \<Rightarrow> Inr (cc + rest, s)))"

end
