(* ===== verification/MarshalTypes.thy ===== *)
theory MarshalTypes
  imports Marshal
begin

text \<open>
  The descriptions of the HPI data types (\<^verbatim>\<open>marshal/marshal_hpi_types.c\<close>, \<^verbatim>\<open>.h\<close>). An offset is
  \<^verbatim>\<open>offsetof\<close> the field, an element size \<^verbatim>\<open>sizeof\<close> the element type, in the layout the System V ABI
  for x86-64 gives the structs of \<^verbatim>\<open>include/SaHpi.h\<close> and \<^verbatim>\<open>include/oHpi.h\<close>. Descriptions that are
  macros for another one are abbreviations.
\<close>

section \<open>Simple types\<close>

abbreviation (input) SaHpiVoidType :: cMarshalType where "SaHpiVoidType \<equiv> eMtUint8"
abbreviation (input) SaHpiUint8Type :: cMarshalType where "SaHpiUint8Type \<equiv> eMtUint8"
abbreviation (input) SaHpiUint16Type :: cMarshalType where "SaHpiUint16Type \<equiv> eMtUint16"
abbreviation (input) SaHpiUint32Type :: cMarshalType where "SaHpiUint32Type \<equiv> eMtUint32"
abbreviation (input) SaHpiInt8Type :: cMarshalType where "SaHpiInt8Type \<equiv> eMtInt8"
abbreviation (input) SaHpiInt16Type :: cMarshalType where "SaHpiInt16Type \<equiv> eMtInt16"
abbreviation (input) SaHpiInt32Type :: cMarshalType where "SaHpiInt32Type \<equiv> eMtInt32"
abbreviation (input) SaHpiInt64Type :: cMarshalType where "SaHpiInt64Type \<equiv> eMtInt64"
abbreviation (input) SaHpiUint64Type :: cMarshalType where "SaHpiUint64Type \<equiv> eMtUint64"
abbreviation (input) SaHpiFloat32Type :: cMarshalType where "SaHpiFloat32Type \<equiv> eMtFloat32"
abbreviation (input) SaHpiFloat64Type :: cMarshalType where "SaHpiFloat64Type \<equiv> eMtFloat64"
abbreviation (input) SaHpiBoolType :: cMarshalType where "SaHpiBoolType \<equiv> SaHpiUint8Type"
abbreviation (input) SaHpiManufacturerIdType :: cMarshalType where "SaHpiManufacturerIdType \<equiv> SaHpiUint32Type"
abbreviation (input) SaHpiVersionType :: cMarshalType where "SaHpiVersionType \<equiv> SaHpiUint32Type"
abbreviation (input) SaErrorType :: cMarshalType where "SaErrorType \<equiv> SaHpiInt32Type"
abbreviation (input) SaHpiDomainIdType :: cMarshalType where "SaHpiDomainIdType \<equiv> SaHpiUint32Type"
abbreviation (input) SaHpiSessionIdType :: cMarshalType where "SaHpiSessionIdType \<equiv> SaHpiUint32Type"
abbreviation (input) SaHpiResourceIdType :: cMarshalType where "SaHpiResourceIdType \<equiv> SaHpiUint32Type"
abbreviation (input) SaHpiHsCapabilitiesType :: cMarshalType where "SaHpiHsCapabilitiesType \<equiv> SaHpiUint32Type"
abbreviation (input) SaHpiEntryIdType :: cMarshalType where "SaHpiEntryIdType \<equiv> SaHpiUint32Type"
abbreviation (input) SaHpiTimeType :: cMarshalType where "SaHpiTimeType \<equiv> SaHpiInt64Type"
abbreviation (input) SaHpiTimeoutType :: cMarshalType where "SaHpiTimeoutType \<equiv> SaHpiInt64Type"
abbreviation (input) SaHpiLoadNumberType :: cMarshalType where "SaHpiLoadNumberType \<equiv> SaHpiUint32Type"
abbreviation (input) SaHpiEventLogCapabilitiesType :: cMarshalType where "SaHpiEventLogCapabilitiesType \<equiv> SaHpiUint32Type"
abbreviation (input) SaHpiTextTypeType :: cMarshalType where "SaHpiTextTypeType \<equiv> SaHpiUint32Type"
abbreviation (input) SaHpiLanguageType :: cMarshalType where "SaHpiLanguageType \<equiv> SaHpiUint32Type"
abbreviation (input) SaHpiInstrumentIdType :: cMarshalType where "SaHpiInstrumentIdType \<equiv> SaHpiUint32Type"
abbreviation (input) SaHpiEntityTypeType :: cMarshalType where "SaHpiEntityTypeType \<equiv> SaHpiUint32Type"
abbreviation (input) SaHpiEntityLocationType :: cMarshalType where "SaHpiEntityLocationType \<equiv> SaHpiUint32Type"
abbreviation (input) SaHpiEventCategoryType :: cMarshalType where "SaHpiEventCategoryType \<equiv> SaHpiUint8Type"
abbreviation (input) SaHpiEventStateType :: cMarshalType where "SaHpiEventStateType \<equiv> SaHpiUint16Type"
abbreviation (input) SaHpiSensorNumType :: cMarshalType where "SaHpiSensorNumType \<equiv> SaHpiUint32Type"
abbreviation (input) SaHpiSensorTypeType :: cMarshalType where "SaHpiSensorTypeType \<equiv> SaHpiUint32Type"
abbreviation (input) SaHpiSensorReadingTypeType :: cMarshalType where "SaHpiSensorReadingTypeType \<equiv> SaHpiUint32Type"
abbreviation (input) SaHpiSensorRangeFlagsType :: cMarshalType where "SaHpiSensorRangeFlagsType \<equiv> SaHpiUint8Type"
abbreviation (input) SaHpiSensorUnitsType :: cMarshalType where "SaHpiSensorUnitsType \<equiv> SaHpiUint32Type"
abbreviation (input) SaHpiSensorModUnitUseType :: cMarshalType where "SaHpiSensorModUnitUseType \<equiv> SaHpiUint32Type"
abbreviation (input) SaHpiSensorThdMaskType :: cMarshalType where "SaHpiSensorThdMaskType \<equiv> SaHpiUint8Type"
abbreviation (input) SaHpiSensorEventCtrlType :: cMarshalType where "SaHpiSensorEventCtrlType \<equiv> SaHpiUint32Type"
abbreviation (input) SaHpiCtrlNumType :: cMarshalType where "SaHpiCtrlNumType \<equiv> SaHpiUint32Type"
abbreviation (input) SaHpiCtrlTypeType :: cMarshalType where "SaHpiCtrlTypeType \<equiv> SaHpiUint32Type"
abbreviation (input) SaHpiCtrlStateDigitalType :: cMarshalType where "SaHpiCtrlStateDigitalType \<equiv> SaHpiUint32Type"
abbreviation (input) SaHpiCtrlStateDiscreteType :: cMarshalType where "SaHpiCtrlStateDiscreteType \<equiv> SaHpiUint32Type"
abbreviation (input) SaHpiCtrlStateAnalogType :: cMarshalType where "SaHpiCtrlStateAnalogType \<equiv> SaHpiInt32Type"
abbreviation (input) SaHpiCtrlModeType :: cMarshalType where "SaHpiCtrlModeType \<equiv> SaHpiUint32Type"
abbreviation (input) SaHpiTxtLineNumType :: cMarshalType where "SaHpiTxtLineNumType \<equiv> SaHpiUint8Type"
abbreviation (input) SaHpiCtrlOutputTypeType :: cMarshalType where "SaHpiCtrlOutputTypeType \<equiv> SaHpiUint32Type"
abbreviation (input) SaHpiIdrIdType :: cMarshalType where "SaHpiIdrIdType \<equiv> SaHpiUint32Type"
abbreviation (input) SaHpiIdrAreaTypeType :: cMarshalType where "SaHpiIdrAreaTypeType \<equiv> SaHpiUint32Type"
abbreviation (input) SaHpiIdrFieldTypeType :: cMarshalType where "SaHpiIdrFieldTypeType \<equiv> SaHpiUint32Type"
abbreviation (input) SaHpiWatchdogNumType :: cMarshalType where "SaHpiWatchdogNumType \<equiv> SaHpiUint32Type"
abbreviation (input) SaHpiWatchdogActionType :: cMarshalType where "SaHpiWatchdogActionType \<equiv> SaHpiUint32Type"
abbreviation (input) SaHpiWatchdogActionEventType :: cMarshalType where "SaHpiWatchdogActionEventType \<equiv> SaHpiUint32Type"
abbreviation (input) SaHpiWatchdogPretimerInterruptType :: cMarshalType where "SaHpiWatchdogPretimerInterruptType \<equiv> SaHpiUint32Type"
abbreviation (input) SaHpiWatchdogTimerUseType :: cMarshalType where "SaHpiWatchdogTimerUseType \<equiv> SaHpiUint32Type"
abbreviation (input) SaHpiWatchdogExpFlagsType :: cMarshalType where "SaHpiWatchdogExpFlagsType \<equiv> SaHpiUint8Type"
abbreviation (input) SaHpiAnnunciatorNumType :: cMarshalType where "SaHpiAnnunciatorNumType \<equiv> SaHpiUint32Type"
abbreviation (input) SaHpiStatusCondTypeType :: cMarshalType where "SaHpiStatusCondTypeType \<equiv> SaHpiUint32Type"
abbreviation (input) SaHpiAnnunciatorModeType :: cMarshalType where "SaHpiAnnunciatorModeType \<equiv> SaHpiUint32Type"
abbreviation (input) SaHpiAnnunciatorTypeType :: cMarshalType where "SaHpiAnnunciatorTypeType \<equiv> SaHpiUint32Type"
abbreviation (input) SaHpiDimiNumType :: cMarshalType where "SaHpiDimiNumType \<equiv> SaHpiUint32Type"
abbreviation (input) SaHpiDimiTestNumType :: cMarshalType where "SaHpiDimiTestNumType \<equiv> SaHpiUint32Type"
abbreviation (input) SaHpiDimiTotalTestsType :: cMarshalType where "SaHpiDimiTotalTestsType \<equiv> SaHpiUint32Type"
abbreviation (input) SaHpiDimiTestServiceImpactType :: cMarshalType where "SaHpiDimiTestServiceImpactType \<equiv> SaHpiUint32Type"
abbreviation (input) SaHpiDimiTestCapabilityType :: cMarshalType where "SaHpiDimiTestCapabilityType \<equiv> SaHpiUint32Type"
abbreviation (input) SaHpiDimiTestParamTypeType :: cMarshalType where "SaHpiDimiTestParamTypeType \<equiv> SaHpiUint32Type"
abbreviation (input) SaHpiDimiReadyType :: cMarshalType where "SaHpiDimiReadyType \<equiv> SaHpiUint32Type"
abbreviation (input) SaHpiDimiTestPercentCompletedType :: cMarshalType where "SaHpiDimiTestPercentCompletedType \<equiv> SaHpiUint32Type"
abbreviation (input) SaHpiDimiTestRunStatusType :: cMarshalType where "SaHpiDimiTestRunStatusType \<equiv> SaHpiUint32Type"
abbreviation (input) SaHpiDimiTestErrCodeType :: cMarshalType where "SaHpiDimiTestErrCodeType \<equiv> SaHpiUint32Type"
abbreviation (input) SaHpiFumiNumType :: cMarshalType where "SaHpiFumiNumType \<equiv> SaHpiUint32Type"
abbreviation (input) SaHpiBankNumType :: cMarshalType where "SaHpiBankNumType \<equiv> SaHpiUint8Type"
abbreviation (input) SaHpiFumiProtocolType :: cMarshalType where "SaHpiFumiProtocolType \<equiv> SaHpiUint32Type"
abbreviation (input) SaHpiFumiCapabilityType :: cMarshalType where "SaHpiFumiCapabilityType \<equiv> SaHpiUint32Type"
abbreviation (input) SaHpiFumiUpgradeStatusType :: cMarshalType where "SaHpiFumiUpgradeStatusType \<equiv> SaHpiUint32Type"
abbreviation (input) SaHpiFumiSourceStatusType :: cMarshalType where "SaHpiFumiSourceStatusType \<equiv> SaHpiUint32Type"
abbreviation (input) SaHpiFumiBankStateType :: cMarshalType where "SaHpiFumiBankStateType \<equiv> SaHpiUint32Type"
abbreviation (input) SaHpiFumiSafDefinedSpecIdType :: cMarshalType where "SaHpiFumiSafDefinedSpecIdType \<equiv> SaHpiUint32Type"
abbreviation (input) SaHpiFumiSpecInfoTypeType :: cMarshalType where "SaHpiFumiSpecInfoTypeType \<equiv> SaHpiUint32Type"
abbreviation (input) SaHpiFumiServiceImpactType :: cMarshalType where "SaHpiFumiServiceImpactType \<equiv> SaHpiUint32Type"
abbreviation (input) SaHpiFumiLogicalBankStateFlagsType :: cMarshalType where "SaHpiFumiLogicalBankStateFlagsType \<equiv> SaHpiUint32Type"
abbreviation (input) SaHpiRdrTypeType :: cMarshalType where "SaHpiRdrTypeType \<equiv> SaHpiUint32Type"
abbreviation (input) SaHpiHsIndicatorStateType :: cMarshalType where "SaHpiHsIndicatorStateType \<equiv> SaHpiUint32Type"
abbreviation (input) SaHpiHsActionType :: cMarshalType where "SaHpiHsActionType \<equiv> SaHpiUint32Type"
abbreviation (input) SaHpiHsStateType :: cMarshalType where "SaHpiHsStateType \<equiv> SaHpiUint32Type"
abbreviation (input) SaHpiSeverityType :: cMarshalType where "SaHpiSeverityType \<equiv> SaHpiUint32Type"
abbreviation (input) SaHpiResourceEventTypeType :: cMarshalType where "SaHpiResourceEventTypeType \<equiv> SaHpiUint32Type"
abbreviation (input) SaHpiDomainEventTypeType :: cMarshalType where "SaHpiDomainEventTypeType \<equiv> SaHpiUint32Type"
abbreviation (input) SaHpiSensorOptionalDataType :: cMarshalType where "SaHpiSensorOptionalDataType \<equiv> SaHpiUint8Type"
abbreviation (input) SaHpiSensorEnableOptDataType :: cMarshalType where "SaHpiSensorEnableOptDataType \<equiv> SaHpiUint8Type"
abbreviation (input) SaHpiHsCauseOfStateChangeType :: cMarshalType where "SaHpiHsCauseOfStateChangeType \<equiv> SaHpiUint32Type"
abbreviation (input) SaHpiSwEventTypeType :: cMarshalType where "SaHpiSwEventTypeType \<equiv> SaHpiUint32Type"
abbreviation (input) SaHpiEventTypeType :: cMarshalType where "SaHpiEventTypeType \<equiv> SaHpiUint32Type"
abbreviation (input) SaHpiEvtQueueStatusType :: cMarshalType where "SaHpiEvtQueueStatusType \<equiv> SaHpiUint32Type"
abbreviation (input) SaHpiParmActionType :: cMarshalType where "SaHpiParmActionType \<equiv> SaHpiUint32Type"
abbreviation (input) SaHpiResetActionType :: cMarshalType where "SaHpiResetActionType \<equiv> SaHpiUint32Type"
abbreviation (input) SaHpiPowerStateType :: cMarshalType where "SaHpiPowerStateType \<equiv> SaHpiUint32Type"
abbreviation (input) SaHpiCapabilitiesType :: cMarshalType where "SaHpiCapabilitiesType \<equiv> SaHpiUint32Type"
abbreviation (input) SaHpiDomainCapabilitiesType :: cMarshalType where "SaHpiDomainCapabilitiesType \<equiv> SaHpiUint32Type"
abbreviation (input) SaHpiAlarmIdType :: cMarshalType where "SaHpiAlarmIdType \<equiv> SaHpiUint32Type"
abbreviation (input) SaHpiSelOverflowActionType :: cMarshalType where "SaHpiSelOverflowActionType \<equiv> SaHpiUint32Type"
abbreviation (input) SaHpiEventLogEntryIdType :: cMarshalType where "SaHpiEventLogEntryIdType \<equiv> SaHpiUint32Type"
abbreviation (input) oHpiHandlerIdType :: cMarshalType where "oHpiHandlerIdType \<equiv> SaHpiUint32Type"
abbreviation (input) oHpiGlobalParamTypeType :: cMarshalType where "oHpiGlobalParamTypeType \<equiv> SaHpiUint32Type"

section \<open>The modifiers of the unions\<close>

abbreviation (input) SAHPI_SENSOR_READING_TYPE_INT64 :: u64 where "SAHPI_SENSOR_READING_TYPE_INT64 \<equiv> 0"
abbreviation (input) SAHPI_SENSOR_READING_TYPE_UINT64 :: u64 where "SAHPI_SENSOR_READING_TYPE_UINT64 \<equiv> 1"
abbreviation (input) SAHPI_SENSOR_READING_TYPE_FLOAT64 :: u64 where "SAHPI_SENSOR_READING_TYPE_FLOAT64 \<equiv> 2"
abbreviation (input) SAHPI_SENSOR_READING_TYPE_BUFFER :: u64 where "SAHPI_SENSOR_READING_TYPE_BUFFER \<equiv> 3"
abbreviation (input) SAHPI_CTRL_TYPE_DIGITAL :: u64 where "SAHPI_CTRL_TYPE_DIGITAL \<equiv> 0"
abbreviation (input) SAHPI_CTRL_TYPE_DISCRETE :: u64 where "SAHPI_CTRL_TYPE_DISCRETE \<equiv> 1"
abbreviation (input) SAHPI_CTRL_TYPE_ANALOG :: u64 where "SAHPI_CTRL_TYPE_ANALOG \<equiv> 2"
abbreviation (input) SAHPI_CTRL_TYPE_STREAM :: u64 where "SAHPI_CTRL_TYPE_STREAM \<equiv> 3"
abbreviation (input) SAHPI_CTRL_TYPE_TEXT :: u64 where "SAHPI_CTRL_TYPE_TEXT \<equiv> 4"
abbreviation (input) SAHPI_CTRL_TYPE_OEM :: u64 where "SAHPI_CTRL_TYPE_OEM \<equiv> 192"
abbreviation (input) SAHPI_DIMITEST_PARAM_TYPE_INT32 :: u64 where "SAHPI_DIMITEST_PARAM_TYPE_INT32 \<equiv> 1"
abbreviation (input) SAHPI_DIMITEST_PARAM_TYPE_FLOAT64 :: u64 where "SAHPI_DIMITEST_PARAM_TYPE_FLOAT64 \<equiv> 2"
abbreviation (input) SAHPI_DIMITEST_PARAM_TYPE_BOOLEAN :: u64 where "SAHPI_DIMITEST_PARAM_TYPE_BOOLEAN \<equiv> 0"
abbreviation (input) SAHPI_DIMITEST_PARAM_TYPE_TEXT :: u64 where "SAHPI_DIMITEST_PARAM_TYPE_TEXT \<equiv> 3"
abbreviation (input) SAHPI_FUMI_SPEC_INFO_NONE :: u64 where "SAHPI_FUMI_SPEC_INFO_NONE \<equiv> 0"
abbreviation (input) SAHPI_FUMI_SPEC_INFO_SAF_DEFINED :: u64 where "SAHPI_FUMI_SPEC_INFO_SAF_DEFINED \<equiv> 1"
abbreviation (input) SAHPI_FUMI_SPEC_INFO_OEM_DEFINED :: u64 where "SAHPI_FUMI_SPEC_INFO_OEM_DEFINED \<equiv> 2"
abbreviation (input) SAHPI_NO_RECORD :: u64 where "SAHPI_NO_RECORD \<equiv> 0"
abbreviation (input) SAHPI_CTRL_RDR :: u64 where "SAHPI_CTRL_RDR \<equiv> 1"
abbreviation (input) SAHPI_SENSOR_RDR :: u64 where "SAHPI_SENSOR_RDR \<equiv> 2"
abbreviation (input) SAHPI_INVENTORY_RDR :: u64 where "SAHPI_INVENTORY_RDR \<equiv> 3"
abbreviation (input) SAHPI_WATCHDOG_RDR :: u64 where "SAHPI_WATCHDOG_RDR \<equiv> 4"
abbreviation (input) SAHPI_ANNUNCIATOR_RDR :: u64 where "SAHPI_ANNUNCIATOR_RDR \<equiv> 5"
abbreviation (input) SAHPI_DIMI_RDR :: u64 where "SAHPI_DIMI_RDR \<equiv> 6"
abbreviation (input) SAHPI_FUMI_RDR :: u64 where "SAHPI_FUMI_RDR \<equiv> 7"
abbreviation (input) SAHPI_ET_RESOURCE :: u64 where "SAHPI_ET_RESOURCE \<equiv> 0"
abbreviation (input) SAHPI_ET_DOMAIN :: u64 where "SAHPI_ET_DOMAIN \<equiv> 1"
abbreviation (input) SAHPI_ET_SENSOR :: u64 where "SAHPI_ET_SENSOR \<equiv> 2"
abbreviation (input) SAHPI_ET_SENSOR_ENABLE_CHANGE :: u64 where "SAHPI_ET_SENSOR_ENABLE_CHANGE \<equiv> 3"
abbreviation (input) SAHPI_ET_HOTSWAP :: u64 where "SAHPI_ET_HOTSWAP \<equiv> 4"
abbreviation (input) SAHPI_ET_WATCHDOG :: u64 where "SAHPI_ET_WATCHDOG \<equiv> 5"
abbreviation (input) SAHPI_ET_HPI_SW :: u64 where "SAHPI_ET_HPI_SW \<equiv> 6"
abbreviation (input) SAHPI_ET_OEM :: u64 where "SAHPI_ET_OEM \<equiv> 7"
abbreviation (input) SAHPI_ET_USER :: u64 where "SAHPI_ET_USER \<equiv> 8"
abbreviation (input) SAHPI_ET_DIMI :: u64 where "SAHPI_ET_DIMI \<equiv> 9"
abbreviation (input) SAHPI_ET_DIMI_UPDATE :: u64 where "SAHPI_ET_DIMI_UPDATE \<equiv> 10"
abbreviation (input) SAHPI_ET_FUMI :: u64 where "SAHPI_ET_FUMI \<equiv> 11"
abbreviation (input) OHPI_ON_EP :: u64 where "OHPI_ON_EP \<equiv> 1"
abbreviation (input) OHPI_LOG_ON_SEV :: u64 where "OHPI_LOG_ON_SEV \<equiv> 2"
abbreviation (input) OHPI_EVT_QUEUE_LIMIT :: u64 where "OHPI_EVT_QUEUE_LIMIT \<equiv> 3"
abbreviation (input) OHPI_DEL_SIZE_LIMIT :: u64 where "OHPI_DEL_SIZE_LIMIT \<equiv> 4"
abbreviation (input) OHPI_DEL_SAVE :: u64 where "OHPI_DEL_SAVE \<equiv> 5"
abbreviation (input) OHPI_DAT_SIZE_LIMIT :: u64 where "OHPI_DAT_SIZE_LIMIT \<equiv> 6"
abbreviation (input) OHPI_DAT_USER_LIMIT :: u64 where "OHPI_DAT_USER_LIMIT \<equiv> 7"
abbreviation (input) OHPI_DAT_SAVE :: u64 where "OHPI_DAT_SAVE \<equiv> 8"
abbreviation (input) OHPI_PATH :: u64 where "OHPI_PATH \<equiv> 9"
abbreviation (input) OHPI_VARPATH :: u64 where "OHPI_VARPATH \<equiv> 10"
abbreviation (input) OHPI_CONF :: u64 where "OHPI_CONF \<equiv> 11"

section \<open>The descriptions\<close>

definition SaHpiTextBufferDataArray :: cMarshalType where
  "SaHpiTextBufferDataArray = eMtArray 255 1 SaHpiUint8Type"

definition SaHpiTextBufferElements :: "(nat \<times> cMarshalType) list" where
  "SaHpiTextBufferElements =
     [(0, SaHpiTextTypeType), (4, SaHpiLanguageType), (8, SaHpiUint8Type),
      (9, SaHpiTextBufferDataArray)]"

definition SaHpiTextBufferType :: cMarshalType where
  "SaHpiTextBufferType = eMtStruct SaHpiTextBufferElements"

definition oHpiHandlerConfigParamTypeNameArray :: cMarshalType where
  "oHpiHandlerConfigParamTypeNameArray = eMtArray 255 1 SaHpiUint8Type"

definition oHpiHandlerConfigParamTypeValueArray :: cMarshalType where
  "oHpiHandlerConfigParamTypeValueArray = eMtArray 255 1 SaHpiUint8Type"

definition oHpiHandlerConfigParamTypeElements :: "(nat \<times> cMarshalType) list" where
  "oHpiHandlerConfigParamTypeElements =
     [(0, oHpiHandlerConfigParamTypeNameArray), (255, oHpiHandlerConfigParamTypeValueArray)]"

definition oHpiHandlerConfigParamType :: cMarshalType where
  "oHpiHandlerConfigParamType = eMtStruct oHpiHandlerConfigParamTypeElements"

definition HandlerConfigParamsArray :: cMarshalType where
  "HandlerConfigParamsArray = eMtVarArray 0 510 oHpiHandlerConfigParamType"

definition oHpiHandlerConfigTypeElements :: "(nat \<times> cMarshalType) list" where
  "oHpiHandlerConfigTypeElements =
     [(0, SaHpiUint8Type), (8, HandlerConfigParamsArray)]"

definition oHpiHandlerConfigType :: cMarshalType where
  "oHpiHandlerConfigType = eMtStruct oHpiHandlerConfigTypeElements"

definition SaHpiEntityElements :: "(nat \<times> cMarshalType) list" where
  "SaHpiEntityElements =
     [(0, SaHpiEntityTypeType), (4, SaHpiEntityLocationType)]"

definition SaHpiEntityType :: cMarshalType where
  "SaHpiEntityType = eMtStruct SaHpiEntityElements"

definition SaHpiEntityPathEntryArray :: cMarshalType where
  "SaHpiEntityPathEntryArray = eMtArray 16 8 SaHpiEntityType"

definition SaHpiEntityPathElements :: "(nat \<times> cMarshalType) list" where
  "SaHpiEntityPathElements =
     [(0, SaHpiEntityPathEntryArray)]"

definition SaHpiEntityPathType :: cMarshalType where
  "SaHpiEntityPathType = eMtStruct SaHpiEntityPathElements"

definition SaHpiSensorInterpretedUnionBufferArray :: cMarshalType where
  "SaHpiSensorInterpretedUnionBufferArray = eMtArray 32 1 SaHpiUint8Type"

definition SaHpiSensorReadingUnionElements :: "(u64 \<times> cMarshalType) list" where
  "SaHpiSensorReadingUnionElements =
     [(SAHPI_SENSOR_READING_TYPE_INT64, SaHpiInt64Type),
      (SAHPI_SENSOR_READING_TYPE_UINT64, SaHpiUint64Type),
      (SAHPI_SENSOR_READING_TYPE_FLOAT64, SaHpiFloat64Type),
      (SAHPI_SENSOR_READING_TYPE_BUFFER, SaHpiSensorInterpretedUnionBufferArray)]"

definition SaHpiSensorReadingUnionType :: cMarshalType where
  "SaHpiSensorReadingUnionType = eMtUnion 1 SaHpiSensorReadingUnionElements"

definition SaHpiSensorReadingTElements :: "(nat \<times> cMarshalType) list" where
  "SaHpiSensorReadingTElements =
     [(0, SaHpiBoolType), (4, SaHpiSensorReadingTypeType), (8, SaHpiSensorReadingUnionType)]"

definition SaHpiSensorReadingType :: cMarshalType where
  "SaHpiSensorReadingType = eMtStruct SaHpiSensorReadingTElements"

definition SaHpiSensorThresholdsElements :: "(nat \<times> cMarshalType) list" where
  "SaHpiSensorThresholdsElements =
     [(0, SaHpiSensorReadingType), (40, SaHpiSensorReadingType), (80, SaHpiSensorReadingType),
      (120, SaHpiSensorReadingType), (160, SaHpiSensorReadingType), (200, SaHpiSensorReadingType),
      (240, SaHpiSensorReadingType), (280, SaHpiSensorReadingType)]"

definition SaHpiSensorThresholdsType :: cMarshalType where
  "SaHpiSensorThresholdsType = eMtStruct SaHpiSensorThresholdsElements"

definition SaHpiSensorRangeElements :: "(nat \<times> cMarshalType) list" where
  "SaHpiSensorRangeElements =
     [(0, SaHpiSensorRangeFlagsType), (8, SaHpiSensorReadingType), (48, SaHpiSensorReadingType),
      (88, SaHpiSensorReadingType), (128, SaHpiSensorReadingType), (168, SaHpiSensorReadingType)]"

definition SaHpiSensorRangeType :: cMarshalType where
  "SaHpiSensorRangeType = eMtStruct SaHpiSensorRangeElements"

definition SaHpiSensorDataFormatElements :: "(nat \<times> cMarshalType) list" where
  "SaHpiSensorDataFormatElements =
     [(0, SaHpiBoolType), (4, SaHpiSensorReadingTypeType), (8, SaHpiSensorUnitsType),
      (12, SaHpiSensorUnitsType), (16, SaHpiSensorModUnitUseType), (20, SaHpiBoolType),
      (24, SaHpiSensorRangeType), (232, SaHpiFloat64Type)]"

definition SaHpiSensorDataFormatType :: cMarshalType where
  "SaHpiSensorDataFormatType = eMtStruct SaHpiSensorDataFormatElements"

definition SaHpiSensorThdDefnElements :: "(nat \<times> cMarshalType) list" where
  "SaHpiSensorThdDefnElements =
     [(0, SaHpiBoolType), (1, SaHpiSensorThdMaskType), (2, SaHpiSensorThdMaskType),
      (3, SaHpiBoolType)]"

definition SaHpiSensorThdDefnType :: cMarshalType where
  "SaHpiSensorThdDefnType = eMtStruct SaHpiSensorThdDefnElements"

definition SaHpiSensorRecElements :: "(nat \<times> cMarshalType) list" where
  "SaHpiSensorRecElements =
     [(0, SaHpiSensorNumType), (4, SaHpiSensorTypeType), (8, SaHpiEventCategoryType),
      (9, SaHpiBoolType), (12, SaHpiSensorEventCtrlType), (16, SaHpiEventStateType),
      (24, SaHpiSensorDataFormatType), (264, SaHpiSensorThdDefnType), (268, SaHpiUint32Type)]"

definition SaHpiSensorRecType :: cMarshalType where
  "SaHpiSensorRecType = eMtStruct SaHpiSensorRecElements"

definition SaHpiCtrlStateStreamArray :: cMarshalType where
  "SaHpiCtrlStateStreamArray = eMtArray 4 1 SaHpiUint8Type"

definition SaHpiCtrlStateStreamElements :: "(nat \<times> cMarshalType) list" where
  "SaHpiCtrlStateStreamElements =
     [(0, SaHpiBoolType), (4, SaHpiUint32Type), (8, SaHpiCtrlStateStreamArray)]"

definition SaHpiCtrlStateStreamType :: cMarshalType where
  "SaHpiCtrlStateStreamType = eMtStruct SaHpiCtrlStateStreamElements"

definition SaHpiCtrlStateTextElements :: "(nat \<times> cMarshalType) list" where
  "SaHpiCtrlStateTextElements =
     [(0, SaHpiTxtLineNumType), (4, SaHpiTextBufferType)]"

definition SaHpiCtrlStateTextType :: cMarshalType where
  "SaHpiCtrlStateTextType = eMtStruct SaHpiCtrlStateTextElements"

definition SaHpiCtrlStateOemBodyArray :: cMarshalType where
  "SaHpiCtrlStateOemBodyArray = eMtArray 255 1 SaHpiUint8Type"

definition SaHpiCtrlStateOemElements :: "(nat \<times> cMarshalType) list" where
  "SaHpiCtrlStateOemElements =
     [(0, SaHpiManufacturerIdType), (4, SaHpiUint8Type), (5, SaHpiCtrlStateOemBodyArray)]"

definition SaHpiCtrlStateOemType :: cMarshalType where
  "SaHpiCtrlStateOemType = eMtStruct SaHpiCtrlStateOemElements"

definition SaHpiCtrlStateUnionElements :: "(u64 \<times> cMarshalType) list" where
  "SaHpiCtrlStateUnionElements =
     [(SAHPI_CTRL_TYPE_DIGITAL, SaHpiCtrlStateDigitalType),
      (SAHPI_CTRL_TYPE_DISCRETE, SaHpiCtrlStateDiscreteType),
      (SAHPI_CTRL_TYPE_ANALOG, SaHpiCtrlStateAnalogType),
      (SAHPI_CTRL_TYPE_STREAM, SaHpiCtrlStateStreamType),
      (SAHPI_CTRL_TYPE_TEXT, SaHpiCtrlStateTextType), (SAHPI_CTRL_TYPE_OEM, SaHpiCtrlStateOemType)]"

definition SaHpiCtrlStateUnionType :: cMarshalType where
  "SaHpiCtrlStateUnionType = eMtUnion 0 SaHpiCtrlStateUnionElements"

definition SaHpiCtrlStateElements :: "(nat \<times> cMarshalType) list" where
  "SaHpiCtrlStateElements =
     [(0, SaHpiCtrlTypeType), (4, SaHpiCtrlStateUnionType)]"

definition SaHpiCtrlStateType :: cMarshalType where
  "SaHpiCtrlStateType = eMtStruct SaHpiCtrlStateElements"

definition SaHpiCtrlRecDigitalElements :: "(nat \<times> cMarshalType) list" where
  "SaHpiCtrlRecDigitalElements =
     [(0, SaHpiCtrlStateDigitalType)]"

definition SaHpiCtrlRecDigitalType :: cMarshalType where
  "SaHpiCtrlRecDigitalType = eMtStruct SaHpiCtrlRecDigitalElements"

definition SaHpiCtrlRecDiscreteElements :: "(nat \<times> cMarshalType) list" where
  "SaHpiCtrlRecDiscreteElements =
     [(0, SaHpiCtrlStateDiscreteType)]"

definition SaHpiCtrlRecDiscreteType :: cMarshalType where
  "SaHpiCtrlRecDiscreteType = eMtStruct SaHpiCtrlRecDiscreteElements"

definition SaHpiCtrlRecAnalogElements :: "(nat \<times> cMarshalType) list" where
  "SaHpiCtrlRecAnalogElements =
     [(0, SaHpiCtrlStateAnalogType), (4, SaHpiCtrlStateAnalogType), (8, SaHpiCtrlStateAnalogType)]"

definition SaHpiCtrlRecAnalogType :: cMarshalType where
  "SaHpiCtrlRecAnalogType = eMtStruct SaHpiCtrlRecAnalogElements"

definition SaHpiCtrlRecStreamElements :: "(nat \<times> cMarshalType) list" where
  "SaHpiCtrlRecStreamElements =
     [(0, SaHpiCtrlStateStreamType)]"

definition SaHpiCtrlRecStreamType :: cMarshalType where
  "SaHpiCtrlRecStreamType = eMtStruct SaHpiCtrlRecStreamElements"

definition SaHpiCtrlRecTextElements :: "(nat \<times> cMarshalType) list" where
  "SaHpiCtrlRecTextElements =
     [(0, SaHpiUint8Type), (1, SaHpiUint8Type), (4, SaHpiLanguageType), (8, SaHpiTextTypeType),
      (12, SaHpiCtrlStateTextType)]"

definition SaHpiCtrlRecTextType :: cMarshalType where
  "SaHpiCtrlRecTextType = eMtStruct SaHpiCtrlRecTextElements"

definition SaHpiCtrlRecOemConfigDataArray :: cMarshalType where
  "SaHpiCtrlRecOemConfigDataArray = eMtArray 10 1 SaHpiUint8Type"

definition SaHpiCtrlRecOemElements :: "(nat \<times> cMarshalType) list" where
  "SaHpiCtrlRecOemElements =
     [(0, SaHpiManufacturerIdType), (4, SaHpiCtrlRecOemConfigDataArray),
      (16, SaHpiCtrlStateOemType)]"

definition SaHpiCtrlRecOemType :: cMarshalType where
  "SaHpiCtrlRecOemType = eMtStruct SaHpiCtrlRecOemElements"

definition SaHpiCtrlRecUnionElements :: "(u64 \<times> cMarshalType) list" where
  "SaHpiCtrlRecUnionElements =
     [(SAHPI_CTRL_TYPE_DIGITAL, SaHpiCtrlRecDigitalType),
      (SAHPI_CTRL_TYPE_DISCRETE, SaHpiCtrlRecDiscreteType),
      (SAHPI_CTRL_TYPE_ANALOG, SaHpiCtrlRecAnalogType),
      (SAHPI_CTRL_TYPE_STREAM, SaHpiCtrlRecStreamType),
      (SAHPI_CTRL_TYPE_TEXT, SaHpiCtrlRecTextType), (SAHPI_CTRL_TYPE_OEM, SaHpiCtrlRecOemType)]"

definition SaHpiCtrlRecUnionType :: cMarshalType where
  "SaHpiCtrlRecUnionType = eMtUnion 2 SaHpiCtrlRecUnionElements"

definition SaHpiCtrlDefaultModeElements :: "(nat \<times> cMarshalType) list" where
  "SaHpiCtrlDefaultModeElements =
     [(0, SaHpiCtrlModeType), (4, SaHpiBoolType)]"

definition SaHpiCtrlDefaultModeType :: cMarshalType where
  "SaHpiCtrlDefaultModeType = eMtStruct SaHpiCtrlDefaultModeElements"

definition SaHpiCtrlRecElements :: "(nat \<times> cMarshalType) list" where
  "SaHpiCtrlRecElements =
     [(0, SaHpiCtrlNumType), (4, SaHpiCtrlOutputTypeType), (8, SaHpiCtrlTypeType),
      (12, SaHpiCtrlRecUnionType), (292, SaHpiCtrlDefaultModeType), (300, SaHpiBoolType),
      (304, SaHpiUint32Type)]"

definition SaHpiCtrlRecType :: cMarshalType where
  "SaHpiCtrlRecType = eMtStruct SaHpiCtrlRecElements"

definition SaHpiIdrFieldTElements :: "(nat \<times> cMarshalType) list" where
  "SaHpiIdrFieldTElements =
     [(0, SaHpiEntryIdType), (4, SaHpiEntryIdType), (8, SaHpiIdrFieldTypeType),
      (12, SaHpiBoolType), (16, SaHpiTextBufferType)]"

definition SaHpiIdrFieldType :: cMarshalType where
  "SaHpiIdrFieldType = eMtStruct SaHpiIdrFieldTElements"

definition SaHpiIdrAreaHeaderTElements :: "(nat \<times> cMarshalType) list" where
  "SaHpiIdrAreaHeaderTElements =
     [(0, SaHpiEntryIdType), (4, SaHpiIdrAreaTypeType), (8, SaHpiBoolType), (12, SaHpiUint32Type)]"

definition SaHpiIdrAreaHeaderType :: cMarshalType where
  "SaHpiIdrAreaHeaderType = eMtStruct SaHpiIdrAreaHeaderTElements"

definition SaHpiIdrInfoTElements :: "(nat \<times> cMarshalType) list" where
  "SaHpiIdrInfoTElements =
     [(0, SaHpiIdrIdType), (4, SaHpiUint32Type), (8, SaHpiBoolType), (12, SaHpiUint32Type)]"

definition SaHpiIdrInfoType :: cMarshalType where
  "SaHpiIdrInfoType = eMtStruct SaHpiIdrInfoTElements"

definition SaHpiInventoryRecElements :: "(nat \<times> cMarshalType) list" where
  "SaHpiInventoryRecElements =
     [(0, SaHpiUint32Type), (4, SaHpiBoolType), (8, SaHpiUint32Type)]"

definition SaHpiInventoryRecType :: cMarshalType where
  "SaHpiInventoryRecType = eMtStruct SaHpiInventoryRecElements"

definition SaHpiWatchdogElements :: "(nat \<times> cMarshalType) list" where
  "SaHpiWatchdogElements =
     [(0, SaHpiBoolType), (1, SaHpiBoolType), (4, SaHpiWatchdogTimerUseType),
      (8, SaHpiWatchdogActionType), (12, SaHpiWatchdogPretimerInterruptType),
      (16, SaHpiUint32Type), (20, SaHpiWatchdogExpFlagsType), (24, SaHpiUint32Type),
      (28, SaHpiUint32Type)]"

definition SaHpiWatchdogType :: cMarshalType where
  "SaHpiWatchdogType = eMtStruct SaHpiWatchdogElements"

definition SaHpiWatchdogRecElements :: "(nat \<times> cMarshalType) list" where
  "SaHpiWatchdogRecElements =
     [(0, SaHpiWatchdogNumType), (4, SaHpiUint32Type)]"

definition SaHpiWatchdogRecType :: cMarshalType where
  "SaHpiWatchdogRecType = eMtStruct SaHpiWatchdogRecElements"

definition SaHpiNameDataArray :: cMarshalType where
  "SaHpiNameDataArray = eMtArray 256 1 SaHpiUint8Type"

definition SaHpiNameElements :: "(nat \<times> cMarshalType) list" where
  "SaHpiNameElements =
     [(0, SaHpiUint16Type), (2, SaHpiNameDataArray)]"

definition SaHpiNameType :: cMarshalType where
  "SaHpiNameType = eMtStruct SaHpiNameElements"

definition SaHpiConditionTypeElements :: "(nat \<times> cMarshalType) list" where
  "SaHpiConditionTypeElements =
     [(0, SaHpiStatusCondTypeType), (4, SaHpiEntityPathType), (132, SaHpiDomainIdType),
      (136, SaHpiResourceIdType), (140, SaHpiSensorNumType), (144, SaHpiEventStateType),
      (146, SaHpiNameType), (404, SaHpiManufacturerIdType), (408, SaHpiTextBufferType)]"

definition SaHpiConditionType :: cMarshalType where
  "SaHpiConditionType = eMtStruct SaHpiConditionTypeElements"

definition SaHpiAnnouncementTypeElements :: "(nat \<times> cMarshalType) list" where
  "SaHpiAnnouncementTypeElements =
     [(0, SaHpiEntryIdType), (8, SaHpiTimeType), (16, SaHpiBoolType), (20, SaHpiSeverityType),
      (24, SaHpiBoolType), (28, SaHpiConditionType)]"

definition SaHpiAnnouncementType :: cMarshalType where
  "SaHpiAnnouncementType = eMtStruct SaHpiAnnouncementTypeElements"

definition SaHpiAnnunciatorRecElements :: "(nat \<times> cMarshalType) list" where
  "SaHpiAnnunciatorRecElements =
     [(0, SaHpiAnnunciatorNumType), (4, SaHpiAnnunciatorTypeType), (8, SaHpiBoolType),
      (12, SaHpiUint32Type), (16, SaHpiUint32Type)]"

definition SaHpiAnnunciatorRecType :: cMarshalType where
  "SaHpiAnnunciatorRecType = eMtStruct SaHpiAnnunciatorRecElements"

definition SaHpiDimiInfoElements :: "(nat \<times> cMarshalType) list" where
  "SaHpiDimiInfoElements =
     [(0, SaHpiDimiTotalTestsType), (4, SaHpiUint32Type)]"

definition SaHpiDimiInfoType :: cMarshalType where
  "SaHpiDimiInfoType = eMtStruct SaHpiDimiInfoElements"

definition SaHpiDimiTestParameterValueUnionTypeElements :: "(u64 \<times> cMarshalType) list" where
  "SaHpiDimiTestParameterValueUnionTypeElements =
     [(SAHPI_DIMITEST_PARAM_TYPE_INT32, SaHpiInt32Type),
      (SAHPI_DIMITEST_PARAM_TYPE_FLOAT64, SaHpiFloat64Type),
      (SAHPI_DIMITEST_PARAM_TYPE_BOOLEAN, SaHpiFloat64Type),
      (SAHPI_DIMITEST_PARAM_TYPE_TEXT, SaHpiFloat64Type)]"

definition SaHpiDimiTestParameterValueUnionType :: cMarshalType where
  "SaHpiDimiTestParameterValueUnionType = eMtUnion 2 SaHpiDimiTestParameterValueUnionTypeElements"

definition SaHpiDimiTestParamValue2TypeElements :: "(u64 \<times> cMarshalType) list" where
  "SaHpiDimiTestParamValue2TypeElements =
     [(SAHPI_DIMITEST_PARAM_TYPE_INT32, SaHpiInt32Type),
      (SAHPI_DIMITEST_PARAM_TYPE_FLOAT64, SaHpiFloat64Type),
      (SAHPI_DIMITEST_PARAM_TYPE_BOOLEAN, SaHpiBoolType),
      (SAHPI_DIMITEST_PARAM_TYPE_TEXT, SaHpiTextBufferType)]"

definition SaHpiDimiTestParamValue2Type :: cMarshalType where
  "SaHpiDimiTestParamValue2Type = eMtUnion 2 SaHpiDimiTestParamValue2TypeElements"

definition SaHpiDimiTestParamValue1TypeElements :: "(u64 \<times> cMarshalType) list" where
  "SaHpiDimiTestParamValue1TypeElements =
     [(SAHPI_DIMITEST_PARAM_TYPE_INT32, SaHpiInt32Type),
      (SAHPI_DIMITEST_PARAM_TYPE_FLOAT64, SaHpiFloat64Type),
      (SAHPI_DIMITEST_PARAM_TYPE_BOOLEAN, SaHpiBoolType),
      (SAHPI_DIMITEST_PARAM_TYPE_TEXT, SaHpiTextBufferType)]"

definition SaHpiDimiTestParamValue1Type :: cMarshalType where
  "SaHpiDimiTestParamValue1Type = eMtUnion 1 SaHpiDimiTestParamValue1TypeElements"

definition ParamNameArray :: cMarshalType where
  "ParamNameArray = eMtArray 20 1 SaHpiUint8Type"

definition SaHpiDimiTestParamsDefinitionTypeElements :: "(nat \<times> cMarshalType) list" where
  "SaHpiDimiTestParamsDefinitionTypeElements =
     [(0, ParamNameArray), (20, SaHpiTextBufferType), (284, SaHpiDimiTestParamTypeType),
      (288, SaHpiDimiTestParameterValueUnionType), (296, SaHpiDimiTestParameterValueUnionType),
      (304, SaHpiDimiTestParamValue2Type)]"

definition SaHpiDimiTestParamsDefinitionType :: cMarshalType where
  "SaHpiDimiTestParamsDefinitionType = eMtStruct SaHpiDimiTestParamsDefinitionTypeElements"

definition SaHpiDimiTestAffectedEntityTypeElements :: "(nat \<times> cMarshalType) list" where
  "SaHpiDimiTestAffectedEntityTypeElements =
     [(0, SaHpiEntityPathType), (128, SaHpiDimiTestServiceImpactType)]"

definition SaHpiDimiTestAffectedEntityType :: cMarshalType where
  "SaHpiDimiTestAffectedEntityType = eMtStruct SaHpiDimiTestAffectedEntityTypeElements"

definition EntitiesImpactedArray :: cMarshalType where
  "EntitiesImpactedArray = eMtArray 5 132 SaHpiDimiTestAffectedEntityType"

definition TestParametersArray :: cMarshalType where
  "TestParametersArray = eMtArray 10 568 SaHpiDimiTestParamsDefinitionType"

definition SaHpiDimiTestTypeElements :: "(nat \<times> cMarshalType) list" where
  "SaHpiDimiTestTypeElements =
     [(0, SaHpiTextBufferType), (264, SaHpiDimiTestServiceImpactType),
      (268, EntitiesImpactedArray), (928, SaHpiBoolType), (932, SaHpiTextBufferType),
      (1200, SaHpiTimeType), (1208, SaHpiDimiTestCapabilityType), (1216, TestParametersArray)]"

definition SaHpiDimiTestType :: cMarshalType where
  "SaHpiDimiTestType = eMtStruct SaHpiDimiTestTypeElements"

definition SaHpiDimiTestResultsTypeElements :: "(nat \<times> cMarshalType) list" where
  "SaHpiDimiTestResultsTypeElements =
     [(0, SaHpiTimeType), (8, SaHpiTimeoutType), (16, SaHpiDimiTestRunStatusType),
      (20, SaHpiDimiTestErrCodeType), (24, SaHpiTextBufferType), (288, SaHpiBoolType)]"

definition SaHpiDimiTestResultsType :: cMarshalType where
  "SaHpiDimiTestResultsType = eMtStruct SaHpiDimiTestResultsTypeElements"

definition SaHpiDimiTestVariableParamsTypeElements :: "(nat \<times> cMarshalType) list" where
  "SaHpiDimiTestVariableParamsTypeElements =
     [(0, ParamNameArray), (20, SaHpiDimiTestParamTypeType), (24, SaHpiDimiTestParamValue1Type)]"

definition SaHpiDimiTestVariableParamsType :: cMarshalType where
  "SaHpiDimiTestVariableParamsType = eMtStruct SaHpiDimiTestVariableParamsTypeElements"

definition ParamsListArray :: cMarshalType where
  "ParamsListArray = eMtVarArray 0 288 SaHpiDimiTestVariableParamsType"

definition SaHpiDimiTestVariableParamsListTypeElements :: "(nat \<times> cMarshalType) list" where
  "SaHpiDimiTestVariableParamsListTypeElements =
     [(0, SaHpiUint8Type), (8, ParamsListArray)]"

definition SaHpiDimiTestVariableParamsListType :: cMarshalType where
  "SaHpiDimiTestVariableParamsListType = eMtStruct SaHpiDimiTestVariableParamsListTypeElements"

definition SaHpiDimiRecElements :: "(nat \<times> cMarshalType) list" where
  "SaHpiDimiRecElements =
     [(0, SaHpiDimiNumType), (4, SaHpiUint32Type)]"

definition SaHpiDimiRecType :: cMarshalType where
  "SaHpiDimiRecType = eMtStruct SaHpiDimiRecElements"

definition SaHpiFumiSafDefinedSpecInfoElements :: "(nat \<times> cMarshalType) list" where
  "SaHpiFumiSafDefinedSpecInfoElements =
     [(0, SaHpiFumiSafDefinedSpecIdType), (4, SaHpiUint32Type)]"

definition SaHpiFumiSafDefinedSpecInfoType :: cMarshalType where
  "SaHpiFumiSafDefinedSpecInfoType = eMtStruct SaHpiFumiSafDefinedSpecInfoElements"

definition SaHpiFumiOemDefinedSpecInfoBodyArray :: cMarshalType where
  "SaHpiFumiOemDefinedSpecInfoBodyArray = eMtArray 255 1 SaHpiUint8Type"

definition SaHpiFumiOemDefinedSpecInfoElements :: "(nat \<times> cMarshalType) list" where
  "SaHpiFumiOemDefinedSpecInfoElements =
     [(0, SaHpiManufacturerIdType), (4, SaHpiUint8Type), (5, SaHpiFumiOemDefinedSpecInfoBodyArray)]"

definition SaHpiFumiOemDefinedSpecInfoType :: cMarshalType where
  "SaHpiFumiOemDefinedSpecInfoType = eMtStruct SaHpiFumiOemDefinedSpecInfoElements"

definition SaHpiFumiSpecInfoTypeUnionElements :: "(u64 \<times> cMarshalType) list" where
  "SaHpiFumiSpecInfoTypeUnionElements =
     [(SAHPI_FUMI_SPEC_INFO_NONE, SaHpiVoidType),
      (SAHPI_FUMI_SPEC_INFO_SAF_DEFINED, SaHpiFumiSafDefinedSpecInfoType),
      (SAHPI_FUMI_SPEC_INFO_OEM_DEFINED, SaHpiFumiOemDefinedSpecInfoType)]"

definition SaHpiFumiSpecInfoTypeUnionType :: cMarshalType where
  "SaHpiFumiSpecInfoTypeUnionType = eMtUnion 0 SaHpiFumiSpecInfoTypeUnionElements"

definition SaHpiFumiSpecInfoTypeElements :: "(nat \<times> cMarshalType) list" where
  "SaHpiFumiSpecInfoTypeElements =
     [(0, SaHpiFumiSpecInfoTypeType), (4, SaHpiFumiSpecInfoTypeUnionType)]"

definition SaHpiFumiSpecInfoType :: cMarshalType where
  "SaHpiFumiSpecInfoType = eMtStruct SaHpiFumiSpecInfoTypeElements"

definition SaHpiFumiImpactedEntityTypeElements :: "(nat \<times> cMarshalType) list" where
  "SaHpiFumiImpactedEntityTypeElements =
     [(0, SaHpiEntityPathType), (128, SaHpiFumiServiceImpactType)]"

definition SaHpiFumiImpactedEntityType :: cMarshalType where
  "SaHpiFumiImpactedEntityType = eMtStruct SaHpiFumiImpactedEntityTypeElements"

definition SaHpiFumiServiceImpactDataImpactedEntitiesArray :: cMarshalType where
  "SaHpiFumiServiceImpactDataImpactedEntitiesArray = eMtArray 5 132 SaHpiFumiImpactedEntityType"

definition SaHpiFumiServiceImpactDataElements :: "(nat \<times> cMarshalType) list" where
  "SaHpiFumiServiceImpactDataElements =
     [(0, SaHpiUint32Type), (4, SaHpiFumiServiceImpactDataImpactedEntitiesArray)]"

definition SaHpiFumiServiceImpactDataType :: cMarshalType where
  "SaHpiFumiServiceImpactDataType = eMtStruct SaHpiFumiServiceImpactDataElements"

definition SaHpiFumiSourceInfoTypeElements :: "(nat \<times> cMarshalType) list" where
  "SaHpiFumiSourceInfoTypeElements =
     [(0, SaHpiTextBufferType), (264, SaHpiFumiSourceStatusType), (268, SaHpiTextBufferType),
      (532, SaHpiTextBufferType), (796, SaHpiTextBufferType), (1060, SaHpiUint32Type),
      (1064, SaHpiUint32Type), (1068, SaHpiUint32Type)]"

definition SaHpiFumiSourceInfoType :: cMarshalType where
  "SaHpiFumiSourceInfoType = eMtStruct SaHpiFumiSourceInfoTypeElements"

definition SaHpiFumiBankInfoTypeElements :: "(nat \<times> cMarshalType) list" where
  "SaHpiFumiBankInfoTypeElements =
     [(0, SaHpiUint8Type), (4, SaHpiUint32Type), (8, SaHpiUint32Type),
      (12, SaHpiFumiBankStateType), (16, SaHpiTextBufferType), (280, SaHpiTextBufferType),
      (544, SaHpiTextBufferType), (808, SaHpiUint32Type), (812, SaHpiUint32Type),
      (816, SaHpiUint32Type)]"

definition SaHpiFumiBankInfoType :: cMarshalType where
  "SaHpiFumiBankInfoType = eMtStruct SaHpiFumiBankInfoTypeElements"

definition SaHpiFumiFirmwareInstanceInfoTypeElements :: "(nat \<times> cMarshalType) list" where
  "SaHpiFumiFirmwareInstanceInfoTypeElements =
     [(0, SaHpiBoolType), (4, SaHpiTextBufferType), (268, SaHpiTextBufferType),
      (532, SaHpiTextBufferType), (796, SaHpiUint32Type), (800, SaHpiUint32Type),
      (804, SaHpiUint32Type)]"

definition SaHpiFumiFirmwareInstanceInfoType :: cMarshalType where
  "SaHpiFumiFirmwareInstanceInfoType = eMtStruct SaHpiFumiFirmwareInstanceInfoTypeElements"

definition SaHpiFumiLogicalBankInfoTypeElements :: "(nat \<times> cMarshalType) list" where
  "SaHpiFumiLogicalBankInfoTypeElements =
     [(0, SaHpiUint8Type), (4, SaHpiFumiLogicalBankStateFlagsType),
      (8, SaHpiFumiFirmwareInstanceInfoType), (816, SaHpiFumiFirmwareInstanceInfoType)]"

definition SaHpiFumiLogicalBankInfoType :: cMarshalType where
  "SaHpiFumiLogicalBankInfoType = eMtStruct SaHpiFumiLogicalBankInfoTypeElements"

definition SaHpiFumiComponentInfoTypeElements :: "(nat \<times> cMarshalType) list" where
  "SaHpiFumiComponentInfoTypeElements =
     [(0, SaHpiEntryIdType), (4, SaHpiUint32Type), (8, SaHpiFumiFirmwareInstanceInfoType),
      (816, SaHpiUint32Type)]"

definition SaHpiFumiComponentInfoType :: cMarshalType where
  "SaHpiFumiComponentInfoType = eMtStruct SaHpiFumiComponentInfoTypeElements"

definition SaHpiFumiLogicalComponentInfoTypeElements :: "(nat \<times> cMarshalType) list" where
  "SaHpiFumiLogicalComponentInfoTypeElements =
     [(0, SaHpiEntryIdType), (4, SaHpiUint32Type), (8, SaHpiFumiFirmwareInstanceInfoType),
      (816, SaHpiFumiFirmwareInstanceInfoType), (1624, SaHpiUint32Type)]"

definition SaHpiFumiLogicalComponentInfoType :: cMarshalType where
  "SaHpiFumiLogicalComponentInfoType = eMtStruct SaHpiFumiLogicalComponentInfoTypeElements"

definition SaHpiFumiRecElements :: "(nat \<times> cMarshalType) list" where
  "SaHpiFumiRecElements =
     [(0, SaHpiFumiNumType), (4, SaHpiFumiProtocolType), (8, SaHpiFumiCapabilityType),
      (12, SaHpiUint8Type), (16, SaHpiUint32Type)]"

definition SaHpiFumiRecType :: cMarshalType where
  "SaHpiFumiRecType = eMtStruct SaHpiFumiRecElements"

definition SaHpiRdrTypeUnionTypeElements :: "(u64 \<times> cMarshalType) list" where
  "SaHpiRdrTypeUnionTypeElements =
     [(SAHPI_NO_RECORD, SaHpiVoidType), (SAHPI_CTRL_RDR, SaHpiCtrlRecType),
      (SAHPI_SENSOR_RDR, SaHpiSensorRecType), (SAHPI_INVENTORY_RDR, SaHpiInventoryRecType),
      (SAHPI_WATCHDOG_RDR, SaHpiWatchdogRecType),
      (SAHPI_ANNUNCIATOR_RDR, SaHpiAnnunciatorRecType), (SAHPI_DIMI_RDR, SaHpiDimiRecType),
      (SAHPI_FUMI_RDR, SaHpiFumiRecType)]"

definition SaHpiRdrTypeUnionType :: cMarshalType where
  "SaHpiRdrTypeUnionType = eMtUnion 1 SaHpiRdrTypeUnionTypeElements"

definition SaHpiRdrElements :: "(nat \<times> cMarshalType) list" where
  "SaHpiRdrElements =
     [(0, SaHpiEntryIdType), (4, SaHpiRdrTypeType), (8, SaHpiEntityPathType),
      (136, SaHpiBoolType), (144, SaHpiRdrTypeUnionType), (456, SaHpiTextBufferType)]"

definition SaHpiRdrType :: cMarshalType where
  "SaHpiRdrType = eMtStruct SaHpiRdrElements"

definition SaHpiResourceEventTypeElements :: "(nat \<times> cMarshalType) list" where
  "SaHpiResourceEventTypeElements =
     [(0, SaHpiResourceEventTypeType)]"

definition SaHpiResourceEventType :: cMarshalType where
  "SaHpiResourceEventType = eMtStruct SaHpiResourceEventTypeElements"

definition SaHpiDomainEventTypeElements :: "(nat \<times> cMarshalType) list" where
  "SaHpiDomainEventTypeElements =
     [(0, SaHpiDomainEventTypeType), (4, SaHpiDomainIdType)]"

definition SaHpiDomainEventType :: cMarshalType where
  "SaHpiDomainEventType = eMtStruct SaHpiDomainEventTypeElements"

definition SaHpiSensorEventElements :: "(nat \<times> cMarshalType) list" where
  "SaHpiSensorEventElements =
     [(0, SaHpiSensorNumType), (4, SaHpiSensorTypeType), (8, SaHpiEventCategoryType),
      (9, SaHpiBoolType), (10, SaHpiEventStateType), (12, SaHpiSensorOptionalDataType),
      (16, SaHpiSensorReadingType), (56, SaHpiSensorReadingType), (96, SaHpiEventStateType),
      (98, SaHpiEventStateType), (100, SaHpiUint32Type), (104, SaHpiUint32Type)]"

definition SaHpiSensorEventType :: cMarshalType where
  "SaHpiSensorEventType = eMtStruct SaHpiSensorEventElements"

definition SaHpiSensorEnableChangeEventTElements :: "(nat \<times> cMarshalType) list" where
  "SaHpiSensorEnableChangeEventTElements =
     [(0, SaHpiSensorNumType), (4, SaHpiSensorTypeType), (8, SaHpiEventCategoryType),
      (9, SaHpiBoolType), (10, SaHpiBoolType), (12, SaHpiEventStateType),
      (14, SaHpiEventStateType), (16, SaHpiSensorEnableOptDataType), (18, SaHpiEventStateType)]"

definition SaHpiSensorEnableChangeEventType :: cMarshalType where
  "SaHpiSensorEnableChangeEventType = eMtStruct SaHpiSensorEnableChangeEventTElements"

definition SaHpiHotSwapEventElements :: "(nat \<times> cMarshalType) list" where
  "SaHpiHotSwapEventElements =
     [(0, SaHpiHsStateType), (4, SaHpiHsStateType), (8, SaHpiHsCauseOfStateChangeType)]"

definition SaHpiHotSwapEventType :: cMarshalType where
  "SaHpiHotSwapEventType = eMtStruct SaHpiHotSwapEventElements"

definition SaHpiWatchdogEventElements :: "(nat \<times> cMarshalType) list" where
  "SaHpiWatchdogEventElements =
     [(0, SaHpiWatchdogNumType), (4, SaHpiWatchdogActionEventType),
      (8, SaHpiWatchdogPretimerInterruptType), (12, SaHpiWatchdogTimerUseType)]"

definition SaHpiWatchdogEventType :: cMarshalType where
  "SaHpiWatchdogEventType = eMtStruct SaHpiWatchdogEventElements"

definition SaHpiHpiSwEventTypeElements :: "(nat \<times> cMarshalType) list" where
  "SaHpiHpiSwEventTypeElements =
     [(0, SaHpiManufacturerIdType), (4, SaHpiSwEventTypeType), (8, SaHpiTextBufferType)]"

definition SaHpiHpiSwEventType :: cMarshalType where
  "SaHpiHpiSwEventType = eMtStruct SaHpiHpiSwEventTypeElements"

definition SaHpiOemEventTypeElements :: "(nat \<times> cMarshalType) list" where
  "SaHpiOemEventTypeElements =
     [(0, SaHpiManufacturerIdType), (4, SaHpiTextBufferType)]"

definition SaHpiOemEventType :: cMarshalType where
  "SaHpiOemEventType = eMtStruct SaHpiOemEventTypeElements"

definition SaHpiUserEventElements :: "(nat \<times> cMarshalType) list" where
  "SaHpiUserEventElements =
     [(0, SaHpiTextBufferType)]"

definition SaHpiUserEventType :: cMarshalType where
  "SaHpiUserEventType = eMtStruct SaHpiUserEventElements"

definition SaHpiDimiEventElements :: "(nat \<times> cMarshalType) list" where
  "SaHpiDimiEventElements =
     [(0, SaHpiDimiNumType), (4, SaHpiDimiTestNumType), (8, SaHpiDimiTestRunStatusType),
      (12, SaHpiDimiTestPercentCompletedType)]"

definition SaHpiDimiEventType :: cMarshalType where
  "SaHpiDimiEventType = eMtStruct SaHpiDimiEventElements"

definition SaHpiDimiUpdateEventElements :: "(nat \<times> cMarshalType) list" where
  "SaHpiDimiUpdateEventElements =
     [(0, SaHpiDimiNumType)]"

definition SaHpiDimiUpdateEventType :: cMarshalType where
  "SaHpiDimiUpdateEventType = eMtStruct SaHpiDimiUpdateEventElements"

definition SaHpiFumiEventElements :: "(nat \<times> cMarshalType) list" where
  "SaHpiFumiEventElements =
     [(0, SaHpiFumiNumType), (4, SaHpiUint8Type), (8, SaHpiFumiUpgradeStatusType)]"

definition SaHpiFumiEventType :: cMarshalType where
  "SaHpiFumiEventType = eMtStruct SaHpiFumiEventElements"

definition SaHpiEventUnionElements :: "(u64 \<times> cMarshalType) list" where
  "SaHpiEventUnionElements =
     [(SAHPI_ET_RESOURCE, SaHpiResourceEventType), (SAHPI_ET_DOMAIN, SaHpiDomainEventType),
      (SAHPI_ET_SENSOR, SaHpiSensorEventType),
      (SAHPI_ET_SENSOR_ENABLE_CHANGE, SaHpiSensorEnableChangeEventType),
      (SAHPI_ET_HOTSWAP, SaHpiHotSwapEventType), (SAHPI_ET_WATCHDOG, SaHpiWatchdogEventType),
      (SAHPI_ET_HPI_SW, SaHpiHpiSwEventType), (SAHPI_ET_OEM, SaHpiOemEventType),
      (SAHPI_ET_USER, SaHpiUserEventType), (SAHPI_ET_DIMI, SaHpiDimiEventType),
      (SAHPI_ET_DIMI_UPDATE, SaHpiDimiUpdateEventType), (SAHPI_ET_FUMI, SaHpiFumiEventType)]"

definition SaHpiEventUnionType :: cMarshalType where
  "SaHpiEventUnionType = eMtUnion 1 SaHpiEventUnionElements"

definition SaHpiEventElements :: "(nat \<times> cMarshalType) list" where
  "SaHpiEventElements =
     [(0, SaHpiResourceIdType), (4, SaHpiEventTypeType), (8, SaHpiTimeType),
      (16, SaHpiSeverityType), (24, SaHpiEventUnionType)]"

definition SaHpiEventType :: cMarshalType where
  "SaHpiEventType = eMtStruct SaHpiEventElements"

definition GuidDataArray :: cMarshalType where
  "GuidDataArray = eMtArray 16 1 SaHpiUint8Type"

definition SaHpiResourceInfoElements :: "(nat \<times> cMarshalType) list" where
  "SaHpiResourceInfoElements =
     [(0, SaHpiUint8Type), (1, SaHpiUint8Type), (2, SaHpiUint8Type), (4, SaHpiManufacturerIdType),
      (8, SaHpiUint16Type), (10, SaHpiUint8Type), (11, SaHpiUint8Type), (12, SaHpiUint8Type),
      (13, GuidDataArray)]"

definition SaHpiResourceInfoType :: cMarshalType where
  "SaHpiResourceInfoType = eMtStruct SaHpiResourceInfoElements"

definition SaHpiRptEntryElements :: "(nat \<times> cMarshalType) list" where
  "SaHpiRptEntryElements =
     [(0, SaHpiEntryIdType), (4, SaHpiResourceIdType), (8, SaHpiResourceInfoType),
      (40, SaHpiEntityPathType), (168, SaHpiCapabilitiesType), (172, SaHpiHsCapabilitiesType),
      (176, SaHpiSeverityType), (180, SaHpiBoolType), (184, SaHpiTextBufferType)]"

definition SaHpiRptEntryType :: cMarshalType where
  "SaHpiRptEntryType = eMtStruct SaHpiRptEntryElements"

definition SaHpiLoadIdElements :: "(nat \<times> cMarshalType) list" where
  "SaHpiLoadIdElements =
     [(0, SaHpiLoadNumberType), (4, SaHpiTextBufferType)]"

definition SaHpiLoadIdType :: cMarshalType where
  "SaHpiLoadIdType = eMtStruct SaHpiLoadIdElements"

definition SaHpiDomainInfoTElements :: "(nat \<times> cMarshalType) list" where
  "SaHpiDomainInfoTElements =
     [(0, SaHpiDomainIdType), (4, SaHpiDomainCapabilitiesType), (8, SaHpiBoolType),
      (12, SaHpiTextBufferType), (276, SaHpiUint32Type), (280, SaHpiTimeType),
      (288, SaHpiUint32Type), (296, SaHpiTimeType), (304, SaHpiUint32Type), (312, SaHpiTimeType),
      (320, SaHpiUint32Type), (324, SaHpiUint32Type), (328, SaHpiUint32Type),
      (332, SaHpiUint32Type), (336, SaHpiUint32Type), (340, SaHpiBoolType), (341, GuidDataArray)]"

definition SaHpiDomainInfoType :: cMarshalType where
  "SaHpiDomainInfoType = eMtStruct SaHpiDomainInfoTElements"

definition SaHpiDrtEntryTElements :: "(nat \<times> cMarshalType) list" where
  "SaHpiDrtEntryTElements =
     [(0, SaHpiEntryIdType), (4, SaHpiDomainIdType), (8, SaHpiBoolType)]"

definition SaHpiDrtEntryType :: cMarshalType where
  "SaHpiDrtEntryType = eMtStruct SaHpiDrtEntryTElements"

definition SaHpiAlarmTElements :: "(nat \<times> cMarshalType) list" where
  "SaHpiAlarmTElements =
     [(0, SaHpiAlarmIdType), (8, SaHpiTimeType), (16, SaHpiSeverityType), (20, SaHpiBoolType),
      (24, SaHpiConditionType)]"

definition SaHpiAlarmType :: cMarshalType where
  "SaHpiAlarmType = eMtStruct SaHpiAlarmTElements"

definition SaHpiEventLogInfoTElements :: "(nat \<times> cMarshalType) list" where
  "SaHpiEventLogInfoTElements =
     [(0, SaHpiUint32Type), (4, SaHpiUint32Type), (8, SaHpiUint32Type), (16, SaHpiTimeType),
      (24, SaHpiTimeType), (32, SaHpiBoolType), (33, SaHpiBoolType), (34, SaHpiBoolType),
      (36, SaHpiSelOverflowActionType)]"

definition SaHpiEventLogInfoType :: cMarshalType where
  "SaHpiEventLogInfoType = eMtStruct SaHpiEventLogInfoTElements"

definition SaHpiEventLogEntryElements :: "(nat \<times> cMarshalType) list" where
  "SaHpiEventLogEntryElements =
     [(0, SaHpiEventLogEntryIdType), (8, SaHpiTimeType), (16, SaHpiEventType)]"

definition SaHpiEventLogEntryType :: cMarshalType where
  "SaHpiEventLogEntryType = eMtStruct SaHpiEventLogEntryElements"

definition plugin_nameBufferArray :: cMarshalType where
  "plugin_nameBufferArray = eMtArray 32 1 SaHpiUint8Type"

definition oHpiHandlerInfoElements :: "(nat \<times> cMarshalType) list" where
  "oHpiHandlerInfoElements =
     [(0, oHpiHandlerIdType), (4, plugin_nameBufferArray), (36, SaHpiEntityPathType),
      (164, SaHpiInt32Type)]"

definition oHpiHandlerInfoType :: cMarshalType where
  "oHpiHandlerInfoType = eMtStruct oHpiHandlerInfoElements"

definition GlobalParamPathArray :: cMarshalType where
  "GlobalParamPathArray = eMtArray 2048 1 SaHpiUint8Type"

definition GlobalParamVarPathArray :: cMarshalType where
  "GlobalParamVarPathArray = eMtArray 2048 1 SaHpiUint8Type"

definition GlobalParamConfArray :: cMarshalType where
  "GlobalParamConfArray = eMtArray 2048 1 SaHpiUint8Type"

definition oHpiGlobalParamUnionTypeElements :: "(u64 \<times> cMarshalType) list" where
  "oHpiGlobalParamUnionTypeElements =
     [(OHPI_ON_EP, SaHpiEntityPathType), (OHPI_LOG_ON_SEV, SaHpiSeverityType),
      (OHPI_EVT_QUEUE_LIMIT, SaHpiUint32Type), (OHPI_DEL_SIZE_LIMIT, SaHpiUint32Type),
      (OHPI_DEL_SAVE, SaHpiBoolType), (OHPI_DAT_SIZE_LIMIT, SaHpiUint32Type),
      (OHPI_DAT_USER_LIMIT, SaHpiUint32Type), (OHPI_DAT_SAVE, SaHpiBoolType),
      (OHPI_PATH, GlobalParamPathArray), (OHPI_VARPATH, GlobalParamVarPathArray),
      (OHPI_CONF, GlobalParamConfArray)]"

definition oHpiGlobalParamUnionType :: cMarshalType where
  "oHpiGlobalParamUnionType = eMtUnion 0 oHpiGlobalParamUnionTypeElements"

definition oHpiGlobalParamTypeElements :: "(nat \<times> cMarshalType) list" where
  "oHpiGlobalParamTypeElements =
     [(0, oHpiGlobalParamTypeType), (4, oHpiGlobalParamUnionType)]"

definition oHpiGlobalParamType :: cMarshalType where
  "oHpiGlobalParamType = eMtStruct oHpiGlobalParamTypeElements"

end
