(* ===== verification/MarshalProps.thy ===== *)
theory MarshalProps
  imports Marshal
begin

text \<open>
  What marshaling promises. \<open>val\<close> is the value a C object has independently of the byte order and
  of the addresses: \<open>rep be t m a v\<close> says that on a host with byte order \<open>be\<close> the object of type
  \<open>t\<close> at address \<open>a\<close> of memory \<open>m\<close> has the value \<open>v\<close>. A description with a sound layout
  (\<open>layout_ok\<close>) marshals the object into the encoding of its value, and demarshals that encoding on a host
  of any byte order into an object with the same value.
\<close>

section \<open>Layouts\<close>

text \<open>The bytes an object takes at its address.\<close>

lemma size_field: "(off, e) \<in> set fs \<Longrightarrow> size e < Suc (size_list (size_prod (\<lambda>_. 0) size) fs)"
  by (induction fs) auto

function extent :: "cMarshalType \<Rightarrow> nat" where
  "extent t =
     (case t of
        eMtArray n esz e \<Rightarrow> n * esz
      | eMtVarArray _ _ _ \<Rightarrow> ptr_size
      | eMtStruct fs \<Rightarrow> foldr max (map (\<lambda>p. fst p + extent (snd p)) fs) 0
      | eMtUnion _ us \<Rightarrow> foldr max (map (\<lambda>p. extent (snd p)) us) 0
      | _ \<Rightarrow> simple_sizeof t)"
  by pat_completeness auto

termination
  by (relation "measure size") (auto dest: size_field)

declare extent.simps [simp del]

fun is_int :: "cMarshalType \<Rightarrow> bool" where
  "is_int eMtVoid = False" | "is_int eMtFloat32 = False" | "is_int eMtFloat64 = False"
| "is_int t = IsSimpleType t"

text \<open>
  Descriptions that \<open>Demarshal\<close> can handle: parts do not overlap and stand in the order of their
  offsets; the counter of an array and the modifier of a union are integers that come before it.
\<close>

function layout_ok :: "cMarshalType \<Rightarrow> bool"
  and fields_ok :: "(nat \<times> cMarshalType) list \<Rightarrow> nat \<Rightarrow> nat \<Rightarrow> (nat \<times> cMarshalType) list \<Rightarrow> bool"
where
  "layout_ok t =
     (IsSimpleType t \<or>
      (case t of
         eMtArray n esz e \<Rightarrow> layout_ok e \<and> extent e \<le> esz
       | eMtStruct fs \<Rightarrow> fields_ok fs 0 0 fs
       | _ \<Rightarrow> False))"
| "fields_ok all i lo [] = True"
| "fields_ok all i lo ((off, e) # rest) =
     (lo \<le> off \<and>
      (case e of
         eMtUnion k us \<Rightarrow> k < i \<and> is_int (snd (all ! k)) \<and> list_all (\<lambda>p. layout_ok (snd p)) us
       | eMtVarArray k esz e2 \<Rightarrow> k < i \<and> is_int (snd (all ! k)) \<and> layout_ok e2 \<and> extent e2 \<le> esz
       | _ \<Rightarrow> layout_ok e) \<and>
      fields_ok all (Suc i) (off + extent e) rest)"
  by pat_completeness auto

termination
  by (relation "measure (\<lambda>x. case x of Inl t \<Rightarrow> size t
        | Inr (_, _, _, fs) \<Rightarrow> size_list (size_prod (\<lambda>_. 0) size) fs)")
    (auto dest: size_field)

declare layout_ok.simps [simp del] fields_ok.simps [simp del]

section \<open>Values\<close>

text \<open>The bytes of a simple value in little endian order; parts; parts behind a pointer, with their size.\<close>

datatype val = VB "u8 list" | VS "val list" | VP nat "val list"

primrec encode :: "bool \<Rightarrow> val \<Rightarrow> u8 list" where
  "encode be (VB bs) = order be bs"
| "encode be (VS vs) = concat (map (encode be) vs)"
| "encode be (VP _ vs) = concat (map (encode be) vs)"

text \<open>The heap a value takes.\<close>

primrec alloc :: "val \<Rightarrow> nat" where
  "alloc (VB bs) = 0"
| "alloc (VS vs) = sum_list (map alloc vs)"
| "alloc (VP n vs) = length vs * n + sum_list (map alloc vs)"

text \<open>The integer a field of a struct has, given the values of the fields before.\<close>

definition field_int :: "(nat \<times> cMarshalType) list \<Rightarrow> val list \<Rightarrow> nat \<Rightarrow> u64" where
  "field_int all prefix k =
     (case prefix ! k of VB bs \<Rightarrow> to_size_t (snd (all ! k)) (le_nat bs) | _ \<Rightarrow> SIZE_MAX)"

fun rep_loop :: "(nat \<Rightarrow> val \<Rightarrow> bool) \<Rightarrow> nat \<Rightarrow> nat \<Rightarrow> val list \<Rightarrow> bool" where
  "rep_loop f esz a [] = True"
| "rep_loop f esz a (v # vs) = (f a v \<and> rep_loop f esz (a + esz) vs)"

function rep :: "bool \<Rightarrow> cMarshalType \<Rightarrow> cmem \<Rightarrow> nat \<Rightarrow> val \<Rightarrow> bool"
  and rep_fields :: "bool \<Rightarrow> (nat \<times> cMarshalType) list \<Rightarrow> val list \<Rightarrow> (nat \<times> cMarshalType) list \<Rightarrow> cmem \<Rightarrow> nat \<Rightarrow> val list \<Rightarrow> bool"
where
  "rep be t m a v =
     (if IsSimpleType t then v = VB (order be (bytes_at m a (simple_sizeof t)))
      else case (t, v) of
             (eMtArray n esz e, VS vs) \<Rightarrow> length vs = n \<and> rep_loop (rep be e m) esz a vs
           | (eMtStruct fs, VS vs) \<Rightarrow> rep_fields be fs [] fs m a vs
           | _ \<Rightarrow> False)"
| "rep_fields be all prefix [] m a vs = (vs = [])"
| "rep_fields be all prefix ((off, e) # rest) m a vs =
     (case vs of
        [] \<Rightarrow> False
      | v # vs \<Rightarrow>
          (case e of
             eMtUnion k us \<Rightarrow>
               (case GetUnionElement us (field_int all prefix k) of
                  None \<Rightarrow> False
                | Some e2 \<Rightarrow> rep be e2 m (a + off) v)
           | eMtVarArray k esz e2 \<Rightarrow>
               (case v of
                  VP n ws \<Rightarrow> n = esz \<and> length ws = unat (field_int all prefix k) \<and>
                    rep_loop (rep be e2 m) esz (load_ptr be m (a + off)) ws
                | _ \<Rightarrow> False)
           | _ \<Rightarrow> rep be e m (a + off) v) \<and>
          rep_fields be all (prefix @ [v]) rest m a vs)"
  by pat_completeness auto

termination
  by (relation "measure (\<lambda>x. case x of Inl (_, t, _, _, _) \<Rightarrow> size t
        | Inr (_, _, _, fs, _, _, _) \<Rightarrow> size_list (size_prod (\<lambda>_. 0) size) fs)")
    (auto dest: size_union_element)

declare rep.simps [simp del] rep_fields.simps [simp del]

lemma rep_simple: "IsSimpleType t \<Longrightarrow> rep be t m a v \<longleftrightarrow> v = VB (order be (bytes_at m a (simple_sizeof t)))"
  by (simp add: rep.simps)

lemma is_int_simple: "is_int t \<Longrightarrow> IsSimpleType t"
  by (cases t) simp_all

text \<open>The integer fields seen so far are those in memory.\<close>

definition ints_ok :: "bool \<Rightarrow> (nat \<times> cMarshalType) list \<Rightarrow> cmem \<Rightarrow> nat \<Rightarrow> val list \<Rightarrow> bool" where
  "ints_ok be all m a prefix \<longleftrightarrow> length prefix \<le> length all \<and>
     (\<forall>j < length prefix. IsSimpleType (snd (all ! j)) \<longrightarrow> rep be (snd (all ! j)) m (a + fst (all ! j)) (prefix ! j))"

lemma get_int:
  assumes "ints_ok be all m a prefix" and "k < length prefix" and "is_int (snd (all ! k))"
  shows "GetStructElementIntegerValue be all k m a = field_int all prefix k"
  using assms is_int_simple [OF assms(3)]
  by (auto simp: ints_ok_def GetStructElementIntegerValue_def field_int_def rep_simple split_def Let_def)

lemma ints_ok_snoc:
  assumes "ints_ok be all m a prefix" and "length prefix < length all"
    and "IsSimpleType (snd (all ! length prefix)) \<Longrightarrow>
      rep be (snd (all ! length prefix)) m (a + fst (all ! length prefix)) v"
  shows "ints_ok be all m a (prefix @ [v])"
  using assms by (auto simp: ints_ok_def nth_append less_Suc_eq)

lemma map_of_in: "GetUnionElement us k = Some e \<Longrightarrow> \<exists>n. (n, e) \<in> set us"
  by (auto simp: GetUnionElement_def dest: map_of_SomeD)

section \<open>Marshaling encodes the value\<close>

lemma marshal_loop_encode:
  assumes "\<And>a v. f' a v \<Longrightarrow> f a = Inr (encode be v)" and "rep_loop f' esz a vs"
  shows "marshal_loop f (length vs) esz a = Inr (concat (map (encode be) vs))"
  using assms(2) by (induction vs arbitrary: a) (auto simp: assms(1))

text \<open>The field at the head of the list, given the claim for smaller descriptions.\<close>

lemma marshal_fields_encode:
  assumes IH: "\<And>e m a v. size e < N \<Longrightarrow> layout_ok e \<Longrightarrow> rep be e m a v \<Longrightarrow> Marshal be e m a = Inr (encode be v)"
  shows "all = pre @ rest \<Longrightarrow> length pre = length prefix \<Longrightarrow> size_list (size_prod (\<lambda>_. 0) size) rest < N \<Longrightarrow>
    ints_ok be all m a prefix \<Longrightarrow> fields_ok all (length prefix) lo rest \<Longrightarrow>
    rep_fields be all prefix rest m a vs \<Longrightarrow>
    marshal_fields be all rest m a = Inr (concat (map (encode be) vs))"
proof (induction rest arbitrary: pre prefix lo vs)
  case Nil
  then show ?case by (simp add: marshal_fields.simps rep_fields.simps)
next
  case (Cons p rest)
  obtain off e where p: "p = (off, e)" by force
  from Cons.prems(6) obtain v ws where vs: "vs = v # ws" and rest: "rep_fields be all (prefix @ [v]) rest m a ws"
    by (auto simp: p rep_fields.simps split: list.splits)
  have nth: "all ! length prefix = (off, e)" "length prefix < length all"
    using Cons.prems(1,2) by (simp_all add: p nth_append flip: Cons.prems(2))
  have sz: "size e < N" "size_list (size_prod (\<lambda>_. 0) size) rest < N" using Cons.prems(3) by (simp_all add: p)
  have "ints_ok be all m a (prefix @ [v])"
  proof (rule ints_ok_snoc [OF Cons.prems(4) nth(2)])
    assume "IsSimpleType (snd (all ! length prefix))"
    then show "rep be (snd (all ! length prefix)) m (a + fst (all ! length prefix)) v"
      using Cons.prems(6) by (cases e) (simp_all add: nth p vs rep_fields.simps)
  qed
  moreover have f: "fields_ok all (length (prefix @ [v])) (off + extent e) rest"
    using Cons.prems(5) by (simp add: p fields_ok.simps)
  ultimately have tail: "marshal_fields be all rest m a = Inr (concat (map (encode be) ws))"
    using Cons.IH [of "pre @ [p]" "prefix @ [v]", OF _ _ sz(2) _ f rest] Cons.prems(1,2) by simp
  have int: "k < length prefix \<Longrightarrow> is_int (snd (all ! k)) \<Longrightarrow>
      GetStructElementIntegerValue be all k m a = field_int all prefix k" for k
    by (rule get_int [OF Cons.prems(4)])
  show ?case
  proof (cases "(\<exists>k us. e = eMtUnion k us) \<or> (\<exists>k n e2. e = eMtVarArray k n e2)")
    case False
    then have "rep be e m (a + off) v" "layout_ok e"
      using Cons.prems(5,6) by (cases e; simp add: p vs rep_fields.simps fields_ok.simps)+
    then have "Marshal be e m (a + off) = Inr (encode be v)" using IH sz by blast
    then show ?thesis using False tail by (cases e) (simp_all add: p vs marshal_fields.simps)
  next
    case True
    then show ?thesis
    proof (elim disjE exE)
      fix k us
      assume e: "e = eMtUnion k us"
      from Cons.prems(6) obtain e2 where g: "GetUnionElement us (field_int all prefix k) = Some e2"
          and r: "rep be e2 m (a + off) v"
        by (auto simp: p vs e rep_fields.simps split: option.splits)
      have k: "k < length prefix" "is_int (snd (all ! k))" "list_all (\<lambda>p. layout_ok (snd p)) us"
        using Cons.prems(5) by (simp_all add: p e fields_ok.simps)
      then have "layout_ok e2" using map_of_in [OF g] by (auto simp: list_all_iff)
      moreover have "size e2 < N" using size_union_element [OF g] sz by (simp add: e)
      ultimately have "Marshal be e2 m (a + off) = Inr (encode be v)" using IH r by blast
      then show ?thesis using tail int [OF k(1,2)] g by (simp add: p vs e marshal_fields.simps)
    next
      fix k n e2
      assume e: "e = eMtVarArray k n e2"
      from Cons.prems(6) obtain us where v: "v = VP n us" "length us = unat (field_int all prefix k)"
          and r: "rep_loop (rep be e2 m) n (load_ptr be m (a + off)) us"
        by (auto simp: p vs e rep_fields.simps split: val.splits)
      have k: "k < length prefix" "is_int (snd (all ! k))" "layout_ok e2"
        using Cons.prems(5) by (simp_all add: p e fields_ok.simps)
      have "size e2 < N" using sz by (simp add: e)
      then have "marshal_loop (Marshal be e2 m) (length us) n (load_ptr be m (a + off)) = Inr (concat (map (encode be) us))"
        using IH k(3) by (intro marshal_loop_encode [OF _ r]) blast
      then show ?thesis using tail int [OF k(1,2)] v by (simp add: p vs e marshal_fields.simps)
    qed
  qed
qed

lemma marshal_encode:
  "layout_ok t \<Longrightarrow> rep be t m a v \<Longrightarrow> Marshal be t m a = Inr (encode be v)"
proof (induction "size t" arbitrary: t m a v rule: less_induct)
  case less
  show ?case
  proof (cases "IsSimpleType t")
    case True
    then show ?thesis using less.prems
      by (simp add: rep_simple Marshal.simps MarshalSimpleType_def order_def)
  next
    case simple: False
    from less.prems(1) simple consider n esz e where "t = eMtArray n esz e" | fs where "t = eMtStruct fs"
      by (cases t) (simp_all add: layout_ok.simps)
    then show ?thesis
    proof cases
      case 1
      from less.prems 1 obtain vs where v: "v = VS vs" "length vs = n" "rep_loop (rep be e m) esz a vs" "layout_ok e"
        by (auto simp: rep.simps layout_ok.simps split: val.splits)
      have "marshal_loop (Marshal be e m) (length vs) esz a = Inr (concat (map (encode be) vs))"
        using less.hyps [of e] 1 v(4) by (intro marshal_loop_encode [OF _ v(3)]) simp
      then show ?thesis using 1 v by (simp add: Marshal.simps)
    next
      case 2
      from less.prems 2 obtain vs where v: "v = VS vs" "rep_fields be fs [] fs m a vs" "fields_ok fs 0 0 fs"
        by (auto simp: rep.simps layout_ok.simps split: val.splits)
      have "marshal_fields be fs fs m a = Inr (concat (map (encode be) vs))"
        by (rule marshal_fields_encode [where N = "size t" and pre = "[]" and prefix = "[]" and lo = 0])
          (use less.hyps 2 v in \<open>simp_all add: ints_ok_def\<close>)
      then show ?thesis using 2 v by (simp add: Marshal.simps)
    qed
  qed
qed

section \<open>What can be marshaled has a value\<close>

lemma marshal_loop_value:
  assumes "\<And>a bs. f a = Inr bs \<Longrightarrow> \<exists>v. f' a v" and "marshal_loop f n esz a = Inr bs"
  shows "\<exists>vs. length vs = n \<and> rep_loop f' esz a vs"
  using assms(2)
proof (induction n arbitrary: a bs)
  case (Suc n)
  then obtain b1 b2 where "f a = Inr b1" "marshal_loop f n esz (a + esz) = Inr b2"
    by (auto split: sum.splits)
  then obtain v vs where "f' a v" "length vs = n" "rep_loop f' esz (a + esz) vs"
    using assms(1) Suc.IH by meson
  then show ?case by (intro exI [of _ "v # vs"]) simp
qed simp

lemma marshal_fields_value:
  assumes IH: "\<And>e m a bs. size e < N \<Longrightarrow> layout_ok e \<Longrightarrow> Marshal be e m a = Inr bs \<Longrightarrow> \<exists>v. rep be e m a v"
  shows "all = pre @ rest \<Longrightarrow> length pre = length prefix \<Longrightarrow> size_list (size_prod (\<lambda>_. 0) size) rest < N \<Longrightarrow>
    ints_ok be all m a prefix \<Longrightarrow> fields_ok all (length prefix) lo rest \<Longrightarrow>
    marshal_fields be all rest m a = Inr bs \<Longrightarrow> \<exists>vs. rep_fields be all prefix rest m a vs"
proof (induction rest arbitrary: pre prefix lo bs)
  case Nil
  then show ?case by (simp add: rep_fields.simps)
next
  case (Cons p rest)
  obtain off e where p: "p = (off, e)" by force
  obtain tl where tail: "marshal_fields be all rest m a = Inr tl"
    using Cons.prems(6) by (auto simp: p marshal_fields.simps Let_def split: sum.splits)
  have nth: "all ! length prefix = (off, e)" "length prefix < length all"
    using Cons.prems(1,2) by (simp_all add: p nth_append flip: Cons.prems(2))
  have sz: "size e < N" "size_list (size_prod (\<lambda>_. 0) size) rest < N" using Cons.prems(3) by (simp_all add: p)
  have f: "fields_ok all (length (prefix @ [v])) (off + extent e) rest" for v
    using Cons.prems(5) by (simp add: p fields_ok.simps)
  have int: "k < length prefix \<Longrightarrow> is_int (snd (all ! k)) \<Longrightarrow>
      GetStructElementIntegerValue be all k m a = field_int all prefix k" for k
    by (rule get_int [OF Cons.prems(4)])
  have "\<exists>v. (IsSimpleType e \<longrightarrow> rep be e m (a + off) v) \<and>
      (\<forall>ws. rep_fields be all (prefix @ [v]) rest m a ws \<longrightarrow> rep_fields be all prefix (p # rest) m a (v # ws))"
  proof (cases "(\<exists>k us. e = eMtUnion k us) \<or> (\<exists>k n e2. e = eMtVarArray k n e2)")
    case False
    then have "layout_ok e"
      using Cons.prems(5) by (cases e; simp add: p fields_ok.simps)+
    moreover have "\<exists>b. Marshal be e m (a + off) = Inr b"
      using Cons.prems(6) False by (cases e) (auto simp: p marshal_fields.simps split: sum.splits)
    ultimately obtain v where "rep be e m (a + off) v" using IH sz by blast
    then show ?thesis using False by (intro exI [of _ v]) (cases e; simp add: p rep_fields.simps)
  next
    case True
    then show ?thesis
    proof (elim disjE exE)
      fix k us
      assume e: "e = eMtUnion k us"
      have k: "k < length prefix" "is_int (snd (all ! k))" "list_all (\<lambda>p. layout_ok (snd p)) us"
        using Cons.prems(5) by (simp_all add: p e fields_ok.simps)
      obtain e2 b where g: "GetUnionElement us (field_int all prefix k) = Some e2"
          and b: "Marshal be e2 m (a + off) = Inr b"
        using Cons.prems(6) int [OF k(1,2)]
        by (auto simp: p e marshal_fields.simps split: option.splits sum.splits)
      have "layout_ok e2" using map_of_in [OF g] k(3) by (auto simp: list_all_iff)
      moreover have "size e2 < N" using size_union_element [OF g] sz by (simp add: e)
      ultimately obtain v where "rep be e2 m (a + off) v" using IH b by blast
      then show ?thesis using g by (intro exI [of _ v]) (simp add: p e rep_fields.simps)
    next
      fix k n e2
      assume e: "e = eMtVarArray k n e2"
      have k: "k < length prefix" "is_int (snd (all ! k))" "layout_ok e2"
        using Cons.prems(5) by (simp_all add: p e fields_ok.simps)
      obtain b where b: "marshal_loop (Marshal be e2 m) (unat (field_int all prefix k)) n (load_ptr be m (a + off)) = Inr b"
        using Cons.prems(6) int [OF k(1,2)]
        by (auto simp: p e marshal_fields.simps split: sum.splits)
      have "size e2 < N" using sz by (simp add: e)
      then obtain vs where "length vs = unat (field_int all prefix k)"
          "rep_loop (rep be e2 m) n (load_ptr be m (a + off)) vs"
        using marshal_loop_value [OF _ b, of "rep be e2 m"] IH k(3) by blast
      then show ?thesis by (intro exI [of _ "VP n vs"]) (simp add: p e rep_fields.simps)
    qed
  qed
  then obtain v where v: "IsSimpleType e \<Longrightarrow> rep be e m (a + off) v"
      "\<And>ws. rep_fields be all (prefix @ [v]) rest m a ws \<Longrightarrow> rep_fields be all prefix (p # rest) m a (v # ws)"
    by blast
  have "ints_ok be all m a (prefix @ [v])"
    by (rule ints_ok_snoc [OF Cons.prems(4) nth(2)]) (use v(1) in \<open>simp add: nth\<close>)
  then obtain ws where "rep_fields be all (prefix @ [v]) rest m a ws"
    using Cons.IH [of "pre @ [p]" "prefix @ [v]", OF _ _ sz(2) _ f tail] Cons.prems(1,2) by auto
  then show ?case using v(2) by blast
qed

lemma marshal_value: "layout_ok t \<Longrightarrow> Marshal be t m a = Inr bs \<Longrightarrow> \<exists>v. rep be t m a v"
proof (induction "size t" arbitrary: t m a bs rule: less_induct)
  case less
  show ?case
  proof (cases "IsSimpleType t")
    case True
    then show ?thesis using rep_simple by blast
  next
    case simple: False
    from less.prems(1) simple consider n esz e where "t = eMtArray n esz e" | fs where "t = eMtStruct fs"
      by (cases t) (simp_all add: layout_ok.simps)
    then show ?thesis
    proof cases
      case 1
      then have l: "marshal_loop (Marshal be e m) n esz a = Inr bs" and e: "layout_ok e"
        using less.prems by (simp_all add: Marshal.simps layout_ok.simps)
      have "\<exists>vs. length vs = n \<and> rep_loop (rep be e m) esz a vs"
        by (rule marshal_loop_value [OF _ l]) (rule less.hyps, use 1 e in simp_all)
      then obtain vs where "length vs = n" "rep_loop (rep be e m) esz a vs" by blast
      then show ?thesis using 1 by (intro exI [of _ "VS vs"]) (simp add: rep.simps)
    next
      case 2
      have "\<exists>vs. rep_fields be fs [] fs m a vs"
        by (rule marshal_fields_value [where N = "size t" and pre = "[]" and lo = 0])
          (use less.hyps less.prems 2 in \<open>simp_all add: ints_ok_def Marshal.simps layout_ok.simps\<close>)
      then show ?thesis using 2 by (auto simp: rep.simps intro: exI [of _ "VS _"])
    qed
  qed
qed

section \<open>Bytes\<close>

lemma order_order [simp]: "order be (order be bs) = bs"
  by (simp add: order_def)

lemma length_order [simp]: "length (order be bs) = length bs"
  by (simp add: order_def)

lemma length_bytes_at [simp]: "length (bytes_at m a n) = n"
  by (simp add: bytes_at_def)

lemma length_le_bytes [simp]: "length (le_bytes n p) = n"
  by (induction n arbitrary: p) simp_all

lemma bytes_at_cong: "(\<And>x. a \<le> x \<Longrightarrow> x < a + n \<Longrightarrow> m' x = m x) \<Longrightarrow> bytes_at m' a n = bytes_at m a n"
  by (simp add: bytes_at_def)

lemma bytes_at_put [simp]: "bytes_at (put_bytes a bs m) a (length bs) = bs"
  by (rule nth_equalityI) (simp_all add: bytes_at_def put_bytes_def)

lemma bytes_at_add: "bytes_at m b (n + k) = bytes_at m b n @ bytes_at m (b + n) k"
  by (induction k) (simp_all add: bytes_at_def add.assoc)

lemma bytes_at_append:
  "bytes_at m b (length (xs @ ys)) = xs @ ys \<longleftrightarrow>
    bytes_at m b (length xs) = xs \<and> bytes_at m (b + length xs) (length ys) = ys"
  by (simp only: length_append bytes_at_add) (rule append_eq_append_conv, simp)

lemma put_bytes_other: "x < a \<or> a + length bs \<le> x \<Longrightarrow> put_bytes a bs m x = m x"
  by (auto simp: put_bytes_def)

lemma le_nat_le_bytes: "le_nat (le_bytes n p) = p mod 256 ^ n"
proof (induction n arbitrary: p)
  case (Suc n)
  have "unat (of_nat (p mod 256) :: u8) = p mod 256" by (simp add: unat_of_nat)
  moreover have "p mod 256 ^ Suc n = p mod 256 + 256 * (p div 256 mod 256 ^ n)"
    by (metis mod_mult2_eq power_Suc add.commute)
  ultimately show ?case using Suc by simp
qed simp

section \<open>What demarshaling writes\<close>

text \<open>
  \<open>wrote R A n k s r\<close>: \<open>r\<close> is a success that read \<open>n\<close> bytes and allocated \<open>k\<close>; it changed nothing
  outside \<open>A\<close> and the new heap, and \<open>R\<close> holds of every memory that agrees with the result there.
\<close>

definition wrote :: "(cmem \<Rightarrow> bool) \<Rightarrow> nat set \<Rightarrow> nat \<Rightarrow> nat \<Rightarrow> cheap \<Rightarrow> int + nat \<times> cheap \<Rightarrow> bool" where
  "wrote R A n k s r \<longleftrightarrow> (\<exists>s'. r = Inr (n, s') \<and> brk s' = brk s + k \<and>
     (\<forall>x. mem s' x \<noteq> mem s x \<longrightarrow> x \<in> A \<or> brk s \<le> x \<and> x < brk s') \<and>
     (\<forall>m. (\<forall>x. x \<in> A \<or> brk s \<le> x \<and> x < brk s' \<longrightarrow> m x = mem s' x) \<longrightarrow> R m))"

lemma wrote_nothing: "(\<And>m. R m) \<Longrightarrow> wrote R {} 0 0 s (Inr (0, s))"
  by (simp add: wrote_def)

lemma wrote_mono:
  "wrote R A n k s r \<Longrightarrow> A \<subseteq> A' \<Longrightarrow> (\<And>m. R m \<Longrightarrow> R' m) \<Longrightarrow> wrote R' A' n k s r"
  unfolding wrote_def by (elim exE conjE, rule exI) blast

lemma wrote_seq:
  assumes 1: "wrote R1 A1 n1 k1 s (Inr (n1, s1))" and 2: "wrote R2 A2 n2 k2 s1 (Inr (n2, s2))"
    and d: "A1 \<inter> A2 = {}" "\<And>x. x \<in> A1 \<union> A2 \<Longrightarrow> x < brk s"
  shows "wrote (\<lambda>m. R1 m \<and> R2 m) (A1 \<union> A2) (n1 + n2) (k1 + k2) s (Inr (n1 + n2, s2))"
proof -
  have b: "brk s1 = brk s + k1" "brk s2 = brk s1 + k2" using 1 2 by (auto simp: wrote_def)
  have f1: "mem s1 x \<noteq> mem s x \<Longrightarrow> x \<in> A1 \<or> brk s \<le> x \<and> x < brk s1" for x using 1 by (auto simp: wrote_def)
  have f2: "mem s2 x \<noteq> mem s1 x \<Longrightarrow> x \<in> A2 \<or> brk s1 \<le> x \<and> x < brk s2" for x using 2 by (auto simp: wrote_def)
  have "R1 m \<and> R2 m" if m: "\<forall>x. x \<in> A1 \<union> A2 \<or> brk s \<le> x \<and> x < brk s2 \<longrightarrow> m x = mem s2 x" for m
  proof
    have "mem s2 x = mem s1 x" if "x \<in> A1 \<or> brk s \<le> x \<and> x < brk s1" for x
    proof (rule ccontr)
      assume "mem s2 x \<noteq> mem s1 x"
      from f2 [OF this] that d(1) d(2) [of x] b(1) show False by auto
    qed
    then have "\<forall>x. x \<in> A1 \<or> brk s \<le> x \<and> x < brk s1 \<longrightarrow> m x = mem s1 x"
      using m b by auto
    then show "R1 m" using 1 unfolding wrote_def by auto
    have "\<forall>x. x \<in> A2 \<or> brk s1 \<le> x \<and> x < brk s2 \<longrightarrow> m x = mem s2 x" using m b by auto
    then show "R2 m" using 2 unfolding wrote_def by auto
  qed
  moreover have "x \<in> A1 \<union> A2 \<or> brk s \<le> x \<and> x < brk s2" if "mem s2 x \<noteq> mem s x" for x
    using that f1 [of x] f2 [of x] b by (cases "mem s1 x = mem s x") auto
  ultimately show ?thesis using b unfolding wrote_def by (intro exI [of _ s2]) simp
qed

text \<open>A simple object.\<close>

lemma demarshal_simple:
  assumes "IsSimpleType t" and "length le = simple_sizeof t"
    and "bytes_at bm b (length le) = order bo le"
  shows "wrote (\<lambda>m. rep be t m a (VB le)) {a..<a + simple_sizeof t} (length le) 0 s (Demarshal be bo t bm a b s)"
proof -
  have "(if be \<noteq> bo then rev (order bo le) else order bo le) = order be le" by (simp add: order_def)
  then have r: "Demarshal be bo t bm a b s = Inr (length le, poke a (order be le) s)"
    using assms by (simp add: Demarshal.simps DemarshalSimpleTypes_def)
  have "rep be t m a (VB le)"
    if "\<forall>x. x \<in> {a..<a + simple_sizeof t} \<or> brk s \<le> x \<and> x < brk s \<longrightarrow> m x = put_bytes a (order be le) (mem s) x" for m
  proof -
    have "bytes_at m a (simple_sizeof t) = bytes_at (put_bytes a (order be le) (mem s)) a (length (order be le))"
      using that assms(2) by (simp add: bytes_at_def)
    also have "\<dots> = order be le" by (rule bytes_at_put)
    finally show ?thesis using assms(1) by (simp add: rep_simple)
  qed
  then show ?thesis unfolding wrote_def r using assms(2)
    by (intro exI [of _ "poke a (order be le) s"]) (auto simp: poke_def put_bytes_def)
qed

text \<open>A loop over objects one behind the other.\<close>

lemma demarshal_loop_wrote:
  assumes f: "\<And>v a b s. v \<in> set vs \<Longrightarrow> bytes_at bm b (length (encode bo v)) = encode bo v \<Longrightarrow> a + ext \<le> brk s \<Longrightarrow>
      brk s + alloc v \<le> 2 ^ 64 \<Longrightarrow> wrote (\<lambda>m. R m a v) {a..<a + ext} (length (encode bo v)) (alloc v) s (f a b s)"
    and ext: "ext \<le> esz"
  shows "bytes_at bm b (length (concat (map (encode bo) vs))) = concat (map (encode bo) vs) \<Longrightarrow>
    a + length vs * esz \<le> brk s \<Longrightarrow> brk s + sum_list (map alloc vs) \<le> 2 ^ 64 \<Longrightarrow>
    wrote (\<lambda>m. rep_loop (R m) esz a vs) {a..<a + length vs * esz} (length (concat (map (encode bo) vs)))
      (sum_list (map alloc vs)) s (demarshal_loop f (length vs) esz a b s)"
  using f
proof (induction vs arbitrary: a b s)
  case Nil
  then show ?case by (simp add: wrote_nothing)
next
  case (Cons v vs)
  let ?w = "concat (map (encode bo) vs)"
  have b: "bytes_at bm b (length (encode bo v)) = encode bo v"
      "bytes_at bm (b + length (encode bo v)) (length ?w) = ?w"
    using Cons.prems(1) bytes_at_append [of bm b "encode bo v" ?w] by simp_all
  have le: "a + ext \<le> brk s" "a + esz + length vs * esz \<le> brk s" using Cons.prems(2) ext by simp_all
  have 1: "wrote (\<lambda>m. R m a v) {a..<a + ext} (length (encode bo v)) (alloc v) s (f a b s)"
    using Cons.prems(3) le b by (intro Cons.prems(4)) simp_all
  then obtain s1 where s1: "f a b s = Inr (length (encode bo v), s1)" "brk s1 = brk s + alloc v"
    by (auto simp: wrote_def)
  have 2: "wrote (\<lambda>m. rep_loop (R m) esz (a + esz) vs) {a + esz..<a + esz + length vs * esz} (length ?w)
      (sum_list (map alloc vs)) s1 (demarshal_loop f (length vs) esz (a + esz) (b + length (encode bo v)) s1)"
    by (rule Cons.IH [OF b(2)]) (use Cons.prems(3,4) le s1(2) in simp_all)
  then obtain s2 where s2: "demarshal_loop f (length vs) esz (a + esz) (b + length (encode bo v)) s1 = Inr (length ?w, s2)"
    by (auto simp: wrote_def)
  have "wrote (\<lambda>m. R m a v \<and> rep_loop (R m) esz (a + esz) vs)
      ({a..<a + ext} \<union> {a + esz..<a + esz + length vs * esz})
      (length (encode bo v) + length ?w) (alloc v + sum_list (map alloc vs)) s (Inr (length (encode bo v) + length ?w, s2))"
    by (rule wrote_seq [OF 1 [unfolded s1(1)] 2 [unfolded s2]]) (use le ext in auto)
  then show ?case using s1(1) s2 ext by (simp add: wrote_mono)
qed

section \<open>Demarshaling restores the value\<close>

lemma foldr_max_ge: "x \<in> set xs \<Longrightarrow> x \<le> foldr max xs (0::nat)"
  by (induction xs) auto

lemma extent_struct: "extent (eMtStruct fs) = foldr max (map (\<lambda>p. fst p + extent (snd p)) fs) 0"
  by (subst extent.simps) simp

lemma extent_field: "(off, e) \<in> set fs \<Longrightarrow> off + extent e \<le> extent (eMtStruct fs)"
  unfolding extent_struct by (rule foldr_max_ge) force

lemma extent_union:
  assumes "GetUnionElement us k = Some e" shows "extent e \<le> extent (eMtUnion i us)"
proof -
  have "extent (eMtUnion i us) = foldr max (map (\<lambda>p. extent (snd p)) us) 0" by (subst extent.simps) simp
  moreover have "extent e \<in> set (map (\<lambda>p. extent (snd p)) us)" using map_of_in [OF assms] by force
  ultimately show ?thesis using foldr_max_ge by simp
qed

lemma extent_simple: "IsSimpleType t \<Longrightarrow> extent t = simple_sizeof t"
  by (cases t) (simp_all add: extent.simps)

lemma extent_var [simp]: "extent (eMtVarArray k n e) = ptr_size"
  by (simp add: extent.simps)

lemma load_ptr_cong: "(\<And>x. a \<le> x \<Longrightarrow> x < a + ptr_size \<Longrightarrow> m' x = m x) \<Longrightarrow> load_ptr be m' a = load_ptr be m a"
  using bytes_at_cong [of a ptr_size m' m] by (simp add: load_ptr_def)

lemma load_store_ptr: "p < 2 ^ 64 \<Longrightarrow> load_ptr be (mem (store_ptr be a p s)) a = p"
proof -
  assume p: "p < 2 ^ 64"
  have "bytes_at (put_bytes a (order be (le_bytes ptr_size p)) (mem s)) a ptr_size = order be (le_bytes ptr_size p)"
    using bytes_at_put [of a "order be (le_bytes ptr_size p)"] by simp
  then show ?thesis using p by (simp add: load_ptr_def store_ptr_def poke_def le_nat_le_bytes)
qed

lemma store_ptr_same [simp]: "brk (store_ptr be a p s) = brk s"
  by (simp add: store_ptr_def poke_def)

lemma store_ptr_mem: "mem (store_ptr be a p s) x \<noteq> mem s x \<Longrightarrow> a \<le> x \<and> x < a + ptr_size"
  by (auto simp: store_ptr_def poke_def put_bytes_def split: if_splits)

lemma g_new0_spec:
  assumes "g_new0 n s = (p, s')"
  shows "brk s' = brk s + n" and "mem s' x \<noteq> mem s x \<Longrightarrow> brk s \<le> x \<and> x < brk s'"
    and "0 < n \<Longrightarrow> p = brk s" and "n = 0 \<Longrightarrow> p = 0 \<and> s' = s"
  using assms by (auto simp: g_new0_def poke_def put_bytes_def split: if_splits)

text \<open>An array behind a pointer: allocated, linked, filled.\<close>

lemma var_array_wrote:
  assumes g: "g_new0 (length ws * esz) s = (p, s1)" and fits: "brk s + (length ws * esz + sum_list (map alloc ws)) \<le> 2 ^ 64"
    and le: "a + ptr_size \<le> brk s"
    and l: "\<And>s. p + length ws * esz \<le> brk s \<Longrightarrow> brk s + sum_list (map alloc ws) \<le> 2 ^ 64 \<Longrightarrow>
      wrote (\<lambda>m. rep_loop (rep be e m) esz p ws) {p..<p + length ws * esz} n (sum_list (map alloc ws)) s (f s)"
  shows "wrote (\<lambda>m. rep_loop (rep be e m) esz (load_ptr be m a) ws) {a..<a + ptr_size} n
    (length ws * esz + sum_list (map alloc ws)) s (f (store_ptr be a p s1))"
proof -
  let ?n = "length ws * esz" and ?s2 = "store_ptr be a p s1"
  note g' = g_new0_spec [OF g]
  have b2: "brk ?s2 = brk s + ?n" using g'(1) by simp
  have c: "?n = 0 \<and> p = 0 \<or> 0 < ?n \<and> p = brk s" using g'(3,4) by linarith
  have p: "p + ?n \<le> brk ?s2" using c b2 by linarith
  have p64: "p < 2 ^ 64"
  proof (rule disjE [OF c])
    assume "0 < ?n \<and> p = brk s"
    then show ?thesis using fits by linarith
  qed simp
  have new: "brk s \<le> x" if "p \<le> x" "x < p + ?n" for x using c that by linarith
  have "brk ?s2 + sum_list (map alloc ws) \<le> 2 ^ 64" using b2 fits by simp
  from l [OF p this] obtain s3 where s3: "f ?s2 = Inr (n, s3)" "brk s3 = brk ?s2 + sum_list (map alloc ws)"
      "\<And>x. mem s3 x \<noteq> mem ?s2 x \<Longrightarrow> x \<in> {p..<p + ?n} \<or> brk ?s2 \<le> x \<and> x < brk s3"
      "\<And>m. (\<forall>x. x \<in> {p..<p + ?n} \<or> brk ?s2 \<le> x \<and> x < brk s3 \<longrightarrow> m x = mem s3 x) \<Longrightarrow> rep_loop (rep be e m) esz p ws"
    unfolding wrote_def by blast
  have frame: "x \<in> {a..<a + ptr_size} \<or> brk s \<le> x \<and> x < brk s3" if "mem s3 x \<noteq> mem s x" for x
  proof (cases "mem s3 x = mem ?s2 x")
    case False
    from s3(3) [OF this] p b2 s3(2) show ?thesis by (auto dest: new)
  next
    case True
    show ?thesis
    proof (cases "mem ?s2 x = mem s1 x")
      case False
      from store_ptr_mem [OF this] show ?thesis by simp
    next
      case same: True
      then have "mem s1 x \<noteq> mem s x" using True that by simp
      from g'(2) [OF this] g'(1) s3(2) b2 show ?thesis by simp
    qed
  qed
  have R: "rep_loop (rep be e m) esz (load_ptr be m a) ws"
    if m: "\<forall>x. x \<in> {a..<a + ptr_size} \<or> brk s \<le> x \<and> x < brk s3 \<longrightarrow> m x = mem s3 x" for m
  proof -
    have "m x = mem ?s2 x" if "a \<le> x" "x < a + ptr_size" for x
    proof -
      have "mem s3 x = mem ?s2 x"
      proof (rule ccontr)
        assume "mem s3 x \<noteq> mem ?s2 x"
        from s3(3) [OF this] new [of x] that le b2 show False by auto
      qed
      then show ?thesis using m that by simp
    qed
    then have "load_ptr be m a = load_ptr be (mem ?s2) a" by (rule load_ptr_cong)
    then have "load_ptr be m a = p" using load_store_ptr [OF p64] by simp
    moreover have "\<forall>x. x \<in> {p..<p + ?n} \<or> brk ?s2 \<le> x \<and> x < brk s3 \<longrightarrow> m x = mem s3 x"
      using m p b2 s3(2) by (auto dest: new)
    ultimately show ?thesis using s3(4) by simp
  qed
  show ?thesis unfolding wrote_def using s3(1,2) b2 frame R by (intro exI [of _ s3]) simp
qed

text \<open>One field: its value and its demarshaling.\<close>

definition rep_elem :: "bool \<Rightarrow> (nat \<times> cMarshalType) list \<Rightarrow> val list \<Rightarrow> cMarshalType \<Rightarrow> cmem \<Rightarrow> nat \<Rightarrow> val \<Rightarrow> bool" where
  "rep_elem be all prefix e m a v =
     (case e of
        eMtUnion k us \<Rightarrow>
          (case GetUnionElement us (field_int all prefix k) of None \<Rightarrow> False | Some e2 \<Rightarrow> rep be e2 m a v)
      | eMtVarArray k esz e2 \<Rightarrow>
          (case v of
             VP n ws \<Rightarrow> n = esz \<and> length ws = unat (field_int all prefix k) \<and> rep_loop (rep be e2 m) esz (load_ptr be m a) ws
           | _ \<Rightarrow> False)
      | _ \<Rightarrow> rep be e m a v)"

definition demarshal_elem ::
    "bool \<Rightarrow> bool \<Rightarrow> (nat \<times> cMarshalType) list \<Rightarrow> nat \<Rightarrow> nat \<Rightarrow> cMarshalType \<Rightarrow> cmem \<Rightarrow> nat \<Rightarrow> nat \<Rightarrow> cheap \<Rightarrow> int + nat \<times> cheap"
where
  "demarshal_elem be bo all i off e bm data b s =
     (case e of
        eMtUnion k us \<Rightarrow>
          if k \<ge> i then Inl (- EINVAL)
          else (case GetUnionElement us (GetStructElementIntegerValue be all k (mem s) data) of
                  None \<Rightarrow> Inl (- EINVAL)
                | Some e2 \<Rightarrow> Demarshal be bo e2 bm (data + off) b s)
      | eMtVarArray k esz e2 \<Rightarrow>
          if k \<ge> i then Inl (- EINVAL)
          else let n = unat (GetStructElementIntegerValue be all k (mem s) data);
                   (p, s) = g_new0 (n * esz) s;
                   s = store_ptr be (data + off) p s
               in demarshal_loop (Demarshal be bo e2 bm) n esz p b s
      | _ \<Rightarrow> Demarshal be bo e bm (data + off) b s)"

lemma rep_fields_Cons:
  "rep_fields be all prefix ((off, e) # rest) m a vs \<longleftrightarrow>
    (\<exists>v ws. vs = v # ws \<and> rep_elem be all prefix e m (a + off) v \<and> rep_fields be all (prefix @ [v]) rest m a ws)"
  by (cases vs) (simp_all add: rep_fields.simps rep_elem_def)

lemma demarshal_fields_Cons:
  "demarshal_fields be bo all i ((off, e) # rest) bm data b s =
    (case demarshal_elem be bo all i off e bm data b s of
       Inl cc \<Rightarrow> Inl cc
     | Inr (cc, s) \<Rightarrow>
         (case demarshal_fields be bo all (Suc i) rest bm data (b + cc) s of
            Inl cc \<Rightarrow> Inl cc
          | Inr (cc', s) \<Rightarrow> Inr (cc + cc', s)))"
  by (simp add: demarshal_fields.simps demarshal_elem_def Let_def)

lemma rep_elem_simple: "IsSimpleType e \<Longrightarrow> rep_elem be all prefix e m a v = rep be e m a v"
  by (cases e) (simp_all add: rep_elem_def)

lemma rep_loop_all: "rep_loop f esz a vs \<Longrightarrow> v \<in> set vs \<Longrightarrow> \<exists>a. f a v"
  by (induction vs arbitrary: a) auto

lemma ints_ok_frame:
  assumes "ints_ok be all m a prefix" and "\<And>j. j < length prefix \<Longrightarrow> fst (all ! j) + extent (snd (all ! j)) \<le> lo"
    and "\<And>x. x < a + lo \<Longrightarrow> m' x = m x"
  shows "ints_ok be all m' a prefix"
proof -
  have "rep be e m' (a + off) v = rep be e m (a + off) v"
    if "IsSimpleType e" "off + extent e \<le> lo" for e off v
  proof -
    have "bytes_at m' (a + off) (simple_sizeof e) = bytes_at m (a + off) (simple_sizeof e)"
      by (rule bytes_at_cong) (use assms(3) that extent_simple [OF that(1)] in simp)
    then show ?thesis using that by (simp add: rep_simple)
  qed
  then show ?thesis using assms(1,2) unfolding ints_ok_def by simp
qed

lemma demarshal_elem_wrote:
  assumes IH: "\<And>e m0 a0 v a b s. size e < N \<Longrightarrow> layout_ok e \<Longrightarrow> rep bo e m0 a0 v \<Longrightarrow>
      bytes_at bm b (length (encode bo v)) = encode bo v \<Longrightarrow> a + extent e \<le> brk s \<Longrightarrow> brk s + alloc v \<le> 2 ^ 64 \<Longrightarrow>
      wrote (\<lambda>m. rep be e m a v) {a..<a + extent e} (length (encode bo v)) (alloc v) s (Demarshal be bo e bm a b s)"
    and sz: "size e < N" and ints: "ints_ok be all (mem s) a prefix" and ok: "fields_ok all (length prefix) lo ((off, e) # rest)"
    and v: "rep_elem bo all prefix e m0 a0 v" and b: "bytes_at bm b (length (encode bo v)) = encode bo v"
    and fits: "a + off + extent e \<le> brk s" "brk s + alloc v \<le> 2 ^ 64"
  shows "wrote (\<lambda>m. rep_elem be all prefix e m (a + off) v) {a + off..<a + off + extent e} (length (encode bo v)) (alloc v) s
    (demarshal_elem be bo all (length prefix) off e bm a b s)"
proof (cases "(\<exists>k us. e = eMtUnion k us) \<or> (\<exists>k n e2. e = eMtVarArray k n e2)")
  case False
  have l: "layout_ok e" using False ok by (cases e) (simp_all add: fields_ok.simps)
  have "rep bo e m0 a0 v" using False v by (cases e) (simp_all add: rep_elem_def)
  from IH [OF sz l this b fits] False show ?thesis by (cases e) (simp_all add: rep_elem_def demarshal_elem_def)
next
  case True
  then show ?thesis
  proof (elim disjE exE)
    fix k us
    assume e: "e = eMtUnion k us"
    from v obtain e2 where g: "GetUnionElement us (field_int all prefix k) = Some e2" and r: "rep bo e2 m0 a0 v"
      by (auto simp: e rep_elem_def split: option.splits)
    have k: "k < length prefix" "is_int (snd (all ! k))" "list_all (\<lambda>p. layout_ok (snd p)) us"
      using ok by (simp_all add: e fields_ok.simps)
    have l: "layout_ok e2" "size e2 < N" using map_of_in [OF g] k(3) size_union_element [OF g] sz
      by (auto simp: list_all_iff e)
    have le: "a + off + extent e2 \<le> brk s" using fits(1) extent_union [OF g, of k] e by simp
    have w: "wrote (\<lambda>m. rep be e2 m (a + off) v) {a + off..<a + off + extent e2} (length (encode bo v)) (alloc v) s
        (Demarshal be bo e2 bm (a + off) b s)" by (rule IH [OF l(2,1) r b le fits(2)])
    have "demarshal_elem be bo all (length prefix) off e bm a b s = Demarshal be bo e2 bm (a + off) b s"
      using k get_int [OF ints k(1,2)] g by (simp add: e demarshal_elem_def)
    moreover have "rep_elem be all prefix e m (a + off) v = rep be e2 m (a + off) v" for m
      using g by (simp add: e rep_elem_def)
    moreover have "{a + off..<a + off + extent e2} \<subseteq> {a + off..<a + off + extent e}"
      using extent_union [OF g, of k] e by auto
    ultimately show ?thesis using wrote_mono [OF w] by simp
  next
    fix k n e2
    assume e: "e = eMtVarArray k n e2"
    from v obtain ws where ws: "v = VP n ws" "length ws = unat (field_int all prefix k)"
        and r: "rep_loop (rep bo e2 m0) n (load_ptr bo m0 a0) ws"
      by (auto simp: e rep_elem_def split: val.splits)
    have k: "k < length prefix" "is_int (snd (all ! k))" "layout_ok e2" "extent e2 \<le> n"
      using ok by (simp_all add: e fields_ok.simps)
    obtain p s1 where g: "g_new0 (length ws * n) s = (p, s1)" by force
    have fit: "brk s + (length ws * n + sum_list (map alloc ws)) \<le> 2 ^ 64" using fits(2) ws(1) by simp
    have sz2: "size e2 < N" using sz by (simp add: e)
    have f: "wrote (\<lambda>m. rep be e2 m a v) {a..<a + extent e2} (length (encode bo v)) (alloc v) s (Demarshal be bo e2 bm a b s)"
      if "v \<in> set ws" "bytes_at bm b (length (encode bo v)) = encode bo v" "a + extent e2 \<le> brk s" "brk s + alloc v \<le> 2 ^ 64"
      for v a b s
      using rep_loop_all [OF r that(1)] IH [OF sz2 k(3) _ that(2-4)] by blast
    have bw: "bytes_at bm b (length (concat (map (encode bo) ws))) = concat (map (encode bo) ws)" using b ws(1) by simp
    have "wrote (\<lambda>m. rep_loop (rep be e2 m) n (load_ptr be m (a + off)) ws) {a + off..<a + off + ptr_size}
        (length (concat (map (encode bo) ws))) (length ws * n + sum_list (map alloc ws)) s
        (demarshal_loop (Demarshal be bo e2 bm) (length ws) n p b (store_ptr be (a + off) p s1))"
      by (rule var_array_wrote [OF g fit]) (use fits(1) e demarshal_loop_wrote [OF f k(4) bw] in simp_all)
    moreover have "demarshal_elem be bo all (length prefix) off e bm a b s =
        demarshal_loop (Demarshal be bo e2 bm) (length ws) n p b (store_ptr be (a + off) p s1)"
      using k get_int [OF ints k(1,2)] g ws(2) by (simp add: e demarshal_elem_def)
    moreover have "rep_elem be all prefix e m (a + off) v = rep_loop (rep be e2 m) n (load_ptr be m (a + off)) ws" for m
      using ws by (simp add: e rep_elem_def)
    ultimately show ?thesis using ws(1) e by simp
  qed
qed

lemma demarshal_fields_wrote:
  assumes IH: "\<And>e m0 a0 v a b s. size e < N \<Longrightarrow> layout_ok e \<Longrightarrow> rep bo e m0 a0 v \<Longrightarrow>
      bytes_at bm b (length (encode bo v)) = encode bo v \<Longrightarrow> a + extent e \<le> brk s \<Longrightarrow> brk s + alloc v \<le> 2 ^ 64 \<Longrightarrow>
      wrote (\<lambda>m. rep be e m a v) {a..<a + extent e} (length (encode bo v)) (alloc v) s (Demarshal be bo e bm a b s)"
    and E: "\<And>off e. (off, e) \<in> set all \<Longrightarrow> off + extent e \<le> E"
  shows "all = pre @ rest \<Longrightarrow> length pre = length prefix \<Longrightarrow> size_list (size_prod (\<lambda>_. 0) size) rest < N \<Longrightarrow>
    ints_ok be all (mem s) a prefix \<Longrightarrow> (\<And>j. j < length prefix \<Longrightarrow> fst (all ! j) + extent (snd (all ! j)) \<le> lo) \<Longrightarrow>
    fields_ok all (length prefix) lo rest \<Longrightarrow> rep_fields bo all prefix rest m0 a0 vs \<Longrightarrow>
    bytes_at bm b (length (concat (map (encode bo) vs))) = concat (map (encode bo) vs) \<Longrightarrow>
    a + E \<le> brk s \<Longrightarrow> brk s + sum_list (map alloc vs) \<le> 2 ^ 64 \<Longrightarrow>
    wrote (\<lambda>m. rep_fields be all prefix rest m a vs) {a + lo..<a + E} (length (concat (map (encode bo) vs)))
      (sum_list (map alloc vs)) s (demarshal_fields be bo all (length prefix) rest bm a b s)"
proof (induction rest arbitrary: pre prefix lo vs b s)
  case Nil
  then have "vs = []" by (simp add: rep_fields.simps)
  moreover have "wrote (\<lambda>m. rep_fields be all prefix [] m a []) {} 0 0 s (Inr (0, s))"
    by (rule wrote_nothing) (simp add: rep_fields.simps)
  ultimately show ?case by (simp add: demarshal_fields.simps wrote_mono)
next
  case (Cons p rest)
  obtain off e where p: "p = (off, e)" by force
  from Cons.prems(7) obtain v ws where vs: "vs = v # ws" and re: "rep_elem bo all prefix e m0 (a0 + off) v"
      and rest: "rep_fields bo all (prefix @ [v]) rest m0 a0 ws"
    by (auto simp: p rep_fields_Cons)
  have nth: "all ! length prefix = (off, e)" "length prefix < length all" "(off, e) \<in> set all"
    using Cons.prems(1,2) by (simp_all add: p nth_append flip: Cons.prems(2))
  have sz: "size e < N" "size_list (size_prod (\<lambda>_. 0) size) rest < N" using Cons.prems(3) by (simp_all add: p)
  have lo: "lo \<le> off" "off + extent e \<le> E" using Cons.prems(6) E [OF nth(3)] by (simp_all add: p fields_ok.simps)
  let ?w = "concat (map (encode bo) ws)"
  have b: "bytes_at bm b (length (encode bo v)) = encode bo v"
      "bytes_at bm (b + length (encode bo v)) (length ?w) = ?w"
    using Cons.prems(8) bytes_at_append [of bm b "encode bo v" ?w] by (simp_all add: vs)
  have fits: "a + off + extent e \<le> brk s" "brk s + alloc v \<le> 2 ^ 64" using Cons.prems(9,10) lo by (simp_all add: vs)
  have 1: "wrote (\<lambda>m. rep_elem be all prefix e m (a + off) v) {a + off..<a + off + extent e} (length (encode bo v)) (alloc v) s
      (demarshal_elem be bo all (length prefix) off e bm a b s)"
    by (rule demarshal_elem_wrote [OF IH sz(1) Cons.prems(4) Cons.prems(6) [unfolded p] re b(1) fits])
  then obtain s1 where s1: "demarshal_elem be bo all (length prefix) off e bm a b s = Inr (length (encode bo v), s1)"
      "brk s1 = brk s + alloc v" "\<And>x. mem s1 x \<noteq> mem s x \<Longrightarrow> x \<in> {a + off..<a + off + extent e} \<or> brk s \<le> x \<and> x < brk s1"
      "rep_elem be all prefix e (mem s1) (a + off) v"
    unfolding wrote_def by blast
  have same: "mem s1 x = mem s x" if "x < a + lo" for x
    using s1(3) [of x] that lo Cons.prems(9) by fastforce
  have ints: "ints_ok be all (mem s1) a (prefix @ [v])"
    by (rule ints_ok_snoc [OF ints_ok_frame [OF Cons.prems(4,5) same] nth(2)])
      (use s1(4) nth(1) in \<open>simp_all add: rep_elem_simple\<close>)
  have below: "fst (all ! j) + extent (snd (all ! j)) \<le> off + extent e" if "j < length (prefix @ [v])" for j
    using Cons.prems(5) [of j] that nth(1) lo by (cases "j = length prefix") auto
  have fo: "fields_ok all (length (prefix @ [v])) (off + extent e) rest"
    using Cons.prems(6) by (simp add: p fields_ok.simps)
  have fit2: "a + E \<le> brk s1" "brk s1 + sum_list (map alloc ws) \<le> 2 ^ 64"
    using Cons.prems(9,10) s1(2) by (simp_all add: vs)
  have pre: "all = (pre @ [p]) @ rest" "length (pre @ [p]) = length (prefix @ [v])" using Cons.prems(1,2) by simp_all
  have 2: "wrote (\<lambda>m. rep_fields be all (prefix @ [v]) rest m a ws) {a + (off + extent e)..<a + E} (length ?w)
      (sum_list (map alloc ws)) s1
      (demarshal_fields be bo all (length (prefix @ [v])) rest bm a (b + length (encode bo v)) s1)"
    by (rule Cons.IH [OF pre sz(2) ints below fo rest b(2) fit2])
  then obtain s2 where s2: "demarshal_fields be bo all (Suc (length prefix)) rest bm a (b + length (encode bo v)) s1 = Inr (length ?w, s2)"
    by (auto simp: wrote_def)
  have "wrote (\<lambda>m. rep_elem be all prefix e m (a + off) v \<and> rep_fields be all (prefix @ [v]) rest m a ws)
      ({a + off..<a + off + extent e} \<union> {a + (off + extent e)..<a + E})
      (length (encode bo v) + length ?w) (alloc v + sum_list (map alloc ws)) s (Inr (length (encode bo v) + length ?w, s2))"
    by (rule wrote_seq [OF 1 [unfolded s1(1)] 2 [unfolded length_append_singleton s2]])
      (use lo Cons.prems(9) in auto)
  then have "wrote (\<lambda>m. rep_fields be all prefix (p # rest) m a vs) {a + lo..<a + E} (length (encode bo v) + length ?w)
      (alloc v + sum_list (map alloc ws)) s (Inr (length (encode bo v) + length ?w, s2))"
    by (rule wrote_mono) (use lo in \<open>auto simp: p vs rep_fields_Cons\<close>)
  then show ?case using s1(1) s2 by (simp add: p vs demarshal_fields_Cons)
qed

lemma demarshal_wrote:
  "layout_ok t \<Longrightarrow> rep bo t m0 a0 v \<Longrightarrow> bytes_at bm b (length (encode bo v)) = encode bo v \<Longrightarrow>
    a + extent t \<le> brk s \<Longrightarrow> brk s + alloc v \<le> 2 ^ 64 \<Longrightarrow>
    wrote (\<lambda>m. rep be t m a v) {a..<a + extent t} (length (encode bo v)) (alloc v) s (Demarshal be bo t bm a b s)"
proof (induction "size t" arbitrary: t m0 a0 v a b s rule: less_induct)
  case less
  show ?case
  proof (cases "IsSimpleType t")
    case True
    then obtain le where v: "v = VB le" "length le = simple_sizeof t" using less.prems(2) by (simp add: rep_simple)
    show ?thesis
      using demarshal_simple [OF True v(2), of bm b bo be a s] less.prems(3) v extent_simple [OF True] by simp
  next
    case simple: False
    from less.prems(1) simple consider n esz e where "t = eMtArray n esz e" | fs where "t = eMtStruct fs"
      by (cases t) (simp_all add: layout_ok.simps)
    then show ?thesis
    proof cases
      case 1
      from less.prems(1,2) 1 obtain vs where v: "v = VS vs" "length vs = n" "rep_loop (rep bo e m0) esz a0 vs"
          and l: "layout_ok e" "extent e \<le> esz"
        by (auto simp: rep.simps layout_ok.simps split: val.splits)
      have ex: "extent t = n * esz" by (subst extent.simps) (simp add: 1)
      have f: "wrote (\<lambda>m. rep be e m a v) {a..<a + extent e} (length (encode bo v)) (alloc v) s (Demarshal be bo e bm a b s)"
        if "v \<in> set vs" "bytes_at bm b (length (encode bo v)) = encode bo v" "a + extent e \<le> brk s" "brk s + alloc v \<le> 2 ^ 64"
        for v a b s
        using rep_loop_all [OF v(3) that(1)] less.hyps [of e, OF _ l(1) _ that(2-4)] 1 by auto
      have "wrote (\<lambda>m. rep_loop (rep be e m) esz a vs) {a..<a + length vs * esz} (length (concat (map (encode bo) vs)))
          (sum_list (map alloc vs)) s (demarshal_loop (Demarshal be bo e bm) (length vs) esz a b s)"
        by (rule demarshal_loop_wrote [OF f l(2)]) (use less.prems(3-5) v ex in simp_all)
      then show ?thesis using 1 v ex by (simp add: Demarshal.simps rep.simps)
    next
      case 2
      from less.prems(1,2) 2 obtain vs where v: "v = VS vs" "rep_fields bo fs [] fs m0 a0 vs" "fields_ok fs 0 0 fs"
        by (auto simp: rep.simps layout_ok.simps split: val.splits)
      have ints: "ints_ok be fs (mem s) a []" by (simp add: ints_ok_def)
      have "wrote (\<lambda>m. rep_fields be fs [] fs m a vs) {a + 0..<a + extent t} (length (concat (map (encode bo) vs)))
          (sum_list (map alloc vs)) s (demarshal_fields be bo fs (length ([] :: val list)) fs bm a b s)"
        by (rule demarshal_fields_wrote [where N = "size t" and pre = "[]" and lo = 0, OF less.hyps extent_field [of _ _ fs, folded 2]])
          (use less.prems(3-5) 2 v ints in simp_all)
      then show ?thesis using 2 v by (simp add: Demarshal.simps rep.simps)
    qed
  qed
qed

section \<open>The parameters of a call\<close>

text \<open>The objects at the addresses \<open>as\<close> have the values \<open>vs\<close>; the bytes they take; \<open>targets_ok\<close>: they do not overlap and end at or below \<open>n\<close>.\<close>

fun rep_array :: "bool \<Rightarrow> cMarshalType list \<Rightarrow> cmem \<Rightarrow> nat list \<Rightarrow> val list \<Rightarrow> bool" where
  "rep_array be [] m as vs = (vs = [])"
| "rep_array be (t # ts) m as [] = False"
| "rep_array be (t # ts) m as (v # vs) = (rep be t m (hd as) v \<and> rep_array be ts m (tl as) vs)"

fun regions :: "cMarshalType list \<Rightarrow> nat list \<Rightarrow> nat set" where
  "regions [] as = {}"
| "regions (t # ts) as = {hd as..<hd as + extent t} \<union> regions ts (tl as)"

fun targets_ok :: "cMarshalType list \<Rightarrow> nat list \<Rightarrow> nat \<Rightarrow> bool" where
  "targets_ok [] as n = True"
| "targets_ok (t # ts) as n =
     (hd as + extent t \<le> n \<and> {hd as..<hd as + extent t} \<inter> regions ts (tl as) = {} \<and> targets_ok ts (tl as) n)"

definition encode_all :: "bool \<Rightarrow> val list \<Rightarrow> u8 list" where
  "encode_all be vs = concat (map (encode be) vs)"

definition alloc_all :: "val list \<Rightarrow> nat" where
  "alloc_all vs = sum_list (map alloc vs)"

lemma encode_all_simps [simp]:
  "encode_all be [] = []" "encode_all be (v # vs) = encode be v @ encode_all be vs"
  "alloc_all [] = 0" "alloc_all (v # vs) = alloc v + alloc_all vs"
  by (simp_all add: encode_all_def alloc_all_def)

lemma marshal_array_encode:
  "list_all layout_ok ts \<Longrightarrow> rep_array be ts m as vs \<Longrightarrow> MarshalArray be ts m as = Inr (encode_all be vs)"
  by (induction be ts m as vs rule: rep_array.induct) (auto dest: marshal_encode)

lemma marshal_array_value:
  "list_all layout_ok ts \<Longrightarrow> MarshalArray be ts m as = Inr bs \<Longrightarrow> \<exists>vs. rep_array be ts m as vs"
proof (induction ts arbitrary: as bs)
  case (Cons t ts)
  then obtain b1 b2 where b: "Marshal be t m (hd as) = Inr b1" "MarshalArray be ts m (tl as) = Inr b2"
    by (auto split: sum.splits)
  obtain v where v: "rep be t m (hd as) v" using marshal_value [OF _ b(1)] Cons.prems(1) by auto
  obtain vs where vs: "rep_array be ts m (tl as) vs" using Cons.IH [OF _ b(2)] Cons.prems(1) by auto
  show ?case using v vs by (intro exI [of _ "v # vs"]) (cases as; simp)
qed (intro exI [of _ "[]"], simp)

lemma regions_below: "targets_ok ts as n \<Longrightarrow> x \<in> regions ts as \<Longrightarrow> x < n"
  by (induction ts as n rule: targets_ok.induct) auto

lemma targets_ok_mono: "targets_ok ts as n \<Longrightarrow> n \<le> k \<Longrightarrow> targets_ok ts as k"
  by (induction ts as n rule: targets_ok.induct) auto

lemma demarshal_array_wrote:
  "list_all layout_ok ts \<Longrightarrow> rep_array bo ts m0 as0 vs \<Longrightarrow>
    bytes_at bm b (length (encode_all bo vs)) = encode_all bo vs \<Longrightarrow>
    targets_ok ts as (brk s) \<Longrightarrow> brk s + alloc_all vs \<le> 2 ^ 64 \<Longrightarrow>
    wrote (\<lambda>m. rep_array be ts m as vs) (regions ts as) (length (encode_all bo vs)) (alloc_all vs) s
      (DemarshalArray be bo ts bm as b s)"
proof (induction ts arbitrary: as0 vs as b s)
  case Nil
  then show ?case by (simp add: wrote_nothing)
next
  case (Cons t ts)
  from Cons.prems(2) obtain v ws where vs: "vs = v # ws" and v: "rep bo t m0 (hd as0) v"
      and ws: "rep_array bo ts m0 (tl as0) ws"
    by (cases vs) simp_all
  let ?w = "encode_all bo ws"
  have b: "bytes_at bm b (length (encode bo v)) = encode bo v"
      "bytes_at bm (b + length (encode bo v)) (length ?w) = ?w"
    using Cons.prems(3) bytes_at_append [of bm b "encode bo v" ?w] by (simp_all add: vs)
  have 1: "wrote (\<lambda>m. rep be t m (hd as) v) {hd as..<hd as + extent t} (length (encode bo v)) (alloc v) s
      (Demarshal be bo t bm (hd as) b s)"
    by (rule demarshal_wrote [OF _ v b(1)]) (use Cons.prems vs in simp_all)
  then obtain s1 where s1: "Demarshal be bo t bm (hd as) b s = Inr (length (encode bo v), s1)" "brk s1 = brk s + alloc v"
    by (auto simp: wrote_def)
  have 2: "wrote (\<lambda>m. rep_array be ts m (tl as) ws) (regions ts (tl as)) (length ?w) (alloc_all ws) s1
      (DemarshalArray be bo ts bm (tl as) (b + length (encode bo v)) s1)"
    by (rule Cons.IH [OF _ ws b(2)]) (use Cons.prems s1(2) vs in \<open>auto intro: targets_ok_mono\<close>)
  then obtain s2 where s2: "DemarshalArray be bo ts bm (tl as) (b + length (encode bo v)) s1 = Inr (length ?w, s2)"
    by (auto simp: wrote_def)
  have "wrote (\<lambda>m. rep be t m (hd as) v \<and> rep_array be ts m (tl as) ws) ({hd as..<hd as + extent t} \<union> regions ts (tl as))
      (length (encode bo v) + length ?w) (alloc v + alloc_all ws) s (Inr (length (encode bo v) + length ?w, s2))"
    by (rule wrote_seq [OF 1 [unfolded s1(1)] 2 [unfolded s2]])
      (use Cons.prems(4) regions_below [of ts "tl as" "brk s"] in auto)
  then show ?case using s1 s2 by (simp add: vs)
qed

lemma wrote_result:
  "wrote R A n k s r \<Longrightarrow> \<exists>s'. r = Inr (n, s') \<and> R (mem s') \<and> brk s' = brk s + k \<and>
     (\<forall>x. mem s' x \<noteq> mem s x \<longrightarrow> x \<in> A \<or> brk s \<le> x \<and> x < brk s')"
  unfolding wrote_def by blast

end
