(* ===== verification/HpiCalls.thy ===== *)
theory HpiCalls
  imports MarshalTypes MarshalProps
begin

text \<open>
  The table of HPI calls (\<^verbatim>\<open>marshal/marshal_hpi.c\<close>, \<^verbatim>\<open>marshal/marshal_hpi.h\<close>): the types of the
  parameters of every request and of every reply, and the functions by which the client library and
  the daemon marshal them. A reply begins with the result of the call; the rest follows only if the
  result is \<open>SA_OK\<close>. The lists end where the null pointer ends them in the code. The functions with
  a fixed number of parameters put them into an array, here the list.
\<close>

section \<open>The types of requests and replies\<close>

definition saHpiSessionOpenIn :: "cMarshalType list" where
  "saHpiSessionOpenIn = [SaHpiDomainIdType]"

definition saHpiSessionOpenOut :: "cMarshalType list" where
  "saHpiSessionOpenOut = [SaErrorType, SaHpiSessionIdType]"

definition saHpiSessionCloseIn :: "cMarshalType list" where
  "saHpiSessionCloseIn = [SaHpiSessionIdType]"

definition saHpiSessionCloseOut :: "cMarshalType list" where
  "saHpiSessionCloseOut = [SaErrorType]"

definition saHpiDiscoverIn :: "cMarshalType list" where
  "saHpiDiscoverIn = [SaHpiSessionIdType]"

definition saHpiDiscoverOut :: "cMarshalType list" where
  "saHpiDiscoverOut = [SaErrorType]"

definition saHpiDomainInfoGetIn :: "cMarshalType list" where
  "saHpiDomainInfoGetIn = [SaHpiSessionIdType]"

definition saHpiDomainInfoGetOut :: "cMarshalType list" where
  "saHpiDomainInfoGetOut = [SaErrorType, SaHpiDomainInfoType]"

definition saHpiDrtEntryGetIn :: "cMarshalType list" where
  "saHpiDrtEntryGetIn = [SaHpiSessionIdType, SaHpiEntryIdType]"

definition saHpiDrtEntryGetOut :: "cMarshalType list" where
  "saHpiDrtEntryGetOut = [SaErrorType, SaHpiEntryIdType, SaHpiDrtEntryType]"

definition saHpiDomainTagSetIn :: "cMarshalType list" where
  "saHpiDomainTagSetIn = [SaHpiSessionIdType, SaHpiTextBufferType]"

definition saHpiDomainTagSetOut :: "cMarshalType list" where
  "saHpiDomainTagSetOut = [SaErrorType]"

definition saHpiRptEntryGetIn :: "cMarshalType list" where
  "saHpiRptEntryGetIn = [SaHpiSessionIdType, SaHpiEntryIdType]"

definition saHpiRptEntryGetOut :: "cMarshalType list" where
  "saHpiRptEntryGetOut = [SaErrorType, SaHpiEntryIdType, SaHpiRptEntryType]"

definition saHpiRptEntryGetByResourceIdIn :: "cMarshalType list" where
  "saHpiRptEntryGetByResourceIdIn = [SaHpiSessionIdType, SaHpiResourceIdType]"

definition saHpiRptEntryGetByResourceIdOut :: "cMarshalType list" where
  "saHpiRptEntryGetByResourceIdOut = [SaErrorType, SaHpiRptEntryType]"

definition saHpiResourceSeveritySetIn :: "cMarshalType list" where
  "saHpiResourceSeveritySetIn = [SaHpiSessionIdType, SaHpiResourceIdType, SaHpiSeverityType]"

definition saHpiResourceSeveritySetOut :: "cMarshalType list" where
  "saHpiResourceSeveritySetOut = [SaErrorType]"

definition saHpiResourceTagSetIn :: "cMarshalType list" where
  "saHpiResourceTagSetIn = [SaHpiSessionIdType, SaHpiResourceIdType, SaHpiTextBufferType]"

definition saHpiResourceTagSetOut :: "cMarshalType list" where
  "saHpiResourceTagSetOut = [SaErrorType]"

definition saHpiMyEntityPathGetIn :: "cMarshalType list" where
  "saHpiMyEntityPathGetIn = [SaHpiSessionIdType]"

definition saHpiMyEntityPathGetOut :: "cMarshalType list" where
  "saHpiMyEntityPathGetOut = [SaErrorType, SaHpiEntityPathType]"

definition saHpiResourceIdGetIn :: "cMarshalType list" where
  "saHpiResourceIdGetIn = [SaHpiSessionIdType]"

definition saHpiResourceIdGetOut :: "cMarshalType list" where
  "saHpiResourceIdGetOut = [SaErrorType, SaHpiResourceIdType]"

definition saHpiGetIdByEntityPathIn :: "cMarshalType list" where
  "saHpiGetIdByEntityPathIn =
     [SaHpiSessionIdType, SaHpiEntityPathType, SaHpiRdrTypeType, SaHpiUint32Type]"

definition saHpiGetIdByEntityPathOut :: "cMarshalType list" where
  "saHpiGetIdByEntityPathOut =
     [SaErrorType, SaHpiUint32Type, SaHpiResourceIdType, SaHpiInstrumentIdType, SaHpiUint32Type]"

definition saHpiGetChildEntityPathIn :: "cMarshalType list" where
  "saHpiGetChildEntityPathIn = [SaHpiSessionIdType, SaHpiEntityPathType, SaHpiUint32Type]"

definition saHpiGetChildEntityPathOut :: "cMarshalType list" where
  "saHpiGetChildEntityPathOut =
     [SaErrorType, SaHpiUint32Type, SaHpiEntityPathType, SaHpiUint32Type]"

definition saHpiResourceFailedRemoveIn :: "cMarshalType list" where
  "saHpiResourceFailedRemoveIn = [SaHpiSessionIdType, SaHpiResourceIdType]"

definition saHpiResourceFailedRemoveOut :: "cMarshalType list" where
  "saHpiResourceFailedRemoveOut = [SaErrorType]"

definition saHpiEventLogInfoGetIn :: "cMarshalType list" where
  "saHpiEventLogInfoGetIn = [SaHpiSessionIdType, SaHpiResourceIdType]"

definition saHpiEventLogInfoGetOut :: "cMarshalType list" where
  "saHpiEventLogInfoGetOut = [SaErrorType, SaHpiEventLogInfoType]"

definition saHpiEventLogCapabilitiesGetIn :: "cMarshalType list" where
  "saHpiEventLogCapabilitiesGetIn = [SaHpiSessionIdType, SaHpiResourceIdType]"

definition saHpiEventLogCapabilitiesGetOut :: "cMarshalType list" where
  "saHpiEventLogCapabilitiesGetOut = [SaErrorType, SaHpiEventLogCapabilitiesType]"

definition saHpiEventLogEntryGetIn :: "cMarshalType list" where
  "saHpiEventLogEntryGetIn = [SaHpiSessionIdType, SaHpiResourceIdType, SaHpiEventLogEntryIdType]"

definition saHpiEventLogEntryGetOut :: "cMarshalType list" where
  "saHpiEventLogEntryGetOut =
     [SaErrorType, SaHpiEventLogEntryIdType, SaHpiEventLogEntryIdType, SaHpiEventLogEntryType,
     SaHpiRdrType, SaHpiRptEntryType]"

definition saHpiEventLogEntryAddIn :: "cMarshalType list" where
  "saHpiEventLogEntryAddIn = [SaHpiSessionIdType, SaHpiResourceIdType, SaHpiEventType]"

definition saHpiEventLogEntryAddOut :: "cMarshalType list" where
  "saHpiEventLogEntryAddOut = [SaErrorType]"

definition saHpiEventLogClearIn :: "cMarshalType list" where
  "saHpiEventLogClearIn = [SaHpiSessionIdType, SaHpiResourceIdType]"

definition saHpiEventLogClearOut :: "cMarshalType list" where
  "saHpiEventLogClearOut = [SaErrorType]"

definition saHpiEventLogTimeGetIn :: "cMarshalType list" where
  "saHpiEventLogTimeGetIn = [SaHpiSessionIdType, SaHpiResourceIdType]"

definition saHpiEventLogTimeGetOut :: "cMarshalType list" where
  "saHpiEventLogTimeGetOut = [SaErrorType, SaHpiTimeType]"

definition saHpiEventLogTimeSetIn :: "cMarshalType list" where
  "saHpiEventLogTimeSetIn = [SaHpiSessionIdType, SaHpiResourceIdType, SaHpiTimeType]"

definition saHpiEventLogTimeSetOut :: "cMarshalType list" where
  "saHpiEventLogTimeSetOut = [SaErrorType]"

definition saHpiEventLogStateGetIn :: "cMarshalType list" where
  "saHpiEventLogStateGetIn = [SaHpiSessionIdType, SaHpiResourceIdType]"

definition saHpiEventLogStateGetOut :: "cMarshalType list" where
  "saHpiEventLogStateGetOut = [SaErrorType, SaHpiBoolType]"

definition saHpiEventLogStateSetIn :: "cMarshalType list" where
  "saHpiEventLogStateSetIn = [SaHpiSessionIdType, SaHpiResourceIdType, SaHpiBoolType]"

definition saHpiEventLogStateSetOut :: "cMarshalType list" where
  "saHpiEventLogStateSetOut = [SaErrorType]"

definition saHpiEventLogOverflowResetIn :: "cMarshalType list" where
  "saHpiEventLogOverflowResetIn = [SaHpiSessionIdType, SaHpiResourceIdType]"

definition saHpiEventLogOverflowResetOut :: "cMarshalType list" where
  "saHpiEventLogOverflowResetOut = [SaErrorType]"

definition saHpiSubscribeIn :: "cMarshalType list" where
  "saHpiSubscribeIn = [SaHpiSessionIdType]"

definition saHpiSubscribeOut :: "cMarshalType list" where
  "saHpiSubscribeOut = [SaErrorType]"

definition saHpiUnsubscribeIn :: "cMarshalType list" where
  "saHpiUnsubscribeIn = [SaHpiSessionIdType]"

definition saHpiUnsubscribeOut :: "cMarshalType list" where
  "saHpiUnsubscribeOut = [SaErrorType]"

definition saHpiEventGetIn :: "cMarshalType list" where
  "saHpiEventGetIn = [SaHpiSessionIdType, SaHpiTimeoutType]"

definition saHpiEventGetOut :: "cMarshalType list" where
  "saHpiEventGetOut =
     [SaErrorType, SaHpiEventType, SaHpiRdrType, SaHpiRptEntryType, SaHpiEvtQueueStatusType]"

definition saHpiEventAddIn :: "cMarshalType list" where
  "saHpiEventAddIn = [SaHpiSessionIdType, SaHpiEventType]"

definition saHpiEventAddOut :: "cMarshalType list" where
  "saHpiEventAddOut = [SaErrorType]"

definition saHpiAlarmGetNextIn :: "cMarshalType list" where
  "saHpiAlarmGetNextIn = [SaHpiSessionIdType, SaHpiSeverityType, SaHpiBoolType, SaHpiAlarmType]"

definition saHpiAlarmGetNextOut :: "cMarshalType list" where
  "saHpiAlarmGetNextOut = [SaErrorType, SaHpiAlarmType]"

definition saHpiAlarmGetIn :: "cMarshalType list" where
  "saHpiAlarmGetIn = [SaHpiSessionIdType, SaHpiAlarmIdType]"

definition saHpiAlarmGetOut :: "cMarshalType list" where
  "saHpiAlarmGetOut = [SaErrorType, SaHpiAlarmType]"

definition saHpiAlarmAcknowledgeIn :: "cMarshalType list" where
  "saHpiAlarmAcknowledgeIn = [SaHpiSessionIdType, SaHpiAlarmIdType, SaHpiSeverityType]"

definition saHpiAlarmAcknowledgeOut :: "cMarshalType list" where
  "saHpiAlarmAcknowledgeOut = [SaErrorType]"

definition saHpiAlarmAddIn :: "cMarshalType list" where
  "saHpiAlarmAddIn = [SaHpiSessionIdType, SaHpiAlarmType]"

definition saHpiAlarmAddOut :: "cMarshalType list" where
  "saHpiAlarmAddOut = [SaErrorType, SaHpiAlarmType]"

definition saHpiAlarmDeleteIn :: "cMarshalType list" where
  "saHpiAlarmDeleteIn = [SaHpiSessionIdType, SaHpiAlarmIdType, SaHpiSeverityType]"

definition saHpiAlarmDeleteOut :: "cMarshalType list" where
  "saHpiAlarmDeleteOut = [SaErrorType]"

definition saHpiRdrGetIn :: "cMarshalType list" where
  "saHpiRdrGetIn = [SaHpiSessionIdType, SaHpiResourceIdType, SaHpiEntryIdType]"

definition saHpiRdrGetOut :: "cMarshalType list" where
  "saHpiRdrGetOut = [SaErrorType, SaHpiEntryIdType, SaHpiRdrType]"

definition saHpiRdrGetByInstrumentIdIn :: "cMarshalType list" where
  "saHpiRdrGetByInstrumentIdIn =
     [SaHpiSessionIdType, SaHpiResourceIdType, SaHpiRdrTypeType, SaHpiInstrumentIdType]"

definition saHpiRdrGetByInstrumentIdOut :: "cMarshalType list" where
  "saHpiRdrGetByInstrumentIdOut = [SaErrorType, SaHpiRdrType]"

definition saHpiRdrUpdateCountGetIn :: "cMarshalType list" where
  "saHpiRdrUpdateCountGetIn = [SaHpiSessionIdType, SaHpiResourceIdType]"

definition saHpiRdrUpdateCountGetOut :: "cMarshalType list" where
  "saHpiRdrUpdateCountGetOut = [SaErrorType, SaHpiUint32Type]"

definition saHpiSensorReadingGetIn :: "cMarshalType list" where
  "saHpiSensorReadingGetIn = [SaHpiSessionIdType, SaHpiResourceIdType, SaHpiSensorNumType]"

definition saHpiSensorReadingGetOut :: "cMarshalType list" where
  "saHpiSensorReadingGetOut = [SaErrorType, SaHpiSensorReadingType, SaHpiEventStateType]"

definition saHpiSensorThresholdsGetIn :: "cMarshalType list" where
  "saHpiSensorThresholdsGetIn = [SaHpiSessionIdType, SaHpiResourceIdType, SaHpiSensorNumType]"

definition saHpiSensorThresholdsGetOut :: "cMarshalType list" where
  "saHpiSensorThresholdsGetOut = [SaErrorType, SaHpiSensorThresholdsType]"

definition saHpiSensorThresholdsSetIn :: "cMarshalType list" where
  "saHpiSensorThresholdsSetIn =
     [SaHpiSessionIdType, SaHpiResourceIdType, SaHpiSensorNumType, SaHpiSensorThresholdsType]"

definition saHpiSensorThresholdsSetOut :: "cMarshalType list" where
  "saHpiSensorThresholdsSetOut = [SaErrorType]"

definition saHpiSensorTypeGetIn :: "cMarshalType list" where
  "saHpiSensorTypeGetIn = [SaHpiSessionIdType, SaHpiResourceIdType, SaHpiSensorNumType]"

definition saHpiSensorTypeGetOut :: "cMarshalType list" where
  "saHpiSensorTypeGetOut = [SaErrorType, SaHpiSensorTypeType, SaHpiEventCategoryType]"

definition saHpiSensorEnableGetIn :: "cMarshalType list" where
  "saHpiSensorEnableGetIn = [SaHpiSessionIdType, SaHpiResourceIdType, SaHpiSensorNumType]"

definition saHpiSensorEnableGetOut :: "cMarshalType list" where
  "saHpiSensorEnableGetOut = [SaErrorType, SaHpiBoolType]"

definition saHpiSensorEnableSetIn :: "cMarshalType list" where
  "saHpiSensorEnableSetIn =
     [SaHpiSessionIdType, SaHpiResourceIdType, SaHpiSensorNumType, SaHpiBoolType]"

definition saHpiSensorEnableSetOut :: "cMarshalType list" where
  "saHpiSensorEnableSetOut = [SaErrorType]"

definition saHpiSensorEventEnableGetIn :: "cMarshalType list" where
  "saHpiSensorEventEnableGetIn = [SaHpiSessionIdType, SaHpiResourceIdType, SaHpiSensorNumType]"

definition saHpiSensorEventEnableGetOut :: "cMarshalType list" where
  "saHpiSensorEventEnableGetOut = [SaErrorType, SaHpiBoolType]"

definition saHpiSensorEventEnableSetIn :: "cMarshalType list" where
  "saHpiSensorEventEnableSetIn =
     [SaHpiSessionIdType, SaHpiResourceIdType, SaHpiSensorNumType, SaHpiBoolType]"

definition saHpiSensorEventEnableSetOut :: "cMarshalType list" where
  "saHpiSensorEventEnableSetOut = [SaErrorType]"

definition saHpiSensorEventMasksGetIn :: "cMarshalType list" where
  "saHpiSensorEventMasksGetIn =
     [SaHpiSessionIdType, SaHpiResourceIdType, SaHpiSensorNumType, SaHpiEventStateType,
     SaHpiEventStateType]"

definition saHpiSensorEventMasksGetOut :: "cMarshalType list" where
  "saHpiSensorEventMasksGetOut = [SaErrorType, SaHpiEventStateType, SaHpiEventStateType]"

definition saHpiSensorEventMasksSetIn :: "cMarshalType list" where
  "saHpiSensorEventMasksSetIn =
     [SaHpiSessionIdType, SaHpiResourceIdType, SaHpiSensorNumType, SaHpiUint32Type,
     SaHpiEventStateType, SaHpiEventStateType]"

definition saHpiSensorEventMasksSetOut :: "cMarshalType list" where
  "saHpiSensorEventMasksSetOut = [SaErrorType]"

definition saHpiControlTypeGetIn :: "cMarshalType list" where
  "saHpiControlTypeGetIn = [SaHpiSessionIdType, SaHpiResourceIdType, SaHpiCtrlNumType]"

definition saHpiControlTypeGetOut :: "cMarshalType list" where
  "saHpiControlTypeGetOut = [SaErrorType, SaHpiCtrlTypeType]"

definition saHpiControlGetIn :: "cMarshalType list" where
  "saHpiControlGetIn =
     [SaHpiSessionIdType, SaHpiResourceIdType, SaHpiCtrlNumType, SaHpiCtrlStateType]"

definition saHpiControlGetOut :: "cMarshalType list" where
  "saHpiControlGetOut = [SaErrorType, SaHpiCtrlModeType, SaHpiCtrlStateType]"

definition saHpiControlSetIn :: "cMarshalType list" where
  "saHpiControlSetIn =
     [SaHpiSessionIdType, SaHpiResourceIdType, SaHpiCtrlNumType, SaHpiCtrlModeType,
     SaHpiCtrlStateType]"

definition saHpiControlSetOut :: "cMarshalType list" where
  "saHpiControlSetOut = [SaErrorType]"

definition saHpiIdrInfoGetIn :: "cMarshalType list" where
  "saHpiIdrInfoGetIn = [SaHpiSessionIdType, SaHpiResourceIdType, SaHpiIdrIdType]"

definition saHpiIdrInfoGetOut :: "cMarshalType list" where
  "saHpiIdrInfoGetOut = [SaErrorType, SaHpiIdrInfoType]"

definition saHpiIdrAreaHeaderGetIn :: "cMarshalType list" where
  "saHpiIdrAreaHeaderGetIn =
     [SaHpiSessionIdType, SaHpiResourceIdType, SaHpiIdrIdType, SaHpiIdrAreaTypeType,
     SaHpiEntryIdType]"

definition saHpiIdrAreaHeaderGetOut :: "cMarshalType list" where
  "saHpiIdrAreaHeaderGetOut = [SaErrorType, SaHpiEntryIdType, SaHpiIdrAreaHeaderType]"

definition saHpiIdrAreaAddIn :: "cMarshalType list" where
  "saHpiIdrAreaAddIn =
     [SaHpiSessionIdType, SaHpiResourceIdType, SaHpiIdrIdType, SaHpiIdrAreaTypeType]"

definition saHpiIdrAreaAddOut :: "cMarshalType list" where
  "saHpiIdrAreaAddOut = [SaErrorType, SaHpiEntryIdType]"

definition saHpiIdrAreaAddByIdIn :: "cMarshalType list" where
  "saHpiIdrAreaAddByIdIn =
     [SaHpiSessionIdType, SaHpiResourceIdType, SaHpiIdrIdType, SaHpiIdrAreaTypeType,
     SaHpiEntryIdType]"

definition saHpiIdrAreaAddByIdOut :: "cMarshalType list" where
  "saHpiIdrAreaAddByIdOut = [SaErrorType]"

definition saHpiIdrAreaDeleteIn :: "cMarshalType list" where
  "saHpiIdrAreaDeleteIn =
     [SaHpiSessionIdType, SaHpiResourceIdType, SaHpiIdrIdType, SaHpiEntryIdType]"

definition saHpiIdrAreaDeleteOut :: "cMarshalType list" where
  "saHpiIdrAreaDeleteOut = [SaErrorType]"

definition saHpiIdrFieldGetIn :: "cMarshalType list" where
  "saHpiIdrFieldGetIn =
     [SaHpiSessionIdType, SaHpiResourceIdType, SaHpiIdrIdType, SaHpiEntryIdType,
     SaHpiIdrFieldTypeType, SaHpiEntryIdType]"

definition saHpiIdrFieldGetOut :: "cMarshalType list" where
  "saHpiIdrFieldGetOut = [SaErrorType, SaHpiEntryIdType, SaHpiIdrFieldType]"

definition saHpiIdrFieldAddIn :: "cMarshalType list" where
  "saHpiIdrFieldAddIn =
     [SaHpiSessionIdType, SaHpiResourceIdType, SaHpiIdrIdType, SaHpiIdrFieldType]"

definition saHpiIdrFieldAddOut :: "cMarshalType list" where
  "saHpiIdrFieldAddOut = [SaErrorType, SaHpiIdrFieldType]"

definition saHpiIdrFieldAddByIdIn :: "cMarshalType list" where
  "saHpiIdrFieldAddByIdIn =
     [SaHpiSessionIdType, SaHpiResourceIdType, SaHpiIdrIdType, SaHpiIdrFieldType]"

definition saHpiIdrFieldAddByIdOut :: "cMarshalType list" where
  "saHpiIdrFieldAddByIdOut = [SaErrorType, SaHpiIdrFieldType]"

definition saHpiIdrFieldSetIn :: "cMarshalType list" where
  "saHpiIdrFieldSetIn =
     [SaHpiSessionIdType, SaHpiResourceIdType, SaHpiIdrIdType, SaHpiIdrFieldType]"

definition saHpiIdrFieldSetOut :: "cMarshalType list" where
  "saHpiIdrFieldSetOut = [SaErrorType]"

definition saHpiIdrFieldDeleteIn :: "cMarshalType list" where
  "saHpiIdrFieldDeleteIn =
     [SaHpiSessionIdType, SaHpiResourceIdType, SaHpiIdrIdType, SaHpiEntryIdType, SaHpiEntryIdType]"

definition saHpiIdrFieldDeleteOut :: "cMarshalType list" where
  "saHpiIdrFieldDeleteOut = [SaErrorType]"

definition saHpiWatchdogTimerGetIn :: "cMarshalType list" where
  "saHpiWatchdogTimerGetIn = [SaHpiSessionIdType, SaHpiResourceIdType, SaHpiWatchdogNumType]"

definition saHpiWatchdogTimerGetOut :: "cMarshalType list" where
  "saHpiWatchdogTimerGetOut = [SaErrorType, SaHpiWatchdogType]"

definition saHpiWatchdogTimerSetIn :: "cMarshalType list" where
  "saHpiWatchdogTimerSetIn =
     [SaHpiSessionIdType, SaHpiResourceIdType, SaHpiWatchdogNumType, SaHpiWatchdogType]"

definition saHpiWatchdogTimerSetOut :: "cMarshalType list" where
  "saHpiWatchdogTimerSetOut = [SaErrorType]"

definition saHpiWatchdogTimerResetIn :: "cMarshalType list" where
  "saHpiWatchdogTimerResetIn = [SaHpiSessionIdType, SaHpiResourceIdType, SaHpiWatchdogNumType]"

definition saHpiWatchdogTimerResetOut :: "cMarshalType list" where
  "saHpiWatchdogTimerResetOut = [SaErrorType]"

definition saHpiAnnunciatorGetNextIn :: "cMarshalType list" where
  "saHpiAnnunciatorGetNextIn =
     [SaHpiSessionIdType, SaHpiResourceIdType, SaHpiAnnunciatorNumType, SaHpiSeverityType,
     SaHpiBoolType, SaHpiAnnouncementType]"

definition saHpiAnnunciatorGetNextOut :: "cMarshalType list" where
  "saHpiAnnunciatorGetNextOut = [SaErrorType, SaHpiAnnouncementType]"

definition saHpiAnnunciatorGetIn :: "cMarshalType list" where
  "saHpiAnnunciatorGetIn =
     [SaHpiSessionIdType, SaHpiResourceIdType, SaHpiAnnunciatorNumType, SaHpiEntryIdType]"

definition saHpiAnnunciatorGetOut :: "cMarshalType list" where
  "saHpiAnnunciatorGetOut = [SaErrorType, SaHpiAnnouncementType]"

definition saHpiAnnunciatorAcknowledgeIn :: "cMarshalType list" where
  "saHpiAnnunciatorAcknowledgeIn =
     [SaHpiSessionIdType, SaHpiResourceIdType, SaHpiAnnunciatorNumType, SaHpiEntryIdType,
     SaHpiSeverityType]"

definition saHpiAnnunciatorAcknowledgeOut :: "cMarshalType list" where
  "saHpiAnnunciatorAcknowledgeOut = [SaErrorType]"

definition saHpiAnnunciatorAddIn :: "cMarshalType list" where
  "saHpiAnnunciatorAddIn =
     [SaHpiSessionIdType, SaHpiResourceIdType, SaHpiAnnunciatorNumType, SaHpiAnnouncementType]"

definition saHpiAnnunciatorAddOut :: "cMarshalType list" where
  "saHpiAnnunciatorAddOut = [SaErrorType, SaHpiAnnouncementType]"

definition saHpiAnnunciatorDeleteIn :: "cMarshalType list" where
  "saHpiAnnunciatorDeleteIn =
     [SaHpiSessionIdType, SaHpiResourceIdType, SaHpiAnnunciatorNumType, SaHpiEntryIdType,
     SaHpiSeverityType]"

definition saHpiAnnunciatorDeleteOut :: "cMarshalType list" where
  "saHpiAnnunciatorDeleteOut = [SaErrorType]"

definition saHpiAnnunciatorModeGetIn :: "cMarshalType list" where
  "saHpiAnnunciatorModeGetIn = [SaHpiSessionIdType, SaHpiResourceIdType, SaHpiAnnunciatorNumType]"

definition saHpiAnnunciatorModeGetOut :: "cMarshalType list" where
  "saHpiAnnunciatorModeGetOut = [SaErrorType, SaHpiAnnunciatorModeType]"

definition saHpiAnnunciatorModeSetIn :: "cMarshalType list" where
  "saHpiAnnunciatorModeSetIn =
     [SaHpiSessionIdType, SaHpiResourceIdType, SaHpiAnnunciatorNumType, SaHpiAnnunciatorModeType]"

definition saHpiAnnunciatorModeSetOut :: "cMarshalType list" where
  "saHpiAnnunciatorModeSetOut = [SaErrorType]"

definition saHpiDimiInfoGetIn :: "cMarshalType list" where
  "saHpiDimiInfoGetIn = [SaHpiSessionIdType, SaHpiResourceIdType, SaHpiDimiNumType]"

definition saHpiDimiInfoGetOut :: "cMarshalType list" where
  "saHpiDimiInfoGetOut = [SaErrorType, SaHpiDimiInfoType]"

definition saHpiDimiTestInfoGetIn :: "cMarshalType list" where
  "saHpiDimiTestInfoGetIn =
     [SaHpiSessionIdType, SaHpiResourceIdType, SaHpiDimiNumType, SaHpiDimiTestNumType]"

definition saHpiDimiTestInfoGetOut :: "cMarshalType list" where
  "saHpiDimiTestInfoGetOut = [SaErrorType, SaHpiDimiTestType]"

definition saHpiDimiTestReadinessGetIn :: "cMarshalType list" where
  "saHpiDimiTestReadinessGetIn =
     [SaHpiSessionIdType, SaHpiResourceIdType, SaHpiDimiNumType, SaHpiDimiTestNumType]"

definition saHpiDimiTestReadinessGetOut :: "cMarshalType list" where
  "saHpiDimiTestReadinessGetOut = [SaErrorType, SaHpiDimiReadyType]"

definition saHpiDimiTestStartIn :: "cMarshalType list" where
  "saHpiDimiTestStartIn =
     [SaHpiSessionIdType, SaHpiResourceIdType, SaHpiDimiNumType, SaHpiDimiTestNumType,
     SaHpiDimiTestVariableParamsListType]"

definition saHpiDimiTestStartOut :: "cMarshalType list" where
  "saHpiDimiTestStartOut = [SaErrorType]"

definition saHpiDimiTestCancelIn :: "cMarshalType list" where
  "saHpiDimiTestCancelIn =
     [SaHpiSessionIdType, SaHpiResourceIdType, SaHpiDimiNumType, SaHpiDimiTestNumType]"

definition saHpiDimiTestCancelOut :: "cMarshalType list" where
  "saHpiDimiTestCancelOut = [SaErrorType]"

definition saHpiDimiTestStatusGetIn :: "cMarshalType list" where
  "saHpiDimiTestStatusGetIn =
     [SaHpiSessionIdType, SaHpiResourceIdType, SaHpiDimiNumType, SaHpiDimiTestNumType]"

definition saHpiDimiTestStatusGetOut :: "cMarshalType list" where
  "saHpiDimiTestStatusGetOut =
     [SaErrorType, SaHpiDimiTestPercentCompletedType, SaHpiDimiTestRunStatusType]"

definition saHpiDimiTestResultsGetIn :: "cMarshalType list" where
  "saHpiDimiTestResultsGetIn =
     [SaHpiSessionIdType, SaHpiResourceIdType, SaHpiDimiNumType, SaHpiDimiTestNumType]"

definition saHpiDimiTestResultsGetOut :: "cMarshalType list" where
  "saHpiDimiTestResultsGetOut = [SaErrorType, SaHpiDimiTestResultsType]"

definition saHpiFumiSpecInfoGetIn :: "cMarshalType list" where
  "saHpiFumiSpecInfoGetIn = [SaHpiSessionIdType, SaHpiResourceIdType, SaHpiFumiNumType]"

definition saHpiFumiSpecInfoGetOut :: "cMarshalType list" where
  "saHpiFumiSpecInfoGetOut = [SaErrorType, SaHpiFumiSpecInfoType]"

definition saHpiFumiServiceImpactGetIn :: "cMarshalType list" where
  "saHpiFumiServiceImpactGetIn = [SaHpiSessionIdType, SaHpiResourceIdType, SaHpiFumiNumType]"

definition saHpiFumiServiceImpactGetOut :: "cMarshalType list" where
  "saHpiFumiServiceImpactGetOut = [SaErrorType, SaHpiFumiServiceImpactDataType]"

definition saHpiFumiSourceSetIn :: "cMarshalType list" where
  "saHpiFumiSourceSetIn =
     [SaHpiSessionIdType, SaHpiResourceIdType, SaHpiFumiNumType, SaHpiBankNumType,
     SaHpiTextBufferType]"

definition saHpiFumiSourceSetOut :: "cMarshalType list" where
  "saHpiFumiSourceSetOut = [SaErrorType]"

definition saHpiFumiSourceInfoValidateStartIn :: "cMarshalType list" where
  "saHpiFumiSourceInfoValidateStartIn =
     [SaHpiSessionIdType, SaHpiResourceIdType, SaHpiFumiNumType, SaHpiBankNumType]"

definition saHpiFumiSourceInfoValidateStartOut :: "cMarshalType list" where
  "saHpiFumiSourceInfoValidateStartOut = [SaErrorType]"

definition saHpiFumiSourceInfoGetIn :: "cMarshalType list" where
  "saHpiFumiSourceInfoGetIn =
     [SaHpiSessionIdType, SaHpiResourceIdType, SaHpiFumiNumType, SaHpiBankNumType]"

definition saHpiFumiSourceInfoGetOut :: "cMarshalType list" where
  "saHpiFumiSourceInfoGetOut = [SaErrorType, SaHpiFumiSourceInfoType]"

definition saHpiFumiSourceComponentInfoGetIn :: "cMarshalType list" where
  "saHpiFumiSourceComponentInfoGetIn =
     [SaHpiSessionIdType, SaHpiResourceIdType, SaHpiFumiNumType, SaHpiBankNumType, SaHpiEntryIdType]"

definition saHpiFumiSourceComponentInfoGetOut :: "cMarshalType list" where
  "saHpiFumiSourceComponentInfoGetOut = [SaErrorType, SaHpiEntryIdType, SaHpiFumiComponentInfoType]"

definition saHpiFumiTargetInfoGetIn :: "cMarshalType list" where
  "saHpiFumiTargetInfoGetIn =
     [SaHpiSessionIdType, SaHpiResourceIdType, SaHpiFumiNumType, SaHpiBankNumType]"

definition saHpiFumiTargetInfoGetOut :: "cMarshalType list" where
  "saHpiFumiTargetInfoGetOut = [SaErrorType, SaHpiFumiBankInfoType]"

definition saHpiFumiTargetComponentInfoGetIn :: "cMarshalType list" where
  "saHpiFumiTargetComponentInfoGetIn =
     [SaHpiSessionIdType, SaHpiResourceIdType, SaHpiFumiNumType, SaHpiBankNumType, SaHpiEntryIdType]"

definition saHpiFumiTargetComponentInfoGetOut :: "cMarshalType list" where
  "saHpiFumiTargetComponentInfoGetOut = [SaErrorType, SaHpiEntryIdType, SaHpiFumiComponentInfoType]"

definition saHpiFumiLogicalTargetInfoGetIn :: "cMarshalType list" where
  "saHpiFumiLogicalTargetInfoGetIn = [SaHpiSessionIdType, SaHpiResourceIdType, SaHpiFumiNumType]"

definition saHpiFumiLogicalTargetInfoGetOut :: "cMarshalType list" where
  "saHpiFumiLogicalTargetInfoGetOut = [SaErrorType, SaHpiFumiLogicalBankInfoType]"

definition saHpiFumiLogicalTargetComponentInfoGetIn :: "cMarshalType list" where
  "saHpiFumiLogicalTargetComponentInfoGetIn =
     [SaHpiSessionIdType, SaHpiResourceIdType, SaHpiFumiNumType, SaHpiEntryIdType]"

definition saHpiFumiLogicalTargetComponentInfoGetOut :: "cMarshalType list" where
  "saHpiFumiLogicalTargetComponentInfoGetOut =
     [SaErrorType, SaHpiEntryIdType, SaHpiFumiLogicalComponentInfoType]"

definition saHpiFumiBackupStartIn :: "cMarshalType list" where
  "saHpiFumiBackupStartIn = [SaHpiSessionIdType, SaHpiResourceIdType, SaHpiFumiNumType]"

definition saHpiFumiBackupStartOut :: "cMarshalType list" where
  "saHpiFumiBackupStartOut = [SaErrorType]"

definition saHpiFumiBankBootOrderSetIn :: "cMarshalType list" where
  "saHpiFumiBankBootOrderSetIn =
     [SaHpiSessionIdType, SaHpiResourceIdType, SaHpiFumiNumType, SaHpiBankNumType, SaHpiUint32Type]"

definition saHpiFumiBankBootOrderSetOut :: "cMarshalType list" where
  "saHpiFumiBankBootOrderSetOut = [SaErrorType]"

definition saHpiFumiBankCopyStartIn :: "cMarshalType list" where
  "saHpiFumiBankCopyStartIn =
     [SaHpiSessionIdType, SaHpiResourceIdType, SaHpiFumiNumType, SaHpiBankNumType, SaHpiBankNumType]"

definition saHpiFumiBankCopyStartOut :: "cMarshalType list" where
  "saHpiFumiBankCopyStartOut = [SaErrorType]"

definition saHpiFumiInstallStartIn :: "cMarshalType list" where
  "saHpiFumiInstallStartIn =
     [SaHpiSessionIdType, SaHpiResourceIdType, SaHpiFumiNumType, SaHpiBankNumType]"

definition saHpiFumiInstallStartOut :: "cMarshalType list" where
  "saHpiFumiInstallStartOut = [SaErrorType]"

definition saHpiFumiUpgradeStatusGetIn :: "cMarshalType list" where
  "saHpiFumiUpgradeStatusGetIn =
     [SaHpiSessionIdType, SaHpiResourceIdType, SaHpiFumiNumType, SaHpiBankNumType]"

definition saHpiFumiUpgradeStatusGetOut :: "cMarshalType list" where
  "saHpiFumiUpgradeStatusGetOut = [SaErrorType, SaHpiFumiUpgradeStatusType]"

definition saHpiFumiTargetVerifyStartIn :: "cMarshalType list" where
  "saHpiFumiTargetVerifyStartIn =
     [SaHpiSessionIdType, SaHpiResourceIdType, SaHpiFumiNumType, SaHpiBankNumType]"

definition saHpiFumiTargetVerifyStartOut :: "cMarshalType list" where
  "saHpiFumiTargetVerifyStartOut = [SaErrorType]"

definition saHpiFumiTargetVerifyMainStartIn :: "cMarshalType list" where
  "saHpiFumiTargetVerifyMainStartIn = [SaHpiSessionIdType, SaHpiResourceIdType, SaHpiFumiNumType]"

definition saHpiFumiTargetVerifyMainStartOut :: "cMarshalType list" where
  "saHpiFumiTargetVerifyMainStartOut = [SaErrorType]"

definition saHpiFumiUpgradeCancelIn :: "cMarshalType list" where
  "saHpiFumiUpgradeCancelIn =
     [SaHpiSessionIdType, SaHpiResourceIdType, SaHpiFumiNumType, SaHpiBankNumType]"

definition saHpiFumiUpgradeCancelOut :: "cMarshalType list" where
  "saHpiFumiUpgradeCancelOut = [SaErrorType]"

definition saHpiFumiAutoRollbackDisableGetIn :: "cMarshalType list" where
  "saHpiFumiAutoRollbackDisableGetIn = [SaHpiSessionIdType, SaHpiResourceIdType, SaHpiFumiNumType]"

definition saHpiFumiAutoRollbackDisableGetOut :: "cMarshalType list" where
  "saHpiFumiAutoRollbackDisableGetOut = [SaErrorType, SaHpiBoolType]"

definition saHpiFumiAutoRollbackDisableSetIn :: "cMarshalType list" where
  "saHpiFumiAutoRollbackDisableSetIn =
     [SaHpiSessionIdType, SaHpiResourceIdType, SaHpiFumiNumType, SaHpiBoolType]"

definition saHpiFumiAutoRollbackDisableSetOut :: "cMarshalType list" where
  "saHpiFumiAutoRollbackDisableSetOut = [SaErrorType]"

definition saHpiFumiRollbackStartIn :: "cMarshalType list" where
  "saHpiFumiRollbackStartIn = [SaHpiSessionIdType, SaHpiResourceIdType, SaHpiFumiNumType]"

definition saHpiFumiRollbackStartOut :: "cMarshalType list" where
  "saHpiFumiRollbackStartOut = [SaErrorType]"

definition saHpiFumiActivateIn :: "cMarshalType list" where
  "saHpiFumiActivateIn = [SaHpiSessionIdType, SaHpiResourceIdType, SaHpiFumiNumType]"

definition saHpiFumiActivateOut :: "cMarshalType list" where
  "saHpiFumiActivateOut = [SaErrorType]"

definition saHpiFumiActivateStartIn :: "cMarshalType list" where
  "saHpiFumiActivateStartIn =
     [SaHpiSessionIdType, SaHpiResourceIdType, SaHpiFumiNumType, SaHpiBoolType]"

definition saHpiFumiActivateStartOut :: "cMarshalType list" where
  "saHpiFumiActivateStartOut = [SaErrorType]"

definition saHpiFumiCleanupIn :: "cMarshalType list" where
  "saHpiFumiCleanupIn =
     [SaHpiSessionIdType, SaHpiResourceIdType, SaHpiFumiNumType, SaHpiBankNumType]"

definition saHpiFumiCleanupOut :: "cMarshalType list" where
  "saHpiFumiCleanupOut = [SaErrorType]"

definition saHpiHotSwapPolicyCancelIn :: "cMarshalType list" where
  "saHpiHotSwapPolicyCancelIn = [SaHpiSessionIdType, SaHpiResourceIdType]"

definition saHpiHotSwapPolicyCancelOut :: "cMarshalType list" where
  "saHpiHotSwapPolicyCancelOut = [SaErrorType]"

definition saHpiResourceActiveSetIn :: "cMarshalType list" where
  "saHpiResourceActiveSetIn = [SaHpiSessionIdType, SaHpiResourceIdType]"

definition saHpiResourceActiveSetOut :: "cMarshalType list" where
  "saHpiResourceActiveSetOut = [SaErrorType]"

definition saHpiResourceInactiveSetIn :: "cMarshalType list" where
  "saHpiResourceInactiveSetIn = [SaHpiSessionIdType, SaHpiResourceIdType]"

definition saHpiResourceInactiveSetOut :: "cMarshalType list" where
  "saHpiResourceInactiveSetOut = [SaErrorType]"

definition saHpiAutoInsertTimeoutGetIn :: "cMarshalType list" where
  "saHpiAutoInsertTimeoutGetIn = [SaHpiSessionIdType]"

definition saHpiAutoInsertTimeoutGetOut :: "cMarshalType list" where
  "saHpiAutoInsertTimeoutGetOut = [SaErrorType, SaHpiTimeoutType]"

definition saHpiAutoInsertTimeoutSetIn :: "cMarshalType list" where
  "saHpiAutoInsertTimeoutSetIn = [SaHpiSessionIdType, SaHpiTimeoutType]"

definition saHpiAutoInsertTimeoutSetOut :: "cMarshalType list" where
  "saHpiAutoInsertTimeoutSetOut = [SaErrorType]"

definition saHpiAutoExtractTimeoutGetIn :: "cMarshalType list" where
  "saHpiAutoExtractTimeoutGetIn = [SaHpiSessionIdType, SaHpiResourceIdType]"

definition saHpiAutoExtractTimeoutGetOut :: "cMarshalType list" where
  "saHpiAutoExtractTimeoutGetOut = [SaErrorType, SaHpiTimeoutType]"

definition saHpiAutoExtractTimeoutSetIn :: "cMarshalType list" where
  "saHpiAutoExtractTimeoutSetIn = [SaHpiSessionIdType, SaHpiResourceIdType, SaHpiTimeoutType]"

definition saHpiAutoExtractTimeoutSetOut :: "cMarshalType list" where
  "saHpiAutoExtractTimeoutSetOut = [SaErrorType]"

definition saHpiHotSwapStateGetIn :: "cMarshalType list" where
  "saHpiHotSwapStateGetIn = [SaHpiSessionIdType, SaHpiResourceIdType]"

definition saHpiHotSwapStateGetOut :: "cMarshalType list" where
  "saHpiHotSwapStateGetOut = [SaErrorType, SaHpiHsStateType]"

definition saHpiHotSwapActionRequestIn :: "cMarshalType list" where
  "saHpiHotSwapActionRequestIn = [SaHpiSessionIdType, SaHpiResourceIdType, SaHpiHsActionType]"

definition saHpiHotSwapActionRequestOut :: "cMarshalType list" where
  "saHpiHotSwapActionRequestOut = [SaErrorType]"

definition saHpiHotSwapIndicatorStateGetIn :: "cMarshalType list" where
  "saHpiHotSwapIndicatorStateGetIn = [SaHpiSessionIdType, SaHpiResourceIdType]"

definition saHpiHotSwapIndicatorStateGetOut :: "cMarshalType list" where
  "saHpiHotSwapIndicatorStateGetOut = [SaErrorType, SaHpiHsIndicatorStateType]"

definition saHpiHotSwapIndicatorStateSetIn :: "cMarshalType list" where
  "saHpiHotSwapIndicatorStateSetIn =
     [SaHpiSessionIdType, SaHpiResourceIdType, SaHpiHsIndicatorStateType]"

definition saHpiHotSwapIndicatorStateSetOut :: "cMarshalType list" where
  "saHpiHotSwapIndicatorStateSetOut = [SaErrorType]"

definition saHpiParmControlIn :: "cMarshalType list" where
  "saHpiParmControlIn = [SaHpiSessionIdType, SaHpiResourceIdType, SaHpiParmActionType]"

definition saHpiParmControlOut :: "cMarshalType list" where
  "saHpiParmControlOut = [SaErrorType]"

definition saHpiResourceLoadIdGetIn :: "cMarshalType list" where
  "saHpiResourceLoadIdGetIn = [SaHpiSessionIdType, SaHpiResourceIdType]"

definition saHpiResourceLoadIdGetOut :: "cMarshalType list" where
  "saHpiResourceLoadIdGetOut = [SaErrorType, SaHpiLoadIdType]"

definition saHpiResourceLoadIdSetIn :: "cMarshalType list" where
  "saHpiResourceLoadIdSetIn = [SaHpiSessionIdType, SaHpiResourceIdType, SaHpiLoadIdType]"

definition saHpiResourceLoadIdSetOut :: "cMarshalType list" where
  "saHpiResourceLoadIdSetOut = [SaErrorType]"

definition saHpiResourceResetStateGetIn :: "cMarshalType list" where
  "saHpiResourceResetStateGetIn = [SaHpiSessionIdType, SaHpiResourceIdType]"

definition saHpiResourceResetStateGetOut :: "cMarshalType list" where
  "saHpiResourceResetStateGetOut = [SaErrorType, SaHpiResetActionType]"

definition saHpiResourceResetStateSetIn :: "cMarshalType list" where
  "saHpiResourceResetStateSetIn = [SaHpiSessionIdType, SaHpiResourceIdType, SaHpiResetActionType]"

definition saHpiResourceResetStateSetOut :: "cMarshalType list" where
  "saHpiResourceResetStateSetOut = [SaErrorType]"

definition saHpiResourcePowerStateGetIn :: "cMarshalType list" where
  "saHpiResourcePowerStateGetIn = [SaHpiSessionIdType, SaHpiResourceIdType]"

definition saHpiResourcePowerStateGetOut :: "cMarshalType list" where
  "saHpiResourcePowerStateGetOut = [SaErrorType, SaHpiPowerStateType]"

definition saHpiResourcePowerStateSetIn :: "cMarshalType list" where
  "saHpiResourcePowerStateSetIn = [SaHpiSessionIdType, SaHpiResourceIdType, SaHpiPowerStateType]"

definition saHpiResourcePowerStateSetOut :: "cMarshalType list" where
  "saHpiResourcePowerStateSetOut = [SaErrorType]"

definition oHpiHandlerCreateIn :: "cMarshalType list" where
  "oHpiHandlerCreateIn = [SaHpiSessionIdType, oHpiHandlerConfigType]"

definition oHpiHandlerCreateOut :: "cMarshalType list" where
  "oHpiHandlerCreateOut = [SaErrorType, oHpiHandlerIdType]"

definition oHpiHandlerDestroyIn :: "cMarshalType list" where
  "oHpiHandlerDestroyIn = [SaHpiSessionIdType, oHpiHandlerIdType]"

definition oHpiHandlerDestroyOut :: "cMarshalType list" where
  "oHpiHandlerDestroyOut = [SaErrorType]"

definition oHpiHandlerInfoIn :: "cMarshalType list" where
  "oHpiHandlerInfoIn = [SaHpiSessionIdType, oHpiHandlerIdType]"

definition oHpiHandlerInfoOut :: "cMarshalType list" where
  "oHpiHandlerInfoOut = [SaErrorType, oHpiHandlerInfoType, oHpiHandlerConfigType]"

definition oHpiHandlerGetNextIn :: "cMarshalType list" where
  "oHpiHandlerGetNextIn = [SaHpiSessionIdType, oHpiHandlerIdType]"

definition oHpiHandlerGetNextOut :: "cMarshalType list" where
  "oHpiHandlerGetNextOut = [SaErrorType, oHpiHandlerIdType]"

definition oHpiHandlerFindIn :: "cMarshalType list" where
  "oHpiHandlerFindIn = [SaHpiSessionIdType, SaHpiResourceIdType]"

definition oHpiHandlerFindOut :: "cMarshalType list" where
  "oHpiHandlerFindOut = [SaErrorType, oHpiHandlerIdType]"

definition oHpiHandlerRetryIn :: "cMarshalType list" where
  "oHpiHandlerRetryIn = [SaHpiSessionIdType, oHpiHandlerIdType]"

definition oHpiHandlerRetryOut :: "cMarshalType list" where
  "oHpiHandlerRetryOut = [SaErrorType]"

definition oHpiGlobalParamGetIn :: "cMarshalType list" where
  "oHpiGlobalParamGetIn = [SaHpiSessionIdType, oHpiGlobalParamType]"

definition oHpiGlobalParamGetOut :: "cMarshalType list" where
  "oHpiGlobalParamGetOut = [SaErrorType, oHpiGlobalParamType]"

definition oHpiGlobalParamSetIn :: "cMarshalType list" where
  "oHpiGlobalParamSetIn = [SaHpiSessionIdType, oHpiGlobalParamType]"

definition oHpiGlobalParamSetOut :: "cMarshalType list" where
  "oHpiGlobalParamSetOut = [SaErrorType]"

definition oHpiInjectEventIn :: "cMarshalType list" where
  "oHpiInjectEventIn =
     [SaHpiSessionIdType, oHpiHandlerIdType, SaHpiEventType, SaHpiRptEntryType, SaHpiRdrType]"

definition oHpiInjectEventOut :: "cMarshalType list" where
  "oHpiInjectEventOut = [SaErrorType]"

section \<open>The table\<close>

record cHpiMarshal =
  m_id :: int
  m_name :: string
  m_request :: "cMarshalType list"
  m_reply :: "cMarshalType list"

text \<open>\<^verbatim>\<open>tHpiFucntionId\<close>, and \<^verbatim>\<open>dHpiMarshalEntry\<close> written out.\<close>

abbreviation (input) eFsaHpiNull :: int where "eFsaHpiNull \<equiv> 0"
abbreviation (input) eFsaHpiSessionOpen :: int where "eFsaHpiSessionOpen \<equiv> 1"
abbreviation (input) eFsaHpiSessionClose :: int where "eFsaHpiSessionClose \<equiv> 2"
abbreviation (input) eFsaHpiDiscover :: int where "eFsaHpiDiscover \<equiv> 3"
abbreviation (input) eFsaHpiDomainInfoGet :: int where "eFsaHpiDomainInfoGet \<equiv> 4"
abbreviation (input) eFsaHpiDrtEntryGet :: int where "eFsaHpiDrtEntryGet \<equiv> 5"
abbreviation (input) eFsaHpiDomainTagSet :: int where "eFsaHpiDomainTagSet \<equiv> 6"
abbreviation (input) eFsaHpiRptEntryGet :: int where "eFsaHpiRptEntryGet \<equiv> 7"
abbreviation (input) eFsaHpiRptEntryGetByResourceId :: int where "eFsaHpiRptEntryGetByResourceId \<equiv> 8"
abbreviation (input) eFsaHpiResourceSeveritySet :: int where "eFsaHpiResourceSeveritySet \<equiv> 9"
abbreviation (input) eFsaHpiResourceTagSet :: int where "eFsaHpiResourceTagSet \<equiv> 10"
abbreviation (input) eFsaHpiResourceIdGet :: int where "eFsaHpiResourceIdGet \<equiv> 11"
abbreviation (input) eFsaHpiGetIdByEntityPath :: int where "eFsaHpiGetIdByEntityPath \<equiv> 12"
abbreviation (input) eFsaHpiGetChildEntityPath :: int where "eFsaHpiGetChildEntityPath \<equiv> 13"
abbreviation (input) eFsaHpiResourceFailedRemove :: int where "eFsaHpiResourceFailedRemove \<equiv> 14"
abbreviation (input) eFsaHpiEventLogInfoGet :: int where "eFsaHpiEventLogInfoGet \<equiv> 15"
abbreviation (input) eFsaHpiEventLogCapabilitiesGet :: int where "eFsaHpiEventLogCapabilitiesGet \<equiv> 16"
abbreviation (input) eFsaHpiEventLogEntryGet :: int where "eFsaHpiEventLogEntryGet \<equiv> 17"
abbreviation (input) eFsaHpiEventLogEntryAdd :: int where "eFsaHpiEventLogEntryAdd \<equiv> 18"
abbreviation (input) eFsaHpiEventLogClear :: int where "eFsaHpiEventLogClear \<equiv> 19"
abbreviation (input) eFsaHpiEventLogTimeGet :: int where "eFsaHpiEventLogTimeGet \<equiv> 20"
abbreviation (input) eFsaHpiEventLogTimeSet :: int where "eFsaHpiEventLogTimeSet \<equiv> 21"
abbreviation (input) eFsaHpiEventLogStateGet :: int where "eFsaHpiEventLogStateGet \<equiv> 22"
abbreviation (input) eFsaHpiEventLogStateSet :: int where "eFsaHpiEventLogStateSet \<equiv> 23"
abbreviation (input) eFsaHpiEventLogOverflowReset :: int where "eFsaHpiEventLogOverflowReset \<equiv> 24"
abbreviation (input) eFsaHpiSubscribe :: int where "eFsaHpiSubscribe \<equiv> 25"
abbreviation (input) eFsaHpiUnsubscribe :: int where "eFsaHpiUnsubscribe \<equiv> 26"
abbreviation (input) eFsaHpiEventGet :: int where "eFsaHpiEventGet \<equiv> 27"
abbreviation (input) eFsaHpiEventAdd :: int where "eFsaHpiEventAdd \<equiv> 28"
abbreviation (input) eFsaHpiAlarmGetNext :: int where "eFsaHpiAlarmGetNext \<equiv> 29"
abbreviation (input) eFsaHpiAlarmGet :: int where "eFsaHpiAlarmGet \<equiv> 30"
abbreviation (input) eFsaHpiAlarmAcknowledge :: int where "eFsaHpiAlarmAcknowledge \<equiv> 31"
abbreviation (input) eFsaHpiAlarmAdd :: int where "eFsaHpiAlarmAdd \<equiv> 32"
abbreviation (input) eFsaHpiAlarmDelete :: int where "eFsaHpiAlarmDelete \<equiv> 33"
abbreviation (input) eFsaHpiRdrGet :: int where "eFsaHpiRdrGet \<equiv> 34"
abbreviation (input) eFsaHpiRdrGetByInstrumentId :: int where "eFsaHpiRdrGetByInstrumentId \<equiv> 35"
abbreviation (input) eFsaHpiSensorReadingGet :: int where "eFsaHpiSensorReadingGet \<equiv> 36"
abbreviation (input) eFsaHpiSensorThresholdsGet :: int where "eFsaHpiSensorThresholdsGet \<equiv> 37"
abbreviation (input) eFsaHpiSensorThresholdsSet :: int where "eFsaHpiSensorThresholdsSet \<equiv> 38"
abbreviation (input) eFsaHpiSensorTypeGet :: int where "eFsaHpiSensorTypeGet \<equiv> 39"
abbreviation (input) eFsaHpiSensorEnableGet :: int where "eFsaHpiSensorEnableGet \<equiv> 40"
abbreviation (input) eFsaHpiSensorEnableSet :: int where "eFsaHpiSensorEnableSet \<equiv> 41"
abbreviation (input) eFsaHpiSensorEventEnableGet :: int where "eFsaHpiSensorEventEnableGet \<equiv> 42"
abbreviation (input) eFsaHpiSensorEventEnableSet :: int where "eFsaHpiSensorEventEnableSet \<equiv> 43"
abbreviation (input) eFsaHpiSensorEventMasksGet :: int where "eFsaHpiSensorEventMasksGet \<equiv> 44"
abbreviation (input) eFsaHpiSensorEventMasksSet :: int where "eFsaHpiSensorEventMasksSet \<equiv> 45"
abbreviation (input) eFsaHpiControlTypeGet :: int where "eFsaHpiControlTypeGet \<equiv> 46"
abbreviation (input) eFsaHpiControlGet :: int where "eFsaHpiControlGet \<equiv> 47"
abbreviation (input) eFsaHpiControlSet :: int where "eFsaHpiControlSet \<equiv> 48"
abbreviation (input) eFsaHpiIdrInfoGet :: int where "eFsaHpiIdrInfoGet \<equiv> 49"
abbreviation (input) eFsaHpiIdrAreaHeaderGet :: int where "eFsaHpiIdrAreaHeaderGet \<equiv> 50"
abbreviation (input) eFsaHpiIdrAreaAdd :: int where "eFsaHpiIdrAreaAdd \<equiv> 51"
abbreviation (input) eFsaHpiIdrAreaAddById :: int where "eFsaHpiIdrAreaAddById \<equiv> 52"
abbreviation (input) eFsaHpiIdrAreaDelete :: int where "eFsaHpiIdrAreaDelete \<equiv> 53"
abbreviation (input) eFsaHpiIdrFieldGet :: int where "eFsaHpiIdrFieldGet \<equiv> 54"
abbreviation (input) eFsaHpiIdrFieldAdd :: int where "eFsaHpiIdrFieldAdd \<equiv> 55"
abbreviation (input) eFsaHpiIdrFieldAddById :: int where "eFsaHpiIdrFieldAddById \<equiv> 56"
abbreviation (input) eFsaHpiIdrFieldSet :: int where "eFsaHpiIdrFieldSet \<equiv> 57"
abbreviation (input) eFsaHpiIdrFieldDelete :: int where "eFsaHpiIdrFieldDelete \<equiv> 58"
abbreviation (input) eFsaHpiWatchdogTimerGet :: int where "eFsaHpiWatchdogTimerGet \<equiv> 59"
abbreviation (input) eFsaHpiWatchdogTimerSet :: int where "eFsaHpiWatchdogTimerSet \<equiv> 60"
abbreviation (input) eFsaHpiWatchdogTimerReset :: int where "eFsaHpiWatchdogTimerReset \<equiv> 61"
abbreviation (input) eFsaHpiAnnunciatorGetNext :: int where "eFsaHpiAnnunciatorGetNext \<equiv> 62"
abbreviation (input) eFsaHpiAnnunciatorGet :: int where "eFsaHpiAnnunciatorGet \<equiv> 63"
abbreviation (input) eFsaHpiAnnunciatorAcknowledge :: int where "eFsaHpiAnnunciatorAcknowledge \<equiv> 64"
abbreviation (input) eFsaHpiAnnunciatorAdd :: int where "eFsaHpiAnnunciatorAdd \<equiv> 65"
abbreviation (input) eFsaHpiAnnunciatorDelete :: int where "eFsaHpiAnnunciatorDelete \<equiv> 66"
abbreviation (input) eFsaHpiAnnunciatorModeGet :: int where "eFsaHpiAnnunciatorModeGet \<equiv> 67"
abbreviation (input) eFsaHpiAnnunciatorModeSet :: int where "eFsaHpiAnnunciatorModeSet \<equiv> 68"
abbreviation (input) eFsaHpiDimiInfoGet :: int where "eFsaHpiDimiInfoGet \<equiv> 69"
abbreviation (input) eFsaHpiDimiTestInfoGet :: int where "eFsaHpiDimiTestInfoGet \<equiv> 70"
abbreviation (input) eFsaHpiDimiTestReadinessGet :: int where "eFsaHpiDimiTestReadinessGet \<equiv> 71"
abbreviation (input) eFsaHpiDimiTestStart :: int where "eFsaHpiDimiTestStart \<equiv> 72"
abbreviation (input) eFsaHpiDimiTestCancel :: int where "eFsaHpiDimiTestCancel \<equiv> 73"
abbreviation (input) eFsaHpiDimiTestStatusGet :: int where "eFsaHpiDimiTestStatusGet \<equiv> 74"
abbreviation (input) eFsaHpiDimiTestResultsGet :: int where "eFsaHpiDimiTestResultsGet \<equiv> 75"
abbreviation (input) eFsaHpiFumiSourceSet :: int where "eFsaHpiFumiSourceSet \<equiv> 76"
abbreviation (input) eFsaHpiFumiSourceInfoValidateStart :: int where "eFsaHpiFumiSourceInfoValidateStart \<equiv> 77"
abbreviation (input) eFsaHpiFumiSourceInfoGet :: int where "eFsaHpiFumiSourceInfoGet \<equiv> 78"
abbreviation (input) eFsaHpiFumiTargetInfoGet :: int where "eFsaHpiFumiTargetInfoGet \<equiv> 79"
abbreviation (input) eFsaHpiFumiBackupStart :: int where "eFsaHpiFumiBackupStart \<equiv> 80"
abbreviation (input) eFsaHpiFumiBankBootOrderSet :: int where "eFsaHpiFumiBankBootOrderSet \<equiv> 81"
abbreviation (input) eFsaHpiFumiBankCopyStart :: int where "eFsaHpiFumiBankCopyStart \<equiv> 82"
abbreviation (input) eFsaHpiFumiInstallStart :: int where "eFsaHpiFumiInstallStart \<equiv> 83"
abbreviation (input) eFsaHpiFumiUpgradeStatusGet :: int where "eFsaHpiFumiUpgradeStatusGet \<equiv> 84"
abbreviation (input) eFsaHpiFumiTargetVerifyStart :: int where "eFsaHpiFumiTargetVerifyStart \<equiv> 85"
abbreviation (input) eFsaHpiFumiUpgradeCancel :: int where "eFsaHpiFumiUpgradeCancel \<equiv> 86"
abbreviation (input) eFsaHpiFumiRollbackStart :: int where "eFsaHpiFumiRollbackStart \<equiv> 87"
abbreviation (input) eFsaHpiFumiActivate :: int where "eFsaHpiFumiActivate \<equiv> 88"
abbreviation (input) eFsaHpiHotSwapPolicyCancel :: int where "eFsaHpiHotSwapPolicyCancel \<equiv> 89"
abbreviation (input) eFsaHpiResourceActiveSet :: int where "eFsaHpiResourceActiveSet \<equiv> 90"
abbreviation (input) eFsaHpiResourceInactiveSet :: int where "eFsaHpiResourceInactiveSet \<equiv> 91"
abbreviation (input) eFsaHpiAutoInsertTimeoutGet :: int where "eFsaHpiAutoInsertTimeoutGet \<equiv> 92"
abbreviation (input) eFsaHpiAutoInsertTimeoutSet :: int where "eFsaHpiAutoInsertTimeoutSet \<equiv> 93"
abbreviation (input) eFsaHpiAutoExtractTimeoutGet :: int where "eFsaHpiAutoExtractTimeoutGet \<equiv> 94"
abbreviation (input) eFsaHpiAutoExtractTimeoutSet :: int where "eFsaHpiAutoExtractTimeoutSet \<equiv> 95"
abbreviation (input) eFsaHpiHotSwapStateGet :: int where "eFsaHpiHotSwapStateGet \<equiv> 96"
abbreviation (input) eFsaHpiHotSwapActionRequest :: int where "eFsaHpiHotSwapActionRequest \<equiv> 97"
abbreviation (input) eFsaHpiHotSwapIndicatorStateGet :: int where "eFsaHpiHotSwapIndicatorStateGet \<equiv> 98"
abbreviation (input) eFsaHpiHotSwapIndicatorStateSet :: int where "eFsaHpiHotSwapIndicatorStateSet \<equiv> 99"
abbreviation (input) eFsaHpiParmControl :: int where "eFsaHpiParmControl \<equiv> 100"
abbreviation (input) eFsaHpiResourceLoadIdGet :: int where "eFsaHpiResourceLoadIdGet \<equiv> 101"
abbreviation (input) eFsaHpiResourceLoadIdSet :: int where "eFsaHpiResourceLoadIdSet \<equiv> 102"
abbreviation (input) eFsaHpiResourceResetStateGet :: int where "eFsaHpiResourceResetStateGet \<equiv> 103"
abbreviation (input) eFsaHpiResourceResetStateSet :: int where "eFsaHpiResourceResetStateSet \<equiv> 104"
abbreviation (input) eFsaHpiResourcePowerStateGet :: int where "eFsaHpiResourcePowerStateGet \<equiv> 105"
abbreviation (input) eFsaHpiResourcePowerStateSet :: int where "eFsaHpiResourcePowerStateSet \<equiv> 106"
abbreviation (input) eFoHpiHandlerCreate :: int where "eFoHpiHandlerCreate \<equiv> 107"
abbreviation (input) eFoHpiHandlerDestroy :: int where "eFoHpiHandlerDestroy \<equiv> 108"
abbreviation (input) eFoHpiHandlerInfo :: int where "eFoHpiHandlerInfo \<equiv> 109"
abbreviation (input) eFoHpiHandlerGetNext :: int where "eFoHpiHandlerGetNext \<equiv> 110"
abbreviation (input) eFoHpiHandlerFind :: int where "eFoHpiHandlerFind \<equiv> 111"
abbreviation (input) eFoHpiHandlerRetry :: int where "eFoHpiHandlerRetry \<equiv> 112"
abbreviation (input) eFoHpiGlobalParamGet :: int where "eFoHpiGlobalParamGet \<equiv> 113"
abbreviation (input) eFoHpiGlobalParamSet :: int where "eFoHpiGlobalParamSet \<equiv> 114"
abbreviation (input) eFoHpiInjectEvent :: int where "eFoHpiInjectEvent \<equiv> 115"
abbreviation (input) eFsaHpiMyEntityPathGet :: int where "eFsaHpiMyEntityPathGet \<equiv> 116"
abbreviation (input) eFsaHpiRdrUpdateCountGet :: int where "eFsaHpiRdrUpdateCountGet \<equiv> 117"
abbreviation (input) eFsaHpiFumiSpecInfoGet :: int where "eFsaHpiFumiSpecInfoGet \<equiv> 118"
abbreviation (input) eFsaHpiFumiServiceImpactGet :: int where "eFsaHpiFumiServiceImpactGet \<equiv> 119"
abbreviation (input) eFsaHpiFumiSourceComponentInfoGet :: int where "eFsaHpiFumiSourceComponentInfoGet \<equiv> 120"
abbreviation (input) eFsaHpiFumiTargetComponentInfoGet :: int where "eFsaHpiFumiTargetComponentInfoGet \<equiv> 121"
abbreviation (input) eFsaHpiFumiLogicalTargetInfoGet :: int where "eFsaHpiFumiLogicalTargetInfoGet \<equiv> 122"
abbreviation (input) eFsaHpiFumiLogicalTargetComponentInfoGet :: int where "eFsaHpiFumiLogicalTargetComponentInfoGet \<equiv> 123"
abbreviation (input) eFsaHpiFumiTargetVerifyMainStart :: int where "eFsaHpiFumiTargetVerifyMainStart \<equiv> 124"
abbreviation (input) eFsaHpiFumiAutoRollbackDisableGet :: int where "eFsaHpiFumiAutoRollbackDisableGet \<equiv> 125"
abbreviation (input) eFsaHpiFumiAutoRollbackDisableSet :: int where "eFsaHpiFumiAutoRollbackDisableSet \<equiv> 126"
abbreviation (input) eFsaHpiFumiActivateStart :: int where "eFsaHpiFumiActivateStart \<equiv> 127"
abbreviation (input) eFsaHpiFumiCleanup :: int where "eFsaHpiFumiCleanup \<equiv> 128"

definition hpi_marshal :: "cHpiMarshal list" where
  "hpi_marshal =
     [\<lparr>m_id = eFsaHpiSessionOpen, m_name = ''saHpiSessionOpen'',
       m_request = saHpiSessionOpenIn, m_reply = saHpiSessionOpenOut\<rparr>,
      \<lparr>m_id = eFsaHpiSessionClose, m_name = ''saHpiSessionClose'',
       m_request = saHpiSessionCloseIn, m_reply = saHpiSessionCloseOut\<rparr>,
      \<lparr>m_id = eFsaHpiDiscover, m_name = ''saHpiDiscover'',
       m_request = saHpiDiscoverIn, m_reply = saHpiDiscoverOut\<rparr>,
      \<lparr>m_id = eFsaHpiDomainInfoGet, m_name = ''saHpiDomainInfoGet'',
       m_request = saHpiDomainInfoGetIn, m_reply = saHpiDomainInfoGetOut\<rparr>,
      \<lparr>m_id = eFsaHpiDrtEntryGet, m_name = ''saHpiDrtEntryGet'',
       m_request = saHpiDrtEntryGetIn, m_reply = saHpiDrtEntryGetOut\<rparr>,
      \<lparr>m_id = eFsaHpiDomainTagSet, m_name = ''saHpiDomainTagSet'',
       m_request = saHpiDomainTagSetIn, m_reply = saHpiDomainTagSetOut\<rparr>,
      \<lparr>m_id = eFsaHpiRptEntryGet, m_name = ''saHpiRptEntryGet'',
       m_request = saHpiRptEntryGetIn, m_reply = saHpiRptEntryGetOut\<rparr>,
      \<lparr>m_id = eFsaHpiRptEntryGetByResourceId, m_name = ''saHpiRptEntryGetByResourceId'',
       m_request = saHpiRptEntryGetByResourceIdIn, m_reply = saHpiRptEntryGetByResourceIdOut\<rparr>,
      \<lparr>m_id = eFsaHpiResourceSeveritySet, m_name = ''saHpiResourceSeveritySet'',
       m_request = saHpiResourceSeveritySetIn, m_reply = saHpiResourceSeveritySetOut\<rparr>,
      \<lparr>m_id = eFsaHpiResourceTagSet, m_name = ''saHpiResourceTagSet'',
       m_request = saHpiResourceTagSetIn, m_reply = saHpiResourceTagSetOut\<rparr>,
      \<lparr>m_id = eFsaHpiResourceIdGet, m_name = ''saHpiResourceIdGet'',
       m_request = saHpiResourceIdGetIn, m_reply = saHpiResourceIdGetOut\<rparr>,
      \<lparr>m_id = eFsaHpiGetIdByEntityPath, m_name = ''saHpiGetIdByEntityPath'',
       m_request = saHpiGetIdByEntityPathIn, m_reply = saHpiGetIdByEntityPathOut\<rparr>,
      \<lparr>m_id = eFsaHpiGetChildEntityPath, m_name = ''saHpiGetChildEntityPath'',
       m_request = saHpiGetChildEntityPathIn, m_reply = saHpiGetChildEntityPathOut\<rparr>,
      \<lparr>m_id = eFsaHpiResourceFailedRemove, m_name = ''saHpiResourceFailedRemove'',
       m_request = saHpiResourceFailedRemoveIn, m_reply = saHpiResourceFailedRemoveOut\<rparr>,
      \<lparr>m_id = eFsaHpiEventLogInfoGet, m_name = ''saHpiEventLogInfoGet'',
       m_request = saHpiEventLogInfoGetIn, m_reply = saHpiEventLogInfoGetOut\<rparr>,
      \<lparr>m_id = eFsaHpiEventLogCapabilitiesGet, m_name = ''saHpiEventLogCapabilitiesGet'',
       m_request = saHpiEventLogCapabilitiesGetIn, m_reply = saHpiEventLogCapabilitiesGetOut\<rparr>,
      \<lparr>m_id = eFsaHpiEventLogEntryGet, m_name = ''saHpiEventLogEntryGet'',
       m_request = saHpiEventLogEntryGetIn, m_reply = saHpiEventLogEntryGetOut\<rparr>,
      \<lparr>m_id = eFsaHpiEventLogEntryAdd, m_name = ''saHpiEventLogEntryAdd'',
       m_request = saHpiEventLogEntryAddIn, m_reply = saHpiEventLogEntryAddOut\<rparr>,
      \<lparr>m_id = eFsaHpiEventLogClear, m_name = ''saHpiEventLogClear'',
       m_request = saHpiEventLogClearIn, m_reply = saHpiEventLogClearOut\<rparr>,
      \<lparr>m_id = eFsaHpiEventLogTimeGet, m_name = ''saHpiEventLogTimeGet'',
       m_request = saHpiEventLogTimeGetIn, m_reply = saHpiEventLogTimeGetOut\<rparr>,
      \<lparr>m_id = eFsaHpiEventLogTimeSet, m_name = ''saHpiEventLogTimeSet'',
       m_request = saHpiEventLogTimeSetIn, m_reply = saHpiEventLogTimeSetOut\<rparr>,
      \<lparr>m_id = eFsaHpiEventLogStateGet, m_name = ''saHpiEventLogStateGet'',
       m_request = saHpiEventLogStateGetIn, m_reply = saHpiEventLogStateGetOut\<rparr>,
      \<lparr>m_id = eFsaHpiEventLogStateSet, m_name = ''saHpiEventLogStateSet'',
       m_request = saHpiEventLogStateSetIn, m_reply = saHpiEventLogStateSetOut\<rparr>,
      \<lparr>m_id = eFsaHpiEventLogOverflowReset, m_name = ''saHpiEventLogOverflowReset'',
       m_request = saHpiEventLogOverflowResetIn, m_reply = saHpiEventLogOverflowResetOut\<rparr>,
      \<lparr>m_id = eFsaHpiSubscribe, m_name = ''saHpiSubscribe'',
       m_request = saHpiSubscribeIn, m_reply = saHpiSubscribeOut\<rparr>,
      \<lparr>m_id = eFsaHpiUnsubscribe, m_name = ''saHpiUnsubscribe'',
       m_request = saHpiUnsubscribeIn, m_reply = saHpiUnsubscribeOut\<rparr>,
      \<lparr>m_id = eFsaHpiEventGet, m_name = ''saHpiEventGet'',
       m_request = saHpiEventGetIn, m_reply = saHpiEventGetOut\<rparr>,
      \<lparr>m_id = eFsaHpiEventAdd, m_name = ''saHpiEventAdd'',
       m_request = saHpiEventAddIn, m_reply = saHpiEventAddOut\<rparr>,
      \<lparr>m_id = eFsaHpiAlarmGetNext, m_name = ''saHpiAlarmGetNext'',
       m_request = saHpiAlarmGetNextIn, m_reply = saHpiAlarmGetNextOut\<rparr>,
      \<lparr>m_id = eFsaHpiAlarmGet, m_name = ''saHpiAlarmGet'',
       m_request = saHpiAlarmGetIn, m_reply = saHpiAlarmGetOut\<rparr>,
      \<lparr>m_id = eFsaHpiAlarmAcknowledge, m_name = ''saHpiAlarmAcknowledge'',
       m_request = saHpiAlarmAcknowledgeIn, m_reply = saHpiAlarmAcknowledgeOut\<rparr>,
      \<lparr>m_id = eFsaHpiAlarmAdd, m_name = ''saHpiAlarmAdd'',
       m_request = saHpiAlarmAddIn, m_reply = saHpiAlarmAddOut\<rparr>,
      \<lparr>m_id = eFsaHpiAlarmDelete, m_name = ''saHpiAlarmDelete'',
       m_request = saHpiAlarmDeleteIn, m_reply = saHpiAlarmDeleteOut\<rparr>,
      \<lparr>m_id = eFsaHpiRdrGet, m_name = ''saHpiRdrGet'',
       m_request = saHpiRdrGetIn, m_reply = saHpiRdrGetOut\<rparr>,
      \<lparr>m_id = eFsaHpiRdrGetByInstrumentId, m_name = ''saHpiRdrGetByInstrumentId'',
       m_request = saHpiRdrGetByInstrumentIdIn, m_reply = saHpiRdrGetByInstrumentIdOut\<rparr>,
      \<lparr>m_id = eFsaHpiSensorReadingGet, m_name = ''saHpiSensorReadingGet'',
       m_request = saHpiSensorReadingGetIn, m_reply = saHpiSensorReadingGetOut\<rparr>,
      \<lparr>m_id = eFsaHpiSensorThresholdsGet, m_name = ''saHpiSensorThresholdsGet'',
       m_request = saHpiSensorThresholdsGetIn, m_reply = saHpiSensorThresholdsGetOut\<rparr>,
      \<lparr>m_id = eFsaHpiSensorThresholdsSet, m_name = ''saHpiSensorThresholdsSet'',
       m_request = saHpiSensorThresholdsSetIn, m_reply = saHpiSensorThresholdsSetOut\<rparr>,
      \<lparr>m_id = eFsaHpiSensorTypeGet, m_name = ''saHpiSensorTypeGet'',
       m_request = saHpiSensorTypeGetIn, m_reply = saHpiSensorTypeGetOut\<rparr>,
      \<lparr>m_id = eFsaHpiSensorEnableGet, m_name = ''saHpiSensorEnableGet'',
       m_request = saHpiSensorEnableGetIn, m_reply = saHpiSensorEnableGetOut\<rparr>,
      \<lparr>m_id = eFsaHpiSensorEnableSet, m_name = ''saHpiSensorEnableSet'',
       m_request = saHpiSensorEnableSetIn, m_reply = saHpiSensorEnableSetOut\<rparr>,
      \<lparr>m_id = eFsaHpiSensorEventEnableGet, m_name = ''saHpiSensorEventEnableGet'',
       m_request = saHpiSensorEventEnableGetIn, m_reply = saHpiSensorEventEnableGetOut\<rparr>,
      \<lparr>m_id = eFsaHpiSensorEventEnableSet, m_name = ''saHpiSensorEventEnableSet'',
       m_request = saHpiSensorEventEnableSetIn, m_reply = saHpiSensorEventEnableSetOut\<rparr>,
      \<lparr>m_id = eFsaHpiSensorEventMasksGet, m_name = ''saHpiSensorEventMasksGet'',
       m_request = saHpiSensorEventMasksGetIn, m_reply = saHpiSensorEventMasksGetOut\<rparr>,
      \<lparr>m_id = eFsaHpiSensorEventMasksSet, m_name = ''saHpiSensorEventMasksSet'',
       m_request = saHpiSensorEventMasksSetIn, m_reply = saHpiSensorEventMasksSetOut\<rparr>,
      \<lparr>m_id = eFsaHpiControlTypeGet, m_name = ''saHpiControlTypeGet'',
       m_request = saHpiControlTypeGetIn, m_reply = saHpiControlTypeGetOut\<rparr>,
      \<lparr>m_id = eFsaHpiControlGet, m_name = ''saHpiControlGet'',
       m_request = saHpiControlGetIn, m_reply = saHpiControlGetOut\<rparr>,
      \<lparr>m_id = eFsaHpiControlSet, m_name = ''saHpiControlSet'',
       m_request = saHpiControlSetIn, m_reply = saHpiControlSetOut\<rparr>,
      \<lparr>m_id = eFsaHpiIdrInfoGet, m_name = ''saHpiIdrInfoGet'',
       m_request = saHpiIdrInfoGetIn, m_reply = saHpiIdrInfoGetOut\<rparr>,
      \<lparr>m_id = eFsaHpiIdrAreaHeaderGet, m_name = ''saHpiIdrAreaHeaderGet'',
       m_request = saHpiIdrAreaHeaderGetIn, m_reply = saHpiIdrAreaHeaderGetOut\<rparr>,
      \<lparr>m_id = eFsaHpiIdrAreaAdd, m_name = ''saHpiIdrAreaAdd'',
       m_request = saHpiIdrAreaAddIn, m_reply = saHpiIdrAreaAddOut\<rparr>,
      \<lparr>m_id = eFsaHpiIdrAreaAddById, m_name = ''saHpiIdrAreaAddById'',
       m_request = saHpiIdrAreaAddByIdIn, m_reply = saHpiIdrAreaAddByIdOut\<rparr>,
      \<lparr>m_id = eFsaHpiIdrAreaDelete, m_name = ''saHpiIdrAreaDelete'',
       m_request = saHpiIdrAreaDeleteIn, m_reply = saHpiIdrAreaDeleteOut\<rparr>,
      \<lparr>m_id = eFsaHpiIdrFieldGet, m_name = ''saHpiIdrFieldGet'',
       m_request = saHpiIdrFieldGetIn, m_reply = saHpiIdrFieldGetOut\<rparr>,
      \<lparr>m_id = eFsaHpiIdrFieldAdd, m_name = ''saHpiIdrFieldAdd'',
       m_request = saHpiIdrFieldAddIn, m_reply = saHpiIdrFieldAddOut\<rparr>,
      \<lparr>m_id = eFsaHpiIdrFieldAddById, m_name = ''saHpiIdrFieldAddById'',
       m_request = saHpiIdrFieldAddByIdIn, m_reply = saHpiIdrFieldAddByIdOut\<rparr>,
      \<lparr>m_id = eFsaHpiIdrFieldSet, m_name = ''saHpiIdrFieldSet'',
       m_request = saHpiIdrFieldSetIn, m_reply = saHpiIdrFieldSetOut\<rparr>,
      \<lparr>m_id = eFsaHpiIdrFieldDelete, m_name = ''saHpiIdrFieldDelete'',
       m_request = saHpiIdrFieldDeleteIn, m_reply = saHpiIdrFieldDeleteOut\<rparr>,
      \<lparr>m_id = eFsaHpiWatchdogTimerGet, m_name = ''saHpiWatchdogTimerGet'',
       m_request = saHpiWatchdogTimerGetIn, m_reply = saHpiWatchdogTimerGetOut\<rparr>,
      \<lparr>m_id = eFsaHpiWatchdogTimerSet, m_name = ''saHpiWatchdogTimerSet'',
       m_request = saHpiWatchdogTimerSetIn, m_reply = saHpiWatchdogTimerSetOut\<rparr>,
      \<lparr>m_id = eFsaHpiWatchdogTimerReset, m_name = ''saHpiWatchdogTimerReset'',
       m_request = saHpiWatchdogTimerResetIn, m_reply = saHpiWatchdogTimerResetOut\<rparr>,
      \<lparr>m_id = eFsaHpiAnnunciatorGetNext, m_name = ''saHpiAnnunciatorGetNext'',
       m_request = saHpiAnnunciatorGetNextIn, m_reply = saHpiAnnunciatorGetNextOut\<rparr>,
      \<lparr>m_id = eFsaHpiAnnunciatorGet, m_name = ''saHpiAnnunciatorGet'',
       m_request = saHpiAnnunciatorGetIn, m_reply = saHpiAnnunciatorGetOut\<rparr>,
      \<lparr>m_id = eFsaHpiAnnunciatorAcknowledge, m_name = ''saHpiAnnunciatorAcknowledge'',
       m_request = saHpiAnnunciatorAcknowledgeIn, m_reply = saHpiAnnunciatorAcknowledgeOut\<rparr>,
      \<lparr>m_id = eFsaHpiAnnunciatorAdd, m_name = ''saHpiAnnunciatorAdd'',
       m_request = saHpiAnnunciatorAddIn, m_reply = saHpiAnnunciatorAddOut\<rparr>,
      \<lparr>m_id = eFsaHpiAnnunciatorDelete, m_name = ''saHpiAnnunciatorDelete'',
       m_request = saHpiAnnunciatorDeleteIn, m_reply = saHpiAnnunciatorDeleteOut\<rparr>,
      \<lparr>m_id = eFsaHpiAnnunciatorModeGet, m_name = ''saHpiAnnunciatorModeGet'',
       m_request = saHpiAnnunciatorModeGetIn, m_reply = saHpiAnnunciatorModeGetOut\<rparr>,
      \<lparr>m_id = eFsaHpiAnnunciatorModeSet, m_name = ''saHpiAnnunciatorModeSet'',
       m_request = saHpiAnnunciatorModeSetIn, m_reply = saHpiAnnunciatorModeSetOut\<rparr>,
      \<lparr>m_id = eFsaHpiDimiInfoGet, m_name = ''saHpiDimiInfoGet'',
       m_request = saHpiDimiInfoGetIn, m_reply = saHpiDimiInfoGetOut\<rparr>,
      \<lparr>m_id = eFsaHpiDimiTestInfoGet, m_name = ''saHpiDimiTestInfoGet'',
       m_request = saHpiDimiTestInfoGetIn, m_reply = saHpiDimiTestInfoGetOut\<rparr>,
      \<lparr>m_id = eFsaHpiDimiTestReadinessGet, m_name = ''saHpiDimiTestReadinessGet'',
       m_request = saHpiDimiTestReadinessGetIn, m_reply = saHpiDimiTestReadinessGetOut\<rparr>,
      \<lparr>m_id = eFsaHpiDimiTestStart, m_name = ''saHpiDimiTestStart'',
       m_request = saHpiDimiTestStartIn, m_reply = saHpiDimiTestStartOut\<rparr>,
      \<lparr>m_id = eFsaHpiDimiTestCancel, m_name = ''saHpiDimiTestCancel'',
       m_request = saHpiDimiTestCancelIn, m_reply = saHpiDimiTestCancelOut\<rparr>,
      \<lparr>m_id = eFsaHpiDimiTestStatusGet, m_name = ''saHpiDimiTestStatusGet'',
       m_request = saHpiDimiTestStatusGetIn, m_reply = saHpiDimiTestStatusGetOut\<rparr>,
      \<lparr>m_id = eFsaHpiDimiTestResultsGet, m_name = ''saHpiDimiTestResultsGet'',
       m_request = saHpiDimiTestResultsGetIn, m_reply = saHpiDimiTestResultsGetOut\<rparr>,
      \<lparr>m_id = eFsaHpiFumiSourceSet, m_name = ''saHpiFumiSourceSet'',
       m_request = saHpiFumiSourceSetIn, m_reply = saHpiFumiSourceSetOut\<rparr>,
      \<lparr>m_id = eFsaHpiFumiSourceInfoValidateStart, m_name = ''saHpiFumiSourceInfoValidateStart'',
       m_request = saHpiFumiSourceInfoValidateStartIn, m_reply = saHpiFumiSourceInfoValidateStartOut\<rparr>,
      \<lparr>m_id = eFsaHpiFumiSourceInfoGet, m_name = ''saHpiFumiSourceInfoGet'',
       m_request = saHpiFumiSourceInfoGetIn, m_reply = saHpiFumiSourceInfoGetOut\<rparr>,
      \<lparr>m_id = eFsaHpiFumiTargetInfoGet, m_name = ''saHpiFumiTargetInfoGet'',
       m_request = saHpiFumiTargetInfoGetIn, m_reply = saHpiFumiTargetInfoGetOut\<rparr>,
      \<lparr>m_id = eFsaHpiFumiBackupStart, m_name = ''saHpiFumiBackupStart'',
       m_request = saHpiFumiBackupStartIn, m_reply = saHpiFumiBackupStartOut\<rparr>,
      \<lparr>m_id = eFsaHpiFumiBankBootOrderSet, m_name = ''saHpiFumiBankBootOrderSet'',
       m_request = saHpiFumiBankBootOrderSetIn, m_reply = saHpiFumiBankBootOrderSetOut\<rparr>,
      \<lparr>m_id = eFsaHpiFumiBankCopyStart, m_name = ''saHpiFumiBankCopyStart'',
       m_request = saHpiFumiBankCopyStartIn, m_reply = saHpiFumiBankCopyStartOut\<rparr>,
      \<lparr>m_id = eFsaHpiFumiInstallStart, m_name = ''saHpiFumiInstallStart'',
       m_request = saHpiFumiInstallStartIn, m_reply = saHpiFumiInstallStartOut\<rparr>,
      \<lparr>m_id = eFsaHpiFumiUpgradeStatusGet, m_name = ''saHpiFumiUpgradeStatusGet'',
       m_request = saHpiFumiUpgradeStatusGetIn, m_reply = saHpiFumiUpgradeStatusGetOut\<rparr>,
      \<lparr>m_id = eFsaHpiFumiTargetVerifyStart, m_name = ''saHpiFumiTargetVerifyStart'',
       m_request = saHpiFumiTargetVerifyStartIn, m_reply = saHpiFumiTargetVerifyStartOut\<rparr>,
      \<lparr>m_id = eFsaHpiFumiUpgradeCancel, m_name = ''saHpiFumiUpgradeCancel'',
       m_request = saHpiFumiUpgradeCancelIn, m_reply = saHpiFumiUpgradeCancelOut\<rparr>,
      \<lparr>m_id = eFsaHpiFumiRollbackStart, m_name = ''saHpiFumiRollbackStart'',
       m_request = saHpiFumiRollbackStartIn, m_reply = saHpiFumiRollbackStartOut\<rparr>,
      \<lparr>m_id = eFsaHpiFumiActivate, m_name = ''saHpiFumiActivate'',
       m_request = saHpiFumiActivateIn, m_reply = saHpiFumiActivateOut\<rparr>,
      \<lparr>m_id = eFsaHpiHotSwapPolicyCancel, m_name = ''saHpiHotSwapPolicyCancel'',
       m_request = saHpiHotSwapPolicyCancelIn, m_reply = saHpiHotSwapPolicyCancelOut\<rparr>,
      \<lparr>m_id = eFsaHpiResourceActiveSet, m_name = ''saHpiResourceActiveSet'',
       m_request = saHpiResourceActiveSetIn, m_reply = saHpiResourceActiveSetOut\<rparr>,
      \<lparr>m_id = eFsaHpiResourceInactiveSet, m_name = ''saHpiResourceInactiveSet'',
       m_request = saHpiResourceInactiveSetIn, m_reply = saHpiResourceInactiveSetOut\<rparr>,
      \<lparr>m_id = eFsaHpiAutoInsertTimeoutGet, m_name = ''saHpiAutoInsertTimeoutGet'',
       m_request = saHpiAutoInsertTimeoutGetIn, m_reply = saHpiAutoInsertTimeoutGetOut\<rparr>,
      \<lparr>m_id = eFsaHpiAutoInsertTimeoutSet, m_name = ''saHpiAutoInsertTimeoutSet'',
       m_request = saHpiAutoInsertTimeoutSetIn, m_reply = saHpiAutoInsertTimeoutSetOut\<rparr>,
      \<lparr>m_id = eFsaHpiAutoExtractTimeoutGet, m_name = ''saHpiAutoExtractTimeoutGet'',
       m_request = saHpiAutoExtractTimeoutGetIn, m_reply = saHpiAutoExtractTimeoutGetOut\<rparr>,
      \<lparr>m_id = eFsaHpiAutoExtractTimeoutSet, m_name = ''saHpiAutoExtractTimeoutSet'',
       m_request = saHpiAutoExtractTimeoutSetIn, m_reply = saHpiAutoExtractTimeoutSetOut\<rparr>,
      \<lparr>m_id = eFsaHpiHotSwapStateGet, m_name = ''saHpiHotSwapStateGet'',
       m_request = saHpiHotSwapStateGetIn, m_reply = saHpiHotSwapStateGetOut\<rparr>,
      \<lparr>m_id = eFsaHpiHotSwapActionRequest, m_name = ''saHpiHotSwapActionRequest'',
       m_request = saHpiHotSwapActionRequestIn, m_reply = saHpiHotSwapActionRequestOut\<rparr>,
      \<lparr>m_id = eFsaHpiHotSwapIndicatorStateGet, m_name = ''saHpiHotSwapIndicatorStateGet'',
       m_request = saHpiHotSwapIndicatorStateGetIn, m_reply = saHpiHotSwapIndicatorStateGetOut\<rparr>,
      \<lparr>m_id = eFsaHpiHotSwapIndicatorStateSet, m_name = ''saHpiHotSwapIndicatorStateSet'',
       m_request = saHpiHotSwapIndicatorStateSetIn, m_reply = saHpiHotSwapIndicatorStateSetOut\<rparr>,
      \<lparr>m_id = eFsaHpiParmControl, m_name = ''saHpiParmControl'',
       m_request = saHpiParmControlIn, m_reply = saHpiParmControlOut\<rparr>,
      \<lparr>m_id = eFsaHpiResourceLoadIdGet, m_name = ''saHpiResourceLoadIdGet'',
       m_request = saHpiResourceLoadIdGetIn, m_reply = saHpiResourceLoadIdGetOut\<rparr>,
      \<lparr>m_id = eFsaHpiResourceLoadIdSet, m_name = ''saHpiResourceLoadIdSet'',
       m_request = saHpiResourceLoadIdSetIn, m_reply = saHpiResourceLoadIdSetOut\<rparr>,
      \<lparr>m_id = eFsaHpiResourceResetStateGet, m_name = ''saHpiResourceResetStateGet'',
       m_request = saHpiResourceResetStateGetIn, m_reply = saHpiResourceResetStateGetOut\<rparr>,
      \<lparr>m_id = eFsaHpiResourceResetStateSet, m_name = ''saHpiResourceResetStateSet'',
       m_request = saHpiResourceResetStateSetIn, m_reply = saHpiResourceResetStateSetOut\<rparr>,
      \<lparr>m_id = eFsaHpiResourcePowerStateGet, m_name = ''saHpiResourcePowerStateGet'',
       m_request = saHpiResourcePowerStateGetIn, m_reply = saHpiResourcePowerStateGetOut\<rparr>,
      \<lparr>m_id = eFsaHpiResourcePowerStateSet, m_name = ''saHpiResourcePowerStateSet'',
       m_request = saHpiResourcePowerStateSetIn, m_reply = saHpiResourcePowerStateSetOut\<rparr>,
      \<lparr>m_id = eFoHpiHandlerCreate, m_name = ''oHpiHandlerCreate'',
       m_request = oHpiHandlerCreateIn, m_reply = oHpiHandlerCreateOut\<rparr>,
      \<lparr>m_id = eFoHpiHandlerDestroy, m_name = ''oHpiHandlerDestroy'',
       m_request = oHpiHandlerDestroyIn, m_reply = oHpiHandlerDestroyOut\<rparr>,
      \<lparr>m_id = eFoHpiHandlerInfo, m_name = ''oHpiHandlerInfo'',
       m_request = oHpiHandlerInfoIn, m_reply = oHpiHandlerInfoOut\<rparr>,
      \<lparr>m_id = eFoHpiHandlerGetNext, m_name = ''oHpiHandlerGetNext'',
       m_request = oHpiHandlerGetNextIn, m_reply = oHpiHandlerGetNextOut\<rparr>,
      \<lparr>m_id = eFoHpiHandlerFind, m_name = ''oHpiHandlerFind'',
       m_request = oHpiHandlerFindIn, m_reply = oHpiHandlerFindOut\<rparr>,
      \<lparr>m_id = eFoHpiHandlerRetry, m_name = ''oHpiHandlerRetry'',
       m_request = oHpiHandlerRetryIn, m_reply = oHpiHandlerRetryOut\<rparr>,
      \<lparr>m_id = eFoHpiGlobalParamGet, m_name = ''oHpiGlobalParamGet'',
       m_request = oHpiGlobalParamGetIn, m_reply = oHpiGlobalParamGetOut\<rparr>,
      \<lparr>m_id = eFoHpiGlobalParamSet, m_name = ''oHpiGlobalParamSet'',
       m_request = oHpiGlobalParamSetIn, m_reply = oHpiGlobalParamSetOut\<rparr>,
      \<lparr>m_id = eFoHpiInjectEvent, m_name = ''oHpiInjectEvent'',
       m_request = oHpiInjectEventIn, m_reply = oHpiInjectEventOut\<rparr>,
      \<lparr>m_id = eFsaHpiMyEntityPathGet, m_name = ''saHpiMyEntityPathGet'',
       m_request = saHpiMyEntityPathGetIn, m_reply = saHpiMyEntityPathGetOut\<rparr>,
      \<lparr>m_id = eFsaHpiRdrUpdateCountGet, m_name = ''saHpiRdrUpdateCountGet'',
       m_request = saHpiRdrUpdateCountGetIn, m_reply = saHpiRdrUpdateCountGetOut\<rparr>,
      \<lparr>m_id = eFsaHpiFumiSpecInfoGet, m_name = ''saHpiFumiSpecInfoGet'',
       m_request = saHpiFumiSpecInfoGetIn, m_reply = saHpiFumiSpecInfoGetOut\<rparr>,
      \<lparr>m_id = eFsaHpiFumiServiceImpactGet, m_name = ''saHpiFumiServiceImpactGet'',
       m_request = saHpiFumiServiceImpactGetIn, m_reply = saHpiFumiServiceImpactGetOut\<rparr>,
      \<lparr>m_id = eFsaHpiFumiSourceComponentInfoGet, m_name = ''saHpiFumiSourceComponentInfoGet'',
       m_request = saHpiFumiSourceComponentInfoGetIn, m_reply = saHpiFumiSourceComponentInfoGetOut\<rparr>,
      \<lparr>m_id = eFsaHpiFumiTargetComponentInfoGet, m_name = ''saHpiFumiTargetComponentInfoGet'',
       m_request = saHpiFumiTargetComponentInfoGetIn, m_reply = saHpiFumiTargetComponentInfoGetOut\<rparr>,
      \<lparr>m_id = eFsaHpiFumiLogicalTargetInfoGet, m_name = ''saHpiFumiLogicalTargetInfoGet'',
       m_request = saHpiFumiLogicalTargetInfoGetIn, m_reply = saHpiFumiLogicalTargetInfoGetOut\<rparr>,
      \<lparr>m_id = eFsaHpiFumiLogicalTargetComponentInfoGet, m_name = ''saHpiFumiLogicalTargetComponentInfoGet'',
       m_request = saHpiFumiLogicalTargetComponentInfoGetIn, m_reply = saHpiFumiLogicalTargetComponentInfoGetOut\<rparr>,
      \<lparr>m_id = eFsaHpiFumiTargetVerifyMainStart, m_name = ''saHpiFumiTargetVerifyMainStart'',
       m_request = saHpiFumiTargetVerifyMainStartIn, m_reply = saHpiFumiTargetVerifyMainStartOut\<rparr>,
      \<lparr>m_id = eFsaHpiFumiAutoRollbackDisableGet, m_name = ''saHpiFumiAutoRollbackDisableGet'',
       m_request = saHpiFumiAutoRollbackDisableGetIn, m_reply = saHpiFumiAutoRollbackDisableGetOut\<rparr>,
      \<lparr>m_id = eFsaHpiFumiAutoRollbackDisableSet, m_name = ''saHpiFumiAutoRollbackDisableSet'',
       m_request = saHpiFumiAutoRollbackDisableSetIn, m_reply = saHpiFumiAutoRollbackDisableSetOut\<rparr>,
      \<lparr>m_id = eFsaHpiFumiActivateStart, m_name = ''saHpiFumiActivateStart'',
       m_request = saHpiFumiActivateStartIn, m_reply = saHpiFumiActivateStartOut\<rparr>,
      \<lparr>m_id = eFsaHpiFumiCleanup, m_name = ''saHpiFumiCleanup'',
       m_request = saHpiFumiCleanupIn, m_reply = saHpiFumiCleanupOut\<rparr>]"

section \<open>Requests and replies\<close>

definition HpiMarshalFind :: "int \<Rightarrow> cHpiMarshal option" where
  "HpiMarshalFind call =
     (let i = call - 1
      in if i < 0 \<or> int (length hpi_marshal) \<le> i then None else Some (hpi_marshal ! nat i))"

definition HpiMarshalRequest :: "bool \<Rightarrow> cHpiMarshal \<Rightarrow> cmem \<Rightarrow> nat list \<Rightarrow> int + u8 list" where
  "HpiMarshalRequest be h m param = MarshalArray be (m_request h) m param"

definition HpiMarshalRequest1 :: "bool \<Rightarrow> cHpiMarshal \<Rightarrow> cmem \<Rightarrow> nat \<Rightarrow> int + u8 list" where
  "HpiMarshalRequest1 be h m p1 = HpiMarshalRequest be h m [p1]"

definition HpiMarshalRequest2 :: "bool \<Rightarrow> cHpiMarshal \<Rightarrow> cmem \<Rightarrow> nat \<Rightarrow> nat \<Rightarrow> int + u8 list" where
  "HpiMarshalRequest2 be h m p1 p2 = HpiMarshalRequest be h m [p1, p2]"

definition HpiMarshalRequest3 :: "bool \<Rightarrow> cHpiMarshal \<Rightarrow> cmem \<Rightarrow> nat \<Rightarrow> nat \<Rightarrow> nat \<Rightarrow> int + u8 list" where
  "HpiMarshalRequest3 be h m p1 p2 p3 = HpiMarshalRequest be h m [p1, p2, p3]"

definition HpiMarshalRequest4 ::
    "bool \<Rightarrow> cHpiMarshal \<Rightarrow> cmem \<Rightarrow> nat \<Rightarrow> nat \<Rightarrow> nat \<Rightarrow> nat \<Rightarrow> int + u8 list" where
  "HpiMarshalRequest4 be h m p1 p2 p3 p4 = HpiMarshalRequest be h m [p1, p2, p3, p4]"

definition HpiMarshalRequest5 ::
    "bool \<Rightarrow> cHpiMarshal \<Rightarrow> cmem \<Rightarrow> nat \<Rightarrow> nat \<Rightarrow> nat \<Rightarrow> nat \<Rightarrow> nat \<Rightarrow> int + u8 list" where
  "HpiMarshalRequest5 be h m p1 p2 p3 p4 p5 = HpiMarshalRequest be h m [p1, p2, p3, p4, p5]"

definition HpiMarshalRequest6 ::
    "bool \<Rightarrow> cHpiMarshal \<Rightarrow> cmem \<Rightarrow> nat \<Rightarrow> nat \<Rightarrow> nat \<Rightarrow> nat \<Rightarrow> nat \<Rightarrow> nat \<Rightarrow> int + u8 list" where
  "HpiMarshalRequest6 be h m p1 p2 p3 p4 p5 p6 = HpiMarshalRequest be h m [p1, p2, p3, p4, p5, p6]"

definition HpiDemarshalRequest ::
    "bool \<Rightarrow> bool \<Rightarrow> cHpiMarshal \<Rightarrow> cmem \<Rightarrow> nat \<Rightarrow> nat list \<Rightarrow> cheap \<Rightarrow> int + nat \<times> cheap" where
  "HpiDemarshalRequest be bo h bm buffer params s = DemarshalArray be bo (m_request h) bm params buffer s"

definition HpiDemarshalRequest1 ::
    "bool \<Rightarrow> bool \<Rightarrow> cHpiMarshal \<Rightarrow> cmem \<Rightarrow> nat \<Rightarrow> nat \<Rightarrow> cheap \<Rightarrow> int + nat \<times> cheap" where
  "HpiDemarshalRequest1 be bo h bm buffer p1 s = HpiDemarshalRequest be bo h bm buffer [p1] s"

definition HpiDemarshalRequest2 ::
    "bool \<Rightarrow> bool \<Rightarrow> cHpiMarshal \<Rightarrow> cmem \<Rightarrow> nat \<Rightarrow> nat \<Rightarrow> nat \<Rightarrow> cheap \<Rightarrow> int + nat \<times> cheap" where
  "HpiDemarshalRequest2 be bo h bm buffer p1 p2 s = HpiDemarshalRequest be bo h bm buffer [p1, p2] s"

definition HpiDemarshalRequest3 ::
    "bool \<Rightarrow> bool \<Rightarrow> cHpiMarshal \<Rightarrow> cmem \<Rightarrow> nat \<Rightarrow> nat \<Rightarrow> nat \<Rightarrow> nat \<Rightarrow> cheap \<Rightarrow> int + nat \<times> cheap" where
  "HpiDemarshalRequest3 be bo h bm buffer p1 p2 p3 s = HpiDemarshalRequest be bo h bm buffer [p1, p2, p3] s"

definition HpiDemarshalRequest4 ::
    "bool \<Rightarrow> bool \<Rightarrow> cHpiMarshal \<Rightarrow> cmem \<Rightarrow> nat \<Rightarrow> nat \<Rightarrow> nat \<Rightarrow> nat \<Rightarrow> nat \<Rightarrow> cheap \<Rightarrow> int + nat \<times> cheap" where
  "HpiDemarshalRequest4 be bo h bm buffer p1 p2 p3 p4 s =
     HpiDemarshalRequest be bo h bm buffer [p1, p2, p3, p4] s"

definition HpiDemarshalRequest5 ::
    "bool \<Rightarrow> bool \<Rightarrow> cHpiMarshal \<Rightarrow> cmem \<Rightarrow> nat \<Rightarrow> nat \<Rightarrow> nat \<Rightarrow> nat \<Rightarrow> nat \<Rightarrow> nat \<Rightarrow> cheap \<Rightarrow> int + nat \<times> cheap" where
  "HpiDemarshalRequest5 be bo h bm buffer p1 p2 p3 p4 p5 s =
     HpiDemarshalRequest be bo h bm buffer [p1, p2, p3, p4, p5] s"

definition HpiDemarshalRequest6 ::
    "bool \<Rightarrow> bool \<Rightarrow> cHpiMarshal \<Rightarrow> cmem \<Rightarrow> nat \<Rightarrow> nat \<Rightarrow> nat \<Rightarrow> nat \<Rightarrow> nat \<Rightarrow> nat \<Rightarrow> nat \<Rightarrow> cheap \<Rightarrow> int + nat \<times> cheap" where
  "HpiDemarshalRequest6 be bo h bm buffer p1 p2 p3 p4 p5 p6 s =
     HpiDemarshalRequest be bo h bm buffer [p1, p2, p3, p4, p5, p6] s"

text \<open>The result of a call in memory. \<open>SA_OK\<close> is 0.\<close>

definition load_err :: "bool \<Rightarrow> cmem \<Rightarrow> nat \<Rightarrow> 32 word" where
  "load_err be m a = of_nat (le_nat (order be (bytes_at m a 4)))"

text \<open>The code marshals a copy of the error; it has the bytes of the original.\<close>

definition HpiMarshalReply :: "bool \<Rightarrow> cHpiMarshal \<Rightarrow> cmem \<Rightarrow> nat list \<Rightarrow> int + u8 list" where
  "HpiMarshalReply be h m params =
     (if load_err be m (hd params) = 0 then MarshalArray be (m_reply h) m params
      else Marshal be SaErrorType m (hd params))"

definition HpiMarshalReply0 :: "bool \<Rightarrow> cHpiMarshal \<Rightarrow> cmem \<Rightarrow> nat \<Rightarrow> int + u8 list" where
  "HpiMarshalReply0 be h m result = HpiMarshalReply be h m [result]"

definition HpiMarshalReply1 :: "bool \<Rightarrow> cHpiMarshal \<Rightarrow> cmem \<Rightarrow> nat \<Rightarrow> nat \<Rightarrow> int + u8 list" where
  "HpiMarshalReply1 be h m result p1 = HpiMarshalReply be h m [result, p1]"

definition HpiMarshalReply2 :: "bool \<Rightarrow> cHpiMarshal \<Rightarrow> cmem \<Rightarrow> nat \<Rightarrow> nat \<Rightarrow> nat \<Rightarrow> int + u8 list" where
  "HpiMarshalReply2 be h m result p1 p2 = HpiMarshalReply be h m [result, p1, p2]"

definition HpiMarshalReply3 ::
    "bool \<Rightarrow> cHpiMarshal \<Rightarrow> cmem \<Rightarrow> nat \<Rightarrow> nat \<Rightarrow> nat \<Rightarrow> nat \<Rightarrow> int + u8 list" where
  "HpiMarshalReply3 be h m result p1 p2 p3 = HpiMarshalReply be h m [result, p1, p2, p3]"

definition HpiMarshalReply4 ::
    "bool \<Rightarrow> cHpiMarshal \<Rightarrow> cmem \<Rightarrow> nat \<Rightarrow> nat \<Rightarrow> nat \<Rightarrow> nat \<Rightarrow> nat \<Rightarrow> int + u8 list" where
  "HpiMarshalReply4 be h m result p1 p2 p3 p4 = HpiMarshalReply be h m [result, p1, p2, p3, p4]"

definition HpiMarshalReply5 ::
    "bool \<Rightarrow> cHpiMarshal \<Rightarrow> cmem \<Rightarrow> nat \<Rightarrow> nat \<Rightarrow> nat \<Rightarrow> nat \<Rightarrow> nat \<Rightarrow> nat \<Rightarrow> int + u8 list" where
  "HpiMarshalReply5 be h m result p1 p2 p3 p4 p5 = HpiMarshalReply be h m [result, p1, p2, p3, p4, p5]"

definition HpiDemarshalReply ::
    "bool \<Rightarrow> bool \<Rightarrow> cHpiMarshal \<Rightarrow> cmem \<Rightarrow> nat \<Rightarrow> nat list \<Rightarrow> cheap \<Rightarrow> int + nat \<times> cheap" where
  "HpiDemarshalReply be bo h bm buffer params s =
     (case Demarshal be bo SaErrorType bm (hd params) buffer s of
        Inl cc \<Rightarrow> Inl cc
      | Inr (cc, s) \<Rightarrow>
          if 0 < cc \<and> load_err be (mem s) (hd params) = 0
          then DemarshalArray be bo (m_reply h) bm params buffer s
          else Inr (cc, s))"

definition HpiDemarshalReply0 ::
    "bool \<Rightarrow> bool \<Rightarrow> cHpiMarshal \<Rightarrow> cmem \<Rightarrow> nat \<Rightarrow> nat \<Rightarrow> cheap \<Rightarrow> int + nat \<times> cheap" where
  "HpiDemarshalReply0 be bo h bm buffer result s = HpiDemarshalReply be bo h bm buffer [result] s"

definition HpiDemarshalReply1 ::
    "bool \<Rightarrow> bool \<Rightarrow> cHpiMarshal \<Rightarrow> cmem \<Rightarrow> nat \<Rightarrow> nat \<Rightarrow> nat \<Rightarrow> cheap \<Rightarrow> int + nat \<times> cheap" where
  "HpiDemarshalReply1 be bo h bm buffer result p1 s = HpiDemarshalReply be bo h bm buffer [result, p1] s"

definition HpiDemarshalReply2 ::
    "bool \<Rightarrow> bool \<Rightarrow> cHpiMarshal \<Rightarrow> cmem \<Rightarrow> nat \<Rightarrow> nat \<Rightarrow> nat \<Rightarrow> nat \<Rightarrow> cheap \<Rightarrow> int + nat \<times> cheap" where
  "HpiDemarshalReply2 be bo h bm buffer result p1 p2 s =
     HpiDemarshalReply be bo h bm buffer [result, p1, p2] s"

definition HpiDemarshalReply3 ::
    "bool \<Rightarrow> bool \<Rightarrow> cHpiMarshal \<Rightarrow> cmem \<Rightarrow> nat \<Rightarrow> nat \<Rightarrow> nat \<Rightarrow> nat \<Rightarrow> nat \<Rightarrow> cheap \<Rightarrow> int + nat \<times> cheap" where
  "HpiDemarshalReply3 be bo h bm buffer result p1 p2 p3 s =
     HpiDemarshalReply be bo h bm buffer [result, p1, p2, p3] s"

definition HpiDemarshalReply4 ::
    "bool \<Rightarrow> bool \<Rightarrow> cHpiMarshal \<Rightarrow> cmem \<Rightarrow> nat \<Rightarrow> nat \<Rightarrow> nat \<Rightarrow> nat \<Rightarrow> nat \<Rightarrow> nat \<Rightarrow> cheap \<Rightarrow> int + nat \<times> cheap" where
  "HpiDemarshalReply4 be bo h bm buffer result p1 p2 p3 p4 s =
     HpiDemarshalReply be bo h bm buffer [result, p1, p2, p3, p4] s"

definition HpiDemarshalReply5 ::
    "bool \<Rightarrow> bool \<Rightarrow> cHpiMarshal \<Rightarrow> cmem \<Rightarrow> nat \<Rightarrow> nat \<Rightarrow> nat \<Rightarrow> nat \<Rightarrow> nat \<Rightarrow> nat \<Rightarrow> nat \<Rightarrow> cheap \<Rightarrow> int + nat \<times> cheap" where
  "HpiDemarshalReply5 be bo h bm buffer result p1 p2 p3 p4 p5 s =
     HpiDemarshalReply be bo h bm buffer [result, p1, p2, p3, p4, p5] s"

end

