(* ===== verification/MarshalLayouts.thy ===== *)
theory MarshalLayouts
  imports MarshalTypes MarshalProps
begin

text \<open>
  The layouts of the HPI types: every description of a type is sound, and the bytes it describes. The
  extent is at most the size of the C type, less the padding at its end and the fields that are not
  described.
\<close>

lemma layout_simple [simp]: "IsSimpleType t \<Longrightarrow> layout_ok t"
  by (simp add: layout_ok.simps)

lemma layout_composed [simp]:
  "layout_ok (eMtArray n esz e) \<longleftrightarrow> layout_ok e \<and> extent e \<le> esz"
  "layout_ok (eMtStruct fs) \<longleftrightarrow> fields_ok fs 0 0 fs"
  by (simp_all add: layout_ok.simps)

lemma fields_layout [simp]:
  "fields_ok all i lo []"
  "layout_ok e \<Longrightarrow>
    fields_ok all i lo ((off, e) # rest) \<longleftrightarrow> lo \<le> off \<and> fields_ok all (Suc i) (off + extent e) rest"
  "fields_ok all i lo ((off, eMtUnion k us) # rest) \<longleftrightarrow>
    lo \<le> off \<and> k < i \<and> is_int (snd (all ! k)) \<and> list_all (\<lambda>p. layout_ok (snd p)) us \<and>
    fields_ok all (Suc i) (off + extent (eMtUnion k us)) rest"
  "fields_ok all i lo ((off, eMtVarArray k esz e2) # rest) \<longleftrightarrow>
    lo \<le> off \<and> k < i \<and> is_int (snd (all ! k)) \<and> layout_ok e2 \<and> extent e2 \<le> esz \<and>
    fields_ok all (Suc i) (off + extent (eMtVarArray k esz e2)) rest"
proof -
  show "layout_ok e \<Longrightarrow>
    fields_ok all i lo ((off, e) # rest) \<longleftrightarrow> lo \<le> off \<and> fields_ok all (Suc i) (off + extent e) rest"
    by (cases e) (simp_all add: fields_ok.simps layout_ok.simps)
qed (simp_all add: fields_ok.simps)

lemmas extent_simps [simp] = extent_simple extent_struct

lemma extent_composed [simp]:
  "extent (eMtArray n esz e) = n * esz"
  "extent (eMtUnion k us) = foldr max (map (\<lambda>p. extent (snd p)) us) 0"
  by (simp_all add: extent.simps)

section \<open>The types\<close>

lemma SaHpiTextBufferDataArray_ok [simp]: "layout_ok SaHpiTextBufferDataArray" "extent SaHpiTextBufferDataArray = 255"
  by (simp_all
      add: SaHpiTextBufferDataArray_def)

lemma SaHpiTextBufferType_ok [simp]: "layout_ok SaHpiTextBufferType" "extent SaHpiTextBufferType = 264"
  by (simp_all
      add: SaHpiTextBufferType_def SaHpiTextBufferElements_def)

lemma oHpiHandlerConfigParamTypeNameArray_ok [simp]: "layout_ok oHpiHandlerConfigParamTypeNameArray" "extent oHpiHandlerConfigParamTypeNameArray = 255"
  by (simp_all
      add: oHpiHandlerConfigParamTypeNameArray_def)

lemma oHpiHandlerConfigParamTypeValueArray_ok [simp]: "layout_ok oHpiHandlerConfigParamTypeValueArray" "extent oHpiHandlerConfigParamTypeValueArray = 255"
  by (simp_all
      add: oHpiHandlerConfigParamTypeValueArray_def)

lemma oHpiHandlerConfigParamType_ok [simp]: "layout_ok oHpiHandlerConfigParamType" "extent oHpiHandlerConfigParamType = 510"
  by (simp_all
      add: oHpiHandlerConfigParamType_def oHpiHandlerConfigParamTypeElements_def)

lemma oHpiHandlerConfigType_ok [simp]: "layout_ok oHpiHandlerConfigType" "extent oHpiHandlerConfigType = 16"
  by (simp_all
      add: oHpiHandlerConfigType_def oHpiHandlerConfigTypeElements_def HandlerConfigParamsArray_def)

lemma SaHpiEntityType_ok [simp]: "layout_ok SaHpiEntityType" "extent SaHpiEntityType = 8"
  by (simp_all add: SaHpiEntityType_def SaHpiEntityElements_def)

lemma SaHpiEntityPathEntryArray_ok [simp]: "layout_ok SaHpiEntityPathEntryArray" "extent SaHpiEntityPathEntryArray = 128"
  by (simp_all
      add: SaHpiEntityPathEntryArray_def)

lemma SaHpiEntityPathType_ok [simp]: "layout_ok SaHpiEntityPathType" "extent SaHpiEntityPathType = 128"
  by (simp_all
      add: SaHpiEntityPathType_def SaHpiEntityPathElements_def)

lemma SaHpiSensorInterpretedUnionBufferArray_ok [simp]: "layout_ok SaHpiSensorInterpretedUnionBufferArray" "extent SaHpiSensorInterpretedUnionBufferArray = 32"
  by (simp_all
      add: SaHpiSensorInterpretedUnionBufferArray_def)

lemma SaHpiSensorReadingType_ok [simp]: "layout_ok SaHpiSensorReadingType" "extent SaHpiSensorReadingType = 40"
  by (simp_all
      add: SaHpiSensorReadingType_def SaHpiSensorReadingTElements_def SaHpiSensorReadingUnionType_def SaHpiSensorReadingUnionElements_def)

lemma SaHpiSensorThresholdsType_ok [simp]: "layout_ok SaHpiSensorThresholdsType" "extent SaHpiSensorThresholdsType = 320"
  by (simp_all
      add: SaHpiSensorThresholdsType_def SaHpiSensorThresholdsElements_def)

lemma SaHpiSensorRangeType_ok [simp]: "layout_ok SaHpiSensorRangeType" "extent SaHpiSensorRangeType = 208"
  by (simp_all
      add: SaHpiSensorRangeType_def SaHpiSensorRangeElements_def)

lemma SaHpiSensorDataFormatType_ok [simp]: "layout_ok SaHpiSensorDataFormatType" "extent SaHpiSensorDataFormatType = 240"
  by (simp_all
      add: SaHpiSensorDataFormatType_def SaHpiSensorDataFormatElements_def)

lemma SaHpiSensorThdDefnType_ok [simp]: "layout_ok SaHpiSensorThdDefnType" "extent SaHpiSensorThdDefnType = 4"
  by (simp_all
      add: SaHpiSensorThdDefnType_def SaHpiSensorThdDefnElements_def)

lemma SaHpiSensorRecType_ok [simp]: "layout_ok SaHpiSensorRecType" "extent SaHpiSensorRecType = 272"
  by (simp_all add: SaHpiSensorRecType_def SaHpiSensorRecElements_def)

lemma SaHpiCtrlStateStreamArray_ok [simp]: "layout_ok SaHpiCtrlStateStreamArray" "extent SaHpiCtrlStateStreamArray = 4"
  by (simp_all
      add: SaHpiCtrlStateStreamArray_def)

lemma SaHpiCtrlStateStreamType_ok [simp]: "layout_ok SaHpiCtrlStateStreamType" "extent SaHpiCtrlStateStreamType = 12"
  by (simp_all
      add: SaHpiCtrlStateStreamType_def SaHpiCtrlStateStreamElements_def)

lemma SaHpiCtrlStateTextType_ok [simp]: "layout_ok SaHpiCtrlStateTextType" "extent SaHpiCtrlStateTextType = 268"
  by (simp_all
      add: SaHpiCtrlStateTextType_def SaHpiCtrlStateTextElements_def)

lemma SaHpiCtrlStateOemBodyArray_ok [simp]: "layout_ok SaHpiCtrlStateOemBodyArray" "extent SaHpiCtrlStateOemBodyArray = 255"
  by (simp_all
      add: SaHpiCtrlStateOemBodyArray_def)

lemma SaHpiCtrlStateOemType_ok [simp]: "layout_ok SaHpiCtrlStateOemType" "extent SaHpiCtrlStateOemType = 260"
  by (simp_all
      add: SaHpiCtrlStateOemType_def SaHpiCtrlStateOemElements_def)

lemma SaHpiCtrlStateType_ok [simp]: "layout_ok SaHpiCtrlStateType" "extent SaHpiCtrlStateType = 272"
  by (simp_all
      add: SaHpiCtrlStateType_def SaHpiCtrlStateElements_def SaHpiCtrlStateUnionType_def SaHpiCtrlStateUnionElements_def)

lemma SaHpiCtrlRecDigitalType_ok [simp]: "layout_ok SaHpiCtrlRecDigitalType" "extent SaHpiCtrlRecDigitalType = 4"
  by (simp_all
      add: SaHpiCtrlRecDigitalType_def SaHpiCtrlRecDigitalElements_def)

lemma SaHpiCtrlRecDiscreteType_ok [simp]: "layout_ok SaHpiCtrlRecDiscreteType" "extent SaHpiCtrlRecDiscreteType = 4"
  by (simp_all
      add: SaHpiCtrlRecDiscreteType_def SaHpiCtrlRecDiscreteElements_def)

lemma SaHpiCtrlRecAnalogType_ok [simp]: "layout_ok SaHpiCtrlRecAnalogType" "extent SaHpiCtrlRecAnalogType = 12"
  by (simp_all
      add: SaHpiCtrlRecAnalogType_def SaHpiCtrlRecAnalogElements_def)

lemma SaHpiCtrlRecStreamType_ok [simp]: "layout_ok SaHpiCtrlRecStreamType" "extent SaHpiCtrlRecStreamType = 12"
  by (simp_all
      add: SaHpiCtrlRecStreamType_def SaHpiCtrlRecStreamElements_def)

lemma SaHpiCtrlRecTextType_ok [simp]: "layout_ok SaHpiCtrlRecTextType" "extent SaHpiCtrlRecTextType = 280"
  by (simp_all
      add: SaHpiCtrlRecTextType_def SaHpiCtrlRecTextElements_def)

lemma SaHpiCtrlRecOemConfigDataArray_ok [simp]: "layout_ok SaHpiCtrlRecOemConfigDataArray" "extent SaHpiCtrlRecOemConfigDataArray = 10"
  by (simp_all
      add: SaHpiCtrlRecOemConfigDataArray_def)

lemma SaHpiCtrlRecOemType_ok [simp]: "layout_ok SaHpiCtrlRecOemType" "extent SaHpiCtrlRecOemType = 276"
  by (simp_all
      add: SaHpiCtrlRecOemType_def SaHpiCtrlRecOemElements_def)

lemma SaHpiCtrlDefaultModeType_ok [simp]: "layout_ok SaHpiCtrlDefaultModeType" "extent SaHpiCtrlDefaultModeType = 5"
  by (simp_all
      add: SaHpiCtrlDefaultModeType_def SaHpiCtrlDefaultModeElements_def)

lemma SaHpiCtrlRecType_ok [simp]: "layout_ok SaHpiCtrlRecType" "extent SaHpiCtrlRecType = 308"
  by (simp_all
      add: SaHpiCtrlRecType_def SaHpiCtrlRecElements_def SaHpiCtrlRecUnionType_def SaHpiCtrlRecUnionElements_def)

lemma SaHpiIdrFieldType_ok [simp]: "layout_ok SaHpiIdrFieldType" "extent SaHpiIdrFieldType = 280"
  by (simp_all add: SaHpiIdrFieldType_def SaHpiIdrFieldTElements_def)

lemma SaHpiIdrAreaHeaderType_ok [simp]: "layout_ok SaHpiIdrAreaHeaderType" "extent SaHpiIdrAreaHeaderType = 16"
  by (simp_all
      add: SaHpiIdrAreaHeaderType_def SaHpiIdrAreaHeaderTElements_def)

lemma SaHpiIdrInfoType_ok [simp]: "layout_ok SaHpiIdrInfoType" "extent SaHpiIdrInfoType = 16"
  by (simp_all add: SaHpiIdrInfoType_def SaHpiIdrInfoTElements_def)

lemma SaHpiInventoryRecType_ok [simp]: "layout_ok SaHpiInventoryRecType" "extent SaHpiInventoryRecType = 12"
  by (simp_all
      add: SaHpiInventoryRecType_def SaHpiInventoryRecElements_def)

lemma SaHpiWatchdogType_ok [simp]: "layout_ok SaHpiWatchdogType" "extent SaHpiWatchdogType = 32"
  by (simp_all add: SaHpiWatchdogType_def SaHpiWatchdogElements_def)

lemma SaHpiWatchdogRecType_ok [simp]: "layout_ok SaHpiWatchdogRecType" "extent SaHpiWatchdogRecType = 8"
  by (simp_all
      add: SaHpiWatchdogRecType_def SaHpiWatchdogRecElements_def)

lemma SaHpiNameDataArray_ok [simp]: "layout_ok SaHpiNameDataArray" "extent SaHpiNameDataArray = 256"
  by (simp_all add: SaHpiNameDataArray_def)

lemma SaHpiNameType_ok [simp]: "layout_ok SaHpiNameType" "extent SaHpiNameType = 258"
  by (simp_all add: SaHpiNameType_def SaHpiNameElements_def)

lemma SaHpiConditionType_ok [simp]: "layout_ok SaHpiConditionType" "extent SaHpiConditionType = 672"
  by (simp_all add: SaHpiConditionType_def SaHpiConditionTypeElements_def)

lemma SaHpiAnnouncementType_ok [simp]: "layout_ok SaHpiAnnouncementType" "extent SaHpiAnnouncementType = 700"
  by (simp_all
      add: SaHpiAnnouncementType_def SaHpiAnnouncementTypeElements_def)

lemma SaHpiAnnunciatorRecType_ok [simp]: "layout_ok SaHpiAnnunciatorRecType" "extent SaHpiAnnunciatorRecType = 20"
  by (simp_all
      add: SaHpiAnnunciatorRecType_def SaHpiAnnunciatorRecElements_def)

lemma SaHpiDimiInfoType_ok [simp]: "layout_ok SaHpiDimiInfoType" "extent SaHpiDimiInfoType = 8"
  by (simp_all add: SaHpiDimiInfoType_def SaHpiDimiInfoElements_def)

lemma ParamNameArray_ok [simp]: "layout_ok ParamNameArray" "extent ParamNameArray = 20"
  by (simp_all add: ParamNameArray_def)

lemma SaHpiDimiTestParamsDefinitionType_ok [simp]: "layout_ok SaHpiDimiTestParamsDefinitionType" "extent SaHpiDimiTestParamsDefinitionType = 568"
  by (simp_all
      add: SaHpiDimiTestParamsDefinitionType_def SaHpiDimiTestParamsDefinitionTypeElements_def SaHpiDimiTestParameterValueUnionType_def SaHpiDimiTestParameterValueUnionTypeElements_def SaHpiDimiTestParamValue2Type_def SaHpiDimiTestParamValue2TypeElements_def)

lemma SaHpiDimiTestAffectedEntityType_ok [simp]: "layout_ok SaHpiDimiTestAffectedEntityType" "extent SaHpiDimiTestAffectedEntityType = 132"
  by (simp_all
      add: SaHpiDimiTestAffectedEntityType_def SaHpiDimiTestAffectedEntityTypeElements_def)

lemma EntitiesImpactedArray_ok [simp]: "layout_ok EntitiesImpactedArray" "extent EntitiesImpactedArray = 660"
  by (simp_all
      add: EntitiesImpactedArray_def)

lemma TestParametersArray_ok [simp]: "layout_ok TestParametersArray" "extent TestParametersArray = 5680"
  by (simp_all
      add: TestParametersArray_def)

lemma SaHpiDimiTestType_ok [simp]: "layout_ok SaHpiDimiTestType" "extent SaHpiDimiTestType = 6896"
  by (simp_all add: SaHpiDimiTestType_def SaHpiDimiTestTypeElements_def)

lemma SaHpiDimiTestResultsType_ok [simp]: "layout_ok SaHpiDimiTestResultsType" "extent SaHpiDimiTestResultsType = 289"
  by (simp_all
      add: SaHpiDimiTestResultsType_def SaHpiDimiTestResultsTypeElements_def)

lemma SaHpiDimiTestVariableParamsType_ok [simp]: "layout_ok SaHpiDimiTestVariableParamsType" "extent SaHpiDimiTestVariableParamsType = 288"
  by (simp_all
      add: SaHpiDimiTestVariableParamsType_def SaHpiDimiTestVariableParamsTypeElements_def SaHpiDimiTestParamValue1Type_def SaHpiDimiTestParamValue1TypeElements_def)

lemma SaHpiDimiTestVariableParamsListType_ok [simp]: "layout_ok SaHpiDimiTestVariableParamsListType" "extent SaHpiDimiTestVariableParamsListType = 16"
  by (simp_all
      add: SaHpiDimiTestVariableParamsListType_def SaHpiDimiTestVariableParamsListTypeElements_def ParamsListArray_def)

lemma SaHpiDimiRecType_ok [simp]: "layout_ok SaHpiDimiRecType" "extent SaHpiDimiRecType = 8"
  by (simp_all add: SaHpiDimiRecType_def SaHpiDimiRecElements_def)

lemma SaHpiFumiSafDefinedSpecInfoType_ok [simp]: "layout_ok SaHpiFumiSafDefinedSpecInfoType" "extent SaHpiFumiSafDefinedSpecInfoType = 8"
  by (simp_all
      add: SaHpiFumiSafDefinedSpecInfoType_def SaHpiFumiSafDefinedSpecInfoElements_def)

lemma SaHpiFumiOemDefinedSpecInfoBodyArray_ok [simp]: "layout_ok SaHpiFumiOemDefinedSpecInfoBodyArray" "extent SaHpiFumiOemDefinedSpecInfoBodyArray = 255"
  by (simp_all
      add: SaHpiFumiOemDefinedSpecInfoBodyArray_def)

lemma SaHpiFumiOemDefinedSpecInfoType_ok [simp]: "layout_ok SaHpiFumiOemDefinedSpecInfoType" "extent SaHpiFumiOemDefinedSpecInfoType = 260"
  by (simp_all
      add: SaHpiFumiOemDefinedSpecInfoType_def SaHpiFumiOemDefinedSpecInfoElements_def)

lemma SaHpiFumiSpecInfoType_ok [simp]: "layout_ok SaHpiFumiSpecInfoType" "extent SaHpiFumiSpecInfoType = 264"
  by (simp_all
      add: SaHpiFumiSpecInfoType_def SaHpiFumiSpecInfoTypeElements_def SaHpiFumiSpecInfoTypeUnionType_def SaHpiFumiSpecInfoTypeUnionElements_def)

lemma SaHpiFumiImpactedEntityType_ok [simp]: "layout_ok SaHpiFumiImpactedEntityType" "extent SaHpiFumiImpactedEntityType = 132"
  by (simp_all
      add: SaHpiFumiImpactedEntityType_def SaHpiFumiImpactedEntityTypeElements_def)

lemma SaHpiFumiServiceImpactDataImpactedEntitiesArray_ok [simp]: "layout_ok SaHpiFumiServiceImpactDataImpactedEntitiesArray" "extent SaHpiFumiServiceImpactDataImpactedEntitiesArray = 660"
  by (simp_all
      add: SaHpiFumiServiceImpactDataImpactedEntitiesArray_def)

lemma SaHpiFumiServiceImpactDataType_ok [simp]: "layout_ok SaHpiFumiServiceImpactDataType" "extent SaHpiFumiServiceImpactDataType = 664"
  by (simp_all
      add: SaHpiFumiServiceImpactDataType_def SaHpiFumiServiceImpactDataElements_def)

lemma SaHpiFumiSourceInfoType_ok [simp]: "layout_ok SaHpiFumiSourceInfoType" "extent SaHpiFumiSourceInfoType = 1072"
  by (simp_all
      add: SaHpiFumiSourceInfoType_def SaHpiFumiSourceInfoTypeElements_def)

lemma SaHpiFumiBankInfoType_ok [simp]: "layout_ok SaHpiFumiBankInfoType" "extent SaHpiFumiBankInfoType = 820"
  by (simp_all
      add: SaHpiFumiBankInfoType_def SaHpiFumiBankInfoTypeElements_def)

lemma SaHpiFumiFirmwareInstanceInfoType_ok [simp]: "layout_ok SaHpiFumiFirmwareInstanceInfoType" "extent SaHpiFumiFirmwareInstanceInfoType = 808"
  by (simp_all
      add: SaHpiFumiFirmwareInstanceInfoType_def SaHpiFumiFirmwareInstanceInfoTypeElements_def)

lemma SaHpiFumiLogicalBankInfoType_ok [simp]: "layout_ok SaHpiFumiLogicalBankInfoType" "extent SaHpiFumiLogicalBankInfoType = 1624"
  by (simp_all
      add: SaHpiFumiLogicalBankInfoType_def SaHpiFumiLogicalBankInfoTypeElements_def)

lemma SaHpiFumiComponentInfoType_ok [simp]: "layout_ok SaHpiFumiComponentInfoType" "extent SaHpiFumiComponentInfoType = 820"
  by (simp_all
      add: SaHpiFumiComponentInfoType_def SaHpiFumiComponentInfoTypeElements_def)

lemma SaHpiFumiLogicalComponentInfoType_ok [simp]: "layout_ok SaHpiFumiLogicalComponentInfoType" "extent SaHpiFumiLogicalComponentInfoType = 1628"
  by (simp_all
      add: SaHpiFumiLogicalComponentInfoType_def SaHpiFumiLogicalComponentInfoTypeElements_def)

lemma SaHpiFumiRecType_ok [simp]: "layout_ok SaHpiFumiRecType" "extent SaHpiFumiRecType = 20"
  by (simp_all add: SaHpiFumiRecType_def SaHpiFumiRecElements_def)

lemma SaHpiRdrType_ok [simp]: "layout_ok SaHpiRdrType" "extent SaHpiRdrType = 720"
  by (simp_all
      add: SaHpiRdrType_def SaHpiRdrElements_def SaHpiRdrTypeUnionType_def SaHpiRdrTypeUnionTypeElements_def)

lemma SaHpiResourceEventType_ok [simp]: "layout_ok SaHpiResourceEventType" "extent SaHpiResourceEventType = 4"
  by (simp_all
      add: SaHpiResourceEventType_def SaHpiResourceEventTypeElements_def)

lemma SaHpiDomainEventType_ok [simp]: "layout_ok SaHpiDomainEventType" "extent SaHpiDomainEventType = 8"
  by (simp_all
      add: SaHpiDomainEventType_def SaHpiDomainEventTypeElements_def)

lemma SaHpiSensorEventType_ok [simp]: "layout_ok SaHpiSensorEventType" "extent SaHpiSensorEventType = 108"
  by (simp_all
      add: SaHpiSensorEventType_def SaHpiSensorEventElements_def)

lemma SaHpiSensorEnableChangeEventType_ok [simp]: "layout_ok SaHpiSensorEnableChangeEventType" "extent SaHpiSensorEnableChangeEventType = 20"
  by (simp_all
      add: SaHpiSensorEnableChangeEventType_def SaHpiSensorEnableChangeEventTElements_def)

lemma SaHpiHotSwapEventType_ok [simp]: "layout_ok SaHpiHotSwapEventType" "extent SaHpiHotSwapEventType = 12"
  by (simp_all
      add: SaHpiHotSwapEventType_def SaHpiHotSwapEventElements_def)

lemma SaHpiWatchdogEventType_ok [simp]: "layout_ok SaHpiWatchdogEventType" "extent SaHpiWatchdogEventType = 16"
  by (simp_all
      add: SaHpiWatchdogEventType_def SaHpiWatchdogEventElements_def)

lemma SaHpiHpiSwEventType_ok [simp]: "layout_ok SaHpiHpiSwEventType" "extent SaHpiHpiSwEventType = 272"
  by (simp_all
      add: SaHpiHpiSwEventType_def SaHpiHpiSwEventTypeElements_def)

lemma SaHpiOemEventType_ok [simp]: "layout_ok SaHpiOemEventType" "extent SaHpiOemEventType = 268"
  by (simp_all add: SaHpiOemEventType_def SaHpiOemEventTypeElements_def)

lemma SaHpiUserEventType_ok [simp]: "layout_ok SaHpiUserEventType" "extent SaHpiUserEventType = 264"
  by (simp_all add: SaHpiUserEventType_def SaHpiUserEventElements_def)

lemma SaHpiDimiEventType_ok [simp]: "layout_ok SaHpiDimiEventType" "extent SaHpiDimiEventType = 16"
  by (simp_all add: SaHpiDimiEventType_def SaHpiDimiEventElements_def)

lemma SaHpiDimiUpdateEventType_ok [simp]: "layout_ok SaHpiDimiUpdateEventType" "extent SaHpiDimiUpdateEventType = 4"
  by (simp_all
      add: SaHpiDimiUpdateEventType_def SaHpiDimiUpdateEventElements_def)

lemma SaHpiFumiEventType_ok [simp]: "layout_ok SaHpiFumiEventType" "extent SaHpiFumiEventType = 12"
  by (simp_all add: SaHpiFumiEventType_def SaHpiFumiEventElements_def)

lemma SaHpiEventType_ok [simp]: "layout_ok SaHpiEventType" "extent SaHpiEventType = 296"
  by (simp_all
      add: SaHpiEventType_def SaHpiEventElements_def SaHpiEventUnionType_def SaHpiEventUnionElements_def)

lemma GuidDataArray_ok [simp]: "layout_ok GuidDataArray" "extent GuidDataArray = 16"
  by (simp_all add: GuidDataArray_def)

lemma SaHpiResourceInfoType_ok [simp]: "layout_ok SaHpiResourceInfoType" "extent SaHpiResourceInfoType = 29"
  by (simp_all
      add: SaHpiResourceInfoType_def SaHpiResourceInfoElements_def)

lemma SaHpiRptEntryType_ok [simp]: "layout_ok SaHpiRptEntryType" "extent SaHpiRptEntryType = 448"
  by (simp_all add: SaHpiRptEntryType_def SaHpiRptEntryElements_def)

lemma SaHpiLoadIdType_ok [simp]: "layout_ok SaHpiLoadIdType" "extent SaHpiLoadIdType = 268"
  by (simp_all add: SaHpiLoadIdType_def SaHpiLoadIdElements_def)

lemma SaHpiDomainInfoType_ok [simp]: "layout_ok SaHpiDomainInfoType" "extent SaHpiDomainInfoType = 357"
  by (simp_all
      add: SaHpiDomainInfoType_def SaHpiDomainInfoTElements_def)

lemma SaHpiDrtEntryType_ok [simp]: "layout_ok SaHpiDrtEntryType" "extent SaHpiDrtEntryType = 9"
  by (simp_all add: SaHpiDrtEntryType_def SaHpiDrtEntryTElements_def)

lemma SaHpiAlarmType_ok [simp]: "layout_ok SaHpiAlarmType" "extent SaHpiAlarmType = 696"
  by (simp_all add: SaHpiAlarmType_def SaHpiAlarmTElements_def)

lemma SaHpiEventLogInfoType_ok [simp]: "layout_ok SaHpiEventLogInfoType" "extent SaHpiEventLogInfoType = 40"
  by (simp_all
      add: SaHpiEventLogInfoType_def SaHpiEventLogInfoTElements_def)

lemma SaHpiEventLogEntryType_ok [simp]: "layout_ok SaHpiEventLogEntryType" "extent SaHpiEventLogEntryType = 312"
  by (simp_all
      add: SaHpiEventLogEntryType_def SaHpiEventLogEntryElements_def)

lemma plugin_nameBufferArray_ok [simp]: "layout_ok plugin_nameBufferArray" "extent plugin_nameBufferArray = 32"
  by (simp_all
      add: plugin_nameBufferArray_def)

lemma oHpiHandlerInfoType_ok [simp]: "layout_ok oHpiHandlerInfoType" "extent oHpiHandlerInfoType = 168"
  by (simp_all
      add: oHpiHandlerInfoType_def oHpiHandlerInfoElements_def)

lemma GlobalParamPathArray_ok [simp]: "layout_ok GlobalParamPathArray" "extent GlobalParamPathArray = 2048"
  by (simp_all
      add: GlobalParamPathArray_def)

lemma GlobalParamVarPathArray_ok [simp]: "layout_ok GlobalParamVarPathArray" "extent GlobalParamVarPathArray = 2048"
  by (simp_all
      add: GlobalParamVarPathArray_def)

lemma GlobalParamConfArray_ok [simp]: "layout_ok GlobalParamConfArray" "extent GlobalParamConfArray = 2048"
  by (simp_all
      add: GlobalParamConfArray_def)

lemma oHpiGlobalParamType_ok [simp]: "layout_ok oHpiGlobalParamType" "extent oHpiGlobalParamType = 2052"
  by (simp_all
      add: oHpiGlobalParamType_def oHpiGlobalParamTypeElements_def oHpiGlobalParamUnionType_def oHpiGlobalParamUnionTypeElements_def)

end
