(* ===== verification/HpiCallsProps.thy ===== *)
theory HpiCallsProps
  imports HpiCalls MarshalLayouts
begin

text \<open>
  The calls between the client library and the daemon: the table holds every call at its number, every
  type in it has a sound layout, so requests and replies carry the values of their parameters from one
  host to the other, whatever the byte orders of the two.
\<close>

section \<open>The table\<close>

lemmas call_types =
  saHpiSessionOpenIn_def saHpiSessionOpenOut_def saHpiSessionCloseIn_def saHpiSessionCloseOut_def
  saHpiDiscoverIn_def saHpiDiscoverOut_def saHpiDomainInfoGetIn_def saHpiDomainInfoGetOut_def
  saHpiDrtEntryGetIn_def saHpiDrtEntryGetOut_def saHpiDomainTagSetIn_def saHpiDomainTagSetOut_def
  saHpiRptEntryGetIn_def saHpiRptEntryGetOut_def saHpiRptEntryGetByResourceIdIn_def
  saHpiRptEntryGetByResourceIdOut_def saHpiResourceSeveritySetIn_def
  saHpiResourceSeveritySetOut_def saHpiResourceTagSetIn_def saHpiResourceTagSetOut_def
  saHpiMyEntityPathGetIn_def saHpiMyEntityPathGetOut_def saHpiResourceIdGetIn_def
  saHpiResourceIdGetOut_def saHpiGetIdByEntityPathIn_def saHpiGetIdByEntityPathOut_def
  saHpiGetChildEntityPathIn_def saHpiGetChildEntityPathOut_def saHpiResourceFailedRemoveIn_def
  saHpiResourceFailedRemoveOut_def saHpiEventLogInfoGetIn_def saHpiEventLogInfoGetOut_def
  saHpiEventLogCapabilitiesGetIn_def saHpiEventLogCapabilitiesGetOut_def
  saHpiEventLogEntryGetIn_def saHpiEventLogEntryGetOut_def saHpiEventLogEntryAddIn_def
  saHpiEventLogEntryAddOut_def saHpiEventLogClearIn_def saHpiEventLogClearOut_def
  saHpiEventLogTimeGetIn_def saHpiEventLogTimeGetOut_def saHpiEventLogTimeSetIn_def
  saHpiEventLogTimeSetOut_def saHpiEventLogStateGetIn_def saHpiEventLogStateGetOut_def
  saHpiEventLogStateSetIn_def saHpiEventLogStateSetOut_def saHpiEventLogOverflowResetIn_def
  saHpiEventLogOverflowResetOut_def saHpiSubscribeIn_def saHpiSubscribeOut_def
  saHpiUnsubscribeIn_def saHpiUnsubscribeOut_def saHpiEventGetIn_def saHpiEventGetOut_def
  saHpiEventAddIn_def saHpiEventAddOut_def saHpiAlarmGetNextIn_def saHpiAlarmGetNextOut_def
  saHpiAlarmGetIn_def saHpiAlarmGetOut_def saHpiAlarmAcknowledgeIn_def
  saHpiAlarmAcknowledgeOut_def saHpiAlarmAddIn_def saHpiAlarmAddOut_def saHpiAlarmDeleteIn_def
  saHpiAlarmDeleteOut_def saHpiRdrGetIn_def saHpiRdrGetOut_def saHpiRdrGetByInstrumentIdIn_def
  saHpiRdrGetByInstrumentIdOut_def saHpiRdrUpdateCountGetIn_def saHpiRdrUpdateCountGetOut_def
  saHpiSensorReadingGetIn_def saHpiSensorReadingGetOut_def saHpiSensorThresholdsGetIn_def
  saHpiSensorThresholdsGetOut_def saHpiSensorThresholdsSetIn_def saHpiSensorThresholdsSetOut_def
  saHpiSensorTypeGetIn_def saHpiSensorTypeGetOut_def saHpiSensorEnableGetIn_def
  saHpiSensorEnableGetOut_def saHpiSensorEnableSetIn_def saHpiSensorEnableSetOut_def
  saHpiSensorEventEnableGetIn_def saHpiSensorEventEnableGetOut_def
  saHpiSensorEventEnableSetIn_def saHpiSensorEventEnableSetOut_def saHpiSensorEventMasksGetIn_def
  saHpiSensorEventMasksGetOut_def saHpiSensorEventMasksSetIn_def saHpiSensorEventMasksSetOut_def
  saHpiControlTypeGetIn_def saHpiControlTypeGetOut_def saHpiControlGetIn_def
  saHpiControlGetOut_def saHpiControlSetIn_def saHpiControlSetOut_def saHpiIdrInfoGetIn_def
  saHpiIdrInfoGetOut_def saHpiIdrAreaHeaderGetIn_def saHpiIdrAreaHeaderGetOut_def
  saHpiIdrAreaAddIn_def saHpiIdrAreaAddOut_def saHpiIdrAreaAddByIdIn_def
  saHpiIdrAreaAddByIdOut_def saHpiIdrAreaDeleteIn_def saHpiIdrAreaDeleteOut_def
  saHpiIdrFieldGetIn_def saHpiIdrFieldGetOut_def saHpiIdrFieldAddIn_def saHpiIdrFieldAddOut_def
  saHpiIdrFieldAddByIdIn_def saHpiIdrFieldAddByIdOut_def saHpiIdrFieldSetIn_def
  saHpiIdrFieldSetOut_def saHpiIdrFieldDeleteIn_def saHpiIdrFieldDeleteOut_def
  saHpiWatchdogTimerGetIn_def saHpiWatchdogTimerGetOut_def saHpiWatchdogTimerSetIn_def
  saHpiWatchdogTimerSetOut_def saHpiWatchdogTimerResetIn_def saHpiWatchdogTimerResetOut_def
  saHpiAnnunciatorGetNextIn_def saHpiAnnunciatorGetNextOut_def saHpiAnnunciatorGetIn_def
  saHpiAnnunciatorGetOut_def saHpiAnnunciatorAcknowledgeIn_def saHpiAnnunciatorAcknowledgeOut_def
  saHpiAnnunciatorAddIn_def saHpiAnnunciatorAddOut_def saHpiAnnunciatorDeleteIn_def
  saHpiAnnunciatorDeleteOut_def saHpiAnnunciatorModeGetIn_def saHpiAnnunciatorModeGetOut_def
  saHpiAnnunciatorModeSetIn_def saHpiAnnunciatorModeSetOut_def saHpiDimiInfoGetIn_def
  saHpiDimiInfoGetOut_def saHpiDimiTestInfoGetIn_def saHpiDimiTestInfoGetOut_def
  saHpiDimiTestReadinessGetIn_def saHpiDimiTestReadinessGetOut_def saHpiDimiTestStartIn_def
  saHpiDimiTestStartOut_def saHpiDimiTestCancelIn_def saHpiDimiTestCancelOut_def
  saHpiDimiTestStatusGetIn_def saHpiDimiTestStatusGetOut_def saHpiDimiTestResultsGetIn_def
  saHpiDimiTestResultsGetOut_def saHpiFumiSpecInfoGetIn_def saHpiFumiSpecInfoGetOut_def
  saHpiFumiServiceImpactGetIn_def saHpiFumiServiceImpactGetOut_def saHpiFumiSourceSetIn_def
  saHpiFumiSourceSetOut_def saHpiFumiSourceInfoValidateStartIn_def
  saHpiFumiSourceInfoValidateStartOut_def saHpiFumiSourceInfoGetIn_def
  saHpiFumiSourceInfoGetOut_def saHpiFumiSourceComponentInfoGetIn_def
  saHpiFumiSourceComponentInfoGetOut_def saHpiFumiTargetInfoGetIn_def
  saHpiFumiTargetInfoGetOut_def saHpiFumiTargetComponentInfoGetIn_def
  saHpiFumiTargetComponentInfoGetOut_def saHpiFumiLogicalTargetInfoGetIn_def
  saHpiFumiLogicalTargetInfoGetOut_def saHpiFumiLogicalTargetComponentInfoGetIn_def
  saHpiFumiLogicalTargetComponentInfoGetOut_def saHpiFumiBackupStartIn_def
  saHpiFumiBackupStartOut_def saHpiFumiBankBootOrderSetIn_def saHpiFumiBankBootOrderSetOut_def
  saHpiFumiBankCopyStartIn_def saHpiFumiBankCopyStartOut_def saHpiFumiInstallStartIn_def
  saHpiFumiInstallStartOut_def saHpiFumiUpgradeStatusGetIn_def saHpiFumiUpgradeStatusGetOut_def
  saHpiFumiTargetVerifyStartIn_def saHpiFumiTargetVerifyStartOut_def
  saHpiFumiTargetVerifyMainStartIn_def saHpiFumiTargetVerifyMainStartOut_def
  saHpiFumiUpgradeCancelIn_def saHpiFumiUpgradeCancelOut_def
  saHpiFumiAutoRollbackDisableGetIn_def saHpiFumiAutoRollbackDisableGetOut_def
  saHpiFumiAutoRollbackDisableSetIn_def saHpiFumiAutoRollbackDisableSetOut_def
  saHpiFumiRollbackStartIn_def saHpiFumiRollbackStartOut_def saHpiFumiActivateIn_def
  saHpiFumiActivateOut_def saHpiFumiActivateStartIn_def saHpiFumiActivateStartOut_def
  saHpiFumiCleanupIn_def saHpiFumiCleanupOut_def saHpiHotSwapPolicyCancelIn_def
  saHpiHotSwapPolicyCancelOut_def saHpiResourceActiveSetIn_def saHpiResourceActiveSetOut_def
  saHpiResourceInactiveSetIn_def saHpiResourceInactiveSetOut_def saHpiAutoInsertTimeoutGetIn_def
  saHpiAutoInsertTimeoutGetOut_def saHpiAutoInsertTimeoutSetIn_def
  saHpiAutoInsertTimeoutSetOut_def saHpiAutoExtractTimeoutGetIn_def
  saHpiAutoExtractTimeoutGetOut_def saHpiAutoExtractTimeoutSetIn_def
  saHpiAutoExtractTimeoutSetOut_def saHpiHotSwapStateGetIn_def saHpiHotSwapStateGetOut_def
  saHpiHotSwapActionRequestIn_def saHpiHotSwapActionRequestOut_def
  saHpiHotSwapIndicatorStateGetIn_def saHpiHotSwapIndicatorStateGetOut_def
  saHpiHotSwapIndicatorStateSetIn_def saHpiHotSwapIndicatorStateSetOut_def saHpiParmControlIn_def
  saHpiParmControlOut_def saHpiResourceLoadIdGetIn_def saHpiResourceLoadIdGetOut_def
  saHpiResourceLoadIdSetIn_def saHpiResourceLoadIdSetOut_def saHpiResourceResetStateGetIn_def
  saHpiResourceResetStateGetOut_def saHpiResourceResetStateSetIn_def
  saHpiResourceResetStateSetOut_def saHpiResourcePowerStateGetIn_def
  saHpiResourcePowerStateGetOut_def saHpiResourcePowerStateSetIn_def
  saHpiResourcePowerStateSetOut_def oHpiHandlerCreateIn_def oHpiHandlerCreateOut_def
  oHpiHandlerDestroyIn_def oHpiHandlerDestroyOut_def oHpiHandlerInfoIn_def oHpiHandlerInfoOut_def
  oHpiHandlerGetNextIn_def oHpiHandlerGetNextOut_def oHpiHandlerFindIn_def oHpiHandlerFindOut_def
  oHpiHandlerRetryIn_def oHpiHandlerRetryOut_def oHpiGlobalParamGetIn_def
  oHpiGlobalParamGetOut_def oHpiGlobalParamSetIn_def oHpiGlobalParamSetOut_def
  oHpiInjectEventIn_def oHpiInjectEventOut_def

text \<open>What holds of every entry: sound layouts, and a reply that begins with the result.\<close>

definition entry_ok :: "cHpiMarshal \<Rightarrow> bool" where
  "entry_ok h \<longleftrightarrow> list_all layout_ok (m_request h) \<and> list_all layout_ok (m_reply h) \<and>
     m_reply h \<noteq> [] \<and> hd (m_reply h) = SaErrorType"

lemma table_ok: "list_all entry_ok hpi_marshal"
  by (simp add: hpi_marshal_def entry_ok_def call_types)

lemma length_table [simp]: "length hpi_marshal = 128"
  by (simp add: hpi_marshal_def)

lemma find_ok: "HpiMarshalFind call = Some h \<Longrightarrow> entry_ok h"
  using table_ok by (auto simp: HpiMarshalFind_def Let_def list_all_length split: if_splits)

lemma table_ids: "map m_id hpi_marshal = [1..128]"
  by (simp add: hpi_marshal_def upto.simps)

lemma find_numbered:
  "map f xs = [k..k + int (length xs) - 1] \<Longrightarrow>
    List.find (\<lambda>x. f x = c) xs = (if k \<le> c \<and> c < k + int (length xs) then Some (xs ! nat (c - k)) else None)"
proof (induction xs arbitrary: k)
  case (Cons x xs)
  have "[k..k + int (length (x # xs)) - 1] = k # [k + 1..k + 1 + int (length xs) - 1]"
    by (subst upto.simps) simp
  then have f: "f x = k" "map f xs = [k + 1..k + 1 + int (length xs) - 1]" using Cons.prems by simp_all
  have "nat (c - k) = Suc (nat (c - (k + 1)))" if "k + 1 \<le> c" using that by simp
  then show ?case using Cons.IH [OF f(2)] f(1) by auto
qed simp

text \<open>Looking a call up by position finds what a search of the table for its number finds.\<close>

lemma find_by_number: "HpiMarshalFind call = List.find (\<lambda>h. m_id h = call) hpi_marshal"
proof -
  have "List.find (\<lambda>h. m_id h = call) hpi_marshal =
      (if 1 \<le> call \<and> call < 1 + int (length hpi_marshal) then Some (hpi_marshal ! nat (call - 1)) else None)"
    by (rule find_numbered) (simp add: table_ids)
  then show ?thesis by (auto simp: HpiMarshalFind_def)
qed

section \<open>Requests and replies arrive\<close>

text \<open>
  \<open>be\<close> is the byte order of the receiver, \<open>bo\<close> that of the sender. The bytes of the message are in a
  buffer of the receiver.
\<close>

lemma request_arrives:
  assumes "HpiMarshalFind call = Some h" and "rep_array bo (m_request h) m params vs"
    and "targets_ok (m_request h) params' (brk s)" and "brk s + alloc_all vs \<le> 2 ^ 64"
  shows "\<exists>bs s'. HpiMarshalRequest bo h m params = Inr bs \<and>
    HpiDemarshalRequest be bo h (put_bytes b bs bm) b params' s = Inr (length bs, s') \<and>
    rep_array be (m_request h) (mem s') params' vs \<and> brk s' = brk s + alloc_all vs \<and>
    (\<forall>x. mem s' x \<noteq> mem s x \<longrightarrow> x \<in> regions (m_request h) params' \<or> brk s \<le> x \<and> x < brk s')"
proof -
  have l: "list_all layout_ok (m_request h)" using find_ok [OF assms(1)] by (simp add: entry_ok_def)
  have "wrote (\<lambda>m. rep_array be (m_request h) m params' vs) (regions (m_request h) params') (length (encode_all bo vs))
      (alloc_all vs) s (DemarshalArray be bo (m_request h) (put_bytes b (encode_all bo vs) bm) params' b s)"
    by (rule demarshal_array_wrote [OF l assms(2) bytes_at_put assms(3,4)])
  from wrote_result [OF this] show ?thesis
    by (simp add: HpiMarshalRequest_def HpiDemarshalRequest_def marshal_array_encode [OF l assms(2)])
qed

text \<open>C3: A request can be marshaled exactly if its parameters have values under the descriptions of their
  types: an array that a counter describes has any length, but the selector of a union has to be one
  that the description knows (a sensor reading, for instance, one of the four types, even if it is not
  supported). A request that can be marshaled arrives: the daemon reads from the message as many
  bytes as it has and gets parameters with the same values, what is behind pointers included, if its
  objects for the parameters do not overlap and what is behind pointers fits into its address space.
  Nothing but these objects and newly allocated memory changes.\<close>

theorem request_roundtrip:
  assumes "HpiMarshalFind call = Some h" and "targets_ok (m_request h) params' (brk s)"
  shows "((\<exists>bs. HpiMarshalRequest bo h m params = Inr bs) \<longleftrightarrow>
      (\<exists>vs. rep_array bo (m_request h) m params vs)) \<and>
    (\<forall>vs. rep_array bo (m_request h) m params vs \<and> brk s + alloc_all vs \<le> 2 ^ 64 \<longrightarrow>
      (\<exists>bs s'. HpiMarshalRequest bo h m params = Inr bs \<and>
        HpiDemarshalRequest be bo h (put_bytes b bs bm) b params' s = Inr (length bs, s') \<and>
        rep_array be (m_request h) (mem s') params' vs \<and> brk s' = brk s + alloc_all vs \<and>
        (\<forall>x. mem s' x \<noteq> mem s x \<longrightarrow>
           x \<in> regions (m_request h) params' \<or> brk s \<le> x \<and> x < brk s')))"
proof (intro conjI allI impI)
  have l: "list_all layout_ok (m_request h)" using find_ok [OF assms(1)] by (simp add: entry_ok_def)
  have "HpiMarshalRequest bo h m params = Inr (encode_all bo vs)"
    if "rep_array bo (m_request h) m params vs" for vs
    using marshal_array_encode [OF l that] by (simp add: HpiMarshalRequest_def)
  then show "(\<exists>bs. HpiMarshalRequest bo h m params = Inr bs) \<longleftrightarrow>
      (\<exists>vs. rep_array bo (m_request h) m params vs)"
    using marshal_array_value [OF l] by (auto simp: HpiMarshalRequest_def)
qed (use request_arrives [OF assms(1) _ assms(2)] in blast)

text \<open>
  An example: \<open>oHpiHandlerCreate\<close> with one parameter, its name \<^verbatim>\<open>A\<close> and its value empty, sent by a
  little endian client.
\<close>

definition create_call :: cHpiMarshal where
  "create_call = \<lparr>m_id = eFoHpiHandlerCreate, m_name = ''oHpiHandlerCreate'',
     m_request = oHpiHandlerCreateIn, m_reply = oHpiHandlerCreateOut\<rparr>"

definition create_mem :: cmem where
  "create_mem x = (if x = 100 then 1 else if x = 109 then 16 else if x = 4096 then 65 else 0)"

definition create_vals :: "val list" where
  "create_vals =
     [VB [0, 0, 0, 0],
      VS [VB [1], VP 510 [VS [VS (VB [65] # replicate 254 (VB [0])), VS (replicate 255 (VB [0]))]]]]"

lemma rep_zeros: "(\<And>x. a \<le> x \<Longrightarrow> x < a + n \<Longrightarrow> m x = 0) \<Longrightarrow> rep_loop (rep be eMtUint8 m) (Suc 0) a (replicate n (VB [0]))"
  by (induction n arbitrary: a) (simp_all add: rep_simple bytes_at_def order_def)

lemma create_rep: "rep_array False oHpiHandlerCreateIn create_mem [0, 100] create_vals"
proof -
  have "rep_loop (rep False eMtUint8 create_mem) (Suc 0) 4097 (replicate 254 (VB [0]))"
      "rep_loop (rep False eMtUint8 create_mem) (Suc 0) 4351 (replicate 255 (VB [0]))"
    by (rule rep_zeros; simp add: create_mem_def)+
  moreover have "load_ptr False create_mem 108 = 4096"
    by code_simp
  moreover have "bytes_at create_mem 0 4 = [0, 0, 0, 0]" "bytes_at create_mem 100 (Suc 0) = [1]"
      "bytes_at create_mem 4096 (Suc 0) = [65]"
    by code_simp+
  ultimately show ?thesis
    by (simp add: oHpiHandlerCreateIn_def create_vals_def rep.simps rep_fields.simps field_int_def
        oHpiHandlerConfigType_def oHpiHandlerConfigTypeElements_def HandlerConfigParamsArray_def
        oHpiHandlerConfigParamType_def oHpiHandlerConfigParamTypeElements_def
        oHpiHandlerConfigParamTypeNameArray_def oHpiHandlerConfigParamTypeValueArray_def
        order_def)
qed

lemma alloc_zeros [simp]: "alloc (VS (replicate n (VB bs))) = 0"
  by (induction n) simp_all

theorem request_roundtrip_witness:
  "\<exists>bs s'. HpiMarshalRequest False create_call create_mem [0, 100] = Inr bs \<and>
    HpiDemarshalRequest True False create_call (put_bytes 7 bs (\<lambda>_. 0)) 7 [0, 16] \<lparr>mem = (\<lambda>_. 0), brk = 64\<rparr> =
      Inr (length bs, s') \<and>
    rep_array True (m_request create_call) (mem s') [0, 16] create_vals \<and> brk s' = 64 + 510"
proof -
  have f: "HpiMarshalFind eFoHpiHandlerCreate = Some create_call"
    by (simp add: HpiMarshalFind_def hpi_marshal_def create_call_def)
  have r: "rep_array False (m_request create_call) create_mem [0, 100] create_vals"
    using create_rep by (simp add: create_call_def)
  have a: "alloc_all create_vals = 510"
    by (simp add: create_vals_def del: alloc.simps) (simp add: alloc_zeros [of 254, simplified])
  have t: "targets_ok (m_request create_call) [0, 16] 64"
    by (simp add: create_call_def oHpiHandlerCreateIn_def)
  show ?thesis
    using request_roundtrip [OF f, of "[0, 16]" "\<lparr>mem = (\<lambda>_. 0), brk = 64\<rparr>" False create_mem "[0, 100]"
      True 7 "\<lambda>_. 0"] a t r by auto
qed

text \<open>The result of a call.\<close>

lemma load_err_rep: "rep be SaErrorType m a (VB le) \<longleftrightarrow> length le = 4 \<and> bytes_at m a 4 = order be le"
  by (auto simp: rep_simple)

lemma load_err_value: "rep be SaErrorType m a (VB le) \<Longrightarrow> load_err be m a = of_nat (le_nat le)"
  by (simp add: load_err_rep load_err_def)

lemma reply_head:
  assumes "entry_ok h" and "rep_array be (m_reply h) m as vs"
  obtains le ts ws where "m_reply h = SaErrorType # ts" "vs = VB le # ws" "rep be SaErrorType m (hd as) (VB le)"
proof -
  from assms(1) obtain ts where "m_reply h = SaErrorType # ts" by (cases "m_reply h") (auto simp: entry_ok_def)
  moreover from this assms(2) obtain v ws where "vs = v # ws" "rep be SaErrorType m (hd as) v" by (cases vs) auto
  moreover from this obtain le where "v = VB le" by (auto simp: rep_simple)
  ultimately show ?thesis using that by blast
qed

text \<open>What the client does first: it reads the result.\<close>

lemma demarshal_error:
  assumes "bytes_at bm b 4 = order bo le" and "length le = 4"
  shows "Demarshal be bo SaErrorType bm a b s = Inr (4, poke a (order be le) s)"
    and "load_err be (mem (poke a (order be le) s)) a = of_nat (le_nat le)"
proof -
  have "(if be \<noteq> bo then rev (order bo le) else order bo le) = order be le" by (simp add: order_def)
  then show "Demarshal be bo SaErrorType bm a b s = Inr (4, poke a (order be le) s)"
    using assms by (simp add: Demarshal.simps DemarshalSimpleTypes_def)
  show "load_err be (mem (poke a (order be le) s)) a = of_nat (le_nat le)"
    using bytes_at_put [of a "order be le"] assms(2) by (simp add: load_err_def poke_def)
qed

lemma poke_same [simp]: "brk (poke a bs s) = brk s"
  by (simp add: poke_def)

lemma reply_arrives:
  assumes "HpiMarshalFind call = Some h" and "rep_array bo (m_reply h) m params vs"
    and "load_err bo m (hd params) = 0"
    and "targets_ok (m_reply h) params' (brk s)" and "brk s + alloc_all vs \<le> 2 ^ 64"
  shows "\<exists>bs s'. HpiMarshalReply bo h m params = Inr bs \<and>
    HpiDemarshalReply be bo h (put_bytes b bs bm) b params' s = Inr (length bs, s') \<and>
    rep_array be (m_reply h) (mem s') params' vs \<and> load_err be (mem s') (hd params') = 0 \<and>
    (\<forall>x. mem s' x \<noteq> mem s x \<longrightarrow> x \<in> regions (m_reply h) params' \<or> brk s \<le> x \<and> x < brk s')"
proof -
  have ok: "entry_ok h" by (rule find_ok [OF assms(1)])
  then have l: "list_all layout_ok (m_reply h)" by (simp add: entry_ok_def)
  from reply_head [OF ok assms(2)] obtain le ts ws where
      h: "m_reply h = SaErrorType # ts" "vs = VB le # ws" and le: "rep bo SaErrorType m (hd params) (VB le)" .
  let ?bs = "encode_all bo vs" and ?a = "hd params'"
  let ?bm = "put_bytes b ?bs bm" and ?s = "poke ?a (order be le) s"
  have len: "length le = 4" "of_nat (le_nat le) = (0 :: 32 word)"
    using le load_err_value [OF le] assms(3) by (simp_all add: load_err_rep)
  have all: "bytes_at ?bm b (length ?bs) = ?bs" by (rule bytes_at_put)
  then have "bytes_at ?bm b 4 = order bo le"
    using bytes_at_append [of ?bm b "order bo le" "encode_all bo ws"] len(1) by (simp add: h)
  from demarshal_error [OF this len(1)] len(2)
  have d: "HpiDemarshalReply be bo h ?bm b params' s = DemarshalArray be bo (m_reply h) ?bm params' b ?s"
    by (simp add: HpiDemarshalReply_def)
  have "wrote (\<lambda>m. rep_array be (m_reply h) m params' vs) (regions (m_reply h) params') (length ?bs) (alloc_all vs) ?s
      (DemarshalArray be bo (m_reply h) ?bm params' b ?s)"
    by (rule demarshal_array_wrote [OF l assms(2) all]) (use assms(4,5) in simp_all)
  from wrote_result [OF this] obtain s' where s': "DemarshalArray be bo (m_reply h) ?bm params' b ?s = Inr (length ?bs, s')"
      "rep_array be (m_reply h) (mem s') params' vs" "brk s' = brk s + alloc_all vs"
      "\<And>x. mem s' x \<noteq> mem ?s x \<Longrightarrow> x \<in> regions (m_reply h) params' \<or> brk s \<le> x \<and> x < brk s'"
    by auto
  have "load_err be (mem s') ?a = 0" using s'(2) load_err_value [of be "mem s'" ?a le] len(2) by (simp add: h)
  moreover have "x \<in> regions (m_reply h) params'" if "mem ?s x \<noteq> mem s x" for x
    using that len(1) by (auto simp: poke_def put_bytes_def h split: if_splits)
  then have "x \<in> regions (m_reply h) params' \<or> brk s \<le> x \<and> x < brk s'" if "mem s' x \<noteq> mem s x" for x
    using that s'(4) [of x] by (cases "mem s' x = mem ?s x") auto
  moreover have "HpiMarshalReply bo h m params = Inr ?bs"
    by (simp add: HpiMarshalReply_def assms(3) marshal_array_encode [OF l assms(2)])
  ultimately show ?thesis using d s' by auto
qed

text \<open>C4: The reply of a call that succeeded can be marshaled exactly if the result and the parameters have
  values under the descriptions of their types (a sensor reading whose type is none of the four has
  none). Such a reply arrives: the client gets the result and parameters with the same values as in
  the daemon, and nothing else of its memory changes, if its objects for them do not overlap and what
  is behind pointers fits into its address space. A value consists of the fields that the
  description lists: the three alarm states of a sensor enable change event are not among them and
  do not arrive.\<close>

theorem reply_roundtrip:
  assumes "HpiMarshalFind call = Some h" and "load_err bo m (hd params) = 0"
    and "targets_ok (m_reply h) params' (brk s)"
  shows "((\<exists>bs. HpiMarshalReply bo h m params = Inr bs) \<longleftrightarrow>
      (\<exists>vs. rep_array bo (m_reply h) m params vs)) \<and>
    (\<forall>vs. rep_array bo (m_reply h) m params vs \<and> brk s + alloc_all vs \<le> 2 ^ 64 \<longrightarrow>
      (\<exists>bs s'. HpiMarshalReply bo h m params = Inr bs \<and>
        HpiDemarshalReply be bo h (put_bytes b bs bm) b params' s = Inr (length bs, s') \<and>
        rep_array be (m_reply h) (mem s') params' vs \<and> load_err be (mem s') (hd params') = 0 \<and>
        (\<forall>x. mem s' x \<noteq> mem s x \<longrightarrow>
           x \<in> regions (m_reply h) params' \<or> brk s \<le> x \<and> x < brk s')))"
proof (intro conjI allI impI)
  have l: "list_all layout_ok (m_reply h)" using find_ok [OF assms(1)] by (simp add: entry_ok_def)
  have "HpiMarshalReply bo h m params = Inr (encode_all bo vs)"
    if "rep_array bo (m_reply h) m params vs" for vs
    using marshal_array_encode [OF l that] assms(2) by (simp add: HpiMarshalReply_def)
  then show "(\<exists>bs. HpiMarshalReply bo h m params = Inr bs) \<longleftrightarrow>
      (\<exists>vs. rep_array bo (m_reply h) m params vs)"
    using marshal_array_value [OF l] assms(2) by (auto simp: HpiMarshalReply_def)
qed (use reply_arrives [OF assms(1) _ assms(2,3)] in blast)

text \<open>The reply of a call that failed is the four bytes of the error. The client gets the error and
  leaves the objects of all other parameters as they are.\<close>

lemma reply_error:
  assumes "rep bo SaErrorType m (hd params) (VB le)" and "load_err bo m (hd params) \<noteq> 0"
  shows "\<exists>bs s'. HpiMarshalReply bo h m params = Inr bs \<and> length bs = 4 \<and>
    HpiDemarshalReply be bo h (put_bytes b bs bm) b params' s = Inr (4, s') \<and>
    load_err be (mem s') (hd params') = load_err bo m (hd params) \<and> brk s' = brk s \<and>
    (\<forall>x. mem s' x \<noteq> mem s x \<longrightarrow> hd params' \<le> x \<and> x < hd params' + 4)"
proof -
  let ?s = "poke (hd params') (order be le) s"
  have len: "length le = 4" "load_err bo m (hd params) = of_nat (le_nat le)"
    using assms(1) load_err_value [OF assms(1)] by (simp_all add: load_err_rep)
  have "bytes_at (put_bytes b (order bo le) bm) b 4 = order bo le"
    using bytes_at_put [of b "order bo le" bm] len(1) by simp
  from demarshal_error [OF this len(1)] len(2) assms(2)
  have "HpiDemarshalReply be bo h (put_bytes b (order bo le) bm) b params' s = Inr (4, ?s)"
      "load_err be (mem ?s) (hd params') = load_err bo m (hd params)"
    by (simp_all add: HpiDemarshalReply_def)
  moreover have "HpiMarshalReply bo h m params = Inr (order bo le)"
    using marshal_encode [OF _ assms(1)] assms(2) by (simp add: HpiMarshalReply_def)
  moreover have "hd params' \<le> x \<and> x < hd params' + 4" if "mem ?s x \<noteq> mem s x" for x
    using that len(1) by (auto simp: poke_def put_bytes_def split: if_splits)
  ultimately show ?thesis using len(1) by auto
qed

text \<open>An example: the reply to \<open>saHpiSensorReadingGet\<close>, a reading of type \<open>UINT64\<close> with the value 7, and a failure.\<close>

definition reading_call :: cHpiMarshal where
  "reading_call = \<lparr>m_id = eFsaHpiSensorReadingGet, m_name = ''saHpiSensorReadingGet'',
     m_request = saHpiSensorReadingGetIn, m_reply = saHpiSensorReadingGetOut\<rparr>"

definition reading_mem :: cmem where
  "reading_mem x = (if x = 16 \<or> x = 20 then 1 else if x = 24 then 7 else 0)"

definition reading_vals :: "val list" where
  "reading_vals = [VB [0, 0, 0, 0], VS [VB [1], VB [1, 0, 0, 0], VB [7, 0, 0, 0, 0, 0, 0, 0]], VB [0, 0]]"

definition failed_mem :: cmem where
  "failed_mem x = (if x = 3 then 0xEE else if x = 2 then 3 else 0xFF)"

theorem reply_roundtrip_witness:
  "\<exists>bs s'. HpiMarshalReply False reading_call reading_mem [0, 16, 64] = Inr bs \<and>
    HpiDemarshalReply True False reading_call (put_bytes 7 bs (\<lambda>_. 0)) 7 [0, 8, 48] \<lparr>mem = (\<lambda>_. 9), brk = 64\<rparr> =
      Inr (length bs, s') \<and>
    rep_array True (m_reply reading_call) (mem s') [0, 8, 48] reading_vals \<and> load_err True (mem s') 0 = 0"
proof -
  have f: "HpiMarshalFind eFsaHpiSensorReadingGet = Some reading_call"
    by (simp add: HpiMarshalFind_def hpi_marshal_def reading_call_def)
  have r: "rep_array False (m_reply reading_call) reading_mem [0, 16, 64] reading_vals" by code_simp
  have e: "load_err False reading_mem (hd [0, 16, 64]) = 0" by code_simp
  have a: "alloc_all reading_vals = 0" by code_simp
  have t: "targets_ok (m_reply reading_call) [0, 8, 48] 64"
    by (auto simp: reading_call_def saHpiSensorReadingGetOut_def)
  show ?thesis
    using reply_roundtrip [OF f e, of "[0, 8, 48]" "\<lparr>mem = (\<lambda>_. 9), brk = 64\<rparr>" True 7 "\<lambda>_. 0"] a t r by auto
qed

lemma reply_error_witness:
  "\<exists>bs s'. HpiMarshalReply True reading_call failed_mem [0, 16, 64] = Inr bs \<and> length bs = 4 \<and>
    HpiDemarshalReply False True reading_call (put_bytes 7 bs (\<lambda>_. 0)) 7 [0, 8, 48] \<lparr>mem = (\<lambda>_. 9), brk = 64\<rparr> =
      Inr (4, s') \<and> load_err False (mem s') 0 = 0xFFFF03EE"
proof -
  have b: "bytes_at failed_mem 0 4 = [0xFF, 0xFF, 3, 0xEE]" by code_simp
  then have r: "rep True SaErrorType failed_mem (hd [0, 16, 64]) (VB [0xEE, 3, 0xFF, 0xFF])"
    by (simp add: rep_simple order_def)
  have v: "load_err True failed_mem 0 = 0xFFFF03EE" using b by (simp add: load_err_def order_def)
  then have e: "load_err True failed_mem (hd [0, 16, 64]) \<noteq> 0" by simp
  show ?thesis
    using reply_error [OF r e, of reading_call False 7 "\<lambda>_. 0" "[0, 8, 48]" "\<lparr>mem = (\<lambda>_. 9), brk = 64\<rparr>"] v by auto
qed

section \<open>What does not arrive\<close>

lemma le_nat_less: "le_nat bs < 256 ^ length bs"
proof (induction bs)
  case (Cons b bs)
  have "unat b < 256" using unsigned_less [of b] by simp
  moreover have "1 \<le> (256 :: nat) ^ length bs" by simp
  ultimately show ?case using Cons by simp
qed simp

text \<open>A sensor reading is marshalled only if the type in it is one of the four: a reading that is not
  supported and has its type unset makes the whole reply fail.\<close>

lemma reading_needs_type:
  "isl (Marshal be SaHpiSensorReadingType m a) \<longleftrightarrow> 3 < le_nat (order be (bytes_at m (a + 4) 4))"
proof -
  let ?n = "le_nat (order be (bytes_at m (a + 4) 4))"
  have "?n < 2 ^ 32" using le_nat_less [of "order be (bytes_at m (a + 4) 4)"] by simp
  then have u: "of_nat ?n = (of_nat k :: u64) \<longleftrightarrow> ?n = k" if "k < 2 ^ 32" for k
    using that \<open>?n < 2 ^ 32\<close> by (simp add: word_unat_eq_iff unat_of_nat)
  have "?n < 4 \<longleftrightarrow> ?n = 0 \<or> ?n = 1 \<or> ?n = 2 \<or> ?n = 3" by linarith
  moreover have "\<not> isl (marshal_loop (Marshal be eMtUint8 m) n k b)" for n k b
    by (induction n arbitrary: b) (auto simp: Marshal.simps MarshalSimpleType_def isl_def split: sum.split)
  then obtain bs where "marshal_loop (Marshal be eMtUint8 m) 32 (Suc 0) (a + 8) = Inr bs" by (metis isl_def sum.collapse(2))
  ultimately show ?thesis
    using u [of 0] u [of 1] u [of 2] u [of 3]
    by (simp add: SaHpiSensorReadingType_def SaHpiSensorReadingTElements_def SaHpiSensorReadingUnionType_def
        SaHpiSensorReadingUnionElements_def SaHpiSensorInterpretedUnionBufferArray_def
        Marshal.simps marshal_fields.simps MarshalSimpleType_def GetStructElementIntegerValue_def GetUnionElement_def)
qed

text \<open>The alarm counts of a sensor enable change event are not marshalled: memories that agree on the
  first 20 bytes of the event, the fields before the alarm states, give the same message.\<close>

lemma enable_change_alarms_lost:
  assumes "bytes_at m' a 20 = bytes_at m a 20"
  shows "Marshal be SaHpiSensorEnableChangeEventType m' a = Marshal be SaHpiSensorEnableChangeEventType m a"
proof -
  have same: "bytes_at m' (a + off) n = bytes_at m (a + off) n" if "off + n \<le> 20" for off n
  proof -
    have "m' (a + x) = m (a + x)" if "x < 20" for x
      using assms that by (simp add: bytes_at_def)
    then show ?thesis using that by (simp add: bytes_at_def add.assoc)
  qed
  then show ?thesis
    using same [of 0] same by (simp add: SaHpiSensorEnableChangeEventType_def SaHpiSensorEnableChangeEventTElements_def
        Marshal.simps marshal_fields.simps MarshalSimpleType_def)
qed

lemma enable_change_alarms_lost_witness:
  "Marshal True SaHpiSensorEnableChangeEventType (\<lambda>x. if x < 20 then 1 else 9) 0 =
    Marshal True SaHpiSensorEnableChangeEventType (\<lambda>x. 1) 0"
proof -
  have "bytes_at (\<lambda>x. if x < 20 then 1 else 9) 0 20 = bytes_at (\<lambda>x. 1) 0 20"
    by (simp add: bytes_at_def)
  then show ?thesis by (rule enable_change_alarms_lost)
qed

end
