(* ===== verification/EpText.thy ===== *)
theory EpText
  imports EpPattern EnumUtils
begin

text \<open>
  Entity paths and patterns as text (\<^verbatim>\<open>utils/epath_utils.c\<close>): \<^verbatim>\<open>{RACK,1}{CHASSIS,2}\<close> with the entity
  nearest to the root first. Encoding reads such a text into a path, decoding writes it; a string such as
  an SNMP object id is derived from a path; a pattern is compiled from text. The text buffers of
  \<^verbatim>\<open>utils/sahpi_struct_utils.c\<close> are strings; appending more than fits leaves them as they are.
\<close>

abbreviation (input) OH_MAX_TEXT_BUFFER_LENGTH :: nat where "OH_MAX_TEXT_BUFFER_LENGTH \<equiv> 2048"
abbreviation (input) OH_MAX_LOCATION_DIGITS :: nat where "OH_MAX_LOCATION_DIGITS \<equiv> 6"

definition oh_append_textbuffer :: "string \<Rightarrow> string \<Rightarrow> SaErrorT \<times> string" where
  "oh_append_textbuffer buffer from =
     (if length from + length buffer \<ge> SAHPI_MAX_TEXT_BUFFER_LENGTH then (SA_ERR_HPI_OUT_OF_SPACE, buffer)
      else (SA_OK, buffer @ from))"

definition oh_append_bigtext :: "string \<Rightarrow> string \<Rightarrow> SaErrorT \<times> string" where
  "oh_append_bigtext big_buffer from =
     (if length from + length big_buffer \<ge> OH_MAX_TEXT_BUFFER_LENGTH then (SA_ERR_HPI_INTERNAL_ERROR, big_buffer)
      else (SA_OK, big_buffer @ from))"

section \<open>From text to path\<close>

text \<open>One pair of a type and a location, without the closing brace.\<close>

definition encode_type :: "string \<Rightarrow> u32 option" where
  "encode_type name =
     (case oh_encode_entitytype (snd (oh_append_textbuffer [] name)) 0 of
        (SA_OK, eptype) \<Rightarrow> Some eptype
      | _ \<Rightarrow>
          (let (v, endptr) = strtol 0 name;
               num = word_of_int v :: u32
           in if sint num \<le> 0 \<or> endptr \<noteq> [] then None else Some num))"

definition encode_entity :: "string \<Rightarrow> SaHpiEntityT option" where
  "encode_entity epathdef =
     (if epathdef = [] \<or> hd epathdef \<noteq> CHR ''{'' \<or> CHR '','' \<notin> set epathdef then None
      else let (name, loc) = split_first (CHR '','') epathdef
           in case encode_type (g_strstrip (g_strdelimit name (CHR ''{'') (CHR '' ''))) of
                None \<Rightarrow> None
              | Some eptype \<Rightarrow>
                  (let (location, endptr) = strtol 10 (g_strstrip loc)
                   in if endptr \<noteq> [] then None
                      else Some \<lparr>EntityType = eptype, EntityLocation = word_of_int location\<rparr>))"

text \<open>The loop over the pairs: their number, and the first 16 of them in reverse order.\<close>

fun encode_loop :: "string list \<Rightarrow> nat \<Rightarrow> SaHpiEntityT list \<Rightarrow> (nat \<times> SaHpiEntityT list) option" where
  "encode_loop [] num_entities epath_list = Some (num_entities, epath_list)"
| "encode_loop (d # ds) num_entities epath_list =
     (if d = [] then Some (num_entities, epath_list)
      else case encode_entity (g_strstrip d) of
             None \<Rightarrow> None
           | Some e \<Rightarrow>
               encode_loop ds (Suc num_entities)
                 (if num_entities < SAHPI_MAX_ENTITY_PATH then e # epath_list else epath_list))"

text \<open>\<open>ep\<close> is the path at the location for the result.\<close>

definition oh_encode_entitypath :: "string \<Rightarrow> SaHpiEntityPathT \<Rightarrow> SaErrorT \<times> SaHpiEntityPathT" where
  "oh_encode_entitypath epstr ep =
     (if length epstr > OH_MAX_TEXT_BUFFER_LENGTH then (SA_ERR_HPI_INVALID_DATA, ep)
      else let gstr = g_strstrip epstr
           in if gstr = [] then (SA_OK, oh_init_ep)
              else case encode_loop (g_strsplit (CHR ''}'') gstr) 0 [] of
                     None \<Rightarrow> (SA_ERR_HPI_INVALID_DATA, ep)
                   | Some (num_entities, epath_list) \<Rightarrow>
                       (if num_entities > SAHPI_MAX_ENTITY_PATH then SA_ERR_HPI_INVALID_DATA else SA_OK,
                        epath_list @ drop (length epath_list) oh_init_ep))"

section \<open>From path to text\<close>

function num_digits_loop :: "nat \<Rightarrow> u32 \<Rightarrow> nat \<Rightarrow> nat" where
  "num_digits_loop base work num_digits =
     (if 2 \<le> base \<and> work div of_nat base > 0 \<and> base < 2 ^ 32
      then num_digits_loop base (work div of_nat base) (Suc num_digits) else num_digits)"
  by pat_completeness auto
termination
  by (relation "measure (\<lambda>(b, w, n). unat w)")
    (auto simp: word_less_nat_alt unat_div unat_of_nat intro!: div_less_dividend gr0I)

declare num_digits_loop.simps [simp del]

text \<open>The number of digits of a location.\<close>

definition num_digits :: "nat \<Rightarrow> u32 \<Rightarrow> nat" where
  "num_digits base w = num_digits_loop base w 1"

definition type_text :: "u32 \<Rightarrow> string" where
  "type_text t = (case oh_lookup_entitytype t of Some s \<Rightarrow> s | None \<Rightarrow> take 19 (show_int (sint t)))"

fun decode_loop :: "SaHpiEntityT list \<Rightarrow> string \<Rightarrow> string option" where
  "decode_loop [] tmpbuf = Some tmpbuf"
| "decode_loop (e # es) tmpbuf =
     (if num_digits 10 (EntityLocation e) > OH_MAX_LOCATION_DIGITS then None
      else let locstr = take OH_MAX_LOCATION_DIGITS (show_int (sint (EntityLocation e)));
               catstr = ''{'' @ type_text (EntityType e) @ '','' @ locstr @ ''}''
           in decode_loop es (snd (oh_append_bigtext tmpbuf catstr)))"

text \<open>\<open>bigbuf\<close> is the text at the location for the result.\<close>

definition oh_decode_entitypath :: "SaHpiEntityPathT \<Rightarrow> string \<Rightarrow> SaErrorT \<times> string" where
  "oh_decode_entitypath ep bigbuf =
     (case decode_loop (rev (take (root_index ep) ep)) [] of
        None \<Rightarrow> (SA_ERR_HPI_INVALID_DATA, bigbuf)
      | Some tmpbuf \<Rightarrow> (SA_OK, snd (oh_append_bigtext [] tmpbuf)))"

section \<open>Strings derived from a path\<close>

text \<open>The number that stands for the \<open>i\<close>-th of \<open>n\<close> letters \<^verbatim>\<open>x\<close>; \<^verbatim>\<open>snprintf\<close> cuts it.\<close>

definition blank_text :: "SaHpiEntityPathT \<Rightarrow> u32 \<Rightarrow> nat \<Rightarrow> nat \<Rightarrow> nat \<Rightarrow> string" where
  "blank_text ep offset base n i =
     (let w = EntityLocation (ep ! (n - 1 - i)) + offset
      in take (num_digits base w) (if base = 10 then show_int (sint w) else show_nat 16 (unat w)))"

fun join_blanks :: "string list \<Rightarrow> string list \<Rightarrow> string" where
  "join_blanks [] nodes = []"
| "join_blanks (f # fs) [] = f @ join_blanks fs []"
| "join_blanks (f # fs) (n # ns) = f @ n @ join_blanks fs ns"

definition oh_derive_string :: "SaHpiEntityPathT \<Rightarrow> u32 \<Rightarrow> nat \<Rightarrow> string \<Rightarrow> string option" where
  "oh_derive_string ep offset base str =
     (if \<not> (base = 10 \<or> base = 16) then None
      else let num_epe = root_index ep
           in if num_epe = 0 then None
              else if length str = 0 then None
              else if CHR ''x'' \<notin> set str then Some str
              else let num_blanks = length (filter (\<lambda>c. c = CHR ''x'') str)
                   in if num_blanks > num_epe then None
                      else Some (join_blanks (g_strsplit (CHR ''x'') str)
                        (map (blank_text ep offset base num_blanks) [0..<num_blanks])))"

section \<open>Patterns from text\<close>

text \<open>
  The scanner of \<open>oh_compile_entitypath_pattern\<close>: the position in the text, the item it fills, where it is,
  and the start of the name or number it reads. A character behind the end is NUL.
\<close>

record scan =
  sc_j :: nat
  in_tuple :: bool
  in_entity :: bool
  start :: "nat option"
  pattern :: oh_entitypath_pattern

definition zero_pattern :: oh_entity_pattern where
  "zero_pattern = \<lparr>is_splat = False, etp_is_dot = False, etp_type = 0, elp_is_dot = False, elp_location = 0\<rparr>"

definition char_at :: "string \<Rightarrow> nat \<Rightarrow> char" where
  "char_at s i = (if i < length s then s ! i else CHR 0x00)"

definition upd_item :: "(oh_entity_pattern \<Rightarrow> oh_entity_pattern) \<Rightarrow> scan \<Rightarrow> scan" where
  "upd_item f c = c\<lparr>pattern := (pattern c)[sc_j c := f (pattern c ! sc_j c)]\<rparr>"

text \<open>One turn at position \<open>i\<close>: the next position and state, or the end with \<open>SA_ERR_HPI_ERROR\<close>.\<close>

definition scan_entity :: "string \<Rightarrow> nat \<Rightarrow> scan \<Rightarrow> (nat \<times> scan) option" where
  "scan_entity s i c =
     (let x = char_at s i
      in if x = CHR '','' then
           (case start c of
              None \<Rightarrow> None
            | Some b \<Rightarrow>
                if i - b > SAHPI_MAX_ENTITY_PATH then None
                else case oh_encode_entitytype (take (i - b) (drop b s)) 0 of
                       (SA_OK, etype) \<Rightarrow> Some (i, (upd_item (etp_type_update (\<lambda>_. etype)) c)
                                                    \<lparr>in_entity := False, start := None\<rparr>)
                     | _ \<Rightarrow> None)
         else if x = CHR ''}'' \<or> x = CHR ''{'' then None
         else if x = CHR ''.'' then
           (if char_at s (Suc i) \<noteq> CHR '','' then None
            else Some (Suc i, (upd_item (is_splat_update (\<lambda>_. False) \<circ> etp_is_dot_update (\<lambda>_. True)) c)
                                \<lparr>in_entity := False\<rparr>))
         else Some (i, if start c = None then c\<lparr>start := Some i\<rparr> else c))"

definition scan_location :: "string \<Rightarrow> nat \<Rightarrow> scan \<Rightarrow> (nat \<times> scan) option" where
  "scan_location s i c =
     (let x = char_at s i
      in if x = CHR '','' then None
         else if x = CHR ''{'' then None
         else if x = CHR ''}'' then
           (case start c of
              None \<Rightarrow> None
            | Some b \<Rightarrow>
                if i - b > OH_MAX_LOCATION_DIGITS then None
                else let (loc, endptr) = strtoul 10 (take (i - b) (drop b s))
                     in if endptr \<noteq> [] then None
                        else Some (i, (upd_item (elp_location_update (\<lambda>_. ucast loc)) c)
                                        \<lparr>sc_j := Suc (sc_j c), in_tuple := False, start := None\<rparr>))
         else if x = CHR ''.'' then
           (if char_at s (Suc i) \<noteq> CHR ''}'' then None
            else Some (Suc i, (upd_item (elp_is_dot_update (\<lambda>_. True)) c)
                                \<lparr>sc_j := Suc (sc_j c), in_tuple := False\<rparr>))
         else Some (i, if start c = None then c\<lparr>start := Some i\<rparr> else c))"

definition scan_outside :: "string \<Rightarrow> nat \<Rightarrow> scan \<Rightarrow> (nat \<times> scan) option" where
  "scan_outside s i c =
     (let x = char_at s i
      in if x = CHR ''{'' then Some (i, c\<lparr>in_tuple := True, in_entity := True\<rparr>)
         else if x = CHR ''*'' then
           (if char_at s (Suc i) = CHR ''*'' then None
            else Some (i, (upd_item (is_splat_update (\<lambda>_. True)) c)\<lparr>sc_j := Suc (sc_j c)\<rparr>))
         else None)"

definition scan_turn :: "string \<Rightarrow> nat \<Rightarrow> scan \<Rightarrow> (nat \<times> scan) option" where
  "scan_turn s i c =
     (if sc_j c \<ge> OH_MAX_EP_TUPLES then None
      else if in_tuple c then (if in_entity c then scan_entity s i c else scan_location s i c)
      else scan_outside s i c)"

lemma scan_turn_forward: "scan_turn s i c = Some (i', c') \<Longrightarrow> i \<le> i'"
  by (auto simp: scan_turn_def scan_entity_def scan_location_def scan_outside_def Let_def
      split: if_splits option.splits prod.splits SaErrorT.splits)

function scan_loop :: "string \<Rightarrow> nat \<Rightarrow> scan \<Rightarrow> scan option" where
  "scan_loop s i c =
     (if i < length s then
        case scan_turn s i c of
          None \<Rightarrow> None
        | Some (i', c') \<Rightarrow> scan_loop s (Suc i') c'
      else Some c)"
  by pat_completeness auto
termination
  by (relation "measure (\<lambda>(s, i, c). length s - i)") (auto dest: scan_turn_forward)

declare scan_loop.simps [simp del]

text \<open>
  The items in reverse order and an end mark behind them. With 17 items the end mark is written behind
  the array; that is \<open>None\<close> here.
\<close>

definition oh_compile_entitypath_pattern :: "string \<Rightarrow> SaErrorT + oh_entitypath_pattern option" where
  "oh_compile_entitypath_pattern epp_str =
     (case scan_loop epp_str 0 \<lparr>sc_j = 0, in_tuple = False, in_entity = False, start = None,
             pattern = replicate OH_MAX_EP_TUPLES zero_pattern\<rparr> of
        None \<Rightarrow> Inl SA_ERR_HPI_ERROR
      | Some c \<Rightarrow>
          (let j = sc_j c;
               epp = rev (take j (pattern c)) @ replicate (OH_MAX_EP_TUPLES - j) zero_pattern
           in Inr (if j < OH_MAX_EP_TUPLES
                   then Some (epp[j := (epp ! j)\<lparr>etp_type := SAHPI_ENT_ROOT\<rparr>])
                   else None)))"

end
