(* ===== verification/EnumProps.thy ===== *)
theory EnumProps
  imports EnumUtils "HOL-Library.Multiset"
begin

text \<open>
  The functions between the values and the names of an enumeration are inverse to each other. Two
  tables of about a hundred names are checked for duplicates by sorting the names as numbers.
\<close>

section \<open>Distinct keys\<close>

fun merge_keys :: "int list \<Rightarrow> int list \<Rightarrow> int list" where
  "merge_keys [] ys = ys"
| "merge_keys xs [] = xs"
| "merge_keys (x # xs) (y # ys) =
     (if x < y then x # merge_keys xs (y # ys) else y # merge_keys (x # xs) ys)"

fun merge_pairs :: "int list list \<Rightarrow> int list list" where
  "merge_pairs (xs # ys # r) = merge_keys xs ys # merge_pairs r"
| "merge_pairs r = r"

primrec merge_runs :: "nat \<Rightarrow> int list list \<Rightarrow> int list" where
  "merge_runs 0 r = concat r"
| "merge_runs (Suc n) r = merge_runs n (merge_pairs r)"

definition distinct_keys :: "int list \<Rightarrow> bool" where
  "distinct_keys ks \<longleftrightarrow> successively (<) (merge_runs 10 (map (\<lambda>k. [k]) ks))"

lemma mset_merge_keys: "mset (merge_keys xs ys) = mset xs + mset ys"
  by (induction xs ys rule: merge_keys.induct) auto

lemma mset_merge_pairs: "mset (concat (merge_pairs r)) = mset (concat r)"
  by (induction r rule: merge_pairs.induct) (auto simp: mset_merge_keys)

lemma mset_merge_runs: "mset (merge_runs n r) = mset (concat r)"
  by (induction n arbitrary: r) (simp_all add: mset_merge_pairs)

lemma distinct_keys_distinct: "distinct_keys ks \<Longrightarrow> distinct ks"
proof -
  assume "distinct_keys ks"
  then have "sorted_wrt (<) (merge_runs 10 (map (\<lambda>k. [k]) ks))"
    by (simp add: distinct_keys_def successively_conv_sorted_wrt)
  then have "distinct (merge_runs 10 (map (\<lambda>k. [k]) ks))" by (simp add: strict_sorted_iff)
  moreover have "mset (merge_runs 10 (map (\<lambda>k. [k]) ks)) = mset ks" by (simp add: mset_merge_runs concat_map_singleton)
  ultimately show ?thesis by (metis mset_eq_imp_distinct_iff)
qed

section \<open>Tables\<close>

text \<open>A number for a name; names that differ only in case have the same number.\<close>

definition fold_case :: "char \<Rightarrow> char" where
  "fold_case c = (case c of Char b0 b1 b2 b3 b4 b5 b6 b7 \<Rightarrow> Char b0 b1 b2 b3 b4 (b5 \<and> \<not> b6) b6 b7)"

definition name_key :: "string \<Rightarrow> int" where
  "name_key s = foldr (\<lambda>c k. of_char (fold_case c) + 256 * k) s 0"

lemma fold_case_upper: "fold_case (to_upper c) = fold_case c"
proof -
  have "\<forall>c. fold_case (to_upper c) = fold_case c" by code_simp
  then show ?thesis ..
qed

lemma name_key_upper: "name_key (map to_upper s) = name_key s"
  by (induction s) (simp_all add: name_key_def fold_case_upper)

definition table_ok :: "(u32 \<times> string) list \<Rightarrow> bool" where
  "table_ok tab \<longleftrightarrow> distinct_keys (map (uint \<circ> fst) tab) \<and> distinct_keys (map (name_key \<circ> snd) tab) \<and>
     list_all (\<lambda>p. snd p \<noteq> []) tab"

text \<open>One function finds what the other has given, in any case; and finds nothing else.\<close>

definition inverse_names :: "(u32 \<Rightarrow> string option) \<Rightarrow> (string \<Rightarrow> u32 \<Rightarrow> SaErrorT \<times> u32) \<Rightarrow> bool" where
  "inverse_names lookup encode \<longleftrightarrow>
     (\<forall>v b old. encode b old = (SA_OK, v) \<longleftrightarrow> (\<exists>s. lookup v = Some s \<and> strcasecmp_eq b s))"

lemma table_inverse:
  assumes "table_ok tab" shows "inverse_names (map_of tab) (encode_enum tab)"
proof -
  have "distinct (map uint (map fst tab))"
    using assms distinct_keys_distinct [of "map (uint \<circ> fst) tab"] by (simp add: table_ok_def)
  then have fst: "distinct (map fst tab)" by (rule distinct_map [THEN iffD1, THEN conjunct1])
  have key: "distinct (map (name_key \<circ> snd) tab)"
    using assms by (auto simp: table_ok_def dest: distinct_keys_distinct)
  have ne: "snd p \<noteq> []" if "p \<in> set tab" for p using assms that by (auto simp: table_ok_def list_all_iff)
  have only: "p = q" if "p \<in> set tab" "q \<in> set tab" "strcasecmp_eq b (snd p)" "strcasecmp_eq b (snd q)" for p q b
    using distinct_map_inj [OF key that(1,2)] that(3,4) name_key_upper
    by (metis comp_apply strcasecmp_eq_def)
  have "find_string tab b = Some v" if "(v, s) \<in> set tab" "strcasecmp_eq b s" for v s b
  proof -
    have "find (\<lambda>p. strcasecmp_eq b (snd p)) tab \<noteq> None"
      using that by (auto simp: find_None_iff)
    then obtain p where p: "find (\<lambda>p. strcasecmp_eq b (snd p)) tab = Some p" by blast
    then have "p = (v, s)" using only [of p "(v, s)" b] that by (auto simp: find_Some_iff)
    then show ?thesis using p by (simp add: find_string_def)
  qed
  moreover have "\<exists>s. (v, s) \<in> set tab \<and> strcasecmp_eq b s" if "find_string tab b = Some v" for v b
    using that find_Some_in [of "\<lambda>p. strcasecmp_eq b (snd p)" tab] by (auto simp: find_string_def)
  moreover have "b \<noteq> []" if "(v, s) \<in> set tab" "strcasecmp_eq b s" for v s b
    using ne [OF that(1)] that(2) by (auto simp: strcasecmp_eq_def)
  ultimately show ?thesis using fst
    by (fastforce simp: inverse_names_def encode_enum_def split: if_splits option.splits dest: map_of_SomeD)
qed

lemma find_string_append: "find_string (t1 @ t2) b = (case find_string t1 b of None \<Rightarrow> find_string t2 b | r \<Rightarrow> r)"
  by (induction t1) (auto simp: find_string_def split: option.splits)

section \<open>The enumerations\<close>

lemma tables_ok_1: "list_all table_ok
    [language_strings]"
  by code_simp

lemma tables_ok_2: "list_all table_ok
    [texttype_strings, sensorreadingtype_strings, sensoreventmaskaction_strings,
    sensorunits_strings, sensormodunituse_strings, sensoreventctrl_strings, ctrltype_strings,
    ctrlstatedigital_strings, ctrlmode_strings]"
  by code_simp

lemma tables_ok_3: "list_all table_ok
    [ctrloutputtype_strings, idrareatype_strings, idrfieldtype_strings, watchdogaction_strings,
    watchdogactionevent_strings, watchdogpretimerinterrupt_strings, watchdogtimeruse_strings,
    dimitestserviceimpact_strings, dimitestrunstatus_strings, dimitesterrcode_strings,
    dimitestparamtype_strings, dimiready_strings, fumispecinfotype_strings,
    fumisafdefinedspecid_strings, fumiserviceimpact_strings, fumisourcestatus_strings,
    fumibankstate_strings]"
  by code_simp

lemma tables_ok_4: "list_all table_ok
    [fumiupgradestatus_strings, hsindicatorstate_strings, hsaction_strings, hsstate_strings,
    hscauseofstatechange_strings, severity_strings, resourceeventtype_strings,
    domaineventtype_strings, sweventtype_strings, eventtype_strings, statuscondtype_strings,
    annunciatormode_strings, annunciatortype_strings, rdrtype_strings, parmaction_strings,
    resetaction_strings, powerstate_strings, eventlogoverflowaction_strings]"
  by code_simp

lemma tables_ok_5: "list_all table_ok
    [error_strings, eventcategory_strings, xtcahpiledcolor_strings,
    xtcahpiresourceledmode_strings, xtcahpiledbrsupport_strings, xtcahpientitytype_strings,
    atcahpiledcolor_strings, atcahpiresourceledmode_strings, atcahpiledbrsupport_strings,
    atcahpientitytype_strings]"
  by code_simp

lemma lookup_tables:
  "oh_lookup_language = map_of language_strings" "oh_lookup_texttype = map_of texttype_strings"
  "oh_lookup_sensorreadingtype = map_of sensorreadingtype_strings"
  "oh_lookup_sensoreventmaskaction = map_of sensoreventmaskaction_strings"
  "oh_lookup_sensorunits = map_of sensorunits_strings"
  "oh_lookup_sensormodunituse = map_of sensormodunituse_strings"
  "oh_lookup_sensoreventctrl = map_of sensoreventctrl_strings"
  "oh_lookup_ctrltype = map_of ctrltype_strings"
  "oh_lookup_ctrlstatedigital = map_of ctrlstatedigital_strings"
  "oh_lookup_ctrlmode = map_of ctrlmode_strings"
  "oh_lookup_ctrloutputtype = map_of ctrloutputtype_strings"
  "oh_lookup_idrareatype = map_of idrareatype_strings"
  "oh_lookup_idrfieldtype = map_of idrfieldtype_strings"
  "oh_lookup_watchdogaction = map_of watchdogaction_strings"
  "oh_lookup_watchdogactionevent = map_of watchdogactionevent_strings"
  "oh_lookup_watchdogpretimerinterrupt = map_of watchdogpretimerinterrupt_strings"
  "oh_lookup_watchdogtimeruse = map_of watchdogtimeruse_strings"
  "oh_lookup_dimitestserviceimpact = map_of dimitestserviceimpact_strings"
  "oh_lookup_dimitestrunstatus = map_of dimitestrunstatus_strings"
  "oh_lookup_dimitesterrcode = map_of dimitesterrcode_strings"
  "oh_lookup_dimitestparamtype = map_of dimitestparamtype_strings"
  "oh_lookup_dimiready = map_of dimiready_strings"
  "oh_lookup_fumispecinfotype = map_of fumispecinfotype_strings"
  "oh_lookup_fumisafdefinedspecid = map_of fumisafdefinedspecid_strings"
  "oh_lookup_fumiserviceimpact = map_of fumiserviceimpact_strings"
  "oh_lookup_fumisourcestatus = map_of fumisourcestatus_strings"
  "oh_lookup_fumibankstate = map_of fumibankstate_strings"
  "oh_lookup_fumiupgradestatus = map_of fumiupgradestatus_strings"
  "oh_lookup_hsindicatorstate = map_of hsindicatorstate_strings"
  "oh_lookup_hsaction = map_of hsaction_strings" "oh_lookup_hsstate = map_of hsstate_strings"
  "oh_lookup_hscauseofstatechange = map_of hscauseofstatechange_strings"
  "oh_lookup_severity = map_of severity_strings"
  "oh_lookup_resourceeventtype = map_of resourceeventtype_strings"
  "oh_lookup_domaineventtype = map_of domaineventtype_strings"
  "oh_lookup_sweventtype = map_of sweventtype_strings"
  "oh_lookup_eventtype = map_of eventtype_strings"
  "oh_lookup_statuscondtype = map_of statuscondtype_strings"
  "oh_lookup_annunciatormode = map_of annunciatormode_strings"
  "oh_lookup_annunciatortype = map_of annunciatortype_strings"
  "oh_lookup_rdrtype = map_of rdrtype_strings" "oh_lookup_parmaction = map_of parmaction_strings"
  "oh_lookup_resetaction = map_of resetaction_strings"
  "oh_lookup_powerstate = map_of powerstate_strings"
  "oh_lookup_eventlogoverflowaction = map_of eventlogoverflowaction_strings"
  "oh_lookup_error = map_of error_strings"
  "oh_lookup_eventcategory = map_of eventcategory_strings"
  "oh_lookup_xtcahpiledcolor = map_of xtcahpiledcolor_strings"
  "oh_lookup_xtcahpiresourceledmode = map_of xtcahpiresourceledmode_strings"
  "oh_lookup_xtcahpiledbrsupport = map_of xtcahpiledbrsupport_strings"
  "oh_lookup_xtcahpientitytype = map_of xtcahpientitytype_strings"
  "oh_lookup_atcahpiledcolor = map_of atcahpiledcolor_strings"
  "oh_lookup_atcahpiresourceledmode = map_of atcahpiresourceledmode_strings"
  "oh_lookup_atcahpiledbrsupport = map_of atcahpiledbrsupport_strings"
  "oh_lookup_atcahpientitytype = map_of atcahpientitytype_strings"
  by (simp_all only: oh_lookup_language_def language_strings_def oh_lookup_texttype_def texttype_strings_def
    oh_lookup_sensorreadingtype_def sensorreadingtype_strings_def
    oh_lookup_sensoreventmaskaction_def sensoreventmaskaction_strings_def
    oh_lookup_sensorunits_def sensorunits_strings_def
    oh_lookup_sensormodunituse_def sensormodunituse_strings_def
    oh_lookup_sensoreventctrl_def sensoreventctrl_strings_def
    oh_lookup_ctrltype_def ctrltype_strings_def
    oh_lookup_ctrlstatedigital_def ctrlstatedigital_strings_def
    oh_lookup_ctrlmode_def ctrlmode_strings_def
    oh_lookup_ctrloutputtype_def ctrloutputtype_strings_def
    oh_lookup_idrareatype_def idrareatype_strings_def
    oh_lookup_idrfieldtype_def idrfieldtype_strings_def
    oh_lookup_watchdogaction_def watchdogaction_strings_def
    oh_lookup_watchdogactionevent_def watchdogactionevent_strings_def
    oh_lookup_watchdogpretimerinterrupt_def watchdogpretimerinterrupt_strings_def
    oh_lookup_watchdogtimeruse_def watchdogtimeruse_strings_def
    oh_lookup_dimitestserviceimpact_def dimitestserviceimpact_strings_def
    oh_lookup_dimitestrunstatus_def dimitestrunstatus_strings_def
    oh_lookup_dimitesterrcode_def dimitesterrcode_strings_def
    oh_lookup_dimitestparamtype_def dimitestparamtype_strings_def
    oh_lookup_dimiready_def dimiready_strings_def
    oh_lookup_fumispecinfotype_def fumispecinfotype_strings_def
    oh_lookup_fumisafdefinedspecid_def fumisafdefinedspecid_strings_def
    oh_lookup_fumiserviceimpact_def fumiserviceimpact_strings_def
    oh_lookup_fumisourcestatus_def fumisourcestatus_strings_def
    oh_lookup_fumibankstate_def fumibankstate_strings_def
    oh_lookup_fumiupgradestatus_def fumiupgradestatus_strings_def
    oh_lookup_hsindicatorstate_def hsindicatorstate_strings_def
    oh_lookup_hsaction_def hsaction_strings_def oh_lookup_hsstate_def hsstate_strings_def
    oh_lookup_hscauseofstatechange_def hscauseofstatechange_strings_def
    oh_lookup_severity_def severity_strings_def
    oh_lookup_resourceeventtype_def resourceeventtype_strings_def
    oh_lookup_domaineventtype_def domaineventtype_strings_def
    oh_lookup_sweventtype_def sweventtype_strings_def
    oh_lookup_eventtype_def eventtype_strings_def
    oh_lookup_statuscondtype_def statuscondtype_strings_def
    oh_lookup_annunciatormode_def annunciatormode_strings_def
    oh_lookup_annunciatortype_def annunciatortype_strings_def
    oh_lookup_rdrtype_def rdrtype_strings_def oh_lookup_parmaction_def parmaction_strings_def
    oh_lookup_resetaction_def resetaction_strings_def
    oh_lookup_powerstate_def powerstate_strings_def
    oh_lookup_eventlogoverflowaction_def eventlogoverflowaction_strings_def
    oh_lookup_error_def error_strings_def oh_lookup_eventcategory_def eventcategory_strings_def
    oh_lookup_xtcahpiledcolor_def xtcahpiledcolor_strings_def
    oh_lookup_xtcahpiresourceledmode_def xtcahpiresourceledmode_strings_def
    oh_lookup_xtcahpiledbrsupport_def xtcahpiledbrsupport_strings_def
    oh_lookup_xtcahpientitytype_def xtcahpientitytype_strings_def
    oh_lookup_atcahpiledcolor_def atcahpiledcolor_strings_def
    oh_lookup_atcahpiresourceledmode_def atcahpiresourceledmode_strings_def
    oh_lookup_atcahpiledbrsupport_def atcahpiledbrsupport_strings_def
    oh_lookup_atcahpientitytype_def atcahpientitytype_strings_def)

lemmas encode_defs =
  oh_encode_language_def oh_encode_texttype_def oh_encode_sensorreadingtype_def
  oh_encode_sensoreventmaskaction_def oh_encode_sensorunits_def oh_encode_sensormodunituse_def
  oh_encode_sensoreventctrl_def oh_encode_ctrltype_def oh_encode_ctrlstatedigital_def
  oh_encode_ctrlmode_def oh_encode_ctrloutputtype_def oh_encode_idrareatype_def
  oh_encode_idrfieldtype_def oh_encode_watchdogaction_def oh_encode_watchdogactionevent_def
  oh_encode_watchdogpretimerinterrupt_def oh_encode_watchdogtimeruse_def
  oh_encode_dimitestserviceimpact_def oh_encode_dimitestrunstatus_def
  oh_encode_dimitesterrcode_def oh_encode_dimitestparamtype_def oh_encode_dimiready_def
  oh_encode_fumispecinfotype_def oh_encode_fumisafdefinedspecid_def
  oh_encode_fumiserviceimpact_def oh_encode_fumisourcestatus_def oh_encode_fumibankstate_def
  oh_encode_fumiupgradestatus_def oh_encode_hsindicatorstate_def oh_encode_hsaction_def
  oh_encode_hsstate_def oh_encode_hscauseofstatechange_def oh_encode_severity_def
  oh_encode_resourceeventtype_def oh_encode_domaineventtype_def oh_encode_sweventtype_def
  oh_encode_eventtype_def oh_encode_statuscondtype_def oh_encode_annunciatormode_def
  oh_encode_annunciatortype_def oh_encode_rdrtype_def oh_encode_parmaction_def
  oh_encode_resetaction_def oh_encode_powerstate_def oh_encode_eventlogoverflowaction_def
  oh_encode_error_def oh_encode_eventcategory_def oh_encode_xtcahpiledcolor_def
  oh_encode_xtcahpiresourceledmode_def oh_encode_xtcahpiledbrsupport_def
  oh_encode_xtcahpientitytype_def oh_encode_atcahpiledcolor_def
  oh_encode_atcahpiresourceledmode_def oh_encode_atcahpiledbrsupport_def
  oh_encode_atcahpientitytype_def

text \<open>All enumerations but the sensor types: the function to the name and the function back.\<close>

definition enum_utils :: "((u32 \<Rightarrow> string option) \<times> (string \<Rightarrow> u32 \<Rightarrow> SaErrorT \<times> u32)) list" where
  "enum_utils =
     [(oh_lookup_language, oh_encode_language), (oh_lookup_texttype, oh_encode_texttype),
     (oh_lookup_sensorreadingtype, oh_encode_sensorreadingtype),
     (oh_lookup_sensoreventmaskaction, oh_encode_sensoreventmaskaction),
     (oh_lookup_sensorunits, oh_encode_sensorunits),
     (oh_lookup_sensormodunituse, oh_encode_sensormodunituse),
     (oh_lookup_sensoreventctrl, oh_encode_sensoreventctrl),
     (oh_lookup_ctrltype, oh_encode_ctrltype),
     (oh_lookup_ctrlstatedigital, oh_encode_ctrlstatedigital),
     (oh_lookup_ctrlmode, oh_encode_ctrlmode),
     (oh_lookup_ctrloutputtype, oh_encode_ctrloutputtype),
     (oh_lookup_idrareatype, oh_encode_idrareatype),
     (oh_lookup_idrfieldtype, oh_encode_idrfieldtype),
     (oh_lookup_watchdogaction, oh_encode_watchdogaction),
     (oh_lookup_watchdogactionevent, oh_encode_watchdogactionevent),
     (oh_lookup_watchdogpretimerinterrupt, oh_encode_watchdogpretimerinterrupt),
     (oh_lookup_watchdogtimeruse, oh_encode_watchdogtimeruse),
     (oh_lookup_dimitestserviceimpact, oh_encode_dimitestserviceimpact),
     (oh_lookup_dimitestrunstatus, oh_encode_dimitestrunstatus),
     (oh_lookup_dimitesterrcode, oh_encode_dimitesterrcode),
     (oh_lookup_dimitestparamtype, oh_encode_dimitestparamtype),
     (oh_lookup_dimiready, oh_encode_dimiready),
     (oh_lookup_fumispecinfotype, oh_encode_fumispecinfotype),
     (oh_lookup_fumisafdefinedspecid, oh_encode_fumisafdefinedspecid),
     (oh_lookup_fumiserviceimpact, oh_encode_fumiserviceimpact),
     (oh_lookup_fumisourcestatus, oh_encode_fumisourcestatus),
     (oh_lookup_fumibankstate, oh_encode_fumibankstate),
     (oh_lookup_fumiupgradestatus, oh_encode_fumiupgradestatus),
     (oh_lookup_hsindicatorstate, oh_encode_hsindicatorstate),
     (oh_lookup_hsaction, oh_encode_hsaction), (oh_lookup_hsstate, oh_encode_hsstate),
     (oh_lookup_hscauseofstatechange, oh_encode_hscauseofstatechange),
     (oh_lookup_severity, oh_encode_severity),
     (oh_lookup_resourceeventtype, oh_encode_resourceeventtype),
     (oh_lookup_domaineventtype, oh_encode_domaineventtype),
     (oh_lookup_sweventtype, oh_encode_sweventtype), (oh_lookup_eventtype, oh_encode_eventtype),
     (oh_lookup_statuscondtype, oh_encode_statuscondtype),
     (oh_lookup_annunciatormode, oh_encode_annunciatormode),
     (oh_lookup_annunciatortype, oh_encode_annunciatortype),
     (oh_lookup_rdrtype, oh_encode_rdrtype), (oh_lookup_parmaction, oh_encode_parmaction),
     (oh_lookup_resetaction, oh_encode_resetaction),
     (oh_lookup_powerstate, oh_encode_powerstate),
     (oh_lookup_eventlogoverflowaction, oh_encode_eventlogoverflowaction),
     (oh_lookup_error, oh_encode_error), (oh_lookup_eventcategory, oh_encode_eventcategory),
     (oh_lookup_xtcahpiledcolor, oh_encode_xtcahpiledcolor),
     (oh_lookup_xtcahpiresourceledmode, oh_encode_xtcahpiresourceledmode),
     (oh_lookup_xtcahpiledbrsupport, oh_encode_xtcahpiledbrsupport),
     (oh_lookup_xtcahpientitytype, oh_encode_xtcahpientitytype),
     (oh_lookup_atcahpiledcolor, oh_encode_atcahpiledcolor),
     (oh_lookup_atcahpiresourceledmode, oh_encode_atcahpiresourceledmode),
     (oh_lookup_atcahpiledbrsupport, oh_encode_atcahpiledbrsupport),
     (oh_lookup_atcahpientitytype, oh_encode_atcahpientitytype),
     (oh_lookup_entitytype, oh_encode_entitytype)]"

lemma entity_table: "table_ok (entitytype_strings @ xtcahpientitytype_strings)"
  by code_simp

lemma lookup_entitytype: "oh_lookup_entitytype = map_of (entitytype_strings @ xtcahpientitytype_strings)"
proof
  have "oh_lookup_entitytype v = (case map_of entitytype_strings v of
      Some s \<Rightarrow> Some s | None \<Rightarrow> oh_lookup_xtcahpientitytype v)" for v
    by (simp only: oh_lookup_entitytype_def entitytype_strings_def)
  then show "oh_lookup_entitytype v = map_of (entitytype_strings @ xtcahpientitytype_strings) v" for v
    by (simp add: lookup_tables map_add_def split: option.split)
qed

lemma encode_entitytype: "oh_encode_entitytype = encode_enum (entitytype_strings @ xtcahpientitytype_strings)"
  by (rule ext)+ (simp add: oh_encode_entitytype_def oh_encode_xtcahpientitytype_def encode_enum_def
      find_string_append split: option.split)

lemma entitytype_inverse: "inverse_names oh_lookup_entitytype oh_encode_entitytype"
  unfolding lookup_entitytype encode_entitytype by (rule table_inverse [OF entity_table])

lemma enum_utils_inverse: "list_all (\<lambda>(lookup, encode). inverse_names lookup encode) enum_utils"
  using tables_ok_1 tables_ok_2 tables_ok_3 tables_ok_4 tables_ok_5 entitytype_inverse
  by (simp add: enum_utils_def lookup_tables encode_defs table_inverse)

text \<open>C38: For every enumeration but the sensor types, a text has a value exactly if it is the name of that value, in
  upper or lower case.\<close>

theorem enum_inverse:
  assumes "(lookup, encode) \<in> set enum_utils"
  shows "encode b old = (SA_OK, v) \<longleftrightarrow> (\<exists>s. lookup v = Some s \<and> strcasecmp_eq b s)"
  using enum_utils_inverse assms by (auto simp: list_all_iff inverse_names_def)

theorem enum_inverse_witness: "oh_encode_severity ''mINOR'' 7 = (SA_OK, 2)"
proof -
  have "(oh_lookup_severity, oh_encode_severity) \<in> set enum_utils" by (simp add: enum_utils_def)
  moreover have "oh_lookup_severity 2 = Some ''MINOR''" "strcasecmp_eq ''mINOR'' ''MINOR''"
    by code_simp+
  ultimately show ?thesis using enum_inverse by blast
qed

text \<open>All 64 values of OEM sensors have one name; its value is the first of them.\<close>

lemma oem_sensor_names:
  "SAHPI_OEM_SENSOR \<le> v \<and> v \<le> SAHPI_OEM_SENSOR + 0x3F \<longleftrightarrow>
    oh_lookup_sensortype v = Some ''OEM_SENSOR''"
  by (auto simp: oh_lookup_sensortype_def map_of_eq_Some_iff dest: map_of_SomeD)

lemma oem_sensor_value: "oh_encode_sensortype ''OEM_SENSOR'' old = (SA_OK, SAHPI_OEM_SENSOR)"
  by code_simp

end
