(* ===== verification/EpTextProps.thy ===== *)
theory EpTextProps
  imports EpText EnumProps
begin

text \<open>
  Entity paths survive being written as text and read again; which locations cannot be written; and what
  the pattern compiler makes of a text.
\<close>

section \<open>Numbers\<close>

definition dec_digit :: "char \<Rightarrow> bool" where
  "dec_digit c \<longleftrightarrow> is_digit_of 10 c"

lemma dec_digit_char: "d < 10 \<Longrightarrow> digit_value 10 (digit_char d) = Some d"
  by (auto simp: digit_value_def digit_char_def)

lemma show_nat_step: "10 \<le> n \<Longrightarrow> show_nat 10 n = show_nat 10 (n div 10) @ [digit_char (n mod 10)]"
  by (subst show_nat.simps) simp

lemma show_nat_small: "n < 10 \<Longrightarrow> show_nat 10 n = [digit_char n]"
  by (subst show_nat.simps) simp

lemma show_nat_induct [case_names small step]:
  assumes "\<And>n. n < 10 \<Longrightarrow> P n" and "\<And>n. 10 \<le> n \<Longrightarrow> P (n div 10) \<Longrightarrow> P n"
  shows "P (n :: nat)"
  by (induction n rule: less_induct) (metis assms div_less_dividend not_le one_less_numeral_iff
      order.strict_trans2 semiring_norm(76) zero_less_numeral)

lemma show_nat_digits: "list_all dec_digit (show_nat 10 n)"
  by (induction n rule: show_nat_induct)
    (simp_all add: show_nat_small show_nat_step dec_digit_def is_digit_of_def dec_digit_char)

lemma show_nat_value: "digits_to_nat 10 (show_nat 10 n) = n"
  by (induction n rule: show_nat_induct)
    (simp_all add: show_nat_small show_nat_step digits_to_nat_def dec_digit_char)

lemma show_nat_not_Nil [simp]: "show_nat b n \<noteq> []"
  by (subst show_nat.simps) simp

lemma show_nat_hd: "0 < n \<Longrightarrow> hd (show_nat 10 n) \<noteq> CHR ''0''"
proof (induction n rule: show_nat_induct)
  case (small n)
  have "digit_value 10 CHR ''0'' = Some 0" by (simp add: digit_value_def)
  then show ?case using small dec_digit_char [of n] by (auto simp: show_nat_small)
next
  case (step n)
  then have "0 < n div 10" by (simp add: div_greater_zero_iff)
  with step show ?case by (simp add: show_nat_step hd_append)
qed

lemma show_nat_length: "1 \<le> k \<Longrightarrow> length (show_nat 10 n) \<le> k \<longleftrightarrow> n < 10 ^ k"
proof (induction n arbitrary: k rule: show_nat_induct)
  case (small n)
  have "10 ^ 1 \<le> (10 :: nat) ^ k" using small(2) by (rule power_increasing) simp
  then show ?case using small by (simp add: show_nat_small)
next
  case (step n)
  show ?case
  proof (cases "k = 1")
    case True
    then show ?thesis using step(1) by (simp add: show_nat_step)
  next
    case False
    then obtain k' where k: "k = Suc k'" "1 \<le> k'" using step.prems by (cases k) auto
    then show ?thesis using step.IH [OF k(2)] step(1) by (auto simp: show_nat_step div_less_iff_less_mult mult.commute)
  qed
qed

lemma num_digits_loop_length: "num_digits_loop 10 w n = n + (length (show_nat 10 (unat w)) - 1)"
proof (induction "unat w" arbitrary: w n rule: show_nat_induct)
  case small
  then show ?case by (subst num_digits_loop.simps) (simp add: show_nat_small word_less_nat_alt unat_div)
next
  case step
  have u: "unat (w div 10) = unat w div 10" by (simp add: unat_div)
  have "0 < w div 10" using step(1) by (simp add: word_less_nat_alt u div_greater_zero_iff)
  then have "num_digits_loop 10 w n = num_digits_loop 10 (w div 10) (Suc n)"
    by (subst num_digits_loop.simps) simp
  also have "\<dots> = Suc n + (length (show_nat 10 (unat w div 10)) - 1)" using step(2) u by simp
  also have "\<dots> = n + (length (show_nat 10 (unat w)) - 1)"
    using step(1) by (simp add: show_nat_step Suc_leI)
  finally show ?case .
qed

lemma num_digits_dec: "num_digits 10 w = length (show_nat 10 (unat w))"
  by (simp add: num_digits_def num_digits_loop_length Suc_leI)

section \<open>Reading what was printed\<close>

text \<open>Characters without a meaning in the text of a path.\<close>

definition plain :: "char \<Rightarrow> bool" where
  "plain c \<longleftrightarrow> c \<notin> set ''{},'' \<and> \<not> is_space c"

lemma dec_is_digit: "dec_digit c \<Longrightarrow> is_digit c"
  by (auto simp: dec_digit_def is_digit_of_def digit_value_def is_digit_def Let_def split: if_splits)

lemma digit_plain: "dec_digit c \<Longrightarrow> plain c"
  by (drule dec_is_digit) (auto simp: is_digit_def plain_def is_space_def)

lemma show_nat_plain: "list_all plain (show_nat 10 n)"
  using show_nat_digits digit_plain by (auto simp: list_all_iff)

lemma digit_no_sign: "dec_digit c \<Longrightarrow> c \<noteq> CHR ''-'' \<and> c \<noteq> CHR ''+'' \<and> \<not> is_space c"
  by (drule dec_is_digit) (auto simp: is_digit_def is_space_def)

lemma number_base_dec: "base = 10 \<or> base = 0 \<and> (s = [] \<or> hd s \<noteq> CHR ''0'') \<Longrightarrow> number_base base s = (10, s)"
  by (auto simp: number_base_def split: list.splits)

lemma read_printed:
  assumes "base = 10 \<or> base = 0 \<and> 0 < n"
  shows "read_number base (show_nat 10 n) = (int n, [])"
proof -
  let ?s = "show_nat 10 n"
  obtain c r where s: "?s = c # r" using show_nat_not_Nil [of 10 n] by (cases ?s) auto
  have all: "list_all dec_digit ?s" by (rule show_nat_digits)
  then have c: "dec_digit c" by (simp add: s)
  have b: "number_base base ?s = (10, ?s)" using assms show_nat_hd [of n] by (intro number_base_dec) auto
  have t: "takeWhile (is_digit_of 10) ?s = ?s" using all by (simp add: dec_digit_def [abs_def] list_all_iff)
  have d: "dropWhile is_space ?s = ?s" using digit_no_sign [OF c] by (simp add: s)
  show ?thesis unfolding read_number_def d Let_def
    using digit_no_sign [OF c] b t show_nat_value [of n] by (simp add: s)
qed

lemma strtol_printed:
  "base = 10 \<or> base = 0 \<and> 0 < n \<Longrightarrow> int n < 2 ^ 63 \<Longrightarrow> strtol base (show_nat 10 n) = (int n, [])"
  by (simp add: strtol_def read_printed)

lemma dropWhile_hd: "s \<noteq> [] \<Longrightarrow> \<not> P (hd s) \<Longrightarrow> dropWhile P s = s"
  by (cases s) auto

lemma plain_strip: "s \<noteq> [] \<Longrightarrow> \<not> is_space (hd s) \<Longrightarrow> \<not> is_space (last s) \<Longrightarrow> g_strstrip s = s"
  by (simp add: g_strstrip_def is_gspace_def dropWhile_hd hd_rev)

lemma all_plain_strip: "list_all plain s \<Longrightarrow> g_strstrip s = s"
proof (cases "s = []")
  case False
  assume "list_all plain s"
  then show ?thesis using False hd_in_set [of s] last_in_set [of s]
    by (intro plain_strip) (auto simp: list_all_iff plain_def)
qed (simp add: g_strstrip_def)

lemma split_at_plain: "d \<notin> set x \<Longrightarrow> split_at d (x @ d # r) = x # split_at d r"
  by (induction x) auto

section \<open>Names of types\<close>

definition capital :: "char \<Rightarrow> bool" where
  "capital c \<longleftrightarrow> digit6 c \<and> \<not> digit5 c \<and> \<not> digit7 c"

definition name_char :: "char \<Rightarrow> bool" where
  "name_char c \<longleftrightarrow> capital c \<or> digit4 c \<and> digit5 c \<and> \<not> digit6 c \<and> \<not> digit7 c"

lemma digit6_large: "digit6 c \<Longrightarrow> 64 \<le> (of_char c :: nat)"
  by (cases c) (simp add: of_char_Char)

lemma capital_no_digit: "capital c \<Longrightarrow> \<not> is_digit (to_upper c)"
  using digit6_large [of c] by (auto simp: capital_def to_upper_def is_digit_def)

lemma name_char_plain: "name_char c \<Longrightarrow> plain c"
  by (cases c) (auto simp: name_char_def capital_def plain_def is_space_def of_char_Char)

text \<open>The names of types: capitals, digits and underlines, with a capital at the beginning.\<close>

definition clean_name :: "string \<Rightarrow> bool" where
  "clean_name s \<longleftrightarrow> list_all name_char s \<and> length s \<le> 24 \<and> s \<noteq> [] \<and> capital (hd s)"

lemma type_names: "list_all (\<lambda>p. clean_name (snd p)) (entitytype_strings @ xtcahpientitytype_strings)"
  by code_simp

lemma type_name: "oh_lookup_entitytype t = Some s \<Longrightarrow> clean_name s"
proof -
  assume "oh_lookup_entitytype t = Some s"
  then have "(t, s) \<in> set (entitytype_strings @ xtcahpientitytype_strings)"
    unfolding lookup_entitytype by (rule map_of_SomeD)
  with type_names show ?thesis by (metis list_all_iff snd_conv)
qed

lemma encode_name: "oh_lookup_entitytype t = Some s \<Longrightarrow> oh_encode_entitytype s old = (SA_OK, t)"
  using entitytype_inverse by (auto simp: inverse_names_def strcasecmp_eq_def)

lemma number_no_name: "fst (oh_encode_entitytype (show_nat 10 n) old) \<noteq> SA_OK"
proof
  assume "fst (oh_encode_entitytype (show_nat 10 n) old) = SA_OK"
  then obtain t where "oh_encode_entitytype (show_nat 10 n) old = (SA_OK, t)" by (metis prod.collapse)
  then obtain s where s: "oh_lookup_entitytype t = Some s" "map to_upper (show_nat 10 n) = map to_upper s"
    using entitytype_inverse by (auto simp: inverse_names_def strcasecmp_eq_def)
  obtain c r where c: "show_nat 10 n = c # r" using show_nat_not_Nil [of 10 n] by (cases "show_nat 10 n") auto
  have d: "dec_digit c" using show_nat_digits [of n] by (simp add: c)
  then have "to_upper c = c" "is_digit c" by (auto dest!: dec_is_digit simp: is_digit_def to_upper_def)
  moreover have "to_upper c = to_upper (hd s)" "\<not> is_digit (to_upper (hd s))"
    using s type_name [OF s(1)] c by (cases s; simp add: clean_name_def capital_no_digit)+
  ultimately show False by simp
qed

text \<open>The types that have a text: those with a name and the positive ones.\<close>

definition type_ok :: "u32 \<Rightarrow> bool" where
  "type_ok t \<longleftrightarrow> oh_lookup_entitytype t \<noteq> None \<or> 0 < sint t"

lemma type_text_ok:
  assumes "type_ok t"
  shows "list_all plain (type_text t)" and "length (type_text t) \<le> 24" and "encode_type (type_text t) = Some t"
proof -
  have "list_all plain (type_text t) \<and> length (type_text t) \<le> 24 \<and> encode_type (type_text t) = Some t"
  proof (cases "oh_lookup_entitytype t")
    case (Some s)
    then show ?thesis using type_name [OF Some] encode_name [OF Some]
      by (auto simp: type_text_def clean_name_def encode_type_def oh_append_textbuffer_def list_all_iff name_char_plain)
  next
    case None
    let ?n = "nat (sint t)"
    have t: "0 < sint t" "sint t < 2 ^ 31" using assms None sint_lt [of t] by (simp_all add: type_ok_def)
    have "?n < 10 ^ 19" using t by simp
    then have len: "length (show_nat 10 ?n) \<le> 19" using show_nat_length [of 19 ?n] by simp
    then have tt: "type_text t = show_nat 10 ?n" using None t by (simp add: type_text_def show_int_def)
    have "strtol 0 (show_nat 10 ?n) = (sint t, [])" using strtol_printed [of 0 ?n] t by simp
    moreover obtain e v where "oh_encode_entitytype (show_nat 10 ?n) 0 = (e, v)" "e \<noteq> SA_OK"
      using number_no_name [of ?n 0] by (cases "oh_encode_entitytype (show_nat 10 ?n) 0") auto
    ultimately have "encode_type (show_nat 10 ?n) = Some t" using t len
      by (cases e) (simp_all add: encode_type_def oh_append_textbuffer_def)
    then show ?thesis using len show_nat_plain tt by simp
  qed
  then show "list_all plain (type_text t)" "length (type_text t) \<le> 24" "encode_type (type_text t) = Some t"
    by simp_all
qed

section \<open>The round trip\<close>

definition loc_ok :: "u32 \<Rightarrow> bool" where
  "loc_ok l \<longleftrightarrow> unat l < 10 ^ OH_MAX_LOCATION_DIGITS"

definition entity_text :: "SaHpiEntityT \<Rightarrow> string" where
  "entity_text e = ''{'' @ type_text (EntityType e) @ '','' @ show_nat 10 (unat (EntityLocation e))"

definition entity_ok :: "SaHpiEntityT \<Rightarrow> bool" where
  "entity_ok e \<longleftrightarrow> type_ok (EntityType e) \<and> loc_ok (EntityLocation e)"

lemma entity_text_ok:
  assumes "entity_ok e"
  shows "encode_entity (g_strstrip (entity_text e)) = Some e" and "CHR ''}'' \<notin> set (entity_text e)"
    and "length (entity_text e) \<le> 32" and "entity_text e \<noteq> []"
proof -
  let ?t = "type_text (EntityType e)" and ?l = "show_nat 10 (unat (EntityLocation e))"
  have t: "list_all plain ?t" "length ?t \<le> 24" "encode_type ?t = Some (EntityType e)"
    using assms type_text_ok by (simp_all add: entity_ok_def)
  have l: "list_all plain ?l" by (rule show_nat_plain)
  have loc: "unat (EntityLocation e) < 10 ^ 6" using assms by (simp add: entity_ok_def loc_ok_def)
  then have len: "length ?l \<le> 6" using show_nat_length [of 6] by simp
  have "last (entity_text e) = last ?l" by (simp add: entity_text_def)
  then have "\<not> is_space (last (entity_text e))" using l by (auto simp: list_all_iff plain_def)
  then have strip: "g_strstrip (entity_text e) = entity_text e"
    by (intro plain_strip) (simp_all add: entity_text_def is_space_def)
  have "CHR '','' \<notin> set ?t" "CHR ''{'' \<notin> set ?t" using t(1) by (auto simp: list_all_iff plain_def)
  then have split: "split_first (CHR '','') (entity_text e) = (CHR ''{'' # ?t, ?l)"
      and name: "g_strdelimit (CHR ''{'' # ?t) (CHR ''{'') (CHR '' '') = CHR '' '' # ?t"
    by (auto simp: split_first_def entity_text_def g_strdelimit_def takeWhile_append dropWhile_append
        intro: map_idI)
  have sp: "g_strstrip (CHR '' '' # ?t) = ?t"
    using all_plain_strip [OF t(1)] by (simp add: g_strstrip_def is_gspace_def is_space_def)
  have "int (unat (EntityLocation e)) < int (10 ^ 6)" using loc by (simp only: of_nat_less_iff)
  then have "strtol 10 ?l = (int (unat (EntityLocation e)), [])" by (intro strtol_printed) simp_all
  then show "encode_entity (g_strstrip (entity_text e)) = Some e"
    using split name sp t(3) all_plain_strip [OF l]
    unfolding strip encode_entity_def by (simp add: entity_text_def word_of_int_uint [symmetric] uint_nat [symmetric])
  show "CHR ''}'' \<notin> set (entity_text e)" using t(1) l by (auto simp: entity_text_def list_all_iff plain_def)
  show "length (entity_text e) \<le> 32" "entity_text e \<noteq> []" using t(2) len by (simp_all add: entity_text_def)
qed

definition path_text :: "SaHpiEntityT list \<Rightarrow> string" where
  "path_text es = concat (map (\<lambda>e. entity_text e @ ''}'') es)"

lemma path_text_length: "list_all entity_ok es \<Longrightarrow> length (path_text es) \<le> 33 * length es"
  by (induction es) (use entity_text_ok(3) in \<open>fastforce simp: path_text_def\<close>)+

lemma small_sint: "uint (l :: u32) < 1000000 \<Longrightarrow> sint l = uint l"
proof -
  assume "uint l < 1000000"
  then have "signed_take_bit 31 (uint l) = uint l"
    by (intro signed_take_bit_int_eq_self) (rule order.trans [OF _ uint_ge_0], simp, simp)
  then show ?thesis by (simp only: sint_uint len_num1 len_bit0) simp
qed

lemma printed_location:
  assumes "loc_ok l" shows "take OH_MAX_LOCATION_DIGITS (show_int (sint l)) = show_nat 10 (unat l)"
proof -
  have l: "unat l < 10 ^ 6" using assms by (simp add: loc_ok_def)
  then have "int (unat l) < int (10 ^ 6)" by (simp only: of_nat_less_iff)
  then have "sint l = int (unat l)" using small_sint [of l] by simp
  then have "show_int (sint l) = show_nat 10 (unat l)"
    unfolding show_int_def by (simp only: nat_int of_nat_less_0_iff if_False)
  then show ?thesis using show_nat_length [of 6 "unat l"] l by simp
qed

lemma decode_loop_ok:
  "list_all entity_ok es \<Longrightarrow> length buf + 33 * length es < OH_MAX_TEXT_BUFFER_LENGTH \<Longrightarrow>
    decode_loop es buf = Some (buf @ path_text es)"
proof (induction es arbitrary: buf)
  case Nil
  then show ?case by (simp add: path_text_def)
next
  case (Cons e es)
  have e: "entity_ok e" using Cons.prems by simp
  then have l: "loc_ok (EntityLocation e)" by (simp add: entity_ok_def)
  have d: "num_digits 10 (EntityLocation e) \<le> OH_MAX_LOCATION_DIGITS"
    using l show_nat_length [of 6] by (simp add: num_digits_dec loc_ok_def)
  have "snd (oh_append_bigtext buf (entity_text e @ ''}'')) = buf @ entity_text e @ ''}''"
    using entity_text_ok(3) [OF e] Cons.prems by (simp add: oh_append_bigtext_def)
  then have "decode_loop (e # es) buf = decode_loop es (buf @ entity_text e @ ''}'')"
    using d printed_location [OF l] by (simp add: entity_text_def)
  also have "\<dots> = Some ((buf @ entity_text e @ ''}'') @ path_text es)"
    using Cons.prems entity_text_ok(3) [OF e] by (intro Cons.IH) simp_all
  finally show ?case by (simp add: path_text_def)
qed

lemma split_path: "list_all entity_ok es \<Longrightarrow> split_at (CHR ''}'') (path_text es) = map entity_text es @ [[]]"
proof (induction es)
  case (Cons e es)
  then show ?case using split_at_plain [OF entity_text_ok(2), of e "path_text es"] by (simp add: path_text_def)
qed (simp add: path_text_def)

lemma encode_loop_ok:
  "list_all entity_ok es \<Longrightarrow> n + length es \<le> SAHPI_MAX_ENTITY_PATH \<Longrightarrow>
    encode_loop (map entity_text es @ [[]]) n acc = Some (n + length es, rev es @ acc)"
  by (induction es arbitrary: n acc) (simp_all add: entity_text_ok)

lemma path_text_strip: "list_all entity_ok es \<Longrightarrow> g_strstrip (path_text es) = path_text es"
proof (cases "es = []")
  case False
  assume "list_all entity_ok es"
  have "hd (path_text es) = CHR ''{''" using False by (cases es) (simp_all add: path_text_def entity_text_def)
  moreover have "last (path_text es) = CHR ''}''" using False by (cases es rule: rev_cases) (simp_all add: path_text_def)
  moreover have "path_text es \<noteq> []" using False by (cases es) (simp_all add: path_text_def)
  ultimately show ?thesis by (intro plain_strip) (simp_all add: is_space_def)
qed (simp add: path_text_def g_strstrip_def)

text \<open>C39: A path whose locations have at most six digits and whose types have a name or are positive can be
  written as text, and reading the text gives its entities back, the rest of the array filled with the root.\<close>

theorem entitypath_text_roundtrip:
  assumes "ep_array ep" and "list_all entity_ok (ep_abs ep)"
  shows "\<exists>s. oh_decode_entitypath ep buf = (SA_OK, s) \<and>
    oh_encode_entitypath s old = (SA_OK, ep_abs ep @ drop (length (ep_abs ep)) oh_init_ep)"
proof -
  let ?es = "rev (ep_abs ep)"
  have ok: "list_all entity_ok ?es" using assms(2) by simp
  have len: "length ?es \<le> SAHPI_MAX_ENTITY_PATH" using length_ep_abs [OF assms(1)] by simp
  have size: "length (path_text ?es) \<le> 33 * 16" using path_text_length [OF ok] len by simp
  have "take (root_index ep) ep = ep_abs ep" by (simp add: root_index_abs [OF assms(1)] ep_abs_prefix)
  moreover have "decode_loop ?es [] = Some (path_text ?es)" using decode_loop_ok [OF ok, of "[]"] len by simp
  ultimately have d: "oh_decode_entitypath ep buf = (SA_OK, path_text ?es)"
    using size by (simp add: oh_decode_entitypath_def oh_append_bigtext_def)
  have "oh_encode_entitypath (path_text ?es) old = (SA_OK, ep_abs ep @ drop (length (ep_abs ep)) oh_init_ep)"
  proof (cases "path_text ?es = []")
    case True
    then have "ep_abs ep = []" by (cases "ep_abs ep" rule: rev_cases) (simp_all add: path_text_def)
    then show ?thesis using True by (simp add: oh_encode_entitypath_def g_strstrip_def)
  next
    case False
    have "encode_loop (g_strsplit (CHR ''}'') (path_text ?es)) 0 [] = Some (length (ep_abs ep), ep_abs ep)"
      using False split_path [OF ok] encode_loop_ok [OF ok, of 0 "[]"] len by (simp add: g_strsplit_def)
    then show ?thesis using False size len path_text_strip [OF ok] by (simp add: oh_encode_entitypath_def)
  qed
  with d show ?thesis by blast
qed

theorem entitypath_text_roundtrip_witness:
  "\<exists>s. oh_decode_entitypath (mk_ep [(23, 999999), (200, 4)]) [] = (SA_OK, s) \<and>
    oh_encode_entitypath s oh_init_ep = (SA_OK, mk_ep [(23, 999999), (200, 4)])"
proof -
  let ?ep = "mk_ep [(23, 999999), (200, 4)]"
  have a: "ep_abs ?ep = [\<lparr>EntityType = 23, EntityLocation = 999999\<rparr>, \<lparr>EntityType = 200, EntityLocation = 4\<rparr>]"
    by code_simp
  have "ep_array ?ep" by code_simp
  moreover have "list_all entity_ok (ep_abs ?ep)"
    unfolding a by (simp add: entity_ok_def type_ok_def loc_ok_def)
  moreover have "ep_abs ?ep @ drop (length (ep_abs ?ep)) oh_init_ep = ?ep"
    unfolding a by code_simp
  ultimately show ?thesis using entitypath_text_roundtrip [of ?ep "[]" oh_init_ep] by simp
qed

end
