(* ===== verification/EpCompile.thy ===== *)
theory EpCompile
  imports EpTextProps
begin

text \<open>
  What \<open>oh_compile_entitypath_pattern\<close> makes of the text of a pattern: its items, in the order in which the
  matching loop wants them.
\<close>

section \<open>The text of a pattern\<close>

definition name_of :: "u32 \<Rightarrow> string" where
  "name_of t = (case oh_lookup_entitytype t of Some s \<Rightarrow> s | None \<Rightarrow> [])"

definition item_text :: "oh_entity_pattern \<Rightarrow> string" where
  "item_text p =
     (if is_splat p then ''*''
      else ''{'' @ (if etp_is_dot p then ''.'' else name_of (etp_type p)) @ '','' @
        (if elp_is_dot p then ''.'' else show_nat 10 (unat (elp_location p))) @ ''}'')"

text \<open>
  Items that have a text: a name of at most 16 characters, a location of at most 6 digits, and 0 where a
  dot or a splat stands.
\<close>

definition item_ok :: "oh_entity_pattern \<Rightarrow> bool" where
  "item_ok p \<longleftrightarrow>
     (if is_splat p then p = zero_pattern\<lparr>is_splat := True\<rparr>
      else (if etp_is_dot p then etp_type p = 0
            else oh_lookup_entitytype (etp_type p) \<noteq> None \<and> length (name_of (etp_type p)) \<le> SAHPI_MAX_ENTITY_PATH) \<and>
        (if elp_is_dot p then elp_location p = 0 else loc_ok (elp_location p)))"

section \<open>Scanning\<close>

lemma char_at_here [simp]: "char_at (pre @ x # r) (length pre) = x"
  by (simp add: char_at_def)

lemma scan_loop_turn:
  "i < length s \<Longrightarrow> scan_loop s i c = (case scan_turn s i c of None \<Rightarrow> None | Some (i', c') \<Rightarrow> scan_loop s (Suc i') c')"
  by (subst scan_loop.simps) simp

lemma scan_loop_end: "length s \<le> i \<Longrightarrow> scan_loop s i c = Some c"
  by (subst scan_loop.simps) simp

text \<open>The characters of a name or a number.\<close>

definition ordinary :: "char \<Rightarrow> bool" where
  "ordinary c \<longleftrightarrow> c \<notin> set '',{}.''"

lemma scan_word:
  "list_all ordinary w \<Longrightarrow> in_tuple c \<Longrightarrow> sc_j c < OH_MAX_EP_TUPLES \<Longrightarrow> w \<noteq> [] \<Longrightarrow> start c = None \<or> start c = Some b \<Longrightarrow>
    s = pre @ w @ rest \<Longrightarrow>
    scan_loop s (length pre) c =
      scan_loop s (length pre + length w) (c\<lparr>start := Some (if start c = None then length pre else b)\<rparr>)"
proof (induction w arbitrary: pre c b)
  case (Cons x w)
  have x: "x \<noteq> CHR '',''" "x \<noteq> CHR ''{''" "x \<noteq> CHR ''}''" "x \<noteq> CHR ''.''"
    using Cons.prems(1) by (simp_all add: ordinary_def)
  let ?b = "if start c = None then length pre else b"
  let ?c = "c\<lparr>start := Some ?b\<rparr>"
  have at: "char_at s (length pre) = x" using Cons.prems(6) by simp
  have "scan_turn s (length pre) c = Some (length pre, ?c)"
    using Cons.prems x by (auto simp: scan_turn_def scan_entity_def scan_location_def at)
  then have step: "scan_loop s (length pre) c = scan_loop s (Suc (length pre)) ?c"
    using Cons.prems(6) by (subst scan_loop_turn) simp_all
  show ?case
  proof (cases "w = []")
    case True
    then show ?thesis using step by simp
  next
    case False
    have "scan_loop s (length (pre @ [x])) ?c =
        scan_loop s (length (pre @ [x]) + length w) (?c\<lparr>start := Some (if start ?c = None then length (pre @ [x]) else ?b)\<rparr>)"
      by (rule Cons.IH) (use Cons.prems False in simp_all)
    then show ?thesis using step by simp
  qed
qed simp

lemma name_ordinary: "oh_lookup_entitytype t = Some n \<Longrightarrow> list_all ordinary n \<and> n \<noteq> []"
proof -
  have "ordinary c" if "name_char c" for c
    using that by (cases c) (auto simp: ordinary_def name_char_def capital_def)
  then show "oh_lookup_entitytype t = Some n \<Longrightarrow> list_all ordinary n \<and> n \<noteq> []"
    using type_name [of t n] by (auto simp: clean_name_def list_all_iff)
qed

lemma digits_ordinary: "list_all ordinary (show_nat 10 n)"
proof -
  have "ordinary c" if "dec_digit c" for c
    using dec_is_digit [OF that] by (auto simp: ordinary_def is_digit_def)
  then show ?thesis using show_nat_digits [of n] by (auto simp: list_all_iff)
qed

text \<open>The scanner before an item: outside a tuple, with the item untouched.\<close>

definition scan_ready :: "scan \<Rightarrow> bool" where
  "scan_ready c \<longleftrightarrow> \<not> in_tuple c \<and> start c = None \<and> sc_j c < OH_MAX_EP_TUPLES \<and>
     length (pattern c) = OH_MAX_EP_TUPLES \<and> pattern c ! sc_j c = zero_pattern"

definition put_item :: "oh_entity_pattern \<Rightarrow> scan \<Rightarrow> scan" where
  "put_item p c = c\<lparr>sc_j := Suc (sc_j c), pattern := (pattern c)[sc_j c := p]\<rparr>"

lemma scan_splat:
  assumes "scan_ready c" and "s = pre @ CHR ''*'' # rest" and "rest = [] \<or> hd rest \<noteq> CHR ''*''"
  shows "scan_loop s (length pre) c = scan_loop s (Suc (length pre)) (put_item (zero_pattern\<lparr>is_splat := True\<rparr>) c)"
proof -
  have "char_at s (Suc (length pre)) \<noteq> CHR ''*''"
    using assms(2,3) by (cases rest) (simp_all add: char_at_def nth_append)
  then have "scan_turn s (length pre) c = Some (length pre, put_item (zero_pattern\<lparr>is_splat := True\<rparr>) c)"
    using assms(1,2) by (simp add: scan_turn_def scan_outside_def scan_ready_def put_item_def upd_item_def)
  then show ?thesis using assms(2) by (subst scan_loop_turn) simp_all
qed

text \<open>The type of an item, from the opening brace to behind the comma.\<close>

lemma scan_type:
  assumes c: "scan_ready c" and ok: "if dot then t = 0 else oh_lookup_entitytype t \<noteq> None \<and> length (name_of t) \<le> SAHPI_MAX_ENTITY_PATH"
    and s: "s = pre @ ''{'' @ (if dot then ''.'' else name_of t) @ '','' @ rest"
  shows "scan_loop s (length pre) c =
    scan_loop s (length (pre @ ''{'' @ (if dot then ''.'' else name_of t) @ '',''))
      (upd_item (\<lambda>p. p\<lparr>etp_is_dot := dot, etp_type := t\<rparr>) c\<lparr>in_tuple := True, in_entity := False\<rparr>)"
proof -
  let ?c = "c\<lparr>in_tuple := True, in_entity := True\<rparr>"
  have "scan_turn s (length pre) c = Some (length pre, ?c)"
    using c s by (simp add: scan_turn_def scan_outside_def scan_ready_def)
  then have 1: "scan_loop s (length pre) c = scan_loop s (length (pre @ ''{'')) ?c"
    using s by (subst scan_loop_turn) simp_all
  have zero: "pattern c ! sc_j c = zero_pattern" using c by (simp add: scan_ready_def)
  show ?thesis
  proof (cases dot)
    case True
    have s': "s = (pre @ ''{'') @ CHR ''.'' # CHR '','' # rest" using s True by simp
    have "char_at s (length (pre @ ''{'')) = CHR ''.''" unfolding s' by (rule char_at_here)
    moreover have "char_at s (Suc (length (pre @ ''{''))) = CHR '',''"
      using s' by (simp add: char_at_def nth_append)
    ultimately have "scan_turn s (length (pre @ ''{'')) ?c = Some (Suc (length (pre @ ''{'')),
        upd_item (\<lambda>p. p\<lparr>etp_is_dot := dot, etp_type := t\<rparr>) c\<lparr>in_tuple := True, in_entity := False\<rparr>)"
      using c ok True by (simp add: scan_turn_def scan_entity_def scan_ready_def upd_item_def zero_pattern_def)
    then have "scan_loop s (length (pre @ ''{'')) ?c = scan_loop s (Suc (Suc (length (pre @ ''{''))))
        (upd_item (\<lambda>p. p\<lparr>etp_is_dot := dot, etp_type := t\<rparr>) c\<lparr>in_tuple := True, in_entity := False\<rparr>)"
      using s' by (subst scan_loop_turn) simp_all
    then show ?thesis using 1 True by simp
  next
    case False
    then obtain n where n: "oh_lookup_entitytype t = Some n" "name_of t = n" "length n \<le> SAHPI_MAX_ENTITY_PATH"
      using ok by (auto simp: name_of_def)
    have w: "list_all ordinary n" "n \<noteq> []" using name_ordinary [OF n(1)] by simp_all
    let ?d = "?c\<lparr>start := Some (length (pre @ ''{''))\<rparr>" and ?i = "length (pre @ ''{'') + length n"
    have s': "s = (pre @ ''{'') @ n @ '','' @ rest" using s False n by simp
    have "scan_loop s (length (pre @ ''{'')) ?c = scan_loop s ?i ?d"
      using scan_word [OF w(1) _ _ w(2) _ s', of ?c] c by (simp add: scan_ready_def)
    moreover have "char_at s ?i = CHR '',''"
      using s' char_at_here [of "pre @ ''{'' @ n" "CHR '',''" rest] by simp
    then have "scan_turn s ?i ?d = Some (?i,
        upd_item (\<lambda>p. p\<lparr>etp_is_dot := dot, etp_type := t\<rparr>) c\<lparr>in_tuple := True, in_entity := False\<rparr>)"
      using c n(3) encode_name [OF n(1), of 0] s' False
      by (simp add: scan_turn_def scan_entity_def scan_ready_def upd_item_def zero_pattern_def)
    then have "scan_loop s ?i ?d = scan_loop s (Suc ?i)
        (upd_item (\<lambda>p. p\<lparr>etp_is_dot := dot, etp_type := t\<rparr>) c\<lparr>in_tuple := True, in_entity := False\<rparr>)"
      using s' by (subst scan_loop_turn) simp_all
    ultimately show ?thesis using 1 False n by simp
  qed
qed

text \<open>The location of an item, up to and with the closing brace.\<close>

lemma scan_place:
  assumes c: "in_tuple c" "\<not> in_entity c" "start c = None" "sc_j c < OH_MAX_EP_TUPLES"
    and ok: "if dot then l = 0 \<and> elp_location (pattern c ! sc_j c) = 0 else loc_ok l \<and> \<not> elp_is_dot (pattern c ! sc_j c)"
    and s: "s = pre @ (if dot then ''.'' else show_nat 10 (unat l)) @ ''}'' @ rest"
  shows "scan_loop s (length pre) c =
    scan_loop s (length (pre @ (if dot then ''.'' else show_nat 10 (unat l)) @ ''}''))
      (upd_item (\<lambda>p. p\<lparr>elp_is_dot := dot, elp_location := l\<rparr>) c\<lparr>sc_j := Suc (sc_j c), in_tuple := False\<rparr>)"
proof (cases dot)
  case True
  have s': "s = pre @ CHR ''.'' # CHR ''}'' # rest" using s True by simp
  have "char_at s (Suc (length pre)) = CHR ''}''" using s' by (simp add: char_at_def nth_append)
  then have "scan_turn s (length pre) c = Some (Suc (length pre),
      upd_item (\<lambda>p. p\<lparr>elp_is_dot := dot, elp_location := l\<rparr>) c\<lparr>sc_j := Suc (sc_j c), in_tuple := False\<rparr>)"
    using c ok s' True by (cases "pattern c ! sc_j c") (simp add: scan_turn_def scan_location_def upd_item_def)
  then show ?thesis using s' True by (subst scan_loop_turn) simp_all
next
  case False
  let ?w = "show_nat 10 (unat l)"
  have l: "loc_ok l" "\<not> elp_is_dot (pattern c ! sc_j c)" using ok False by simp_all
  then have len: "length ?w \<le> OH_MAX_LOCATION_DIGITS" using show_nat_length [of 6 "unat l"] by (simp add: loc_ok_def)
  have s': "s = pre @ ?w @ ''}'' @ rest" using s False by simp
  let ?d = "c\<lparr>start := Some (length pre)\<rparr>" and ?i = "length pre + length ?w"
  have 1: "scan_loop s (length pre) c = scan_loop s ?i ?d"
    using scan_word [OF digits_ordinary c(1,4) show_nat_not_Nil _ s'] c(3) by simp
  have "uint l < 2 ^ 32" using unsigned_less [of l] by simp
  moreover have "- (2 ^ 64) < uint l" by (rule order.strict_trans2 [OF _ uint_ge_0]) simp
  ultimately have "strtoul 10 ?w = (word_of_int (int (unat l)), [])"
    by (simp add: strtoul_def read_printed)
  moreover have "ucast (word_of_int (int (unat l)) :: u64) = l"
  proof -
    have "(word_of_int (int (unat l)) :: u64) = ucast l" by simp
    then show ?thesis by (simp add: ucast_up_ucast_id is_up)
  qed
  moreover have "char_at s ?i = CHR ''}''" using s' char_at_here [of "pre @ ?w" "CHR ''}''" rest] by simp
  ultimately have "scan_turn s ?i ?d = Some (?i,
      upd_item (\<lambda>p. p\<lparr>elp_is_dot := dot, elp_location := l\<rparr>) c\<lparr>sc_j := Suc (sc_j c), in_tuple := False\<rparr>)"
    using c len l s' False by (cases c; cases "pattern c ! sc_j c") (simp add: scan_turn_def scan_location_def upd_item_def)
  then have "scan_loop s ?i ?d = scan_loop s (Suc ?i)
      (upd_item (\<lambda>p. p\<lparr>elp_is_dot := dot, elp_location := l\<rparr>) c\<lparr>sc_j := Suc (sc_j c), in_tuple := False\<rparr>)"
    using s' by (subst scan_loop_turn) simp_all
  then show ?thesis using 1 False by simp
qed

lemma scan_item:
  assumes c: "scan_ready c" and ok: "item_ok p" and s: "s = pre @ item_text p @ rest"
    and next_item: "is_splat p \<Longrightarrow> rest = [] \<or> hd rest \<noteq> CHR ''*''"
  shows "\<exists>b. scan_loop s (length pre) c = scan_loop s (length (pre @ item_text p)) (put_item p c\<lparr>in_entity := b\<rparr>)"
proof (cases "is_splat p")
  case True
  then have p: "p = zero_pattern\<lparr>is_splat := True\<rparr>" "item_text p = ''*''" using ok by (simp_all add: item_ok_def item_text_def)
  have "scan_loop s (length pre) c = scan_loop s (Suc (length pre)) (put_item p c)"
    unfolding p(1) by (rule scan_splat [OF c]) (use s p next_item True in simp_all)
  then show ?thesis using p(2) by (intro exI [of _ "in_entity c"]) (simp add: put_item_def)
next
  case False
  let ?t = "''{'' @ (if etp_is_dot p then ''.'' else name_of (etp_type p)) @ '',''"
    and ?l = "(if elp_is_dot p then ''.'' else show_nat 10 (unat (elp_location p)))"
  let ?c = "upd_item (\<lambda>q. q\<lparr>etp_is_dot := etp_is_dot p, etp_type := etp_type p\<rparr>) c\<lparr>in_tuple := True, in_entity := False\<rparr>"
  have z: "pattern c ! sc_j c = zero_pattern" "sc_j c < length (pattern c)" "sc_j c < OH_MAX_EP_TUPLES"
    using c by (simp_all add: scan_ready_def)
  have at: "pattern ?c ! sc_j ?c = zero_pattern\<lparr>etp_is_dot := etp_is_dot p, etp_type := etp_type p\<rparr>"
    using z by (simp add: upd_item_def)
  have s': "s = (pre @ ?t) @ ?l @ ''}'' @ rest" using s False by (simp add: item_text_def)
  have "scan_loop s (length pre) c = scan_loop s (length (pre @ ?t)) ?c"
    by (rule scan_type [OF c, of _ _ _ _ "?l @ ''}'' @ rest"]) (use ok False s' in \<open>simp_all add: item_ok_def split: if_splits\<close>)
  also have "\<dots> = scan_loop s (length ((pre @ ?t) @ ?l @ ''}''))
      (upd_item (\<lambda>q. q\<lparr>elp_is_dot := elp_is_dot p, elp_location := elp_location p\<rparr>) ?c\<lparr>sc_j := Suc (sc_j ?c), in_tuple := False\<rparr>)"
    by (rule scan_place [OF _ _ _ _ _ s'])
      (use c ok False at z in \<open>simp_all add: item_ok_def scan_ready_def upd_item_def zero_pattern_def split: if_splits\<close>)
  also have "upd_item (\<lambda>q. q\<lparr>elp_is_dot := elp_is_dot p, elp_location := elp_location p\<rparr>) ?c\<lparr>sc_j := Suc (sc_j ?c), in_tuple := False\<rparr>
      = put_item p c\<lparr>in_entity := False\<rparr>"
    using c z False by (cases p; cases c) (simp add: upd_item_def put_item_def scan_ready_def zero_pattern_def)
  finally show ?thesis using False by (auto simp: item_text_def)
qed

definition no_double_splat :: "oh_entity_pattern list \<Rightarrow> bool" where
  "no_double_splat ps \<longleftrightarrow> successively (\<lambda>p q. \<not> (is_splat p \<and> is_splat q)) ps"

text \<open>All items from a position of the pattern on.\<close>

lemma scan_items:
  "list_all item_ok ps \<Longrightarrow> no_double_splat ps \<Longrightarrow> scan_ready c \<or> ps = [] \<Longrightarrow>
    sc_j c + length ps \<le> OH_MAX_EP_TUPLES \<Longrightarrow> drop (sc_j c) (pattern c) = replicate (OH_MAX_EP_TUPLES - sc_j c) zero_pattern \<Longrightarrow>
    length (pattern c) = OH_MAX_EP_TUPLES \<Longrightarrow>
    s = pre @ concat (map item_text ps) \<Longrightarrow>
    \<exists>c'. scan_loop s (length pre) c = Some c' \<and> sc_j c' = sc_j c + length ps \<and>
      take (sc_j c') (pattern c') = take (sc_j c) (pattern c) @ ps"
proof (induction ps arbitrary: c pre)
  case Nil
  then show ?case by (simp add: scan_loop_end)
next
  case (Cons p ps)
  have c: "scan_ready c" using Cons.prems by simp
  have nx: "concat (map item_text ps) = [] \<or> hd (concat (map item_text ps)) \<noteq> CHR ''*''" if "is_splat p"
  proof (cases ps)
    case (Cons q qs)
    then have "\<not> is_splat q" using Cons.prems(2) that by (simp add: no_double_splat_def)
    then show ?thesis using Cons by (simp add: item_text_def)
  qed simp
  obtain b where 1: "scan_loop s (length pre) c = scan_loop s (length (pre @ item_text p)) (put_item p c\<lparr>in_entity := b\<rparr>)"
    using scan_item [OF c, where p = p and s = s and pre = pre and rest = "concat (map item_text ps)"] nx Cons.prems by auto
  let ?c = "put_item p c\<lparr>in_entity := b\<rparr>"
  have j: "sc_j c < OH_MAX_EP_TUPLES" using c by (simp add: scan_ready_def)
  have rest: "drop (sc_j ?c) (pattern ?c) = replicate (OH_MAX_EP_TUPLES - sc_j ?c) zero_pattern"
    using arg_cong [OF Cons.prems(5), of tl] by (simp add: put_item_def tl_drop flip: drop_Suc)
  have "\<exists>c'. scan_loop s (length (pre @ item_text p)) ?c = Some c' \<and> sc_j c' = sc_j ?c + length ps \<and>
      take (sc_j c') (pattern c') = take (sc_j ?c) (pattern ?c) @ ps"
  proof (rule Cons.IH)
    show "scan_ready ?c \<or> ps = []"
    proof (cases ps)
      case (Cons q qs)
      then have "Suc (sc_j c) < OH_MAX_EP_TUPLES" using Cons.prems(4) by simp
      moreover from this rest have "pattern ?c ! sc_j ?c = zero_pattern"
        using Cons.prems(6) nth_drop [of "sc_j ?c" "pattern ?c" 0] by (simp add: put_item_def)
      ultimately show ?thesis using c by (simp add: scan_ready_def put_item_def)
    qed simp
  qed (use Cons.prems rest in \<open>auto simp: put_item_def no_double_splat_def successively_Cons\<close>)
  moreover have "take (sc_j ?c) (pattern ?c) = take (sc_j c) (pattern c) @ [p]"
    using Cons.prems(6) j by (simp add: put_item_def take_Suc_conv_app_nth)
  ultimately show ?case using 1 by (auto simp: put_item_def)
qed

text \<open>C40: The text of at most 16 items, no two splats side by side, is compiled into these items in reverse
  order, an end mark, and empty items up to the size of the array, if each item is one that the code
  takes (\<open>item_ok\<close>): a type that has a name, of at most 16 characters, or a dot; and a location of at
  most six digits or a dot. (The text of an item with a longer name, such as
  \<^verbatim>\<open>{RACK_MOUNTED_SERVER,1}\<close>, is refused: \<open>long_name\<close>.)\<close>

theorem compile_pattern_text:
  assumes "list_all item_ok ps" and "no_double_splat ps" and "length ps \<le> SAHPI_MAX_ENTITY_PATH"
  shows "oh_compile_entitypath_pattern (concat (map item_text ps)) =
    Inr (Some (rev ps @ zero_pattern\<lparr>etp_type := SAHPI_ENT_ROOT\<rparr> # replicate (SAHPI_MAX_ENTITY_PATH - length ps) zero_pattern))"
proof -
  let ?c = "\<lparr>sc_j = 0, in_tuple = False, in_entity = False, start = None, pattern = replicate OH_MAX_EP_TUPLES zero_pattern\<rparr>"
  obtain c' where c': "scan_loop (concat (map item_text ps)) (length ([] :: string)) ?c = Some c'" "sc_j c' = sc_j ?c + length ps"
      "take (sc_j c') (pattern c') = take (sc_j ?c) (pattern ?c) @ ps"
    using scan_items [OF assms(1,2), of ?c "concat (map item_text ps)" "[]"] assms(3) by (auto simp: scan_ready_def)
  have r: "replicate (OH_MAX_EP_TUPLES - length ps) zero_pattern = zero_pattern # replicate (SAHPI_MAX_ENTITY_PATH - length ps) zero_pattern"
    using assms(3) by (metis Suc_diff_le eval_nat_numeral(3) replicate_Suc semiring_norm(28) semiring_norm(26))
  have t: "take (length ps) (pattern c') = ps" using c'(2,3) by simp
  have "length ps < OH_MAX_EP_TUPLES" using assms(3) by simp
  then show ?thesis using c'(1,2) t
    unfolding oh_compile_entitypath_pattern_def by (simp add: Let_def r nth_append list_update_append)
qed

theorem compile_pattern_text_witness:
  "oh_compile_entitypath_pattern ''*{RACK,.}{.,7}'' =
    Inr (Some ([zero_pattern\<lparr>etp_is_dot := True, elp_location := 7\<rparr>,
      zero_pattern\<lparr>etp_type := 65536, elp_is_dot := True\<rparr>, zero_pattern\<lparr>is_splat := True\<rparr>,
      zero_pattern\<lparr>etp_type := SAHPI_ENT_ROOT\<rparr>] @ replicate 13 zero_pattern))"
proof -
  let ?ps = "[zero_pattern\<lparr>is_splat := True\<rparr>, zero_pattern\<lparr>etp_type := 65536, elp_is_dot := True\<rparr>,
      zero_pattern\<lparr>etp_is_dot := True, elp_location := 7\<rparr>]"
  have n: "oh_lookup_entitytype 65536 = Some ''RACK''" "show_nat 10 7 = ''7''" by code_simp+
  have "list_all item_ok ?ps" by (simp add: item_ok_def zero_pattern_def n name_of_def loc_ok_def)
  moreover have "no_double_splat ?ps" by (simp add: no_double_splat_def zero_pattern_def)
  moreover have "concat (map item_text ?ps) = ''*{RACK,.}{.,7}''"
    by (simp add: item_text_def zero_pattern_def n name_of_def)
  ultimately show ?thesis using compile_pattern_text [of ?ps] by simp
qed

text \<open>Two texts: a tuple that is not closed is dropped without an error, and a name of more than 16 characters is refused.\<close>

lemma unfinished_tuple:
  "oh_compile_entitypath_pattern ''{RACK,1'' = oh_compile_entitypath_pattern []"
  by code_simp

lemma long_name: "oh_compile_entitypath_pattern ''{RACK_MOUNTED_SERVER,1}'' = Inl SA_ERR_HPI_ERROR"
  by code_simp

end
