(* ===== verification/StructUtils.thy ===== *)
theory StructUtils
  imports EnumUtils
begin

text \<open>
  The checks of data that comes from a client (\<^verbatim>\<open>utils/sahpi_struct_utils.c\<close>,
  \<^verbatim>\<open>utils/sahpi_event_utils.c\<close>): text buffers, sensor thresholds and their order, control states,
  user events; and the comparison of sensor readings. A double is its 64 bits; the comparisons
  \<^verbatim>\<open><\<close>, \<^verbatim>\<open>>\<close> and \<^verbatim>\<open>==\<close> on them are those of IEEE 754, where a NaN compares with nothing.
\<close>

unbundle bit_operations_syntax

section \<open>Text buffers\<close>

abbreviation (input) SAHPI_TL_TYPE_UNICODE :: u32 where "SAHPI_TL_TYPE_UNICODE \<equiv> 0"
abbreviation (input) SAHPI_TL_TYPE_BCDPLUS :: u32 where "SAHPI_TL_TYPE_BCDPLUS \<equiv> 1"
abbreviation (input) SAHPI_TL_TYPE_ASCII6 :: u32 where "SAHPI_TL_TYPE_ASCII6 \<equiv> 2"
abbreviation (input) SAHPI_TL_TYPE_TEXT :: u32 where "SAHPI_TL_TYPE_TEXT \<equiv> 3"
abbreviation (input) SAHPI_TL_TYPE_BINARY :: u32 where "SAHPI_TL_TYPE_BINARY \<equiv> 4"

definition U_IS_SURROGATE :: "u16 \<Rightarrow> bool" where
  "U_IS_SURROGATE c \<longleftrightarrow> c AND 0xF800 = 0xD800"

definition U_IS_LEAD :: "u16 \<Rightarrow> bool" where
  "U_IS_LEAD c \<longleftrightarrow> c AND 0xFC00 = 0xD800"

definition U_IS_TRAIL :: "u16 \<Rightarrow> bool" where
  "U_IS_TRAIL c \<longleftrightarrow> c AND 0xFC00 = 0xDC00"

text \<open>The loop over the 16-bit units of a buffer, given the bytes that are used.\<close>

definition utf16_unit :: "u8 \<Rightarrow> u8 \<Rightarrow> u16" where
  "utf16_unit lo hi = ucast lo OR push_bit 8 (ucast hi)"

fun valid_utf16 :: "u8 list \<Rightarrow> bool" where
  "valid_utf16 (a # b # c # d # bs) =
     (if U_IS_SURROGATE (utf16_unit a b) then
        if U_IS_LEAD (utf16_unit a b) \<and> U_IS_TRAIL (utf16_unit c d) then valid_utf16 bs
        else False
      else valid_utf16 (c # d # bs))"
| "valid_utf16 (a # b # bs) = (\<not> U_IS_SURROGATE (utf16_unit a b))"
| "valid_utf16 _ = True"

definition bcdplus_char :: "u8 \<Rightarrow> bool" where
  "bcdplus_char c \<longleftrightarrow>
     \<not> ((c < 0x30 \<or> c > 0x39) \<and> c \<noteq> 0x20 \<and> c \<noteq> 0x2d \<and> c \<noteq> 0x2e \<and> c \<noteq> 0x3a \<and> c \<noteq> 0x2c \<and>
        c \<noteq> 0x5f)"

definition oh_valid_textbuffer :: "SaHpiTextBufferT \<Rightarrow> bool" where
  "oh_valid_textbuffer buffer =
     (if oh_lookup_texttype (DataType buffer) = None then False
      else
        let used = take (unat (DataLength buffer)) (Data buffer)
        in if DataType buffer = SAHPI_TL_TYPE_UNICODE then
             if oh_lookup_language (Language buffer) = None then False
             else if DataLength buffer mod 2 \<noteq> 0 then False
             else valid_utf16 used
           else if DataType buffer = SAHPI_TL_TYPE_BCDPLUS then list_all bcdplus_char used
           else if DataType buffer = SAHPI_TL_TYPE_ASCII6 then
             list_all (\<lambda>c. \<not> (c < 0x20 \<or> c > 0x5f)) used
           else if DataType buffer = SAHPI_TL_TYPE_TEXT then
             oh_lookup_language (Language buffer) \<noteq> None
           else DataType buffer = SAHPI_TL_TYPE_BINARY)"

definition oh_valid_addevent :: "SaHpiEventT option \<Rightarrow> SaErrorT" where
  "oh_valid_addevent event =
     (case event of
        None \<Rightarrow> SA_ERR_HPI_INVALID_PARAMS
      | Some ev \<Rightarrow>
          if Source ev \<noteq> SAHPI_UNSPECIFIED_RESOURCE_ID \<or> \<not> is_user_event (EventDataUnion ev) \<or>
             oh_lookup_severity (Severity ev) = None \<or> Severity ev = SAHPI_ALL_SEVERITIES \<or>
             \<not> (case EventDataUnion ev of UserEvent b \<Rightarrow> oh_valid_textbuffer b | _ \<Rightarrow> False)
          then SA_ERR_HPI_INVALID_PARAMS
          else SA_OK)"

section \<open>The members of a sensor reading\<close>

definition le64 :: "u8 list \<Rightarrow> u64" where
  "le64 bs = foldr (\<lambda>b w. ucast b + 256 * w) (take 8 bs) 0"

definition SensorInt64 :: "SaHpiSensorReadingT \<Rightarrow> int" where
  "SensorInt64 r = sint (le64 (rd_Value r))"

definition SensorUint64 :: "SaHpiSensorReadingT \<Rightarrow> int" where
  "SensorUint64 r = uint (le64 (rd_Value r))"

definition SensorFloat64 :: "SaHpiSensorReadingT \<Rightarrow> u64" where
  "SensorFloat64 r = le64 (rd_Value r)"

definition f64_nan :: "u64 \<Rightarrow> bool" where
  "f64_nan d \<longleftrightarrow> d AND 0x7FFFFFFFFFFFFFFF > 0x7FF0000000000000"

text \<open>The numbers of doubles are ordered like their magnitude bits, with the sign.\<close>

definition f64_key :: "u64 \<Rightarrow> int" where
  "f64_key d =
     (if d AND 0x8000000000000000 = 0 then uint (d AND 0x7FFFFFFFFFFFFFFF)
      else - uint (d AND 0x7FFFFFFFFFFFFFFF))"

definition f64_less :: "u64 \<Rightarrow> u64 \<Rightarrow> bool" where
  "f64_less a b \<longleftrightarrow> \<not> f64_nan a \<and> \<not> f64_nan b \<and> f64_key a < f64_key b"

definition f64_eq :: "u64 \<Rightarrow> u64 \<Rightarrow> bool" where
  "f64_eq a b \<longleftrightarrow> \<not> f64_nan a \<and> \<not> f64_nan b \<and> f64_key a = f64_key b"

section \<open>Comparing readings\<close>

abbreviation (input) SAHPI_SENSOR_READING_TYPE_INT64 :: u32
  where "SAHPI_SENSOR_READING_TYPE_INT64 \<equiv> 0"
abbreviation (input) SAHPI_SENSOR_READING_TYPE_UINT64 :: u32
  where "SAHPI_SENSOR_READING_TYPE_UINT64 \<equiv> 1"
abbreviation (input) SAHPI_SENSOR_READING_TYPE_FLOAT64 :: u32
  where "SAHPI_SENSOR_READING_TYPE_FLOAT64 \<equiv> 2"
abbreviation (input) SAHPI_SENSOR_READING_TYPE_BUFFER :: u32
  where "SAHPI_SENSOR_READING_TYPE_BUFFER \<equiv> 3"
abbreviation (input) SAHPI_SENSOR_BUFFER_LENGTH :: nat where "SAHPI_SENSOR_BUFFER_LENGTH \<equiv> 32"

text \<open>\<^verbatim>\<open>memcmp\<close>, by sign.\<close>

fun memcmp :: "u8 list \<Rightarrow> u8 list \<Rightarrow> int" where
  "memcmp (a # as) (b # bs) = (if a < b then -1 else if a > b then 1 else memcmp as bs)"
| "memcmp _ _ = 0"

definition oh_compare_sensorreading ::
  "u32 \<Rightarrow> SaHpiSensorReadingT \<Rightarrow> SaHpiSensorReadingT \<Rightarrow> int" where
  "oh_compare_sensorreading type reading1 reading2 =
     (if type = SAHPI_SENSOR_READING_TYPE_INT64 then
        if SensorInt64 reading1 < SensorInt64 reading2 then -1
        else if SensorInt64 reading1 = SensorInt64 reading2 then 0 else 1
      else if type = SAHPI_SENSOR_READING_TYPE_UINT64 then
        if SensorUint64 reading1 < SensorUint64 reading2 then -1
        else if SensorUint64 reading1 = SensorUint64 reading2 then 0 else 1
      else if type = SAHPI_SENSOR_READING_TYPE_FLOAT64 then
        if f64_less (SensorFloat64 reading1) (SensorFloat64 reading2) then -1
        else if f64_eq (SensorFloat64 reading1) (SensorFloat64 reading2) then 0 else 1
      else if type = SAHPI_SENSOR_READING_TYPE_BUFFER then
        let res = memcmp (take SAHPI_SENSOR_BUFFER_LENGTH (rd_Value reading1))
                         (take SAHPI_SENSOR_BUFFER_LENGTH (rd_Value reading2))
        in if res < 0 then -1 else if res > 0 then 1 else 0
      else 0)"

section \<open>Thresholds\<close>

record SaHpiSensorThresholdsT =
  LowCritical :: SaHpiSensorReadingT
  LowMajor :: SaHpiSensorReadingT
  LowMinor :: SaHpiSensorReadingT
  UpCritical :: SaHpiSensorReadingT
  UpMajor :: SaHpiSensorReadingT
  UpMinor :: SaHpiSensorReadingT
  PosThdHysteresis :: SaHpiSensorReadingT
  NegThdHysteresis :: SaHpiSensorReadingT

abbreviation (input) SAHPI_SRF_MIN :: u8 where "SAHPI_SRF_MIN \<equiv> 0x10"
abbreviation (input) SAHPI_SRF_MAX :: u8 where "SAHPI_SRF_MAX \<equiv> 0x08"
abbreviation (input) SAHPI_STM_LOW_MINOR :: u8 where "SAHPI_STM_LOW_MINOR \<equiv> 0x01"
abbreviation (input) SAHPI_STM_LOW_MAJOR :: u8 where "SAHPI_STM_LOW_MAJOR \<equiv> 0x02"
abbreviation (input) SAHPI_STM_LOW_CRIT :: u8 where "SAHPI_STM_LOW_CRIT \<equiv> 0x04"
abbreviation (input) SAHPI_STM_UP_MINOR :: u8 where "SAHPI_STM_UP_MINOR \<equiv> 0x08"
abbreviation (input) SAHPI_STM_UP_MAJOR :: u8 where "SAHPI_STM_UP_MAJOR \<equiv> 0x10"
abbreviation (input) SAHPI_STM_UP_CRIT :: u8 where "SAHPI_STM_UP_CRIT \<equiv> 0x20"
abbreviation (input) SAHPI_STM_UP_HYSTERESIS :: u8 where "SAHPI_STM_UP_HYSTERESIS \<equiv> 0x40"
abbreviation (input) SAHPI_STM_LOW_HYSTERESIS :: u8 where "SAHPI_STM_LOW_HYSTERESIS \<equiv> 0x80"
abbreviation (input) SAHPI_EC_THRESHOLD :: u8 where "SAHPI_EC_THRESHOLD \<equiv> 1"

text \<open>
  The macro \<open>validate_threshold\<close>: the error it returns with, if any. \<open>lt\<close> is \<^verbatim>\<open><\<close> on the member
  of the union that the type of the reading names, \<open>neg\<close> its comparison with 0.
\<close>

definition threshold_range ::
  "(SaHpiSensorReadingT \<Rightarrow> SaHpiSensorReadingT \<Rightarrow> bool) \<Rightarrow> (SaHpiSensorReadingT \<Rightarrow> bool) \<Rightarrow>
   SaHpiSensorRangeT \<Rightarrow> u8 \<Rightarrow> SaHpiSensorReadingT \<Rightarrow> SaErrorT option" where
  "threshold_range lt neg rg thdmask thd =
     (if thdmask = SAHPI_STM_UP_HYSTERESIS \<or> thdmask = SAHPI_STM_LOW_HYSTERESIS then
        if neg thd then Some SA_ERR_HPI_INVALID_DATA else None
      else if rg_Flags rg AND SAHPI_SRF_MAX \<noteq> 0 \<and> lt (rg_Max rg) thd then
        Some SA_ERR_HPI_INVALID_CMD
      else if rg_Flags rg AND SAHPI_SRF_MIN \<noteq> 0 \<and> lt thd (rg_Min rg) then
        Some SA_ERR_HPI_INVALID_CMD
      else None)"

definition int64_less :: "SaHpiSensorReadingT \<Rightarrow> SaHpiSensorReadingT \<Rightarrow> bool" where
  "int64_less r s \<longleftrightarrow> SensorInt64 r < SensorInt64 s"

definition uint64_less :: "SaHpiSensorReadingT \<Rightarrow> SaHpiSensorReadingT \<Rightarrow> bool" where
  "uint64_less r s \<longleftrightarrow> SensorUint64 r < SensorUint64 s"

definition float64_less :: "SaHpiSensorReadingT \<Rightarrow> SaHpiSensorReadingT \<Rightarrow> bool" where
  "float64_less r s \<longleftrightarrow> f64_less (SensorFloat64 r) (SensorFloat64 s)"

definition validate_threshold ::
  "SaHpiSensorDataFormatT \<Rightarrow> u8 \<Rightarrow> SaHpiSensorReadingT \<Rightarrow> u8 \<Rightarrow> SaErrorT option" where
  "validate_threshold format writable_thds thd thdmask =
     (if \<not> IsSupported thd then None
      else if writable_thds AND thdmask = 0 then Some SA_ERR_HPI_INVALID_CMD
      else if ReadingType format \<noteq> rd_Type thd then Some SA_ERR_HPI_INVALID_DATA
      else if ReadingType format = SAHPI_SENSOR_READING_TYPE_INT64 then
        threshold_range int64_less (\<lambda>r. SensorInt64 r < 0) (df_Range format) thdmask thd
      else if ReadingType format = SAHPI_SENSOR_READING_TYPE_FLOAT64 then
        threshold_range float64_less (\<lambda>r. f64_less (SensorFloat64 r) 0) (df_Range format) thdmask
          thd
      else if ReadingType format = SAHPI_SENSOR_READING_TYPE_UINT64 then
        threshold_range uint64_less (\<lambda>_. False) (df_Range format) thdmask thd
      else if ReadingType format = SAHPI_SENSOR_READING_TYPE_BUFFER then None
      else Some SA_ERR_HPI_INVALID_CMD)"

text \<open>The first error of a sequence of checks that return when they fail.\<close>

fun first_error :: "SaErrorT option list \<Rightarrow> SaErrorT" where
  "first_error [] = SA_OK"
| "first_error (None # es) = first_error es"
| "first_error (Some e # es) = e"

definition oh_valid_thresholds :: "SaHpiSensorThresholdsT option \<Rightarrow> SaHpiRdrT option \<Rightarrow> SaErrorT" where
  "oh_valid_thresholds thds_p rdr_p =
     (case (thds_p, rdr_p) of
        (Some thds, Some rdr) \<Rightarrow>
          if RdrType rdr \<noteq> SAHPI_SENSOR_RDR then SA_ERR_HPI_INVALID_PARAMS
          else
            let writable_thds = WriteThold (ThresholdDefn (sensor_rec rdr));
                format = DataFormat (sensor_rec rdr)
            in if sn_Category (sensor_rec rdr) \<noteq> SAHPI_EC_THRESHOLD \<or>
                  \<not> IsAccessible (ThresholdDefn (sensor_rec rdr)) \<or>
                  WriteThold (ThresholdDefn (sensor_rec rdr)) = 0
               then SA_ERR_HPI_INVALID_CMD
               else first_error [
                 validate_threshold format writable_thds (LowCritical thds) SAHPI_STM_LOW_CRIT,
                 validate_threshold format writable_thds (LowMajor thds) SAHPI_STM_LOW_MAJOR,
                 validate_threshold format writable_thds (LowMinor thds) SAHPI_STM_LOW_MINOR,
                 validate_threshold format writable_thds (UpCritical thds) SAHPI_STM_UP_CRIT,
                 validate_threshold format writable_thds (UpMajor thds) SAHPI_STM_UP_MAJOR,
                 validate_threshold format writable_thds (UpMinor thds) SAHPI_STM_UP_MINOR,
                 validate_threshold format writable_thds (PosThdHysteresis thds)
                   SAHPI_STM_UP_HYSTERESIS,
                 validate_threshold format writable_thds (NegThdHysteresis thds)
                   SAHPI_STM_LOW_HYSTERESIS]
      | _ \<Rightarrow> SA_ERR_HPI_INVALID_PARAMS)"

text \<open>
  The macro \<open>validate_threshold_order\<close>: a supported threshold must not be less than a supported
  one that comes later in the order from the upper critical to the lower critical.
\<close>

definition out_of_order ::
  "(SaHpiSensorReadingT \<Rightarrow> SaHpiSensorReadingT \<Rightarrow> bool) \<Rightarrow> SaHpiSensorReadingT \<Rightarrow>
   SaHpiSensorReadingT list \<Rightarrow> bool" where
  "out_of_order lt t ts \<longleftrightarrow> IsSupported t \<and> list_ex (\<lambda>u. IsSupported u \<and> lt t u) ts"

definition validate_threshold_order ::
  "(SaHpiSensorReadingT \<Rightarrow> SaHpiSensorReadingT \<Rightarrow> bool) \<Rightarrow> SaHpiSensorThresholdsT \<Rightarrow> SaErrorT" where
  "validate_threshold_order lt thds =
     (if out_of_order lt (UpCritical thds)
           [UpMajor thds, UpMinor thds, LowMinor thds, LowMajor thds, LowCritical thds] \<or>
         out_of_order lt (UpMajor thds)
           [UpMinor thds, LowMinor thds, LowMajor thds, LowCritical thds] \<or>
         out_of_order lt (UpMinor thds) [LowMinor thds, LowMajor thds, LowCritical thds] \<or>
         out_of_order lt (LowMinor thds) [LowMajor thds, LowCritical thds] \<or>
         out_of_order lt (LowMajor thds) [LowCritical thds]
      then SA_ERR_HPI_INVALID_DATA else SA_OK)"

definition oh_valid_ordering :: "SaHpiSensorThresholdsT option \<Rightarrow> SaHpiRdrT option \<Rightarrow> SaErrorT" where
  "oh_valid_ordering thds_p rdr_p =
     (case (thds_p, rdr_p) of
        (Some thds, Some rdr) \<Rightarrow>
          if RdrType rdr \<noteq> SAHPI_SENSOR_RDR then SA_ERR_HPI_INVALID_PARAMS
          else
            let format = DataFormat (sensor_rec rdr)
            in if ReadingType format = SAHPI_SENSOR_READING_TYPE_INT64 then
                 validate_threshold_order int64_less thds
               else if ReadingType format = SAHPI_SENSOR_READING_TYPE_FLOAT64 then
                 validate_threshold_order float64_less thds
               else if ReadingType format = SAHPI_SENSOR_READING_TYPE_UINT64 then
                 validate_threshold_order uint64_less thds
               else if ReadingType format = SAHPI_SENSOR_READING_TYPE_BUFFER then SA_OK
               else SA_ERR_HPI_INVALID_CMD
      | _ \<Rightarrow> SA_ERR_HPI_INVALID_PARAMS)"

section \<open>Control states\<close>

abbreviation (input) SAHPI_CTRL_TYPE_DIGITAL :: u32 where "SAHPI_CTRL_TYPE_DIGITAL \<equiv> 0"
abbreviation (input) SAHPI_CTRL_TYPE_DISCRETE :: u32 where "SAHPI_CTRL_TYPE_DISCRETE \<equiv> 1"
abbreviation (input) SAHPI_CTRL_TYPE_ANALOG :: u32 where "SAHPI_CTRL_TYPE_ANALOG \<equiv> 2"
abbreviation (input) SAHPI_CTRL_TYPE_STREAM :: u32 where "SAHPI_CTRL_TYPE_STREAM \<equiv> 3"
abbreviation (input) SAHPI_CTRL_TYPE_TEXT :: u32 where "SAHPI_CTRL_TYPE_TEXT \<equiv> 4"
abbreviation (input) SAHPI_CTRL_TYPE_OEM :: u32 where "SAHPI_CTRL_TYPE_OEM \<equiv> 0xC0"
abbreviation (input) SAHPI_CTRL_MODE_AUTO :: u32 where "SAHPI_CTRL_MODE_AUTO \<equiv> 0"
abbreviation (input) SAHPI_CTRL_STATE_OFF :: u32 where "SAHPI_CTRL_STATE_OFF \<equiv> 0"
abbreviation (input) SAHPI_CTRL_STATE_ON :: u32 where "SAHPI_CTRL_STATE_ON \<equiv> 1"
abbreviation (input) SAHPI_CTRL_STATE_PULSE_OFF :: u32 where "SAHPI_CTRL_STATE_PULSE_OFF \<equiv> 2"
abbreviation (input) SAHPI_CTRL_STATE_PULSE_ON :: u32 where "SAHPI_CTRL_STATE_PULSE_ON \<equiv> 3"
abbreviation (input) SAHPI_CTRL_MAX_STREAM_LENGTH :: u32
  where "SAHPI_CTRL_MAX_STREAM_LENGTH \<equiv> 4"
abbreviation (input) SAHPI_TLN_ALL_LINES :: u8 where "SAHPI_TLN_ALL_LINES \<equiv> 0"

record SaHpiCtrlStateStreamT =
  Repeat :: bool
  StreamLength :: u32
  StreamData :: "u8 list"

record SaHpiCtrlStateTextT =
  Line :: u8
  Text :: SaHpiTextBufferT

text \<open>
  \<open>SaHpiCtrlStateT\<close>: the type and the union. The code reads a member of the union only where the
  type names it, or where the type of the control, that the type of the state was compared with,
  does; any other member reads as zeros.
\<close>

record SaHpiCtrlStateT =
  cs_Type :: u32
  Digital :: u32
  Discrete :: u32
  Analog :: u32
  Stream :: SaHpiCtrlStateStreamT
  StateText :: SaHpiCtrlStateTextT
  StateOem :: "u8 list"

definition text_overflow :: "SaHpiCtrlRecTextT \<Rightarrow> SaHpiCtrlStateTextT \<Rightarrow> bool" where
  "text_overflow ctrl text =
     (let char_num =
            (if DataType (Text text) = SAHPI_TL_TYPE_UNICODE then uint (DataLength (Text text)) div 2
             else uint (DataLength (Text text)))
      in if char_num = 0 then False
         else
           let max_chars =
                 (if Line text = SAHPI_TLN_ALL_LINES then
                    uint (MaxLines ctrl) * uint (MaxChars ctrl)
                  else uint (MaxLines ctrl) * uint (MaxChars ctrl) -
                       (uint (Line text) - 1) * uint (MaxChars ctrl))
           in char_num > max_chars)"

definition valid_ctrl_state :: "SaHpiCtrlRecT \<Rightarrow> SaHpiCtrlStateT \<Rightarrow> SaErrorT" where
  "valid_ctrl_state ctrl_rdr state =
     (if ct_Type ctrl_rdr \<noteq> cs_Type state then SA_ERR_HPI_INVALID_DATA
      else if oh_lookup_ctrltype (cs_Type state) = None then SA_ERR_HPI_INVALID_DATA
      else if cs_Type state = SAHPI_CTRL_TYPE_DIGITAL then
        if oh_lookup_ctrlstatedigital (Digital state) = None then SA_ERR_HPI_INVALID_PARAMS else SA_OK
      else if cs_Type state = SAHPI_CTRL_TYPE_DISCRETE then SA_OK
      else if cs_Type state = SAHPI_CTRL_TYPE_ANALOG then
        if sint (Analog state) < sint (an_Min (ctrl_analog ctrl_rdr)) then SA_ERR_HPI_INVALID_DATA
        else if sint (Analog state) > sint (an_Max (ctrl_analog ctrl_rdr)) then SA_ERR_HPI_INVALID_DATA
        else SA_OK
      else if cs_Type state = SAHPI_CTRL_TYPE_STREAM then
        if StreamLength (Stream state) > SAHPI_CTRL_MAX_STREAM_LENGTH then SA_ERR_HPI_INVALID_PARAMS
        else SA_OK
      else if cs_Type state = SAHPI_CTRL_TYPE_TEXT then
        let ctrl = ctrl_text ctrl_rdr; text = StateText state
        in if DataType (Text text) \<noteq> tx_DataType ctrl then SA_ERR_HPI_INVALID_DATA
           else if (DataType (Text text) = SAHPI_TL_TYPE_UNICODE \<or>
                    DataType (Text text) = SAHPI_TL_TYPE_TEXT) \<and>
                   Language (Text text) \<noteq> tx_Language ctrl
           then SA_ERR_HPI_INVALID_DATA
           else if \<not> oh_valid_textbuffer (Text text) then SA_ERR_HPI_INVALID_PARAMS
           else if Line text > MaxLines ctrl then SA_ERR_HPI_INVALID_DATA
           else if text_overflow ctrl text then SA_ERR_HPI_INVALID_DATA
           else SA_OK
      else if cs_Type state = SAHPI_CTRL_TYPE_OEM then SA_OK
      else SA_ERR_HPI_INTERNAL_ERROR)"

definition oh_valid_ctrl_state_mode ::
  "SaHpiCtrlRecT \<Rightarrow> u32 \<Rightarrow> SaHpiCtrlStateT option \<Rightarrow> SaErrorT" where
  "oh_valid_ctrl_state_mode ctrl_rdr mode state_p =
     (if oh_lookup_ctrlmode mode = None then SA_ERR_HPI_INVALID_PARAMS
      else if DefaultMode_ReadOnly ctrl_rdr \<and> mode \<noteq> DefaultMode_Mode ctrl_rdr then
        SA_ERR_HPI_READ_ONLY
      else if mode \<noteq> SAHPI_CTRL_MODE_AUTO then
        (case state_p of
           None \<Rightarrow> SA_ERR_HPI_INVALID_PARAMS
         | Some state \<Rightarrow> valid_ctrl_state ctrl_rdr state)
      else SA_OK)"

end
