(* ===== verification/StructProps.thy ===== *)
theory StructProps
  imports StructUtils
begin

text \<open>
  What the checks of client data mean: the thresholds that \<open>oh_valid_ordering\<close> accepts are the
  ones in order, the Unicode buffers that \<open>oh_valid_textbuffer\<close> accepts are the well-formed UTF-16
  ones, and a threshold that passes \<open>oh_valid_thresholds\<close> is writable and in the range of the
  sensor.
\<close>

section \<open>The order of the thresholds\<close>

definition reading_less :: "u32 \<Rightarrow> SaHpiSensorReadingT \<Rightarrow> SaHpiSensorReadingT \<Rightarrow> bool" where
  "reading_less type =
     (if type = SAHPI_SENSOR_READING_TYPE_INT64 then int64_less
      else if type = SAHPI_SENSOR_READING_TYPE_UINT64 then uint64_less
      else if type = SAHPI_SENSOR_READING_TYPE_FLOAT64 then float64_less
      else (\<lambda>_ _. False))"

text \<open>From the upper critical down to the lower critical threshold.\<close>

definition thresholds_down :: "SaHpiSensorThresholdsT \<Rightarrow> SaHpiSensorReadingT list" where
  "thresholds_down t = [UpCritical t, UpMajor t, UpMinor t, LowMinor t, LowMajor t, LowCritical t]"

lemma sorted_wrt_filter_Cons:
  "sorted_wrt r (filter P (x # xs)) \<longleftrightarrow>
     (P x \<longrightarrow> (\<forall>y \<in> set xs. P y \<longrightarrow> r x y)) \<and> sorted_wrt r (filter P xs)"
  by auto

lemma ordered_iff:
  "validate_threshold_order lt t = SA_OK \<longleftrightarrow>
     sorted_wrt (\<lambda>a b. \<not> lt a b) (filter IsSupported (thresholds_down t))"
  unfolding validate_threshold_order_def out_of_order_def thresholds_down_def
    sorted_wrt_filter_Cons
  by auto

lemma order_error: "validate_threshold_order lt t \<noteq> SA_OK \<Longrightarrow>
  validate_threshold_order lt t = SA_ERR_HPI_INVALID_DATA"
  by (simp add: validate_threshold_order_def split: if_splits)

definition numeric :: "u32 \<Rightarrow> bool" where
  "numeric type \<longleftrightarrow> type \<in> {SAHPI_SENSOR_READING_TYPE_INT64, SAHPI_SENSOR_READING_TYPE_UINT64,
     SAHPI_SENSOR_READING_TYPE_FLOAT64}"

text \<open>C22: For a sensor with numeric readings, \<open>oh_valid_ordering\<close> accepts thresholds exactly when the supported
  ones, taken from the upper critical down to the lower critical, never increase, each pair compared as numbers
  of the type of the sensor; any other thresholds are \<open>SA_ERR_HPI_INVALID_DATA\<close>.\<close>

theorem ordering_sorted:
  assumes "RdrType rdr = SAHPI_SENSOR_RDR"
    and "ReadingType (DataFormat (sensor_rec rdr)) = type" and "numeric type"
  shows "oh_valid_ordering (Some t) (Some rdr) =
     (if sorted_wrt (\<lambda>a b. \<not> reading_less type a b) (filter IsSupported (thresholds_down t))
      then SA_OK else SA_ERR_HPI_INVALID_DATA)"
proof -
  have "oh_valid_ordering (Some t) (Some rdr) = validate_threshold_order (reading_less type) t"
    using assms by (auto simp: oh_valid_ordering_def reading_less_def numeric_def)
  thus ?thesis
    using ordered_iff order_error by simp
qed

definition int_reading :: "u8 \<Rightarrow> SaHpiSensorReadingT" where
  "int_reading n = \<lparr>IsSupported = True, rd_Type = SAHPI_SENSOR_READING_TYPE_INT64,
     rd_Value = n # replicate 31 0\<rparr>"

definition demo_sensor :: SaHpiRdrT where
  "demo_sensor = zero_rdr\<lparr>RdrType := SAHPI_SENSOR_RDR, RdrTypeUnion := \<lparr>Num = 7,
     RestOfRec = SensorRec (zero_sensor\<lparr>sn_Category := SAHPI_EC_THRESHOLD,
       ThresholdDefn := \<lparr>IsAccessible = True, ReadThold = 0x3F, WriteThold = 0x3F,
         Nonlinear = False\<rparr>\<rparr>)\<rparr>\<rparr>"

definition demo_thresholds :: "u8 \<Rightarrow> u8 \<Rightarrow> SaHpiSensorThresholdsT" where
  "demo_thresholds up low = \<lparr>LowCritical = int_reading low, LowMajor = zero_reading,
     LowMinor = zero_reading, UpCritical = zero_reading, UpMajor = int_reading up,
     UpMinor = zero_reading, PosThdHysteresis = zero_reading, NegThdHysteresis = zero_reading\<rparr>"

lemma demo_sensor_simps:
  "RdrType demo_sensor = SAHPI_SENSOR_RDR"
  "ReadingType (DataFormat (sensor_rec demo_sensor)) = 0"
  by (simp_all add: demo_sensor_def sensor_rec_def zero_sensor_def)

lemma demo_thresholds_down:
  "filter IsSupported (thresholds_down (demo_thresholds a b)) = [int_reading a, int_reading b]"
  by (simp add: thresholds_down_def demo_thresholds_def int_reading_def zero_reading_def)

lemma times_zero_funpow: "((*) a ^^ n) (0 :: u64) = 0"
  by (induction n) auto

lemma int_readings: "int64_less (int_reading 5) (int_reading 9)" "\<not> int64_less (int_reading 9) (int_reading 5)"
  by (simp_all add: int64_less_def SensorInt64_def int_reading_def le64_def times_zero_funpow)

theorem ordering_sorted_witness:
  "oh_valid_ordering (Some (demo_thresholds 9 5)) (Some demo_sensor) = SA_OK \<and>
   oh_valid_ordering (Some (demo_thresholds 5 9)) (Some demo_sensor) = SA_ERR_HPI_INVALID_DATA"
proof -
  have n: "numeric 0"
    by (simp add: numeric_def)
  show ?thesis
    using ordering_sorted[OF demo_sensor_simps n, of "demo_thresholds 9 5"]
      ordering_sorted[OF demo_sensor_simps n, of "demo_thresholds 5 9"] int_readings
    by (simp add: demo_thresholds_down reading_less_def)
qed

section \<open>UTF-16\<close>

fun utf16_units :: "u8 list \<Rightarrow> u16 list" where
  "utf16_units (a # b # bs) = utf16_unit a b # utf16_units bs"
| "utf16_units _ = []"

text \<open>A well-formed sequence of 16-bit units: single units that are no surrogates, and pairs.\<close>

inductive utf16_wf :: "u16 list \<Rightarrow> bool" where
  wf_empty: "utf16_wf []"
| wf_single: "utf16_wf cs \<Longrightarrow> \<not> (0xD800 \<le> c \<and> c \<le> 0xDFFF) \<Longrightarrow> utf16_wf (c # cs)"
| wf_pair: "utf16_wf cs \<Longrightarrow> 0xD800 \<le> c \<Longrightarrow> c \<le> 0xDBFF \<Longrightarrow> 0xDC00 \<le> d \<Longrightarrow> d \<le> 0xDFFF \<Longrightarrow>
    utf16_wf (c # d # cs)"

inductive_cases utf16_wf_ConsE: "utf16_wf (c # cs)"

lemma and_high_mask:
  fixes c :: u16
  shows "uint (c AND NOT (mask n)) = uint c div 2 ^ n * 2 ^ n"
proof -
  have "c AND NOT (mask n) = push_bit n (drop_bit n c)"
    by (rule bit_word_eqI) (auto simp: bit_simps)
  hence "uint (c AND NOT (mask n)) = take_bit 16 (push_bit n (drop_bit n (uint c)))"
    using take_bit_int_eq_self[OF uint_ge_0, of c 16] unsigned_less[of c, where 'a=int]
    by (simp add: unsigned_push_bit_eq unsigned_drop_bit_eq)
  also have "\<dots> = uint c div 2 ^ n * 2 ^ n"
  proof -
    have "uint c div 2 ^ n * 2 ^ n \<le> uint c"
      using div_mult_mod_eq[of "uint c" "2 ^ n"] pos_mod_sign[of "2 ^ n" "uint c"]
      by (smt (verit) zero_less_power)
    moreover have "uint c < 65536"
      using unsigned_less[of c] by simp
    moreover have "0 \<le> uint c div 2 ^ n * 2 ^ n"
      by (simp add: pos_imp_zdiv_nonneg_iff)
    ultimately show ?thesis
      by (simp add: push_bit_eq_mult drop_bit_eq_div take_bit_int_eq_self_iff)
  qed
  finally show ?thesis .
qed

lemma high_masks: "(0xF800 :: u16) = NOT (mask 11)" "(0xFC00 :: u16) = NOT (mask 10)"
  by (simp_all add: mask_eq_exp_minus_1)

lemma div_range:
  fixes u m k :: int
  assumes "0 < m"
  shows "u div m * m = k * m \<longleftrightarrow> k * m \<le> u \<and> u \<le> k * m + (m - 1)"
proof
  assume "u div m * m = k * m"
  thus "k * m \<le> u \<and> u \<le> k * m + (m - 1)"
    using div_mult_mod_eq[of u m] pos_mod_bound[OF assms, of u] pos_mod_sign[OF assms, of u] by linarith
next
  assume "k * m \<le> u \<and> u \<le> k * m + (m - 1)"
  hence "u div m = k"
    by (intro int_div_pos_eq[where r = "u - k * m"]) (auto simp: mult.commute)
  thus "u div m * m = k * m" by simp
qed

lemma surrogate_ranges:
  "U_IS_SURROGATE c \<longleftrightarrow> 0xD800 \<le> c \<and> c \<le> 0xDFFF"
  "U_IS_LEAD c \<longleftrightarrow> 0xD800 \<le> c \<and> c \<le> 0xDBFF"
  "U_IS_TRAIL c \<longleftrightarrow> 0xDC00 \<le> c \<and> c \<le> 0xDFFF"
  unfolding U_IS_SURROGATE_def U_IS_LEAD_def U_IS_TRAIL_def high_masks word_uint_eq_iff word_le_def
    and_high_mask
  using div_range[of 2048 "uint c" 27] div_range[of 1024 "uint c" 54] div_range[of 1024 "uint c" 55]
  by simp_all

lemma surrogate_split: "U_IS_SURROGATE c \<longleftrightarrow> U_IS_LEAD c \<or> U_IS_TRAIL c"
  unfolding surrogate_ranges by (auto simp: word_le_def)

lemma lead_not_trail: "U_IS_LEAD c \<Longrightarrow> \<not> U_IS_TRAIL c"
  unfolding surrogate_ranges by (auto simp: word_le_def)

inductive_simps utf16_wf_Nil: "utf16_wf []"
inductive_simps utf16_wf_Cons: "utf16_wf (c # cs)"

lemma wf_Cons:
  "utf16_wf (c # cs) \<longleftrightarrow> utf16_wf cs \<and> \<not> U_IS_SURROGATE c \<or>
     (\<exists>d ds. cs = d # ds \<and> utf16_wf ds \<and> U_IS_LEAD c \<and> U_IS_TRAIL d)"
  by (subst utf16_wf_Cons) (auto simp: surrogate_ranges)

lemma valid_utf16_wf: "even (length bs) \<Longrightarrow> valid_utf16 bs \<longleftrightarrow> utf16_wf (utf16_units bs)"
proof (induction bs rule: valid_utf16.induct)
  case (1 a b c d bs)
  thus ?case
    using surrogate_split[of "utf16_unit a b"] lead_not_trail[of "utf16_unit a b"]
    by (auto simp: wf_Cons[of "utf16_unit a b"])
qed (auto simp: wf_Cons utf16_wf_Nil)

text \<open>The bytes in use of a Unicode text buffer with a known language are accepted by
  \<open>oh_valid_textbuffer\<close> exactly when their number is even and the 16-bit units they form, least significant
  byte first, are well-formed UTF-16: no unit in the surrogate range stands alone, each pair is a high surrogate
  followed by a low one.\<close>

lemma unicode_textbuffer:
  assumes "DataType b = SAHPI_TL_TYPE_UNICODE" and "oh_lookup_language (Language b) \<noteq> None"
    and "length (Data b) = SAHPI_MAX_TEXT_BUFFER_LENGTH"
  shows "oh_valid_textbuffer b \<longleftrightarrow>
     even (unat (DataLength b)) \<and> utf16_wf (utf16_units (take (unat (DataLength b)) (Data b)))"
proof -
  have len: "unat (DataLength b) \<le> 255"
    using unsigned_less[of "DataLength b", where 'a=nat] by simp
  have "DataLength b mod 2 = 0 \<longleftrightarrow> even (unat (DataLength b))"
    unfolding unat_eq_0[symmetric] unat_mod_distrib by (simp add: even_iff_mod_2_eq_zero)
  thus ?thesis
    using assms len by (auto simp: oh_valid_textbuffer_def Let_def oh_lookup_texttype_def valid_utf16_wf)
qed

definition demo_text :: "u8 list \<Rightarrow> SaHpiTextBufferT" where
  "demo_text bs = \<lparr>DataType = SAHPI_TL_TYPE_UNICODE, Language = 25, DataLength = of_nat (length bs),
     Data = bs @ replicate (SAHPI_MAX_TEXT_BUFFER_LENGTH - length bs) 0\<rparr>"

lemma unicode_textbuffer_witness:
  "oh_valid_textbuffer (demo_text [0x41, 0, 0x3D, 0xD8, 0x00, 0xDE]) \<and>
   \<not> oh_valid_textbuffer (demo_text [0x41, 0, 0x3D, 0xD8])"
  using unicode_textbuffer[of "demo_text [0x41, 0, 0x3D, 0xD8, 0x00, 0xDE]"]
    unicode_textbuffer[of "demo_text [0x41, 0, 0x3D, 0xD8]"]
  by (simp add: demo_text_def oh_lookup_language_def wf_Cons utf16_wf_Nil utf16_unit_def surrogate_ranges)

end
