(* ===== verification/Plugin.thy ===== *)
theory Plugin
  imports Domain EpText
begin

text \<open>
  Plugins and their instances, the handlers (\<^verbatim>\<open>openhpid/plugin.c\<close>, \<^verbatim>\<open>include/oh_plugin.h\<close>). Both
  live in a heap, are reached through pointers and are reference counted, like the domains: one
  that is taken out of its table stays alive until its last holder releases it. The hash table of
  the handlers maps an id to the list node of the handler; node and handler share one address. A
  handler points to the function table of its plugin, which is allocated and freed with the plugin:
  \<open>h_abi\<close> is the address of the plugin. An instance of a plugin is the pointer that its function
  \<^verbatim>\<open>open\<close> returned, 0 for NULL. \<open>closed\<close> traces the instances that have been closed, \<open>calls\<close> the
  functions of plugins that the HPI functions have called: instance, function, resource.
  The functions are written as one thread runs them; \<open>PluginProps\<close> takes those of the handlers apart
  at the locks, for the interleaving of several threads.
\<close>

record oh_plugin =
  p_name :: string
  p_abi :: "string list"
  handler_count :: int
  p_refcount :: int

record oh_handler =
  h_id :: u32
  plugin_name :: string
  config :: "string \<rightharpoonup> string"
  h_abi :: nat
  hnd :: nat
  h_refcount :: int

record plugin_state =
  plugins :: "nat \<Rightarrow> oh_plugin option"
  plugin_fresh :: nat
  plugin_list :: "nat list"
  handlers :: "nat \<Rightarrow> oh_handler option"
  handler_fresh :: nat
  handler_list :: "nat list"
  handler_table :: "u32 \<Rightarrow> nat option"
  handler_id :: u32
  closed :: "nat list"
  calls :: "(nat \<times> string \<times> u32) list"

section \<open>The function table\<close>

text \<open>
  \<open>oh_load_plugin_functions\<close> looks the symbol \<^verbatim>\<open>oh_f\<close> up for each field \<open>f\<close> of \<open>oh_abi_v2\<close>; a
  function table is the list of the fields that are not NULL.
\<close>

definition abi_fields :: "string list" where
  "abi_fields =
     [''open'', ''close'', ''get_event'', ''discover_resources'', ''set_resource_tag'',
      ''set_resource_severity'', ''resource_failed_remove'', ''get_el_info'', ''get_el_caps'',
      ''set_el_time'', ''add_el_entry'', ''get_el_entry'', ''clear_el'', ''set_el_state'',
      ''reset_el_overflow'', ''get_sensor_reading'', ''get_sensor_thresholds'',
      ''set_sensor_thresholds'', ''get_sensor_enable'', ''set_sensor_enable'',
      ''get_sensor_event_enables'', ''set_sensor_event_enables'', ''get_sensor_event_masks'',
      ''set_sensor_event_masks'', ''get_control_state'', ''set_control_state'', ''get_idr_info'',
      ''get_idr_area_header'', ''add_idr_area'', ''add_idr_area_id'', ''del_idr_area'',
      ''get_idr_field'', ''add_idr_field'', ''add_idr_field_id'', ''set_idr_field'',
      ''del_idr_field'', ''get_watchdog_info'', ''set_watchdog_info'', ''reset_watchdog'',
      ''get_next_announce'', ''get_announce'', ''ack_announce'', ''add_announce'',
      ''del_announce'', ''get_annunc_mode'', ''set_annunc_mode'', ''get_dimi_info'',
      ''get_dimi_test'', ''get_dimi_test_ready'', ''start_dimi_test'', ''cancel_dimi_test'',
      ''get_dimi_test_status'', ''get_dimi_test_results'', ''get_fumi_spec'',
      ''get_fumi_service_impact'', ''set_fumi_source'', ''validate_fumi_source'',
      ''get_fumi_source'', ''get_fumi_source_component'', ''get_fumi_target'',
      ''get_fumi_target_component'', ''get_fumi_logical_target'',
      ''get_fumi_logical_target_component'', ''start_fumi_backup'', ''set_fumi_bank_order'',
      ''start_fumi_bank_copy'', ''start_fumi_install'', ''get_fumi_status'',
      ''start_fumi_verify'', ''start_fumi_verify_main'', ''cancel_fumi_upgrade'',
      ''get_fumi_autorollback_disable'', ''set_fumi_autorollback_disable'',
      ''start_fumi_rollback'', ''activate_fumi'', ''start_fumi_activate'', ''cleanup_fumi'',
      ''hotswap_policy_cancel'', ''get_hotswap_state'', ''set_autoinsert_timeout'',
      ''set_hotswap_state'', ''request_hotswap_action'', ''get_autoextract_timeout'',
      ''set_autoextract_timeout'', ''get_power_state'', ''set_power_state'',
      ''get_indicator_state'', ''set_indicator_state'', ''control_parm'', ''load_id_get'',
      ''load_id_set'', ''get_reset_state'', ''set_reset_state'', ''inject_event'']"

definition oh_load_plugin_functions :: "string list \<Rightarrow> string list" where
  "oh_load_plugin_functions symbols = filter (\<lambda>f. ''oh_'' @ f \<in> set symbols) abi_fields"

section \<open>Plugins\<close>

definition upd_plugin :: "nat \<Rightarrow> (oh_plugin \<Rightarrow> oh_plugin) \<Rightarrow> plugin_state \<Rightarrow> plugin_state" where
  "upd_plugin a f st = st\<lparr>plugins := (plugins st)(a := map_option f (plugins st a))\<rparr>"

definition inc_plugin_refcount :: "nat \<Rightarrow> plugin_state \<Rightarrow> plugin_state" where
  "inc_plugin_refcount a = upd_plugin a (\<lambda>p. p\<lparr>p_refcount := p_refcount p + 1\<rparr>)"

definition dec_plugin_refcount :: "nat \<Rightarrow> plugin_state \<Rightarrow> plugin_state" where
  "dec_plugin_refcount a = upd_plugin a (\<lambda>p. p\<lparr>p_refcount := p_refcount p - 1\<rparr>)"

definition delete_plugin :: "nat \<Rightarrow> plugin_state \<Rightarrow> plugin_state" where
  "delete_plugin a st = st\<lparr>plugins := (plugins st)(a := None)\<rparr>"

definition plugin_refcount :: "plugin_state \<Rightarrow> nat \<Rightarrow> int" where
  "plugin_refcount st a = (case plugins st a of None \<Rightarrow> 0 | Some p \<Rightarrow> p_refcount p)"

definition named :: "plugin_state \<Rightarrow> string \<Rightarrow> nat \<Rightarrow> bool" where
  "named st name a \<longleftrightarrow> map_option p_name (plugins st a) = Some name"

definition oh_get_plugin :: "plugin_state \<Rightarrow> string option \<Rightarrow> nat option \<times> plugin_state" where
  "oh_get_plugin st name =
     (case name of
        None \<Rightarrow> (None, st)
      | Some n \<Rightarrow>
          (case find (named st n) (plugin_list st) of
             None \<Rightarrow> (None, st)
           | Some a \<Rightarrow> (Some a, inc_plugin_refcount a st)))"

definition oh_release_plugin :: "nat option \<Rightarrow> plugin_state \<Rightarrow> plugin_state" where
  "oh_release_plugin plugin st =
     (case plugin of
        None \<Rightarrow> st
      | Some a \<Rightarrow>
          (let st = dec_plugin_refcount a st
           in if plugin_refcount st a < 0 then delete_plugin a st else st))"

text \<open>The result: return code and what is written to the buffer of \<open>sz\<close> bytes.\<close>

definition oh_getnext_plugin_name :: "plugin_state \<Rightarrow> string option \<Rightarrow> nat \<Rightarrow> int \<times> string" where
  "oh_getnext_plugin_name st name sz =
     (let name_of = (\<lambda>a. case plugins st a of None \<Rightarrow> [] | Some p \<Rightarrow> p_name p)
      in case name of
           None \<Rightarrow>
             (case plugin_list st of [] \<Rightarrow> (-1, []) | a # _ \<Rightarrow> (0, take sz (name_of a)))
         | Some n \<Rightarrow>
             (case find_after (named st n) (plugin_list st) of
                None \<Rightarrow> (-1, [])
              | Some a \<Rightarrow> (0, take sz (name_of a))))"

text \<open>
  Loading: \<open>dl\<close> stands for the dynamic linker, the symbols of the module in a file, \<open>module_path\<close>
  for \<open>g_module_build_path\<close>; \<open>dirs\<close> is the list of directories, \<open>path\<close> of the global parameters.
\<close>

definition oh_load_plugin ::
    "(string \<Rightarrow> string list option) \<Rightarrow> (string \<Rightarrow> string \<Rightarrow> string) \<Rightarrow> string \<Rightarrow> plugin_state \<Rightarrow>
       string option \<Rightarrow> int \<times> plugin_state"
where
  "oh_load_plugin dl module_path dirs st name =
     (case name of
        None \<Rightarrow> (-1, st)
      | Some n \<Rightarrow>
          (case oh_get_plugin st name of
             (Some a, st) \<Rightarrow> (0, oh_release_plugin (Some a) st)
           | (None, st) \<Rightarrow>
               (case List.find (\<lambda>dir. dl (module_path dir n) \<noteq> None) (g_strsplit CHR '':'' dirs) of
                  None \<Rightarrow> (-1, st)
                | Some dir \<Rightarrow>
                    (let abi = oh_load_plugin_functions (the (dl (module_path dir n)));
                         a = plugin_fresh st
                     in if ''open'' \<notin> set abi then (-1, st)
                        else (0, st\<lparr>plugins := (plugins st)(a \<mapsto>
                                      \<lparr>p_name = n, p_abi = abi, handler_count = 0, p_refcount = 0\<rparr>),
                                    plugin_fresh := a + 1,
                                    plugin_list := plugin_list st @ [a]\<rparr>)))))"

definition oh_unload_plugin :: "plugin_state \<Rightarrow> string option \<Rightarrow> int \<times> plugin_state" where
  "oh_unload_plugin st name =
     (case name of
        None \<Rightarrow> (-1, st)
      | Some n \<Rightarrow>
          (case oh_get_plugin st name of
             (None, st) \<Rightarrow> (-2, st)
           | (Some a, st) \<Rightarrow>
               if (case plugins st a of None \<Rightarrow> False | Some p \<Rightarrow> handler_count p > 0)
               then (-3, oh_release_plugin (Some a) st)
               else
                 let st = st\<lparr>plugin_list := remove1 a (plugin_list st)\<rparr>;
                     st = dec_plugin_refcount a st
                 in (0, if plugin_refcount st a < 1 then delete_plugin a st
                        else oh_release_plugin (Some a) st)))"

section \<open>Handlers\<close>

definition upd_handler :: "nat \<Rightarrow> (oh_handler \<Rightarrow> oh_handler) \<Rightarrow> plugin_state \<Rightarrow> plugin_state" where
  "upd_handler a f st = st\<lparr>handlers := (handlers st)(a := map_option f (handlers st a))\<rparr>"

definition inc_handler_refcount :: "nat \<Rightarrow> plugin_state \<Rightarrow> plugin_state" where
  "inc_handler_refcount a = upd_handler a (\<lambda>h. h\<lparr>h_refcount := h_refcount h + 1\<rparr>)"

definition dec_handler_refcount :: "nat \<Rightarrow> plugin_state \<Rightarrow> plugin_state" where
  "dec_handler_refcount a = upd_handler a (\<lambda>h. h\<lparr>h_refcount := h_refcount h - 1\<rparr>)"

definition handler_refcount :: "plugin_state \<Rightarrow> nat \<Rightarrow> int" where
  "handler_refcount st a = (case handlers st a of None \<Rightarrow> 0 | Some h \<Rightarrow> h_refcount h)"

text \<open>\<open>__delete_handler\<close>: the plugin has one handler less, the handler is freed.\<close>

definition delete_handler :: "nat \<Rightarrow> plugin_state \<Rightarrow> plugin_state" where
  "delete_handler a st =
     (case handlers st a of
        None \<Rightarrow> st
      | Some h \<Rightarrow>
          (let st = (case oh_get_plugin st (Some (plugin_name h)) of
                       (None, st) \<Rightarrow> st
                     | (Some p, st) \<Rightarrow>
                         oh_release_plugin (Some p)
                           (upd_plugin p (\<lambda>q. q\<lparr>handler_count := handler_count q - 1\<rparr>) st))
           in st\<lparr>handlers := (handlers st)(a := None)\<rparr>))"

definition oh_get_handler :: "plugin_state \<Rightarrow> u32 \<Rightarrow> nat option \<times> plugin_state" where
  "oh_get_handler st hid =
     (case handler_table st hid of
        None \<Rightarrow> (None, st)
      | Some a \<Rightarrow> (Some a, inc_handler_refcount a st))"

definition oh_release_handler :: "nat option \<Rightarrow> plugin_state \<Rightarrow> plugin_state" where
  "oh_release_handler handler st =
     (case handler of
        None \<Rightarrow> st
      | Some a \<Rightarrow>
          (let st = dec_handler_refcount a st
           in if handler_refcount st a < 0 then delete_handler a st else st))"

text \<open>The result: return code and \<open>*next_hid\<close>.\<close>

definition oh_getnext_handler_id :: "plugin_state \<Rightarrow> u32 \<Rightarrow> int \<times> u32" where
  "oh_getnext_handler_id st hid =
     (let id_of = (\<lambda>a. case handlers st a of None \<Rightarrow> 0 | Some h \<Rightarrow> h_id h)
      in if hid = 0 then
           (case handler_list st of [] \<Rightarrow> (-1, 0) | a # _ \<Rightarrow> (0, id_of a))
         else
           (case handler_table st hid of
              None \<Rightarrow> (-1, 0)
            | Some a \<Rightarrow>
                (case find_after (\<lambda>b. b = a) (handler_list st) of
                   None \<Rightarrow> (-1, 0)
                 | Some b \<Rightarrow> (0, id_of b))))"

text \<open>Whether the plugin behind a handler has a function.\<close>

definition has_fn :: "plugin_state \<Rightarrow> oh_handler \<Rightarrow> string \<Rightarrow> bool" where
  "has_fn st h f \<longleftrightarrow> (case plugins st (h_abi h) of None \<Rightarrow> False | Some p \<Rightarrow> f \<in> set (p_abi p))"

text \<open>\<open>new_handler\<close>: the address of the handler; \<open>load\<close> is \<open>oh_load_plugin\<close>.\<close>

definition new_handler ::
    "(plugin_state \<Rightarrow> string option \<Rightarrow> int \<times> plugin_state) \<Rightarrow> plugin_state \<Rightarrow>
       (string \<rightharpoonup> string) \<Rightarrow> nat option \<times> plugin_state"
where
  "new_handler load st handler_config =
     (case handler_config ''plugin'' of
        None \<Rightarrow> (None, st)
      | Some name \<Rightarrow>
          (let (plugin, st) =
                 (case oh_get_plugin st (Some name) of
                    (Some p, st) \<Rightarrow> (Some p, st)
                  | (None, st) \<Rightarrow>
                      (let (rc, st) = load st (Some name)
                       in if rc \<noteq> 0 then (None, st) else oh_get_plugin st (Some name)))
           in case plugin of
                None \<Rightarrow> (None, st)
              | Some p \<Rightarrow>
                  (let st = upd_plugin p (\<lambda>q. q\<lparr>handler_count := handler_count q + 1\<rparr>) st;
                       st = oh_release_plugin (Some p) st;
                       a = handler_fresh st
                   in (Some a, st\<lparr>handler_fresh := a + 1,
                         handlers := (handlers st)(a \<mapsto>
                           \<lparr>h_id = handler_id st, plugin_name = name, config = handler_config,
                            h_abi = p, hnd = 0, h_refcount = 0\<rparr>),
                         handler_id := handler_id st + 1\<rparr>))))"

definition log_call :: "nat \<Rightarrow> string \<Rightarrow> u32 \<Rightarrow> plugin_state \<Rightarrow> plugin_state" where
  "log_call inst f rid st = st\<lparr>calls := calls st @ [(inst, f, rid)]\<rparr>"

text \<open>
  The arguments stand for the plugin's \<^verbatim>\<open>open\<close>, the instance it returns for a configuration and
  an id. The result: return code, \<open>*hid\<close>, state.
\<close>

definition oh_create_handler ::
    "(plugin_state \<Rightarrow> string option \<Rightarrow> int \<times> plugin_state) \<Rightarrow>
       ((string \<rightharpoonup> string) \<Rightarrow> u32 \<Rightarrow> nat) \<Rightarrow> global_params \<Rightarrow> plugin_state \<Rightarrow>
       (string \<rightharpoonup> string) option \<Rightarrow> SaErrorT \<times> u32 \<times> plugin_state"
where
  "oh_create_handler load opens gp st handler_config =
     (case handler_config of
        None \<Rightarrow> (SA_ERR_HPI_INVALID_PARAMS, 0, st)
      | Some cfg \<Rightarrow>
          (case new_handler load st cfg of
             (None, st) \<Rightarrow> (SA_ERR_HPI_ERROR, 0, st)
           | (Some a, st) \<Rightarrow>
               (let hid = (case handlers st a of None \<Rightarrow> 0 | Some h \<Rightarrow> h_id h);
                    st = st\<lparr>handler_list := handler_list st @ [a],
                            handler_table := (handler_table st)(hid \<mapsto> a)\<rparr>;
                    inst = opens cfg hid;
                    st = upd_handler a (\<lambda>h. h\<lparr>hnd := inst\<rparr>) st
                in if inst = 0 then (SA_ERR_HPI_INTERNAL_ERROR, hid, st)
                   else if (case handlers st a of None \<Rightarrow> False
                            | Some h \<Rightarrow> has_fn st h ''set_autoinsert_timeout'') \<and>
                           \<not> ai_timeout_readonly gp \<and> ai_timeout gp \<noteq> 0
                   then (SA_OK, hid, log_call inst ''set_autoinsert_timeout'' 0 st)
                   else (SA_OK, hid, st))))"

text \<open>Closing an instance, when the plugin has the function and the handler an instance.\<close>

definition close_instance :: "nat \<Rightarrow> plugin_state \<Rightarrow> plugin_state" where
  "close_instance a st =
     (case handlers st a of
        None \<Rightarrow> st
      | Some h \<Rightarrow>
          if has_fn st h ''close'' \<and> hnd h \<noteq> 0 then st\<lparr>closed := closed st @ [hnd h]\<rparr> else st)"

definition unlink_handler :: "nat \<Rightarrow> plugin_state \<Rightarrow> plugin_state" where
  "unlink_handler a st =
     st\<lparr>handler_table := (case handlers st a of
                            None \<Rightarrow> handler_table st
                          | Some h \<Rightarrow> (handler_table st)(h_id h := None)),
        handler_list := remove1 a (handler_list st)\<rparr>"

definition oh_destroy_handler :: "plugin_state \<Rightarrow> u32 \<Rightarrow> int \<times> plugin_state" where
  "oh_destroy_handler st hid =
     (if hid < 1 then (-1, st)
      else case oh_get_handler st hid of
             (None, st) \<Rightarrow> (-1, st)
           | (Some a, st) \<Rightarrow>
               (let st = close_instance a st;
                    st = unlink_handler a st;
                    st = dec_handler_refcount a st
                in (0, if handler_refcount st a < 1 then delete_handler a st
                       else oh_release_handler (Some a) st)))"

definition oh_close_handlers :: "plugin_state \<Rightarrow> plugin_state" where
  "oh_close_handlers st = fold close_instance (handler_list st) st"

record oHpiHandlerInfoT =
  hi_id :: u32
  hi_plugin_name :: string
  entity_root :: SaHpiEntityPathT
  load_failed :: bool

abbreviation (input) MAX_PLUGIN_NAME_LENGTH :: nat where "MAX_PLUGIN_NAME_LENGTH \<equiv> 32"

text \<open>The result: return code, \<open>*info\<close> and \<open>conf_params\<close>. A password is not handed out.\<close>

definition oh_get_handler_info ::
    "plugin_state \<Rightarrow> u32 \<Rightarrow> (string \<rightharpoonup> string) \<Rightarrow>
       SaErrorT \<times> (oHpiHandlerInfoT \<times> (string \<rightharpoonup> string)) option"
where
  "oh_get_handler_info st hid conf_params =
     (if hid = 0 then (SA_ERR_HPI_INVALID_PARAMS, None)
      else case handler_table st hid of
             None \<Rightarrow> (SA_ERR_HPI_NOT_PRESENT, None)
           | Some a \<Rightarrow>
               (case handlers st a of
                  None \<Rightarrow> (SA_ERR_HPI_NOT_PRESENT, None)
                | Some h \<Rightarrow>
                    (let root = (case config h ''entity_root'' of
                                   None \<Rightarrow> oh_init_ep
                                 | Some s \<Rightarrow> snd (oh_encode_entitypath s oh_init_ep));
                         ps = conf_params ++ config h;
                         ps = (if ps ''password'' \<noteq> None then ps(''password'' \<mapsto> ''********'') else ps)
                     in (SA_OK,
                         Some (\<lparr>hi_id = hid,
                                hi_plugin_name = take MAX_PLUGIN_NAME_LENGTH (plugin_name h),
                                entity_root = root, load_failed = (hnd h = 0)\<rparr>, ps)))))"

text \<open>
  The loop of \<open>oh_discovery\<close>. \<open>discover\<close> gives the return code of the plugin for an instance,
  \<open>stop\<close> the value of \<open>signal_stop\<close> at each turn. The table of handlers does not change meanwhile:
  each turn moves one handler on, and the fuel is the number of handlers.
\<close>

fun discovery_loop ::
    "(nat \<Rightarrow> SaErrorT) \<Rightarrow> (nat \<Rightarrow> bool) \<Rightarrow> nat \<Rightarrow> u32 \<Rightarrow> SaErrorT \<Rightarrow> plugin_state \<Rightarrow>
       (SaErrorT \<times> plugin_state) option"
where
  "discovery_loop discover stop n next_hid error st =
     (if next_hid = 0 then Some (error, st)
      else case n of
             0 \<Rightarrow> None
           | Suc m \<Rightarrow>
               if stop m then Some (SA_OK, st)
               else
                 (case oh_get_handler st next_hid of
                    (None, st) \<Rightarrow> Some (error, st)
                  | (Some a, st) \<Rightarrow>
                      (let (error, st) =
                             (case handlers st a of
                                None \<Rightarrow> (error, st)
                              | Some h \<Rightarrow>
                                  if has_fn st h ''discover_resources'' \<and> hnd h \<noteq> 0 then
                                    (if discover (hnd h) = SA_OK then SA_OK else error,
                                     log_call (hnd h) ''discover_resources'' 0 st)
                                  else (error, st));
                           st = oh_release_handler (Some a) st
                       in discovery_loop discover stop m (snd (oh_getnext_handler_id st next_hid))
                            error st)))"

definition oh_discovery ::
    "(nat \<Rightarrow> SaErrorT) \<Rightarrow> (nat \<Rightarrow> bool) \<Rightarrow> nat \<Rightarrow> plugin_state \<Rightarrow> (SaErrorT \<times> plugin_state) option"
where
  "oh_discovery discover stop n st =
     discovery_loop discover stop n (snd (oh_getnext_handler_id st 0)) SA_ERR_HPI_ERROR st"

end
