(* ===== verification/HpiApi.thy ===== *)
theory HpiApi
  imports Plugin Session StructUtils
begin

text \<open>
  The frame of the HPI functions of the daemon (\<^verbatim>\<open>openhpid/safhpi.c\<close>) and the macros of
  \<^verbatim>\<open>include/sahpimacros.h\<close>. A macro that returns from the function that uses it is a function with
  the rest of the body as its last argument. The result of an HPI function is its return code and
  what it has written to the places that the caller named: \<open>None\<close> when nothing was written.

  The state is the daemon, the plugins, the readings of the clock from now on, and \<open>pushed\<close>: the
  events that a plugin pushes onto \<open>oh_process_q\<close> while one of its functions runs, by the name of
  the function. A pointer to a place for a result is a bool, false for NULL; a pointer to data is
  an option. The functions of the plugins are arguments: they take the arguments of the call and
  give the return code and what they write; where an HPI function does not look at the data that
  passes through it, the data are bytes. A handler id that a resource points to is read from
  \<open>hid_heap\<close>; a dangling pointer reads as 0, an id that no handler has.
\<close>

record hpi =
  dmn :: daemon
  plug :: plugin_state
  clk :: "nat \<Rightarrow> u64"
  pushed :: "string \<Rightarrow> oh_event list"

type_synonym 'a hpi_result = "(SaErrorT \<times> 'a option) \<times> hpi"

section \<open>Constants\<close>

abbreviation (input) SAHPI_CAPABILITY_FUMI :: u32 where "SAHPI_CAPABILITY_FUMI \<equiv> 0x00010000"
abbreviation (input) SAHPI_CAPABILITY_EVT_DEASSERTS :: u32
  where "SAHPI_CAPABILITY_EVT_DEASSERTS \<equiv> 0x00008000"
abbreviation (input) SAHPI_CAPABILITY_DIMI :: u32 where "SAHPI_CAPABILITY_DIMI \<equiv> 0x00004000"
abbreviation (input) SAHPI_CAPABILITY_CONFIGURATION :: u32
  where "SAHPI_CAPABILITY_CONFIGURATION \<equiv> 0x00001000"
abbreviation (input) SAHPI_CAPABILITY_MANAGED_HOTSWAP :: u32
  where "SAHPI_CAPABILITY_MANAGED_HOTSWAP \<equiv> 0x00000800"
abbreviation (input) SAHPI_CAPABILITY_WATCHDOG :: u32
  where "SAHPI_CAPABILITY_WATCHDOG \<equiv> 0x00000400"
abbreviation (input) SAHPI_CAPABILITY_CONTROL :: u32
  where "SAHPI_CAPABILITY_CONTROL \<equiv> 0x00000200"
abbreviation (input) SAHPI_CAPABILITY_LOAD_ID :: u32
  where "SAHPI_CAPABILITY_LOAD_ID \<equiv> 0x00000080"
abbreviation (input) SAHPI_CAPABILITY_ANNUNCIATOR :: u32
  where "SAHPI_CAPABILITY_ANNUNCIATOR \<equiv> 0x00000040"
abbreviation (input) SAHPI_CAPABILITY_POWER :: u32 where "SAHPI_CAPABILITY_POWER \<equiv> 0x00000020"
abbreviation (input) SAHPI_CAPABILITY_RESET :: u32 where "SAHPI_CAPABILITY_RESET \<equiv> 0x00000010"
abbreviation (input) SAHPI_CAPABILITY_INVENTORY_DATA :: u32
  where "SAHPI_CAPABILITY_INVENTORY_DATA \<equiv> 0x00000008"
abbreviation (input) SAHPI_CAPABILITY_EVENT_LOG :: u32
  where "SAHPI_CAPABILITY_EVENT_LOG \<equiv> 0x00000004"
abbreviation (input) SAHPI_CAPABILITY_RDR :: u32 where "SAHPI_CAPABILITY_RDR \<equiv> 0x00000002"
abbreviation (input) SAHPI_CAPABILITY_SENSOR :: u32 where "SAHPI_CAPABILITY_SENSOR \<equiv> 0x00000001"
abbreviation (input) SAHPI_HS_CAPABILITY_INDICATOR_SUPPORTED :: u32
  where "SAHPI_HS_CAPABILITY_INDICATOR_SUPPORTED \<equiv> 0x40000000"
abbreviation (input) SAHPI_DOMAIN_CAP_AUTOINSERT_READ_ONLY :: u32
  where "SAHPI_DOMAIN_CAP_AUTOINSERT_READ_ONLY \<equiv> 1"
abbreviation (input) SAHPI_EVTLOG_CAPABILITY_ENTRY_ADD :: u32
  where "SAHPI_EVTLOG_CAPABILITY_ENTRY_ADD \<equiv> 1"
abbreviation (input) SAHPI_EVTLOG_CAPABILITY_CLEAR :: u32
  where "SAHPI_EVTLOG_CAPABILITY_CLEAR \<equiv> 2"
abbreviation (input) SAHPI_EVTLOG_CAPABILITY_TIME_SET :: u32
  where "SAHPI_EVTLOG_CAPABILITY_TIME_SET \<equiv> 4"
abbreviation (input) SAHPI_EVTLOG_CAPABILITY_STATE_SET :: u32
  where "SAHPI_EVTLOG_CAPABILITY_STATE_SET \<equiv> 8"
abbreviation (input) SAHPI_EVTLOG_CAPABILITY_OVERFLOW_RESET :: u32
  where "SAHPI_EVTLOG_CAPABILITY_OVERFLOW_RESET \<equiv> 16"
abbreviation (input) SAHPI_FUMI_CAP_ROLLBACK :: u32 where "SAHPI_FUMI_CAP_ROLLBACK \<equiv> 1"
abbreviation (input) SAHPI_FUMI_CAP_BANKCOPY :: u32 where "SAHPI_FUMI_CAP_BANKCOPY \<equiv> 2"
abbreviation (input) SAHPI_FUMI_CAP_BANKREORDER :: u32 where "SAHPI_FUMI_CAP_BANKREORDER \<equiv> 4"
abbreviation (input) SAHPI_FUMI_CAP_BACKUP :: u32 where "SAHPI_FUMI_CAP_BACKUP \<equiv> 8"
abbreviation (input) SAHPI_FUMI_CAP_TARGET_VERIFY :: u32
  where "SAHPI_FUMI_CAP_TARGET_VERIFY \<equiv> 0x10"
abbreviation (input) SAHPI_FUMI_CAP_TARGET_VERIFY_MAIN :: u32
  where "SAHPI_FUMI_CAP_TARGET_VERIFY_MAIN \<equiv> 0x20"
abbreviation (input) SAHPI_FUMI_CAP_COMPONENTS :: u32 where "SAHPI_FUMI_CAP_COMPONENTS \<equiv> 0x40"
abbreviation (input) SAHPI_FUMI_CAP_AUTOROLLBACK :: u32
  where "SAHPI_FUMI_CAP_AUTOROLLBACK \<equiv> 0x80"
abbreviation (input) SAHPI_FUMI_CAP_AUTOROLLBACK_CAN_BE_DISABLED :: u32
  where "SAHPI_FUMI_CAP_AUTOROLLBACK_CAN_BE_DISABLED \<equiv> 0x100"
abbreviation (input) SAHPI_IDR_AREATYPE_INTERNAL_USE :: u32
  where "SAHPI_IDR_AREATYPE_INTERNAL_USE \<equiv> 0xB0"
abbreviation (input) SAHPI_IDR_AREATYPE_PRODUCT_INFO :: u32
  where "SAHPI_IDR_AREATYPE_PRODUCT_INFO \<equiv> 0xB3"
abbreviation (input) SAHPI_IDR_AREATYPE_OEM :: u32 where "SAHPI_IDR_AREATYPE_OEM \<equiv> 0xC0"
abbreviation (input) SAHPI_IDR_AREATYPE_UNSPECIFIED :: u32
  where "SAHPI_IDR_AREATYPE_UNSPECIFIED \<equiv> 0xFF"
abbreviation (input) SAHPI_IDR_FIELDTYPE_CUSTOM :: u32 where "SAHPI_IDR_FIELDTYPE_CUSTOM \<equiv> 9"
abbreviation (input) SAHPI_IDR_FIELDTYPE_UNSPECIFIED :: u32
  where "SAHPI_IDR_FIELDTYPE_UNSPECIFIED \<equiv> 0xFF"
abbreviation (input) SAHPI_SEC_READ_ONLY_MASKS :: u32 where "SAHPI_SEC_READ_ONLY_MASKS \<equiv> 1"
abbreviation (input) SAHPI_SEC_READ_ONLY :: u32 where "SAHPI_SEC_READ_ONLY \<equiv> 2"
abbreviation (input) SAHPI_ALL_EVENT_STATES :: u16 where "SAHPI_ALL_EVENT_STATES \<equiv> 0xFFFF"
abbreviation (input) SAHPI_ANNUNCIATOR_MODE_AUTO :: u32
  where "SAHPI_ANNUNCIATOR_MODE_AUTO \<equiv> 0"
abbreviation (input) SAHPI_FUMI_SRC_VALID :: u32 where "SAHPI_FUMI_SRC_VALID \<equiv> 0"
abbreviation (input) SAHPI_FUMI_SRC_VALIDITY_UNKNOWN :: u32
  where "SAHPI_FUMI_SRC_VALIDITY_UNKNOWN \<equiv> 8"
abbreviation (input) SAHPI_HS_ACTION_INSERTION :: u32 where "SAHPI_HS_ACTION_INSERTION \<equiv> 0"
abbreviation (input) SAHPI_HS_ACTION_EXTRACTION :: u32 where "SAHPI_HS_ACTION_EXTRACTION \<equiv> 1"
abbreviation (input) SAHPI_HS_CAUSE_USER_UPDATE :: u32 where "SAHPI_HS_CAUSE_USER_UPDATE \<equiv> 3"

section \<open>Returning\<close>

definition ret :: "SaErrorT \<Rightarrow> 'a option \<Rightarrow> hpi \<Rightarrow> 'a hpi_result" where
  "ret rv out st = ((rv, out), st)"

definition release :: "nat \<Rightarrow> hpi \<Rightarrow> hpi" where
  "release d st = st\<lparr>dmn := snd (oh_release_domain (clk st) d (dmn st))\<rparr>"

definition put_handler :: "nat option \<Rightarrow> hpi \<Rightarrow> hpi" where
  "put_handler h st = st\<lparr>plug := oh_release_handler h (plug st)\<rparr>"

text \<open>\<^verbatim>\<open>if (c) return error;\<close> and \<^verbatim>\<open>if (c) { oh_release_domain(d); return error; }\<close>\<close>

definition return_if :: "bool \<Rightarrow> SaErrorT \<Rightarrow> (hpi \<Rightarrow> 'a hpi_result) \<Rightarrow> hpi \<Rightarrow> 'a hpi_result" where
  "return_if c error k st = (if c then ret error None st else k st)"

definition fail_if ::
    "bool \<Rightarrow> nat \<Rightarrow> SaErrorT \<Rightarrow> (hpi \<Rightarrow> 'a hpi_result) \<Rightarrow> hpi \<Rightarrow> 'a hpi_result"
where
  "fail_if c d error k st = (if c then ret error None (release d st) else k st)"

text \<open>The same before the handler is released.\<close>

definition drop_if ::
    "bool \<Rightarrow> nat option \<Rightarrow> SaErrorT \<Rightarrow> (hpi \<Rightarrow> 'a hpi_result) \<Rightarrow> hpi \<Rightarrow> 'a hpi_result"
where
  "drop_if c h error k st = (if c then ret error None (put_handler h st) else k st)"

definition release_domain :: "nat \<Rightarrow> (hpi \<Rightarrow> 'a hpi_result) \<Rightarrow> hpi \<Rightarrow> 'a hpi_result" where
  "release_domain d k st = k (release d st)"

definition release_handler :: "nat option \<Rightarrow> (hpi \<Rightarrow> 'a hpi_result) \<Rightarrow> hpi \<Rightarrow> 'a hpi_result" where
  "release_handler h k st = k (put_handler h st)"

section \<open>The macros\<close>

definition OH_CHECK_INIT_STATE :: "u32 \<Rightarrow> (hpi \<Rightarrow> 'a hpi_result) \<Rightarrow> hpi \<Rightarrow> 'a hpi_result" where
  "OH_CHECK_INIT_STATE sid k st =
     (let init_error = fst (oh_get_session_subscription (dmn st) sid)
      in if init_error \<noteq> SA_OK then ret init_error None st else k st)"

definition OH_GET_DID :: "u32 \<Rightarrow> (u32 \<Rightarrow> hpi \<Rightarrow> 'a hpi_result) \<Rightarrow> hpi \<Rightarrow> 'a hpi_result" where
  "OH_GET_DID sid k st =
     (let did = oh_get_session_domain (dmn st) sid
      in if did = SAHPI_UNSPECIFIED_DOMAIN_ID then ret SA_ERR_HPI_INVALID_SESSION None st
         else k did st)"

text \<open>The domain behind a pointer; the table only has pointers to domains.\<close>

definition dom_at :: "hpi \<Rightarrow> nat \<Rightarrow> oh_domain" where
  "dom_at st d = the (dom_heap (dmn st) d)"

definition OH_GET_DOMAIN :: "u32 \<Rightarrow> (nat \<Rightarrow> hpi \<Rightarrow> 'a hpi_result) \<Rightarrow> hpi \<Rightarrow> 'a hpi_result" where
  "OH_GET_DOMAIN did k st =
     (case oh_get_domain (dmn st) did of
        (None, st') \<Rightarrow> ret SA_ERR_HPI_INVALID_DOMAIN None (st\<lparr>dmn := st'\<rparr>)
      | (Some d, st') \<Rightarrow> k d (st\<lparr>dmn := st'\<rparr>))"

definition OH_RESOURCE_GET ::
    "nat \<Rightarrow> u32 \<Rightarrow> (SaHpiRptEntryT \<Rightarrow> hpi \<Rightarrow> 'a hpi_result) \<Rightarrow> hpi \<Rightarrow> 'a hpi_result"
where
  "OH_RESOURCE_GET d rid k st =
     (case oh_get_resource_by_id (d_rpt (dom_at st d)) rid of
        None \<Rightarrow> ret SA_ERR_HPI_INVALID_RESOURCE None (release d st)
      | Some r \<Rightarrow> k r st)"

definition OH_RESOURCE_GET_CHECK ::
    "nat \<Rightarrow> u32 \<Rightarrow> (SaHpiRptEntryT \<Rightarrow> hpi \<Rightarrow> 'a hpi_result) \<Rightarrow> hpi \<Rightarrow> 'a hpi_result"
where
  "OH_RESOURCE_GET_CHECK d rid k st =
     (case oh_get_resource_by_id (d_rpt (dom_at st d)) rid of
        None \<Rightarrow> ret SA_ERR_HPI_INVALID_RESOURCE None (release d st)
      | Some r \<Rightarrow>
          if ResourceFailed r then ret SA_ERR_HPI_NO_RESPONSE None (release d st) else k r st)"

text \<open>
  The lookup of a record that most functions repeat: \<^verbatim>\<open>rdr = oh_get_rdr_by_type(..)\<close>, and the
  error \<open>SA_ERR_HPI_NOT_PRESENT\<close> without one.
\<close>

definition RDR_GET ::
    "nat \<Rightarrow> u32 \<Rightarrow> SaHpiRdrTypeT \<Rightarrow> u32 \<Rightarrow> (SaHpiRdrT \<Rightarrow> hpi \<Rightarrow> 'a hpi_result) \<Rightarrow> hpi \<Rightarrow>
       'a hpi_result"
where
  "RDR_GET d rid type num k st =
     (case oh_get_rdr_by_type (d_rpt (dom_at st d)) rid type num of
        None \<Rightarrow> ret SA_ERR_HPI_NOT_PRESENT None (release d st)
      | Some rec \<Rightarrow> k rec st)"

definition resource_hid :: "hpi \<Rightarrow> nat \<Rightarrow> u32 \<Rightarrow> u32 option" where
  "resource_hid st d rid =
     (let p = oh_get_resource_data (d_rpt (dom_at st d)) rid
      in if p = 0 then None
         else Some (case hid_heap (dmn st) p of None \<Rightarrow> 0 | Some hid \<Rightarrow> hid))"

definition instance_of :: "plugin_state \<Rightarrow> nat \<Rightarrow> nat" where
  "instance_of st a = (case handlers st a of None \<Rightarrow> 0 | Some h \<Rightarrow> hnd h)"

definition OH_HANDLER_GET ::
    "nat \<Rightarrow> u32 \<Rightarrow> (nat option \<Rightarrow> hpi \<Rightarrow> 'a hpi_result) \<Rightarrow> hpi \<Rightarrow> 'a hpi_result"
where
  "OH_HANDLER_GET d rid k st =
     (case resource_hid st d rid of
        None \<Rightarrow> ret SA_ERR_HPI_INVALID_RESOURCE None (release d st)
      | Some hid \<Rightarrow>
          (let (h, p) = oh_get_handler (plug st) hid;
               st = st\<lparr>plug := p\<rparr>
           in case h of
                None \<Rightarrow> k None st
              | Some a \<Rightarrow> if instance_of p a = 0 then k None (put_handler h st) else k h st))"

text \<open>
  The plugin's answer \<open>outcome\<close> is the value of its function for the arguments of the call. The
  call is logged, and the events that the plugin pushes meanwhile go into the queue.
\<close>

definition fn_missing :: "hpi \<Rightarrow> nat option \<Rightarrow> string \<Rightarrow> bool" where
  "fn_missing st h f \<longleftrightarrow>
     (case h of
        None \<Rightarrow> True
      | Some a \<Rightarrow>
          (case handlers (plug st) a of None \<Rightarrow> True | Some hr \<Rightarrow> \<not> has_fn (plug st) hr f))"

definition plugin_runs :: "nat option \<Rightarrow> string \<Rightarrow> u32 \<Rightarrow> hpi \<Rightarrow> hpi" where
  "plugin_runs h f rid st =
     st\<lparr>dmn := (dmn st)\<lparr>process_q := process_q (dmn st) @ pushed st f\<rparr>,
        plug := log_call (instance_of (plug st) (the h)) f rid (plug st)\<rparr>"

definition OH_CALL_ABI ::
    "nat option \<Rightarrow> string \<Rightarrow> SaErrorT \<Rightarrow> u32 \<Rightarrow> SaErrorT \<times> 'o \<Rightarrow>
       (SaErrorT \<Rightarrow> 'o \<Rightarrow> hpi \<Rightarrow> 'a hpi_result) \<Rightarrow> hpi \<Rightarrow> 'a hpi_result"
where
  "OH_CALL_ABI h f err rid outcome k st =
     (if fn_missing st h f then ret err None (put_handler h st)
      else k (fst outcome) (snd outcome) (plugin_runs h f rid st))"

text \<open>An HPI function that calls another one goes on with its result.\<close>

definition call_hpi ::
    "(hpi \<Rightarrow> 'b hpi_result) \<Rightarrow> (SaErrorT \<Rightarrow> 'b option \<Rightarrow> hpi \<Rightarrow> 'a hpi_result) \<Rightarrow> hpi \<Rightarrow> 'a hpi_result"
where
  "call_hpi f k st = (let ((rv, out), st') = f st in k rv out st')"

text \<open>A write through the pointer to a domain, and a reading of the clock.\<close>

definition write_domain :: "nat \<Rightarrow> (oh_domain \<Rightarrow> oh_domain) \<Rightarrow> hpi \<Rightarrow> hpi" where
  "write_domain d f st = st\<lparr>dmn := upd_domain d f (dmn st)\<rparr>"

definition tick :: "nat \<Rightarrow> hpi \<Rightarrow> hpi" where
  "tick n st = st\<lparr>clk := (\<lambda>i. clk st (i + n))\<rparr>"

definition push_event :: "oh_event \<Rightarrow> hpi \<Rightarrow> hpi" where
  "push_event e st = st\<lparr>dmn := (dmn st)\<lparr>process_q := process_q (dmn st) @ [e]\<rparr>\<rparr>"

section \<open>Capabilities\<close>

definition lacks :: "SaHpiRptEntryT \<Rightarrow> u32 \<Rightarrow> bool" where
  "lacks r c \<longleftrightarrow> ResourceCapabilities r AND c = 0"

definition lacks_hs :: "SaHpiRptEntryT \<Rightarrow> u32 \<Rightarrow> bool" where
  "lacks_hs r c \<longleftrightarrow> HotSwapCapabilities r AND c = 0"

definition fumi_lacks :: "SaHpiRdrT \<Rightarrow> u32 \<Rightarrow> bool" where
  "fumi_lacks rec c \<longleftrightarrow> fm_Capability (fumi_rec rec) AND c = 0"

end
