(* ===== verification/HpiGeneral.thy ===== *)
theory HpiGeneral
  imports HpiApi EpPattern
begin

text \<open>
  The HPI functions on sessions, domains, resources and the event log (\<^verbatim>\<open>openhpid/safhpi.c\<close>, from
  \<open>saHpiSessionOpen\<close> to \<open>saHpiEventLogOverflowReset\<close>) and \<open>oh_drt_entry_get\<close> (\<^verbatim>\<open>openhpid/domain.c\<close>).
\<close>

section \<open>Sessions\<close>

text \<open>\<open>init\<close> stands for \<open>oh_init\<close>, \<open>wake\<close> for a round of the discovery thread.\<close>

definition saHpiSessionOpen ::
    "(hpi \<Rightarrow> int \<times> hpi) \<Rightarrow> u32 \<Rightarrow> bool \<Rightarrow> bool \<Rightarrow> hpi \<Rightarrow> u32 hpi_result"
where
  "saHpiSessionOpen init domainId SessionId SecurityParams =
     return_if (\<not> SessionId) SA_ERR_HPI_INVALID_PARAMS (
     return_if SecurityParams SA_ERR_HPI_INVALID_PARAMS (\<lambda>st.
       let (rc, st) = init st
       in if rc \<noteq> 0 then ret SA_ERR_HPI_INTERNAL_ERROR None st
          else
            let (sid, d) = oh_create_session (clk st) (dmn st) domainId;
                st = st\<lparr>dmn := d\<rparr>
            in if sid = 0 then ret SA_ERR_HPI_INVALID_DOMAIN None st
               else ret SA_OK (Some sid) st))"

definition saHpiSessionClose :: "u32 \<Rightarrow> hpi \<Rightarrow> unit hpi_result" where
  "saHpiSessionClose SessionId =
     OH_CHECK_INIT_STATE SessionId (\<lambda>st.
       let (rv, d) = oh_destroy_session (dmn st) SessionId in ret rv None (st\<lparr>dmn := d\<rparr>))"

definition saHpiDiscover :: "(hpi \<Rightarrow> hpi) \<Rightarrow> u32 \<Rightarrow> hpi \<Rightarrow> unit hpi_result" where
  "saHpiDiscover wake SessionId = OH_CHECK_INIT_STATE SessionId (\<lambda>st. ret SA_OK None (wake st))"

section \<open>Domains\<close>

record SaHpiDomainInfoT =
  DomainId :: u32
  DomainCapabilities :: u32
  DomainIsPeer :: bool
  DomainTag :: SaHpiTextBufferT
  DrtUpdateCount :: u32
  DrtUpdateTimestamp :: u64
  RptUpdateCount :: u32
  RptUpdateTimestamp :: u64
  DatUpdateCount :: u32
  DatUpdateTimestamp :: u64
  ActiveAlarms :: u32
  CriticalAlarms :: u32
  MajorAlarms :: u32
  MinorAlarms :: u32
  DatUserAlarmLimit :: u32
  DatOverflow :: bool
  DomainGuid :: "u8 list"

definition domain_info :: "global_params \<Rightarrow> oh_domain \<Rightarrow> SaHpiDomainInfoT" where
  "domain_info gp d = \<lparr>DomainId = d_id d, DomainCapabilities = d_capabilities d,
     DomainIsPeer = False, DomainTag = d_tag d,
     DrtUpdateCount = drt_update_count (d_drt d),
     DrtUpdateTimestamp = drt_update_timestamp (d_drt d),
     RptUpdateCount = rpt_update_count (d_rpt d),
     RptUpdateTimestamp = rpt_update_timestamp (d_rpt d),
     DatUpdateCount = dat_update_count (d_dat d),
     DatUpdateTimestamp = dat_update_timestamp (d_dat d),
     ActiveAlarms = oh_count_alarms d SAHPI_ALL_SEVERITIES,
     CriticalAlarms = oh_count_alarms d SAHPI_CRITICAL,
     MajorAlarms = oh_count_alarms d SAHPI_MAJOR,
     MinorAlarms = oh_count_alarms d SAHPI_MINOR,
     DatUserAlarmLimit =
       (case get_param gp (OPENHPI_DAT_USER_LIMIT 0) of
          Some (OPENHPI_DAT_USER_LIMIT n) \<Rightarrow> n | _ \<Rightarrow> OH_MAX_DAT_USER_LIMIT),
     DatOverflow = dat_overflow (d_dat d), DomainGuid = d_guid d\<rparr>"

definition saHpiDomainInfoGet :: "u32 \<Rightarrow> bool \<Rightarrow> hpi \<Rightarrow> SaHpiDomainInfoT hpi_result" where
  "saHpiDomainInfoGet SessionId DomainInfo =
     return_if (\<not> DomainInfo) SA_ERR_HPI_INVALID_PARAMS (
     OH_CHECK_INIT_STATE SessionId (
     OH_GET_DID SessionId (\<lambda>did.
     OH_GET_DOMAIN did (\<lambda>d st.
       ret SA_OK (Some (domain_info (d_params (dmn st)) (dom_at st d))) (release d st)))))"

definition oh_drt_entry_get ::
    "(nat \<Rightarrow> u64) \<Rightarrow> daemon \<Rightarrow> u32 \<Rightarrow> u32 \<Rightarrow> (SaErrorT \<times> (u32 \<times> SaHpiDrtEntryT) option) \<times> daemon"
where
  "oh_drt_entry_get clock st did entryid =
     (case oh_get_domain st did of
        (None, st) \<Rightarrow> ((SA_ERR_HPI_INTERNAL_ERROR, None), st)
      | (Some a, st) \<Rightarrow>
          (let l = (case dom_heap st a of None \<Rightarrow> [] | Some d \<Rightarrow> drt_list (d_drt d));
               res = (case dropWhile
                             (\<lambda>e. \<not> (drt_EntryId e = entryid \<or> entryid = SAHPI_FIRST_ENTRY)) l of
                        [] \<Rightarrow> (SA_ERR_HPI_NOT_PRESENT, None)
                      | e # es \<Rightarrow>
                          (SA_OK,
                           Some (case es of [] \<Rightarrow> SAHPI_LAST_ENTRY | n # _ \<Rightarrow> drt_EntryId n, e)))
           in (res, snd (oh_release_domain clock a st))))"

definition saHpiDrtEntryGet ::
    "u32 \<Rightarrow> u32 \<Rightarrow> bool \<Rightarrow> bool \<Rightarrow> hpi \<Rightarrow> (u32 \<times> SaHpiDrtEntryT) hpi_result"
where
  "saHpiDrtEntryGet SessionId entryId NextEntryId DrtEntry =
     OH_CHECK_INIT_STATE SessionId (
     OH_GET_DID SessionId (\<lambda>did.
     return_if (\<not> DrtEntry \<or> \<not> NextEntryId \<or> entryId = SAHPI_LAST_ENTRY)
       SA_ERR_HPI_INVALID_PARAMS (\<lambda>st.
       let ((rv, out), d) = oh_drt_entry_get (clk st) (dmn st) did entryId
       in ret rv out (st\<lparr>dmn := d\<rparr>))))"

definition saHpiDomainTagSet :: "u32 \<Rightarrow> SaHpiTextBufferT option \<Rightarrow> hpi \<Rightarrow> unit hpi_result" where
  "saHpiDomainTagSet SessionId tag =
     return_if (case tag of None \<Rightarrow> True | Some t \<Rightarrow> \<not> oh_valid_textbuffer t)
       SA_ERR_HPI_INVALID_PARAMS (
     OH_CHECK_INIT_STATE SessionId (
     OH_GET_DID SessionId (\<lambda>did.
     OH_GET_DOMAIN did (\<lambda>d st.
       ret SA_OK None (release d (write_domain d (\<lambda>x. x\<lparr>d_tag := the tag\<rparr>) st))))))"

section \<open>Resources\<close>

definition saHpiRptEntryGet ::
    "u32 \<Rightarrow> u32 \<Rightarrow> bool \<Rightarrow> bool \<Rightarrow> hpi \<Rightarrow> (u32 \<times> SaHpiRptEntryT) hpi_result"
where
  "saHpiRptEntryGet SessionId entryId NextEntryId RptEntry =
     OH_CHECK_INIT_STATE SessionId (
     OH_GET_DID SessionId (\<lambda>did.
     return_if (\<not> NextEntryId \<or> \<not> RptEntry) SA_ERR_HPI_INVALID_PARAMS (
     return_if (entryId = SAHPI_LAST_ENTRY) SA_ERR_HPI_INVALID_PARAMS (
     OH_GET_DOMAIN did (\<lambda>d st.
       let rpt = d_rpt (dom_at st d);
           req_entry = (if entryId = SAHPI_FIRST_ENTRY
                        then oh_get_resource_next rpt SAHPI_FIRST_ENTRY
                        else oh_get_resource_by_id rpt entryId)
       in case req_entry of
            None \<Rightarrow> ret SA_ERR_HPI_NOT_PRESENT None (release d st)
          | Some e \<Rightarrow>
              ret SA_OK
                (Some (case oh_get_resource_next rpt (EntryId e) of
                         Some n \<Rightarrow> EntryId n | None \<Rightarrow> SAHPI_LAST_ENTRY, e))
                (release d st))))))"

definition saHpiRptEntryGetByResourceId ::
    "u32 \<Rightarrow> u32 \<Rightarrow> bool \<Rightarrow> hpi \<Rightarrow> SaHpiRptEntryT hpi_result"
where
  "saHpiRptEntryGetByResourceId SessionId resourceId RptEntry =
     OH_CHECK_INIT_STATE SessionId (
     OH_GET_DID SessionId (\<lambda>did.
     return_if (resourceId = SAHPI_UNSPECIFIED_RESOURCE_ID \<or> \<not> RptEntry) SA_ERR_HPI_INVALID_PARAMS (
     OH_GET_DOMAIN did (\<lambda>d st.
       case oh_get_resource_by_id (d_rpt (dom_at st d)) resourceId of
         None \<Rightarrow> ret SA_ERR_HPI_INVALID_RESOURCE None (release d st)
       | Some e \<Rightarrow> ret SA_OK (Some e) (release d st)))))"

text \<open>A write through the pointer to an entry of the resource table.\<close>

definition write_resource :: "u32 \<Rightarrow> (SaHpiRptEntryT \<Rightarrow> SaHpiRptEntryT) \<Rightarrow> RPTable \<Rightarrow> RPTable" where
  "write_resource rid f table =
     (case get_rptentry_by_rid table rid of
        None \<Rightarrow> table
      | Some (a, _) \<Rightarrow>
          table\<lparr>rptab := nt_write a (\<lambda>e. e\<lparr>rpt_entry := f (rpt_entry e)\<rparr>) (rptab table)\<rparr>)"

text \<open>
  The end that the functions for severity and tag of a resource share: the new value also goes
  into the resource table, if the resource is still there.
\<close>

definition update_entry ::
    "u32 \<Rightarrow> u32 \<Rightarrow> (SaHpiRptEntryT \<Rightarrow> SaHpiRptEntryT) \<Rightarrow> SaErrorT \<Rightarrow> hpi \<Rightarrow> unit hpi_result"
where
  "update_entry did rid f rv =
     OH_GET_DOMAIN did (\<lambda>d st.
       case oh_get_resource_by_id (d_rpt (dom_at st d)) rid of
         None \<Rightarrow> ret SA_ERR_HPI_NOT_PRESENT None (release d st)
       | Some _ \<Rightarrow>
           ret rv None
             (release d (write_domain d (\<lambda>x. x\<lparr>d_rpt := write_resource rid f (d_rpt x)\<rparr>) st)))"

text \<open>
  \<open>meanwhile\<close> is what other threads do between the release of the handler and the second time
  the domain is locked. The alarms of the resource are removed with the first readings of the
  clock.
\<close>

definition saHpiResourceSeveritySet ::
    "(u32 \<Rightarrow> u32 \<Rightarrow> SaErrorT) \<Rightarrow> (hpi \<Rightarrow> hpi) \<Rightarrow> file_io \<Rightarrow> u32 \<Rightarrow> u32 \<Rightarrow> u32 \<Rightarrow> hpi \<Rightarrow>
       unit hpi_result"
where
  "saHpiResourceSeveritySet set_resource_severity meanwhile io SessionId resourceId severity =
     OH_CHECK_INIT_STATE SessionId (
     return_if (resourceId = SAHPI_UNSPECIFIED_RESOURCE_ID) SA_ERR_HPI_INVALID_PARAMS (
     return_if (oh_lookup_severity severity = None \<or> severity = SAHPI_ALL_SEVERITIES)
       SA_ERR_HPI_INVALID_PARAMS (
     OH_GET_DID SessionId (\<lambda>did.
     OH_GET_DOMAIN did (\<lambda>d.
     OH_HANDLER_GET d resourceId (\<lambda>h.
     release_domain d (
     OH_CALL_ABI h ''set_resource_severity'' SA_ERR_HPI_INVALID_CMD resourceId
       (set_resource_severity resourceId severity, ()) (\<lambda>error _.
     drop_if (error \<noteq> SA_OK) h error (
     release_handler h (\<lambda>st.
       let st = meanwhile st;
           st = st\<lparr>dmn := snd (oh_detect_res_sev_alarm io (clk st) (dmn st) did resourceId severity)\<rparr>;
           st = tick 4 st
       in update_entry did resourceId (\<lambda>r. r\<lparr>ResourceSeverity := severity\<rparr>) error st))))))))))"

definition saHpiResourceTagSet ::
    "(u32 \<Rightarrow> SaHpiTextBufferT \<Rightarrow> SaErrorT) \<Rightarrow> (hpi \<Rightarrow> hpi) \<Rightarrow> u32 \<Rightarrow> u32 \<Rightarrow>
       SaHpiTextBufferT option \<Rightarrow> hpi \<Rightarrow> unit hpi_result"
where
  "saHpiResourceTagSet set_resource_tag meanwhile SessionId resourceId tag =
     OH_CHECK_INIT_STATE SessionId (
     return_if (case tag of None \<Rightarrow> True | Some t \<Rightarrow> \<not> oh_valid_textbuffer t)
       SA_ERR_HPI_INVALID_PARAMS (
     OH_GET_DID SessionId (\<lambda>did.
     OH_GET_DOMAIN did (\<lambda>d.
     OH_HANDLER_GET d resourceId (\<lambda>h.
     release_domain d (
     OH_CALL_ABI h ''set_resource_tag'' SA_ERR_HPI_INVALID_CMD resourceId
       (set_resource_tag resourceId (the tag), ()) (\<lambda>rv _.
     drop_if (rv \<noteq> SA_OK) h rv (
     release_handler h (\<lambda>st.
       update_entry did resourceId (\<lambda>r. r\<lparr>ResourceTag := the tag\<rparr>) SA_OK (meanwhile st))))))))))"

definition saHpiMyEntityPathGet :: "u32 \<Rightarrow> hpi \<Rightarrow> unit hpi_result" where
  "saHpiMyEntityPathGet SessionId = ret SA_ERR_HPI_UNSUPPORTED_API None"

definition saHpiResourceIdGet :: "u32 \<Rightarrow> hpi \<Rightarrow> unit hpi_result" where
  "saHpiResourceIdGet SessionId = ret SA_ERR_HPI_UNSUPPORTED_API None"

section \<open>Looking for entity paths\<close>

text \<open>What is written: \<open>*InstanceId\<close>, \<open>*ResourceId\<close>, \<open>*InstrumentId\<close>, \<open>*RptUpdateCount\<close>.\<close>

type_synonym id_by_path = "u32 option \<times> u32 option \<times> u32 option \<times> u32 option"

definition saHpiGetIdByEntityPath ::
    "u32 \<Rightarrow> SaHpiEntityPathT \<Rightarrow> SaHpiRdrTypeT \<Rightarrow> u32 option \<Rightarrow> bool \<Rightarrow> bool \<Rightarrow> bool \<Rightarrow> hpi \<Rightarrow>
       id_by_path hpi_result"
where
  "saHpiGetIdByEntityPath SessionId EntityPath InstrumentType InstanceId resourceId InstrumentId
     rptUpdateCount =
     return_if (InstanceId = None \<or> \<not> resourceId \<or> InstanceId = Some SAHPI_LAST_ENTRY \<or>
                (\<not> InstrumentId \<and> InstrumentType \<noteq> SAHPI_NO_RECORD) \<or> \<not> rptUpdateCount)
       SA_ERR_HPI_INVALID_PARAMS (
     OH_CHECK_INIT_STATE SessionId (
     OH_GET_DID SessionId (\<lambda>did.
     OH_GET_DOMAIN did (\<lambda>d st.
       let rpt = d_rpt (dom_at st d); inst = the InstanceId; count = Some (rpt_update_count rpt)
       in case oh_get_resource_by_ep (d_uids (dmn st)) rpt EntityPath of
            None \<Rightarrow> ret SA_ERR_HPI_NOT_PRESENT None (release d st)
          | Some r \<Rightarrow>
              (let rid = ResourceId r
               in if InstrumentType = SAHPI_NO_RECORD then
                    ret SA_OK (Some (Some SAHPI_LAST_ENTRY, Some rid, None, count)) (release d st)
                  else
                    (case (if inst = SAHPI_FIRST_ENTRY
                           then oh_get_rdr_by_type_first rpt rid InstrumentType
                           else oh_get_rdr_by_type rpt rid InstrumentType (oh_get_rdr_num inst)) of
                       None \<Rightarrow>
                         ret SA_ERR_HPI_NOT_PRESENT (Some (None, Some rid, None, count)) (release d st)
                     | Some x \<Rightarrow>
                         (let num = oh_get_rdr_num (RecordId x);
                              next_inst =
                                (case oh_get_rdr_by_type_next rpt rid InstrumentType num of
                                   None \<Rightarrow> SAHPI_LAST_ENTRY
                                 | Some y \<Rightarrow>
                                     oh_get_rdr_uid (RdrType y) (oh_get_rdr_num (RecordId y)))
                          in ret SA_OK (Some (Some next_inst, Some rid, Some num, count))
                               (release d st))))))))"

text \<open>The pattern \<^verbatim>\<open><parent>{.,.}\<close> that the children of an entity path match.\<close>

definition child_pattern :: "SaHpiEntityPathT \<Rightarrow> oh_entitypath_pattern" where
  "child_pattern parent =
     \<lparr>is_splat = False, etp_is_dot = True, etp_type = 0, elp_is_dot = True, elp_location = 0\<rparr> #
     map (\<lambda>e. \<lparr>is_splat = False, etp_is_dot = False, etp_type = EntityType e, elp_is_dot = False,
                elp_location = EntityLocation e\<rparr>) parent"

definition is_child :: "SaHpiEntityPathT \<Rightarrow> SaHpiRptEntryT \<Rightarrow> bool" where
  "is_child parent r \<longleftrightarrow>
     oh_match_entitypath_pattern (child_pattern parent) (ResourceEntity r) = Some True"

text \<open>
  The loop over the resources from a given one on until one matches. The fuel is the number of
  resources; \<open>None\<close> would be a loop that has not ended after as many turns.
\<close>

fun first_match ::
    "nat \<Rightarrow> RPTable \<Rightarrow> (SaHpiRptEntryT \<Rightarrow> bool) \<Rightarrow> SaHpiRptEntryT option \<Rightarrow>
       SaHpiRptEntryT option option"
where
  "first_match n rpt P None = Some None"
| "first_match 0 rpt P (Some r) = None"
| "first_match (Suc n) rpt P (Some r) =
     (if P r then Some (Some r)
      else first_match n rpt P (oh_get_resource_next rpt (ResourceId r)))"

definition find_resource ::
    "RPTable \<Rightarrow> (SaHpiRptEntryT \<Rightarrow> bool) \<Rightarrow> SaHpiRptEntryT option \<Rightarrow> SaHpiRptEntryT option"
where
  "find_resource rpt P r =
     (case first_match (length (nt_nodes (rptab rpt))) rpt P r of None \<Rightarrow> None | Some x \<Rightarrow> x)"

definition saHpiGetChildEntityPath ::
    "u32 \<Rightarrow> SaHpiEntityPathT \<Rightarrow> u32 option \<Rightarrow> bool \<Rightarrow> hpi \<Rightarrow>
       (u32 \<times> SaHpiEntityPathT \<times> u32) hpi_result"
where
  "saHpiGetChildEntityPath SessionId parent InstanceId rptUpdateCount =
     return_if (InstanceId = None \<or> InstanceId = Some SAHPI_LAST_ENTRY \<or> \<not> rptUpdateCount)
       SA_ERR_HPI_INVALID_PARAMS (
     OH_CHECK_INIT_STATE SessionId (
     OH_GET_DID SessionId (\<lambda>did.
     OH_GET_DOMAIN did (\<lambda>d st.
       let rpt = d_rpt (dom_at st d); inst = the InstanceId
       in if (EntityType (parent ! 0) \<noteq> SAHPI_ENT_ROOT \<or> EntityLocation (parent ! 0) \<noteq> 0) \<and>
             oh_get_resource_by_ep (d_uids (dmn st)) rpt parent = None
          then ret SA_ERR_HPI_INVALID_DATA None (release d st)
          else
            let start = oh_get_resource_by_id rpt inst;
                found = (if inst = SAHPI_FIRST_ENTRY then find_resource rpt (is_child parent) start
                         else case start of
                                None \<Rightarrow> None
                              | Some r \<Rightarrow> if is_child parent r then Some r else None)
            in case found of
                 None \<Rightarrow> ret SA_ERR_HPI_NOT_PRESENT None (release d st)
               | Some r \<Rightarrow>
                   ret SA_OK
                     (Some (case find_resource rpt (is_child parent)
                                   (oh_get_resource_next rpt (ResourceId r)) of
                              None \<Rightarrow> SAHPI_LAST_ENTRY | Some n \<Rightarrow> ResourceId n,
                            ResourceEntity r, rpt_update_count rpt))
                     (release d st)))))"

section \<open>Removing a failed resource\<close>

text \<open>
  The function reads the id of the handler after the handler was found missing: then the result
  is \<open>None\<close>, a read through NULL. The capabilities of the resource are read after the domain is
  unlocked, as they were before.
\<close>

definition hotswap_report :: "u32 \<Rightarrow> u32 \<Rightarrow> SaHpiRptEntryT \<Rightarrow> SaHpiHsStateT \<Rightarrow> u64 \<Rightarrow> oh_event" where
  "hotswap_report hid rid res hsstate now = \<lparr>e_hid = hid,
     e_event = \<lparr>Source = rid, Timestamp = now, Severity = ResourceSeverity res,
       EventDataUnion = HotSwapEvent \<lparr>HotSwapState = SAHPI_HS_STATE_NOT_PRESENT,
         PreviousHotSwapState = hsstate, CauseOfStateChange = SAHPI_HS_CAUSE_USER_UPDATE\<rparr>\<rparr>,
     e_resource = res, e_rdrs = [], e_rdrs_to_remove = []\<rparr>"

definition failed_remove_locked ::
    "(u32 \<Rightarrow> SaErrorT) \<Rightarrow> (u32 \<Rightarrow> SaErrorT \<times> SaHpiHsStateT) \<Rightarrow> u32 \<Rightarrow> SaHpiRptEntryT \<Rightarrow> nat option \<Rightarrow>
       hpi \<Rightarrow> unit hpi_result option"
where
  "failed_remove_locked resource_failed_remove get_hotswap_state resourceId r h st =
     (if \<not> fn_missing st h ''resource_failed_remove'' then
        Some (OH_CALL_ABI h ''resource_failed_remove'' SA_ERR_HPI_INTERNAL_ERROR resourceId
                (resource_failed_remove resourceId, ()) (\<lambda>error _.
              release_handler h (ret error None)) st)
      else
        case h of
          None \<Rightarrow> None
        | Some a \<Rightarrow>
            (let hid = (case handlers (plug st) a of None \<Rightarrow> 0 | Some x \<Rightarrow> h_id x);
                 report = (\<lambda>hsstate. release_handler h (\<lambda>st.
                   ret SA_OK None
                     (push_event (hotswap_report hid resourceId r hsstate (clk st 0)) (tick 1 st))))
             in Some
                  (if \<not> lacks r SAHPI_CAPABILITY_MANAGED_HOTSWAP then
                     OH_CALL_ABI h ''get_hotswap_state'' SA_ERR_HPI_INTERNAL_ERROR resourceId
                       (get_hotswap_state resourceId) (\<lambda>error hsstate.
                     drop_if (error \<noteq> SA_OK) h error (report hsstate)) st
                   else report SAHPI_HS_STATE_ACTIVE st)))"

definition saHpiResourceFailedRemove ::
    "(u32 \<Rightarrow> SaErrorT) \<Rightarrow> (u32 \<Rightarrow> SaErrorT \<times> SaHpiHsStateT) \<Rightarrow> u32 \<Rightarrow> u32 \<Rightarrow> hpi \<Rightarrow>
       unit hpi_result option"
where
  "saHpiResourceFailedRemove resource_failed_remove get_hotswap_state SessionId resourceId st =
     (let sub = oh_get_session_subscription (dmn st) SessionId;
          did = oh_get_session_domain (dmn st) SessionId
      in if fst sub \<noteq> SA_OK then Some (ret (fst sub) None st)
         else if did = SAHPI_UNSPECIFIED_DOMAIN_ID then
           Some (ret SA_ERR_HPI_INVALID_SESSION None st)
         else case oh_get_domain (dmn st) did of
                (None, d) \<Rightarrow> Some (ret SA_ERR_HPI_INVALID_DOMAIN None (st\<lparr>dmn := d\<rparr>))
              | (Some d, dmn') \<Rightarrow>
                  (let st = st\<lparr>dmn := dmn'\<rparr>
                   in case oh_get_resource_by_id (d_rpt (dom_at st d)) resourceId of
                        None \<Rightarrow> Some (ret SA_ERR_HPI_NOT_PRESENT None (release d st))
                      | Some r \<Rightarrow>
                          if \<not> ResourceFailed r then
                            Some (ret SA_ERR_HPI_INVALID_REQUEST None (release d st))
                          else if lacks r SAHPI_CAPABILITY_FRU then
                            Some (ret SA_ERR_HPI_INVALID_CMD None (release d st))
                          else
                            (case resource_hid st d resourceId of
                               None \<Rightarrow> Some (ret SA_ERR_HPI_INVALID_RESOURCE None (release d st))
                             | Some hid \<Rightarrow>
                                 (let (h, p) = oh_get_handler (plug st) hid;
                                      st = st\<lparr>plug := p\<rparr>;
                                      (h, st) = (case h of
                                                   None \<Rightarrow> (None, st)
                                                 | Some a \<Rightarrow> if instance_of p a = 0
                                                           then (None, put_handler h st) else (h, st))
                                  in failed_remove_locked resource_failed_remove get_hotswap_state
                                       resourceId r h (release d st)))))"

end
