(* ===== verification/HpiEventLog.thy ===== *)
theory HpiEventLog
  imports HpiGeneral
begin

text \<open>
  The event log functions (\<^verbatim>\<open>openhpid/safhpi.c\<close>, \<open>saHpiEventLogInfoGet\<close> to
  \<open>saHpiEventLogOverflowReset\<close>). The reserved resource id stands for the log of the domain, any
  other for the log that the plugin of the resource keeps.
\<close>

section \<open>Reading\<close>

definition saHpiEventLogInfoGet ::
    "(u32 \<Rightarrow> SaErrorT \<times> SaHpiEventLogInfoT) \<Rightarrow> u32 \<Rightarrow> u32 \<Rightarrow> bool \<Rightarrow> hpi \<Rightarrow>
       SaHpiEventLogInfoT hpi_result"
where
  "saHpiEventLogInfoGet get_el_info SessionId resourceId Info =
     return_if (\<not> Info) SA_ERR_HPI_INVALID_PARAMS (
     OH_CHECK_INIT_STATE SessionId (
     OH_GET_DID SessionId (\<lambda>did.
     OH_GET_DOMAIN did (\<lambda>d.
     if resourceId = SAHPI_UNSPECIFIED_RESOURCE_ID then (\<lambda>st.
       let (rv, i) = oh_el_info (clk st 0) (d_del (dom_at st d))
       in ret rv (Some i) (release d (tick 1 st)))
     else
     OH_RESOURCE_GET_CHECK d resourceId (\<lambda>res.
     fail_if (lacks res SAHPI_CAPABILITY_EVENT_LOG) d SA_ERR_HPI_CAPABILITY (
     OH_HANDLER_GET d resourceId (\<lambda>h.
     release_domain d (
     OH_CALL_ABI h ''get_el_info'' SA_ERR_HPI_INVALID_CMD resourceId
       (get_el_info resourceId) (\<lambda>rv out.
     release_handler h (
     ret rv (Some out)))))))))))"

definition saHpiEventLogCapabilitiesGet ::
    "(u32 \<Rightarrow> SaErrorT \<times> u32) \<Rightarrow> u32 \<Rightarrow> u32 \<Rightarrow> bool \<Rightarrow> hpi \<Rightarrow> u32 hpi_result"
where
  "saHpiEventLogCapabilitiesGet get_el_caps SessionId resourceId EventLogCapabilities =
     return_if (\<not> EventLogCapabilities) SA_ERR_HPI_INVALID_PARAMS (
     OH_CHECK_INIT_STATE SessionId (
     OH_GET_DID SessionId (\<lambda>did.
     if resourceId = SAHPI_UNSPECIFIED_RESOURCE_ID then
       ret SA_OK (Some (SAHPI_EVTLOG_CAPABILITY_ENTRY_ADD OR SAHPI_EVTLOG_CAPABILITY_CLEAR OR
         SAHPI_EVTLOG_CAPABILITY_TIME_SET OR SAHPI_EVTLOG_CAPABILITY_STATE_SET OR
         SAHPI_EVTLOG_CAPABILITY_OVERFLOW_RESET))
     else
     OH_GET_DOMAIN did (\<lambda>d.
     OH_RESOURCE_GET_CHECK d resourceId (\<lambda>rpte.
     fail_if (lacks rpte SAHPI_CAPABILITY_EVENT_LOG) d SA_ERR_HPI_CAPABILITY (
     OH_HANDLER_GET d resourceId (\<lambda>h.
     release_domain d (
     OH_CALL_ABI h ''get_el_caps'' SA_ERR_HPI_INTERNAL_ERROR resourceId
       (get_el_caps resourceId) (\<lambda>error out.
     release_handler h (
     ret error (Some out)))))))))))"

text \<open>\<open>*PrevEntryId\<close>, \<open>*NextEntryId\<close>, \<open>*EventLogEntry\<close> and, unless they are NULL, \<open>*Rdr\<close> and \<open>*RptEntry\<close>.\<close>

type_synonym log_entry =
  "u32 \<times> u32 \<times> (u32 \<times> u64 \<times> SaHpiEventT) \<times> SaHpiRdrT option \<times> SaHpiRptEntryT option"

definition saHpiEventLogEntryGet ::
    "(u32 \<Rightarrow> u32 \<Rightarrow> bool \<Rightarrow> bool \<Rightarrow> SaErrorT \<times> log_entry) \<Rightarrow> u32 \<Rightarrow> u32 \<Rightarrow> u32 \<Rightarrow> bool \<Rightarrow> bool \<Rightarrow> bool \<Rightarrow>
       bool \<Rightarrow> bool \<Rightarrow> hpi \<Rightarrow> log_entry hpi_result"
where
  "saHpiEventLogEntryGet get_el_entry SessionId resourceId entryId PrevEntryId NextEntryId
     EventLogEntry Rdr RptEntry =
     return_if (\<not> PrevEntryId \<or> \<not> EventLogEntry \<or> \<not> NextEntryId \<or>
                entryId = SAHPI_NO_MORE_ENTRIES) SA_ERR_HPI_INVALID_PARAMS (
     OH_CHECK_INIT_STATE SessionId (
     OH_GET_DID SessionId (\<lambda>did.
     OH_GET_DOMAIN did (\<lambda>d.
     if resourceId = SAHPI_UNSPECIFIED_RESOURCE_ID then (\<lambda>st.
       let (retc, found) = oh_el_get (d_del (dom_at st d)) entryId;
           out = (case found of
                    Some (prev, nxt, e) \<Rightarrow>
                      if retc = SA_OK then
                        Some (prev, nxt, (el_EntryId e, el_Timestamp e, el_Event e),
                              if Rdr then Some (el_rdr e) else None,
                              if RptEntry then Some (el_res e) else None)
                      else None
                  | None \<Rightarrow> None)
       in ret retc out (release d st))
     else
     OH_RESOURCE_GET_CHECK d resourceId (\<lambda>res.
     fail_if (lacks res SAHPI_CAPABILITY_EVENT_LOG) d SA_ERR_HPI_CAPABILITY (
     OH_HANDLER_GET d resourceId (\<lambda>h.
     release_domain d (
     OH_CALL_ABI h ''get_el_entry'' SA_ERR_HPI_INVALID_CMD resourceId
       (get_el_entry resourceId entryId Rdr RptEntry) (\<lambda>rv out.
     release_handler h (
     ret rv (Some out)))))))))))"

definition saHpiEventLogTimeGet ::
    "(u32 \<Rightarrow> SaErrorT \<times> SaHpiEventLogInfoT) \<Rightarrow> u32 \<Rightarrow> u32 \<Rightarrow> bool \<Rightarrow> hpi \<Rightarrow> u64 hpi_result"
where
  "saHpiEventLogTimeGet get_el_info SessionId resourceId Time =
     return_if (\<not> Time) SA_ERR_HPI_INVALID_PARAMS (
     call_hpi (saHpiEventLogInfoGet get_el_info SessionId resourceId True) (\<lambda>rv i.
     return_if (rv \<noteq> SA_OK) rv (
     ret SA_OK (map_option CurrentTime i))))"

definition saHpiEventLogStateGet ::
    "(u32 \<Rightarrow> SaErrorT \<times> SaHpiEventLogInfoT) \<Rightarrow> u32 \<Rightarrow> u32 \<Rightarrow> bool \<Rightarrow> hpi \<Rightarrow> bool hpi_result"
where
  "saHpiEventLogStateGet get_el_info SessionId resourceId Enable =
     return_if (\<not> Enable) SA_ERR_HPI_INVALID_PARAMS (
     call_hpi (saHpiEventLogInfoGet get_el_info SessionId resourceId True) (\<lambda>rv i.
     return_if (rv \<noteq> SA_OK) rv (
     ret SA_OK (map_option Enabled i))))"

section \<open>Writing\<close>

text \<open>The log of the domain after an operation that gives a return code.\<close>

definition on_domain_log :: "nat \<Rightarrow> (oh_el \<Rightarrow> SaErrorT \<times> oh_el) \<Rightarrow> hpi \<Rightarrow> unit hpi_result" where
  "on_domain_log d f st =
     (let (rv, el) = f (d_del (dom_at st d))
      in ret rv None (release d (write_domain d (\<lambda>x. x\<lparr>d_del := el\<rparr>) st)))"

text \<open>\<^verbatim>\<open>(rv == SA_OK) && ((caps & c) == 0)\<close>\<close>

definition refuses :: "SaErrorT \<Rightarrow> u32 option \<Rightarrow> u32 \<Rightarrow> bool" where
  "refuses rv caps c \<longleftrightarrow> rv = SA_OK \<and> (case caps of None \<Rightarrow> False | Some x \<Rightarrow> x AND c = 0)"

definition user_entry_ok :: "SaHpiEventT \<Rightarrow> bool" where
  "user_entry_ok ev \<longleftrightarrow>
     is_user_event (EventDataUnion ev) \<and> Source ev = SAHPI_UNSPECIFIED_RESOURCE_ID \<and>
     Severity ev \<noteq> SAHPI_ALL_SEVERITIES \<and> oh_lookup_severity (Severity ev) \<noteq> None \<and>
     (case EventDataUnion ev of UserEvent b \<Rightarrow> oh_valid_textbuffer b | _ \<Rightarrow> False)"

definition user_data_length :: "SaHpiEventT \<Rightarrow> u32" where
  "user_data_length ev =
     (case EventDataUnion ev of UserEvent b \<Rightarrow> ucast (DataLength b) | _ \<Rightarrow> 0)"

text \<open>Adding to the log of the domain, and saving it when the parameters ask for it.\<close>

definition add_domain_entry :: "file_io \<Rightarrow> u32 \<Rightarrow> nat \<Rightarrow> SaHpiEventT \<Rightarrow> hpi \<Rightarrow> unit hpi_result" where
  "add_domain_entry io did d ev st =
     (let gp = d_params (dmn st);
          (rv, el) = oh_el_append (clk st 0) (d_del (dom_at st d)) ev None None;
          file = (if del_save gp then snd (oh_el_map_to_file (f_opened io) (f_written io) el) else None);
          st = write_domain d (\<lambda>x. x\<lparr>d_del := el, del_file := (case file of
                 None \<Rightarrow> del_file x
               | Some es \<Rightarrow> Some (table_path (varpath gp) ''del'' did, es))\<rparr>) st
      in ret rv None (release d (tick 1 st)))"

definition saHpiEventLogEntryAdd ::
    "(u32 \<Rightarrow> SaErrorT \<times> SaHpiEventLogInfoT) \<Rightarrow> (u32 \<Rightarrow> SaErrorT \<times> u32) \<Rightarrow>
       (u32 \<Rightarrow> SaHpiEventT \<Rightarrow> SaErrorT) \<Rightarrow> file_io \<Rightarrow> u32 \<Rightarrow> u32 \<Rightarrow> SaHpiEventT option \<Rightarrow> hpi \<Rightarrow>
       unit hpi_result"
where
  "saHpiEventLogEntryAdd get_el_info get_el_caps add_el_entry io SessionId resourceId EvtEntry =
     OH_CHECK_INIT_STATE SessionId (
     return_if (case EvtEntry of None \<Rightarrow> True | Some ev \<Rightarrow> \<not> user_entry_ok ev)
       SA_ERR_HPI_INVALID_PARAMS (
     call_hpi (saHpiEventLogInfoGet get_el_info SessionId resourceId True) (\<lambda>rv i.
     return_if (rv \<noteq> SA_OK) rv (
     call_hpi (saHpiEventLogCapabilitiesGet get_el_caps SessionId resourceId True) (\<lambda>rv caps.
     return_if (refuses rv caps SAHPI_EVTLOG_CAPABILITY_ENTRY_ADD) SA_ERR_HPI_INVALID_CMD (
     return_if (user_data_length (the EvtEntry) > UserEventMaxSize (the i))
       SA_ERR_HPI_INVALID_DATA (
     OH_GET_DID SessionId (\<lambda>did.
     OH_GET_DOMAIN did (\<lambda>d.
     if resourceId = SAHPI_UNSPECIFIED_RESOURCE_ID then add_domain_entry io did d (the EvtEntry)
     else
     OH_RESOURCE_GET_CHECK d resourceId (\<lambda>res.
     fail_if (lacks res SAHPI_CAPABILITY_EVENT_LOG) d SA_ERR_HPI_CAPABILITY (
     OH_HANDLER_GET d resourceId (\<lambda>h.
     release_domain d (
     OH_CALL_ABI h ''add_el_entry'' SA_ERR_HPI_INVALID_CMD resourceId
       (add_el_entry resourceId (the EvtEntry), ()) (\<lambda>rv _.
     release_handler h (
     ret rv None)))))))))))))))"

definition saHpiEventLogClear ::
    "(u32 \<Rightarrow> SaErrorT \<times> u32) \<Rightarrow> (u32 \<Rightarrow> SaErrorT) \<Rightarrow> u32 \<Rightarrow> u32 \<Rightarrow> hpi \<Rightarrow> unit hpi_result"
where
  "saHpiEventLogClear get_el_caps clear_el SessionId resourceId =
     OH_CHECK_INIT_STATE SessionId (
     OH_GET_DID SessionId (\<lambda>did.
     OH_GET_DOMAIN did (\<lambda>d.
     if resourceId = SAHPI_UNSPECIFIED_RESOURCE_ID then on_domain_log d oh_el_clear
     else
     OH_RESOURCE_GET_CHECK d resourceId (\<lambda>res.
     fail_if (lacks res SAHPI_CAPABILITY_EVENT_LOG) d SA_ERR_HPI_CAPABILITY (
     call_hpi (saHpiEventLogCapabilitiesGet get_el_caps SessionId resourceId True) (\<lambda>rv caps.
     fail_if (refuses rv caps SAHPI_EVTLOG_CAPABILITY_CLEAR) d SA_ERR_HPI_INVALID_CMD (
     OH_HANDLER_GET d resourceId (\<lambda>h.
     release_domain d (
     OH_CALL_ABI h ''clear_el'' SA_ERR_HPI_INVALID_CMD resourceId (clear_el resourceId, ()) (\<lambda>rv _.
     release_handler h (
     ret rv None)))))))))))"

definition saHpiEventLogTimeSet ::
    "(u32 \<Rightarrow> SaErrorT \<times> u32) \<Rightarrow> (u32 \<Rightarrow> u64 \<Rightarrow> SaErrorT) \<Rightarrow> u32 \<Rightarrow> u32 \<Rightarrow> u64 \<Rightarrow> hpi \<Rightarrow>
       unit hpi_result"
where
  "saHpiEventLogTimeSet get_el_caps set_el_time SessionId resourceId Time =
     OH_CHECK_INIT_STATE SessionId (
     OH_GET_DID SessionId (\<lambda>did.
     OH_GET_DOMAIN did (\<lambda>d.
     if resourceId = SAHPI_UNSPECIFIED_RESOURCE_ID then (\<lambda>st.
       on_domain_log d (\<lambda>el. oh_el_timeset (clk st 0) el Time) (tick 1 st))
     else
     OH_RESOURCE_GET_CHECK d resourceId (\<lambda>res.
     fail_if (lacks res SAHPI_CAPABILITY_EVENT_LOG) d SA_ERR_HPI_CAPABILITY (
     call_hpi (saHpiEventLogCapabilitiesGet get_el_caps SessionId resourceId True) (\<lambda>rv caps.
     fail_if (refuses rv caps SAHPI_EVTLOG_CAPABILITY_TIME_SET) d SA_ERR_HPI_INVALID_CMD (
     fail_if (Time = SAHPI_TIME_UNSPECIFIED) d SA_ERR_HPI_INVALID_PARAMS (
     OH_HANDLER_GET d resourceId (\<lambda>h.
     release_domain d (
     OH_CALL_ABI h ''set_el_time'' SA_ERR_HPI_INVALID_CMD resourceId
       (set_el_time resourceId Time, ()) (\<lambda>rv _.
     release_handler h (
     ret rv None))))))))))))"

definition saHpiEventLogStateSet ::
    "(u32 \<Rightarrow> SaErrorT \<times> u32) \<Rightarrow> (u32 \<Rightarrow> bool \<Rightarrow> SaErrorT) \<Rightarrow> u32 \<Rightarrow> u32 \<Rightarrow> bool \<Rightarrow> hpi \<Rightarrow>
       unit hpi_result"
where
  "saHpiEventLogStateSet get_el_caps set_el_state SessionId resourceId Enable =
     OH_CHECK_INIT_STATE SessionId (
     OH_GET_DID SessionId (\<lambda>did.
     OH_GET_DOMAIN did (\<lambda>d.
     if resourceId = SAHPI_UNSPECIFIED_RESOURCE_ID then
       on_domain_log d (\<lambda>el. (SA_OK, snd (oh_el_enableset el Enable)))
     else
     OH_RESOURCE_GET_CHECK d resourceId (\<lambda>res.
     fail_if (lacks res SAHPI_CAPABILITY_EVENT_LOG) d SA_ERR_HPI_CAPABILITY (
     call_hpi (saHpiEventLogCapabilitiesGet get_el_caps SessionId resourceId True) (\<lambda>rv caps.
     fail_if (refuses rv caps SAHPI_EVTLOG_CAPABILITY_STATE_SET) d SA_ERR_HPI_INVALID_CMD (
     OH_HANDLER_GET d resourceId (\<lambda>h.
     release_domain d (
     OH_CALL_ABI h ''set_el_state'' SA_ERR_HPI_INVALID_CMD resourceId
       (set_el_state resourceId Enable, ()) (\<lambda>rv _.
     release_handler h (
     ret rv None)))))))))))"

definition saHpiEventLogOverflowReset ::
    "(u32 \<Rightarrow> SaErrorT \<times> u32) \<Rightarrow> (u32 \<Rightarrow> SaErrorT) \<Rightarrow> u32 \<Rightarrow> u32 \<Rightarrow> hpi \<Rightarrow> unit hpi_result"
where
  "saHpiEventLogOverflowReset get_el_caps reset_el_overflow SessionId resourceId =
     OH_CHECK_INIT_STATE SessionId (
     OH_GET_DID SessionId (\<lambda>did.
     OH_GET_DOMAIN did (\<lambda>d.
     if resourceId = SAHPI_UNSPECIFIED_RESOURCE_ID then on_domain_log d oh_el_overflowreset
     else
     OH_RESOURCE_GET_CHECK d resourceId (\<lambda>res.
     fail_if (lacks res SAHPI_CAPABILITY_EVENT_LOG) d SA_ERR_HPI_CAPABILITY (
     call_hpi (saHpiEventLogCapabilitiesGet get_el_caps SessionId resourceId True) (\<lambda>rv caps.
     fail_if (refuses rv caps SAHPI_EVTLOG_CAPABILITY_OVERFLOW_RESET) d SA_ERR_HPI_INVALID_CMD (
     OH_HANDLER_GET d resourceId (\<lambda>h.
     release_domain d (
     OH_CALL_ABI h ''reset_el_overflow'' SA_ERR_HPI_INVALID_CMD resourceId
       (reset_el_overflow resourceId, ()) (\<lambda>rv _.
     release_handler h (
     ret rv None)))))))))))"

end
