(* ===== verification/HpiEvents.thy ===== *)
theory HpiEvents
  imports HpiEventLog StructUtils
begin

text \<open>
  The HPI functions on events, the domain alarm table and the records of a resource
  (\<^verbatim>\<open>openhpid/safhpi.c\<close>, from \<open>saHpiSubscribe\<close> to \<open>saHpiRdrUpdateCountGet\<close>).
\<close>

section \<open>Events\<close>

definition saHpiSubscribe :: "u32 \<Rightarrow> hpi \<Rightarrow> unit hpi_result" where
  "saHpiSubscribe SessionId =
     OH_CHECK_INIT_STATE SessionId (
     OH_GET_DID SessionId (\<lambda>did st.
       case oh_get_session_subscription (dmn st) SessionId of
         (error, subscribed) \<Rightarrow>
           if error \<noteq> SA_OK then ret error None st
           else if subscribed = Some True then ret SA_ERR_HPI_DUPLICATE None st
           else (let (error, d) = oh_set_session_subscription (dmn st) SessionId True
                 in ret error None (st\<lparr>dmn := d\<rparr>))))"

definition saHpiUnsubscribe :: "u32 \<Rightarrow> hpi \<Rightarrow> unit hpi_result" where
  "saHpiUnsubscribe SessionId =
     OH_CHECK_INIT_STATE SessionId (
     OH_GET_DID SessionId (\<lambda>did st.
       case oh_get_session_subscription (dmn st) SessionId of
         (error, subscribed) \<Rightarrow>
           if error \<noteq> SA_OK then ret error None st
           else if subscribed \<noteq> Some True then ret SA_ERR_HPI_INVALID_REQUEST None st
           else (let (error, d) = oh_set_session_subscription (dmn st) SessionId False
                 in ret error None (st\<lparr>dmn := d\<rparr>))))"

text \<open>
  What is written: \<open>*Event\<close>; \<open>*Rdr\<close> unless it is NULL, where the inner \<open>None\<close> means that only the
  type is set, to \<open>SAHPI_NO_RECORD\<close>; \<open>*RptEntry\<close> and \<open>*EventQueueStatus\<close> unless they are NULL.
\<close>

type_synonym event_out =
  "SaHpiEventT \<times> SaHpiRdrT option option \<times> SaHpiRptEntryT option \<times> u32 option"

definition event_out :: "bool \<Rightarrow> bool \<Rightarrow> bool \<Rightarrow> oh_event \<Rightarrow> u32 \<Rightarrow> event_out" where
  "event_out Rdr RptEntry EventQueueStatus e qstatus =
     (e_event e,
      if Rdr then Some (case e_rdrs e of [] \<Rightarrow> None | x # _ \<Rightarrow> Some x) else None,
      if RptEntry then Some (e_resource e) else None,
      if EventQueueStatus then Some qstatus else None)"

text \<open>
  \<open>waits\<close> is as in \<open>oh_dequeue_session_event\<close>. The result is \<open>None\<close> while the reader is blocked.
  The queue status is that of the last of the two reads.
\<close>

definition wait_event ::
    "(daemon \<Rightarrow> daemon) list \<Rightarrow> u32 \<Rightarrow> u64 \<Rightarrow> (oh_event \<Rightarrow> u32 \<Rightarrow> event_out) \<Rightarrow> hpi \<Rightarrow>
       event_out hpi_result option"
where
  "wait_event waits SessionId Timeout out st =
     (let finish = (\<lambda>error e status d.
        if error \<noteq> SA_OK then ret error None (st\<lparr>dmn := d\<rparr>)
        else ret SA_OK (Some (out (case e of None \<Rightarrow> zero_event | Some e \<Rightarrow> e)
                                  (case status of None \<Rightarrow> 0 | Some q \<Rightarrow> q))) (st\<lparr>dmn := d\<rparr>))
      in case oh_dequeue_session_event [] (dmn st) SessionId SAHPI_TIMEOUT_IMMEDIATE of
           None \<Rightarrow> None
         | Some (error, e, status, d) \<Rightarrow>
             if error = SA_ERR_HPI_TIMEOUT then
               (case oh_dequeue_session_event waits d SessionId Timeout of
                  None \<Rightarrow> None
                | Some (error, e, status', d) \<Rightarrow>
                    Some (finish error e (if status' = None then status else status') d))
             else Some (finish error e status d))"

definition saHpiEventGet ::
    "(daemon \<Rightarrow> daemon) list \<Rightarrow> u32 \<Rightarrow> u64 \<Rightarrow> bool \<Rightarrow> bool \<Rightarrow> bool \<Rightarrow> bool \<Rightarrow> hpi \<Rightarrow>
       event_out hpi_result option"
where
  "saHpiEventGet waits SessionId Timeout Event Rdr RptEntry EventQueueStatus st =
     (let (error, subscribed) = oh_get_session_subscription (dmn st) SessionId
      in if error \<noteq> SA_OK then Some (ret error None st)
         else if oh_get_session_domain (dmn st) SessionId = SAHPI_UNSPECIFIED_DOMAIN_ID then
           Some (ret SA_ERR_HPI_INVALID_SESSION None st)
         else if \<not> Event then Some (ret SA_ERR_HPI_INVALID_PARAMS None st)
         else if sint Timeout \<le> 0 \<and> Timeout \<noteq> SAHPI_TIMEOUT_BLOCK \<and>
                 Timeout \<noteq> SAHPI_TIMEOUT_IMMEDIATE then
           Some (ret SA_ERR_HPI_INVALID_PARAMS None st)
         else if subscribed \<noteq> Some True then Some (ret SA_ERR_HPI_INVALID_REQUEST None st)
         else wait_event waits SessionId Timeout (event_out Rdr RptEntry EventQueueStatus) st)"

text \<open>
  The event of a user goes to the event thread; its resource id is that of the domain. The
  timestamp of the caller's event is filled in.
\<close>

definition user_event :: "u32 \<Rightarrow> SaHpiEventT \<Rightarrow> oh_event" where
  "user_event did ev = \<lparr>e_hid = 0, e_event = ev,
     e_resource = zero_rpt_entry\<lparr>ResourceId := did, ResourceCapabilities := 0,
       ResourceSeverity := SAHPI_INFORMATIONAL\<rparr>,
     e_rdrs = [], e_rdrs_to_remove = []\<rparr>"

definition saHpiEventAdd ::
    "(u32 \<Rightarrow> SaErrorT \<times> SaHpiEventLogInfoT) \<Rightarrow> u32 \<Rightarrow> SaHpiEventT option \<Rightarrow> hpi \<Rightarrow>
       SaHpiEventT hpi_result"
where
  "saHpiEventAdd get_el_info SessionId EvtEntry =
     return_if (oh_valid_addevent EvtEntry \<noteq> SA_OK) (oh_valid_addevent EvtEntry) (
     OH_CHECK_INIT_STATE SessionId (
     OH_GET_DID SessionId (\<lambda>did.
     call_hpi (saHpiEventLogInfoGet get_el_info SessionId SAHPI_UNSPECIFIED_RESOURCE_ID True)
       (\<lambda>error i.
     return_if (error \<noteq> SA_OK) error (
     return_if (user_data_length (the EvtEntry) > UserEventMaxSize (the i)) SA_ERR_HPI_INVALID_DATA
       (\<lambda>st.
       let ev = the EvtEntry;
           stamp = Timestamp ev = SAHPI_TIME_UNSPECIFIED;
           ev = (if stamp then ev\<lparr>Timestamp := clk st 0\<rparr> else ev);
           st = (if stamp then tick 1 st else st)
       in ret SA_OK (Some ev) (push_event (user_event did ev) st)))))))"

section \<open>The domain alarm table\<close>

definition saHpiAlarmGetNext ::
    "u32 \<Rightarrow> u32 \<Rightarrow> bool \<Rightarrow> SaHpiAlarmT option \<Rightarrow> hpi \<Rightarrow> SaHpiAlarmT hpi_result"
where
  "saHpiAlarmGetNext SessionId severity UnacknowledgedOnly Alarm =
     OH_CHECK_INIT_STATE SessionId (
     return_if (oh_lookup_severity severity = None \<or> Alarm = None) SA_ERR_HPI_INVALID_PARAMS (
     return_if (AlarmId (the Alarm) = SAHPI_LAST_ENTRY) SA_ERR_HPI_NOT_PRESENT (
     OH_GET_DID SessionId (\<lambda>did.
     OH_GET_DOMAIN did (\<lambda>d st.
       let x = dom_at st d;
           aid = AlarmId (the Alarm);
           key = any_alarm\<lparr>k_severity := Some severity\<rparr>;
           error =
             (if aid \<noteq> SAHPI_FIRST_ENTRY then
                (case oh_get_alarm x (Some aid) key UnacknowledgedOnly False of
                   Some a \<Rightarrow> if al_Timestamp a \<noteq> al_Timestamp (the Alarm) then SA_ERR_HPI_INVALID_DATA
                             else SA_ERR_HPI_NOT_PRESENT
                 | None \<Rightarrow> SA_ERR_HPI_NOT_PRESENT)
              else SA_ERR_HPI_NOT_PRESENT)
       in case oh_get_alarm x (Some aid) key UnacknowledgedOnly True of
            Some a \<Rightarrow>
              ret (if error \<noteq> SA_ERR_HPI_INVALID_DATA then SA_OK else error) (Some a) (release d st)
          | None \<Rightarrow> ret error None (release d st))))))"

definition saHpiAlarmGet :: "u32 \<Rightarrow> u32 \<Rightarrow> bool \<Rightarrow> hpi \<Rightarrow> SaHpiAlarmT hpi_result" where
  "saHpiAlarmGet SessionId alarmId Alarm =
     OH_CHECK_INIT_STATE SessionId (
     return_if (\<not> Alarm \<or> alarmId = SAHPI_FIRST_ENTRY \<or> alarmId = SAHPI_LAST_ENTRY)
       SA_ERR_HPI_INVALID_PARAMS (
     OH_GET_DID SessionId (\<lambda>did.
     OH_GET_DOMAIN did (\<lambda>d st.
       case oh_get_alarm (dom_at st d) (Some alarmId) any_alarm False False of
         Some a \<Rightarrow> ret SA_OK (Some a) (release d st)
       | None \<Rightarrow> ret SA_ERR_HPI_NOT_PRESENT None (release d st)))))"

text \<open>Writing \<open>Acknowledged\<close> through the pointer to the alarm at an index.\<close>

definition ack_nth :: "nat \<Rightarrow> SaHpiAlarmT list \<Rightarrow> SaHpiAlarmT list" where
  "ack_nth i l = l[i := (l ! i)\<lparr>Acknowledged := True\<rparr>]"

text \<open>The loop over a group of alarms; the id it looks behind ascends.\<close>

function ack_loop :: "alarm_key \<Rightarrow> u32 \<Rightarrow> SaHpiAlarmT list \<Rightarrow> SaHpiAlarmT list" where
  "ack_loop key aid l =
     (case get_alarm_node l (Some aid) key False True of
        None \<Rightarrow> l
      | Some i \<Rightarrow> ack_loop key (AlarmId (l ! i)) (ack_nth i l))"
  by pat_completeness auto

termination
proof (relation "measure (\<lambda>(key, aid, l). 2 ^ 32 - unat aid)")
  fix key :: alarm_key and aid :: u32 and l i
  assume "get_alarm_node l (Some aid) key False True = Some i"
  then have "aid < AlarmId (l ! i)" by (rule alarm_node_ascends)
  moreover have "unat (AlarmId (l ! i)) < 2 ^ 32" using unsigned_less [of "AlarmId (l ! i)"] by simp
  ultimately show "((key, AlarmId (l ! i), ack_nth i l), key, aid, l)
      \<in> measure (\<lambda>(key, aid, l). 2 ^ 32 - unat aid)"
    by (simp add: word_less_nat_alt)
qed simp

declare ack_loop.simps [simp del]

abbreviation (input) SAHPI_ENTRY_UNSPECIFIED :: u32 where "SAHPI_ENTRY_UNSPECIFIED \<equiv> 0"

definition set_alarms :: "SaHpiAlarmT list \<Rightarrow> oh_domain \<Rightarrow> oh_domain" where
  "set_alarms l d = d\<lparr>d_dat := (d_dat d)\<lparr>dat_list := l\<rparr>\<rparr>"

definition saHpiAlarmAcknowledge :: "u32 \<Rightarrow> u32 \<Rightarrow> u32 \<Rightarrow> hpi \<Rightarrow> unit hpi_result" where
  "saHpiAlarmAcknowledge SessionId alarmId severity =
     OH_CHECK_INIT_STATE SessionId (
     return_if (alarmId = SAHPI_ENTRY_UNSPECIFIED \<and> oh_lookup_severity severity = None)
       SA_ERR_HPI_INVALID_PARAMS (
     OH_GET_DID SessionId (\<lambda>did.
     OH_GET_DOMAIN did (\<lambda>d st.
       let l = dat_list (d_dat (dom_at st d))
       in if alarmId \<noteq> SAHPI_ENTRY_UNSPECIFIED then
            (case get_alarm_node l (Some alarmId) any_alarm False False of
               Some i \<Rightarrow>
                 ret SA_OK None (release d (write_domain d (set_alarms (ack_nth i l)) st))
             | None \<Rightarrow> ret SA_ERR_HPI_NOT_PRESENT None (release d st))
          else
            ret SA_OK None (release d (write_domain d
              (set_alarms (ack_loop (any_alarm\<lparr>k_severity := Some severity\<rparr>)
                                    SAHPI_FIRST_ENTRY l)) st))))))"

text \<open>Adding reads the clock twice: for the alarm and for the table.\<close>

definition saHpiAlarmAdd :: "file_io \<Rightarrow> u32 \<Rightarrow> SaHpiAlarmT option \<Rightarrow> hpi \<Rightarrow> SaHpiAlarmT hpi_result" where
  "saHpiAlarmAdd io SessionId Alarm =
     OH_CHECK_INIT_STATE SessionId (
     return_if (case Alarm of
                  None \<Rightarrow> True
                | Some a \<Rightarrow> al_Severity a \<notin> {SAHPI_CRITICAL, SAHPI_MAJOR, SAHPI_MINOR} \<or>
                            cond_Type (AlarmCond a) \<noteq> SAHPI_STATUS_COND_TYPE_USER \<or>
                            \<not> oh_valid_textbuffer (cond_Data (AlarmCond a)))
       SA_ERR_HPI_INVALID_PARAMS (
     OH_GET_DID SessionId (\<lambda>did.
     OH_GET_DOMAIN did (\<lambda>d st.
       case oh_add_alarm (d_params (dmn st)) io (clk st) (dom_at st d) Alarm False of
         (a, alarm, x) \<Rightarrow>
           ret (if a = None then SA_ERR_HPI_OUT_OF_SPACE else SA_OK) alarm
             (release d (tick (if a = None then 0 else 2) (write_domain d (\<lambda>_. x) st)))))))"

definition saHpiAlarmDelete :: "u32 \<Rightarrow> u32 \<Rightarrow> u32 \<Rightarrow> hpi \<Rightarrow> unit hpi_result" where
  "saHpiAlarmDelete SessionId alarmId severity =
     OH_CHECK_INIT_STATE SessionId (
     return_if (alarmId = SAHPI_ENTRY_UNSPECIFIED \<and> oh_lookup_severity severity = None)
       SA_ERR_HPI_INVALID_PARAMS (
     OH_GET_DID SessionId (\<lambda>did.
     OH_GET_DOMAIN did (\<lambda>d st.
       let x = dom_at st d; l = dat_list (d_dat x)
       in if alarmId \<noteq> SAHPI_ENTRY_UNSPECIFIED then
            (case get_alarm_node l (Some alarmId) any_alarm False False of
               Some i \<Rightarrow>
                 if cond_Type (AlarmCond (l ! i)) \<noteq> SAHPI_STATUS_COND_TYPE_USER then
                   ret SA_ERR_HPI_READ_ONLY None (release d st)
                 else
                   ret SA_OK None (release d (write_domain d (set_alarms (drop_nth i l)) st))
             | None \<Rightarrow> ret SA_ERR_HPI_NOT_PRESENT None (release d st))
          else
            (let key = any_alarm\<lparr>k_severity := Some severity,
                                 k_type := Some SAHPI_STATUS_COND_TYPE_USER\<rparr>;
                 x = snd (oh_remove_alarm (d_params (dmn st)) (clk st 0) x key None True)
             in ret SA_OK None (release d (tick 1 (write_domain d (\<lambda>_. x) st))))))))"

section \<open>Records\<close>

definition saHpiRdrGet ::
    "u32 \<Rightarrow> u32 \<Rightarrow> u32 \<Rightarrow> bool \<Rightarrow> bool \<Rightarrow> hpi \<Rightarrow> (u32 \<times> SaHpiRdrT) hpi_result"
where
  "saHpiRdrGet SessionId resourceId entryId NextEntryId Rdr =
     OH_CHECK_INIT_STATE SessionId (
     OH_GET_DID SessionId (\<lambda>did.
     return_if (entryId = SAHPI_LAST_ENTRY \<or> \<not> Rdr \<or> \<not> NextEntryId) SA_ERR_HPI_INVALID_PARAMS (
     OH_GET_DOMAIN did (\<lambda>d.
     OH_RESOURCE_GET d resourceId (\<lambda>res.
     fail_if (lacks res SAHPI_CAPABILITY_RDR) d SA_ERR_HPI_CAPABILITY (\<lambda>st.
       let rpt = d_rpt (dom_at st d)
       in case (if entryId = SAHPI_FIRST_ENTRY then oh_get_rdr_next rpt resourceId SAHPI_FIRST_ENTRY
                else oh_get_rdr_by_id rpt resourceId entryId) of
            None \<Rightarrow> ret SA_ERR_HPI_NOT_PRESENT None (release d st)
          | Some rdr_cur \<Rightarrow>
              ret SA_OK
                (Some (case oh_get_rdr_next rpt resourceId (RecordId rdr_cur) of
                         None \<Rightarrow> SAHPI_LAST_ENTRY | Some rdr_next \<Rightarrow> RecordId rdr_next, rdr_cur))
                (release d st)))))))"

text \<open>The capability that a record of a type asks for; \<open>None\<close> is the \<^verbatim>\<open>default\<close> of the switch.\<close>

fun rdr_capability :: "SaHpiRdrTypeT \<Rightarrow> u32 option" where
  "rdr_capability SAHPI_CTRL_RDR = Some SAHPI_CAPABILITY_CONTROL"
| "rdr_capability SAHPI_SENSOR_RDR = Some SAHPI_CAPABILITY_SENSOR"
| "rdr_capability SAHPI_INVENTORY_RDR = Some SAHPI_CAPABILITY_INVENTORY_DATA"
| "rdr_capability SAHPI_WATCHDOG_RDR = Some SAHPI_CAPABILITY_WATCHDOG"
| "rdr_capability SAHPI_ANNUNCIATOR_RDR = Some SAHPI_CAPABILITY_ANNUNCIATOR"
| "rdr_capability SAHPI_DIMI_RDR = Some SAHPI_CAPABILITY_DIMI"
| "rdr_capability SAHPI_FUMI_RDR = Some SAHPI_CAPABILITY_FUMI"
| "rdr_capability _ = None"

definition saHpiRdrGetByInstrumentId ::
    "u32 \<Rightarrow> u32 \<Rightarrow> SaHpiRdrTypeT \<Rightarrow> u32 \<Rightarrow> bool \<Rightarrow> hpi \<Rightarrow> SaHpiRdrT hpi_result"
where
  "saHpiRdrGetByInstrumentId SessionId resourceId rdrType InstrumentId Rdr =
     return_if (oh_lookup_rdrtype (rdr_type_num rdrType) = None \<or> rdrType = SAHPI_NO_RECORD \<or> \<not> Rdr)
       SA_ERR_HPI_INVALID_PARAMS (
     OH_CHECK_INIT_STATE SessionId (
     OH_GET_DID SessionId (\<lambda>did.
     OH_GET_DOMAIN did (\<lambda>d.
     OH_RESOURCE_GET d resourceId (\<lambda>res.
     fail_if (lacks res SAHPI_CAPABILITY_RDR) d SA_ERR_HPI_CAPABILITY (
     fail_if (rdr_capability rdrType = None) d SA_ERR_HPI_INVALID_PARAMS (
     fail_if (lacks res (the (rdr_capability rdrType))) d SA_ERR_HPI_CAPABILITY (
     RDR_GET d resourceId rdrType InstrumentId (\<lambda>rdr_cur.
     release_domain d (
     ret SA_OK (Some rdr_cur)))))))))))"

definition saHpiRdrUpdateCountGet :: "u32 \<Rightarrow> u32 \<Rightarrow> bool \<Rightarrow> hpi \<Rightarrow> u32 hpi_result" where
  "saHpiRdrUpdateCountGet SessionId resourceId UpdateCount =
     return_if (\<not> UpdateCount) SA_ERR_HPI_INVALID_PARAMS (
     OH_CHECK_INIT_STATE SessionId (
     OH_GET_DID SessionId (\<lambda>did.
     OH_GET_DOMAIN did (\<lambda>d.
     OH_RESOURCE_GET d resourceId (\<lambda>res.
     fail_if (lacks res SAHPI_CAPABILITY_RDR) d SA_ERR_HPI_CAPABILITY (\<lambda>st.
       let (rv, count) = oh_get_rdr_update_count (d_rpt (dom_at st d)) resourceId
       in ret rv count (release d st)))))))"

end
