(* ===== verification/HpiSensor.thy ===== *)
theory HpiSensor
  imports HpiEvents
begin

text \<open>
  The HPI functions on sensors and controls (\<^verbatim>\<open>openhpid/safhpi.c\<close>, \<open>saHpiSensorReadingGet\<close> to
  \<open>saHpiControlSet\<close>).
\<close>

section \<open>Sensors\<close>

type_synonym reading_out = "SaHpiSensorReadingT option \<times> u16 option"

text \<open>A reading that is not supported is zeroed.\<close>

definition clear_unsupported :: "SaErrorT \<Rightarrow> reading_out \<Rightarrow> reading_out" where
  "clear_unsupported rv out =
     (case out of
        (Some Reading, EventState) \<Rightarrow>
          (Some (if rv = SA_OK \<and> \<not> IsSupported Reading
                 then Reading\<lparr>rd_Type := 0,
                              rd_Value := replicate SAHPI_SENSOR_BUFFER_LENGTH 0\<rparr>
                 else Reading), EventState)
      | (None, EventState) \<Rightarrow> (None, EventState))"

definition saHpiSensorReadingGet ::
    "(u32 \<Rightarrow> u32 \<Rightarrow> SaHpiSensorReadingT option \<Rightarrow> u16 option \<Rightarrow> SaErrorT \<times> reading_out) \<Rightarrow> u32 \<Rightarrow>
       u32 \<Rightarrow> u32 \<Rightarrow> SaHpiSensorReadingT option \<Rightarrow> u16 option \<Rightarrow> hpi \<Rightarrow> reading_out hpi_result"
where
  "saHpiSensorReadingGet get_sensor_reading SessionId resourceId SensorNum Reading EventState =
     OH_CHECK_INIT_STATE SessionId (
     OH_GET_DID SessionId (\<lambda>did.
     OH_GET_DOMAIN did (\<lambda>d.
     OH_RESOURCE_GET_CHECK d resourceId (\<lambda>res.
     fail_if (lacks res SAHPI_CAPABILITY_SENSOR) d SA_ERR_HPI_CAPABILITY (
     RDR_GET d resourceId SAHPI_SENSOR_RDR SensorNum (\<lambda>rdr_cur.
     OH_HANDLER_GET d resourceId (\<lambda>h.
     release_domain d (
     OH_CALL_ABI h ''get_sensor_reading'' SA_ERR_HPI_INVALID_CMD resourceId
       (get_sensor_reading resourceId SensorNum Reading EventState) (\<lambda>rv out.
     release_handler h (
     ret rv (Some (clear_unsupported rv out))))))))))))"

definition saHpiSensorThresholdsGet ::
    "(u32 \<Rightarrow> u32 \<Rightarrow> SaErrorT \<times> SaHpiSensorThresholdsT) \<Rightarrow> u32 \<Rightarrow> u32 \<Rightarrow> u32 \<Rightarrow> bool \<Rightarrow> hpi \<Rightarrow>
       SaHpiSensorThresholdsT hpi_result"
where
  "saHpiSensorThresholdsGet get_sensor_thresholds SessionId resourceId SensorNum SensorThresholds =
     return_if (\<not> SensorThresholds) SA_ERR_HPI_INVALID_PARAMS (
     OH_CHECK_INIT_STATE SessionId (
     OH_GET_DID SessionId (\<lambda>did.
     OH_GET_DOMAIN did (\<lambda>d.
     OH_RESOURCE_GET_CHECK d resourceId (\<lambda>res.
     fail_if (lacks res SAHPI_CAPABILITY_SENSOR) d SA_ERR_HPI_CAPABILITY (
     RDR_GET d resourceId SAHPI_SENSOR_RDR SensorNum (\<lambda>rdr_cur.
     fail_if (\<not> IsAccessible (ThresholdDefn (sensor_rec rdr_cur)) \<or>
              ReadThold (ThresholdDefn (sensor_rec rdr_cur)) = 0) d SA_ERR_HPI_INVALID_CMD (
     OH_HANDLER_GET d resourceId (\<lambda>h.
     release_domain d (
     OH_CALL_ABI h ''get_sensor_thresholds'' SA_ERR_HPI_INVALID_CMD resourceId
       (get_sensor_thresholds resourceId SensorNum) (\<lambda>rv out.
     release_handler h (
     ret rv (Some out)))))))))))))"

text \<open>The thresholds of the sensor, with those that the caller supports put in their place.\<close>

definition copy_th :: "SaHpiSensorThresholdsT \<Rightarrow> SaHpiSensorThresholdsT \<Rightarrow> SaHpiSensorThresholdsT" where
  "copy_th new tmp =
     (let copy = (\<lambda>TH. if IsSupported (TH new) then TH new else TH tmp)
      in \<lparr>LowCritical = copy LowCritical, LowMajor = copy LowMajor, LowMinor = copy LowMinor,
          UpCritical = copy UpCritical, UpMajor = copy UpMajor, UpMinor = copy UpMinor,
          PosThdHysteresis = copy PosThdHysteresis, NegThdHysteresis = copy NegThdHysteresis\<rparr>)"

definition saHpiSensorThresholdsSet ::
    "(u32 \<Rightarrow> u32 \<Rightarrow> SaErrorT \<times> SaHpiSensorThresholdsT) \<Rightarrow>
       (u32 \<Rightarrow> u32 \<Rightarrow> SaHpiSensorThresholdsT \<Rightarrow> SaErrorT) \<Rightarrow> u32 \<Rightarrow> u32 \<Rightarrow> u32 \<Rightarrow>
       SaHpiSensorThresholdsT option \<Rightarrow> hpi \<Rightarrow> unit hpi_result"
where
  "saHpiSensorThresholdsSet get_sensor_thresholds set_sensor_thresholds SessionId resourceId
     SensorNum SensorThresholds =
     return_if (SensorThresholds = None) SA_ERR_HPI_INVALID_PARAMS (
     OH_CHECK_INIT_STATE SessionId (
     OH_GET_DID SessionId (\<lambda>did.
     OH_GET_DOMAIN did (\<lambda>d.
     OH_RESOURCE_GET_CHECK d resourceId (\<lambda>res.
     fail_if (lacks res SAHPI_CAPABILITY_SENSOR) d SA_ERR_HPI_CAPABILITY (
     RDR_GET d resourceId SAHPI_SENSOR_RDR SensorNum (\<lambda>rec.
     fail_if (oh_valid_thresholds SensorThresholds (Some rec) \<noteq> SA_OK) d
       (oh_valid_thresholds SensorThresholds (Some rec)) (
     call_hpi (saHpiSensorThresholdsGet get_sensor_thresholds SessionId resourceId SensorNum True)
       (\<lambda>rv tmp.
     fail_if (rv \<noteq> SA_OK) d rv (
     fail_if (oh_valid_ordering (Some (copy_th (the SensorThresholds) (the tmp))) (Some rec)
                \<noteq> SA_OK) d
       (oh_valid_ordering (Some (copy_th (the SensorThresholds) (the tmp))) (Some rec)) (
     OH_HANDLER_GET d resourceId (\<lambda>h.
     release_domain d (
     OH_CALL_ABI h ''set_sensor_thresholds'' SA_ERR_HPI_INVALID_CMD resourceId
       (set_sensor_thresholds resourceId SensorNum (copy_th (the SensorThresholds) (the tmp)), ())
       (\<lambda>rv _.
     release_handler h (
     ret rv None)))))))))))))))"

definition saHpiSensorTypeGet ::
    "u32 \<Rightarrow> u32 \<Rightarrow> u32 \<Rightarrow> bool \<Rightarrow> bool \<Rightarrow> hpi \<Rightarrow> (u32 \<times> u8) hpi_result"
where
  "saHpiSensorTypeGet SessionId resourceId SensorNum Type Category =
     return_if (\<not> Type \<or> \<not> Category) SA_ERR_HPI_INVALID_PARAMS (
     OH_CHECK_INIT_STATE SessionId (
     OH_GET_DID SessionId (\<lambda>did.
     OH_GET_DOMAIN did (\<lambda>d.
     OH_RESOURCE_GET d resourceId (\<lambda>res.
     fail_if (lacks res SAHPI_CAPABILITY_SENSOR) d SA_ERR_HPI_CAPABILITY (
     RDR_GET d resourceId SAHPI_SENSOR_RDR SensorNum (\<lambda>rec.
     release_domain d (
     ret SA_OK (Some (sn_Type (sensor_rec rec), sn_Category (sensor_rec rec)))))))))))"

definition saHpiSensorEnableGet ::
    "(u32 \<Rightarrow> u32 \<Rightarrow> SaErrorT \<times> bool) \<Rightarrow> u32 \<Rightarrow> u32 \<Rightarrow> u32 \<Rightarrow> bool \<Rightarrow> hpi \<Rightarrow> bool hpi_result"
where
  "saHpiSensorEnableGet get_sensor_enable SessionId resourceId SensorNum SensorEnabled =
     return_if (\<not> SensorEnabled) SA_ERR_HPI_INVALID_PARAMS (
     OH_CHECK_INIT_STATE SessionId (
     OH_GET_DID SessionId (\<lambda>did.
     OH_GET_DOMAIN did (\<lambda>d.
     OH_RESOURCE_GET_CHECK d resourceId (\<lambda>res.
     fail_if (lacks res SAHPI_CAPABILITY_SENSOR) d SA_ERR_HPI_CAPABILITY (
     RDR_GET d resourceId SAHPI_SENSOR_RDR SensorNum (\<lambda>rdr_cur.
     OH_HANDLER_GET d resourceId (\<lambda>h.
     release_domain d (
     OH_CALL_ABI h ''get_sensor_enable'' SA_ERR_HPI_INVALID_CMD resourceId
       (get_sensor_enable resourceId SensorNum) (\<lambda>rv out.
     release_handler h (
     ret rv (Some out))))))))))))"

text \<open>The alarms of the sensor go when it, or its events, are disabled.\<close>

definition saHpiSensorEnableSet ::
    "(u32 \<Rightarrow> u32 \<Rightarrow> bool \<Rightarrow> SaErrorT) \<Rightarrow> u32 \<Rightarrow> u32 \<Rightarrow> u32 \<Rightarrow> bool \<Rightarrow> hpi \<Rightarrow> unit hpi_result"
where
  "saHpiSensorEnableSet set_sensor_enable SessionId resourceId SensorNum SensorEnabled =
     OH_CHECK_INIT_STATE SessionId (
     OH_GET_DID SessionId (\<lambda>did.
     OH_GET_DOMAIN did (\<lambda>d.
     OH_RESOURCE_GET_CHECK d resourceId (\<lambda>res.
     fail_if (lacks res SAHPI_CAPABILITY_SENSOR) d SA_ERR_HPI_CAPABILITY (
     RDR_GET d resourceId SAHPI_SENSOR_RDR SensorNum (\<lambda>rdr_cur.
     fail_if (\<not> EnableCtrl (sensor_rec rdr_cur)) d SA_ERR_HPI_READ_ONLY (
     OH_HANDLER_GET d resourceId (\<lambda>h.
     release_domain d (
     OH_CALL_ABI h ''set_sensor_enable'' SA_ERR_HPI_INVALID_CMD resourceId
       (set_sensor_enable resourceId SensorNum SensorEnabled, ()) (\<lambda>rv _.
     release_handler h (
     return_if (rv \<noteq> SA_OK) rv (\<lambda>st.
       ret rv None
         (tick 2 (st\<lparr>dmn := snd (oh_detect_sensor_enable_alarm (clk st) (dmn st) did resourceId
                                  SensorNum SensorEnabled)\<rparr>))))))))))))))"

definition saHpiSensorEventEnableGet ::
    "(u32 \<Rightarrow> u32 \<Rightarrow> SaErrorT \<times> bool) \<Rightarrow> u32 \<Rightarrow> u32 \<Rightarrow> u32 \<Rightarrow> bool \<Rightarrow> hpi \<Rightarrow> bool hpi_result"
where
  "saHpiSensorEventEnableGet get_sensor_event_enables SessionId resourceId SensorNum
     SensorEventsEnabled =
     return_if (\<not> SensorEventsEnabled) SA_ERR_HPI_INVALID_PARAMS (
     OH_CHECK_INIT_STATE SessionId (
     OH_GET_DID SessionId (\<lambda>did.
     OH_GET_DOMAIN did (\<lambda>d.
     OH_RESOURCE_GET_CHECK d resourceId (\<lambda>res.
     fail_if (lacks res SAHPI_CAPABILITY_SENSOR) d SA_ERR_HPI_CAPABILITY (
     RDR_GET d resourceId SAHPI_SENSOR_RDR SensorNum (\<lambda>rdr_cur.
     OH_HANDLER_GET d resourceId (\<lambda>h.
     release_domain d (
     OH_CALL_ABI h ''get_sensor_event_enables'' SA_ERR_HPI_INVALID_CMD resourceId
       (get_sensor_event_enables resourceId SensorNum) (\<lambda>rv out.
     release_handler h (
     ret rv (Some out))))))))))))"

definition saHpiSensorEventEnableSet ::
    "(u32 \<Rightarrow> u32 \<Rightarrow> bool \<Rightarrow> SaErrorT) \<Rightarrow> u32 \<Rightarrow> u32 \<Rightarrow> u32 \<Rightarrow> bool \<Rightarrow> hpi \<Rightarrow> unit hpi_result"
where
  "saHpiSensorEventEnableSet set_sensor_event_enables SessionId resourceId SensorNum
     SensorEventsEnabled =
     OH_CHECK_INIT_STATE SessionId (
     OH_GET_DID SessionId (\<lambda>did.
     OH_GET_DOMAIN did (\<lambda>d.
     OH_RESOURCE_GET_CHECK d resourceId (\<lambda>res.
     fail_if (lacks res SAHPI_CAPABILITY_SENSOR) d SA_ERR_HPI_CAPABILITY (
     RDR_GET d resourceId SAHPI_SENSOR_RDR SensorNum (\<lambda>rdr_cur.
     fail_if (EventCtrl (sensor_rec rdr_cur) = SAHPI_SEC_READ_ONLY) d SA_ERR_HPI_READ_ONLY (
     OH_HANDLER_GET d resourceId (\<lambda>h.
     release_domain d (
     OH_CALL_ABI h ''set_sensor_event_enables'' SA_ERR_HPI_INVALID_CMD resourceId
       (set_sensor_event_enables resourceId SensorNum SensorEventsEnabled, ()) (\<lambda>rv _.
     release_handler h (
     return_if (rv \<noteq> SA_OK) rv (\<lambda>st.
       ret rv None
         (tick 2 (st\<lparr>dmn := snd (oh_detect_sensor_enable_alarm (clk st) (dmn st) did resourceId
                                  SensorNum SensorEventsEnabled)\<rparr>))))))))))))))"

definition saHpiSensorEventMasksGet ::
    "(u32 \<Rightarrow> u32 \<Rightarrow> u16 option \<Rightarrow> u16 option \<Rightarrow> SaErrorT \<times> u16 \<times> u16) \<Rightarrow> u32 \<Rightarrow> u32 \<Rightarrow> u32 \<Rightarrow> u16
       option \<Rightarrow> u16 option \<Rightarrow> hpi \<Rightarrow> (u16 \<times> u16) hpi_result"
where
  "saHpiSensorEventMasksGet get_sensor_event_masks SessionId resourceId SensorNum
     AssertEventMask DeassertEventMask =
     OH_CHECK_INIT_STATE SessionId (
     OH_GET_DID SessionId (\<lambda>did.
     OH_GET_DOMAIN did (\<lambda>d.
     OH_RESOURCE_GET_CHECK d resourceId (\<lambda>res.
     fail_if (lacks res SAHPI_CAPABILITY_SENSOR) d SA_ERR_HPI_CAPABILITY (
     RDR_GET d resourceId SAHPI_SENSOR_RDR SensorNum (\<lambda>rdr_cur.
     OH_HANDLER_GET d resourceId (\<lambda>h.
     release_domain d (
     OH_CALL_ABI h ''get_sensor_event_masks'' SA_ERR_HPI_INVALID_CMD resourceId
       (get_sensor_event_masks resourceId SensorNum AssertEventMask DeassertEventMask) (\<lambda>rv out.
     release_handler h (
     ret rv (Some out)))))))))))"

fun mask_action_num :: "SaHpiSensorEventMaskActionT \<Rightarrow> u32" where
  "mask_action_num SAHPI_SENS_ADD_EVENTS_TO_MASKS = 0"
| "mask_action_num SAHPI_SENS_REMOVE_EVENTS_FROM_MASKS = 1"
| "mask_action_num (SAHPI_SENS_MASK_ACTION_OTHER n) = n"

text \<open>A mask with a state that the sensor does not have.\<close>

definition foreign_states :: "SaHpiSensorRecT \<Rightarrow> u16 \<Rightarrow> bool" where
  "foreign_states sensor m \<longleftrightarrow> m \<noteq> SAHPI_ALL_EVENT_STATES \<and> sn_Events sensor OR m \<noteq> sn_Events sensor"

definition saHpiSensorEventMasksSet ::
    "(u32 \<Rightarrow> u32 \<Rightarrow> SaHpiSensorEventMaskActionT \<Rightarrow> u16 \<Rightarrow> u16 \<Rightarrow> SaErrorT) \<Rightarrow> u32 \<Rightarrow> u32 \<Rightarrow> u32 \<Rightarrow>
       SaHpiSensorEventMaskActionT \<Rightarrow> u16 \<Rightarrow> u16 \<Rightarrow> hpi \<Rightarrow> unit hpi_result"
where
  "saHpiSensorEventMasksSet set_sensor_event_masks SessionId resourceId SensorNum Action
     AssertEventMask DeassertEventMask =
     OH_CHECK_INIT_STATE SessionId (
     return_if (oh_lookup_sensoreventmaskaction (mask_action_num Action) = None)
       SA_ERR_HPI_INVALID_PARAMS (
     OH_GET_DID SessionId (\<lambda>did.
     OH_GET_DOMAIN did (\<lambda>d.
     OH_RESOURCE_GET_CHECK d resourceId (\<lambda>res.
     fail_if (lacks res SAHPI_CAPABILITY_SENSOR) d SA_ERR_HPI_CAPABILITY (
     RDR_GET d resourceId SAHPI_SENSOR_RDR SensorNum (\<lambda>rdr_cur.
     fail_if (EventCtrl (sensor_rec rdr_cur) = SAHPI_SEC_READ_ONLY_MASKS \<or>
              EventCtrl (sensor_rec rdr_cur) = SAHPI_SEC_READ_ONLY) d SA_ERR_HPI_READ_ONLY (
     fail_if (Action = SAHPI_SENS_ADD_EVENTS_TO_MASKS \<and>
              foreign_states (sensor_rec rdr_cur) AssertEventMask) d SA_ERR_HPI_INVALID_DATA (
     fail_if (Action = SAHPI_SENS_ADD_EVENTS_TO_MASKS \<and> lacks res SAHPI_CAPABILITY_EVT_DEASSERTS \<and>
              foreign_states (sensor_rec rdr_cur) DeassertEventMask) d SA_ERR_HPI_INVALID_DATA (
     OH_HANDLER_GET d resourceId (\<lambda>h.
     release_domain d (
     OH_CALL_ABI h ''set_sensor_event_masks'' SA_ERR_HPI_INVALID_CMD resourceId
       (set_sensor_event_masks resourceId SensorNum Action AssertEventMask DeassertEventMask, ())
       (\<lambda>rv _.
     release_handler h (
     return_if (rv \<noteq> SA_OK) rv (\<lambda>st.
       ret rv None
         (tick 2 (st\<lparr>dmn := snd (oh_detect_sensor_mask_alarm (clk st) (dmn st) did resourceId
                                  SensorNum Action DeassertEventMask)\<rparr>)))))))))))))))))"

section \<open>Controls\<close>

definition saHpiControlTypeGet :: "u32 \<Rightarrow> u32 \<Rightarrow> u32 \<Rightarrow> bool \<Rightarrow> hpi \<Rightarrow> u32 hpi_result" where
  "saHpiControlTypeGet SessionId resourceId CtrlNum Type =
     return_if (\<not> Type) SA_ERR_HPI_INVALID_PARAMS (
     OH_CHECK_INIT_STATE SessionId (
     OH_GET_DID SessionId (\<lambda>did.
     OH_GET_DOMAIN did (\<lambda>d.
     OH_RESOURCE_GET d resourceId (\<lambda>res.
     fail_if (lacks res SAHPI_CAPABILITY_CONTROL) d SA_ERR_HPI_CAPABILITY (
     RDR_GET d resourceId SAHPI_CTRL_RDR CtrlNum (\<lambda>rec.
     release_domain d (
     ret SA_OK (Some (ct_Type (ctrl_rec rec)))))))))))"

type_synonym control_out = "u32 \<times> SaHpiCtrlStateT option"

text \<open>A text line behind the last one of the control.\<close>

definition no_such_line :: "SaHpiCtrlRecT \<Rightarrow> SaHpiCtrlStateT option \<Rightarrow> bool" where
  "no_such_line ctrl CtrlState \<longleftrightarrow>
     (case CtrlState of
        None \<Rightarrow> False
      | Some cs \<Rightarrow> ct_Type ctrl = SAHPI_CTRL_TYPE_TEXT \<and> Line (StateText cs) \<noteq> SAHPI_TLN_ALL_LINES \<and>
                   Line (StateText cs) > MaxLines (ctrl_text ctrl))"

definition saHpiControlGet ::
    "(u32 \<Rightarrow> u32 \<Rightarrow> bool \<Rightarrow> SaHpiCtrlStateT option \<Rightarrow> SaErrorT \<times> control_out) \<Rightarrow> u32 \<Rightarrow> u32 \<Rightarrow> u32 \<Rightarrow>
       bool \<Rightarrow> SaHpiCtrlStateT option \<Rightarrow> hpi \<Rightarrow> control_out hpi_result"
where
  "saHpiControlGet get_control_state SessionId resourceId CtrlNum CtrlMode CtrlState =
     OH_CHECK_INIT_STATE SessionId (
     OH_GET_DID SessionId (\<lambda>did.
     OH_GET_DOMAIN did (\<lambda>d.
     OH_RESOURCE_GET_CHECK d resourceId (\<lambda>res.
     fail_if (lacks res SAHPI_CAPABILITY_CONTROL) d SA_ERR_HPI_CAPABILITY (
     RDR_GET d resourceId SAHPI_CTRL_RDR CtrlNum (\<lambda>rec.
     fail_if (WriteOnly (ctrl_rec rec)) d SA_ERR_HPI_INVALID_CMD (
     fail_if (\<not> CtrlMode \<and> CtrlState = None) d SA_OK (
     fail_if (no_such_line (ctrl_rec rec) CtrlState) d SA_ERR_HPI_INVALID_DATA (
     OH_HANDLER_GET d resourceId (\<lambda>h.
     release_domain d (
     OH_CALL_ABI h ''get_control_state'' SA_ERR_HPI_INVALID_CMD resourceId
       (get_control_state resourceId CtrlNum CtrlMode CtrlState) (\<lambda>rv out.
     release_handler h (
     ret rv (Some out))))))))))))))"

definition bad_ctrl_state :: "SaHpiCtrlStateT \<Rightarrow> bool" where
  "bad_ctrl_state cs \<longleftrightarrow>
     cs_Type cs = SAHPI_CTRL_TYPE_DIGITAL \<and> oh_lookup_ctrlstatedigital (Digital cs) = None \<or>
     cs_Type cs = SAHPI_CTRL_TYPE_STREAM \<and> StreamLength (Stream cs) > SAHPI_CTRL_MAX_STREAM_LENGTH \<or>
     cs_Type cs = SAHPI_CTRL_TYPE_TEXT \<and> \<not> oh_valid_textbuffer (Text (StateText cs))"

text \<open>A pulse to the state that the control is in.\<close>

definition void_pulse :: "u32 \<Rightarrow> SaHpiCtrlStateT \<Rightarrow> bool" where
  "void_pulse cur cs \<longleftrightarrow>
     (cur = SAHPI_CTRL_STATE_PULSE_ON \<or> cur = SAHPI_CTRL_STATE_ON) \<and>
       Digital cs = SAHPI_CTRL_STATE_PULSE_ON \<or>
     (cur = SAHPI_CTRL_STATE_PULSE_OFF \<or> cur = SAHPI_CTRL_STATE_OFF) \<and>
       Digital cs = SAHPI_CTRL_STATE_PULSE_OFF"

text \<open>
  The plugin is first asked for the state of a digital control that can be read. Its return code
  is not looked at, so \<open>get_control_state\<close> also gives the state that is in the local variable
  after a call that failed. The record is read after the domain is unlocked, as it was before.
\<close>

definition saHpiControlSet ::
    "(u32 \<Rightarrow> u32 \<Rightarrow> SaErrorT \<times> u32) \<Rightarrow> (u32 \<Rightarrow> u32 \<Rightarrow> u32 \<Rightarrow> SaHpiCtrlStateT option \<Rightarrow> SaErrorT) \<Rightarrow> u32 \<Rightarrow>
       u32 \<Rightarrow> u32 \<Rightarrow> u32 \<Rightarrow> SaHpiCtrlStateT option \<Rightarrow> hpi \<Rightarrow> unit hpi_result"
where
  "saHpiControlSet get_control_state set_control_state SessionId resourceId CtrlNum CtrlMode
     CtrlState =
     return_if (oh_lookup_ctrlmode CtrlMode = None \<or>
                (CtrlMode \<noteq> SAHPI_CTRL_MODE_AUTO \<and> CtrlState = None)) SA_ERR_HPI_INVALID_PARAMS (
     return_if (CtrlMode \<noteq> SAHPI_CTRL_MODE_AUTO \<and> bad_ctrl_state (the CtrlState))
       SA_ERR_HPI_INVALID_PARAMS (
     OH_CHECK_INIT_STATE SessionId (
     OH_GET_DID SessionId (\<lambda>did.
     OH_GET_DOMAIN did (\<lambda>d.
     OH_RESOURCE_GET_CHECK d resourceId (\<lambda>res.
     fail_if (lacks res SAHPI_CAPABILITY_CONTROL) d SA_ERR_HPI_CAPABILITY (
     RDR_GET d resourceId SAHPI_CTRL_RDR CtrlNum (\<lambda>rec.
     fail_if (RdrType rec \<noteq> SAHPI_CTRL_RDR) d SA_ERR_HPI_NOT_PRESENT (
     fail_if (oh_valid_ctrl_state_mode (ctrl_rec rec) CtrlMode CtrlState \<noteq> SA_OK) d
       (oh_valid_ctrl_state_mode (ctrl_rec rec) CtrlMode CtrlState) (
     OH_HANDLER_GET d resourceId (\<lambda>h.
     release_domain d (
     let set_state =
       OH_CALL_ABI h ''set_control_state'' SA_ERR_HPI_INVALID_CMD resourceId
         (set_control_state resourceId CtrlNum CtrlMode CtrlState, ()) (\<lambda>rv _.
       release_handler h (
       ret rv None))
     in if \<not> WriteOnly (ctrl_rec rec) \<and> ct_Type (ctrl_rec rec) = SAHPI_CTRL_TYPE_DIGITAL then
       OH_CALL_ABI h ''get_control_state'' SA_ERR_HPI_INVALID_CMD resourceId
         (get_control_state resourceId CtrlNum) (\<lambda>rv cur.
       drop_if (CtrlMode \<noteq> SAHPI_CTRL_MODE_AUTO \<and> void_pulse cur (the CtrlState)) h
         SA_ERR_HPI_INVALID_REQUEST
       set_state)
     else set_state))))))))))))"

end
