(* ===== verification/HpiInventory.thy ===== *)
theory HpiInventory
  imports HpiSensor
begin

text \<open>
  The HPI functions on inventory data, watchdog timers, annunciators and diagnostics
  (\<^verbatim>\<open>openhpid/safhpi.c\<close>, \<open>saHpiIdrInfoGet\<close> to \<open>saHpiDimiTestResultsGet\<close>).
\<close>

section \<open>Inventory data\<close>

record SaHpiIdrInfoT =
  ii_IdrId :: u32
  ii_UpdateCount :: u32
  ii_ReadOnly :: bool
  NumAreas :: u32

record SaHpiIdrAreaHeaderT =
  ah_AreaId :: u32
  ah_Type :: u32
  ah_ReadOnly :: bool
  NumFields :: u32

record SaHpiIdrFieldT =
  if_AreaId :: u32
  if_FieldId :: u32
  if_Type :: u32
  if_ReadOnly :: bool
  if_Field :: SaHpiTextBufferT

definition saHpiIdrInfoGet ::
    "(u32 \<Rightarrow> u32 \<Rightarrow> SaErrorT \<times> SaHpiIdrInfoT) \<Rightarrow> u32 \<Rightarrow> u32 \<Rightarrow> u32 \<Rightarrow> bool \<Rightarrow> hpi \<Rightarrow> SaHpiIdrInfoT
       hpi_result"
where
  "saHpiIdrInfoGet get_idr_info SessionId resourceId IdrId IdrInfo =
     return_if (\<not> IdrInfo) SA_ERR_HPI_INVALID_PARAMS (
     OH_CHECK_INIT_STATE SessionId (
     OH_GET_DID SessionId (\<lambda>did.
     OH_GET_DOMAIN did (\<lambda>d.
     OH_RESOURCE_GET d resourceId (\<lambda>res.
     fail_if (lacks res SAHPI_CAPABILITY_INVENTORY_DATA) d SA_ERR_HPI_CAPABILITY (
     RDR_GET d resourceId SAHPI_INVENTORY_RDR IdrId (\<lambda>rdr_cur.
     OH_HANDLER_GET d resourceId (\<lambda>h.
     release_domain d (
     OH_CALL_ABI h ''get_idr_info'' SA_ERR_HPI_INVALID_CMD resourceId
       (get_idr_info resourceId IdrId) (\<lambda>rv out.
     release_handler h (
     ret rv (Some out))))))))))))"

definition saHpiIdrAreaHeaderGet ::
    "(u32 \<Rightarrow> u32 \<Rightarrow> u32 \<Rightarrow> u32 \<Rightarrow> SaErrorT \<times> u32 \<times> SaHpiIdrAreaHeaderT) \<Rightarrow> u32 \<Rightarrow> u32 \<Rightarrow> u32 \<Rightarrow> u32 \<Rightarrow>
       u32 \<Rightarrow> bool \<Rightarrow> bool \<Rightarrow> hpi \<Rightarrow> (u32 \<times> SaHpiIdrAreaHeaderT) hpi_result"
where
  "saHpiIdrAreaHeaderGet get_idr_area_header SessionId resourceId IdrId AreaType AreaId
     NextAreaId Header =
     return_if (AreaType < SAHPI_IDR_AREATYPE_INTERNAL_USE \<or> (AreaType >
       SAHPI_IDR_AREATYPE_PRODUCT_INFO \<and> AreaType \<noteq> SAHPI_IDR_AREATYPE_UNSPECIFIED \<and> AreaType \<noteq>
       SAHPI_IDR_AREATYPE_OEM) \<or> AreaId = SAHPI_LAST_ENTRY \<or> \<not> NextAreaId \<or> \<not> Header)
       SA_ERR_HPI_INVALID_PARAMS (
     OH_CHECK_INIT_STATE SessionId (
     OH_GET_DID SessionId (\<lambda>did.
     OH_GET_DOMAIN did (\<lambda>d.
     OH_RESOURCE_GET_CHECK d resourceId (\<lambda>res.
     fail_if (lacks res SAHPI_CAPABILITY_INVENTORY_DATA) d SA_ERR_HPI_CAPABILITY (
     RDR_GET d resourceId SAHPI_INVENTORY_RDR IdrId (\<lambda>rdr_cur.
     OH_HANDLER_GET d resourceId (\<lambda>h.
     release_domain d (
     OH_CALL_ABI h ''get_idr_area_header'' SA_ERR_HPI_INVALID_CMD resourceId
       (get_idr_area_header resourceId IdrId AreaType AreaId) (\<lambda>rv out.
     release_handler h (
     ret rv (Some out))))))))))))"

definition saHpiIdrAreaAdd ::
    "(u32 \<Rightarrow> u32 \<Rightarrow> u32 \<Rightarrow> SaErrorT \<times> u32) \<Rightarrow> u32 \<Rightarrow> u32 \<Rightarrow> u32 \<Rightarrow> u32 \<Rightarrow> bool \<Rightarrow> hpi \<Rightarrow> u32 hpi_result"
where
  "saHpiIdrAreaAdd add_idr_area SessionId resourceId IdrId AreaType AreaId =
     return_if (oh_lookup_idrareatype AreaType = None \<or> \<not> AreaId) SA_ERR_HPI_INVALID_PARAMS (
     return_if (AreaType = SAHPI_IDR_AREATYPE_UNSPECIFIED) SA_ERR_HPI_INVALID_DATA (
     OH_CHECK_INIT_STATE SessionId (
     OH_GET_DID SessionId (\<lambda>did.
     OH_GET_DOMAIN did (\<lambda>d.
     OH_RESOURCE_GET_CHECK d resourceId (\<lambda>res.
     fail_if (lacks res SAHPI_CAPABILITY_INVENTORY_DATA) d SA_ERR_HPI_CAPABILITY (
     RDR_GET d resourceId SAHPI_INVENTORY_RDR IdrId (\<lambda>rdr_cur.
     OH_HANDLER_GET d resourceId (\<lambda>h.
     release_domain d (
     OH_CALL_ABI h ''add_idr_area'' SA_ERR_HPI_INVALID_CMD resourceId
       (add_idr_area resourceId IdrId AreaType) (\<lambda>rv out.
     release_handler h (
     ret rv (Some out)))))))))))))"

definition saHpiIdrAreaAddById ::
    "(u32 \<Rightarrow> u32 \<Rightarrow> SaErrorT \<times> SaHpiIdrInfoT) \<Rightarrow>
       (u32 \<Rightarrow> u32 \<Rightarrow> u32 \<Rightarrow> u32 \<Rightarrow> SaErrorT \<times> u32 \<times> SaHpiIdrAreaHeaderT) \<Rightarrow>
       (u32 \<Rightarrow> u32 \<Rightarrow> u32 \<Rightarrow> u32 \<Rightarrow> SaErrorT) \<Rightarrow> u32 \<Rightarrow> u32 \<Rightarrow> u32 \<Rightarrow> u32 \<Rightarrow> u32 \<Rightarrow> hpi \<Rightarrow> unit hpi_result"
where
  "saHpiIdrAreaAddById get_idr_info get_idr_area_header add_idr_area_id SessionId resourceId IdrId
     AreaType AreaId =
     return_if (oh_lookup_idrareatype AreaType = None \<or> AreaId = SAHPI_LAST_ENTRY)
       SA_ERR_HPI_INVALID_PARAMS (
     return_if (AreaType = SAHPI_IDR_AREATYPE_UNSPECIFIED) SA_ERR_HPI_INVALID_DATA (
     OH_CHECK_INIT_STATE SessionId (
     OH_GET_DID SessionId (\<lambda>did.
     OH_GET_DOMAIN did (\<lambda>d.
     OH_RESOURCE_GET_CHECK d resourceId (\<lambda>rpte.
     fail_if (lacks rpte SAHPI_CAPABILITY_INVENTORY_DATA) d SA_ERR_HPI_CAPABILITY (
     RDR_GET d resourceId SAHPI_INVENTORY_RDR IdrId (\<lambda>rdr_cur.
     OH_HANDLER_GET d resourceId (\<lambda>h.
     release_domain d (
     OH_CALL_ABI h ''get_idr_info'' SA_ERR_HPI_INTERNAL_ERROR resourceId
       (get_idr_info resourceId IdrId) (\<lambda>error i.
     drop_if (error \<noteq> SA_OK) h SA_ERR_HPI_NOT_PRESENT (
     drop_if (ii_ReadOnly i) h SA_ERR_HPI_READ_ONLY (
     let add_area =
       OH_CALL_ABI h ''add_idr_area_id'' SA_ERR_HPI_INTERNAL_ERROR resourceId
         (add_idr_area_id resourceId IdrId AreaType AreaId, ()) (\<lambda>error _.
       release_handler h (
       ret error None))
     in if AreaId \<noteq> SAHPI_FIRST_ENTRY then
       OH_CALL_ABI h ''get_idr_area_header'' SA_ERR_HPI_INTERNAL_ERROR resourceId
         (get_idr_area_header resourceId IdrId AreaType AreaId) (\<lambda>error _.
       drop_if (error = SA_OK) h SA_ERR_HPI_DUPLICATE
       add_area)
     else add_area)))))))))))))"

definition saHpiIdrAreaDelete ::
    "(u32 \<Rightarrow> u32 \<Rightarrow> u32 \<Rightarrow> SaErrorT) \<Rightarrow> u32 \<Rightarrow> u32 \<Rightarrow> u32 \<Rightarrow> u32 \<Rightarrow> hpi \<Rightarrow> unit hpi_result"
where
  "saHpiIdrAreaDelete del_idr_area SessionId resourceId IdrId AreaId =
     return_if (AreaId = SAHPI_LAST_ENTRY) SA_ERR_HPI_INVALID_PARAMS (
     OH_CHECK_INIT_STATE SessionId (
     OH_GET_DID SessionId (\<lambda>did.
     OH_GET_DOMAIN did (\<lambda>d.
     OH_RESOURCE_GET_CHECK d resourceId (\<lambda>res.
     fail_if (lacks res SAHPI_CAPABILITY_INVENTORY_DATA) d SA_ERR_HPI_CAPABILITY (
     RDR_GET d resourceId SAHPI_INVENTORY_RDR IdrId (\<lambda>rdr_cur.
     OH_HANDLER_GET d resourceId (\<lambda>h.
     release_domain d (
     OH_CALL_ABI h ''del_idr_area'' SA_ERR_HPI_INVALID_CMD resourceId
       (del_idr_area resourceId IdrId AreaId, ()) (\<lambda>rv _.
     release_handler h (
     ret rv None)))))))))))"

definition saHpiIdrFieldGet ::
    "(u32 \<Rightarrow> u32 \<Rightarrow> u32 \<Rightarrow> u32 \<Rightarrow> u32 \<Rightarrow> SaErrorT \<times> u32 \<times> SaHpiIdrFieldT) \<Rightarrow> u32 \<Rightarrow> u32 \<Rightarrow> u32 \<Rightarrow> u32
       \<Rightarrow> u32 \<Rightarrow> u32 \<Rightarrow> bool \<Rightarrow> bool \<Rightarrow> hpi \<Rightarrow> (u32 \<times> SaHpiIdrFieldT) hpi_result"
where
  "saHpiIdrFieldGet get_idr_field SessionId resourceId IdrId AreaId FieldType FieldId
     NextFieldId field =
     return_if (\<not> field \<or> oh_lookup_idrfieldtype FieldType = None \<or> AreaId = SAHPI_LAST_ENTRY
       \<or> FieldId = SAHPI_LAST_ENTRY \<or> \<not> NextFieldId) SA_ERR_HPI_INVALID_PARAMS (
     OH_CHECK_INIT_STATE SessionId (
     OH_GET_DID SessionId (\<lambda>did.
     OH_GET_DOMAIN did (\<lambda>d.
     OH_RESOURCE_GET_CHECK d resourceId (\<lambda>res.
     fail_if (lacks res SAHPI_CAPABILITY_INVENTORY_DATA) d SA_ERR_HPI_CAPABILITY (
     RDR_GET d resourceId SAHPI_INVENTORY_RDR IdrId (\<lambda>rdr_cur.
     OH_HANDLER_GET d resourceId (\<lambda>h.
     release_domain d (
     OH_CALL_ABI h ''get_idr_field'' SA_ERR_HPI_INVALID_CMD resourceId
       (get_idr_field resourceId IdrId AreaId FieldType FieldId) (\<lambda>rv out.
     release_handler h (
     ret rv (Some out))))))))))))"

text \<open>What \<open>saHpiIdrFieldAdd\<close> and \<open>saHpiIdrFieldAddById\<close> refuse.\<close>

definition bad_field :: "SaHpiIdrFieldT option \<Rightarrow> bool" where
  "bad_field field \<longleftrightarrow>
     (case field of
        None \<Rightarrow> True
      | Some f \<Rightarrow> oh_lookup_idrfieldtype (if_Type f) = None \<or>
                  if_Type f = SAHPI_IDR_FIELDTYPE_UNSPECIFIED \<or> \<not> oh_valid_textbuffer (if_Field f))"

definition saHpiIdrFieldAdd ::
    "(u32 \<Rightarrow> u32 \<Rightarrow> SaHpiIdrFieldT \<Rightarrow> SaErrorT \<times> SaHpiIdrFieldT) \<Rightarrow> u32 \<Rightarrow> u32 \<Rightarrow> u32 \<Rightarrow>
       SaHpiIdrFieldT option \<Rightarrow> hpi \<Rightarrow> SaHpiIdrFieldT hpi_result"
where
  "saHpiIdrFieldAdd add_idr_field SessionId resourceId IdrId field =
     return_if (bad_field field) SA_ERR_HPI_INVALID_PARAMS (
     OH_CHECK_INIT_STATE SessionId (
     OH_GET_DID SessionId (\<lambda>did.
     OH_GET_DOMAIN did (\<lambda>d.
     OH_RESOURCE_GET_CHECK d resourceId (\<lambda>res.
     fail_if (lacks res SAHPI_CAPABILITY_INVENTORY_DATA) d SA_ERR_HPI_CAPABILITY (
     RDR_GET d resourceId SAHPI_INVENTORY_RDR IdrId (\<lambda>rdr_cur.
     OH_HANDLER_GET d resourceId (\<lambda>h.
     release_domain d (
     OH_CALL_ABI h ''add_idr_field'' SA_ERR_HPI_INVALID_CMD resourceId
       (add_idr_field resourceId IdrId (the field)) (\<lambda>rv out.
     release_handler h (
     ret rv (Some out))))))))))))"

definition saHpiIdrFieldAddById ::
    "(u32 \<Rightarrow> u32 \<Rightarrow> u32 \<Rightarrow> u32 \<Rightarrow> SaErrorT \<times> u32 \<times> SaHpiIdrAreaHeaderT) \<Rightarrow>
       (u32 \<Rightarrow> u32 \<Rightarrow> u32 \<Rightarrow> u32 \<Rightarrow> u32 \<Rightarrow> SaErrorT \<times> u32 \<times> SaHpiIdrFieldT) \<Rightarrow>
       (u32 \<Rightarrow> u32 \<Rightarrow> SaHpiIdrFieldT \<Rightarrow> SaErrorT \<times> SaHpiIdrFieldT) \<Rightarrow> u32 \<Rightarrow> u32 \<Rightarrow> u32 \<Rightarrow>
       SaHpiIdrFieldT option \<Rightarrow> hpi \<Rightarrow> SaHpiIdrFieldT hpi_result"
where
  "saHpiIdrFieldAddById get_idr_area_header get_idr_field add_idr_field_id SessionId resourceId
     IdrId field =
     return_if (bad_field field \<or> if_AreaId (the field) = SAHPI_LAST_ENTRY \<or>
                if_FieldId (the field) = SAHPI_LAST_ENTRY) SA_ERR_HPI_INVALID_PARAMS (
     OH_CHECK_INIT_STATE SessionId (
     OH_GET_DID SessionId (\<lambda>did.
     OH_GET_DOMAIN did (\<lambda>d.
     OH_RESOURCE_GET_CHECK d resourceId (\<lambda>rpte.
     fail_if (lacks rpte SAHPI_CAPABILITY_INVENTORY_DATA) d SA_ERR_HPI_CAPABILITY (
     RDR_GET d resourceId SAHPI_INVENTORY_RDR IdrId (\<lambda>rdr_cur.
     OH_HANDLER_GET d resourceId (\<lambda>h.
     release_domain d (
     OH_CALL_ABI h ''get_idr_area_header'' SA_ERR_HPI_INTERNAL_ERROR resourceId
       (get_idr_area_header resourceId IdrId SAHPI_IDR_AREATYPE_UNSPECIFIED
          (if_AreaId (the field))) (\<lambda>error out.
     drop_if (error \<noteq> SA_OK) h SA_ERR_HPI_NOT_PRESENT (
     drop_if (ah_ReadOnly (snd out)) h SA_ERR_HPI_READ_ONLY (
     let add_field =
       OH_CALL_ABI h ''add_idr_field_id'' SA_ERR_HPI_INTERNAL_ERROR resourceId
         (add_idr_field_id resourceId IdrId (the field)) (\<lambda>error out.
       release_handler h (
       ret error (Some out)))
     in if if_FieldId (the field) \<noteq> SAHPI_FIRST_ENTRY then
       OH_CALL_ABI h ''get_idr_field'' SA_ERR_HPI_INTERNAL_ERROR resourceId
         (get_idr_field resourceId IdrId (if_AreaId (the field)) SAHPI_IDR_FIELDTYPE_UNSPECIFIED
            (if_FieldId (the field))) (\<lambda>error _.
       drop_if (error = SA_OK) h SA_ERR_HPI_DUPLICATE
       add_field)
     else add_field))))))))))))"

definition saHpiIdrFieldSet ::
    "(u32 \<Rightarrow> u32 \<Rightarrow> SaHpiIdrFieldT \<Rightarrow> SaErrorT) \<Rightarrow> u32 \<Rightarrow> u32 \<Rightarrow> u32 \<Rightarrow> SaHpiIdrFieldT option \<Rightarrow> hpi \<Rightarrow>
       unit hpi_result"
where
  "saHpiIdrFieldSet set_idr_field SessionId resourceId IdrId field =
     return_if (case field of
                  None \<Rightarrow> True
                | Some f \<Rightarrow> if_Type f > SAHPI_IDR_FIELDTYPE_CUSTOM \<or>
                            \<not> oh_valid_textbuffer (if_Field f)) SA_ERR_HPI_INVALID_PARAMS (
     OH_CHECK_INIT_STATE SessionId (
     OH_GET_DID SessionId (\<lambda>did.
     OH_GET_DOMAIN did (\<lambda>d.
     OH_RESOURCE_GET_CHECK d resourceId (\<lambda>res.
     fail_if (lacks res SAHPI_CAPABILITY_INVENTORY_DATA) d SA_ERR_HPI_CAPABILITY (
     RDR_GET d resourceId SAHPI_INVENTORY_RDR IdrId (\<lambda>rdr_cur.
     OH_HANDLER_GET d resourceId (\<lambda>h.
     release_domain d (
     OH_CALL_ABI h ''set_idr_field'' SA_ERR_HPI_INVALID_CMD resourceId
       (set_idr_field resourceId IdrId (the field), ()) (\<lambda>rv _.
     release_handler h (
     ret rv None)))))))))))"

definition saHpiIdrFieldDelete ::
    "(u32 \<Rightarrow> u32 \<Rightarrow> u32 \<Rightarrow> u32 \<Rightarrow> SaErrorT) \<Rightarrow> u32 \<Rightarrow> u32 \<Rightarrow> u32 \<Rightarrow> u32 \<Rightarrow> u32 \<Rightarrow> hpi \<Rightarrow> unit hpi_result"
where
  "saHpiIdrFieldDelete del_idr_field SessionId resourceId IdrId AreaId FieldId =
     return_if (FieldId = SAHPI_LAST_ENTRY \<or> AreaId = SAHPI_LAST_ENTRY)
       SA_ERR_HPI_INVALID_PARAMS (
     OH_CHECK_INIT_STATE SessionId (
     OH_GET_DID SessionId (\<lambda>did.
     OH_GET_DOMAIN did (\<lambda>d.
     OH_RESOURCE_GET_CHECK d resourceId (\<lambda>res.
     fail_if (lacks res SAHPI_CAPABILITY_INVENTORY_DATA) d SA_ERR_HPI_CAPABILITY (
     RDR_GET d resourceId SAHPI_INVENTORY_RDR IdrId (\<lambda>rdr_cur.
     OH_HANDLER_GET d resourceId (\<lambda>h.
     release_domain d (
     OH_CALL_ABI h ''del_idr_field'' SA_ERR_HPI_INVALID_CMD resourceId
       (del_idr_field resourceId IdrId AreaId FieldId, ()) (\<lambda>rv _.
     release_handler h (
     ret rv None)))))))))))"

section \<open>Watchdog timers\<close>

record SaHpiWatchdogT =
  Log :: bool
  Running :: bool
  TimerUse :: u32
  TimerAction :: u32
  PretimerInterrupt :: u32
  PreTimeoutInterval :: u32
  TimerUseExpFlags :: u8
  InitialCount :: u32
  PresentCount :: u32

definition saHpiWatchdogTimerGet ::
    "(u32 \<Rightarrow> u32 \<Rightarrow> SaErrorT \<times> SaHpiWatchdogT) \<Rightarrow> u32 \<Rightarrow> u32 \<Rightarrow> u32 \<Rightarrow> bool \<Rightarrow> hpi \<Rightarrow> SaHpiWatchdogT
       hpi_result"
where
  "saHpiWatchdogTimerGet get_watchdog_info SessionId resourceId WatchdogNum Watchdog =
     return_if (\<not> Watchdog) SA_ERR_HPI_INVALID_PARAMS (
     OH_CHECK_INIT_STATE SessionId (
     OH_GET_DID SessionId (\<lambda>did.
     OH_GET_DOMAIN did (\<lambda>d.
     OH_RESOURCE_GET_CHECK d resourceId (\<lambda>res.
     fail_if (lacks res SAHPI_CAPABILITY_WATCHDOG) d SA_ERR_HPI_CAPABILITY (
     OH_HANDLER_GET d resourceId (\<lambda>h.
     release_domain d (
     OH_CALL_ABI h ''get_watchdog_info'' SA_ERR_HPI_INVALID_CMD resourceId
       (get_watchdog_info resourceId WatchdogNum) (\<lambda>rv out.
     release_handler h (
     ret rv (Some out)))))))))))"

definition saHpiWatchdogTimerSet ::
    "(u32 \<Rightarrow> u32 \<Rightarrow> SaHpiWatchdogT \<Rightarrow> SaErrorT) \<Rightarrow> u32 \<Rightarrow> u32 \<Rightarrow> u32 \<Rightarrow> SaHpiWatchdogT option \<Rightarrow> hpi \<Rightarrow>
       unit hpi_result"
where
  "saHpiWatchdogTimerSet set_watchdog_info SessionId resourceId WatchdogNum Watchdog =
     return_if (case Watchdog of
                  None \<Rightarrow> True
                | Some w \<Rightarrow> oh_lookup_watchdogtimeruse (TimerUse w) = None \<or>
                            oh_lookup_watchdogaction (TimerAction w) = None \<or>
                            oh_lookup_watchdogpretimerinterrupt (PretimerInterrupt w) = None)
       SA_ERR_HPI_INVALID_PARAMS (
     return_if (PreTimeoutInterval (the Watchdog) > InitialCount (the Watchdog))
       SA_ERR_HPI_INVALID_DATA (
     OH_CHECK_INIT_STATE SessionId (
     OH_GET_DID SessionId (\<lambda>did.
     OH_GET_DOMAIN did (\<lambda>d.
     OH_RESOURCE_GET_CHECK d resourceId (\<lambda>res.
     fail_if (lacks res SAHPI_CAPABILITY_WATCHDOG) d SA_ERR_HPI_CAPABILITY (
     OH_HANDLER_GET d resourceId (\<lambda>h.
     release_domain d (
     OH_CALL_ABI h ''set_watchdog_info'' SA_ERR_HPI_INVALID_CMD resourceId
       (set_watchdog_info resourceId WatchdogNum (the Watchdog), ()) (\<lambda>rv _.
     release_handler h (
     ret rv None)))))))))))"

definition saHpiWatchdogTimerReset ::
    "(u32 \<Rightarrow> u32 \<Rightarrow> SaErrorT) \<Rightarrow> u32 \<Rightarrow> u32 \<Rightarrow> u32 \<Rightarrow> hpi \<Rightarrow> unit hpi_result"
where
  "saHpiWatchdogTimerReset reset_watchdog SessionId resourceId WatchdogNum =
     OH_CHECK_INIT_STATE SessionId (
     OH_GET_DID SessionId (\<lambda>did.
     OH_GET_DOMAIN did (\<lambda>d.
     OH_RESOURCE_GET_CHECK d resourceId (\<lambda>res.
     fail_if (lacks res SAHPI_CAPABILITY_WATCHDOG) d SA_ERR_HPI_CAPABILITY (
     OH_HANDLER_GET d resourceId (\<lambda>h.
     release_domain d (
     OH_CALL_ABI h ''reset_watchdog'' SA_ERR_HPI_INVALID_CMD resourceId
       (reset_watchdog resourceId WatchdogNum, ()) (\<lambda>rv _.
     release_handler h (
     ret rv None)))))))))"

section \<open>Annunciators\<close>

definition saHpiAnnunciatorGetNext ::
    "(u32 \<Rightarrow> u32 \<Rightarrow> u32 \<Rightarrow> bool \<Rightarrow> SaHpiAnnouncementT option \<Rightarrow> SaErrorT \<times> SaHpiAnnouncementT) \<Rightarrow>
       u32 \<Rightarrow> u32 \<Rightarrow> u32 \<Rightarrow> u32 \<Rightarrow> bool \<Rightarrow> SaHpiAnnouncementT option \<Rightarrow> hpi \<Rightarrow> SaHpiAnnouncementT
       hpi_result"
where
  "saHpiAnnunciatorGetNext get_next_announce SessionId resourceId AnnunciatorNum severity
     UnacknowledgedOnly Announcement =
     return_if (Announcement = None) SA_ERR_HPI_INVALID_PARAMS (
     return_if (oh_lookup_severity severity = None) SA_ERR_HPI_INVALID_PARAMS (
     OH_CHECK_INIT_STATE SessionId (
     OH_GET_DID SessionId (\<lambda>did.
     OH_GET_DOMAIN did (\<lambda>d.
     OH_RESOURCE_GET_CHECK d resourceId (\<lambda>res.
     fail_if (lacks res SAHPI_CAPABILITY_ANNUNCIATOR) d SA_ERR_HPI_CAPABILITY (
     RDR_GET d resourceId SAHPI_ANNUNCIATOR_RDR AnnunciatorNum (\<lambda>rdr_cur.
     OH_HANDLER_GET d resourceId (\<lambda>h.
     release_domain d (
     OH_CALL_ABI h ''get_next_announce'' SA_ERR_HPI_INVALID_CMD resourceId
       (get_next_announce resourceId AnnunciatorNum severity UnacknowledgedOnly Announcement) (\<lambda>rv out.
     release_handler h (
     ret rv (Some out)))))))))))))"

definition saHpiAnnunciatorGet ::
    "(u32 \<Rightarrow> u32 \<Rightarrow> u32 \<Rightarrow> SaErrorT \<times> SaHpiAnnouncementT) \<Rightarrow> u32 \<Rightarrow> u32 \<Rightarrow> u32 \<Rightarrow> u32 \<Rightarrow> bool \<Rightarrow> hpi \<Rightarrow>
       SaHpiAnnouncementT hpi_result"
where
  "saHpiAnnunciatorGet get_announce SessionId resourceId AnnunciatorNum entryId Announcement =
     return_if (\<not> Announcement \<or> entryId = SAHPI_FIRST_ENTRY \<or> entryId = SAHPI_LAST_ENTRY)
       SA_ERR_HPI_INVALID_PARAMS (
     OH_CHECK_INIT_STATE SessionId (
     OH_GET_DID SessionId (\<lambda>did.
     OH_GET_DOMAIN did (\<lambda>d.
     OH_RESOURCE_GET_CHECK d resourceId (\<lambda>res.
     fail_if (lacks res SAHPI_CAPABILITY_ANNUNCIATOR) d SA_ERR_HPI_CAPABILITY (
     RDR_GET d resourceId SAHPI_ANNUNCIATOR_RDR AnnunciatorNum (\<lambda>rdr_cur.
     OH_HANDLER_GET d resourceId (\<lambda>h.
     release_domain d (
     OH_CALL_ABI h ''get_announce'' SA_ERR_HPI_INVALID_CMD resourceId
       (get_announce resourceId AnnunciatorNum entryId) (\<lambda>rv out.
     release_handler h (
     ret rv (Some out))))))))))))"

definition saHpiAnnunciatorAcknowledge ::
    "(u32 \<Rightarrow> u32 \<Rightarrow> u32 \<Rightarrow> u32 \<Rightarrow> SaErrorT) \<Rightarrow> u32 \<Rightarrow> u32 \<Rightarrow> u32 \<Rightarrow> u32 \<Rightarrow> u32 \<Rightarrow> hpi \<Rightarrow> unit hpi_result"
where
  "saHpiAnnunciatorAcknowledge ack_announce SessionId resourceId AnnunciatorNum entryId
     severity =
     return_if (entryId = SAHPI_ENTRY_UNSPECIFIED \<and> oh_lookup_severity severity = None)
       SA_ERR_HPI_INVALID_PARAMS (
     OH_CHECK_INIT_STATE SessionId (
     OH_GET_DID SessionId (\<lambda>did.
     OH_GET_DOMAIN did (\<lambda>d.
     OH_RESOURCE_GET_CHECK d resourceId (\<lambda>res.
     fail_if (lacks res SAHPI_CAPABILITY_ANNUNCIATOR) d SA_ERR_HPI_CAPABILITY (
     RDR_GET d resourceId SAHPI_ANNUNCIATOR_RDR AnnunciatorNum (\<lambda>rdr_cur.
     OH_HANDLER_GET d resourceId (\<lambda>h.
     release_domain d (
     OH_CALL_ABI h ''ack_announce'' SA_ERR_HPI_INVALID_CMD resourceId
       (ack_announce resourceId AnnunciatorNum entryId severity, ()) (\<lambda>rv _.
     release_handler h (
     ret rv None)))))))))))"

definition saHpiAnnunciatorModeGet ::
    "(u32 \<Rightarrow> u32 \<Rightarrow> SaErrorT \<times> u32) \<Rightarrow> u32 \<Rightarrow> u32 \<Rightarrow> u32 \<Rightarrow> bool \<Rightarrow> hpi \<Rightarrow> u32 hpi_result"
where
  "saHpiAnnunciatorModeGet get_annunc_mode SessionId resourceId AnnunciatorNum Mode =
     return_if (\<not> Mode) SA_ERR_HPI_INVALID_PARAMS (
     OH_CHECK_INIT_STATE SessionId (
     OH_GET_DID SessionId (\<lambda>did.
     OH_GET_DOMAIN did (\<lambda>d.
     OH_RESOURCE_GET_CHECK d resourceId (\<lambda>res.
     fail_if (lacks res SAHPI_CAPABILITY_ANNUNCIATOR) d SA_ERR_HPI_CAPABILITY (
     RDR_GET d resourceId SAHPI_ANNUNCIATOR_RDR AnnunciatorNum (\<lambda>rdr_cur.
     OH_HANDLER_GET d resourceId (\<lambda>h.
     release_domain d (
     OH_CALL_ABI h ''get_annunc_mode'' SA_ERR_HPI_INVALID_CMD resourceId
       (get_annunc_mode resourceId AnnunciatorNum) (\<lambda>rv out.
     release_handler h (
     ret rv (Some out))))))))))))"

text \<open>
  \<open>SaHpiNameT\<close> is a 16-bit length and the characters. Every condition type is one of the
  enumeration.
\<close>

definition name_length :: "u8 list \<Rightarrow> int" where
  "name_length bs = uint (bs ! 0) + 256 * uint (bs ! 1)"

definition bad_announcement :: "SaHpiAnnouncementT option \<Rightarrow> bool" where
  "bad_announcement Announcement \<longleftrightarrow>
     (case Announcement of
        None \<Rightarrow> True
      | Some a \<Rightarrow> ann_Severity a = SAHPI_ALL_SEVERITIES \<or>
                  oh_lookup_severity (ann_Severity a) = None \<or>
                  \<not> oh_valid_textbuffer (cond_Data (StatusCond a)) \<or>
                  name_length (cond_Name (StatusCond a)) > 256)"

definition saHpiAnnunciatorAdd ::
    "(u32 \<Rightarrow> u32 \<Rightarrow> SaErrorT \<times> u32) \<Rightarrow>
       (u32 \<Rightarrow> u32 \<Rightarrow> SaHpiAnnouncementT \<Rightarrow> SaErrorT \<times> SaHpiAnnouncementT) \<Rightarrow> u32 \<Rightarrow> u32 \<Rightarrow> u32 \<Rightarrow>
       SaHpiAnnouncementT option \<Rightarrow> hpi \<Rightarrow> SaHpiAnnouncementT hpi_result"
where
  "saHpiAnnunciatorAdd get_annunc_mode add_announce SessionId resourceId AnnunciatorNum
     Announcement =
     return_if (bad_announcement Announcement) SA_ERR_HPI_INVALID_PARAMS (
     OH_CHECK_INIT_STATE SessionId (
     OH_GET_DID SessionId (\<lambda>did.
     OH_GET_DOMAIN did (\<lambda>d.
     OH_RESOURCE_GET_CHECK d resourceId (\<lambda>res.
     fail_if (lacks res SAHPI_CAPABILITY_ANNUNCIATOR) d SA_ERR_HPI_CAPABILITY (
     RDR_GET d resourceId SAHPI_ANNUNCIATOR_RDR AnnunciatorNum (\<lambda>rdr_cur.
     call_hpi (saHpiAnnunciatorModeGet get_annunc_mode SessionId resourceId AnnunciatorNum True)
       (\<lambda>rv mode.
     fail_if (rv \<noteq> SA_OK) d rv (
     fail_if (mode = Some SAHPI_ANNUNCIATOR_MODE_AUTO) d SA_ERR_HPI_READ_ONLY (
     OH_HANDLER_GET d resourceId (\<lambda>h.
     release_domain d (
     OH_CALL_ABI h ''add_announce'' SA_ERR_HPI_INVALID_CMD resourceId
       (add_announce resourceId AnnunciatorNum (the Announcement)) (\<lambda>rv out.
     release_handler h (
     ret rv (Some out)))))))))))))))"

definition saHpiAnnunciatorDelete ::
    "(u32 \<Rightarrow> u32 \<Rightarrow> SaErrorT \<times> u32) \<Rightarrow> (u32 \<Rightarrow> u32 \<Rightarrow> u32 \<Rightarrow> u32 \<Rightarrow> SaErrorT) \<Rightarrow> u32 \<Rightarrow> u32 \<Rightarrow> u32 \<Rightarrow>
       u32 \<Rightarrow> u32 \<Rightarrow> hpi \<Rightarrow> unit hpi_result"
where
  "saHpiAnnunciatorDelete get_annunc_mode del_announce SessionId resourceId AnnunciatorNum entryId
     severity =
     return_if (entryId = SAHPI_ENTRY_UNSPECIFIED \<and> oh_lookup_severity severity = None)
       SA_ERR_HPI_INVALID_PARAMS (
     OH_CHECK_INIT_STATE SessionId (
     OH_GET_DID SessionId (\<lambda>did.
     OH_GET_DOMAIN did (\<lambda>d.
     OH_RESOURCE_GET_CHECK d resourceId (\<lambda>res.
     fail_if (lacks res SAHPI_CAPABILITY_ANNUNCIATOR) d SA_ERR_HPI_CAPABILITY (
     RDR_GET d resourceId SAHPI_ANNUNCIATOR_RDR AnnunciatorNum (\<lambda>rdr_cur.
     call_hpi (saHpiAnnunciatorModeGet get_annunc_mode SessionId resourceId AnnunciatorNum True)
       (\<lambda>rv mode.
     fail_if (rv \<noteq> SA_OK) d rv (
     fail_if (mode = Some SAHPI_ANNUNCIATOR_MODE_AUTO) d SA_ERR_HPI_READ_ONLY (
     OH_HANDLER_GET d resourceId (\<lambda>h.
     release_domain d (
     OH_CALL_ABI h ''del_announce'' SA_ERR_HPI_INVALID_CMD resourceId
       (del_announce resourceId AnnunciatorNum entryId severity, ()) (\<lambda>rv _.
     release_handler h (
     ret rv None))))))))))))))"

definition saHpiAnnunciatorModeSet ::
    "(u32 \<Rightarrow> u32 \<Rightarrow> u32 \<Rightarrow> SaErrorT) \<Rightarrow> u32 \<Rightarrow> u32 \<Rightarrow> u32 \<Rightarrow> u32 \<Rightarrow> hpi \<Rightarrow> unit hpi_result"
where
  "saHpiAnnunciatorModeSet set_annunc_mode SessionId resourceId AnnunciatorNum mode =
     return_if (oh_lookup_annunciatormode mode = None) SA_ERR_HPI_INVALID_PARAMS (
     OH_CHECK_INIT_STATE SessionId (
     OH_GET_DID SessionId (\<lambda>did.
     OH_GET_DOMAIN did (\<lambda>d.
     OH_RESOURCE_GET_CHECK d resourceId (\<lambda>res.
     fail_if (lacks res SAHPI_CAPABILITY_ANNUNCIATOR) d SA_ERR_HPI_CAPABILITY (
     RDR_GET d resourceId SAHPI_ANNUNCIATOR_RDR AnnunciatorNum (\<lambda>rec.
     fail_if (ModeReadOnly (annunciator_rec rec)) d SA_ERR_HPI_READ_ONLY (
     OH_HANDLER_GET d resourceId (\<lambda>h.
     release_domain d (
     OH_CALL_ABI h ''set_annunc_mode'' SA_ERR_HPI_INVALID_CMD resourceId
       (set_annunc_mode resourceId AnnunciatorNum mode, ()) (\<lambda>rv _.
     release_handler h (
     ret rv None))))))))))))"

section \<open>Diagnostics\<close>

definition saHpiDimiInfoGet ::
    "(u32 \<Rightarrow> u32 \<Rightarrow> SaErrorT \<times> u8 list) \<Rightarrow> u32 \<Rightarrow> u32 \<Rightarrow> u32 \<Rightarrow> bool \<Rightarrow> hpi \<Rightarrow> (u8 list) hpi_result"
where
  "saHpiDimiInfoGet get_dimi_info SessionId resourceId DimiNum DimiInfo =
     return_if (\<not> DimiInfo) SA_ERR_HPI_INVALID_PARAMS (
     OH_CHECK_INIT_STATE SessionId (
     OH_GET_DID SessionId (\<lambda>did.
     OH_GET_DOMAIN did (\<lambda>d.
     OH_RESOURCE_GET_CHECK d resourceId (\<lambda>rpte.
     fail_if (lacks rpte SAHPI_CAPABILITY_DIMI) d SA_ERR_HPI_CAPABILITY (
     RDR_GET d resourceId SAHPI_DIMI_RDR DimiNum (\<lambda>rdr_cur.
     OH_HANDLER_GET d resourceId (\<lambda>h.
     release_domain d (
     OH_CALL_ABI h ''get_dimi_info'' SA_ERR_HPI_INVALID_CMD resourceId
       (get_dimi_info resourceId DimiNum) (\<lambda>rv out.
     release_handler h (
     ret rv (Some out))))))))))))"

definition saHpiDimiTestInfoGet ::
    "(u32 \<Rightarrow> u32 \<Rightarrow> u32 \<Rightarrow> SaErrorT \<times> u8 list) \<Rightarrow> u32 \<Rightarrow> u32 \<Rightarrow> u32 \<Rightarrow> u32 \<Rightarrow> bool \<Rightarrow> hpi \<Rightarrow> (u8 list)
       hpi_result"
where
  "saHpiDimiTestInfoGet get_dimi_test SessionId resourceId DimiNum TestNum DimiTest =
     return_if (\<not> DimiTest) SA_ERR_HPI_INVALID_PARAMS (
     OH_CHECK_INIT_STATE SessionId (
     OH_GET_DID SessionId (\<lambda>did.
     OH_GET_DOMAIN did (\<lambda>d.
     OH_RESOURCE_GET_CHECK d resourceId (\<lambda>rpte.
     fail_if (lacks rpte SAHPI_CAPABILITY_DIMI) d SA_ERR_HPI_CAPABILITY (
     RDR_GET d resourceId SAHPI_DIMI_RDR DimiNum (\<lambda>rdr_cur.
     OH_HANDLER_GET d resourceId (\<lambda>h.
     release_domain d (
     OH_CALL_ABI h ''get_dimi_test'' SA_ERR_HPI_INVALID_CMD resourceId
       (get_dimi_test resourceId DimiNum TestNum) (\<lambda>rv out.
     release_handler h (
     ret rv (Some out))))))))))))"

definition saHpiDimiTestReadinessGet ::
    "(u32 \<Rightarrow> u32 \<Rightarrow> u32 \<Rightarrow> SaErrorT \<times> u32) \<Rightarrow> u32 \<Rightarrow> u32 \<Rightarrow> u32 \<Rightarrow> u32 \<Rightarrow> bool \<Rightarrow> hpi \<Rightarrow> u32 hpi_result"
where
  "saHpiDimiTestReadinessGet get_dimi_test_ready SessionId resourceId DimiNum TestNum
     DimiReady =
     return_if (\<not> DimiReady) SA_ERR_HPI_INVALID_PARAMS (
     OH_CHECK_INIT_STATE SessionId (
     OH_GET_DID SessionId (\<lambda>did.
     OH_GET_DOMAIN did (\<lambda>d.
     OH_RESOURCE_GET_CHECK d resourceId (\<lambda>rpte.
     fail_if (lacks rpte SAHPI_CAPABILITY_DIMI) d SA_ERR_HPI_CAPABILITY (
     RDR_GET d resourceId SAHPI_DIMI_RDR DimiNum (\<lambda>rdr_cur.
     OH_HANDLER_GET d resourceId (\<lambda>h.
     release_domain d (
     OH_CALL_ABI h ''get_dimi_test_ready'' SA_ERR_HPI_INVALID_CMD resourceId
       (get_dimi_test_ready resourceId DimiNum TestNum) (\<lambda>rv out.
     release_handler h (
     ret rv (Some out))))))))))))"

definition saHpiDimiTestStart ::
    "(u32 \<Rightarrow> u32 \<Rightarrow> u32 \<Rightarrow> u8 \<Rightarrow> u8 list option \<Rightarrow> SaErrorT) \<Rightarrow> u32 \<Rightarrow> u32 \<Rightarrow> u32 \<Rightarrow> u32 \<Rightarrow> u8 \<Rightarrow> u8
       list option \<Rightarrow> hpi \<Rightarrow> unit hpi_result"
where
  "saHpiDimiTestStart start_dimi_test SessionId resourceId DimiNum TestNum NumberOfParams
     ParamsList =
     return_if (ParamsList = None \<and> NumberOfParams \<noteq> 0) SA_ERR_HPI_INVALID_PARAMS (
     OH_CHECK_INIT_STATE SessionId (
     OH_GET_DID SessionId (\<lambda>did.
     OH_GET_DOMAIN did (\<lambda>d.
     OH_RESOURCE_GET_CHECK d resourceId (\<lambda>rpte.
     fail_if (lacks rpte SAHPI_CAPABILITY_DIMI) d SA_ERR_HPI_CAPABILITY (
     RDR_GET d resourceId SAHPI_DIMI_RDR DimiNum (\<lambda>rdr_cur.
     OH_HANDLER_GET d resourceId (\<lambda>h.
     release_domain d (
     OH_CALL_ABI h ''start_dimi_test'' SA_ERR_HPI_INVALID_CMD resourceId
       (start_dimi_test resourceId DimiNum TestNum NumberOfParams ParamsList, ()) (\<lambda>rv _.
     release_handler h (
     ret rv None)))))))))))"

definition saHpiDimiTestCancel ::
    "(u32 \<Rightarrow> u32 \<Rightarrow> u32 \<Rightarrow> SaErrorT) \<Rightarrow> u32 \<Rightarrow> u32 \<Rightarrow> u32 \<Rightarrow> u32 \<Rightarrow> hpi \<Rightarrow> unit hpi_result"
where
  "saHpiDimiTestCancel cancel_dimi_test SessionId resourceId DimiNum TestNum =
     OH_CHECK_INIT_STATE SessionId (
     OH_GET_DID SessionId (\<lambda>did.
     OH_GET_DOMAIN did (\<lambda>d.
     OH_RESOURCE_GET_CHECK d resourceId (\<lambda>rpte.
     fail_if (lacks rpte SAHPI_CAPABILITY_DIMI) d SA_ERR_HPI_CAPABILITY (
     RDR_GET d resourceId SAHPI_DIMI_RDR DimiNum (\<lambda>rdr_cur.
     OH_HANDLER_GET d resourceId (\<lambda>h.
     release_domain d (
     OH_CALL_ABI h ''cancel_dimi_test'' SA_ERR_HPI_INVALID_CMD resourceId
       (cancel_dimi_test resourceId DimiNum TestNum, ()) (\<lambda>rv _.
     release_handler h (
     ret rv None))))))))))"

definition saHpiDimiTestStatusGet ::
    "(u32 \<Rightarrow> u32 \<Rightarrow> u32 \<Rightarrow> SaErrorT \<times> u8 \<times> u8 list) \<Rightarrow> u32 \<Rightarrow> u32 \<Rightarrow> u32 \<Rightarrow> u32 \<Rightarrow> bool \<Rightarrow> bool \<Rightarrow> hpi
       \<Rightarrow> (u8 \<times> u8 list) hpi_result"
where
  "saHpiDimiTestStatusGet get_dimi_test_status SessionId resourceId DimiNum TestNum
     PercentCompleted RunStatus =
     return_if (\<not> RunStatus) SA_ERR_HPI_INVALID_PARAMS (
     OH_CHECK_INIT_STATE SessionId (
     OH_GET_DID SessionId (\<lambda>did.
     OH_GET_DOMAIN did (\<lambda>d.
     OH_RESOURCE_GET_CHECK d resourceId (\<lambda>rpte.
     fail_if (lacks rpte SAHPI_CAPABILITY_DIMI) d SA_ERR_HPI_CAPABILITY (
     RDR_GET d resourceId SAHPI_DIMI_RDR DimiNum (\<lambda>rdr_cur.
     OH_HANDLER_GET d resourceId (\<lambda>h.
     release_domain d (
     OH_CALL_ABI h ''get_dimi_test_status'' SA_ERR_HPI_INVALID_CMD resourceId
       (get_dimi_test_status resourceId DimiNum TestNum) (\<lambda>rv out.
     release_handler h (
     ret rv (Some out))))))))))))"

definition saHpiDimiTestResultsGet ::
    "(u32 \<Rightarrow> u32 \<Rightarrow> u32 \<Rightarrow> SaErrorT \<times> u8 list) \<Rightarrow> u32 \<Rightarrow> u32 \<Rightarrow> u32 \<Rightarrow> u32 \<Rightarrow> bool \<Rightarrow> hpi \<Rightarrow> (u8 list)
       hpi_result"
where
  "saHpiDimiTestResultsGet get_dimi_test_results SessionId resourceId DimiNum TestNum
     TestResults =
     return_if (\<not> TestResults) SA_ERR_HPI_INVALID_PARAMS (
     OH_CHECK_INIT_STATE SessionId (
     OH_GET_DID SessionId (\<lambda>did.
     OH_GET_DOMAIN did (\<lambda>d.
     OH_RESOURCE_GET_CHECK d resourceId (\<lambda>rpte.
     fail_if (lacks rpte SAHPI_CAPABILITY_DIMI) d SA_ERR_HPI_CAPABILITY (
     RDR_GET d resourceId SAHPI_DIMI_RDR DimiNum (\<lambda>rdr_cur.
     OH_HANDLER_GET d resourceId (\<lambda>h.
     release_domain d (
     OH_CALL_ABI h ''get_dimi_test_results'' SA_ERR_HPI_INVALID_CMD resourceId
       (get_dimi_test_results resourceId DimiNum TestNum) (\<lambda>rv out.
     release_handler h (
     ret rv (Some out))))))))))))"

end
