(* ===== verification/HpiFumi.thy ===== *)
theory HpiFumi
  imports HpiInventory
begin

text \<open>The HPI functions on firmware upgrades (\<^verbatim>\<open>openhpid/safhpi.c\<close>, \<open>saHpiFumiSpecInfoGet\<close> to
  \<open>saHpiFumiCleanup\<close>).\<close>

record SaHpiFumiSourceInfoT =
  SourceUri :: SaHpiTextBufferT
  SourceStatus :: u32
  Identifier :: SaHpiTextBufferT
  Description :: SaHpiTextBufferT
  DateTime :: SaHpiTextBufferT
  MajorVersion :: u32
  MinorVersion :: u32
  AuxVersion :: u32

section \<open>Sources and targets\<close>

definition saHpiFumiSpecInfoGet ::
    "(u32 \<Rightarrow> u32 \<Rightarrow> SaErrorT \<times> u8 list) \<Rightarrow> u32 \<Rightarrow> u32 \<Rightarrow> u32 \<Rightarrow> bool \<Rightarrow> hpi \<Rightarrow> (u8 list) hpi_result"
where
  "saHpiFumiSpecInfoGet get_fumi_spec SessionId resourceId FumiNum SpecInfo =
     return_if (\<not> SpecInfo) SA_ERR_HPI_INVALID_PARAMS (
     OH_CHECK_INIT_STATE SessionId (
     OH_GET_DID SessionId (\<lambda>did.
     OH_GET_DOMAIN did (\<lambda>d.
     OH_RESOURCE_GET_CHECK d resourceId (\<lambda>rpte.
     fail_if (lacks rpte SAHPI_CAPABILITY_FUMI) d SA_ERR_HPI_CAPABILITY (
     RDR_GET d resourceId SAHPI_FUMI_RDR FumiNum (\<lambda>rdr_cur.
     OH_HANDLER_GET d resourceId (\<lambda>h.
     release_domain d (
     OH_CALL_ABI h ''get_fumi_spec'' SA_ERR_HPI_INVALID_CMD resourceId
       (get_fumi_spec resourceId FumiNum) (\<lambda>rv out.
     release_handler h (
     ret rv (Some out))))))))))))"

definition saHpiFumiServiceImpactGet ::
    "(u32 \<Rightarrow> u32 \<Rightarrow> SaErrorT \<times> u8 list) \<Rightarrow> u32 \<Rightarrow> u32 \<Rightarrow> u32 \<Rightarrow> bool \<Rightarrow> hpi \<Rightarrow> (u8 list) hpi_result"
where
  "saHpiFumiServiceImpactGet get_fumi_service_impact SessionId resourceId FumiNum
     ServiceImpact =
     return_if (\<not> ServiceImpact) SA_ERR_HPI_INVALID_PARAMS (
     OH_CHECK_INIT_STATE SessionId (
     OH_GET_DID SessionId (\<lambda>did.
     OH_GET_DOMAIN did (\<lambda>d.
     OH_RESOURCE_GET_CHECK d resourceId (\<lambda>rpte.
     fail_if (lacks rpte SAHPI_CAPABILITY_FUMI) d SA_ERR_HPI_CAPABILITY (
     RDR_GET d resourceId SAHPI_FUMI_RDR FumiNum (\<lambda>rdr_cur.
     OH_HANDLER_GET d resourceId (\<lambda>h.
     release_domain d (
     OH_CALL_ABI h ''get_fumi_service_impact'' SA_ERR_HPI_INVALID_CMD resourceId
       (get_fumi_service_impact resourceId FumiNum) (\<lambda>rv out.
     release_handler h (
     ret rv (Some out))))))))))))"

definition saHpiFumiSourceSet ::
    "(u32 \<Rightarrow> u32 \<Rightarrow> u8 \<Rightarrow> SaHpiTextBufferT \<Rightarrow> SaErrorT) \<Rightarrow> u32 \<Rightarrow> u32 \<Rightarrow> u32 \<Rightarrow> u8 \<Rightarrow>
       SaHpiTextBufferT option \<Rightarrow> hpi \<Rightarrow> unit hpi_result"
where
  "saHpiFumiSourceSet set_fumi_source SessionId resourceId FumiNum BankNum uri =
     return_if (case uri of None \<Rightarrow> True | Some t \<Rightarrow> DataType t \<noteq> SAHPI_TL_TYPE_TEXT)
       SA_ERR_HPI_INVALID_PARAMS (
     OH_CHECK_INIT_STATE SessionId (
     OH_GET_DID SessionId (\<lambda>did.
     OH_GET_DOMAIN did (\<lambda>d.
     OH_RESOURCE_GET_CHECK d resourceId (\<lambda>rpte.
     fail_if (lacks rpte SAHPI_CAPABILITY_FUMI) d SA_ERR_HPI_CAPABILITY (
     RDR_GET d resourceId SAHPI_FUMI_RDR FumiNum (\<lambda>rdr_cur.
     OH_HANDLER_GET d resourceId (\<lambda>h.
     release_domain d (
     OH_CALL_ABI h ''set_fumi_source'' SA_ERR_HPI_INVALID_CMD resourceId
       (set_fumi_source resourceId FumiNum BankNum (the uri), ()) (\<lambda>rv _.
     release_handler h (
     ret rv None)))))))))))"

definition saHpiFumiSourceInfoValidateStart ::
    "(u32 \<Rightarrow> u32 \<Rightarrow> u8 \<Rightarrow> SaErrorT) \<Rightarrow> u32 \<Rightarrow> u32 \<Rightarrow> u32 \<Rightarrow> u8 \<Rightarrow> hpi \<Rightarrow> unit hpi_result"
where
  "saHpiFumiSourceInfoValidateStart validate_fumi_source SessionId resourceId FumiNum
     BankNum =
     OH_CHECK_INIT_STATE SessionId (
     OH_GET_DID SessionId (\<lambda>did.
     OH_GET_DOMAIN did (\<lambda>d.
     OH_RESOURCE_GET_CHECK d resourceId (\<lambda>rpte.
     fail_if (lacks rpte SAHPI_CAPABILITY_FUMI) d SA_ERR_HPI_CAPABILITY (
     RDR_GET d resourceId SAHPI_FUMI_RDR FumiNum (\<lambda>rdr_cur.
     OH_HANDLER_GET d resourceId (\<lambda>h.
     release_domain d (
     OH_CALL_ABI h ''validate_fumi_source'' SA_ERR_HPI_INVALID_CMD resourceId
       (validate_fumi_source resourceId FumiNum BankNum, ()) (\<lambda>rv _.
     release_handler h (
     ret rv None))))))))))"

definition saHpiFumiSourceInfoGet ::
    "(u32 \<Rightarrow> u32 \<Rightarrow> u8 \<Rightarrow> SaErrorT \<times> SaHpiFumiSourceInfoT) \<Rightarrow> u32 \<Rightarrow> u32 \<Rightarrow> u32 \<Rightarrow> u8 \<Rightarrow> bool \<Rightarrow> hpi \<Rightarrow>
       SaHpiFumiSourceInfoT hpi_result"
where
  "saHpiFumiSourceInfoGet get_fumi_source SessionId resourceId FumiNum BankNum SourceInfo =
     return_if (\<not> SourceInfo) SA_ERR_HPI_INVALID_PARAMS (
     OH_CHECK_INIT_STATE SessionId (
     OH_GET_DID SessionId (\<lambda>did.
     OH_GET_DOMAIN did (\<lambda>d.
     OH_RESOURCE_GET_CHECK d resourceId (\<lambda>rpte.
     fail_if (lacks rpte SAHPI_CAPABILITY_FUMI) d SA_ERR_HPI_CAPABILITY (
     RDR_GET d resourceId SAHPI_FUMI_RDR FumiNum (\<lambda>rdr_cur.
     OH_HANDLER_GET d resourceId (\<lambda>h.
     release_domain d (
     OH_CALL_ABI h ''get_fumi_source'' SA_ERR_HPI_INVALID_CMD resourceId
       (get_fumi_source resourceId FumiNum BankNum) (\<lambda>rv out.
     release_handler h (
     ret rv (Some out))))))))))))"

definition saHpiFumiSourceComponentInfoGet ::
    "(u32 \<Rightarrow> u32 \<Rightarrow> u8 \<Rightarrow> u32 \<Rightarrow> SaErrorT \<times> u32 \<times> u8 list) \<Rightarrow> u32 \<Rightarrow> u32 \<Rightarrow> u32 \<Rightarrow> u8 \<Rightarrow> u32 \<Rightarrow> bool \<Rightarrow>
       bool \<Rightarrow> hpi \<Rightarrow> (u32 \<times> u8 list) hpi_result"
where
  "saHpiFumiSourceComponentInfoGet get_fumi_source_component SessionId resourceId FumiNum
     BankNum ComponentEntryId NextComponentEntryId ComponentInfo =
     return_if (\<not> NextComponentEntryId \<or> \<not> ComponentInfo) SA_ERR_HPI_INVALID_PARAMS (
     return_if (ComponentEntryId = SAHPI_LAST_ENTRY) SA_ERR_HPI_INVALID_PARAMS (
     OH_CHECK_INIT_STATE SessionId (
     OH_GET_DID SessionId (\<lambda>did.
     OH_GET_DOMAIN did (\<lambda>d.
     OH_RESOURCE_GET_CHECK d resourceId (\<lambda>rpte.
     fail_if (lacks rpte SAHPI_CAPABILITY_FUMI) d SA_ERR_HPI_CAPABILITY (
     RDR_GET d resourceId SAHPI_FUMI_RDR FumiNum (\<lambda>rdr_cur.
     fail_if (fumi_lacks rdr_cur SAHPI_FUMI_CAP_COMPONENTS) d SA_ERR_HPI_CAPABILITY (
     OH_HANDLER_GET d resourceId (\<lambda>h.
     release_domain d (
     OH_CALL_ABI h ''get_fumi_source_component'' SA_ERR_HPI_INVALID_CMD resourceId
       (get_fumi_source_component resourceId FumiNum BankNum ComponentEntryId) (\<lambda>rv out.
     release_handler h (
     ret rv (Some out))))))))))))))"

definition saHpiFumiTargetInfoGet ::
    "(u32 \<Rightarrow> u32 \<Rightarrow> u8 \<Rightarrow> SaErrorT \<times> u8 list) \<Rightarrow> u32 \<Rightarrow> u32 \<Rightarrow> u32 \<Rightarrow> u8 \<Rightarrow> bool \<Rightarrow> hpi \<Rightarrow> (u8 list)
       hpi_result"
where
  "saHpiFumiTargetInfoGet get_fumi_target SessionId resourceId FumiNum BankNum BankInfo =
     return_if (\<not> BankInfo) SA_ERR_HPI_INVALID_PARAMS (
     OH_CHECK_INIT_STATE SessionId (
     OH_GET_DID SessionId (\<lambda>did.
     OH_GET_DOMAIN did (\<lambda>d.
     OH_RESOURCE_GET_CHECK d resourceId (\<lambda>rpte.
     fail_if (lacks rpte SAHPI_CAPABILITY_FUMI) d SA_ERR_HPI_CAPABILITY (
     RDR_GET d resourceId SAHPI_FUMI_RDR FumiNum (\<lambda>rdr_cur.
     OH_HANDLER_GET d resourceId (\<lambda>h.
     release_domain d (
     OH_CALL_ABI h ''get_fumi_target'' SA_ERR_HPI_INVALID_CMD resourceId
       (get_fumi_target resourceId FumiNum BankNum) (\<lambda>rv out.
     release_handler h (
     ret rv (Some out))))))))))))"

definition saHpiFumiTargetComponentInfoGet ::
    "(u32 \<Rightarrow> u32 \<Rightarrow> u8 \<Rightarrow> u32 \<Rightarrow> SaErrorT \<times> u32 \<times> u8 list) \<Rightarrow> u32 \<Rightarrow> u32 \<Rightarrow> u32 \<Rightarrow> u8 \<Rightarrow> u32 \<Rightarrow> bool \<Rightarrow>
       bool \<Rightarrow> hpi \<Rightarrow> (u32 \<times> u8 list) hpi_result"
where
  "saHpiFumiTargetComponentInfoGet get_fumi_target_component SessionId resourceId FumiNum
     BankNum ComponentEntryId NextComponentEntryId ComponentInfo =
     return_if (\<not> NextComponentEntryId \<or> \<not> ComponentInfo) SA_ERR_HPI_INVALID_PARAMS (
     return_if (ComponentEntryId = SAHPI_LAST_ENTRY) SA_ERR_HPI_INVALID_PARAMS (
     OH_CHECK_INIT_STATE SessionId (
     OH_GET_DID SessionId (\<lambda>did.
     OH_GET_DOMAIN did (\<lambda>d.
     OH_RESOURCE_GET_CHECK d resourceId (\<lambda>rpte.
     fail_if (lacks rpte SAHPI_CAPABILITY_FUMI) d SA_ERR_HPI_CAPABILITY (
     RDR_GET d resourceId SAHPI_FUMI_RDR FumiNum (\<lambda>rdr_cur.
     fail_if (fumi_lacks rdr_cur SAHPI_FUMI_CAP_COMPONENTS) d SA_ERR_HPI_CAPABILITY (
     OH_HANDLER_GET d resourceId (\<lambda>h.
     release_domain d (
     OH_CALL_ABI h ''get_fumi_target_component'' SA_ERR_HPI_INVALID_CMD resourceId
       (get_fumi_target_component resourceId FumiNum BankNum ComponentEntryId) (\<lambda>rv out.
     release_handler h (
     ret rv (Some out))))))))))))))"

definition saHpiFumiLogicalTargetInfoGet ::
    "(u32 \<Rightarrow> u32 \<Rightarrow> SaErrorT \<times> u8 list) \<Rightarrow> u32 \<Rightarrow> u32 \<Rightarrow> u32 \<Rightarrow> bool \<Rightarrow> hpi \<Rightarrow> (u8 list) hpi_result"
where
  "saHpiFumiLogicalTargetInfoGet get_fumi_logical_target SessionId resourceId FumiNum
     BankInfo =
     return_if (\<not> BankInfo) SA_ERR_HPI_INVALID_PARAMS (
     OH_CHECK_INIT_STATE SessionId (
     OH_GET_DID SessionId (\<lambda>did.
     OH_GET_DOMAIN did (\<lambda>d.
     OH_RESOURCE_GET_CHECK d resourceId (\<lambda>rpte.
     fail_if (lacks rpte SAHPI_CAPABILITY_FUMI) d SA_ERR_HPI_CAPABILITY (
     RDR_GET d resourceId SAHPI_FUMI_RDR FumiNum (\<lambda>rdr_cur.
     OH_HANDLER_GET d resourceId (\<lambda>h.
     release_domain d (
     OH_CALL_ABI h ''get_fumi_logical_target'' SA_ERR_HPI_INVALID_CMD resourceId
       (get_fumi_logical_target resourceId FumiNum) (\<lambda>rv out.
     release_handler h (
     ret rv (Some out))))))))))))"

definition saHpiFumiLogicalTargetComponentInfoGet ::
    "(u32 \<Rightarrow> u32 \<Rightarrow> u32 \<Rightarrow> SaErrorT \<times> u32 \<times> u8 list) \<Rightarrow> u32 \<Rightarrow> u32 \<Rightarrow> u32 \<Rightarrow> u32 \<Rightarrow> bool \<Rightarrow> bool \<Rightarrow> hpi
       \<Rightarrow> (u32 \<times> u8 list) hpi_result"
where
  "saHpiFumiLogicalTargetComponentInfoGet get_fumi_logical_target_component SessionId
     resourceId FumiNum ComponentEntryId NextComponentEntryId ComponentInfo =
     return_if (\<not> NextComponentEntryId \<or> \<not> ComponentInfo) SA_ERR_HPI_INVALID_PARAMS (
     return_if (ComponentEntryId = SAHPI_LAST_ENTRY) SA_ERR_HPI_INVALID_PARAMS (
     OH_CHECK_INIT_STATE SessionId (
     OH_GET_DID SessionId (\<lambda>did.
     OH_GET_DOMAIN did (\<lambda>d.
     OH_RESOURCE_GET_CHECK d resourceId (\<lambda>rpte.
     fail_if (lacks rpte SAHPI_CAPABILITY_FUMI) d SA_ERR_HPI_CAPABILITY (
     RDR_GET d resourceId SAHPI_FUMI_RDR FumiNum (\<lambda>rdr_cur.
     fail_if (fumi_lacks rdr_cur SAHPI_FUMI_CAP_COMPONENTS) d SA_ERR_HPI_CAPABILITY (
     OH_HANDLER_GET d resourceId (\<lambda>h.
     release_domain d (
     OH_CALL_ABI h ''get_fumi_logical_target_component'' SA_ERR_HPI_INVALID_CMD resourceId
       (get_fumi_logical_target_component resourceId FumiNum ComponentEntryId) (\<lambda>rv out.
     release_handler h (
     ret rv (Some out))))))))))))))"

section \<open>Operations\<close>

definition saHpiFumiBackupStart ::
    "(u32 \<Rightarrow> u32 \<Rightarrow> SaErrorT) \<Rightarrow> u32 \<Rightarrow> u32 \<Rightarrow> u32 \<Rightarrow> hpi \<Rightarrow> unit hpi_result"
where
  "saHpiFumiBackupStart start_fumi_backup SessionId resourceId FumiNum =
     OH_CHECK_INIT_STATE SessionId (
     OH_GET_DID SessionId (\<lambda>did.
     OH_GET_DOMAIN did (\<lambda>d.
     OH_RESOURCE_GET_CHECK d resourceId (\<lambda>rpte.
     fail_if (lacks rpte SAHPI_CAPABILITY_FUMI) d SA_ERR_HPI_CAPABILITY (
     RDR_GET d resourceId SAHPI_FUMI_RDR FumiNum (\<lambda>rdr_cur.
     fail_if (fumi_lacks rdr_cur SAHPI_FUMI_CAP_BACKUP) d SA_ERR_HPI_CAPABILITY (
     OH_HANDLER_GET d resourceId (\<lambda>h.
     release_domain d (
     OH_CALL_ABI h ''start_fumi_backup'' SA_ERR_HPI_INVALID_CMD resourceId
       (start_fumi_backup resourceId FumiNum, ()) (\<lambda>rv _.
     release_handler h (
     ret rv None)))))))))))"

definition saHpiFumiBankBootOrderSet ::
    "(u32 \<Rightarrow> u32 \<Rightarrow> u8 \<Rightarrow> u32 \<Rightarrow> SaErrorT) \<Rightarrow> u32 \<Rightarrow> u32 \<Rightarrow> u32 \<Rightarrow> u8 \<Rightarrow> u32 \<Rightarrow> hpi \<Rightarrow> unit hpi_result"
where
  "saHpiFumiBankBootOrderSet set_fumi_bank_order SessionId resourceId FumiNum BankNum
     Position =
     OH_CHECK_INIT_STATE SessionId (
     OH_GET_DID SessionId (\<lambda>did.
     OH_GET_DOMAIN did (\<lambda>d.
     OH_RESOURCE_GET_CHECK d resourceId (\<lambda>rpte.
     fail_if (lacks rpte SAHPI_CAPABILITY_FUMI) d SA_ERR_HPI_CAPABILITY (
     RDR_GET d resourceId SAHPI_FUMI_RDR FumiNum (\<lambda>rdr_cur.
     fail_if (fumi_lacks rdr_cur SAHPI_FUMI_CAP_BANKREORDER) d SA_ERR_HPI_CAPABILITY (
     OH_HANDLER_GET d resourceId (\<lambda>h.
     release_domain d (
     OH_CALL_ABI h ''set_fumi_bank_order'' SA_ERR_HPI_INVALID_CMD resourceId
       (set_fumi_bank_order resourceId FumiNum BankNum Position, ()) (\<lambda>rv _.
     release_handler h (
     ret rv None)))))))))))"

definition saHpiFumiBankCopyStart ::
    "(u32 \<Rightarrow> u32 \<Rightarrow> u8 \<Rightarrow> u8 \<Rightarrow> SaErrorT) \<Rightarrow> u32 \<Rightarrow> u32 \<Rightarrow> u32 \<Rightarrow> u8 \<Rightarrow> u8 \<Rightarrow> hpi \<Rightarrow> unit hpi_result"
where
  "saHpiFumiBankCopyStart start_fumi_bank_copy SessionId resourceId FumiNum SourceBankNum
     TargetBankNum =
     return_if (SourceBankNum = TargetBankNum) SA_ERR_HPI_INVALID_REQUEST (
     OH_CHECK_INIT_STATE SessionId (
     OH_GET_DID SessionId (\<lambda>did.
     OH_GET_DOMAIN did (\<lambda>d.
     OH_RESOURCE_GET_CHECK d resourceId (\<lambda>rpte.
     fail_if (lacks rpte SAHPI_CAPABILITY_FUMI) d SA_ERR_HPI_CAPABILITY (
     RDR_GET d resourceId SAHPI_FUMI_RDR FumiNum (\<lambda>rdr_cur.
     fail_if (fumi_lacks rdr_cur SAHPI_FUMI_CAP_BANKCOPY) d SA_ERR_HPI_CAPABILITY (
     OH_HANDLER_GET d resourceId (\<lambda>h.
     release_domain d (
     OH_CALL_ABI h ''start_fumi_bank_copy'' SA_ERR_HPI_INVALID_CMD resourceId
       (start_fumi_bank_copy resourceId FumiNum SourceBankNum TargetBankNum, ()) (\<lambda>rv _.
     release_handler h (
     ret rv None))))))))))))"

text \<open>A source that must not be installed from.\<close>

definition source_unusable :: "SaHpiFumiSourceInfoT option \<Rightarrow> bool" where
  "source_unusable sourceinfo \<longleftrightarrow>
     (case sourceinfo of
        None \<Rightarrow> False
      | Some i \<Rightarrow> SourceStatus i \<noteq> SAHPI_FUMI_SRC_VALID \<and>
                  SourceStatus i \<noteq> SAHPI_FUMI_SRC_VALIDITY_UNKNOWN)"

definition saHpiFumiInstallStart ::
    "(u32 \<Rightarrow> u32 \<Rightarrow> u8 \<Rightarrow> SaErrorT \<times> SaHpiFumiSourceInfoT) \<Rightarrow> (u32 \<Rightarrow> u32 \<Rightarrow> u8 \<Rightarrow> SaErrorT) \<Rightarrow> u32 \<Rightarrow>
       u32 \<Rightarrow> u32 \<Rightarrow> u8 \<Rightarrow> hpi \<Rightarrow> unit hpi_result"
where
  "saHpiFumiInstallStart get_fumi_source start_fumi_install SessionId resourceId FumiNum BankNum =
     OH_CHECK_INIT_STATE SessionId (
     OH_GET_DID SessionId (\<lambda>did.
     OH_GET_DOMAIN did (\<lambda>d.
     OH_RESOURCE_GET_CHECK d resourceId (\<lambda>rpte.
     fail_if (lacks rpte SAHPI_CAPABILITY_FUMI) d SA_ERR_HPI_CAPABILITY (
     RDR_GET d resourceId SAHPI_FUMI_RDR FumiNum (\<lambda>rdr_cur.
     call_hpi (saHpiFumiSourceInfoGet get_fumi_source SessionId resourceId FumiNum BankNum True)
       (\<lambda>error sourceinfo.
     fail_if (error \<noteq> SA_OK) d error (
     fail_if (source_unusable sourceinfo) d SA_ERR_HPI_INVALID_REQUEST (
     OH_HANDLER_GET d resourceId (\<lambda>h.
     release_domain d (
     OH_CALL_ABI h ''start_fumi_install'' SA_ERR_HPI_INVALID_CMD resourceId
       (start_fumi_install resourceId FumiNum BankNum, ()) (\<lambda>rv _.
     release_handler h (
     ret rv None)))))))))))))"

definition saHpiFumiUpgradeStatusGet ::
    "(u32 \<Rightarrow> u32 \<Rightarrow> u8 \<Rightarrow> SaErrorT \<times> u32) \<Rightarrow> u32 \<Rightarrow> u32 \<Rightarrow> u32 \<Rightarrow> u8 \<Rightarrow> bool \<Rightarrow> hpi \<Rightarrow> u32 hpi_result"
where
  "saHpiFumiUpgradeStatusGet get_fumi_status SessionId resourceId FumiNum BankNum
     UpgradeStatus =
     return_if (\<not> UpgradeStatus) SA_ERR_HPI_INVALID_PARAMS (
     OH_CHECK_INIT_STATE SessionId (
     OH_GET_DID SessionId (\<lambda>did.
     OH_GET_DOMAIN did (\<lambda>d.
     OH_RESOURCE_GET_CHECK d resourceId (\<lambda>rpte.
     fail_if (lacks rpte SAHPI_CAPABILITY_FUMI) d SA_ERR_HPI_CAPABILITY (
     RDR_GET d resourceId SAHPI_FUMI_RDR FumiNum (\<lambda>rdr_cur.
     OH_HANDLER_GET d resourceId (\<lambda>h.
     release_domain d (
     OH_CALL_ABI h ''get_fumi_status'' SA_ERR_HPI_INVALID_CMD resourceId
       (get_fumi_status resourceId FumiNum BankNum) (\<lambda>rv out.
     release_handler h (
     ret rv (Some out))))))))))))"

definition saHpiFumiTargetVerifyStart ::
    "(u32 \<Rightarrow> u32 \<Rightarrow> u8 \<Rightarrow> SaErrorT \<times> SaHpiFumiSourceInfoT) \<Rightarrow> (u32 \<Rightarrow> u32 \<Rightarrow> u8 \<Rightarrow> SaErrorT) \<Rightarrow> u32 \<Rightarrow>
       u32 \<Rightarrow> u32 \<Rightarrow> u8 \<Rightarrow> hpi \<Rightarrow> unit hpi_result"
where
  "saHpiFumiTargetVerifyStart get_fumi_source start_fumi_verify SessionId resourceId FumiNum
     BankNum =
     OH_CHECK_INIT_STATE SessionId (
     OH_GET_DID SessionId (\<lambda>did.
     OH_GET_DOMAIN did (\<lambda>d.
     OH_RESOURCE_GET_CHECK d resourceId (\<lambda>rpte.
     fail_if (lacks rpte SAHPI_CAPABILITY_FUMI) d SA_ERR_HPI_CAPABILITY (
     RDR_GET d resourceId SAHPI_FUMI_RDR FumiNum (\<lambda>rdr_cur.
     fail_if (fumi_lacks rdr_cur SAHPI_FUMI_CAP_TARGET_VERIFY) d SA_ERR_HPI_CAPABILITY (
     call_hpi (saHpiFumiSourceInfoGet get_fumi_source SessionId resourceId FumiNum BankNum True)
       (\<lambda>error sourceinfo.
     fail_if (error \<noteq> SA_OK) d error (
     fail_if (source_unusable sourceinfo) d SA_ERR_HPI_INVALID_REQUEST (
     OH_HANDLER_GET d resourceId (\<lambda>h.
     release_domain d (
     OH_CALL_ABI h ''start_fumi_verify'' SA_ERR_HPI_INVALID_CMD resourceId
       (start_fumi_verify resourceId FumiNum BankNum, ()) (\<lambda>rv _.
     release_handler h (
     ret rv None))))))))))))))"

definition saHpiFumiTargetVerifyMainStart ::
    "(u32 \<Rightarrow> u32 \<Rightarrow> u8 \<Rightarrow> SaErrorT \<times> SaHpiFumiSourceInfoT) \<Rightarrow> (u32 \<Rightarrow> u32 \<Rightarrow> SaErrorT) \<Rightarrow> u32 \<Rightarrow> u32 \<Rightarrow>
       u32 \<Rightarrow> hpi \<Rightarrow> unit hpi_result"
where
  "saHpiFumiTargetVerifyMainStart get_fumi_source start_fumi_verify_main SessionId resourceId
     FumiNum =
     OH_CHECK_INIT_STATE SessionId (
     OH_GET_DID SessionId (\<lambda>did.
     OH_GET_DOMAIN did (\<lambda>d.
     OH_RESOURCE_GET_CHECK d resourceId (\<lambda>rpte.
     fail_if (lacks rpte SAHPI_CAPABILITY_FUMI) d SA_ERR_HPI_CAPABILITY (
     RDR_GET d resourceId SAHPI_FUMI_RDR FumiNum (\<lambda>rdr_cur.
     fail_if (fumi_lacks rdr_cur SAHPI_FUMI_CAP_TARGET_VERIFY_MAIN) d SA_ERR_HPI_CAPABILITY (
     call_hpi (saHpiFumiSourceInfoGet get_fumi_source SessionId resourceId FumiNum 0 True)
       (\<lambda>error sourceinfo.
     fail_if (error \<noteq> SA_OK) d error (
     fail_if (source_unusable sourceinfo) d SA_ERR_HPI_INVALID_REQUEST (
     OH_HANDLER_GET d resourceId (\<lambda>h.
     release_domain d (
     OH_CALL_ABI h ''start_fumi_verify_main'' SA_ERR_HPI_INVALID_CMD resourceId
       (start_fumi_verify_main resourceId FumiNum, ()) (\<lambda>rv _.
     release_handler h (
     ret rv None))))))))))))))"

definition saHpiFumiUpgradeCancel ::
    "(u32 \<Rightarrow> u32 \<Rightarrow> u8 \<Rightarrow> SaErrorT) \<Rightarrow> u32 \<Rightarrow> u32 \<Rightarrow> u32 \<Rightarrow> u8 \<Rightarrow> hpi \<Rightarrow> unit hpi_result"
where
  "saHpiFumiUpgradeCancel cancel_fumi_upgrade SessionId resourceId FumiNum BankNum =
     OH_CHECK_INIT_STATE SessionId (
     OH_GET_DID SessionId (\<lambda>did.
     OH_GET_DOMAIN did (\<lambda>d.
     OH_RESOURCE_GET_CHECK d resourceId (\<lambda>rpte.
     fail_if (lacks rpte SAHPI_CAPABILITY_FUMI) d SA_ERR_HPI_CAPABILITY (
     RDR_GET d resourceId SAHPI_FUMI_RDR FumiNum (\<lambda>rdr_cur.
     OH_HANDLER_GET d resourceId (\<lambda>h.
     release_domain d (
     OH_CALL_ABI h ''cancel_fumi_upgrade'' SA_ERR_HPI_INVALID_CMD resourceId
       (cancel_fumi_upgrade resourceId FumiNum BankNum, ()) (\<lambda>rv _.
     release_handler h (
     ret rv None))))))))))"

definition saHpiFumiAutoRollbackDisableGet ::
    "(u32 \<Rightarrow> u32 \<Rightarrow> SaErrorT \<times> bool) \<Rightarrow> u32 \<Rightarrow> u32 \<Rightarrow> u32 \<Rightarrow> bool \<Rightarrow> hpi \<Rightarrow> bool hpi_result"
where
  "saHpiFumiAutoRollbackDisableGet get_fumi_autorollback_disable SessionId resourceId
     FumiNum Disable =
     return_if (\<not> Disable) SA_ERR_HPI_INVALID_PARAMS (
     OH_CHECK_INIT_STATE SessionId (
     OH_GET_DID SessionId (\<lambda>did.
     OH_GET_DOMAIN did (\<lambda>d.
     OH_RESOURCE_GET_CHECK d resourceId (\<lambda>rpte.
     fail_if (lacks rpte SAHPI_CAPABILITY_FUMI) d SA_ERR_HPI_CAPABILITY (
     RDR_GET d resourceId SAHPI_FUMI_RDR FumiNum (\<lambda>rdr_cur.
     fail_if (fumi_lacks rdr_cur SAHPI_FUMI_CAP_AUTOROLLBACK) d SA_ERR_HPI_CAPABILITY (
     OH_HANDLER_GET d resourceId (\<lambda>h.
     release_domain d (
     OH_CALL_ABI h ''get_fumi_autorollback_disable'' SA_ERR_HPI_INVALID_CMD resourceId
       (get_fumi_autorollback_disable resourceId FumiNum) (\<lambda>rv out.
     release_handler h (
     ret rv (Some out)))))))))))))"

definition saHpiFumiAutoRollbackDisableSet ::
    "(u32 \<Rightarrow> u32 \<Rightarrow> bool \<Rightarrow> SaErrorT) \<Rightarrow> u32 \<Rightarrow> u32 \<Rightarrow> u32 \<Rightarrow> bool \<Rightarrow> hpi \<Rightarrow> unit hpi_result"
where
  "saHpiFumiAutoRollbackDisableSet set_fumi_autorollback_disable SessionId resourceId
     FumiNum Disable =
     OH_CHECK_INIT_STATE SessionId (
     OH_GET_DID SessionId (\<lambda>did.
     OH_GET_DOMAIN did (\<lambda>d.
     OH_RESOURCE_GET_CHECK d resourceId (\<lambda>rpte.
     fail_if (lacks rpte SAHPI_CAPABILITY_FUMI) d SA_ERR_HPI_CAPABILITY (
     RDR_GET d resourceId SAHPI_FUMI_RDR FumiNum (\<lambda>rdr_cur.
     fail_if (fumi_lacks rdr_cur SAHPI_FUMI_CAP_AUTOROLLBACK) d SA_ERR_HPI_CAPABILITY (
     fail_if (fumi_lacks rdr_cur SAHPI_FUMI_CAP_AUTOROLLBACK_CAN_BE_DISABLED) d
       SA_ERR_HPI_CAPABILITY (
     OH_HANDLER_GET d resourceId (\<lambda>h.
     release_domain d (
     OH_CALL_ABI h ''set_fumi_autorollback_disable'' SA_ERR_HPI_INVALID_CMD resourceId
       (set_fumi_autorollback_disable resourceId FumiNum Disable, ()) (\<lambda>rv _.
     release_handler h (
     ret rv None))))))))))))"

definition saHpiFumiRollbackStart ::
    "(u32 \<Rightarrow> u32 \<Rightarrow> SaErrorT) \<Rightarrow> u32 \<Rightarrow> u32 \<Rightarrow> u32 \<Rightarrow> hpi \<Rightarrow> unit hpi_result"
where
  "saHpiFumiRollbackStart start_fumi_rollback SessionId resourceId FumiNum =
     OH_CHECK_INIT_STATE SessionId (
     OH_GET_DID SessionId (\<lambda>did.
     OH_GET_DOMAIN did (\<lambda>d.
     OH_RESOURCE_GET_CHECK d resourceId (\<lambda>rpte.
     fail_if (lacks rpte SAHPI_CAPABILITY_FUMI) d SA_ERR_HPI_CAPABILITY (
     RDR_GET d resourceId SAHPI_FUMI_RDR FumiNum (\<lambda>rdr_cur.
     fail_if (fumi_lacks rdr_cur SAHPI_FUMI_CAP_ROLLBACK) d SA_ERR_HPI_CAPABILITY (
     OH_HANDLER_GET d resourceId (\<lambda>h.
     release_domain d (
     OH_CALL_ABI h ''start_fumi_rollback'' SA_ERR_HPI_INVALID_CMD resourceId
       (start_fumi_rollback resourceId FumiNum, ()) (\<lambda>rv _.
     release_handler h (
     ret rv None)))))))))))"

definition saHpiFumiActivate ::
    "(u32 \<Rightarrow> u32 \<Rightarrow> SaErrorT) \<Rightarrow> u32 \<Rightarrow> u32 \<Rightarrow> u32 \<Rightarrow> hpi \<Rightarrow> unit hpi_result"
where
  "saHpiFumiActivate activate_fumi SessionId resourceId FumiNum =
     OH_CHECK_INIT_STATE SessionId (
     OH_GET_DID SessionId (\<lambda>did.
     OH_GET_DOMAIN did (\<lambda>d.
     OH_RESOURCE_GET_CHECK d resourceId (\<lambda>rpte.
     fail_if (lacks rpte SAHPI_CAPABILITY_FUMI) d SA_ERR_HPI_CAPABILITY (
     RDR_GET d resourceId SAHPI_FUMI_RDR FumiNum (\<lambda>rdr_cur.
     OH_HANDLER_GET d resourceId (\<lambda>h.
     release_domain d (
     OH_CALL_ABI h ''activate_fumi'' SA_ERR_HPI_INVALID_CMD resourceId
       (activate_fumi resourceId FumiNum, ()) (\<lambda>rv _.
     release_handler h (
     ret rv None))))))))))"

definition saHpiFumiActivateStart ::
    "(u32 \<Rightarrow> u32 \<Rightarrow> bool \<Rightarrow> SaErrorT) \<Rightarrow> u32 \<Rightarrow> u32 \<Rightarrow> u32 \<Rightarrow> bool \<Rightarrow> hpi \<Rightarrow> unit hpi_result"
where
  "saHpiFumiActivateStart start_fumi_activate SessionId resourceId FumiNum Logical =
     OH_CHECK_INIT_STATE SessionId (
     OH_GET_DID SessionId (\<lambda>did.
     OH_GET_DOMAIN did (\<lambda>d.
     OH_RESOURCE_GET_CHECK d resourceId (\<lambda>rpte.
     fail_if (lacks rpte SAHPI_CAPABILITY_FUMI) d SA_ERR_HPI_CAPABILITY (
     RDR_GET d resourceId SAHPI_FUMI_RDR FumiNum (\<lambda>rdr_cur.
     OH_HANDLER_GET d resourceId (\<lambda>h.
     release_domain d (
     OH_CALL_ABI h ''start_fumi_activate'' SA_ERR_HPI_INVALID_CMD resourceId
       (start_fumi_activate resourceId FumiNum Logical, ()) (\<lambda>rv _.
     release_handler h (
     ret rv None))))))))))"

definition saHpiFumiCleanup ::
    "(u32 \<Rightarrow> u32 \<Rightarrow> u8 \<Rightarrow> SaErrorT) \<Rightarrow> u32 \<Rightarrow> u32 \<Rightarrow> u32 \<Rightarrow> u8 \<Rightarrow> hpi \<Rightarrow> unit hpi_result"
where
  "saHpiFumiCleanup cleanup_fumi SessionId resourceId FumiNum BankNum =
     OH_CHECK_INIT_STATE SessionId (
     OH_GET_DID SessionId (\<lambda>did.
     OH_GET_DOMAIN did (\<lambda>d.
     OH_RESOURCE_GET_CHECK d resourceId (\<lambda>rpte.
     fail_if (lacks rpte SAHPI_CAPABILITY_FUMI) d SA_ERR_HPI_CAPABILITY (
     RDR_GET d resourceId SAHPI_FUMI_RDR FumiNum (\<lambda>rdr_cur.
     OH_HANDLER_GET d resourceId (\<lambda>h.
     release_domain d (
     OH_CALL_ABI h ''cleanup_fumi'' SA_ERR_HPI_INVALID_CMD resourceId
       (cleanup_fumi resourceId FumiNum BankNum, ()) (\<lambda>rv _.
     release_handler h (
     ret rv None))))))))))"

end
