(* ===== verification/HpiHotSwap.thy ===== *)
theory HpiHotSwap
  imports HpiInventory
begin

text \<open>
  The HPI functions on hot swap, configuration, load ids, reset and power
  (\<^verbatim>\<open>openhpid/safhpi.c\<close>, from \<open>saHpiHotSwapPolicyCancel\<close> on) and \<^verbatim>\<open>openhpid/hotswap.c\<close>.
\<close>

section \<open>Transitions\<close>

definition get_hotswap_auto_insert_timeout :: "oh_domain \<Rightarrow> u64" where
  "get_hotswap_auto_insert_timeout d = d_ai_timeout d"

definition set_hotswap_auto_insert_timeout :: "u64 \<Rightarrow> oh_domain \<Rightarrow> oh_domain" where
  "set_hotswap_auto_insert_timeout timeout d = d\<lparr>d_ai_timeout := timeout\<rparr>"

fun oh_allowed_hotswap_transition :: "SaHpiHsStateT \<Rightarrow> SaHpiHsStateT \<Rightarrow> bool" where
  "oh_allowed_hotswap_transition SAHPI_HS_STATE_INACTIVE t =
     (t = SAHPI_HS_STATE_INSERTION_PENDING \<or> t = SAHPI_HS_STATE_NOT_PRESENT)"
| "oh_allowed_hotswap_transition SAHPI_HS_STATE_INSERTION_PENDING t =
     (t = SAHPI_HS_STATE_INACTIVE \<or> t = SAHPI_HS_STATE_NOT_PRESENT \<or> t = SAHPI_HS_STATE_ACTIVE)"
| "oh_allowed_hotswap_transition SAHPI_HS_STATE_ACTIVE t =
     (t = SAHPI_HS_STATE_EXTRACTION_PENDING \<or> t = SAHPI_HS_STATE_NOT_PRESENT)"
| "oh_allowed_hotswap_transition SAHPI_HS_STATE_EXTRACTION_PENDING t =
     (t = SAHPI_HS_STATE_ACTIVE \<or> t = SAHPI_HS_STATE_NOT_PRESENT \<or> t = SAHPI_HS_STATE_INACTIVE)"
| "oh_allowed_hotswap_transition SAHPI_HS_STATE_NOT_PRESENT t =
     (t = SAHPI_HS_STATE_INSERTION_PENDING)"
| "oh_allowed_hotswap_transition (SAHPI_HS_STATE_OTHER _) t = False"

section \<open>Hot swap\<close>

definition saHpiHotSwapStateGet ::
    "(u32 \<Rightarrow> SaErrorT \<times> SaHpiHsStateT) \<Rightarrow> u32 \<Rightarrow> u32 \<Rightarrow> bool \<Rightarrow> hpi \<Rightarrow> SaHpiHsStateT hpi_result"
where
  "saHpiHotSwapStateGet get_hotswap_state SessionId resourceId state =
     return_if (\<not> state) SA_ERR_HPI_INVALID_PARAMS (
     OH_CHECK_INIT_STATE SessionId (
     OH_GET_DID SessionId (\<lambda>did.
     OH_GET_DOMAIN did (\<lambda>d.
     OH_RESOURCE_GET_CHECK d resourceId (\<lambda>res.
     fail_if (lacks res SAHPI_CAPABILITY_FRU) d SA_ERR_HPI_CAPABILITY (
     OH_HANDLER_GET d resourceId (\<lambda>h.
     release_domain d (
     OH_CALL_ABI h ''get_hotswap_state'' SA_ERR_HPI_INVALID_CMD resourceId
       (get_hotswap_state resourceId) (\<lambda>rv out.
     release_handler h (
     ret rv (Some out)))))))))))"

definition saHpiHotSwapPolicyCancel ::
    "(u32 \<Rightarrow> SaErrorT \<times> SaHpiHsStateT) \<Rightarrow> (u32 \<Rightarrow> u64 \<Rightarrow> SaErrorT) \<Rightarrow> u32 \<Rightarrow> u32 \<Rightarrow> hpi \<Rightarrow>
       unit hpi_result"
where
  "saHpiHotSwapPolicyCancel get_hotswap_state hotswap_policy_cancel SessionId resourceId =
     OH_CHECK_INIT_STATE SessionId (
     OH_GET_DID SessionId (\<lambda>did.
     OH_GET_DOMAIN did (\<lambda>d.
     OH_RESOURCE_GET_CHECK d resourceId (\<lambda>res.
     fail_if (lacks res SAHPI_CAPABILITY_FRU) d SA_ERR_HPI_CAPABILITY (
     fail_if (lacks res SAHPI_CAPABILITY_MANAGED_HOTSWAP) d SA_ERR_HPI_CAPABILITY (
     call_hpi (saHpiHotSwapStateGet get_hotswap_state SessionId resourceId True)
       (\<lambda>error currentstate.
     fail_if (error \<noteq> SA_OK) d error (
     fail_if (the currentstate \<noteq> SAHPI_HS_STATE_INSERTION_PENDING \<and>
              the currentstate \<noteq> SAHPI_HS_STATE_EXTRACTION_PENDING) d SA_ERR_HPI_INVALID_REQUEST (
     OH_HANDLER_GET d resourceId (\<lambda>h st.
     let timeout = d_ai_timeout (dom_at st d)
     in release_domain d (
        OH_CALL_ABI h ''hotswap_policy_cancel'' SA_OK resourceId
          (hotswap_policy_cancel resourceId timeout, ()) (\<lambda>rv _.
        release_handler h (
        ret rv None))) st))))))))))"

definition saHpiResourceActiveSet ::
    "(u32 \<Rightarrow> SaErrorT \<times> SaHpiHsStateT) \<Rightarrow> (u32 \<Rightarrow> SaHpiHsStateT \<Rightarrow> SaErrorT) \<Rightarrow> u32 \<Rightarrow> u32 \<Rightarrow> hpi \<Rightarrow>
       unit hpi_result"
where
  "saHpiResourceActiveSet get_hotswap_state set_hotswap_state SessionId resourceId =
     OH_CHECK_INIT_STATE SessionId (
     OH_GET_DID SessionId (\<lambda>did.
     OH_GET_DOMAIN did (\<lambda>d.
     OH_RESOURCE_GET_CHECK d resourceId (\<lambda>res.
     fail_if (lacks res SAHPI_CAPABILITY_FRU) d SA_ERR_HPI_CAPABILITY (
     fail_if (lacks res SAHPI_CAPABILITY_MANAGED_HOTSWAP) d SA_ERR_HPI_CAPABILITY (
     call_hpi (saHpiHotSwapStateGet get_hotswap_state SessionId resourceId True) (\<lambda>error from.
     fail_if (error \<noteq> SA_OK) d error (
     fail_if (\<not> oh_allowed_hotswap_transition (the from) SAHPI_HS_STATE_ACTIVE) d
       SA_ERR_HPI_INVALID_REQUEST (
     OH_HANDLER_GET d resourceId (\<lambda>h.
     release_domain d (
     OH_CALL_ABI h ''set_hotswap_state'' SA_ERR_HPI_INVALID_CMD resourceId
       (set_hotswap_state resourceId SAHPI_HS_STATE_ACTIVE, ()) (\<lambda>rv _.
     release_handler h (
     ret rv None)))))))))))))"

definition saHpiResourceInactiveSet ::
    "(u32 \<Rightarrow> SaErrorT \<times> SaHpiHsStateT) \<Rightarrow> (u32 \<Rightarrow> SaHpiHsStateT \<Rightarrow> SaErrorT) \<Rightarrow> u32 \<Rightarrow> u32 \<Rightarrow> hpi \<Rightarrow>
       unit hpi_result"
where
  "saHpiResourceInactiveSet get_hotswap_state set_hotswap_state SessionId resourceId =
     OH_CHECK_INIT_STATE SessionId (
     OH_GET_DID SessionId (\<lambda>did.
     OH_GET_DOMAIN did (\<lambda>d.
     OH_RESOURCE_GET_CHECK d resourceId (\<lambda>res.
     fail_if (lacks res SAHPI_CAPABILITY_FRU) d SA_ERR_HPI_CAPABILITY (
     fail_if (lacks res SAHPI_CAPABILITY_MANAGED_HOTSWAP) d SA_ERR_HPI_CAPABILITY (
     call_hpi (saHpiHotSwapStateGet get_hotswap_state SessionId resourceId True) (\<lambda>error from.
     fail_if (error \<noteq> SA_OK) d error (
     fail_if (\<not> oh_allowed_hotswap_transition (the from) SAHPI_HS_STATE_INACTIVE) d
       SA_ERR_HPI_INVALID_REQUEST (
     OH_HANDLER_GET d resourceId (\<lambda>h.
     release_domain d (
     OH_CALL_ABI h ''set_hotswap_state'' SA_ERR_HPI_INVALID_CMD resourceId
       (set_hotswap_state resourceId SAHPI_HS_STATE_INACTIVE, ()) (\<lambda>rv _.
     release_handler h (
     ret rv None)))))))))))))"

definition saHpiAutoInsertTimeoutGet :: "u32 \<Rightarrow> bool \<Rightarrow> hpi \<Rightarrow> u64 hpi_result" where
  "saHpiAutoInsertTimeoutGet SessionId Timeout =
     return_if (\<not> Timeout) SA_ERR_HPI_INVALID_PARAMS (
     OH_CHECK_INIT_STATE SessionId (
     OH_GET_DID SessionId (\<lambda>did.
     OH_GET_DOMAIN did (\<lambda>d st.
       ret SA_OK (Some (get_hotswap_auto_insert_timeout (dom_at st d))) (release d st)))))"

text \<open>
  The different handler ids of the resources, in the order of the table. The fuel is as in
  \<open>first_match\<close>.
\<close>

fun collect_hids ::
    "nat \<Rightarrow> hpi \<Rightarrow> nat \<Rightarrow> SaHpiRptEntryT option \<Rightarrow> u32 list \<Rightarrow> u32 list option"
where
  "collect_hids n st d None hids = Some hids"
| "collect_hids 0 st d (Some r) hids = None"
| "collect_hids (Suc n) st d (Some r) hids =
     collect_hids n st d (oh_get_resource_next (d_rpt (dom_at st d)) (ResourceId r))
       (case resource_hid st d (ResourceId r) of
          None \<Rightarrow> hids
        | Some hid \<Rightarrow> if hid \<in> set hids then hids else hids @ [hid])"

definition domain_hids :: "hpi \<Rightarrow> nat \<Rightarrow> u32 list" where
  "domain_hids st d =
     (let rpt = d_rpt (dom_at st d)
      in case collect_hids (length (nt_nodes (rptab rpt))) st d
                (oh_get_resource_by_id rpt SAHPI_FIRST_ENTRY) [] of
           None \<Rightarrow> [] | Some hids \<Rightarrow> hids)"

text \<open>
  The loop over the handlers. A handler without an instance ends it, and its reference is not
  given back.
\<close>

fun push_timeout :: "(u32 \<Rightarrow> SaErrorT) \<Rightarrow> u32 list \<Rightarrow> hpi \<Rightarrow> SaErrorT \<times> hpi" where
  "push_timeout set_autoinsert_timeout [] st = (SA_OK, st)"
| "push_timeout set_autoinsert_timeout (hid # hids) st =
     (let (h, p) = oh_get_handler (plug st) hid;
          st = st\<lparr>plug := p\<rparr>
      in if (case h of None \<Rightarrow> True | Some a \<Rightarrow> instance_of p a = 0) then
           (SA_ERR_HPI_INTERNAL_ERROR, st)
         else
           let (error, st) =
                 (if fn_missing st h ''set_autoinsert_timeout'' then (SA_OK, st)
                  else (set_autoinsert_timeout hid, plugin_runs h ''set_autoinsert_timeout'' 0 st));
               st = put_handler h st
           in if error \<noteq> SA_OK then (error, st) else push_timeout set_autoinsert_timeout hids st)"

definition saHpiAutoInsertTimeoutSet ::
    "(u32 \<Rightarrow> u64 \<Rightarrow> SaErrorT) \<Rightarrow> u32 \<Rightarrow> u64 \<Rightarrow> hpi \<Rightarrow> unit hpi_result"
where
  "saHpiAutoInsertTimeoutSet set_autoinsert_timeout SessionId Timeout =
     return_if (Timeout \<noteq> SAHPI_TIMEOUT_IMMEDIATE \<and> Timeout \<noteq> SAHPI_TIMEOUT_BLOCK \<and> sint Timeout < 0)
       SA_ERR_HPI_INVALID_PARAMS (
     OH_CHECK_INIT_STATE SessionId (
     OH_GET_DID SessionId (\<lambda>did.
     OH_GET_DOMAIN did (\<lambda>d st.
       if d_capabilities (dom_at st d) AND SAHPI_DOMAIN_CAP_AUTOINSERT_READ_ONLY \<noteq> 0 then
         ret SA_ERR_HPI_READ_ONLY None (release d st)
       else
         let st = write_domain d (set_hotswap_auto_insert_timeout Timeout) st;
             hids = domain_hids st d;
             (error, st) = push_timeout (\<lambda>hid. set_autoinsert_timeout hid Timeout) hids
                             (release d st)
         in ret error None st))))"

definition saHpiAutoExtractTimeoutGet ::
    "(u32 \<Rightarrow> SaErrorT \<times> u64) \<Rightarrow> u32 \<Rightarrow> u32 \<Rightarrow> bool \<Rightarrow> hpi \<Rightarrow> u64 hpi_result"
where
  "saHpiAutoExtractTimeoutGet get_autoextract_timeout SessionId resourceId Timeout =
     return_if (\<not> Timeout) SA_ERR_HPI_INVALID_PARAMS (
     OH_CHECK_INIT_STATE SessionId (
     OH_GET_DID SessionId (\<lambda>did.
     OH_GET_DOMAIN did (\<lambda>d.
     OH_RESOURCE_GET_CHECK d resourceId (\<lambda>res.
     fail_if (lacks res SAHPI_CAPABILITY_FRU) d SA_ERR_HPI_CAPABILITY (
     fail_if (lacks res SAHPI_CAPABILITY_MANAGED_HOTSWAP) d SA_ERR_HPI_CAPABILITY (
     OH_HANDLER_GET d resourceId (\<lambda>h.
     release_domain d (
     OH_CALL_ABI h ''get_autoextract_timeout'' SA_ERR_HPI_INVALID_CMD resourceId
       (get_autoextract_timeout resourceId) (\<lambda>rv out.
     release_handler h (
     ret rv (Some out))))))))))))"

definition saHpiAutoExtractTimeoutSet ::
    "(u32 \<Rightarrow> u64 \<Rightarrow> SaErrorT) \<Rightarrow> u32 \<Rightarrow> u32 \<Rightarrow> u64 \<Rightarrow> hpi \<Rightarrow> unit hpi_result"
where
  "saHpiAutoExtractTimeoutSet set_autoextract_timeout SessionId resourceId Timeout =
     return_if (Timeout \<noteq> SAHPI_TIMEOUT_IMMEDIATE \<and> Timeout \<noteq> SAHPI_TIMEOUT_BLOCK \<and> sint
       Timeout < 0) SA_ERR_HPI_INVALID_PARAMS (
     OH_CHECK_INIT_STATE SessionId (
     OH_GET_DID SessionId (\<lambda>did.
     OH_GET_DOMAIN did (\<lambda>d.
     OH_RESOURCE_GET_CHECK d resourceId (\<lambda>res.
     fail_if (lacks res SAHPI_CAPABILITY_FRU) d SA_ERR_HPI_CAPABILITY (
     fail_if (lacks res SAHPI_CAPABILITY_MANAGED_HOTSWAP) d SA_ERR_HPI_CAPABILITY (
     OH_HANDLER_GET d resourceId (\<lambda>h.
     release_domain d (
     OH_CALL_ABI h ''set_autoextract_timeout'' SA_ERR_HPI_INVALID_CMD resourceId
       (set_autoextract_timeout resourceId Timeout, ()) (\<lambda>rv _.
     release_handler h (
     ret rv None)))))))))))"

definition saHpiHotSwapActionRequest ::
    "(u32 \<Rightarrow> SaErrorT \<times> SaHpiHsStateT) \<Rightarrow> (u32 \<Rightarrow> u32 \<Rightarrow> SaErrorT) \<Rightarrow> u32 \<Rightarrow> u32 \<Rightarrow> u32 \<Rightarrow> hpi \<Rightarrow>
       unit hpi_result"
where
  "saHpiHotSwapActionRequest get_hotswap_state request_hotswap_action SessionId resourceId Action =
     return_if (oh_lookup_hsaction Action = None) SA_ERR_HPI_INVALID_PARAMS (
     OH_CHECK_INIT_STATE SessionId (
     OH_GET_DID SessionId (\<lambda>did.
     OH_GET_DOMAIN did (\<lambda>d.
     OH_RESOURCE_GET_CHECK d resourceId (\<lambda>res.
     fail_if (lacks res SAHPI_CAPABILITY_FRU) d SA_ERR_HPI_CAPABILITY (
     fail_if (lacks res SAHPI_CAPABILITY_MANAGED_HOTSWAP) d SA_ERR_HPI_CAPABILITY (
     call_hpi (saHpiHotSwapStateGet get_hotswap_state SessionId resourceId True)
       (\<lambda>rv currentstate.
     fail_if (rv \<noteq> SA_OK) d rv (
     fail_if (Action = SAHPI_HS_ACTION_INSERTION \<and> the currentstate \<noteq> SAHPI_HS_STATE_INACTIVE \<or>
              Action = SAHPI_HS_ACTION_EXTRACTION \<and> the currentstate \<noteq> SAHPI_HS_STATE_ACTIVE) d
       SA_ERR_HPI_INVALID_REQUEST (
     OH_HANDLER_GET d resourceId (\<lambda>h.
     release_domain d (
     OH_CALL_ABI h ''request_hotswap_action'' SA_ERR_HPI_INVALID_CMD resourceId
       (request_hotswap_action resourceId Action, ()) (\<lambda>rv _.
     release_handler h (
     ret rv None))))))))))))))"

definition saHpiHotSwapIndicatorStateGet ::
    "(u32 \<Rightarrow> SaErrorT \<times> u32) \<Rightarrow> u32 \<Rightarrow> u32 \<Rightarrow> bool \<Rightarrow> hpi \<Rightarrow> u32 hpi_result"
where
  "saHpiHotSwapIndicatorStateGet get_indicator_state SessionId resourceId state =
     return_if (\<not> state) SA_ERR_HPI_INVALID_PARAMS (
     OH_CHECK_INIT_STATE SessionId (
     OH_GET_DID SessionId (\<lambda>did.
     OH_GET_DOMAIN did (\<lambda>d.
     OH_RESOURCE_GET_CHECK d resourceId (\<lambda>res.
     fail_if (lacks res SAHPI_CAPABILITY_FRU) d SA_ERR_HPI_CAPABILITY (
     fail_if (lacks res SAHPI_CAPABILITY_MANAGED_HOTSWAP) d SA_ERR_HPI_CAPABILITY (
     fail_if (lacks_hs res SAHPI_HS_CAPABILITY_INDICATOR_SUPPORTED) d SA_ERR_HPI_CAPABILITY (
     OH_HANDLER_GET d resourceId (\<lambda>h.
     release_domain d (
     OH_CALL_ABI h ''get_indicator_state'' SA_ERR_HPI_INVALID_CMD resourceId
       (get_indicator_state resourceId) (\<lambda>rv out.
     release_handler h (
     ret rv (Some out)))))))))))))"

definition saHpiHotSwapIndicatorStateSet ::
    "(u32 \<Rightarrow> u32 \<Rightarrow> SaErrorT) \<Rightarrow> u32 \<Rightarrow> u32 \<Rightarrow> u32 \<Rightarrow> hpi \<Rightarrow> unit hpi_result"
where
  "saHpiHotSwapIndicatorStateSet set_indicator_state SessionId resourceId state =
     return_if (oh_lookup_hsindicatorstate state = None) SA_ERR_HPI_INVALID_PARAMS (
     OH_CHECK_INIT_STATE SessionId (
     OH_GET_DID SessionId (\<lambda>did.
     OH_GET_DOMAIN did (\<lambda>d.
     OH_RESOURCE_GET_CHECK d resourceId (\<lambda>res.
     fail_if (lacks res SAHPI_CAPABILITY_FRU) d SA_ERR_HPI_CAPABILITY (
     fail_if (lacks res SAHPI_CAPABILITY_MANAGED_HOTSWAP) d SA_ERR_HPI_CAPABILITY (
     fail_if (lacks_hs res SAHPI_HS_CAPABILITY_INDICATOR_SUPPORTED) d SA_ERR_HPI_CAPABILITY (
     OH_HANDLER_GET d resourceId (\<lambda>h.
     release_domain d (
     OH_CALL_ABI h ''set_indicator_state'' SA_ERR_HPI_INVALID_CMD resourceId
       (set_indicator_state resourceId state, ()) (\<lambda>rv _.
     release_handler h (
     ret rv None))))))))))))"

section \<open>Configuration, load id, reset and power\<close>

definition saHpiParmControl ::
    "(u32 \<Rightarrow> u32 \<Rightarrow> SaErrorT) \<Rightarrow> u32 \<Rightarrow> u32 \<Rightarrow> u32 \<Rightarrow> hpi \<Rightarrow> unit hpi_result"
where
  "saHpiParmControl control_parm SessionId resourceId Action =
     return_if (oh_lookup_parmaction Action = None) SA_ERR_HPI_INVALID_PARAMS (
     OH_CHECK_INIT_STATE SessionId (
     OH_GET_DID SessionId (\<lambda>did.
     OH_GET_DOMAIN did (\<lambda>d.
     OH_RESOURCE_GET_CHECK d resourceId (\<lambda>res.
     fail_if (lacks res SAHPI_CAPABILITY_CONFIGURATION) d SA_ERR_HPI_CAPABILITY (
     OH_HANDLER_GET d resourceId (\<lambda>h.
     release_domain d (
     OH_CALL_ABI h ''control_parm'' SA_ERR_HPI_INVALID_CMD resourceId
       (control_parm resourceId Action, ()) (\<lambda>rv _.
     release_handler h (
     ret rv None))))))))))"

definition saHpiResourceLoadIdGet ::
    "(u32 \<Rightarrow> SaErrorT \<times> u8 list) \<Rightarrow> u32 \<Rightarrow> u32 \<Rightarrow> bool \<Rightarrow> hpi \<Rightarrow> (u8 list) hpi_result"
where
  "saHpiResourceLoadIdGet load_id_get SessionId resourceId LoadId =
     return_if (\<not> LoadId) SA_ERR_HPI_INVALID_PARAMS (
     OH_CHECK_INIT_STATE SessionId (
     OH_GET_DID SessionId (\<lambda>did.
     OH_GET_DOMAIN did (\<lambda>d.
     OH_RESOURCE_GET_CHECK d resourceId (\<lambda>rpte.
     fail_if (lacks rpte SAHPI_CAPABILITY_LOAD_ID) d SA_ERR_HPI_CAPABILITY (
     OH_HANDLER_GET d resourceId (\<lambda>h.
     release_domain d (
     OH_CALL_ABI h ''load_id_get'' SA_ERR_HPI_INTERNAL_ERROR resourceId
       (load_id_get resourceId) (\<lambda>rv out.
     release_handler h (
     ret rv (Some out)))))))))))"

definition saHpiResourceLoadIdSet ::
    "(u32 \<Rightarrow> u8 list option \<Rightarrow> SaErrorT) \<Rightarrow> u32 \<Rightarrow> u32 \<Rightarrow> u8 list option \<Rightarrow> hpi \<Rightarrow> unit hpi_result"
where
  "saHpiResourceLoadIdSet load_id_set SessionId resourceId LoadId =
     return_if (LoadId = None) SA_ERR_HPI_INVALID_PARAMS (
     OH_CHECK_INIT_STATE SessionId (
     OH_GET_DID SessionId (\<lambda>did.
     OH_GET_DOMAIN did (\<lambda>d.
     OH_RESOURCE_GET_CHECK d resourceId (\<lambda>rpte.
     fail_if (lacks rpte SAHPI_CAPABILITY_LOAD_ID) d SA_ERR_HPI_CAPABILITY (
     OH_HANDLER_GET d resourceId (\<lambda>h.
     release_domain d (
     OH_CALL_ABI h ''load_id_set'' SA_ERR_HPI_INTERNAL_ERROR resourceId
       (load_id_set resourceId LoadId, ()) (\<lambda>rv _.
     release_handler h (
     ret rv None))))))))))"

definition saHpiResourceResetStateGet ::
    "(u32 \<Rightarrow> SaErrorT \<times> u32) \<Rightarrow> u32 \<Rightarrow> u32 \<Rightarrow> bool \<Rightarrow> hpi \<Rightarrow> u32 hpi_result"
where
  "saHpiResourceResetStateGet get_reset_state SessionId resourceId ResetAction =
     return_if (\<not> ResetAction) SA_ERR_HPI_INVALID_PARAMS (
     OH_CHECK_INIT_STATE SessionId (
     OH_GET_DID SessionId (\<lambda>did.
     OH_GET_DOMAIN did (\<lambda>d.
     OH_RESOURCE_GET_CHECK d resourceId (\<lambda>res.
     fail_if (lacks res SAHPI_CAPABILITY_RESET) d SA_ERR_HPI_CAPABILITY (
     OH_HANDLER_GET d resourceId (\<lambda>h.
     release_domain d (
     OH_CALL_ABI h ''get_reset_state'' SA_ERR_HPI_INVALID_CMD resourceId
       (get_reset_state resourceId) (\<lambda>rv out.
     release_handler h (
     ret rv (Some out)))))))))))"

definition saHpiResourceResetStateSet ::
    "(u32 \<Rightarrow> u32 \<Rightarrow> SaErrorT) \<Rightarrow> u32 \<Rightarrow> u32 \<Rightarrow> u32 \<Rightarrow> hpi \<Rightarrow> unit hpi_result"
where
  "saHpiResourceResetStateSet set_reset_state SessionId resourceId ResetAction =
     return_if (oh_lookup_resetaction ResetAction = None) SA_ERR_HPI_INVALID_PARAMS (
     OH_CHECK_INIT_STATE SessionId (
     OH_GET_DID SessionId (\<lambda>did.
     OH_GET_DOMAIN did (\<lambda>d.
     OH_RESOURCE_GET_CHECK d resourceId (\<lambda>res.
     fail_if (lacks res SAHPI_CAPABILITY_RESET) d SA_ERR_HPI_CAPABILITY (
     OH_HANDLER_GET d resourceId (\<lambda>h.
     release_domain d (
     OH_CALL_ABI h ''set_reset_state'' SA_ERR_HPI_INVALID_CMD resourceId
       (set_reset_state resourceId ResetAction, ()) (\<lambda>rv _.
     release_handler h (
     ret rv None))))))))))"

definition saHpiResourcePowerStateGet ::
    "(u32 \<Rightarrow> SaErrorT \<times> u32) \<Rightarrow> u32 \<Rightarrow> u32 \<Rightarrow> bool \<Rightarrow> hpi \<Rightarrow> u32 hpi_result"
where
  "saHpiResourcePowerStateGet get_power_state SessionId resourceId state =
     return_if (\<not> state) SA_ERR_HPI_INVALID_PARAMS (
     OH_CHECK_INIT_STATE SessionId (
     OH_GET_DID SessionId (\<lambda>did.
     OH_GET_DOMAIN did (\<lambda>d.
     OH_RESOURCE_GET_CHECK d resourceId (\<lambda>res.
     fail_if (lacks res SAHPI_CAPABILITY_POWER) d SA_ERR_HPI_CAPABILITY (
     OH_HANDLER_GET d resourceId (\<lambda>h.
     release_domain d (
     OH_CALL_ABI h ''get_power_state'' SA_ERR_HPI_INVALID_CMD resourceId
       (get_power_state resourceId) (\<lambda>rv out.
     release_handler h (
     ret rv (Some out)))))))))))"

definition saHpiResourcePowerStateSet ::
    "(u32 \<Rightarrow> u32 \<Rightarrow> SaErrorT) \<Rightarrow> u32 \<Rightarrow> u32 \<Rightarrow> u32 \<Rightarrow> hpi \<Rightarrow> unit hpi_result"
where
  "saHpiResourcePowerStateSet set_power_state SessionId resourceId state =
     return_if (oh_lookup_powerstate state = None) SA_ERR_HPI_INVALID_PARAMS (
     OH_CHECK_INIT_STATE SessionId (
     OH_GET_DID SessionId (\<lambda>did.
     OH_GET_DOMAIN did (\<lambda>d.
     OH_RESOURCE_GET_CHECK d resourceId (\<lambda>res.
     fail_if (lacks res SAHPI_CAPABILITY_POWER) d SA_ERR_HPI_CAPABILITY (
     OH_HANDLER_GET d resourceId (\<lambda>h.
     release_domain d (
     OH_CALL_ABI h ''set_power_state'' SA_ERR_HPI_INVALID_CMD resourceId
       (set_power_state resourceId state, ()) (\<lambda>rv _.
     release_handler h (
     ret rv None))))))))))"

end
