(* ===== verification/HpiContract.thy ===== *)
theory HpiContract
  imports HpiFumi HpiHotSwap AlarmProps
begin

text \<open>
  The contract of the HPI functions. A function that runs against a state \<open>b\<close> may hold one domain
  and one handler at a time; \<open>api_inv\<close> relates the state on its way to \<open>b\<close>: the two tables, the
  resources and the instances are those of \<open>b\<close>, every reference count is that of \<open>b\<close> plus what is
  held, and every function of a plugin that was called meanwhile was allowed. There is one rule per
  combinator of \<open>HpiApi\<close>, so the proof for a function follows its text.
\<close>

section \<open>Which calls a plugin may get\<close>

text \<open>
  The capabilities of the resource that a function of a plugin presupposes, as the HPI groups
  its functions.
\<close>

definition capability_groups :: "(u32 list \<times> string list) list" where
  "capability_groups =
     [([SAHPI_CAPABILITY_EVENT_LOG],
       [''get_el_info'', ''get_el_caps'', ''set_el_time'', ''add_el_entry'', ''get_el_entry'',
        ''clear_el'', ''set_el_state'', ''reset_el_overflow'']),
      ([SAHPI_CAPABILITY_SENSOR],
       [''get_sensor_reading'', ''get_sensor_thresholds'', ''set_sensor_thresholds'',
        ''get_sensor_enable'', ''set_sensor_enable'', ''get_sensor_event_enables'',
        ''set_sensor_event_enables'', ''get_sensor_event_masks'', ''set_sensor_event_masks'']),
      ([SAHPI_CAPABILITY_CONTROL], [''get_control_state'', ''set_control_state'']),
      ([SAHPI_CAPABILITY_INVENTORY_DATA],
       [''get_idr_info'', ''get_idr_area_header'', ''add_idr_area'', ''add_idr_area_id'',
        ''del_idr_area'', ''get_idr_field'', ''add_idr_field'', ''add_idr_field_id'',
        ''set_idr_field'', ''del_idr_field'']),
      ([SAHPI_CAPABILITY_WATCHDOG],
       [''get_watchdog_info'', ''set_watchdog_info'', ''reset_watchdog'']),
      ([SAHPI_CAPABILITY_ANNUNCIATOR],
       [''get_next_announce'', ''get_announce'', ''ack_announce'', ''add_announce'',
        ''del_announce'', ''get_annunc_mode'', ''set_annunc_mode'']),
      ([SAHPI_CAPABILITY_DIMI],
       [''get_dimi_info'', ''get_dimi_test'', ''get_dimi_test_ready'', ''start_dimi_test'',
        ''cancel_dimi_test'', ''get_dimi_test_status'', ''get_dimi_test_results'']),
      ([SAHPI_CAPABILITY_FUMI],
       [''get_fumi_spec'', ''get_fumi_service_impact'', ''set_fumi_source'',
        ''validate_fumi_source'', ''get_fumi_source'', ''get_fumi_source_component'',
        ''get_fumi_target'', ''get_fumi_target_component'', ''get_fumi_logical_target'',
        ''get_fumi_logical_target_component'', ''start_fumi_backup'', ''set_fumi_bank_order'',
        ''start_fumi_bank_copy'', ''start_fumi_install'', ''get_fumi_status'',
        ''start_fumi_verify'', ''start_fumi_verify_main'', ''cancel_fumi_upgrade'',
        ''get_fumi_autorollback_disable'', ''set_fumi_autorollback_disable'',
        ''start_fumi_rollback'', ''activate_fumi'', ''start_fumi_activate'', ''cleanup_fumi'']),
      ([SAHPI_CAPABILITY_FRU], [''get_hotswap_state'']),
      ([SAHPI_CAPABILITY_FRU, SAHPI_CAPABILITY_MANAGED_HOTSWAP],
       [''hotswap_policy_cancel'', ''set_hotswap_state'', ''request_hotswap_action'',
        ''get_autoextract_timeout'', ''set_autoextract_timeout'']),
      ([SAHPI_CAPABILITY_MANAGED_HOTSWAP], [''get_indicator_state'', ''set_indicator_state'']),
      ([SAHPI_CAPABILITY_CONFIGURATION], [''control_parm'']),
      ([SAHPI_CAPABILITY_LOAD_ID], [''load_id_get'', ''load_id_set'']),
      ([SAHPI_CAPABILITY_RESET], [''get_reset_state'', ''set_reset_state'']),
      ([SAHPI_CAPABILITY_POWER], [''get_power_state'', ''set_power_state''])]"

text \<open>
  A resource that a function may be called for: it has the capabilities and has not failed. The
  repository information is also read from a failed resource.
\<close>

definition suits :: "string \<Rightarrow> SaHpiRptEntryT \<Rightarrow> bool" where
  "suits f r \<longleftrightarrow>
     list_ex (\<lambda>(caps, fs). f \<in> set fs \<and> list_all (\<lambda>c. \<not> lacks r c) caps) capability_groups \<and>
     (f = ''get_idr_info'' \<or> \<not> ResourceFailed r)"

text \<open>The domain of a session, by its pointer.\<close>

definition session_dom :: "hpi \<Rightarrow> u32 \<Rightarrow> nat option" where
  "session_dom st sid =
     (let did = oh_get_session_domain (dmn st) sid
      in if did = SAHPI_UNSPECIFIED_DOMAIN_ID then None else dom_table (dmn st) did)"

text \<open>A call, as it is logged, of an instance, a function and a resource.\<close>

definition allowed :: "hpi \<Rightarrow> u32 \<Rightarrow> nat \<times> string \<times> u32 \<Rightarrow> bool" where
  "allowed st sid c \<longleftrightarrow>
     (case c of (inst, f, rid) \<Rightarrow>
        \<exists>d r hid a h. session_dom st sid = Some d \<and>
          oh_get_resource_by_id (d_rpt (dom_at st d)) rid = Some r \<and> suits f r \<and>
          resource_hid st d rid = Some hid \<and> handler_table (plug st) hid = Some a \<and>
          handlers (plug st) a = Some h \<and> hnd h = inst \<and> inst \<noteq> 0 \<and> has_fn (plug st) h f)"

section \<open>States on the way\<close>

definition extra :: "nat option \<Rightarrow> nat \<Rightarrow> int" where
  "extra p a = (if p = Some a then 1 else 0)"

definition dom_like :: "int \<Rightarrow> oh_domain \<Rightarrow> oh_domain \<Rightarrow> bool" where
  "dom_like n x y \<longleftrightarrow> d_id y = d_id x \<and> d_rpt y = d_rpt x \<and> d_refcount y = d_refcount x + n"

definition like :: "nat option \<Rightarrow> nat option \<Rightarrow> hpi \<Rightarrow> hpi \<Rightarrow> bool" where
  "like D H b st \<longleftrightarrow>
     (\<forall>a. rel_option (dom_like (extra D a)) (dom_heap (dmn b) a) (dom_heap (dmn st) a)) \<and>
     dom_table (dmn st) = dom_table (dmn b) \<and> hid_heap (dmn st) = hid_heap (dmn b) \<and>
     oh_get_session_domain (dmn st) = oh_get_session_domain (dmn b) \<and>
     handlers (plug st) = (\<lambda>a. map_option (\<lambda>h. h\<lparr>h_refcount := h_refcount h + extra H a\<rparr>)
                                 (handlers (plug b) a)) \<and>
     handler_table (plug st) = handler_table (plug b) \<and> plugins (plug st) = plugins (plug b) \<and>
     closed (plug st) = closed (plug b)"

text \<open>The counts of a state are not negative, and the tables have pointers to objects only.\<close>

definition refs_ok :: "hpi \<Rightarrow> bool" where
  "refs_ok b \<longleftrightarrow>
     table_ok (dmn b) \<and> (\<forall>a. 0 \<le> refcount (dmn b) a) \<and>
     (\<forall>hid a. handler_table (plug b) hid = Some a \<longrightarrow> handlers (plug b) a \<noteq> None) \<and>
     (\<forall>a. 0 \<le> handler_refcount (plug b) a)"

definition api_inv ::
    "hpi \<Rightarrow> (nat \<times> string \<times> u32 \<Rightarrow> bool) \<Rightarrow> nat option \<Rightarrow> nat option \<Rightarrow> hpi \<Rightarrow> bool"
where
  "api_inv b P D H st \<longleftrightarrow>
     refs_ok b \<and> like D H b st \<and> (\<forall>d. D = Some d \<longrightarrow> dom_heap (dmn b) d \<noteq> None) \<and>
     (\<forall>a. H = Some a \<longrightarrow> handlers (plug b) a \<noteq> None) \<and>
     (\<exists>cs. calls (plug st) = calls (plug b) @ cs \<and> list_all P cs)"

definition ends ::
    "hpi \<Rightarrow> (nat \<times> string \<times> u32 \<Rightarrow> bool) \<Rightarrow> nat option \<Rightarrow> nat option \<Rightarrow> (hpi \<Rightarrow> 'a hpi_result) \<Rightarrow> bool"
where
  "ends b P D H f \<longleftrightarrow> (\<forall>st. api_inv b P D H st \<longrightarrow> api_inv b P None None (snd (f st)))"

named_theorems api_rules \<open>one rule for every combinator of the HPI functions\<close>

lemma extra_simps [simp]: "extra None a = 0" "extra (Some a) a = 1" "a \<noteq> d \<Longrightarrow> extra (Some d) a = 0"
  by (simp_all add: extra_def)

lemma like_refl [simp]: "like None None b b"
proof -
  have "rel_option (dom_like 0) x x" for x by (cases x) (simp_all add: dom_like_def)
  then show ?thesis by (simp add: like_def map_option.identity)
qed

lemma api_inv_refl: "refs_ok b \<Longrightarrow> api_inv b P None None b"
  by (simp add: api_inv_def)

lemma like_trans:
  assumes "like D H b st" and "like None None st st'"
  shows "like D H b st'"
proof -
  have "rel_option (dom_like (extra D a)) (dom_heap (dmn b) a) (dom_heap (dmn st') a)" for a
  proof -
    have "rel_option (dom_like (extra D a)) (dom_heap (dmn b) a) (dom_heap (dmn st) a)"
      and "rel_option (dom_like 0) (dom_heap (dmn st) a) (dom_heap (dmn st') a)"
      using assms by (simp_all add: like_def)
    then show ?thesis
      by (cases "dom_heap (dmn b) a"; cases "dom_heap (dmn st) a"; cases "dom_heap (dmn st') a")
        (simp_all add: dom_like_def)
  qed
  then show ?thesis
    using assms by (simp add: like_def fun_eq_iff option.map_comp comp_def map_option.identity)
qed

text \<open>What a reader of the state sees is what it would see in \<open>b\<close>.\<close>

lemma like_dom:
  assumes "like D H b st" and "dom_heap (dmn b) d \<noteq> None"
  shows "d_rpt (dom_at st d) = d_rpt (dom_at b d)"
proof -
  have "rel_option (dom_like (extra D d)) (dom_heap (dmn b) d) (dom_heap (dmn st) d)"
    using assms(1) by (simp add: like_def)
  then show ?thesis
    using assms(2) by (cases "dom_heap (dmn b) d"; cases "dom_heap (dmn st) d")
      (simp_all add: dom_at_def dom_like_def)
qed

lemma like_hid:
  assumes "like D H b st" and "dom_heap (dmn b) d \<noteq> None"
  shows "resource_hid st d rid = resource_hid b d rid"
  using assms like_dom [OF assms] by (simp add: resource_hid_def like_def Let_def)

lemma like_has_fn:
  "like D H b st \<Longrightarrow> has_fn (plug st) (h\<lparr>h_refcount := n\<rparr>) f = has_fn (plug b) h f"
  by (simp add: like_def has_fn_def)

lemma session_dom_in_heap:
  "refs_ok b \<Longrightarrow> session_dom b sid = Some d \<Longrightarrow> dom_heap (dmn b) d \<noteq> None"
  by (force simp: refs_ok_def table_ok_def session_dom_def Let_def split: if_splits)

lemma session_dom_like: "like D H b st \<Longrightarrow> session_dom st sid = session_dom b sid"
  by (simp add: session_dom_def like_def Let_def)

lemma allowed_like:
  assumes "refs_ok b" and "like D H b st"
  shows "allowed st sid c = allowed b sid c"
proof -
  obtain inst f rid where c: "c = (inst, f, rid)" using prod_cases3 by blast
  have ht: "handler_table (plug st) = handler_table (plug b)" using assms(2) by (simp add: like_def)
  have "(\<exists>h. handlers (plug st) a = Some h \<and> hnd h = inst \<and> inst \<noteq> 0 \<and> has_fn (plug st) h f) =
      (\<exists>h. handlers (plug b) a = Some h \<and> hnd h = inst \<and> inst \<noteq> 0 \<and> has_fn (plug b) h f)" for a
    using assms(2) like_has_fn [OF assms(2)] by (auto simp: like_def)
  then have h: "(\<exists>hid a h. resource_hid b d rid = Some hid \<and> handler_table (plug b) hid = Some a \<and>
        handlers (plug st) a = Some h \<and> hnd h = inst \<and> inst \<noteq> 0 \<and> has_fn (plug st) h f) =
      (\<exists>hid a h. resource_hid b d rid = Some hid \<and> handler_table (plug b) hid = Some a \<and>
        handlers (plug b) a = Some h \<and> hnd h = inst \<and> inst \<noteq> 0 \<and> has_fn (plug b) h f)" for d
    by blast
  show ?thesis
  proof (cases "session_dom b sid")
    case None
    then show ?thesis using session_dom_like [OF assms(2)] by (simp add: allowed_def c)
  next
    case (Some d)
    then have d: "dom_heap (dmn b) d \<noteq> None" using assms(1) session_dom_in_heap by blast
    show ?thesis
      using h [of d] Some session_dom_like [OF assms(2), of sid] like_dom [OF assms(2) d]
        like_hid [OF assms(2) d, of rid]
      unfolding allowed_def c by (auto simp: ht)
  qed
qed

section \<open>Getting and releasing\<close>

lemma api_invD:
  assumes "api_inv b P D H st"
  shows "refs_ok b" "like D H b st" "\<And>d. D = Some d \<Longrightarrow> dom_heap (dmn b) d \<noteq> None"
    "\<And>a. H = Some a \<Longrightarrow> handlers (plug b) a \<noteq> None"
    "\<exists>cs. calls (plug st) = calls (plug b) @ cs \<and> list_all P cs"
  using assms by (auto simp: api_inv_def)

text \<open>A change of what the invariant does not look at.\<close>

lemma api_inv_other:
  assumes "api_inv b P D H st"
    and "dom_heap (dmn st') = dom_heap (dmn st)" "dom_table (dmn st') = dom_table (dmn st)"
    and "hid_heap (dmn st') = hid_heap (dmn st)"
    and "oh_get_session_domain (dmn st') = oh_get_session_domain (dmn st)"
    and "plug st' = plug st"
  shows "api_inv b P D H st'"
  using assms by (simp add: api_inv_def like_def)

lemma session_domain_sess:
  "sess st' = sess st \<Longrightarrow> oh_get_session_domain st' = oh_get_session_domain st"
proof -
  assume sess: "sess st' = sess st"
  then have at: "session_at st' = session_at st" by (simp add: session_at_def fun_eq_iff)
  have "session_ptr st' = session_ptr st" by (simp add: session_ptr_def fun_eq_iff sess)
  then have "find_session st' = find_session st"
    by (auto simp: fun_eq_iff find_session_def at split: option.split)
  then show ?thesis by (simp add: fun_eq_iff oh_get_session_domain_def)
qed

lemma upd_domain_frame [simp]:
  "hid_heap (upd_domain d f st) = hid_heap st" "sess (upd_domain d f st) = sess st"
  "d_params (upd_domain d f st) = d_params st" "d_uids (upd_domain d f st) = d_uids st"
  by (simp_all add: upd_domain_def)

lemma api_inv_upd:
  assumes "api_inv b P D H st"
    and "\<And>x. dom_heap (dmn st) d = Some x \<Longrightarrow>
          d_id (f x) = d_id x \<and> d_rpt (f x) = d_rpt x \<and>
          d_refcount (f x) = d_refcount x + extra D' d - extra D d"
    and "\<And>a. a \<noteq> d \<Longrightarrow> extra D' a = extra D a"
    and "\<And>e. D' = Some e \<Longrightarrow> dom_heap (dmn b) e \<noteq> None"
  shows "api_inv b P D' H (st\<lparr>dmn := upd_domain d f (dmn st)\<rparr>)"
proof -
  have "rel_option (dom_like (extra D' a)) (dom_heap (dmn b) a)
      (dom_heap (upd_domain d f (dmn st)) a)" for a
  proof -
    have "rel_option (dom_like (extra D a)) (dom_heap (dmn b) a) (dom_heap (dmn st) a)"
      using assms(1) by (simp add: api_inv_def like_def)
    then show ?thesis
      using assms(2) assms(3) [of a]
      by (cases "dom_heap (dmn b) a"; cases "dom_heap (dmn st) a") (auto simp: dom_like_def)
  qed
  moreover have "oh_get_session_domain (upd_domain d f (dmn st)) = oh_get_session_domain (dmn st)"
    by (rule session_domain_sess) simp
  ultimately show ?thesis using assms(1,4) by (simp add: api_inv_def like_def)
qed

lemma api_inv_get:
  assumes "api_inv b P None H st" and "dom_heap (dmn b) d \<noteq> None"
  shows "api_inv b P (Some d) H (st\<lparr>dmn := inc_domain_refcount d (dmn st)\<rparr>)"
  unfolding inc_domain_refcount_def
  by (rule api_inv_upd [OF assms(1)]) (use assms(2) in auto)

lemma api_inv_release_at:
  assumes "api_inv b P (Some d) H st"
  shows "api_inv b P None H (st\<lparr>dmn := snd (oh_release_domain c d (dmn st))\<rparr>)"
proof -
  let ?st = "st\<lparr>dmn := dec_domain_refcount d (dmn st)\<rparr>"
  have inv: "api_inv b P None H ?st"
    unfolding dec_domain_refcount_def by (rule api_inv_upd [OF assms]) auto
  obtain x where x: "dom_heap (dmn b) d = Some x" using api_invD(3) [OF assms] by blast
  have "0 \<le> refcount (dmn b) d" using assms by (simp add: api_inv_def refs_ok_def)
  moreover have "rel_option (dom_like 0) (dom_heap (dmn b) d) (dom_heap (dmn ?st) d)"
    using inv unfolding api_inv_def like_def extra_simps(1) by blast
  ultimately have "0 \<le> refcount (dec_domain_refcount d (dmn st)) d"
    using x unfolding refcount_def
    by (cases "dom_heap (dmn st) d") (simp_all add: dom_like_def)
  then have "snd (oh_release_domain c d (dmn st)) = dmn ?st"
    by (simp add: oh_release_domain_def Let_def)
  then show ?thesis using inv by simp
qed

lemma api_inv_release [intro]:
  "api_inv b P (Some d) H st \<Longrightarrow> api_inv b P None H (release d st)"
  unfolding release_def by (rule api_inv_release_at)

lemma api_inv_plug:
  assumes "api_inv b P D H st"
    and "handlers p = (\<lambda>a. map_option (\<lambda>h. h\<lparr>h_refcount := h_refcount h + extra H' a - extra H a\<rparr>)
                          (handlers (plug st) a))"
    and "handler_table p = handler_table (plug st)" "plugins p = plugins (plug st)"
    and "closed p = closed (plug st)" "calls p = calls (plug st)"
    and "\<And>a. H' = Some a \<Longrightarrow> handlers (plug b) a \<noteq> None"
  shows "api_inv b P D H' (st\<lparr>plug := p\<rparr>)"
proof -
  have "handlers (plug st) = (\<lambda>a. map_option (\<lambda>h. h\<lparr>h_refcount := h_refcount h + extra H a\<rparr>)
      (handlers (plug b) a))"
    using assms(1) by (simp add: api_inv_def like_def)
  then have "handlers p = (\<lambda>a. map_option (\<lambda>h. h\<lparr>h_refcount := h_refcount h + extra H' a\<rparr>)
      (handlers (plug b) a))"
    by (simp add: assms(2) fun_eq_iff option.map_comp comp_def)
  then show ?thesis using assms(1,3-7) by (simp add: api_inv_def like_def)
qed

lemma api_inv_hold:
  assumes "api_inv b P D None st" and "handlers (plug b) a \<noteq> None"
  shows "api_inv b P D (Some a) (st\<lparr>plug := inc_handler_refcount a (plug st)\<rparr>)"
  by (rule api_inv_plug [OF assms(1)])
    (use assms(2) in \<open>auto simp: inc_handler_refcount_def upd_handler_def fun_eq_iff
       option.map_ident extra_def\<close>)

lemma api_inv_put [intro]:
  assumes "api_inv b P D H st"
  shows "api_inv b P D None (put_handler H st)"
proof (cases H)
  case None
  then show ?thesis using assms by (simp add: put_handler_def oh_release_handler_def)
next
  case (Some a)
  let ?p = "dec_handler_refcount a (plug st)"
  have inv: "api_inv b P D None (st\<lparr>plug := ?p\<rparr>)"
    by (rule api_inv_plug [OF assms])
      (auto simp: Some dec_handler_refcount_def upd_handler_def fun_eq_iff option.map_ident extra_def)
  obtain h where h: "handlers (plug b) a = Some h" using api_invD(4) [OF assms Some] by blast
  have "0 \<le> handler_refcount (plug b) a" using assms by (simp add: api_inv_def refs_ok_def)
  moreover have "handlers ?p a = handlers (plug b) a"
    using inv by (simp add: api_inv_def like_def map_option.identity)
  ultimately have "0 \<le> handler_refcount ?p a" by (simp add: handler_refcount_def)
  then have "put_handler H st = st\<lparr>plug := ?p\<rparr>"
    by (simp add: Some put_handler_def oh_release_handler_def Let_def)
  then show ?thesis using inv by simp
qed

section \<open>The rules\<close>

lemma endsI:
  "(\<And>st. api_inv b P D H st \<Longrightarrow> api_inv b P None None (snd (f st))) \<Longrightarrow> ends b P D H f"
  by (simp add: ends_def)

lemma endsD: "ends b P D H f \<Longrightarrow> api_inv b P D H st \<Longrightarrow> api_inv b P None None (snd (f st))"
  by (simp add: ends_def)

lemma snd_ret [simp]: "snd (ret rv out st) = st"
  by (simp add: ret_def)

lemma ends_ret [api_rules]: "ends b P None None (ret rv out)"
  by (simp add: ends_def)

lemma ends_return_if [api_rules]:
  "(\<not> c \<Longrightarrow> ends b P None None k) \<Longrightarrow> ends b P None None (return_if c error k)"
  by (auto simp: ends_def return_if_def)

lemma ends_fail_if [api_rules]:
  "(\<not> c \<Longrightarrow> ends b P (Some d) None k) \<Longrightarrow> ends b P (Some d) None (fail_if c d error k)"
  by (auto simp: ends_def fail_if_def)

lemma ends_drop_if [api_rules]:
  "(\<not> c \<Longrightarrow> ends b P None h k) \<Longrightarrow> ends b P None h (drop_if c h error k)"
  by (auto simp: ends_def drop_if_def)

lemma ends_release_domain [api_rules]:
  "ends b P None H k \<Longrightarrow> ends b P (Some d) H (release_domain d k)"
  by (auto simp: ends_def release_domain_def)

lemma ends_release_handler [api_rules]:
  "ends b P D None k \<Longrightarrow> ends b P D h (release_handler h k)"
  by (auto simp: ends_def release_handler_def)

lemma ends_check_init [api_rules]:
  "ends b P None None k \<Longrightarrow> ends b P None None (OH_CHECK_INIT_STATE sid k)"
  by (auto simp: ends_def OH_CHECK_INIT_STATE_def Let_def)

lemma ends_get_did [api_rules]:
  assumes "\<And>did. did = oh_get_session_domain (dmn b) sid \<Longrightarrow> did \<noteq> SAHPI_UNSPECIFIED_DOMAIN_ID \<Longrightarrow>
    ends b P None None (k did)"
  shows "ends b P None None (OH_GET_DID sid k)"
proof (rule endsI)
  fix st assume inv: "api_inv b P None None st"
  then have "oh_get_session_domain (dmn st) sid = oh_get_session_domain (dmn b) sid"
    by (simp add: api_inv_def like_def)
  then show "api_inv b P None None (snd (OH_GET_DID sid k st))"
    using assms inv by (auto simp: OH_GET_DID_def Let_def ends_def)
qed

lemma ends_get_domain [api_rules]:
  assumes did: "did = oh_get_session_domain (dmn b) sid" "did \<noteq> SAHPI_UNSPECIFIED_DOMAIN_ID"
    and k: "\<And>d. session_dom b sid = Some d \<Longrightarrow> ends b P (Some d) None (k d)"
  shows "ends b P None None (OH_GET_DOMAIN did k)"
proof (rule endsI)
  fix st assume inv: "api_inv b P None None st"
  then have t: "dom_table (dmn st) = dom_table (dmn b)" by (simp add: api_inv_def like_def)
  show "api_inv b P None None (snd (OH_GET_DOMAIN did k st))"
  proof (cases "dom_table (dmn st) did")
    case None
    then show ?thesis
      using inv did(2) by (simp add: OH_GET_DOMAIN_def oh_get_domain_def get_domain_def)
  next
    case (Some d)
    then have d: "session_dom b sid = Some d" using did t by (auto simp: session_dom_def Let_def)
    then have "dom_heap (dmn b) d \<noteq> None"
      using session_dom_in_heap api_invD(1) [OF inv] by blast
    then have "api_inv b P (Some d) None (st\<lparr>dmn := inc_domain_refcount d (dmn st)\<rparr>)"
      by (rule api_inv_get [OF inv])
    then show ?thesis
      using endsD [OF k [OF d]] Some did(2)
      by (simp add: OH_GET_DOMAIN_def oh_get_domain_def get_domain_def)
  qed
qed

lemma api_inv_rpt:
  "api_inv b P (Some d) H st \<Longrightarrow> d_rpt (dom_at st d) = d_rpt (dom_at b d)"
  by (rule like_dom [OF api_invD(2) api_invD(3)]) auto

lemma ends_resource [api_rules]:
  assumes "\<And>r. oh_get_resource_by_id (d_rpt (dom_at b d)) rid = Some r \<Longrightarrow>
    ends b P (Some d) None (k r)"
  shows "ends b P (Some d) None (OH_RESOURCE_GET d rid k)"
  using assms unfolding ends_def by (auto simp: OH_RESOURCE_GET_def api_inv_rpt split: option.splits)

lemma ends_resource_check [api_rules]:
  assumes "\<And>r. oh_get_resource_by_id (d_rpt (dom_at b d)) rid = Some r \<Longrightarrow> \<not> ResourceFailed r \<Longrightarrow>
    ends b P (Some d) None (k r)"
  shows "ends b P (Some d) None (OH_RESOURCE_GET_CHECK d rid k)"
  using assms unfolding ends_def by (auto simp: OH_RESOURCE_GET_CHECK_def api_inv_rpt split: option.splits)

lemma ends_rdr [api_rules]:
  assumes "\<And>r. ends b P (Some d) None (k r)"
  shows "ends b P (Some d) None (RDR_GET d rid type num k)"
  using assms unfolding ends_def by (auto simp: RDR_GET_def split: option.splits)

text \<open>The handler that \<open>OH_HANDLER_GET\<close> passes on.\<close>

definition holds :: "hpi \<Rightarrow> nat \<Rightarrow> u32 \<Rightarrow> nat option \<Rightarrow> bool" where
  "holds b d rid h \<longleftrightarrow>
     (\<forall>a. h = Some a \<longrightarrow> (\<exists>hid. resource_hid b d rid = Some hid \<and> handler_table (plug b) hid = Some a) \<and>
        instance_of (plug b) a \<noteq> 0)"

lemma like_instance: "like D H b st \<Longrightarrow> instance_of (plug st) a = instance_of (plug b) a"
  by (auto simp: like_def instance_of_def split: option.splits)

lemma ends_handler [api_rules]:
  assumes "\<And>h. holds b d rid h \<Longrightarrow> ends b P (Some d) h (k h)"
  shows "ends b P (Some d) None (OH_HANDLER_GET d rid k)"
proof (rule endsI)
  fix st assume inv: "api_inv b P (Some d) None st"
  note l = api_invD(2) [OF inv]
  have hid: "resource_hid st d rid = resource_hid b d rid"
    using like_hid [OF l] api_invD(3) [OF inv] by simp
  have none: "api_inv b P None None (snd (k None st))"
    by (rule endsD [OF assms inv]) (simp add: holds_def)
  show "api_inv b P None None (snd (OH_HANDLER_GET d rid k st))"
  proof (cases "resource_hid b d rid")
    case None
    then show ?thesis using inv by (auto simp: OH_HANDLER_GET_def hid)
  next
    case (Some i)
    show ?thesis
    proof (cases "handler_table (plug st) i")
      case None
      then show ?thesis
        using none by (simp add: OH_HANDLER_GET_def hid Some oh_get_handler_def)
    next
      case t: (Some a)
      have tb: "handler_table (plug b) i = Some a" using t l by (simp add: like_def)
      then have "handlers (plug b) a \<noteq> None"
        using api_invD(1) [OF inv] unfolding refs_ok_def by blast
      then have held: "api_inv b P (Some d) (Some a)
          (st\<lparr>plug := inc_handler_refcount a (plug st)\<rparr>)" (is "api_inv b P _ _ ?st")
        by (rule api_inv_hold [OF inv])
      have inst: "instance_of (inc_handler_refcount a (plug st)) a = instance_of (plug b) a"
        using like_instance [OF api_invD(2) [OF held], of a] by simp
      show ?thesis
      proof (cases "instance_of (plug b) a = 0")
        case True
        have "api_inv b P (Some d) None (put_handler (Some a) ?st)" using held by blast
        then have "api_inv b P None None (snd (k None (put_handler (Some a) ?st)))"
          by (rule endsD [OF assms, rotated]) (simp add: holds_def)
        then show ?thesis
          using True inst by (simp add: OH_HANDLER_GET_def hid Some oh_get_handler_def t)
      next
        case False
        then have "holds b d rid (Some a)" using Some tb by (simp add: holds_def)
        then have "api_inv b P None None (snd (k (Some a) ?st))" using endsD [OF assms held] by blast
        then show ?thesis
          using False inst by (simp add: OH_HANDLER_GET_def hid Some oh_get_handler_def t)
      qed
    qed
  qed
qed

lemma ends_call [api_rules]:
  assumes h: "holds b d rid h" and dom: "session_dom b sid = Some d"
    and res: "oh_get_resource_by_id (d_rpt (dom_at b d)) rid = Some r" and fits: "suits f r"
    and k: "ends b (allowed b sid) D h (k (fst outcome) (snd outcome))" and "D = None"
  shows "ends b (allowed b sid) D h (OH_CALL_ABI h f err rid outcome k)"
proof (rule endsI)
  fix st assume inv: "api_inv b (allowed b sid) D h st"
  note l = api_invD(2) [OF inv]
  show "api_inv b (allowed b sid) None None (snd (OH_CALL_ABI h f err rid outcome k st))"
  proof (cases "fn_missing st h f")
    case True
    then show ?thesis using inv \<open>D = None\<close> by (auto simp: OH_CALL_ABI_def)
  next
    case False
    then obtain a x where a: "h = Some a" "handlers (plug st) a = Some x" "has_fn (plug st) x f"
      by (auto simp: fn_missing_def split: option.splits)
    obtain y where y: "handlers (plug b) a = Some y" "hnd x = hnd y" "h_abi x = h_abi y"
      using a(2) l by (auto simp: like_def)
    obtain hid where hid: "resource_hid b d rid = Some hid" "handler_table (plug b) hid = Some a"
        "instance_of (plug b) a \<noteq> 0" using h a(1) by (auto simp: holds_def)
    have fn: "has_fn (plug b) y f" using a(3) l y(3) by (simp add: has_fn_def like_def)
    have inst: "instance_of (plug st) a = hnd y" using a(2) y(2) by (simp add: instance_of_def)
    have ok: "allowed b sid (hnd y, f, rid)"
      unfolding allowed_def prod.case
      by (rule exI [of _ d], rule exI [of _ r], rule exI [of _ hid], rule exI [of _ a],
          rule exI [of _ y])
        (use dom res fits hid y fn in \<open>auto simp: instance_of_def\<close>)
    obtain cs where "calls (plug st) = calls (plug b) @ cs" "list_all (allowed b sid) cs"
      using api_invD(5) [OF inv] by blast
    then have c: "\<exists>cs. calls (plug st) @ [(hnd y, f, rid)] = calls (plug b) @ cs \<and>
        list_all (allowed b sid) cs"
      using ok by (intro exI [of _ "cs @ [(hnd y, f, rid)]"]) simp
    have "oh_get_session_domain (dmn (plugin_runs h f rid st)) = oh_get_session_domain (dmn st)"
      by (rule session_domain_sess) (simp add: plugin_runs_def)
    then have "api_inv b (allowed b sid) D h (plugin_runs h f rid st)"
      using inv c by (auto simp: api_inv_def like_def plugin_runs_def log_call_def inst a(1))
    then show ?thesis using endsD [OF k] False by (simp add: OH_CALL_ABI_def)
  qed
qed

text \<open>A function that is called by another one runs against the state it is called in.\<close>

lemma api_inv_trans:
  assumes "api_inv b (allowed b sid) D H st"
    and "refs_ok st \<Longrightarrow> api_inv st (allowed st sid) None None st'" and "refs_ok st"
  shows "api_inv b (allowed b sid) D H st'"
proof -
  note i = assms(2) [OF assms(3)]
  have "like D H b st'" using like_trans [OF api_invD(2) [OF assms(1)] api_invD(2) [OF i]] .
  moreover have "allowed st sid = allowed b sid"
    using allowed_like [OF api_invD(1,2) [OF assms(1)]] by blast
  then obtain cs ds where "calls (plug st) = calls (plug b) @ cs" "list_all (allowed b sid) cs"
      "calls (plug st') = calls (plug st) @ ds" "list_all (allowed b sid) ds"
    using api_invD(5) [OF assms(1)] api_invD(5) [OF i] by auto
  then have "\<exists>cs. calls (plug st') = calls (plug b) @ cs \<and> list_all (allowed b sid) cs"
    by (intro exI [of _ "cs @ ds"]) simp
  ultimately show ?thesis using assms(1) by (simp add: api_inv_def)
qed

lemma refs_ok_like:
  assumes "api_inv b P D H st"
  shows "refs_ok st"
proof -
  note b = api_invD(1) [OF assms] and l = api_invD(2) [OF assms]
  have r: "rel_option (dom_like (extra D a)) (dom_heap (dmn b) a) (dom_heap (dmn st) a)" for a
    using l by (simp add: like_def)
  have pos: "0 \<le> extra p a" for p a by (simp add: extra_def)
  have "0 \<le> refcount (dmn st) a" for a
  proof -
    have "0 \<le> refcount (dmn b) a" using b by (simp add: refs_ok_def)
    then show ?thesis
      using r [of a] pos [of D a]
      by (cases "dom_heap (dmn b) a"; cases "dom_heap (dmn st) a")
        (simp_all add: refcount_def dom_like_def)
  qed
  moreover have "0 \<le> handler_refcount (plug st) a" for a
  proof -
    have "0 \<le> handler_refcount (plug b) a" using b by (simp add: refs_ok_def)
    then show ?thesis
      using l pos [of H a] by (cases "handlers (plug b) a") (simp_all add: like_def handler_refcount_def)
  qed
  moreover have "table_ok (dmn st)"
    unfolding table_ok_def
  proof (intro allI impI)
    fix did a assume "dom_table (dmn st) did = Some a"
    then have "dom_table (dmn b) did = Some a" using l by (simp add: like_def)
    then obtain x where "dom_heap (dmn b) a = Some x" "d_id x = did"
      using b unfolding refs_ok_def table_ok_def by blast
    then show "\<exists>d. dom_heap (dmn st) a = Some d \<and> d_id d = did"
      using r [of a] by (cases "dom_heap (dmn st) a") (simp_all add: dom_like_def)
  qed
  ultimately show ?thesis using b l by (auto simp: refs_ok_def like_def)
qed

text \<open>What a caller may rely on: \<open>f\<close> is guarded for the session \<open>sid\<close>.\<close>

definition guarded :: "u32 \<Rightarrow> (hpi \<Rightarrow> 'a hpi_result) \<Rightarrow> bool" where
  "guarded sid f \<longleftrightarrow> (\<forall>b. refs_ok b \<longrightarrow> ends b (allowed b sid) None None f)"

lemma guardedI: "(\<And>b. ends b (allowed b sid) None None f) \<Longrightarrow> guarded sid f"
  by (simp add: guarded_def)

lemma ends_nested [api_rules]:
  assumes "guarded sid g" and "\<And>rv out. ends b (allowed b sid) D H (k rv out)"
  shows "ends b (allowed b sid) D H (call_hpi g k)"
proof (rule endsI)
  fix st assume inv: "api_inv b (allowed b sid) D H st"
  note ok = refs_ok_like [OF inv]
  have "api_inv st (allowed st sid) None None (snd (g st))"
    using assms(1) ok api_inv_refl [OF ok] unfolding guarded_def by (blast intro: endsD)
  then have "api_inv b (allowed b sid) D H (snd (g st))" using api_inv_trans [OF inv _ ok] by blast
  then show "api_inv b (allowed b sid) None None (snd (call_hpi g k st))"
    using assms(2) unfolding ends_def by (auto simp: call_hpi_def split: prod.splits)
qed

lemma guardedD: "guarded sid f \<Longrightarrow> refs_ok b \<Longrightarrow> api_inv b (allowed b sid) None None (snd (f b))"
  unfolding guarded_def by (blast intro: endsD api_inv_refl)

end
