(* ===== verification/HpiGuard.thy ===== *)
theory HpiGuard
  imports HpiContract
begin

text \<open>
  Every HPI function that does not open or close a session, change the resource table or wait, is
  guarded: it gives back every reference it takes and calls plugins only where \<open>allowed\<close> says so.
  The proofs follow the text of the functions by \<open>api_rules\<close>; a function that others call is in
  \<open>guarded_rules\<close>.
\<close>

named_theorems guarded_rules \<open>functions known to be guarded\<close>

lemmas suits_defs = suits_def capability_groups_def

lemma ends_let [api_rules]: "ends b P D H (f x) \<Longrightarrow> ends b P D H (Let x f)"
  by simp

lemma ends_if [api_rules]:
  "(c \<Longrightarrow> ends b P D H f) \<Longrightarrow> (\<not> c \<Longrightarrow> ends b P D H g) \<Longrightarrow> ends b P D H (if c then f else g)"
  by simp

section \<open>Work on a locked domain\<close>

lemma api_inv_tick [intro]: "api_inv b P D H st \<Longrightarrow> api_inv b P D H (tick n st)"
  by (erule api_inv_other) (simp_all add: tick_def)

lemma api_inv_push [intro]: "api_inv b P D H st \<Longrightarrow> api_inv b P D H (push_event e st)"
proof (erule api_inv_other)
  show "oh_get_session_domain (dmn (push_event e st)) = oh_get_session_domain (dmn st)"
    by (rule session_domain_sess) (simp add: push_event_def)
qed (simp_all add: push_event_def)

definition keeps_refs :: "(oh_domain \<Rightarrow> oh_domain) \<Rightarrow> bool" where
  "keeps_refs f \<longleftrightarrow> (\<forall>x. d_id (f x) = d_id x \<and> d_rpt (f x) = d_rpt x \<and> d_refcount (f x) = d_refcount x)"

lemma api_inv_upd_same:
  assumes "api_inv b P D H st" and "keeps_refs f"
  shows "api_inv b P D H (st\<lparr>dmn := upd_domain d f (dmn st)\<rparr>)"
  by (rule api_inv_upd [OF assms(1)])
    (use assms(2) api_invD(3) [OF assms(1)] in \<open>auto simp: keeps_refs_def\<close>)

lemma api_inv_write [intro]:
  "api_inv b P D H st \<Longrightarrow> keeps_refs f \<Longrightarrow> api_inv b P D H (write_domain d f st)"
  by (simp add: write_domain_def api_inv_upd_same)

text \<open>A write of a whole domain that comes from the one that is there.\<close>

lemma write_domain_const:
  "dom_heap (dmn st) d = Some x \<Longrightarrow> write_domain d (\<lambda>_. f (dom_at st d)) st = write_domain d f st"
  by (simp add: write_domain_def upd_domain_def dom_at_def)

lemma api_inv_write_at:
  assumes "api_inv b P D H st" and "keeps_refs f"
  shows "api_inv b P D H (write_domain d (\<lambda>_. f (dom_at st d)) st)"
proof (cases "dom_heap (dmn st) d")
  case None
  then have "write_domain d (\<lambda>_. f (dom_at st d)) st = st"
    by (simp add: write_domain_def upd_domain_def fun_upd_idem)
  then show ?thesis using assms(1) by simp
next
  case (Some x)
  then have "write_domain d (\<lambda>_. f (dom_at st d)) st = write_domain d f st"
    by (rule write_domain_const)
  then show ?thesis using api_inv_write [OF assms] by simp
qed

text \<open>Getting, writing and releasing a domain in one go.\<close>

lemma api_inv_with_domain:
  assumes inv: "api_inv b P None None st" and f: "keeps_refs (\<lambda>d. snd (f d))"
    and did: "did \<noteq> SAHPI_UNSPECIFIED_DOMAIN_ID"
  shows "api_inv b P None None (st\<lparr>dmn := snd (with_domain c (dmn st) did f)\<rparr>)"
proof (cases "dom_table (dmn st) did")
  case None
  then show ?thesis using inv did by (simp add: with_domain_def oh_get_domain_def get_domain_def)
next
  case (Some a)
  then obtain x where "dom_heap (dmn st) a = Some x"
    using refs_ok_like [OF inv] unfolding refs_ok_def table_ok_def by blast
  moreover have "rel_option (dom_like 0) (dom_heap (dmn b) a) (dom_heap (dmn st) a)"
    using api_invD(2) [OF inv] by (simp add: like_def)
  ultimately have "dom_heap (dmn b) a \<noteq> None" by (cases "dom_heap (dmn b) a") simp_all
  then have g: "api_inv b P (Some a) None (st\<lparr>dmn := inc_domain_refcount a (dmn st)\<rparr>)"
    (is "api_inv b P _ _ ?st") by (rule api_inv_get [OF inv])
  let ?w = "\<lambda>y. ?st\<lparr>dmn := upd_domain a (\<lambda>_. y) (dmn ?st)\<rparr>"
  let ?y = "x\<lparr>d_refcount := d_refcount x + 1\<rparr>"
  have x': "dom_heap (dmn ?st) a = Some ?y"
    using \<open>dom_heap (dmn st) a = Some x\<close> by simp
  have "api_inv b P (Some a) None (write_domain a (\<lambda>_. snd (f (dom_at ?st a))) ?st)"
    by (rule api_inv_write_at [OF g f])
  then have "api_inv b P (Some a) None (?w (snd (f ?y)))"
    using \<open>dom_heap (dmn st) a = Some x\<close> by (simp add: write_domain_def dom_at_def)
  from api_inv_release_at [OF this, of c]
  show ?thesis
    using Some did \<open>dom_heap (dmn st) a = Some x\<close>
    by (simp add: with_domain_def oh_get_domain_def get_domain_def split_beta)
qed

lemma keeps_refs_simps [simp]:
  "keeps_refs (d_del_update u)" "keeps_refs (d_tag_update v)"
  "keeps_refs (\<lambda>x. x\<lparr>d_del := f x, del_file := g x\<rparr>)"
  "keeps_refs (set_alarms l)" "keeps_refs (set_hotswap_auto_insert_timeout timeout)"
  "keeps_refs (\<lambda>x. snd (oh_remove_alarm gp now x key m multi))"
  "keeps_refs (\<lambda>x. snd (snd (oh_add_alarm gp io c x a fromfile)))"
  by (simp_all add: keeps_refs_def set_alarms_def set_hotswap_auto_insert_timeout_def
      oh_remove_alarm_def oh_add_alarm_def update_dat_def Let_def split: option.split)

lemma ends_on_domain_log [api_rules]: "ends b P (Some d) None (on_domain_log d f)"
  by (rule endsI) (auto simp: on_domain_log_def intro!: api_inv_release split: prod.splits)

lemma ends_on_domain_log_at [api_rules]:
  "ends b P (Some d) None (\<lambda>st. on_domain_log d (f st) (tick n st))"
  by (rule endsI) (auto simp: on_domain_log_def intro!: api_inv_release split: prod.splits)

lemma ends_add_domain_entry [api_rules]: "ends b P (Some d) None (add_domain_entry io did d ev)"
  by (rule endsI) (auto simp: add_domain_entry_def Let_def intro!: api_inv_release api_inv_tick split: prod.splits)

lemma ends_add_alarm [api_rules]:
  "ends b P (Some d) None (\<lambda>st.
     case oh_add_alarm (d_params (dmn st)) io (clk st) (dom_at st d) a fromfile of
       (a', alarm, x) \<Rightarrow> ret (rv a') alarm (release d (tick (n a') (write_domain d (\<lambda>_. x) st))))"
  by (rule endsI)
    (auto simp: split_beta intro!: api_inv_release api_inv_tick
      api_inv_write_at [where f = "\<lambda>x. snd (snd (oh_add_alarm gp io c x a fromfile))" for gp c])

text \<open>Where a part of the state is read before the rest of the body runs.\<close>

lemma ends_read:
  "(\<And>t. ends b P D H (k t)) \<Longrightarrow> ends b P D H (\<lambda>st. let t = g st in k t st)"
  by (simp add: ends_def)

lemma api_inv_drt_entry:
  assumes inv: "api_inv b P None None st" and did: "did \<noteq> SAHPI_UNSPECIFIED_DOMAIN_ID"
    and "did = oh_get_session_domain (dmn b) sid"
  shows "api_inv b P None None (st\<lparr>dmn := snd (oh_drt_entry_get c (dmn st) did e)\<rparr>)"
proof (cases "dom_table (dmn st) did")
  case None
  then show ?thesis using inv did by (simp add: oh_drt_entry_get_def oh_get_domain_def get_domain_def)
next
  case (Some a)
  then have "session_dom b sid = Some a"
    using api_invD(2) [OF inv] assms(2,3) by (simp add: session_dom_def like_def Let_def)
  then have "dom_heap (dmn b) a \<noteq> None" using session_dom_in_heap api_invD(1) [OF inv] by blast
  then have "api_inv b P (Some a) None (st\<lparr>dmn := inc_domain_refcount a (dmn st)\<rparr>)"
    by (rule api_inv_get [OF inv])
  from api_inv_release_at [OF this, of c]
  show ?thesis
    using Some did by (simp add: oh_drt_entry_get_def oh_get_domain_def get_domain_def Let_def)
qed

lemma ends_drt_entry [api_rules]:
  assumes "did \<noteq> SAHPI_UNSPECIFIED_DOMAIN_ID" and "did = oh_get_session_domain (dmn b) sid"
  shows "ends b P None None (\<lambda>st. let ((rv, out), d) = oh_drt_entry_get (clk st) (dmn st) did e
    in ret rv out (st\<lparr>dmn := d\<rparr>))"
  using api_inv_drt_entry [OF _ assms] by (intro endsI) (simp add: split_beta)

lemma ends_alarm_end:
  assumes "did \<noteq> SAHPI_UNSPECIFIED_DOMAIN_ID"
  shows "ends b P None None (\<lambda>st. ret rv None (tick n
      (st\<lparr>dmn := snd (oh_detect_sensor_enable_alarm (clk st) (dmn st) did rid num enable)\<rparr>)))"
    and "ends b P None None (\<lambda>st. ret rv None (tick n
      (st\<lparr>dmn := snd (oh_detect_sensor_mask_alarm (clk st) (dmn st) did rid num action m)\<rparr>)))"
  using assms
  by (auto intro!: endsI api_inv_tick api_inv_with_domain
      simp: oh_detect_sensor_enable_alarm_def oh_detect_sensor_mask_alarm_def)

section \<open>Functions that others call\<close>

lemmas called_defs =
  saHpiEventLogInfoGet_def saHpiEventLogCapabilitiesGet_def saHpiSensorThresholdsGet_def
  saHpiAnnunciatorModeGet_def saHpiFumiSourceInfoGet_def saHpiHotSwapStateGet_def

lemma called_guarded [guarded_rules]:
  "\<And>get_el_info resourceId Info. guarded sid (saHpiEventLogInfoGet get_el_info sid resourceId
    Info)"
  "\<And>get_el_caps resourceId EventLogCapabilities. guarded sid (saHpiEventLogCapabilitiesGet
    get_el_caps sid resourceId EventLogCapabilities)"
  "\<And>get_sensor_thresholds resourceId SensorNum SensorThresholds. guarded sid
    (saHpiSensorThresholdsGet get_sensor_thresholds sid resourceId SensorNum SensorThresholds)"
  "\<And>get_annunc_mode resourceId AnnunciatorNum Mode. guarded sid (saHpiAnnunciatorModeGet
    get_annunc_mode sid resourceId AnnunciatorNum Mode)"
  "\<And>get_fumi_source resourceId FumiNum BankNum SourceInfo. guarded sid
    (saHpiFumiSourceInfoGet get_fumi_source sid resourceId FumiNum BankNum SourceInfo)"
  "\<And>get_hotswap_state resourceId state. guarded sid (saHpiHotSwapStateGet get_hotswap_state
    sid resourceId state)"
  unfolding called_defs
  by (rule guarded_rules guardedI api_rules | assumption | (rule ends_alarm_end, assumption) |
    rule refl | (simp add: suits_defs; fail) |
    (rule endsI, auto simp: Let_def intro!: api_inv_release api_inv_tick api_inv_write
       split: option.splits prod.splits if_splits; fail))+

section \<open>Domains, resources, alarms and records\<close>

lemmas domain_defs =
  saHpiDomainInfoGet_def saHpiDrtEntryGet_def saHpiDomainTagSet_def saHpiRptEntryGet_def
  saHpiRptEntryGetByResourceId_def saHpiGetIdByEntityPath_def saHpiGetChildEntityPath_def
  saHpiEventAdd_def saHpiAlarmGetNext_def saHpiAlarmGet_def saHpiAlarmAcknowledge_def
  saHpiAlarmAdd_def saHpiRdrGet_def saHpiRdrGetByInstrumentId_def saHpiRdrUpdateCountGet_def

lemma domain_guarded [guarded_rules]:
  "\<And>DomainInfo. guarded sid (saHpiDomainInfoGet sid DomainInfo)"
  "\<And>entryId NextEntryId DrtEntry. guarded sid (saHpiDrtEntryGet sid entryId NextEntryId
    DrtEntry)"
  "\<And>tag. guarded sid (saHpiDomainTagSet sid tag)"
  "\<And>entryId NextEntryId RptEntry. guarded sid (saHpiRptEntryGet sid entryId NextEntryId
    RptEntry)"
  "\<And>resourceId RptEntry. guarded sid (saHpiRptEntryGetByResourceId sid resourceId RptEntry)"
  "\<And>EntityPath InstrumentType InstanceId resourceId InstrumentId rptUpdateCount. guarded sid
    (saHpiGetIdByEntityPath sid EntityPath InstrumentType InstanceId resourceId InstrumentId
    rptUpdateCount)"
  "\<And>parent InstanceId rptUpdateCount. guarded sid (saHpiGetChildEntityPath sid parent
    InstanceId rptUpdateCount)"
  "\<And>get_el_info EvtEntry. guarded sid (saHpiEventAdd get_el_info sid EvtEntry)"
  "\<And>severity UnacknowledgedOnly Alarm. guarded sid (saHpiAlarmGetNext sid severity
    UnacknowledgedOnly Alarm)"
  "\<And>alarmId Alarm. guarded sid (saHpiAlarmGet sid alarmId Alarm)"
  "\<And>alarmId severity. guarded sid (saHpiAlarmAcknowledge sid alarmId severity)"
  "\<And>io Alarm. guarded sid (saHpiAlarmAdd io sid Alarm)"
  "\<And>resourceId entryId NextEntryId Rdr. guarded sid (saHpiRdrGet sid resourceId entryId
    NextEntryId Rdr)"
  "\<And>resourceId rdrType InstrumentId Rdr. guarded sid (saHpiRdrGetByInstrumentId sid
    resourceId rdrType InstrumentId Rdr)"
  "\<And>resourceId UpdateCount. guarded sid (saHpiRdrUpdateCountGet sid resourceId UpdateCount)"
  unfolding domain_defs
  by (rule guarded_rules guardedI api_rules | assumption | (rule ends_alarm_end, assumption) |
    rule refl | (simp add: suits_defs; fail) |
    (rule endsI, auto simp: Let_def intro!: api_inv_release api_inv_tick api_inv_write
       split: option.splits prod.splits if_splits; fail))+

lemma guarded_saHpiAlarmDelete [guarded_rules]:
  "guarded sid (saHpiAlarmDelete sid alarmId severity)"
  unfolding saHpiAlarmDelete_def
  by (rule guardedI) (rule api_rules | assumption |
    (rule endsI, auto simp: Let_def intro!: api_inv_release api_inv_tick api_inv_write
       api_inv_write_at [where f = "\<lambda>x. snd (oh_remove_alarm gp now x key m multi)" for gp now key m multi]
       split: option.splits; fail))+

section \<open>Event logs\<close>

lemmas event_log_defs =
  saHpiEventLogEntryGet_def saHpiEventLogTimeGet_def saHpiEventLogStateGet_def
  saHpiEventLogEntryAdd_def saHpiEventLogClear_def saHpiEventLogTimeSet_def
  saHpiEventLogStateSet_def saHpiEventLogOverflowReset_def

lemma event_log_guarded [guarded_rules]:
  "\<And>get_el_entry resourceId entryId PrevEntryId NextEntryId EventLogEntry Rdr RptEntry.
    guarded sid (saHpiEventLogEntryGet get_el_entry sid resourceId entryId PrevEntryId NextEntryId
    EventLogEntry Rdr RptEntry)"
  "\<And>get_el_info resourceId Time. guarded sid (saHpiEventLogTimeGet get_el_info sid resourceId
    Time)"
  "\<And>get_el_info resourceId Enable. guarded sid (saHpiEventLogStateGet get_el_info sid
    resourceId Enable)"
  "\<And>get_el_info get_el_caps add_el_entry io resourceId EvtEntry. guarded sid
    (saHpiEventLogEntryAdd get_el_info get_el_caps add_el_entry io sid resourceId EvtEntry)"
  "\<And>get_el_caps clear_el resourceId. guarded sid (saHpiEventLogClear get_el_caps clear_el sid
    resourceId)"
  "\<And>get_el_caps set_el_time resourceId Time. guarded sid (saHpiEventLogTimeSet get_el_caps
    set_el_time sid resourceId Time)"
  "\<And>get_el_caps set_el_state resourceId Enable. guarded sid (saHpiEventLogStateSet
    get_el_caps set_el_state sid resourceId Enable)"
  "\<And>get_el_caps reset_el_overflow resourceId. guarded sid (saHpiEventLogOverflowReset
    get_el_caps reset_el_overflow sid resourceId)"
  unfolding event_log_defs
  by (rule guarded_rules guardedI api_rules | assumption | (rule ends_alarm_end, assumption) |
    rule refl | (simp add: suits_defs; fail) |
    (rule endsI, auto simp: Let_def intro!: api_inv_release api_inv_tick api_inv_write
       split: option.splits prod.splits if_splits; fail))+

section \<open>Sensors and controls\<close>

lemmas sensor_defs =
  saHpiSensorReadingGet_def saHpiSensorThresholdsSet_def saHpiSensorTypeGet_def
  saHpiSensorEnableGet_def saHpiSensorEnableSet_def saHpiSensorEventEnableGet_def
  saHpiSensorEventEnableSet_def saHpiSensorEventMasksGet_def saHpiSensorEventMasksSet_def
  saHpiControlTypeGet_def saHpiControlGet_def saHpiControlSet_def

lemma sensor_guarded [guarded_rules]:
  "\<And>get_sensor_reading resourceId SensorNum Reading EventState. guarded sid
    (saHpiSensorReadingGet get_sensor_reading sid resourceId SensorNum Reading EventState)"
  "\<And>get_sensor_thresholds set_sensor_thresholds resourceId SensorNum SensorThresholds.
    guarded sid (saHpiSensorThresholdsSet get_sensor_thresholds set_sensor_thresholds sid resourceId
    SensorNum SensorThresholds)"
  "\<And>resourceId SensorNum Type Category. guarded sid (saHpiSensorTypeGet sid resourceId
    SensorNum Type Category)"
  "\<And>get_sensor_enable resourceId SensorNum SensorEnabled. guarded sid (saHpiSensorEnableGet
    get_sensor_enable sid resourceId SensorNum SensorEnabled)"
  "\<And>set_sensor_enable resourceId SensorNum SensorEnabled. guarded sid (saHpiSensorEnableSet
    set_sensor_enable sid resourceId SensorNum SensorEnabled)"
  "\<And>get_sensor_event_enables resourceId SensorNum SensorEventsEnabled. guarded sid
    (saHpiSensorEventEnableGet get_sensor_event_enables sid resourceId SensorNum
    SensorEventsEnabled)"
  "\<And>set_sensor_event_enables resourceId SensorNum SensorEventsEnabled. guarded sid
    (saHpiSensorEventEnableSet set_sensor_event_enables sid resourceId SensorNum
    SensorEventsEnabled)"
  "\<And>get_sensor_event_masks resourceId SensorNum AssertEventMask DeassertEventMask. guarded
    sid (saHpiSensorEventMasksGet get_sensor_event_masks sid resourceId SensorNum AssertEventMask
    DeassertEventMask)"
  "\<And>set_sensor_event_masks resourceId SensorNum Action AssertEventMask DeassertEventMask.
    guarded sid (saHpiSensorEventMasksSet set_sensor_event_masks sid resourceId SensorNum Action
    AssertEventMask DeassertEventMask)"
  "\<And>resourceId CtrlNum Type. guarded sid (saHpiControlTypeGet sid resourceId CtrlNum Type)"
  "\<And>get_control_state resourceId CtrlNum CtrlMode CtrlState. guarded sid (saHpiControlGet
    get_control_state sid resourceId CtrlNum CtrlMode CtrlState)"
  "\<And>get_control_state set_control_state resourceId CtrlNum CtrlMode CtrlState. guarded sid
    (saHpiControlSet get_control_state set_control_state sid resourceId CtrlNum CtrlMode CtrlState)"
  unfolding sensor_defs
  by (rule guarded_rules guardedI api_rules | assumption | (rule ends_alarm_end, assumption) |
    rule refl | (simp add: suits_defs; fail) |
    (rule endsI, auto simp: Let_def intro!: api_inv_release api_inv_tick api_inv_write
       split: option.splits prod.splits if_splits; fail))+

section \<open>Inventory data, watchdog timers, annunciators and diagnostics\<close>

lemmas inventory_defs =
  saHpiIdrInfoGet_def saHpiIdrAreaHeaderGet_def saHpiIdrAreaAdd_def saHpiIdrAreaAddById_def
  saHpiIdrAreaDelete_def saHpiIdrFieldGet_def saHpiIdrFieldAdd_def saHpiIdrFieldAddById_def
  saHpiIdrFieldSet_def saHpiIdrFieldDelete_def saHpiWatchdogTimerGet_def
  saHpiWatchdogTimerSet_def saHpiWatchdogTimerReset_def saHpiAnnunciatorGetNext_def
  saHpiAnnunciatorGet_def saHpiAnnunciatorAcknowledge_def saHpiAnnunciatorAdd_def
  saHpiAnnunciatorDelete_def saHpiAnnunciatorModeSet_def saHpiDimiInfoGet_def
  saHpiDimiTestInfoGet_def saHpiDimiTestReadinessGet_def saHpiDimiTestStart_def
  saHpiDimiTestCancel_def saHpiDimiTestStatusGet_def saHpiDimiTestResultsGet_def

lemma inventory_guarded [guarded_rules]:
  "\<And>get_idr_info resourceId IdrId IdrInfo. guarded sid (saHpiIdrInfoGet get_idr_info sid
    resourceId IdrId IdrInfo)"
  "\<And>get_idr_area_header resourceId IdrId AreaType AreaId NextAreaId Header. guarded sid
    (saHpiIdrAreaHeaderGet get_idr_area_header sid resourceId IdrId AreaType AreaId NextAreaId
    Header)"
  "\<And>add_idr_area resourceId IdrId AreaType AreaId. guarded sid (saHpiIdrAreaAdd add_idr_area
    sid resourceId IdrId AreaType AreaId)"
  "\<And>get_idr_info get_idr_area_header add_idr_area_id resourceId IdrId AreaType AreaId.
    guarded sid (saHpiIdrAreaAddById get_idr_info get_idr_area_header add_idr_area_id sid resourceId
    IdrId AreaType AreaId)"
  "\<And>del_idr_area resourceId IdrId AreaId. guarded sid (saHpiIdrAreaDelete del_idr_area sid
    resourceId IdrId AreaId)"
  "\<And>get_idr_field resourceId IdrId AreaId FieldType FieldId NextFieldId field. guarded sid
    (saHpiIdrFieldGet get_idr_field sid resourceId IdrId AreaId FieldType FieldId NextFieldId
    field)"
  "\<And>add_idr_field resourceId IdrId field. guarded sid (saHpiIdrFieldAdd add_idr_field sid
    resourceId IdrId field)"
  "\<And>get_idr_area_header get_idr_field add_idr_field_id resourceId IdrId field. guarded sid
    (saHpiIdrFieldAddById get_idr_area_header get_idr_field add_idr_field_id sid resourceId IdrId
    field)"
  "\<And>set_idr_field resourceId IdrId field. guarded sid (saHpiIdrFieldSet set_idr_field sid
    resourceId IdrId field)"
  "\<And>del_idr_field resourceId IdrId AreaId FieldId. guarded sid (saHpiIdrFieldDelete
    del_idr_field sid resourceId IdrId AreaId FieldId)"
  "\<And>get_watchdog_info resourceId WatchdogNum Watchdog. guarded sid (saHpiWatchdogTimerGet
    get_watchdog_info sid resourceId WatchdogNum Watchdog)"
  "\<And>set_watchdog_info resourceId WatchdogNum Watchdog. guarded sid (saHpiWatchdogTimerSet
    set_watchdog_info sid resourceId WatchdogNum Watchdog)"
  "\<And>reset_watchdog resourceId WatchdogNum. guarded sid (saHpiWatchdogTimerReset
    reset_watchdog sid resourceId WatchdogNum)"
  "\<And>get_next_announce resourceId AnnunciatorNum severity UnacknowledgedOnly Announcement.
    guarded sid (saHpiAnnunciatorGetNext get_next_announce sid resourceId AnnunciatorNum severity
    UnacknowledgedOnly Announcement)"
  "\<And>get_announce resourceId AnnunciatorNum entryId Announcement. guarded sid
    (saHpiAnnunciatorGet get_announce sid resourceId AnnunciatorNum entryId Announcement)"
  "\<And>ack_announce resourceId AnnunciatorNum entryId severity. guarded sid
    (saHpiAnnunciatorAcknowledge ack_announce sid resourceId AnnunciatorNum entryId severity)"
  "\<And>get_annunc_mode add_announce resourceId AnnunciatorNum Announcement. guarded sid
    (saHpiAnnunciatorAdd get_annunc_mode add_announce sid resourceId AnnunciatorNum Announcement)"
  "\<And>get_annunc_mode del_announce resourceId AnnunciatorNum entryId severity. guarded sid
    (saHpiAnnunciatorDelete get_annunc_mode del_announce sid resourceId AnnunciatorNum entryId
    severity)"
  "\<And>set_annunc_mode resourceId AnnunciatorNum mode. guarded sid (saHpiAnnunciatorModeSet
    set_annunc_mode sid resourceId AnnunciatorNum mode)"
  "\<And>get_dimi_info resourceId DimiNum DimiInfo. guarded sid (saHpiDimiInfoGet get_dimi_info
    sid resourceId DimiNum DimiInfo)"
  "\<And>get_dimi_test resourceId DimiNum TestNum DimiTest. guarded sid (saHpiDimiTestInfoGet
    get_dimi_test sid resourceId DimiNum TestNum DimiTest)"
  "\<And>get_dimi_test_ready resourceId DimiNum TestNum DimiReady. guarded sid
    (saHpiDimiTestReadinessGet get_dimi_test_ready sid resourceId DimiNum TestNum DimiReady)"
  "\<And>start_dimi_test resourceId DimiNum TestNum NumberOfParams ParamsList. guarded sid
    (saHpiDimiTestStart start_dimi_test sid resourceId DimiNum TestNum NumberOfParams ParamsList)"
  "\<And>cancel_dimi_test resourceId DimiNum TestNum. guarded sid (saHpiDimiTestCancel
    cancel_dimi_test sid resourceId DimiNum TestNum)"
  "\<And>get_dimi_test_status resourceId DimiNum TestNum PercentCompleted RunStatus. guarded sid
    (saHpiDimiTestStatusGet get_dimi_test_status sid resourceId DimiNum TestNum PercentCompleted
    RunStatus)"
  "\<And>get_dimi_test_results resourceId DimiNum TestNum TestResults. guarded sid
    (saHpiDimiTestResultsGet get_dimi_test_results sid resourceId DimiNum TestNum TestResults)"
  unfolding inventory_defs
  by (rule guarded_rules guardedI api_rules | assumption | (rule ends_alarm_end, assumption) |
    rule refl | (simp add: suits_defs; fail) |
    (rule endsI, auto simp: Let_def intro!: api_inv_release api_inv_tick api_inv_write
       split: option.splits prod.splits if_splits; fail))+

section \<open>Firmware upgrades\<close>

lemmas fumi_defs =
  saHpiFumiSpecInfoGet_def saHpiFumiServiceImpactGet_def saHpiFumiSourceSet_def
  saHpiFumiSourceInfoValidateStart_def saHpiFumiSourceComponentInfoGet_def
  saHpiFumiTargetInfoGet_def saHpiFumiTargetComponentInfoGet_def
  saHpiFumiLogicalTargetInfoGet_def saHpiFumiLogicalTargetComponentInfoGet_def
  saHpiFumiBackupStart_def saHpiFumiBankBootOrderSet_def saHpiFumiBankCopyStart_def
  saHpiFumiInstallStart_def saHpiFumiUpgradeStatusGet_def saHpiFumiTargetVerifyStart_def
  saHpiFumiTargetVerifyMainStart_def saHpiFumiUpgradeCancel_def
  saHpiFumiAutoRollbackDisableGet_def saHpiFumiAutoRollbackDisableSet_def
  saHpiFumiRollbackStart_def saHpiFumiActivate_def saHpiFumiActivateStart_def
  saHpiFumiCleanup_def

lemma fumi_guarded [guarded_rules]:
  "\<And>get_fumi_spec resourceId FumiNum SpecInfo. guarded sid (saHpiFumiSpecInfoGet
    get_fumi_spec sid resourceId FumiNum SpecInfo)"
  "\<And>get_fumi_service_impact resourceId FumiNum ServiceImpact. guarded sid
    (saHpiFumiServiceImpactGet get_fumi_service_impact sid resourceId FumiNum ServiceImpact)"
  "\<And>set_fumi_source resourceId FumiNum BankNum uri. guarded sid (saHpiFumiSourceSet
    set_fumi_source sid resourceId FumiNum BankNum uri)"
  "\<And>validate_fumi_source resourceId FumiNum BankNum. guarded sid
    (saHpiFumiSourceInfoValidateStart validate_fumi_source sid resourceId FumiNum BankNum)"
  "\<And>get_fumi_source_component resourceId FumiNum BankNum ComponentEntryId
    NextComponentEntryId ComponentInfo. guarded sid (saHpiFumiSourceComponentInfoGet
    get_fumi_source_component sid resourceId FumiNum BankNum ComponentEntryId NextComponentEntryId
    ComponentInfo)"
  "\<And>get_fumi_target resourceId FumiNum BankNum BankInfo. guarded sid (saHpiFumiTargetInfoGet
    get_fumi_target sid resourceId FumiNum BankNum BankInfo)"
  "\<And>get_fumi_target_component resourceId FumiNum BankNum ComponentEntryId
    NextComponentEntryId ComponentInfo. guarded sid (saHpiFumiTargetComponentInfoGet
    get_fumi_target_component sid resourceId FumiNum BankNum ComponentEntryId NextComponentEntryId
    ComponentInfo)"
  "\<And>get_fumi_logical_target resourceId FumiNum BankInfo. guarded sid
    (saHpiFumiLogicalTargetInfoGet get_fumi_logical_target sid resourceId FumiNum BankInfo)"
  "\<And>get_fumi_logical_target_component resourceId FumiNum ComponentEntryId
    NextComponentEntryId ComponentInfo. guarded sid (saHpiFumiLogicalTargetComponentInfoGet
    get_fumi_logical_target_component sid resourceId FumiNum ComponentEntryId NextComponentEntryId
    ComponentInfo)"
  "\<And>start_fumi_backup resourceId FumiNum. guarded sid (saHpiFumiBackupStart start_fumi_backup
    sid resourceId FumiNum)"
  "\<And>set_fumi_bank_order resourceId FumiNum BankNum Position. guarded sid
    (saHpiFumiBankBootOrderSet set_fumi_bank_order sid resourceId FumiNum BankNum Position)"
  "\<And>start_fumi_bank_copy resourceId FumiNum SourceBankNum TargetBankNum. guarded sid
    (saHpiFumiBankCopyStart start_fumi_bank_copy sid resourceId FumiNum SourceBankNum
    TargetBankNum)"
  "\<And>get_fumi_source start_fumi_install resourceId FumiNum BankNum. guarded sid
    (saHpiFumiInstallStart get_fumi_source start_fumi_install sid resourceId FumiNum BankNum)"
  "\<And>get_fumi_status resourceId FumiNum BankNum UpgradeStatus. guarded sid
    (saHpiFumiUpgradeStatusGet get_fumi_status sid resourceId FumiNum BankNum UpgradeStatus)"
  "\<And>get_fumi_source start_fumi_verify resourceId FumiNum BankNum. guarded sid
    (saHpiFumiTargetVerifyStart get_fumi_source start_fumi_verify sid resourceId FumiNum BankNum)"
  "\<And>get_fumi_source start_fumi_verify_main resourceId FumiNum. guarded sid
    (saHpiFumiTargetVerifyMainStart get_fumi_source start_fumi_verify_main sid resourceId FumiNum)"
  "\<And>cancel_fumi_upgrade resourceId FumiNum BankNum. guarded sid (saHpiFumiUpgradeCancel
    cancel_fumi_upgrade sid resourceId FumiNum BankNum)"
  "\<And>get_fumi_autorollback_disable resourceId FumiNum Disable. guarded sid
    (saHpiFumiAutoRollbackDisableGet get_fumi_autorollback_disable sid resourceId FumiNum Disable)"
  "\<And>set_fumi_autorollback_disable resourceId FumiNum Disable. guarded sid
    (saHpiFumiAutoRollbackDisableSet set_fumi_autorollback_disable sid resourceId FumiNum Disable)"
  "\<And>start_fumi_rollback resourceId FumiNum. guarded sid (saHpiFumiRollbackStart
    start_fumi_rollback sid resourceId FumiNum)"
  "\<And>activate_fumi resourceId FumiNum. guarded sid (saHpiFumiActivate activate_fumi sid
    resourceId FumiNum)"
  "\<And>start_fumi_activate resourceId FumiNum Logical. guarded sid (saHpiFumiActivateStart
    start_fumi_activate sid resourceId FumiNum Logical)"
  "\<And>cleanup_fumi resourceId FumiNum BankNum. guarded sid (saHpiFumiCleanup cleanup_fumi sid
    resourceId FumiNum BankNum)"
  unfolding fumi_defs
  by (rule guarded_rules guardedI api_rules | assumption | (rule ends_alarm_end, assumption) |
    rule refl | (simp add: suits_defs; fail) |
    (rule endsI, auto simp: Let_def intro!: api_inv_release api_inv_tick api_inv_write
       split: option.splits prod.splits if_splits; fail))+

section \<open>Hot swap and the rest\<close>

lemmas hot_swap_defs =
  saHpiResourceActiveSet_def saHpiResourceInactiveSet_def saHpiAutoInsertTimeoutGet_def
  saHpiAutoExtractTimeoutGet_def saHpiAutoExtractTimeoutSet_def saHpiHotSwapActionRequest_def
  saHpiHotSwapIndicatorStateGet_def saHpiHotSwapIndicatorStateSet_def saHpiParmControl_def
  saHpiResourceLoadIdGet_def saHpiResourceLoadIdSet_def saHpiResourceResetStateGet_def
  saHpiResourceResetStateSet_def saHpiResourcePowerStateGet_def saHpiResourcePowerStateSet_def

lemma hot_swap_guarded [guarded_rules]:
  "\<And>get_hotswap_state set_hotswap_state resourceId. guarded sid (saHpiResourceActiveSet
    get_hotswap_state set_hotswap_state sid resourceId)"
  "\<And>get_hotswap_state set_hotswap_state resourceId. guarded sid (saHpiResourceInactiveSet
    get_hotswap_state set_hotswap_state sid resourceId)"
  "\<And>Timeout. guarded sid (saHpiAutoInsertTimeoutGet sid Timeout)"
  "\<And>get_autoextract_timeout resourceId Timeout. guarded sid (saHpiAutoExtractTimeoutGet
    get_autoextract_timeout sid resourceId Timeout)"
  "\<And>set_autoextract_timeout resourceId Timeout. guarded sid (saHpiAutoExtractTimeoutSet
    set_autoextract_timeout sid resourceId Timeout)"
  "\<And>get_hotswap_state request_hotswap_action resourceId Action. guarded sid
    (saHpiHotSwapActionRequest get_hotswap_state request_hotswap_action sid resourceId Action)"
  "\<And>get_indicator_state resourceId state. guarded sid (saHpiHotSwapIndicatorStateGet
    get_indicator_state sid resourceId state)"
  "\<And>set_indicator_state resourceId state. guarded sid (saHpiHotSwapIndicatorStateSet
    set_indicator_state sid resourceId state)"
  "\<And>control_parm resourceId Action. guarded sid (saHpiParmControl control_parm sid resourceId
    Action)"
  "\<And>load_id_get resourceId LoadId. guarded sid (saHpiResourceLoadIdGet load_id_get sid
    resourceId LoadId)"
  "\<And>load_id_set resourceId LoadId. guarded sid (saHpiResourceLoadIdSet load_id_set sid
    resourceId LoadId)"
  "\<And>get_reset_state resourceId ResetAction. guarded sid (saHpiResourceResetStateGet
    get_reset_state sid resourceId ResetAction)"
  "\<And>set_reset_state resourceId ResetAction. guarded sid (saHpiResourceResetStateSet
    set_reset_state sid resourceId ResetAction)"
  "\<And>get_power_state resourceId state. guarded sid (saHpiResourcePowerStateGet get_power_state
    sid resourceId state)"
  "\<And>set_power_state resourceId state. guarded sid (saHpiResourcePowerStateSet set_power_state
    sid resourceId state)"
  unfolding hot_swap_defs
  by (rule guarded_rules guardedI api_rules | assumption | (rule ends_alarm_end, assumption) |
    rule refl | (simp add: suits_defs; fail) |
    (rule endsI, auto simp: Let_def intro!: api_inv_release api_inv_tick api_inv_write
       split: option.splits prod.splits if_splits; fail))+

lemma guarded_saHpiHotSwapPolicyCancel [guarded_rules]:
  "guarded sid (saHpiHotSwapPolicyCancel get_hotswap_state hotswap_policy_cancel sid resourceId)"
  unfolding saHpiHotSwapPolicyCancel_def
  by (rule guardedI) (rule ends_read api_rules guarded_rules | assumption | rule refl |
    (simp add: suits_defs; fail))+

end
