(* ===== verification/HpiProps.thy ===== *)
theory HpiProps
  imports HpiGuard RptProps SessionProps
begin

text \<open>
  Properties of the HPI functions: the references and the plugin calls of every run of guarded
  functions, and what the functions on the resource table and on the alarm table do. The functions
  that open and close sessions, subscribe, wait for events, set the tag or the severity of a
  resource, remove a failed resource or set the timeout of the domain are not guarded: they change
  the sessions or the table, or lose a reference (\<open>auto_insert_leak\<close> in HpiBehaviour).
\<close>

section \<open>Runs of HPI functions\<close>

text \<open>A call with arguments, by the session it is made in, and what it does to the state.\<close>

inductive hpi_request :: "u32 \<Rightarrow> (hpi \<Rightarrow> hpi) \<Rightarrow> bool" for sid where
  "hpi_request sid (\<lambda>st. snd (saHpiDomainInfoGet sid DomainInfo st))"
| "hpi_request sid (\<lambda>st. snd (saHpiDrtEntryGet sid entryId NextEntryId DrtEntry st))"
| "hpi_request sid (\<lambda>st. snd (saHpiDomainTagSet sid tag st))"
| "hpi_request sid (\<lambda>st. snd (saHpiRptEntryGet sid entryId NextEntryId RptEntry st))"
| "hpi_request sid (\<lambda>st. snd (saHpiRptEntryGetByResourceId sid resourceId RptEntry st))"
| "hpi_request sid (\<lambda>st. snd (saHpiGetIdByEntityPath sid EntityPath InstrumentType
    InstanceId resourceId InstrumentId rptUpdateCount st))"
| "hpi_request sid (\<lambda>st. snd (saHpiGetChildEntityPath sid parent InstanceId rptUpdateCount
    st))"
| "hpi_request sid (\<lambda>st. snd (saHpiEventLogInfoGet get_el_info sid resourceId Info st))"
| "hpi_request sid (\<lambda>st. snd (saHpiEventLogCapabilitiesGet get_el_caps sid resourceId
    EventLogCapabilities st))"
| "hpi_request sid (\<lambda>st. snd (saHpiEventLogEntryGet get_el_entry sid resourceId entryId
    PrevEntryId NextEntryId EventLogEntry Rdr RptEntry st))"
| "hpi_request sid (\<lambda>st. snd (saHpiEventLogTimeGet get_el_info sid resourceId Time st))"
| "hpi_request sid (\<lambda>st. snd (saHpiEventLogStateGet get_el_info sid resourceId Enable
    st))"
| "hpi_request sid (\<lambda>st. snd (saHpiEventLogEntryAdd get_el_info get_el_caps add_el_entry
    io sid resourceId EvtEntry st))"
| "hpi_request sid (\<lambda>st. snd (saHpiEventLogClear get_el_caps clear_el sid resourceId st))"
| "hpi_request sid (\<lambda>st. snd (saHpiEventLogTimeSet get_el_caps set_el_time sid resourceId
    Time st))"
| "hpi_request sid (\<lambda>st. snd (saHpiEventLogStateSet get_el_caps set_el_state sid
    resourceId Enable st))"
| "hpi_request sid (\<lambda>st. snd (saHpiEventLogOverflowReset get_el_caps reset_el_overflow sid
    resourceId st))"
| "hpi_request sid (\<lambda>st. snd (saHpiEventAdd get_el_info sid EvtEntry st))"
| "hpi_request sid (\<lambda>st. snd (saHpiAlarmGetNext sid severity UnacknowledgedOnly Alarm
    st))"
| "hpi_request sid (\<lambda>st. snd (saHpiAlarmGet sid alarmId Alarm st))"
| "hpi_request sid (\<lambda>st. snd (saHpiAlarmAcknowledge sid alarmId severity st))"
| "hpi_request sid (\<lambda>st. snd (saHpiAlarmAdd io sid Alarm st))"
| "hpi_request sid (\<lambda>st. snd (saHpiAlarmDelete sid alarmId severity st))"
| "hpi_request sid (\<lambda>st. snd (saHpiRdrGet sid resourceId entryId NextEntryId Rdr st))"
| "hpi_request sid (\<lambda>st. snd (saHpiRdrGetByInstrumentId sid resourceId rdrType
    InstrumentId Rdr st))"
| "hpi_request sid (\<lambda>st. snd (saHpiRdrUpdateCountGet sid resourceId UpdateCount st))"
| "hpi_request sid (\<lambda>st. snd (saHpiSensorReadingGet get_sensor_reading sid resourceId
    SensorNum Reading EventState st))"
| "hpi_request sid (\<lambda>st. snd (saHpiSensorThresholdsGet get_sensor_thresholds sid
    resourceId SensorNum SensorThresholds st))"
| "hpi_request sid (\<lambda>st. snd (saHpiSensorThresholdsSet get_sensor_thresholds
    set_sensor_thresholds sid resourceId SensorNum SensorThresholds st))"
| "hpi_request sid (\<lambda>st. snd (saHpiSensorTypeGet sid resourceId SensorNum Type Category
    st))"
| "hpi_request sid (\<lambda>st. snd (saHpiSensorEnableGet get_sensor_enable sid resourceId
    SensorNum SensorEnabled st))"
| "hpi_request sid (\<lambda>st. snd (saHpiSensorEnableSet set_sensor_enable sid resourceId
    SensorNum SensorEnabled st))"
| "hpi_request sid (\<lambda>st. snd (saHpiSensorEventEnableGet get_sensor_event_enables sid
    resourceId SensorNum SensorEventsEnabled st))"
| "hpi_request sid (\<lambda>st. snd (saHpiSensorEventEnableSet set_sensor_event_enables sid
    resourceId SensorNum SensorEventsEnabled st))"
| "hpi_request sid (\<lambda>st. snd (saHpiSensorEventMasksGet get_sensor_event_masks sid
    resourceId SensorNum AssertEventMask DeassertEventMask st))"
| "hpi_request sid (\<lambda>st. snd (saHpiSensorEventMasksSet set_sensor_event_masks sid
    resourceId SensorNum Action AssertEventMask DeassertEventMask st))"
| "hpi_request sid (\<lambda>st. snd (saHpiControlTypeGet sid resourceId CtrlNum Type st))"
| "hpi_request sid (\<lambda>st. snd (saHpiControlGet get_control_state sid resourceId CtrlNum
    CtrlMode CtrlState st))"
| "hpi_request sid (\<lambda>st. snd (saHpiControlSet get_control_state set_control_state sid
    resourceId CtrlNum CtrlMode CtrlState st))"
| "hpi_request sid (\<lambda>st. snd (saHpiIdrInfoGet get_idr_info sid resourceId IdrId IdrInfo
    st))"
| "hpi_request sid (\<lambda>st. snd (saHpiIdrAreaHeaderGet get_idr_area_header sid resourceId
    IdrId AreaType AreaId NextAreaId Header st))"
| "hpi_request sid (\<lambda>st. snd (saHpiIdrAreaAdd add_idr_area sid resourceId IdrId AreaType
    AreaId st))"
| "hpi_request sid (\<lambda>st. snd (saHpiIdrAreaAddById get_idr_info get_idr_area_header
    add_idr_area_id sid resourceId IdrId AreaType AreaId st))"
| "hpi_request sid (\<lambda>st. snd (saHpiIdrAreaDelete del_idr_area sid resourceId IdrId AreaId
    st))"
| "hpi_request sid (\<lambda>st. snd (saHpiIdrFieldGet get_idr_field sid resourceId IdrId AreaId
    FieldType FieldId NextFieldId field st))"
| "hpi_request sid (\<lambda>st. snd (saHpiIdrFieldAdd add_idr_field sid resourceId IdrId field
    st))"
| "hpi_request sid (\<lambda>st. snd (saHpiIdrFieldAddById get_idr_area_header get_idr_field
    add_idr_field_id sid resourceId IdrId field st))"
| "hpi_request sid (\<lambda>st. snd (saHpiIdrFieldSet set_idr_field sid resourceId IdrId field
    st))"
| "hpi_request sid (\<lambda>st. snd (saHpiIdrFieldDelete del_idr_field sid resourceId IdrId
    AreaId FieldId st))"
| "hpi_request sid (\<lambda>st. snd (saHpiWatchdogTimerGet get_watchdog_info sid resourceId
    WatchdogNum Watchdog st))"
| "hpi_request sid (\<lambda>st. snd (saHpiWatchdogTimerSet set_watchdog_info sid resourceId
    WatchdogNum Watchdog st))"
| "hpi_request sid (\<lambda>st. snd (saHpiWatchdogTimerReset reset_watchdog sid resourceId
    WatchdogNum st))"
| "hpi_request sid (\<lambda>st. snd (saHpiAnnunciatorGetNext get_next_announce sid resourceId
    AnnunciatorNum severity UnacknowledgedOnly Announcement st))"
| "hpi_request sid (\<lambda>st. snd (saHpiAnnunciatorGet get_announce sid resourceId
    AnnunciatorNum entryId Announcement st))"
| "hpi_request sid (\<lambda>st. snd (saHpiAnnunciatorAcknowledge ack_announce sid resourceId
    AnnunciatorNum entryId severity st))"
| "hpi_request sid (\<lambda>st. snd (saHpiAnnunciatorModeGet get_annunc_mode sid resourceId
    AnnunciatorNum Mode st))"
| "hpi_request sid (\<lambda>st. snd (saHpiAnnunciatorAdd get_annunc_mode add_announce sid
    resourceId AnnunciatorNum Announcement st))"
| "hpi_request sid (\<lambda>st. snd (saHpiAnnunciatorDelete get_annunc_mode del_announce sid
    resourceId AnnunciatorNum entryId severity st))"
| "hpi_request sid (\<lambda>st. snd (saHpiAnnunciatorModeSet set_annunc_mode sid resourceId
    AnnunciatorNum mode st))"
| "hpi_request sid (\<lambda>st. snd (saHpiDimiInfoGet get_dimi_info sid resourceId DimiNum
    DimiInfo st))"
| "hpi_request sid (\<lambda>st. snd (saHpiDimiTestInfoGet get_dimi_test sid resourceId DimiNum
    TestNum DimiTest st))"
| "hpi_request sid (\<lambda>st. snd (saHpiDimiTestReadinessGet get_dimi_test_ready sid resourceId
    DimiNum TestNum DimiReady st))"
| "hpi_request sid (\<lambda>st. snd (saHpiDimiTestStart start_dimi_test sid resourceId DimiNum
    TestNum NumberOfParams ParamsList st))"
| "hpi_request sid (\<lambda>st. snd (saHpiDimiTestCancel cancel_dimi_test sid resourceId DimiNum
    TestNum st))"
| "hpi_request sid (\<lambda>st. snd (saHpiDimiTestStatusGet get_dimi_test_status sid resourceId
    DimiNum TestNum PercentCompleted RunStatus st))"
| "hpi_request sid (\<lambda>st. snd (saHpiDimiTestResultsGet get_dimi_test_results sid resourceId
    DimiNum TestNum TestResults st))"
| "hpi_request sid (\<lambda>st. snd (saHpiFumiSpecInfoGet get_fumi_spec sid resourceId FumiNum
    SpecInfo st))"
| "hpi_request sid (\<lambda>st. snd (saHpiFumiServiceImpactGet get_fumi_service_impact sid
    resourceId FumiNum ServiceImpact st))"
| "hpi_request sid (\<lambda>st. snd (saHpiFumiSourceSet set_fumi_source sid resourceId FumiNum
    BankNum uri st))"
| "hpi_request sid (\<lambda>st. snd (saHpiFumiSourceInfoValidateStart validate_fumi_source sid
    resourceId FumiNum BankNum st))"
| "hpi_request sid (\<lambda>st. snd (saHpiFumiSourceInfoGet get_fumi_source sid resourceId
    FumiNum BankNum SourceInfo st))"
| "hpi_request sid (\<lambda>st. snd (saHpiFumiSourceComponentInfoGet get_fumi_source_component
    sid resourceId FumiNum BankNum ComponentEntryId NextComponentEntryId ComponentInfo st))"
| "hpi_request sid (\<lambda>st. snd (saHpiFumiTargetInfoGet get_fumi_target sid resourceId
    FumiNum BankNum BankInfo st))"
| "hpi_request sid (\<lambda>st. snd (saHpiFumiTargetComponentInfoGet get_fumi_target_component
    sid resourceId FumiNum BankNum ComponentEntryId NextComponentEntryId ComponentInfo st))"
| "hpi_request sid (\<lambda>st. snd (saHpiFumiLogicalTargetInfoGet get_fumi_logical_target sid
    resourceId FumiNum BankInfo st))"
| "hpi_request sid (\<lambda>st. snd (saHpiFumiLogicalTargetComponentInfoGet
    get_fumi_logical_target_component sid resourceId FumiNum ComponentEntryId NextComponentEntryId
    ComponentInfo st))"
| "hpi_request sid (\<lambda>st. snd (saHpiFumiBackupStart start_fumi_backup sid resourceId
    FumiNum st))"
| "hpi_request sid (\<lambda>st. snd (saHpiFumiBankBootOrderSet set_fumi_bank_order sid resourceId
    FumiNum BankNum Position st))"
| "hpi_request sid (\<lambda>st. snd (saHpiFumiBankCopyStart start_fumi_bank_copy sid resourceId
    FumiNum SourceBankNum TargetBankNum st))"
| "hpi_request sid (\<lambda>st. snd (saHpiFumiInstallStart get_fumi_source start_fumi_install sid
    resourceId FumiNum BankNum st))"
| "hpi_request sid (\<lambda>st. snd (saHpiFumiUpgradeStatusGet get_fumi_status sid resourceId
    FumiNum BankNum UpgradeStatus st))"
| "hpi_request sid (\<lambda>st. snd (saHpiFumiTargetVerifyStart get_fumi_source start_fumi_verify
    sid resourceId FumiNum BankNum st))"
| "hpi_request sid (\<lambda>st. snd (saHpiFumiTargetVerifyMainStart get_fumi_source
    start_fumi_verify_main sid resourceId FumiNum st))"
| "hpi_request sid (\<lambda>st. snd (saHpiFumiUpgradeCancel cancel_fumi_upgrade sid resourceId
    FumiNum BankNum st))"
| "hpi_request sid (\<lambda>st. snd (saHpiFumiAutoRollbackDisableGet
    get_fumi_autorollback_disable sid resourceId FumiNum Disable st))"
| "hpi_request sid (\<lambda>st. snd (saHpiFumiAutoRollbackDisableSet
    set_fumi_autorollback_disable sid resourceId FumiNum Disable st))"
| "hpi_request sid (\<lambda>st. snd (saHpiFumiRollbackStart start_fumi_rollback sid resourceId
    FumiNum st))"
| "hpi_request sid (\<lambda>st. snd (saHpiFumiActivate activate_fumi sid resourceId FumiNum st))"
| "hpi_request sid (\<lambda>st. snd (saHpiFumiActivateStart start_fumi_activate sid resourceId
    FumiNum Logical st))"
| "hpi_request sid (\<lambda>st. snd (saHpiFumiCleanup cleanup_fumi sid resourceId FumiNum BankNum
    st))"
| "hpi_request sid (\<lambda>st. snd (saHpiHotSwapStateGet get_hotswap_state sid resourceId state
    st))"
| "hpi_request sid (\<lambda>st. snd (saHpiHotSwapPolicyCancel get_hotswap_state
    hotswap_policy_cancel sid resourceId st))"
| "hpi_request sid (\<lambda>st. snd (saHpiResourceActiveSet get_hotswap_state set_hotswap_state
    sid resourceId st))"
| "hpi_request sid (\<lambda>st. snd (saHpiResourceInactiveSet get_hotswap_state set_hotswap_state
    sid resourceId st))"
| "hpi_request sid (\<lambda>st. snd (saHpiAutoInsertTimeoutGet sid Timeout st))"
| "hpi_request sid (\<lambda>st. snd (saHpiAutoExtractTimeoutGet get_autoextract_timeout sid
    resourceId Timeout st))"
| "hpi_request sid (\<lambda>st. snd (saHpiAutoExtractTimeoutSet set_autoextract_timeout sid
    resourceId Timeout st))"
| "hpi_request sid (\<lambda>st. snd (saHpiHotSwapActionRequest get_hotswap_state
    request_hotswap_action sid resourceId Action st))"
| "hpi_request sid (\<lambda>st. snd (saHpiHotSwapIndicatorStateGet get_indicator_state sid
    resourceId state st))"
| "hpi_request sid (\<lambda>st. snd (saHpiHotSwapIndicatorStateSet set_indicator_state sid
    resourceId state st))"
| "hpi_request sid (\<lambda>st. snd (saHpiParmControl control_parm sid resourceId Action st))"
| "hpi_request sid (\<lambda>st. snd (saHpiResourceLoadIdGet load_id_get sid resourceId LoadId
    st))"
| "hpi_request sid (\<lambda>st. snd (saHpiResourceLoadIdSet load_id_set sid resourceId LoadId
    st))"
| "hpi_request sid (\<lambda>st. snd (saHpiResourceResetStateGet get_reset_state sid resourceId
    ResetAction st))"
| "hpi_request sid (\<lambda>st. snd (saHpiResourceResetStateSet set_reset_state sid resourceId
    ResetAction st))"
| "hpi_request sid (\<lambda>st. snd (saHpiResourcePowerStateGet get_power_state sid resourceId
    state st))"
| "hpi_request sid (\<lambda>st. snd (saHpiResourcePowerStateSet set_power_state sid resourceId
    state st))"

lemma request_keeps:
  assumes "hpi_request sid f" and "refs_ok st"
  shows "api_inv st (allowed st sid) None None (f st)"
  using assms(1)
  by (cases rule: hpi_request.cases) (auto intro: guardedD [OF _ assms(2)] guarded_rules)

text \<open>Calls one after the other, each in a session of its own.\<close>

inductive hpi_run :: "hpi \<Rightarrow> hpi \<Rightarrow> bool" for st where
  start: "hpi_run st st"
| call: "hpi_run st st' \<Longrightarrow> hpi_request sid f \<Longrightarrow> hpi_run st (f st')"

lemma run_like:
  "hpi_run st st' \<Longrightarrow> refs_ok st \<Longrightarrow> like None None st st' \<and> refs_ok st'"
proof (induction rule: hpi_run.induct)
  case (call st' sid f)
  then have "api_inv st' (allowed st' sid) None None (f st')" by (intro request_keeps) simp_all
  then show ?case
    using call like_trans [of None None st st' "f st'"] refs_ok_like api_invD(2) by blast
qed simp

text \<open>C5: whatever functions of \<open>hpi_request\<close> the clients call, one after the other, in whatever
  sessions and with whatever arguments, and whatever the plugins answer: afterwards every domain and every handler has
  the reference count that it had before, so no early return of the functions loses a reference and
  none releases twice, the tables of domains and handlers are the same, and no instance of a plugin
  was closed.\<close>

theorem hpi_keeps_refs:
  assumes "hpi_run st st'" and "refs_ok st"
  shows "refcount (dmn st') = refcount (dmn st) \<and> dom_table (dmn st') = dom_table (dmn st) \<and>
    handlers (plug st') = handlers (plug st) \<and> handler_table (plug st') = handler_table (plug st) \<and>
    closed (plug st') = closed (plug st)"
proof -
  have l: "like None None st st'" using run_like [OF assms] by blast
  have "refcount (dmn st') a = refcount (dmn st) a" for a
  proof -
    have "rel_option (dom_like 0) (dom_heap (dmn st) a) (dom_heap (dmn st') a)"
      using l by (simp add: like_def)
    then show ?thesis
      by (cases "dom_heap (dmn st) a"; cases "dom_heap (dmn st') a")
        (simp_all add: refcount_def dom_like_def)
  qed
  then show ?thesis using l by (simp add: like_def fun_eq_iff map_option.identity)
qed

section \<open>A daemon to compute with\<close>

definition demo_table5 :: RPTable where
  "demo_table5 =
     (let r = zero_rpt_entry\<lparr>ResourceId := 5, ResourceCapabilities := SAHPI_CAPABILITY_SENSOR\<rparr>;
          rec = zero_rdr\<lparr>RdrType := SAHPI_SENSOR_RDR,
                  RdrTypeUnion := \<lparr>Num = 3, RestOfRec = OtherRec []\<rparr>\<rparr>;
          t = snd (snd (oh_add_resource 1 (snd (oh_init_rpt zero_rpt)) r 100 False))
      in snd (snd (oh_add_rdr t 5 rec 0 False)))"

definition demo_plugins :: plugin_state where
  "demo_plugins = \<lparr>plugins = [0 \<mapsto> \<lparr>p_name = ''demo'', p_abi = [''open'', ''get_sensor_reading''],
       handler_count = 1, p_refcount = 0\<rparr>], plugin_fresh = 1, plugin_list = [0],
     handlers = [0 \<mapsto> \<lparr>h_id = 7, plugin_name = ''demo'', config = Map.empty, h_abi = 0, hnd = 42,
       h_refcount = 0\<rparr>], handler_fresh = 1, handler_list = [0], handler_table = [7 \<mapsto> 0],
     handler_id = 8, closed = [], calls = []\<rparr>"

definition demo_hpi :: hpi where
  "demo_hpi = \<lparr>dmn = demo_daemon\<lparr>dom_heap := [0 \<mapsto> (demo_domain 0)\<lparr>d_rpt := demo_table5\<rparr>],
       dom_table := [0 \<mapsto> 0], dom_list := [0], hid_heap := [100 \<mapsto> 7],
       sess := nt_append s_id \<lparr>s_id = 1, s_did = 0, s_subscribed = False, s_eventq_status = 0,
         s_eventq = []\<rparr> nt_empty, next_sid := 2\<rparr>,
     plug = demo_plugins, clk = of_nat, pushed = (\<lambda>_. [])\<rparr>"

lemma demo_hpi_ok: "refs_ok demo_hpi"
  by (auto simp: refs_ok_def table_ok_def demo_hpi_def demo_daemon_def demo_plugins_def
      refcount_def handler_refcount_def split: if_splits)

definition demo_read :: "hpi \<Rightarrow> hpi" where
  "demo_read st = snd (saHpiSensorReadingGet (\<lambda>_ _ _ _. (SA_OK, None, None)) 1 5 3 None None st)"

lemma demo_read_request: "hpi_request 1 demo_read"
  unfolding demo_read_def [abs_def] by (rule hpi_request.intros)

lemma demo_read_calls: "calls (plug (demo_read demo_hpi)) = [(42, ''get_sensor_reading'', 5)]"
  by code_simp

theorem hpi_keeps_refs_witness:
  "refcount (dmn (demo_read demo_hpi)) 0 = 0 \<and>
   map_option h_refcount (handlers (plug (demo_read demo_hpi)) 0) = Some 0 \<and>
   calls (plug (demo_read demo_hpi)) \<noteq> []"
proof -
  have "hpi_run demo_hpi (demo_read demo_hpi)"
    by (rule hpi_run.call [OF hpi_run.start demo_read_request])
  from hpi_keeps_refs [OF this demo_hpi_ok] demo_read_calls show ?thesis
    by (simp add: demo_hpi_def demo_plugins_def refcount_def)
qed

text \<open>C6: When a client calls one of the 107 HPI functions of \<open>hpi_request\<close> in a session, every function of a
  plugin that the call reaches is called for a resource that the domain of the session has, that has
  the capabilities the function asks for and has not failed (but for \<open>get_idr_info\<close>), on the instance
  that the handler behind the resource holds, and the plugin of that handler has the function.
  Not among them are \<open>saHpiResourceSeveritySet\<close> and \<open>saHpiResourceTagSet\<close>, which call the plugin for
  failed resources as well, \<open>saHpiResourceFailedRemove\<close> and \<open>saHpiAutoInsertTimeoutSet\<close>, which call
  plugins without these checks, \<open>saHpiDiscover\<close>, and functions that call no plugin: those that open, close, subscribe and unsubscribe sessions, \<open>saHpiEventGet\<close>, \<open>saHpiMyEntityPathGet\<close>,
  \<open>saHpiResourceIdGet\<close> and \<open>saHpiVersionGet\<close>.\<close>

theorem plugin_calls_allowed:
  assumes "hpi_request sid f" and "refs_ok st"
  shows "\<exists>cs. calls (plug (f st)) = calls (plug st) @ cs \<and> (\<forall>c \<in> set cs. allowed st sid c)"
  using api_invD(5) [OF request_keeps [OF assms]] by (simp add: list_all_iff)

theorem plugin_calls_allowed_witness: "allowed demo_hpi 1 (42, ''get_sensor_reading'', 5)"
proof -
  obtain cs where "calls (plug (demo_read demo_hpi)) = calls (plug demo_hpi) @ cs"
      "\<forall>c \<in> set cs. allowed demo_hpi 1 c"
    using plugin_calls_allowed [OF demo_read_request demo_hpi_ok] by blast
  moreover have "calls (plug demo_hpi) = []" by (simp add: demo_hpi_def demo_plugins_def)
  ultimately show ?thesis using demo_read_calls by auto
qed

section \<open>Walking a table\<close>

text \<open>
  What clients do with \<open>saHpiRptEntryGet\<close> and \<open>saHpiRdrGet\<close>: from the first entry on, each call
  names the next one, until the last. \<open>None\<close> stands for an error, or for more than \<open>n\<close> calls.
\<close>

primrec walk ::
    "(u32 \<Rightarrow> hpi \<Rightarrow> (u32 \<times> 'e) hpi_result) \<Rightarrow> nat \<Rightarrow> u32 \<Rightarrow> hpi \<Rightarrow> 'e list option"
where
  "walk f 0 e st = (if e = SAHPI_LAST_ENTRY then Some [] else None)"
| "walk f (Suc n) e st =
     (if e = SAHPI_LAST_ENTRY then Some []
      else case f e st of
             ((rv, out), st') \<Rightarrow>
               (case out of
                  None \<Rightarrow> None
                | Some (nxt, x) \<Rightarrow>
                    if rv = SA_OK then map_option (Cons x) (walk f n nxt st') else None))"

text \<open>The answer that such a function gives for an entry, over a table with keys.\<close>

definition entry_answer ::
    "(u32 \<Rightarrow> 'e option) \<Rightarrow> (u32 \<Rightarrow> 'e option) \<Rightarrow> ('e \<Rightarrow> u32) \<Rightarrow> u32 \<Rightarrow> SaErrorT \<times> (u32 \<times> 'e) option"
where
  "entry_answer get getnext key e =
     (case (if e = SAHPI_FIRST_ENTRY then getnext SAHPI_FIRST_ENTRY else get e) of
        None \<Rightarrow> (SA_ERR_HPI_NOT_PRESENT, None)
      | Some x \<Rightarrow>
          (SA_OK, Some (case getnext (key x) of Some n \<Rightarrow> key n | None \<Rightarrow> SAHPI_LAST_ENTRY, x)))"

context keyed_list
begin

lemma next_key:
  assumes i: "inv t" and "entries t = us @ (k, e) # vs" and "k \<noteq> SAHPI_FIRST_ENTRY"
  shows "get t k = Some e" and "getnext t k = (case vs of [] \<Rightarrow> None | (k', e') # _ \<Rightarrow> Some e')"
proof -
  have d: "distinct (map fst (us @ (k, e) # vs))" using distinct_keys [OF i] assms(2) by simp
  then have un: "\<forall>x \<in> set us. fst x \<noteq> k" by force
  have "map_of (us @ (k, e) # vs) k = Some e" using d by (rule map_of_is_SomeI) simp
  then show "get t k = Some e" using get_id [OF i assms(3)] assms(2) by simp
  have "getnext t k = map_option snd (find_after (\<lambda>p. fst p = k) (us @ (k, e) # vs))"
    using next_id [OF i assms(3)] assms(2) by simp
  also have "\<dots> = map_option snd (case vs of [] \<Rightarrow> None | z # _ \<Rightarrow> Some z)"
    using un by (subst find_after_append) auto
  also have "\<dots> = (case vs of [] \<Rightarrow> None | (k', e') # _ \<Rightarrow> Some e')"
    by (auto split: list.splits)
  finally show "getnext t k = (case vs of [] \<Rightarrow> None | (k', e') # _ \<Rightarrow> Some e')" .
qed

lemma walk_suffix:
  assumes i: "inv t" and nz: "SAHPI_FIRST_ENTRY \<notin> fst ` set (entries t)"
    and nl: "SAHPI_LAST_ENTRY \<notin> fst ` set (entries t)"
    and f: "\<And>e. e \<noteq> SAHPI_LAST_ENTRY \<Longrightarrow> f e st = (entry_answer (get t) (getnext t) key e, st)"
    and "entries t = us @ vs"
  shows "walk f (length vs) (case vs of [] \<Rightarrow> SAHPI_LAST_ENTRY | (k, e) # _ \<Rightarrow> k) st =
    Some (map snd vs)"
  using assms(5)
proof (induction vs arbitrary: us)
  case (Cons p vs)
  obtain k e where p: "p = (k, e)" by force
  have mem: "(k, e) \<in> set (entries t)" using Cons.prems p by simp
  have k0: "k \<noteq> SAHPI_FIRST_ENTRY" and k1: "k \<noteq> SAHPI_LAST_ENTRY" using nz nl mem by force+
  have n: "get t k = Some e" "getnext t k = (case vs of [] \<Rightarrow> None | (k', e') # _ \<Rightarrow> Some e')"
    using next_key [OF i _ k0] Cons.prems p by blast+
  have key: "key e' = k'" if "(k', e') \<in> set (p # vs)" for k' e'
    using keys [OF i, of k' e'] Cons.prems that by auto
  have "key e = k" using key [of k e] p by simp
  moreover have "(case vs of [] \<Rightarrow> SAHPI_LAST_ENTRY | (k', e') # _ \<Rightarrow> key e') =
      (case vs of [] \<Rightarrow> SAHPI_LAST_ENTRY | (k', e') # _ \<Rightarrow> k')"
    using key by (auto split: list.splits)
  ultimately have "entry_answer (get t) (getnext t) key k =
      (SA_OK, Some (case vs of [] \<Rightarrow> SAHPI_LAST_ENTRY | (k', e') # _ \<Rightarrow> k', e))"
    using k0 n by (auto simp: entry_answer_def split: list.splits)
  then show ?case using f [OF k1] k1 Cons.IH [of "us @ [p]"] Cons.prems p by simp
qed simp

text \<open>A walk from the first entry returns all entries, in the order of the table.\<close>

lemma walk_all:
  assumes i: "inv t" and nz: "SAHPI_FIRST_ENTRY \<notin> fst ` set (entries t)"
    and nl: "SAHPI_LAST_ENTRY \<notin> fst ` set (entries t)" and ne: "entries t \<noteq> []"
    and f: "\<And>e. e \<noteq> SAHPI_LAST_ENTRY \<Longrightarrow> f e st = (entry_answer (get t) (getnext t) key e, st)"
  shows "walk f (length (entries t)) SAHPI_FIRST_ENTRY st = Some (map snd (entries t))"
proof -
  obtain k e vs where t: "entries t = (k, e) # vs" using ne by (cases "entries t") auto
  then have k: "k \<noteq> SAHPI_FIRST_ENTRY" "key e = k" "k \<noteq> SAHPI_LAST_ENTRY"
    using nz nl keys [OF i, of k e] by auto
  have "entry_answer (get t) (getnext t) key SAHPI_FIRST_ENTRY = entry_answer (get t) (getnext t) key k"
    using t k next_key(1) [OF i, of "[]" k e vs]
    by (simp add: entry_answer_def next_first [OF i] get_first [OF i])
  then have "f SAHPI_FIRST_ENTRY st = f k st" using f k by simp
  then have "walk f (length (entries t)) SAHPI_FIRST_ENTRY st = walk f (length (entries t)) k st"
    using t k by simp
  then show ?thesis using walk_suffix [where f = f and us = "[]" and vs = "entries t", OF i nz nl f] t
    by simp
qed

end

text \<open>A session that is open, and its domain.\<close>

definition open_session :: "hpi \<Rightarrow> u32 \<Rightarrow> nat \<Rightarrow> bool" where
  "open_session st sid d \<longleftrightarrow>
     fst (oh_get_session_subscription (dmn st) sid) = SA_OK \<and> session_dom st sid = Some d \<and>
     dom_heap (dmn st) d \<noteq> None \<and> 0 \<le> refcount (dmn st) d"

definition hold :: "nat \<Rightarrow> hpi \<Rightarrow> hpi" where
  "hold d st = st\<lparr>dmn := inc_domain_refcount d (dmn st)\<rparr>"

lemma enter:
  assumes "open_session st sid d"
  shows "OH_CHECK_INIT_STATE sid k st = k st"
    and "OH_GET_DID sid g st = g (oh_get_session_domain (dmn st) sid) st"
    and "OH_GET_DOMAIN (oh_get_session_domain (dmn st) sid) h st = h d (hold d st)"
  using assms
  by (auto simp: open_session_def OH_CHECK_INIT_STATE_def OH_GET_DID_def OH_GET_DOMAIN_def Let_def
      session_dom_def oh_get_domain_def get_domain_def hold_def split: if_splits)

lemma leave:
  assumes "open_session st sid d"
  shows "release d (hold d st) = st"
proof -
  obtain x where x: "dom_heap (dmn st) d = Some x" "0 \<le> d_refcount x"
    using assms by (auto simp: open_session_def refcount_def)
  have "x\<lparr>d_refcount := d_refcount x\<rparr> = x" by simp
  then have "dec_domain_refcount d (inc_domain_refcount d (dmn st)) = dmn st"
    using x by (simp add: dec_domain_refcount_def inc_domain_refcount_def upd_domain_def
        fun_upd_idem)
  then show ?thesis
    using x by (simp add: release_def hold_def oh_release_domain_def Let_def refcount_def)
qed

lemma dom_at_hold: "open_session st sid d \<Longrightarrow> d_rpt (dom_at (hold d st) d) = d_rpt (dom_at st d)"
  by (auto simp: open_session_def dom_at_def hold_def)

lemma find_after_in: "find_after P xs = Some y \<Longrightarrow> y \<in> set xs"
  by (induction xs) (auto split: if_splits list.splits)

text \<open>Walking the resource table of a session's domain with \<open>saHpiRptEntryGet\<close>, from
  \<open>SAHPI_FIRST_ENTRY\<close> on and with each next entry id that the function returns, succeeds in every
  call, ends after as many calls as there are resources, and returns every resource exactly once, in
  the order of the table.\<close>

lemma rpt_walk_complete:
  assumes "open_session st sid d" and "t = d_rpt (dom_at st d)" and "rpt_inv t"
    and "resources t \<noteq> []" and "SAHPI_LAST_ENTRY \<notin> fst ` set (resources t)"
  shows "walk (\<lambda>e. saHpiRptEntryGet sid e True True) (length (resources t)) SAHPI_FIRST_ENTRY st =
    Some (map snd (resources t))"
proof (rule rpt_list.walk_all [OF assms(3) resources_nz [OF assms(3)] assms(5,4)])
  fix e assume "e \<noteq> SAHPI_LAST_ENTRY"
  have id: "EntryId x = ResourceId x" if "oh_get_resource_by_id t i = Some x" for x i
    using rpt_list.get_in_entries [OF assms(3) that] rpt_inv_ok [OF assms(3)]
    by (force simp: resources_def ent_ok_def)
  have nid: "EntryId x = ResourceId x" if nx: "oh_get_resource_next t i = Some x" for x i
  proof (cases "i = SAHPI_FIRST_ENTRY")
    case True
    then show ?thesis using id nx rpt_list.next_first [OF assms(3)] by simp
  next
    case False
    then obtain p where "find_after (\<lambda>p. fst p = i) (resources t) = Some p" "x = snd p"
      using rpt_list.next_id [OF assms(3) False] nx by (cases "find_after (\<lambda>p. fst p = i) (resources t)") auto
    then have "p \<in> set (resources t)" by (auto dest: find_after_in)
    then show ?thesis
      using rpt_inv_ok [OF assms(3)] \<open>x = snd p\<close> by (force simp: resources_def ent_ok_def)
  qed
  show "saHpiRptEntryGet sid e True True st =
      (entry_answer (oh_get_resource_by_id t) (oh_get_resource_next t) ResourceId e, st)"
    using \<open>e \<noteq> SAHPI_LAST_ENTRY\<close>
    by (simp add: saHpiRptEntryGet_def return_if_def Let_def ret_def entry_answer_def
        enter [OF assms(1)] leave [OF assms(1)] dom_at_hold [OF assms(1)] assms(2) [symmetric])
      (auto simp: id nid ret_def leave [OF assms(1)] dom_at_hold [OF assms(1)] assms(2) [symmetric]
        split: option.split)
qed

lemma demo_table5_inv: "rpt_inv demo_table5"
proof -
  let ?rec = "zero_rdr\<lparr>RdrType := SAHPI_SENSOR_RDR,
    RdrTypeUnion := \<lparr>Num = 3, RestOfRec = OtherRec []\<rparr>\<rparr>"
  have "oh_get_rdr_uid (RdrType ?rec) (oh_get_instrument_id ?rec) \<noteq> 0" by code_simp
  then show ?thesis
    unfolding demo_table5_def Let_def by (intro add_rdr_inv add_resource_inv init_rpt_inv)
qed

lemma demo_session: "open_session demo_hpi 1 0" "d_rpt (dom_at demo_hpi 0) = demo_table5"
  by (simp_all add: open_session_def demo_hpi_def demo_daemon_def refcount_def dom_at_def
      session_dom_def oh_get_session_subscription_def oh_get_session_domain_def find_session_def
      session_ptr_def session_at_def) code_simp+

lemma rpt_walk_complete_witness:
  "map_option (map ResourceId)
     (walk (\<lambda>e. saHpiRptEntryGet 1 e True True) 1 SAHPI_FIRST_ENTRY demo_hpi) = Some [5]"
proof -
  have "resources demo_table5 \<noteq> []" "length (resources demo_table5) = 1"
    "SAHPI_LAST_ENTRY \<notin> fst ` set (resources demo_table5)"
    "map (ResourceId \<circ> snd) (resources demo_table5) = [5]" by code_simp+
  then show ?thesis
    using rpt_walk_complete [OF demo_session(1) demo_session(2) [symmetric] demo_table5_inv] by simp
qed

section \<open>Alarms\<close>

definition acked :: "SaHpiSeverityT \<Rightarrow> SaHpiAlarmT \<Rightarrow> SaHpiAlarmT" where
  "acked severity a =
     (if severity = SAHPI_ALL_SEVERITIES \<or> al_Severity a = severity
      then a\<lparr>Acknowledged := True\<rparr> else a)"

lemma ack_loop_map:
  "sorted_wrt (<) (map AlarmId ys) \<Longrightarrow> \<forall>a \<in> set xs. AlarmId a \<le> aid \<Longrightarrow>
    \<forall>a \<in> set ys. aid < AlarmId a \<Longrightarrow>
    ack_loop key aid (xs @ ys) =
      xs @ map (\<lambda>a. if key_matches key a then a\<lparr>Acknowledged := True\<rparr> else a) ys"
proof (induction ys arbitrary: xs aid)
  case Nil
  then show ?case using node_behind [of xs aid "[]" key] by (simp add: ack_loop.simps)
next
  case (Cons y ys)
  note node = node_behind [OF Cons.prems(2,3), of key]
  have up: "\<forall>a \<in> set ys. AlarmId y < AlarmId a" "sorted_wrt (<) (map AlarmId ys)"
    using Cons.prems(1) by auto
  have "aid < AlarmId y" using Cons.prems(3) by simp
  then have low: "\<forall>a \<in> set (xs @ [z]). AlarmId a \<le> AlarmId y" if "AlarmId z = AlarmId y" for z
    using Cons.prems(2) that by auto
  show ?case
  proof (cases "key_matches key y")
    case True
    let ?y = "y\<lparr>Acknowledged := True\<rparr>"
    have "ack_loop key aid (xs @ y # ys) = ack_loop key (AlarmId y) ((xs @ [?y]) @ ys)"
      using node True by (simp add: ack_loop.simps [of key aid] ack_nth_def)
    then show ?thesis using Cons.IH [OF up(2) low up(1), of ?y] True by simp
  next
    case False
    have "get_alarm_node ((xs @ [y]) @ ys) (Some (AlarmId y)) key False True =
        get_alarm_node (xs @ y # ys) (Some aid) key False True"
      unfolding node using node_behind [OF low up(1), of y key] False
      by (simp add: option.map_comp comp_def)
    then have "ack_loop key aid (xs @ y # ys) = ack_loop key (AlarmId y) ((xs @ [y]) @ ys)"
      by (simp add: ack_loop.simps [of key aid] ack_loop.simps [of key "AlarmId y"])
    then show ?thesis using Cons.IH [OF up(2) low up(1), of y] False by simp
  qed
qed

text \<open>Work on the domain between getting and releasing it.\<close>

lemma work:
  assumes "open_session st sid d" and f: "\<And>x n. f (x\<lparr>d_refcount := n\<rparr>) = (f x)\<lparr>d_refcount := n\<rparr>"
  shows "release d (write_domain d f (hold d st)) = write_domain d f st"
proof -
  obtain x where x: "dom_heap (dmn st) d = Some x" "0 \<le> d_refcount x"
    using assms(1) by (auto simp: open_session_def refcount_def)
  have "f x = f (x\<lparr>d_refcount := d_refcount x\<rparr>)" by simp
  also have "\<dots> = (f x)\<lparr>d_refcount := d_refcount x\<rparr>" by (rule f)
  finally have fx: "f x = (f x)\<lparr>d_refcount := d_refcount x\<rparr>" .
  then have "d_refcount (f x) = d_refcount x"
    by (metis (no_types) oh_domain.select_convs(10) oh_domain.surjective oh_domain.update_convs(10))
  then have "dec_domain_refcount d (upd_domain d f (inc_domain_refcount d (dmn st))) =
      upd_domain d f (dmn st)"
    using x
    by (simp add: dec_domain_refcount_def inc_domain_refcount_def upd_domain_def f fx [symmetric])
  then show ?thesis
    using x \<open>d_refcount (f x) = d_refcount x\<close>
    by (simp add: release_def write_domain_def hold_def oh_release_domain_def Let_def refcount_def f)
qed

lemma dat_hold: "open_session st sid d \<Longrightarrow> d_dat (dom_at (hold d st) d) = d_dat (dom_at st d)"
  by (auto simp: open_session_def dom_at_def hold_def)

text \<open>C20: acknowledging all alarms of a severity, or of every severity, marks exactly the alarms of
  that severity in the alarm table of the session's domain and changes nothing else: not the other
  alarms or their order, and not the update counter of the table.\<close>

theorem ack_by_severity:
  assumes "open_session st sid d" and "dat_inv (dom_at st d)" and "oh_lookup_severity severity \<noteq> None"
  shows "saHpiAlarmAcknowledge sid SAHPI_ENTRY_UNSPECIFIED severity st =
    ((SA_OK, None), write_domain d (set_alarms (map (acked severity) (alarms (dom_at st d)))) st)"
proof -
  let ?l = "alarms (dom_at st d)" and ?key = "any_alarm\<lparr>k_severity := Some severity\<rparr>"
  have "key_matches ?key a \<longleftrightarrow> severity = SAHPI_ALL_SEVERITIES \<or> al_Severity a = severity" for a
    by (simp add: key_matches_def any_alarm_def opt_eq_def)
  then have "ack_loop ?key SAHPI_FIRST_ENTRY ?l = map (acked severity) ?l"
    using assms(2) ack_loop_map [of ?l "[]" 0 ?key]
    by (simp add: dat_inv_def alarms_ok_def word_gt_0 acked_def [abs_def])
  then show ?thesis
    using assms(3)
    by (simp add: saHpiAlarmAcknowledge_def return_if_def Let_def ret_def enter [OF assms(1)]
        dat_hold [OF assms(1)] alarms_def work [OF assms(1)] set_alarms_def)
qed

text \<open>The alarm that the code takes for an id: \<open>SAHPI_LAST_ENTRY\<close> is the last one of the table.\<close>

definition alarm_of_id :: "u32 \<Rightarrow> SaHpiAlarmT list \<Rightarrow> SaHpiAlarmT option" where
  "alarm_of_id aid l =
     (if aid = SAHPI_LAST_ENTRY then if l = [] then None else Some (last l)
      else find (\<lambda>a. AlarmId a = aid) l)"

lemma alarm_of_id_node:
  assumes "aid \<noteq> SAHPI_ENTRY_UNSPECIFIED"
  shows "case get_alarm_node l (Some aid) any_alarm False False of
      None \<Rightarrow> alarm_of_id aid l = None
    | Some i \<Rightarrow> i < length l \<and> alarm_of_id aid l = Some (l ! i)"
proof (cases "aid = SAHPI_LAST_ENTRY")
  case True
  then show ?thesis by (simp add: get_alarm_node_def alarm_of_id_def last_conv_nth)
next
  case False
  have "get_alarm_node l (Some aid) any_alarm False False = find_index (\<lambda>a. AlarmId a = aid) l"
    using assms False by (simp add: get_alarm_node_def key_matches_def any_alarm_def opt_eq_def)
  moreover have "i < length l \<and> find (\<lambda>a. AlarmId a = aid) l = Some (l ! i)"
    if "find_index (\<lambda>a. AlarmId a = aid) l = Some i" for i
    using find_index_Some [OF that] by (auto simp: find_Some_iff)
  ultimately show ?thesis
    using False by (auto simp: alarm_of_id_def find_index_None find_None_iff split: option.split)
qed

lemma drop_nth_filter:
  assumes "distinct (map AlarmId l)" and "i < length l"
  shows "drop_nth i l = filter (\<lambda>a. AlarmId a \<noteq> AlarmId (l ! i)) l"
proof -
  have l: "l = take i l @ l ! i # drop (Suc i) l" using assms(2) by (rule id_take_nth_drop)
  have "\<forall>a \<in> set (take i l @ drop (Suc i) l). AlarmId a \<noteq> AlarmId (l ! i)"
    using assms(1) by (subst (asm) l) (auto simp: image_iff)
  then show ?thesis by (subst (3) l) (simp add: drop_nth_def filter_id_conv)
qed

text \<open>C21: \<open>saHpiAlarmDelete\<close> for one alarm refuses to remove an alarm that a user did not add, and
  removes exactly the named one otherwise; an id that no alarm has is an error, with one exception:
  for \<open>SAHPI_LAST_ENTRY\<close> the code takes the last alarm of the table, whatever its id, and removes it
  if a user added it.\<close>

theorem delete_one_alarm:
  assumes "open_session st sid d" and "dat_inv (dom_at st d)"
    and "alarmId \<noteq> SAHPI_ENTRY_UNSPECIFIED"
  shows "saHpiAlarmDelete sid alarmId severity st =
    (case (if alarmId = SAHPI_LAST_ENTRY
           then if alarms (dom_at st d) = [] then None else Some (last (alarms (dom_at st d)))
           else find (\<lambda>a. AlarmId a = alarmId) (alarms (dom_at st d))) of
       None \<Rightarrow> ((SA_ERR_HPI_NOT_PRESENT, None), st)
     | Some a \<Rightarrow>
         if user_alarm a
         then ((SA_OK, None), write_domain d (set_alarms
                 (filter (\<lambda>b. AlarmId b \<noteq> AlarmId a) (alarms (dom_at st d)))) st)
         else ((SA_ERR_HPI_READ_ONLY, None), st))"
proof -
  let ?l = "alarms (dom_at st d)"
  have d: "distinct (map AlarmId ?l)"
    using assms(2) unfolding dat_inv_def alarms_ok_def
    by (metis strict_sorted_iff strict_sorted_equal)
  note run = saHpiAlarmDelete_def return_if_def Let_def ret_def enter [OF assms(1)]
    dat_hold [OF assms(1)] leave [OF assms(1)] alarms_def
  have "saHpiAlarmDelete sid alarmId severity st = (case alarm_of_id alarmId ?l of
       None \<Rightarrow> ((SA_ERR_HPI_NOT_PRESENT, None), st)
     | Some a \<Rightarrow>
         if user_alarm a
         then ((SA_OK, None), write_domain d (set_alarms (filter (\<lambda>b. AlarmId b \<noteq> AlarmId a) ?l)) st)
         else ((SA_ERR_HPI_READ_ONLY, None), st))"
  proof (cases "get_alarm_node ?l (Some alarmId) any_alarm False False")
    case None
    then have "alarm_of_id alarmId ?l = None" using alarm_of_id_node [OF assms(3), of ?l] by simp
    then show ?thesis using assms(3) None by (simp add: run)
  next
    case (Some i)
    then have "i < length ?l" "alarm_of_id alarmId ?l = Some (?l ! i)"
      using alarm_of_id_node [OF assms(3), of ?l] by simp_all
    then show ?thesis
      using assms(3) Some drop_nth_filter [OF d]
      by (simp add: run work [OF assms(1)] set_alarms_def user_alarm_def)
  qed
  then show ?thesis by (simp only: alarm_of_id_def)
qed

definition demo_alarm_hpi :: hpi where
  "demo_alarm_hpi = write_domain 0 (\<lambda>d. d\<lparr>d_dat := zero_dat\<lparr>dat_next_id := 2,
     dat_list := [demo_alarm 1 5, demo_user_alarm\<lparr>AlarmId := 2, al_Severity := SAHPI_MINOR\<rparr>]\<rparr>\<rparr>) demo_hpi"

lemma demo_alarm_session: "open_session demo_alarm_hpi 1 0" "dat_inv (dom_at demo_alarm_hpi 0)"
proof -
  have "refcount (dmn demo_alarm_hpi) 0 = 0" "session_dom demo_alarm_hpi 1 = Some 0"
    "fst (oh_get_session_subscription (dmn demo_alarm_hpi) 1) = SA_OK" by code_simp+
  then show "open_session demo_alarm_hpi 1 0"
    by (simp add: open_session_def demo_alarm_hpi_def write_domain_def demo_hpi_def)
  show "dat_inv (dom_at demo_alarm_hpi 0)" by code_simp
qed

theorem ack_by_severity_witness:
  "map Acknowledged (alarms (dom_at (snd (saHpiAlarmAcknowledge 1 0 SAHPI_MINOR demo_alarm_hpi)) 0)) =
   [False, True]"
proof -
  have "oh_lookup_severity SAHPI_MINOR \<noteq> None" by code_simp
  from ack_by_severity [OF demo_alarm_session this]
  have "snd (saHpiAlarmAcknowledge 1 0 SAHPI_MINOR demo_alarm_hpi) =
      write_domain 0 (set_alarms (map (acked SAHPI_MINOR) (alarms (dom_at demo_alarm_hpi 0))))
        demo_alarm_hpi" by simp
  note ack = this
  show ?thesis unfolding ack by code_simp
qed

theorem delete_one_alarm_witness:
  "saHpiAlarmDelete 1 1 0 demo_alarm_hpi = ((SA_ERR_HPI_READ_ONLY, None), demo_alarm_hpi)"
proof -
  have "map_option user_alarm (find (\<lambda>a. AlarmId a = 1) (alarms (dom_at demo_alarm_hpi 0))) = Some False"
    by code_simp
  then show ?thesis
    using delete_one_alarm [OF demo_alarm_session, of 1 0] by (auto split: option.splits if_splits)
qed

end
