(* ===== verification/PluginProps.thy ===== *)
theory PluginProps
  imports Plugin RefCount
begin

text \<open>
  The handlers as reference counted objects: whatever threads do with them, none is used after it
  was freed and none is lost. And the discovery: one round asks every instance.
\<close>

section \<open>Plugins leave the handlers alone\<close>

definition same_handlers :: "plugin_state \<Rightarrow> plugin_state \<Rightarrow> bool" where
  "same_handlers st st' \<longleftrightarrow> handlers st' = handlers st \<and> handler_table st' = handler_table st \<and>
     handler_fresh st' = handler_fresh st \<and> handler_id st' = handler_id st \<and>
     handler_list st' = handler_list st \<and> closed st' = closed st \<and> calls st' = calls st"

lemma same_handlers_refl [simp]: "same_handlers st st"
  by (simp add: same_handlers_def)

lemma same_handlers_trans: "same_handlers a b \<Longrightarrow> same_handlers b c \<Longrightarrow> same_handlers a c"
  by (simp add: same_handlers_def)

lemma upd_plugin_frame [simp]: "same_handlers st (upd_plugin p f st)"
  by (simp add: same_handlers_def upd_plugin_def)

lemma counts_frame [simp]:
  "same_handlers st (inc_plugin_refcount p st)" "same_handlers st (dec_plugin_refcount p st)"
  "same_handlers st (delete_plugin p st)"
  by (simp_all add: inc_plugin_refcount_def dec_plugin_refcount_def delete_plugin_def
      same_handlers_def upd_plugin_def)

lemma get_plugin_frame: "oh_get_plugin st name = (p, st') \<Longrightarrow> same_handlers st st'"
  by (auto simp: oh_get_plugin_def split: option.splits)

lemma release_plugin_frame [simp]: "same_handlers st (oh_release_plugin p st)"
proof -
  have "same_handlers st (delete_plugin a (dec_plugin_refcount a st))" for a
    by (rule same_handlers_trans [of _ "dec_plugin_refcount a st"]) simp_all
  then show ?thesis by (simp add: oh_release_plugin_def Let_def split: option.split)
qed

lemma release_upd_frame [simp]:
  "same_handlers st (oh_release_plugin p (upd_plugin q f st))"
  by (rule same_handlers_trans [OF upd_plugin_frame release_plugin_frame])

lemma load_plugin_frame: "oh_load_plugin dl mp dirs st name = (rc, st') \<Longrightarrow> same_handlers st st'"
proof -
  assume *: "oh_load_plugin dl mp dirs st name = (rc, st')"
  show ?thesis
  proof (cases name)
    case None
    then show ?thesis using * by (simp add: oh_load_plugin_def)
  next
    case (Some n)
    obtain p s where g: "oh_get_plugin st (Some n) = (p, s)" by (cases "oh_get_plugin st (Some n)")
    have f: "same_handlers st s" using get_plugin_frame [OF g] .
    show ?thesis
    proof (cases p)
      case None
      then have "same_handlers s st'"
        using * Some g by (auto simp: oh_load_plugin_def Let_def same_handlers_def
            split: option.splits if_splits)
      then show ?thesis using f same_handlers_trans by blast
    next
      case (Some a)
      then have "st' = oh_release_plugin (Some a) s" using * \<open>name = Some n\<close> g
        by (simp add: oh_load_plugin_def)
      then show ?thesis using f same_handlers_trans by fastforce
    qed
  qed
qed

lemma unload_plugin_frame: "same_handlers st (snd (oh_unload_plugin st name))"
proof (cases name)
  case (Some n)
  obtain p s where g: "oh_get_plugin st (Some n) = (p, s)" by (cases "oh_get_plugin st (Some n)")
  have f: "same_handlers st s" using get_plugin_frame [OF g] .
  show ?thesis
  proof (cases p)
    case (Some a)
    let ?u = "s\<lparr>plugin_list := remove1 a (plugin_list s)\<rparr>"
    have u: "same_handlers s (dec_plugin_refcount a ?u)"
      by (rule same_handlers_trans [of _ ?u]) (simp_all add: same_handlers_def [of s])
    have "same_handlers s (snd (oh_unload_plugin st name))"
      using \<open>name = Some n\<close> g Some u
      by (auto simp: oh_unload_plugin_def Let_def intro: same_handlers_trans [OF u])
    then show ?thesis using f same_handlers_trans by blast
  qed (use f \<open>name = Some n\<close> g in \<open>simp add: oh_unload_plugin_def\<close>)
qed (simp add: oh_unload_plugin_def)

section \<open>Handlers are reference counted\<close>

definition handler_cell :: "plugin_state \<Rightarrow> nat \<rightharpoonup> u32 \<times> int" where
  "handler_cell st a = map_option (\<lambda>h. (h_id h, h_refcount h)) (handlers st a)"

lemma upd_handler_simps [simp]:
  "handler_table (upd_handler a f st) = handler_table st"
  "handlers (upd_handler a f st) b = (if b = a then map_option f (handlers st a) else handlers st b)"
  by (simp_all add: upd_handler_def)

lemma handler_counts [simp]:
  "handler_table (inc_handler_refcount a st) = handler_table st"
  "handler_table (dec_handler_refcount a st) = handler_table st"
  "handlers (inc_handler_refcount a st) b =
     (if b = a then map_option (\<lambda>h. h\<lparr>h_refcount := h_refcount h + 1\<rparr>) (handlers st a)
      else handlers st b)"
  "handlers (dec_handler_refcount a st) b =
     (if b = a then map_option (\<lambda>h. h\<lparr>h_refcount := h_refcount h - 1\<rparr>) (handlers st a)
      else handlers st b)"
  by (simp_all add: inc_handler_refcount_def dec_handler_refcount_def)

lemma delete_handler_simps:
  "handlers (delete_handler a st) = (handlers st)(a := None)"
  "handler_table (delete_handler a st) = handler_table st"
proof -
  have "handlers (delete_handler a st) = (handlers st)(a := None) \<and>
      handler_table (delete_handler a st) = handler_table st"
  proof (cases "handlers st a")
    case None
    then show ?thesis by (auto simp: delete_handler_def fun_eq_iff)
  next
    case (Some h)
    obtain p s where g: "oh_get_plugin st (Some (plugin_name h)) = (p, s)"
      by (cases "oh_get_plugin st (Some (plugin_name h))")
    have f: "same_handlers st s" using get_plugin_frame [OF g] .
    have "same_handlers s (case p of None \<Rightarrow> s | Some p \<Rightarrow>
        oh_release_plugin (Some p) (upd_plugin p (\<lambda>q. q\<lparr>handler_count := handler_count q - 1\<rparr>) s))"
      by (simp split: option.split)
    then show ?thesis using f Some g
      by (cases p) (simp_all add: delete_handler_def Let_def same_handlers_def)
  qed
  then show "handlers (delete_handler a st) = (handlers st)(a := None)"
    and "handler_table (delete_handler a st) = handler_table st" by blast+
qed

lemma get_handler_cell:
  assumes "oh_get_handler st hid = (Some a, st')"
  shows "(\<exists>k. handler_table st k = Some a) \<and> handler_table st' = handler_table st \<and>
    handler_cell st' = (handler_cell st)(a := map_option (apsnd (\<lambda>n. n + 1)) (handler_cell st a))"
proof -
  have "handler_table st hid = Some a" and "st' = inc_handler_refcount a st"
    using assms by (auto simp: oh_get_handler_def split: option.splits)
  then show ?thesis by (auto simp: handler_cell_def fun_eq_iff option.map_comp comp_def)
qed

lemma close_instance_simps [simp]:
  "handlers (close_instance a st) = handlers st"
  "handler_table (close_instance a st) = handler_table st"
  by (simp_all add: close_instance_def split: option.split)

lemma unlink_handler_simps [simp]:
  "handlers (unlink_handler a st) = handlers st"
  "handlers st a = Some h \<Longrightarrow>
     handler_table (unlink_handler a st) = (handler_table st)(h_id h := None)"
  by (simp_all add: unlink_handler_def)

lemma handler_count_cell: "handler_cell st a = Some (k, n) \<Longrightarrow> handler_refcount st a = n"
  by (auto simp: handler_cell_def handler_refcount_def)

lemma change_handler_cells:
  "handler_cell (dec_handler_refcount a st) =
     (handler_cell st)(a := map_option (apsnd (\<lambda>n. n - 1)) (handler_cell st a))"
  "handler_cell (close_instance a st) = handler_cell st"
  "handler_cell (unlink_handler a st) = handler_cell st"
  "handler_cell (delete_handler a st) = (handler_cell st)(a := None)"
  by (auto simp: handler_cell_def fun_eq_iff option.map_comp comp_def delete_handler_simps)

lemma unlink_handler_cell:
  "handler_cell st a = Some (k, n) \<Longrightarrow> handler_table (unlink_handler a st) = (handler_table st)(k := None)"
  by (auto simp: handler_cell_def)

section \<open>Threads\<close>

text \<open>
  The threads of the daemon in the protocol of \<open>RefCount\<close>: \<open>oh_get_handler\<close> counts its reference under
  the lock of the table and then waits for the lock of the handler (the step \<open>lock\<close>);
  \<open>oh_release_handler\<close> and \<open>oh_destroy_handler\<close> are split at every lock and every access to the count.
\<close>

definition handler_ops :: "plugin_state refops" where
  "handler_ops =
     \<lparr>op_get = oh_get_handler, op_may = (\<lambda>hid. \<not> hid < 1), op_count = handler_refcount,
      op_dec = dec_handler_refcount, op_close = close_instance, op_unlink = unlink_handler,
      op_delete = delete_handler\<rparr>"

interpretation hnds: refcounted handler_cell handler_table handler_ops
  by unfold_locales (simp_all add: handler_ops_def get_handler_cell handler_count_cell
      change_handler_cells unlink_handler_cell delete_handler_simps)

text \<open>The functions of the daemon are the uninterrupted runs.\<close>

lemma handler_runs:
  "oh_get_handler st hid = op_get handler_ops st hid"
  "oh_release_handler (Some a) st = release_all handler_ops a st"
  "op_may handler_ops hid \<Longrightarrow> op_get handler_ops st hid = (Some a, st') \<Longrightarrow>
     oh_destroy_handler st hid = (0, destroy_all handler_ops a st')"
  by (auto simp: handler_ops_def oh_release_handler_def release_all_def oh_destroy_handler_def
      destroy_all_def Let_def)

text \<open>
  What else the threads do. A new handler is only created while the counter of the ids has not come
  around to an id in use; it is in the table before another thread can see it. A plugin is called
  by the thread that has the lock of the handler.
\<close>

inductive handler_step ::
    "bool \<Rightarrow> plugin_state \<times> holders \<Rightarrow> plugin_state \<times> holders \<Rightarrow> bool" for one :: bool
where
  bracket: "bracket one handler_ops p q \<Longrightarrow> handler_step one p q"
| create: "handler_table st (handler_id st) = None \<Longrightarrow>
    handler_step one (st, h) (snd (snd (oh_create_handler (oh_load_plugin dl mp dirs) opens gp st cfg)), h)"
| load_plugin: "handler_step one (st, h) (snd (oh_load_plugin dl mp dirs st name), h)"
| unload_plugin: "handler_step one (st, h) (snd (oh_unload_plugin st name), h)"
| call: "owner h a = In (Suc n) \<Longrightarrow> handler_step one (st, h) (log_call inst f rid st, h)"

definition handlers_inv :: "plugin_state \<times> holders \<Rightarrow> bool" where
  "handlers_inv p \<longleftrightarrow> rc_inv (handler_cell (fst p)) (handler_table (fst p)) (snd p) \<and>
     (\<forall>a \<ge> handler_fresh (fst p). handlers (fst p) a = None)"

lemma same_handlers_inv:
  "same_handlers st st' \<Longrightarrow> handlers_inv (st, h) \<Longrightarrow> handlers_inv (st', h)"
proof -
  assume s: "same_handlers st st'"
  then have "handler_cell st' = handler_cell st"
    by (simp add: fun_eq_iff handler_cell_def same_handlers_def)
  then show "handlers_inv (st, h) \<Longrightarrow> handlers_inv (st', h)"
    using s by (simp add: handlers_inv_def same_handlers_def)
qed

text \<open>The heap only grows where the counter of addresses has been.\<close>

lemma handler_fresh_simps [simp]:
  "handler_fresh (inc_handler_refcount a st) = handler_fresh st"
  "handler_fresh (dec_handler_refcount a st) = handler_fresh st"
  "handler_fresh (upd_handler a f st) = handler_fresh st"
  "handler_fresh (close_instance a st) = handler_fresh st"
  "handler_fresh (unlink_handler a st) = handler_fresh st"
  by (simp_all add: inc_handler_refcount_def dec_handler_refcount_def upd_handler_def
      close_instance_def unlink_handler_def split: option.split)

lemma delete_handler_fresh [simp]: "handler_fresh (delete_handler a st) = handler_fresh st"
proof (cases "handlers st a")
  case (Some h)
  obtain p s where g: "oh_get_plugin st (Some (plugin_name h)) = (p, s)"
    by (cases "oh_get_plugin st (Some (plugin_name h))")
  have f: "same_handlers st s" using get_plugin_frame [OF g] .
  have "same_handlers s (oh_release_plugin (Some q) (upd_plugin q u s))" for q u by simp
  then show ?thesis using f Some g
    by (cases p) (simp_all add: delete_handler_def Let_def same_handlers_def)
qed (simp add: delete_handler_def)

lemma get_handler_fresh: "oh_get_handler st hid = (Some a, st') \<Longrightarrow> handler_fresh st' = handler_fresh st"
  by (auto simp: oh_get_handler_def split: option.splits)

lemma handlers_fresh_iff:
  "(\<forall>a \<ge> n. handlers st a = None) \<longleftrightarrow> (\<forall>a \<ge> n. handler_cell st a = None)"
  by (simp add: handler_cell_def)

text \<open>What creating a handler does to the handlers: nothing, or one more with a new id.\<close>

lemma new_handler_state:
  assumes "new_handler (oh_load_plugin dl mp dirs) st cfg = (r, st')"
  shows "r = None \<and> same_handlers st st' \<or>
    (\<exists>hd s. same_handlers st s \<and> r = Some (handler_fresh st) \<and> h_id hd = handler_id st \<and>
       h_refcount hd = 0 \<and>
       st' = s\<lparr>handler_fresh := handler_fresh st + 1,
               handlers := (handlers st)(handler_fresh st \<mapsto> hd), handler_id := handler_id st + 1\<rparr>)"
proof (cases "cfg ''plugin''")
  case None
  then show ?thesis using assms by (auto simp: new_handler_def)
next
  case (Some name)
  let ?found = "case oh_get_plugin st (Some name) of
      (Some p, s) \<Rightarrow> (Some p, s)
    | (None, s) \<Rightarrow> (let (rc, s) = oh_load_plugin dl mp dirs s (Some name)
         in if rc \<noteq> 0 then (None, s) else oh_get_plugin s (Some name))"
  obtain p s where f: "?found = (p, s)" by (cases ?found)
  have same: "same_handlers st s"
  proof (cases "oh_get_plugin st (Some name)")
    case (Pair q u)
    obtain rc v where l: "oh_load_plugin dl mp dirs u (Some name) = (rc, v)"
      by (cases "oh_load_plugin dl mp dirs u (Some name)")
    show ?thesis
    proof (cases q)
      case None
      have uv: "same_handlers st v"
        using get_plugin_frame [OF Pair] load_plugin_frame [OF l] same_handlers_trans by blast
      show ?thesis
      proof (cases "rc = 0")
        case True
        then have "oh_get_plugin v (Some name) = (p, s)" using f Pair None l by simp
        then show ?thesis using uv get_plugin_frame same_handlers_trans by blast
      qed (use f Pair None l uv in simp)
    qed (use f Pair get_plugin_frame in auto)
  qed
  show ?thesis
  proof (cases p)
    case None
    then show ?thesis using assms Some f same by (auto simp: new_handler_def)
  next
    case (Some q)
    let ?s = "oh_release_plugin (Some q) (upd_plugin q (\<lambda>x. x\<lparr>handler_count := handler_count x + 1\<rparr>) s)"
    have "same_handlers st ?s" using same same_handlers_trans release_upd_frame by blast
    then show ?thesis
      using assms \<open>cfg ''plugin'' = Some name\<close> f Some
      by (intro disjI2 exI [of _ "\<lparr>h_id = handler_id st, plugin_name = name, config = cfg, h_abi = q,
            hnd = 0, h_refcount = 0\<rparr>"] exI [of _ ?s])
        (auto simp: new_handler_def Let_def same_handlers_def)
  qed
qed

lemma create_handler_keeps:
  assumes inv: "handlers_inv (st, h)" and new: "handler_table st (handler_id st) = None"
  shows "handlers_inv (snd (snd (oh_create_handler (oh_load_plugin dl mp dirs) opens gp st cfg)), h)"
proof (cases cfg)
  case None
  then show ?thesis using inv by (simp add: oh_create_handler_def)
next
  case (Some c)
  obtain r s where n: "new_handler (oh_load_plugin dl mp dirs) st c = (r, s)"
    by (cases "new_handler (oh_load_plugin dl mp dirs) st c")
  show ?thesis
  proof (cases r)
    case None
    then have "same_handlers st s" using new_handler_state [OF n] by simp
    then show ?thesis using same_handlers_inv [OF _ inv] None Some n
      by (simp add: oh_create_handler_def)
  next
    case r: (Some a)
    let ?st = "snd (snd (oh_create_handler (oh_load_plugin dl mp dirs) opens gp st cfg))"
    obtain hd where hd: "a = handler_fresh st" "h_id hd = handler_id st" "h_refcount hd = 0"
        "handlers s = (handlers st)(a \<mapsto> hd)" "handler_table s = handler_table st"
        "handler_fresh s = handler_fresh st + 1"
      using new_handler_state [OF n] r by (auto simp: same_handlers_def)
    have st: "handler_table ?st = (handler_table st)(handler_id st \<mapsto> a)"
      "handlers ?st = (handlers st)(a \<mapsto> hd\<lparr>hnd := opens c (handler_id st)\<rparr>)"
      "handler_fresh ?st = handler_fresh st + 1"
      using Some n r hd by (simp_all add: oh_create_handler_def Let_def log_call_def upd_handler_def)
    have "handler_cell ?st = (handler_cell st)(a \<mapsto> (handler_id st, 0))"
      using st(2) hd(2,3) by (simp add: handler_cell_def fun_eq_iff)
    moreover have "handler_cell st a = None"
      using inv hd(1) by (simp add: handlers_inv_def handler_cell_def)
    ultimately show ?thesis
      using inv new st hd(1) rc_inv_create [of "handler_cell st" "handler_table st" h a "handler_id st"]
      by (simp add: handlers_inv_def)
  qed
qed

lemma bracket_fresh:
  assumes "bracket True handler_ops p q" and "handlers_inv p"
  shows "\<forall>a \<ge> handler_fresh (fst q). handlers (fst q) a = None"
  using assms
  by (induction rule: bracket.induct)
    (auto simp: handlers_inv_def handler_ops_def oh_get_handler_def delete_handler_simps
      split: option.splits)

lemma handler_step_keeps:
  assumes "handler_step True p q" and "handlers_inv p"
  shows "handlers_inv q"
  using assms
proof (induction rule: handler_step.induct)
  case (bracket p q)
  then show ?case
    using hnds.bracket_keeps [OF bracket(1)] bracket_fresh [OF bracket] by (simp add: handlers_inv_def)
next
  case (create st h dl mp dirs opens gp cfg)
  then show ?case by (intro create_handler_keeps)
next
  case (load_plugin st h dl mp dirs name)
  then show ?case
    by (cases "oh_load_plugin dl mp dirs st name")
      (auto intro: same_handlers_inv [OF load_plugin_frame])
next
  case (unload_plugin st h name)
  then show ?case by (intro same_handlers_inv [OF unload_plugin_frame])
next
  case (call h a n st inst f rid)
  have "handler_cell (log_call inst f rid st) = handler_cell st"
    by (simp add: fun_eq_iff handler_cell_def log_call_def)
  then show ?case using call by (simp add: handlers_inv_def log_call_def)
qed

lemma handler_run_keeps: "(handler_step True)\<^sup>*\<^sup>* p q \<Longrightarrow> handlers_inv p \<Longrightarrow> handlers_inv q"
  by (induction rule: rtranclp_induct) (auto intro: handler_step_keeps)


definition two_handlers :: plugin_state where
  "two_handlers = \<lparr>plugins = [0 \<mapsto> \<lparr>p_name = ''demo'',
         p_abi = [''open'', ''close'', ''discover_resources''], handler_count = 2, p_refcount = 0\<rparr>],
     plugin_fresh = 1, plugin_list = [0],
     handlers = [0 \<mapsto> \<lparr>h_id = 1, plugin_name = ''demo'', config = Map.empty, h_abi = 0, hnd = 42,
         h_refcount = 0\<rparr>,
       1 \<mapsto> \<lparr>h_id = 2, plugin_name = ''demo'', config = Map.empty, h_abi = 0, hnd = 43,
         h_refcount = 0\<rparr>],
     handler_fresh = 2, handler_list = [0, 1], handler_table = [1 \<mapsto> 0, 2 \<mapsto> 1],
     handler_id = 3, closed = [], calls = []\<rparr>"

lemma two_handlers_inv: "handlers_inv (two_handlers, nobody)"
  by (auto simp: handlers_inv_def rc_inv_def keys_ok_def obj_ok_def handler_cell_def
      two_handlers_def nobody_def refs_def split: if_splits)

lemma two_handlers_get:
  "oh_get_handler two_handlers 2 = (Some 1, inc_handler_refcount 1 two_handlers)"
  "oh_get_handler (inc_handler_refcount 1 two_handlers) 2 =
     (Some 1, inc_handler_refcount 1 (inc_handler_refcount 1 two_handlers))"
  "oh_get_handler (inc_handler_refcount 1 (inc_handler_refcount 1 two_handlers)) 2 =
     (Some 1, inc_handler_refcount 1 (inc_handler_refcount 1 (inc_handler_refcount 1 two_handlers)))"
  by (simp_all add: oh_get_handler_def) (simp_all add: two_handlers_def)


text \<open>
  Without the restriction: while one thread waits for a handler, two threads destroy it. The
  instance is closed twice, and the second destroy frees the handler that is waited for.
\<close>

lemma handler_destroy_race:
  "\<exists>st h. (handler_step False)\<^sup>*\<^sup>* (two_handlers, nobody) (st, h) \<and> waiting h 1 = 1 \<and>
     handlers st 1 = None \<and> closed st = [43, 43]"
proof -
  let ?h1 = "nobody\<lparr>waiting := (\<lambda>_. 0)(1 := 1)\<rparr>"
  let ?h2 = "?h1\<lparr>destroyers := (\<lambda>_. 0)(1 := 1)\<rparr>" and ?h3 = "?h1\<lparr>destroyers := (\<lambda>_. 0)(1 := 2)\<rparr>"
  let ?s1 = "inc_handler_refcount 1 two_handlers"
  let ?s2 = "inc_handler_refcount 1 ?s1"
  let ?s3 = "inc_handler_refcount 1 ?s2"
  let ?s4 = "destroy_all handler_ops 1 ?s3"
  let ?s5 = "destroy_all handler_ops 1 ?s4"
  let ?step = "bracket False handler_ops"
  have "?step (two_handlers, nobody) (?s1, ?h1)"
    using bracket.get [of handler_ops two_handlers 2 1 ?s1 False nobody] two_handlers_get
    by (simp add: handler_ops_def nobody_def)
  moreover have "?step (?s1, ?h1) (?s2, ?h2)"
    using bracket.destroy [of handler_ops 2 ?s1 1 ?s2 False ?h1] two_handlers_get
    by (simp add: handler_ops_def nobody_def)
  moreover have "?step (?s2, ?h2) (?s3, ?h3)"
    using bracket.destroy [of handler_ops 2 ?s2 1 ?s3 False ?h2] two_handlers_get
    by (simp add: handler_ops_def nobody_def numeral_2_eq_2)
  moreover have "?step\<^sup>*\<^sup>* (?s3, ?h3) (?s4, ?h2)"
    using destroy_locked_run [of ?h3 1 1 False handler_ops ?s3] by (simp add: nobody_def)
  moreover have "?step\<^sup>*\<^sup>* (?s4, ?h2) (?s5, ?h1)"
    using destroy_locked_run [of ?h2 1 0 False handler_ops ?s4] by (simp add: nobody_def fun_upd_idem)
  ultimately have "?step\<^sup>*\<^sup>* (two_handlers, nobody) (?s5, ?h1)"
    by (meson converse_rtranclp_into_rtranclp rtranclp_trans)
  then have run: "(handler_step False)\<^sup>*\<^sup>* (two_handlers, nobody) (?s5, ?h1)"
    by (rule rtranclp_mono [THEN predicate2D, rotated]) (auto intro: handler_step.bracket)
  have "handlers ?s5 1 = None \<and> closed ?s5 = [43, 43]"
  proof
    show "closed ?s5 = [43, 43]" by code_simp
    have "map_option h_id (handlers ?s5 1) = None" by code_simp
    then show "handlers ?s5 1 = None" by simp
  qed
  then show ?thesis using run by (intro exI [of _ ?s5] exI [of _ ?h1]) simp
qed

section \<open>Discovery\<close>

text \<open>The tables of the handlers when nobody changes them.\<close>

definition handlers_listed :: "plugin_state \<Rightarrow> bool" where
  "handlers_listed st \<longleftrightarrow> distinct (handler_list st) \<and>
     (\<forall>a \<in> set (handler_list st). \<exists>h. handlers st a = Some h \<and> h_id h \<noteq> 0 \<and>
        handler_table st (h_id h) = Some a \<and> 0 \<le> h_refcount h)"

definition discovers :: "plugin_state \<Rightarrow> nat \<Rightarrow> bool" where
  "discovers st a \<longleftrightarrow>
     (case handlers st a of None \<Rightarrow> False
      | Some h \<Rightarrow> has_fn st h ''discover_resources'' \<and> hnd h \<noteq> 0)"

definition handler_instance :: "plugin_state \<Rightarrow> nat \<Rightarrow> nat" where
  "handler_instance st a = (case handlers st a of None \<Rightarrow> 0 | Some h \<Rightarrow> hnd h)"

definition discovery_calls :: "plugin_state \<Rightarrow> nat list \<Rightarrow> (nat \<times> string \<times> u32) list" where
  "discovery_calls st as =
     map (\<lambda>a. (handler_instance st a, ''discover_resources'', 0)) (filter (discovers st) as)"

definition id_of_head :: "plugin_state \<Rightarrow> nat list \<Rightarrow> u32" where
  "id_of_head st as =
     (case as of [] \<Rightarrow> 0 | a # _ \<Rightarrow> (case handlers st a of None \<Rightarrow> 0 | Some h \<Rightarrow> h_id h))"

lemma release_held_handler:
  assumes "handlers st a = Some h" and "0 \<le> h_refcount h"
  shows "oh_release_handler (Some a) (inc_handler_refcount a st) = st"
    and "oh_release_handler (Some a) (log_call i f r (inc_handler_refcount a st)) = log_call i f r st"
proof -
  have *: "dec_handler_refcount a (inc_handler_refcount a st\<lparr>calls := cs\<rparr>) = st\<lparr>calls := cs\<rparr>" for cs
    by (auto simp: inc_handler_refcount_def dec_handler_refcount_def upd_handler_def fun_eq_iff
        option.map_comp comp_def option.map_ident)
  have r: "\<not> handler_refcount (st\<lparr>calls := cs\<rparr>) a < 0" for cs
    using assms by (simp add: handler_refcount_def)
  have c: "calls (inc_handler_refcount a st) = calls st"
    by (simp add: inc_handler_refcount_def upd_handler_def)
  show "oh_release_handler (Some a) (log_call i f r (inc_handler_refcount a st)) = log_call i f r st"
    unfolding oh_release_handler_def log_call_def c by (simp add: * r Let_def)
  show "oh_release_handler (Some a) (inc_handler_refcount a st) = st"
    using * [of "calls st"] r [of "calls st"]
    by (simp add: oh_release_handler_def Let_def inc_handler_refcount_def upd_handler_def)
qed

lemma next_handler_id:
  assumes "handlers_listed st" and "handler_list st = pre @ a # as" and "handlers st a = Some h"
  shows "snd (oh_getnext_handler_id st (h_id h)) = id_of_head st as"
proof -
  have "h_id h \<noteq> 0" and "handler_table st (h_id h) = Some a" and "\<forall>x \<in> set pre. x \<noteq> a"
    using assms by (auto simp: handlers_listed_def)
  then show ?thesis
    using find_after_append [of pre "\<lambda>b. b = a" a as] assms(2)
    by (auto simp: oh_getnext_handler_id_def Let_def id_of_head_def split: list.split)
qed

lemma discovers_calls [simp]:
  "discovers (st\<lparr>calls := cs\<rparr>) = discovers st" "handler_instance (st\<lparr>calls := cs\<rparr>) = handler_instance st"
  "id_of_head (st\<lparr>calls := cs\<rparr>) as = id_of_head st as"
  "handlers_listed (st\<lparr>calls := cs\<rparr>) = handlers_listed st"
  by (simp_all add: fun_eq_iff discovers_def handler_instance_def id_of_head_def handlers_listed_def
      has_fn_def split: option.split list.split)

declare discovery_loop.simps [simp del]

text \<open>The handlers that the loop comes to before it finds the stop signal set.\<close>

fun until_stop :: "(nat \<Rightarrow> bool) \<Rightarrow> nat \<Rightarrow> nat list \<Rightarrow> nat list" where
  "until_stop stop (Suc m) (a # as) = (if stop m then [] else a # until_stop stop m as)"
| "until_stop stop _ _ = []"

lemma until_stop_never: "length as \<le> n \<Longrightarrow> until_stop (\<lambda>_. False) n as = as"
  by (induction "\<lambda>_ :: nat. False" n as rule: until_stop.induct) auto

lemma until_stop_length: "length (until_stop stop n as) \<le> length as"
  by (induction stop n as rule: until_stop.induct) auto

definition discovery_result ::
    "plugin_state \<Rightarrow> (nat \<Rightarrow> SaErrorT) \<Rightarrow> nat list \<Rightarrow> nat list \<Rightarrow> SaErrorT \<Rightarrow> SaErrorT"
where
  "discovery_result st discover asked as error =
     (if asked \<noteq> as \<or> (\<exists>a \<in> set asked. discovers st a \<and> discover (handler_instance st a) = SA_OK)
      then SA_OK else error)"

lemma discovery_loop_covers:
  assumes "handlers_listed st" and "handler_list st = pre @ as" and "length as \<le> n"
  shows "discovery_loop discover stop n (id_of_head st as) error st =
    Some (discovery_result st discover (until_stop stop n as) as error,
          st\<lparr>calls := calls st @ discovery_calls st (until_stop stop n as)\<rparr>)"
  using assms
proof (induction as arbitrary: pre n error st)
  case Nil
  then show ?case
    by (subst discovery_loop.simps) (simp add: id_of_head_def discovery_calls_def discovery_result_def)
next
  case (Cons a as)
  obtain m where n: "n = Suc m" using Cons.prems(3) by (cases n) auto
  obtain h where h: "handlers st a = Some h" "h_id h \<noteq> 0" "handler_table st (h_id h) = Some a"
      "0 \<le> h_refcount h"
    using Cons.prems(1,2) by (fastforce simp: handlers_listed_def)
  have hd: "id_of_head st (a # as) = h_id h" using h(1) by (simp add: id_of_head_def)
  show ?case
  proof (cases "stop m")
    case True
    then show ?thesis using h(2)
      by (subst discovery_loop.simps) (simp add: hd n discovery_calls_def discovery_result_def)
  next
    case False
    let ?ok = "discovers st a"
    let ?st = "if ?ok then log_call (hnd h) ''discover_resources'' 0 st else st"
    let ?error = "if ?ok \<and> discover (hnd h) = SA_OK then SA_OK else error"
    let ?asked = "until_stop stop m as"
    have g: "oh_get_handler st (h_id h) = (Some a, inc_handler_refcount a st)"
      using h(3) by (simp add: oh_get_handler_def)
    have fn: "has_fn (inc_handler_refcount a st) (h\<lparr>h_refcount := k\<rparr>) f = has_fn st h f" for k f
      by (simp add: has_fn_def inc_handler_refcount_def upd_handler_def)
    have ok: "?ok \<longleftrightarrow> has_fn st h ''discover_resources'' \<and> hnd h \<noteq> 0"
      using h(1) by (simp add: discovers_def)
    have "discovery_loop discover stop n (id_of_head st (a # as)) error st =
        discovery_loop discover stop m (snd (oh_getnext_handler_id ?st (h_id h))) ?error ?st"
      using h release_held_handler [OF h(1,4)] False
      by (subst discovery_loop.simps) (auto simp: hd n g fn ok Let_def)
    also have "snd (oh_getnext_handler_id ?st (h_id h)) = id_of_head ?st as"
      using Cons.prems(1,2) h(1)
      by (intro next_handler_id) (auto simp: log_call_def)
    also have "discovery_loop discover stop m (id_of_head ?st as) ?error ?st =
        Some (discovery_result ?st discover ?asked as ?error,
              ?st\<lparr>calls := calls ?st @ discovery_calls ?st ?asked\<rparr>)"
      using Cons.prems n by (intro Cons.IH [of _ "pre @ [a]"]) (auto simp: log_call_def)
    finally show ?thesis
      using h(1) False n
      by (auto simp: log_call_def discovery_calls_def discovery_result_def handler_instance_def)
  qed
qed

text \<open>C19: While the table of handlers does not change, \<open>oh_discovery\<close> returns: it asks the instances that
  have the function to discover their resources, each once and in the order of the table, and gives
  every reference back. If the stop signal comes up before a handler is reached (\<open>stop\<close> tells at
  which turn), that handler and the rest are not asked and the answer is \<open>SA_OK\<close>; otherwise all are
  asked and the answer is \<open>SA_OK\<close> exactly if one of them gave it.\<close>

theorem discovery_covers:
  fixes stop :: "nat \<Rightarrow> bool"
  assumes "handlers_listed st" and "length (handler_list st) \<le> n"
  defines "asked \<equiv> until_stop stop n (handler_list st)"
  shows "oh_discovery discover stop n st =
      Some (if asked \<noteq> handler_list st \<or>
               (\<exists>a \<in> set asked. discovers st a \<and> discover (handler_instance st a) = SA_OK)
            then SA_OK else SA_ERR_HPI_ERROR,
            st\<lparr>calls := calls st @ discovery_calls st asked\<rparr>) \<and>
    ((\<forall>m. \<not> stop m) \<longrightarrow> asked = handler_list st)"
proof
  have "snd (oh_getnext_handler_id st 0) = id_of_head st (handler_list st)"
    by (simp add: oh_getnext_handler_id_def id_of_head_def split: list.split)
  then show "oh_discovery discover stop n st =
      Some (if asked \<noteq> handler_list st \<or>
               (\<exists>a \<in> set asked. discovers st a \<and> discover (handler_instance st a) = SA_OK)
            then SA_OK else SA_ERR_HPI_ERROR,
            st\<lparr>calls := calls st @ discovery_calls st asked\<rparr>)"
    unfolding oh_discovery_def asked_def discovery_result_def [symmetric]
    using discovery_loop_covers [OF assms(1), of "[]"] assms(2) by simp
  have "stop = (\<lambda>_. False)" if "\<forall>m. \<not> stop m" using that by auto
  then show "(\<forall>m. \<not> stop m) \<longrightarrow> asked = handler_list st"
    using until_stop_never [OF assms(2)] by (auto simp: asked_def)
qed

theorem discovery_covers_witness:
  "map_option (\<lambda>(rc, st). (rc, calls st)) (oh_discovery (\<lambda>i. if i = 43 then SA_OK else SA_ERR_HPI_ERROR)
     (\<lambda>_. False) 2 two_handlers) =
   Some (SA_OK, [(42, ''discover_resources'', 0), (43, ''discover_resources'', 0)])"
proof -
  have l: "handlers_listed two_handlers" by (simp add: handlers_listed_def two_handlers_def)
  have c: "discovery_calls two_handlers (handler_list two_handlers) =
      [(42, ''discover_resources'', 0), (43, ''discover_resources'', 0)]" by code_simp
  have "1 \<in> set (handler_list two_handlers) \<and> discovers two_handlers 1 \<and>
      handler_instance two_handlers 1 = 43" by code_simp
  then have e: "\<exists>a \<in> set (handler_list two_handlers). discovers two_handlers a \<and>
      (if handler_instance two_handlers a = 43 then SA_OK else SA_ERR_HPI_ERROR) = SA_OK" by auto
  have len: "length (handler_list two_handlers) \<le> 2" and n: "calls two_handlers = []"
    by (simp_all add: two_handlers_def)
  show ?thesis
    using discovery_covers [OF l len, where stop = "\<lambda>_. False"
      and discover = "\<lambda>i. if i = 43 then SA_OK else SA_ERR_HPI_ERROR"] c e n by auto
qed

end
