(* ===== verification/HpiBehaviour.thy ===== *)
theory HpiBehaviour
  imports HpiProps PluginProps EventProps
begin

text \<open>
  The HPI functions at work together: the equation of a function that passes a call on to a plugin,
  hot swap, the handlers of a domain, the functions that lose a reference or read NULL, and the way
  of a user's event through the daemon.
\<close>

section \<open>A call that reaches its plugin\<close>

text \<open>
  A resource of the domain that answers: it has not failed, and the handler behind it is in the
  table and has an instance.
\<close>

definition answers :: "hpi \<Rightarrow> nat \<Rightarrow> u32 \<Rightarrow> SaHpiRptEntryT \<Rightarrow> nat \<Rightarrow> oh_handler \<Rightarrow> bool" where
  "answers st d rid r a h \<longleftrightarrow>
     oh_get_resource_by_id (d_rpt (dom_at st d)) rid = Some r \<and> \<not> ResourceFailed r \<and>
     (\<exists>hid. resource_hid st d rid = Some hid \<and> handler_table (plug st) hid = Some a) \<and>
     handlers (plug st) a = Some h \<and> hnd h \<noteq> 0 \<and> 0 \<le> h_refcount h"

text \<open>What is left of a call: a line in the trace, and the events that the plugin pushed.\<close>

definition called :: "nat \<Rightarrow> string \<Rightarrow> u32 \<Rightarrow> hpi \<Rightarrow> hpi" where
  "called inst f rid st =
     st\<lparr>dmn := (dmn st)\<lparr>process_q := process_q (dmn st) @ pushed st f\<rparr>,
        plug := log_call inst f rid (plug st)\<rparr>"

lemma hold_simps [simp]:
  "plug (hold d st) = plug st" "hid_heap (dmn (hold d st)) = hid_heap (dmn st)"
  "clk (hold d st) = clk st" "pushed (hold d st) = pushed st"
  "oh_get_session_domain (dmn (hold d st)) = oh_get_session_domain (dmn st)"
  "oh_get_session_subscription (dmn (hold d st)) = oh_get_session_subscription (dmn st)"
  "dom_table (dmn (hold d st)) = dom_table (dmn st)"
proof -
  have s: "sess (dmn (hold d st)) = sess (dmn st)"
    by (simp add: hold_def inc_domain_refcount_def)
  then show "oh_get_session_domain (dmn (hold d st)) = oh_get_session_domain (dmn st)"
    by (rule session_domain_sess)
  have at: "session_at (dmn (hold d st)) = session_at (dmn st)"
    using s by (simp add: session_at_def fun_eq_iff)
  have "session_ptr (dmn (hold d st)) = session_ptr (dmn st)"
    using s by (simp add: session_ptr_def fun_eq_iff)
  then have "find_session (dmn (hold d st)) = find_session (dmn st)"
    by (auto simp: fun_eq_iff find_session_def at split: option.split)
  then show "oh_get_session_subscription (dmn (hold d st)) = oh_get_session_subscription (dmn st)"
    by (simp add: fun_eq_iff oh_get_session_subscription_def)
qed (simp_all add: hold_def inc_domain_refcount_def)

lemma open_session_hold: "open_session st sid d \<Longrightarrow> open_session (hold d st) sid d"
  by (auto simp: open_session_def session_dom_def Let_def)
    (auto simp: hold_def refcount_def)

lemma resource_hid_hold:
  "open_session st sid d \<Longrightarrow> resource_hid (hold d st) d rid = resource_hid st d rid"
  unfolding resource_hid_def by (simp add: dom_at_hold Let_def)

lemma hold_plug: "hold d st\<lparr>plug := p\<rparr> = hold d (st\<lparr>plug := p\<rparr>)"
  by (simp add: hold_def)

lemma open_session_plug: "open_session (st\<lparr>plug := p\<rparr>) sid d = open_session st sid d"
  by (simp add: open_session_def session_dom_def Let_def)

lemma answers_hold: "open_session st sid d \<Longrightarrow> answers (hold d st) d rid r a h = answers st d rid r a h"
  by (simp add: answers_def dom_at_hold resource_hid_def Let_def)

lemma called_simps [simp]:
  "called inst f rid (hold d st) = hold d (called inst f rid st)"
  "handlers (plug (called inst f rid st)) = handlers (plug st)"
  "handler_table (plug (called inst f rid st)) = handler_table (plug st)"
  "plugins (plug (called inst f rid st)) = plugins (plug st)"
  "pushed (called inst f rid st) = pushed st"
  "calls (plug (called inst f rid st)) = calls (plug st) @ [(inst, f, rid)]"
  "dom_at (called inst f rid st) = dom_at st"
  "hid_heap (dmn (called inst f rid st)) = hid_heap (dmn st)"
  by (simp_all add: called_def hold_def log_call_def inc_domain_refcount_def upd_domain_def
      dom_at_def fun_eq_iff)

lemma called_session:
  "oh_get_session_domain (dmn (called inst f rid st)) = oh_get_session_domain (dmn st)"
  "oh_get_session_subscription (dmn (called inst f rid st)) = oh_get_session_subscription (dmn st)"
  "session_dom (called inst f rid st) = session_dom st"
  by (simp_all add: called_def oh_get_session_domain_def oh_get_session_subscription_def
      find_session_def session_ptr_def session_at_def fun_eq_iff session_dom_def Let_def
      cong: option.case_cong)

lemma open_session_called: "open_session (called inst f rid st) sid d = open_session st sid d"
  by (simp add: open_session_def called_session) (simp add: called_def refcount_def)

lemma answers_called: "answers (called inst f rid st) d i r a h = answers st d i r a h"
  by (simp add: answers_def resource_hid_def Let_def)

text \<open>The end of most functions, from the lookup of the handler on.\<close>

lemma plugin_answer:
  assumes "open_session st sid d" and "answers st d rid r a h" and "has_fn (plug st) h f"
  shows "OH_HANDLER_GET d rid (\<lambda>h. release_domain d (OH_CALL_ABI h f err rid out (k h))) (hold d st) =
    k (Some a) (fst out) (snd out) (plugin_runs (Some a) f rid
       (st\<lparr>plug := inc_handler_refcount a (plug st)\<rparr>))"
proof -
  obtain hid where hid: "resource_hid st d rid = Some hid" "handler_table (plug st) hid = Some a"
    using assms(2) by (auto simp: answers_def)
  have h: "handlers (plug st) a = Some h" "hnd h \<noteq> 0" using assms(2) by (auto simp: answers_def)
  let ?p = "inc_handler_refcount a (plug st)"
  have r: "resource_hid (hold d st) d rid = Some hid"
    using hid(1) resource_hid_hold [OF assms(1)] by simp
  have i: "instance_of ?p a \<noteq> 0" using h by (simp add: instance_of_def)
  have fn: "has_fn ?p (h\<lparr>h_refcount := n\<rparr>) f" for n
    using assms(3) by (simp add: has_fn_def inc_handler_refcount_def upd_handler_def)
  have "release d (hold d st\<lparr>plug := ?p\<rparr>) = st\<lparr>plug := ?p\<rparr>"
    unfolding hold_plug by (rule leave) (use assms(1) in \<open>simp add: open_session_plug\<close>)
  then show ?thesis
    using r hid(2) i h(1) fn
    by (simp add: OH_HANDLER_GET_def oh_get_handler_def release_domain_def OH_CALL_ABI_def
        fn_missing_def)
qed

lemma put_called:
  assumes "answers st d rid r a h"
  shows "put_handler (Some a) (plugin_runs (Some a) f i
      (st\<lparr>plug := inc_handler_refcount a (plug st)\<rparr>)) = called (hnd h) f i st"
proof -
  have h: "handlers (plug st) a = Some h" "0 \<le> h_refcount h" using assms by (auto simp: answers_def)
  show ?thesis
    using release_held_handler(2) [OF h] h(1)
    by (simp add: put_handler_def plugin_runs_def called_def instance_of_def)
qed

lemma resource_checked:
  assumes "open_session st sid d" and "answers st d rid r a h"
  shows "OH_RESOURCE_GET_CHECK d rid k (hold d st) = k r (hold d st)"
  using assms by (simp add: OH_RESOURCE_GET_CHECK_def dom_at_hold answers_def)


section \<open>Hot swap\<close>

text \<open>A managed resource.\<close>

definition managed :: "SaHpiRptEntryT \<Rightarrow> bool" where
  "managed r \<longleftrightarrow> \<not> lacks r SAHPI_CAPABILITY_FRU \<and> \<not> lacks r SAHPI_CAPABILITY_MANAGED_HOTSWAP"

lemma hotswap_state_answer:
  assumes "open_session st sid d" and "answers st d rid r a h" and "\<not> lacks r SAHPI_CAPABILITY_FRU"
    and "has_fn (plug st) h ''get_hotswap_state''"
  shows "saHpiHotSwapStateGet get_hotswap_state sid rid True st =
    ((fst (get_hotswap_state rid), Some (snd (get_hotswap_state rid))),
     called (hnd h) ''get_hotswap_state'' rid st)"
  using assms(3)
  by (simp add: saHpiHotSwapStateGet_def return_if_def fail_if_def enter [OF assms(1)]
      resource_checked [OF assms(1,2)] plugin_answer [OF assms(1,2,4)] release_handler_def ret_def
      put_called [OF assms(2)])

text \<open>Asking for the state, and setting it when the answer allows.\<close>

definition hotswap_answer ::
    "(u32 \<Rightarrow> SaErrorT \<times> SaHpiHsStateT) \<Rightarrow> (u32 \<Rightarrow> SaHpiHsStateT \<Rightarrow> SaErrorT) \<Rightarrow> SaHpiHsStateT \<Rightarrow>
       nat \<Rightarrow> u32 \<Rightarrow> hpi \<Rightarrow> unit hpi_result"
where
  "hotswap_answer get_state set_state new inst rid st =
     (let (error, from) = get_state rid;
          st1 = called inst ''get_hotswap_state'' rid st
      in if error \<noteq> SA_OK then ((error, None), st1)
         else if from = SAHPI_HS_STATE_INSERTION_PENDING \<or> from = SAHPI_HS_STATE_EXTRACTION_PENDING
         then ((set_state rid new, None), called inst ''set_hotswap_state'' rid st1)
         else ((SA_ERR_HPI_INVALID_REQUEST, None), st1))"

lemma hot_swap_answers:
  assumes "open_session st sid d" and "answers st d rid r a h" and "managed r"
    and "has_fn (plug st) h ''get_hotswap_state''" and "has_fn (plug st) h ''set_hotswap_state''"
  shows "saHpiResourceActiveSet get_state set_state sid rid st =
      hotswap_answer get_state set_state SAHPI_HS_STATE_ACTIVE (hnd h) rid st \<and>
    saHpiResourceInactiveSet get_state set_state sid rid st =
      hotswap_answer get_state set_state SAHPI_HS_STATE_INACTIVE (hnd h) rid st"
proof -
  let ?st1 = "called (hnd h) ''get_hotswap_state'' rid st"
  have caps: "\<not> lacks r SAHPI_CAPABILITY_FRU" "\<not> lacks r SAHPI_CAPABILITY_MANAGED_HOTSWAP"
    using assms(3) by (auto simp: managed_def)
  have opn: "open_session (hold d st) sid d" using open_session_hold [OF assms(1)] .
  have ans: "answers (hold d st) d rid r a h" using answers_hold [OF assms(1)] assms(2) by simp
  have get: "saHpiHotSwapStateGet get_state sid rid True (hold d st) =
      ((fst (get_state rid), Some (snd (get_state rid))), hold d ?st1)"
    using hotswap_state_answer [OF opn ans caps(1)] assms(4) by simp
  have opn1: "open_session ?st1 sid d" and ans1: "answers ?st1 d rid r a h"
    using assms(1,2) by (simp_all add: open_session_called answers_called)
  have fn: "has_fn (plug ?st1) h ''set_hotswap_state''" using assms(5) by (simp add: has_fn_def)
  have allowed: "oh_allowed_hotswap_transition hs new \<longleftrightarrow>
      hs = SAHPI_HS_STATE_INSERTION_PENDING \<or> hs = SAHPI_HS_STATE_EXTRACTION_PENDING"
    if "new = SAHPI_HS_STATE_ACTIVE \<or> new = SAHPI_HS_STATE_INACTIVE" for hs new
    using that by (cases hs) auto
  note steps = fail_if_def call_hpi_def enter [OF assms(1)] resource_checked [OF assms(1,2)] get
    leave [OF opn1] ret_def allowed plugin_answer [OF opn1 ans1 fn] release_handler_def
    put_called [OF ans1] hotswap_answer_def caps
  have "saHpiResourceActiveSet get_state set_state sid rid st =
      hotswap_answer get_state set_state SAHPI_HS_STATE_ACTIVE (hnd h) rid st"
    by (cases "get_state rid") (simp add: saHpiResourceActiveSet_def steps)
  moreover have "saHpiResourceInactiveSet get_state set_state sid rid st =
      hotswap_answer get_state set_state SAHPI_HS_STATE_INACTIVE (hnd h) rid st"
    by (cases "get_state rid") (simp add: saHpiResourceInactiveSet_def steps)
  ultimately show ?thesis ..
qed

text \<open>C14: A managed resource is asked for its hot swap state first; only if it answers that its insertion or
  its extraction is pending, as the table of transitions wants it, is the plugin told to set the new
  state, and what it says is the result. Otherwise nothing is set: the result is the error of the
  plugin, or \<open>SA_ERR_HPI_INVALID_REQUEST\<close>.\<close>

theorem hot_swap_checked:
  assumes "open_session st sid d" and "answers st d rid r a h" and "managed r"
    and "has_fn (plug st) h ''get_hotswap_state''" and "has_fn (plug st) h ''set_hotswap_state''"
  shows "saHpiResourceActiveSet get_state set_state sid rid st =
      hotswap_answer get_state set_state SAHPI_HS_STATE_ACTIVE (hnd h) rid st \<and>
    saHpiResourceInactiveSet get_state set_state sid rid st =
      hotswap_answer get_state set_state SAHPI_HS_STATE_INACTIVE (hnd h) rid st"
  by (rule hot_swap_answers [OF assms])

definition demo_swap_hpi :: hpi where
  "demo_swap_hpi =
     (let r = zero_rpt_entry\<lparr>ResourceId := 5,
            ResourceCapabilities := SAHPI_CAPABILITY_FRU OR SAHPI_CAPABILITY_MANAGED_HOTSWAP\<rparr>;
          t = snd (snd (oh_add_resource 1 (snd (oh_init_rpt zero_rpt)) r 100 False))
      in demo_hpi\<lparr>dmn := (dmn demo_hpi)\<lparr>dom_heap := [0 \<mapsto> (demo_domain 0)\<lparr>d_rpt := t\<rparr>]\<rparr>,
           plug := demo_plugins\<lparr>plugins := [0 \<mapsto> \<lparr>p_name = ''demo'',
             p_abi = [''open'', ''get_hotswap_state'', ''set_hotswap_state''],
             handler_count = 1, p_refcount = 0\<rparr>]\<rparr>\<rparr>)"

lemma demo_swap_session: "open_session demo_swap_hpi 1 0"
  "\<exists>r h. answers demo_swap_hpi 0 5 r 0 h \<and> managed r \<and> hnd h = 42 \<and>
     has_fn (plug demo_swap_hpi) h ''get_hotswap_state'' \<and>
     has_fn (plug demo_swap_hpi) h ''set_hotswap_state''"
proof -
  have "refcount (dmn demo_swap_hpi) 0 = 0" "session_dom demo_swap_hpi 1 = Some 0"
    "fst (oh_get_session_subscription (dmn demo_swap_hpi) 1) = SA_OK" by code_simp+
  then show "open_session demo_swap_hpi 1 0"
    by (simp add: open_session_def demo_swap_hpi_def demo_hpi_def Let_def)
  have r: "map_option (\<lambda>r. managed r \<and> \<not> ResourceFailed r)
      (oh_get_resource_by_id (d_rpt (dom_at demo_swap_hpi 0)) 5) = Some True"
    "resource_hid demo_swap_hpi 0 5 = Some 7" "handler_table (plug demo_swap_hpi) 7 = Some 0"
    "map_option (\<lambda>h. hnd h = 42 \<and> 0 \<le> h_refcount h \<and>
       has_fn (plug demo_swap_hpi) h ''get_hotswap_state'' \<and>
       has_fn (plug demo_swap_hpi) h ''set_hotswap_state'') (handlers (plug demo_swap_hpi) 0) = Some True"
    by code_simp+
  then show "\<exists>r h. answers demo_swap_hpi 0 5 r 0 h \<and> managed r \<and> hnd h = 42 \<and>
     has_fn (plug demo_swap_hpi) h ''get_hotswap_state'' \<and>
     has_fn (plug demo_swap_hpi) h ''set_hotswap_state''"
    by (auto simp: answers_def)
qed

theorem hot_swap_checked_witness:
  "calls (plug (snd (saHpiResourceActiveSet (\<lambda>_. (SA_OK, SAHPI_HS_STATE_INSERTION_PENDING))
     (\<lambda>_ _. SA_OK) 1 5 demo_swap_hpi))) =
   [(42, ''get_hotswap_state'', 5), (42, ''set_hotswap_state'', 5)]"
proof -
  obtain r h where "answers demo_swap_hpi 0 5 r 0 h" "managed r" "hnd h = 42"
      "has_fn (plug demo_swap_hpi) h ''get_hotswap_state''"
      "has_fn (plug demo_swap_hpi) h ''set_hotswap_state''"
    using demo_swap_session(2) by blast
  moreover have "calls (plug demo_swap_hpi) = []"
    by (simp add: demo_swap_hpi_def demo_plugins_def Let_def)
  ultimately show ?thesis
    using hot_swap_checked [OF demo_swap_session(1)] by (simp add: hotswap_answer_def)
qed

section \<open>The handlers of a domain\<close>

text \<open>The handler ids of a list of resources, each at the place where it comes first.\<close>

definition new_hid_of :: "hpi \<Rightarrow> nat \<Rightarrow> u32 list \<Rightarrow> u32 \<Rightarrow> u32 list" where
  "new_hid_of st d hids rid =
     (case resource_hid st d rid of
        None \<Rightarrow> hids
      | Some hid \<Rightarrow> if hid \<in> set hids then hids else hids @ [hid])"

lemma collect_hids_walk:
  assumes i: "rpt_inv t" and t: "t = d_rpt (dom_at st d)"
  shows "resources t = us @ vs \<Longrightarrow> length vs \<le> n \<Longrightarrow>
    collect_hids n st d (case vs of [] \<Rightarrow> None | (k, e) # _ \<Rightarrow> Some e) hids =
    Some (foldl (new_hid_of st d) hids (map fst vs))"
proof (induction vs arbitrary: us n hids)
  case (Cons p vs)
  obtain k e where p: "p = (k, e)" by force
  obtain m where n: "n = Suc m" using Cons.prems(2) by (cases n) auto
  have mem: "(k, e) \<in> set (resources t)" using Cons.prems(1) p by simp
  have k: "k \<noteq> SAHPI_FIRST_ENTRY" "ResourceId e = k"
    using resources_nz [OF i] mem rpt_list.keys [OF i mem] by force+
  have "oh_get_resource_next t k = (case vs of [] \<Rightarrow> None | (k', e') # _ \<Rightarrow> Some e')"
    using rpt_list.next_key(2) [OF i _ k(1)] Cons.prems(1) p by blast
  then have "collect_hids n st d (Some e) hids =
      collect_hids m st d (case vs of [] \<Rightarrow> None | (k', e') # _ \<Rightarrow> Some e') (new_hid_of st d hids k)"
    using k(2) t n by (simp add: new_hid_of_def)
  then show ?case using Cons.IH [of "us @ [p]" m] Cons.prems p n by simp
qed (cases n; simp)

lemma new_hids_set:
  "distinct hids \<Longrightarrow> distinct (foldl (new_hid_of st d) hids rids) \<and>
    set (foldl (new_hid_of st d) hids rids) =
      set hids \<union> {hid. \<exists>rid \<in> set rids. resource_hid st d rid = Some hid}"
proof (induction rids arbitrary: hids)
  case (Cons rid rids)
  have "distinct (new_hid_of st d hids rid)"
    using Cons.prems by (auto simp: new_hid_of_def split: option.split)
  moreover have "set (new_hid_of st d hids rid) = set hids \<union> {hid. resource_hid st d rid = Some hid}"
    by (auto simp: new_hid_of_def split: option.split)
  ultimately show ?case using Cons.IH [of "new_hid_of st d hids rid"] by auto
qed simp

text \<open>The loop of \<open>saHpiAutoInsertTimeoutSet\<close> over the resources ends, and finds every handler once.\<close>

lemma domain_hids_complete:
  assumes "rpt_inv (d_rpt (dom_at st d))"
  shows "distinct (domain_hids st d) \<and>
    set (domain_hids st d) =
      {hid. \<exists>rid \<in> fst ` set (resources (d_rpt (dom_at st d))). resource_hid st d rid = Some hid}"
proof -
  let ?t = "d_rpt (dom_at st d)"
  have len: "length (resources ?t) = length (nt_nodes (rptab ?t))"
    by (simp add: resources_def ents_def nt_abs_def)
  have "oh_get_resource_by_id ?t SAHPI_FIRST_ENTRY =
      (case resources ?t of [] \<Rightarrow> None | (k, e) # _ \<Rightarrow> Some e)"
    using rpt_list.get_first [OF assms] by (simp split: list.split)
  then have "domain_hids st d = foldl (new_hid_of st d) [] (map fst (resources ?t))"
    using collect_hids_walk [OF assms refl, of "[]" "resources ?t" "length (resources ?t)" "[]"] len
    by (simp add: domain_hids_def)
  then show ?thesis using new_hids_set [of "[]" st d "map fst (resources ?t)"] by simp
qed

text \<open>A handler that takes the new timeout, or has no function for it.\<close>

definition serves :: "(u32 \<Rightarrow> SaErrorT) \<Rightarrow> plugin_state \<Rightarrow> u32 \<Rightarrow> bool" where
  "serves f p hid \<longleftrightarrow>
     (case handler_table p hid of
        None \<Rightarrow> False
      | Some a \<Rightarrow>
          (case handlers p a of
             None \<Rightarrow> False
           | Some h \<Rightarrow> hnd h \<noteq> 0 \<and> 0 \<le> h_refcount h \<and>
               (has_fn p h ''set_autoinsert_timeout'' \<longrightarrow> f hid = SA_OK)))"

definition tell :: "u32 \<Rightarrow> hpi \<Rightarrow> hpi" where
  "tell hid st =
     (case handler_table (plug st) hid of
        None \<Rightarrow> st
      | Some a \<Rightarrow>
          (case handlers (plug st) a of
             None \<Rightarrow> st
           | Some h \<Rightarrow> if has_fn (plug st) h ''set_autoinsert_timeout''
                      then called (hnd h) ''set_autoinsert_timeout'' 0 st else st))"

lemma has_fn_inc [simp]:
  "has_fn (inc_handler_refcount a p) (h\<lparr>h_refcount := n\<rparr>) f = has_fn p h f"
  by (simp add: has_fn_def inc_handler_refcount_def upd_handler_def)

lemma push_timeout_serves:
  assumes "serves f (plug st) hid"
  shows "push_timeout f (hid # hids) st = push_timeout f hids (tell hid st)"
proof -
  obtain a h where a: "handler_table (plug st) hid = Some a" "handlers (plug st) a = Some h"
      "hnd h \<noteq> 0" "0 \<le> h_refcount h" "has_fn (plug st) h ''set_autoinsert_timeout'' \<longrightarrow> f hid = SA_OK"
    using assms by (auto simp: serves_def split: option.splits)
  let ?st = "st\<lparr>plug := inc_handler_refcount a (plug st)\<rparr>"
  have i: "instance_of (plug ?st) a = hnd h" using a by (simp add: instance_of_def)
  have m: "fn_missing ?st (Some a) f \<longleftrightarrow> \<not> has_fn (plug st) h f" for f
    using a by (simp add: fn_missing_def)
  have put: "put_handler (Some a) ?st = st"
    using release_held_handler(1) [OF a(2,4)] by (simp add: put_handler_def)
  have run: "put_handler (Some a) (plugin_runs (Some a) ''set_autoinsert_timeout'' 0 ?st) =
      called (hnd h) ''set_autoinsert_timeout'' 0 st"
    using release_held_handler(2) [OF a(2,4)] i
    by (simp add: put_handler_def plugin_runs_def called_def)
  show ?thesis
    using a i m put run
    by (cases "has_fn (plug st) h ''set_autoinsert_timeout''")
      (simp_all add: oh_get_handler_def tell_def Let_def)
qed

lemma tell_frame:
  "handler_table (plug (tell hid st)) = handler_table (plug st)"
  "handlers (plug (tell hid st)) = handlers (plug st)"
  "serves f (plug (tell hid st)) = serves f (plug st)"
proof -
  show t: "handler_table (plug (tell hid st)) = handler_table (plug st)"
    and h: "handlers (plug (tell hid st)) = handlers (plug st)"
    by (simp_all add: tell_def split: option.split)
  have "has_fn (plug (tell hid st)) = has_fn (plug st)"
    by (simp add: fun_eq_iff has_fn_def tell_def split: option.split)
  then show "serves f (plug (tell hid st)) = serves f (plug st)"
    by (intro ext) (simp add: serves_def t h cong: option.case_cong)
qed

lemma push_timeout_all:
  "list_all (serves f (plug st)) us \<Longrightarrow> push_timeout f (us @ vs) st = push_timeout f vs (fold tell us st)"
  by (induction us arbitrary: st) (simp_all add: push_timeout_serves tell_frame del: push_timeout.simps)

lemma fold_tell_frame:
  "handler_table (plug (fold tell us st)) = handler_table (plug st) \<and>
   handlers (plug (fold tell us st)) = handlers (plug st)"
  by (induction us arbitrary: st) (simp_all add: tell_frame)

lemma write_domain_plug [simp]: "plug (write_domain d f st) = plug st"
  by (simp add: write_domain_def)

text \<open>The calls of the plugins of handlers in a row: each that has the function, on its instance.\<close>

definition timeout_call :: "plugin_state \<Rightarrow> u32 \<Rightarrow> (nat \<times> string \<times> u32) list" where
  "timeout_call p hid =
     (case Option.bind (handler_table p hid) (handlers p) of
        None \<Rightarrow> []
      | Some h \<Rightarrow>
          if has_fn p h ''set_autoinsert_timeout'' then [(hnd h, ''set_autoinsert_timeout'', 0)] else [])"

lemma tell_calls:
  "calls (plug (tell hid st)) = calls (plug st) @ timeout_call (plug st) hid"
  "dom_heap (dmn (tell hid st)) = dom_heap (dmn st)"
  "timeout_call (plug (tell hid st)) = timeout_call (plug st)"
proof -
  show "calls (plug (tell hid st)) = calls (plug st) @ timeout_call (plug st) hid"
    and "dom_heap (dmn (tell hid st)) = dom_heap (dmn st)"
    by (simp_all add: tell_def timeout_call_def called_def log_call_def split: option.split)
  have "has_fn (plug (tell hid st)) = has_fn (plug st)"
    by (simp add: fun_eq_iff has_fn_def tell_def split: option.split)
  then show "timeout_call (plug (tell hid st)) = timeout_call (plug st)"
    by (intro ext) (simp add: timeout_call_def tell_frame cong: option.case_cong)
qed

lemma fold_tell_calls:
  "calls (plug (fold tell us st)) = calls (plug st) @ concat (map (timeout_call (plug st)) us) \<and>
   dom_heap (dmn (fold tell us st)) = dom_heap (dmn st)"
  by (induction us arbitrary: st) (simp_all add: tell_calls)


text \<open>A plugin that could not open its instance: \<open>oh_create_handler\<close> leaves such a handler in the table.\<close>

definition demo_failed_open :: hpi where
  "demo_failed_open = demo_hpi\<lparr>plug := upd_handler 0 (\<lambda>h. h\<lparr>hnd := 0\<rparr>) demo_plugins\<rparr>"


section \<open>Removing a failed resource\<close>

lemma locked_null: "failed_remove_locked remove get_state rid r h st = None \<longleftrightarrow> h = None"
  by (cases h) (simp_all add: failed_remove_locked_def fn_missing_def Let_def del: not_None_eq)

text \<open>C18: \<open>saHpiResourceFailedRemove\<close> reads through NULL (the result is \<open>None\<close>) exactly when it is called for a
  failed field replaceable unit whose handler is not in the table any more or has no instance.\<close>

theorem failed_remove_null:
  assumes "open_session st sid d" and "oh_get_resource_by_id (d_rpt (dom_at st d)) rid = Some r"
    and "resource_hid st d rid = Some hid"
  shows "saHpiResourceFailedRemove remove get_state sid rid st = None \<longleftrightarrow>
    ResourceFailed r \<and> \<not> lacks r SAHPI_CAPABILITY_FRU \<and>
    (case handler_table (plug st) hid of
       None \<Rightarrow> True
     | Some a \<Rightarrow> instance_of (plug st) a = 0)"
proof -
  have get: "oh_get_domain (dmn st) (oh_get_session_domain (dmn st) sid) =
      (Some d, dmn (hold d st))"
    using enter(3) [OF assms(1), of "\<lambda>d st. ((SA_OK, Some (d, st)), st)"] assms(1)
    by (auto simp: OH_GET_DOMAIN_def ret_def split: prod.splits option.splits
        dest: arg_cong [where f = dmn])
  have did: "oh_get_session_domain (dmn st) sid \<noteq> SAHPI_UNSPECIFIED_DOMAIN_ID"
    and sub: "fst (oh_get_session_subscription (dmn st) sid) = SA_OK"
    using assms(1) by (auto simp: open_session_def session_dom_def Let_def split: if_splits)
  have hs: "st\<lparr>dmn := dmn (hold d st)\<rparr> = hold d st" by (simp add: hold_def)
  have r: "oh_get_resource_by_id (d_rpt (dom_at (hold d st) d)) rid = Some r"
    "resource_hid (hold d st) d rid = Some hid"
    using assms(2,3) resource_hid_hold [OF assms(1)] by (simp_all add: dom_at_hold [OF assms(1)])
  have i: "instance_of (inc_handler_refcount a (plug st)) b = instance_of (plug st) b" for a b
    by (simp add: instance_of_def option.map_comp split: option.split)
  show ?thesis
  proof (cases "handler_table (plug st) hid")
    case None
    then show ?thesis
      by (simp add: saHpiResourceFailedRemove_def Let_def sub did get hs r oh_get_handler_def
          locked_null del: not_None_eq)
  next
    case (Some a)
    then show ?thesis
      by (simp add: saHpiResourceFailedRemove_def Let_def sub did get hs r oh_get_handler_def i
          locked_null del: not_None_eq)
  qed
qed

text \<open>The demo resource, failed and replaceable, while its handler has no instance.\<close>

definition demo_gone :: hpi where
  "demo_gone = write_domain 0 (\<lambda>d. d\<lparr>d_rpt := write_resource 5 (\<lambda>r. r\<lparr>ResourceFailed := True,
     ResourceCapabilities := SAHPI_CAPABILITY_FRU\<rparr>) (d_rpt d)\<rparr>) demo_failed_open"

theorem failed_remove_null_witness:
  "saHpiResourceFailedRemove (\<lambda>_. SA_OK) (\<lambda>_. (SA_OK, SAHPI_HS_STATE_ACTIVE)) 1 5 demo_gone = None"
proof -
  have "refcount (dmn demo_gone) 0 = 0" "session_dom demo_gone 1 = Some 0"
    "fst (oh_get_session_subscription (dmn demo_gone) 1) = SA_OK" by code_simp+
  then have opn: "open_session demo_gone 1 0"
    by (simp add: open_session_def demo_gone_def write_domain_def demo_failed_open_def demo_hpi_def)
  have "map_option (\<lambda>r. ResourceFailed r \<and> \<not> lacks r SAHPI_CAPABILITY_FRU)
      (oh_get_resource_by_id (d_rpt (dom_at demo_gone 0)) 5) = Some True"
    and hid: "resource_hid demo_gone 0 5 = Some 7"
    and tab: "handler_table (plug demo_gone) 7 = Some 0" "instance_of (plug demo_gone) 0 = 0"
    by code_simp+
  then obtain r where "oh_get_resource_by_id (d_rpt (dom_at demo_gone 0)) 5 = Some r"
      "ResourceFailed r" "\<not> lacks r SAHPI_CAPABILITY_FRU" by auto
  then show ?thesis using failed_remove_null [OF opn _ hid] tab by simp
qed

end
