(* ===== verification/HpiUserEvent.thy ===== *)
theory HpiUserEvent
  imports HpiBehaviour EventThread
begin

text \<open>
  The way of a user's event: \<open>saHpiEventAdd\<close> puts it into the queue of the event thread, the thread
  into the queues of the subscribers, and \<open>saHpiEventGet\<close> hands it out.
\<close>

section \<open>Adding\<close>

lemma leave_tick:
  assumes "open_session st sid d"
  shows "release d (tick n (hold d st)) = tick n st"
proof -
  have "tick n (hold d st) = hold d (tick n st)" by (simp add: tick_def hold_def)
  moreover have "open_session (tick n st) sid d"
    using assms by (simp add: open_session_def session_dom_def tick_def Let_def split: if_splits)
  ultimately show ?thesis using leave by simp
qed

lemma domain_log_info:
  assumes "open_session st sid d"
  shows "saHpiEventLogInfoGet get_el_info sid SAHPI_UNSPECIFIED_RESOURCE_ID True st =
    ((SA_OK, Some (snd (oh_el_info (clk st 0) (d_del (dom_at st d))))), tick 1 st)"
proof -
  have "d_del (dom_at (hold d st) d) = d_del (dom_at st d)"
    using assms by (auto simp: open_session_def dom_at_def hold_def)
  then show ?thesis
    by (simp add: saHpiEventLogInfoGet_def return_if_def enter [OF assms] leave_tick [OF assms]
        oh_el_info_def Let_def ret_def)
qed

text \<open>The event that the thread gets, and the state after adding it.\<close>

definition stamped :: "hpi \<Rightarrow> SaHpiEventT \<Rightarrow> SaHpiEventT" where
  "stamped st ev = (if Timestamp ev = SAHPI_TIME_UNSPECIFIED then ev\<lparr>Timestamp := clk st 1\<rparr> else ev)"

lemma event_added:
  assumes "open_session st sid d" and "oh_valid_addevent (Some ev) = SA_OK"
    and "user_data_length ev \<le> UserEventMaxSize (info (d_del (dom_at st d)))"
  shows "\<exists>n. saHpiEventAdd get_el_info sid (Some ev) st =
    ((SA_OK, Some (stamped st ev)),
     push_event (user_event (oh_get_session_domain (dmn st) sid) (stamped st ev)) (tick n st))"
proof -
  have "tick 1 (tick 1 st) = tick 2 st" by (simp add: tick_def)
  moreover have "clk (tick 1 st) 0 = clk st 1" by (simp add: tick_def)
  moreover have "\<not> UserEventMaxSize (snd (oh_el_info (clk st 0) (d_del (dom_at st d)))) < user_data_length ev"
    using assms(3) by (simp add: oh_el_info_def not_less)
  ultimately show ?thesis
    using assms(2) domain_log_info [OF assms(1)]
    by (simp add: saHpiEventAdd_def return_if_def enter [OF assms(1)] call_hpi_def ret_def
        stamped_def Let_def) blast
qed

section \<open>Sessions while an event is processed\<close>

definition membership :: "daemon \<Rightarrow> u32 \<Rightarrow> (u32 \<times> bool) option" where
  "membership st j = map_option (\<lambda>s. (s_did s, s_subscribed s)) (session_of st j)"

lemma queue_membership:
  assumes "sess_inv st"
  shows "membership (snd (oh_queue_session_event st i e)) j = membership st j"
proof (cases "find_session st i")
  case None
  then show ?thesis using queue_event_fails [of i st e] by simp
next
  case (Some p)
  obtain a s where f: "find_session st i = Some (a, s)" using Some by (cases p) simp
  then have "session_of st i = Some s" by (simp add: session_of_def)
  then show ?thesis
    using queue_event_cases [OF assms f, of e]
    by (auto simp: membership_def session_of_upd [OF assms f])
qed

lemma multiplex_membership:
  "sess_inv st \<Longrightarrow> membership (multiplex sids e st) j = membership st j"
proof (induction sids arbitrary: st)
  case (Cons i sids)
  then show ?case
    using queue_membership [OF Cons.prems] queue_event_keeps [OF Cons.prems] by simp
qed simp

lemma dispatch_live:
  assumes "live st a d" and "reporting (EventDataUnion (e_event e))"
  shows "dispatch_event io a e st = (strip_user e,
    multiplex (sessions_of st (d_id d)) (strip_user e) (oh_add_event_to_del io a (strip_user e) st))"
  by (simp only: dispatch_reporting [OF assms(2)] process_hpi_live [OF assms(1)] snd_conv)

lemma live_held: "live st a d \<Longrightarrow> live (inc_domain_refcount a st) a (dom_held d)"
  by (simp add: live_def dom_held_def)

lemma process_event_sess:
  assumes "live st a d"
  shows "sess (snd (snd (process_event io (d_id d) e st))) =
    sess (snd (dispatch_event io a e (inc_domain_refcount a st)))"
  by (simp add: process_event_def get_live [OF assms] domain_keeps_sessions split: prod.split)

lemma logged_sessions:
  "session_of (oh_add_event_to_del io a e (inc_domain_refcount b st)) = session_of st"
  by (rule session_of_cong) (simp add: oh_add_event_to_del_def domain_keeps_sessions)

lemma logged_sess_inv:
  "sess_inv (oh_add_event_to_del io a e (inc_domain_refcount b st)) = sess_inv st"
  by (rule sess_inv_cong) (simp_all add: oh_add_event_to_del_def domain_keeps_sessions)

lemma reporting_membership:
  assumes "sess_inv st" and "live st a d" and "reporting (EventDataUnion (e_event e))"
  shows "membership (snd (snd (process_event io (d_id d) e st))) j = membership st j"
proof -
  let ?L = "oh_add_event_to_del io a (strip_user e) (inc_domain_refcount a st)"
  let ?ids = "sessions_of (inc_domain_refcount a st) (d_id (dom_held d))"
  have "sess (snd (snd (process_event io (d_id d) e st))) = sess (multiplex ?ids (strip_user e) ?L)"
    unfolding process_event_sess [OF assms(2)] dispatch_live [OF live_held [OF assms(2)] assms(3)]
    by simp
  then have "membership (snd (snd (process_event io (d_id d) e st))) j =
      membership (multiplex ?ids (strip_user e) ?L) j"
    using session_of_cong [of "snd (snd (process_event io (d_id d) e st))"
      "multiplex ?ids (strip_user e) ?L"] by (simp only: membership_def)
  also have "\<dots> = membership ?L j"
    by (rule multiplex_membership) (simp only: logged_sess_inv assms(1))
  finally show ?thesis by (simp only: membership_def logged_sessions)
qed

section \<open>From one client to another\<close>

lemma process_one_event:
  assumes "process_event (ios 0) OH_DEFAULT_DOMAIN_ID e (st\<lparr>process_q := []\<rparr>) = (rc, e', st')"
    and "process_q st = [e]" and "\<not> oh_detect_quit_event e'"
  shows "oh_process_events ios st = Inl st'"
  using assms by (simp add: oh_process_events_def)

lemma event_taken:
  assumes "sess_inv (dmn st)" and "membership (dmn st) j = Some (did, True)"
    and "did \<noteq> SAHPI_UNSPECIFIED_DOMAIN_ID" and "queue (dmn st) j = e # q"
    and "\<not> oh_detect_quit_event e"
  shows "\<exists>status d. saHpiEventGet [] j SAHPI_TIMEOUT_IMMEDIATE True Rdr RptEntry EventQueueStatus st =
      Some ((SA_OK, Some (event_out Rdr RptEntry EventQueueStatus e status)), st\<lparr>dmn := d\<rparr>) \<and>
    queue d j = q"
proof -
  obtain a s where f: "find_session (dmn st) j = Some (a, s)" "s_did s = did" "s_subscribed s"
    using assms(2) by (auto simp: membership_def session_of_def)
  have s: "s_eventq s = e # q"
    using assms(4) f(1) by (simp add: queue_def session_of_def)
  have j: "j \<noteq> 0" using find_session_in [OF assms(1) f(1)] by simp
  obtain r where r: "oh_dequeue_session_event [] (dmn st) j SAHPI_TIMEOUT_IMMEDIATE = Some r"
    using dequeue_now [OF f(1)] j s by (auto simp: word_less_1)
  obtain rc out status d where rd: "r = (rc, out, status, d)" by (cases r) auto
  note dq = dequeue_now_state [OF assms(1) f(1) r [unfolded rd]]
  have out: "rc = SA_OK" "out = Some e" using dq(4) s assms(5) by (simp_all add: deliver_def)
  have "queue d j = q" using dq(1) s by (simp add: queue_def)
  moreover have "oh_get_session_domain (dmn st) j = did"
    "oh_get_session_subscription (dmn st) j = (SA_OK, Some True)"
    using f j by (simp_all add: oh_get_session_domain_def oh_get_session_subscription_def word_less_1)
  ultimately show ?thesis
    using assms(3) r rd out dq(3)
    by (auto simp: saHpiEventGet_def wait_event_def Let_def ret_def)
qed

text \<open>C7: An event of a user that is valid and not too long is accepted. When the event thread, whose queue
  was empty, gets to it, it appends the event, with its timestamp and with neither a record nor
  capabilities of a resource, to the queue of every session that has subscribed to the default
  domain and has room (an empty queue, or one shorter than the limit), and to no other; and such a
  session whose queue was empty reads exactly that event next.\<close>

theorem user_event_arrives:
  assumes "open_session st sid d" and "oh_valid_addevent (Some ev) = SA_OK"
    and "user_data_length ev \<le> UserEventMaxSize (info (d_del (dom_at st d)))"
    and "sess_inv (dmn st)" and "live (dmn st) a x" and "d_id x = OH_DEFAULT_DOMAIN_ID"
    and "process_q (dmn st) = []"
  shows "\<exists>st1 dmn2 e'.
    saHpiEventAdd get_el_info sid (Some ev) st = ((SA_OK, Some (stamped st ev)), st1) \<and>
    oh_process_events ios (dmn st1) = Inl dmn2 \<and>
    e_event e' = stamped st ev \<and> e_rdrs e' = [] \<and> ResourceCapabilities (e_resource e') = 0 \<and>
    (\<forall>j. queue dmn2 j =
       queue (dmn st) j @ (if receives (dmn st) OH_DEFAULT_DOMAIN_ID j then [e'] else [])) \<and>
    (\<forall>j. receives (dmn st) OH_DEFAULT_DOMAIN_ID j \<and> queue (dmn st) j = [] \<longrightarrow>
      (\<exists>status dmn3.
         saHpiEventGet [] j SAHPI_TIMEOUT_IMMEDIATE True True True True (st1\<lparr>dmn := dmn2\<rparr>) =
           Some ((SA_OK, Some (stamped st ev, Some None, Some (e_resource e'), Some status)),
                 st1\<lparr>dmn := dmn3\<rparr>) \<and>
         queue dmn3 j = []))"
proof -
  let ?ue = "user_event (oh_get_session_domain (dmn st) sid) (stamped st ev)"
  let ?e = "strip_user ?ue"
  obtain n where add: "saHpiEventAdd get_el_info sid (Some ev) st =
      ((SA_OK, Some (stamped st ev)), push_event ?ue (tick n st))"
    using event_added [OF assms(1-3)] by blast
  let ?st1 = "push_event ?ue (tick n st)"
  have "is_user_event (EventDataUnion (stamped st ev))"
    using assms(2) by (simp add: oh_valid_addevent_def stamped_def split: if_splits)
  then have u: "is_user_event (EventDataUnion (e_event ?ue))" by (simp add: user_event_def)
  have e: "e_event ?e = stamped st ev" "e_rdrs ?e = []" "ResourceCapabilities (e_resource ?e) = 0"
    using u by (simp_all add: strip_user_def user_event_def)
  have rep: "reporting (EventDataUnion (e_event ?ue))"
    using u by (cases "EventDataUnion (e_event ?ue)") simp_all
  have nq: "\<not> oh_detect_quit_event ?e"
    using u e(1) by (cases "EventDataUnion (stamped st ev)") (simp_all add: oh_detect_quit_event_def user_event_def)
  have d1: "dmn ?st1\<lparr>process_q := []\<rparr> = dmn st" "process_q (dmn ?st1) = [?ue]"
    using assms(7) by (simp_all add: push_event_def tick_def)
  obtain rc e' dn where p: "process_event (ios 0) OH_DEFAULT_DOMAIN_ID ?ue (dmn st) = (rc, e', dn)"
    using prod_cases3 by blast
  note pd = p [folded assms(6)]
  have del: "e' = ?e" "sess_inv dn" and q: "queue dn j = queue (dmn st) j @
      (if receives (dmn st) OH_DEFAULT_DOMAIN_ID j then [?e] else [])" for j
    using reporting_delivered [OF assms(4,5) rep pd] assms(6) by simp_all
  have read: "\<exists>status d3. saHpiEventGet [] j SAHPI_TIMEOUT_IMMEDIATE True True True True (?st1\<lparr>dmn := dn\<rparr>) =
        Some ((SA_OK, Some (stamped st ev, Some None, Some (e_resource ?e), Some status)), ?st1\<lparr>dmn := d3\<rparr>) \<and>
      queue d3 j = []"
    if r: "receives (dmn st) OH_DEFAULT_DOMAIN_ID j" "queue (dmn st) j = []" for j
  proof -
    obtain did where m: "membership (dmn st) j = Some (did, True)" "did = OH_DEFAULT_DOMAIN_ID"
      using r(1) by (auto simp: receives_def membership_def)
    have "membership dn j = Some (did, True)"
      using reporting_membership [OF assms(4,5) rep, of "ios 0" j] pd m(1) by simp
    moreover have "did \<noteq> SAHPI_UNSPECIFIED_DOMAIN_ID" using m(2) by simp
    ultimately obtain status d3 where
        "saHpiEventGet [] j SAHPI_TIMEOUT_IMMEDIATE True True True True (?st1\<lparr>dmn := dn\<rparr>) =
          Some ((SA_OK, Some (event_out True True True ?e status)), ?st1\<lparr>dmn := d3\<rparr>)"
        "queue d3 j = []"
      using event_taken [of "?st1\<lparr>dmn := dn\<rparr>" j did ?e "[]" True True True] del q [of j] r nq by auto
    then show ?thesis using e by (auto simp: event_out_def)
  qed
  have "oh_process_events ios (dmn ?st1) = Inl dn"
    using process_one_event [of ios ?ue "dmn ?st1"] p d1 nq del(1) by simp
  then show ?thesis using add e q read by blast
qed

definition demo_listener :: hpi where
  "demo_listener = demo_hpi\<lparr>dmn := demo_sub\<rparr>"

definition demo_user_event :: SaHpiEventT where
  "demo_user_event = \<lparr>Source = SAHPI_UNSPECIFIED_RESOURCE_ID, Timestamp = 77,
     Severity = SAHPI_MINOR, EventDataUnion = UserEvent (zero_text\<lparr>DataType := SAHPI_TL_TYPE_BINARY\<rparr>)\<rparr>"

theorem user_event_arrives_witness:
  "\<exists>st1 dmn2 status dmn3 res.
     saHpiEventAdd (\<lambda>_. oh_el_info 0 (d_del (demo_domain 0))) 1 (Some demo_user_event) demo_listener =
       ((SA_OK, Some demo_user_event), st1) \<and>
     oh_process_events (\<lambda>_. demo_io) (dmn st1) = Inl dmn2 \<and>
     saHpiEventGet [] 1 SAHPI_TIMEOUT_IMMEDIATE True True True True (st1\<lparr>dmn := dmn2\<rparr>) =
       Some ((SA_OK, Some (demo_user_event, Some None, Some res, Some status)), st1\<lparr>dmn := dmn3\<rparr>)"
proof -
  have "refcount (dmn demo_listener) 0 = 0" "session_dom demo_listener 1 = Some 0"
    "fst (oh_get_session_subscription (dmn demo_listener) 1) = SA_OK" by code_simp+
  then have opn: "open_session demo_listener 1 0"
    using demo_sub_domain by (simp add: open_session_def demo_listener_def live_def)
  have ok: "oh_valid_addevent (Some demo_user_event) = SA_OK" by code_simp
  have len: "user_data_length demo_user_event \<le> UserEventMaxSize (info (d_del (dom_at demo_listener 0)))"
    by code_simp
  have q: "process_q (dmn demo_listener) = []" by code_simp
  have d: "dmn demo_listener = demo_sub" by (simp add: demo_listener_def)
  have s: "stamped demo_listener demo_user_event = demo_user_event"
    by (simp add: stamped_def demo_user_event_def)
  have i: "sess_inv (dmn demo_listener)" "live (dmn demo_listener) 0 (demo_domain 0)"
    "receives (dmn demo_listener) OH_DEFAULT_DOMAIN_ID 1" "queue (dmn demo_listener) 1 = []"
    using demo_sub_inv demo_sub_domain demo_sub_receives by (simp_all add: d)
  have "d_id (demo_domain 0) = OH_DEFAULT_DOMAIN_ID" by simp
  from user_event_arrives [OF opn ok len i(1,2) this q, of "\<lambda>_. oh_el_info 0 (d_del (demo_domain 0))"
      "\<lambda>_. demo_io"] i(3,4)
  show ?thesis unfolding s by metis
qed

end
