(* ===== verification/SimHandler.thy ===== *)
theory SimHandler
  imports HpiHotSwap Annunc EpText
begin

text \<open>
  The simulator, a plugin that keeps its hardware in memory (\<^verbatim>\<open>plugins/simulator\<close>): the state of an
  instance of its handler and the functions on resources (\<^verbatim>\<open>sim_power.c\<close>, \<^verbatim>\<open>sim_reset.c\<close>,
  \<^verbatim>\<open>sim_hotswap.c\<close> and the last part of \<^verbatim>\<open>sim_init.c\<close>).

  Every resource and every record of the cache \<open>rptcache\<close> has a pointer to private data: for a
  resource a \<open>simResourceInfo\<close>, for a record the structure of its kind. A cast of such a pointer is
  a lookup in the map of that kind of structure, which has nothing at 0 (NULL); \<open>brk\<close> is the next
  address of the allocator. An instance is an option, \<open>None\<close> for a NULL handle, and a function
  gives its return code with what it writes or with the new instance.
\<close>

section \<open>Private data\<close>

record simResourceInfo =
  cur_hsstate :: SaHpiHsStateT
  cur_indicator_hsstate :: u32
  cur_powerstate :: u32
  ae_timeout :: u64

text \<open>The tables of event and reading maps in a \<open>SensorInfo\<close> are never read.\<close>

record SensorInfo =
  cur_state :: u16
  sensor_enabled :: bool
  events_enabled :: bool
  assert_mask :: u16
  deassert_mask :: u16
  si_reading :: SaHpiSensorReadingT
  si_thres :: SaHpiSensorThresholdsT

record sim_control_info =
  ci_mode :: u32
  ci_state :: SaHpiCtrlStateT

record simAnnunciatorInfo =
  ai_mode :: u32
  announs :: oh_announcement

abbreviation (input) SIM_INVENTORY_FIELDS :: nat where "SIM_INVENTORY_FIELDS \<equiv> 10"
abbreviation (input) SIM_INVENTORY_AREAS :: nat where "SIM_INVENTORY_AREAS \<equiv> 10"

record sim_idr_area =
  nextfieldid :: u32
  idrareahead :: SaHpiIdrAreaHeaderT
  idr_field :: "SaHpiIdrFieldT list"

record sim_inventory_info =
  nextareaid :: u32
  idrinfo :: SaHpiIdrInfoT
  area :: "sim_idr_area list"

text \<open>
  An instance (\<open>oh_handler_state\<close>). Of its configuration the functions use \<open>name\<close> and \<open>entity_root\<close>;
  \<open>discovered\<close> is the member \<open>data\<close>. The private data of diagnostic and firmware records is
  never read.
\<close>

record sim_handler =
  sim_hid :: u32
  conf_name :: "string option"
  entity_root :: string
  rptcache :: RPTable
  elcache :: oh_el
  discovered :: bool
  eventq :: "oh_event list"
  brk :: nat
  resource_infos :: "nat \<rightharpoonup> simResourceInfo"
  sensor_infos :: "nat \<rightharpoonup> SensorInfo"
  control_infos :: "nat \<rightharpoonup> sim_control_info"
  watchdog_infos :: "nat \<rightharpoonup> SaHpiWatchdogT"
  annunciator_infos :: "nat \<rightharpoonup> simAnnunciatorInfo"
  inventory_infos :: "nat \<rightharpoonup> sim_inventory_info"

section \<open>The checks that all functions begin with\<close>

text \<open>
  The handle and the other arguments (\<open>bad\<close>), the resource, its capability; then the record, and
  the private data of the record or of the resource. \<open>fail\<close> makes a result of an error.
\<close>

definition on_resource ::
    "sim_handler option \<Rightarrow> bool \<Rightarrow> u32 \<Rightarrow> u32 \<Rightarrow> (SaErrorT \<Rightarrow> 'r) \<Rightarrow>
       (sim_handler \<Rightarrow> SaHpiRptEntryT \<Rightarrow> 'r) \<Rightarrow> 'r"
where
  "on_resource inst bad rid cap fail k =
     (case inst of
        None \<Rightarrow> fail SA_ERR_HPI_INVALID_PARAMS
      | Some h \<Rightarrow>
          if bad then fail SA_ERR_HPI_INVALID_PARAMS
          else case oh_get_resource_by_id (rptcache h) rid of
                 None \<Rightarrow> fail SA_ERR_HPI_INVALID_RESOURCE
               | Some rpt \<Rightarrow> if lacks rpt cap then fail SA_ERR_HPI_CAPABILITY else k h rpt)"

definition on_record ::
    "sim_handler \<Rightarrow> u32 \<Rightarrow> SaHpiRdrTypeT \<Rightarrow> u32 \<Rightarrow> (SaErrorT \<Rightarrow> 'r) \<Rightarrow> (SaHpiRdrT \<Rightarrow> 'r) \<Rightarrow> 'r"
where
  "on_record h rid type num fail k =
     (case oh_get_rdr_by_type (rptcache h) rid type num of
        None \<Rightarrow> fail SA_ERR_HPI_NOT_PRESENT
      | Some rec \<Rightarrow> k rec)"

definition rdr_info ::
    "(sim_handler \<Rightarrow> nat \<rightharpoonup> 'i) \<Rightarrow> sim_handler \<Rightarrow> u32 \<Rightarrow> SaHpiRdrT \<Rightarrow> (SaErrorT \<Rightarrow> 'r) \<Rightarrow>
       (nat \<Rightarrow> 'i \<Rightarrow> 'r) \<Rightarrow> 'r"
where
  "rdr_info get h rid rec fail k =
     (let p = oh_get_rdr_data (rptcache h) rid (RecordId rec)
      in case get h p of None \<Rightarrow> fail SA_ERR_HPI_NOT_PRESENT | Some i \<Rightarrow> k p i)"

definition resource_info ::
    "sim_handler \<Rightarrow> u32 \<Rightarrow> SaErrorT \<Rightarrow> (SaErrorT \<Rightarrow> 'r) \<Rightarrow> (nat \<Rightarrow> simResourceInfo \<Rightarrow> 'r) \<Rightarrow> 'r"
where
  "resource_info h rid err fail k =
     (let p = oh_get_resource_data (rptcache h) rid
      in case resource_infos h p of None \<Rightarrow> fail err | Some i \<Rightarrow> k p i)"

text \<open>The result of a function that gives a value, and of one that changes the instance.\<close>

definition no_value :: "SaErrorT \<Rightarrow> SaErrorT \<times> 'a option" where
  "no_value e = (e, None)"

definition unchanged :: "sim_handler option \<Rightarrow> SaErrorT \<Rightarrow> SaErrorT \<times> sim_handler option" where
  "unchanged inst e = (e, inst)"

definition put_resource_info :: "nat \<Rightarrow> simResourceInfo \<Rightarrow> sim_handler \<Rightarrow> sim_handler" where
  "put_resource_info p i h = h\<lparr>resource_infos := (resource_infos h)(p \<mapsto> i)\<rparr>"

section \<open>Power and reset\<close>

definition sim_get_power_state :: "sim_handler option \<Rightarrow> u32 \<Rightarrow> bool \<Rightarrow> SaErrorT \<times> u32 option" where
  "sim_get_power_state inst rid pwrstate =
     on_resource inst (\<not> pwrstate) rid SAHPI_CAPABILITY_POWER no_value (\<lambda>h _.
     resource_info h rid SA_ERR_HPI_NOT_PRESENT no_value (\<lambda>_ i.
     (SA_OK, Some (cur_powerstate i))))"

definition sim_set_power_state ::
    "sim_handler option \<Rightarrow> u32 \<Rightarrow> u32 \<Rightarrow> SaErrorT \<times> sim_handler option"
where
  "sim_set_power_state inst rid pwrstate =
     on_resource inst (oh_lookup_powerstate pwrstate = None) rid SAHPI_CAPABILITY_POWER
       (unchanged inst) (\<lambda>h _.
     resource_info h rid SA_ERR_HPI_NOT_PRESENT (unchanged inst) (\<lambda>p i.
     (SA_OK, Some (put_resource_info p (i\<lparr>cur_powerstate := pwrstate\<rparr>) h))))"

abbreviation (input) SAHPI_RESET_ASSERT :: u32 where "SAHPI_RESET_ASSERT \<equiv> 2"
abbreviation (input) SAHPI_RESET_DEASSERT :: u32 where "SAHPI_RESET_DEASSERT \<equiv> 3"

definition sim_get_reset_state :: "sim_handler option \<Rightarrow> u32 \<Rightarrow> bool \<Rightarrow> SaErrorT \<times> u32 option" where
  "sim_get_reset_state inst rid act =
     on_resource inst (\<not> act) rid SAHPI_CAPABILITY_RESET no_value (\<lambda>_ _.
     (SA_OK, Some SAHPI_RESET_DEASSERT))"

definition sim_set_reset_state ::
    "sim_handler option \<Rightarrow> u32 \<Rightarrow> u32 \<Rightarrow> SaErrorT \<times> sim_handler option"
where
  "sim_set_reset_state inst rid act =
     (if inst = None \<or> oh_lookup_resetaction act = None then unchanged inst SA_ERR_HPI_INVALID_PARAMS
      else if act = SAHPI_RESET_ASSERT \<or> act = SAHPI_RESET_DEASSERT then
        unchanged inst SA_ERR_HPI_INVALID_CMD
      else on_resource inst False rid SAHPI_CAPABILITY_RESET (unchanged inst) (\<lambda>_ _.
             unchanged inst SA_OK))"

section \<open>Hot swap\<close>

fun hsstate_num :: "SaHpiHsStateT \<Rightarrow> u32" where
  "hsstate_num SAHPI_HS_STATE_INACTIVE = 0"
| "hsstate_num SAHPI_HS_STATE_INSERTION_PENDING = 1"
| "hsstate_num SAHPI_HS_STATE_ACTIVE = 2"
| "hsstate_num SAHPI_HS_STATE_EXTRACTION_PENDING = 3"
| "hsstate_num SAHPI_HS_STATE_NOT_PRESENT = 4"
| "hsstate_num (SAHPI_HS_STATE_OTHER n) = n"

definition sim_get_hotswap_state ::
    "sim_handler option \<Rightarrow> u32 \<Rightarrow> bool \<Rightarrow> SaErrorT \<times> SaHpiHsStateT option"
where
  "sim_get_hotswap_state inst rid hsstate =
     on_resource inst (\<not> hsstate) rid SAHPI_CAPABILITY_MANAGED_HOTSWAP no_value (\<lambda>h _.
     resource_info h rid SA_ERR_HPI_INVALID_RESOURCE no_value (\<lambda>_ i.
     (SA_OK, Some (cur_hsstate i))))"

text \<open>The switch of \<open>sim_set_hotswap_state\<close>: the transitions of the simulated hardware.\<close>

fun sim_transition :: "SaHpiHsStateT \<Rightarrow> SaHpiHsStateT \<Rightarrow> bool" where
  "sim_transition SAHPI_HS_STATE_INACTIVE hsstate =
     (hsstate = SAHPI_HS_STATE_NOT_PRESENT \<or> hsstate = SAHPI_HS_STATE_INSERTION_PENDING)"
| "sim_transition SAHPI_HS_STATE_INSERTION_PENDING hsstate =
     (hsstate = SAHPI_HS_STATE_NOT_PRESENT \<or> hsstate = SAHPI_HS_STATE_INACTIVE \<or>
      hsstate = SAHPI_HS_STATE_ACTIVE)"
| "sim_transition SAHPI_HS_STATE_ACTIVE hsstate =
     (hsstate = SAHPI_HS_STATE_NOT_PRESENT \<or> hsstate = SAHPI_HS_STATE_EXTRACTION_PENDING)"
| "sim_transition SAHPI_HS_STATE_EXTRACTION_PENDING hsstate =
     (hsstate = SAHPI_HS_STATE_NOT_PRESENT \<or> hsstate = SAHPI_HS_STATE_ACTIVE \<or>
      hsstate = SAHPI_HS_STATE_INACTIVE)"
| "sim_transition SAHPI_HS_STATE_NOT_PRESENT hsstate = (hsstate = SAHPI_HS_STATE_INSERTION_PENDING)"
| "sim_transition (SAHPI_HS_STATE_OTHER n) hsstate = False"

definition sim_set_hotswap_state ::
    "sim_handler option \<Rightarrow> u32 \<Rightarrow> SaHpiHsStateT \<Rightarrow> SaErrorT \<times> sim_handler option"
where
  "sim_set_hotswap_state inst rid hsstate =
     (if inst = None then unchanged inst SA_ERR_HPI_INVALID_PARAMS
      else if oh_lookup_hsstate (hsstate_num hsstate) = None then
        unchanged inst SA_ERR_HPI_INVALID_REQUEST
      else
        on_resource inst False rid SAHPI_CAPABILITY_MANAGED_HOTSWAP (unchanged inst) (\<lambda>h _.
        resource_info h rid SA_ERR_HPI_INVALID_RESOURCE (unchanged inst) (\<lambda>p i.
        if sim_transition (cur_hsstate i) hsstate then
          (SA_OK, Some (put_resource_info p (i\<lparr>cur_hsstate := hsstate\<rparr>) h))
        else unchanged inst SA_ERR_HPI_INVALID_REQUEST)))"

definition sim_request_hotswap_action ::
    "sim_handler option \<Rightarrow> u32 \<Rightarrow> u32 \<Rightarrow> SaErrorT \<times> sim_handler option"
where
  "sim_request_hotswap_action inst rid act =
     (if inst = None then unchanged inst SA_ERR_HPI_INVALID_PARAMS
      else if oh_lookup_hsaction act = None then unchanged inst SA_ERR_HPI_INVALID_REQUEST
      else
        on_resource inst False rid SAHPI_CAPABILITY_FRU (unchanged inst) (\<lambda>h _.
        resource_info h rid SA_ERR_HPI_INVALID_RESOURCE (unchanged inst) (\<lambda>p i.
        if act = SAHPI_HS_ACTION_INSERTION \<and> cur_hsstate i = SAHPI_HS_STATE_INACTIVE then
          (SA_OK, Some (put_resource_info p (i\<lparr>cur_hsstate := SAHPI_HS_STATE_INSERTION_PENDING\<rparr>) h))
        else if act = SAHPI_HS_ACTION_EXTRACTION \<and> cur_hsstate i = SAHPI_HS_STATE_ACTIVE then
          (SA_OK, Some (put_resource_info p (i\<lparr>cur_hsstate := SAHPI_HS_STATE_EXTRACTION_PENDING\<rparr>) h))
        else unchanged inst SA_ERR_HPI_INVALID_REQUEST)))"

definition sim_get_indicator_state ::
    "sim_handler option \<Rightarrow> u32 \<Rightarrow> bool \<Rightarrow> SaErrorT \<times> u32 option"
where
  "sim_get_indicator_state inst rid ind_state =
     on_resource inst (\<not> ind_state) rid SAHPI_CAPABILITY_FRU no_value (\<lambda>h _.
     resource_info h rid SA_ERR_HPI_INVALID_RESOURCE no_value (\<lambda>_ i.
     (SA_OK, Some (cur_indicator_hsstate i))))"

definition sim_set_indicator_state ::
    "sim_handler option \<Rightarrow> u32 \<Rightarrow> u32 \<Rightarrow> SaErrorT \<times> sim_handler option"
where
  "sim_set_indicator_state inst rid ind_state =
     (if inst = None then unchanged inst SA_ERR_HPI_INVALID_PARAMS
      else if oh_lookup_hsindicatorstate ind_state = None then
        unchanged inst SA_ERR_HPI_INVALID_REQUEST
      else
        on_resource inst False rid SAHPI_CAPABILITY_FRU (unchanged inst) (\<lambda>h _.
        resource_info h rid SA_ERR_HPI_INVALID_RESOURCE (unchanged inst) (\<lambda>p i.
        (SA_OK, Some (put_resource_info p (i\<lparr>cur_indicator_hsstate := ind_state\<rparr>) h)))))"

definition sim_get_autoextract_timeout ::
    "sim_handler option \<Rightarrow> u32 \<Rightarrow> SaErrorT \<times> u64 option"
where
  "sim_get_autoextract_timeout inst rid =
     on_resource inst False rid SAHPI_CAPABILITY_MANAGED_HOTSWAP no_value (\<lambda>h _.
     resource_info h rid SA_ERR_HPI_INVALID_RESOURCE no_value (\<lambda>_ i.
     (SA_OK, Some (ae_timeout i))))"

abbreviation (input) SAHPI_HS_CAPABILITY_AUTOEXTRACT_READ_ONLY :: u32
  where "SAHPI_HS_CAPABILITY_AUTOEXTRACT_READ_ONLY \<equiv> 0x80000000"

definition sim_set_autoextract_timeout ::
    "sim_handler option \<Rightarrow> u32 \<Rightarrow> u64 \<Rightarrow> SaErrorT \<times> sim_handler option"
where
  "sim_set_autoextract_timeout inst rid timeout =
     on_resource inst False rid SAHPI_CAPABILITY_MANAGED_HOTSWAP (unchanged inst) (\<lambda>h rpt.
     if \<not> lacks_hs rpt SAHPI_HS_CAPABILITY_AUTOEXTRACT_READ_ONLY then
       unchanged inst SA_ERR_HPI_READ_ONLY
     else
       resource_info h rid SA_ERR_HPI_INVALID_RESOURCE (unchanged inst) (\<lambda>p i.
       (SA_OK, Some (put_resource_info p (i\<lparr>ae_timeout := timeout\<rparr>) h))))"

section \<open>Tags, severities and failed resources\<close>

text \<open>A write through the pointer to the entry of a resource in the cache.\<close>

definition upd_resource :: "u32 \<Rightarrow> (SaHpiRptEntryT \<Rightarrow> SaHpiRptEntryT) \<Rightarrow> RPTable \<Rightarrow> RPTable" where
  "upd_resource rid f t =
     (case get_rptentry_by_rid t rid of
        None \<Rightarrow> t
      | Some (a, _) \<Rightarrow> t\<lparr>rptab := nt_write a (\<lambda>e. e\<lparr>rpt_entry := f (rpt_entry e)\<rparr>) (rptab t)\<rparr>)"

definition sim_set_resource_tag ::
    "sim_handler \<Rightarrow> u32 \<Rightarrow> SaHpiTextBufferT option \<Rightarrow> SaErrorT \<times> sim_handler"
where
  "sim_set_resource_tag h rid tag =
     (case tag of
        None \<Rightarrow> (SA_ERR_HPI_INVALID_PARAMS, h)
      | Some t \<Rightarrow>
          if oh_get_resource_by_id (rptcache h) rid = None then (SA_ERR_HPI_NOT_PRESENT, h)
          else (SA_OK, h\<lparr>rptcache := upd_resource rid (\<lambda>r. r\<lparr>ResourceTag := t\<rparr>) (rptcache h)\<rparr>))"

definition sim_set_resource_severity ::
    "sim_handler \<Rightarrow> u32 \<Rightarrow> SaHpiSeverityT \<Rightarrow> SaErrorT \<times> sim_handler"
where
  "sim_set_resource_severity h rid sev =
     (if oh_get_resource_by_id (rptcache h) rid = None then (SA_ERR_HPI_NOT_PRESENT, h)
      else (SA_OK, h\<lparr>rptcache := upd_resource rid (\<lambda>r. r\<lparr>ResourceSeverity := sev\<rparr>) (rptcache h)\<rparr>))"

definition push :: "oh_event \<Rightarrow> sim_handler \<Rightarrow> sim_handler" where
  "push e h = h\<lparr>eventq := eventq h @ [e]\<rparr>"

text \<open>
  Removing a failed resource: the hot swap event goes to the daemon, then the resource leaves the
  cache. \<open>t0\<close> and \<open>t1\<close> are the clock at the event and at the removal.
\<close>

definition sim_resource_failed_remove ::
    "u64 \<Rightarrow> u64 \<Rightarrow> sim_handler option \<Rightarrow> u32 \<Rightarrow> SaErrorT \<times> sim_handler option"
where
  "sim_resource_failed_remove t0 t1 inst rid =
     (case inst of
        None \<Rightarrow> (SA_ERR_HPI_INVALID_PARAMS, inst)
      | Some h \<Rightarrow>
          (case oh_get_resource_by_id (rptcache h) rid of
             None \<Rightarrow> (SA_ERR_HPI_NOT_PRESENT, inst)
           | Some resource \<Rightarrow>
               (let (rv, hs) =
                      (if \<not> lacks resource SAHPI_CAPABILITY_MANAGED_HOTSWAP
                       then sim_get_hotswap_state inst rid True
                       else (SA_OK, Some SAHPI_HS_STATE_ACTIVE))
                in case hs of
                     None \<Rightarrow> (rv, inst)
                   | Some hsstate \<Rightarrow>
                       (let e = zero_event\<lparr>e_hid := sim_hid h, e_resource := resource,
                                  e_event := \<lparr>Source = rid, Timestamp = t0,
                                    Severity = ResourceSeverity resource,
                                    EventDataUnion = HotSwapEvent
                                      \<lparr>HotSwapState = SAHPI_HS_STATE_NOT_PRESENT,
                                       PreviousHotSwapState = hsstate,
                                       CauseOfStateChange = SAHPI_HS_CAUSE_USER_UPDATE\<rparr>\<rparr>\<rparr>;
                            h = push (oh_dup_event e) h;
                            (rv, t) = oh_remove_resource t1 (rptcache h) rid
                        in (rv, Some (h\<lparr>rptcache := t\<rparr>))))))"

end
