(* ===== verification/SimSensor.thy ===== *)
theory SimSensor
  imports SimHandler
begin

text \<open>
  The simulator's functions on sensors, controls, watchdog timers, annunciators and the event log
  (\<^verbatim>\<open>plugins/simulator/sim_sensor_func.c\<close>, \<^verbatim>\<open>sim_control_func.c\<close>, \<^verbatim>\<open>sim_watchdog.c\<close>,
  \<^verbatim>\<open>sim_annunciator_func.c\<close>, \<^verbatim>\<open>sim_el.c\<close>).
\<close>

section \<open>Sensors\<close>

definition on_sensor ::
    "sim_handler option \<Rightarrow> bool \<Rightarrow> u32 \<Rightarrow> u32 \<Rightarrow> (SaErrorT \<Rightarrow> 'r) \<Rightarrow>
       (sim_handler \<Rightarrow> SaHpiRptEntryT \<Rightarrow> SaHpiRdrT \<Rightarrow> 'r) \<Rightarrow> 'r"
where
  "on_sensor inst bad rid num fail k =
     on_resource inst bad rid SAHPI_CAPABILITY_SENSOR fail (\<lambda>h rpt.
     on_record h rid SAHPI_SENSOR_RDR num fail (\<lambda>rec. k h rpt rec))"

definition put_sensor :: "nat \<Rightarrow> SensorInfo \<Rightarrow> sim_handler \<Rightarrow> sim_handler" where
  "put_sensor p i h = h\<lparr>sensor_infos := (sensor_infos h)(p \<mapsto> i)\<rparr>"

text \<open>What the caller has at the two places comes with the pointers.\<close>

definition sim_get_sensor_reading ::
    "sim_handler option \<Rightarrow> u32 \<Rightarrow> u32 \<Rightarrow> SaHpiSensorReadingT option \<Rightarrow> u16 option \<Rightarrow>
       SaErrorT \<times> SaHpiSensorReadingT option \<times> u16 option"
where
  "sim_get_sensor_reading inst rid num data state =
     (let fail = (\<lambda>e. (e, data, state))
      in on_sensor inst False rid num fail (\<lambda>h rpt rec.
         rdr_info sensor_infos h rid rec fail (\<lambda>_ i.
         if \<not> sensor_enabled i then fail SA_ERR_HPI_INVALID_REQUEST
         else (SA_OK, map_option (\<lambda>_. si_reading i) data, map_option (\<lambda>_. cur_state i) state))))"

definition sim_get_sensor_eventstate ::
    "sim_handler option \<Rightarrow> u32 \<Rightarrow> u32 \<Rightarrow> bool \<Rightarrow> bool \<Rightarrow> SaErrorT \<times> u16 option"
where
  "sim_get_sensor_eventstate inst rid sid reading state =
     on_sensor inst (\<not> reading \<or> \<not> state) rid sid no_value (\<lambda>h rpt rec.
     rdr_info sensor_infos h rid rec no_value (\<lambda>_ i.
     if \<not> sensor_enabled i then no_value SA_ERR_HPI_INVALID_REQUEST
     else (SA_OK, Some (cur_state i))))"

definition sim_get_sensor_thresholds ::
    "sim_handler option \<Rightarrow> u32 \<Rightarrow> u32 \<Rightarrow> bool \<Rightarrow> SaErrorT \<times> SaHpiSensorThresholdsT option"
where
  "sim_get_sensor_thresholds inst rid sid thres =
     (if inst = None \<or> \<not> thres then no_value SA_ERR_HPI_INVALID_PARAMS
      else if rid = 0 then no_value SA_ERR_HPI_INVALID_RESOURCE
      else if sid = 0 then no_value SA_ERR_HPI_NOT_PRESENT
      else
        on_sensor inst False rid sid no_value (\<lambda>h rpt rec.
        rdr_info sensor_infos h rid rec no_value (\<lambda>_ i.
        if \<not> sensor_enabled i then no_value SA_ERR_HPI_INVALID_REQUEST
        else (SA_OK, Some (si_thres i)))))"

definition sim_set_sensor_thresholds ::
    "sim_handler option \<Rightarrow> u32 \<Rightarrow> u32 \<Rightarrow> SaHpiSensorThresholdsT option \<Rightarrow>
       SaErrorT \<times> sim_handler option"
where
  "sim_set_sensor_thresholds inst rid sid thres =
     on_sensor inst (thres = None) rid sid (unchanged inst) (\<lambda>h rpt rec.
     rdr_info sensor_infos h rid rec (unchanged inst) (\<lambda>p i.
     if sn_Category (sensor_rec rec) \<noteq> SAHPI_EC_THRESHOLD \<or>
        \<not> IsAccessible (ThresholdDefn (sensor_rec rec)) \<or>
        WriteThold (ThresholdDefn (sensor_rec rec)) = 0
     then unchanged inst SA_ERR_HPI_INVALID_CMD
     else if \<not> sensor_enabled i then unchanged inst SA_ERR_HPI_INVALID_REQUEST
     else (SA_OK, Some (put_sensor p (i\<lparr>si_thres := the thres\<rparr>) h))))"

definition sim_get_sensor_enable ::
    "sim_handler option \<Rightarrow> u32 \<Rightarrow> u32 \<Rightarrow> SaErrorT \<times> bool option"
where
  "sim_get_sensor_enable inst rid sid =
     on_sensor inst (rid = 0 \<or> sid = 0) rid sid no_value (\<lambda>h rpt rec.
     rdr_info sensor_infos h rid rec no_value (\<lambda>_ i.
     if \<not> sensor_enabled i then no_value SA_ERR_HPI_INVALID_REQUEST
     else (SA_OK, Some (sensor_enabled i))))"

text \<open>The value \<open>enable\<close> is tested with the pointers.\<close>

definition sim_set_sensor_enable ::
    "sim_handler option \<Rightarrow> u32 \<Rightarrow> u32 \<Rightarrow> bool \<Rightarrow> SaErrorT \<times> sim_handler option"
where
  "sim_set_sensor_enable inst rid sid enable =
     on_sensor inst (rid = 0 \<or> sid = 0 \<or> \<not> enable) rid sid (unchanged inst) (\<lambda>h rpt rec.
     rdr_info sensor_infos h rid rec (unchanged inst) (\<lambda>p i.
     (SA_OK, Some (put_sensor p (i\<lparr>sensor_enabled := enable\<rparr>) h))))"

definition sim_get_sensor_event_enable ::
    "sim_handler option \<Rightarrow> u32 \<Rightarrow> u32 \<Rightarrow> bool \<Rightarrow> SaErrorT \<times> bool option"
where
  "sim_get_sensor_event_enable inst rid sid enable =
     on_sensor inst (rid = 0 \<or> sid = 0 \<or> \<not> enable) rid sid no_value (\<lambda>h rpt rec.
     rdr_info sensor_infos h rid rec no_value (\<lambda>_ i.
     if \<not> sensor_enabled i then no_value SA_ERR_HPI_INVALID_REQUEST
     else (SA_OK, Some (events_enabled i))))"

abbreviation (input) SAHPI_SEC_PER_EVENT :: u32 where "SAHPI_SEC_PER_EVENT \<equiv> 0"

definition sim_set_sensor_event_enable ::
    "sim_handler option \<Rightarrow> u32 \<Rightarrow> u32 \<Rightarrow> bool \<Rightarrow> SaErrorT \<times> sim_handler option"
where
  "sim_set_sensor_event_enable inst rid sid enable =
     on_sensor inst False rid sid (unchanged inst) (\<lambda>h rpt rec.
     if EventCtrl (sensor_rec rec) = SAHPI_SEC_PER_EVENT \<or>
        EventCtrl (sensor_rec rec) = SAHPI_SEC_READ_ONLY_MASKS
     then rdr_info sensor_infos h rid rec (unchanged inst) (\<lambda>p i.
          (SA_OK, Some (put_sensor p (i\<lparr>events_enabled := enable\<rparr>) h)))
     else unchanged inst SA_ERR_HPI_READ_ONLY)"

definition sim_get_sensor_event_masks ::
    "sim_handler option \<Rightarrow> u32 \<Rightarrow> u32 \<Rightarrow> bool \<Rightarrow> bool \<Rightarrow> SaErrorT \<times> u16 option \<times> u16 option"
where
  "sim_get_sensor_event_masks inst rid sid AssertEventMask DeassertEventMask =
     (let fail = (\<lambda>e. (e, None, None))
      in on_sensor inst False rid sid fail (\<lambda>h rpt rec.
         if \<not> AssertEventMask \<and> \<not> DeassertEventMask then fail SA_OK
         else
           rdr_info sensor_infos h rid rec fail (\<lambda>_ i.
           (SA_OK, if AssertEventMask then Some (assert_mask i) else None,
            if DeassertEventMask
            then Some (if \<not> lacks rpt SAHPI_CAPABILITY_EVT_DEASSERTS then assert_mask i
                       else deassert_mask i)
            else None))))"

text \<open>A mask of the caller with states that the sensor does not have.\<close>

definition bad_mask :: "u16 \<Rightarrow> u16 \<Rightarrow> bool" where
  "bad_mask events m \<longleftrightarrow> m \<noteq> SAHPI_ALL_EVENT_STATES \<and> m AND NOT events \<noteq> 0"

definition add_mask :: "u16 \<Rightarrow> u16 \<Rightarrow> u16 \<Rightarrow> u16" where
  "add_mask events old m = (if m = SAHPI_ALL_EVENT_STATES then events else old OR m)"

definition remove_mask :: "u16 \<Rightarrow> u16 \<Rightarrow> u16" where
  "remove_mask old m = (if m = SAHPI_ALL_EVENT_STATES then 0 else old AND NOT m)"

definition sim_set_sensor_event_masks ::
    "sim_handler option \<Rightarrow> u32 \<Rightarrow> u32 \<Rightarrow> SaHpiSensorEventMaskActionT \<Rightarrow> u16 \<Rightarrow> u16 \<Rightarrow>
       SaErrorT \<times> sim_handler option"
where
  "sim_set_sensor_event_masks inst rid sid act AssertEventMask DeassertEventMask =
     (if inst = None then unchanged inst SA_ERR_HPI_INVALID_PARAMS
      else if oh_lookup_sensoreventmaskaction (mask_action_num act) = None then
        unchanged inst SA_ERR_HPI_INVALID_DATA
      else
        on_sensor inst False rid sid (unchanged inst) (\<lambda>h rpt rec.
        if EventCtrl (sensor_rec rec) \<noteq> SAHPI_SEC_PER_EVENT then
          unchanged inst SA_ERR_HPI_READ_ONLY
        else
          rdr_info sensor_infos h rid rec (unchanged inst) (\<lambda>p i.
          let events = sn_Events (sensor_rec rec);
              own_deasserts = lacks rpt SAHPI_CAPABILITY_EVT_DEASSERTS
          in if bad_mask events AssertEventMask then unchanged inst SA_ERR_HPI_INVALID_DATA
             else if own_deasserts \<and> bad_mask events DeassertEventMask then
               unchanged inst SA_ERR_HPI_INVALID_DATA
             else
               let upd = (if act = SAHPI_SENS_ADD_EVENTS_TO_MASKS then add_mask events
                          else remove_mask);
                   i = i\<lparr>assert_mask := upd (assert_mask i) AssertEventMask\<rparr>;
                   i = (if own_deasserts
                        then i\<lparr>deassert_mask := upd (deassert_mask i) DeassertEventMask\<rparr> else i)
               in (SA_OK, Some (put_sensor p i h)))))"

section \<open>Controls\<close>

definition sim_get_control_state ::
    "sim_handler option \<Rightarrow> u32 \<Rightarrow> u32 \<Rightarrow> bool \<Rightarrow> SaHpiCtrlStateT option \<Rightarrow>
       SaErrorT \<times> u32 option \<times> SaHpiCtrlStateT option"
where
  "sim_get_control_state inst rid cid mode state =
     (let fail = (\<lambda>e. (e, None, state))
      in on_resource inst False rid SAHPI_CAPABILITY_CONTROL fail (\<lambda>h rpt.
         on_record h rid SAHPI_CTRL_RDR cid fail (\<lambda>rec.
         rdr_info control_infos h rid rec fail (\<lambda>_ i.
         if WriteOnly (ctrl_rec rec) then fail SA_ERR_HPI_INVALID_CMD
         else if \<not> mode \<and> state = None then fail SA_OK
         else if no_such_line (ctrl_rec rec) state then fail SA_ERR_HPI_INVALID_DATA
         else (SA_OK, if mode then Some (ci_mode i) else None,
               map_option (\<lambda>_. ci_state i) state)))))"

definition put_control :: "nat \<Rightarrow> sim_control_info \<Rightarrow> sim_handler \<Rightarrow> sim_handler" where
  "put_control p i h = h\<lparr>control_infos := (control_infos h)(p \<mapsto> i)\<rparr>"

definition sim_set_control_state ::
    "sim_handler option \<Rightarrow> u32 \<Rightarrow> u32 \<Rightarrow> u32 \<Rightarrow> SaHpiCtrlStateT option \<Rightarrow>
       SaErrorT \<times> sim_handler option"
where
  "sim_set_control_state inst rid cid mode state =
     on_resource inst False rid SAHPI_CAPABILITY_CONTROL (unchanged inst) (\<lambda>h rpt.
     on_record h rid SAHPI_CTRL_RDR cid (unchanged inst) (\<lambda>rec.
     rdr_info control_infos h rid rec (unchanged inst) (\<lambda>p i.
     let err = oh_valid_ctrl_state_mode (ctrl_rec rec) mode state
     in if err \<noteq> SA_OK then unchanged inst err
        else
          let i = (case state of
                     Some s \<Rightarrow> if mode \<noteq> SAHPI_CTRL_MODE_AUTO then i\<lparr>ci_state := s\<rparr> else i
                   | None \<Rightarrow> i);
              i = (if mode \<noteq> ci_mode i then i\<lparr>ci_mode := mode\<rparr> else i)
          in (SA_OK, Some (put_control p i h)))))"

section \<open>Watchdog timers\<close>

definition on_watchdog ::
    "sim_handler option \<Rightarrow> u32 \<Rightarrow> u32 \<Rightarrow> (SaErrorT \<Rightarrow> 'r) \<Rightarrow> (sim_handler \<Rightarrow> SaHpiRdrT \<Rightarrow> 'r) \<Rightarrow> 'r"
where
  "on_watchdog inst rid num fail k =
     on_resource inst False rid SAHPI_CAPABILITY_WATCHDOG fail (\<lambda>h rpt.
     on_record h rid SAHPI_WATCHDOG_RDR num fail (k h))"

definition sim_get_watchdog_info ::
    "sim_handler option \<Rightarrow> u32 \<Rightarrow> u32 \<Rightarrow> SaErrorT \<times> SaHpiWatchdogT option"
where
  "sim_get_watchdog_info inst rid num =
     on_watchdog inst rid num no_value (\<lambda>h rec.
     rdr_info watchdog_infos h rid rec no_value (\<lambda>_ w. (SA_OK, Some w)))"

definition sim_set_watchdog_info ::
    "sim_handler option \<Rightarrow> u32 \<Rightarrow> u32 \<Rightarrow> SaHpiWatchdogT \<Rightarrow> SaErrorT \<times> sim_handler option"
where
  "sim_set_watchdog_info inst rid num wdt =
     on_watchdog inst rid num (unchanged inst) (\<lambda>h rec.
     rdr_info watchdog_infos h rid rec (unchanged inst) (\<lambda>p _.
     (SA_OK, Some (h\<lparr>watchdog_infos := (watchdog_infos h)(p \<mapsto> wdt)\<rparr>))))"

definition sim_reset_watchdog ::
    "sim_handler option \<Rightarrow> u32 \<Rightarrow> u32 \<Rightarrow> SaErrorT \<times> sim_handler option"
where
  "sim_reset_watchdog inst rid num =
     on_watchdog inst rid num (unchanged inst) (\<lambda>h rec. unchanged inst SA_OK)"

end
