(* ===== verification/SimInventory.thy ===== *)
theory SimInventory
  imports SimSensor
begin

text \<open>
  The simulator's functions on annunciators, the event log and inventory data
  (\<^verbatim>\<open>plugins/simulator/sim_annunciator_func.c\<close>, \<^verbatim>\<open>sim_el.c\<close>, \<^verbatim>\<open>sim_inventory.c\<close>).
\<close>

section \<open>Annunciators\<close>

definition on_annunciator ::
    "sim_handler option \<Rightarrow> bool \<Rightarrow> u32 \<Rightarrow> u32 \<Rightarrow> (SaErrorT \<Rightarrow> 'r) \<Rightarrow>
       (sim_handler \<Rightarrow> nat \<Rightarrow> simAnnunciatorInfo \<Rightarrow> 'r) \<Rightarrow> 'r"
where
  "on_annunciator inst bad rid aid fail k =
     on_resource inst bad rid SAHPI_CAPABILITY_ANNUNCIATOR fail (\<lambda>h rpt.
     on_record h rid SAHPI_ANNUNCIATOR_RDR aid fail (\<lambda>rec.
     rdr_info annunciator_infos h rid rec fail (k h)))"

definition put_annunciator :: "nat \<Rightarrow> simAnnunciatorInfo \<Rightarrow> sim_handler \<Rightarrow> sim_handler" where
  "put_annunciator p i h = h\<lparr>annunciator_infos := (annunciator_infos h)(p \<mapsto> i)\<rparr>"

text \<open>The announcement that the caller passes in says where the search goes on.\<close>

definition sim_get_next_announce ::
    "sim_handler option \<Rightarrow> u32 \<Rightarrow> u32 \<Rightarrow> u32 \<Rightarrow> bool \<Rightarrow> SaHpiAnnouncementT option \<Rightarrow>
       SaErrorT \<times> SaHpiAnnouncementT option"
where
  "sim_get_next_announce inst rid aid sev unackonly announcement =
     on_annunciator inst (announcement = None \<or> oh_lookup_severity sev = None) rid aid
       (\<lambda>e. (e, announcement)) (\<lambda>h _ i.
     let (rv, a) = oh_announcement_get_next (announs i) sev unackonly (the announcement)
     in (rv, Some a))"

definition sim_get_announce ::
    "sim_handler option \<Rightarrow> u32 \<Rightarrow> u32 \<Rightarrow> u32 \<Rightarrow> bool \<Rightarrow> SaErrorT \<times> SaHpiAnnouncementT option"
where
  "sim_get_announce inst rid aid entry announcement =
     on_annunciator inst (\<not> announcement) rid aid no_value (\<lambda>h _ i.
     oh_announcement_get (announs i) entry)"

definition sim_ack_announce ::
    "sim_handler option \<Rightarrow> u32 \<Rightarrow> u32 \<Rightarrow> u32 \<Rightarrow> u32 \<Rightarrow> SaErrorT \<times> sim_handler option"
where
  "sim_ack_announce inst rid aid entry sev =
     on_annunciator inst (oh_lookup_severity sev = None) rid aid (unchanged inst) (\<lambda>h p i.
     let (rv, ann) = oh_announcement_ack (announs i) entry sev
     in (rv, Some (put_annunciator p (i\<lparr>announs := ann\<rparr>) h)))"

definition sim_add_announce ::
    "u64 \<Rightarrow> sim_handler option \<Rightarrow> u32 \<Rightarrow> u32 \<Rightarrow> SaHpiAnnouncementT option \<Rightarrow>
       SaErrorT \<times> SaHpiAnnouncementT option \<times> sim_handler option"
where
  "sim_add_announce now inst rid aid announcement =
     on_annunciator inst (announcement = None) rid aid (\<lambda>e. (e, announcement, inst)) (\<lambda>h p i.
     let (rv, a, ann) = oh_announcement_append now (announs i) (the announcement)
     in (rv, Some a, Some (put_annunciator p (i\<lparr>announs := ann\<rparr>) h)))"

definition sim_del_announce ::
    "sim_handler option \<Rightarrow> u32 \<Rightarrow> u32 \<Rightarrow> u32 \<Rightarrow> u32 \<Rightarrow> SaErrorT \<times> sim_handler option"
where
  "sim_del_announce inst rid aid entry sev =
     on_annunciator inst (oh_lookup_severity sev = None) rid aid (unchanged inst) (\<lambda>h p i.
     let (rv, ann) = oh_announcement_del (announs i) entry sev
     in (rv, Some (put_annunciator p (i\<lparr>announs := ann\<rparr>) h)))"

definition sim_get_annunc_mode ::
    "sim_handler option \<Rightarrow> u32 \<Rightarrow> u32 \<Rightarrow> bool \<Rightarrow> SaErrorT \<times> u32 option"
where
  "sim_get_annunc_mode inst rid aid mode =
     on_annunciator inst (\<not> mode) rid aid no_value (\<lambda>h _ i. (SA_OK, Some (ai_mode i)))"

definition sim_set_annunc_mode ::
    "sim_handler option \<Rightarrow> u32 \<Rightarrow> u32 \<Rightarrow> u32 \<Rightarrow> SaErrorT \<times> sim_handler option"
where
  "sim_set_annunc_mode inst rid aid mode =
     on_annunciator inst (oh_lookup_annunciatormode mode = None) rid aid (unchanged inst) (\<lambda>h p i.
     (SA_OK, Some (put_annunciator p (i\<lparr>ai_mode := mode\<rparr>) h)))"

section \<open>The event log\<close>

text \<open>One log for all resources: the id of the resource is at most tested against 0.\<close>

definition put_log :: "sim_handler option \<Rightarrow> SaErrorT \<times> oh_el \<Rightarrow> SaErrorT \<times> sim_handler option" where
  "put_log inst r = (fst r, map_option (\<lambda>h. h\<lparr>elcache := snd r\<rparr>) inst)"

definition sim_el_get_info ::
    "u64 \<Rightarrow> sim_handler option \<Rightarrow> u32 \<Rightarrow> bool \<Rightarrow> SaErrorT \<times> SaHpiEventLogInfoT option"
where
  "sim_el_get_info now inst rid Info =
     (case inst of
        None \<Rightarrow> no_value SA_ERR_HPI_INVALID_PARAMS
      | Some h \<Rightarrow> if \<not> Info then no_value SA_ERR_HPI_INVALID_PARAMS
                  else map_prod id Some (oh_el_info now (elcache h)))"

definition sim_el_set_state ::
    "sim_handler option \<Rightarrow> u32 \<Rightarrow> bool \<Rightarrow> SaErrorT \<times> sim_handler option"
where
  "sim_el_set_state inst rid state =
     (case inst of
        None \<Rightarrow> unchanged inst SA_ERR_HPI_INVALID_PARAMS
      | Some h \<Rightarrow> if rid = 0 then unchanged inst SA_ERR_HPI_INVALID_PARAMS
                  else put_log inst (oh_el_enableset (elcache h) state))"

definition sim_el_get_state ::
    "u64 \<Rightarrow> sim_handler option \<Rightarrow> u32 \<Rightarrow> SaErrorT \<times> bool option"
where
  "sim_el_get_state now inst rid =
     (case inst of
        None \<Rightarrow> no_value SA_ERR_HPI_INVALID_PARAMS
      | Some h \<Rightarrow> if rid = 0 then no_value SA_ERR_HPI_INVALID_PARAMS
                  else (SA_OK, Some (Enabled (snd (oh_el_info now (elcache h))))))"

definition sim_el_set_time ::
    "u64 \<Rightarrow> sim_handler option \<Rightarrow> u32 \<Rightarrow> u64 \<Rightarrow> SaErrorT \<times> sim_handler option"
where
  "sim_el_set_time now inst rid time =
     (case inst of
        None \<Rightarrow> unchanged inst SA_ERR_HPI_INVALID_PARAMS
      | Some h \<Rightarrow>
          (let (err, el) = oh_el_timeset now (elcache h) time
           in if err \<noteq> SA_OK then unchanged inst SA_ERR_HPI_INTERNAL_ERROR
              else put_log inst (SA_OK, el)))"

definition sim_el_add_entry ::
    "u64 \<Rightarrow> sim_handler option \<Rightarrow> u32 \<Rightarrow> SaHpiEventT \<Rightarrow> SaErrorT \<times> sim_handler option"
where
  "sim_el_add_entry now inst rid event =
     (case inst of
        None \<Rightarrow> unchanged inst SA_ERR_HPI_INVALID_PARAMS
      | Some h \<Rightarrow> put_log inst (oh_el_append now (elcache h) event None None))"

text \<open>The ids of the neighbours and the entry; the record and the resource entry where asked for.\<close>

definition sim_el_get_entry ::
    "sim_handler option \<Rightarrow> u32 \<Rightarrow> u32 \<Rightarrow> bool \<Rightarrow> bool \<Rightarrow> bool \<Rightarrow> bool \<Rightarrow> bool \<Rightarrow>
       SaErrorT \<times> (u32 \<times> u32 \<times> oh_el_entry \<times> SaHpiRdrT option \<times> SaHpiRptEntryT option) option"
where
  "sim_el_get_entry inst rid current prev nxt entry rec rptentry =
     (case inst of
        None \<Rightarrow> no_value SA_ERR_HPI_INVALID_PARAMS
      | Some h \<Rightarrow>
          if \<not> prev \<or> \<not> nxt \<or> \<not> entry then no_value SA_ERR_HPI_INVALID_PARAMS
          else case oh_el_get (elcache h) current of
                 (err, Some (p, n, x)) \<Rightarrow>
                   (SA_OK, Some (p, n, x, if rec then Some (el_rdr x) else None,
                                 if rptentry then Some (el_res x) else None))
               | (err, None) \<Rightarrow> no_value err)"

definition sim_el_clear :: "sim_handler option \<Rightarrow> u32 \<Rightarrow> SaErrorT \<times> sim_handler option" where
  "sim_el_clear inst rid =
     (case inst of
        None \<Rightarrow> unchanged inst SA_ERR_HPI_INVALID_PARAMS
      | Some h \<Rightarrow>
          (let (err, el) = oh_el_clear (elcache h)
           in if err \<noteq> SA_OK then unchanged inst err else put_log inst (SA_OK, el)))"

definition sim_el_overflow :: "sim_handler option \<Rightarrow> u32 \<Rightarrow> SaErrorT \<times> sim_handler option" where
  "sim_el_overflow inst rid =
     (case inst of
        None \<Rightarrow> unchanged inst SA_ERR_HPI_INVALID_PARAMS
      | Some h \<Rightarrow> put_log inst (oh_el_overflowreset (elcache h)))"

definition sim_el_get_caps ::
    "sim_handler option \<Rightarrow> u32 \<Rightarrow> bool \<Rightarrow> SaErrorT \<times> u32 option"
where
  "sim_el_get_caps inst rid caps =
     (case inst of
        None \<Rightarrow> no_value SA_ERR_HPI_INVALID_PARAMS
      | Some h \<Rightarrow>
          if \<not> caps then no_value SA_ERR_HPI_INVALID_PARAMS
          else
            let c = SAHPI_EVTLOG_CAPABILITY_ENTRY_ADD OR SAHPI_EVTLOG_CAPABILITY_CLEAR OR
                    SAHPI_EVTLOG_CAPABILITY_TIME_SET OR SAHPI_EVTLOG_CAPABILITY_STATE_SET
            in (SA_OK, Some (if OverflowResetable (info (elcache h))
                             then c OR SAHPI_EVTLOG_CAPABILITY_OVERFLOW_RESET else c)))"

section \<open>Inventory data\<close>

definition on_inventory ::
    "sim_handler option \<Rightarrow> bool \<Rightarrow> u32 \<Rightarrow> u32 \<Rightarrow> (SaErrorT \<Rightarrow> 'r) \<Rightarrow>
       (sim_handler \<Rightarrow> nat \<Rightarrow> sim_inventory_info \<Rightarrow> 'r) \<Rightarrow> 'r"
where
  "on_inventory inst bad rid idr fail k =
     on_resource inst bad rid SAHPI_CAPABILITY_INVENTORY_DATA fail (\<lambda>h rpt.
     on_record h rid SAHPI_INVENTORY_RDR idr fail (\<lambda>rec.
     rdr_info inventory_infos h rid rec fail (k h)))"

definition put_inventory :: "nat \<Rightarrow> sim_inventory_info \<Rightarrow> sim_handler \<Rightarrow> sim_handler" where
  "put_inventory p i h = h\<lparr>inventory_infos := (inventory_infos h)(p \<mapsto> i)\<rparr>"

text \<open>
  The areas and fields in use are the first ones of two arrays of fixed length. A C index behind
  the array is outside of the model: the numbers of areas and fields never exceed the length.
\<close>

definition used_areas :: "sim_inventory_info \<Rightarrow> sim_idr_area list" where
  "used_areas i = take (unat (NumAreas (idrinfo i))) (area i)"

definition used_fields :: "sim_idr_area \<Rightarrow> SaHpiIdrFieldT list" where
  "used_fields a = take (unat (NumFields (idrareahead a))) (idr_field a)"

definition sim_get_idr_info ::
    "sim_handler option \<Rightarrow> u32 \<Rightarrow> u32 \<Rightarrow> bool \<Rightarrow> SaErrorT \<times> SaHpiIdrInfoT option"
where
  "sim_get_idr_info inst rid IdrId IdrInfo =
     on_inventory inst (\<not> IdrInfo) rid IdrId no_value (\<lambda>h _ i. (SA_OK, Some (idrinfo i)))"

text \<open>
  The loops that look for an area: the first that has the type and the id (any id for
  \<open>SAHPI_FIRST_ENTRY\<close>), and the id of the next one that has the type.
\<close>

fun next_area :: "(sim_idr_area \<Rightarrow> bool) \<Rightarrow> sim_idr_area list \<Rightarrow> u32" where
  "next_area typed [] = SAHPI_LAST_ENTRY"
| "next_area typed (a # as) = (if typed a then ah_AreaId (idrareahead a) else next_area typed as)"

fun area_loop ::
    "(sim_idr_area \<Rightarrow> bool) \<Rightarrow> u32 \<Rightarrow> sim_idr_area list \<Rightarrow> (u32 \<times> SaHpiIdrAreaHeaderT) option"
where
  "area_loop typed AreaId [] = None"
| "area_loop typed AreaId (a # as) =
     (if typed a \<and> (AreaId = SAHPI_FIRST_ENTRY \<or> AreaId = ah_AreaId (idrareahead a))
      then Some (next_area typed as, idrareahead a)
      else area_loop typed AreaId as)"

definition sim_get_idr_area_header ::
    "sim_handler option \<Rightarrow> u32 \<Rightarrow> u32 \<Rightarrow> u32 \<Rightarrow> u32 \<Rightarrow> bool \<Rightarrow> bool \<Rightarrow>
       SaErrorT \<times> (u32 \<times> SaHpiIdrAreaHeaderT) option"
where
  "sim_get_idr_area_header inst rid IdrId AreaType AreaId NextAreaId Header =
     on_inventory inst (\<not> NextAreaId \<or> \<not> Header) rid IdrId no_value (\<lambda>h _ i.
     if NumAreas (idrinfo i) = 0 then no_value SA_ERR_HPI_NOT_PRESENT
     else
       let typed = (\<lambda>a. AreaType = SAHPI_IDR_AREATYPE_UNSPECIFIED \<or> AreaType = ah_Type (idrareahead a))
       in case area_loop typed AreaId (take SIM_INVENTORY_AREAS (used_areas i)) of
            None \<Rightarrow> no_value SA_ERR_HPI_NOT_PRESENT
          | Some r \<Rightarrow> (SA_OK, Some r))"

text \<open>The area behind the last one in use keeps what it had: the fields and the next field id.\<close>

definition sim_add_idr_area ::
    "sim_handler option \<Rightarrow> u32 \<Rightarrow> u32 \<Rightarrow> u32 \<Rightarrow> bool \<Rightarrow> SaErrorT \<times> u32 option \<times> sim_handler option"
where
  "sim_add_idr_area inst rid IdrId AreaType AreaId =
     (let fail = (\<lambda>e. (e, None, inst))
      in on_inventory inst (\<not> AreaId) rid IdrId fail (\<lambda>h p i.
         if unat (NumAreas (idrinfo i)) = SIM_INVENTORY_AREAS then fail SA_ERR_HPI_OUT_OF_SPACE
         else if ii_ReadOnly (idrinfo i) then fail SA_ERR_HPI_READ_ONLY
         else
           let n = unat (NumAreas (idrinfo i));
               a = (area i ! n)\<lparr>idrareahead := \<lparr>ah_AreaId = nextareaid i, ah_Type = AreaType,
                                               ah_ReadOnly = False, NumFields = 0\<rparr>\<rparr>;
               i' = i\<lparr>area := (area i)[n := a],
                      idrinfo := (idrinfo i)\<lparr>NumAreas := NumAreas (idrinfo i) + 1\<rparr>,
                      nextareaid := nextareaid i + 1\<rparr>
           in (SA_OK, Some (nextareaid i), Some (put_inventory p i' h))))"

text \<open>
  \<^verbatim>\<open>for (i++; i < n; i++) x[i - 1] = x[i]\<close>, and the condition in front of it: an unsigned
  comparison of the index with the number of elements minus 2.
\<close>

definition move_up :: "nat \<Rightarrow> nat \<Rightarrow> 'a list \<Rightarrow> 'a list" where
  "move_up i n xs = fold (\<lambda>k ys. ys[k - 1 := ys ! k]) [Suc i..<n] xs"

definition delete_at :: "nat \<Rightarrow> u32 \<Rightarrow> 'a list \<Rightarrow> 'a list" where
  "delete_at i n xs = (if of_nat i < n - 2 then move_up i (unat n) xs else xs)"

definition sim_del_idr_area ::
    "sim_handler option \<Rightarrow> u32 \<Rightarrow> u32 \<Rightarrow> u32 \<Rightarrow> SaErrorT \<times> sim_handler option"
where
  "sim_del_idr_area inst rid IdrId AreaId =
     on_inventory inst False rid IdrId (unchanged inst) (\<lambda>h p i.
     case find_index (\<lambda>a. AreaId = ah_AreaId (idrareahead a)) (used_areas i) of
       None \<Rightarrow> unchanged inst SA_ERR_HPI_NOT_PRESENT
     | Some k \<Rightarrow>
         if ah_ReadOnly (idrareahead (area i ! k)) then unchanged inst SA_ERR_HPI_READ_ONLY
         else
           let n = NumAreas (idrinfo i);
               i' = i\<lparr>area := delete_at k n (area i), idrinfo := (idrinfo i)\<lparr>NumAreas := n - 1\<rparr>\<rparr>
           in (SA_OK, Some (put_inventory p i' h)))"

text \<open>The first field that has the id and the type, and the id of the next one of the type.\<close>

fun next_field :: "(SaHpiIdrFieldT \<Rightarrow> bool) \<Rightarrow> SaHpiIdrFieldT list \<Rightarrow> u32" where
  "next_field typed [] = SAHPI_LAST_ENTRY"
| "next_field typed (f # fs) = (if typed f then if_FieldId f else next_field typed fs)"

fun field_loop ::
    "(SaHpiIdrFieldT \<Rightarrow> bool) \<Rightarrow> u32 \<Rightarrow> SaHpiIdrFieldT list \<Rightarrow> (u32 \<times> SaHpiIdrFieldT) option"
where
  "field_loop typed FieldId [] = None"
| "field_loop typed FieldId (f # fs) =
     (if (if_FieldId f = FieldId \<or> FieldId = SAHPI_FIRST_ENTRY) \<and> typed f
      then Some (next_field typed fs, f)
      else field_loop typed FieldId fs)"

text \<open>The area of a field; the functions on fields go on with its index.\<close>

definition on_area ::
    "sim_inventory_info \<Rightarrow> u32 \<Rightarrow> (SaErrorT \<Rightarrow> 'r) \<Rightarrow> (nat \<Rightarrow> sim_idr_area \<Rightarrow> 'r) \<Rightarrow> 'r"
where
  "on_area i AreaId fail k =
     (if NumAreas (idrinfo i) = 0 then fail SA_ERR_HPI_NOT_PRESENT
      else case find_index (\<lambda>a. AreaId = ah_AreaId (idrareahead a)) (used_areas i) of
             None \<Rightarrow> fail SA_ERR_HPI_NOT_PRESENT
           | Some n \<Rightarrow> k n (area i ! n))"

definition put_area :: "nat \<Rightarrow> sim_idr_area \<Rightarrow> sim_inventory_info \<Rightarrow> sim_inventory_info" where
  "put_area n a i = i\<lparr>area := (area i)[n := a]\<rparr>"

definition sim_get_idr_field ::
    "sim_handler option \<Rightarrow> u32 \<Rightarrow> u32 \<Rightarrow> u32 \<Rightarrow> u32 \<Rightarrow> u32 \<Rightarrow> bool \<Rightarrow> bool \<Rightarrow>
       SaErrorT \<times> (u32 \<times> SaHpiIdrFieldT) option"
where
  "sim_get_idr_field inst rid IdrId AreaId FieldType FieldId NextFieldId fld =
     on_inventory inst (\<not> NextFieldId \<or> \<not> fld) rid IdrId no_value (\<lambda>h _ i.
     on_area i AreaId no_value (\<lambda>n a.
     if NumFields (idrareahead a) = 0 then no_value SA_ERR_HPI_NOT_PRESENT
     else
       let typed = (\<lambda>f. if_Type f = FieldType \<or> FieldType = SAHPI_IDR_FIELDTYPE_UNSPECIFIED)
       in case field_loop typed FieldId (used_fields a) of
            None \<Rightarrow> no_value SA_ERR_HPI_NOT_PRESENT
          | Some r \<Rightarrow> (SA_OK, Some r)))"

definition sim_add_idr_field ::
    "sim_handler option \<Rightarrow> u32 \<Rightarrow> u32 \<Rightarrow> SaHpiIdrFieldT option \<Rightarrow>
       SaErrorT \<times> SaHpiIdrFieldT option \<times> sim_handler option"
where
  "sim_add_idr_field inst rid IdrId fld =
     (let fail = (\<lambda>e. (e, fld, inst))
      in on_inventory inst (fld = None) rid IdrId fail (\<lambda>h p i.
         if ii_ReadOnly (idrinfo i) then fail SA_ERR_HPI_READ_ONLY
         else
           on_area i (if_AreaId (the fld)) fail (\<lambda>n a.
           if ah_ReadOnly (idrareahead a) then fail SA_ERR_HPI_READ_ONLY
           else if unat (NumFields (idrareahead a)) = SIM_INVENTORY_FIELDS then
             fail SA_ERR_HPI_OUT_OF_SPACE
           else
             let f = (the fld)\<lparr>if_AreaId := ah_AreaId (idrareahead a),
                                 if_FieldId := nextfieldid a, if_ReadOnly := False\<rparr>;
                 a' = a\<lparr>idr_field := (idr_field a)[unat (NumFields (idrareahead a)) := f],
                        nextfieldid := nextfieldid a + 1,
                        idrareahead := (idrareahead a)\<lparr>NumFields := NumFields (idrareahead a) + 1\<rparr>\<rparr>
             in (SA_OK, Some ((the fld)\<lparr>if_FieldId := nextfieldid a\<rparr>),
                 Some (put_inventory p (put_area n a' i) h)))))"

definition sim_set_idr_field ::
    "sim_handler option \<Rightarrow> u32 \<Rightarrow> u32 \<Rightarrow> SaHpiIdrFieldT option \<Rightarrow> SaErrorT \<times> sim_handler option"
where
  "sim_set_idr_field inst rid IdrId fld =
     (if inst = None \<or> fld = None \<or> oh_lookup_idrfieldtype (if_Type (the fld)) = None then
        unchanged inst SA_ERR_HPI_INVALID_PARAMS
      else if oh_lookup_idrfieldtype (if_Type (the fld)) = Some ''UNSPECIFIED'' then
        unchanged inst SA_ERR_HPI_INVALID_DATA
      else
        on_inventory inst False rid IdrId (unchanged inst) (\<lambda>h p i.
        on_area i (if_AreaId (the fld)) (unchanged inst) (\<lambda>n a.
        if ah_ReadOnly (idrareahead a) then unchanged inst SA_ERR_HPI_READ_ONLY
        else case find_index (\<lambda>f. if_FieldId (the fld) = if_FieldId f) (used_fields a) of
               None \<Rightarrow> unchanged inst SA_ERR_HPI_NOT_PRESENT
             | Some j \<Rightarrow>
                 if if_ReadOnly (idr_field a ! j) then unchanged inst SA_ERR_HPI_READ_ONLY
                 else
                   let f = (idr_field a ! j)\<lparr>if_Type := if_Type (the fld),
                                             if_Field := if_Field (the fld)\<rparr>;
                       a' = a\<lparr>idr_field := (idr_field a)[j := f]\<rparr>
                   in (SA_OK, Some (put_inventory p (put_area n a' i) h)))))"

definition sim_del_idr_field ::
    "sim_handler option \<Rightarrow> u32 \<Rightarrow> u32 \<Rightarrow> u32 \<Rightarrow> u32 \<Rightarrow> SaErrorT \<times> sim_handler option"
where
  "sim_del_idr_field inst rid IdrId AreaId FieldId =
     on_inventory inst False rid IdrId (unchanged inst) (\<lambda>h p i.
     on_area i AreaId (unchanged inst) (\<lambda>n a.
     if ah_ReadOnly (idrareahead a) then unchanged inst SA_ERR_HPI_READ_ONLY
     else case find_index (\<lambda>f. FieldId = if_FieldId f) (used_fields a) of
            None \<Rightarrow> unchanged inst SA_ERR_HPI_NOT_PRESENT
          | Some j \<Rightarrow>
              if if_ReadOnly (idr_field a ! j) then unchanged inst SA_ERR_HPI_READ_ONLY
              else
                let m = NumFields (idrareahead a);
                    a' = a\<lparr>idr_field := delete_at j m (idr_field a),
                           idrareahead := (idrareahead a)\<lparr>NumFields := m - 1\<rparr>\<rparr>
                in (SA_OK, Some (put_inventory p (put_area n a' i) h))))"

end
