(* ===== verification/SimInject.thy ===== *)
theory SimInject
  imports SimInventory
begin

text \<open>
  Discovery in the simulator: resources and records from its tables go into the cache of an
  instance, with their private data, and as events into the queue of the daemon
  (\<^verbatim>\<open>plugins/simulator/sim_injector.c\<close>, \<^verbatim>\<open>sim_init.c\<close>, and the functions \<open>new_..\<close> and
  \<open>sim_discover_..\<close> of \<^verbatim>\<open>sim_sensors.c\<close>, \<^verbatim>\<open>sim_controls.c\<close>, \<^verbatim>\<open>sim_annunciators.c\<close>, \<^verbatim>\<open>sim_watchdog.c\<close>,
  \<^verbatim>\<open>sim_inventory.c\<close>, \<^verbatim>\<open>sim_dimi.c\<close>, \<^verbatim>\<open>sim_fumi.c\<close>). The tables themselves are arguments. The ids of
  resources come from the daemon's table of entity paths (\<open>uid_state\<close>).
\<close>

section \<open>Text buffers\<close>

abbreviation (input) SAHPI_LANG_ENGLISH :: u32 where "SAHPI_LANG_ENGLISH \<equiv> 25"

text \<open>A buffer after \<open>oh_init_textbuffer\<close> and the text that was appended to it.\<close>

definition text_buffer :: "string \<Rightarrow> SaHpiTextBufferT" where
  "text_buffer s = \<lparr>DataType = SAHPI_TL_TYPE_TEXT, Language = SAHPI_LANG_ENGLISH,
     DataLength = of_nat (length s),
     Data = map of_char s @ replicate (SAHPI_MAX_TEXT_BUFFER_LENGTH - length s) 0\<rparr>"

text \<open>\<open>sim_create_resourcetag\<close>: the tag, or nothing when the caller's buffer is left alone.\<close>

definition sim_create_resourcetag :: "string option \<Rightarrow> u32 \<Rightarrow> SaErrorT \<times> SaHpiTextBufferT option" where
  "sim_create_resourcetag str loc =
     (if loc < 1 \<or> uint loc > 10 ^ OH_MAX_LOCATION_DIGITS - 1 then (SA_ERR_HPI_INVALID_PARAMS, None)
      else
        let locstr = take OH_MAX_LOCATION_DIGITS (CHR '' '' # show_int (uint loc));
            working = (case str of None \<Rightarrow> [] | Some s \<Rightarrow> snd (oh_append_textbuffer [] s));
            (err, working) = oh_append_textbuffer working locstr
        in (err, if err = SA_OK then Some (text_buffer working) else None))"

section \<open>Resources\<close>

record sim_rpt =
  t_rpt :: SaHpiRptEntryT
  t_comment :: "string option"

text \<open>
  The configured root is read into a local variable, \<open>stack\<close> before: when the text is no entity
  path, what was there is taken for the root.
\<close>

definition setup_rpte ::
    "uid_io \<Rightarrow> SaHpiEntityPathT \<Rightarrow> sim_handler \<Rightarrow> SaHpiRptEntryT \<Rightarrow> uid_state \<Rightarrow>
       SaHpiRptEntryT \<times> uid_state"
where
  "setup_rpte uio stack h rpte us =
     (let root_ep = snd (oh_encode_entitypath (entity_root h) stack);
          ep = oh_concat_ep (ResourceEntity rpte) root_ep;
          (rid, us) = oh_uid_from_entity_path uio us ep
      in (rpte\<lparr>ResourceEntity := ep, ResourceId := rid\<rparr>, us))"

definition new_resource_info :: "SaHpiRptEntryT \<Rightarrow> simResourceInfo" where
  "new_resource_info r =
     \<lparr>cur_hsstate = (if lacks r SAHPI_CAPABILITY_MANAGED_HOTSWAP then SAHPI_HS_STATE_INACTIVE
                     else SAHPI_HS_STATE_ACTIVE),
      cur_indicator_hsstate = (if lacks r SAHPI_CAPABILITY_MANAGED_HOTSWAP then 0 else 1),
      cur_powerstate = (if lacks r SAHPI_CAPABILITY_POWER then 0 else 1),
      ae_timeout = SAHPI_TIMEOUT_IMMEDIATE\<rparr>"

definition added_event :: "u64 \<Rightarrow> SaHpiRptEntryT \<Rightarrow> oh_event" where
  "added_event now r = zero_event\<lparr>e_resource := r, e_event := \<lparr>Source = ResourceId r, Timestamp = now,
     Severity = ResourceSeverity r,
     EventDataUnion =
       (if \<not> lacks r SAHPI_CAPABILITY_FRU
        then HotSwapEvent \<lparr>HotSwapState = SAHPI_HS_STATE_ACTIVE,
               PreviousHotSwapState = SAHPI_HS_STATE_ACTIVE, CauseOfStateChange = 0\<rparr>
        else ResourceEvent SAHPI_RESE_RESOURCE_ADDED)\<rparr>\<rparr>"

text \<open>
  \<open>t0\<close> and \<open>t1\<close> are the clock when the resource is added and when the event is stamped; \<open>data\<close> is
  the caller's private data, 0 for none.
\<close>

definition sim_inject_resource ::
    "uid_io \<Rightarrow> SaHpiEntityPathT \<Rightarrow> u64 \<Rightarrow> u64 \<Rightarrow> sim_handler option \<Rightarrow> sim_rpt option \<Rightarrow> nat \<Rightarrow> bool \<Rightarrow>
       uid_state \<Rightarrow> SaErrorT \<times> oh_event option \<times> sim_handler option \<times> uid_state"
where
  "sim_inject_resource uio stack t0 t1 inst rpt_tmpl data ohe us =
     (case (inst, rpt_tmpl) of
        (Some h, Some tmpl) \<Rightarrow>
          if \<not> ohe then (SA_ERR_HPI_INVALID_PARAMS, None, inst, us)
          else
            let (r, us) = setup_rpte uio stack h (t_rpt tmpl) us;
                r = (case snd (sim_create_resourcetag (t_comment tmpl)
                                 (EntityLocation (ResourceEntity r ! 0))) of
                       None \<Rightarrow> r
                     | Some tag \<Rightarrow> r\<lparr>ResourceTag := tag\<rparr>);
                (p, h1) = (if data = 0
                           then (brk h, put_resource_info (brk h) (new_resource_info r)
                                          (h\<lparr>brk := brk h + 1\<rparr>))
                           else (data, h));
                (rc, r, t) = oh_add_resource t0 (rptcache h1) r p False
            in if rc \<noteq> SA_OK then (rc, None, Some h1, us)
               else (SA_OK, Some (added_event t1 r), Some (h1\<lparr>rptcache := t\<rparr>), us)
      | _ \<Rightarrow> (SA_ERR_HPI_INVALID_PARAMS, None, inst, us))"

definition sim_inject_rdr ::
    "sim_handler option \<Rightarrow> oh_event option \<Rightarrow> SaHpiRdrT option \<Rightarrow> nat \<Rightarrow>
       SaErrorT \<times> oh_event option \<times> sim_handler option"
where
  "sim_inject_rdr inst ohe rec data =
     (case (inst, ohe, rec) of
        (Some h, Some e, Some r) \<Rightarrow>
          (let (rc, r, t) = oh_add_rdr (rptcache h) (ResourceId (e_resource e)) r data False
           in if rc \<noteq> SA_OK then (rc, ohe, inst)
              else (SA_OK, Some (e\<lparr>e_rdrs := e_rdrs e @ [r]\<rparr>), Some (h\<lparr>rptcache := t\<rparr>)))
      | _ \<Rightarrow> (SA_ERR_HPI_INVALID_PARAMS, ohe, inst))"

definition sim_inject_event ::
    "sim_handler option \<Rightarrow> oh_event option \<Rightarrow> SaErrorT \<times> sim_handler option"
where
  "sim_inject_event inst ohe =
     (case (inst, ohe) of
        (Some h, Some e) \<Rightarrow> (SA_OK, Some (push (e\<lparr>e_hid := sim_hid h\<rparr>) h))
      | _ \<Rightarrow> (SA_ERR_HPI_INVALID_PARAMS, inst))"

section \<open>Records\<close>

text \<open>
  The functions \<open>new_..\<close> make a record for the resource of the event and allocate its private data;
  \<open>alloc\<close> is the write of the data to its address. When the record is refused both are freed.
\<close>

definition new_rdr ::
    "SaHpiRdrTypeT \<Rightarrow> bool \<Rightarrow> SaHpiRdrTypeUnionT \<Rightarrow> string \<Rightarrow> oh_event \<Rightarrow> SaHpiRdrT"
where
  "new_rdr type fru rec comment e = zero_rdr\<lparr>RdrType := type, IsFru := fru, RdrTypeUnion := rec,
     IdString := text_buffer (snd (oh_append_textbuffer [] comment)),
     Entity := ResourceEntity (e_resource e)\<rparr>"

definition inject_new ::
    "(nat \<Rightarrow> sim_handler \<Rightarrow> sim_handler) \<Rightarrow> SaHpiRdrT \<Rightarrow> oh_event \<Rightarrow> sim_handler \<Rightarrow>
       SaErrorT \<times> oh_event \<times> sim_handler"
where
  "inject_new alloc rec e h =
     (case sim_inject_rdr (Some (alloc (brk h) (h\<lparr>brk := brk h + 1\<rparr>))) (Some e) (Some rec) (brk h) of
        (SA_OK, Some e', Some h') \<Rightarrow> (SA_OK, e', h')
      | (rc, _, _) \<Rightarrow> (rc, e, h))"

record sim_sensor =
  sensor_index :: int
  t_sensor :: SaHpiRdrTypeUnionT
  t_sensor_info :: SensorInfo
  sensor_comment :: string

definition new_sensor :: "sim_sensor \<Rightarrow> oh_event \<Rightarrow> sim_handler \<Rightarrow> SaErrorT \<times> oh_event \<times> sim_handler" where
  "new_sensor s e h =
     inject_new (\<lambda>p. put_sensor p (t_sensor_info s))
       ((new_rdr SAHPI_SENSOR_RDR True (t_sensor s) (sensor_comment s) e)
          \<lparr>RecordId := oh_get_rdr_uid SAHPI_SENSOR_RDR (Num (t_sensor s))\<rparr>) e h"

text \<open>
  \<open>t_default\<close> is the default state that the record of the control holds in its union. Only the
  member that the type names is copied; a control of another type has just its type.
\<close>

record sim_control =
  control_index :: int
  t_control :: SaHpiRdrTypeUnionT
  t_default :: SaHpiCtrlStateT
  t_mode :: u32
  control_comment :: string

definition default_state :: "u32 \<Rightarrow> SaHpiCtrlStateT \<Rightarrow> SaHpiCtrlStateT" where
  "default_state type d =
     (let z = \<lparr>cs_Type = type, Digital = 0, Discrete = 0, Analog = 0,
               Stream = \<lparr>Repeat = False, StreamLength = 0, StreamData = []\<rparr>,
               StateText = \<lparr>Line = 0, Text = zero_text\<rparr>, StateOem = []\<rparr>
      in if type = SAHPI_CTRL_TYPE_DIGITAL then z\<lparr>Digital := Digital d\<rparr>
         else if type = SAHPI_CTRL_TYPE_DISCRETE then z\<lparr>Discrete := Discrete d\<rparr>
         else if type = SAHPI_CTRL_TYPE_ANALOG then z\<lparr>Analog := Analog d\<rparr>
         else if type = SAHPI_CTRL_TYPE_STREAM then z\<lparr>Stream := Stream d\<rparr>
         else if type = SAHPI_CTRL_TYPE_TEXT then z\<lparr>StateText := StateText d\<rparr>
         else if type = SAHPI_CTRL_TYPE_OEM then z\<lparr>StateOem := StateOem d\<rparr>
         else z)"

definition new_control :: "sim_control \<Rightarrow> oh_event \<Rightarrow> sim_handler \<Rightarrow> SaErrorT \<times> oh_event \<times> sim_handler" where
  "new_control c e h =
     (let rec = (new_rdr SAHPI_CTRL_RDR False (t_control c) (control_comment c) e)
                  \<lparr>RecordId := oh_get_rdr_uid SAHPI_CTRL_RDR (Num (t_control c))\<rparr>
      in inject_new (\<lambda>p. put_control p \<lparr>ci_mode = t_mode c,
                            ci_state = default_state (ct_Type (ctrl_rec rec)) (t_default c)\<rparr>) rec e h)"

record sim_annunciator =
  annunciator_index :: int
  t_annun :: SaHpiRdrTypeUnionT
  t_announs :: "SaHpiAnnouncementT list"
  annunciator_comment :: string

abbreviation (input) SAHPI_ANNUNCIATOR_MODE_SHARED :: u32
  where "SAHPI_ANNUNCIATOR_MODE_SHARED \<equiv> 2"

text \<open>
  The announcements of the table up to the first with id 0. Without any there is no private data.
  Appending also writes the new id and time into the table; a later instance overwrites them in
  the same way, so the table is not part of the result.
\<close>

fun new_announcements :: "(nat \<Rightarrow> u64) \<Rightarrow> u32 \<Rightarrow> SaHpiAnnouncementT list \<Rightarrow> oh_announcement \<Rightarrow> oh_announcement" where
  "new_announcements clock rid [] ann = ann"
| "new_announcements clock rid (a # as) ann =
     (if ann_EntryId a = 0 then ann
      else new_announcements (\<lambda>i. clock (Suc i)) rid as
             (snd (snd (oh_announcement_append (clock 0) ann
                (a\<lparr>StatusCond := (StatusCond a)\<lparr>cond_ResourceId := rid\<rparr>\<rparr>)))))"

definition new_annunciator ::
    "(nat \<Rightarrow> u64) \<Rightarrow> sim_annunciator \<Rightarrow> oh_event \<Rightarrow> sim_handler \<Rightarrow> SaErrorT \<times> oh_event \<times> sim_handler"
where
  "new_annunciator clock a e h =
     (let rec = new_rdr SAHPI_ANNUNCIATOR_RDR False (t_annun a) (annunciator_comment a) e
      in if t_announs a = [] \<or> ann_EntryId (hd (t_announs a)) = 0 then
           (case sim_inject_rdr (Some h) (Some e) (Some rec) 0 of
              (SA_OK, Some e', Some h') \<Rightarrow> (SA_OK, e', h')
            | (rc, _, _) \<Rightarrow> (rc, e, h))
         else
           inject_new (\<lambda>p. put_annunciator p \<lparr>ai_mode = SAHPI_ANNUNCIATOR_MODE_SHARED,
               announs = new_announcements clock (ResourceId (e_resource e)) (t_announs a)
                           oh_announcement_create\<rparr>) rec e h)"

record sim_watchdog =
  t_watchdog :: SaHpiRdrTypeUnionT
  t_wd :: SaHpiWatchdogT
  watchdog_comment :: string

definition new_watchdog :: "sim_watchdog \<Rightarrow> oh_event \<Rightarrow> sim_handler \<Rightarrow> SaErrorT \<times> oh_event \<times> sim_handler" where
  "new_watchdog w e h =
     inject_new (\<lambda>p h. h\<lparr>watchdog_infos := (watchdog_infos h)(p \<mapsto> t_wd w)\<rparr>)
       (new_rdr SAHPI_WATCHDOG_RDR False (t_watchdog w) (watchdog_comment w) e) e h"

record sim_inventory =
  t_inventory :: SaHpiRdrTypeUnionT
  t_inventory_info :: sim_inventory_info
  inventory_comment :: string

definition new_inventory :: "sim_inventory \<Rightarrow> oh_event \<Rightarrow> sim_handler \<Rightarrow> SaErrorT \<times> oh_event \<times> sim_handler" where
  "new_inventory i e h =
     inject_new (\<lambda>p. put_inventory p (t_inventory_info i))
       ((new_rdr SAHPI_INVENTORY_RDR False (t_inventory i) (inventory_comment i) e)
          \<lparr>RecordId := oh_get_rdr_uid SAHPI_INVENTORY_RDR (Num (t_inventory i))\<rparr>) e h"

text \<open>Diagnostics and firmware; nothing reads their private data.\<close>

record sim_dimi =
  t_dimi :: SaHpiRdrTypeUnionT
  dimi_comment :: string

definition new_dimi :: "sim_dimi \<Rightarrow> oh_event \<Rightarrow> sim_handler \<Rightarrow> SaErrorT \<times> oh_event \<times> sim_handler" where
  "new_dimi d e h =
     inject_new (\<lambda>p h. h)
       ((new_rdr SAHPI_DIMI_RDR False (t_dimi d) (dimi_comment d) e)
          \<lparr>RecordId := oh_get_rdr_uid SAHPI_DIMI_RDR (Num (t_dimi d))\<rparr>) e h"

record sim_fumi =
  t_fumi :: SaHpiRdrTypeUnionT
  fumi_comment :: string

definition new_fumi :: "sim_fumi \<Rightarrow> oh_event \<Rightarrow> sim_handler \<Rightarrow> SaErrorT \<times> oh_event \<times> sim_handler" where
  "new_fumi f e h =
     inject_new (\<lambda>p h. h)
       ((new_rdr SAHPI_FUMI_RDR False (t_fumi f) (fumi_comment f) e)
          \<lparr>RecordId := oh_get_rdr_uid SAHPI_FUMI_RDR (Num (t_fumi f))\<rparr>) e h"

definition sim_get_dimi_info :: "sim_handler option \<Rightarrow> u32 \<Rightarrow> u32 \<Rightarrow> SaErrorT" where
  "sim_get_dimi_info inst rid num = SA_ERR_HPI_INVALID_CMD"

definition sim_set_fumi_source :: "sim_handler option \<Rightarrow> u32 \<Rightarrow> u32 \<Rightarrow> u8 \<Rightarrow> SaHpiTextBufferT option \<Rightarrow> SaErrorT" where
  "sim_set_fumi_source inst rid num bank sourceuri = SA_ERR_HPI_INVALID_CMD"

section \<open>Discovery\<close>

text \<open>
  The loop of the functions \<open>sim_discover_..\<close> over a table that ends with an entry of number 0; an
  error is reported and the next entry is tried.
\<close>

fun discover_loop ::
    "('t \<Rightarrow> bool) \<Rightarrow> ('t \<Rightarrow> oh_event \<Rightarrow> sim_handler \<Rightarrow> SaErrorT \<times> oh_event \<times> sim_handler) \<Rightarrow> 't list \<Rightarrow>
       oh_event \<times> sim_handler \<Rightarrow> oh_event \<times> sim_handler"
where
  "discover_loop final new [] (e, h) = (e, h)"
| "discover_loop final new (t # ts) (e, h) =
     (if final t then (e, h) else discover_loop final new ts (snd (new t e h)))"

definition sim_discover_sensors :: "sim_sensor list \<Rightarrow> oh_event \<times> sim_handler \<Rightarrow> oh_event \<times> sim_handler" where
  "sim_discover_sensors = discover_loop (\<lambda>s. sensor_index s = 0) new_sensor"

definition sim_discover_controls :: "sim_control list \<Rightarrow> oh_event \<times> sim_handler \<Rightarrow> oh_event \<times> sim_handler" where
  "sim_discover_controls = discover_loop (\<lambda>c. control_index c = 0) new_control"

definition sim_discover_annunciators ::
    "(nat \<Rightarrow> u64) \<Rightarrow> sim_annunciator list \<Rightarrow> oh_event \<times> sim_handler \<Rightarrow> oh_event \<times> sim_handler"
where
  "sim_discover_annunciators clock =
     discover_loop (\<lambda>a. annunciator_index a = 0) (new_annunciator clock)"

definition sim_discover_watchdogs :: "sim_watchdog list \<Rightarrow> oh_event \<times> sim_handler \<Rightarrow> oh_event \<times> sim_handler" where
  "sim_discover_watchdogs = discover_loop (\<lambda>w. Num (t_watchdog w) = 0) new_watchdog"

definition sim_discover_inventory :: "sim_inventory list \<Rightarrow> oh_event \<times> sim_handler \<Rightarrow> oh_event \<times> sim_handler" where
  "sim_discover_inventory = discover_loop (\<lambda>i. Num (t_inventory i) = 0) new_inventory"

definition sim_discover_dimis :: "sim_dimi list \<Rightarrow> oh_event \<times> sim_handler \<Rightarrow> oh_event \<times> sim_handler" where
  "sim_discover_dimis = discover_loop (\<lambda>d. Num (t_dimi d) = 0) new_dimi"

definition sim_discover_fumis :: "sim_fumi list \<Rightarrow> oh_event \<times> sim_handler \<Rightarrow> oh_event \<times> sim_handler" where
  "sim_discover_fumis = discover_loop (\<lambda>f. Num (t_fumi f) = 0) new_fumi"

text \<open>The tables of one resource; all but the chassis have no diagnostics and no firmware.\<close>

record sim_part =
  part_rpt :: sim_rpt
  part_sensors :: "sim_sensor list"
  part_controls :: "sim_control list"
  part_annunciators :: "sim_annunciator list"
  part_watchdogs :: "sim_watchdog list"
  part_inventory :: "sim_inventory list"
  part_dimis :: "sim_dimi list"
  part_fumis :: "sim_fumi list"

text \<open>
  What \<open>sim_discover\<close> does for one resource. \<open>clock\<close> is what the clock reads from here on; the
  announcements of an annunciator are stamped from \<open>clock 2\<close> on.
\<close>

definition sim_discover_part ::
    "uid_io \<Rightarrow> SaHpiEntityPathT \<Rightarrow> (nat \<Rightarrow> u64) \<Rightarrow> sim_part \<Rightarrow> sim_handler \<times> uid_state \<Rightarrow>
       sim_handler \<times> uid_state"
where
  "sim_discover_part uio stack clock part = (\<lambda>(h, us).
     case sim_inject_resource uio stack (clock 0) (clock 1) (Some h) (Some (part_rpt part)) 0 True us of
       (SA_OK, Some e, Some h, us) \<Rightarrow>
         (let (e, h) = sim_discover_fumis (part_fumis part)
                (sim_discover_dimis (part_dimis part)
                (sim_discover_inventory (part_inventory part)
                (sim_discover_watchdogs (part_watchdogs part)
                (sim_discover_annunciators (\<lambda>i. clock (i + 2)) (part_annunciators part)
                (sim_discover_controls (part_controls part)
                (sim_discover_sensors (part_sensors part) (e, h)))))))
          in (the (snd (sim_inject_event (Some h) (Some e))), us))
     | (_, _, h', us) \<Rightarrow> (the h', us))"

text \<open>The chassis, cpu, dasd, hot swap dasd and fan resources, once for an instance.\<close>

definition sim_discover ::
    "uid_io \<Rightarrow> SaHpiEntityPathT \<Rightarrow> (nat \<Rightarrow> nat \<Rightarrow> u64) \<Rightarrow> sim_part list \<Rightarrow> sim_handler \<times> uid_state \<Rightarrow>
       SaErrorT \<times> sim_handler \<times> uid_state"
where
  "sim_discover uio stack clocks parts st =
     (if discovered (fst st) then (SA_OK, st)
      else
        let (h, us) = fold (\<lambda>i. sim_discover_part uio stack (clocks i) (parts ! i)) [0..<length parts] st
        in (SA_OK, h\<lparr>discovered := True\<rparr>, us))"

definition sim_get_event :: "sim_handler option \<Rightarrow> SaErrorT" where
  "sim_get_event inst = (if inst = None then SA_ERR_HPI_INVALID_PARAMS else SA_OK)"

end
