(* ===== verification/SimInstances.thy ===== *)
theory SimInstances
  imports SimInject
begin

text \<open>
  The instances of the simulator (\<open>sim_open\<close> and \<open>sim_close\<close> of \<^verbatim>\<open>plugins/simulator/sim_init.c\<close>),
  and the events that are injected from outside (\<^verbatim>\<open>sim_injector.c\<close>).
\<close>

section \<open>Opening and closing\<close>

text \<open>
  The plugin: its instances by address, the list of all that were opened, the next address, and
  the static counters of \<open>sim_inject_ext_event\<close>.
\<close>

record ext_nums =
  ctrl_num :: u32
  sensor_num :: u32
  inv_num :: u32
  watchdog_num :: u32
  ann_num_next :: u32

record sim_plugin =
  instances :: "nat \<rightharpoonup> sim_handler"
  sim_handler_states :: "nat list"
  next_instance :: nat
  nums :: ext_nums

definition sim_start :: sim_plugin where
  "sim_start = \<lparr>instances = Map.empty, sim_handler_states = [], next_instance = 1,
     nums = \<lparr>ctrl_num = 1000, sensor_num = 1000, inv_num = 1000, watchdog_num = 1000,
             ann_num_next = 1000\<rparr>\<rparr>"

abbreviation (input) SIM_EL_MAX_SIZE :: u32 where "SIM_EL_MAX_SIZE \<equiv> 256"

definition new_instance :: "u32 \<Rightarrow> (string \<rightharpoonup> string) \<Rightarrow> string \<Rightarrow> sim_handler" where
  "new_instance hid cfg root =
     \<lparr>sim_hid = hid, conf_name = cfg ''name'', entity_root = root,
      rptcache = snd (oh_init_rpt zero_rpt), elcache = oh_el_create SIM_EL_MAX_SIZE,
      discovered = False, eventq = [], brk = 1, resource_infos = Map.empty,
      sensor_infos = Map.empty, control_infos = Map.empty, watchdog_infos = Map.empty,
      annunciator_infos = Map.empty, inventory_infos = Map.empty\<rparr>"

definition sim_open ::
    "(string \<rightharpoonup> string) option \<Rightarrow> u32 \<Rightarrow> bool \<Rightarrow> sim_plugin \<Rightarrow> nat \<times> sim_plugin"
where
  "sim_open handler_config hid queue st =
     (case handler_config of
        None \<Rightarrow> (0, st)
      | Some cfg \<Rightarrow>
          if hid = 0 then (0, st)
          else if \<not> queue then (0, st)
          else case cfg ''entity_root'' of
                 None \<Rightarrow> (0, st)
               | Some tok \<Rightarrow>
                   (let a = next_instance st
                    in (a, st\<lparr>instances := (instances st)(a \<mapsto> new_instance hid cfg tok),
                              sim_handler_states := sim_handler_states st @ [a],
                              next_instance := a + 1\<rparr>)))"

text \<open>
  Closing: an event for every resource of the cache, the last one first; \<open>n\<close> is the fuel of the
  walk over the cache and \<open>clock\<close> the time of each event. The result is what goes into the queue
  of the daemon.
\<close>

definition removed_event :: "u32 \<Rightarrow> u64 \<Rightarrow> SaHpiRptEntryT \<Rightarrow> oh_event" where
  "removed_event hid now r = zero_event\<lparr>e_hid := hid, e_resource := r,
     e_event := \<lparr>Source = ResourceId r, Timestamp = now, Severity = SAHPI_MAJOR,
       EventDataUnion = ResourceEvent SAHPI_RESE_RESOURCE_REMOVED\<rparr>\<rparr>"

definition close_events :: "nat \<Rightarrow> (nat \<Rightarrow> u64) \<Rightarrow> sim_handler \<Rightarrow> oh_event list option" where
  "close_events n clock h =
     for_entries n (oh_get_resource_next (rptcache h)) ResourceId
       (\<lambda>r es. Some (removed_event (sim_hid h) (clock (length es)) r # es))
       (oh_get_resource_next (rptcache h) SAHPI_FIRST_ENTRY) []"

text \<open>The instance is freed, but it stays in \<open>sim_handler_states\<close>.\<close>

definition sim_close ::
    "nat \<Rightarrow> (nat \<Rightarrow> u64) \<Rightarrow> nat \<Rightarrow> sim_plugin \<Rightarrow> (SaErrorT \<times> oh_event list \<times> sim_plugin) option"
where
  "sim_close n clock a st =
     (case instances st a of
        None \<Rightarrow> None
      | Some h \<Rightarrow>
          (case close_events n clock h of
             None \<Rightarrow> None
           | Some es \<Rightarrow> Some (SA_OK, es, st\<lparr>instances := (instances st)(a := None)\<rparr>)))"

section \<open>Injection from outside\<close>

text \<open>
  \<open>None\<close> stands for reading an instance that was freed, and for the comparison with the name of an
  instance that has none.
\<close>

fun handler_by_name :: "(nat \<rightharpoonup> sim_handler) \<Rightarrow> string \<Rightarrow> nat list \<Rightarrow> nat option" where
  "handler_by_name mem name [] = Some 0"
| "handler_by_name mem name (a # as) =
     (case mem a of
        None \<Rightarrow> None
      | Some h \<Rightarrow>
          (case conf_name h of
             None \<Rightarrow> None
           | Some handler_name \<Rightarrow> if handler_name = name then Some a else handler_by_name mem name as))"

definition sim_get_handler_by_name :: "string \<Rightarrow> sim_plugin \<Rightarrow> nat option" where
  "sim_get_handler_by_name name st = handler_by_name (instances st) name (sim_handler_states st)"

text \<open>The number that a record from outside gets, and the counters after it.\<close>

fun ext_num :: "SaHpiRdrTypeT \<Rightarrow> ext_nums \<Rightarrow> (u32 \<times> ext_nums) option" where
  "ext_num SAHPI_CTRL_RDR c = Some (ctrl_num c, c\<lparr>ctrl_num := ctrl_num c + 1\<rparr>)"
| "ext_num SAHPI_SENSOR_RDR c = Some (sensor_num c, c\<lparr>sensor_num := sensor_num c + 1\<rparr>)"
| "ext_num SAHPI_INVENTORY_RDR c = Some (inv_num c, c\<lparr>inv_num := inv_num c + 1\<rparr>)"
| "ext_num SAHPI_WATCHDOG_RDR c = Some (watchdog_num c, c\<lparr>watchdog_num := watchdog_num c + 1\<rparr>)"
| "ext_num SAHPI_ANNUNCIATOR_RDR c = Some (ann_num_next c, c\<lparr>ann_num_next := ann_num_next c + 1\<rparr>)"
| "ext_num type c = None"

text \<open>
  The result: return code, the event that is pushed, the counters and the table of entity paths.
  The cache of the instance is not changed: only the daemon knows the resource and the record.
\<close>

definition sim_inject_ext_event ::
    "uid_io \<Rightarrow> SaHpiEntityPathT \<Rightarrow> sim_handler option \<Rightarrow> SaHpiEventT option \<Rightarrow> SaHpiRptEntryT option \<Rightarrow>
       SaHpiRdrT option \<Rightarrow> ext_nums \<times> uid_state \<Rightarrow>
       SaErrorT \<times> sim_handler option \<times> ext_nums \<times> uid_state"
where
  "sim_inject_ext_event uio stack inst event rpte rdre = (\<lambda>(c, us).
     case (inst, event, rpte, rdre) of
       (Some h, Some ev, Some r, Some rec) \<Rightarrow>
         (let (r, us) = setup_rpte uio stack h r us;
              ev = ev\<lparr>Source := ResourceId r\<rparr>
          in case ext_num (RdrType rec) c of
               None \<Rightarrow> (SA_ERR_HPI_INVALID_PARAMS, inst, c, us)
             | Some (num, c) \<Rightarrow>
                 (let rec = rec\<lparr>RdrTypeUnion := (RdrTypeUnion rec)\<lparr>Num := num\<rparr>,
                                RecordId := oh_get_rdr_uid (RdrType rec) num,
                                Entity := ResourceEntity r\<rparr>;
                      e = zero_event\<lparr>e_event := ev, e_resource := r, e_rdrs := [rec],
                                     e_hid := sim_hid h\<rparr>
                  in (SA_OK, Some (push (oh_dup_event e) h), c, us)))
     | _ \<Rightarrow> (SA_ERR_HPI_INVALID_PARAMS, inst, c, us))"

end
