(* ===== verification/SimProps.thy ===== *)
theory SimProps
  imports SimInstances RptProps
begin

text \<open>
  The simulator's memory: in every instance that its functions can reach, the private data of every
  resource and of every record in the cache is a live structure of the kind that the record's type
  names, so the casts of the functions are right.
\<close>

section \<open>The kinds of private data\<close>

text \<open>
  The addresses that the private data of a type of record may have: those of the structures of its
  kind, NULL as well for annunciators; the data of diagnostic and firmware records is not looked at.
\<close>

definition info_at :: "sim_handler \<Rightarrow> SaHpiRdrTypeT \<Rightarrow> nat set" where
  "info_at h type =
     (case type of
        SAHPI_SENSOR_RDR \<Rightarrow> dom (sensor_infos h)
      | SAHPI_CTRL_RDR \<Rightarrow> dom (control_infos h)
      | SAHPI_WATCHDOG_RDR \<Rightarrow> dom (watchdog_infos h)
      | SAHPI_INVENTORY_RDR \<Rightarrow> dom (inventory_infos h)
      | SAHPI_ANNUNCIATOR_RDR \<Rightarrow> insert 0 (dom (annunciator_infos h))
      | SAHPI_DIMI_RDR \<Rightarrow> UNIV
      | SAHPI_FUMI_RDR \<Rightarrow> UNIV
      | _ \<Rightarrow> {})"

definition typed_rec :: "sim_handler \<Rightarrow> RDRecord \<Rightarrow> bool" where
  "typed_rec h r \<longleftrightarrow> \<not> rdr_owndata r \<and> rdr_data r \<in> info_at h (RdrType (rdr r)) \<and>
     oh_get_instrument_id (rdr r) < 0x10000"

definition typed_ent :: "sim_handler \<Rightarrow> RPTEntry \<Rightarrow> bool" where
  "typed_ent h e \<longleftrightarrow> \<not> ent_owndata e \<and> ent_data e \<in> dom (resource_infos h) \<and>
     (\<forall>q \<in> set (recs e). typed_rec h (snd q))"

text \<open>
  Addresses are below \<open>brk\<close>, and none is in the cache twice or freed while it is in the cache.
\<close>

definition sim_ok :: "sim_handler \<Rightarrow> bool" where
  "sim_ok h \<longleftrightarrow> rpt_inv (rptcache h) \<and> (\<forall>p \<in> set (ents (rptcache h)). typed_ent h (snd p)) \<and>
     0 \<notin> dom (resource_infos h) \<and> 0 < brk h \<and>
     distinct (held (rptcache h) @ freed (rptcache h)) \<and>
     (\<forall>p \<in> set (held (rptcache h) @ freed (rptcache h)). 0 < p \<and> p < brk h)"

text \<open>What the invariant looks at.\<close>

definition shape :: "sim_handler \<Rightarrow> RPTable \<times> nat \<times> nat set \<times> nat set \<times> nat set \<times> nat set \<times> nat set \<times> nat set" where
  "shape h = (rptcache h, brk h, dom (resource_infos h), dom (sensor_infos h), dom (control_infos h),
     dom (watchdog_infos h), dom (annunciator_infos h), dom (inventory_infos h))"

lemma shapeD:
  assumes "shape h' = shape h"
  shows "rptcache h' = rptcache h" "brk h' = brk h" "dom (resource_infos h') = dom (resource_infos h)"
    "info_at h' = info_at h"
  using assms by (auto simp: shape_def info_at_def fun_eq_iff split: SaHpiRdrTypeT.split)

lemma info_at_cache [simp]: "info_at (h\<lparr>rptcache := t\<rparr>) = info_at h"
  by (rule ext) (simp add: info_at_def split: SaHpiRdrTypeT.split)

lemma typed_ent_cache [simp]: "typed_ent (h\<lparr>rptcache := t\<rparr>) = typed_ent h"
  by (simp add: fun_eq_iff typed_ent_def typed_rec_def)

lemma sim_ok_shape: "shape h' = shape h \<Longrightarrow> sim_ok h' = sim_ok h"
  using shapeD [of h' h] by (simp add: sim_ok_def typed_ent_def typed_rec_def)

lemma dom_put: "m p = Some i \<Longrightarrow> dom (m(p \<mapsto> j)) = dom m"
  by auto

lemma shape_put [simp]:
  "resource_infos h p = Some i \<Longrightarrow> shape (put_resource_info p i' h) = shape h"
  "sensor_infos h p = Some s \<Longrightarrow> shape (put_sensor p s' h) = shape h"
  "control_infos h p = Some c \<Longrightarrow> shape (put_control p c' h) = shape h"
  "annunciator_infos h p = Some a \<Longrightarrow> shape (put_annunciator p a' h) = shape h"
  "inventory_infos h p = Some v \<Longrightarrow> shape (put_inventory p v' h) = shape h"
  "watchdog_infos h p = Some w \<Longrightarrow> shape (h\<lparr>watchdog_infos := (watchdog_infos h)(p \<mapsto> w')\<rparr>) = shape h"
  "shape (h\<lparr>elcache := el\<rparr>) = shape h" "shape (h\<lparr>discovered := b\<rparr>) = shape h"
  "shape (push e h) = shape h"
  by (auto simp: shape_def put_resource_info_def put_sensor_def put_control_def put_annunciator_def
      put_inventory_def push_def)

section \<open>The functions that write private data\<close>

text \<open>The prelude of a function either fails or goes on; a property of all results.\<close>

lemma on_resource_all:
  assumes "\<And>e. P (fail e)" and "\<And>h rpt. inst = Some h \<Longrightarrow> P (k h rpt)"
  shows "P (on_resource inst bad rid cap fail k)"
  using assms by (auto simp: on_resource_def split: option.split)

lemma on_record_all:
  assumes "\<And>e. P (fail e)" and "\<And>rec. P (k rec)"
  shows "P (on_record h rid type num fail k)"
  using assms by (auto simp: on_record_def split: option.split)

lemma rdr_info_all:
  assumes "\<And>e. P (fail e)" and "\<And>p i. get h p = Some i \<Longrightarrow> P (k p i)"
  shows "P (rdr_info get h rid rec fail k)"
  using assms by (auto simp: rdr_info_def Let_def split: option.split)

lemma resource_info_all:
  assumes "\<And>e. P (fail e)" and "\<And>p i. resource_infos h p = Some i \<Longrightarrow> P (k p i)"
  shows "P (resource_info h rid err fail k)"
  using assms by (auto simp: resource_info_def Let_def split: option.split)

lemma on_area_all:
  assumes "\<And>e. P (fail e)" and "\<And>n a. P (k n a)"
  shows "P (on_area i AreaId fail k)"
  using assms by (auto simp: on_area_def split: option.split)

text \<open>The instance that a function leaves has the shape of the one it was given.\<close>

definition keeps :: "sim_handler option \<Rightarrow> sim_handler option \<Rightarrow> bool" where
  "keeps inst inst' \<longleftrightarrow> map_option shape inst' = map_option shape inst"

lemma keeps_refl [simp]: "keeps inst inst"
  by (simp add: keeps_def)

lemma keeps_unchanged [simp]: "keeps inst (snd (unchanged inst e))"
  by (simp add: unchanged_def)

lemma keeps_Some [simp]: "keeps (Some h) (Some h') \<longleftrightarrow> shape h' = shape h"
  by (simp add: keeps_def)

lemmas prelude_rules = on_resource_all on_record_all rdr_info_all resource_info_all on_area_all

lemma resource_setters:
  "keeps inst (snd (sim_set_power_state inst rid s))"
  "keeps inst (snd (sim_set_reset_state inst rid s))"
  "keeps inst (snd (sim_set_hotswap_state inst rid hs))"
  "keeps inst (snd (sim_request_hotswap_action inst rid s))"
  "keeps inst (snd (sim_set_indicator_state inst rid s))"
  "keeps inst (snd (sim_set_autoextract_timeout inst rid t))"
  unfolding sim_set_power_state_def sim_set_reset_state_def sim_set_hotswap_state_def
    sim_request_hotswap_action_def sim_set_indicator_state_def sim_set_autoextract_timeout_def
  by (auto intro!: prelude_rules [where P = "\<lambda>r. keeps i (snd r)" for i])

lemma sensor_setters:
  "keeps inst (snd (sim_set_sensor_thresholds inst rid num th))"
  "keeps inst (snd (sim_set_sensor_enable inst rid num b))"
  "keeps inst (snd (sim_set_sensor_event_enable inst rid num b))"
  "keeps inst (snd (sim_set_sensor_event_masks inst rid num act am dm))"
  unfolding sim_set_sensor_thresholds_def sim_set_sensor_enable_def sim_set_sensor_event_enable_def
    sim_set_sensor_event_masks_def on_sensor_def
  by (auto intro!: prelude_rules [where P = "\<lambda>r. keeps i (snd r)" for i] simp: Let_def)

lemma other_setters:
  "keeps inst (snd (sim_set_control_state inst rid num mode cs))"
  "keeps inst (snd (sim_set_watchdog_info inst rid num w))"
  "keeps inst (snd (sim_reset_watchdog inst rid num))"
  "keeps inst (snd (sim_ack_announce inst rid num entry sev))"
  "keeps inst (snd (snd (sim_add_announce now inst rid num a)))"
  "keeps inst (snd (sim_del_announce inst rid num entry sev))"
  "keeps inst (snd (sim_set_annunc_mode inst rid num mode))"
  unfolding sim_set_control_state_def sim_set_watchdog_info_def sim_reset_watchdog_def on_watchdog_def
    sim_ack_announce_def sim_add_announce_def sim_del_announce_def sim_set_annunc_mode_def
    on_annunciator_def
  by (auto intro!: prelude_rules [where P = "\<lambda>r. keeps i (snd r)" for i]
      prelude_rules [where P = "\<lambda>r. keeps i (snd (snd r))" for i] simp: Let_def split: prod.split)

lemma inventory_setters:
  "keeps inst (snd (snd (sim_add_idr_area inst rid idr ty b)))"
  "keeps inst (snd (sim_del_idr_area inst rid idr aid))"
  "keeps inst (snd (snd (sim_add_idr_field inst rid idr f)))"
  "keeps inst (snd (sim_set_idr_field inst rid idr f))"
  "keeps inst (snd (sim_del_idr_field inst rid idr aid fid))"
  unfolding sim_add_idr_area_def sim_del_idr_area_def sim_add_idr_field_def sim_set_idr_field_def
    sim_del_idr_field_def on_inventory_def
  by (auto intro!: prelude_rules [where P = "\<lambda>r. keeps i (snd r)" for i]
      prelude_rules [where P = "\<lambda>r. keeps i (snd (snd r))" for i] simp: Let_def split: option.split)

lemma log_setters:
  "keeps inst (snd (sim_el_set_state inst rid b))"
  "keeps inst (snd (sim_el_set_time now inst rid t))"
  "keeps inst (snd (sim_el_add_entry now inst rid ev))"
  "keeps inst (snd (sim_el_clear inst rid))"
  "keeps inst (snd (sim_el_overflow inst rid))"
  by (cases inst; simp add: sim_el_set_state_def sim_el_set_time_def sim_el_add_entry_def
      sim_el_clear_def sim_el_overflow_def put_log_def split: prod.split)+

section \<open>The functions that change the cache\<close>

lemma typed_rec_mono:
  "typed_rec h r \<Longrightarrow> (\<And>ty. info_at h ty \<subseteq> info_at h' ty) \<Longrightarrow> typed_rec h' r"
  by (auto simp: typed_rec_def)

lemma typed_ent_mono:
  assumes "typed_ent h e" and "\<And>ty. info_at h ty \<subseteq> info_at h' ty"
    and "dom (resource_infos h) \<subseteq> dom (resource_infos h')"
  shows "typed_ent h' e"
  using assms typed_rec_mono [of h _ h'] by (auto simp: typed_ent_def)

text \<open>The pointers of a table, those that it holds and those that it has freed.\<close>

definition pointers :: "RPTable \<Rightarrow> nat list" where
  "pointers t = held t @ freed t"

lemma pointers_mset: "mset (pointers t) = mset (freed t) + mset (held t)"
  by (simp add: pointers_def)

lemma pointers_same:
  assumes "mset (pointers t') = mset (pointers t)"
  shows "distinct (pointers t') = distinct (pointers t)" and "set (pointers t') = set (pointers t)"
  using mset_eq_imp_distinct_iff [OF assms] mset_eq_setD [OF assms] by simp_all

lemma pointers_new:
  assumes "mset (pointers t') = add_mset d (mset (pointers t))" and "d \<notin> set (pointers t)"
  shows "distinct (pointers t') = distinct (pointers t)" and "set (pointers t') = insert d (set (pointers t))"
proof -
  have m: "mset (pointers t') = mset (d # pointers t)" using assms(1) by simp
  show "distinct (pointers t') = distinct (pointers t)"
    using mset_eq_imp_distinct_iff [OF m] assms(2) by simp
  show "set (pointers t') = insert d (set (pointers t))" using mset_eq_setD [OF m] by simp
qed

lemma sim_okD:
  assumes "sim_ok h"
  shows "rpt_inv (rptcache h)" and "(k, e) \<in> set (ents (rptcache h)) \<Longrightarrow> typed_ent h e"
    and "0 \<notin> dom (resource_infos h)" and "0 < brk h" and "distinct (pointers (rptcache h))"
    and "p \<in> set (pointers (rptcache h)) \<Longrightarrow> 0 < p \<and> p < brk h"
  using assms by (force simp: sim_ok_def pointers_def)+

lemma sim_okI:
  assumes "rpt_inv (rptcache h)" and "\<And>k e. (k, e) \<in> set (ents (rptcache h)) \<Longrightarrow> typed_ent h e"
    and "0 \<notin> dom (resource_infos h)" and "0 < brk h" and "distinct (pointers (rptcache h))"
    and "\<And>p. p \<in> set (pointers (rptcache h)) \<Longrightarrow> 0 < p \<and> p < brk h"
  shows "sim_ok h"
  using assms by (force simp: sim_ok_def pointers_def)

lemma new_instance_ok: "sim_ok (new_instance hid cfg root)"
  using init_rpt_inv [of zero_rpt]
  by (intro sim_okI) (simp_all add: new_instance_def pointers_def oh_init_rpt_def held_def ents_def
      nt_abs_empty zero_rpt_def)

text \<open>Memory that is allocated, and not yet in the cache.\<close>

definition grows :: "sim_handler \<Rightarrow> sim_handler \<Rightarrow> bool" where
  "grows h h' \<longleftrightarrow> rptcache h' = rptcache h \<and> brk h' = brk h + 1 \<and>
     (\<forall>ty. info_at h ty \<subseteq> info_at h' ty) \<and> dom (resource_infos h) \<subseteq> dom (resource_infos h') \<and>
     dom (resource_infos h') \<subseteq> insert (brk h) (dom (resource_infos h))"

lemma grows_ok:
  assumes "grows h h'" and "sim_ok h"
  shows "sim_ok h'" and "brk h \<notin> set (pointers (rptcache h'))" and "brk h < brk h'" and "0 < brk h"
proof -
  note g = assms(1) [unfolded grows_def] and ok = sim_okD [OF assms(2)]
  show "brk h < brk h'" "0 < brk h" using g ok(4) by simp_all
  show "brk h \<notin> set (pointers (rptcache h'))" using g ok(6) by force
  show "sim_ok h'"
  proof (rule sim_okI)
    show "typed_ent h' e" if "(k, e) \<in> set (ents (rptcache h'))" for k e
      using that g ok(2) [of k e] typed_ent_mono [of h e h'] by simp
    show "0 \<notin> dom (resource_infos h')" using g ok(3,4) by auto
    show "0 < p \<and> p < brk h'" if "p \<in> set (pointers (rptcache h'))" for p
      using that g ok(6) [of p] by simp
  qed (use g ok in simp_all)
qed

text \<open>A record goes into the cache with private data of its kind, or with none.\<close>

lemma inject_rdr_ok:
  assumes ok: "sim_ok h" and rid: "ResourceId (e_resource e) \<noteq> 0"
    and u: "oh_get_rdr_uid (RdrType r) (oh_get_instrument_id r) \<noteq> 0" "oh_get_instrument_id r < 0x10000"
    and d: "d \<in> info_at h (RdrType r)" "d = 0 \<or> d \<notin> set (pointers (rptcache h)) \<and> d < brk h"
    and c: "sim_inject_rdr (Some h) (Some e) (Some r) d = (SA_OK, Some e', Some h')"
  shows "sim_ok h'" and "e_resource e' = e_resource e"
proof -
  note k = sim_okD [OF ok]
  let ?rid = "ResourceId (e_resource e)"
  from c obtain x t where a: "oh_add_rdr (rptcache h) ?rid r d False = (SA_OK, x, t)"
      and h': "h' = h\<lparr>rptcache := t\<rparr>" and e': "e_resource e' = e_resource e"
    by (auto simp: sim_inject_rdr_def split: prod.splits if_splits)
  then obtain b n where g: "get_rptentry_by_rid (rptcache h) ?rid = Some (b, n)"
      "check_instrument_id (rpt_entry n) r = 0"
    by (auto simp: oh_add_rdr_def split: option.splits if_splits)
  from add_rdr_ents [OF k(1) g u(1) a] obtain n' where
    x: "x = r\<lparr>RecordId := oh_get_rdr_uid (RdrType r) (oh_get_instrument_id r)\<rparr>" and t: "rpt_inv t"
      "ents t = adjust (ent_key n) (\<lambda>_. n') (ents (rptcache h))" "same_but_rdrs n' n"
      "recs n' = upsert (RecordId x) \<lparr>rdr = x, rdr_owndata = False, rdr_data = d\<rparr> (recs n)"
    by auto
  have tn: "typed_ent h n" using k(2) get_rptentry_ents(1) [OF k(1) g(1)] by blast
  have tr: "typed_rec h \<lparr>rdr = x, rdr_owndata = False, rdr_data = d\<rparr>"
    using d(1) u(2) by (simp add: typed_rec_def x)
  have "typed_rec h q" if "(j, q) \<in> set (recs n')" for j q
    using that tn tr unfolding t(4)
    by (auto simp: upsert_def typed_ent_def split: if_splits elim!: adjust_all [where P = "typed_rec h"])
  then have "typed_ent h n'" using tn t(3) by (auto simp: typed_ent_def same_but_rdrs_def)
  then have te: "typed_ent h m" if "(j, m) \<in> set (ents t)" for j m
    using that k(2) unfolding t(2) by (auto elim!: adjust_all [where P = "typed_ent h"])
  have p: "mset (pointers t) = mset (free_data d) + mset (pointers (rptcache h))"
    using add_rdr_held [OF k(1) rid u(1) a] d(2) by (auto simp: pointers_def ac_simps)
  have "distinct (pointers t) \<and> (\<forall>q \<in> set (pointers t). 0 < q \<and> q < brk h)"
  proof (cases "d = 0")
    case True
    then show ?thesis using pointers_same [of t "rptcache h"] p k(5,6) by (simp add: free_data_def)
  next
    case False
    then show ?thesis
      using pointers_new [of t d "rptcache h"] p k(5,6) d(2) by (simp add: free_data_def)
  qed
  then show "sim_ok h'"
    using te t(1) k(3,4) unfolding h'
    by (intro sim_okI) auto
  show "e_resource e' = e_resource e" by (rule e')
qed

text \<open>The functions \<open>new_..\<close>: the record has the type, and the allocation is of its kind.\<close>

lemma inject_new_ok:
  assumes ok: "sim_ok h" and rid: "ResourceId (e_resource e) \<noteq> 0"
    and u: "oh_get_rdr_uid (RdrType r) (oh_get_instrument_id r) \<noteq> 0" "oh_get_instrument_id r < 0x10000"
    and g: "grows h (alloc (brk h) (h\<lparr>brk := brk h + 1\<rparr>))"
    and i: "brk h \<in> info_at (alloc (brk h) (h\<lparr>brk := brk h + 1\<rparr>)) (RdrType r)"
    and c: "inject_new alloc r e h = (rc, e', h')"
  shows "sim_ok h'" and "e_resource e' = e_resource e"
proof -
  let ?h = "alloc (brk h) (h\<lparr>brk := brk h + 1\<rparr>)"
  note k = grows_ok [OF g ok]
  have "sim_ok h' \<and> e_resource e' = e_resource e"
    using c ok inject_rdr_ok [OF k(1) rid u i, of e' h'] k
    by (auto simp: inject_new_def split: prod.splits option.splits SaErrorT.splits)
  then show "sim_ok h'" "e_resource e' = e_resource e" by auto
qed

text \<open>An event of discovery: it is about a resource, in an instance that is all right.\<close>

definition ev_ok :: "oh_event \<times> sim_handler \<Rightarrow> bool" where
  "ev_ok s \<longleftrightarrow> sim_ok (snd s) \<and> ResourceId (e_resource (fst s)) \<noteq> 0"

lemma rdr_uid_nz:
  assumes "num < 0x10000" and "rdr_type_num ty < 0x10000" and "rdr_type_num ty \<noteq> 0"
  shows "oh_get_rdr_uid ty num \<noteq> 0"
proof -
  have "unat (oh_get_rdr_uid ty num) \<noteq> 0"
    using unat_rdr_uid [OF assms(1,2)] assms(3) by (simp add: unat_eq_0)
  then show ?thesis by auto
qed

lemma inject_new_ev_ok:
  assumes "ev_ok (e, h)" and "oh_get_instrument_id r < 0x10000"
    and "rdr_type_num (RdrType r) < 0x10000" "rdr_type_num (RdrType r) \<noteq> 0"
    and "grows h (alloc (brk h) (h\<lparr>brk := brk h + 1\<rparr>))"
    and "brk h \<in> info_at (alloc (brk h) (h\<lparr>brk := brk h + 1\<rparr>)) (RdrType r)"
  shows "ev_ok (snd (inject_new alloc r e h))"
proof -
  obtain rc e' h' where c: "inject_new alloc r e h = (rc, e', h')" by (metis prod.exhaust)
  show ?thesis
    using inject_new_ok [OF _ _ rdr_uid_nz [OF assms(2-4)] assms(2,5,6) c] assms(1) c
    by (simp add: ev_ok_def)
qed

lemmas new_defs = new_sensor_def new_control_def new_watchdog_def new_inventory_def new_dimi_def
  new_fumi_def new_rdr_def put_sensor_def put_control_def put_inventory_def put_annunciator_def
  grows_def info_at_def oh_get_instrument_id_def

lemma new_ok:
  "ev_ok (e, h) \<Longrightarrow> Num (t_sensor s) < 0x10000 \<Longrightarrow> ev_ok (snd (new_sensor s e h))"
  "ev_ok (e, h) \<Longrightarrow> Num (t_control c) < 0x10000 \<Longrightarrow> ev_ok (snd (new_control c e h))"
  "ev_ok (e, h) \<Longrightarrow> Num (t_watchdog w) < 0x10000 \<Longrightarrow> ev_ok (snd (new_watchdog w e h))"
  "ev_ok (e, h) \<Longrightarrow> Num (t_inventory i) < 0x10000 \<Longrightarrow> ev_ok (snd (new_inventory i e h))"
  "ev_ok (e, h) \<Longrightarrow> Num (t_dimi d) < 0x10000 \<Longrightarrow> ev_ok (snd (new_dimi d e h))"
  "ev_ok (e, h) \<Longrightarrow> Num (t_fumi f) < 0x10000 \<Longrightarrow> ev_ok (snd (new_fumi f e h))"
  unfolding new_sensor_def new_control_def new_watchdog_def new_inventory_def new_dimi_def new_fumi_def Let_def
  by (rule inject_new_ev_ok; auto simp: new_defs split: SaHpiRdrTypeT.split)+

lemma new_annunciator_ok:
  assumes e: "ev_ok (e, h)" and n: "Num (t_annun a) < 0x10000"
  shows "ev_ok (snd (new_annunciator clock a e h))"
proof -
  let ?r = "new_rdr SAHPI_ANNUNCIATOR_RDR False (t_annun a) (annunciator_comment a) e"
  have r: "RdrType ?r = SAHPI_ANNUNCIATOR_RDR" "oh_get_instrument_id ?r < 0x10000"
    using n by (simp_all add: new_rdr_def oh_get_instrument_id_def)
  have u: "oh_get_rdr_uid (RdrType ?r) (oh_get_instrument_id ?r) \<noteq> 0"
    using rdr_uid_nz [OF r(2), of SAHPI_ANNUNCIATOR_RDR] r(1) by simp
  show ?thesis
  proof (cases "t_announs a = [] \<or> ann_EntryId (hd (t_announs a)) = 0")
    case True
    have "0 \<in> info_at h (RdrType ?r)" by (simp add: r(1) info_at_def)
    then have i: "sim_ok h' \<and> e_resource e' = e_resource e"
      if "sim_inject_rdr (Some h) (Some e) (Some ?r) 0 = (SA_OK, Some e', Some h')" for e' h'
      using inject_rdr_ok [OF _ _ u r(2) _ _ that] e by (simp add: ev_ok_def)
    obtain rc oe inst where c: "sim_inject_rdr (Some h) (Some e) (Some ?r) 0 = (rc, oe, inst)"
      by (metis prod.exhaust)
    show ?thesis
    proof (cases "rc = SA_OK \<and> oe \<noteq> None \<and> inst \<noteq> None")
      case False
      then have "snd (new_annunciator clock a e h) = (e, h)"
        using True by (auto simp: new_annunciator_def Let_def c split: SaErrorT.split option.split)
      then show ?thesis using e by simp
    next
      case ok: True
      then obtain e' h' where "oe = Some e'" "inst = Some h'" by blast
      then show ?thesis using True ok i [of e' h'] e c by (simp add: new_annunciator_def Let_def ev_ok_def)
    qed
  next
    case False
    show ?thesis
      unfolding new_annunciator_def Let_def if_not_P [OF False]
      by (rule inject_new_ev_ok [OF e r(2)]) (auto simp: new_defs split: SaHpiRdrTypeT.split)
  qed
qed

lemma discover_loop_keeps:
  assumes "P s" and "\<And>t e h. t \<in> set ts \<Longrightarrow> P (e, h) \<Longrightarrow> P (snd (new t e h))"
  shows "P (discover_loop final new ts s)"
  using assms
proof (induction ts arbitrary: s)
  case Nil
  then show ?case by (cases s) simp
next
  case (Cons t ts)
  then show ?case by (cases s) (auto simp del: not_None_eq)
qed

text \<open>A resource goes into the cache with its own private data.\<close>

lemma inject_resource_ok:
  assumes ok: "sim_ok h"
    and c: "sim_inject_resource uio stack t0 t1 (Some h) (Some tmpl) 0 ohe us = (rc, oe, inst, us')"
  obtains h' where "inst = Some h'" and "sim_ok h'" and "oe = Some e \<Longrightarrow> ResourceId (e_resource e) \<noteq> 0"
proof (cases ohe)
  case False
  then show ?thesis using c ok that [of h] by (auto simp: sim_inject_resource_def)
next
  case True
  obtain r us1 where s: "setup_rpte uio stack h (t_rpt tmpl) us = (r, us1)" by force
  define r1 where "r1 = (case snd (sim_create_resourcetag (t_comment tmpl)
      (EntityLocation (ResourceEntity r ! 0))) of None \<Rightarrow> r | Some tag \<Rightarrow> r\<lparr>ResourceTag := tag\<rparr>)"
  define h1 where "h1 = put_resource_info (brk h) (new_resource_info r1) (h\<lparr>brk := brk h + 1\<rparr>)"
  obtain rc' r2 t where a: "oh_add_resource t0 (rptcache h1) r1 (brk h) False = (rc', r2, t)"
    by (metis prod.exhaust)
  have res: "inst = (if rc' \<noteq> SA_OK then Some h1 else Some (h1\<lparr>rptcache := t\<rparr>))"
      "oe = (if rc' \<noteq> SA_OK then None else Some (added_event t1 r2))"
    using c True s a unfolding sim_inject_resource_def
    by (simp_all add: Let_def r1_def [symmetric] h1_def [simplified, symmetric] cong: if_cong split: if_splits)
  have g: "grows h h1"
    by (auto simp: grows_def h1_def put_resource_info_def info_at_def split: SaHpiRdrTypeT.split)
  note k1 = grows_ok [OF g ok]
  note k = sim_okD [OF k1(1)]
  show ?thesis
  proof (cases "rc' = SA_OK")
    case False
    then show ?thesis using res k1(1) that by simp
  next
    case ok: True
    then have nz: "ResourceId r1 \<noteq> 0" "ResourceId r1 \<noteq> SAHPI_UNSPECIFIED_RESOURCE_ID"
      using a by (auto simp: oh_add_resource_def split: if_splits)
    note e = add_resource_ents [OF k(1) nz a]
    have d: "brk h \<in> dom (resource_infos h1)" by (simp add: h1_def put_resource_info_def)
    have te: "typed_ent h1 m" if m: "(j, m) \<in> set (ents t)" for j m
    proof (cases "ResourceId r1 \<in> fst ` set (ents (rptcache h1))")
      case True
      have "typed_ent h1 (put_entry r2 (brk h) False n)" if "typed_ent h1 n" for n
        using that d by (auto simp: typed_ent_def put_entry_def recs_def)
      then show ?thesis using m [unfolded e(4)] True k(2)
        by (auto elim!: adjust_all [where P = "typed_ent h1"])
    next
      case False
      have "typed_ent h1 (put_entry r2 (brk h) False zero_rptentry)"
        using d by (simp add: typed_ent_def put_entry_def recs_def zero_rptentry_def nt_abs_empty)
      then show ?thesis using m [unfolded e(4)] False k(2) by auto
    qed
    have p: "mset (pointers t) = add_mset (brk h) (mset (pointers (rptcache h1)))"
      using add_resource_held [OF k(1) nz a] k1(2,4) by (simp add: pointers_def ac_simps)
    note q = pointers_new [OF p k1(2)]
    have "sim_ok (h1\<lparr>rptcache := t\<rparr>)"
      using te e(3) k(3-6) q k1(3,4)
      by (intro sim_okI) auto
    moreover have "ResourceId (e_resource (added_event t1 r2)) \<noteq> 0"
      using e(2) nz by (simp add: added_event_def)
    ultimately show ?thesis using res ok that [of "h1\<lparr>rptcache := t\<rparr>"] by auto
  qed
qed

text \<open>Discovery, with tables whose instruments have numbers below 0x10000.\<close>

definition part_ok :: "sim_part \<Rightarrow> bool" where
  "part_ok p \<longleftrightarrow> (\<forall>u \<in> set (map t_sensor (part_sensors p) @ map t_control (part_controls p) @
     map t_annun (part_annunciators p) @ map t_watchdog (part_watchdogs p) @
     map t_inventory (part_inventory p) @ map t_dimi (part_dimis p) @ map t_fumi (part_fumis p)).
     Num u < 0x10000)"

lemmas discover_defs = sim_discover_sensors_def sim_discover_controls_def
  sim_discover_annunciators_def sim_discover_watchdogs_def sim_discover_inventory_def
  sim_discover_dimis_def sim_discover_fumis_def

lemma sim_ok_push [simp]: "sim_ok (push e h) = sim_ok h"
  by (rule sim_ok_shape) simp

lemma sim_ok_discovered [simp]: "sim_ok (h\<lparr>discovered := b\<rparr>) = sim_ok h"
  by (rule sim_ok_shape) simp

lemma push_event_ok [simp]: "sim_ok (the (snd (sim_inject_event (Some h) (Some e)))) = sim_ok h"
  by (simp add: sim_inject_event_def)

lemma discover_part_ok:
  assumes "sim_ok h" and p: "part_ok part"
  shows "sim_ok (fst (sim_discover_part uio stack clock part (h, us)))"
proof -
  obtain rc oe inst us' where
    c: "sim_inject_resource uio stack (clock 0) (clock 1) (Some h) (Some (part_rpt part)) 0 True us =
      (rc, oe, inst, us')" by (metis prod.exhaust)
  from inject_resource_ok [OF assms(1) c] obtain h' where i: "inst = Some h'" "sim_ok h'"
      "\<And>e. oe = Some e \<Longrightarrow> ResourceId (e_resource e) \<noteq> 0" by metis
  show ?thesis
  proof (cases "rc = SA_OK \<and> oe \<noteq> None")
    case False
    then show ?thesis using c i(1,2)
      by (auto simp: sim_discover_part_def split: SaErrorT.splits option.splits)
  next
    case True
    then obtain e where e: "rc = SA_OK" "oe = Some e" by blast
    then have "ev_ok (e, h')" using i by (simp add: ev_ok_def)
    then have "ev_ok (sim_discover_fumis (part_fumis part)
                (sim_discover_dimis (part_dimis part)
                (sim_discover_inventory (part_inventory part)
                (sim_discover_watchdogs (part_watchdogs part)
                (sim_discover_annunciators (\<lambda>i. clock (i + 2)) (part_annunciators part)
                (sim_discover_controls (part_controls part)
                (sim_discover_sensors (part_sensors part) (e, h'))))))))"
      (is "ev_ok ?s")
      using p unfolding discover_defs part_ok_def
      by (intro discover_loop_keeps [where P = ev_ok] new_ok new_annunciator_ok) auto
    moreover have "fst (sim_discover_part uio stack clock part (h, us)) =
        the (snd (sim_inject_event (Some (snd ?s)) (Some (fst ?s))))"
      using c i(1) e by (simp add: sim_discover_part_def case_prod_beta)
    ultimately show ?thesis by (simp add: push_event_ok ev_ok_def)
  qed
qed

lemma discover_ok:
  assumes "sim_ok h" and "list_all part_ok parts"
    and c: "sim_discover uio stack clocks parts (h, us) = (rv, h', us')"
  shows "sim_ok h'"
proof -
  have "sim_ok (fst (fold (\<lambda>i. sim_discover_part uio stack (clocks i) (parts ! i)) js (h, us)))"
    if "set js \<subseteq> {0..<length parts}" for js
    using that assms(1)
  proof (induction js arbitrary: h us)
    case (Cons j js)
    have "part_ok (parts ! j)" using assms(2) Cons.prems(1) by (simp add: list_all_length)
    note d = discover_part_ok [OF Cons.prems(2) this, of uio stack "clocks j" us]
    show ?case using Cons.IH [OF _ d, of "snd (sim_discover_part uio stack (clocks j) (parts ! j) (h, us))"]
      Cons.prems(1) by simp
  qed simp
  from this [of "[0..<length parts]"] show ?thesis
    using c assms(1)
    by (auto simp: sim_discover_def split: prod.splits if_splits)
qed

text \<open>Tags and severities, and the removal of a failed resource.\<close>

lemma upd_resource_ok:
  assumes i: "rpt_inv t" and f: "\<And>r. ResourceId (f r) = ResourceId r" "\<And>r. EntryId (f r) = EntryId r"
  shows "rpt_inv (upd_resource rid f t)" and "pointers (upd_resource rid f t) = pointers t"
    and "(k, e) \<in> set (ents (upd_resource rid f t)) \<Longrightarrow>
      \<exists>n. (k, n) \<in> set (ents t) \<and> recs e = recs n \<and> ent_data e = ent_data n \<and> ent_owndata e = ent_owndata n"
proof -
  let ?f = "\<lambda>e. e\<lparr>rpt_entry := f (rpt_entry e)\<rparr>"
  have "rpt_inv (upd_resource rid f t) \<and> freed (upd_resource rid f t) = freed t \<and>
      (\<exists>j. ents (upd_resource rid f t) = adjust j ?f (ents t))"
  proof (cases "get_rptentry_by_rid t rid")
    case None
    have "ents t = adjust 0 ?f (ents t)" using rpt_inv_nz [OF i] by (simp add: adjust_none)
    then show ?thesis using i None by (auto simp: upd_resource_def)
  next
    case (Some q)
    obtain a n where g: "get_rptentry_by_rid t rid = Some (a, n)" using Some by force
    note m = get_rptentry_ents [OF i g]
    have "ent_key (?f n) = ent_key n" by (simp add: ent_key_def f)
    moreover have "ent_ok (?f n)" using m(3) by (simp add: ent_ok_def f recs_def)
    moreover have "rptab (upd_resource rid f t) = nt_write a ?f (rptab t)"
      "freed (upd_resource rid f t) = freed t" by (simp_all add: upd_resource_def g)
    ultimately show ?thesis using rpt_write [OF i m(2), of ?f "upd_resource rid f t"] by blast
  qed
  then obtain j where e: "rpt_inv (upd_resource rid f t)" "freed (upd_resource rid f t) = freed t"
      "ents (upd_resource rid f t) = adjust j ?f (ents t)" by blast
  show "rpt_inv (upd_resource rid f t)" by (rule e(1))
  have "held_ent (?f n) = held_ent n" for n by (simp add: held_ent_def recs_def)
  then have "held (upd_resource rid f t) = held t"
    unfolding held_def e(3) adjust_def by (auto simp: intro!: arg_cong [where f = concat] map_cong)
  then show "pointers (upd_resource rid f t) = pointers t" by (simp add: pointers_def e(2))
  show "\<exists>n. (k, n) \<in> set (ents t) \<and> recs e = recs n \<and> ent_data e = ent_data n \<and> ent_owndata e = ent_owndata n"
    if "(k, e) \<in> set (ents (upd_resource rid f t))"
    using that unfolding e(3) in_adjust by (auto simp: recs_def split: if_splits)
qed

lemma sim_ok_upd:
  assumes ok: "sim_ok h" and f: "\<And>r. ResourceId (f r) = ResourceId r" "\<And>r. EntryId (f r) = EntryId r"
  shows "sim_ok (h\<lparr>rptcache := upd_resource rid f (rptcache h)\<rparr>)" (is "sim_ok ?h")
proof (rule sim_okI)
  note k = sim_okD [OF ok] and u = upd_resource_ok [where f = f and rid = rid, OF sim_okD(1) [OF ok] f]
  show "typed_ent ?h e" if m: "(k, e) \<in> set (ents (rptcache ?h))" for k e
  proof -
    obtain n where n: "(k, n) \<in> set (ents (rptcache h))" "recs e = recs n" "ent_data e = ent_data n"
        "ent_owndata e = ent_owndata n" using u(3) [of k e] m by auto
    then show ?thesis using k(2) [OF n(1)] by (simp add: typed_ent_def typed_rec_def)
  qed
qed (use sim_okD [OF ok] upd_resource_ok [where f = f and rid = rid, OF sim_okD(1) [OF ok] f] in auto)

lemma set_resource_ok:
  "sim_ok h \<Longrightarrow> sim_ok (snd (sim_set_resource_tag h rid tag))"
  "sim_ok h \<Longrightarrow> sim_ok (snd (sim_set_resource_severity h rid sev))"
  by (auto simp: sim_set_resource_tag_def sim_set_resource_severity_def intro!: sim_ok_upd split: option.split)

lemma sim_ok_remove:
  assumes ok: "sim_ok h" and c: "oh_remove_resource now (rptcache h) rid = (err, t)"
  shows "sim_ok (h\<lparr>rptcache := t\<rparr>)"
proof (cases "get_rptentry_by_rid (rptcache h) rid")
  case None
  then have "t = rptcache h" using c by (simp add: oh_remove_resource_def)
  then show ?thesis using ok by simp
next
  case (Some q)
  note k = sim_okD [OF ok]
  from remove_resource_ents [OF k(1) _ c] Some obtain j where
    r: "rpt_inv t" "ents t = discard j (ents (rptcache h))" "mset (pointers t) = mset (pointers (rptcache h))"
    by (cases q) (force simp: pointers_mset)
  note p = pointers_same [OF r(3)]
  show ?thesis
    using r(1,2) k p
    by (intro sim_okI) (auto simp: discard_def)
qed

lemma failed_remove_ok:
  assumes "sim_ok h"
  shows "\<exists>h'. snd (sim_resource_failed_remove t0 t1 (Some h) rid) = Some h' \<and> sim_ok h'"
  using sim_ok_remove [OF sim_ok_push [THEN iffD2, OF assms], where now = t1 and rid = rid] assms
  by (auto simp: sim_resource_failed_remove_def Let_def split: option.split prod.split)

section \<open>Reachable instances\<close>

text \<open>What is done to an instance: the functions of the plugin's interface and discovery.\<close>

inductive sim_step :: "sim_handler \<Rightarrow> sim_handler \<Rightarrow> bool" where
  discover: "list_all part_ok parts \<Longrightarrow> sim_discover uio stack clocks parts (h, us) = (rv, h', us') \<Longrightarrow> sim_step h h'"
| ext_event: "sim_inject_ext_event uio stack (Some h) ev r rec cs = (rv, Some h', cs') \<Longrightarrow> sim_step h h'"
| set_tag: "sim_set_resource_tag h rid tag = (rv, h') \<Longrightarrow> sim_step h h'"
| set_severity: "sim_set_resource_severity h rid sev = (rv, h') \<Longrightarrow> sim_step h h'"
| failed_remove: "sim_resource_failed_remove t0 t1 (Some h) rid = (rv, Some h') \<Longrightarrow> sim_step h h'"
| set_power: "sim_set_power_state (Some h) rid s = (rv, Some h') \<Longrightarrow> sim_step h h'"
| set_reset: "sim_set_reset_state (Some h) rid s = (rv, Some h') \<Longrightarrow> sim_step h h'"
| set_hotswap: "sim_set_hotswap_state (Some h) rid hs = (rv, Some h') \<Longrightarrow> sim_step h h'"
| request_hotswap: "sim_request_hotswap_action (Some h) rid s = (rv, Some h') \<Longrightarrow> sim_step h h'"
| set_indicator: "sim_set_indicator_state (Some h) rid s = (rv, Some h') \<Longrightarrow> sim_step h h'"
| set_autoextract: "sim_set_autoextract_timeout (Some h) rid t = (rv, Some h') \<Longrightarrow> sim_step h h'"
| set_thresholds: "sim_set_sensor_thresholds (Some h) rid num th = (rv, Some h') \<Longrightarrow> sim_step h h'"
| set_enable: "sim_set_sensor_enable (Some h) rid num b = (rv, Some h') \<Longrightarrow> sim_step h h'"
| set_event_enable: "sim_set_sensor_event_enable (Some h) rid num b = (rv, Some h') \<Longrightarrow> sim_step h h'"
| set_event_masks: "sim_set_sensor_event_masks (Some h) rid num act am dm = (rv, Some h') \<Longrightarrow> sim_step h h'"
| set_control: "sim_set_control_state (Some h) rid num mode cs = (rv, Some h') \<Longrightarrow> sim_step h h'"
| set_watchdog: "sim_set_watchdog_info (Some h) rid num w = (rv, Some h') \<Longrightarrow> sim_step h h'"
| reset_watchdog: "sim_reset_watchdog (Some h) rid num = (rv, Some h') \<Longrightarrow> sim_step h h'"
| ack_announce: "sim_ack_announce (Some h) rid num entry s = (rv, Some h') \<Longrightarrow> sim_step h h'"
| add_announce: "sim_add_announce now (Some h) rid num a = (rv, a', Some h') \<Longrightarrow> sim_step h h'"
| del_announce: "sim_del_announce (Some h) rid num entry s = (rv, Some h') \<Longrightarrow> sim_step h h'"
| set_annunc_mode: "sim_set_annunc_mode (Some h) rid num mode = (rv, Some h') \<Longrightarrow> sim_step h h'"
| el_set_state: "sim_el_set_state (Some h) rid b = (rv, Some h') \<Longrightarrow> sim_step h h'"
| el_set_time: "sim_el_set_time now (Some h) rid t = (rv, Some h') \<Longrightarrow> sim_step h h'"
| el_add_entry: "sim_el_add_entry now (Some h) rid ev' = (rv, Some h') \<Longrightarrow> sim_step h h'"
| el_clear: "sim_el_clear (Some h) rid = (rv, Some h') \<Longrightarrow> sim_step h h'"
| el_overflow: "sim_el_overflow (Some h) rid = (rv, Some h') \<Longrightarrow> sim_step h h'"
| add_area: "sim_add_idr_area (Some h) rid idr ty b = (rv, aid, Some h') \<Longrightarrow> sim_step h h'"
| del_area: "sim_del_idr_area (Some h) rid idr a0 = (rv, Some h') \<Longrightarrow> sim_step h h'"
| add_field: "sim_add_idr_field (Some h) rid idr f = (rv, f', Some h') \<Longrightarrow> sim_step h h'"
| set_field: "sim_set_idr_field (Some h) rid idr f = (rv, Some h') \<Longrightarrow> sim_step h h'"
| del_field: "sim_del_idr_field (Some h) rid idr a0 f0 = (rv, Some h') \<Longrightarrow> sim_step h h'"

lemma keeps_ok: "keeps (Some h) (Some h') \<Longrightarrow> sim_ok h \<Longrightarrow> sim_ok h'"
  using sim_ok_shape [of h' h] by simp

lemma ext_event_keeps: "keeps inst (fst (snd (sim_inject_ext_event uio stack inst ev r rec cs)))"
  by (auto simp: sim_inject_ext_event_def Let_def keeps_def split: prod.split option.split)

lemmas all_setters = resource_setters sensor_setters other_setters inventory_setters log_setters

lemma sim_step_ok:
  assumes "sim_step h h'" and "sim_ok h"
  shows "sim_ok h'"
  using assms(1)
proof cases
  case discover
  then show ?thesis using discover_ok [OF assms(2)] by blast
next
  case (ext_event uio stack ev r rec cs rv cs')
  then show ?thesis using ext_event_keeps [of "Some h" uio stack ev r rec cs] assms(2) keeps_ok by simp
next
  case set_tag
  then show ?thesis using set_resource_ok(1) [OF assms(2)] by (metis snd_conv)
next
  case set_severity
  then show ?thesis using set_resource_ok(2) [OF assms(2)] by (metis snd_conv)
next
  case failed_remove
  then show ?thesis using failed_remove_ok [OF assms(2)] by (metis option.inject snd_conv)
qed (use all_setters [where inst = "Some h"] assms(2) keeps_ok in \<open>metis snd_conv\<close>)+

definition sim_reachable :: "sim_handler \<Rightarrow> bool" where
  "sim_reachable h \<longleftrightarrow> (\<exists>hid cfg root. sim_step\<^sup>*\<^sup>* (new_instance hid cfg root) h)"

lemma sim_reachable_ok: "sim_reachable h \<Longrightarrow> sim_ok h"
  unfolding sim_reachable_def
proof (elim exE)
  fix hid cfg root
  assume "sim_step\<^sup>*\<^sup>* (new_instance hid cfg root) h"
  then show "sim_ok h"
    by (induction rule: rtranclp_induct) (auto intro: sim_step_ok new_instance_ok)
qed

section \<open>The casts\<close>

definition enumerated :: "SaHpiRdrTypeT \<Rightarrow> bool" where
  "enumerated ty \<longleftrightarrow> rdr_type_num ty \<in> {1..7} \<and> (\<forall>n. ty \<noteq> SAHPI_RDR_OTHER n)"

lemma rdr_by_type_typed:
  assumes ok: "sim_ok h" and g: "oh_get_rdr_by_type (rptcache h) rid ty num = Some rec"
    and n: "num < 0x10000" and ty: "enumerated ty"
  shows "RdrType rec = ty" and "oh_get_rdr_data (rptcache h) rid (RecordId rec) \<in> info_at h ty"
    and "oh_get_rdr_data (rptcache h) rid (RecordId rec) \<notin> set (freed (rptcache h))"
proof -
  note k = sim_okD [OF ok]
  let ?u = "oh_get_rdr_uid ty num"
  have tn: "rdr_type_num ty < 0x10000" "rdr_type_num ty \<noteq> 0" using ty by (cases ty; simp add: enumerated_def)+
  have nz: "?u \<noteq> 0" using rdr_uid_nz [OF n tn] .
  from g obtain a e b r where e: "get_rptentry_by_rid (rptcache h) rid = Some (a, e)"
      and r: "get_rdrecord_by_id e ?u = Some (b, r)" and rec: "rec = rdr r"
    by (auto simp: oh_get_rdr_by_type_def split: option.splits)
  note m = get_rptentry_ents [OF k(1) e]
  note q = get_rdrecord_recs [OF m(3) r]
  have te: "typed_ent h e" using k(2) [OF m(1)] .
  have tr: "typed_rec h r" using te q(1) by (force simp: typed_ent_def)
  have ok': "rec_ok r" using rec_ok_in [OF m(3) q(1)] .
  have u: "RecordId rec = ?u" using q(3) nz by (simp add: rec_key_def rec)
  have e2: "enumerated (RdrType rec)"
    using tr by (cases "RdrType rec") (auto simp: typed_rec_def info_at_def rec enumerated_def)
  then have tn2: "rdr_type_num (RdrType rec) < 0x10000"
    by (cases "RdrType rec") (auto simp: enumerated_def)
  have n2: "oh_get_instrument_id rec < 0x10000" using tr by (simp add: typed_rec_def rec)
  have "oh_get_rdr_uid (RdrType rec) (oh_get_instrument_id rec) = ?u"
    using ok' u by (simp add: rec_ok_def rec)
  then have "unat (rdr_type_num (RdrType rec)) * 65536 + unat (oh_get_instrument_id rec) =
      unat (rdr_type_num ty) * 65536 + unat num"
    using unat_rdr_uid [OF n2 tn2] unat_rdr_uid [OF n tn(1)] by simp
  moreover have "unat (oh_get_instrument_id rec) < 65536" "unat num < 65536"
    using n n2 by (simp_all add: word_less_nat_alt)
  ultimately have "rdr_type_num (RdrType rec) = rdr_type_num ty"
    using digits_unique [of "unat (oh_get_instrument_id rec)" 65536 "unat num"] by (simp add: word_unat_eq_iff)
  then show t: "RdrType rec = ty"
    using ty e2 by (cases ty; cases "RdrType rec") (auto simp: enumerated_def)
  have d: "oh_get_rdr_data (rptcache h) rid (RecordId rec) = rdr_data r"
    using e r by (simp add: oh_get_rdr_data_def u)
  show "oh_get_rdr_data (rptcache h) rid (RecordId rec) \<in> info_at h ty"
    unfolding d using tr t by (simp add: typed_rec_def rec)
  have own: "\<not> rdr_owndata r" using tr by (simp add: typed_rec_def)
  have "rdr_data r \<in> set (held (rptcache h))" if "rdr_data r \<noteq> 0"
    using that own m(1) q(1) by (force simp: held_def held_ent_def held_rec_def free_data_def)
  moreover have "0 \<notin> set (freed (rptcache h))" using k(6) [of 0] by (auto simp: pointers_def)
  ultimately show "oh_get_rdr_data (rptcache h) rid (RecordId rec) \<notin> set (freed (rptcache h))"
    using k(5) by (cases "rdr_data r = 0") (auto simp: d pointers_def)
qed

lemma resource_typed:
  assumes ok: "sim_ok h" and g: "oh_get_resource_by_id (rptcache h) rid = Some r"
  shows "oh_get_resource_data (rptcache h) rid \<in> dom (resource_infos h) - set (freed (rptcache h))"
proof -
  note k = sim_okD [OF ok]
  from g obtain a e where e: "get_rptentry_by_rid (rptcache h) rid = Some (a, e)"
    by (auto simp: oh_get_resource_by_id_def split: option.splits)
  note m = get_rptentry_ents [OF k(1) e]
  have te: "\<not> ent_owndata e" "ent_data e \<in> dom (resource_infos h)"
    using k(2) [OF m(1)] by (simp_all add: typed_ent_def)
  then have "ent_data e \<noteq> 0" using k(3) by metis
  then have "ent_data e \<in> set (held (rptcache h))"
    using te m(1) by (force simp: held_def held_ent_def free_data_def)
  then show ?thesis
    using te k(5) e by (auto simp: pointers_def oh_get_resource_data_def)
qed

lemma rdr_has_resource:
  "oh_get_rdr_by_type t rid ty num = Some rec \<Longrightarrow> \<exists>r. oh_get_resource_by_id t rid = Some r"
  by (auto simp: oh_get_rdr_by_type_def oh_get_resource_by_id_def split: option.splits)

text \<open>C10: In every instance of the simulator that its functions can reach, from \<open>sim_open\<close> on and with
  instrument numbers below 0x10000 in the tables, the record that a function finds for a type and a
  number below 0x10000 has that type; the private data of its resource is a resource structure,
  allocated and never freed; and its own private data was never freed and is, for sensors, controls,
  watchdogs and inventories, an allocated structure of the kind that the functions cast it to, and
  for annunciators NULL (one without announcements has none) or such a structure. Of the private
  data of diagnostic and firmware records, which no function reads, only the former is claimed.\<close>

theorem private_data_typed:
  assumes "sim_reachable h" and "enumerated ty" and "num < 0x10000"
    and "oh_get_rdr_by_type (rptcache h) rid ty num = Some rec"
  shows "RdrType rec = ty \<and>
    oh_get_resource_data (rptcache h) rid \<in> dom (resource_infos h) - set (freed (rptcache h)) \<and>
    (let p = oh_get_rdr_data (rptcache h) rid (RecordId rec) in
       p \<notin> set (freed (rptcache h)) \<and>
       (case ty of
          SAHPI_SENSOR_RDR \<Rightarrow> p \<in> dom (sensor_infos h)
        | SAHPI_CTRL_RDR \<Rightarrow> p \<in> dom (control_infos h)
        | SAHPI_WATCHDOG_RDR \<Rightarrow> p \<in> dom (watchdog_infos h)
        | SAHPI_INVENTORY_RDR \<Rightarrow> p \<in> dom (inventory_infos h)
        | SAHPI_ANNUNCIATOR_RDR \<Rightarrow> p = 0 \<or> p \<in> dom (annunciator_infos h)
        | _ \<Rightarrow> True))"
proof -
  have ok: "sim_ok h" by (rule sim_reachable_ok [OF assms(1)])
  obtain r where r: "oh_get_resource_by_id (rptcache h) rid = Some r"
    using rdr_has_resource [OF assms(4)] by blast
  note t = rdr_by_type_typed [OF ok assms(4,3,2)]
  show ?thesis
    using t resource_typed [OF ok r] by (cases ty) (simp_all add: Let_def info_at_def)
qed

text \<open>A chassis with inventory data of number 3.\<close>

definition demo_inventory :: sim_inventory where
  "demo_inventory = \<lparr>t_inventory = (RdrTypeUnion zero_rdr)\<lparr>Num := 3\<rparr>,
     t_inventory_info = \<lparr>nextareaid = 1,
       idrinfo = \<lparr>ii_IdrId = 3, ii_UpdateCount = 0, ii_ReadOnly = False, NumAreas = 0\<rparr>, area = []\<rparr>,
     inventory_comment = []\<rparr>"

definition demo_part :: sim_part where
  "demo_part = \<lparr>part_rpt = \<lparr>t_rpt = zero_rpt_entry\<lparr>ResourceEntity := mk_ep [(7, 1)],
       ResourceCapabilities := SAHPI_CAPABILITY_RESOURCE OR SAHPI_CAPABILITY_RDR OR
         SAHPI_CAPABILITY_INVENTORY_DATA OR SAHPI_CAPABILITY_MANAGED_HOTSWAP\<rparr>, t_comment = None\<rparr>,
     part_sensors = [], part_controls = [], part_annunciators = [], part_watchdogs = [],
     part_inventory = [demo_inventory], part_dimis = [], part_fumis = []\<rparr>"

definition demo_instance :: sim_handler where
  "demo_instance = new_instance 7 Map.empty ''{RACK,1}''"

definition demo_sim :: sim_handler where
  "demo_sim = fst (snd (sim_discover io_demo zero_ep (\<lambda>_ _. 5) [demo_part] (demo_instance, uid_demo)))"

lemma demo_sim_reachable: "sim_reachable demo_sim"
proof -
  have p: "list_all part_ok [demo_part]"
    by (simp add: part_ok_def demo_part_def demo_inventory_def)
  obtain rv h' us' where c: "sim_discover io_demo zero_ep (\<lambda>_ _. 5) [demo_part] (demo_instance, uid_demo) = (rv, h', us')"
    by (metis prod.exhaust)
  have "sim_step demo_instance h'" by (rule sim_step.discover [OF p c])
  then show ?thesis using c unfolding sim_reachable_def demo_sim_def demo_instance_def by auto
qed

text \<open>The evaluation in two steps: the resource, then its record.\<close>

definition demo_found :: "SaErrorT \<times> oh_event option \<times> sim_handler option \<times> uid_state" where
  "demo_found = sim_inject_resource io_demo zero_ep 5 5 (Some demo_instance) (Some (part_rpt demo_part)) 0 True uid_demo"

definition demo_recorded :: "oh_event \<times> sim_handler" where
  "demo_recorded = snd (new_inventory demo_inventory (the (fst (snd demo_found))) (the (fst (snd (snd demo_found)))))"

lemma demo_found_ok:
  "demo_found = (SA_OK, Some (the (fst (snd demo_found))), Some (the (fst (snd (snd demo_found)))), snd (snd (snd demo_found)))"
proof -
  have "fst demo_found = SA_OK" by code_simp
  then show ?thesis
    by (auto simp: demo_found_def sim_inject_resource_def Let_def split: prod.splits if_splits)
qed

definition demo_found_event :: oh_event where
  "demo_found_event = (fst demo_recorded)\<lparr>e_hid := sim_hid (snd demo_recorded)\<rparr>"

lemma demo_part_eq:
  "sim_discover_part io_demo zero_ep (\<lambda>_. 5) demo_part (demo_instance, uid_demo) =
     (push demo_found_event (snd demo_recorded), snd (snd (snd demo_found)))"
proof -
  have t: "\<not> Num (t_inventory demo_inventory) = 0" by (simp add: demo_inventory_def)
  have p: "part_sensors demo_part = []" "part_controls demo_part = []" "part_annunciators demo_part = []"
    "part_watchdogs demo_part = []" "part_inventory demo_part = [demo_inventory]"
    "part_dimis demo_part = []" "part_fumis demo_part = []"
    by (simp_all add: demo_part_def)
  obtain e h where r: "demo_recorded = (e, h)" by force
  have f: "sim_inject_resource io_demo zero_ep 5 5 (Some demo_instance) (Some (part_rpt demo_part)) 0 True uid_demo =
      (SA_OK, Some (the (fst (snd demo_found))), Some (the (fst (snd (snd demo_found)))), snd (snd (snd demo_found)))"
    using demo_found_ok by (simp add: demo_found_def)
  show ?thesis
    using r t unfolding demo_found_event_def demo_recorded_def
    by (simp add: sim_discover_part_def f p discover_defs sim_inject_event_def)
qed

lemma demo_sim_eq: "demo_sim = (push demo_found_event (snd demo_recorded))\<lparr>discovered := True\<rparr>"
proof -
  have n: "discovered demo_instance = False" by (simp add: demo_instance_def new_instance_def)
  show ?thesis by (simp add: demo_sim_def sim_discover_def n demo_part_eq)
qed

lemma demo_sim_cache [simp]:
  "rptcache demo_sim = rptcache (snd demo_recorded)" "resource_infos demo_sim = resource_infos (snd demo_recorded)"
  by (simp_all add: demo_sim_eq push_def)

definition demo_facts ::
    "oh_event \<times> sim_handler \<Rightarrow> (u32 option \<times> bool option \<times> SaHpiHsStateT option) \<times> u32 \<times> bool \<times> bool \<times> nat"
where
  "demo_facts s =
     ((map_option RecordId (oh_get_rdr_by_type (rptcache (snd s)) 1 SAHPI_INVENTORY_RDR 3),
       map_option (\<lambda>r. lacks r SAHPI_CAPABILITY_MANAGED_HOTSWAP) (oh_get_resource_by_id (rptcache (snd s)) 1),
       map_option cur_hsstate (resource_infos (snd s) (oh_get_resource_data (rptcache (snd s)) 1))),
      ResourceId (e_resource (fst s)), lacks (e_resource (fst s)) SAHPI_CAPABILITY_FRU,
      lacks (e_resource (fst s)) SAHPI_CAPABILITY_RESOURCE, length (eventq (snd s)))"

lemma demo_sim_facts:
  "demo_facts demo_recorded = ((Some 0x30003, Some False, Some SAHPI_HS_STATE_ACTIVE), 1, True, False, 0)"
  by code_simp

lemma demo_sim_rdr:
  "map_option RecordId (oh_get_rdr_by_type (rptcache demo_sim) 1 SAHPI_INVENTORY_RDR 3) = Some 0x30003"
  using demo_sim_facts by (simp add: demo_facts_def)

lemma demo_sim_managed:
  "map_option (\<lambda>r. lacks r SAHPI_CAPABILITY_MANAGED_HOTSWAP) (oh_get_resource_by_id (rptcache demo_sim) 1) = Some False"
  "map_option cur_hsstate (resource_infos demo_sim (oh_get_resource_data (rptcache demo_sim) 1)) = Some SAHPI_HS_STATE_ACTIVE"
  using demo_sim_facts by (simp_all add: demo_facts_def)

theorem private_data_typed_witness:
  "oh_get_rdr_data (rptcache demo_sim) 1 0x30003 \<in> dom (inventory_infos demo_sim) \<and>
   oh_get_rdr_data (rptcache demo_sim) 1 0x30003 \<notin> set (freed (rptcache demo_sim))"
proof -
  obtain rec where "oh_get_rdr_by_type (rptcache demo_sim) 1 SAHPI_INVENTORY_RDR 3 = Some rec"
      "RecordId rec = 0x30003" using demo_sim_rdr by auto
  then show ?thesis
    using private_data_typed [OF demo_sim_reachable, of SAHPI_INVENTORY_RDR 3 1 rec]
    by (simp add: enumerated_def Let_def)
qed

end
