(* ===== verification/SimBehaviour.thy ===== *)
theory SimBehaviour
  imports HpiBehaviour SimProps EventTable
begin

text \<open>
  The daemon with the simulator as its plugin: what the HPI functions do with the functions of an
  instance. An instance \<open>s\<close> takes the place of the plugin functions that the HPI functions
  have as parameters; what a plugin function does not write keeps the value \<open>junk\<close> that the caller
  had there.
\<close>

section \<open>The instance behind the HPI functions\<close>

definition given :: "'a \<Rightarrow> SaErrorT \<times> 'a option \<Rightarrow> SaErrorT \<times> 'a" where
  "given junk r = (fst r, case snd r of None \<Rightarrow> junk | Some v \<Rightarrow> v)"

lemma given_simps [simp]: "given junk (e, Some v) = (e, v)" "given junk (e, None) = (e, junk)"
  by (simp_all add: given_def)

section \<open>Record numbers of more than 16 bits\<close>

lemma rdr_number_alias:
  "oh_get_rdr_by_type t rid SAHPI_SENSOR_RDR (n + 0x10000) = oh_get_rdr_by_type t rid SAHPI_INVENTORY_RDR n"
proof -
  have "oh_get_rdr_uid SAHPI_SENSOR_RDR (n + 0x10000) = oh_get_rdr_uid SAHPI_INVENTORY_RDR n"
    by (simp add: oh_get_rdr_uid_def push_bit_eq_mult)
  then show ?thesis unfolding oh_get_rdr_by_type_def by (rule arg_cong)
qed

text \<open>C13: A sensor number of \<open>n\<close> + 0x10000 is taken for inventory record \<open>n\<close>: when the domain and an instance
  of the simulator have such a record, \<open>saHpiSensorReadingGet\<close> passes the call on to the instance,
  which finds the inventory record, and what it then reads as the state of a sensor is the
  structure of the inventory.\<close>

theorem wrong_private_data:
  assumes "open_session st sid d" and "answers st d rid r a h"
    and "has_fn (plug st) h ''get_sensor_reading''" and "\<not> lacks r SAHPI_CAPABILITY_SENSOR"
    and "oh_get_rdr_by_type (d_rpt (dom_at st d)) rid SAHPI_INVENTORY_RDR n = Some x"
    and "sim_reachable s" and "n < 0x10000"
    and "oh_get_rdr_by_type (rptcache s) rid SAHPI_INVENTORY_RDR n = Some y"
  shows "calls (plug (snd (saHpiSensorReadingGet get sid rid (n + 0x10000) Reading EventState st))) =
      calls (plug st) @ [(hnd h, ''get_sensor_reading'', rid)] \<and>
    oh_get_rdr_by_type (rptcache s) rid SAHPI_SENSOR_RDR (n + 0x10000) = Some y \<and>
    RdrType y = SAHPI_INVENTORY_RDR \<and>
    oh_get_rdr_data (rptcache s) rid (RecordId y) \<in> dom (inventory_infos s)"
proof -
  have "enumerated SAHPI_INVENTORY_RDR" by (simp add: enumerated_def)
  note t = rdr_by_type_typed [OF sim_reachable_ok [OF assms(6)] assms(8,7) this]
  have "saHpiSensorReadingGet get sid rid (n + 0x10000) Reading EventState st =
    ((fst (get rid (n + 0x10000) Reading EventState),
      Some (clear_unsupported (fst (get rid (n + 0x10000) Reading EventState))
        (snd (get rid (n + 0x10000) Reading EventState)))),
     called (hnd h) ''get_sensor_reading'' rid st)"
    using assms(4,5)
    by (simp add: saHpiSensorReadingGet_def fail_if_def enter [OF assms(1)] RDR_GET_def
        rdr_number_alias dom_at_hold [OF assms(1)]
        resource_checked [OF assms(1,2)] plugin_answer [OF assms(1,2,3)] release_handler_def ret_def
        put_called [OF assms(2)])
  then show ?thesis using t assms(8) by (simp add: rdr_number_alias info_at_def)
qed

text \<open>A daemon whose domain has the resource of the simulated chassis and its record.\<close>

definition demo_domain_of :: "SaHpiRptEntryT \<Rightarrow> SaHpiRdrT \<Rightarrow> string list \<Rightarrow> hpi" where
  "demo_domain_of r x fns =
     (let t = snd (snd (oh_add_resource 1 (snd (oh_init_rpt zero_rpt)) r 100 False));
          t = snd (snd (oh_add_rdr t (ResourceId r) x 0 False))
      in demo_hpi\<lparr>dmn := (dmn demo_hpi)\<lparr>dom_heap := [0 \<mapsto> (demo_domain 0)\<lparr>d_rpt := t\<rparr>]\<rparr>,
           plug := demo_plugins\<lparr>plugins := [0 \<mapsto> \<lparr>p_name = ''demo'', p_abi = fns,
             handler_count = 1, p_refcount = 0\<rparr>]\<rparr>\<rparr>)"

lemma demo_domain_of_session: "open_session (demo_domain_of r x fns) 1 0"
proof -
  have "refcount (dmn (demo_domain_of r x fns)) 0 = 0" "session_dom (demo_domain_of r x fns) 1 = Some 0"
    "fst (oh_get_session_subscription (dmn (demo_domain_of r x fns)) 1) = SA_OK" by code_simp+
  then show ?thesis
    by (simp add: open_session_def demo_domain_of_def demo_hpi_def Let_def)
qed

definition demo_sensor_hpi :: hpi where
  "demo_sensor_hpi = demo_domain_of
     (zero_rpt_entry\<lparr>ResourceId := 1, ResourceCapabilities := SAHPI_CAPABILITY_SENSOR\<rparr>)
     (demo_rdr SAHPI_INVENTORY_RDR 3) [''get_sensor_reading'']"

lemma answersI:
  assumes "map_option (\<lambda>r. P r \<and> \<not> ResourceFailed r) (oh_get_resource_by_id (d_rpt (dom_at st d)) rid) = Some True"
    and "resource_hid st d rid = Some hid" and "handler_table (plug st) hid = Some a"
    and "map_option (\<lambda>h. Q h \<and> hnd h \<noteq> 0 \<and> 0 \<le> h_refcount h) (handlers (plug st) a) = Some True"
  obtains r h where "answers st d rid r a h" and "P r" and "Q h"
  using assms by (auto simp: answers_def)

theorem wrong_private_data_witness:
  "calls (plug (snd (saHpiSensorReadingGet (\<lambda>_ _ _ _. (SA_OK, None, None)) 1 1 0x10003 None None demo_sensor_hpi))) =
     [(42, ''get_sensor_reading'', 1)] \<and>
   oh_get_rdr_data (rptcache demo_sim) 1 0x30003 \<in> dom (inventory_infos demo_sim)"
proof -
  have "map_option (\<lambda>r. \<not> lacks r SAHPI_CAPABILITY_SENSOR \<and> \<not> ResourceFailed r)
      (oh_get_resource_by_id (d_rpt (dom_at demo_sensor_hpi 0)) 1) = Some True"
    "resource_hid demo_sensor_hpi 0 1 = Some 7" "handler_table (plug demo_sensor_hpi) 7 = Some 0"
    "map_option (\<lambda>h. (hnd h = 42 \<and> has_fn (plug demo_sensor_hpi) h ''get_sensor_reading'') \<and>
       hnd h \<noteq> 0 \<and> 0 \<le> h_refcount h) (handlers (plug demo_sensor_hpi) 0) = Some True"
    by code_simp+
  then obtain r h where a: "answers demo_sensor_hpi 0 1 r 0 h" "\<not> lacks r SAHPI_CAPABILITY_SENSOR"
      "hnd h = 42 \<and> has_fn (plug demo_sensor_hpi) h ''get_sensor_reading''" by (rule answersI)
  have "map_option RecordId (oh_get_rdr_by_type (d_rpt (dom_at demo_sensor_hpi 0)) 1 SAHPI_INVENTORY_RDR 3) =
      Some 0x30003" by code_simp
  then obtain x where x: "oh_get_rdr_by_type (d_rpt (dom_at demo_sensor_hpi 0)) 1 SAHPI_INVENTORY_RDR 3 = Some x" by auto
  obtain y where y: "oh_get_rdr_by_type (rptcache demo_sim) 1 SAHPI_INVENTORY_RDR 3 = Some y" "RecordId y = 0x30003"
    using demo_sim_rdr by auto
  have c: "calls (plug demo_sensor_hpi) = []" by code_simp
  have o: "open_session demo_sensor_hpi 1 0" unfolding demo_sensor_hpi_def by (rule demo_domain_of_session)
  show ?thesis
    using wrong_private_data [OF o a(1) _ a(2) x demo_sim_reachable _ y(1)] a(3) c y(2) by simp
qed

section \<open>Hot swap\<close>

text \<open>What the simulator answers and does for the hot swap functions of the daemon.\<close>

definition sim_hs_get :: "SaHpiHsStateT \<Rightarrow> sim_handler \<Rightarrow> u32 \<Rightarrow> SaErrorT \<times> SaHpiHsStateT" where
  "sim_hs_get junk s rid = given junk (sim_get_hotswap_state (Some s) rid True)"

definition sim_hs_set :: "sim_handler \<Rightarrow> u32 \<Rightarrow> SaHpiHsStateT \<Rightarrow> SaErrorT" where
  "sim_hs_set s rid new = fst (sim_set_hotswap_state (Some s) rid new)"

text \<open>A managed resource of a reachable instance has a hot swap state.\<close>

lemma sim_hs_known:
  assumes "sim_reachable s" and "oh_get_resource_by_id (rptcache s) rid = Some r"
    and "\<not> lacks r SAHPI_CAPABILITY_MANAGED_HOTSWAP"
  obtains p i where "oh_get_resource_data (rptcache s) rid = p" and "resource_infos s p = Some i"
    and "sim_get_hotswap_state (Some s) rid True = (SA_OK, Some (cur_hsstate i))"
    and "\<And>hs. oh_lookup_hsstate (hsstate_num hs) \<noteq> None \<Longrightarrow>
      sim_set_hotswap_state (Some s) rid hs =
        (if sim_transition (cur_hsstate i) hs
         then (SA_OK, Some (put_resource_info p (i\<lparr>cur_hsstate := hs\<rparr>) s))
         else (SA_ERR_HPI_INVALID_REQUEST, Some s))"
proof -
  obtain i where i: "resource_infos s (oh_get_resource_data (rptcache s) rid) = Some i"
    using resource_typed [OF sim_reachable_ok [OF assms(1)] assms(2)] by auto
  show ?thesis
    by (rule that [OF refl i])
      (use i assms(2,3) in \<open>auto simp: sim_get_hotswap_state_def sim_set_hotswap_state_def on_resource_def
        resource_info_def unchanged_def Let_def\<close>)
qed

lemma sim_hs_after:
  assumes "oh_get_resource_by_id (rptcache s) rid = Some r" and "\<not> lacks r SAHPI_CAPABILITY_MANAGED_HOTSWAP"
    and "oh_get_resource_data (rptcache s) rid = p"
  shows "sim_get_hotswap_state (Some (put_resource_info p (i\<lparr>cur_hsstate := hs\<rparr>) s)) rid True = (SA_OK, Some hs)"
  using assms by (simp add: sim_get_hotswap_state_def on_resource_def resource_info_def put_resource_info_def)

text \<open>C11: Activation and deactivation with the simulator behind the daemon: a managed resource whose
  insertion or extraction is pending gets the state that is asked for, with two calls of the
  plugin, and a resource in any other state is refused and keeps it. So what the daemon's table of
  transitions lets through, the simulator's own table never refuses.\<close>

theorem sim_activation:
  assumes "open_session st sid d" and "answers st d rid r a h" and "managed r"
    and "has_fn (plug st) h ''get_hotswap_state''" and "has_fn (plug st) h ''set_hotswap_state''"
    and "sim_reachable s" and "oh_get_resource_by_id (rptcache s) rid = Some r'"
    and "\<not> lacks r' SAHPI_CAPABILITY_MANAGED_HOTSWAP"
    and "sim_get_hotswap_state (Some s) rid True = (SA_OK, Some hs)"
    and "pending = (hs = SAHPI_HS_STATE_INSERTION_PENDING \<or> hs = SAHPI_HS_STATE_EXTRACTION_PENDING)"
    and "(f, new) \<in> {(saHpiResourceActiveSet, SAHPI_HS_STATE_ACTIVE), (saHpiResourceInactiveSet, SAHPI_HS_STATE_INACTIVE)}"
  shows "fst (fst (f (sim_hs_get junk s) (sim_hs_set s) sid rid st)) =
      (if pending then SA_OK else SA_ERR_HPI_INVALID_REQUEST) \<and>
    calls (plug (snd (f (sim_hs_get junk s) (sim_hs_set s) sid rid st))) = calls (plug st) @
      (if pending then [(hnd h, ''get_hotswap_state'', rid), (hnd h, ''set_hotswap_state'', rid)]
       else [(hnd h, ''get_hotswap_state'', rid)]) \<and>
    (pending \<longrightarrow> sim_get_hotswap_state (snd (sim_set_hotswap_state (Some s) rid new)) rid True = (SA_OK, Some new))"
proof -
  obtain p i where i: "oh_get_resource_data (rptcache s) rid = p"
      "sim_get_hotswap_state (Some s) rid True = (SA_OK, Some (cur_hsstate i))"
      "\<And>hs. oh_lookup_hsstate (hsstate_num hs) \<noteq> None \<Longrightarrow>
        sim_set_hotswap_state (Some s) rid hs =
          (if sim_transition (cur_hsstate i) hs
           then (SA_OK, Some (put_resource_info p (i\<lparr>cur_hsstate := hs\<rparr>) s))
           else (SA_ERR_HPI_INVALID_REQUEST, Some s))"
    using sim_hs_known [OF assms(6-8)] by metis
  have hs: "cur_hsstate i = hs" using i(2) assms(9) by simp
  have f: "f (sim_hs_get junk s) (sim_hs_set s) sid rid st =
      hotswap_answer (sim_hs_get junk s) (sim_hs_set s) new (hnd h) rid st"
    using hot_swap_answers [OF assms(1-5)] assms(11) by auto
  have n: "new = SAHPI_HS_STATE_ACTIVE \<or> new = SAHPI_HS_STATE_INACTIVE" using assms(11) by auto
  have "oh_lookup_hsstate 2 \<noteq> None" "oh_lookup_hsstate 0 \<noteq> None" by code_simp+
  then have l: "oh_lookup_hsstate (hsstate_num new) \<noteq> None" using n by auto
  have set: "sim_set_hotswap_state (Some s) rid new =
      (SA_OK, Some (put_resource_info p (i\<lparr>cur_hsstate := new\<rparr>) s))" if pending
    using i(3) [OF l] n that assms(10) hs by auto
  have get: "sim_hs_get junk s rid = (SA_OK, hs)" using assms(9) by (simp add: sim_hs_get_def)
  show ?thesis
    unfolding f using assms(10) set get sim_hs_after [OF assms(7,8) i(1)]
    by (auto simp: hotswap_answer_def sim_hs_set_def)
qed

text \<open>The chassis of the demonstration, with its extraction pending.\<close>

definition demo_extracting :: sim_handler where
  "demo_extracting = the (snd (sim_set_hotswap_state (Some demo_sim) 1 SAHPI_HS_STATE_EXTRACTION_PENDING))"

lemma demo_extracting_state:
  "sim_reachable demo_extracting"
  "sim_get_hotswap_state (Some demo_extracting) 1 True = (SA_OK, Some SAHPI_HS_STATE_EXTRACTION_PENDING)"
  "\<exists>r. oh_get_resource_by_id (rptcache demo_extracting) 1 = Some r \<and> \<not> lacks r SAHPI_CAPABILITY_MANAGED_HOTSWAP"
proof -
  obtain r where r: "oh_get_resource_by_id (rptcache demo_sim) 1 = Some r" "\<not> lacks r SAHPI_CAPABILITY_MANAGED_HOTSWAP"
    using demo_sim_managed(1) by auto
  obtain p i where i: "oh_get_resource_data (rptcache demo_sim) 1 = p" "resource_infos demo_sim p = Some i"
      "\<And>hs. oh_lookup_hsstate (hsstate_num hs) \<noteq> None \<Longrightarrow>
        sim_set_hotswap_state (Some demo_sim) 1 hs =
          (if sim_transition (cur_hsstate i) hs
           then (SA_OK, Some (put_resource_info p (i\<lparr>cur_hsstate := hs\<rparr>) demo_sim))
           else (SA_ERR_HPI_INVALID_REQUEST, Some demo_sim))"
    using sim_hs_known [OF demo_sim_reachable r] by metis
  have "cur_hsstate i = SAHPI_HS_STATE_ACTIVE" using demo_sim_managed(2) i(1,2) by simp
  moreover have "oh_lookup_hsstate 3 \<noteq> None" by code_simp
  ultimately have s: "sim_set_hotswap_state (Some demo_sim) 1 SAHPI_HS_STATE_EXTRACTION_PENDING =
      (SA_OK, Some (put_resource_info p (i\<lparr>cur_hsstate := SAHPI_HS_STATE_EXTRACTION_PENDING\<rparr>) demo_sim))"
    using i(3) [of SAHPI_HS_STATE_EXTRACTION_PENDING] by simp
  then have e: "demo_extracting = put_resource_info p (i\<lparr>cur_hsstate := SAHPI_HS_STATE_EXTRACTION_PENDING\<rparr>) demo_sim"
    by (simp add: demo_extracting_def)
  show "sim_reachable demo_extracting"
    using demo_sim_reachable sim_step.set_hotswap [OF s] unfolding sim_reachable_def e
    by (meson rtranclp.rtrancl_into_rtrancl)
  show "sim_get_hotswap_state (Some demo_extracting) 1 True = (SA_OK, Some SAHPI_HS_STATE_EXTRACTION_PENDING)"
    unfolding e by (rule sim_hs_after [OF r i(1)])
  show "\<exists>r. oh_get_resource_by_id (rptcache demo_extracting) 1 = Some r \<and> \<not> lacks r SAHPI_CAPABILITY_MANAGED_HOTSWAP"
    using r by (simp add: e put_resource_info_def)
qed

definition demo_managed_hpi :: hpi where
  "demo_managed_hpi = demo_domain_of
     (zero_rpt_entry\<lparr>ResourceId := 1,
        ResourceCapabilities := SAHPI_CAPABILITY_FRU OR SAHPI_CAPABILITY_MANAGED_HOTSWAP\<rparr>)
     (demo_rdr SAHPI_INVENTORY_RDR 3) [''get_hotswap_state'', ''set_hotswap_state'']"

theorem sim_activation_witness:
  "fst (fst (saHpiResourceInactiveSet (sim_hs_get SAHPI_HS_STATE_ACTIVE demo_extracting)
     (sim_hs_set demo_extracting) 1 1 demo_managed_hpi)) = SA_OK \<and>
   sim_get_hotswap_state (snd (sim_set_hotswap_state (Some demo_extracting) 1 SAHPI_HS_STATE_INACTIVE)) 1 True =
     (SA_OK, Some SAHPI_HS_STATE_INACTIVE)"
proof -
  have "map_option (\<lambda>r. managed r \<and> \<not> ResourceFailed r)
      (oh_get_resource_by_id (d_rpt (dom_at demo_managed_hpi 0)) 1) = Some True"
    "resource_hid demo_managed_hpi 0 1 = Some 7" "handler_table (plug demo_managed_hpi) 7 = Some 0"
    "map_option (\<lambda>h. (has_fn (plug demo_managed_hpi) h ''get_hotswap_state'' \<and>
       has_fn (plug demo_managed_hpi) h ''set_hotswap_state'') \<and>
       hnd h \<noteq> 0 \<and> 0 \<le> h_refcount h) (handlers (plug demo_managed_hpi) 0) = Some True"
    by code_simp+
  then obtain r h where a: "answers demo_managed_hpi 0 1 r 0 h" "managed r"
      "has_fn (plug demo_managed_hpi) h ''get_hotswap_state'' \<and> has_fn (plug demo_managed_hpi) h ''set_hotswap_state''"
    by (rule answersI)
  obtain r' where r': "oh_get_resource_by_id (rptcache demo_extracting) 1 = Some r'"
      "\<not> lacks r' SAHPI_CAPABILITY_MANAGED_HOTSWAP" using demo_extracting_state(3) by blast
  have o: "open_session demo_managed_hpi 1 0" unfolding demo_managed_hpi_def by (rule demo_domain_of_session)
  show ?thesis
    using sim_activation [OF o a(1,2) _ _ demo_extracting_state(1) r' demo_extracting_state(2), of True
        saHpiResourceInactiveSet SAHPI_HS_STATE_INACTIVE SAHPI_HS_STATE_ACTIVE] a(3) by simp
qed

section \<open>Thresholds\<close>

definition sim_th_get :: "SaHpiSensorThresholdsT \<Rightarrow> sim_handler \<Rightarrow> u32 \<Rightarrow> u32 \<Rightarrow> SaErrorT \<times> SaHpiSensorThresholdsT" where
  "sim_th_get junk s rid num = given junk (sim_get_sensor_thresholds (Some s) rid num True)"

definition sim_th_set :: "sim_handler \<Rightarrow> u32 \<Rightarrow> u32 \<Rightarrow> SaHpiSensorThresholdsT \<Rightarrow> SaErrorT" where
  "sim_th_set s rid num th = fst (sim_set_sensor_thresholds (Some s) rid num (Some th))"

lemmas th_defs = sim_get_sensor_thresholds_def sim_set_sensor_thresholds_def on_sensor_def on_resource_def
  on_record_def rdr_info_def no_value_def unchanged_def put_sensor_def

text \<open>What was set is read, and nothing else has changed for the functions of the sensor.\<close>

lemma sim_th_set_get:
  assumes "sim_get_sensor_thresholds (Some s) rid num True = (SA_OK, v)"
    and "fst (sim_set_sensor_thresholds (Some s) rid num (Some th)) = SA_OK"
  shows "v \<noteq> None \<and> (\<exists>s'. sim_set_sensor_thresholds (Some s) rid num (Some th) = (SA_OK, Some s') \<and>
    sim_get_sensor_thresholds (Some s') rid num True = (SA_OK, Some th))"
  using assms by (auto simp: th_defs Let_def split: option.splits if_splits)

text \<open>The function of the daemon, for a sensor with thresholds that can be read.\<close>

lemma thresholds_get_answer:
  assumes "open_session st sid d" and "answers st d rid r a h"
    and "has_fn (plug st) h ''get_sensor_thresholds''" and "\<not> lacks r SAHPI_CAPABILITY_SENSOR"
    and "oh_get_rdr_by_type (d_rpt (dom_at st d)) rid SAHPI_SENSOR_RDR num = Some x"
  shows "saHpiSensorThresholdsGet get sid rid num True st =
    (if \<not> IsAccessible (ThresholdDefn (sensor_rec x)) \<or> ReadThold (ThresholdDefn (sensor_rec x)) = 0
     then ((SA_ERR_HPI_INVALID_CMD, None), st)
     else ((fst (get rid num), Some (snd (get rid num))), called (hnd h) ''get_sensor_thresholds'' rid st))"
  using assms(4,5)
  by (auto simp: saHpiSensorThresholdsGet_def return_if_def fail_if_def enter [OF assms(1)] RDR_GET_def
      dom_at_hold [OF assms(1)] resource_checked [OF assms(1,2)] plugin_answer [OF assms(1,2,3)]
      release_handler_def ret_def put_called [OF assms(2)] leave [OF assms(1)])

text \<open>C12: Setting thresholds and reading them back, with the simulator behind the daemon: when
  \<open>saHpiSensorThresholdsSet\<close> succeeds, the plugin has been asked for the thresholds of the sensor
  and has then been given these with the ones that the client supports in their place, and a
  client that reads the thresholds afterwards gets exactly that.\<close>

theorem thresholds_set_get:
  assumes "open_session st sid d" and "answers st d rid r a h"
    and "has_fn (plug st) h ''get_sensor_thresholds''" and "has_fn (plug st) h ''set_sensor_thresholds''"
    and "saHpiSensorThresholdsSet (sim_th_get junk s) (sim_th_set s) sid rid num (Some new) st = ((SA_OK, out), st1)"
  shows "\<exists>old s'. sim_get_sensor_thresholds (Some s) rid num True = (SA_OK, Some old) \<and>
    sim_set_sensor_thresholds (Some s) rid num (Some (copy_th new old)) = (SA_OK, Some s') \<and>
    calls (plug st1) = calls (plug st) @
      [(hnd h, ''get_sensor_thresholds'', rid), (hnd h, ''set_sensor_thresholds'', rid)] \<and>
    fst (saHpiSensorThresholdsGet (sim_th_get junk' s') sid rid num True st1) = (SA_OK, Some (copy_th new old))"
proof -
  let ?g = "sim_th_get junk s rid num" and ?st = "called (hnd h) ''get_sensor_thresholds'' rid st"
  let ?th = "copy_th new (snd ?g)"
  have opn: "open_session (hold d st) sid d" using open_session_hold [OF assms(1)] .
  have ans: "answers (hold d st) d rid r a h" using answers_hold [OF assms(1)] assms(2) by simp
  have opn1: "open_session ?st sid d" and ans1: "answers ?st d rid r a h"
    using assms(1,2) by (simp_all add: open_session_called answers_called)
  have fn: "has_fn (plug (hold d st)) h ''get_sensor_thresholds''" "has_fn (plug ?st) h ''set_sensor_thresholds''"
    using assms(3,4) by (simp_all add: has_fn_def)
  note set = assms(5) [unfolded saHpiSensorThresholdsSet_def, simplified return_if_def fail_if_def
      enter [OF assms(1)] resource_checked [OF assms(1,2)] RDR_GET_def dom_at_hold [OF assms(1)] ret_def]
  have cap: "\<not> lacks r SAHPI_CAPABILITY_SENSOR" using set by (auto split: if_splits)
  obtain x where x: "oh_get_rdr_by_type (d_rpt (dom_at st d)) rid SAHPI_SENSOR_RDR num = Some x"
    using set cap by (cases "oh_get_rdr_by_type (d_rpt (dom_at st d)) rid SAHPI_SENSOR_RDR num") auto
  have x1: "oh_get_rdr_by_type (d_rpt (dom_at (hold d st) d)) rid SAHPI_SENSOR_RDR num = Some x"
    using x by (simp add: dom_at_hold [OF assms(1)])
  note get = thresholds_get_answer [OF opn ans fn(1) cap x1, of "sim_th_get junk s"]
  have acc: "IsAccessible (ThresholdDefn (sensor_rec x)) \<and> ReadThold (ThresholdDefn (sensor_rec x)) \<noteq> 0"
    and g: "fst ?g = SA_OK" and st1: "sim_th_set s rid num ?th = SA_OK \<and>
      st1 = called (hnd h) ''set_sensor_thresholds'' rid ?st"
    using set cap x get
    by (auto simp: call_hpi_def fail_if_def plugin_answer [OF opn1 ans1 fn(2)] release_handler_def ret_def
        put_called [OF ans1] split: if_splits)
  obtain v where v: "sim_get_sensor_thresholds (Some s) rid num True = (SA_OK, v)"
    using g by (metis fst_conv given_def prod.collapse sim_th_get_def)
  note sg = sim_th_set_get [OF v, of ?th]
  obtain old s' where o: "v = Some old" "sim_set_sensor_thresholds (Some s) rid num (Some ?th) = (SA_OK, Some s')"
      "sim_get_sensor_thresholds (Some s') rid num True = (SA_OK, Some ?th)"
    using sg st1 by (auto simp: sim_th_set_def)
  have old: "snd ?g = old" using v o(1) by (simp add: sim_th_get_def)
  have opn2: "open_session st1 sid d" and ans2: "answers st1 d rid r a h"
    using opn1 ans1 st1 by (simp_all add: open_session_called answers_called)
  have fn2: "has_fn (plug st1) h ''get_sensor_thresholds''" using assms(3) st1 by (simp add: has_fn_def)
  have x2: "oh_get_rdr_by_type (d_rpt (dom_at st1 d)) rid SAHPI_SENSOR_RDR num = Some x" using x st1 by simp
  show ?thesis
    using v o old st1 thresholds_get_answer [OF opn2 ans2 fn2 cap x2, of "sim_th_get junk' s'"] acc
    by (intro exI [of _ old] exI [of _ s']) (simp add: sim_th_get_def)
qed

text \<open>A sensor whose lower critical threshold can be read and written.\<close>

definition demo_sensor_rdr :: SaHpiRdrT where
  "demo_sensor_rdr = zero_rdr\<lparr>RdrType := SAHPI_SENSOR_RDR, RdrTypeUnion := \<lparr>Num = 3, RestOfRec =
     SensorRec (zero_sensor\<lparr>sn_Category := 1, DataFormat := (DataFormat zero_sensor)\<lparr>df_IsSupported := True\<rparr>,
       ThresholdDefn := \<lparr>IsAccessible = True, ReadThold = 0xFF, WriteThold = 0xFF, Nonlinear = False\<rparr>\<rparr>)\<rparr>\<rparr>"

definition low_critical :: "bool \<Rightarrow> u8 \<Rightarrow> SaHpiSensorThresholdsT" where
  "low_critical b low = \<lparr>LowCritical = zero_reading\<lparr>IsSupported := b, rd_Value := low # replicate 31 0\<rparr>,
     LowMajor = zero_reading, LowMinor = zero_reading, UpCritical = zero_reading, UpMajor = zero_reading,
     UpMinor = zero_reading, PosThdHysteresis = zero_reading, NegThdHysteresis = zero_reading\<rparr>"

definition demo_sensor_resource :: SaHpiRptEntryT where
  "demo_sensor_resource = zero_rpt_entry\<lparr>ResourceId := 1, ResourceCapabilities := SAHPI_CAPABILITY_SENSOR\<rparr>"

definition demo_sensor_sim :: sim_handler where
  "demo_sensor_sim =
     (let t = snd (snd (oh_add_resource 1 (snd (oh_init_rpt zero_rpt)) demo_sensor_resource 1 False));
          t = snd (snd (oh_add_rdr t 1 demo_sensor_rdr 2 False))
      in (new_instance 7 Map.empty [])\<lparr>rptcache := t, sensor_infos := [2 \<mapsto> \<lparr>cur_state = 0, sensor_enabled = True,
           events_enabled = False, assert_mask = 0, deassert_mask = 0, si_reading = zero_reading,
           si_thres = low_critical True 3\<rparr>]\<rparr>)"

definition demo_threshold_hpi :: hpi where
  "demo_threshold_hpi = demo_domain_of demo_sensor_resource demo_sensor_rdr
     [''get_sensor_thresholds'', ''set_sensor_thresholds'']"

theorem thresholds_set_get_witness:
  "fst (saHpiSensorThresholdsSet (sim_th_get (low_critical False 0) demo_sensor_sim) (sim_th_set demo_sensor_sim) 1 1 3
     (Some (low_critical True 5)) demo_threshold_hpi) = (SA_OK, None) \<and>
   (\<exists>old s'. sim_get_sensor_thresholds (Some demo_sensor_sim) 1 3 True = (SA_OK, Some old) \<and>
      fst (saHpiSensorThresholdsGet (sim_th_get (low_critical False 0) s') 1 1 3 True
        (snd (saHpiSensorThresholdsSet (sim_th_get (low_critical False 0) demo_sensor_sim) (sim_th_set demo_sensor_sim) 1 1 3
          (Some (low_critical True 5)) demo_threshold_hpi))) = (SA_OK, Some (copy_th (low_critical True 5) old)))"
proof -
  let ?call = "saHpiSensorThresholdsSet (sim_th_get (low_critical False 0) demo_sensor_sim) (sim_th_set demo_sensor_sim) 1 1 3
     (Some (low_critical True 5)) demo_threshold_hpi"
  have "map_option (\<lambda>r. True \<and> \<not> ResourceFailed r)
      (oh_get_resource_by_id (d_rpt (dom_at demo_threshold_hpi 0)) 1) = Some True"
    "resource_hid demo_threshold_hpi 0 1 = Some 7" "handler_table (plug demo_threshold_hpi) 7 = Some 0"
    "map_option (\<lambda>h. (has_fn (plug demo_threshold_hpi) h ''get_sensor_thresholds'' \<and>
       has_fn (plug demo_threshold_hpi) h ''set_sensor_thresholds'') \<and>
       hnd h \<noteq> 0 \<and> 0 \<le> h_refcount h) (handlers (plug demo_threshold_hpi) 0) = Some True"
    by code_simp+
  then obtain r h where a: "answers demo_threshold_hpi 0 1 r 0 h"
      "has_fn (plug demo_threshold_hpi) h ''get_sensor_thresholds'' \<and> has_fn (plug demo_threshold_hpi) h ''set_sensor_thresholds''"
    by (rule answersI)
  have o: "open_session demo_threshold_hpi 1 0" unfolding demo_threshold_hpi_def by (rule demo_domain_of_session)
  have "fst (fst ?call) = SA_OK \<and> snd (fst ?call) = None" by code_simp
  then have c: "?call = ((SA_OK, None), snd ?call)" by (metis prod.collapse)
  show ?thesis
    using thresholds_set_get [OF o a(1) _ _ c, of "low_critical False 0"] a(2) c by (metis fst_conv)
qed

end
