(* ===== verification/SimService.thy ===== *)
theory SimService
  imports SimBehaviour
begin

text \<open>
  More of the simulator: what deleting an area of inventory data leaves, what an instance that is
  closed tells the daemon and what it leaves behind, and that after discovery the domain of the
  daemon holds what the cache of the instance holds.
\<close>

section \<open>Deleting areas of inventory data\<close>

text \<open>Moving the elements behind \<open>i\<close> up by one, of the first \<open>n\<close>.\<close>

lemma copy_next:
  assumes "length ps = m"
  shows "(ps @ x # y # zs)[m := (ps @ x # y # zs) ! Suc m] = ps @ y # y # zs"
proof -
  have "(ps @ x # y # zs) ! Suc m = y" using assms by (simp add: nth_append)
  then show ?thesis using assms by (simp add: list_update_append)
qed

lemma move_up_eq:
  assumes "Suc i \<le> n" and "n \<le> length xs"
  shows "move_up i n xs = take i xs @ drop (Suc i) (take n xs) @ drop (n - 1) xs"
  using assms
proof (induction n rule: dec_induct)
  case base
  then show ?case by (simp add: move_up_def)
next
  case (step n)
  obtain m where m: "n = Suc m" using step.hyps(1) by (cases n) auto
  have l: "Suc m < length xs" "i \<le> m" using step m by simp_all
  let ?ps = "take i xs @ drop (Suc i) (take (Suc m) xs)"
  have ps: "length ?ps = m" using l by simp
  have d: "drop m xs = xs ! m # xs ! Suc m # drop (Suc (Suc m)) xs"
    using l by (simp add: Cons_nth_drop_Suc)
  have "move_up i (Suc n) xs = (?ps @ drop m xs)[m := (?ps @ drop m xs) ! Suc m]"
    using step m by (simp add: move_up_def)
  also have "\<dots> = ?ps @ xs ! Suc m # xs ! Suc m # drop (Suc (Suc m)) xs"
    unfolding d by (rule copy_next [OF ps])
  also have "\<dots> = take i xs @ drop (Suc i) (take (Suc n) xs) @ drop n xs"
    using l by (simp add: m take_Suc_conv_app_nth [of "Suc m"] Cons_nth_drop_Suc)
  finally show ?case by simp
qed

lemma delete_at_eq:
  assumes "k < n" and "n \<le> length xs" and "n < 2 ^ 32"
  shows "take (n - 1) (delete_at k (of_nat n) xs) =
    (if k + 2 = n then take (n - 1) xs else take k xs @ drop (Suc k) (take n xs))"
proof -
  have v: "unat (of_nat m :: u32) = m" if "m < 2 ^ 32" for m
    using that by (simp add: unsigned_of_nat take_bit_nat_eq_self)
  note u = v [OF assms(3)]
  show ?thesis
  proof (cases "n = 1")
    case True
    then have "k = 0" using assms(1) by simp
    then show ?thesis using True by (simp add: delete_at_def move_up_def)
  next
    case False
    then have n: "2 \<le> n" using assms(1) by simp
    then have w: "(of_nat n :: u32) - 2 = of_nat (n - 2)" by simp
    then have c: "of_nat k < (of_nat n :: u32) - 2 \<longleftrightarrow> k < n - 2"
      unfolding w word_less_nat_alt using v [of k] v [of "n - 2"] assms by (simp only:)
    consider "k < n - 2" | "k + 2 = n" | "k + 1 = n" using assms(1) n by linarith
    then show ?thesis
    proof cases
      case 1
      have l: "length (take k xs @ drop (Suc k) (take n xs)) = n - 1" using assms by simp
      have "take (n - 1) (move_up k n xs) = take k xs @ drop (Suc k) (take n xs)"
        using move_up_eq [of k n xs] assms l by simp
      moreover have "k + 2 \<noteq> n" using 1 by linarith
      moreover have "delete_at k (of_nat n) xs = move_up k n xs"
        unfolding delete_at_def u using 1 c by simp
      ultimately show ?thesis by simp
    next
      case 2
      then have "delete_at k (of_nat n) xs = xs" unfolding delete_at_def using c by auto
      then show ?thesis using 2 by simp
    next
      case 3
      then have "delete_at k (of_nat n) xs = xs" unfolding delete_at_def using c by auto
      then show ?thesis using 3 assms(2) by auto
    qed
  qed
qed

text \<open>The inventory data that a function works on, with their address.\<close>

definition inventory_at :: "sim_handler \<Rightarrow> u32 \<Rightarrow> u32 \<Rightarrow> (nat \<times> sim_inventory_info) option" where
  "inventory_at h rid idr = on_inventory (Some h) False rid idr (\<lambda>_. None) (\<lambda>_ p i. Some (p, i))"

lemmas inventory_defs = inventory_at_def on_inventory_def on_resource_def on_record_def rdr_info_def

lemma on_inventory_at:
  "inventory_at h rid idr = Some (p, i) \<Longrightarrow> on_inventory (Some h) False rid idr fail k = k h p i"
  by (auto simp: inventory_defs Let_def split: option.splits if_splits)

lemma inventory_at_put:
  "inventory_at h rid idr = Some (p, i) \<Longrightarrow> inventory_at (put_inventory p i' h) rid idr = Some (p, i')"
  by (auto simp: inventory_defs put_inventory_def Let_def split: option.splits if_splits)

text \<open>C15: Deleting an area of inventory data. When \<open>sim_del_idr_area\<close> succeeds, an area with the id that was
  asked for was there, and it is gone and the others are left in their order; but when it was the
  last but one, the last one is lost and the one that was to be deleted is still there.\<close>

theorem del_area_result:
  assumes "inventory_at h rid idr = Some (p, i)" and "unat (NumAreas (idrinfo i)) \<le> length (area i)"
    and "sim_del_idr_area (Some h) rid idr aid = (SA_OK, inst)" and "xs = used_areas i"
  shows "\<exists>h' i' k. inst = Some h' \<and> inventory_at h' rid idr = Some (p, i') \<and>
    k < length xs \<and> ah_AreaId (idrareahead (xs ! k)) = aid \<and>
    used_areas i' = (if k + 2 = length xs then butlast xs else take k xs @ drop (Suc k) xs)"
proof -
  let ?n = "NumAreas (idrinfo i)"
  have r: "(case find_index (\<lambda>a. aid = ah_AreaId (idrareahead a)) xs of
       None \<Rightarrow> unchanged (Some h) SA_ERR_HPI_NOT_PRESENT
     | Some k \<Rightarrow>
         if ah_ReadOnly (idrareahead (area i ! k)) then unchanged (Some h) SA_ERR_HPI_READ_ONLY
         else (SA_OK, Some (put_inventory p
           (i\<lparr>area := delete_at k ?n (area i), idrinfo := (idrinfo i)\<lparr>NumAreas := ?n - 1\<rparr>\<rparr>) h))) =
      (SA_OK, inst)"
    using assms(3) unfolding sim_del_idr_area_def on_inventory_at [OF assms(1)] assms(4) Let_def by simp
  then obtain k where k: "find_index (\<lambda>a. aid = ah_AreaId (idrareahead a)) xs = Some k"
    by (cases "find_index (\<lambda>a. aid = ah_AreaId (idrareahead a)) xs") (auto simp: unchanged_def)
  let ?i = "i\<lparr>area := delete_at k ?n (area i), idrinfo := (idrinfo i)\<lparr>NumAreas := ?n - 1\<rparr>\<rparr>"
  have inst: "inst = Some (put_inventory p ?i h)" using r k by (auto simp: unchanged_def split: if_splits)
  note f = find_index_Some [OF k]
  have l: "length xs = unat ?n" using assms(2,4) by (simp add: used_areas_def)
  have n: "unat ?n < 2 ^ 32" using unsigned_less [of ?n] by simp
  have pos: "0 < unat ?n" using f l by simp
  then have m: "unat (?n - 1) = unat ?n - 1" by (metis One_nat_def Suc_leI unat_1 unat_sub word_le_nat_alt)
  have "used_areas ?i = take (unat ?n - 1) (delete_at k (of_nat (unat ?n)) (area i))"
    by (simp add: used_areas_def m)
  also have "\<dots> = (if k + 2 = unat ?n then take (unat ?n - 1) (area i)
      else take k (area i) @ drop (Suc k) (take (unat ?n) (area i)))"
    using delete_at_eq [of k "unat ?n" "area i"] f l assms(2) n by simp
  also have "\<dots> = (if k + 2 = length xs then butlast xs else take k xs @ drop (Suc k) xs)"
    using f l assms(2) by (auto simp: assms(4) used_areas_def butlast_take min_def)
  finally show ?thesis using inst inventory_at_put [OF assms(1), of ?i] f by auto
qed

text \<open>Inventory data with the areas 1, 2 and 3.\<close>

definition demo_area :: "u32 \<Rightarrow> sim_idr_area" where
  "demo_area n = \<lparr>nextfieldid = 1, idrareahead = \<lparr>ah_AreaId = n, ah_Type = 0xB0, ah_ReadOnly = False,
     NumFields = 0\<rparr>, idr_field = []\<rparr>"

definition demo_areas :: sim_handler where
  "demo_areas =
     (let r = zero_rpt_entry\<lparr>ResourceId := 1, ResourceCapabilities := SAHPI_CAPABILITY_INVENTORY_DATA\<rparr>;
          t = snd (snd (oh_add_resource 1 (snd (oh_init_rpt zero_rpt)) r 1 False));
          t = snd (snd (oh_add_rdr t 1 (demo_rdr SAHPI_INVENTORY_RDR 3) 2 False))
      in (new_instance 7 Map.empty [])\<lparr>rptcache := t,
           inventory_infos := [2 \<mapsto> \<lparr>nextareaid = 4, idrinfo = \<lparr>ii_IdrId = 3, ii_UpdateCount = 0,
             ii_ReadOnly = False, NumAreas = 3\<rparr>, area = map demo_area [1, 2, 3]\<rparr>]\<rparr>)"

theorem del_area_result_witness:
  "fst (sim_del_idr_area (Some demo_areas) 1 3 2) = SA_OK \<and>
   map_option (\<lambda>q. map (\<lambda>a. ah_AreaId (idrareahead a)) (used_areas (snd q)))
     (inventory_at (the (snd (sim_del_idr_area (Some demo_areas) 1 3 2))) 1 3) = Some [1, 2]"
proof -
  have f: "map_option (\<lambda>q. (unat (NumAreas (idrinfo (snd q))), length (area (snd q)),
      map (\<lambda>a. ah_AreaId (idrareahead a)) (used_areas (snd q)))) (inventory_at demo_areas 1 3) = Some (3, 3, [1, 2, 3])"
    by code_simp
  then obtain p i where i: "inventory_at demo_areas 1 3 = Some (p, i)" "unat (NumAreas (idrinfo i)) \<le> length (area i)"
      "map (\<lambda>a. ah_AreaId (idrareahead a)) (used_areas i) = [1, 2, 3]" by auto
  have ok: "fst (sim_del_idr_area (Some demo_areas) 1 3 2) = SA_OK" by code_simp
  then obtain inst where c: "sim_del_idr_area (Some demo_areas) 1 3 2 = (SA_OK, inst)"
    by (metis prod.collapse)
  from del_area_result [OF i(1,2) c refl] obtain h' i' k where
    r: "inst = Some h'" "inventory_at h' 1 3 = Some (p, i')" "k < length (used_areas i)"
      "ah_AreaId (idrareahead (used_areas i ! k)) = 2"
      "used_areas i' = (if k + 2 = length (used_areas i) then butlast (used_areas i)
        else take k (used_areas i) @ drop (Suc k) (used_areas i))" by blast
  have l: "length (used_areas i) = 3" using i(3) by (metis length_map list.size(3,4) numeral_3_eq_3 One_nat_def add.commute plus_1_eq_Suc)
  have "map (\<lambda>a. ah_AreaId (idrareahead a)) (used_areas i) ! k = 2" using r(3,4) by simp
  then have "k = 1" using r(3) l unfolding i(3) by (auto simp: less_Suc_eq numeral_3_eq_3)
  then have "map (\<lambda>a. ah_AreaId (idrareahead a)) (used_areas i') = [1, 2]"
    using r(5) l i(3) by (simp add: map_butlast)
  then show ?thesis using c r(1,2) by simp
qed

section \<open>Closing an instance\<close>

definition removal :: "u32 \<Rightarrow> oh_event \<Rightarrow> bool" where
  "removal hid e \<longleftrightarrow> e_hid e = hid \<and> Source (e_event e) = ResourceId (e_resource e) \<and>
     EventDataUnion (e_event e) = ResourceEvent SAHPI_RESE_RESOURCE_REMOVED"

lemma removed_event_simps [simp]:
  "e_resource (removed_event hid t r) = r" "removal hid (removed_event hid t r)"
  by (simp_all add: removed_event_def removal_def)

lemma fold_removed:
  "map e_resource (fold (\<lambda>r es. removed_event hid (clk0 (length es)) r # es) rs es) = rev rs @ map e_resource es \<and>
   (list_all (removal hid) es \<longrightarrow>
     list_all (removal hid) (fold (\<lambda>r es. removed_event hid (clk0 (length es)) r # es) rs es))"
  by (induction rs arbitrary: es) simp_all

lemma close_events_all:
  assumes i: "rpt_inv (rptcache h)" and n: "length (resources (rptcache h)) \<le> n"
  shows "\<exists>es. close_events n clk0 h = Some es \<and>
    map e_resource es = rev (map snd (resources (rptcache h))) \<and> list_all (removal (sim_hid h)) es"
proof -
  let ?rs = "map snd (resources (rptcache h))"
  let ?es = "fold (\<lambda>r es. removed_event (sim_hid h) (clk0 (length es)) r # es) ?rs []"
  have "close_events n clk0 h = Some ?es"
    unfolding close_events_def rpt_list.next_first [OF i]
      rpt_list.for_entries_all [OF i resources_nz [OF i] n] fold_opt_total by (rule refl)
  then show ?thesis using fold_removed [of "sim_hid h" clk0 ?rs "[]"] by simp
qed

text \<open>C16: Closing an instance of the simulator returns when the walk over its cache may take as many passes
  as there are resources. It tells the daemon of every resource of the cache once, the last one
  first, that it is removed, and frees the instance. But the instance stays in the list that
  \<open>sim_get_handler_by_name\<close> searches: a search for a name that no instance before it has reads the
  freed memory, which is the result \<open>None\<close>.\<close>

theorem close_reports_all:
  assumes "sim_reachable h" and "instances st a = Some h" and "length (resources (rptcache h)) \<le> n"
    and "sim_handler_states st = as @ a # bs"
    and "list_all (\<lambda>b. b \<noteq> a \<and> (\<exists>g x. instances st b = Some g \<and> conf_name g = Some x \<and> x \<noteq> name)) as"
  shows "\<exists>es st'. sim_close n clk0 a st = Some (SA_OK, es, st') \<and>
    map e_resource es = rev (map snd (resources (rptcache h))) \<and> list_all (removal (sim_hid h)) es \<and>
    instances st' = (instances st)(a := None) \<and> sim_get_handler_by_name name st' = None"
proof -
  have i: "rpt_inv (rptcache h)" using sim_okD(1) [OF sim_reachable_ok [OF assms(1)]] .
  let ?st = "st\<lparr>instances := (instances st)(a := None)\<rparr>"
  obtain es where es: "close_events n clk0 h = Some es"
      "map e_resource es = rev (map snd (resources (rptcache h)))" "list_all (removal (sim_hid h)) es"
    using close_events_all [OF i assms(3)] by metis
  have "handler_by_name ((instances st)(a := None)) name (cs @ a # bs) = None"
    if "list_all (\<lambda>b. b \<noteq> a \<and> (\<exists>g x. instances st b = Some g \<and> conf_name g = Some x \<and> x \<noteq> name)) cs" for cs
    using that by (induction cs) auto
  then have "sim_get_handler_by_name name ?st = None"
    using assms(4,5) by (simp add: sim_get_handler_by_name_def)
  then show ?thesis using es assms(2) by (intro exI [of _ es] exI [of _ ?st]) (simp add: sim_close_def)
qed

theorem close_reports_all_witness:
  "\<exists>es st'. sim_close 0 of_nat 1 (snd (sim_open (Some [''entity_root'' \<mapsto> ''{RACK,1}'', ''name'' \<mapsto> ''sim'']) 7 True sim_start)) =
     Some (SA_OK, es, st') \<and> es = [] \<and> sim_get_handler_by_name ''other'' st' = None"
proof -
  let ?cfg = "[''entity_root'' \<mapsto> ''{RACK,1}'', ''name'' \<mapsto> ''sim'']"
  let ?st = "snd (sim_open (Some ?cfg) 7 True sim_start)"
  let ?h = "new_instance 7 ?cfg ''{RACK,1}''"
  have st: "instances ?st 1 = Some ?h" "sim_handler_states ?st = [] @ 1 # []"
    by (simp_all add: sim_open_def sim_start_def Let_def)
  have r: "sim_reachable ?h" unfolding sim_reachable_def by blast
  have l: "resources (rptcache ?h) = []"
    by (simp add: new_instance_def resources_def ents_def oh_init_rpt_def nt_abs_empty)
  show ?thesis
    using close_reports_all [OF r st(1) _ st(2), of 0 "''other''" of_nat] l by auto
qed

section \<open>Discovery\<close>

text \<open>
  While the records of a resource are found, the event that will tell the daemon of them holds what
  the cache has. \<open>q\<close> is what is in the queue already, \<open>rs\<close> the records that the resource had.
\<close>

definition tells :: "SaHpiRptEntryT \<Rightarrow> SaHpiEventT \<Rightarrow> u32 \<Rightarrow> oh_event list \<Rightarrow> (u32 \<times> SaHpiRdrT) list \<Rightarrow> oh_event \<times> sim_handler \<Rightarrow> bool" where
  "tells r ev hid q rs s \<longleftrightarrow>
     (let (e, h) = s; rid = ResourceId r; t = rptcache h
      in e_resource e = r \<and> e_event e = ev \<and> e_rdrs_to_remove e = [] \<and> sim_hid h = hid \<and> eventq h = q \<and>
         rpt_inv t \<and> valid_rid rid \<and> EntryId r = rid \<and> oh_get_resource_by_id t rid = Some r \<and>
         numbered (e_rdrs e) \<and> records t rid = fold (put_rdr r) (e_rdrs e) rs)"

lemma check_instrument_upd [simp]: "check_instrument_id r (x\<lparr>RecordId := k\<rparr>) = check_instrument_id r x"
  by (cases "RdrType x") (simp_all add: check_instrument_id_def)

lemma put_rdr_again:
  "check_instrument_id r x = 0 \<Longrightarrow> put_rdr r (x\<lparr>RecordId := uid_of x\<rparr>) rs = upsert (uid_of x) (x\<lparr>RecordId := uid_of x\<rparr>) rs"
  by (simp add: put_rdr_def)

lemma inject_rdr_tells:
  assumes t: "tells r ev hid q rs (e, h)" and u: "uid_of x \<noteq> 0"
    and c: "sim_inject_rdr (Some h) (Some e) (Some x) d = (SA_OK, Some e', Some h')"
  shows "tells r ev hid q rs (e', h')"
proof -
  let ?rid = "ResourceId r"
  note k = t [unfolded tells_def Let_def, simplified]
  have rid: "?rid \<noteq> 0" using k by (simp add: valid_rid_def)
  from c obtain y t' where a: "oh_add_rdr (rptcache h) ?rid x d False = (SA_OK, y, t')"
      and h': "h' = h\<lparr>rptcache := t'\<rparr>" and e': "e' = e\<lparr>e_rdrs := e_rdrs e @ [y]\<rparr>"
    using k by (auto simp: sim_inject_rdr_def split: prod.splits if_splits)
  have g: "oh_get_resource_by_id (rptcache h) ?rid = Some r" using k by simp
  have i: "rpt_inv (rptcache h)" using k by simp
  note v = add_rdr_view [OF i rid g u a]
  have ck: "check_instrument_id r x = 0" using v by (auto split: if_splits)
  have y: "y = x\<lparr>RecordId := uid_of x\<rparr>" and t': "rpt_inv t'" "resources t' = resources (rptcache h)"
    "records t' ?rid = upsert (uid_of x) y (records (rptcache h) ?rid)"
    using v ck by auto
  have "oh_get_resource_by_id t' ?rid = Some r"
    using rpt_list.get_id [OF t'(1) rid] rpt_list.get_id [OF i rid] g t'(2) by simp
  then show ?thesis
    using k t' u ck put_rdr_again [OF ck, of "records (rptcache h) ?rid"]
    by (simp add: tells_def Let_def h' e' y numbered_def)
qed

lemma inject_new_tells:
  assumes t: "tells r ev hid q rs (e, h)" and u: "uid_of x \<noteq> 0"
    and a: "tells r ev hid q rs (e, alloc (brk h) (h\<lparr>brk := brk h + 1\<rparr>))"
  shows "tells r ev hid q rs (snd (inject_new alloc x e h))"
proof -
  obtain rc oe inst where c: "sim_inject_rdr (Some (alloc (brk h) (h\<lparr>brk := brk h + 1\<rparr>))) (Some e) (Some x) (brk h) =
      (rc, oe, inst)" by (metis prod.exhaust)
  show ?thesis
  proof (cases "rc = SA_OK \<and> oe \<noteq> None \<and> inst \<noteq> None")
    case False
    then have "snd (inject_new alloc x e h) = (e, h)"
      by (auto simp: inject_new_def c [simplified] split: SaErrorT.split option.split)
    then show ?thesis using t by simp
  next
    case True
    then obtain e' h' where "oe = Some e'" "inst = Some h'" by blast
    then show ?thesis using True c inject_rdr_tells [OF a u, of "brk h" e' h'] by (simp add: inject_new_def)
  qed
qed

lemma tells_alloc:
  "tells r ev hid q rs (e, h) \<Longrightarrow> rptcache h' = rptcache h \<Longrightarrow> sim_hid h' = sim_hid h \<Longrightarrow> eventq h' = eventq h \<Longrightarrow>
    tells r ev hid q rs (e, h')"
  by (simp add: tells_def)

lemma new_uid_nz:
  assumes "RdrType x = ty" and "enumerated ty" and "Num (RdrTypeUnion x) < 0x10000"
  shows "uid_of x \<noteq> 0"
proof -
  have n: "oh_get_instrument_id x < 0x10000"
    using assms by (cases ty) (auto simp: oh_get_instrument_id_def)
  have "rdr_type_num ty < 0x10000" "rdr_type_num ty \<noteq> 0"
    using assms(2) by (cases ty; simp add: enumerated_def)+
  then show ?thesis using rdr_uid_nz [OF n] assms(1) by simp
qed

lemma new_tells:
  "tells r ev hid q rs (e, h) \<Longrightarrow> Num (t_sensor s) < 0x10000 \<Longrightarrow> tells r ev hid q rs (snd (new_sensor s e h))"
  "tells r ev hid q rs (e, h) \<Longrightarrow> Num (t_control c) < 0x10000 \<Longrightarrow> tells r ev hid q rs (snd (new_control c e h))"
  "tells r ev hid q rs (e, h) \<Longrightarrow> Num (t_watchdog w) < 0x10000 \<Longrightarrow> tells r ev hid q rs (snd (new_watchdog w e h))"
  "tells r ev hid q rs (e, h) \<Longrightarrow> Num (t_inventory i) < 0x10000 \<Longrightarrow> tells r ev hid q rs (snd (new_inventory i e h))"
  "tells r ev hid q rs (e, h) \<Longrightarrow> Num (t_dimi d) < 0x10000 \<Longrightarrow> tells r ev hid q rs (snd (new_dimi d e h))"
  "tells r ev hid q rs (e, h) \<Longrightarrow> Num (t_fumi f) < 0x10000 \<Longrightarrow> tells r ev hid q rs (snd (new_fumi f e h))"
  unfolding new_sensor_def new_control_def new_watchdog_def new_inventory_def new_dimi_def new_fumi_def Let_def
  by (rule inject_new_tells, assumption, rule new_uid_nz, auto simp: new_rdr_def enumerated_def put_sensor_def
      put_control_def put_inventory_def elim: tells_alloc)+

lemma new_annunciator_tells:
  assumes t: "tells r ev hid q rs (e, h)" and n: "Num (t_annun a) < 0x10000"
  shows "tells r ev hid q rs (snd (new_annunciator clk0 a e h))"
proof -
  let ?x = "new_rdr SAHPI_ANNUNCIATOR_RDR False (t_annun a) (annunciator_comment a) e"
  have u: "uid_of ?x \<noteq> 0"
    by (rule new_uid_nz [of _ SAHPI_ANNUNCIATOR_RDR]) (use n in \<open>simp_all add: new_rdr_def enumerated_def\<close>)
  show ?thesis
  proof (cases "t_announs a = [] \<or> ann_EntryId (hd (t_announs a)) = 0")
    case True
    obtain rc oe inst where c: "sim_inject_rdr (Some h) (Some e) (Some ?x) 0 = (rc, oe, inst)"
      by (metis prod.exhaust)
    show ?thesis
    proof (cases "rc = SA_OK \<and> oe \<noteq> None \<and> inst \<noteq> None")
      case False
      then have "snd (new_annunciator clk0 a e h) = (e, h)"
        using True by (auto simp: new_annunciator_def Let_def c split: SaErrorT.split option.split)
      then show ?thesis using t by simp
    next
      case ok: True
      then obtain e' h' where "oe = Some e'" "inst = Some h'" by blast
      then show ?thesis
        using True ok inject_rdr_tells [OF t u, of 0 e' h'] c by (simp add: new_annunciator_def Let_def)
    qed
  next
    case False
    show ?thesis
      unfolding new_annunciator_def Let_def if_not_P [OF False]
      by (rule inject_new_tells [OF t u], rule tells_alloc [OF t]) (simp_all add: put_annunciator_def)
  qed
qed

text \<open>The first event of a resource.\<close>

lemma inject_resource_tells:
  assumes i: "rpt_inv (rptcache h)"
    and c: "sim_inject_resource uio stack t0 t1 (Some h) (Some tmpl) 0 True us = (SA_OK, Some e, Some h', us')"
  shows "tells (e_resource e) (e_event e) (sim_hid h) (eventq h) (records (rptcache h) (ResourceId (e_resource e))) (e, h')
    \<and> e = added_event t1 (e_resource e)"
proof -
  obtain r us1 where s: "setup_rpte uio stack h (t_rpt tmpl) us = (r, us1)" by force
  define r1 where "r1 = (case snd (sim_create_resourcetag (t_comment tmpl)
      (EntityLocation (ResourceEntity r ! 0))) of None \<Rightarrow> r | Some tag \<Rightarrow> r\<lparr>ResourceTag := tag\<rparr>)"
  define h1 where "h1 = put_resource_info (brk h) (new_resource_info r1) (h\<lparr>brk := brk h + 1\<rparr>)"
  have h1: "rptcache h1 = rptcache h" "sim_hid h1 = sim_hid h" "eventq h1 = eventq h"
    by (simp_all add: h1_def put_resource_info_def)
  obtain rc r2 t where a: "oh_add_resource t0 (rptcache h1) r1 (brk h) False = (rc, r2, t)"
    by (metis prod.exhaust)
  have res: "rc = SA_OK" "h' = h1\<lparr>rptcache := t\<rparr>" "e = added_event t1 r2"
    using c s a unfolding sim_inject_resource_def
    by (simp_all add: Let_def r1_def [symmetric] h1_def [simplified, symmetric] cong: if_cong split: if_splits)
  have nz: "ResourceId r1 \<noteq> 0" "ResourceId r1 \<noteq> SAHPI_UNSPECIFIED_RESOURCE_ID"
    using a res(1) by (auto simp: oh_add_resource_def split: if_splits)
  have i1: "rpt_inv (rptcache h1)" using i h1 by simp
  note e = add_resource_ents [OF i1 nz a] and v = add_resource_view [OF i1 nz a]
  have r2: "ResourceId r2 = ResourceId r1" "EntryId r2 = ResourceId r1" using e(2) by simp_all
  have er: "e_resource e = r2" using res(3) by (simp add: added_event_def)
  have "oh_get_resource_by_id t (ResourceId r1) = Some r2"
    using rpt_list.get_id [OF e(3) nz(1)] v(1) by (simp add: map_of_upsert)
  moreover have "records t (ResourceId r1) = records (rptcache h) (ResourceId r1)" using v(2) [OF nz(1)] h1 by simp
  ultimately show ?thesis
    using e(3) nz r2 res h1 er
    by (simp add: tells_def Let_def valid_rid_def added_event_def numbered_def zero_event_def)
qed

lemma discover_part_tells:
  assumes i: "rpt_inv (rptcache h)" and p: "part_ok part"
    and c: "sim_discover_part uio stack clk0 part (h, us) = (h', us')"
    and q: "eventq h' = eventq h @ [e]"
  shows "\<exists>e0. tells (e_resource e) (e_event e) (sim_hid h) (eventq h) (records (rptcache h) (ResourceId (e_resource e)))
      (e0, h'\<lparr>eventq := eventq h\<rparr>) \<and>
    e_event e = e_event (added_event (clk0 1) (e_resource e)) \<and> e = e0\<lparr>e_hid := sim_hid h\<rparr>"
proof -
  obtain rc oe inst us1 where
    j: "sim_inject_resource uio stack (clk0 0) (clk0 1) (Some h) (Some (part_rpt part)) 0 True us = (rc, oe, inst, us1)"
    by (metis prod.exhaust)
  have "rc = SA_OK \<and> oe \<noteq> None \<and> inst \<noteq> None"
  proof (rule ccontr)
    assume no: "\<not> (rc = SA_OK \<and> oe \<noteq> None \<and> inst \<noteq> None)"
    then have "h' = the inst" using c j by (auto simp: sim_discover_part_def split: SaErrorT.splits option.splits)
    moreover have "inst = Some h \<or> (\<exists>p x. inst = Some (put_resource_info p x (h\<lparr>brk := brk h + 1\<rparr>)))"
      using j no by (auto simp: sim_inject_resource_def Let_def split: prod.splits if_splits)
    ultimately have "eventq h' = eventq h" by (auto simp: put_resource_info_def)
    then show False using q by simp
  qed
  then obtain e1 h1 where ok: "rc = SA_OK" "oe = Some e1" "inst = Some h1" by blast
  let ?s = "sim_discover_fumis (part_fumis part)
                (sim_discover_dimis (part_dimis part)
                (sim_discover_inventory (part_inventory part)
                (sim_discover_watchdogs (part_watchdogs part)
                (sim_discover_annunciators (\<lambda>i. clk0 (i + 2)) (part_annunciators part)
                (sim_discover_controls (part_controls part)
                (sim_discover_sensors (part_sensors part) (e1, h1)))))))"
  have loops: "tells r ev hid q0 rs0 ?s" if "tells r ev hid q0 rs0 (e1, h1)" for r ev hid q0 rs0
    using p that unfolding discover_defs part_ok_def
    by (intro discover_loop_keeps [where P = "tells r ev hid q0 rs0"] new_tells new_annunciator_tells) auto
  obtain e0 h0 where s: "?s = (e0, h0)" by force
  have h': "h' = push (e0\<lparr>e_hid := sim_hid h0\<rparr>) h0"
    using c j ok s by (simp add: sim_discover_part_def sim_inject_event_def)
  note t1 = inject_resource_tells [OF i j [unfolded ok]]
  note t0 = loops [OF conjunct1 [OF t1], unfolded s]
  have hid: "sim_hid h0 = sim_hid h" "e_resource e0 = e_resource e1" "e_event e0 = e_event e1" "eventq h0 = eventq h"
    using t0 by (simp_all add: tells_def Let_def)
  then have e: "e = e0\<lparr>e_hid := sim_hid h\<rparr>" using q h' by (simp add: push_def)
  have "h'\<lparr>eventq := eventq h\<rparr> = h0" using h' hid(4) by (simp add: push_def)
  moreover have "e_resource e = e_resource e1" "e_event e = e_event e1" using e hid by simp_all
  ultimately show ?thesis using t0 t1 e by metis
qed

text \<open>C9: What the simulator finds, the daemon gets to know. When discovery of a resource that is no field
  replaceable unit has put its event into the queue, and the event thread processes it in a domain
  whose table had the same records for the resource as the cache of the instance (none, when the
  resource is new to both), then the table of the domain has the same resource and the same
  records, in the same order, as the cache.\<close>

theorem discovered_resource_known:
  assumes "sim_reachable h" and "part_ok part" and "sim_hid h \<noteq> 0"
    and "sim_discover_part uio stack clk0 part (h, us) = (h', us')"
    and "eventq h' = eventq h @ [e]" and "rid = ResourceId (e_resource e)"
    and "lacks (e_resource e) SAHPI_CAPABILITY_FRU" and "\<not> lacks (e_resource e) SAHPI_CAPABILITY_RESOURCE"
    and "sess_inv st" and "live st a d" and "rpt_inv (d_rpt d)"
    and "records (d_rpt d) rid = records (rptcache h) rid"
    and "process_event io (d_id d) e st = (rc, e', st')"
  shows "oh_get_resource_by_id (rpt_of st' a) rid = Some (e_resource e) \<and>
    oh_get_resource_by_id (rptcache h') rid = Some (e_resource e) \<and>
    records (rpt_of st' a) rid = records (rptcache h') rid"
proof -
  have i: "rpt_inv (rptcache h)" using sim_okD(1) [OF sim_reachable_ok [OF assms(1)]] .
  from discover_part_tells [OF i assms(2,4,5)] obtain e0 where
    t: "tells (e_resource e) (e_event e) (sim_hid h) (eventq h) (records (rptcache h) rid) (e0, h'\<lparr>eventq := eventq h\<rparr>)"
      "e_event e = e_event (added_event (clk0 1) (e_resource e))" "e = e0\<lparr>e_hid := sim_hid h\<rparr>"
    unfolding assms(6) by blast
  have rs: "e_rdrs e = e_rdrs e0" "e_rdrs_to_remove e = []" "e_hid e \<noteq> 0"
    using t(1,3) assms(3) by (auto simp: tells_def Let_def)
  have k: "valid_rid rid" "EntryId (e_resource e) = rid" "numbered (e_rdrs e)"
    "oh_get_resource_by_id (rptcache h') rid = Some (e_resource e)"
    "records (rptcache h') rid = fold (put_rdr (e_resource e)) (e_rdrs e) (records (rptcache h) rid)"
    using t(1) rs(1) by (simp_all add: tells_def Let_def assms(6))
  have acc: "accepted e SAHPI_RESE_RESOURCE_ADDED"
    using assms(7,8) rs(3) t(2) by (simp add: accepted_def added_event_def lacks_def)
  have o: "SAHPI_RESE_RESOURCE_ADDED \<noteq> SAHPI_RESE_OTHER n" for n by simp
  have nr: "numbered (e_rdrs_to_remove e)" by (simp add: rs(2) numbered_def)
  note v = resource_event_effect [OF assms(9-11) acc o assms(6) [symmetric] k(1,3) nr assms(13) refl refl]
  have same: "resource_after SAHPI_RESE_RESOURCE_ADDED x (e_resource e) = e_resource e" for x
    using k(2) assms(6) by (cases "e_resource e") (simp add: resource_after_def failed_after_def Let_def)
  have r: "rpt_inv (rpt_of st' a)" "resources (rpt_of st' a) = upsert rid (e_resource e) (resources (d_rpt d))"
    "records (rpt_of st' a) rid = fold (put_rdr (e_resource e)) (e_rdrs e) (records (d_rpt d) rid)"
    using v same by (simp_all add: rs(2))
  have z: "rid \<noteq> 0" using k(1) by (simp add: valid_rid_def)
  have "oh_get_resource_by_id (rpt_of st' a) rid = Some (e_resource e)"
    using rpt_list.get_id [OF r(1) z] r(2) by (simp add: map_of_upsert)
  then show ?thesis using k(4,5) r(3) assms(12) by simp
qed

theorem discovered_resource_known_witness:
  "records (rpt_of (snd (snd (process_event demo_io 0 demo_found_event demo_sub))) 0) 1 =
     records (rptcache demo_sim) 1 \<and>
   oh_get_resource_by_id (rpt_of (snd (snd (process_event demo_io 0 demo_found_event demo_sub))) 0) 1 \<noteq> None"
proof -
  let ?d = "demo_domain 0"
  obtain rc e' st' where c: "process_event demo_io (d_id ?d) demo_found_event demo_sub = (rc, e', st')"
    by (metis prod.exhaust)
  have r: "sim_reachable demo_instance" unfolding sim_reachable_def demo_instance_def by blast
  have p: "part_ok demo_part" by (simp add: part_ok_def demo_part_def demo_inventory_def)
  have q: "eventq demo_instance = []" "sim_hid demo_instance \<noteq> 0"
    by (simp_all add: demo_instance_def new_instance_def)
  have i: "rpt_inv (d_rpt ?d)" by (simp add: demo_domain_def init_rpt_inv)
  have rs: "records (d_rpt ?d) 1 = records (rptcache demo_instance) 1"
    by (simp add: demo_domain_def demo_instance_def new_instance_def)
  have f: "ResourceId (e_resource demo_found_event) = 1" "lacks (e_resource demo_found_event) SAHPI_CAPABILITY_FRU"
    "\<not> lacks (e_resource demo_found_event) SAHPI_CAPABILITY_RESOURCE"
    using demo_sim_facts by (simp_all add: demo_facts_def demo_found_event_def)
  have eq: "eventq (push demo_found_event (snd demo_recorded)) = eventq demo_instance @ [demo_found_event]"
    using demo_sim_facts q by (simp add: demo_facts_def push_def)
  have "rptcache (push demo_found_event (snd demo_recorded)) = rptcache demo_sim"
    by (simp add: demo_sim_eq push_def)
  then show ?thesis
    using discovered_resource_known [OF r p q(2) demo_part_eq eq f(1) [symmetric] f(2,3) demo_sub_inv
        demo_sub_domain i rs c] c by simp
qed

end
