(* ===== verification/Spec2Isabelle.thy ===== *)
theory Spec2Isabelle
  imports EpPattern UidUtils RptProps EventLog Annunc Conf AlarmProps Domain EventThread HpiCallsProps
    EpCompile EpTextProps StructProps HpiUserEvent SimService
begin

text \<open>
  A verification library of OpenHPI, the daemon and library that give applications the hardware
  platform interface of the SA Forum. The program is C; this library models its infrastructure, the part
  that is the same for every hardware plugin.

  \<^bold>\<open>The program.\<close> A plugin discovers resources and reports events. The daemon keeps, per domain, a resource
  presence table with the records of each resource, an event log and an alarm table. The event thread takes
  the events of the plugins and changes the tables, the log and the alarms, and puts copies into the queues
  of the sessions that subscribed. Clients call the HPI functions; parameters and results travel as bytes.
  Utilities shared by all: entity paths and their patterns, the map from entity paths to resource ids,
  announcement lists, and the names of the enumerations.

  \<^bold>\<open>Theories and sources.\<close>
  \<^item> \<open>Prelude\<close>, \<open>CText\<close>: machine integers, lists and maps; the string functions of the C library.
  \<^item> \<open>HpiTypes\<close>: the structures of \<^verbatim>\<open>include/SaHpi.h\<close> that the modelled code reads.
  \<^item> \<open>EntityPath\<close>, \<open>EpPattern\<close>, \<open>EpText\<close>, \<open>EpTextProps\<close>, \<open>EpCompile\<close>: \<^verbatim>\<open>utils/epath_utils.c\<close>. A path is an
    array of 16 entities; \<open>ep_abs\<close> is the list before the root. \<open>pat_match\<close> is the meaning of a pattern against
    which the matching loop is sound. \<open>EpText\<close> reads and writes paths and reads patterns.
  \<^item> \<open>UidUtils\<close>: \<^verbatim>\<open>utils/uid_utils.c\<close>: two hash tables over the same records, a counter and a map file.
  \<^item> \<open>NodeTable\<close>, \<open>Rpt\<close>, \<open>RptSpec\<close>, \<open>RptProps\<close>: \<^verbatim>\<open>utils/rpt_utils.c\<close>. \<open>NodeTable\<close> is the list with a hash
    table beside it, as a locale of node operations with addresses; \<open>Rpt\<close> the operations; \<open>RptSpec\<close> the table
    as an association list that each operation refines; \<open>RptProps\<close> the properties over that view.
  \<^item> \<open>EventLog\<close>: \<^verbatim>\<open>utils/el_utils.c\<close>. \<open>Annunc\<close>: \<^verbatim>\<open>utils/announcement_utils.c\<close>.
  \<^item> \<open>EnumUtils\<close>, \<open>EnumProps\<close>: \<^verbatim>\<open>utils/sahpi_enum_utils.c\<close> and its two companions.
  \<^item> \<open>Conf\<close>: the global parameters of \<^verbatim>\<open>openhpid/conf.c\<close>.
  \<^item> \<open>DomainData\<close>, \<open>Domain\<close>: \<^verbatim>\<open>include/oh_domain.h\<close>, \<^verbatim>\<open>openhpid/domain.c\<close>: domains with reference counts, and
    the interleaving of the threads that get, hold and destroy them.
  \<^item> \<open>Alarm\<close>, \<open>AlarmProps\<close>: \<^verbatim>\<open>openhpid/alarm.c\<close>.
  \<^item> \<open>Session\<close>, \<open>SessionProps\<close>: \<^verbatim>\<open>openhpid/session.c\<close>: sessions, queues, blocking reads.
  \<^item> \<open>EventProc\<close>, \<open>EventProps\<close>, \<open>EventTable\<close>, \<open>HandlerIds\<close>, \<open>EventThread\<close>: \<^verbatim>\<open>openhpid/event.c\<close>.
  \<^item> \<open>Marshal\<close>, \<open>MarshalProps\<close>: \<^verbatim>\<open>marshal/marshal.c\<close>; \<open>MarshalTypes\<close>, \<open>MarshalLayouts\<close>:
    \<^verbatim>\<open>marshal/marshal_hpi_types.c\<close>; \<open>HpiCalls\<close>, \<open>HpiCallsProps\<close>: \<^verbatim>\<open>marshal/marshal_hpi.c\<close>.
  \<^item> \<open>StructUtils\<close>, \<open>StructProps\<close>: the checks of data from clients, \<^verbatim>\<open>utils/sahpi_struct_utils.c\<close>.
  \<^item> \<open>Plugin\<close>: \<^verbatim>\<open>openhpid/plugin.c\<close>: plugins, their instances (the handlers), their reference counts;
    \<open>PluginProps\<close> their safety and discovery. \<open>RefCount\<close> is the protocol of reference counted objects between
    threads, from lock to lock, with its invariant, and the contract of the functions it calls, a locale that
    domains and handlers both meet. It is safe while no two threads destroy the same object at once.
  \<^item> \<open>HpiApi\<close>: the macros of \<^verbatim>\<open>include/sahpimacros.h\<close> and the state \<open>hpi\<close> that an HPI function changes.
    \<open>HpiGeneral\<close>, \<open>HpiEventLog\<close>, \<open>HpiEvents\<close>, \<open>HpiSensor\<close>, \<open>HpiInventory\<close>, \<open>HpiFumi\<close>, \<open>HpiHotSwap\<close>: the
    functions of \<^verbatim>\<open>openhpid/safhpi.c\<close>, each under its name, and \<^verbatim>\<open>openhpid/hotswap.c\<close>.
    \<open>HpiContract\<close> is what all of them keep to: balanced references, and calls of a plugin only for a resource
    of the session's domain with the capability. \<open>HpiGuard\<close> shows that each does. \<open>HpiProps\<close> has runs of
    functions, walks and the alarm functions, \<open>HpiBehaviour\<close> hot swap and the handlers of a domain,
    \<open>HpiUserEvent\<close> the way of an event from one client to another.

  \<^item> \<open>SimHandler\<close>, \<open>SimSensor\<close>, \<open>SimInventory\<close>, \<open>SimInject\<close>, \<open>SimInstances\<close>: the simulator, the plugin that keeps
    its hardware in memory (\<^verbatim>\<open>plugins/simulator\<close>). Private data are maps from addresses, one per kind of
    structure, and a cast is a lookup in one of them; the tables of hardware are arguments of discovery.
    \<open>SimProps\<close> has the invariant that makes the casts right, in every reachable instance; \<open>SimBehaviour\<close> puts an
    instance behind the HPI functions; \<open>SimService\<close> has inventory data, closing, and what the event thread makes of
    discovery.

  \<^bold>\<open>What the lemmas show.\<close> Invariants with a lemma per operation (tables, alarms, sessions, reference counts,
  handler ids); refinement of the detailed operations to lists and maps; the effect of an event on the
  tables, the log and every queue; round trips through files, names and bytes; termination of walks and of
  the event thread; and how errors are reported.

  \<^bold>\<open>Conventions.\<close> A pointer to a structure is its value, \<open>option\<close> where the code tests it for NULL in a way
  that matters; arrays are lists, GLib lists and hash tables are lists and association lists, with node
  addresses where the code compares or keeps them. A function is stated as one thread runs it, and a
  run of several calls is a sequence of such steps. What other threads do inside a call is considered where
  the steps are explicit: getting, releasing and destroying domains and handlers are split at every lock
  and every access to the count (\<open>bracket\<close>, with \<open>dom_step\<close> and \<open>handler_step\<close>), and the waiting reader of
  \<open>Session\<close> takes what happens during its wait.
  Readings of the clock, the outcomes of file accesses and the environment are arguments. What the code frees
  of private data is recorded (\<open>freed\<close>, \<open>hid_heap\<close>). GLib ends the process when memory is exhausted, so that
  branches for a failed allocation do not run. Bytes of memory, in \<open>Marshal\<close>, have the layout of x86-64;
  the code does not know the lengths of its buffers.

  \<^bold>\<open>Bounds and fuel.\<close> Loops are structural or have a measure. The waiting reader takes a list of what
  happens while it waits and the properties say which lists let it return. Integers are words of their width.

  \<^bold>\<open>Not modelled.\<close> The plugins but the simulator, and the SNMP, transport and SSL helpers drive hardware and sockets, and are
  reached in the model through arguments that stand for the functions of a plugin; the shell and the clients
  print. Of the daemon: \<^verbatim>\<open>init.c\<close>, \<^verbatim>\<open>threaded.c\<close> and \<^verbatim>\<open>openhpid.cpp\<close> start threads and the server, the creation
  of domains from the configuration file, and the scanner of that file, which is GLib's. Of the utilities:
  the printing of structures.
\<close>

end
